(* ===== verification/Py_Base.thy ===== *)
theory Py_Base
  imports Main "HOL-Library.AList"
begin

text \<open>
  The part of the Python language that every component uses: exceptions as values
  of a sum type, ASCII strings with \<open>strip\<close>, \<open>upper\<close>, \<open>lower\<close> and \<open>replace\<close>,
  decimal printing of integers, the conditional-append idiom of the validators and
  the \<open>_dedupe\<close> helper that the packages under src/ each declare.
  Strings are \<^typ>\<open>string\<close> with one \<^typ>\<open>char\<close> per ASCII code point.
\<close>

named_theorems py_simps \<open>rewrite rules of the Python helpers\<close>

section \<open>Exceptions and the result monad\<close>

datatype pyexc =
    TypeError
  | ValueError string
  | OverflowError
  | ZeroDivisionError
  | AttributeError
  | KeyError string
  | PermissionError string
  | RuntimeError string

type_synonym 'a result = "pyexc + 'a"

definition bind_result :: "'e + 'a \<Rightarrow> ('a \<Rightarrow> 'e + 'b) \<Rightarrow> 'e + 'b" where
  "bind_result m f = (case m of Inl e \<Rightarrow> Inl e | Inr x \<Rightarrow> f x)"

lemma bind_result_simps [simp]:
  "bind_result (Inl e) f = Inl e"
  "bind_result (Inr x) f = f x"
  by (simp_all add: bind_result_def)

lemma bind_result_eq_Inr [simp]:
  "bind_result m f = Inr y \<longleftrightarrow> (\<exists>x. m = Inr x \<and> f x = Inr y)"
  by (cases m) auto

lemma bind_result_eq_Inl:
  "bind_result m f = Inl e \<longleftrightarrow> m = Inl e \<or> (\<exists>x. m = Inr x \<and> f x = Inl e)"
  by (cases m) auto

lemma bind_result_assoc:
  "bind_result (bind_result m f) g = bind_result m (\<lambda>x. bind_result (f x) g)"
  by (cases m) auto

text \<open>A list comprehension or \<open>for\<close> loop whose body may raise.\<close>

fun map_result :: "('a \<Rightarrow> 'e + 'b) \<Rightarrow> 'a list \<Rightarrow> 'e + 'b list" where
  "map_result f [] = Inr []"
| "map_result f (x # xs) = bind_result (f x) (\<lambda>y. bind_result (map_result f xs) (\<lambda>ys. Inr (y # ys)))"

lemma map_result_length: "map_result f xs = Inr ys \<Longrightarrow> length ys = length xs"
  by (induction xs arbitrary: ys) auto

lemma map_result_total: "(\<And>x. x \<in> set xs \<Longrightarrow> \<exists>y. f x = Inr y) \<Longrightarrow> \<exists>ys. map_result f xs = Inr ys"
  by (induction xs) fastforce+

lemma map_result_list_all2: "map_result f xs = Inr ys \<Longrightarrow> list_all2 (\<lambda>x y. f x = Inr y) xs ys"
  by (induction xs arbitrary: ys) auto

lemma map_result_set: "map_result f xs = Inr ys \<Longrightarrow> y \<in> set ys \<longleftrightarrow> (\<exists>x \<in> set xs. f x = Inr y)"
  by (induction xs arbitrary: ys) auto

lemma map_result_Inr [simp]: "map_result (\<lambda>x. Inr (f x)) xs = Inr (map f xs)"
  by (induction xs) auto

text \<open>A loop that threads a state through steps that may raise.\<close>

fun fold_result :: "('e \<Rightarrow> 's \<Rightarrow> 'x + 's) \<Rightarrow> 'e list \<Rightarrow> 's \<Rightarrow> 'x + 's" where
  "fold_result f [] s = Inr s"
| "fold_result f (x # xs) s = bind_result (f x s) (fold_result f xs)"

lemma fold_result_append:
  "fold_result f (xs @ ys) s = bind_result (fold_result f xs s) (fold_result f ys)"
  by (induction xs arbitrary: s) (auto simp: bind_result_def split: sum.split)

section \<open>Characters and strings\<close>

definition is_space :: "char \<Rightarrow> bool" where
  "is_space c \<longleftrightarrow> (let n = (of_char c :: nat) in (9 \<le> n \<and> n \<le> 13) \<or> (28 \<le> n \<and> n \<le> 32))"

definition upper_char :: "char \<Rightarrow> char" where
  "upper_char c = (let n = (of_char c :: nat) in if 97 \<le> n \<and> n \<le> 122 then char_of (n - 32) else c)"

definition lower_char :: "char \<Rightarrow> char" where
  "lower_char c = (let n = (of_char c :: nat) in if 65 \<le> n \<and> n \<le> 90 then char_of (n + 32) else c)"

definition strip :: "string \<Rightarrow> string" where
  "strip s = rev (dropWhile is_space (rev (dropWhile is_space s)))"

definition upper :: "string \<Rightarrow> string" where
  "upper s = map upper_char s"

definition lower :: "string \<Rightarrow> string" where
  "lower s = map lower_char s"

definition replace_char :: "char \<Rightarrow> char \<Rightarrow> string \<Rightarrow> string" where
  "replace_char a b s = map (\<lambda>c. if c = a then b else c) s"

definition starts_with :: "string \<Rightarrow> string \<Rightarrow> bool" where
  "starts_with s p \<longleftrightarrow> take (length p) s = p"

definition blank :: "string \<Rightarrow> bool" where
  "blank s \<longleftrightarrow> list_all is_space s"

lemma blank_simps [simp]:
  "blank []" "blank (c # s) \<longleftrightarrow> is_space c \<and> blank s"
  by (simp_all add: blank_def)

text \<open>Decides \<open>blank\<close> on literals.\<close>

lemma is_space_Char [simp]:
  "is_space (Char b0 b1 b2 b3 b4 b5 b6 b7) \<longleftrightarrow>
     \<not> b7 \<and> \<not> b6 \<and>
     (if b5 then \<not> b4 \<and> \<not> b3 \<and> \<not> b2 \<and> \<not> b1 \<and> \<not> b0
      else if b4 then b3 \<and> b2
      else b3 \<and> (b2 \<or> b1 \<or> b0) \<and> \<not> (b2 \<and> b1))"
  unfolding is_space_def Let_def
  by (cases b7; cases b6; cases b5; cases b4; cases b3; cases b2; cases b1; cases b0; simp)

lemma dropWhile_rev_dropWhile: "dropWhile P (rev (dropWhile P s)) = [] \<longleftrightarrow> dropWhile P s = []"
proof (cases "dropWhile P s")
  case (Cons c cs)
  then have "\<not> P c" by (metis hd_dropWhile list.distinct(1) list.sel(1))
  with Cons show ?thesis by auto
next
  case Nil
  then show ?thesis by (simp only: rev.simps dropWhile.simps)
qed

lemma strip_eq_Nil [simp]: "strip s = [] \<longleftrightarrow> blank s"
  unfolding strip_def rev_is_Nil_conv dropWhile_rev_dropWhile
  by (simp add: blank_def list_all_iff)

lemma dropWhile_idem: "dropWhile P (dropWhile P xs) = dropWhile P xs"
  by (induction xs) auto

lemma dropWhile_id: "(xs \<noteq> [] \<Longrightarrow> \<not> P (hd xs)) \<Longrightarrow> dropWhile P xs = xs"
  by (cases xs) auto

lemma rev_dropWhile_rev_ends:
  assumes "dropWhile P (rev t) \<noteq> []" and "\<not> P (hd t)"
  shows "\<not> P (hd (rev (dropWhile P (rev t))))" "\<not> P (last (rev (dropWhile P (rev t))))"
proof -
  let ?u = "dropWhile P (rev t)"
  from assms(1) have "\<not> P (hd ?u)" by (rule hd_dropWhile)
  with assms(1) show "\<not> P (last (rev ?u))" by (metis last_rev)
  have "rev (takeWhile P (rev t) @ ?u) = rev (rev t)"
    by (simp only: takeWhile_dropWhile_id)
  then have "t = rev ?u @ rev (takeWhile P (rev t))" by (simp only: rev_append rev_rev_ident)
  then have "hd t = hd (rev ?u)"
    using assms(1) by (metis hd_append2 rev_is_Nil_conv)
  with assms(2) show "\<not> P (hd (rev ?u))" by simp
qed

lemma strip_ends:
  assumes "\<not> blank s"
  shows "\<not> is_space (hd (strip s))" "\<not> is_space (last (strip s))"
proof -
  have ne: "dropWhile is_space s \<noteq> []" using assms by (simp add: blank_def list_all_iff)
  then have hd: "\<not> is_space (hd (dropWhile is_space s))" by (rule hd_dropWhile)
  have "dropWhile is_space (rev (dropWhile is_space s)) \<noteq> []"
    using assms strip_eq_Nil [of s] unfolding strip_def by blast
  from rev_dropWhile_rev_ends [OF this hd]
  show "\<not> is_space (hd (strip s))" "\<not> is_space (last (strip s))"
    unfolding strip_def by blast+
qed

lemma strip_fixed: "s = [] \<or> \<not> is_space (hd s) \<and> \<not> is_space (last s) \<Longrightarrow> strip s = s"
  by (auto simp: strip_def dropWhile_id hd_rev)

lemma strip_idem [simp]: "strip (strip s) = strip s"
  by (rule strip_fixed) (use strip_ends [of s] in auto)

lemma blank_strip [simp]: "blank (strip s) \<longleftrightarrow> blank s"
  by (metis strip_eq_Nil strip_idem)

lemma length_upper [simp]: "length (upper s) = length s"
  by (simp add: upper_def)

lemma upper_eq_Nil [simp]: "upper s = [] \<longleftrightarrow> s = []"
  by (simp add: upper_def)

lemma blank_append [simp]: "blank (s @ t) \<longleftrightarrow> blank s \<and> blank t"
  by (simp add: blank_def)

lemma upper_char_idem [simp]: "upper_char (upper_char c) = upper_char c"
proof (cases "97 \<le> (of_char c :: nat) \<and> (of_char c :: nat) \<le> 122")
  case True
  then have "of_char (upper_char c) = (of_char c - 32 :: nat)"
    by (auto simp: upper_char_def intro!: mod_less)
  with True show ?thesis by (auto simp: upper_char_def [of "upper_char c"] Let_def)
next
  case False
  then have "upper_char c = c" by (auto simp: upper_char_def Let_def)
  then show ?thesis by simp
qed

lemma upper_idem [simp]: "upper (upper s) = upper s"
  by (simp add: upper_def)

text \<open>Stripping keeps a prefix whose ends are not spaces.\<close>

lemma dropWhile_keeps_suffix: "t \<noteq> [] \<Longrightarrow> \<not> P (hd t) \<Longrightarrow> \<exists>u. dropWhile P (s @ t) = u @ t"
  by (induction s) (auto simp: dropWhile_id)

lemma strip_keeps_prefix:
  assumes "p \<noteq> []" "\<not> is_space (hd p)" "\<not> is_space (last p)"
  shows "\<exists>s'. strip (p @ s) = p @ s'"
proof -
  have "dropWhile is_space (p @ s) = p @ s" using assms by (cases p) auto
  moreover obtain u where "dropWhile is_space (rev s @ rev p) = u @ rev p"
    using dropWhile_keeps_suffix [of "rev p" is_space "rev s"] assms by (auto simp: hd_rev)
  ultimately have "strip (p @ s) = rev (u @ rev p)" unfolding strip_def by simp
  then show ?thesis by simp
qed

text \<open>\<open>str(n)\<close> for an integer.\<close>

definition digit_char :: "int \<Rightarrow> char" where
  "digit_char d = char_of (48 + d)"

function nonneg_to_string :: "int \<Rightarrow> string" where
  "nonneg_to_string n =
     (if n < 10 then [digit_char n] else nonneg_to_string (n div 10) @ [digit_char (n mod 10)])"
  by pat_completeness auto
termination
  by (relation "measure nat") auto

declare nonneg_to_string.simps [simp del]

definition int_to_string :: "int \<Rightarrow> string" where
  "int_to_string i = (if i < 0 then CHR ''-'' # nonneg_to_string (- i) else nonneg_to_string i)"

lemma nonneg_to_string_nonempty [simp]: "nonneg_to_string n \<noteq> []"
  by (subst nonneg_to_string.simps) simp

lemma int_to_string_nonempty [simp]: "int_to_string i \<noteq> []"
  by (simp add: int_to_string_def)

text \<open>The digits can be read back, and none of them is a colon.\<close>

definition digits_value :: "string \<Rightarrow> int" where
  "digits_value s = fold (\<lambda>c v. v * 10 + (of_char c - 48)) s 0"

lemma of_digit_char: "0 \<le> d \<Longrightarrow> d < 10 \<Longrightarrow> (of_char (digit_char d) :: int) = 48 + d"
  by (simp add: digit_char_def)

lemma digits_value_nonneg: "0 \<le> n \<Longrightarrow> digits_value (nonneg_to_string n) = n"
proof (induction n rule: nonneg_to_string.induct)
  case (1 n)
  show ?case
  proof (cases "n < 10")
    case True
    with 1(2) show ?thesis by (subst nonneg_to_string.simps) (simp add: digits_value_def of_digit_char)
  next
    case False
    with 1 have "digits_value (nonneg_to_string (n div 10)) = n div 10" by simp
    with False 1(2) show ?thesis by (subst nonneg_to_string.simps) (simp add: digits_value_def of_digit_char)
  qed
qed

lemma digit_char_not_colon: "0 \<le> d \<Longrightarrow> d < 10 \<Longrightarrow> digit_char d \<noteq> CHR '':''"
proof
  assume "0 \<le> d" "d < 10" "digit_char d = CHR '':''"
  then have "(of_char (CHR '':'') :: int) = 48 + d" using of_digit_char by metis
  with \<open>d < 10\<close> show False by simp
qed

lemma nonneg_to_string_no_colon: "0 \<le> n \<Longrightarrow> CHR '':'' \<notin> set (nonneg_to_string n)"
proof (induction n rule: nonneg_to_string.induct)
  case (1 n)
  show ?case
  proof (cases "n < 10")
    case True
    have "CHR '':'' \<noteq> digit_char n" by (rule not_sym, rule digit_char_not_colon [OF 1(2) True])
    with True show ?thesis by (subst nonneg_to_string.simps) simp
  next
    case False
    with 1 have "CHR '':'' \<notin> set (nonneg_to_string (n div 10))" by simp
    moreover have "CHR '':'' \<noteq> digit_char (n mod 10)" by (rule not_sym, rule digit_char_not_colon) simp_all
    ultimately show ?thesis using False by (subst nonneg_to_string.simps) simp
  qed
qed

lemma int_to_string_inj: "int_to_string m = int_to_string n \<Longrightarrow> 0 \<le> m \<Longrightarrow> 0 \<le> n \<Longrightarrow> m = n"
proof -
  assume a: "int_to_string m = int_to_string n" "0 \<le> m" "0 \<le> n"
  then have "digits_value (nonneg_to_string m) = digits_value (nonneg_to_string n)" by (simp add: int_to_string_def)
  then show ?thesis unfolding digits_value_nonneg [OF a(2)] digits_value_nonneg [OF a(3)] .
qed

section \<open>The conditional append and the \<open>_dedupe\<close> helper\<close>

text \<open>\<open>if b: out.append(x)\<close> contributes \<open>add_if b x\<close> to the list under construction.\<close>

definition add_if :: "bool \<Rightarrow> 'a \<Rightarrow> 'a list" where
  "add_if b x = (if b then [x] else [])"

lemma add_if_True [simp]: "add_if True x = [x]"
  by (simp add: add_if_def)

lemma add_if_False [simp]: "add_if False x = []"
  by (simp add: add_if_def)

lemma add_if_eq_Nil [simp]: "add_if b x = [] \<longleftrightarrow> \<not> b"
  by (simp add: add_if_def)

lemma set_add_if [simp]: "set (add_if b x) = (if b then {x} else {})"
  by (cases b) simp_all


text \<open>
  \<open>_dedupe\<close>: every item is stripped, empty results and repetitions are dropped, the
  first occurrence keeps its place.
\<close>

fun dedupe_from :: "string list \<Rightarrow> string list \<Rightarrow> string list" where
  "dedupe_from seen [] = []"
| "dedupe_from seen (x # xs) =
     (let text = strip x
      in if text \<noteq> [] \<and> text \<notin> set seen then text # dedupe_from (text # seen) xs
         else dedupe_from seen xs)"

definition dedupe :: "string list \<Rightarrow> string list" where
  "dedupe xs = dedupe_from [] xs"

lemma set_dedupe_from:
  "set (dedupe_from seen xs) = {t. t \<noteq> [] \<and> t \<in> strip ` set xs} - set seen"
proof (induction xs arbitrary: seen)
  case (Cons x xs)
  show ?case
    by (cases "strip x = [] \<or> strip x \<in> set seen") (auto simp: Let_def Cons.IH simp del: strip_eq_Nil)
qed simp

lemma set_dedupe: "set (dedupe xs) = {t. t \<noteq> [] \<and> t \<in> strip ` set xs}"
  by (simp add: dedupe_def set_dedupe_from)

lemma distinct_dedupe_from: "distinct (dedupe_from seen xs)"
  by (induction seen xs rule: dedupe_from.induct) (auto simp: Let_def set_dedupe_from)

lemma distinct_dedupe [simp]: "distinct (dedupe xs)"
  by (simp add: dedupe_def distinct_dedupe_from)

lemma dedupe_eq_Nil [simp]: "dedupe xs = [] \<longleftrightarrow> list_all blank xs"
proof -
  have "dedupe xs = [] \<longleftrightarrow> set (dedupe xs) = {}" by simp
  also have "\<dots> \<longleftrightarrow> (\<forall>x \<in> set xs. strip x = [])" unfolding set_dedupe by blast
  finally show ?thesis by (simp add: list_all_iff)
qed

lemma list_all_add_if [simp]: "list_all P (add_if b x) \<longleftrightarrow> (b \<longrightarrow> P x)"
  by (simp add: add_if_def)

lemma in_dedupe_nonblank: "t \<in> set (dedupe xs) \<Longrightarrow> \<not> blank t"
  by (auto simp: set_dedupe)

lemma dedupe_from_strip_fixed:
  assumes "distinct xs" and "\<forall>x \<in> set xs. strip x = x \<and> x \<noteq> [] \<and> x \<notin> set seen"
  shows "dedupe_from seen xs = xs"
  using assms by (induction seen xs rule: dedupe_from.induct) (auto simp: Let_def)

text \<open>Running \<open>_dedupe\<close> a second time changes nothing.\<close>

lemma dedupe_idem [simp]: "dedupe (dedupe xs) = dedupe xs"
  unfolding dedupe_def [of "dedupe xs"]
  by (rule dedupe_from_strip_fixed) (auto simp: set_dedupe)

section \<open>Lists with distinct keys\<close>

lemma filter_distinct_key:
  "distinct (map f xs) \<Longrightarrow> x \<in> set xs \<Longrightarrow> filter (\<lambda>y. f y = f x) xs = [x]"
proof (induction xs)
  case (Cons y ys)
  show ?case
  proof (cases "y = x")
    case True
    with Cons.prems have "f x \<notin> f ` set ys" by simp
    then have "filter (\<lambda>y. f y = f x) ys = []" unfolding filter_empty_conv by (metis imageI)
    with True show ?thesis by simp
  next
    case False
    with Cons.prems have "x \<in> set ys" "f y \<noteq> f x" by (auto simp: image_iff)
    with Cons show ?thesis by simp
  qed
qed simp

end
