(* ===== verification/Py_Float.thy ===== *)
theory Py_Float
  imports Complex_Main "HOL-Library.Log_Nat" Py_Base
begin

text \<open>
  Python's \<open>float\<close>: IEEE 754 binary64 with round-half-to-even, as exact rationals and
  an explicit rounding function, so that overflow, the infinities and NaN are values of
  the model. Negative zero is identified with zero: the modelled code compares,
  adds and prints floats but never takes the sign of a zero.
  Also here: \<open>round(x, n)\<close>, \<open>int(x)\<close>, \<open>float(n)\<close>, parsing of the numeric literals
  that \<open>int(s)\<close> and \<open>float(s)\<close> accept, \<open>repr\<close> and the \<open>.nf\<close> format.
\<close>

section \<open>Rounding\<close>

datatype pyfloat = Fin rat | PosInf | NegInf | NaN

definition round_half_even :: "rat \<Rightarrow> int" where
  "round_half_even x =
     (let f = \<lfloor>x\<rfloor>; d = x - of_int f
      in if d < 1 / 2 then f else if d > 1 / 2 then f + 1 else if even f then f else f + 1)"

definition pow2 :: "int \<Rightarrow> rat" where
  "pow2 e = (if 0 \<le> e then of_int (2 ^ nat e) else 1 / of_int (2 ^ nat (- e)))"

text \<open>The exponent \<open>e\<close> with \<open>2^e \<le> |x| < 2^(e+1)\<close>, from the bit lengths of the fraction.\<close>

definition exponent_of :: "rat \<Rightarrow> int" where
  "exponent_of x =
     (case quotient_of \<bar>x\<bar> of (p, q) \<Rightarrow>
        let e = bitlen p - bitlen q in if pow2 e \<le> \<bar>x\<bar> then e else e - 1)"

definition round64 :: "rat \<Rightarrow> pyfloat" where
  "round64 x =
     (if x = 0 then Fin 0
      else let s = max (exponent_of x - 52) (- 1074);
               m = round_half_even (x / pow2 s)
           in if 971 < s \<or> s = 971 \<and> 2 ^ 53 \<le> \<bar>m\<bar>
              then (if 0 < x then PosInf else NegInf)
              else Fin (of_int m * pow2 s))"

text \<open>
  The significand has at most 53 bits and the unit in the last place is \<open>2^s\<close> with
  \<open>s \<ge> -1074\<close> (subnormals below). The rounded value reaches \<open>2^1024\<close>, which is overflow,
  exactly if \<open>s > 971\<close>, or \<open>s = 971\<close> and the significand was rounded up to \<open>2^53\<close>.
\<close>

lemma pow2_pos [simp]: "0 < pow2 e"
  by (simp add: pow2_def)

lemma round_half_even_of_int [simp]: "round_half_even (of_int n) = n"
  by (simp add: round_half_even_def)

lemma round_half_even_bounds: "\<lfloor>x\<rfloor> \<le> round_half_even x" "round_half_even x \<le> \<lfloor>x\<rfloor> + 1"
  by (simp_all add: round_half_even_def Let_def)

lemma round_half_even_nonneg: "0 \<le> x \<Longrightarrow> 0 \<le> round_half_even x"
  using round_half_even_bounds(1) [of x] by (meson order_trans zero_le_floor)

lemma round_half_even_error: "\<bar>of_int (round_half_even x) - x\<bar> \<le> 1 / 2"
proof -
  have "of_int \<lfloor>x\<rfloor> \<le> x" "x < of_int \<lfloor>x\<rfloor> + 1" by linarith+
  then show ?thesis by (auto simp: round_half_even_def Let_def abs_le_iff)
qed

lemma round_half_even_nonpos: "x \<le> 0 \<Longrightarrow> round_half_even x \<le> 0"
  using round_half_even_error [of x] by linarith

lemma round64_zero [simp]: "round64 0 = Fin 0"
  by (simp add: round64_def)

section \<open>Order\<close>

fun float_lt :: "pyfloat \<Rightarrow> pyfloat \<Rightarrow> bool" where
  "float_lt NaN _ = False"
| "float_lt _ NaN = False"
| "float_lt (Fin a) (Fin b) = (a < b)"
| "float_lt NegInf y = (y \<noteq> NegInf)"
| "float_lt (Fin a) y = (y = PosInf)"
| "float_lt PosInf _ = False"

definition float_eq :: "pyfloat \<Rightarrow> pyfloat \<Rightarrow> bool" where
  "float_eq x y \<longleftrightarrow> x \<noteq> NaN \<and> x = y"

definition float_le :: "pyfloat \<Rightarrow> pyfloat \<Rightarrow> bool" where
  "float_le x y \<longleftrightarrow> float_lt x y \<or> float_eq x y"

text \<open>\<open>max(a, b)\<close> and \<open>min(a, b)\<close> keep the first argument unless the second is strictly better.\<close>

definition float_max :: "pyfloat \<Rightarrow> pyfloat \<Rightarrow> pyfloat" where
  "float_max a b = (if float_lt a b then b else a)"

definition float_min :: "pyfloat \<Rightarrow> pyfloat \<Rightarrow> pyfloat" where
  "float_min a b = (if float_lt b a then b else a)"

lemma float_le_Fin [simp]: "float_le (Fin a) (Fin b) \<longleftrightarrow> a \<le> b"
  by (auto simp: float_le_def float_eq_def)

lemma float_eq_Fin [simp]: "float_eq (Fin a) (Fin b) \<longleftrightarrow> a = b"
  by (simp add: float_eq_def)

lemma float_lt_irrefl [simp]: "\<not> float_lt x x"
  by (cases x) auto

lemma float_lt_trans: "float_lt x y \<Longrightarrow> float_lt y z \<Longrightarrow> float_lt x z"
  by (cases x; cases y; cases z) auto

lemma float_lt_linear: "x \<noteq> NaN \<Longrightarrow> y \<noteq> NaN \<Longrightarrow> float_lt x y \<or> x = y \<or> float_lt y x"
  by (cases x; cases y) auto

text \<open>
  A total order that extends \<open><\<close> and puts NaN last: what sorting by a float column uses.
\<close>

instantiation pyfloat :: linorder
begin

definition less_pyfloat :: "pyfloat \<Rightarrow> pyfloat \<Rightarrow> bool" where
  "less_pyfloat x y \<longleftrightarrow> float_lt x y \<or> (x \<noteq> NaN \<and> y = NaN)"

definition less_eq_pyfloat :: "pyfloat \<Rightarrow> pyfloat \<Rightarrow> bool" where
  "less_eq_pyfloat x y \<longleftrightarrow> x = y \<or> x < (y :: pyfloat)"

instance
proof
  fix x y z :: pyfloat
  show "(x < y) = (x \<le> y \<and> \<not> y \<le> x)"
    by (cases x; cases y) (auto simp: less_eq_pyfloat_def less_pyfloat_def)
  show "x \<le> x" by (simp add: less_eq_pyfloat_def)
  show "x \<le> y \<Longrightarrow> y \<le> z \<Longrightarrow> x \<le> z"
    by (cases x; cases y; cases z) (auto simp: less_eq_pyfloat_def less_pyfloat_def)
  show "x \<le> y \<Longrightarrow> y \<le> x \<Longrightarrow> x = y"
    by (cases x; cases y) (auto simp: less_eq_pyfloat_def less_pyfloat_def)
  show "x \<le> y \<or> y \<le> x"
    by (cases x; cases y) (auto simp: less_eq_pyfloat_def less_pyfloat_def)
qed

end

definition float_nonneg :: "pyfloat \<Rightarrow> bool" where
  "float_nonneg x \<longleftrightarrow> float_le (Fin 0) x"

lemma float_nonneg_simps [simp]:
  "float_nonneg (Fin a) \<longleftrightarrow> 0 \<le> a" "float_nonneg PosInf" "\<not> float_nonneg NegInf" "\<not> float_nonneg NaN"
  by (auto simp: float_nonneg_def float_le_def float_eq_def)

lemma round64_nonneg:
  assumes "0 \<le> x" shows "float_nonneg (round64 x)"
proof -
  have "0 \<le> round_half_even (x / pow2 s)" for s
    using assms by (intro round_half_even_nonneg) (simp add: less_imp_le)
  with assms show ?thesis by (auto simp: round64_def Let_def less_imp_le)
qed

lemma round64_not_NaN [simp]: "round64 x \<noteq> NaN"
  by (simp add: round64_def Let_def)

section \<open>Arithmetic\<close>

fun float_neg :: "pyfloat \<Rightarrow> pyfloat" where
  "float_neg (Fin a) = Fin (- a)"
| "float_neg PosInf = NegInf"
| "float_neg NegInf = PosInf"
| "float_neg NaN = NaN"

fun float_abs :: "pyfloat \<Rightarrow> pyfloat" where
  "float_abs (Fin a) = Fin \<bar>a\<bar>"
| "float_abs NaN = NaN"
| "float_abs _ = PosInf"

fun float_add :: "pyfloat \<Rightarrow> pyfloat \<Rightarrow> pyfloat" where
  "float_add (Fin a) (Fin b) = round64 (a + b)"
| "float_add NaN _ = NaN"
| "float_add _ NaN = NaN"
| "float_add PosInf y = (if y = NegInf then NaN else PosInf)"
| "float_add NegInf y = (if y = PosInf then NaN else NegInf)"
| "float_add (Fin _) y = y"

definition float_sub :: "pyfloat \<Rightarrow> pyfloat \<Rightarrow> pyfloat" where
  "float_sub x y = float_add x (float_neg y)"

text \<open>The sign of a float, for products and quotients that involve an infinity.\<close>

fun float_sgn :: "pyfloat \<Rightarrow> rat" where
  "float_sgn (Fin a) = sgn a"
| "float_sgn PosInf = 1"
| "float_sgn NegInf = - 1"
| "float_sgn NaN = 0"

definition signed_inf :: "rat \<Rightarrow> pyfloat" where
  "signed_inf s = (if s > 0 then PosInf else if s < 0 then NegInf else NaN)"

fun float_mul :: "pyfloat \<Rightarrow> pyfloat \<Rightarrow> pyfloat" where
  "float_mul (Fin a) (Fin b) = round64 (a * b)"
| "float_mul x y = (if x = NaN \<or> y = NaN then NaN else signed_inf (float_sgn x * float_sgn y))"

definition float_div :: "pyfloat \<Rightarrow> pyfloat \<Rightarrow> pyfloat result" where
  "float_div x y =
     (if y = Fin 0 then Inl ZeroDivisionError
      else case (x, y) of
        (Fin a, Fin b) \<Rightarrow> Inr (round64 (a / b))
      | (NaN, _) \<Rightarrow> Inr NaN
      | (_, NaN) \<Rightarrow> Inr NaN
      | (Fin _, _) \<Rightarrow> Inr (Fin 0)
      | (_, Fin b) \<Rightarrow> Inr (signed_inf (float_sgn x * sgn b))
      | _ \<Rightarrow> Inr NaN)"

text \<open>\<open>round(x, n)\<close>: correct decimal rounding of the exact value, then the nearest float.\<close>

fun py_round :: "pyfloat \<Rightarrow> nat \<Rightarrow> pyfloat" where
  "py_round (Fin a) n = round64 (of_int (round_half_even (a * 10 ^ n)) / 10 ^ n)"
| "py_round x n = x"

lemma py_round_nonneg: "float_nonneg x \<Longrightarrow> float_nonneg (py_round x n)"
  by (cases x) (auto intro!: round64_nonneg divide_nonneg_pos simp: round_half_even_nonneg)

lemma float_mul_nonneg:
  assumes "float_nonneg x" "float_nonneg y" "x \<noteq> PosInf" "y \<noteq> PosInf"
  shows "float_nonneg (float_mul x y)"
  using assms by (cases x; cases y) (auto intro: round64_nonneg)

lemma float_sub_nonneg:
  assumes "float_le y x" "x \<noteq> PosInf" "y \<noteq> NegInf" shows "float_nonneg (float_sub x y)"
  using assms by (cases x; cases y) (auto simp: float_sub_def float_le_def float_eq_def intro: round64_nonneg)

section \<open>Conversions between integers and floats\<close>

definition float_of_int :: "int \<Rightarrow> pyfloat result" where
  "float_of_int i =
     (case round64 (of_int i) of Fin y \<Rightarrow> Inr (Fin y) | _ \<Rightarrow> Inl OverflowError)"

fun int_of_float :: "pyfloat \<Rightarrow> int result" where
  "int_of_float (Fin a) = Inr (if 0 \<le> a then \<lfloor>a\<rfloor> else \<lceil>a\<rceil>)"
| "int_of_float NaN = Inl (ValueError ''cannot convert float NaN to integer'')"
| "int_of_float _ = Inl OverflowError"

lemma float_of_int_0 [simp]: "float_of_int 0 = Inr (Fin 0)"
  by (simp add: float_of_int_def)

lemma float_of_intE:
  assumes "float_of_int i = Inr f"
  obtains a where "round64 (of_int i) = Fin a" and "f = Fin a"
  using assms by (cases "round64 (of_int i)") (auto simp: float_of_int_def)

lemma float_of_int_nonneg: "float_of_int i = Inr f \<Longrightarrow> 0 \<le> i \<Longrightarrow> float_nonneg f"
  using round64_nonneg [of "of_int i"] by (auto elim!: float_of_intE)

text \<open>Integers of at most 53 bits are represented exactly.\<close>

lemma bitlen_le: "0 \<le> n \<Longrightarrow> n < 2 ^ k \<Longrightarrow> bitlen n \<le> int k"
  by (simp add: bitlen_le_iff_power)

lemma bitlen_one: "bitlen 1 = 1"
  by code_simp

lemma round64_of_int:
  assumes "\<bar>n\<bar> < 2 ^ 53" shows "round64 (of_int n) = Fin (of_int n)"
proof (cases "n = 0")
  case False
  have e: "exponent_of (of_int n) \<le> 52"
    using bitlen_le [OF abs_ge_zero assms] bitlen_one
    by (simp add: exponent_of_def Let_def flip: of_int_abs)
  define s where "s = max (exponent_of (of_int n) - 52) (- 1074)"
  have s: "s \<le> 0" using e by (simp add: s_def)
  then have "of_int n / pow2 s = (of_int (n * 2 ^ nat (- s)) :: rat)"
    by (cases "s = 0") (simp_all add: pow2_def)
  then have "of_int (round_half_even (of_int n / pow2 s)) * pow2 s = (of_int n :: rat)"
    using s by (cases "s = 0") (simp_all add: pow2_def del: of_int_mult, simp)
  then show ?thesis
    using False s by (simp add: round64_def Let_def flip: s_def)
qed simp

lemma float_of_int_exact: "\<bar>n\<bar> < 2 ^ 53 \<Longrightarrow> float_of_int n = Inr (Fin (of_int n))"
  by (simp add: float_of_int_def round64_of_int)

section \<open>Numeric literals: what \<open>int(s)\<close> and \<open>float(s)\<close> accept\<close>

definition is_digit :: "char \<Rightarrow> bool" where
  "is_digit c \<longleftrightarrow> (let n = (of_char c :: nat) in 48 \<le> n \<and> n \<le> 57)"

definition digit_value :: "char \<Rightarrow> int" where
  "digit_value c = of_char c - 48"

text \<open>Digits with single underscores between them; the flag says that the last character was a digit.\<close>

fun parse_digits :: "bool \<Rightarrow> int \<Rightarrow> string \<Rightarrow> int option" where
  "parse_digits prev acc [] = (if prev then Some acc else None)"
| "parse_digits prev acc (c # cs) =
     (if is_digit c then parse_digits True (10 * acc + digit_value c) cs
      else if c = CHR ''_'' \<and> prev then parse_digits False acc cs
      else None)"

definition split_sign :: "string \<Rightarrow> bool \<times> string" where
  "split_sign s =
     (case s of
        c # cs \<Rightarrow> if c = CHR ''-'' then (True, cs) else if c = CHR ''+'' then (False, cs) else (False, s)
      | [] \<Rightarrow> (False, s))"

text \<open>The interpreter refuses to convert more than 4300 decimal digits.\<close>

definition parse_int :: "string \<Rightarrow> int option" where
  "parse_int s =
     (case split_sign (strip s) of (neg, body) \<Rightarrow>
        if 4300 < length (filter is_digit body) then None
        else map_option (\<lambda>n. if neg then - n else n) (parse_digits False 0 body))"

definition split_at_char :: "(char \<Rightarrow> bool) \<Rightarrow> string \<Rightarrow> string \<times> string option" where
  "split_at_char p s =
     (case dropWhile (\<lambda>c. \<not> p c) s of [] \<Rightarrow> (s, None) | _ # r \<Rightarrow> (takeWhile (\<lambda>c. \<not> p c) s, Some r))"

definition parse_exponent :: "string option \<Rightarrow> int option" where
  "parse_exponent e =
     (case e of
        None \<Rightarrow> Some 0
      | Some t \<Rightarrow>
          (case split_sign t of (neg, body) \<Rightarrow>
             map_option (\<lambda>n. if neg then - n else n) (parse_digits False 0 body)))"

text \<open>Integer part and fraction of a mantissa; at least one of them is present.\<close>

definition parse_mantissa :: "string \<Rightarrow> rat option" where
  "parse_mantissa s =
     (case split_at_char (\<lambda>c. c = CHR ''.'') s of (ip, fp) \<Rightarrow>
        let frac = (case fp of None \<Rightarrow> [] | Some f \<Rightarrow> f);
            part = (\<lambda>t. if t = [] then Some 0 else parse_digits False 0 t)
        in if ip = [] \<and> frac = [] then None
           else case (part ip, part frac) of
             (Some i, Some f) \<Rightarrow> Some (of_int i + of_int f / 10 ^ length (filter is_digit frac))
           | _ \<Rightarrow> None)"

definition pow10 :: "int \<Rightarrow> rat" where
  "pow10 e = (if 0 \<le> e then of_int (10 ^ nat e) else 1 / of_int (10 ^ nat (- e)))"

definition parse_float :: "string \<Rightarrow> pyfloat option" where
  "parse_float s =
     (case split_sign (strip s) of (neg, body) \<Rightarrow>
        let sign = (\<lambda>x. if neg then float_neg x else x)
        in if lower body \<in> {''inf'', ''infinity''} then Some (sign PosInf)
           else if lower body = ''nan'' then Some NaN
           else case split_at_char (\<lambda>c. c = CHR ''e'' \<or> c = CHR ''E'') body of (m, e) \<Rightarrow>
             (case (parse_mantissa m, parse_exponent e) of
                (Some x, Some k) \<Rightarrow> Some (sign (round64 (x * pow10 k)))
              | _ \<Rightarrow> None))"

section \<open>Printing floats\<close>

text \<open>
  \<open>repr\<close>: the shortest decimal that reads back as the same float, the one nearest to it
  where several are shortest. \<open>decimal_exponent x\<close> is the \<open>k\<close> with \<open>10^(k-1) \<le> x < 10^k\<close>,
  looked for from the binary exponent (\<open>log10 2\<close> is about 0.30103).
\<close>

definition decimal_exponent :: "rat \<Rightarrow> int" where
  "decimal_exponent x =
     (let k0 = (exponent_of x * 30103) div 100000
      in case find (\<lambda>k. x < pow10 k) [k0 .. k0 + 3] of Some k \<Rightarrow> k | None \<Rightarrow> k0 + 3)"

definition shortest_at :: "rat \<Rightarrow> int \<Rightarrow> nat \<Rightarrow> int option" where
  "shortest_at x k n =
     (let y = x * pow10 (int n - k);
          ok = (\<lambda>c. round64 (of_int c * pow10 (k - int n)) = Fin x);
          cands = filter ok ([round_half_even y, \<lfloor>y\<rfloor>, \<lfloor>y\<rfloor> + 1])
      in case cands of [] \<Rightarrow> None | c # _ \<Rightarrow> Some c)"

fun first_some :: "('a \<Rightarrow> 'b option) \<Rightarrow> 'a list \<Rightarrow> 'b option" where
  "first_some f [] = None"
| "first_some f (x # xs) = (case f x of Some y \<Rightarrow> Some y | None \<Rightarrow> first_some f xs)"

definition shortest_decimal :: "rat \<Rightarrow> string \<times> int" where
  "shortest_decimal x =
     (let k = decimal_exponent x
      in case first_some (\<lambda>n. map_option (\<lambda>c. (n, c)) (shortest_at x k n)) [1 ..< 18] of
           Some (n, c) \<Rightarrow>
             (let ds = int_to_string c
              in (rev (dropWhile (\<lambda>d. d = CHR ''0'') (rev ds)), k + int (length ds) - int n))
         | None \<Rightarrow> ([], k))"

definition zeros :: "int \<Rightarrow> string" where
  "zeros n = replicate (nat n) (CHR ''0'')"

definition layout_decimal :: "string \<Rightarrow> int \<Rightarrow> string" where
  "layout_decimal ds k =
     (let n = int (length ds)
      in if - 4 < k \<and> k \<le> 16 then
           (if k \<le> 0 then ''0.'' @ zeros (- k) @ ds
            else if k < n then take (nat k) ds @ ''.'' @ drop (nat k) ds
            else ds @ zeros (k - n) @ ''.0'')
         else
           (let e = k - 1; es = int_to_string \<bar>e\<bar>
            in take 1 ds @ (if 1 < length ds then ''.'' @ drop 1 ds else []) @ ''e'' @
               (if e < 0 then ''-'' else ''+'') @ (if length es < 2 then ''0'' @ es else es)))"

fun float_repr :: "pyfloat \<Rightarrow> string" where
  "float_repr (Fin a) =
     (if a = 0 then ''0.0''
      else (if a < 0 then ''-'' else []) @ (case shortest_decimal \<bar>a\<bar> of (ds, k) \<Rightarrow> layout_decimal ds k))"
| "float_repr PosInf = ''inf''"
| "float_repr NegInf = ''-inf''"
| "float_repr NaN = ''nan''"

lemma layout_decimal_nonempty [simp]: "layout_decimal ds k \<noteq> []"
  by (simp add: layout_decimal_def Let_def)

lemma float_repr_nonempty [simp]: "float_repr x \<noteq> []"
  by (cases x) (simp_all split: prod.split)

text \<open>The format specification \<open>.nf\<close>.\<close>

fun float_fixed :: "nat \<Rightarrow> pyfloat \<Rightarrow> string" where
  "float_fixed n (Fin a) =
     (let m = \<bar>round_half_even (a * 10 ^ n)\<bar>; fs = int_to_string (m mod 10 ^ n)
      in (if a < 0 then ''-'' else []) @ int_to_string (m div 10 ^ n) @
         (if n = 0 then [] else ''.'' @ zeros (int n - int (length fs)) @ fs))"
| "float_fixed n PosInf = ''inf''"
| "float_fixed n NegInf = ''-inf''"
| "float_fixed n NaN = ''nan''"

end
