(* ===== verification/Py_Sha256.thy ===== *)
theory Py_Sha256
  imports "HOL-Library.Word" Py_Base
begin

unbundle bit_operations_syntax

text \<open>
  \<open>hashlib.sha256(text.encode('utf-8')).hexdigest()\<close> on ASCII text, as FIPS 180-4 has it:
  the identifiers of the paper-trading records are prefixes of such digests.
\<close>

type_synonym u32 = "32 word"

definition sha_k :: "u32 list" where
  "sha_k =
    [1116352408, 1899447441, 3049323471, 3921009573, 961987163, 1508970993, 2453635748, 2870763221,
     3624381080, 310598401, 607225278, 1426881987, 1925078388, 2162078206, 2614888103, 3248222580,
     3835390401, 4022224774, 264347078, 604807628, 770255983, 1249150122, 1555081692, 1996064986,
     2554220882, 2821834349, 2952996808, 3210313671, 3336571891, 3584528711, 113926993, 338241895,
     666307205, 773529912, 1294757372, 1396182291, 1695183700, 1986661051, 2177026350, 2456956037,
     2730485921, 2820302411, 3259730800, 3345764771, 3516065817, 3600352804, 4094571909, 275423344,
     430227734, 506948616, 659060556, 883997877, 958139571, 1322822218, 1537002063, 1747873779,
     1955562222, 2024104815, 2227730452, 2361852424, 2428436474, 2756734187, 3204031479, 3329325298]"

definition sha_init :: "u32 list" where
  "sha_init = [1779033703, 3144134277, 1013904242, 2773480762, 1359893119, 2600822924, 528734635, 1541459225]"

definition big_endian :: "nat \<Rightarrow> int \<Rightarrow> int list" where
  "big_endian n v = map (\<lambda>i. v div 256 ^ (n - 1 - i) mod 256) [0 ..< n]"

definition sha_pad :: "int list \<Rightarrow> int list" where
  "sha_pad bs =
     (let l = length bs; z = (119 - l mod 64) mod 64
      in bs @ [128] @ replicate z 0 @ big_endian 8 (8 * int l))"

definition word_at :: "int list \<Rightarrow> nat \<Rightarrow> u32" where
  "word_at bs i =
     word_of_int (((bs ! (4 * i) * 256 + bs ! (4 * i + 1)) * 256 + bs ! (4 * i + 2)) * 256 + bs ! (4 * i + 3))"

definition small_sigma0 :: "u32 \<Rightarrow> u32" where
  "small_sigma0 x = word_rotr 7 x XOR word_rotr 18 x XOR drop_bit 3 x"

definition small_sigma1 :: "u32 \<Rightarrow> u32" where
  "small_sigma1 x = word_rotr 17 x XOR word_rotr 19 x XOR drop_bit 10 x"

definition big_sigma0 :: "u32 \<Rightarrow> u32" where
  "big_sigma0 x = word_rotr 2 x XOR word_rotr 13 x XOR word_rotr 22 x"

definition big_sigma1 :: "u32 \<Rightarrow> u32" where
  "big_sigma1 x = word_rotr 6 x XOR word_rotr 11 x XOR word_rotr 25 x"

text \<open>The message schedule, newest word first.\<close>

fun sha_schedule :: "nat \<Rightarrow> u32 list \<Rightarrow> u32 list" where
  "sha_schedule 0 ws = ws"
| "sha_schedule (Suc n) ws =
     sha_schedule n ((small_sigma1 (ws ! 1) + ws ! 6 + small_sigma0 (ws ! 14) + ws ! 15) # ws)"

fun sha_round :: "u32 \<times> u32 \<Rightarrow> u32 list \<Rightarrow> u32 list" where
  "sha_round (k, w) [a, b, c, d, e, f, g, h] =
     (let t1 = h + big_sigma1 e + ((e AND f) XOR (NOT e AND g)) + k + w;
          t2 = big_sigma0 a + ((a AND b) XOR (a AND c) XOR (b AND c))
      in [t1 + t2, a, b, c, d + t1, e, f, g])"
| "sha_round _ s = s"

definition sha_block :: "u32 list \<Rightarrow> int list \<Rightarrow> u32 list" where
  "sha_block hs bs =
     (let ws = rev (sha_schedule 48 (rev (map (word_at bs) [0 ..< 16])))
      in map2 (+) hs (fold sha_round (zip sha_k ws) hs))"

definition sha256_words :: "int list \<Rightarrow> u32 list" where
  "sha256_words bs =
     (let p = sha_pad bs
      in fold (\<lambda>i hs. sha_block hs (take 64 (drop (64 * i) p))) [0 ..< length p div 64] sha_init)"

definition hex_digit :: "int \<Rightarrow> char" where
  "hex_digit d = (if d < 10 then char_of (48 + d) else char_of (87 + d))"

definition hex_word :: "u32 \<Rightarrow> string" where
  "hex_word w = concat (map (\<lambda>b. [hex_digit (b div 16), hex_digit (b mod 16)]) (big_endian 4 (uint w)))"

definition sha256_hex :: "string \<Rightarrow> string" where
  "sha256_hex s = concat (map hex_word (sha256_words (map of_char s)))"

text \<open>\<open>sha256(seed).hexdigest()[:16]\<close>\<close>

definition digest16 :: "string \<Rightarrow> string" where
  "digest16 seed = take 16 (sha256_hex seed)"

lemma length_sha_round: "length (sha_round kw s) = length s"
  by (induction kw s rule: sha_round.induct) (auto simp: Let_def)

lemma length_fold_sha_round: "length (fold sha_round kws s) = length s"
  by (induction kws arbitrary: s) (auto simp: length_sha_round)

lemma length_sha_block: "length (sha_block hs bs) = length hs"
  by (simp add: sha_block_def Let_def length_fold_sha_round)

lemma length_sha256_words: "length (sha256_words bs) = 8"
proof -
  have "length (fold (\<lambda>i hs. sha_block hs (f i)) is hs) = length hs" for f and "is" :: "nat list" and hs
    by (induction "is" arbitrary: hs) (auto simp: length_sha_block)
  then show ?thesis by (simp add: sha256_words_def Let_def sha_init_def)
qed

lemma length_hex_word: "length (hex_word w) = 8"
  by (simp add: hex_word_def big_endian_def length_concat comp_def upt_rec)

text \<open>Every digest prefix has exactly sixteen characters.\<close>

lemma length_digest16 [simp]: "length (digest16 seed) = 16"
proof -
  have "length (concat (map hex_word ws)) = 8 * length ws" for ws
    by (induction ws) (auto simp: length_hex_word)
  then show ?thesis by (simp add: digest16_def sha256_hex_def length_sha256_words)
qed

text \<open>A digest holds no space, so stripping an identifier that ends in one changes nothing.\<close>

lemma hex_digit_not_space:
  assumes "0 \<le> d" "d < 16" shows "\<not> is_space (hex_digit d)"
proof -
  have "d = 0 \<or> d = 1 \<or> d = 2 \<or> d = 3 \<or> d = 4 \<or> d = 5 \<or> d = 6 \<or> d = 7 \<or> d = 8 \<or> d = 9 \<or> d = 10 \<or> d = 11 \<or>
      d = 12 \<or> d = 13 \<or> d = 14 \<or> d = 15" using assms by presburger
  then show ?thesis by (elim disjE; hypsubst) code_simp+
qed

lemma digest16_not_space: "c \<in> set (digest16 seed) \<Longrightarrow> \<not> is_space c"
proof -
  assume "c \<in> set (digest16 seed)"
  then have "c \<in> set (sha256_hex seed)" unfolding digest16_def by (rule in_set_takeD)
  then obtain b where "c = hex_digit (b mod 256 div 16) \<or> c = hex_digit (b mod 256 mod 16)"
    by (auto simp: sha256_hex_def hex_word_def big_endian_def)
  moreover have "\<not> is_space (hex_digit (b mod 256 div 16))" "\<not> is_space (hex_digit (b mod 256 mod 16))"
    by (rule hex_digit_not_space; simp add: div_less_iff_less_mult pos_imp_zdiv_nonneg_iff)+
  ultimately show ?thesis by blast
qed

lemma strip_digest_id:
  assumes "p \<noteq> []" "\<not> is_space (hd p)" shows "strip (p @ digest16 seed) = p @ digest16 seed"
proof (rule strip_fixed)
  have "digest16 seed \<noteq> []" using length_digest16 [of seed] by (metis list.size(3) zero_neq_numeral)
  then have "last (p @ digest16 seed) \<in> set (digest16 seed)" by simp
  with assms show "p @ digest16 seed = [] \<or> \<not> is_space (hd (p @ digest16 seed)) \<and> \<not> is_space (last (p @ digest16 seed))"
    using digest16_not_space by simp
qed

end
