(* ===== verification/Py_Value.thy ===== *)
theory Py_Value
  imports Py_Float Py_Sha256
begin

text \<open>
  The JSON-like values that the packages pass to one another as \<open>dict[str, Any]\<close>, with
  the operations the code applies to them: \<open>get\<close>, item assignment, truth value, \<open>str\<close>,
  \<open>int\<close>, \<open>float\<close> and the \<open>_int_or_none\<close> / \<open>_float_or_none\<close> helpers that the modules
  repeat. A dict is an association list in insertion order; assignment to a present key
  keeps its position, as in CPython.
\<close>

section \<open>Values\<close>

datatype pyval =
    PNone
  | PBool bool
  | PInt int
  | PFloat pyfloat
  | PStr string
  | PList "pyval list"
  | PDict "(string \<times> pyval) list"

type_synonym pydict = "(string \<times> pyval) list"

definition dget :: "pydict \<Rightarrow> string \<Rightarrow> pyval" where
  "dget d k = (case map_of d k of Some v \<Rightarrow> v | None \<Rightarrow> PNone)"

definition dget_or :: "pydict \<Rightarrow> string \<Rightarrow> pyval \<Rightarrow> pyval" where
  "dget_or d k v0 = (case map_of d k of Some v \<Rightarrow> v | None \<Rightarrow> v0)"

definition has_key :: "pydict \<Rightarrow> string \<Rightarrow> bool" where
  "has_key d k \<longleftrightarrow> k \<in> set (map fst d)"

definition dset :: "string \<Rightarrow> pyval \<Rightarrow> pydict \<Rightarrow> pydict" where
  "dset k v d = AList.update k v d"

text \<open>\<open>d.update(e)\<close>\<close>

definition dupdate :: "pydict \<Rightarrow> pydict \<Rightarrow> pydict" where
  "dupdate d e = fold (\<lambda>(k, v). dset k v) e d"

fun truthy :: "pyval \<Rightarrow> bool" where
  "truthy PNone = False"
| "truthy (PBool b) = b"
| "truthy (PInt i) = (i \<noteq> 0)"
| "truthy (PFloat f) = (f \<noteq> Fin 0)"
| "truthy (PStr s) = (s \<noteq> [])"
| "truthy (PList xs) = (xs \<noteq> [])"
| "truthy (PDict d) = (d \<noteq> [])"

definition py_or :: "pyval \<Rightarrow> pyval \<Rightarrow> pyval" where
  "py_or a b = (if truthy a then a else b)"

fun is_dict :: "pyval \<Rightarrow> bool" where
  "is_dict (PDict _) = True"
| "is_dict _ = False"

fun is_list :: "pyval \<Rightarrow> bool" where
  "is_list (PList _) = True"
| "is_list _ = False"

text \<open>\<open>x if isinstance(x, dict) else {}\<close>\<close>

fun as_dict :: "pyval \<Rightarrow> pydict" where
  "as_dict (PDict d) = d"
| "as_dict _ = []"

fun as_list :: "pyval \<Rightarrow> pyval list" where
  "as_list (PList xs) = xs"
| "as_list _ = []"

text \<open>\<open>value in (None, "")\<close>\<close>

definition is_blank :: "pyval \<Rightarrow> bool" where
  "is_blank v \<longleftrightarrow> v = PNone \<or> v = PStr []"

definition opt_str :: "string option \<Rightarrow> pyval" where
  "opt_str s = (case s of None \<Rightarrow> PNone | Some t \<Rightarrow> PStr t)"

definition opt_int :: "int option \<Rightarrow> pyval" where
  "opt_int i = (case i of None \<Rightarrow> PNone | Some n \<Rightarrow> PInt n)"

definition opt_float :: "pyfloat option \<Rightarrow> pyval" where
  "opt_float f = (case f of None \<Rightarrow> PNone | Some x \<Rightarrow> PFloat x)"

definition opt_dict :: "pydict option \<Rightarrow> pyval" where
  "opt_dict d = (case d of None \<Rightarrow> PNone | Some e \<Rightarrow> PDict e)"

definition str_list :: "string list \<Rightarrow> pyval" where
  "str_list xs = PList (map PStr xs)"

text \<open>
  \<open>dict(v)\<close>: a copy of a dict, or the dict of a sequence of pairs. The keys of a
  \<^typ>\<open>pydict\<close> are strings, so a pair with another key has no value here and counts
  as a \<open>TypeError\<close>; the callers only pass JSON objects.
\<close>

fun dict_pair :: "pyval \<Rightarrow> (string \<times> pyval) result" where
  "dict_pair (PList [PStr k, v]) = Inr (k, v)"
| "dict_pair (PList [_, _]) = Inl TypeError"
| "dict_pair (PList _) = Inl (ValueError ''dictionary update sequence element has wrong length'')"
| "dict_pair (PStr [a, b]) = Inr ([a], PStr [b])"
| "dict_pair (PStr _) = Inl (ValueError ''dictionary update sequence element has wrong length'')"
| "dict_pair (PDict [(a, _), (b, _)]) = Inr (a, PStr b)"
| "dict_pair (PDict _) = Inl (ValueError ''dictionary update sequence element has wrong length'')"
| "dict_pair _ = Inl TypeError"

fun py_dict :: "pyval \<Rightarrow> pydict result" where
  "py_dict (PDict d) = Inr d"
| "py_dict (PList xs) = bind_result (map_result dict_pair xs) (\<lambda>ps. Inr (dupdate [] ps))"
| "py_dict (PStr []) = Inr []"
| "py_dict (PStr s) = Inl (ValueError ''dictionary update sequence element has wrong length'')"
| "py_dict _ = Inl TypeError"

text \<open>\<open>v.get\<close> exists for a dict only.\<close>

fun need_dict :: "pyval \<Rightarrow> pydict result" where
  "need_dict (PDict d) = Inr d"
| "need_dict _ = Inl AttributeError"

text \<open>\<open>list(v)\<close> and iteration: the items of a list, the characters of a string, the keys of a dict.\<close>

fun py_iter :: "pyval \<Rightarrow> pyval list result" where
  "py_iter (PList xs) = Inr xs"
| "py_iter (PStr s) = Inr (map (\<lambda>c. PStr [c]) s)"
| "py_iter (PDict d) = Inr (map (\<lambda>e. PStr (fst e)) d)"
| "py_iter _ = Inl TypeError"

text \<open>\<open>list(v or [])\<close>\<close>

definition list_or_empty :: "pyval \<Rightarrow> pyval list result" where
  "list_or_empty v = (if truthy v then py_iter v else Inr [])"

text \<open>\<open>v or {}\<close>\<close>

definition or_empty_dict :: "pyval \<Rightarrow> pyval" where
  "or_empty_dict v = py_or v (PDict [])"

text \<open>Membership in a set of strings hashes the value first; lists and dicts cannot be hashed.\<close>

definition in_str_set :: "pyval \<Rightarrow> string list \<Rightarrow> bool result" where
  "in_str_set v xs =
     (if is_list v \<or> is_dict v then Inl TypeError else Inr (case v of PStr s \<Rightarrow> s \<in> set xs | _ \<Rightarrow> False))"

text \<open>\<open>len(v)\<close>\<close>

fun py_len :: "pyval \<Rightarrow> int result" where
  "py_len (PList xs) = Inr (int (length xs))"
| "py_len (PStr s) = Inr (int (length s))"
| "py_len (PDict d) = Inr (int (length d))"
| "py_len _ = Inl TypeError"

section \<open>Text\<close>

fun join :: "string \<Rightarrow> string list \<Rightarrow> string" where
  "join sep [] = []"
| "join sep [x] = x"
| "join sep (x # y # xs) = x @ sep @ join sep (y # xs)"

definition hex_escape :: "int \<Rightarrow> string" where
  "hex_escape n = [CHR 0x5C, CHR ''x'', hex_digit (n div 16), hex_digit (n mod 16)]"

definition escape_char :: "char \<Rightarrow> char \<Rightarrow> string" where
  "escape_char q c =
     (let n = (of_char c :: int)
      in if c = CHR 0x5C \<or> c = q then [CHR 0x5C, c]
         else if n = 10 then [CHR 0x5C, CHR ''n'']
         else if n = 13 then [CHR 0x5C, CHR ''r'']
         else if n = 9 then [CHR 0x5C, CHR ''t'']
         else if n < 32 \<or> n = 127 then hex_escape n
         else [c])"

definition string_repr :: "string \<Rightarrow> string" where
  "string_repr s =
     (let q = (if CHR 0x27 \<in> set s \<and> CHR 0x22 \<notin> set s then CHR 0x22 else CHR 0x27)
      in [q] @ concat (map (escape_char q) s) @ [q])"

fun py_repr :: "pyval \<Rightarrow> string" where
  "py_repr PNone = ''None''"
| "py_repr (PBool b) = (if b then ''True'' else ''False'')"
| "py_repr (PInt i) = int_to_string i"
| "py_repr (PFloat f) = float_repr f"
| "py_repr (PStr s) = string_repr s"
| "py_repr (PList xs) = ''['' @ join '', '' (map py_repr xs) @ '']''"
| "py_repr (PDict d) =
     ''{'' @ join '', '' (map (\<lambda>(k, v). string_repr k @ '': '' @ py_repr v) d) @ ''}''"

fun py_str :: "pyval \<Rightarrow> string" where
  "py_str (PStr s) = s"
| "py_str v = py_repr v"

lemma py_repr_nonempty [simp]: "py_repr v \<noteq> []"
  by (cases v) (simp_all add: string_repr_def Let_def)

text \<open>\<open>str(v or "")\<close>\<close>

definition str_or_empty :: "pyval \<Rightarrow> string" where
  "str_or_empty v = (if truthy v then py_str v else [])"

section \<open>Numbers\<close>

fun py_int :: "pyval \<Rightarrow> int result" where
  "py_int (PInt i) = Inr i"
| "py_int (PBool b) = Inr (if b then 1 else 0)"
| "py_int (PFloat f) = int_of_float f"
| "py_int (PStr s) =
     (case parse_int s of Some i \<Rightarrow> Inr i | None \<Rightarrow> Inl (ValueError ''invalid literal for int()''))"
| "py_int _ = Inl TypeError"

fun py_float :: "pyval \<Rightarrow> pyfloat result" where
  "py_float (PFloat f) = Inr f"
| "py_float (PInt i) = float_of_int i"
| "py_float (PBool b) = Inr (Fin (if b then 1 else 0))"
| "py_float (PStr s) =
     (case parse_float s of Some f \<Rightarrow> Inr f | None \<Rightarrow> Inl (ValueError ''could not convert string to float''))"
| "py_float _ = Inl TypeError"

text \<open>\<open>try: ... except (TypeError, ValueError): return None\<close>; any other exception escapes.\<close>

definition or_none :: "'a result \<Rightarrow> 'a option result" where
  "or_none m =
     (case m of
        Inr x \<Rightarrow> Inr (Some x)
      | Inl TypeError \<Rightarrow> Inr None
      | Inl (ValueError _) \<Rightarrow> Inr None
      | Inl e \<Rightarrow> Inl e)"

definition int_or_none :: "pyval \<Rightarrow> int option result" where
  "int_or_none v = (if is_blank v then Inr None else or_none (py_int v))"

definition float_or_none :: "pyval \<Rightarrow> pyfloat option result" where
  "float_or_none v = (if is_blank v then Inr None else or_none (py_float v))"

text \<open>\<open>_int_or_none(v) or 0\<close>\<close>

definition int_or_zero :: "pyval \<Rightarrow> int result" where
  "int_or_zero v = bind_result (int_or_none v) (\<lambda>i. Inr (case i of None \<Rightarrow> 0 | Some n \<Rightarrow> n))"

lemma or_none_Inr [simp]: "or_none (Inr x) = Inr (Some x)"
  by (simp add: or_none_def)

lemma int_or_none_simps [simp]:
  "int_or_none PNone = Inr None"
  "int_or_none (PInt i) = Inr (Some i)"
  "int_or_none (PBool b) = Inr (Some (if b then 1 else 0))"
  by (simp_all add: int_or_none_def is_blank_def)

lemma int_or_zero_simps [simp]:
  "int_or_zero PNone = Inr 0"
  "int_or_zero (PInt i) = Inr i"
  by (simp_all add: int_or_zero_def)

lemma float_or_none_simps [simp]:
  "float_or_none PNone = Inr None"
  "float_or_none (PFloat f) = Inr (Some f)"
  by (simp_all add: float_or_none_def is_blank_def)

lemma int_or_none_opt_int [simp]: "int_or_none (opt_int i) = Inr i"
  by (cases i) (simp_all add: opt_int_def)

lemma float_or_none_opt_float [simp]: "float_or_none (opt_float f) = Inr f"
  by (cases f) (simp_all add: opt_float_def)

text \<open>An infinite float is the value that the \<open>_int_or_none\<close> helpers do not survive.\<close>

lemma int_or_none_infinite: "int_or_none (PFloat PosInf) = Inl OverflowError"
  by (simp add: int_or_none_def is_blank_def or_none_def)

section \<open>Lemmas on dicts\<close>

lemma dget_Nil [simp]: "dget [] k = PNone"
  by (simp add: dget_def)

lemma dget_Cons [simp]: "dget ((k', v) # d) k = (if k' = k then v else dget d k)"
  by (simp add: dget_def)

lemma dget_or_Nil [simp]: "dget_or [] k v0 = v0"
  by (simp add: dget_or_def)

lemma dget_or_Cons [simp]: "dget_or ((k', v) # d) k v0 = (if k' = k then v else dget_or d k v0)"
  by (simp add: dget_or_def)

lemma dget_dset [simp]: "dget (dset k v d) k' = (if k = k' then v else dget d k')"
  by (simp add: dget_def dset_def update_conv')

lemma map_of_dset: "map_of (dset k v d) = (map_of d)(k \<mapsto> v)"
  by (simp add: dset_def update_conv')

lemma keys_dset: "set (map fst (dset k v d)) = insert k (set (map fst d))"
  by (auto simp: dset_def update_keys)

lemma dset_Nil [simp]: "dset k v [] = [(k, v)]"
  by (simp add: dset_def)

lemma dset_Cons [simp]:
  "dset k v ((k', v') # d) = (if k = k' then (k, v) # d else (k', v') # dset k v d)"
  by (simp add: dset_def)

lemma distinct_dset [simp]: "distinct (map fst (dset k v d)) \<longleftrightarrow> distinct (map fst d)"
proof (induction d)
  case (Cons e d)
  show ?case
  proof (cases e)
    case (Pair k' v')
    with Cons show ?thesis using keys_dset [of k v d] by (cases "k = k'") auto
  qed
qed simp

lemma is_blank_simps [simp]:
  "is_blank PNone" "is_blank (PStr s) \<longleftrightarrow> s = []" "\<not> is_blank (PBool b)" "\<not> is_blank (PInt i)"
  "\<not> is_blank (PFloat f)" "\<not> is_blank (PList xs)" "\<not> is_blank (PDict d)"
  by (simp_all add: is_blank_def)

lemma py_or_simps [simp]:
  "truthy a \<Longrightarrow> py_or a b = a" "\<not> truthy a \<Longrightarrow> py_or a b = b"
  by (simp_all add: py_or_def)

lemma is_dict_iff: "is_dict v \<longleftrightarrow> (\<exists>d. v = PDict d)"
  by (cases v) auto

lemma is_list_iff: "is_list v \<longleftrightarrow> (\<exists>xs. v = PList xs)"
  by (cases v) auto

lemma as_dict_nonempty: "as_dict v \<noteq> [] \<longleftrightarrow> (\<exists>d. v = PDict d \<and> d \<noteq> [])"
  by (cases v) auto

lemma opt_simps [simp]:
  "opt_str None = PNone" "opt_str (Some s) = PStr s"
  "opt_int None = PNone" "opt_int (Some i) = PInt i"
  "opt_float None = PNone" "opt_float (Some f) = PFloat f"
  "opt_dict None = PNone" "opt_dict (Some d) = PDict d"
  by (simp_all add: opt_str_def opt_int_def opt_float_def opt_dict_def)

end
