(* ===== verification/Machines.thy ===== *)
theory Machines
  imports Py_Base
begin

text \<open>
  The two contracts that the state machines of the program share. \<open>lifecycle_machine\<close>:
  a relation of allowed changes, a notion of terminal state that has no way out, and a
  rank that every change to another state raises. \<open>stored_machine\<close> extends it by a store
  whose operations move each entity along an allowed change or leave it alone. The
  components interpret both on their own tables and stores.
\<close>

section \<open>A lifecycle\<close>

locale lifecycle_machine =
  fixes allowed :: "'s \<Rightarrow> 's \<Rightarrow> bool"
    and terminal :: "'s \<Rightarrow> bool"
    and rank :: "'s \<Rightarrow> nat"
  assumes terminal_stuck: "terminal s \<Longrightarrow> \<not> allowed s t"
    and allowed_rank: "allowed s t \<Longrightarrow> s \<noteq> t \<Longrightarrow> rank s < rank t"
begin

lemma allowed_rank_le: "allowed s t \<Longrightarrow> rank s \<le> rank t"
  using allowed_rank by (cases "s = t") (auto simp: less_imp_le)

lemma path_rank_le: "allowed\<^sup>*\<^sup>* s t \<Longrightarrow> rank s \<le> rank t"
  by (induction rule: rtranclp_induct) (use allowed_rank_le order_trans in blast)+

text \<open>A state once left is never entered again.\<close>

lemma path_strict: "allowed\<^sup>*\<^sup>* s t \<Longrightarrow> s \<noteq> t \<Longrightarrow> rank s < rank t"
proof (induction rule: rtranclp_induct)
  case (step t u)
  then show ?case
    by (metis allowed_rank allowed_rank_le less_le_trans)
qed simp

lemma never_back: "allowed\<^sup>*\<^sup>* s t \<Longrightarrow> allowed\<^sup>*\<^sup>* t s \<Longrightarrow> s = t"
  using path_strict by (metis less_asym)

lemma terminal_absorbing: "allowed\<^sup>*\<^sup>* s t \<Longrightarrow> terminal s \<Longrightarrow> t = s"
  by (induction rule: rtranclp_induct) (auto simp: terminal_stuck)

text \<open>A sequence of proper changes is no longer than the ranks it climbs.\<close>

lemma chain_bound:
  "successively (\<lambda>s t. allowed s t \<and> s \<noteq> t) (s # ss) \<Longrightarrow> rank s + length ss \<le> rank (last (s # ss))"
proof (induction ss arbitrary: s)
  case (Cons t ss)
  then have "rank t + length ss \<le> rank (last (t # ss))" by simp
  moreover have "rank s < rank t" using Cons.prems allowed_rank by auto
  ultimately show ?case by simp
qed simp

end

section \<open>A store of entities that follow a lifecycle\<close>

locale stored_machine = lifecycle_machine allowed terminal rank
  for allowed :: "'s \<Rightarrow> 's \<Rightarrow> bool" and terminal :: "'s \<Rightarrow> bool" and rank :: "'s \<Rightarrow> nat" +
  fixes good :: "'db \<Rightarrow> bool"
    and state_of :: "'db \<Rightarrow> 'k \<Rightarrow> 's option"
    and store_step :: "'db \<Rightarrow> 'db \<Rightarrow> bool"
  assumes step_good: "good d \<Longrightarrow> store_step d d' \<Longrightarrow> good d'"
    and step_allowed: "good d \<Longrightarrow> store_step d d' \<Longrightarrow> state_of d k = Some s \<Longrightarrow>
      \<exists>s'. state_of d' k = Some s' \<and> (s' = s \<or> allowed s s')"
begin

lemma steps_good: "store_step\<^sup>*\<^sup>* d d' \<Longrightarrow> good d \<Longrightarrow> good d'"
  by (induction rule: rtranclp_induct) (auto intro: step_good)

lemma steps_path:
  "store_step\<^sup>*\<^sup>* d d' \<Longrightarrow> good d \<Longrightarrow> state_of d k = Some s \<Longrightarrow>
    \<exists>s'. state_of d' k = Some s' \<and> allowed\<^sup>*\<^sup>* s s'"
proof (induction rule: rtranclp_induct)
  case (step d' d'')
  then obtain s' where s': "state_of d' k = Some s'" "allowed\<^sup>*\<^sup>* s s'" by blast
  have "good d'" using step.hyps(1) step.prems(1) by (rule steps_good)
  with step.hyps(2) s'(1) obtain s'' where "state_of d'' k = Some s''" "s'' = s' \<or> allowed s' s''"
    using step_allowed by blast
  with s'(2) show ?case by (metis rtranclp.rtrancl_into_rtrancl)
qed blast

text \<open>No sequence of operations changes the state of a terminal entity or removes it.\<close>

lemma terminal_forever:
  "store_step\<^sup>*\<^sup>* d d' \<Longrightarrow> good d \<Longrightarrow> state_of d k = Some s \<Longrightarrow> terminal s \<Longrightarrow> state_of d' k = Some s"
  using steps_path terminal_absorbing by metis

end

section \<open>A component driven by a sequence of inputs\<close>

locale driven_component =
  fixes step :: "'e \<Rightarrow> 's \<Rightarrow> 's"
    and good :: "'s \<Rightarrow> bool"
  assumes good_step: "good s \<Longrightarrow> good (step e s)"
begin

lemma good_run: "good s \<Longrightarrow> good (fold step es s)"
  by (induction es arbitrary: s) (auto intro: good_step)

text \<open>What every input keeps, every run keeps.\<close>

lemma kept_by_run: "(\<And>e s. good s \<Longrightarrow> view (step e s) = view s) \<Longrightarrow> good s \<Longrightarrow> view (fold step es s) = view s"
proof (induction es arbitrary: s)
  case (Cons e es)
  from Cons.prems have "view (fold step es (step e s)) = view (step e s)"
    by (intro Cons.IH good_step)
  with Cons.prems show ?case by simp
qed simp

lemma grows_in_run:
  "(\<And>e s. good s \<Longrightarrow> (size_of s :: nat) \<le> size_of (step e s)) \<Longrightarrow> good s \<Longrightarrow> size_of s \<le> size_of (fold step es s)"
proof (induction es arbitrary: s)
  case (Cons e es)
  have "size_of s \<le> size_of (step e s)" using Cons.prems by blast
  also have "\<dots> \<le> size_of (fold step es (step e s))" using Cons good_step by blast
  finally show ?case by simp
qed simp

end

section \<open>A component that refines an abstract one\<close>

text \<open>
  \<open>step\<close> is an operation that may raise, \<open>view\<close> reads the abstract state off the
  concrete one, \<open>spec\<close> is the abstract operation: every successful operation is the
  abstract one seen through \<open>view\<close>.
\<close>

locale refined_component =
  fixes step :: "'e \<Rightarrow> 's \<Rightarrow> 'x + 's"
    and good :: "'s \<Rightarrow> bool"
    and view :: "'s \<Rightarrow> 'a"
    and spec :: "'e \<Rightarrow> 'a \<Rightarrow> 'a"
  assumes good_step: "good s \<Longrightarrow> step e s = Inr s' \<Longrightarrow> good s'"
    and view_step: "good s \<Longrightarrow> step e s = Inr s' \<Longrightarrow> view s' = spec e (view s)"
begin

lemma run_refines:
  "good s \<Longrightarrow> fold_result step es s = Inr s' \<Longrightarrow> good s' \<and> view s' = fold spec es (view s)"
proof (induction es arbitrary: s)
  case (Cons e es)
  from Cons.prems(2) obtain t where t: "step e s = Inr t" "fold_result step es t = Inr s'" by auto
  with Cons.IH [OF good_step [OF Cons.prems(1) t(1)] t(2)] view_step [OF Cons.prems(1) t(1)] show ?case by simp
qed simp

text \<open>What the abstract operations keep, every run keeps.\<close>

lemma run_keeps:
  assumes "\<And>e a. e \<in> set es \<Longrightarrow> P a \<Longrightarrow> P (spec e a)"
    and "P (view s)" "good s" "fold_result step es s = Inr s'"
  shows "P (view s')"
proof -
  have "P a \<Longrightarrow> P (fold spec es a)" for a
    using assms(1) by (induction es arbitrary: a) auto
  with run_refines [OF assms(3,4)] assms(2) show ?thesis by simp
qed

end

section \<open>A check of a list, item by item\<close>

text \<open>Each item is admitted by what was accepted before it.\<close>

fun admitted :: "('e list \<Rightarrow> 'e \<Rightarrow> bool) \<Rightarrow> 'e list \<Rightarrow> 'e list \<Rightarrow> bool" where
  "admitted next_ok es [] = True"
| "admitted next_ok es (e # es') = (next_ok es e \<and> admitted next_ok (es @ [e]) es')"

text \<open>
  \<open>step\<close> reads one item, which \<open>parse\<close> may refuse, and adds to the blockers unless the item
  is one that may come next; \<open>inv\<close> relates the state to the items accepted so far.
\<close>

locale list_checker =
  fixes step :: "'a \<Rightarrow> 's \<Rightarrow> 'x + 's"
    and blockers :: "'s \<Rightarrow> 'b list"
    and parse :: "'a \<Rightarrow> 'x + 'e"
    and next_ok :: "'e list \<Rightarrow> 'e \<Rightarrow> bool"
    and inv :: "'e list \<Rightarrow> 's \<Rightarrow> bool"
  assumes inv_clear: "inv es s \<Longrightarrow> blockers s = []"
    and step_accepts: "inv es s \<Longrightarrow> step a s = Inr s' \<Longrightarrow> parse a = Inr e \<Longrightarrow> next_ok es e \<Longrightarrow> inv (es @ [e]) s'"
    and step_refuses: "inv es s \<Longrightarrow> step a s = Inr s' \<Longrightarrow> (\<And>e. parse a = Inr e \<Longrightarrow> \<not> next_ok es e) \<Longrightarrow> blockers s' \<noteq> []"
    and step_mono: "step a s = Inr s' \<Longrightarrow> blockers s \<noteq> [] \<Longrightarrow> blockers s' \<noteq> []"
begin

lemma run_mono: "fold_result step xs s = Inr s' \<Longrightarrow> blockers s \<noteq> [] \<Longrightarrow> blockers s' \<noteq> []"
proof (induction xs arbitrary: s)
  case (Cons x xs)
  from Cons.prems(1) obtain t where t: "step x s = Inr t" "fold_result step xs t = Inr s'" by auto
  from Cons.IH [OF t(2)] step_mono [OF t(1) Cons.prems(2)] show ?case by blast
qed simp

lemma run_decides:
  "inv es s \<Longrightarrow> fold_result step xs s = Inr s' \<Longrightarrow>
   (\<exists>es'. map_result parse xs = Inr es' \<and> admitted next_ok es es' \<and> inv (es @ es') s') \<or>
   (\<not> (\<exists>es'. map_result parse xs = Inr es' \<and> admitted next_ok es es') \<and> blockers s' \<noteq> [])"
proof (induction xs arbitrary: es s)
  case (Cons x xs)
  from Cons.prems(2) obtain t where t: "step x s = Inr t" "fold_result step xs t = Inr s'" by auto
  show ?case
  proof (cases "\<exists>e. parse x = Inr e \<and> next_ok es e")
    case True
    then obtain e where e: "parse x = Inr e" "next_ok es e" by blast
    from Cons.IH [OF step_accepts [OF Cons.prems(1) t(1) e] t(2)] e show ?thesis by auto
  next
    case False
    then have "blockers t \<noteq> []" using step_refuses [OF Cons.prems(1) t(1)] by blast
    from run_mono [OF t(2) this] False show ?thesis by auto
  qed
qed simp

lemma run_clear_iff:
  assumes "inv es s" "fold_result step xs s = Inr s'"
  shows "blockers s' = [] \<longleftrightarrow> (\<exists>es'. map_result parse xs = Inr es' \<and> admitted next_ok es es')"
  using run_decides [OF assms] inv_clear by blast

lemma run_clear_inv:
  assumes "inv es s" "fold_result step xs s = Inr s'" "blockers s' = []" "map_result parse xs = Inr es'"
  shows "inv (es @ es') s'"
  using run_decides [OF assms(1,2)] assms(3,4) inv_clear by auto

end

end
