(* ===== verification/Order_States.thy ===== *)
theory Order_States
  imports Py_Value Machines "HOL-Library.List_Lexorder" "HOL-Library.Char_ord"
begin

text \<open>
  src/core/orders/state_machine.py: the durable order state machine. The SQLite file is
  the record \<open>order_db\<close> of its three tables in rowid order; each write method is one
  transaction, so it returns either an error, with the database as it was (ROLLBACK), or
  the result with the new database (COMMIT). The write lock makes transactions
  sequential: an execution is a sequence of calls.
  The triggers that mirror \<open>order_states\<close> into \<open>orders\<close> are part of the writes. A NaN
  bound to a REAL column is stored as NULL, which the NOT NULL columns reject.
  Rows with equal \<open>updated_at\<close> are listed in rowid order (SQL leaves it open).
\<close>

section \<open>States and transitions\<close>

datatype order_state = NEW | SENT | ACKNOWLEDGED | PARTIAL | FILLED | REJECTED | CANCELLED | EXPIRED

fun state_value :: "order_state \<Rightarrow> string" where
  "state_value NEW = ''NEW''"
| "state_value SENT = ''SENT''"
| "state_value ACKNOWLEDGED = ''ACKNOWLEDGED''"
| "state_value PARTIAL = ''PARTIAL''"
| "state_value FILLED = ''FILLED''"
| "state_value REJECTED = ''REJECTED''"
| "state_value CANCELLED = ''CANCELLED''"
| "state_value EXPIRED = ''EXPIRED''"

definition all_order_states :: "order_state list" where
  "all_order_states = [NEW, SENT, ACKNOWLEDGED, PARTIAL, FILLED, REJECTED, CANCELLED, EXPIRED]"

text \<open>\<open>OrderState(text)\<close>\<close>

definition order_state_of :: "string \<Rightarrow> order_state option" where
  "order_state_of text = find (\<lambda>s. state_value s = text) all_order_states"

text \<open>The states are ordered by their value, as \<open>sorted(..., key=lambda s: s.value)\<close> orders them.\<close>

lemma state_value_inject [simp]: "state_value s = state_value t \<longleftrightarrow> s = t"
  by (cases s; cases t) simp_all

instantiation order_state :: linorder
begin

definition less_order_state :: "order_state \<Rightarrow> order_state \<Rightarrow> bool" where
  "less_order_state s t \<longleftrightarrow> state_value s < state_value t"

definition less_eq_order_state :: "order_state \<Rightarrow> order_state \<Rightarrow> bool" where
  "less_eq_order_state s t \<longleftrightarrow> state_value s \<le> state_value t"

instance
  by standard
    (auto simp: less_order_state_def less_eq_order_state_def less_le_not_le dest: order_antisym)

end

fun valid_transitions :: "order_state \<Rightarrow> order_state list" where
  "valid_transitions NEW = [SENT, REJECTED, CANCELLED, EXPIRED]"
| "valid_transitions SENT = [ACKNOWLEDGED, PARTIAL, FILLED, REJECTED, CANCELLED, EXPIRED]"
| "valid_transitions ACKNOWLEDGED = [PARTIAL, FILLED, REJECTED, CANCELLED, EXPIRED]"
| "valid_transitions PARTIAL = [PARTIAL, FILLED, REJECTED, CANCELLED, EXPIRED]"
| "valid_transitions FILLED = []"
| "valid_transitions REJECTED = []"
| "valid_transitions CANCELLED = []"
| "valid_transitions EXPIRED = []"

definition iter_terminal_states :: "order_state list" where
  "iter_terminal_states = [FILLED, REJECTED, CANCELLED, EXPIRED]"

datatype order_error =
    MissingValue string
  | UnknownState string
  | OrderIdConflict string
  | OrderStateNotFoundError string
  | OrderStateTransitionError order_state order_state
  | DecodeFailed string
  | IntegrityError

datatype state_arg = StateEnum order_state | StateText string

definition normalize_side :: "string option \<Rightarrow> string option" where
  "normalize_side value =
     (let text = upper (strip (case value of None \<Rightarrow> [] | Some v \<Rightarrow> v))
      in if text = [] then None else Some text)"

fun coerce_state :: "state_arg \<Rightarrow> order_error + order_state" where
  "coerce_state (StateEnum s) = Inr s"
| "coerce_state (StateText v) =
     (case order_state_of (upper (strip v)) of Some s \<Rightarrow> Inr s | None \<Rightarrow> Inl (UnknownState v))"

definition valid_next_states :: "state_arg \<Rightarrow> order_error + order_state list" where
  "valid_next_states state =
     bind_result (coerce_state state) (\<lambda>current. Inr (sort (valid_transitions current)))"

definition is_transition_valid :: "state_arg \<Rightarrow> state_arg \<Rightarrow> order_error + bool" where
  "is_transition_valid current_state next_state =
     bind_result (coerce_state current_state) (\<lambda>current.
     bind_result (coerce_state next_state) (\<lambda>nxt.
       Inr (nxt \<in> set (valid_transitions current))))"

definition validate_transition :: "state_arg \<Rightarrow> state_arg \<Rightarrow> order_error + unit" where
  "validate_transition current_state next_state =
     bind_result (coerce_state current_state) (\<lambda>current.
     bind_result (coerce_state next_state) (\<lambda>nxt.
     bind_result (is_transition_valid (StateEnum current) (StateEnum nxt)) (\<lambda>ok.
       if \<not> ok then Inl (OrderStateTransitionError current nxt) else Inr ())))"

section \<open>Tables, records, events\<close>

record order_row =
  row_order_id :: string
  row_idempotency_key :: string
  row_instrument :: "string option"
  row_side :: "string option"
  row_quantity :: pyfloat
  row_state :: string
  row_created_at :: pyfloat
  row_updated_at :: pyfloat
  row_broker_order_id :: "string option"
  row_filled_qty :: pyfloat
  row_avg_fill_price :: "pyfloat option"

record event_row =
  ev_id :: nat
  ev_order_id :: string
  ev_idempotency_key :: string
  ev_from_state :: "string option"
  ev_to_state :: string
  ev_reason :: "string option"
  ev_broker_order_id :: "string option"
  ev_filled_qty :: "pyfloat option"
  ev_created_at :: pyfloat

record order_db =
  order_states :: "order_row list"
  orders :: "order_row list"
  order_state_events :: "event_row list"
  last_event_id :: nat

record order_record =
  rec_order_id :: string
  rec_idempotency_key :: string
  rec_state :: order_state
  rec_created_at :: pyfloat
  rec_updated_at :: pyfloat
  rec_broker_order_id :: "string option"
  rec_instrument :: "string option"
  rec_side :: "string option"
  rec_quantity :: pyfloat
  rec_filled_qty :: pyfloat
  rec_avg_fill_price :: "pyfloat option"

record order_state_event =
  se_event_id :: nat
  se_order_id :: string
  se_idempotency_key :: string
  se_from_state :: "order_state option"
  se_to_state :: order_state
  se_reason :: "string option"
  se_broker_order_id :: "string option"
  se_created_at :: pyfloat
  se_filled_qty :: "pyfloat option"

definition decode_state :: "string \<Rightarrow> order_error + order_state" where
  "decode_state text = (case order_state_of text of Some s \<Rightarrow> Inr s | None \<Rightarrow> Inl (UnknownState text))"

definition row_to_record :: "order_row option \<Rightarrow> order_error + order_record option" where
  "row_to_record row =
     (case row of
        None \<Rightarrow> Inr None
      | Some r \<Rightarrow>
          bind_result (decode_state (row_state r)) (\<lambda>s.
            Inr (Some
              \<lparr>rec_order_id = row_order_id r,
               rec_idempotency_key = row_idempotency_key r,
               rec_state = s,
               rec_created_at = row_created_at r,
               rec_updated_at = row_updated_at r,
               rec_broker_order_id = row_broker_order_id r,
               rec_instrument = row_instrument r,
               rec_side = row_side r,
               rec_quantity = row_quantity r,
               rec_filled_qty = row_filled_qty r,
               rec_avg_fill_price = row_avg_fill_price r\<rparr>)))"

definition row_to_event :: "event_row \<Rightarrow> order_error + order_state_event" where
  "row_to_event e =
     bind_result
       (case ev_from_state e of
          None \<Rightarrow> Inr None
        | Some f \<Rightarrow> if f = [] then Inr None else bind_result (decode_state f) (\<lambda>s. Inr (Some s)))
     (\<lambda>from. bind_result (decode_state (ev_to_state e)) (\<lambda>to.
       Inr
         \<lparr>se_event_id = ev_id e,
          se_order_id = ev_order_id e,
          se_idempotency_key = ev_idempotency_key e,
          se_from_state = from,
          se_to_state = to,
          se_reason = ev_reason e,
          se_broker_order_id = ev_broker_order_id e,
          se_created_at = ev_created_at e,
          se_filled_qty = ev_filled_qty e\<rparr>))"

section \<open>The schema: constraints, triggers, initialisation\<close>

definition empty_db :: order_db where
  "empty_db = \<lparr>order_states = [], orders = [], order_state_events = [], last_event_id = 0\<rparr>"

text \<open>\<open>INSERT OR REPLACE INTO orders\<close>: rows that clash on the key or the unique column go.\<close>

definition insert_or_replace_order :: "order_row \<Rightarrow> order_row list \<Rightarrow> order_row list" where
  "insert_or_replace_order r rows =
     filter (\<lambda>x. row_order_id x \<noteq> row_order_id r \<and> row_idempotency_key x \<noteq> row_idempotency_key r) rows @ [r]"

definition init_db :: "order_db \<Rightarrow> order_db" where
  "init_db db = db\<lparr>orders := fold insert_or_replace_order (order_states db) (orders db)\<rparr>"

definition sql_real :: "pyfloat option \<Rightarrow> pyfloat option" where
  "sql_real x = (if x = Some NaN then None else x)"

definition row_constraints :: "order_row \<Rightarrow> bool" where
  "row_constraints r \<longleftrightarrow>
     row_quantity r \<noteq> NaN \<and> row_created_at r \<noteq> NaN \<and> row_updated_at r \<noteq> NaN \<and> row_filled_qty r \<noteq> NaN \<and>
     row_state r \<in> set (map state_value all_order_states)"

definition insert_order_state :: "order_row \<Rightarrow> order_db \<Rightarrow> order_error + order_db" where
  "insert_order_state r db =
     (if \<not> row_constraints r \<or>
         (\<exists>x \<in> set (order_states db). row_order_id x = row_order_id r \<or> row_idempotency_key x = row_idempotency_key r)
      then Inl IntegrityError
      else Inr (db\<lparr>order_states := order_states db @ [r],
                   orders := insert_or_replace_order r (orders db)\<rparr>))"

definition update_order_state ::
  "string \<Rightarrow> (order_row \<Rightarrow> order_row) \<Rightarrow> order_db \<Rightarrow> order_error + order_db" where
  "update_order_state oid f db =
     (let rows = map (\<lambda>r. if row_order_id r = oid then f r else r) (order_states db);
          changed = filter (\<lambda>r. row_order_id r = oid) rows
      in if \<not> list_all row_constraints changed then Inl IntegrityError
         else Inr (db\<lparr>order_states := rows, orders := fold insert_or_replace_order changed (orders db)\<rparr>))"

definition insert_event ::
  "string \<Rightarrow> string \<Rightarrow> string option \<Rightarrow> string \<Rightarrow> string option \<Rightarrow> string option \<Rightarrow> pyfloat \<Rightarrow> pyfloat
   \<Rightarrow> order_db \<Rightarrow> order_error + order_db" where
  "insert_event oid idem from to reason broker now qty db =
     (if now = NaN \<or> to \<notin> set (map state_value all_order_states) then Inl IntegrityError
      else Inr (db\<lparr>order_state_events := order_state_events db @
             [\<lparr>ev_id = Suc (last_event_id db), ev_order_id = oid, ev_idempotency_key = idem,
               ev_from_state = from, ev_to_state = to, ev_reason = reason,
               ev_broker_order_id = broker, ev_filled_qty = sql_real (Some qty), ev_created_at = now\<rparr>],
             last_event_id := Suc (last_event_id db)\<rparr>))"

definition select_by_order_id :: "string \<Rightarrow> order_db \<Rightarrow> order_row option" where
  "select_by_order_id oid db = find (\<lambda>r. row_order_id r = oid) (order_states db)"

definition select_by_idempotency_key :: "string \<Rightarrow> order_db \<Rightarrow> order_row option" where
  "select_by_idempotency_key idem db = find (\<lambda>r. row_idempotency_key r = idem) (order_states db)"

section \<open>Operations\<close>

record create_request =
  cr_order_id :: string
  cr_idempotency_key :: string
  cr_instrument :: "string option"
  cr_side :: "string option"
  cr_quantity :: "pyfloat option"
  cr_broker_order_id :: "string option"
  cr_filled_qty :: "pyfloat option"
  cr_avg_fill_price :: "pyfloat option"
  cr_now_epoch :: "pyfloat option"

definition clamp_qty :: "pyfloat \<Rightarrow> pyfloat" where
  "clamp_qty q = (if float_lt q (Fin 0) then Fin 0 else q)"

definition new_order_row :: "create_request \<Rightarrow> pyfloat \<Rightarrow> order_row" where
  "new_order_row q clock =
     (let inst = upper (strip (case cr_instrument q of None \<Rightarrow> [] | Some v \<Rightarrow> v));
          now_ts = (case cr_now_epoch q of Some t \<Rightarrow> t | None \<Rightarrow> clock)
      in \<lparr>row_order_id = strip (cr_order_id q),
          row_idempotency_key = strip (cr_idempotency_key q),
          row_instrument = (if inst = [] then None else Some inst),
          row_side = normalize_side (cr_side q),
          row_quantity = clamp_qty (case cr_quantity q of Some x \<Rightarrow> x | None \<Rightarrow> Fin 0),
          row_state = state_value NEW,
          row_created_at = now_ts,
          row_updated_at = now_ts,
          row_broker_order_id = cr_broker_order_id q,
          row_filled_qty = clamp_qty (case cr_filled_qty q of Some x \<Rightarrow> x | None \<Rightarrow> Fin 0),
          row_avg_fill_price = sql_real (cr_avg_fill_price q)\<rparr>)"

definition create_or_get_order ::
  "create_request \<Rightarrow> pyfloat \<Rightarrow> order_db \<Rightarrow> order_error + (order_record \<times> bool \<times> order_db)" where
  "create_or_get_order q clock db =
     (let oid = strip (cr_order_id q); idem = strip (cr_idempotency_key q); r = new_order_row q clock
      in if oid = [] then Inl (MissingValue ''missing_order_id'')
         else if idem = [] then Inl (MissingValue ''missing_idempotency_key'')
         else case select_by_order_id oid db of
           Some existing \<Rightarrow>
             bind_result (row_to_record (Some existing)) (\<lambda>existing_record.
               case existing_record of
                 None \<Rightarrow> Inl (DecodeFailed oid)
               | Some er \<Rightarrow>
                   if rec_idempotency_key er \<noteq> idem then Inl (OrderIdConflict oid)
                   else Inr (er, False, db))
         | None \<Rightarrow>
             (case select_by_idempotency_key idem db of
                Some existing \<Rightarrow>
                  bind_result (row_to_record (Some existing)) (\<lambda>er. Inr (the er, False, db))
              | None \<Rightarrow>
                  bind_result (insert_order_state r db) (\<lambda>db1.
                  bind_result (insert_event oid idem None (state_value NEW) (Some ''order_created'')
                                 (cr_broker_order_id q) (row_created_at r) (row_filled_qty r) db1) (\<lambda>db2.
                  bind_result (row_to_record (select_by_order_id oid db2)) (\<lambda>er.
                    Inr (the er, True, db2))))))"

definition create_order ::
  "create_request \<Rightarrow> pyfloat \<Rightarrow> order_db \<Rightarrow> order_error + (order_record \<times> order_db)" where
  "create_order q clock db =
     bind_result (create_or_get_order q clock db) (\<lambda>(out, _, db'). Inr (out, db'))"

definition get_order_by_idempotency_key ::
  "string \<Rightarrow> order_db \<Rightarrow> order_error + order_record option" where
  "get_order_by_idempotency_key key db =
     (let idem = strip key
      in if idem = [] then Inl (MissingValue ''missing_idempotency_key'')
         else row_to_record (select_by_idempotency_key idem db))"

text \<open>\<open>ORDER BY updated_at DESC LIMIT n\<close>\<close>

definition newest_first :: "order_row list \<Rightarrow> order_row list" where
  "newest_first rows = rev (sort_key row_updated_at (rev rows))"

definition get_order_by_broker_order_id ::
  "string \<Rightarrow> order_db \<Rightarrow> order_error + order_record option" where
  "get_order_by_broker_order_id key db =
     (let broker_id = strip key
      in if broker_id = [] then Inl (MissingValue ''missing_broker_order_id'')
         else row_to_record
           (case newest_first (filter (\<lambda>r. row_broker_order_id r = Some broker_id) (order_states db)) of
              [] \<Rightarrow> None | r # _ \<Rightarrow> Some r))"

definition records_of :: "order_row list \<Rightarrow> order_error + order_record list" where
  "records_of rows =
     bind_result (map_result (\<lambda>r. row_to_record (Some r)) rows)
       (\<lambda>recs. Inr (concat (map (\<lambda>x. case x of None \<Rightarrow> [] | Some rec \<Rightarrow> [rec]) recs)))"

definition list_orders ::
  "state_arg list option \<Rightarrow> bool \<Rightarrow> int option \<Rightarrow> order_db \<Rightarrow> order_error + order_record list" where
  "list_orders states include_terminal limit db =
     (let lim0 = (case limit of Some l \<Rightarrow> l | None \<Rightarrow> 2000);
          lim = (if lim0 \<le> 0 then 2000 else lim0);
          limited = (\<lambda>p. take (nat lim) (newest_first (filter p (order_states db))))
      in case states of
           Some (s # ss) \<Rightarrow>
             bind_result (map_result coerce_state (s # ss)) (\<lambda>normalized.
               records_of (limited (\<lambda>r. row_state r \<in> set (map state_value normalized))))
         | _ \<Rightarrow>
             if include_terminal then records_of (limited (\<lambda>r. True))
             else records_of (limited (\<lambda>r. row_state r \<notin> set (map state_value iter_terminal_states))))"

definition get_order :: "string \<Rightarrow> order_db \<Rightarrow> order_error + order_record" where
  "get_order order_id db =
     (let oid = strip order_id
      in if oid = [] then Inl (MissingValue ''missing_order_id'')
         else bind_result (row_to_record (select_by_order_id oid db)) (\<lambda>rec.
           case rec of None \<Rightarrow> Inl (OrderStateNotFoundError oid) | Some r \<Rightarrow> Inr r))"

definition list_events :: "string \<Rightarrow> order_db \<Rightarrow> order_error + order_state_event list" where
  "list_events order_id db =
     (let oid = strip order_id
      in if oid = [] then Inl (MissingValue ''missing_order_id'')
         else map_result row_to_event (filter (\<lambda>e. ev_order_id e = oid) (order_state_events db)))"

record transition_request =
  tr_order_id :: string
  tr_next_state :: state_arg
  tr_broker_order_id :: "string option"
  tr_reason :: "string option"
  tr_filled_qty :: "pyfloat option"
  tr_avg_fill_price :: "pyfloat option"
  tr_now_epoch :: "pyfloat option"

definition transition ::
  "transition_request \<Rightarrow> pyfloat \<Rightarrow> order_db \<Rightarrow> order_error + (order_record \<times> order_db)" where
  "transition q clock db =
     (let oid = strip (tr_order_id q)
      in if oid = [] then Inl (MissingValue ''missing_order_id'')
         else bind_result (coerce_state (tr_next_state q)) (\<lambda>nxt.
           let now_ts = (case tr_now_epoch q of Some t \<Rightarrow> t | None \<Rightarrow> clock)
           in bind_result (row_to_record (select_by_order_id oid db)) (\<lambda>cur.
              case cur of
                None \<Rightarrow> Inl (OrderStateNotFoundError oid)
              | Some current \<Rightarrow>
                  bind_result (validate_transition (StateEnum (rec_state current)) (StateEnum nxt)) (\<lambda>_.
                  let broker_id = (case tr_broker_order_id q of Some b \<Rightarrow> Some b | None \<Rightarrow> rec_broker_order_id current);
                      qty = clamp_qty (case tr_filled_qty q of Some x \<Rightarrow> x | None \<Rightarrow> rec_filled_qty current);
                      avg_fill = (case tr_avg_fill_price q of Some x \<Rightarrow> Some x | None \<Rightarrow> rec_avg_fill_price current)
                  in bind_result
                       (update_order_state oid (\<lambda>r. r\<lparr>row_state := state_value nxt, row_updated_at := now_ts,
                          row_broker_order_id := broker_id, row_filled_qty := qty,
                          row_avg_fill_price := sql_real avg_fill\<rparr>) db) (\<lambda>db1.
                     bind_result
                       (insert_event (rec_order_id current) (rec_idempotency_key current)
                          (Some (state_value (rec_state current))) (state_value nxt) (tr_reason q)
                          broker_id now_ts qty db1) (\<lambda>db2.
                     bind_result (row_to_record (select_by_order_id oid db2)) (\<lambda>out.
                       Inr (the out, db2)))))))) "

text \<open>The literal \<open>1e-9\<close>.\<close>

definition fill_tolerance :: pyfloat where
  "fill_tolerance = round64 (1 / 1000000000)"

definition set_filled_quantity ::
  "string \<Rightarrow> pyfloat \<Rightarrow> string option \<Rightarrow> pyfloat option \<Rightarrow> pyfloat \<Rightarrow> order_db
   \<Rightarrow> order_error + (order_record \<times> order_db)" where
  "set_filled_quantity order_id filled_qty reason now_epoch clock db =
     (let oid = strip order_id
      in if oid = [] then Inl (MissingValue ''missing_order_id'')
         else
           let qty = clamp_qty filled_qty;
               now_ts = (case now_epoch of Some t \<Rightarrow> t | None \<Rightarrow> clock)
           in bind_result (row_to_record (select_by_order_id oid db)) (\<lambda>cur.
              case cur of
                None \<Rightarrow> Inl (OrderStateNotFoundError oid)
              | Some current \<Rightarrow>
                  if float_lt (float_abs (float_sub (rec_filled_qty current) qty)) fill_tolerance
                  then Inr (current, db)
                  else
                    bind_result
                      (update_order_state oid (\<lambda>r. r\<lparr>row_filled_qty := qty, row_updated_at := now_ts\<rparr>) db) (\<lambda>db1.
                    bind_result
                      (insert_event (rec_order_id current) (rec_idempotency_key current)
                         (Some (state_value (rec_state current))) (state_value (rec_state current))
                         (case reason of Some r \<Rightarrow> if r = [] then Some ''fill_qty_updated'' else Some r
                                       | None \<Rightarrow> Some ''fill_qty_updated'')
                         (rec_broker_order_id current) now_ts qty db1) (\<lambda>db2.
                    bind_result (row_to_record (select_by_order_id oid db2)) (\<lambda>out.
                      Inr (the out, db2))))))"

section \<open>States and their texts\<close>

lemma order_state_of_value [simp]: "order_state_of (state_value s) = Some s"
  by (cases s) (simp_all add: order_state_of_def all_order_states_def)

lemma order_state_of_SomeD: "order_state_of text = Some s \<Longrightarrow> text = state_value s"
  by (auto simp: order_state_of_def find_Some_iff)

lemma in_state_values [simp]: "state_value s \<in> set (map state_value all_order_states)"
  by (cases s) (simp_all add: all_order_states_def)

lemma state_value_neq_Nil [simp]: "state_value s \<noteq> []"
  by (cases s) simp_all

lemma row_state_decodes: "row_constraints r \<Longrightarrow> \<exists>s. row_state r = state_value s"
  by (auto simp: row_constraints_def)

lemma validate_transition_Inr [simp]:
  "validate_transition (StateEnum s) (StateEnum t) = Inr () \<longleftrightarrow> t \<in> set (valid_transitions s)"
  by (simp add: validate_transition_def is_transition_valid_def)

lemma validate_transition_Inl:
  "t \<notin> set (valid_transitions s) \<Longrightarrow>
   validate_transition (StateEnum s) (StateEnum t) = Inl (OrderStateTransitionError s t)"
  by (simp add: validate_transition_def is_transition_valid_def)

interpretation order_lifecycle: lifecycle_machine
  "\<lambda>s t. t \<in> set (valid_transitions s)"
  "\<lambda>s. s \<in> set iter_terminal_states"
  "\<lambda>s. case s of NEW \<Rightarrow> 0 | SENT \<Rightarrow> 1 | ACKNOWLEDGED \<Rightarrow> 2 | PARTIAL \<Rightarrow> 3 | _ \<Rightarrow> 4"
proof
  fix s t :: order_state
  show "s \<in> set iter_terminal_states \<Longrightarrow> t \<notin> set (valid_transitions s)"
    by (auto simp: iter_terminal_states_def)
  show "t \<in> set (valid_transitions s) \<Longrightarrow> s \<noteq> t \<Longrightarrow>
    (case s of NEW \<Rightarrow> 0 | SENT \<Rightarrow> 1 | ACKNOWLEDGED \<Rightarrow> 2 | PARTIAL \<Rightarrow> 3 | _ \<Rightarrow> 4) <
    (case t of NEW \<Rightarrow> 0 | SENT \<Rightarrow> 1 | ACKNOWLEDGED \<Rightarrow> 2 | PARTIAL \<Rightarrow> 3 | _ \<Rightarrow> (4 :: nat))"
    by (cases s) auto
qed

section \<open>The database invariant\<close>

definition events_of :: "string \<Rightarrow> order_db \<Rightarrow> event_row list" where
  "events_of oid db = filter (\<lambda>e. ev_order_id e = oid) (order_state_events db)"

text \<open>The event records a change the state machine allows, or an update of the filled quantity.\<close>

definition event_allowed :: "event_row \<Rightarrow> bool" where
  "event_allowed e \<longleftrightarrow>
     (\<exists>s t. ev_from_state e = Some (state_value s) \<and> ev_to_state e = state_value t \<and>
            (t = s \<or> t \<in> set (valid_transitions s)))"

text \<open>The events of an order lead from its creation to its current state without a gap.\<close>

definition audit_trail :: "event_row list \<Rightarrow> string \<Rightarrow> bool" where
  "audit_trail es text \<longleftrightarrow>
     es \<noteq> [] \<and> ev_from_state (hd es) = None \<and> ev_to_state (hd es) = state_value NEW \<and>
     successively (\<lambda>a b. ev_from_state b = Some (ev_to_state a)) es \<and>
     ev_to_state (last es) = text \<and> (\<forall>e \<in> set (tl es). event_allowed e)"

definition db_ok :: "order_db \<Rightarrow> bool" where
  "db_ok db \<longleftrightarrow>
     distinct (map row_order_id (order_states db)) \<and>
     distinct (map row_idempotency_key (order_states db)) \<and>
     (\<forall>r \<in> set (order_states db). row_constraints r \<and> audit_trail (events_of (row_order_id r) db) (row_state r)) \<and>
     set (orders db) = set (order_states db) \<and> distinct (map row_order_id (orders db)) \<and>
     sorted_wrt (<) (map ev_id (order_state_events db)) \<and>
     (\<forall>e \<in> set (order_state_events db). ev_id e \<le> last_event_id db \<and>
        (\<exists>r \<in> set (order_states db). ev_order_id e = row_order_id r \<and> ev_idempotency_key e = row_idempotency_key r))"

lemma audit_trail_snoc:
  assumes "audit_trail es text" and "ev_from_state e = Some text" and "event_allowed e"
    and "ev_to_state e = text'"
  shows "audit_trail (es @ [e]) text'"
  using assms by (auto simp: audit_trail_def successively_append_iff)

lemma db_okI:
  assumes "distinct (map row_order_id (order_states db))"
    and "distinct (map row_idempotency_key (order_states db))"
    and "\<And>r. r \<in> set (order_states db) \<Longrightarrow> row_constraints r"
    and "\<And>r. r \<in> set (order_states db) \<Longrightarrow> audit_trail (events_of (row_order_id r) db) (row_state r)"
    and "set (orders db) = set (order_states db)" "distinct (map row_order_id (orders db))"
    and "sorted_wrt (<) (map ev_id (order_state_events db))"
    and "\<And>e. e \<in> set (order_state_events db) \<Longrightarrow> ev_id e \<le> last_event_id db"
    and "\<And>e. e \<in> set (order_state_events db) \<Longrightarrow>
      \<exists>r \<in> set (order_states db). ev_order_id e = row_order_id r \<and> ev_idempotency_key e = row_idempotency_key r"
  shows "db_ok db"
  using assms unfolding db_ok_def by blast

lemma db_okD:
  assumes "db_ok db"
  shows "distinct (map row_order_id (order_states db))"
    and "distinct (map row_idempotency_key (order_states db))"
    and "\<And>r. r \<in> set (order_states db) \<Longrightarrow> row_constraints r"
    and "\<And>r. r \<in> set (order_states db) \<Longrightarrow> audit_trail (events_of (row_order_id r) db) (row_state r)"
    and "set (orders db) = set (order_states db)" "distinct (map row_order_id (orders db))"
    and "sorted_wrt (<) (map ev_id (order_state_events db))"
    and "\<And>e. e \<in> set (order_state_events db) \<Longrightarrow> ev_id e \<le> last_event_id db"
    and "\<And>e. e \<in> set (order_state_events db) \<Longrightarrow>
      \<exists>r \<in> set (order_states db). ev_order_id e = row_order_id r \<and> ev_idempotency_key e = row_idempotency_key r"
  using assms unfolding db_ok_def by blast+

lemma db_ok_empty: "db_ok empty_db"
  by (simp add: db_ok_def empty_db_def)

lemma db_ok_rows_inj:
  assumes "db_ok db" "r \<in> set (order_states db)" "r' \<in> set (order_states db)"
    and "row_order_id r = row_order_id r' \<or> row_idempotency_key r = row_idempotency_key r'"
  shows "r = r'"
  using assms by (auto simp: db_ok_def distinct_map dest: inj_onD)

lemma select_by_order_id_iff:
  assumes "db_ok db"
  shows "select_by_order_id oid db = Some r \<longleftrightarrow> r \<in> set (order_states db) \<and> row_order_id r = oid"
proof
  assume "select_by_order_id oid db = Some r"
  then show "r \<in> set (order_states db) \<and> row_order_id r = oid"
    by (auto simp: select_by_order_id_def find_Some_iff)
next
  assume r: "r \<in> set (order_states db) \<and> row_order_id r = oid"
  then obtain r' where r': "select_by_order_id oid db = Some r'"
    by (cases "select_by_order_id oid db") (auto simp: select_by_order_id_def find_None_iff)
  then have "r' \<in> set (order_states db)" "row_order_id r' = oid"
    by (auto simp: select_by_order_id_def find_Some_iff)
  with r r' show "select_by_order_id oid db = Some r"
    using db_ok_rows_inj [OF assms, of r r'] by simp
qed

lemma select_by_order_id_None:
  "select_by_order_id oid db = None \<longleftrightarrow> oid \<notin> row_order_id ` set (order_states db)"
  by (auto simp: select_by_order_id_def find_None_iff)

lemma select_by_idempotency_key_None:
  "select_by_idempotency_key idem db = None \<longleftrightarrow> idem \<notin> row_idempotency_key ` set (order_states db)"
  by (auto simp: select_by_idempotency_key_def find_None_iff)

lemma select_by_idempotency_key_SomeD:
  "select_by_idempotency_key idem db = Some r \<Longrightarrow> r \<in> set (order_states db) \<and> row_idempotency_key r = idem"
  by (auto simp: select_by_idempotency_key_def find_Some_iff)

lemma select_by_idempotency_key_iff:
  assumes "db_ok db"
  shows "select_by_idempotency_key idem db = Some r \<longleftrightarrow> r \<in> set (order_states db) \<and> row_idempotency_key r = idem"
proof
  assume r: "r \<in> set (order_states db) \<and> row_idempotency_key r = idem"
  then obtain r' where r': "select_by_idempotency_key idem db = Some r'"
    by (cases "select_by_idempotency_key idem db") (auto simp: select_by_idempotency_key_None)
  then show "select_by_idempotency_key idem db = Some r"
    using r db_ok_rows_inj [OF assms, of r r'] select_by_idempotency_key_SomeD [OF r'] by simp
qed (rule select_by_idempotency_key_SomeD)

section \<open>The two kinds of commit\<close>

text \<open>A transaction that creates an order.\<close>

definition commit_new :: "order_row \<Rightarrow> event_row \<Rightarrow> order_db \<Rightarrow> order_db" where
  "commit_new r e db =
     db\<lparr>order_states := order_states db @ [r], orders := insert_or_replace_order r (orders db),
        order_state_events := order_state_events db @ [e], last_event_id := Suc (last_event_id db)\<rparr>"

text \<open>A transaction that rewrites the row \<open>r\<close> to \<open>r'\<close>.\<close>

definition commit_update :: "order_row \<Rightarrow> order_row \<Rightarrow> event_row \<Rightarrow> order_db \<Rightarrow> order_db" where
  "commit_update r r' e db =
     db\<lparr>order_states := map (\<lambda>x. if row_order_id x = row_order_id r then r' else x) (order_states db),
        orders := insert_or_replace_order r' (orders db),
        order_state_events := order_state_events db @ [e], last_event_id := Suc (last_event_id db)\<rparr>"

lemma commit_new_simps [simp]:
  "order_states (commit_new r e db) = order_states db @ [r]"
  "orders (commit_new r e db) = insert_or_replace_order r (orders db)"
  "order_state_events (commit_new r e db) = order_state_events db @ [e]"
  "last_event_id (commit_new r e db) = Suc (last_event_id db)"
  by (simp_all add: commit_new_def)

lemma commit_update_simps [simp]:
  "order_states (commit_update r r' e db) = map (\<lambda>x. if row_order_id x = row_order_id r then r' else x) (order_states db)"
  "orders (commit_update r r' e db) = insert_or_replace_order r' (orders db)"
  "order_state_events (commit_update r r' e db) = order_state_events db @ [e]"
  "last_event_id (commit_update r r' e db) = Suc (last_event_id db)"
  by (simp_all add: commit_update_def)

lemma events_of_commit [simp]:
  "events_of k (commit_new r e db) = events_of k db @ (if ev_order_id e = k then [e] else [])"
  "events_of k (commit_update r r' e db) = events_of k db @ (if ev_order_id e = k then [e] else [])"
  by (simp_all add: events_of_def)

lemma set_insert_or_replace:
  "set (insert_or_replace_order r rows) =
     insert r {x \<in> set rows. row_order_id x \<noteq> row_order_id r \<and> row_idempotency_key x \<noteq> row_idempotency_key r}"
  by (auto simp: insert_or_replace_order_def)

lemma distinct_insert_or_replace:
  "distinct (map row_order_id rows) \<Longrightarrow> distinct (map row_order_id (insert_or_replace_order r rows))"
  by (auto simp: insert_or_replace_order_def distinct_map_filter)

lemma sorted_ids_snoc:
  assumes "sorted_wrt (<) (map ev_id es)" "\<forall>e \<in> set es. ev_id e \<le> n"
  shows "sorted_wrt (<) (map ev_id es @ [Suc n])"
  using assms by (auto simp: sorted_wrt_append)

lemma no_events_of_unknown:
  assumes "db_ok db" "oid \<notin> row_order_id ` set (order_states db)"
  shows "events_of oid db = []"
  using db_okD(9) [OF assms(1)] assms(2) by (force simp: events_of_def filter_empty_conv)

lemma db_ok_commit_new:
  assumes ok: "db_ok db" and fresh: "row_order_id r \<notin> row_order_id ` set (order_states db)"
      "row_idempotency_key r \<notin> row_idempotency_key ` set (order_states db)"
    and r: "row_constraints r" "row_state r = state_value NEW"
    and e: "ev_id e = Suc (last_event_id db)" "ev_order_id e = row_order_id r"
      "ev_idempotency_key e = row_idempotency_key r" "ev_from_state e = None" "ev_to_state e = state_value NEW"
  shows "db_ok (commit_new r e db)"
proof (rule db_okI)
  fix x assume x: "x \<in> set (order_states (commit_new r e db))"
  show "row_constraints x" using x r(1) db_okD(3) [OF ok] by auto
  show "audit_trail (events_of (row_order_id x) (commit_new r e db)) (row_state x)"
  proof (cases "x = r")
    case True
    with no_events_of_unknown [OF ok fresh(1)] e r(2) show ?thesis by (simp add: audit_trail_def)
  next
    case False
    with x have x': "x \<in> set (order_states db)" by simp
    with fresh(1) e(2) have "ev_order_id e \<noteq> row_order_id x" by (metis imageI)
    with db_okD(4) [OF ok x'] show ?thesis by simp
  qed
next
  show "set (orders (commit_new r e db)) = set (order_states (commit_new r e db))"
  proof -
    have "row_order_id x \<noteq> row_order_id r \<and> row_idempotency_key x \<noteq> row_idempotency_key r"
      if "x \<in> set (order_states db)" for x
      using fresh that by (metis imageI)
    then show ?thesis using db_okD(5) [OF ok] by (auto simp: set_insert_or_replace)
  qed
next
  fix x assume "x \<in> set (order_state_events (commit_new r e db))"
  then show "\<exists>y \<in> set (order_states (commit_new r e db)).
      ev_order_id x = row_order_id y \<and> ev_idempotency_key x = row_idempotency_key y"
    using db_okD(9) [OF ok] e by auto
qed (use db_okD [OF ok] fresh e(1) in \<open>auto simp: distinct_insert_or_replace sorted_ids_snoc le_SucI\<close>)

lemma db_ok_commit_update:
  assumes ok: "db_ok db" and r: "r \<in> set (order_states db)"
    and r': "row_constraints r'" "row_order_id r' = row_order_id r" "row_idempotency_key r' = row_idempotency_key r"
    and e: "ev_id e = Suc (last_event_id db)" "ev_order_id e = row_order_id r"
      "ev_idempotency_key e = row_idempotency_key r" "ev_from_state e = Some (row_state r)"
      "ev_to_state e = row_state r'" "event_allowed e"
  shows "db_ok (commit_update r r' e db)"
proof (rule db_okI)
  let ?db = "commit_update r r' e db"
  let ?f = "\<lambda>x. if row_order_id x = row_order_id r then r' else x"
  show "distinct (map row_order_id (order_states ?db))"
  proof -
    have "map row_order_id (order_states ?db) = map row_order_id (order_states db)"
      using r' by simp
    then show ?thesis using db_okD(1) [OF ok] by (simp only:)
  qed
  show "distinct (map row_idempotency_key (order_states ?db))"
  proof -
    have "map row_idempotency_key (order_states ?db) = map row_idempotency_key (order_states db)"
      using r' db_ok_rows_inj [OF ok _ r] by auto
    then show ?thesis using db_okD(2) [OF ok] by (simp only:)
  qed
  have rows: "set (order_states ?db) = insert r' (set (order_states db) - {r})"
    using db_ok_rows_inj [OF ok _ r] r by auto
  show "set (orders ?db) = set (order_states ?db)"
    unfolding rows using db_okD(5) [OF ok] r' db_ok_rows_inj [OF ok _ r]
    by (auto simp: set_insert_or_replace)
  show "distinct (map row_order_id (orders ?db))"
    using db_okD(6) [OF ok] by (simp add: distinct_insert_or_replace)
  show "sorted_wrt (<) (map ev_id (order_state_events ?db))"
    using db_okD(7,8) [OF ok] e(1) by (auto simp: sorted_ids_snoc)
  fix x
  show "row_constraints x" if "x \<in> set (order_states ?db)"
    using that r'(1) db_okD(3) [OF ok] unfolding rows by blast
  show "audit_trail (events_of (row_order_id x) ?db) (row_state x)" if "x \<in> set (order_states ?db)"
  proof (cases "x = r'")
    case True
    have "audit_trail (events_of (row_order_id r) db @ [e]) (row_state r')"
      using db_okD(4) [OF ok r] e(4,6,5) by (rule audit_trail_snoc)
    with True e r' show ?thesis by simp
  next
    case False
    with that have x: "x \<in> set (order_states db)" "x \<noteq> r" unfolding rows by auto
    then have "ev_order_id e \<noteq> row_order_id x" using db_ok_rows_inj [OF ok _ r] e(2) by auto
    with db_okD(4) [OF ok x(1)] show ?thesis by simp
  qed
  show "\<exists>y \<in> set (order_states ?db). ev_order_id x' = row_order_id y \<and> ev_idempotency_key x' = row_idempotency_key y"
    if "x' \<in> set (order_state_events ?db)" for x'
  proof -
    have "x' = e \<or> x' \<in> set (order_state_events db)" using that by auto
    then obtain y where "y \<in> set (order_states db)" "ev_order_id x' = row_order_id y"
        "ev_idempotency_key x' = row_idempotency_key y"
      using db_okD(9) [OF ok, of x'] e(2,3) r by blast
    then show ?thesis unfolding rows using r' by (cases "y = r") auto
  qed
  show "ev_id x' \<le> last_event_id ?db" if "x' \<in> set (order_state_events ?db)" for x'
    using that db_okD(8) [OF ok] e(1) by (auto intro: le_SucI)
qed

section \<open>Every operation is a commit, or leaves the database alone\<close>

text \<open>The record that a row decodes to.\<close>

definition record_of_row :: "order_row \<Rightarrow> order_state \<Rightarrow> order_record" where
  "record_of_row r s =
     \<lparr>rec_order_id = row_order_id r, rec_idempotency_key = row_idempotency_key r, rec_state = s,
      rec_created_at = row_created_at r, rec_updated_at = row_updated_at r,
      rec_broker_order_id = row_broker_order_id r, rec_instrument = row_instrument r, rec_side = row_side r,
      rec_quantity = row_quantity r, rec_filled_qty = row_filled_qty r, rec_avg_fill_price = row_avg_fill_price r\<rparr>"

lemma record_of_row_simps [simp]:
  "rec_order_id (record_of_row r s) = row_order_id r"
  "rec_idempotency_key (record_of_row r s) = row_idempotency_key r"
  "rec_state (record_of_row r s) = s"
  "rec_broker_order_id (record_of_row r s) = row_broker_order_id r"
  "rec_filled_qty (record_of_row r s) = row_filled_qty r"
  "rec_avg_fill_price (record_of_row r s) = row_avg_fill_price r"
  "rec_updated_at (record_of_row r s) = row_updated_at r"
  by (simp_all add: record_of_row_def)

lemma row_to_record_None [simp]: "row_to_record None = Inr None"
  by (simp add: row_to_record_def)

lemma row_to_record_Some:
  "row_state r = state_value s \<Longrightarrow> row_to_record (Some r) = Inr (Some (record_of_row r s))"
  by (simp add: row_to_record_def decode_state_def record_of_row_def)

lemma row_to_record_SomeD:
  "row_to_record (Some r) = Inr x \<Longrightarrow> \<exists>s. row_state r = state_value s \<and> x = Some (record_of_row r s)"
  by (auto simp: row_to_record_def decode_state_def record_of_row_def
      dest: order_state_of_SomeD split: option.splits)

lemma insert_order_state_InrD:
  "insert_order_state r db = Inr db' \<Longrightarrow>
     row_constraints r \<and> row_order_id r \<notin> row_order_id ` set (order_states db) \<and>
     row_idempotency_key r \<notin> row_idempotency_key ` set (order_states db) \<and>
     db' = db\<lparr>order_states := order_states db @ [r], orders := insert_or_replace_order r (orders db)\<rparr>"
  by (auto simp: insert_order_state_def split: if_splits)

text \<open>What \<open>insert_event\<close> adds.\<close>

definition event_for :: "string \<Rightarrow> string \<Rightarrow> string option \<Rightarrow> string \<Rightarrow> string option \<Rightarrow> string option \<Rightarrow> pyfloat \<Rightarrow> pyfloat
   \<Rightarrow> order_db \<Rightarrow> event_row" where
  "event_for oid idem from to reason broker now qty db =
     \<lparr>ev_id = Suc (last_event_id db), ev_order_id = oid, ev_idempotency_key = idem,
      ev_from_state = from, ev_to_state = to, ev_reason = reason,
      ev_broker_order_id = broker, ev_filled_qty = sql_real (Some qty), ev_created_at = now\<rparr>"

lemma event_for_simps [simp]:
  "ev_id (event_for oid idem from to reason broker now qty db) = Suc (last_event_id db)"
  "ev_order_id (event_for oid idem from to reason broker now qty db) = oid"
  "ev_idempotency_key (event_for oid idem from to reason broker now qty db) = idem"
  "ev_from_state (event_for oid idem from to reason broker now qty db) = from"
  "ev_to_state (event_for oid idem from to reason broker now qty db) = to"
  by (simp_all add: event_for_def)

lemma insert_event_InrD:
  "insert_event oid idem from to reason broker now qty db = Inr db' \<Longrightarrow>
     db' = db\<lparr>order_state_events := order_state_events db @ [event_for oid idem from to reason broker now qty db],
              last_event_id := Suc (last_event_id db)\<rparr>"
  by (auto simp: insert_event_def event_for_def split: if_splits)

lemma update_order_state_InrD:
  assumes upd: "update_order_state (row_order_id r) f db = Inr db'" and ok: "db_ok db"
    and r: "r \<in> set (order_states db)" and f: "\<And>x. row_order_id (f x) = row_order_id x"
  shows "row_constraints (f r) \<and>
    db' = db\<lparr>order_states := map (\<lambda>x. if row_order_id x = row_order_id r then f r else x) (order_states db),
             orders := insert_or_replace_order (f r) (orders db)\<rparr>"
proof -
  let ?g = "\<lambda>x. if row_order_id x = row_order_id r then f x else x"
  have one: "filter (\<lambda>x. row_order_id x = row_order_id r) (order_states db) = [r]"
    using db_okD(1) [OF ok] r by (rule filter_distinct_key)
  have g: "row_order_id (?g x) = row_order_id x" for x using f by simp
  have "filter (\<lambda>x. row_order_id x = row_order_id r) (map ?g (order_states db)) =
      map ?g (filter (\<lambda>x. row_order_id x = row_order_id r) (order_states db))"
    unfolding filter_map o_def by (simp only: g)
  then have changed: "filter (\<lambda>x. row_order_id x = row_order_id r) (map ?g (order_states db)) = [f r]"
    by (simp add: one)
  have "map ?g (order_states db) =
      map (\<lambda>x. if row_order_id x = row_order_id r then f r else x) (order_states db)"
    using db_ok_rows_inj [OF ok _ r] by auto
  with upd changed show ?thesis
    by (auto simp: update_order_state_def Let_def split: if_splits)
qed

lemma new_order_row_simps [simp]:
  "row_order_id (new_order_row q clock) = strip (cr_order_id q)"
  "row_idempotency_key (new_order_row q clock) = strip (cr_idempotency_key q)"
  "row_state (new_order_row q clock) = state_value NEW"
  by (simp_all add: new_order_row_def Let_def)

lemma create_or_get_order_cases:
  assumes ok: "db_ok db" and res: "create_or_get_order q clock db = Inr (rec, new, db')"
  obtains (found) r s where "\<not> new" "db' = db" "r \<in> set (order_states db)"
      "row_idempotency_key r = strip (cr_idempotency_key q)" "row_state r = state_value s" "rec = record_of_row r s"
  | (created) e where "new" "db' = commit_new (new_order_row q clock) e db"
      "row_constraints (new_order_row q clock)"
      "strip (cr_order_id q) \<notin> row_order_id ` set (order_states db)"
      "strip (cr_idempotency_key q) \<notin> row_idempotency_key ` set (order_states db)"
      "ev_id e = Suc (last_event_id db)" "ev_order_id e = strip (cr_order_id q)"
      "ev_idempotency_key e = strip (cr_idempotency_key q)" "ev_from_state e = None" "ev_to_state e = state_value NEW"
      "rec = record_of_row (new_order_row q clock) NEW"
proof -
  let ?oid = "strip (cr_order_id q)" and ?idem = "strip (cr_idempotency_key q)" and ?r = "new_order_row q clock"
  show thesis
  proof (cases "select_by_order_id ?oid db")
    case (Some r)
    with ok have r: "r \<in> set (order_states db)" by (simp add: select_by_order_id_iff)
    from res Some show thesis
      by (auto simp: create_or_get_order_def Let_def dest!: row_to_record_SomeD split: if_splits
          intro: found [OF _ _ r])
  next
    case None
    note no_id = this
    show thesis
    proof (cases "select_by_idempotency_key ?idem db")
      case (Some r)
      from res no_id Some show thesis
        by (auto simp: create_or_get_order_def Let_def dest!: row_to_record_SomeD
            dest: select_by_idempotency_key_SomeD split: if_splits intro!: found)
    next
      case None
      from res no_id None obtain db1 out where db1: "insert_order_state ?r db = Inr db1"
        and db2: "insert_event ?oid ?idem None (state_value NEW) (Some ''order_created'') (cr_broker_order_id q)
            (row_created_at ?r) (row_filled_qty ?r) db1 = Inr db'"
        and out: "row_to_record (select_by_order_id ?oid db') = Inr out" "rec = the out" and new
        by (auto simp: create_or_get_order_def Let_def split: if_splits)
      note i = insert_order_state_InrD [OF db1] and e = insert_event_InrD [OF db2]
      let ?e = "event_for ?oid ?idem None (state_value NEW) (Some ''order_created'') (cr_broker_order_id q)
          (row_created_at ?r) (row_filled_qty ?r) db"
      from i e have db': "db' = commit_new ?r ?e db"
        by (simp add: commit_new_def event_for_def)
      have "db_ok db'"
        unfolding db' using i by (intro db_ok_commit_new ok) auto
      then have "select_by_order_id ?oid db' = Some ?r"
        by (simp add: select_by_order_id_iff db')
      with out have "rec = record_of_row ?r NEW"
        by (auto simp: row_to_record_Some [OF new_order_row_simps(3)])
      with i db' \<open>new\<close> show thesis by (intro created [of ?e]) auto
    qed
  qed
qed

text \<open>Both kinds of rewriting an order: a change of state, and an update of the filled quantity.\<close>

lemma update_commit:
  assumes ok: "db_ok db" and r: "r \<in> set (order_states db)" "row_state r = state_value s"
    and upd: "update_order_state (row_order_id r) f db = Inr db1"
    and ev: "insert_event (row_order_id r) (row_idempotency_key r) (Some (state_value s)) (state_value t)
        reason broker now qty db1 = Inr db2"
    and f: "\<And>x. row_order_id (f x) = row_order_id x" "\<And>x. row_idempotency_key (f x) = row_idempotency_key x"
    and t: "row_state (f r) = state_value t" "t = s \<or> t \<in> set (valid_transitions s)"
  shows "db_ok db2 \<and> select_by_order_id (row_order_id r) db2 = Some (f r) \<and>
    (\<exists>e. db2 = commit_update r (f r) e db \<and> ev_order_id e = row_order_id r \<and>
         ev_from_state e = Some (state_value s) \<and> ev_to_state e = state_value t)"
proof -
  let ?e = "event_for (row_order_id r) (row_idempotency_key r) (Some (state_value s)) (state_value t)
      reason broker now qty db"
  have u: "row_constraints (f r)" "db1 = db\<lparr>order_states := map (\<lambda>x. if row_order_id x = row_order_id r then f r else x) (order_states db),
      orders := insert_or_replace_order (f r) (orders db)\<rparr>"
    using update_order_state_InrD [OF upd ok r(1) f(1)] by auto
  have db2: "db2 = commit_update r (f r) ?e db"
    using insert_event_InrD [OF ev] u(2) by (simp add: commit_update_def event_for_def)
  have ok2: "db_ok db2"
    unfolding db2 using u r t f ok by (intro db_ok_commit_update) (auto simp: event_allowed_def)
  moreover have "select_by_order_id (row_order_id r) db2 = Some (f r)"
    using ok2 r f by (auto simp: select_by_order_id_iff db2 image_iff)
  moreover note db2
  ultimately show ?thesis by (metis event_for_simps(2,4,5))
qed

lemma select_decoded:
  assumes "db_ok db" "select_by_order_id oid db = Some r"
  obtains s where "r \<in> set (order_states db)" "row_order_id r = oid" "row_state r = state_value s"
    "row_to_record (Some r) = Inr (Some (record_of_row r s))"
  using assms row_state_decodes [OF db_okD(3), OF assms(1), of r] row_to_record_Some
  by (auto simp: select_by_order_id_iff)

definition transition_row :: "transition_request \<Rightarrow> order_state \<Rightarrow> pyfloat \<Rightarrow> order_row \<Rightarrow> order_row" where
  "transition_row q t now r =
     r\<lparr>row_state := state_value t, row_updated_at := now,
       row_broker_order_id := (case tr_broker_order_id q of Some b \<Rightarrow> Some b | None \<Rightarrow> row_broker_order_id r),
       row_filled_qty := clamp_qty (case tr_filled_qty q of Some x \<Rightarrow> x | None \<Rightarrow> row_filled_qty r),
       row_avg_fill_price := sql_real (case tr_avg_fill_price q of Some x \<Rightarrow> Some x | None \<Rightarrow> row_avg_fill_price r)\<rparr>"

lemma transition_row_simps [simp]:
  "row_order_id (transition_row q t now r) = row_order_id r"
  "row_idempotency_key (transition_row q t now r) = row_idempotency_key r"
  "row_state (transition_row q t now r) = state_value t"
  by (simp_all add: transition_row_def)

lemma transition_cases:
  assumes ok: "db_ok db" and res: "transition q clock db = Inr (rec, db')"
  obtains r s t now e where "r \<in> set (order_states db)" "row_order_id r = strip (tr_order_id q)"
    "row_state r = state_value s" "coerce_state (tr_next_state q) = Inr t" "t \<in> set (valid_transitions s)"
    "now = (case tr_now_epoch q of Some x \<Rightarrow> x | None \<Rightarrow> clock)"
    "db' = commit_update r (transition_row q t now r) e db" "db_ok db'"
    "ev_from_state e = Some (state_value s)" "ev_to_state e = state_value t" "ev_order_id e = row_order_id r"
    "rec = record_of_row (transition_row q t now r) t"
proof (cases "select_by_order_id (strip (tr_order_id q)) db")
  case None
  with res show thesis by (auto simp: transition_def Let_def split: if_splits)
next
  let ?oid = "strip (tr_order_id q)" and ?now = "case tr_now_epoch q of Some x \<Rightarrow> x | None \<Rightarrow> clock"
  case (Some r)
  with ok obtain s where r: "r \<in> set (order_states db)" "row_order_id r = ?oid" "row_state r = state_value s"
    and dec: "row_to_record (Some r) = Inr (Some (record_of_row r s))"
    by (rule select_decoded)
  let ?f = "\<lambda>t x. x\<lparr>row_state := state_value t, row_updated_at := ?now,
       row_broker_order_id := (case tr_broker_order_id q of Some b \<Rightarrow> Some b | None \<Rightarrow> row_broker_order_id r),
       row_filled_qty := clamp_qty (case tr_filled_qty q of Some x \<Rightarrow> x | None \<Rightarrow> row_filled_qty r),
       row_avg_fill_price := sql_real (case tr_avg_fill_price q of Some x \<Rightarrow> Some x | None \<Rightarrow> row_avg_fill_price r)\<rparr>"
  from res Some dec obtain t db1 out where t: "coerce_state (tr_next_state q) = Inr t"
    and valid: "t \<in> set (valid_transitions s)"
    and db1: "update_order_state ?oid (?f t) db = Inr db1"
    and ev: "insert_event (row_order_id r) (row_idempotency_key r) (Some (state_value s)) (state_value t) (tr_reason q)
        (case tr_broker_order_id q of Some b \<Rightarrow> Some b | None \<Rightarrow> row_broker_order_id r) ?now
        (clamp_qty (case tr_filled_qty q of Some x \<Rightarrow> x | None \<Rightarrow> row_filled_qty r)) db1 = Inr db'"
    and out: "row_to_record (select_by_order_id ?oid db') = Inr out" "rec = the out"
    by (simp add: transition_def Let_def cong: option.case_cong split: if_splits) blast
  have fr: "?f t r = transition_row q t ?now r" by (simp add: transition_row_def)
  have c: "db_ok db' \<and> select_by_order_id (row_order_id r) db' = Some (?f t r) \<and>
      (\<exists>e. db' = commit_update r (?f t r) e db \<and> ev_order_id e = row_order_id r \<and>
         ev_from_state e = Some (state_value s) \<and> ev_to_state e = state_value t)"
    by (rule update_commit [OF ok r(1,3) db1 [folded r(2)] ev]) (simp_all add: valid)
  then have "rec = record_of_row (transition_row q t ?now r) t"
    using out r(2) row_to_record_Some [OF transition_row_simps(3), of q t ?now r] by (auto simp: fr)
  with r t valid c that show thesis unfolding fr by blast
qed

definition fill_row :: "pyfloat \<Rightarrow> pyfloat \<Rightarrow> order_row \<Rightarrow> order_row" where
  "fill_row qty now r = r\<lparr>row_filled_qty := qty, row_updated_at := now\<rparr>"

lemma fill_row_simps [simp]:
  "row_order_id (fill_row qty now r) = row_order_id r"
  "row_idempotency_key (fill_row qty now r) = row_idempotency_key r"
  "row_state (fill_row qty now r) = row_state r"
  "row_filled_qty (fill_row qty now r) = qty"
  by (simp_all add: fill_row_def)

lemma set_filled_quantity_cases:
  assumes ok: "db_ok db" and res: "set_filled_quantity order_id filled reason now_epoch clock db = Inr (rec, db')"
  obtains (same) r s where "r \<in> set (order_states db)" "row_order_id r = strip order_id"
      "row_state r = state_value s" "rec = record_of_row r s" "db' = db"
  | (updated) r s now e where "r \<in> set (order_states db)" "row_order_id r = strip order_id"
      "row_state r = state_value s" "db' = commit_update r (fill_row (clamp_qty filled) now r) e db" "db_ok db'"
      "ev_from_state e = Some (state_value s)" "ev_to_state e = state_value s" "ev_order_id e = row_order_id r"
      "rec = record_of_row (fill_row (clamp_qty filled) now r) s"
proof (cases "select_by_order_id (strip order_id) db")
  case None
  with res show thesis by (auto simp: set_filled_quantity_def Let_def split: if_splits)
next
  let ?oid = "strip order_id" and ?now = "case now_epoch of Some x \<Rightarrow> x | None \<Rightarrow> clock"
  let ?f = "\<lambda>x. x\<lparr>row_filled_qty := clamp_qty filled, row_updated_at := ?now\<rparr>"
  case (Some r)
  with ok obtain s where r: "r \<in> set (order_states db)" "row_order_id r = ?oid" "row_state r = state_value s"
    and dec: "row_to_record (Some r) = Inr (Some (record_of_row r s))"
    by (rule select_decoded)
  show thesis
  proof (cases "float_lt (float_abs (float_sub (row_filled_qty r) (clamp_qty filled))) fill_tolerance")
    case True
    with res Some dec have "rec = record_of_row r s" "db' = db"
      by (simp_all add: set_filled_quantity_def Let_def split: if_splits)
    with r show thesis by (rule same)
  next
    case False
    with res Some dec obtain reason' db1 out where db1: "update_order_state ?oid ?f db = Inr db1"
      and ev: "insert_event (row_order_id r) (row_idempotency_key r) (Some (state_value s)) (state_value s) reason'
          (row_broker_order_id r) ?now (clamp_qty filled) db1 = Inr db'"
      and out: "row_to_record (select_by_order_id ?oid db') = Inr out" "rec = the out"
      by (simp add: set_filled_quantity_def Let_def split: if_splits) blast
    have fr: "?f r = fill_row (clamp_qty filled) ?now r" by (simp add: fill_row_def)
    have c: "db_ok db' \<and> select_by_order_id (row_order_id r) db' = Some (?f r) \<and>
      (\<exists>e. db' = commit_update r (?f r) e db \<and> ev_order_id e = row_order_id r \<and>
         ev_from_state e = Some (state_value s) \<and> ev_to_state e = state_value s)"
      by (rule update_commit [OF ok r(1,3) db1 [folded r(2)] ev]) (simp_all add: r(3))
    then have "rec = record_of_row (fill_row (clamp_qty filled) ?now r) s"
      using out r(2,3) row_to_record_Some [of "fill_row (clamp_qty filled) ?now r" s] by (auto simp: fr)
    with r c updated show thesis unfolding fr by blast
  qed
qed

section \<open>Executions\<close>

text \<open>A call that commits; reopening the file runs \<open>_init_db\<close> again.\<close>

inductive order_step :: "order_db \<Rightarrow> order_db \<Rightarrow> bool" where
  create: "create_or_get_order q clock db = Inr (rec, new, db') \<Longrightarrow> order_step db db'"
| move: "transition tq clock db = Inr (rec, db') \<Longrightarrow> order_step db db'"
| fill: "set_filled_quantity order_id qty reason now_epoch clock db = Inr (rec, db') \<Longrightarrow> order_step db db'"
| reopen: "order_step db (init_db db)"

inductive_cases order_stepE: "order_step db db'"

definition stored_state :: "order_db \<Rightarrow> string \<Rightarrow> order_state option" where
  "stored_state db oid =
     (case select_by_order_id oid db of None \<Rightarrow> None | Some r \<Rightarrow> order_state_of (row_state r))"

lemma init_db_mirror:
  assumes "distinct (map row_order_id os)" "set rs \<subseteq> set os"
    and inj: "\<And>x y. x \<in> set os \<Longrightarrow> y \<in> set os \<Longrightarrow>
      row_order_id x = row_order_id y \<or> row_idempotency_key x = row_idempotency_key y \<Longrightarrow> x = y"
  shows "set (fold insert_or_replace_order rs os) = set os \<and>
    distinct (map row_order_id (fold insert_or_replace_order rs os))"
  using assms
proof (induction rs arbitrary: os)
  case (Cons r rs)
  have same: "set (insert_or_replace_order r os) = set os"
    using Cons.prems by (auto simp: set_insert_or_replace)
  show ?case
    using Cons.IH [of "insert_or_replace_order r os"] Cons.prems distinct_insert_or_replace
    by (simp add: same)
qed simp

lemma db_ok_init_db:
  assumes ok: "db_ok db" shows "db_ok (init_db db)"
proof -
  note os = db_okD(5) [OF ok]
  have "set (fold insert_or_replace_order (order_states db) (orders db)) = set (orders db) \<and>
      distinct (map row_order_id (fold insert_or_replace_order (order_states db) (orders db)))"
    by (rule init_db_mirror) (use db_okD(6) [OF ok] os db_ok_rows_inj [OF ok] in auto)
  with ok os show ?thesis
    by (intro db_okI) (auto simp: init_db_def events_of_def dest: db_okD)
qed

lemma order_step_ok: "order_step db db' \<Longrightarrow> db_ok db \<Longrightarrow> db_ok db'"
proof (induction rule: order_step.induct)
  case (create q clock db rec new db')
  from create(2,1) show ?case
    by (cases rule: create_or_get_order_cases) (use create(2) in \<open>auto intro: db_ok_commit_new\<close>)
next
  case (move tq clock db rec db')
  from move(2,1) show ?case by (rule transition_cases)
next
  case (fill order_id qty reason now_epoch clock db rec db')
  from fill(2,1) show ?case by (rule set_filled_quantity_cases) (use fill(2) in auto)
next
  case (reopen db)
  then show ?case by (rule db_ok_init_db)
qed

lemma stored_state_iff:
  assumes "db_ok db"
  shows "stored_state db oid = Some s \<longleftrightarrow>
    (\<exists>r \<in> set (order_states db). row_order_id r = oid \<and> row_state r = state_value s)"
proof
  assume "stored_state db oid = Some s"
  then show "\<exists>r \<in> set (order_states db). row_order_id r = oid \<and> row_state r = state_value s"
    using assms by (auto simp: stored_state_def select_by_order_id_iff
        dest: order_state_of_SomeD split: option.splits)
next
  assume "\<exists>r \<in> set (order_states db). row_order_id r = oid \<and> row_state r = state_value s"
  then obtain r where "select_by_order_id oid db = Some r" "row_state r = state_value s"
    using assms by (auto simp: select_by_order_id_iff)
  then show "stored_state db oid = Some s" by (simp add: stored_state_def)
qed

lemma stored_state_commit_update:
  assumes ok: "db_ok db" and ok': "db_ok (commit_update r r' e db)" and r: "r \<in> set (order_states db)"
    and r': "row_order_id r' = row_order_id r" "row_state r' = state_value t"
  shows "stored_state (commit_update r r' e db) k =
    (if k = row_order_id r then Some t else stored_state db k)"
proof (cases "k = row_order_id r")
  case True
  then have "select_by_order_id k (commit_update r r' e db) = Some r'"
    using r r' by (auto simp: select_by_order_id_iff [OF ok'] image_iff)
  with True r' show ?thesis by (simp add: stored_state_def)
next
  case False
  have "select_by_order_id k (commit_update r r' e db) = select_by_order_id k db"
  proof (cases "select_by_order_id k db")
    case None
    with False r' have "select_by_order_id k (commit_update r r' e db) = None"
      by (auto simp: select_by_order_id_None)
    with None show ?thesis by simp
  next
    case (Some x)
    then have "x \<in> set (order_states db)" "row_order_id x = k"
      by (simp_all add: select_by_order_id_iff [OF ok])
    with False have "x \<in> set (order_states (commit_update r r' e db))" by (force simp: image_iff)
    with Some \<open>row_order_id x = k\<close> show ?thesis by (simp add: select_by_order_id_iff [OF ok'])
  qed
  with False show ?thesis by (simp add: stored_state_def)
qed

lemma order_step_allowed:
  assumes "order_step db db'" "db_ok db" "stored_state db k = Some s"
  shows "\<exists>s'. stored_state db' k = Some s' \<and> (s' = s \<or> s' \<in> set (valid_transitions s))"
  using assms
proof (induction rule: order_step.induct)
  case (create q clock db rec new db')
  have "db_ok db'" using order_step.create [OF create(1)] create(2) by (rule order_step_ok)
  from create(2,1) show ?case
    by (cases rule: create_or_get_order_cases)
      (use create(2,3) \<open>db_ok db'\<close> in \<open>auto simp: stored_state_iff\<close>)
next
  case (move tq clock db rec db')
  from move(2,1) show ?case
  proof (rule transition_cases)
    fix r s0 t now e
    assume a: "r \<in> set (order_states db)" "row_state r = state_value s0" "t \<in> set (valid_transitions s0)"
      "db' = commit_update r (transition_row tq t now r) e db" "db_ok db'"
    have "stored_state db (row_order_id r) = Some s0" using a move(2) by (auto simp: stored_state_iff)
    with a move(2,3) show ?case by (auto simp: stored_state_commit_update)
  qed
next
  case (fill order_id qty reason now_epoch clock db rec db')
  from fill(2,1) show ?case
  proof (rule set_filled_quantity_cases)
    assume "db' = db" with fill show ?case by auto
  next
    fix r s0 now e
    assume a: "r \<in> set (order_states db)" "row_state r = state_value s0"
      "db' = commit_update r (fill_row (clamp_qty qty) now r) e db" "db_ok db'"
    have "stored_state db (row_order_id r) = Some s0" using a fill(2) by (auto simp: stored_state_iff)
    with a fill(2,3) show ?case by (auto simp: stored_state_commit_update)
  qed
next
  case (reopen db)
  then show ?case by (auto simp: stored_state_def init_db_def select_by_order_id_def)
qed

interpretation order_store: stored_machine
  "\<lambda>s t. t \<in> set (valid_transitions s)"
  "\<lambda>s. s \<in> set iter_terminal_states"
  "\<lambda>s. case s of NEW \<Rightarrow> 0 | SENT \<Rightarrow> 1 | ACKNOWLEDGED \<Rightarrow> 2 | PARTIAL \<Rightarrow> 3 | _ \<Rightarrow> 4"
  db_ok stored_state order_step
  by unfold_locales (auto intro: order_step_ok order_step_allowed)

section \<open>Properties\<close>

lemmas reachable_ok = order_store.steps_good [OF _ db_ok_empty]

text \<open>
  C1. In every database that the operations can produce from a fresh file: order ids and
  idempotency keys are unique, the \<open>orders\<close> table holds exactly the rows of
  \<open>order_states\<close>, event ids increase, and the events of each order are a gap-free
  audit trail that starts with its creation in NEW, records only changes the state
  machine allows (or fill updates), and ends in the state stored for the order.
\<close>

theorem reachable_orders_audited:
  assumes "order_step\<^sup>*\<^sup>* empty_db db"
  shows "distinct (map row_order_id (order_states db)) \<and>
    distinct (map row_idempotency_key (order_states db)) \<and>
    set (orders db) = set (order_states db) \<and>
    sorted_wrt (<) (map ev_id (order_state_events db)) \<and>
    (\<forall>r \<in> set (order_states db). audit_trail (events_of (row_order_id r) db) (row_state r))"
  using db_okD [OF reachable_ok [OF assms]] by blast

definition demo_request :: create_request where
  "demo_request =
     \<lparr>cr_order_id = ''o1'', cr_idempotency_key = ''k1'', cr_instrument = None, cr_side = Some ''buy'',
      cr_quantity = Some (Fin 75), cr_broker_order_id = None, cr_filled_qty = None,
      cr_avg_fill_price = None, cr_now_epoch = Some (Fin 1)\<rparr>"

definition demo_move :: "order_state \<Rightarrow> transition_request" where
  "demo_move t =
     \<lparr>tr_order_id = ''o1'', tr_next_state = StateEnum t, tr_broker_order_id = None, tr_reason = None,
      tr_filled_qty = None, tr_avg_fill_price = None, tr_now_epoch = Some (Fin 2)\<rparr>"

text \<open>A database with one order, and the same after it was sent and rejected.\<close>

definition demo_db :: order_db where
  "demo_db = (case create_or_get_order demo_request (Fin 0) empty_db of Inr (_, _, db) \<Rightarrow> db | Inl _ \<Rightarrow> empty_db)"

definition demo_moved :: "order_state \<Rightarrow> order_db \<Rightarrow> order_db" where
  "demo_moved t db = (case transition (demo_move t) (Fin 0) db of Inr (_, db') \<Rightarrow> db' | Inl _ \<Rightarrow> db)"

lemma demo_reachable: "order_step\<^sup>*\<^sup>* empty_db demo_db"
  by (auto simp: demo_db_def split: sum.splits intro: order_step.create)

lemma demo_moved_reachable: "order_step\<^sup>*\<^sup>* db (demo_moved t db)"
  by (auto simp: demo_moved_def split: sum.splits intro: order_step.move)

lemma demo_moved_state: "stored_state (demo_moved REJECTED (demo_moved SENT demo_db)) ''o1'' = Some REJECTED"
  by code_simp

theorem reachable_orders_audited_witness:
  "\<exists>db. order_states db \<noteq> [] \<and> set (orders db) = set (order_states db) \<and>
     (\<forall>r \<in> set (order_states db). audit_trail (events_of (row_order_id r) db) (row_state r))"
proof -
  let ?db = "demo_moved REJECTED (demo_moved SENT demo_db)"
  have "order_step\<^sup>*\<^sup>* empty_db ?db"
    using demo_reachable demo_moved_reachable by (meson rtranclp_trans)
  moreover have "order_states ?db \<noteq> []" by code_simp
  ultimately show ?thesis using reachable_orders_audited [of ?db] by blast
qed

text \<open>
  C2. An order that is FILLED, REJECTED, CANCELLED or EXPIRED in a reachable database
  keeps that state whatever calls follow.
\<close>

theorem terminal_order_is_final:
  assumes "order_step\<^sup>*\<^sup>* empty_db db" and "stored_state db oid = Some s" and "s \<in> set iter_terminal_states"
    and "order_step\<^sup>*\<^sup>* db db'"
  shows "stored_state db' oid = Some s"
  using assms(4) reachable_ok [OF assms(1)] assms(2,3) by (rule order_store.terminal_forever)

theorem terminal_order_is_final_witness:
  "stored_state (demo_moved FILLED (demo_moved REJECTED (demo_moved SENT demo_db))) ''o1'' = Some REJECTED"
proof (rule terminal_order_is_final)
  show "order_step\<^sup>*\<^sup>* empty_db (demo_moved REJECTED (demo_moved SENT demo_db))"
    using demo_reachable demo_moved_reachable by (meson rtranclp_trans)
  show "REJECTED \<in> set iter_terminal_states" by (simp add: iter_terminal_states_def)
qed (rule demo_moved_state demo_moved_reachable)+

text \<open>
  C6. \<open>create_or_get_order\<close> is idempotent on the idempotency key: after a successful call, a
  retry with the same key and either the same or an unused order id returns the order of
  the first call, reports that nothing was created and leaves the database as it is.
\<close>

theorem create_or_get_order_idempotent:
  assumes "order_step\<^sup>*\<^sup>* empty_db db" and first: "create_or_get_order q clock db = Inr (rec, new, db')"
    and key: "strip (cr_idempotency_key q') = strip (cr_idempotency_key q)"
    and ids: "strip (cr_order_id q') \<noteq> []"
      "strip (cr_order_id q') = rec_order_id rec \<or> strip (cr_order_id q') \<notin> row_order_id ` set (order_states db')"
  shows "create_or_get_order q' clock' db' = Inr (rec, False, db')"
proof -
  have ok: "db_ok db" using assms(1) by (rule reachable_ok)
  then have ok': "db_ok db'" using first by (blast intro: order_step_ok order_step.create)
  have "strip (cr_idempotency_key q) \<noteq> []"
    using first by (auto simp: create_or_get_order_def Let_def split: if_splits)
  moreover obtain r s where r: "r \<in> set (order_states db')" "row_idempotency_key r = strip (cr_idempotency_key q)"
      "row_state r = state_value s" "rec = record_of_row r s"
    using ok first
    by (cases rule: create_or_get_order_cases) (auto simp del: state_value.simps, metis new_order_row_simps(2,3))
  moreover from r have "select_by_order_id (row_order_id r) db' = Some r"
      "select_by_idempotency_key (strip (cr_idempotency_key q)) db' = Some r"
    using ok' by (simp_all add: select_by_order_id_iff select_by_idempotency_key_iff)
  moreover have "strip (cr_order_id q') \<noteq> row_order_id r \<Longrightarrow> select_by_order_id (strip (cr_order_id q')) db' = None"
    using ids(2) r(4) by (simp add: select_by_order_id_None)
  ultimately show ?thesis
    using key ids(1) row_to_record_Some [of r s]
    by (cases "strip (cr_order_id q') = row_order_id r") (simp_all add: create_or_get_order_def Let_def)
qed

theorem create_or_get_order_idempotent_witness:
  "\<exists>rec db. create_or_get_order demo_request (Fin 9) db = Inr (rec, False, db)"
proof -
  have "\<not> isl (create_or_get_order demo_request (Fin 0) empty_db)" by code_simp
  then obtain rec new db where first: "create_or_get_order demo_request (Fin 0) empty_db = Inr (rec, new, db)"
    by (cases "create_or_get_order demo_request (Fin 0) empty_db") auto
  have "rec_order_id rec = strip (cr_order_id demo_request)"
    using db_ok_empty first by (cases rule: create_or_get_order_cases) (auto simp: empty_db_def)
  moreover have "strip (cr_order_id demo_request) \<noteq> []" by code_simp
  ultimately have "create_or_get_order demo_request (Fin 9) db = Inr (rec, False, db)"
    using create_or_get_order_idempotent [OF rtranclp.rtrancl_refl first refl, of "Fin 9"] by simp
  then show ?thesis by blast
qed

lemma transition_illegal:
  assumes "select_by_order_id (strip (tr_order_id q)) db = Some r"
    and "row_to_record (Some r) = Inr (Some (record_of_row r s))"
    and "coerce_state (tr_next_state q) = Inr t" "t \<notin> set (valid_transitions s)" "strip (tr_order_id q) \<noteq> []"
  shows "transition q clock db = Inl (OrderStateTransitionError s t)"
  using assms by (simp add: transition_def Let_def validate_transition_Inl)

lemma clamp_qty_not_NaN: "x \<noteq> NaN \<Longrightarrow> clamp_qty x \<noteq> NaN"
  by (simp add: clamp_qty_def)

lemma transition_legal:
  assumes ok: "db_ok db" and sel: "select_by_order_id (strip (tr_order_id q)) db = Some r"
    and dec: "row_to_record (Some r) = Inr (Some (record_of_row r s))"
    and t: "coerce_state (tr_next_state q) = Inr t" "t \<in> set (valid_transitions s)" "strip (tr_order_id q) \<noteq> []"
    and nums: "(case tr_now_epoch q of Some x \<Rightarrow> x | None \<Rightarrow> clock) \<noteq> NaN" "tr_filled_qty q \<noteq> Some NaN"
  shows "\<not> isl (transition q clock db)"
proof -
  let ?now = "case tr_now_epoch q of Some x \<Rightarrow> x | None \<Rightarrow> clock"
  let ?f = "\<lambda>x. x\<lparr>row_state := state_value t, row_updated_at := ?now,
       row_broker_order_id := (case tr_broker_order_id q of Some b \<Rightarrow> Some b | None \<Rightarrow> row_broker_order_id r),
       row_filled_qty := clamp_qty (case tr_filled_qty q of Some x \<Rightarrow> x | None \<Rightarrow> row_filled_qty r),
       row_avg_fill_price := sql_real (case tr_avg_fill_price q of Some x \<Rightarrow> Some x | None \<Rightarrow> row_avg_fill_price r)\<rparr>"
  have r: "r \<in> set (order_states db)" "row_order_id r = strip (tr_order_id q)"
    using ok sel by (simp_all add: select_by_order_id_iff)
  have st: "row_state r = state_value s"
    using row_to_record_SomeD [OF dec] by (auto simp: record_of_row_def)
  have "(case tr_filled_qty q of Some x \<Rightarrow> x | None \<Rightarrow> row_filled_qty r) \<noteq> NaN"
    using nums(2) db_okD(3) [OF ok r(1)] by (auto simp: row_constraints_def split: option.splits)
  then have c: "row_constraints (?f x)" if "x \<in> set (order_states db)" for x
    using nums(1) db_okD(3) [OF ok that] clamp_qty_not_NaN in_state_values [of t]
    by (simp add: row_constraints_def del: set_map)
  then have upd: "\<not> isl (update_order_state (strip (tr_order_id q)) ?f db)"
    by (auto simp: update_order_state_def Let_def list_all_iff)
  then obtain db1 where db1: "update_order_state (strip (tr_order_id q)) ?f db = Inr db1"
    by (cases "update_order_state (strip (tr_order_id q)) ?f db") auto
  have ev: "insert_event oid idem from (state_value t) reason broker ?now qty db1 =
      Inr (db1\<lparr>order_state_events := order_state_events db1 @ [event_for oid idem from (state_value t) reason broker ?now qty db1],
               last_event_id := Suc (last_event_id db1)\<rparr>)" for oid idem "from" reason broker qty
    using nums(1) in_state_values [of t] by (simp add: insert_event_def event_for_def del: set_map)
  have ev0: "insert_event (row_order_id r) (row_idempotency_key r) (Some (state_value s)) (state_value t) reason broker ?now qty db1 = Inr db2 \<Longrightarrow>
      \<not> isl (row_to_record (select_by_order_id (strip (tr_order_id q)) db2))" for reason broker qty db2
  proof -
    assume "insert_event (row_order_id r) (row_idempotency_key r) (Some (state_value s)) (state_value t) reason broker ?now qty db1 = Inr db2"
    from update_commit [OF ok r(1) st db1 [folded r(2)] this]
    have "select_by_order_id (row_order_id r) db2 = Some (?f r)"
      using t(2) by simp
    then show ?thesis using r(2) row_to_record_Some [of "?f r" t] by simp
  qed
  let ?broker = "case tr_broker_order_id q of Some b \<Rightarrow> Some b | None \<Rightarrow> row_broker_order_id r"
  let ?qty = "clamp_qty (case tr_filled_qty q of Some x \<Rightarrow> x | None \<Rightarrow> row_filled_qty r)"
  obtain db2 where ev2: "insert_event (row_order_id r) (row_idempotency_key r) (Some (state_value s))
      (state_value t) (tr_reason q) ?broker ?now ?qty db1 = Inr db2"
    using ev by blast
  from ev0 [OF this] obtain out where "row_to_record (select_by_order_id (strip (tr_order_id q)) db2) = Inr out"
    by (cases "row_to_record (select_by_order_id (strip (tr_order_id q)) db2)") auto
  with sel dec t db1 ev2 show ?thesis
    by (simp add: transition_def Let_def validate_transition_Inr [THEN iffD2] cong: option.case_cong)
qed

text \<open>
  C5. \<open>transition\<close> on a stored order, with a target that can be read and no NaN among the
  numbers: it raises \<open>OrderStateTransitionError\<close> with both states exactly when the change
  is illegal (an error commits nothing); otherwise the order is in the target state
  afterwards, exactly one event, from the old to the new state, is appended to its
  history, and no other order changes its state or its history.
\<close>

theorem transition_outcome:
  assumes "order_step\<^sup>*\<^sup>* empty_db db" and "strip (tr_order_id q) \<noteq> []"
    and stored: "stored_state db (strip (tr_order_id q)) = Some s" and t: "coerce_state (tr_next_state q) = Inr t"
    and nums: "(case tr_now_epoch q of Some x \<Rightarrow> x | None \<Rightarrow> clock) \<noteq> NaN" "tr_filled_qty q \<noteq> Some NaN"
  shows "(case transition q clock db of
     Inl err \<Rightarrow> t \<notin> set (valid_transitions s) \<and> err = OrderStateTransitionError s t
   | Inr (rec, db') \<Rightarrow>
       t \<in> set (valid_transitions s) \<and> rec_state rec = t \<and> stored_state db' (strip (tr_order_id q)) = Some t \<and>
       (\<exists>e. events_of (strip (tr_order_id q)) db' = events_of (strip (tr_order_id q)) db @ [e] \<and>
            ev_from_state e = Some (state_value s) \<and> ev_to_state e = state_value t) \<and>
       (\<forall>k. k \<noteq> strip (tr_order_id q) \<longrightarrow> stored_state db' k = stored_state db k \<and> events_of k db' = events_of k db))"
proof -
  have ok: "db_ok db" using assms(1) by (rule reachable_ok)
  from stored ok obtain r where r: "r \<in> set (order_states db)" "row_order_id r = strip (tr_order_id q)" "row_state r = state_value s"
    by (auto simp: stored_state_iff)
  with ok have sel: "select_by_order_id (strip (tr_order_id q)) db = Some r" by (simp add: select_by_order_id_iff)
  note dec = row_to_record_Some [OF r(3)]
  show ?thesis
  proof (cases "t \<in> set (valid_transitions s)")
    case False
    with transition_illegal [OF sel dec t] assms(2) show ?thesis by simp
  next
    case True
    from transition_legal [OF ok sel dec t True assms(2) nums]
    obtain rec db' where res: "transition q clock db = Inr (rec, db')" by (cases "transition q clock db") auto
    from ok res show ?thesis
    proof (rule transition_cases)
      fix r' s' t' now e
      assume a: "r' \<in> set (order_states db)" "row_order_id r' = strip (tr_order_id q)" "row_state r' = state_value s'"
        "coerce_state (tr_next_state q) = Inr t'" "db' = commit_update r' (transition_row q t' now r') e db" "db_ok db'"
        "ev_from_state e = Some (state_value s')" "ev_to_state e = state_value t'" "ev_order_id e = row_order_id r'"
        "rec = record_of_row (transition_row q t' now r') t'"
      then have [simp]: "r' = r" "t' = t" "s' = s" using db_ok_rows_inj [OF ok a(1) r(1)] r t by auto
      have "stored_state db' k = (if k = strip (tr_order_id q) then Some t else stored_state db k)" for k
        using a stored_state_commit_update [OF ok _ r(1), of "transition_row q t now r" e t k] by simp
      with True a res show ?thesis by auto
    qed
  qed
qed

theorem transition_outcome_witness:
  "case transition (demo_move PARTIAL) (Fin 5) (demo_moved SENT demo_db) of
     Inl err \<Rightarrow> False | Inr (rec, db') \<Rightarrow> rec_state rec = PARTIAL \<and> stored_state db' ''o1'' = Some PARTIAL"
proof -
  have "order_step\<^sup>*\<^sup>* empty_db (demo_moved SENT demo_db)"
    using demo_reachable demo_moved_reachable by (meson rtranclp_trans)
  moreover have id: "strip (tr_order_id (demo_move PARTIAL)) = ''o1''" by code_simp
  moreover have "stored_state (demo_moved SENT demo_db) ''o1'' = Some SENT" by code_simp
  ultimately show ?thesis
    using transition_outcome [of "demo_moved SENT demo_db" "demo_move PARTIAL" SENT PARTIAL "Fin 5"]
    by (simp add: demo_move_def split: sum.splits prod.splits)
qed

lemma row_to_event_allowed:
  assumes "ev_from_state e = None \<or> (\<exists>s. ev_from_state e = Some (state_value s))"
    and "ev_to_state e = state_value t"
  shows "\<exists>x. row_to_event e = Inr x \<and> se_to_state x = t \<and>
    (\<forall>s. ev_from_state e = Some (state_value s) \<longrightarrow> se_from_state x = Some s)"
  using assms by (auto simp: row_to_event_def decode_state_def)

lemma audit_trail_texts:
  assumes "audit_trail es text" "e \<in> set es"
  shows "(ev_from_state e = None \<or> (\<exists>s. ev_from_state e = Some (state_value s))) \<and> (\<exists>t. ev_to_state e = state_value t)"
proof -
  obtain e0 es' where es: "es = e0 # es'" using assms by (cases es) (auto simp: audit_trail_def)
  with assms show ?thesis
    by (cases "e = e0") (auto simp: audit_trail_def event_allowed_def simp del: state_value.simps)
qed

lemma decoded_chain:
  assumes "audit_trail es text" and "list_all2 (\<lambda>e x. row_to_event e = Inr x) es xs"
  shows "successively (\<lambda>x y. se_from_state y = Some (se_to_state x)) xs"
proof -
  have "successively (\<lambda>a b. ev_from_state b = Some (ev_to_state a)) es"
    using assms(1) by (simp add: audit_trail_def)
  then show ?thesis
    using assms(2) audit_trail_texts [OF assms(1)]
  proof (induction es arbitrary: xs rule: induct_list012)
    case (3 a b es)
    then obtain x y xs' where xs: "xs = x # y # xs'" "row_to_event a = Inr x" "row_to_event b = Inr y"
      by (auto simp: list_all2_Cons1)
    obtain t u where "ev_to_state a = state_value t" "ev_to_state b = state_value u"
      using 3(5) [of a] 3(5) [of b] by auto
    moreover have "ev_from_state b = Some (ev_to_state a)" using 3(3) by simp
    ultimately have "se_from_state y = Some (se_to_state x)"
      using xs row_to_event_allowed [of a t] row_to_event_allowed [of b u] 3(5) [of a] by auto
    moreover have "successively (\<lambda>x y. se_from_state y = Some (se_to_state x)) (y # xs')"
      using 3(2) [of "y # xs'"] 3(3,4,5) xs by auto
    ultimately show ?case using xs by simp
  qed (auto simp: list_all2_Cons1)
qed



text \<open>The events that change the state of an order; fill updates and its creation are none.\<close>

definition state_changes :: "event_row list \<Rightarrow> event_row list" where
  "state_changes es = filter (\<lambda>e. ev_from_state e \<noteq> None \<and> ev_from_state e \<noteq> Some (ev_to_state e)) es"

definition order_rank :: "order_state \<Rightarrow> nat" where
  "order_rank s = (case s of NEW \<Rightarrow> 0 | SENT \<Rightarrow> 1 | ACKNOWLEDGED \<Rightarrow> 2 | PARTIAL \<Rightarrow> 3 | _ \<Rightarrow> 4)"

lemma state_value_eq_iff [simp]: "state_value s = state_value t \<longleftrightarrow> s = t"
  by (metis option.inject order_state_of_value)

text \<open>Each of these events raises the rank of the order.\<close>

lemma audit_trail_rank:
  assumes "audit_trail es final" shows "\<exists>s. final = state_value s \<and> length (state_changes es) \<le> order_rank s"
  using assms
proof (induction es arbitrary: final rule: rev_induct)
  case (snoc e es)
  show ?case
  proof (cases "es = []")
    case True
    with snoc.prems show ?thesis
      by (intro exI [of _ NEW]) (auto simp: audit_trail_def state_changes_def)
  next
    case False
    then have prev: "audit_trail es (ev_to_state (last es))" "ev_from_state e = Some (ev_to_state (last es))"
      "event_allowed e" "final = ev_to_state e"
      using snoc.prems by (auto simp: audit_trail_def successively_append_iff)
    then obtain s where s: "ev_to_state (last es) = state_value s" "length (state_changes es) \<le> order_rank s"
      using snoc.IH by blast
    then obtain t where t: "ev_to_state e = state_value t" "t = s \<or> t \<in> set (valid_transitions s)"
      using prev(2,3) by (auto simp: event_allowed_def)
    have "state_changes (es @ [e]) = state_changes es @ (if t = s then [] else [e])"
      using prev(2) s(1) t(1) by (simp add: state_changes_def)
    moreover have "t \<noteq> s \<Longrightarrow> order_rank s < order_rank t"
      using t(2) order_lifecycle.allowed_rank [of t s] by (auto simp: order_rank_def)
    ultimately have "length (state_changes (es @ [e])) \<le> order_rank t" using s(2) by (cases "t = s") auto
    with prev(4) t(1) show ?thesis by blast
  qed
qed (simp add: audit_trail_def)

text \<open>
  C20. Every order comes to rest: in a reachable database the audit trail of an order records at
  most four changes of state, however many operations were called, and an order that has made
  four is in a terminal state.
\<close>

theorem order_comes_to_rest:
  assumes "order_step\<^sup>*\<^sup>* empty_db db" "r \<in> set (order_states db)"
  shows "length (state_changes (events_of (row_order_id r) db)) \<le> 4 \<and>
    (length (state_changes (events_of (row_order_id r) db)) = 4 \<longrightarrow> (\<exists>s \<in> set iter_terminal_states. row_state r = state_value s))"
proof -
  obtain s where s: "row_state r = state_value s" "length (state_changes (events_of (row_order_id r) db)) \<le> order_rank s"
    using audit_trail_rank [OF db_okD(4) [OF reachable_ok [OF assms(1)] assms(2)]] by blast
  have "order_rank s \<le> 4" "order_rank s = 4 \<Longrightarrow> s \<in> set iter_terminal_states"
    by (cases s; simp add: order_rank_def iter_terminal_states_def)+
  moreover from this s(2) have "length (state_changes (events_of (row_order_id r) db)) \<le> 4" by linarith
  moreover have "order_rank s = 4" if "length (state_changes (events_of (row_order_id r) db)) = 4"
    using that s(2) \<open>order_rank s \<le> 4\<close> by linarith
  ultimately show ?thesis using s(1) by blast
qed

theorem order_comes_to_rest_witness:
  "\<exists>r \<in> set (order_states (demo_moved REJECTED (demo_moved SENT demo_db))).
     length (state_changes (events_of (row_order_id r) (demo_moved REJECTED (demo_moved SENT demo_db)))) = 2 \<and> 2 \<le> (4 :: nat)"
proof -
  let ?db = "demo_moved REJECTED (demo_moved SENT demo_db)"
  have path: "order_step\<^sup>*\<^sup>* empty_db ?db"
    using demo_reachable demo_moved_reachable by (meson rtranclp_trans)
  have r: "hd (order_states ?db) \<in> set (order_states ?db)" by code_simp
  have two: "length (state_changes (events_of (row_order_id (hd (order_states ?db))) ?db)) = 2" by code_simp
  from order_comes_to_rest [OF path r] have "2 \<le> (4 :: nat)" unfolding two by blast
  with r two show ?thesis by blast
qed

end
