(* ===== verification/Breakers.thy ===== *)
theory Breakers
  imports Py_Value Machines
begin

text \<open>
  src/core/breakers/breaker.py: the rolling error-rate circuit breaker and the suite of
  three breakers that blocks new approvals. A breaker is a record; \<open>observe\<close> and
  \<open>snapshot\<close> return the report and the updated breaker. \<open>now_fn()\<close> is the argument
  \<open>clock\<close>, used when the caller gives no timestamp; where a call reads the clock several
  times, \<open>clock i\<close> is the reading number \<open>i\<close>.
\<close>

section \<open>State\<close>

datatype breaker_state = HEALTHY | TRIPPED | RECOVERING

fun breaker_state_value :: "breaker_state \<Rightarrow> string" where
  "breaker_state_value HEALTHY = ''HEALTHY''"
| "breaker_state_value TRIPPED = ''TRIPPED''"
| "breaker_state_value RECOVERING = ''RECOVERING''"

record breaker_config =
  cfg_name :: string
  window_sec :: pyfloat
  min_samples :: int
  trip_error_rate :: pyfloat
  cooldown_sec :: pyfloat
  recovery_healthy_ticks :: int
  block_approvals_when_recovering :: bool

record breaker =
  config :: breaker_config
  samples :: "(pyfloat \<times> int) list"
  br_state :: breaker_state
  tripped_at :: "pyfloat option"
  recovering_since :: "pyfloat option"
  healthy_ticks :: int
  br_reason :: "string option"

definition new_breaker :: "breaker_config \<Rightarrow> breaker" where
  "new_breaker cfg =
     \<lparr>config = cfg, samples = [], br_state = HEALTHY, tripped_at = None, recovering_since = None,
      healthy_ticks = 0, br_reason = None\<rparr>"

section \<open>The window\<close>

definition window_cutoff :: "breaker_config \<Rightarrow> pyfloat \<Rightarrow> pyfloat" where
  "window_cutoff cfg now_ts = float_sub now_ts (float_max (window_sec cfg) (Fin 0))"

definition purge_old :: "pyfloat \<Rightarrow> breaker \<Rightarrow> breaker" where
  "purge_old now_ts b =
     b\<lparr>samples := dropWhile (\<lambda>s. float_lt (fst s) (window_cutoff (config b) now_ts)) (samples b)\<rparr>"

text \<open>The divisor is not zero, so the quotient is a float.\<close>

definition error_rate_of :: "(pyfloat \<times> int) list \<Rightarrow> pyfloat" where
  "error_rate_of ss =
     (if length ss = 0 then Fin 0
      else case float_div (round64 (of_int (sum_list (map snd ss)))) (round64 (of_nat (length ss))) of
             Inr x \<Rightarrow> x | Inl _ \<Rightarrow> Fin 0)"

definition window_stats :: "pyfloat \<Rightarrow> breaker \<Rightarrow> int \<times> pyfloat \<times> breaker" where
  "window_stats now_ts b =
     (let b' = purge_old now_ts b in (int (length (samples b')), error_rate_of (samples b'), b'))"

definition should_trip :: "breaker_config \<Rightarrow> int \<Rightarrow> pyfloat \<Rightarrow> bool" where
  "should_trip cfg sample_count error_rate =
     (if sample_count < min_samples cfg then False else float_le (trip_error_rate cfg) error_rate)"

definition approvals_blocked :: "breaker \<Rightarrow> bool" where
  "approvals_blocked b =
     (if br_state b = TRIPPED then True
      else if br_state b = RECOVERING \<and> block_approvals_when_recovering (config b) then True
      else False)"

section \<open>\<open>observe\<close>\<close>

record observation =
  ob_breaker :: string
  ob_prev_state :: breaker_state
  ob_state :: breaker_state
  ob_action :: string
  ob_approvals_blocked :: bool
  ob_sample_count :: int
  ob_error_rate :: pyfloat
  ob_ts_epoch :: pyfloat
  ob_reason :: "string option"

definition trip_reason :: "breaker_config \<Rightarrow> int \<Rightarrow> pyfloat \<Rightarrow> string" where
  "trip_reason cfg sample_count error_rate =
     cfg_name cfg @ '':error_rate='' @ float_fixed 3 error_rate @ '',samples='' @ int_to_string sample_count @
     '',threshold='' @ float_fixed 3 (trip_error_rate cfg)"

text \<open>\<open>float(self.tripped_at or ts_now)\<close>: a breaker tripped at time 0.0 counts from now.\<close>

definition tripped_since :: "breaker \<Rightarrow> pyfloat \<Rightarrow> pyfloat" where
  "tripped_since b ts_now =
     (case tripped_at b of Some t \<Rightarrow> if t = Fin 0 then ts_now else t | None \<Rightarrow> ts_now)"

definition advance :: "bool \<Rightarrow> pyfloat \<Rightarrow> int \<Rightarrow> pyfloat \<Rightarrow> breaker \<Rightarrow> string \<times> breaker" where
  "advance is_error ts_now sample_count error_rate b =
     (case br_state b of
        HEALTHY \<Rightarrow>
          if should_trip (config b) sample_count error_rate
          then (''TRIPPED'',
                b\<lparr>br_state := TRIPPED, tripped_at := Some ts_now, recovering_since := None, healthy_ticks := 0,
                  br_reason := Some (trip_reason (config b) sample_count error_rate)\<rparr>)
          else (''NOOP'', b)
      | TRIPPED \<Rightarrow>
          if \<not> is_error \<and> float_le (cooldown_sec (config b)) (float_sub ts_now (tripped_since b ts_now))
          then (''RECOVERING'', b\<lparr>br_state := RECOVERING, recovering_since := Some ts_now, healthy_ticks := 1\<rparr>)
          else (''NOOP'', b)
      | RECOVERING \<Rightarrow>
          if is_error
          then (''RETRIPPED'',
                b\<lparr>br_state := TRIPPED, tripped_at := Some ts_now, recovering_since := None, healthy_ticks := 0,
                  br_reason := Some (cfg_name (config b) @ '':recovery_error'')\<rparr>)
          else if recovery_healthy_ticks (config b) \<le> healthy_ticks b + 1
          then (''CLEARED'',
                b\<lparr>br_state := HEALTHY, tripped_at := None, recovering_since := None, healthy_ticks := 0,
                  br_reason := None\<rparr>)
          else (''NOOP'', b\<lparr>healthy_ticks := healthy_ticks b + 1\<rparr>))"

definition observe :: "bool \<Rightarrow> pyfloat option \<Rightarrow> pyfloat \<Rightarrow> breaker \<Rightarrow> observation \<times> breaker" where
  "observe is_error now_ts clock b =
     (let ts_now = (case now_ts of Some t \<Rightarrow> t | None \<Rightarrow> clock);
          b0 = b\<lparr>samples := samples b @ [(ts_now, if is_error then 1 else 0)]\<rparr>
      in case window_stats ts_now b0 of (sample_count, error_rate, b1) \<Rightarrow>
         case advance is_error ts_now sample_count error_rate b1 of (action, b2) \<Rightarrow>
           (\<lparr>ob_breaker = cfg_name (config b), ob_prev_state = br_state b1, ob_state = br_state b2,
             ob_action = action, ob_approvals_blocked = approvals_blocked b2,
             ob_sample_count = sample_count, ob_error_rate = error_rate,
             ob_ts_epoch = ts_now, ob_reason = br_reason b2\<rparr>, b2))"

record breaker_snapshot =
  sn_name :: string
  sn_state :: breaker_state
  sn_approvals_blocked :: bool
  sn_sample_count :: int
  sn_error_rate :: pyfloat
  sn_tripped_at :: "pyfloat option"
  sn_recovering_since :: "pyfloat option"
  sn_healthy_ticks :: int
  sn_reason :: "string option"
  sn_ts_epoch :: pyfloat
  sn_config :: breaker_config

definition snapshot :: "pyfloat option \<Rightarrow> pyfloat \<Rightarrow> breaker \<Rightarrow> breaker_snapshot \<times> breaker" where
  "snapshot now_ts clock b =
     (let ts_now = (case now_ts of Some t \<Rightarrow> t | None \<Rightarrow> clock)
      in case window_stats ts_now b of (sample_count, error_rate, b') \<Rightarrow>
           (\<lparr>sn_name = cfg_name (config b'), sn_state = br_state b', sn_approvals_blocked = approvals_blocked b',
             sn_sample_count = sample_count, sn_error_rate = error_rate, sn_tripped_at = tripped_at b',
             sn_recovering_since = recovering_since b', sn_healthy_ticks = healthy_ticks b',
             sn_reason = br_reason b', sn_ts_epoch = ts_now, sn_config = config b'\<rparr>, b'))"

section \<open>The suite\<close>

record breaker_suite =
  stale_feed_breaker :: breaker
  price_mismatch_breaker :: breaker
  broker_failure_breaker :: breaker

definition default_stale_feed :: breaker_config where
  "default_stale_feed =
     \<lparr>cfg_name = ''stale_feed_breaker'', window_sec = Fin 60, min_samples = 6, trip_error_rate = Fin (1 / 2),
      cooldown_sec = Fin 15, recovery_healthy_ticks = 4, block_approvals_when_recovering = False\<rparr>"

definition default_price_mismatch :: breaker_config where
  "default_price_mismatch =
     \<lparr>cfg_name = ''price_mismatch_breaker'', window_sec = Fin 120, min_samples = 8,
      trip_error_rate = round64 (60 / 100), cooldown_sec = Fin 20, recovery_healthy_ticks = 5,
      block_approvals_when_recovering = False\<rparr>"

definition default_broker_failure :: breaker_config where
  "default_broker_failure =
     \<lparr>cfg_name = ''broker_failure_breaker'', window_sec = Fin 180, min_samples = 4, trip_error_rate = Fin (1 / 2),
      cooldown_sec = Fin 30, recovery_healthy_ticks = 3, block_approvals_when_recovering = False\<rparr>"

definition new_suite ::
  "breaker_config option \<Rightarrow> breaker_config option \<Rightarrow> breaker_config option \<Rightarrow> breaker_suite" where
  "new_suite stale price broker =
     \<lparr>stale_feed_breaker = new_breaker (case stale of Some c \<Rightarrow> c | None \<Rightarrow> default_stale_feed),
      price_mismatch_breaker = new_breaker (case price of Some c \<Rightarrow> c | None \<Rightarrow> default_price_mismatch),
      broker_failure_breaker = new_breaker (case broker of Some c \<Rightarrow> c | None \<Rightarrow> default_broker_failure)\<rparr>"

definition observe_stale_feed ::
  "bool \<Rightarrow> pyfloat option \<Rightarrow> pyfloat \<Rightarrow> breaker_suite \<Rightarrow> observation \<times> breaker_suite" where
  "observe_stale_feed is_error now_ts clock s =
     (case observe is_error now_ts clock (stale_feed_breaker s) of (ob, b) \<Rightarrow> (ob, s\<lparr>stale_feed_breaker := b\<rparr>))"

definition observe_price_mismatch ::
  "bool \<Rightarrow> pyfloat option \<Rightarrow> pyfloat \<Rightarrow> breaker_suite \<Rightarrow> observation \<times> breaker_suite" where
  "observe_price_mismatch is_error now_ts clock s =
     (case observe is_error now_ts clock (price_mismatch_breaker s) of (ob, b) \<Rightarrow> (ob, s\<lparr>price_mismatch_breaker := b\<rparr>))"

definition observe_broker_failure ::
  "bool \<Rightarrow> pyfloat option \<Rightarrow> pyfloat \<Rightarrow> breaker_suite \<Rightarrow> observation \<times> breaker_suite" where
  "observe_broker_failure is_error now_ts clock s =
     (case observe is_error now_ts clock (broker_failure_breaker s) of (ob, b) \<Rightarrow> (ob, s\<lparr>broker_failure_breaker := b\<rparr>))"

definition should_block_new_trade_approvals ::
  "pyfloat option \<Rightarrow> (nat \<Rightarrow> pyfloat) \<Rightarrow> breaker_suite \<Rightarrow> (bool \<times> string list) \<times> breaker_suite" where
  "should_block_new_trade_approvals now_ts clock s =
     (let b1 = snd (snapshot now_ts (clock 0) (stale_feed_breaker s));
          b2 = snd (snapshot now_ts (clock 1) (price_mismatch_breaker s));
          b3 = snd (snapshot now_ts (clock 2) (broker_failure_breaker s));
          blockers = concat (map (\<lambda>b. add_if (approvals_blocked b) (cfg_name (config b))) [b1, b2, b3])
      in ((blockers \<noteq> [], blockers),
          s\<lparr>stale_feed_breaker := b1, price_mismatch_breaker := b2, broker_failure_breaker := b3\<rparr>))"

record suite_snapshot =
  ok_for_new_approvals :: bool
  ss_blockers :: "string list"
  ss_stale_feed :: breaker_snapshot
  ss_price_mismatch :: breaker_snapshot
  ss_broker_failure :: breaker_snapshot

definition snapshot_suite :: "pyfloat option \<Rightarrow> (nat \<Rightarrow> pyfloat) \<Rightarrow> breaker_suite \<Rightarrow> suite_snapshot \<times> breaker_suite" where
  "snapshot_suite now_ts clock s =
     (case should_block_new_trade_approvals now_ts clock s of ((blocked, blockers), s') \<Rightarrow>
        let r1 = snapshot now_ts (clock 3) (stale_feed_breaker s');
            r2 = snapshot now_ts (clock 4) (price_mismatch_breaker s');
            r3 = snapshot now_ts (clock 5) (broker_failure_breaker s')
        in (\<lparr>ok_for_new_approvals = (\<not> blocked), ss_blockers = blockers, ss_stale_feed = fst r1,
             ss_price_mismatch = fst r2, ss_broker_failure = fst r3\<rparr>,
            s'\<lparr>stale_feed_breaker := snd r1, price_mismatch_breaker := snd r2, broker_failure_breaker := snd r3\<rparr>))"

section \<open>Invariant\<close>

definition breaker_ok :: "breaker \<Rightarrow> bool" where
  "breaker_ok b \<longleftrightarrow>
     (\<forall>s \<in> set (samples b). snd s = 0 \<or> snd s = 1) \<and>
     (case br_state b of
        HEALTHY \<Rightarrow> tripped_at b = None \<and> recovering_since b = None \<and> healthy_ticks b = 0 \<and> br_reason b = None
      | TRIPPED \<Rightarrow> tripped_at b \<noteq> None \<and> recovering_since b = None \<and> healthy_ticks b = 0 \<and> br_reason b \<noteq> None
      | RECOVERING \<Rightarrow> tripped_at b \<noteq> None \<and> recovering_since b \<noteq> None \<and> br_reason b \<noteq> None \<and>
          1 \<le> healthy_ticks b \<and> (healthy_ticks b = 1 \<or> healthy_ticks b < recovery_healthy_ticks (config b)))"

definition feed :: "bool \<times> pyfloat \<Rightarrow> breaker \<Rightarrow> breaker" where
  "feed x b = snd (observe (fst x) (Some (snd x)) (snd x) b)"

lemma purge_old_simps [simp]:
  "config (purge_old t b) = config b" "br_state (purge_old t b) = br_state b"
  "tripped_at (purge_old t b) = tripped_at b" "recovering_since (purge_old t b) = recovering_since b"
  "healthy_ticks (purge_old t b) = healthy_ticks b" "br_reason (purge_old t b) = br_reason b"
  "samples (purge_old t b) = dropWhile (\<lambda>s. float_lt (fst s) (window_cutoff (config b) t)) (samples b)"
  by (simp_all add: purge_old_def)

lemma breaker_ok_purge: "breaker_ok b \<Longrightarrow> breaker_ok (purge_old t b)"
  by (auto simp: breaker_ok_def dest: set_dropWhileD split: breaker_state.splits)

lemma breaker_ok_advance:
  assumes "breaker_ok b" shows "breaker_ok (snd (advance e t n r b))"
proof (cases "br_state b")
  case HEALTHY with assms show ?thesis by (auto simp: breaker_ok_def advance_def)
next
  case TRIPPED with assms show ?thesis by (auto simp: breaker_ok_def advance_def)
next
  case RECOVERING with assms show ?thesis by (auto simp: breaker_ok_def advance_def)
qed

lemma advance_samples [simp]: "samples (snd (advance e t n r b)) = samples b"
  by (cases "br_state b") (auto simp: advance_def)

lemma advance_config [simp]: "config (snd (advance e t n r b)) = config b"
  by (cases "br_state b") (auto simp: advance_def)

text \<open>The breaker as \<open>observe\<close> hands it to the state machine: the sample added, the window purged.\<close>

definition sampled :: "bool \<Rightarrow> pyfloat \<Rightarrow> breaker \<Rightarrow> breaker" where
  "sampled e t b = purge_old t (b\<lparr>samples := samples b @ [(t, if e then 1 else 0)]\<rparr>)"

lemma sampled_simps [simp]:
  "config (sampled e t b) = config b" "br_state (sampled e t b) = br_state b"
  "tripped_at (sampled e t b) = tripped_at b" "healthy_ticks (sampled e t b) = healthy_ticks b"
  by (simp_all add: sampled_def)

lemma feed_eq:
  "feed (e, t) b = snd (advance e t (int (length (samples (sampled e t b)))) (error_rate_of (samples (sampled e t b))) (sampled e t b))"
  by (simp add: feed_def observe_def window_stats_def Let_def sampled_def split: prod.split)

lemma breaker_ok_sampled: "breaker_ok b \<Longrightarrow> breaker_ok (sampled e t b)"
  unfolding sampled_def by (rule breaker_ok_purge) (auto simp: breaker_ok_def split: breaker_state.splits)

lemma breaker_ok_feed: "breaker_ok b \<Longrightarrow> breaker_ok (feed x b)"
  by (cases x) (simp add: feed_eq breaker_ok_advance breaker_ok_sampled)

interpretation breaker_run: driven_component feed breaker_ok
  by unfold_locales (rule breaker_ok_feed)

lemma feed_config [simp]: "config (feed x b) = config b"
  by (cases x) (simp add: feed_eq)

lemma breaker_ok_new: "breaker_ok (new_breaker cfg)"
  by (simp add: breaker_ok_def new_breaker_def)

section \<open>Properties\<close>

text \<open>
  In every run of a breaker the bookkeeping matches the state: a healthy breaker has no
  trip time, no recovery time, no ticks and no reason; a tripped one has a trip time and a
  reason; a recovering one also has a start of recovery and between one tick and the
  number that clears it; the samples are flags.
\<close>

theorem breaker_bookkeeping: "breaker_ok (fold feed xs (new_breaker cfg)) \<and> config (fold feed xs (new_breaker cfg)) = cfg"
  using breaker_run.good_run [OF breaker_ok_new] breaker_run.kept_by_run [OF _ breaker_ok_new, of config]
  by (simp add: new_breaker_def)



lemma dropWhile_sorted_filter:
  "sorted_wrt (\<lambda>x y. P y \<longrightarrow> P x) xs \<Longrightarrow> dropWhile P xs = filter (\<lambda>x. \<not> P x) xs"
proof (induction xs)
  case (Cons x xs)
  then show ?case by (cases "P x") (auto intro!: filter_True [symmetric])
qed simp

lemma float_lt_le_trans: "\<not> float_lt y x \<Longrightarrow> float_lt y c \<Longrightarrow> x \<noteq> NaN \<Longrightarrow> float_lt x c"
  by (cases x; cases y; cases c) auto

lemma sorted_below_cutoff:
  assumes sorted: "sorted_wrt (\<lambda>x y. \<not> float_lt (fst y) (fst x)) ss" and num: "\<forall>s \<in> set ss. fst s \<noteq> NaN"
  shows "sorted_wrt (\<lambda>x y. float_lt (fst y) c \<longrightarrow> float_lt (fst x) c) ss"
proof (rule sorted_wrt_mono_rel [OF _ sorted])
  fix x y assume "x \<in> set ss" and "\<not> float_lt (fst y) (fst x)"
  with num show "float_lt (fst y) c \<longrightarrow> float_lt (fst x) c" using float_lt_le_trans by blast
qed

text \<open>
  With timestamps that do not decrease, the purge, which only drops samples from the
  front, leaves exactly the samples of the window: those not older than the cutoff.
\<close>

theorem window_is_exact:
  assumes "sorted_wrt (\<lambda>x y. \<not> float_lt (fst y) (fst x)) (samples b)"
    and "\<forall>s \<in> set (samples b). fst s \<noteq> NaN \<and> \<not> float_lt t (fst s)" and "t \<noteq> NaN"
  shows "samples (feed (e, t) b) =
    filter (\<lambda>s. \<not> float_lt (fst s) (window_cutoff (config b) t)) (samples b @ [(t, if e then 1 else 0)])"
proof -
  let ?all = "samples b @ [(t, if e then 1 else 0)]"
  have "sorted_wrt (\<lambda>x y. \<not> float_lt (fst y) (fst x)) ?all" and num: "\<forall>s \<in> set ?all. fst s \<noteq> NaN"
    using assms by (simp_all add: sorted_wrt_append ball_Un)
  then have "sorted_wrt (\<lambda>x y. float_lt (fst y) (window_cutoff (config b) t) \<longrightarrow>
      float_lt (fst x) (window_cutoff (config b) t)) ?all"
    by (rule sorted_below_cutoff)
  from dropWhile_sorted_filter [OF this] show ?thesis
    by (simp add: feed_eq sampled_def del: filter_append)
qed

text \<open>The samples at 1 and 50 have left the 60 second window at time 120, the one at 100 is in it.\<close>

definition demo_window :: breaker where
  "demo_window = (new_breaker default_stale_feed)\<lparr>samples := [(Fin 1, 0), (Fin 50, 1), (Fin 100, 1)]\<rparr>"

theorem window_is_exact_witness:
  "samples (feed (False, Fin 120) demo_window) = [(Fin 100, 1), (Fin 120, 0)]"
proof -
  have "sorted_wrt (\<lambda>x y. \<not> float_lt (fst y) (fst x)) (samples demo_window)"
    "\<forall>s \<in> set (samples demo_window). fst s \<noteq> NaN \<and> \<not> float_lt (Fin 120) (fst s)" "Fin 120 \<noteq> NaN"
    by (simp_all add: demo_window_def)
  from window_is_exact [OF this, of False] show ?thesis
    by (simp, code_simp)
qed

end
