(* ===== verification/Execution_Safety.thy ===== *)
theory Execution_Safety
  imports Py_Value
begin

text \<open>
  src/execution_safety/contract.py: the mode contract (SIM, PAPER, LIVE), the check that
  guards every broker call, and the policy evaluation that permits or blocks an
  execution. A dict argument that may be \<open>None\<close> is a \<^typ>\<open>pydict option\<close>.
\<close>

section \<open>Modes, contract and policy\<close>

datatype execution_mode = SIM | PAPER | LIVE

fun mode_value :: "execution_mode \<Rightarrow> string" where
  "mode_value SIM = ''SIM''"
| "mode_value PAPER = ''PAPER''"
| "mode_value LIVE = ''LIVE''"

record mode_contract =
  mc_mode :: execution_mode
  mc_broker_ready :: bool
  mc_risk_ready :: bool
  mc_kill_switch_ready :: bool
  mc_adapter_enabled :: bool

definition mode_contract_to_dict :: "mode_contract \<Rightarrow> pydict" where
  "mode_contract_to_dict c =
     [(''mode'', PStr (mode_value (mc_mode c))),
      (''live_broker_ready'', PBool (mc_broker_ready c)),
      (''live_risk_ready'', PBool (mc_risk_ready c)),
      (''live_kill_switch_ready'', PBool (mc_kill_switch_ready c)),
      (''real_broker_order_adapter_enabled'', PBool (mc_adapter_enabled c))]"

record mode_decision =
  md_mode :: execution_mode
  md_status :: string
  md_blockers :: "string list"
  md_warnings :: "string list"
  md_simulated_order_allowed :: bool
  md_paper_order_allowed :: bool
  md_broker_api_allowed :: bool
  md_real_order_allowed :: bool

definition mode_decision_to_dict :: "mode_decision \<Rightarrow> pydict" where
  "mode_decision_to_dict d =
     [(''mode'', PStr (mode_value (md_mode d))),
      (''status'', PStr (md_status d)),
      (''blockers'', str_list (md_blockers d)),
      (''warnings'', str_list (md_warnings d)),
      (''simulated_order_allowed'', PBool (md_simulated_order_allowed d)),
      (''paper_order_allowed'', PBool (md_paper_order_allowed d)),
      (''broker_api_allowed'', PBool (md_broker_api_allowed d)),
      (''real_order_allowed'', PBool (md_real_order_allowed d)),
      (''is_order_action'', PBool False)]"

record safety_policy =
  sp_mode :: execution_mode
  sp_manual_approval_required :: bool
  sp_kill_switch_enabled :: bool
  sp_broker_confirmation_required :: bool
  sp_dry_run_required :: bool
  sp_max_daily_loss :: pyfloat
  sp_current_daily_loss :: pyfloat
  sp_max_orders_per_day :: int
  sp_orders_today :: int
  sp_max_quantity :: int
  sp_requested_quantity :: int
  sp_approval_id :: "string option"
  sp_operator_id :: "string option"
  sp_broker_confirmation_id :: "string option"
  sp_warnings_acknowledged :: bool
  sp_live_broker_ready :: bool
  sp_live_risk_ready :: bool
  sp_live_kill_switch_ready :: bool
  sp_real_broker_order_adapter_enabled :: bool

definition default_policy :: safety_policy where
  "default_policy =
     \<lparr>sp_mode = SIM, sp_manual_approval_required = True, sp_kill_switch_enabled = False,
      sp_broker_confirmation_required = True, sp_dry_run_required = True,
      sp_max_daily_loss = Fin 0, sp_current_daily_loss = Fin 0, sp_max_orders_per_day = 0, sp_orders_today = 0,
      sp_max_quantity = 0, sp_requested_quantity = 0, sp_approval_id = None, sp_operator_id = None,
      sp_broker_confirmation_id = None, sp_warnings_acknowledged = False, sp_live_broker_ready = False,
      sp_live_risk_ready = False, sp_live_kill_switch_ready = False, sp_real_broker_order_adapter_enabled = False\<rparr>"

definition execution_mode_contract :: "safety_policy \<Rightarrow> mode_contract" where
  "execution_mode_contract p =
     \<lparr>mc_mode = sp_mode p, mc_broker_ready = sp_live_broker_ready p, mc_risk_ready = sp_live_risk_ready p,
      mc_kill_switch_ready = sp_live_kill_switch_ready p,
      mc_adapter_enabled = sp_real_broker_order_adapter_enabled p\<rparr>"

definition policy_to_dict :: "safety_policy \<Rightarrow> pydict" where
  "policy_to_dict p =
     [(''mode'', PStr (mode_value (sp_mode p))),
      (''manual_approval_required'', PBool (sp_manual_approval_required p)),
      (''kill_switch_enabled'', PBool (sp_kill_switch_enabled p)),
      (''broker_confirmation_required'', PBool (sp_broker_confirmation_required p)),
      (''dry_run_required'', PBool (sp_dry_run_required p)),
      (''max_daily_loss'', PFloat (sp_max_daily_loss p)),
      (''current_daily_loss'', PFloat (sp_current_daily_loss p)),
      (''max_orders_per_day'', PInt (sp_max_orders_per_day p)),
      (''orders_today'', PInt (sp_orders_today p)),
      (''max_quantity'', PInt (sp_max_quantity p)),
      (''requested_quantity'', PInt (sp_requested_quantity p)),
      (''approval_id'', opt_str (sp_approval_id p)),
      (''operator_id'', opt_str (sp_operator_id p)),
      (''broker_confirmation_id'', opt_str (sp_broker_confirmation_id p)),
      (''warnings_acknowledged'', PBool (sp_warnings_acknowledged p)),
      (''live_broker_ready'', PBool (sp_live_broker_ready p)),
      (''live_risk_ready'', PBool (sp_live_risk_ready p)),
      (''live_kill_switch_ready'', PBool (sp_live_kill_switch_ready p)),
      (''real_broker_order_adapter_enabled'', PBool (sp_real_broker_order_adapter_enabled p))]"

record safety_decision =
  sd_execution_permitted :: bool
  sd_mode :: execution_mode
  sd_status :: string
  sd_blockers :: "string list"
  sd_warnings :: "string list"
  sd_audit :: pydict
  sd_simulated_order_allowed :: bool
  sd_paper_order_allowed :: bool
  sd_broker_api_allowed :: bool
  sd_real_order_allowed :: bool

definition safety_decision_to_dict :: "safety_decision \<Rightarrow> pydict" where
  "safety_decision_to_dict d =
     [(''execution_permitted'', PBool (sd_execution_permitted d)),
      (''mode'', PStr (mode_value (sd_mode d))),
      (''status'', PStr (sd_status d)),
      (''blockers'', str_list (sd_blockers d)),
      (''warnings'', str_list (sd_warnings d)),
      (''audit'', PDict (sd_audit d)),
      (''requires_manual_approval'', PBool (''MANUAL_APPROVAL_REQUIRED'' \<in> set (sd_blockers d))),
      (''simulated_order_allowed'', PBool (sd_simulated_order_allowed d)),
      (''paper_order_allowed'', PBool (sd_paper_order_allowed d)),
      (''broker_api_allowed'', PBool (sd_broker_api_allowed d)),
      (''real_order_allowed'', PBool (sd_real_order_allowed d)),
      (''is_order_action'', PBool False)]"

text \<open>This package's \<open>_dedupe\<close> does not strip: it drops empty strings and repetitions.\<close>

fun keep_first :: "string list \<Rightarrow> string list \<Rightarrow> string list" where
  "keep_first seen [] = []"
| "keep_first seen (x # xs) =
     (if x \<noteq> [] \<and> x \<notin> set seen then x # keep_first (x # seen) xs else keep_first seen xs)"

section \<open>The mode contract\<close>

definition live_blockers :: "mode_contract \<Rightarrow> string list" where
  "live_blockers c =
     add_if (\<not> mc_adapter_enabled c) ''LIVE_REAL_BROKER_ADAPTER_NOT_ENABLED'' @
     add_if (\<not> mc_broker_ready c) ''LIVE_BROKER_READINESS_REQUIRED'' @
     add_if (\<not> mc_risk_ready c) ''LIVE_RISK_READINESS_REQUIRED'' @
     add_if (\<not> mc_kill_switch_ready c) ''LIVE_KILL_SWITCH_READINESS_REQUIRED''"

definition evaluate_execution_mode_contract :: "mode_contract \<Rightarrow> mode_decision" where
  "evaluate_execution_mode_contract c =
     (let warnings =
            (case mc_mode c of
               SIM \<Rightarrow> [''SIM_MODE_NO_BROKER_ORDERS'']
             | PAPER \<Rightarrow> [''PAPER_MODE_NO_REAL_BROKER_PLACEMENT'']
             | LIVE \<Rightarrow> [''LIVE_MODE_REQUIRES_STRICT_APPROVAL'']);
          raw = (if mc_mode c = LIVE then live_blockers c else []);
          blockers = keep_first [] raw
      in \<lparr>md_mode = mc_mode c,
          md_status = (if blockers = [] then ''PERMITTED'' else ''BLOCKED''),
          md_blockers = blockers,
          md_warnings = keep_first [] warnings,
          md_simulated_order_allowed = (mc_mode c = SIM),
          md_paper_order_allowed = (mc_mode c = PAPER),
          md_broker_api_allowed = (mc_mode c = LIVE \<and> raw = []),
          md_real_order_allowed = (mc_mode c = LIVE \<and> raw = [])\<rparr>)"

definition assert_broker_order_call_allowed :: "mode_contract \<Rightarrow> unit result" where
  "assert_broker_order_call_allowed c =
     (let d = evaluate_execution_mode_contract c
      in if \<not> md_broker_api_allowed d \<or> \<not> md_real_order_allowed d
         then Inl (PermissionError (''Broker order calls are blocked for mode='' @ mode_value (mc_mode c) @ '': '' @
                join '','' (if md_blockers d \<noteq> [] then md_blockers d else md_warnings d)))
         else Inr ())"

section \<open>The policy\<close>

text \<open>\<open>not s\<close> for an optional string.\<close>

definition missing :: "string option \<Rightarrow> bool" where
  "missing s \<longleftrightarrow> s = None \<or> s = Some []"

definition no_top_selected :: "pydict option \<Rightarrow> bool" where
  "no_top_selected te =
     (case te of
        None \<Rightarrow> True
      | Some d \<Rightarrow> dget d ''status'' \<noteq> PStr ''SELECTED'' \<or> \<not> truthy (dget d ''selected''))"

definition selected_of :: "pydict option \<Rightarrow> pyval" where
  "selected_of te = (case te of Some d \<Rightarrow> dget d ''selected'' | None \<Rightarrow> PNone)"

definition selected_order_flag_unsafe :: "pydict option \<Rightarrow> bool" where
  "selected_order_flag_unsafe te =
     (case selected_of te of PDict s \<Rightarrow> dget s ''is_order'' \<noteq> PBool False | _ \<Rightarrow> False)"

definition policy_blockers :: "safety_policy \<Rightarrow> pydict option \<Rightarrow> pydict option \<Rightarrow> string list" where
  "policy_blockers p top_executable readiness =
     add_if (sp_kill_switch_enabled p) ''KILL_SWITCH_ENABLED'' @
     add_if (sp_dry_run_required p) ''DRY_RUN_REQUIRED'' @
     add_if (sp_manual_approval_required p \<and> missing (sp_approval_id p)) ''MANUAL_APPROVAL_REQUIRED'' @
     add_if (sp_manual_approval_required p \<and> missing (sp_operator_id p)) ''OPERATOR_ID_REQUIRED'' @
     add_if (sp_broker_confirmation_required p \<and> missing (sp_broker_confirmation_id p)) ''BROKER_CONFIRMATION_REQUIRED'' @
     add_if (float_lt (Fin 0) (sp_max_daily_loss p) \<and> float_le (sp_max_daily_loss p) (sp_current_daily_loss p))
       ''MAX_DAILY_LOSS_REACHED'' @
     add_if (0 < sp_max_orders_per_day p \<and> sp_max_orders_per_day p \<le> sp_orders_today p) ''MAX_ORDERS_PER_DAY_REACHED'' @
     add_if (0 < sp_max_quantity p \<and> sp_max_quantity p < sp_requested_quantity p) ''MAX_QUANTITY_EXCEEDED'' @
     add_if (no_top_selected top_executable) ''NO_TOP_EXECUTABLE_SELECTED'' @
     add_if (selected_order_flag_unsafe top_executable) ''TOP_EXECUTABLE_ORDER_FLAG_UNSAFE'' @
     add_if (case readiness of None \<Rightarrow> False | Some r \<Rightarrow> \<not> truthy (dget r ''execution_allowed''))
       ''EXECUTION_READINESS_NOT_ALLOWED''"

definition top_candidate_id :: "pydict option \<Rightarrow> pyval" where
  "top_candidate_id te = (case selected_of te of PDict s \<Rightarrow> dget s ''candidate_id'' | _ \<Rightarrow> PNone)"

definition evaluate_execution_safety :: "safety_policy \<Rightarrow> pydict option \<Rightarrow> pydict option \<Rightarrow> safety_decision" where
  "evaluate_execution_safety p top_executable readiness =
     (let md = evaluate_execution_mode_contract (execution_mode_contract p);
          blockers = keep_first [] (md_blockers md @ policy_blockers p top_executable readiness);
          warnings = keep_first [] (md_warnings md @ add_if (\<not> sp_warnings_acknowledged p) ''WARNINGS_NOT_ACKNOWLEDGED'');
          permitted = (blockers = [] \<and> sp_mode p \<in> {SIM, PAPER, LIVE})
      in \<lparr>sd_execution_permitted = permitted,
          sd_mode = sp_mode p,
          sd_status = (if permitted then ''PERMITTED'' else ''BLOCKED''),
          sd_blockers = blockers,
          sd_warnings = warnings,
          sd_audit =
            [(''policy'', PDict (policy_to_dict p)),
             (''execution_mode_contract'', PDict (mode_contract_to_dict (execution_mode_contract p))),
             (''execution_mode_decision'', PDict (mode_decision_to_dict md)),
             (''top_executable_candidate_id'', top_candidate_id top_executable),
             (''execution_readiness_candidate_id'',
                (case readiness of None \<Rightarrow> PNone | Some r \<Rightarrow> dget r ''candidate_id'')),
             (''safety_contract_version'', PStr ''v2_execution_mode_contract'')],
          sd_simulated_order_allowed = md_simulated_order_allowed md,
          sd_paper_order_allowed = md_paper_order_allowed md,
          sd_broker_api_allowed = md_broker_api_allowed md,
          sd_real_order_allowed = md_real_order_allowed md\<rparr>)"

section \<open>Lemmas\<close>

lemma set_keep_first: "set (keep_first seen xs) = {x \<in> set xs. x \<noteq> []} - set seen"
  by (induction seen xs rule: keep_first.induct) auto

lemma keep_first_eq_Nil: "keep_first seen xs = [] \<longleftrightarrow> (\<forall>x \<in> set xs. x = [] \<or> x \<in> set seen)"
proof -
  have "keep_first seen xs = [] \<longleftrightarrow> set (keep_first seen xs) = {}" by simp
  also have "\<dots> \<longleftrightarrow> (\<forall>x \<in> set xs. x = [] \<or> x \<in> set seen)" unfolding set_keep_first by blast
  finally show ?thesis .
qed

lemma distinct_keep_first: "distinct (keep_first seen xs)"
  by (induction seen xs rule: keep_first.induct) (auto simp: set_keep_first)

lemma live_blockers_eq_Nil:
  "live_blockers c = [] \<longleftrightarrow>
     mc_adapter_enabled c \<and> mc_broker_ready c \<and> mc_risk_ready c \<and> mc_kill_switch_ready c"
  by (simp add: live_blockers_def)

lemma keep_first_live: "keep_first [] (live_blockers c) = [] \<longleftrightarrow> live_blockers c = []"
  by (auto simp: live_blockers_def keep_first_eq_Nil)

lemma mode_blockers_eq_Nil:
  "md_blockers (evaluate_execution_mode_contract c) = [] \<longleftrightarrow> (mc_mode c = LIVE \<longrightarrow> live_blockers c = [])"
  by (simp add: evaluate_execution_mode_contract_def Let_def keep_first_live)

lemma policy_blockers_nonempty: "[] \<notin> set (policy_blockers p te r)"
  by (simp add: policy_blockers_def)

lemma mode_blockers_nonempty: "[] \<notin> set (md_blockers (evaluate_execution_mode_contract c))"
  by (simp add: evaluate_execution_mode_contract_def Let_def set_keep_first)

lemma no_blockers_iff:
  "keep_first [] (md_blockers (evaluate_execution_mode_contract c) @ policy_blockers p te r) = [] \<longleftrightarrow>
     (mc_mode c = LIVE \<longrightarrow> live_blockers c = []) \<and> policy_blockers p te r = []"
proof -
  have "keep_first [] (md_blockers (evaluate_execution_mode_contract c) @ policy_blockers p te r) = [] \<longleftrightarrow>
      md_blockers (evaluate_execution_mode_contract c) = [] \<and> policy_blockers p te r = []"
    unfolding keep_first_eq_Nil set_append
    using policy_blockers_nonempty [of p te r] mode_blockers_nonempty [of c]
    by (metis Un_iff empty_iff last_in_set list.set(1))
  then show ?thesis unfolding mode_blockers_eq_Nil .
qed

section \<open>Properties\<close>

text \<open>The flags a live order needs.\<close>

definition live_ready :: "safety_policy \<Rightarrow> bool" where
  "live_ready p \<longleftrightarrow>
     sp_real_broker_order_adapter_enabled p \<and> sp_live_broker_ready p \<and> sp_live_risk_ready p \<and> sp_live_kill_switch_ready p"

text \<open>What the operator, the limits and the pipeline have to provide in every mode.\<close>

definition policy_satisfied :: "safety_policy \<Rightarrow> pydict option \<Rightarrow> pydict option \<Rightarrow> bool" where
  "policy_satisfied p te readiness \<longleftrightarrow>
     \<not> sp_kill_switch_enabled p \<and> \<not> sp_dry_run_required p \<and>
     (sp_manual_approval_required p \<longrightarrow>
        (\<exists>a. sp_approval_id p = Some a \<and> a \<noteq> []) \<and> (\<exists>a. sp_operator_id p = Some a \<and> a \<noteq> [])) \<and>
     (sp_broker_confirmation_required p \<longrightarrow> (\<exists>a. sp_broker_confirmation_id p = Some a \<and> a \<noteq> [])) \<and>
     \<not> (float_lt (Fin 0) (sp_max_daily_loss p) \<and> float_le (sp_max_daily_loss p) (sp_current_daily_loss p)) \<and>
     (0 < sp_max_orders_per_day p \<longrightarrow> sp_orders_today p < sp_max_orders_per_day p) \<and>
     (0 < sp_max_quantity p \<longrightarrow> sp_requested_quantity p \<le> sp_max_quantity p) \<and>
     (\<exists>d. te = Some d \<and> dget d ''status'' = PStr ''SELECTED'' \<and> truthy (dget d ''selected'') \<and>
        (\<forall>s. dget d ''selected'' = PDict s \<longrightarrow> dget s ''is_order'' = PBool False)) \<and>
     (\<forall>r. readiness = Some r \<longrightarrow> truthy (dget r ''execution_allowed''))"

lemma not_missing: "\<not> missing s \<longleftrightarrow> (\<exists>a. s = Some a \<and> a \<noteq> [])"
  by (cases s) (auto simp: missing_def)

lemma selected_checks:
  "\<not> no_top_selected te \<and> \<not> selected_order_flag_unsafe te \<longleftrightarrow>
     (\<exists>d. te = Some d \<and> dget d ''status'' = PStr ''SELECTED'' \<and> truthy (dget d ''selected'') \<and>
        (\<forall>s. dget d ''selected'' = PDict s \<longrightarrow> dget s ''is_order'' = PBool False))"
  by (cases te) (auto simp: no_top_selected_def selected_order_flag_unsafe_def selected_of_def split: pyval.splits)

lemma policy_blockers_eq_Nil: "policy_blockers p te r = [] \<longleftrightarrow> policy_satisfied p te r"
  unfolding policy_blockers_def policy_satisfied_def append_is_Nil_conv add_if_eq_Nil
    selected_checks [symmetric] not_missing [symmetric]
  by (cases r) auto

lemma permitted_iff:
  "sd_execution_permitted (evaluate_execution_safety p te r) \<longleftrightarrow>
     policy_satisfied p te r \<and> (sp_mode p = LIVE \<longrightarrow> live_ready p)"
proof -
  let ?bs = "keep_first [] (md_blockers (evaluate_execution_mode_contract (execution_mode_contract p)) @ policy_blockers p te r)"
  have "?bs = [] \<longleftrightarrow> policy_satisfied p te r \<and> (sp_mode p = LIVE \<longrightarrow> live_ready p)"
    unfolding no_blockers_iff policy_blockers_eq_Nil live_blockers_eq_Nil
    by (auto simp: execution_mode_contract_def live_ready_def)
  then show ?thesis
    unfolding evaluate_execution_safety_def Let_def
    by (cases "sp_mode p") simp_all
qed

text \<open>
  C3. Execution is permitted exactly when the policy is satisfied (kill switch off, dry run
  not required, approvals and confirmation present, limits respected, a selected top
  executable that is not an order, readiness allowed where given) and, in LIVE mode, the four
  live flags are set; the status and the list of blockers agree with it.
\<close>

theorem execution_permitted_iff:
  "(sd_execution_permitted (evaluate_execution_safety p te r) \<longleftrightarrow>
      policy_satisfied p te r \<and> (sp_mode p = LIVE \<longrightarrow> live_ready p)) \<and>
   (sd_status (evaluate_execution_safety p te r) = ''PERMITTED'' \<longleftrightarrow>
      sd_execution_permitted (evaluate_execution_safety p te r)) \<and>
   (sd_blockers (evaluate_execution_safety p te r) = [] \<longleftrightarrow>
      sd_execution_permitted (evaluate_execution_safety p te r)) \<and>
   distinct (sd_blockers (evaluate_execution_safety p te r))"
proof -
  have "(sd_status (evaluate_execution_safety p te r) = ''PERMITTED'' \<longleftrightarrow> sd_execution_permitted (evaluate_execution_safety p te r)) \<and>
    (sd_blockers (evaluate_execution_safety p te r) = [] \<longleftrightarrow> sd_execution_permitted (evaluate_execution_safety p te r)) \<and>
    distinct (sd_blockers (evaluate_execution_safety p te r))"
    unfolding evaluate_execution_safety_def Let_def
    by (cases "sp_mode p") (simp_all add: distinct_keep_first)
  then show ?thesis using permitted_iff by blast
qed

theorem execution_permitted_iff_witness:
  "\<not> sd_execution_permitted (evaluate_execution_safety default_policy None None)"
  using execution_permitted_iff [of default_policy None None]
  by (simp add: policy_satisfied_def default_policy_def)

text \<open>
  C11. A broker order call goes through only for a LIVE contract with adapter, broker, risk
  and kill switch ready; every other contract, in particular every SIM and PAPER one, raises
  \<open>PermissionError\<close>. The three permissions of a decision exclude one another.
\<close>

theorem broker_calls_only_live:
  "(assert_broker_order_call_allowed c = Inr () \<longleftrightarrow>
      mc_mode c = LIVE \<and> mc_adapter_enabled c \<and> mc_broker_ready c \<and> mc_risk_ready c \<and> mc_kill_switch_ready c) \<and>
   (assert_broker_order_call_allowed c = Inr () \<or> (\<exists>msg. assert_broker_order_call_allowed c = Inl (PermissionError msg))) \<and>
   (let d = evaluate_execution_mode_contract c in
      \<not> (md_simulated_order_allowed d \<and> md_paper_order_allowed d) \<and>
      (md_real_order_allowed d \<longrightarrow> md_broker_api_allowed d \<and> \<not> md_simulated_order_allowed d \<and> \<not> md_paper_order_allowed d))"
proof -
  have "md_real_order_allowed (evaluate_execution_mode_contract c) \<longleftrightarrow> mc_mode c = LIVE \<and> live_blockers c = []"
    "md_broker_api_allowed (evaluate_execution_mode_contract c) \<longleftrightarrow> mc_mode c = LIVE \<and> live_blockers c = []"
    "md_simulated_order_allowed (evaluate_execution_mode_contract c) \<longleftrightarrow> mc_mode c = SIM"
    "md_paper_order_allowed (evaluate_execution_mode_contract c) \<longleftrightarrow> mc_mode c = PAPER"
    by (auto simp: evaluate_execution_mode_contract_def Let_def)
  then show ?thesis
    unfolding assert_broker_order_call_allowed_def Let_def live_blockers_eq_Nil [symmetric] by simp
qed

theorem broker_calls_only_live_witness:
  "\<exists>msg. assert_broker_order_call_allowed
     \<lparr>mc_mode = PAPER, mc_broker_ready = True, mc_risk_ready = True, mc_kill_switch_ready = True,
      mc_adapter_enabled = True\<rparr> = Inl (PermissionError msg)"
proof -
  have "assert_broker_order_call_allowed \<lparr>mc_mode = PAPER, mc_broker_ready = True, mc_risk_ready = True,
    mc_kill_switch_ready = True, mc_adapter_enabled = True\<rparr> \<noteq> Inr ()"
    using broker_calls_only_live by simp
  then show ?thesis using broker_calls_only_live by blast
qed

end
