(* ===== verification/Execution_Readiness.thy ===== *)
theory Execution_Readiness
  imports Py_Value
begin

text \<open>
  src/execution_readiness/contract.py: the unified readiness contract, which joins the
  evidence of candidate truth, opportunity, broker contract, market and risk and allows
  execution only when no stage reports a blocker. The membership tests on a status that
  may not be hashable make the builder fallible.
\<close>

section \<open>Data\<close>

datatype readiness_status =
    ALLOWED
  | BLOCKED_CANDIDATE_TRUTH
  | BLOCKED_OPPORTUNITY
  | BLOCKED_BROKER_CONTRACT
  | BLOCKED_MARKET_READINESS
  | BLOCKED_RISK
  | BLOCKED_INCOMPLETE_EVIDENCE

fun readiness_status_value :: "readiness_status \<Rightarrow> string" where
  "readiness_status_value ALLOWED = ''ALLOWED''"
| "readiness_status_value BLOCKED_CANDIDATE_TRUTH = ''BLOCKED_CANDIDATE_TRUTH''"
| "readiness_status_value BLOCKED_OPPORTUNITY = ''BLOCKED_OPPORTUNITY''"
| "readiness_status_value BLOCKED_BROKER_CONTRACT = ''BLOCKED_BROKER_CONTRACT''"
| "readiness_status_value BLOCKED_MARKET_READINESS = ''BLOCKED_MARKET_READINESS''"
| "readiness_status_value BLOCKED_RISK = ''BLOCKED_RISK''"
| "readiness_status_value BLOCKED_INCOMPLETE_EVIDENCE = ''BLOCKED_INCOMPLETE_EVIDENCE''"

record risk_readiness =
  rr_allowed :: bool
  rr_status :: string
  rr_blockers :: "string list"
  rr_warnings :: "string list"
  rr_evidence :: pydict

definition risk_readiness_to_dict :: "risk_readiness \<Rightarrow> pydict" where
  "risk_readiness_to_dict r =
     [(''allowed'', PBool (rr_allowed r)), (''status'', PStr (rr_status r)), (''blockers'', str_list (rr_blockers r)),
      (''warnings'', str_list (rr_warnings r)), (''evidence'', PDict (rr_evidence r))]"

text \<open>\<open>risk: RiskReadiness | dict | None\<close>\<close>

datatype risk_arg = NoRisk | RiskRecord risk_readiness | RiskDict pydict

fun risk_to_dict :: "risk_arg \<Rightarrow> pydict option" where
  "risk_to_dict NoRisk = None"
| "risk_to_dict (RiskRecord r) = Some (risk_readiness_to_dict r)"
| "risk_to_dict (RiskDict d) = Some d"

record execution_readiness =
  er_candidate_id :: string
  er_execution_allowed :: bool
  er_status :: readiness_status
  er_blockers :: "string list"
  er_warnings :: "string list"
  er_evidence :: pydict

definition readiness_to_dict :: "execution_readiness \<Rightarrow> pydict" where
  "readiness_to_dict r =
     [(''candidate_id'', PStr (er_candidate_id r)), (''execution_allowed'', PBool (er_execution_allowed r)),
      (''status'', PStr (readiness_status_value (er_status r))), (''blockers'', str_list (er_blockers r)),
      (''warnings'', str_list (er_warnings r)), (''evidence'', PDict (er_evidence r)),
      (''is_execution_readiness_record'', PBool True), (''is_order'', PBool False)]"

section \<open>Helpers\<close>

fun readiness_candidate_id :: "pydict option list \<Rightarrow> string" where
  "readiness_candidate_id [] = ''unknown''"
| "readiness_candidate_id (payload # rest) =
     (case payload of
        Some d \<Rightarrow> if truthy (dget d ''candidate_id'') then py_str (dget d ''candidate_id'') else readiness_candidate_id rest
      | None \<Rightarrow> readiness_candidate_id rest)"

fun prefix_values :: "pyval \<Rightarrow> pyval list" where
  "prefix_values (PStr s) = [PStr s]"
| "prefix_values (PList xs) = xs"
| "prefix_values v = [PStr (py_str v)]"

definition prefixed :: "pyval \<Rightarrow> string \<Rightarrow> string list" where
  "prefixed values prefix =
     (if \<not> truthy values then []
      else map (\<lambda>v. prefix @ '':'' @ py_str v) (filter (\<lambda>v. \<not> is_blank v) (prefix_values values)))"

definition any_starts_with :: "string list \<Rightarrow> string \<Rightarrow> bool" where
  "any_starts_with items p \<longleftrightarrow> list_ex (\<lambda>item. starts_with item p) items"

definition status_from_blockers :: "string list \<Rightarrow> readiness_status" where
  "status_from_blockers blockers =
     (if any_starts_with blockers ''MISSING_'' then BLOCKED_INCOMPLETE_EVIDENCE
      else if any_starts_with blockers ''CANDIDATE_TRUTH'' then BLOCKED_CANDIDATE_TRUTH
      else if any_starts_with blockers ''OPPORTUNITY'' then BLOCKED_OPPORTUNITY
      else if any_starts_with blockers ''BROKER_CONTRACT'' then BLOCKED_BROKER_CONTRACT
      else if any_starts_with blockers ''MARKET'' then BLOCKED_MARKET_READINESS
      else if any_starts_with blockers ''RISK'' then BLOCKED_RISK
      else BLOCKED_INCOMPLETE_EVIDENCE)"

section \<open>The stages\<close>

text \<open>Each stage contributes its blockers and its warnings.\<close>

type_synonym contribution = "string list \<times> string list"

definition stage_lists :: "pydict \<Rightarrow> string \<Rightarrow> contribution" where
  "stage_lists d prefix = (prefixed (dget d ''blockers'') prefix, prefixed (dget d ''warnings'') prefix)"

definition candidate_stage :: "pydict option \<Rightarrow> contribution" where
  "candidate_stage candidate_truth =
     (case candidate_truth of
        None \<Rightarrow> ([''MISSING_CANDIDATE_TRUTH''], [])
      | Some d \<Rightarrow>
          if dget d ''truth_status'' \<noteq> PStr ''REAL''
          then ([''CANDIDATE_TRUTH_NOT_REAL:'' @ py_str (dget d ''truth_status'')], [])
          else stage_lists d ''CANDIDATE_TRUTH'')"

definition opportunity_stage :: "pydict option \<Rightarrow> contribution result" where
  "opportunity_stage opportunity =
     (case opportunity of
        None \<Rightarrow> Inr ([''MISSING_OPPORTUNITY''], [])
      | Some d \<Rightarrow>
          bind_result (in_str_set (dget d ''opportunity_status'') [''SELECTED'', ''RANKED'']) (\<lambda>rankable.
            Inr (if \<not> rankable then ([''OPPORTUNITY_NOT_RANKABLE:'' @ py_str (dget d ''opportunity_status'')], [])
                 else stage_lists d ''OPPORTUNITY'')))"

definition broker_stage :: "pydict option \<Rightarrow> contribution result" where
  "broker_stage broker_contract =
     (case broker_contract of
        None \<Rightarrow> Inr ([''MISSING_BROKER_CONTRACT_READINESS''], [])
      | Some d \<Rightarrow>
          bind_result (in_str_set (dget d ''readiness_status'') [''RESOLVED_EXACT'', ''RESOLVED_FALLBACK'']) (\<lambda>known.
            Inr (if \<not> known \<or> \<not> truthy (dget d ''resolved'')
                 then ([''BROKER_CONTRACT_NOT_RESOLVED:'' @ py_str (dget d ''readiness_status'')], [])
                 else (fst (stage_lists d ''BROKER_CONTRACT''),
                       snd (stage_lists d ''BROKER_CONTRACT'') @
                       add_if (truthy (dget d ''fallback_used'')) ''BROKER_CONTRACT:FALLBACK_USED''))))"

definition market_stage :: "pydict option \<Rightarrow> contribution" where
  "market_stage market_readiness =
     (case market_readiness of
        None \<Rightarrow> ([''MISSING_MARKET_READINESS''], [])
      | Some d \<Rightarrow>
          if dget d ''status'' \<noteq> PStr ''READY'' then ([''MARKET_NOT_READY:'' @ py_str (dget d ''status'')], [])
          else stage_lists d ''MARKET'')"

definition risk_stage :: "pydict option \<Rightarrow> contribution" where
  "risk_stage risk_payload =
     (case risk_payload of
        None \<Rightarrow> ([''MISSING_RISK_READINESS''], [])
      | Some d \<Rightarrow>
          if \<not> truthy (dget d ''allowed'')
          then ((''RISK_NOT_ALLOWED:'' @ py_str (dget d ''status'')) # prefixed (dget d ''blockers'') ''RISK'', [])
          else stage_lists d ''RISK'')"

definition build_execution_readiness ::
  "pydict option \<Rightarrow> pydict option \<Rightarrow> pydict option \<Rightarrow> pydict option \<Rightarrow> risk_arg \<Rightarrow> execution_readiness result" where
  "build_execution_readiness candidate_truth opportunity broker_contract market_readiness risk =
     bind_result (opportunity_stage opportunity) (\<lambda>opp.
     bind_result (broker_stage broker_contract) (\<lambda>brk.
       let stages = [candidate_stage candidate_truth, opp, brk, market_stage market_readiness, risk_stage (risk_to_dict risk)];
           blockers = dedupe (concat (map fst stages));
           warnings = dedupe (concat (map snd stages));
           execution_allowed = (blockers = [])
       in Inr \<lparr>er_candidate_id = readiness_candidate_id [candidate_truth, opportunity, broker_contract],
               er_execution_allowed = execution_allowed,
               er_status = (if execution_allowed then ALLOWED else status_from_blockers blockers),
               er_blockers = blockers,
               er_warnings = warnings,
               er_evidence =
                 [(''candidate_truth'', opt_dict candidate_truth), (''opportunity'', opt_dict opportunity),
                  (''broker_contract'', opt_dict broker_contract), (''market_readiness'', opt_dict market_readiness),
                  (''risk'', opt_dict (risk_to_dict risk))]\<rparr>))"

section \<open>When a stage is clean\<close>

text \<open>A payload lists no blocker: the entry is falsy or a list of blank items.\<close>

definition unblocked :: "pydict \<Rightarrow> bool" where
  "unblocked d \<longleftrightarrow>
     \<not> truthy (dget d ''blockers'') \<or> (\<exists>xs. dget d ''blockers'' = PList xs \<and> (\<forall>x \<in> set xs. is_blank x))"

lemma prefixed_eq_Nil: "prefixed (dget d ''blockers'') p = [] \<longleftrightarrow> unblocked d"
  by (cases "dget d ''blockers''") (auto simp: prefixed_def unblocked_def filter_empty_conv)

lemma prefixed_form: "x \<in> set (prefixed v p) \<Longrightarrow> \<exists>s. x = p @ s"
  by (auto simp: prefixed_def split: if_splits)

text \<open>What each stage needs, and the evidence of the five stages when nothing blocks.\<close>

definition candidate_ready :: "pydict option \<Rightarrow> bool" where
  "candidate_ready c \<longleftrightarrow> (\<exists>d. c = Some d \<and> dget d ''truth_status'' = PStr ''REAL'' \<and> unblocked d)"

definition opportunity_ready :: "pydict option \<Rightarrow> bool" where
  "opportunity_ready o' \<longleftrightarrow>
     (\<exists>d. o' = Some d \<and> dget d ''opportunity_status'' \<in> {PStr ''SELECTED'', PStr ''RANKED''} \<and> unblocked d)"

definition broker_ready :: "pydict option \<Rightarrow> bool" where
  "broker_ready b \<longleftrightarrow>
     (\<exists>d. b = Some d \<and> dget d ''readiness_status'' \<in> {PStr ''RESOLVED_EXACT'', PStr ''RESOLVED_FALLBACK''} \<and>
        truthy (dget d ''resolved'') \<and> unblocked d)"

definition market_ready :: "pydict option \<Rightarrow> bool" where
  "market_ready m \<longleftrightarrow> (\<exists>d. m = Some d \<and> dget d ''status'' = PStr ''READY'' \<and> unblocked d)"

definition risk_ready :: "pydict option \<Rightarrow> bool" where
  "risk_ready k \<longleftrightarrow> (\<exists>d. k = Some d \<and> truthy (dget d ''allowed'') \<and> unblocked d)"

lemmas ready_defs = candidate_ready_def opportunity_ready_def broker_ready_def market_ready_def risk_ready_def

lemma in_str_set_Inr: "in_str_set v xs = Inr b \<Longrightarrow> b \<longleftrightarrow> (\<exists>s. v = PStr s \<and> s \<in> set xs)"
  by (cases v) (auto simp: in_str_set_def)

lemma candidate_stage_clean:
  "fst (candidate_stage c) = [] \<longleftrightarrow> candidate_ready c"
  by (cases c) (auto simp: ready_defs candidate_stage_def stage_lists_def prefixed_eq_Nil split: if_splits)

lemma opportunity_stage_clean:
  "opportunity_stage o' = Inr c \<Longrightarrow>
     fst c = [] \<longleftrightarrow> opportunity_ready o'"
  by (cases o') (auto simp: ready_defs opportunity_stage_def stage_lists_def prefixed_eq_Nil [of _ "''OPPORTUNITY''", symmetric] dest: in_str_set_Inr split: if_splits)

lemma broker_stage_clean:
  "broker_stage b = Inr c \<Longrightarrow>
     fst c = [] \<longleftrightarrow> broker_ready b"
  by (cases b) (auto simp: ready_defs broker_stage_def stage_lists_def prefixed_eq_Nil [of _ "''BROKER_CONTRACT''", symmetric] dest: in_str_set_Inr split: if_splits)

lemma market_stage_clean:
  "fst (market_stage m) = [] \<longleftrightarrow> market_ready m"
  by (cases m) (auto simp: ready_defs market_stage_def stage_lists_def prefixed_eq_Nil)

lemma risk_stage_clean: "fst (risk_stage k) = [] \<longleftrightarrow> risk_ready k"
  by (cases k) (auto simp: ready_defs risk_stage_def stage_lists_def prefixed_eq_Nil)

section \<open>Which stage a blocker names\<close>

text \<open>Every blocker of a stage starts with the name of the stage or with \<open>MISSING_\<close>.\<close>

definition names_stage :: "string \<Rightarrow> string list \<Rightarrow> bool" where
  "names_stage p bs \<longleftrightarrow> (\<forall>x \<in> set bs. (\<exists>s. x = p @ s))"

lemma names_stage_simps [simp]:
  "names_stage p []"
  "names_stage p (x # xs) \<longleftrightarrow> (\<exists>s. x = p @ s) \<and> names_stage p xs"
  "names_stage p (prefixed v p)"
  by (auto simp: names_stage_def dest: prefixed_form)

lemmas stage_defs = candidate_stage_def opportunity_stage_def broker_stage_def market_stage_def risk_stage_def stage_lists_def

text \<open>The tag of a stage is \<open>MISSING_\<close> without a payload and the name of the stage otherwise.\<close>

definition stage_tag :: "string \<Rightarrow> pydict option \<Rightarrow> string" where
  "stage_tag p payload = (if payload = None then ''MISSING_'' else p)"

lemma stage_tag_simps [simp]: "stage_tag p None = ''MISSING_''" "stage_tag p (Some d) = p"
  by (simp_all add: stage_tag_def)

lemma candidate_stage_names: "names_stage (stage_tag ''CANDIDATE_TRUTH'' c) (fst (candidate_stage c))"
  by (cases c) (simp_all add: stage_defs)

lemma opportunity_stage_names: "opportunity_stage o' = Inr c \<Longrightarrow> names_stage (stage_tag ''OPPORTUNITY'' o') (fst c)"
  by (cases o') (auto simp: stage_defs)

lemma broker_stage_names: "broker_stage b = Inr c \<Longrightarrow> names_stage (stage_tag ''BROKER_CONTRACT'' b) (fst c)"
  by (cases b) (auto simp: stage_defs)

lemma market_stage_names: "names_stage (stage_tag ''MARKET'' m) (fst (market_stage m))"
  by (cases m) (simp_all add: stage_defs)

lemma risk_stage_names: "names_stage (stage_tag ''RISK'' k) (fst (risk_stage k))"
  by (cases k) (simp_all add: stage_defs)

definition stage_tags :: "string list" where
  "stage_tags = [''MISSING_'', ''CANDIDATE_TRUTH'', ''OPPORTUNITY'', ''BROKER_CONTRACT'', ''MARKET'', ''RISK'']"

lemma stage_tag_in: "p \<in> set stage_tags \<Longrightarrow> stage_tag p c \<in> set stage_tags"
  by (simp add: stage_tag_def stage_tags_def)

lemma stage_tags_ok:
  "\<forall>q \<in> set stage_tags. q \<noteq> [] \<and> \<not> is_space (hd q) \<and> \<not> is_space (last q) \<and>
     (\<forall>p \<in> set stage_tags. q \<noteq> p \<longrightarrow> take (length p) q \<noteq> take (length q) p)"
  by code_simp

definition hits :: "string list \<Rightarrow> string \<Rightarrow> bool" where
  "hits bs p \<longleftrightarrow> (\<exists>x \<in> set bs. strip x \<noteq> [] \<and> starts_with (strip x) p)"

lemma any_starts_with_dedupe: "any_starts_with (dedupe (concat bss)) p \<longleftrightarrow> (\<exists>bs \<in> set bss. hits bs p)"
  unfolding any_starts_with_def list_ex_iff set_dedupe hits_def by (auto simp del: strip_eq_Nil)

lemma take_prefix_clash: "take (length p) (q @ s) = p \<Longrightarrow> take (length p) q = take (length q) p"
proof -
  assume "take (length p) (q @ s) = p"
  then have "take (length q) p = take (length q) (take (length p) (q @ s))" by simp
  then show ?thesis by (simp add: min_def)
qed

lemma starts_with_tag:
  assumes "q \<in> set stage_tags" "p \<in> set stage_tags"
  shows "\<exists>s'. strip (q @ s) = q @ s' \<and> q @ s' \<noteq> [] \<and> (starts_with (q @ s') p \<longleftrightarrow> q = p)"
proof -
  note q = bspec [OF stage_tags_ok assms(1)]
  obtain s' where s': "strip (q @ s) = q @ s'" using strip_keeps_prefix [of q s] q by blast
  have "starts_with (q @ s') p \<longleftrightarrow> q = p"
  proof
    assume "starts_with (q @ s') p"
    then have "take (length p) q = take (length q) p"
      unfolding starts_with_def by (rule take_prefix_clash)
    then show "q = p" using q assms(2) by blast
  qed (simp add: starts_with_def)
  moreover have "q @ s' \<noteq> []" using q by blast
  ultimately show ?thesis using s' by blast
qed

lemma names_stageD: "names_stage q bs \<Longrightarrow> x \<in> set bs \<Longrightarrow> \<exists>s. x = q @ s"
  unfolding names_stage_def by blast

lemma tag_hit_iff:
  assumes "q \<in> set stage_tags" "p \<in> set stage_tags"
  shows "strip (q @ s) \<noteq> [] \<and> starts_with (strip (q @ s)) p \<longleftrightarrow> q = p"
  using starts_with_tag [OF assms, of s] by (elim exE conjE) (simp only: simp_thms)

lemma hits_named:
  assumes names: "names_stage q bs" and q: "q \<in> set stage_tags" and p: "p \<in> set stage_tags"
  shows "hits bs p \<longleftrightarrow> q = p \<and> bs \<noteq> []"
proof -
  have "(strip x \<noteq> [] \<and> starts_with (strip x) p) = (q = p)" if "x \<in> set bs" for x
    using names_stageD [OF names that] tag_hit_iff [OF q p] by blast
  then have "hits bs p \<longleftrightarrow> (\<exists>x \<in> set bs. q = p)" unfolding hits_def by (rule bex_cong [OF refl])
  then show ?thesis by (cases bs) auto
qed

text \<open>The status that the stages determine: missing evidence first, then the first stage that blocks.\<close>

definition diagnosed_status ::
  "pydict option \<Rightarrow> pydict option \<Rightarrow> pydict option \<Rightarrow> pydict option \<Rightarrow> pydict option \<Rightarrow> readiness_status" where
  "diagnosed_status c o' b m k =
     (if None \<in> {c, o', b, m, k} then BLOCKED_INCOMPLETE_EVIDENCE
      else if \<not> candidate_ready c then BLOCKED_CANDIDATE_TRUTH
      else if \<not> opportunity_ready o' then BLOCKED_OPPORTUNITY
      else if \<not> broker_ready b then BLOCKED_BROKER_CONTRACT
      else if \<not> market_ready m then BLOCKED_MARKET_READINESS
      else if \<not> risk_ready k then BLOCKED_RISK
      else ALLOWED)"

lemma ready_not_None:
  "\<not> candidate_ready None" "\<not> opportunity_ready None" "\<not> broker_ready None" "\<not> market_ready None" "\<not> risk_ready None"
  by (simp_all add: ready_defs)

lemma diagnosed_ALLOWED:
  "diagnosed_status c o' b m k = ALLOWED \<longleftrightarrow>
     candidate_ready c \<and> opportunity_ready o' \<and> broker_ready b \<and> market_ready m \<and> risk_ready k"
  using ready_not_None by (auto simp: diagnosed_status_def)

lemma list_all_blank_named:
  assumes "names_stage q bs" "q \<in> set stage_tags" shows "list_all blank bs \<longleftrightarrow> bs = []"
proof -
  have "\<not> blank q" using bspec [OF stage_tags_ok assms(2)] by (cases q) auto
  then have "\<not> blank x" if "x \<in> set bs" for x using assms(1) that unfolding names_stage_def by fastforce
  then show ?thesis by (cases bs) auto
qed

lemma stage_tag_in_tags:
  "stage_tag ''CANDIDATE_TRUTH'' c \<in> set stage_tags" "stage_tag ''OPPORTUNITY'' c \<in> set stage_tags"
  "stage_tag ''BROKER_CONTRACT'' c \<in> set stage_tags" "stage_tag ''MARKET'' c \<in> set stage_tags"
  "stage_tag ''RISK'' c \<in> set stage_tags"
  by (rule stage_tag_in, simp add: stage_tags_def)+

definition joined_blockers ::
  "pydict option \<Rightarrow> contribution \<Rightarrow> contribution \<Rightarrow> pydict option \<Rightarrow> pydict option \<Rightarrow> string list" where
  "joined_blockers c co cb m k =
     dedupe (concat [fst (candidate_stage c), fst co, fst cb, fst (market_stage m), fst (risk_stage k)])"

lemma joined_starts_with:
  assumes o: "opportunity_stage o' = Inr co" and b: "broker_stage b = Inr cb" and p: "p \<in> set stage_tags"
  shows "any_starts_with (joined_blockers c co cb m k) p \<longleftrightarrow>
      stage_tag ''CANDIDATE_TRUTH'' c = p \<and> \<not> candidate_ready c \<or> stage_tag ''OPPORTUNITY'' o' = p \<and> \<not> opportunity_ready o' \<or>
      stage_tag ''BROKER_CONTRACT'' b = p \<and> \<not> broker_ready b \<or> stage_tag ''MARKET'' m = p \<and> \<not> market_ready m \<or>
      stage_tag ''RISK'' k = p \<and> \<not> risk_ready k"
  unfolding joined_blockers_def any_starts_with_dedupe candidate_stage_clean [symmetric] opportunity_stage_clean [OF o, symmetric]
    broker_stage_clean [OF b, symmetric] market_stage_clean [symmetric] risk_stage_clean [symmetric]
  by (simp only: list.set bex_simps hits_named [OF candidate_stage_names stage_tag_in_tags(1) p]
      hits_named [OF opportunity_stage_names [OF o] stage_tag_in_tags(2) p]
      hits_named [OF broker_stage_names [OF b] stage_tag_in_tags(3) p]
      hits_named [OF market_stage_names stage_tag_in_tags(4) p]
      hits_named [OF risk_stage_names stage_tag_in_tags(5) p] simp_thms)

lemma joined_empty:
  assumes o: "opportunity_stage o' = Inr co" and b: "broker_stage b = Inr cb"
  shows "joined_blockers c co cb m k = [] \<longleftrightarrow> diagnosed_status c o' b m k = ALLOWED"
  unfolding joined_blockers_def diagnosed_ALLOWED candidate_stage_clean [symmetric] opportunity_stage_clean [OF o, symmetric]
    broker_stage_clean [OF b, symmetric] market_stage_clean [symmetric] risk_stage_clean [symmetric] dedupe_eq_Nil
  by (simp only: concat.simps append_Nil2 list_all_append list_all_blank_named [OF candidate_stage_names stage_tag_in_tags(1)]
      list_all_blank_named [OF opportunity_stage_names [OF o] stage_tag_in_tags(2)]
      list_all_blank_named [OF broker_stage_names [OF b] stage_tag_in_tags(3)]
      list_all_blank_named [OF market_stage_names stage_tag_in_tags(4)]
      list_all_blank_named [OF risk_stage_names stage_tag_in_tags(5)])

lemma tags_in_tags:
  "''MISSING_'' \<in> set stage_tags" "''CANDIDATE_TRUTH'' \<in> set stage_tags" "''OPPORTUNITY'' \<in> set stage_tags"
  "''BROKER_CONTRACT'' \<in> set stage_tags" "''MARKET'' \<in> set stage_tags" "''RISK'' \<in> set stage_tags"
  by (simp_all add: stage_tags_def)

lemma diagnosis:
  assumes o: "opportunity_stage o' = Inr co" and b: "broker_stage b = Inr cb"
  shows "(if joined_blockers c co cb m k = [] then ALLOWED else status_from_blockers (joined_blockers c co cb m k)) =
    diagnosed_status c o' b m k"
proof (cases "c = None \<or> o' = None \<or> b = None \<or> m = None \<or> k = None")
  case True
  then have "any_starts_with (joined_blockers c co cb m k) ''MISSING_''"
    unfolding joined_starts_with [OF o b tags_in_tags(1)]
    by (elim disjE) (simp_all only: stage_tag_simps ready_not_None simp_thms)
  moreover have "diagnosed_status c o' b m k = BLOCKED_INCOMPLETE_EVIDENCE"
    using True by (auto simp: diagnosed_status_def)
  ultimately show ?thesis
    by (simp only: joined_empty [OF o b] status_from_blockers_def if_True readiness_status.distinct if_False)
next
  case False
  then obtain c' o'' b' m' k' where s: "c = Some c'" "o' = Some o''" "b = Some b'" "m = Some m'" "k = Some k'" by auto
  note any = joined_starts_with [OF o b, of _ c m k, unfolded s stage_tag_simps, folded s]
  have "\<not> any_starts_with (joined_blockers c co cb m k) ''MISSING_''"
    "any_starts_with (joined_blockers c co cb m k) ''CANDIDATE_TRUTH'' \<longleftrightarrow> \<not> candidate_ready c"
    "any_starts_with (joined_blockers c co cb m k) ''OPPORTUNITY'' \<longleftrightarrow> \<not> opportunity_ready o'"
    "any_starts_with (joined_blockers c co cb m k) ''BROKER_CONTRACT'' \<longleftrightarrow> \<not> broker_ready b"
    "any_starts_with (joined_blockers c co cb m k) ''MARKET'' \<longleftrightarrow> \<not> market_ready m"
    "any_starts_with (joined_blockers c co cb m k) ''RISK'' \<longleftrightarrow> \<not> risk_ready k"
    using any [OF tags_in_tags(1)] any [OF tags_in_tags(2)] any [OF tags_in_tags(3)] any [OF tags_in_tags(4)]
      any [OF tags_in_tags(5)] any [OF tags_in_tags(6)]
    by simp_all
  moreover have "None \<notin> {c, o', b, m, k}" using False by blast
  ultimately show ?thesis
    unfolding status_from_blockers_def joined_empty [OF o b] diagnosed_ALLOWED diagnosed_status_def
    by (cases "candidate_ready c"; cases "opportunity_ready o'"; cases "broker_ready b"; cases "market_ready m";
        cases "risk_ready k"; simp only: simp_thms if_True if_False readiness_status.distinct)
qed

section \<open>Properties\<close>

text \<open>
  The readiness record allows execution exactly when all five stages are ready: the
  candidate is real, the opportunity is ranked or selected, the broker contract is resolved,
  the market is ready, risk allows, and none of them lists a blocker. Otherwise its status
  says so: incomplete evidence when a payload is missing, else the first stage in the
  order of the pipeline that is not ready.
\<close>

theorem readiness_diagnosis:
  assumes "build_execution_readiness c o' b m risk = Inr r"
  shows "(er_execution_allowed r \<longleftrightarrow>
      candidate_ready c \<and> opportunity_ready o' \<and> broker_ready b \<and> market_ready m \<and> risk_ready (risk_to_dict risk)) \<and>
    er_status r = diagnosed_status c o' b m (risk_to_dict risk) \<and>
    (er_blockers r = [] \<longleftrightarrow> er_execution_allowed r)"
proof -
  obtain co cb where o: "opportunity_stage o' = Inr co" and b: "broker_stage b = Inr cb"
    using assms by (auto simp: build_execution_readiness_def)
  let ?bs = "joined_blockers c co cb m (risk_to_dict risk)"
  from assms have bs: "er_blockers r = ?bs" and allowed: "er_execution_allowed r \<longleftrightarrow> ?bs = []"
    and status: "er_status r = (if ?bs = [] then ALLOWED else status_from_blockers ?bs)"
    unfolding build_execution_readiness_def o b bind_result_simps Let_def list.map joined_blockers_def [symmetric]
    by - (drule Inr_inject, hypsubst, simp only: execution_readiness.select_convs)+
  from status diagnosis [OF o b] have "er_status r = diagnosed_status c o' b m (risk_to_dict risk)" by (rule trans)
  with bs allowed show ?thesis by (simp only: joined_empty [OF o b] diagnosed_ALLOWED simp_thms)
qed

definition demo_evidence :: "pydict" where
  "demo_evidence =
     [(''candidate_id'', PStr ''c1''), (''truth_status'', PStr ''REAL''), (''opportunity_status'', PStr ''RANKED''),
      (''readiness_status'', PStr ''RESOLVED_EXACT''), (''resolved'', PBool True), (''status'', PStr ''READY''),
      (''allowed'', PBool True), (''blockers'', PList [])]"

theorem readiness_diagnosis_witness:
  "(case build_execution_readiness (Some demo_evidence) (Some demo_evidence) (Some demo_evidence) (Some demo_evidence)
      (RiskDict demo_evidence) of Inr r \<Rightarrow> er_execution_allowed r | Inl _ \<Rightarrow> False)"
proof -
  let ?d = "Some demo_evidence"
  have "isl (build_execution_readiness ?d ?d ?d ?d (RiskDict demo_evidence)) = False" by code_simp
  then obtain r where r: "build_execution_readiness ?d ?d ?d ?d (RiskDict demo_evidence) = Inr r"
    by (cases "build_execution_readiness ?d ?d ?d ?d (RiskDict demo_evidence)") auto
  have "candidate_ready ?d" "opportunity_ready ?d" "broker_ready ?d" "market_ready ?d" "risk_ready (risk_to_dict (RiskDict demo_evidence))"
    by (simp_all add: ready_defs unblocked_def demo_evidence_def)
  with readiness_diagnosis [OF r] show ?thesis by (simp only: r sum.case)
qed

text \<open>
  C34. The builder returns a record except when the status of the opportunity or of the
  broker contract is a list or a dict, which cannot be tested for membership in a set: then
  it raises \<open>TypeError\<close>.
\<close>

theorem readiness_errors:
  "(build_execution_readiness c o' b m risk = Inl TypeError \<longleftrightarrow>
      (\<exists>d. o' = Some d \<and> (is_list (dget d ''opportunity_status'') \<or> is_dict (dget d ''opportunity_status''))) \<or>
      (\<exists>d. b = Some d \<and> (is_list (dget d ''readiness_status'') \<or> is_dict (dget d ''readiness_status'')))) \<and>
   (build_execution_readiness c o' b m risk = Inl TypeError \<or>
      (\<exists>r. build_execution_readiness c o' b m risk = Inr r))"
proof -
  have "opportunity_stage o' = Inl TypeError \<and>
      (\<exists>d. o' = Some d \<and> (is_list (dget d ''opportunity_status'') \<or> is_dict (dget d ''opportunity_status''))) \<or>
    (\<exists>x. opportunity_stage o' = Inr x) \<and>
      \<not> (\<exists>d. o' = Some d \<and> (is_list (dget d ''opportunity_status'') \<or> is_dict (dget d ''opportunity_status'')))"
    by (cases o') (simp_all add: opportunity_stage_def in_str_set_def)
  moreover have "broker_stage b = Inl TypeError \<and>
      (\<exists>d. b = Some d \<and> (is_list (dget d ''readiness_status'') \<or> is_dict (dget d ''readiness_status''))) \<or>
    (\<exists>x. broker_stage b = Inr x) \<and>
      \<not> (\<exists>d. b = Some d \<and> (is_list (dget d ''readiness_status'') \<or> is_dict (dget d ''readiness_status'')))"
    by (cases b) (simp_all add: broker_stage_def in_str_set_def)
  moreover have "opportunity_stage o' = Inl e \<Longrightarrow> build_execution_readiness c o' b m risk = Inl e"
    "opportunity_stage o' = Inr x \<Longrightarrow> broker_stage b = Inl e \<Longrightarrow> build_execution_readiness c o' b m risk = Inl e"
    "opportunity_stage o' = Inr x \<Longrightarrow> broker_stage b = Inr y \<Longrightarrow> \<exists>r. build_execution_readiness c o' b m risk = Inr r"
    for e x y
    by (simp_all only: build_execution_readiness_def bind_result_simps Let_def) blast
  ultimately show ?thesis by (metis Inl_Inr_False)
qed

end
