(* ===== verification/Trade_Quality.thy ===== *)
theory Trade_Quality
  imports Execution_Readiness "HOL-Library.List_Lexorder" "HOL-Library.Char_ord" "HOL-Library.Product_Lexorder" "HOL-Library.Multiset"
begin

text \<open>
  src/trade_quality/scoring.py: the quality score of an execution-ready candidate, from 0 to
  100 in binary64 arithmetic, and the ranking. \<open>sum\<close> is the left fold of Python 3.11, the
  version of the project's CI; \<open>sort(reverse=True)\<close> is the stable descending sort on the
  total order of the keys, which is Python's order because a score is never NaN.
\<close>

section \<open>Data\<close>

datatype quality_status = QUALIFIED | BLOCKED_NOT_EXECUTION_READY | DEGRADED_BY_WARNINGS

fun quality_status_value :: "quality_status \<Rightarrow> string" where
  "quality_status_value QUALIFIED = ''QUALIFIED''"
| "quality_status_value BLOCKED_NOT_EXECUTION_READY = ''BLOCKED_NOT_EXECUTION_READY''"
| "quality_status_value DEGRADED_BY_WARNINGS = ''DEGRADED_BY_WARNINGS''"

record trade_quality_score =
  tq_candidate_id :: string
  tq_quality_score :: pyfloat
  tq_status :: quality_status
  tq_rank :: "int option"
  tq_components :: "(string \<times> pyfloat) list"
  tq_penalties :: "(string \<times> pyfloat) list"
  tq_blockers :: "pyval list"
  tq_warnings :: "pyval list"
  tq_execution_readiness :: pydict

definition float_dict :: "(string \<times> pyfloat) list \<Rightarrow> pyval" where
  "float_dict d = PDict (map (\<lambda>(k, x). (k, PFloat x)) d)"

definition quality_to_dict :: "trade_quality_score \<Rightarrow> pydict" where
  "quality_to_dict q =
     [(''candidate_id'', PStr (tq_candidate_id q)), (''quality_score'', PFloat (tq_quality_score q)),
      (''status'', PStr (quality_status_value (tq_status q))), (''rank'', opt_int (tq_rank q)),
      (''components'', float_dict (tq_components q)), (''penalties'', float_dict (tq_penalties q)),
      (''blockers'', PList (tq_blockers q)), (''warnings'', PList (tq_warnings q)),
      (''execution_readiness'', PDict (tq_execution_readiness q)), (''is_order'', PBool False)]"

section \<open>Components\<close>

fun first_number :: "pyval list \<Rightarrow> pyfloat option result" where
  "first_number [] = Inr None"
| "first_number (v # vs) =
     (if is_blank v then first_number vs
      else bind_result (or_none (py_float v)) (\<lambda>x. case x of Some f \<Rightarrow> Inr (Some f) | None \<Rightarrow> first_number vs))"

text \<open>\<open>d.get(k, {}).get("confidence") if isinstance(d.get(k), dict) else None\<close>\<close>

definition nested_confidence :: "pydict \<Rightarrow> string \<Rightarrow> pyval" where
  "nested_confidence d k = dget (as_dict (dget d k)) ''confidence''"

definition confidence_component :: "pyval \<Rightarrow> pyval \<Rightarrow> pyfloat result" where
  "confidence_component candidate_truth opportunity =
     bind_result (need_dict candidate_truth) (\<lambda>c.
     bind_result (need_dict opportunity) (\<lambda>o'.
     bind_result (first_number [nested_confidence c ''normalized'', nested_confidence c ''raw'',
         dget o' ''rank_score'', dget o' ''score'']) (\<lambda>value.
       case value of
         None \<Rightarrow> Inr (Fin 10)
       | Some x \<Rightarrow>
           bind_result (float_div x (Fin 100)) (\<lambda>q.
             Inr (float_max (Fin 0) (float_min (Fin 25) (float_mul q (Fin 25))))))))"

definition broker_component :: "pyval \<Rightarrow> pyfloat result" where
  "broker_component broker =
     bind_result (need_dict broker) (\<lambda>b.
       Inr (if dget b ''readiness_status'' = PStr ''RESOLVED_EXACT'' then Fin 20
            else if dget b ''readiness_status'' = PStr ''RESOLVED_FALLBACK'' then Fin 14
            else Fin 0))"

text \<open>\<open>market["quote"]\<close> when it is a dict, else the market payload itself.\<close>

definition quote_of :: "pydict \<Rightarrow> pydict" where
  "quote_of m = (case dget m ''quote'' of PDict q \<Rightarrow> q | _ \<Rightarrow> m)"

text \<open>\<open>x or default\<close> for an optional float.\<close>

definition float_or :: "pyfloat option \<Rightarrow> pyfloat \<Rightarrow> pyfloat" where
  "float_or x d = (case x of Some y \<Rightarrow> if y = Fin 0 then d else y | None \<Rightarrow> d)"

text \<open>\<open>round(weight * max(0.0, 1.0 - min(x / limit, 1.0)), 2)\<close>\<close>

definition closeness :: "pyfloat \<Rightarrow> pyfloat \<Rightarrow> pyfloat \<Rightarrow> pyfloat result" where
  "closeness weight x limit =
     bind_result (float_div x limit) (\<lambda>r.
       Inr (py_round (float_mul weight (float_max (Fin 0) (float_sub (Fin 1) (float_min r (Fin 1))))) 2))"

definition quote_freshness_component :: "pyval \<Rightarrow> pyfloat result" where
  "quote_freshness_component market =
     bind_result (need_dict market) (\<lambda>m.
     bind_result (first_number [dget (quote_of m) ''quote_age_sec'', dget (quote_of m) ''ltp_age_sec'', dget (quote_of m) ''age_sec'']) (\<lambda>age.
     bind_result (first_number [dget (quote_of m) ''max_quote_age_sec'']) (\<lambda>max_age.
       case age of
         None \<Rightarrow> Inr (if dget m ''status'' = PStr ''READY'' then Fin 8 else Fin 0)
       | Some a \<Rightarrow> closeness (Fin 15) a (float_or max_age (Fin 2)))))"

definition liquidity_component :: "pyval \<Rightarrow> pyfloat result" where
  "liquidity_component market =
     bind_result (need_dict market) (\<lambda>m.
     bind_result (first_number [dget (quote_of m) ''spread_pct'']) (\<lambda>spread.
     bind_result (first_number [dget (quote_of m) ''max_spread_pct'']) (\<lambda>max_spread.
       case spread of
         None \<Rightarrow> Inr (if dget m ''status'' = PStr ''READY'' then Fin 12 else Fin 0)
       | Some s \<Rightarrow> closeness (Fin 20) s (float_or max_spread (Fin 1)))))"

definition risk_component :: "pyval \<Rightarrow> pyfloat result" where
  "risk_component risk =
     bind_result (need_dict risk) (\<lambda>r. Inr (if dget r ''allowed'' = PBool True then Fin 20 else Fin 0))"

section \<open>Penalties\<close>

definition per_item :: "pyfloat \<Rightarrow> int \<Rightarrow> pyfloat" where
  "per_item cap n = float_min cap (float_mul (Fin 2) (round64 (of_int n)))"

definition warning_penalty :: "string \<Rightarrow> pyval \<Rightarrow> (string \<times> pyfloat) list result" where
  "warning_penalty name warnings =
     (if truthy warnings then bind_result (py_len warnings) (\<lambda>n. Inr [(name, per_item (Fin 6) n)]) else Inr [])"

definition penalties :: "pydict \<Rightarrow> pyval \<Rightarrow> pyval \<Rightarrow> pyval \<Rightarrow> (string \<times> pyfloat) list result" where
  "penalties readiness broker market risk =
     bind_result (list_or_empty (dget readiness ''warnings'')) (\<lambda>warnings.
     bind_result (need_dict broker) (\<lambda>b.
     bind_result (warning_penalty ''market_warnings'' (dget (as_dict market) ''warnings'')) (\<lambda>pm.
     bind_result (warning_penalty ''risk_warnings'' (dget (as_dict risk) ''warnings'')) (\<lambda>pr.
       Inr ((if warnings \<noteq> [] then [(''warnings'', per_item (Fin 10) (int (length warnings)))] else []) @
            add_if (truthy (dget b ''fallback_used'')) (''broker_fallback'', Fin 5) @ pm @ pr)))))"

section \<open>Score and rank\<close>

text \<open>\<open>sum(xs)\<close> starts at the integer 0.\<close>

definition float_sum :: "pyfloat list \<Rightarrow> pyfloat" where
  "float_sum xs = fold (\<lambda>x s. float_add s x) xs (Fin 0)"

definition score_components :: "pydict \<Rightarrow> (string \<times> pyfloat) list result" where
  "score_components evidence =
     (let get = (\<lambda>k. or_empty_dict (dget evidence k))
      in bind_result (confidence_component (get ''candidate_truth'') (get ''opportunity'')) (\<lambda>c.
         bind_result (broker_component (get ''broker_contract'')) (\<lambda>b.
         bind_result (quote_freshness_component (get ''market_readiness'')) (\<lambda>f.
         bind_result (liquidity_component (get ''market_readiness'')) (\<lambda>l.
         bind_result (risk_component (get ''risk'')) (\<lambda>r.
           Inr [(''confidence'', c), (''broker_contract'', b), (''quote_freshness'', f), (''liquidity'', l), (''risk'', r)]))))))"

definition score_trade_quality :: "pydict \<Rightarrow> trade_quality_score result" where
  "score_trade_quality readiness =
     (let candidate_id = (if truthy (dget readiness ''candidate_id'') then py_str (dget readiness ''candidate_id'') else ''unknown'')
      in bind_result (list_or_empty (dget readiness ''blockers'')) (\<lambda>blockers.
         bind_result (list_or_empty (dget readiness ''warnings'')) (\<lambda>warnings.
           if \<not> truthy (dget readiness ''execution_allowed'')
           then Inr \<lparr>tq_candidate_id = candidate_id, tq_quality_score = Fin 0, tq_status = BLOCKED_NOT_EXECUTION_READY,
                  tq_rank = None, tq_components = [], tq_penalties = [],
                  tq_blockers = (if blockers \<noteq> [] then blockers else [PStr ''EXECUTION_NOT_ALLOWED'']),
                  tq_warnings = warnings, tq_execution_readiness = readiness\<rparr>
           else
             bind_result (need_dict (or_empty_dict (dget readiness ''evidence''))) (\<lambda>evidence.
             bind_result (score_components evidence) (\<lambda>components.
             bind_result (penalties readiness (or_empty_dict (dget evidence ''broker_contract''))
                 (or_empty_dict (dget evidence ''market_readiness'')) (or_empty_dict (dget evidence ''risk''))) (\<lambda>pens.
               let raw_score = float_sub (float_sum (map snd components)) (float_sum (map snd pens))
               in Inr \<lparr>tq_candidate_id = candidate_id,
                    tq_quality_score = float_max (Fin 0) (float_min (Fin 100) (py_round raw_score 2)),
                    tq_status = (if warnings \<noteq> [] \<or> pens \<noteq> [] then DEGRADED_BY_WARNINGS else QUALIFIED),
                    tq_rank = None, tq_components = components, tq_penalties = pens,
                    tq_blockers = blockers, tq_warnings = warnings, tq_execution_readiness = readiness\<rparr>))))))"

definition quality_key :: "trade_quality_score \<Rightarrow> pyfloat \<times> string" where
  "quality_key q = (tq_quality_score q, tq_candidate_id q)"

text \<open>\<open>xs.sort(key=f, reverse=True)\<close>: descending, equal keys in their original order.\<close>

definition sort_desc :: "('a \<Rightarrow> 'k :: linorder) \<Rightarrow> 'a list \<Rightarrow> 'a list" where
  "sort_desc f xs = rev (sort_key f (rev xs))"

text \<open>\<open>enumerate(xs, start=1)\<close>\<close>

definition numbered :: "'a list \<Rightarrow> (int \<times> 'a) list" where
  "numbered xs = zip (map int [1 ..< Suc (length xs)]) xs"

definition rank_trade_quality :: "pydict list \<Rightarrow> trade_quality_score list result" where
  "rank_trade_quality records =
     bind_result (map_result score_trade_quality records) (\<lambda>scored.
       Inr (map (\<lambda>(i, row). row\<lparr>tq_rank := Some i\<rparr>) (numbered (sort_desc quality_key scored))))"

section \<open>Lemmas\<close>

lemma set_sort_desc [simp]: "set (sort_desc f xs) = set xs"
  by (simp add: sort_desc_def)

lemma length_sort_desc [simp]: "length (sort_desc f xs) = length xs"
  by (simp add: sort_desc_def)

lemma mset_sort_desc [simp]: "mset (sort_desc f xs) = mset xs"
  by (simp add: sort_desc_def)

lemma sorted_sort_desc: "sorted_wrt (\<lambda>x y. f y \<le> f x) (sort_desc f xs)"
proof -
  have "sorted_wrt (\<lambda>x y. f x \<le> f y) (sort_key f (rev xs))"
    using sorted_sort_key [of f "rev xs"] by (simp add: sorted_map)
  then show ?thesis by (simp add: sort_desc_def sorted_wrt_rev)
qed

lemma hd_sort_desc: "xs \<noteq> [] \<Longrightarrow> hd (sort_desc f xs) \<in> set xs \<and> (\<forall>y \<in> set xs. f y \<le> f (hd (sort_desc f xs)))"
proof -
  assume "xs \<noteq> []"
  then obtain y ys where s: "sort_desc f xs = y # ys"
    by (metis length_0_conv length_sort_desc neq_Nil_conv)
  with sorted_sort_desc [of f xs] have "\<forall>z \<in> set (sort_desc f xs). f z \<le> f y" by auto
  moreover have "y \<in> set (sort_desc f xs)" using s by simp
  ultimately show ?thesis using set_sort_desc [of f xs] by (simp only: s list.sel)
qed

lemma map_snd_numbered [simp]: "map snd (numbered xs) = xs"
  by (simp add: numbered_def del: upt_Suc)

lemma map_fst_numbered: "map fst (numbered xs) = map int [1 ..< Suc (length xs)]"
  by (simp add: numbered_def del: upt_Suc)

lemma length_numbered [simp]: "length (numbered xs) = length xs"
  by (simp add: numbered_def del: upt_Suc)

lemma map_numbered_snd: "map (\<lambda>(i, x). f x) (numbered xs) = map f xs"
proof -
  have "map (\<lambda>(i, x). f x) (numbered xs) = map f (map snd (numbered xs))" by (simp add: case_prod_beta' del: map_snd_numbered)
  then show ?thesis by (simp del: map_map)
qed

lemma map_numbered_fst: "map (\<lambda>(i, x). g i) (numbered xs) = map (g \<circ> int) [1 ..< Suc (length xs)]"
proof -
  have "map (\<lambda>(i, x). g i) (numbered xs) = map g (map fst (numbered xs))" by (simp add: case_prod_beta')
  then show ?thesis unfolding map_fst_numbered by (simp del: upt_Suc)
qed

lemma clamped: "float_le (Fin 0) (float_max (Fin 0) (float_min (Fin 100) x))" "float_le (float_max (Fin 0) (float_min (Fin 100) x)) (Fin 100)"
  by (cases x; auto simp: float_max_def float_min_def float_le_def float_eq_def)+

section \<open>Properties\<close>

text \<open>
  C35. A quality score always lies between 0 and 100, whatever the payloads contain. A record
  that does not allow execution scores 0, is BLOCKED_NOT_EXECUTION_READY and carries a
  blocker; any other is never blocked, and is degraded exactly when it has warnings or
  penalties.
\<close>

theorem quality_score_bounds:
  assumes "score_trade_quality readiness = Inr q"
  shows "float_le (Fin 0) (tq_quality_score q) \<and> float_le (tq_quality_score q) (Fin 100) \<and>
    (\<not> truthy (dget readiness ''execution_allowed'') \<longrightarrow>
       tq_quality_score q = Fin 0 \<and> tq_status q = BLOCKED_NOT_EXECUTION_READY \<and> tq_blockers q \<noteq> []) \<and>
    (truthy (dget readiness ''execution_allowed'') \<longrightarrow>
       tq_status q = (if tq_warnings q \<noteq> [] \<or> tq_penalties q \<noteq> [] then DEGRADED_BY_WARNINGS else QUALIFIED))"
  using assms clamped
  by (cases "truthy (dget readiness ''execution_allowed'')") (auto simp: score_trade_quality_def Let_def split: if_splits)

theorem quality_score_bounds_witness:
  "case score_trade_quality [(''execution_allowed'', PBool False)] of Inr q \<Rightarrow> tq_quality_score q = Fin 0 | Inl _ \<Rightarrow> False"
proof -
  have "\<not> isl (score_trade_quality [(''execution_allowed'', PBool False)])" by code_simp
  then obtain q where q: "score_trade_quality [(''execution_allowed'', PBool False)] = Inr q"
    by (cases "score_trade_quality [(''execution_allowed'', PBool False)]") auto
  from quality_score_bounds [OF q] show ?thesis by (simp add: q)
qed

text \<open>
  The ranking is a permutation of the scored records in descending order of score and
  then of candidate id, and the ranks are 1, 2, 3 and so on from the best.
\<close>

theorem ranking_is_sorted:
  assumes "map_result score_trade_quality records = Inr scored"
  shows "\<exists>ranked. rank_trade_quality records = Inr ranked \<and>
    sorted_wrt (\<lambda>x y. quality_key y \<le> quality_key x) ranked \<and>
    map tq_rank ranked = map (Some \<circ> int) [1 ..< Suc (length records)] \<and>
    mset (map (\<lambda>q. q\<lparr>tq_rank := None\<rparr>) ranked) = mset (map (\<lambda>q. q\<lparr>tq_rank := None\<rparr>) scored)"
proof -
  let ?s = "sort_desc quality_key scored"
  let ?ranked = "map (\<lambda>(i, row). row\<lparr>tq_rank := Some i\<rparr>) (numbered ?s)"
  have keys: "map quality_key ?ranked = map quality_key ?s"
    using map_numbered_snd [of quality_key ?s] by (simp add: quality_key_def comp_def case_prod_beta')
  have "sorted_wrt (\<lambda>k l. l \<le> k) (map quality_key ?ranked)"
    unfolding keys using sorted_sort_desc [of quality_key scored] by (simp only: sorted_wrt_map)
  then have sorted: "sorted_wrt (\<lambda>x y. quality_key y \<le> quality_key x) ?ranked"
    by (rule sorted_wrt_map [THEN iffD1])
  have ranks: "map tq_rank ?ranked = map (Some \<circ> int) [1 ..< Suc (length records)]"
    using map_numbered_fst [of Some ?s] map_result_length [OF assms]
    by (simp add: comp_def case_prod_beta' del: upt_Suc)
  have "map (\<lambda>q. q\<lparr>tq_rank := None\<rparr>) ?ranked = map (\<lambda>q. q\<lparr>tq_rank := None\<rparr>) ?s"
    using map_numbered_snd [of "\<lambda>q. q\<lparr>tq_rank := None\<rparr>" ?s] by (simp add: comp_def case_prod_beta')
  then have perm: "mset (map (\<lambda>q. q\<lparr>tq_rank := None\<rparr>) ?ranked) = mset (map (\<lambda>q. q\<lparr>tq_rank := None\<rparr>) scored)"
    by (simp only: mset_map mset_sort_desc)
  have "rank_trade_quality records = Inr ?ranked" using assms by (simp add: rank_trade_quality_def)
  with sorted ranks perm show ?thesis by (intro exI [of _ ?ranked] conjI)
qed

definition demo_readiness :: "string \<Rightarrow> int \<Rightarrow> pydict" where
  "demo_readiness cid conf =
     [(''candidate_id'', PStr cid), (''execution_allowed'', PBool True),
      (''evidence'', PDict [(''candidate_truth'', PDict [(''normalized'', PDict [(''confidence'', PInt conf)])])])]"

theorem ranking_is_sorted_witness:
  "\<exists>ranked. rank_trade_quality [demo_readiness ''a'' 40, demo_readiness ''b'' 80] = Inr ranked \<and>
     map tq_rank ranked = [Some 1, Some 2]"
proof -
  have "\<not> isl (map_result score_trade_quality [demo_readiness ''a'' 40, demo_readiness ''b'' 80])" by code_simp
  then obtain s where "map_result score_trade_quality [demo_readiness ''a'' 40, demo_readiness ''b'' 80] = Inr s"
    by (cases "map_result score_trade_quality [demo_readiness ''a'' 40, demo_readiness ''b'' 80]") auto
  from ranking_is_sorted [OF this] obtain ranked
    where "rank_trade_quality [demo_readiness ''a'' 40, demo_readiness ''b'' 80] = Inr ranked"
      "map tq_rank ranked = map (Some \<circ> int) [1 ..< Suc (length [demo_readiness ''a'' 40, demo_readiness ''b'' 80])]"
    by blast
  then show ?thesis by (simp add: upt_rec)
qed

text \<open>
  A component is not bounded by its weight: the freshness of a quote, weighted 15, is
  \<open>15 * (1 + a / 2)\<close> for a quote that is \<open>a\<close> seconds in the future, so that with a clock
  that is ten seconds behind it contributes 90 and a candidate with no confidence, no resolved
  contract and no risk clearance scores as if it were fully qualified.
\<close>

theorem future_quote_freshness_unbounded:
  "quote_freshness_component (PDict [(''quote_age_sec'', PInt (- 10))]) = Inr (Fin 90) \<and>
   (case score_trade_quality
       [(''execution_allowed'', PBool True),
        (''evidence'', PDict [(''market_readiness'', PDict [(''quote_age_sec'', PInt (- 20))])])] of
      Inr q \<Rightarrow> tq_quality_score q = Fin 100 \<and> tq_status q = QUALIFIED
    | Inl _ \<Rightarrow> False)"
  by code_simp

end
