(* ===== verification/Top_Selector.thy ===== *)
theory Top_Selector
  imports Trade_Quality
begin

text \<open>
  src/top_selector/selector.py: the rows of the quality ranking are split into eligible and
  rejected ones, the eligible ones are sorted and numbered, and the best is selected. The
  sort is the stable descending one of \<open>Trade_Quality\<close>, which is Python's as long as no
  eligible score is NaN.
\<close>

section \<open>Data\<close>

datatype selector_status = SELECTED | NO_ELIGIBLE_CANDIDATES

fun selector_status_value :: "selector_status \<Rightarrow> string" where
  "selector_status_value SELECTED = ''SELECTED''"
| "selector_status_value NO_ELIGIBLE_CANDIDATES = ''NO_ELIGIBLE_CANDIDATES''"

record selection =
  se_status :: selector_status
  se_selected :: "pydict option"
  se_eligible :: "pydict list"
  se_rejected :: "pydict list"
  se_reason :: "string option"

text \<open>\<open>dict(self.selected) if self.selected else None\<close>: an empty dict counts as none.\<close>

definition selection_to_dict :: "selection \<Rightarrow> pydict" where
  "selection_to_dict s =
     [(''status'', PStr (selector_status_value (se_status s))),
      (''selected'', (case se_selected s of Some d \<Rightarrow> if d = [] then PNone else PDict d | None \<Rightarrow> PNone)),
      (''eligible'', PList (map PDict (se_eligible s))),
      (''rejected'', PList (map PDict (se_rejected s))),
      (''reason'', opt_str (se_reason s)),
      (''is_order'', PBool False),
      (''is_selector_decision'', PBool True)]"

section \<open>Rejection\<close>

definition row_score :: "pydict \<Rightarrow> pyfloat result" where
  "row_score row =
     bind_result (or_none (py_float (py_or (dget row ''quality_score'') (PFloat (Fin 0))))) (\<lambda>x.
       Inr (case x of Some f \<Rightarrow> f | None \<Rightarrow> Fin 0))"

definition rejection_reasons :: "pydict \<Rightarrow> pyfloat \<Rightarrow> string list result" where
  "rejection_reasons row min_quality_score =
     bind_result (need_dict (or_empty_dict (dget row ''execution_readiness''))) (\<lambda>execution.
     bind_result (row_score row) (\<lambda>score.
     bind_result (list_or_empty (dget row ''blockers'')) (\<lambda>blockers.
       Inr (dedupe
         (add_if (\<not> truthy (dget execution ''execution_allowed'')) ''EXECUTION_NOT_ALLOWED'' @
          add_if (float_lt score min_quality_score) ''QUALITY_SCORE_BELOW_THRESHOLD'' @
          add_if (dget row ''status'' = PStr ''BLOCKED_NOT_EXECUTION_READY'') ''TRADE_QUALITY_BLOCKED'' @
          map (\<lambda>b. ''BLOCKER:'' @ py_str b) blockers)))))"

section \<open>Selection\<close>

text \<open>One row goes to the eligible or, with its reasons, to the rejected rows.\<close>

definition classify :: "pyfloat \<Rightarrow> pydict \<Rightarrow> (pydict + pydict) result" where
  "classify min_quality_score row =
     bind_result (rejection_reasons row min_quality_score) (\<lambda>reasons.
       Inr (if reasons \<noteq> [] then Inl (dset ''selector_rejection_reasons'' (str_list reasons) row) else Inr row))"

definition row_key :: "pydict \<Rightarrow> (pyfloat \<times> string) result" where
  "row_key row = bind_result (row_score row) (\<lambda>s. Inr (s, str_or_empty (dget row ''candidate_id'')))"

text \<open>The keys are computed once for each row, then the rows are sorted by them.\<close>

definition sort_rows :: "pydict list \<Rightarrow> pydict list result" where
  "sort_rows rows = bind_result (map_result row_key rows) (\<lambda>keys. Inr (map snd (sort_desc fst (zip keys rows))))"

definition rank_rows :: "pydict list \<Rightarrow> pydict list" where
  "rank_rows rows = map (\<lambda>(i, row). dset ''selector_rank'' (PInt i) row) (numbered rows)"

definition select_top_executable :: "pydict list \<Rightarrow> pyfloat \<Rightarrow> selection result" where
  "select_top_executable rows min_quality_score =
     bind_result (map_result (classify min_quality_score) rows) (\<lambda>classified.
       let rejected = map projl (filter isl classified) in
       bind_result (sort_rows (map projr (filter (\<lambda>c. \<not> isl c) classified))) (\<lambda>sorted_rows.
         Inr (case rank_rows sorted_rows of
           [] \<Rightarrow> \<lparr>se_status = NO_ELIGIBLE_CANDIDATES, se_selected = None, se_eligible = [], se_rejected = rejected,
                  se_reason = Some ''no_execution_allowed_quality_candidate''\<rparr>
         | best # _ \<Rightarrow>
             \<lparr>se_status = SELECTED,
              se_selected = Some (dset ''selection_reason'' (PStr ''highest_quality_score_above_threshold'')
                (dset ''selected_by'' (PStr ''top_executable_selector'') best)),
              se_eligible = rank_rows sorted_rows, se_rejected = rejected,
              se_reason = Some ''selected_highest_quality_candidate''\<rparr>)))"

section \<open>Lemmas\<close>

text \<open>What makes a row eligible.\<close>

definition row_eligible :: "pyfloat \<Rightarrow> pydict \<Rightarrow> bool" where
  "row_eligible min_quality_score row \<longleftrightarrow>
     (\<exists>e s. need_dict (or_empty_dict (dget row ''execution_readiness'')) = Inr e \<and> truthy (dget e ''execution_allowed'') \<and>
        row_score row = Inr s \<and> \<not> float_lt s min_quality_score \<and>
        dget row ''status'' \<noteq> PStr ''BLOCKED_NOT_EXECUTION_READY'' \<and>
        list_or_empty (dget row ''blockers'') = Inr [])"

lemma reasons_nonblank:
  "\<not> blank ''EXECUTION_NOT_ALLOWED''" "\<not> blank ''QUALITY_SCORE_BELOW_THRESHOLD''" "\<not> blank ''TRADE_QUALITY_BLOCKED''"
  "\<not> blank ''BLOCKER:''"
  by code_simp+

lemma reasons_empty:
  "dedupe (add_if a ''EXECUTION_NOT_ALLOWED'' @ add_if b ''QUALITY_SCORE_BELOW_THRESHOLD'' @
      add_if c ''TRADE_QUALITY_BLOCKED'' @ map (\<lambda>x. ''BLOCKER:'' @ py_str x) xs) = [] \<longleftrightarrow> \<not> a \<and> \<not> b \<and> \<not> c \<and> xs = []"
  by (cases xs) (simp_all only: dedupe_eq_Nil list_all_append list_all_add_if list.map list.pred_inject blank_append
      reasons_nonblank simp_thms list.distinct)

lemma rejection_reasons_empty: "rejection_reasons row m = Inr [] \<longleftrightarrow> row_eligible m row"
  unfolding rejection_reasons_def row_eligible_def bind_result_eq_Inr sum.inject reasons_empty by blast

lemma classify_Inr: "classify m row = Inr (Inr r) \<longleftrightarrow> row_eligible m row \<and> r = row"
  unfolding rejection_reasons_empty [symmetric] by (auto simp: classify_def)

lemma classify_Inl:
  "classify m row = Inr (Inl r) \<Longrightarrow>
     \<not> row_eligible m row \<and> (\<exists>reasons. reasons \<noteq> [] \<and> r = dset ''selector_rejection_reasons'' (str_list reasons) row)"
  unfolding rejection_reasons_empty [symmetric] by (auto simp: classify_def split: if_splits)

lemma classified_eligible:
  "map_result (classify m) rows = Inr cs \<Longrightarrow> map projr (filter (\<lambda>c. \<not> isl c) cs) = filter (row_eligible m) rows"
proof (induction rows arbitrary: cs)
  case (Cons row rows)
  then obtain c cs' where c: "classify m row = Inr c" "map_result (classify m) rows = Inr cs'" "cs = c # cs'" by auto
  with Cons.IH [of cs'] show ?case
    by (cases c) (auto simp: classify_Inr dest: classify_Inl)
qed simp

lemma classified_rejected:
  "map_result (classify m) rows = Inr cs \<Longrightarrow>
     list_all2 (\<lambda>row r. \<exists>reasons. reasons \<noteq> [] \<and> r = dset ''selector_rejection_reasons'' (str_list reasons) row)
       (filter (\<lambda>row. \<not> row_eligible m row) rows) (map projl (filter isl cs))"
proof (induction rows arbitrary: cs)
  case (Cons row rows)
  then obtain c cs' where c: "classify m row = Inr c" "map_result (classify m) rows = Inr cs'" "cs = c # cs'" by auto
  with Cons.IH [of cs'] show ?case
    by (cases c) (auto simp: classify_Inr dest: classify_Inl)
qed simp

lemma sort_rows_perm:
  assumes "sort_rows rows = Inr ss"
  shows "set ss = set rows" "length ss = length rows" "mset ss = mset rows"
proof -
  obtain keys where k: "map_result row_key rows = Inr keys" "ss = map snd (sort_desc fst (zip keys rows))"
    using assms by (auto simp: sort_rows_def)
  then have "length keys = length rows" by (simp add: map_result_length)
  then have "mset ss = mset (map snd (zip keys rows))" using k by (metis mset_map mset_sort_desc)
  with \<open>length keys = length rows\<close> show m: "mset ss = mset rows" by simp
  then show "set ss = set rows" "length ss = length rows" by (metis set_mset_mset, metis size_mset)
qed

lemma row_key_of_zip:
  "map_result row_key rows = Inr keys \<Longrightarrow> (k, row) \<in> set (zip keys rows) \<Longrightarrow> row_key row = Inr k"
  using map_result_list_all2 [of row_key rows keys] by (auto simp: list_all2_conv_all_nth set_zip)

lemma sort_rows_sorted:
  assumes "sort_rows rows = Inr ss"
  shows "sorted_wrt (\<lambda>x y. \<exists>k l. row_key x = Inr k \<and> row_key y = Inr l \<and> l \<le> k) ss"
proof -
  obtain keys where k: "map_result row_key rows = Inr keys" "ss = map snd (sort_desc fst (zip keys rows))"
    using assms by (auto simp: sort_rows_def)
  have "sorted_wrt (\<lambda>x y. row_key (snd x) = Inr (fst x) \<and> row_key (snd y) = Inr (fst y) \<and> fst y \<le> fst x)
      (sort_desc fst (zip keys rows))"
    using sorted_sort_desc [of fst "zip keys rows"] row_key_of_zip [OF k(1)]
    by (auto intro: sorted_wrt_mono_rel [rotated])
  then show ?thesis unfolding k(2) sorted_wrt_map
    by (rule sorted_wrt_mono_rel [rotated]) blast
qed

lemma classified_rejected_keys:
  assumes "map_result (classify m) rows = Inr cs"
  shows "length (map projl (filter isl cs)) = length (filter (\<lambda>row. \<not> row_eligible m row) rows)"
  using classified_rejected [OF assms] by (simp add: list_all2_lengthD)

lemma rank_rows_Nil [simp]: "rank_rows rows = [] \<longleftrightarrow> rows = []"
  using length_numbered [of rows] by (auto simp: rank_rows_def simp flip: length_0_conv)

lemma rank_rows_of_Nil [simp]: "rank_rows [] = []"
  by simp

lemma length_rank_rows [simp]: "length (rank_rows rows) = length rows"
  by (simp add: rank_rows_def)

lemma rank_rows_Cons: "\<exists>rest. rank_rows (row # rows) = dset ''selector_rank'' (PInt 1) row # rest"
  by (simp add: rank_rows_def numbered_def upt_conv_Cons del: upt_Suc)

lemma rank_rows_ranks: "map (\<lambda>r. dget r ''selector_rank'') (rank_rows rows) = map (PInt \<circ> int) [1 ..< Suc (length rows)]"
  using map_numbered_fst [of PInt rows] by (simp add: rank_rows_def comp_def case_prod_beta' del: upt_Suc)

lemma select_cases:
  assumes "select_top_executable rows m = Inr s"
  obtains cs ss where "map_result (classify m) rows = Inr cs" "sort_rows (filter (row_eligible m) rows) = Inr ss"
    "se_rejected s = map projl (filter isl cs)" "se_eligible s = rank_rows ss"
    "ss = [] \<Longrightarrow> se_status s = NO_ELIGIBLE_CANDIDATES \<and> se_selected s = None"
    "\<And>row rest. ss = row # rest \<Longrightarrow> se_status s = SELECTED \<and>
       se_selected s = Some (dset ''selection_reason'' (PStr ''highest_quality_score_above_threshold'')
         (dset ''selected_by'' (PStr ''top_executable_selector'') (dset ''selector_rank'' (PInt 1) row)))"
proof -
  obtain cs where cs: "map_result (classify m) rows = Inr cs"
    using assms by (auto simp: select_top_executable_def)
  from classified_eligible [OF cs] assms obtain ss where ss: "sort_rows (filter (row_eligible m) rows) = Inr ss"
    by (auto simp: select_top_executable_def cs Let_def)
  show thesis
  proof (cases ss)
    case Nil
    with assms ss cs classified_eligible [OF cs] that [of cs ss] show thesis
      by (auto simp: select_top_executable_def Let_def)
  next
    case (Cons row rest)
    moreover obtain rest' where "rank_rows (row # rest) = dset ''selector_rank'' (PInt 1) row # rest'"
      using rank_rows_Cons by blast
    ultimately show thesis
      using assms ss cs classified_eligible [OF cs] that [of cs ss] by (auto simp: select_top_executable_def Let_def)
  qed
qed

section \<open>Properties\<close>

lemma select_best_row:
  assumes "select_top_executable rows m = Inr s"
  shows "(se_status s = NO_ELIGIBLE_CANDIDATES \<longleftrightarrow> filter (row_eligible m) rows = []) \<and>
    (se_status s = NO_ELIGIBLE_CANDIDATES \<longrightarrow> se_selected s = None) \<and>
    (se_status s = SELECTED \<longrightarrow>
       (\<exists>row k. row \<in> set rows \<and> row_eligible m row \<and> row_key row = Inr k \<and>
          (\<forall>r \<in> set rows. \<forall>l. row_eligible m r \<longrightarrow> row_key r = Inr l \<longrightarrow> l \<le> k) \<and>
          se_selected s = Some (dset ''selection_reason'' (PStr ''highest_quality_score_above_threshold'')
            (dset ''selected_by'' (PStr ''top_executable_selector'') (dset ''selector_rank'' (PInt 1) row)))))"
proof -
  from assms obtain cs ss where ss: "sort_rows (filter (row_eligible m) rows) = Inr ss"
    and none: "ss = [] \<Longrightarrow> se_status s = NO_ELIGIBLE_CANDIDATES \<and> se_selected s = None"
    and best: "\<And>row rest. ss = row # rest \<Longrightarrow> se_status s = SELECTED \<and>
       se_selected s = Some (dset ''selection_reason'' (PStr ''highest_quality_score_above_threshold'')
         (dset ''selected_by'' (PStr ''top_executable_selector'') (dset ''selector_rank'' (PInt 1) row)))"
    by (rule select_cases) blast
  note perm = sort_rows_perm [OF ss]
  show ?thesis
  proof (cases ss)
    case Nil
    with perm(2) none show ?thesis by simp
  next
    case (Cons row rest)
    then have row: "row \<in> set rows" "row_eligible m row" using perm(1) by auto
    obtain k where k: "row_key row = Inr k"
      using row by (auto simp: row_eligible_def row_key_def)
    have "l \<le> k" if "r \<in> set ss" "row_key r = Inr l" for r l
    proof (cases "r = row")
      case False
      then have "r \<in> set rest" using Cons that(1) by simp
      with sort_rows_sorted [OF ss] obtain k' l' where "row_key row = Inr k'" "row_key r = Inr l'" "l' \<le> k'"
        unfolding Cons sorted_wrt.simps by blast
      with k that(2) show ?thesis by simp
    qed (use k that in simp)
    then have "\<forall>r \<in> set rows. \<forall>l. row_eligible m r \<longrightarrow> row_key r = Inr l \<longrightarrow> l \<le> k" using perm(1) by auto
    moreover have "filter (row_eligible m) rows \<noteq> []" using perm(2) Cons by auto
    moreover have "se_status s = SELECTED" "SELECTED \<noteq> NO_ELIGIBLE_CANDIDATES" using best [OF Cons] by simp_all
    ultimately show ?thesis using best [OF Cons] row k by metis
  qed
qed


definition demo_row :: "string \<Rightarrow> pyfloat \<Rightarrow> pydict" where
  "demo_row cid score =
     [(''candidate_id'', PStr cid), (''quality_score'', PFloat score), (''status'', PStr ''QUALIFIED''),
      (''execution_readiness'', PDict [(''execution_allowed'', PBool True)])]"


text \<open>
  The selector loses no row: the eligible list is a sorted and numbered permutation of the
  eligible rows, and the rejected list holds the other rows in their order, each with a
  non-empty list of reasons.
\<close>

theorem selector_partitions_rows:
  assumes "select_top_executable rows m = Inr s"
  shows "length (se_eligible s) = length (filter (row_eligible m) rows) \<and>
    map (\<lambda>r. dget r ''selector_rank'') (se_eligible s) = map (PInt \<circ> int) [1 ..< Suc (length (se_eligible s))] \<and>
    (\<exists>ss. mset ss = mset (filter (row_eligible m) rows) \<and> se_eligible s = rank_rows ss \<and>
       sorted_wrt (\<lambda>x y. \<exists>k l. row_key x = Inr k \<and> row_key y = Inr l \<and> l \<le> k) ss) \<and>
    list_all2 (\<lambda>row r. \<exists>reasons. reasons \<noteq> [] \<and> r = dset ''selector_rejection_reasons'' (str_list reasons) row)
      (filter (\<lambda>row. \<not> row_eligible m row) rows) (se_rejected s)"
proof -
  from assms obtain cs ss where cs: "map_result (classify m) rows = Inr cs" "se_rejected s = map projl (filter isl cs)"
    and ss: "sort_rows (filter (row_eligible m) rows) = Inr ss" "se_eligible s = rank_rows ss"
    by (rule select_cases) blast
  show ?thesis
    using classified_rejected [OF cs(1)] rank_rows_ranks [of ss] sort_rows_perm [OF ss(1)] sort_rows_sorted [OF ss(1)]
    unfolding cs(2) ss(2) by auto
qed

theorem selector_partitions_rows_witness:
  "case select_top_executable [demo_row ''a'' (Fin 60), demo_row ''b'' (Fin 40)] (Fin 50) of
     Inr s \<Rightarrow> length (se_rejected s) = 1 | Inl _ \<Rightarrow> False"
proof -
  let ?rows = "[demo_row ''a'' (Fin 60), demo_row ''b'' (Fin 40)]"
  have "\<not> isl (select_top_executable ?rows (Fin 50))" by code_simp
  then obtain s where s: "select_top_executable ?rows (Fin 50) = Inr s"
    by (cases "select_top_executable ?rows (Fin 50)") auto
  have "rejection_reasons (demo_row ''a'' (Fin 60)) (Fin 50) = Inr []" by code_simp
  then have a: "row_eligible (Fin 50) (demo_row ''a'' (Fin 60))" by (simp only: rejection_reasons_empty)
  have "rejection_reasons (demo_row ''b'' (Fin 40)) (Fin 50) = Inr [''QUALITY_SCORE_BELOW_THRESHOLD'']" by code_simp
  then have b: "\<not> row_eligible (Fin 50) (demo_row ''b'' (Fin 40))"
    unfolding rejection_reasons_empty [symmetric] by simp
  have "list_all2 (\<lambda>row r. \<exists>reasons. reasons \<noteq> [] \<and> r = dset ''selector_rejection_reasons'' (str_list reasons) row)
      [demo_row ''b'' (Fin 40)] (se_rejected s)"
    using selector_partitions_rows [OF s] a b by simp
  from list_all2_lengthD [OF this] show ?thesis by (simp add: s)
qed

text \<open>
  The threshold does not stop a score that is not a number: a row whose score is the
  word \<open>nan\<close>, or a NaN, is eligible at every threshold and is selected.
\<close>

theorem nan_score_selected:
  "map_option (\<lambda>d. dget d ''quality_score'')
     (case select_top_executable [dset ''quality_score'' (PStr ''nan'') (demo_row ''a'' (Fin 0))] (Fin 50) of
        Inr s \<Rightarrow> se_selected s | Inl _ \<Rightarrow> None) = Some (PStr ''nan'') \<and>
   rejection_reasons (demo_row ''a'' NaN) (Fin 50) = Inr []"
  by (rule conjI; code_simp)

end
