(* ===== verification/Paper_Base.thy ===== *)
theory Paper_Base
  imports Py_Value
begin

text \<open>
  What the modules under src/paper_trading share: the four safe flags that every record
  carries, the check of these flags on an input, and the interface \<open>paper_report\<close> between a
  module that exports a record with \<open>to_dict\<close> and the modules that consume it.
\<close>

section \<open>The safe flags\<close>

definition safe_flags :: pydict where
  "safe_flags =
     [(''paper_only'', PBool True), (''is_order_action'', PBool False), (''broker_api_called'', PBool False),
      (''real_order_id'', PNone)]"

definition read_only_flags :: pydict where
  "read_only_flags =
     [(''paper_only'', PBool True), (''read_only'', PBool True), (''is_order_action'', PBool False),
      (''broker_api_called'', PBool False), (''real_order_id'', PNone)]"

text \<open>\<open>_validate_safe_flags\<close>\<close>

definition validate_safe_flags :: "string \<Rightarrow> pydict \<Rightarrow> string list" where
  "validate_safe_flags prefix payload =
     add_if (dget payload ''paper_only'' \<noteq> PBool True) (prefix @ ''_NOT_PAPER_ONLY'') @
     add_if (dget payload ''is_order_action'' \<noteq> PBool False) (prefix @ ''_ORDER_FLAG_UNSAFE'') @
     add_if (dget payload ''broker_api_called'' \<noteq> PBool False) (prefix @ ''_BROKER_API_CALLED'') @
     add_if (\<not> is_blank (dget payload ''real_order_id'')) (prefix @ ''_REAL_ORDER_ID_PRESENT'')"

definition flags_safe :: "pydict \<Rightarrow> bool" where
  "flags_safe d \<longleftrightarrow>
     dget d ''paper_only'' = PBool True \<and> dget d ''is_order_action'' = PBool False \<and>
     dget d ''broker_api_called'' = PBool False \<and> is_blank (dget d ''real_order_id'')"

lemma validate_safe_flags_eq_Nil [simp]: "validate_safe_flags p d = [] \<longleftrightarrow> flags_safe d"
  by (auto simp: validate_safe_flags_def flags_safe_def)

lemma validate_safe_flags_blank [simp]: "list_all blank (validate_safe_flags p d) \<longleftrightarrow> flags_safe d"
  by (auto simp: validate_safe_flags_def flags_safe_def)

section \<open>The exported records\<close>

text \<open>
  The contract of an exporting module: the dict has the keys that the module's schema
  contract requires, and the safe flags are set. A consumer may rely on no more.
\<close>

locale paper_report =
  fixes to_dict :: "'r \<Rightarrow> pydict"
    and required_keys :: "string list"
  assumes required: "list_all (has_key (to_dict r)) required_keys"
    and flags: "flags_safe (to_dict r)"
begin

lemma accepted: "validate_safe_flags p (to_dict r) = []"
  by (simp add: flags)

lemma not_empty: "to_dict r \<noteq> []"
  using flags [of r] by (auto simp: flags_safe_def)

lemma is_object: "as_dict (PDict (to_dict r)) = to_dict r" "truthy (PDict (to_dict r))"
  using not_empty by simp_all

lemma key_present: "k \<in> set required_keys \<Longrightarrow> has_key (to_dict r) k"
  using required [of r] by (simp add: list_all_iff)

end

text \<open>\<open>required_\<dots>_keys\<close> of a schema contract, and \<open>status.value\<close> lists, are lists of strings.\<close>

definition str_values :: "pyval \<Rightarrow> string list" where
  "str_values v = map py_str (as_list v)"

lemma str_values_str_list [simp]: "str_values (str_list xs) = xs"
  by (simp add: str_values_def str_list_def comp_def)

section \<open>Dict copies\<close>

text \<open>\<open>dict(v or {})\<close>\<close>

definition dict_or_empty :: "pyval \<Rightarrow> pydict result" where
  "dict_or_empty v = (if truthy v then py_dict v else Inr [])"

lemma dict_or_empty_PDict [simp]: "dict_or_empty (PDict d) = Inr d"
  by (cases d) (simp_all add: dict_or_empty_def)

text \<open>\<open>dict(d) if d else None\<close>\<close>

definition dict_or_none :: "pydict option \<Rightarrow> pyval" where
  "dict_or_none d = (case d of Some e \<Rightarrow> if e = [] then PNone else PDict e | None \<Rightarrow> PNone)"

text \<open>\<open>str(v).upper()\<close> of \<open>v or ""\<close>\<close>

definition upper_text :: "pyval \<Rightarrow> string" where
  "upper_text v = upper (str_or_empty v)"

text \<open>\<open>x or 0\<close> for an optional integer.\<close>

definition or_zero :: "int option \<Rightarrow> int" where
  "or_zero i = (case i of Some n \<Rightarrow> n | None \<Rightarrow> 0)"

lemma or_zero_simps [simp]: "or_zero None = 0" "or_zero (Some n) = n"
  by (simp_all add: or_zero_def)

text \<open>The first key whose value is neither \<open>None\<close> nor the empty string.\<close>

fun first_text :: "pydict \<Rightarrow> string list \<Rightarrow> string option" where
  "first_text d [] = None"
| "first_text d (k # ks) = (if is_blank (dget d k) then first_text d ks else Some (py_str (dget d k)))"

text \<open>The side of a net quantity.\<close>

definition side_of :: "int \<Rightarrow> string" where
  "side_of net_quantity = (if 0 < net_quantity then ''LONG'' else if net_quantity < 0 then ''SHORT'' else ''FLAT'')"

section \<open>Sums and applied keys\<close>

text \<open>\<open>_float_or_none(v) or 0.0\<close>\<close>

definition float_or_zero :: "pyval \<Rightarrow> pyfloat result" where
  "float_or_zero v = bind_result (float_or_none v) (\<lambda>x. Inr (case x of Some f \<Rightarrow> f | None \<Rightarrow> Fin 0))"

lemma float_or_zero_simps [simp]: "float_or_zero PNone = Inr (Fin 0)" "float_or_zero (PFloat f) = Inr f"
  by (simp_all add: float_or_zero_def)

text \<open>\<open>round(sum(xs), 6)\<close>: the sum of no floats is the integer 0.\<close>

definition rounded_sum :: "pyfloat list \<Rightarrow> pyval" where
  "rounded_sum xs = (if xs = [] then PInt 0 else PFloat (py_round (fold (\<lambda>x s. float_add s x) xs (Fin 0)) 6))"

text \<open>\<open>key in set(xs)\<close>: building the set hashes every item.\<close>

definition key_applied :: "string \<Rightarrow> pyval list \<Rightarrow> bool result" where
  "key_applied k xs = (if list_ex (\<lambda>x. is_list x \<or> is_dict x) xs then Inl TypeError else Inr (PStr k \<in> set xs))"

definition append_key :: "string \<Rightarrow> pyval list \<Rightarrow> pyval list" where
  "append_key k xs = (if PStr k \<in> set xs then xs else xs @ [PStr k])"

lemma key_applied_texts [simp]: "key_applied k (map PStr ks) = Inr (k \<in> set ks)"
  by (auto simp: key_applied_def list_ex_iff)

lemma append_key_texts: "append_key k (map PStr ks) = map PStr (if k \<in> set ks then ks else ks @ [k])"
  by (auto simp: append_key_def)

text \<open>The key of a fill: the order and its cumulative quantity.\<close>

definition fill_key :: "string \<Rightarrow> int \<Rightarrow> string" where
  "fill_key paper_order_id cumulative = paper_order_id @ '':'' @ int_to_string cumulative"

lemma fill_key_inj:
  assumes "fill_key oid m = fill_key oid' n" "0 \<le> m" "0 \<le> n" shows "oid = oid' \<and> m = n"
proof -
  have last: "takeWhile (\<lambda>c. c \<noteq> CHR '':'') (rev (fill_key oid k)) = rev (int_to_string k)" if "0 \<le> k" for oid k
    using nonneg_to_string_no_colon [OF that] that
    by (auto simp: fill_key_def int_to_string_def takeWhile_append2 takeWhile_tail)
  from last [OF assms(2), of oid] last [OF assms(3), of oid'] assms(1) have eq: "int_to_string m = int_to_string n" by simp
  with assms show ?thesis by (simp add: fill_key_def int_to_string_inj)
qed

text \<open>\<open>[dict(event) for event in ledger.get(key) or []]\<close>\<close>

definition dict_items :: "pyval \<Rightarrow> pydict list result" where
  "dict_items v = bind_result (list_or_empty v) (map_result py_dict)"

lemma map_result_map: "map_result f (map g xs) = map_result (f \<circ> g) xs"
  by (induction xs) auto

lemma dict_items_PDicts [simp]: "dict_items (PList (map PDict es)) = Inr es"
  by (cases es) (simp_all add: dict_items_def list_or_empty_def map_result_map comp_def)

lemma dict_items_Nil [simp]: "dict_items (PList []) = Inr []"
  using dict_items_PDicts [of "[]"] by simp

lemma list_or_empty_PList [simp]: "list_or_empty (PList xs) = Inr xs"
  by (cases xs) (simp_all add: list_or_empty_def)

text \<open>The first value that converts; any exception but a failed conversion escapes.\<close>

fun first_value :: "('k \<Rightarrow> 'a option result) \<Rightarrow> 'k list \<Rightarrow> 'a option result" where
  "first_value conv [] = Inr None"
| "first_value conv (v # vs) = bind_result (conv v) (\<lambda>x. if x = None then first_value conv vs else Inr x)"

text \<open>A sum over the entries of a dict is a sum over its keys.\<close>

lemma sum_entries:
  fixes g :: "string \<Rightarrow> int"
  assumes "distinct (map fst ps)" "\<And>key v. (key, v) \<in> set ps \<Longrightarrow> g key = f v" "\<And>key. map_of ps key = None \<Longrightarrow> g key = 0"
  shows "sum_list (map f (map snd ps)) = (\<Sum>key | g key \<noteq> 0. g key)"
proof -
  have "sum_list (map f (map snd ps)) = sum_list (map g (map fst ps))"
    using assms(2) by (auto intro!: arg_cong [where f = sum_list])
  also have "\<dots> = (\<Sum>key \<in> set (map fst ps). g key)" using assms(1) by (simp only: sum_list_distinct_conv_sum_set)
  also have "\<dots> = (\<Sum>key | g key \<noteq> 0. g key)"
    using assms(3) by (intro sum.mono_neutral_right) (auto simp: map_of_eq_None_iff)
  finally show ?thesis .
qed

lemma count_entries_card:
  "distinct (map fst al) \<Longrightarrow> length (filter P (map snd al)) = card {k. \<exists>v. map_of al k = Some v \<and> P v}"
proof (induction al)
  case (Cons x al)
  obtain a b where x: "x = (a, b)" by (cases x)
  have new: "map_of al a = None" using Cons.prems x by (simp add: map_of_eq_None_iff)
  have fin: "finite {k. \<exists>v. map_of al k = Some v \<and> P v}"
    by (rule finite_subset [OF _ finite_dom_map_of [of al]]) auto
  have "{k. \<exists>v. map_of (x # al) k = Some v \<and> P v} =
      (if P b then insert a {k. \<exists>v. map_of al k = Some v \<and> P v} else {k. \<exists>v. map_of al k = Some v \<and> P v})"
    using new by (auto simp: x)
  moreover have "a \<notin> {k. \<exists>v. map_of al k = Some v \<and> P v}" using new by simp
  ultimately show ?case using Cons fin by (simp add: x del: map_of_eq_Some_iff Some_eq_map_of_iff)
qed simp

end
