(* ===== verification/Paper_Lifecycle.thy ===== *)
theory Paper_Lifecycle
  imports Paper_Base Machines
begin

text \<open>
  src/paper_trading/lifecycle.py: the lifecycle of a paper order. Each call of
  \<open>build_paper_order_lifecycle_event\<close> validates a requested status against the previous
  event and returns the next event; the history of an order is the sequence of events built
  in this way.
\<close>

section \<open>Statuses and transitions\<close>

datatype paper_status =
  CREATED | ACCEPTED | OPEN | PARTIALLY_FILLED | FILLED | REJECTED | CANCELLED | EXPIRED

fun paper_status_value :: "paper_status \<Rightarrow> string" where
  "paper_status_value CREATED = ''CREATED''"
| "paper_status_value ACCEPTED = ''ACCEPTED''"
| "paper_status_value OPEN = ''OPEN''"
| "paper_status_value PARTIALLY_FILLED = ''PARTIALLY_FILLED''"
| "paper_status_value FILLED = ''FILLED''"
| "paper_status_value REJECTED = ''REJECTED''"
| "paper_status_value CANCELLED = ''CANCELLED''"
| "paper_status_value EXPIRED = ''EXPIRED''"

definition paper_statuses :: "paper_status list" where
  "paper_statuses = [CREATED, ACCEPTED, OPEN, PARTIALLY_FILLED, FILLED, REJECTED, CANCELLED, EXPIRED]"

definition paper_status_of :: "string \<Rightarrow> paper_status option" where
  "paper_status_of text = find (\<lambda>s. paper_status_value s = text) paper_statuses"

definition terminal_states :: "paper_status set" where
  "terminal_states = {FILLED, REJECTED, CANCELLED, EXPIRED}"

fun valid_next :: "paper_status option \<Rightarrow> paper_status set" where
  "valid_next None = {CREATED}"
| "valid_next (Some CREATED) = {ACCEPTED, REJECTED, CANCELLED, EXPIRED}"
| "valid_next (Some ACCEPTED) = {OPEN, REJECTED, CANCELLED, EXPIRED}"
| "valid_next (Some OPEN) = {PARTIALLY_FILLED, FILLED, CANCELLED, EXPIRED, REJECTED}"
| "valid_next (Some PARTIALLY_FILLED) = {PARTIALLY_FILLED, FILLED, CANCELLED, EXPIRED}"
| "valid_next (Some FILLED) = {}"
| "valid_next (Some REJECTED) = {}"
| "valid_next (Some CANCELLED) = {}"
| "valid_next (Some EXPIRED) = {}"

section \<open>Events and results\<close>

record lifecycle_event =
  le_paper_order_id :: string
  le_paper_order_intent_id :: string
  le_candidate_id :: string
  le_status :: paper_status
  le_ts_epoch :: pyval
  le_reason :: "string option"
  le_filled_quantity :: int
  le_remaining_quantity :: "int option"
  le_average_fill_price :: "pyfloat option"
  le_event_sequence :: int
  le_source :: string
  le_intent_snapshot :: pydict
  le_evidence :: pydict

definition lifecycle_event_to_dict :: "lifecycle_event \<Rightarrow> pydict" where
  "lifecycle_event_to_dict e =
     [(''schema_version'', PStr ''1.0''),
      (''event_type'', PStr ''PAPER_ORDER_LIFECYCLE_EVENT''),
      (''paper_order_id'', PStr (le_paper_order_id e)),
      (''paper_order_intent_id'', PStr (le_paper_order_intent_id e)),
      (''candidate_id'', PStr (le_candidate_id e)),
      (''status'', PStr (paper_status_value (le_status e))),
      (''terminal'', PBool (le_status e \<in> terminal_states)),
      (''ts_epoch'', le_ts_epoch e),
      (''reason'', opt_str (le_reason e)),
      (''filled_quantity'', PInt (le_filled_quantity e)),
      (''remaining_quantity'', opt_int (le_remaining_quantity e)),
      (''average_fill_price'', opt_float (le_average_fill_price e)),
      (''event_sequence'', PInt (le_event_sequence e)),
      (''source'', PStr (le_source e)),
      (''intent_snapshot'', PDict (le_intent_snapshot e)),
      (''evidence'', PDict (le_evidence e)),
      (''paper_only'', PBool True),
      (''is_order_action'', PBool False),
      (''broker_api_called'', PBool False),
      (''real_order_id'', PNone)]"

record lifecycle_result =
  lr_created :: bool
  lr_event :: "lifecycle_event option"
  lr_blockers :: "string list"
  lr_warnings :: "string list"
  lr_previous_status :: "string option"
  lr_requested_status :: "string option"

definition lifecycle_result_to_dict :: "lifecycle_result \<Rightarrow> pydict" where
  "lifecycle_result_to_dict r =
     [(''schema_version'', PStr ''1.0''),
      (''lifecycle_type'', PStr ''PAPER_ORDER_LIFECYCLE''),
      (''created'', PBool (lr_created r)),
      (''event'', (case lr_event r of Some e \<Rightarrow> PDict (lifecycle_event_to_dict e) | None \<Rightarrow> PNone)),
      (''blockers'', str_list (lr_blockers r)),
      (''warnings'', str_list (lr_warnings r)),
      (''previous_status'', opt_str (lr_previous_status r)),
      (''requested_status'', opt_str (lr_requested_status r)),
      (''paper_only'', PBool True),
      (''is_order_action'', PBool False),
      (''broker_api_called'', PBool False),
      (''real_order_id'', PNone)]"

definition lifecycle_result_keys :: "string list" where
  "lifecycle_result_keys =
     [''schema_version'', ''lifecycle_type'', ''created'', ''event'', ''blockers'', ''warnings'', ''previous_status'',
      ''requested_status'', ''paper_only'', ''is_order_action'', ''broker_api_called'', ''real_order_id'']"

definition lifecycle_event_keys :: "string list" where
  "lifecycle_event_keys =
     [''schema_version'', ''event_type'', ''paper_order_id'', ''paper_order_intent_id'', ''candidate_id'', ''status'',
      ''terminal'', ''filled_quantity'', ''remaining_quantity'', ''average_fill_price'', ''intent_snapshot'', ''evidence'',
      ''paper_only'', ''is_order_action'', ''broker_api_called'', ''real_order_id'']"

definition lifecycle_schema_contract :: pydict where
  "lifecycle_schema_contract =
     [(''schema_version'', PStr ''1.0''),
      (''lifecycle_type'', PStr ''PAPER_ORDER_LIFECYCLE''),
      (''event_type'', PStr ''PAPER_ORDER_LIFECYCLE_EVENT''),
      (''states'', str_list [''ACCEPTED'', ''CANCELLED'', ''CREATED'', ''EXPIRED'', ''FILLED'', ''OPEN'', ''PARTIALLY_FILLED'', ''REJECTED'']),
      (''terminal_states'', str_list [''CANCELLED'', ''EXPIRED'', ''FILLED'', ''REJECTED'']),
      (''valid_transitions'', PDict
         [(''NONE'', str_list [''CREATED'']),
          (''CREATED'', str_list [''ACCEPTED'', ''CANCELLED'', ''EXPIRED'', ''REJECTED'']),
          (''ACCEPTED'', str_list [''CANCELLED'', ''EXPIRED'', ''OPEN'', ''REJECTED'']),
          (''OPEN'', str_list [''CANCELLED'', ''EXPIRED'', ''FILLED'', ''PARTIALLY_FILLED'', ''REJECTED'']),
          (''PARTIALLY_FILLED'', str_list [''CANCELLED'', ''EXPIRED'', ''FILLED'', ''PARTIALLY_FILLED'']),
          (''FILLED'', str_list []),
          (''REJECTED'', str_list []),
          (''CANCELLED'', str_list []),
          (''EXPIRED'', str_list [])]),
      (''required_result_keys'', str_list lifecycle_result_keys),
      (''required_event_keys'', str_list lifecycle_event_keys),
      (''safe_flags'', PDict safe_flags)]"

section \<open>Arguments\<close>

text \<open>\<open>requested_status: str | PaperOrderLifecycleStatus\<close>\<close>

datatype status_arg = StatusText string | StatusValue paper_status

fun coerce_status :: "status_arg \<Rightarrow> paper_status option" where
  "coerce_status (StatusValue s) = Some s"
| "coerce_status (StatusText text) = paper_status_of (upper text)"

fun status_arg_text :: "status_arg \<Rightarrow> string" where
  "status_arg_text (StatusText text) = text"
| "status_arg_text (StatusValue s) = paper_status_value s"

text \<open>\<open>previous_event: dict | PaperOrderLifecycleEvent | None\<close>; \<open>EventValue\<close> is any other value passed as one.\<close>

datatype event_arg = NoEvent | EventRecord lifecycle_event | EventValue pyval

fun event_payload :: "event_arg \<Rightarrow> pydict option" where
  "event_payload NoEvent = None"
| "event_payload (EventRecord e) = Some (lifecycle_event_to_dict e)"
| "event_payload (EventValue v) = (case v of PDict d \<Rightarrow> Some d | _ \<Rightarrow> None)"

definition previous_status :: "event_arg \<Rightarrow> string option" where
  "previous_status prev =
     (case event_payload prev of
        None \<Rightarrow> None
      | Some d \<Rightarrow> if is_blank (dget d ''status'') then None else Some (upper (py_str (dget d ''status''))))"

definition previous_sequence :: "event_arg \<Rightarrow> int result" where
  "previous_sequence prev =
     (case event_payload prev of None \<Rightarrow> Inr 0 | Some d \<Rightarrow> int_or_zero (dget d ''event_sequence''))"

definition filled_quantity_for :: "paper_status \<Rightarrow> event_arg \<Rightarrow> pyval \<Rightarrow> int \<Rightarrow> int result" where
  "filled_quantity_for status prev requested quantity =
     bind_result (case event_payload prev of Some d \<Rightarrow> int_or_none (dget d ''filled_quantity'') | None \<Rightarrow> Inr (Some 0))
       (\<lambda>previous_fill.
         if status = FILLED
         then bind_result (int_or_none requested) (\<lambda>r. Inr (if or_zero r \<noteq> 0 then or_zero r else quantity))
         else if status = PARTIALLY_FILLED then bind_result (int_or_none requested) (\<lambda>r. Inr (or_zero r))
         else Inr (or_zero previous_fill))"

definition stable_paper_order_id :: "string \<Rightarrow> string \<Rightarrow> string" where
  "stable_paper_order_id paper_order_intent_id candidate_id =
     ''paper-order-'' @ digest16 (join ''|'' [paper_order_intent_id, candidate_id])"

section \<open>Validation\<close>

definition intent_blockers :: "pydict \<Rightarrow> string list" where
  "intent_blockers intent =
     (if intent = [] then [''PAPER_INTENT_REQUIRED'']
      else
        add_if (dget intent ''paper_only'' \<noteq> PBool True) ''PAPER_INTENT_NOT_PAPER_ONLY'' @
        add_if (dget intent ''is_order_action'' \<noteq> PBool False) ''PAPER_INTENT_ORDER_FLAG_UNSAFE'' @
        add_if (dget intent ''broker_api_called'' \<noteq> PBool False) ''PAPER_INTENT_BROKER_API_CALLED'' @
        add_if (\<not> is_blank (dget intent ''real_order_id'')) ''PAPER_INTENT_REAL_ORDER_ID_PRESENT'' @
        add_if (is_blank (dget intent ''paper_order_intent_id'')) ''PAPER_ORDER_INTENT_ID_REQUIRED'' @
        add_if (is_blank (dget intent ''candidate_id'')) ''CANDIDATE_ID_REQUIRED'')"

definition transition_blockers :: "string \<Rightarrow> string option \<Rightarrow> string list" where
  "transition_blockers requested previous =
     (case previous of
        Some p \<Rightarrow>
          (case paper_status_of p of
             None \<Rightarrow> [''UNKNOWN_PREVIOUS_PAPER_ORDER_STATUS'']
           | Some s \<Rightarrow>
               (case paper_status_of requested of
                  Some t \<Rightarrow> add_if (t \<notin> valid_next (Some s)) ''INVALID_PAPER_ORDER_TRANSITION''
                | None \<Rightarrow> []))
      | None \<Rightarrow>
          (case paper_status_of requested of
             Some t \<Rightarrow> add_if (t \<notin> valid_next None) ''INVALID_PAPER_ORDER_TRANSITION''
           | None \<Rightarrow> []))"

definition fill_blockers :: "string \<Rightarrow> int \<Rightarrow> int option \<Rightarrow> string list" where
  "fill_blockers requested quantity requested_fill =
     (if requested = ''PARTIALLY_FILLED'' \<or> requested = ''FILLED'' then
        add_if (quantity \<le> 0) ''PAPER_ORDER_QUANTITY_REQUIRED_FOR_FILL'' @
        (case requested_fill of
           None \<Rightarrow> [''FILLED_QUANTITY_REQUIRED'']
         | Some f \<Rightarrow>
             if f \<le> 0 then [''FILLED_QUANTITY_MUST_BE_POSITIVE'']
             else if quantity \<noteq> 0 \<and> quantity < f then [''FILLED_QUANTITY_EXCEEDS_ORDER_QUANTITY'']
             else add_if (requested = ''PARTIALLY_FILLED'' \<and> quantity \<noteq> 0 \<and> quantity \<le> f)
               ''PARTIAL_FILL_MUST_BE_LESS_THAN_ORDER_QUANTITY'')
      else [])"

definition fill_warnings :: "string \<Rightarrow> int option \<Rightarrow> string list" where
  "fill_warnings requested requested_fill =
     add_if (\<not> (requested = ''PARTIALLY_FILLED'' \<or> requested = ''FILLED'') \<and> requested_fill \<notin> {None, Some 0})
       ''FILLED_QUANTITY_IGNORED_FOR_NON_FILL_STATUS''"

definition validate_lifecycle_transition ::
  "pyval \<Rightarrow> string \<Rightarrow> string option \<Rightarrow> pyval \<Rightarrow> (string list \<times> string list) result" where
  "validate_lifecycle_transition intent requested_status prev_status filled_quantity =
     (let intent_payload = as_dict intent;
          requested = upper requested_status;
          previous = (case prev_status of Some p \<Rightarrow> if p = [] then None else Some (upper p) | None \<Rightarrow> None)
      in bind_result (int_or_zero (dget intent_payload ''quantity'')) (\<lambda>quantity.
         bind_result (int_or_none filled_quantity) (\<lambda>requested_fill.
           Inr (dedupe
                  (add_if (paper_status_of requested = None) ''INVALID_PAPER_ORDER_STATUS'' @
                   intent_blockers intent_payload @
                   transition_blockers requested previous @
                   fill_blockers requested quantity requested_fill),
                dedupe (fill_warnings requested requested_fill)))))"

section \<open>Building an event\<close>

record lifecycle_request =
  rq_intent :: pyval
  rq_requested_status :: status_arg
  rq_previous_event :: event_arg
  rq_ts_epoch :: pyval
  rq_reason :: "string option"
  rq_filled_quantity :: pyval
  rq_average_fill_price :: pyval

definition build_lifecycle_event :: "lifecycle_request \<Rightarrow> lifecycle_result result" where
  "build_lifecycle_event q =
     (let status = coerce_status (rq_requested_status q);
          requested_text = (case status of Some s \<Rightarrow> paper_status_value s | None \<Rightarrow> status_arg_text (rq_requested_status q));
          prev = previous_status (rq_previous_event q)
      in bind_result (validate_lifecycle_transition (rq_intent q) requested_text prev (rq_filled_quantity q)) (\<lambda>(blockers, warnings).
         case (blockers, status) of
           ([], Some s) \<Rightarrow>
             bind_result (dict_or_empty (rq_intent q)) (\<lambda>intent_payload.
             bind_result (int_or_zero (dget intent_payload ''quantity'')) (\<lambda>quantity.
             bind_result (filled_quantity_for s (rq_previous_event q) (rq_filled_quantity q) quantity) (\<lambda>next_filled.
             bind_result (previous_sequence (rq_previous_event q)) (\<lambda>sequence.
             bind_result (float_or_none (rq_average_fill_price q)) (\<lambda>price.
               Inr \<lparr>lr_created = True,
                    lr_event = Some
                      \<lparr>le_paper_order_id = stable_paper_order_id (py_str (dget intent_payload ''paper_order_intent_id''))
                         (py_str (dget intent_payload ''candidate_id'')),
                       le_paper_order_intent_id = py_str (dget intent_payload ''paper_order_intent_id''),
                       le_candidate_id = py_str (dget intent_payload ''candidate_id''),
                       le_status = s, le_ts_epoch = rq_ts_epoch q, le_reason = rq_reason q,
                       le_filled_quantity = next_filled,
                       le_remaining_quantity = Some (if quantity \<noteq> 0 then max (quantity - next_filled) 0 else 0),
                       le_average_fill_price = price,
                       le_event_sequence = sequence + 1,
                       le_source = ''paper_order_lifecycle'',
                       le_intent_snapshot = intent_payload,
                       le_evidence =
                         [(''previous_status'', opt_str prev), (''requested_status'', PStr (paper_status_value s))] @ safe_flags\<rparr>,
                    lr_blockers = [], lr_warnings = warnings, lr_previous_status = prev,
                    lr_requested_status = Some (paper_status_value s)\<rparr>)))))
         | _ \<Rightarrow>
             Inr \<lparr>lr_created = False, lr_event = None,
                  lr_blockers = (if blockers \<noteq> [] then blockers else [''INVALID_PAPER_ORDER_STATUS'']),
                  lr_warnings = warnings, lr_previous_status = prev,
                  lr_requested_status = Some requested_text\<rparr>))"

section \<open>Lemmas\<close>

lemma paper_status_of_value [simp]: "paper_status_of (paper_status_value s) = Some s"
  by (cases s; hypsubst; code_simp)

lemma paper_status_of_Some: "paper_status_of text = Some s \<longleftrightarrow> text = paper_status_value s"
proof
  show "paper_status_of text = Some s \<Longrightarrow> text = paper_status_value s"
    by (auto simp: paper_status_of_def find_Some_iff)
qed simp

lemma paper_status_of_literal [simp]:
  "paper_status_of ''CREATED'' = Some CREATED" "paper_status_of ''ACCEPTED'' = Some ACCEPTED"
  "paper_status_of ''OPEN'' = Some OPEN" "paper_status_of ''PARTIALLY_FILLED'' = Some PARTIALLY_FILLED"
  "paper_status_of ''FILLED'' = Some FILLED" "paper_status_of ''REJECTED'' = Some REJECTED"
  "paper_status_of ''CANCELLED'' = Some CANCELLED" "paper_status_of ''EXPIRED'' = Some EXPIRED"
  by code_simp+

lemma upper_paper_status_value [simp]: "upper (paper_status_value s) = paper_status_value s"
  by (cases s; hypsubst; code_simp)

lemma paper_status_value_not_Nil [simp]: "paper_status_value s \<noteq> []"
  by (cases s) simp_all

lemma paper_status_value_fill [simp]:
  "paper_status_value s = ''PARTIALLY_FILLED'' \<longleftrightarrow> s = PARTIALLY_FILLED" "paper_status_value s = ''FILLED'' \<longleftrightarrow> s = FILLED"
  by (cases s; simp)+

definition paper_rank :: "paper_status \<Rightarrow> nat" where
  "paper_rank s =
     (case s of CREATED \<Rightarrow> 0 | ACCEPTED \<Rightarrow> 1 | OPEN \<Rightarrow> 2 | PARTIALLY_FILLED \<Rightarrow> 3 | _ \<Rightarrow> 4)"

interpretation paper_lifecycle: lifecycle_machine "\<lambda>s t. t \<in> valid_next (Some s)" "\<lambda>s. s \<in> terminal_states" paper_rank
proof
  show "s \<in> terminal_states \<Longrightarrow> t \<notin> valid_next (Some s)" for s t
    by (auto simp: terminal_states_def)
  show "t \<in> valid_next (Some s) \<Longrightarrow> s \<noteq> t \<Longrightarrow> paper_rank s < paper_rank t" for s t
    by (cases s) (auto simp: paper_rank_def)
qed

lemma lifecycle_event_to_dict_get [simp]:
  "dget (lifecycle_event_to_dict e) ''status'' = PStr (paper_status_value (le_status e))"
  "dget (lifecycle_event_to_dict e) ''event_sequence'' = PInt (le_event_sequence e)"
  "dget (lifecycle_event_to_dict e) ''filled_quantity'' = PInt (le_filled_quantity e)"
  "dget (lifecycle_event_to_dict e) ''paper_order_id'' = PStr (le_paper_order_id e)"
  "dget (lifecycle_event_to_dict e) ''paper_order_intent_id'' = PStr (le_paper_order_intent_id e)"
  "dget (lifecycle_event_to_dict e) ''candidate_id'' = PStr (le_candidate_id e)"
  "dget (lifecycle_event_to_dict e) ''event_type'' = PStr ''PAPER_ORDER_LIFECYCLE_EVENT''"
  "dget (lifecycle_event_to_dict e) ''average_fill_price'' = opt_float (le_average_fill_price e)"
  "dget (lifecycle_event_to_dict e) ''ts_epoch'' = le_ts_epoch e"
  by (simp_all add: lifecycle_event_to_dict_def)

interpretation lifecycle_event_report: paper_report lifecycle_event_to_dict lifecycle_event_keys
  by unfold_locales
    (simp_all add: lifecycle_event_to_dict_def lifecycle_event_keys_def flags_safe_def has_key_def)

interpretation lifecycle_result_report: paper_report lifecycle_result_to_dict lifecycle_result_keys
  by unfold_locales
    (simp_all add: lifecycle_result_to_dict_def lifecycle_result_keys_def flags_safe_def has_key_def)

section \<open>When an event is created\<close>

text \<open>The intent carries the safe flags and its two ids.\<close>

definition intent_ok :: "pydict \<Rightarrow> bool" where
  "intent_ok intent \<longleftrightarrow>
     flags_safe intent \<and> \<not> is_blank (dget intent ''paper_order_intent_id'') \<and> \<not> is_blank (dget intent ''candidate_id'')"

text \<open>A fill needs an order quantity and a filled quantity within it, a partial one strictly.\<close>

definition fill_ok :: "paper_status \<Rightarrow> int \<Rightarrow> int option \<Rightarrow> bool" where
  "fill_ok s quantity fill \<longleftrightarrow>
     (s = PARTIALLY_FILLED \<longrightarrow> (\<exists>f. fill = Some f \<and> 0 < f \<and> f < quantity)) \<and>
     (s = FILLED \<longrightarrow> (\<exists>f. fill = Some f \<and> 0 < f \<and> f \<le> quantity))"

definition move_ok :: "string option \<Rightarrow> paper_status \<Rightarrow> bool" where
  "move_ok prev t \<longleftrightarrow>
     (case prev of
        None \<Rightarrow> t = CREATED
      | Some p \<Rightarrow> (\<exists>s. paper_status_of p = Some s \<and> t \<in> valid_next (Some s)))"

lemma list_all_blank_if [simp]: "list_all P (if b then xs else ys) \<longleftrightarrow> (if b then list_all P xs else list_all P ys)"
  by simp

lemma intent_blockers_empty: "list_all blank (intent_blockers intent) \<longleftrightarrow> intent_ok intent"
proof (cases "intent = []")
  case True then show ?thesis by (simp add: intent_blockers_def intent_ok_def flags_safe_def)
next
  case False
  then show ?thesis
    by (cases "dget intent ''paper_only'' = PBool True"; cases "dget intent ''is_order_action'' = PBool False")
      (simp_all add: intent_blockers_def intent_ok_def flags_safe_def)
qed

lemma transition_blockers_empty:
  "list_all blank (transition_blockers (paper_status_value t) prev) \<longleftrightarrow> move_ok prev t"
  by (cases prev; cases "paper_status_of (the prev)") (simp_all add: transition_blockers_def move_ok_def)

lemma fill_blockers_empty:
  "list_all blank (fill_blockers (paper_status_value t) quantity fill) \<longleftrightarrow> fill_ok t quantity fill"
  by (cases t; cases fill) (auto simp: fill_blockers_def fill_ok_def)

definition quantity_of :: "pyval \<Rightarrow> int" where
  "quantity_of intent = (case int_or_zero (dget (as_dict intent) ''quantity'') of Inr n \<Rightarrow> n | Inl _ \<Rightarrow> 0)"

lemma py_str_nonblank: "\<not> is_blank v \<Longrightarrow> py_str v \<noteq> []"
  by (cases v) auto

lemma previous_status_normal:
  "(case previous_status prev of Some p \<Rightarrow> if p = [] then None else Some (upper p) | None \<Rightarrow> None) = previous_status prev"
  by (auto simp: previous_status_def py_str_nonblank split: option.split)

lemma previous_status_record [simp]:
  "previous_status (EventRecord e) = Some (paper_status_value (le_status e))" "previous_status NoEvent = None"
  by (simp_all add: previous_status_def)

lemma intent_ok_dict: "intent_ok (as_dict v) \<Longrightarrow> dict_or_empty v = Inr (as_dict v)"
  by (cases v) (auto simp: intent_ok_def flags_safe_def)

text \<open>The validation accepts a status exactly under these conditions.\<close>

definition request_ok :: "lifecycle_request \<Rightarrow> paper_status \<Rightarrow> int option \<Rightarrow> bool" where
  "request_ok q s fill \<longleftrightarrow>
     coerce_status (rq_requested_status q) = Some s \<and> intent_ok (as_dict (rq_intent q)) \<and>
     move_ok (previous_status (rq_previous_event q)) s \<and> fill_ok s (quantity_of (rq_intent q)) fill"

lemma validate_lifecycle_eq:
  assumes "int_or_zero (dget (as_dict intent) ''quantity'') = Inr n" and "int_or_none filled = Inr fill"
  shows "validate_lifecycle_transition intent (paper_status_value s) (previous_status prev) filled =
    Inr (dedupe (intent_blockers (as_dict intent) @ transition_blockers (paper_status_value s) (previous_status prev) @
           fill_blockers (paper_status_value s) n fill),
         dedupe (fill_warnings (paper_status_value s) fill))"
  using assms by (simp add: validate_lifecycle_transition_def Let_def previous_status_normal)

lemma validate_lifecycle_Inr:
  "validate_lifecycle_transition intent text prev filled = Inr (bs, ws) \<Longrightarrow>
     (\<exists>n. int_or_zero (dget (as_dict intent) ''quantity'') = Inr n) \<and> (\<exists>fill. int_or_none filled = Inr fill)"
  by (auto simp: validate_lifecycle_transition_def Let_def)

text \<open>The event that an accepted request creates.\<close>

definition event_of_request :: "lifecycle_request \<Rightarrow> paper_status \<Rightarrow> int \<Rightarrow> int \<Rightarrow> pyfloat option \<Rightarrow> lifecycle_event" where
  "event_of_request q s next_filled sequence price =
     \<lparr>le_paper_order_id = stable_paper_order_id (py_str (dget (as_dict (rq_intent q)) ''paper_order_intent_id''))
        (py_str (dget (as_dict (rq_intent q)) ''candidate_id'')),
      le_paper_order_intent_id = py_str (dget (as_dict (rq_intent q)) ''paper_order_intent_id''),
      le_candidate_id = py_str (dget (as_dict (rq_intent q)) ''candidate_id''),
      le_status = s, le_ts_epoch = rq_ts_epoch q, le_reason = rq_reason q,
      le_filled_quantity = next_filled,
      le_remaining_quantity =
        Some (if quantity_of (rq_intent q) \<noteq> 0 then max (quantity_of (rq_intent q) - next_filled) 0 else 0),
      le_average_fill_price = price, le_event_sequence = sequence + 1, le_source = ''paper_order_lifecycle'',
      le_intent_snapshot = as_dict (rq_intent q),
      le_evidence =
        [(''previous_status'', opt_str (previous_status (rq_previous_event q))),
         (''requested_status'', PStr (paper_status_value s))] @ safe_flags\<rparr>"

lemma build_accepted:
  assumes q: "int_or_zero (dget (as_dict (rq_intent q)) ''quantity'') = Inr n" and f: "int_or_none (rq_filled_quantity q) = Inr fill"
    and ok: "request_ok q s fill" and r: "build_lifecycle_event q = Inr r"
  shows "lr_created r \<and> lr_blockers r = [] \<and>
    (\<exists>next_filled sequence price. filled_quantity_for s (rq_previous_event q) (rq_filled_quantity q) n = Inr next_filled \<and>
       previous_sequence (rq_previous_event q) = Inr sequence \<and> float_or_none (rq_average_fill_price q) = Inr price \<and>
       lr_event r = Some (event_of_request q s next_filled sequence price))"
proof -
  have n: "quantity_of (rq_intent q) = n" using q by (simp add: quantity_of_def)
  have co: "coerce_status (rq_requested_status q) = Some s" using ok by (simp add: request_ok_def)
  have bs: "dedupe (intent_blockers (as_dict (rq_intent q)) @
      transition_blockers (paper_status_value s) (previous_status (rq_previous_event q)) @
      fill_blockers (paper_status_value s) n fill) = []"
    using ok n by (simp add: request_ok_def intent_blockers_empty transition_blockers_empty fill_blockers_empty)
  have d: "dict_or_empty (rq_intent q) = Inr (as_dict (rq_intent q))"
    using ok by (simp add: request_ok_def intent_ok_dict)
  show ?thesis
    using r unfolding build_lifecycle_event_def Let_def co option.case validate_lifecycle_eq [OF q f] bs bind_result_simps d
      prod.case list.case q
    by (auto simp: event_of_request_def n)
qed

lemma build_refusal_exists:
  assumes q: "int_or_zero (dget (as_dict (rq_intent q)) ''quantity'') = Inr n" and f: "int_or_none (rq_filled_quantity q) = Inr fill"
    and co: "coerce_status (rq_requested_status q) = Some s" and bad: "\<not> request_ok q s fill"
  shows "\<exists>r. build_lifecycle_event q = Inr r"
proof -
  have n: "quantity_of (rq_intent q) = n" using q by (simp add: quantity_of_def)
  have "dedupe (intent_blockers (as_dict (rq_intent q)) @
      transition_blockers (paper_status_value s) (previous_status (rq_previous_event q)) @
      fill_blockers (paper_status_value s) n fill) \<noteq> []" (is "?bs \<noteq> []")
    using bad co n by (simp add: request_ok_def intent_blockers_empty transition_blockers_empty fill_blockers_empty)
  then obtain b bs' where "?bs = b # bs'" by (cases ?bs) auto
  then show ?thesis
    unfolding build_lifecycle_event_def Let_def co option.case validate_lifecycle_eq [OF q f] bind_result_simps prod.case by simp
qed

lemma build_refused:
  assumes q: "int_or_zero (dget (as_dict (rq_intent q)) ''quantity'') = Inr n" and f: "int_or_none (rq_filled_quantity q) = Inr fill"
    and bad: "\<And>s. \<not> request_ok q s fill" and r: "build_lifecycle_event q = Inr r"
  shows "\<not> lr_created r \<and> lr_event r = None \<and> lr_blockers r \<noteq> []"
proof (cases "coerce_status (rq_requested_status q)")
  case None
  with r obtain bs ws where v: "validate_lifecycle_transition (rq_intent q) (status_arg_text (rq_requested_status q))
      (previous_status (rq_previous_event q)) (rq_filled_quantity q) = Inr (bs, ws)"
    by (auto simp: build_lifecycle_event_def Let_def)
  with None r show ?thesis by (cases bs) (auto simp: build_lifecycle_event_def Let_def)
next
  case (Some s)
  have n: "quantity_of (rq_intent q) = n" using q by (simp add: quantity_of_def)
  have bs: "dedupe (intent_blockers (as_dict (rq_intent q)) @
      transition_blockers (paper_status_value s) (previous_status (rq_previous_event q)) @
      fill_blockers (paper_status_value s) n fill) \<noteq> []" (is "?bs \<noteq> []")
    using bad [of s] Some n
    by (simp add: request_ok_def intent_blockers_empty transition_blockers_empty fill_blockers_empty)
  then obtain b bs' where "?bs = b # bs'" by (cases ?bs) auto
  with r show ?thesis
    unfolding build_lifecycle_event_def Let_def Some option.case validate_lifecycle_eq [OF q f] bind_result_simps
      prod.case by auto
qed

lemma build_total:
  assumes q: "int_or_zero (dget (as_dict (rq_intent q)) ''quantity'') = Inr n" and f: "int_or_none (rq_filled_quantity q) = Inr fill"
    and ok: "request_ok q s fill"
    and "filled_quantity_for s (rq_previous_event q) (rq_filled_quantity q) n = Inr nf"
    and "previous_sequence (rq_previous_event q) = Inr sq" and "float_or_none (rq_average_fill_price q) = Inr pr"
  shows "\<exists>r. build_lifecycle_event q = Inr r \<and> lr_created r \<and> lr_event r = Some (event_of_request q s nf sq pr)"
proof -
  have n: "quantity_of (rq_intent q) = n" using q by (simp add: quantity_of_def)
  have co: "coerce_status (rq_requested_status q) = Some s" using ok by (simp add: request_ok_def)
  have bs: "dedupe (intent_blockers (as_dict (rq_intent q)) @
      transition_blockers (paper_status_value s) (previous_status (rq_previous_event q)) @
      fill_blockers (paper_status_value s) n fill) = []"
    using ok n by (simp add: request_ok_def intent_blockers_empty transition_blockers_empty fill_blockers_empty)
  have d: "dict_or_empty (rq_intent q) = Inr (as_dict (rq_intent q))"
    using ok by (simp add: request_ok_def intent_ok_dict)
  show ?thesis
    unfolding build_lifecycle_event_def Let_def co option.case validate_lifecycle_eq [OF q f] bs bind_result_simps d
      prod.case list.case q assms(4-6)
    by (auto simp: event_of_request_def n)
qed

text \<open>Both cases together: the facts that every result of the builder rests on.\<close>

lemma build_cases:
  assumes "build_lifecycle_event q = Inr r"
  obtains (created) s fill next_filled sequence price where
      "int_or_none (rq_filled_quantity q) = Inr fill" "request_ok q s fill" "lr_created r" "lr_blockers r = []"
      "filled_quantity_for s (rq_previous_event q) (rq_filled_quantity q) (quantity_of (rq_intent q)) = Inr next_filled"
      "previous_sequence (rq_previous_event q) = Inr sequence"
      "lr_event r = Some (event_of_request q s next_filled sequence price)"
      "float_or_none (rq_average_fill_price q) = Inr price"
    | (refused) fill where "int_or_none (rq_filled_quantity q) = Inr fill" "\<And>s. \<not> request_ok q s fill"
      "\<not> lr_created r" "lr_event r = None" "lr_blockers r \<noteq> []"
proof -
  obtain bs ws where "validate_lifecycle_transition (rq_intent q)
      (case coerce_status (rq_requested_status q) of Some s \<Rightarrow> paper_status_value s | None \<Rightarrow> status_arg_text (rq_requested_status q))
      (previous_status (rq_previous_event q)) (rq_filled_quantity q) = Inr (bs, ws)"
    using assms by (auto simp: build_lifecycle_event_def Let_def)
  then obtain n fill where q: "int_or_zero (dget (as_dict (rq_intent q)) ''quantity'') = Inr n"
    and f: "int_or_none (rq_filled_quantity q) = Inr fill" using validate_lifecycle_Inr by blast
  have n: "quantity_of (rq_intent q) = n" using q by (simp add: quantity_of_def)
  show thesis
  proof (cases "\<exists>s. request_ok q s fill")
    case True
    then obtain s where "request_ok q s fill" by blast
    with build_accepted [OF q f this assms] created [OF f, of s] n show thesis by blast
  next
    case False
    with build_refused [OF q f _ assms] refused [OF f] show thesis by blast
  qed
qed

section \<open>The history of an order\<close>

text \<open>The events of one order: each is built from the one before with the same intent.\<close>

inductive paper_history :: "pyval \<Rightarrow> lifecycle_event list \<Rightarrow> bool" for intent where
  first_event:
    "build_lifecycle_event q = Inr r \<Longrightarrow> rq_intent q = intent \<Longrightarrow> rq_previous_event q = NoEvent \<Longrightarrow>
     lr_event r = Some e \<Longrightarrow> paper_history intent [e]"
| next_event:
    "paper_history intent es \<Longrightarrow> build_lifecycle_event q = Inr r \<Longrightarrow> rq_intent q = intent \<Longrightarrow>
     rq_previous_event q = EventRecord (last es) \<Longrightarrow> lr_event r = Some e \<Longrightarrow> paper_history intent (es @ [e])"

text \<open>The quantities of an event against the quantity of the order.\<close>

definition quantities_ok :: "int \<Rightarrow> lifecycle_event \<Rightarrow> bool" where
  "quantities_ok quantity e \<longleftrightarrow>
     0 \<le> le_filled_quantity e \<and> le_filled_quantity e \<le> max quantity 0 \<and>
     le_remaining_quantity e = Some (max quantity 0 - le_filled_quantity e)"

definition same_order :: "lifecycle_event \<Rightarrow> lifecycle_event \<Rightarrow> bool" where
  "same_order a b \<longleftrightarrow>
     le_paper_order_id a = le_paper_order_id b \<and> le_paper_order_intent_id a = le_paper_order_intent_id b \<and>
     le_candidate_id a = le_candidate_id b \<and> le_intent_snapshot a = le_intent_snapshot b"

lemma event_of_request_simps [simp]:
  "le_status (event_of_request q s f n p) = s"
  "le_filled_quantity (event_of_request q s f n p) = f"
  "le_event_sequence (event_of_request q s f n p) = n + 1"
  "le_average_fill_price (event_of_request q s f n p) = p"
  "le_paper_order_intent_id (event_of_request q s f n p) = py_str (dget (as_dict (rq_intent q)) ''paper_order_intent_id'')"
  "le_candidate_id (event_of_request q s f n p) = py_str (dget (as_dict (rq_intent q)) ''candidate_id'')"
  "le_remaining_quantity (event_of_request q s f n p) =
     Some (if quantity_of (rq_intent q) \<noteq> 0 then max (quantity_of (rq_intent q) - f) 0 else 0)"
  "le_intent_snapshot (event_of_request q s f n p) = as_dict (rq_intent q)"
  "le_paper_order_id (event_of_request q s f n p) =
     stable_paper_order_id (py_str (dget (as_dict (rq_intent q)) ''paper_order_intent_id''))
       (py_str (dget (as_dict (rq_intent q)) ''candidate_id''))"
  by (simp_all add: event_of_request_def)

lemma built_event:
  assumes "build_lifecycle_event q = Inr r" "lr_event r = Some e"
  obtains s fill next_filled sequence price where
    "request_ok q s fill" "int_or_none (rq_filled_quantity q) = Inr fill"
    "filled_quantity_for s (rq_previous_event q) (rq_filled_quantity q) (quantity_of (rq_intent q)) = Inr next_filled"
    "previous_sequence (rq_previous_event q) = Inr sequence" "e = event_of_request q s next_filled sequence price"
  using assms(1)
proof (cases rule: build_cases)
  case (created s fill next_filled sequence price)
  then show thesis using that assms(2) by simp
next
  case refused
  with assms(2) show thesis by simp
qed

lemma built_quantities:
  assumes "build_lifecycle_event q = Inr r" "lr_event r = Some e"
    and prev: "\<And>e0. rq_previous_event q = EventRecord e0 \<Longrightarrow> quantities_ok (quantity_of (rq_intent q)) e0"
    and arg: "rq_previous_event q = NoEvent \<or> (\<exists>e0. rq_previous_event q = EventRecord e0)"
  shows "quantities_ok (quantity_of (rq_intent q)) e"
  using assms(1,2)
proof (rule built_event)
  fix s fill next_filled sequence price
  assume ok: "request_ok q s fill" and f: "int_or_none (rq_filled_quantity q) = Inr fill"
    and nf: "filled_quantity_for s (rq_previous_event q) (rq_filled_quantity q) (quantity_of (rq_intent q)) = Inr next_filled"
    and e: "e = event_of_request q s next_filled sequence price"
  have "0 \<le> next_filled \<and> next_filled \<le> max (quantity_of (rq_intent q)) 0"
  proof (cases "s = FILLED \<or> s = PARTIALLY_FILLED")
    case True
    then show ?thesis using ok nf f by (auto simp: filled_quantity_for_def request_ok_def fill_ok_def)
  next
    case False
    then show ?thesis using nf arg prev by (auto simp: filled_quantity_for_def quantities_ok_def)
  qed
  then show ?thesis by (auto simp: quantities_ok_def max_def e)
qed

lemma built_same_order:
  assumes "build_lifecycle_event q = Inr r" "lr_event r = Some e" "build_lifecycle_event q' = Inr r'" "lr_event r' = Some e'"
    and "rq_intent q = rq_intent q'"
  shows "same_order e e'"
  using assms(1,2)
proof (rule built_event)
  fix s fill f n p assume e: "e = event_of_request q s f n p"
  from assms(3,4) show ?thesis
    by (rule built_event) (simp add: same_order_def e assms(5))
qed

text \<open>What holds of every history.\<close>

definition history_ok :: "pyval \<Rightarrow> lifecycle_event list \<Rightarrow> bool" where
  "history_ok intent es \<longleftrightarrow>
     es \<noteq> [] \<and> le_status (hd es) = CREATED \<and>
     successively (\<lambda>a b. le_status b \<in> valid_next (Some (le_status a))) es \<and>
     map le_event_sequence es = map int [1 ..< Suc (length es)] \<and>
     (\<forall>e \<in> set es. same_order (hd es) e \<and> quantities_ok (quantity_of intent) e \<and> flags_safe (le_intent_snapshot e))"

lemma history_built: "paper_history intent es \<Longrightarrow> \<exists>q r. build_lifecycle_event q = Inr r \<and> rq_intent q = intent \<and> lr_event r = Some (hd es)"
proof (induction rule: paper_history.induct)
  case (next_event es q r e)
  then show ?case by (cases es) (auto elim: paper_history.cases)
qed auto

lemma history_ok: "paper_history intent es \<Longrightarrow> history_ok intent es"
proof (induction rule: paper_history.induct)
  case (first_event q r e)
  have "quantities_ok (quantity_of (rq_intent q)) e"
    by (rule built_quantities [OF first_event(1,4)]) (simp_all add: first_event(3))
  moreover obtain s fill f n p where e: "request_ok q s fill" "previous_sequence (rq_previous_event q) = Inr n"
    "e = event_of_request q s f n p"
    by (rule built_event [OF first_event(1,4)]) (rule that)
  then have "le_status e = CREATED" "le_event_sequence e = 1" "flags_safe (le_intent_snapshot e)"
    using first_event(3) by (simp_all add: request_ok_def move_ok_def intent_ok_def previous_sequence_def)
  ultimately show ?case using first_event(2) by (simp add: history_ok_def same_order_def)
next
  case (next_event es q r e)
  then have es: "es \<noteq> []" and ok: "history_ok intent es" by (auto simp: history_ok_def)
  have quant: "quantities_ok (quantity_of (rq_intent q)) e"
    by (rule built_quantities [OF next_event(2,5)]) (use next_event(3,4) ok es in \<open>auto simp: history_ok_def\<close>)
  obtain q0 r0 where "build_lifecycle_event q0 = Inr r0" "rq_intent q0 = intent" "lr_event r0 = Some (hd es)"
    using history_built [OF next_event(1)] by blast
  then have same: "same_order (hd es) e"
    by (intro built_same_order [OF _ _ next_event(2,5)]) (simp_all add: next_event(3))
  have "last (map le_event_sequence es) = last (map int [1 ..< Suc (length es)])"
    using ok by (simp only: history_ok_def)
  then have seq: "le_event_sequence (last es) = int (length es)" using es by (auto simp: last_map Suc_le_eq)
  obtain s fill f n p where e: "request_ok q s fill" "previous_sequence (rq_previous_event q) = Inr n"
    "e = event_of_request q s f n p"
    by (rule built_event [OF next_event(2,5)]) (rule that)
  have move: "le_status e \<in> valid_next (Some (le_status (last es)))"
    using e(1,3) next_event(4) by (simp add: request_ok_def move_ok_def)
  have num: "le_event_sequence e = int (length es) + 1"
    using e(2,3) seq next_event(4) by (simp add: previous_sequence_def)
  have safe: "flags_safe (le_intent_snapshot e)" using e(1,3) by (simp add: request_ok_def intent_ok_def)
  show ?case
    unfolding history_ok_def
  proof (intro conjI)
    show "le_status (hd (es @ [e])) = CREATED" using ok es by (simp add: history_ok_def)
    show "successively (\<lambda>a b. le_status b \<in> valid_next (Some (le_status a))) (es @ [e])"
      using ok es move by (simp add: history_ok_def successively_append_iff)
    show "map le_event_sequence (es @ [e]) = map int [1 ..< Suc (length (es @ [e]))]"
      using ok num by (simp add: history_ok_def)
    show "\<forall>x \<in> set (es @ [e]). same_order (hd (es @ [e])) x \<and> quantities_ok (quantity_of intent) x \<and>
        flags_safe (le_intent_snapshot x)"
      using ok es quant same safe next_event(3) by (simp add: history_ok_def)
  qed simp
qed

lemma last_only_terminal:
  "successively (\<lambda>a b. le_status b \<in> valid_next (Some (le_status a))) es \<Longrightarrow> e \<in> set (butlast es) \<Longrightarrow>
     le_status e \<notin> terminal_states"
proof (induction es rule: induct_list012)
  case (3 a b es)
  then show ?case using paper_lifecycle.terminal_stuck [of "le_status a" "le_status b"]
    by (cases "e = a") auto
qed simp_all

section \<open>Properties\<close>

definition demo_intent :: pydict where
  "demo_intent =
     [(''intent_type'', PStr ''PAPER_ORDER_INTENT''), (''paper_order_intent_id'', PStr ''pi-1''), (''candidate_id'', PStr ''c-1''),
      (''symbol'', PStr ''NIFTY''), (''transaction_type'', PStr ''BUY''), (''quantity'', PInt 10)] @ safe_flags"

definition demo_request :: "paper_status \<Rightarrow> event_arg \<Rightarrow> pyval \<Rightarrow> lifecycle_request" where
  "demo_request s prev filled =
     \<lparr>rq_intent = PDict demo_intent, rq_requested_status = StatusValue s, rq_previous_event = prev, rq_ts_epoch = PFloat (Fin 1),
      rq_reason = None, rq_filled_quantity = filled, rq_average_fill_price = PFloat (Fin 100)\<rparr>"

lemma demo_intent_facts:
  "int_or_zero (dget (as_dict (rq_intent (demo_request s prev filled))) ''quantity'') = Inr 10"
  "quantity_of (rq_intent (demo_request s prev filled)) = 10"
  "intent_ok (as_dict (rq_intent (demo_request s prev filled)))"
  by (simp_all add: demo_request_def demo_intent_def quantity_of_def intent_ok_def flags_safe_def safe_flags_def)

lemma demo_built:
  assumes "int_or_none filled = Inr fill" and "move_ok (previous_status prev) s" and "fill_ok s 10 fill"
    and "filled_quantity_for s prev filled 10 = Inr nf" and "previous_sequence prev = Inr sq"
  shows "\<exists>r. build_lifecycle_event (demo_request s prev filled) = Inr r \<and> lr_created r \<and>
    lr_event r = Some (event_of_request (demo_request s prev filled) s nf sq (Some (Fin 100)))"
  by (rule build_total [OF demo_intent_facts(1)])
    (use assms demo_intent_facts(2,3) [of s prev filled] in \<open>simp_all add: request_ok_def demo_request_def\<close>)

text \<open>
  C9. A request creates an event exactly when its status can be read, the intent carries the
  safe flags and both ids, the status may follow the previous one (CREATED for a new order),
  and a fill states a positive quantity within the order, strictly below it for a partial
  fill. Otherwise no event is created and at least one blocker says why.
\<close>

theorem lifecycle_created_iff:
  assumes "build_lifecycle_event q = Inr r"
  shows "(lr_created r \<longleftrightarrow>
      (\<exists>s fill. int_or_none (rq_filled_quantity q) = Inr fill \<and>
         coerce_status (rq_requested_status q) = Some s \<and> intent_ok (as_dict (rq_intent q)) \<and>
         move_ok (previous_status (rq_previous_event q)) s \<and> fill_ok s (quantity_of (rq_intent q)) fill)) \<and>
    (lr_created r \<longleftrightarrow> lr_blockers r = []) \<and> (lr_created r \<longleftrightarrow> lr_event r \<noteq> None)"
  using assms
proof (cases rule: build_cases)
  case (created s fill)
  then show ?thesis by (auto simp: request_ok_def)
next
  case refused
  then show ?thesis by (auto simp: request_ok_def)
qed

theorem lifecycle_created_iff_witness:
  "\<exists>r. build_lifecycle_event (demo_request CREATED NoEvent PNone) = Inr r \<and> lr_blockers r = []"
proof -
  obtain r where "build_lifecycle_event (demo_request CREATED NoEvent PNone) = Inr r" "lr_created r"
    using demo_built [of PNone None NoEvent CREATED 0 0]
    by (auto simp: move_ok_def fill_ok_def filled_quantity_for_def previous_sequence_def)
  with lifecycle_created_iff show ?thesis by blast
qed

text \<open>
  C4. The history of a paper order starts with CREATED, moves only along the transition table,
  numbers its events 1, 2, 3 and so on, keeps the same order, intent and candidate ids, and at
  every event fills at most the ordered quantity and reports the rest as remaining. A terminal
  status can only be the last one.
\<close>

theorem order_history_lawful:
  assumes "paper_history intent es"
  shows "es \<noteq> [] \<and> le_status (hd es) = CREATED \<and>
    successively (\<lambda>a b. le_status b \<in> valid_next (Some (le_status a))) es \<and>
    map le_event_sequence es = map int [1 ..< Suc (length es)] \<and>
    (\<forall>e \<in> set es. same_order (hd es) e \<and> quantities_ok (quantity_of intent) e) \<and>
    (\<forall>e \<in> set (butlast es). le_status e \<notin> terminal_states)"
  using history_ok [OF assms] last_only_terminal unfolding history_ok_def by blast

theorem order_history_lawful_witness:
  "\<exists>es. paper_history (PDict demo_intent) es \<and> map le_status es = [CREATED, ACCEPTED] \<and> map le_event_sequence es = [1, 2]"
proof -
  obtain r where r: "build_lifecycle_event (demo_request CREATED NoEvent PNone) = Inr r"
    "lr_event r = Some (event_of_request (demo_request CREATED NoEvent PNone) CREATED 0 0 (Some (Fin 100)))"
    using demo_built [of PNone None NoEvent CREATED 0 0]
    by (auto simp: move_ok_def fill_ok_def filled_quantity_for_def previous_sequence_def)
  let ?e = "event_of_request (demo_request CREATED NoEvent PNone) CREATED 0 0 (Some (Fin 100))"
  obtain r' where r': "build_lifecycle_event (demo_request ACCEPTED (EventRecord ?e) PNone) = Inr r'"
    "lr_event r' = Some (event_of_request (demo_request ACCEPTED (EventRecord ?e) PNone) ACCEPTED 0 1 (Some (Fin 100)))"
    using demo_built [of PNone None "EventRecord ?e" ACCEPTED 0 1]
    by (auto simp: move_ok_def fill_ok_def filled_quantity_for_def previous_sequence_def)
  let ?es = "[?e] @ [event_of_request (demo_request ACCEPTED (EventRecord ?e) PNone) ACCEPTED 0 1 (Some (Fin 100))]"
  have "paper_history (PDict demo_intent) ?es"
    by (rule next_event [OF first_event [OF r(1) _ _ r(2)] r'(1) _ _ r'(2)]) (simp_all add: demo_request_def)
  from order_history_lawful [OF this] this show ?thesis by (intro exI [of _ ?es]) (simp add: upt_rec)
qed

text \<open>
  An order whose last event is FILLED, REJECTED, CANCELLED or EXPIRED accepts no further
  event, whatever is requested: the builder refuses with a blocker.
\<close>

theorem terminal_paper_order_final:
  assumes "le_status e \<in> terminal_states" "rq_previous_event q = EventRecord e" "build_lifecycle_event q = Inr r"
  shows "\<not> lr_created r \<and> lr_event r = None \<and> lr_blockers r \<noteq> []"
  using assms(3)
proof (cases rule: build_cases)
  case (created s)
  then have "s \<in> valid_next (Some (le_status e))" using assms(2) by (simp add: request_ok_def move_ok_def)
  with paper_lifecycle.terminal_stuck [OF assms(1)] show ?thesis by blast
qed simp

theorem terminal_paper_order_final_witness:
  "\<exists>r. build_lifecycle_event (demo_request OPEN (EventRecord (event_of_request (demo_request CREATED NoEvent PNone) FILLED 10 3 None)) PNone)
     = Inr r \<and> lr_event r = None"
proof -
  let ?q = "demo_request OPEN (EventRecord (event_of_request (demo_request CREATED NoEvent PNone) FILLED 10 3 None)) PNone"
  have "\<exists>r. build_lifecycle_event ?q = Inr r"
    by (rule build_refusal_exists [OF demo_intent_facts(1)]) (simp_all add: demo_request_def request_ok_def move_ok_def)
  then obtain r where "build_lifecycle_event ?q = Inr r" by blast
  moreover from this have "\<not> lr_created r \<and> lr_event r = None \<and> lr_blockers r \<noteq> []"
    by (rule terminal_paper_order_final [rotated 2]) (simp_all add: terminal_states_def demo_request_def)
  ultimately show ?thesis by blast
qed

text \<open>
  The builder does not compare the filled quantity with the previous event: a partially
  filled order of 10 with 8 filled may report 3 next, and FILLED with 5 of 10, leaving 5
  remaining on a terminal order. (The position ledger blocks the first.)
\<close>

theorem lifecycle_accepts_regression:
  "\<exists>e8 e3 e5. lr_event (projr (build_lifecycle_event (demo_request PARTIALLY_FILLED (EventRecord e8) (PInt 3)))) = Some e3 \<and>
     le_status e8 = PARTIALLY_FILLED \<and> le_filled_quantity e8 = 8 \<and> le_filled_quantity e3 = 3 \<and>
     lr_event (projr (build_lifecycle_event (demo_request FILLED (EventRecord e8) (PInt 5)))) = Some e5 \<and>
     le_status e5 = FILLED \<and> le_remaining_quantity e5 = Some 5"
proof -
  let ?e8 = "event_of_request (demo_request PARTIALLY_FILLED NoEvent (PInt 8)) PARTIALLY_FILLED 8 3 None"
  obtain r where r: "build_lifecycle_event (demo_request PARTIALLY_FILLED (EventRecord ?e8) (PInt 3)) = Inr r"
    "lr_event r = Some (event_of_request (demo_request PARTIALLY_FILLED (EventRecord ?e8) (PInt 3)) PARTIALLY_FILLED 3 4 (Some (Fin 100)))"
    using demo_built [of "PInt 3" "Some 3" "EventRecord ?e8" PARTIALLY_FILLED 3 4]
    by (auto simp: move_ok_def fill_ok_def filled_quantity_for_def previous_sequence_def)
  obtain r' where r': "build_lifecycle_event (demo_request FILLED (EventRecord ?e8) (PInt 5)) = Inr r'"
    "lr_event r' = Some (event_of_request (demo_request FILLED (EventRecord ?e8) (PInt 5)) FILLED 5 4 (Some (Fin 100)))"
    using demo_built [of "PInt 5" "Some 5" "EventRecord ?e8" FILLED 5 4]
    by (auto simp: move_ok_def fill_ok_def filled_quantity_for_def previous_sequence_def)
  let ?e3 = "event_of_request (demo_request PARTIALLY_FILLED (EventRecord ?e8) (PInt 3)) PARTIALLY_FILLED 3 4 (Some (Fin 100))"
  let ?e5 = "event_of_request (demo_request FILLED (EventRecord ?e8) (PInt 5)) FILLED 5 4 (Some (Fin 100))"
  show ?thesis
  proof (intro exI conjI)
    show "lr_event (projr (build_lifecycle_event (demo_request PARTIALLY_FILLED (EventRecord ?e8) (PInt 3)))) = Some ?e3"
      using r by simp
    show "lr_event (projr (build_lifecycle_event (demo_request FILLED (EventRecord ?e8) (PInt 5)))) = Some ?e5"
      using r' by simp
  qed (simp_all add: demo_intent_facts)
qed

end
