(* ===== verification/Paper_Events.thy ===== *)
theory Paper_Events
  imports Paper_Base
begin

text \<open>
  src/paper_trading/events.py: the canonical paper event, its normalization and its
  validation. \<open>normalize_paper_event\<close> may raise: \<open>TypeError\<close> on a value that is no event, and
  \<open>OverflowError\<close> on a number that \<open>int\<close> or \<open>float\<close> cannot convert.
\<close>

section \<open>Events\<close>

datatype paper_event_type =
    PAPER_ORDER_INTENT_CREATED
  | PAPER_ORDER_ACCEPTED
  | PAPER_ORDER_REJECTED
  | PAPER_ORDER_OPENED
  | PAPER_ORDER_PARTIALLY_FILLED
  | PAPER_ORDER_FILLED
  | PAPER_ORDER_CANCELLED
  | PAPER_ORDER_EXPIRED
  | PAPER_POSITION_OPENED
  | PAPER_POSITION_INCREASED
  | PAPER_POSITION_REDUCED
  | PAPER_POSITION_CLOSED
  | PAPER_POSITION_REVERSED
  | PAPER_PNL_MARKED
  | PAPER_SLIPPAGE_MEASURED
  | PAPER_PERFORMANCE_SNAPSHOT_CREATED

fun event_type_text :: "paper_event_type \<Rightarrow> string" where
  "event_type_text PAPER_ORDER_INTENT_CREATED = ''PAPER_ORDER_INTENT_CREATED''"
| "event_type_text PAPER_ORDER_ACCEPTED = ''PAPER_ORDER_ACCEPTED''"
| "event_type_text PAPER_ORDER_REJECTED = ''PAPER_ORDER_REJECTED''"
| "event_type_text PAPER_ORDER_OPENED = ''PAPER_ORDER_OPENED''"
| "event_type_text PAPER_ORDER_PARTIALLY_FILLED = ''PAPER_ORDER_PARTIALLY_FILLED''"
| "event_type_text PAPER_ORDER_FILLED = ''PAPER_ORDER_FILLED''"
| "event_type_text PAPER_ORDER_CANCELLED = ''PAPER_ORDER_CANCELLED''"
| "event_type_text PAPER_ORDER_EXPIRED = ''PAPER_ORDER_EXPIRED''"
| "event_type_text PAPER_POSITION_OPENED = ''PAPER_POSITION_OPENED''"
| "event_type_text PAPER_POSITION_INCREASED = ''PAPER_POSITION_INCREASED''"
| "event_type_text PAPER_POSITION_REDUCED = ''PAPER_POSITION_REDUCED''"
| "event_type_text PAPER_POSITION_CLOSED = ''PAPER_POSITION_CLOSED''"
| "event_type_text PAPER_POSITION_REVERSED = ''PAPER_POSITION_REVERSED''"
| "event_type_text PAPER_PNL_MARKED = ''PAPER_PNL_MARKED''"
| "event_type_text PAPER_SLIPPAGE_MEASURED = ''PAPER_SLIPPAGE_MEASURED''"
| "event_type_text PAPER_PERFORMANCE_SNAPSHOT_CREATED = ''PAPER_PERFORMANCE_SNAPSHOT_CREATED''"

definition valid_event_types :: "string list" where
  "valid_event_types =
     map event_type_text
       [PAPER_ORDER_INTENT_CREATED, PAPER_ORDER_ACCEPTED, PAPER_ORDER_REJECTED, PAPER_ORDER_OPENED,
        PAPER_ORDER_PARTIALLY_FILLED, PAPER_ORDER_FILLED, PAPER_ORDER_CANCELLED, PAPER_ORDER_EXPIRED,
        PAPER_POSITION_OPENED, PAPER_POSITION_INCREASED, PAPER_POSITION_REDUCED, PAPER_POSITION_CLOSED,
        PAPER_POSITION_REVERSED, PAPER_PNL_MARKED, PAPER_SLIPPAGE_MEASURED, PAPER_PERFORMANCE_SNAPSHOT_CREATED]"

definition required_event_keys :: "string list" where
  "required_event_keys =
     [''schema_version'', ''event_id'', ''cycle_id'', ''event_sequence'', ''candidate_id'', ''strategy_id'',
      ''paper_order_intent_id'', ''paper_order_id'', ''event_type'', ''ts_epoch'', ''idempotency_key'', ''payload'',
      ''paper_only'', ''is_order_action'', ''broker_api_called'', ''real_order_id'']"

text \<open>\<open>event_type: PaperEventType | str\<close> is kept as its text, which is all that \<open>to_dict\<close> reads of it.\<close>

datatype event_type_arg = TypeValue paper_event_type | TypeText string

fun event_type_value :: "event_type_arg \<Rightarrow> string" where
  "event_type_value (TypeValue t) = event_type_text t"
| "event_type_value (TypeText s) = s"

record paper_event =
  pe_event_id :: string
  pe_cycle_id :: string
  pe_event_sequence :: int
  pe_candidate_id :: "string option"
  pe_strategy_id :: "string option"
  pe_paper_order_intent_id :: "string option"
  pe_paper_order_id :: "string option"
  pe_event_type :: event_type_arg
  pe_ts_epoch :: pyfloat
  pe_idempotency_key :: string
  pe_payload :: pydict
  pe_schema_version :: string

definition paper_event_to_dict :: "paper_event \<Rightarrow> pydict" where
  "paper_event_to_dict e =
     [(''schema_version'', PStr (pe_schema_version e)),
      (''event_id'', PStr (pe_event_id e)),
      (''cycle_id'', PStr (pe_cycle_id e)),
      (''event_sequence'', PInt (pe_event_sequence e)),
      (''candidate_id'', opt_str (pe_candidate_id e)),
      (''strategy_id'', opt_str (pe_strategy_id e)),
      (''paper_order_intent_id'', opt_str (pe_paper_order_intent_id e)),
      (''paper_order_id'', opt_str (pe_paper_order_id e)),
      (''event_type'', PStr (event_type_value (pe_event_type e))),
      (''ts_epoch'', PFloat (pe_ts_epoch e)),
      (''idempotency_key'', PStr (pe_idempotency_key e)),
      (''payload'', PDict (pe_payload e)),
      (''paper_only'', PBool True),
      (''is_order_action'', PBool False),
      (''broker_api_called'', PBool False),
      (''real_order_id'', PNone)]"

definition event_schema_contract :: pydict where
  "event_schema_contract =
     [(''schema_version'', PStr ''1.0''),
      (''journal_type'', PStr ''CANONICAL_PAPER_EVENT_JOURNAL''),
      (''event_types'', str_list
         [''PAPER_ORDER_ACCEPTED'', ''PAPER_ORDER_CANCELLED'', ''PAPER_ORDER_EXPIRED'', ''PAPER_ORDER_FILLED'',
          ''PAPER_ORDER_INTENT_CREATED'', ''PAPER_ORDER_OPENED'', ''PAPER_ORDER_PARTIALLY_FILLED'',
          ''PAPER_ORDER_REJECTED'', ''PAPER_PERFORMANCE_SNAPSHOT_CREATED'', ''PAPER_PNL_MARKED'',
          ''PAPER_POSITION_CLOSED'', ''PAPER_POSITION_INCREASED'', ''PAPER_POSITION_OPENED'',
          ''PAPER_POSITION_REDUCED'', ''PAPER_POSITION_REVERSED'', ''PAPER_SLIPPAGE_MEASURED'']),
      (''required_event_keys'', str_list required_event_keys),
      (''safe_flags'', PDict safe_flags)]"

section \<open>Normalization\<close>

text \<open>\<open>raw_event: PaperEvent | dict\<close>; \<open>RawValue\<close> also stands for any other value passed as one.\<close>

datatype raw_event = EventObject paper_event | RawValue pyval

fun raw_dict :: "raw_event \<Rightarrow> pydict result" where
  "raw_dict (EventObject e) = Inr (paper_event_to_dict e)"
| "raw_dict (RawValue (PDict d)) = Inr d"
| "raw_dict (RawValue _) = Inl TypeError"

definition optional_str :: "pyval \<Rightarrow> pyval" where
  "optional_str v = (if v = PNone then PNone else let t = strip (py_str v) in if t = [] then PNone else PStr t)"

definition normalize_paper_event :: "raw_event \<Rightarrow> pydict result" where
  "normalize_paper_event raw_event =
     bind_result (raw_dict raw_event) (\<lambda>raw.
     bind_result (int_or_none (dget raw ''event_sequence'')) (\<lambda>sequence.
     bind_result (float_or_none (dget raw ''ts_epoch'')) (\<lambda>ts.
       Inr [(''schema_version'', PStr (py_str (py_or (dget raw ''schema_version'') (PStr ''1.0'')))),
            (''event_id'', optional_str (dget raw ''event_id'')),
            (''cycle_id'', optional_str (dget raw ''cycle_id'')),
            (''event_sequence'', opt_int sequence),
            (''candidate_id'', optional_str (dget raw ''candidate_id'')),
            (''strategy_id'', optional_str (dget raw ''strategy_id'')),
            (''paper_order_intent_id'', optional_str (dget raw ''paper_order_intent_id'')),
            (''paper_order_id'', optional_str (dget raw ''paper_order_id'')),
            (''event_type'', optional_str (dget raw ''event_type'')),
            (''ts_epoch'', opt_float ts),
            (''idempotency_key'', optional_str (dget raw ''idempotency_key'')),
            (''payload'', dget raw ''payload''),
            (''paper_only'', dget raw ''paper_only''),
            (''is_order_action'', dget raw ''is_order_action''),
            (''broker_api_called'', dget raw ''broker_api_called''),
            (''real_order_id'', dget raw ''real_order_id'')])))"

section \<open>Validation\<close>

definition sequence_invalid :: "pyval \<Rightarrow> bool" where
  "sequence_invalid v = (case v of PInt n \<Rightarrow> n < 1 | _ \<Rightarrow> True)"

definition event_blockers :: "pydict \<Rightarrow> string list" where
  "event_blockers event =
     concat (map (\<lambda>k. add_if (\<not> has_key event k) (''PAPER_EVENT_MISSING_'' @ upper k)) required_event_keys) @
     add_if (dget event ''schema_version'' \<noteq> PStr ''1.0'') ''PAPER_EVENT_SCHEMA_VERSION_UNSUPPORTED'' @
     add_if (\<not> truthy (dget event ''event_id'')) ''PAPER_EVENT_MISSING_EVENT_ID'' @
     add_if (\<not> truthy (dget event ''cycle_id'')) ''PAPER_EVENT_MISSING_CYCLE_ID'' @
     add_if (sequence_invalid (dget event ''event_sequence'')) ''PAPER_EVENT_INVALID_EVENT_SEQUENCE'' @
     (if \<not> truthy (dget event ''event_type'') then [''PAPER_EVENT_MISSING_EVENT_TYPE'']
      else add_if (dget event ''event_type'' \<notin> PStr ` set valid_event_types) ''PAPER_EVENT_TYPE_UNSUPPORTED'') @
     add_if (dget event ''ts_epoch'' = PNone) ''PAPER_EVENT_MISSING_TS_EPOCH'' @
     add_if (\<not> truthy (dget event ''idempotency_key'')) ''PAPER_EVENT_MISSING_IDEMPOTENCY_KEY'' @
     add_if (\<not> is_dict (dget event ''payload'')) ''PAPER_EVENT_PAYLOAD_NOT_OBJECT'' @
     add_if (dget event ''paper_only'' \<noteq> PBool True) ''PAPER_EVENT_UNSAFE_PAPER_ONLY_FLAG'' @
     add_if (dget event ''is_order_action'' \<noteq> PBool False) ''PAPER_EVENT_UNSAFE_ORDER_ACTION_FLAG'' @
     add_if (dget event ''broker_api_called'' \<noteq> PBool False) ''PAPER_EVENT_UNSAFE_BROKER_API_FLAG'' @
     add_if (dget event ''real_order_id'' \<noteq> PNone) ''PAPER_EVENT_UNSAFE_REAL_ORDER_ID''"

definition validate_paper_event :: "raw_event \<Rightarrow> string list result" where
  "validate_paper_event raw_event =
     (case normalize_paper_event raw_event of
        Inl TypeError \<Rightarrow> Inr [''PAPER_EVENT_NOT_OBJECT'']
      | Inl (ValueError _) \<Rightarrow> Inr [''PAPER_EVENT_NOT_OBJECT'']
      | Inl e \<Rightarrow> Inl e
      | Inr event \<Rightarrow> Inr (event_blockers event))"

section \<open>Lemmas\<close>

interpretation paper_event_report: paper_report paper_event_to_dict required_event_keys
  by unfold_locales (simp_all add: paper_event_to_dict_def required_event_keys_def flags_safe_def has_key_def)

lemma optional_str_idem [simp]: "optional_str (optional_str v) = optional_str v"
  by (auto simp: optional_str_def Let_def)

lemma optional_str_cases: "optional_str v = PNone \<or> (\<exists>s. optional_str v = PStr s \<and> s \<noteq> [] \<and> strip s = s)"
  by (auto simp: optional_str_def Let_def)

lemma py_str_truthy: "truthy v \<Longrightarrow> py_str v \<noteq> []"
  by (cases v) auto

lemma py_str_or: "truthy (PStr (py_str (py_or v (PStr ''1.0''))))"
  by (cases "truthy v") (auto simp: py_str_truthy)

text \<open>The shape of a normalized event.\<close>

definition text_or_none :: "pyval \<Rightarrow> bool" where
  "text_or_none v \<longleftrightarrow> v = PNone \<or> (\<exists>s. v = PStr s \<and> s \<noteq> [])"

lemma optional_str_text [simp]: "text_or_none (optional_str v)"
  using optional_str_cases [of v] by (auto simp: text_or_none_def)

lemma normalizeE:
  assumes "normalize_paper_event r = Inr e"
  obtains raw sequence ts where "raw_dict r = Inr raw" "int_or_none (dget raw ''event_sequence'') = Inr sequence"
    "float_or_none (dget raw ''ts_epoch'') = Inr ts"
    "e = [(''schema_version'', PStr (py_str (py_or (dget raw ''schema_version'') (PStr ''1.0'')))),
            (''event_id'', optional_str (dget raw ''event_id'')),
            (''cycle_id'', optional_str (dget raw ''cycle_id'')),
            (''event_sequence'', opt_int sequence),
            (''candidate_id'', optional_str (dget raw ''candidate_id'')),
            (''strategy_id'', optional_str (dget raw ''strategy_id'')),
            (''paper_order_intent_id'', optional_str (dget raw ''paper_order_intent_id'')),
            (''paper_order_id'', optional_str (dget raw ''paper_order_id'')),
            (''event_type'', optional_str (dget raw ''event_type'')),
            (''ts_epoch'', opt_float ts),
            (''idempotency_key'', optional_str (dget raw ''idempotency_key'')),
            (''payload'', dget raw ''payload''),
            (''paper_only'', dget raw ''paper_only''),
            (''is_order_action'', dget raw ''is_order_action''),
            (''broker_api_called'', dget raw ''broker_api_called''),
            (''real_order_id'', dget raw ''real_order_id'')]"
  using assms by (auto simp: normalize_paper_event_def)

lemma normalized_shape:
  assumes "normalize_paper_event r = Inr e"
  shows "map fst e = required_event_keys" "text_or_none (dget e ''event_id'')" "text_or_none (dget e ''cycle_id'')"
    "text_or_none (dget e ''idempotency_key'')" "text_or_none (dget e ''event_type'')"
    "text_or_none (dget e ''paper_order_id'')" "text_or_none (dget e ''paper_order_intent_id'')" "text_or_none (dget e ''candidate_id'')"
    "(\<exists>n. dget e ''event_sequence'' = opt_int n)" "(\<exists>x. dget e ''ts_epoch'' = opt_float x)"
  using assms by (auto elim!: normalizeE simp: required_event_keys_def)

lemma normalize_idem:
  assumes "normalize_paper_event r = Inr e" shows "normalize_paper_event (RawValue (PDict e)) = Inr e"
  using assms
proof (rule normalizeE)
  fix raw sequence ts
  assume e: "e = [(''schema_version'', PStr (py_str (py_or (dget raw ''schema_version'') (PStr ''1.0'')))),
            (''event_id'', optional_str (dget raw ''event_id'')),
            (''cycle_id'', optional_str (dget raw ''cycle_id'')),
            (''event_sequence'', opt_int sequence),
            (''candidate_id'', optional_str (dget raw ''candidate_id'')),
            (''strategy_id'', optional_str (dget raw ''strategy_id'')),
            (''paper_order_intent_id'', optional_str (dget raw ''paper_order_intent_id'')),
            (''paper_order_id'', optional_str (dget raw ''paper_order_id'')),
            (''event_type'', optional_str (dget raw ''event_type'')),
            (''ts_epoch'', opt_float ts),
            (''idempotency_key'', optional_str (dget raw ''idempotency_key'')),
            (''payload'', dget raw ''payload''),
            (''paper_only'', dget raw ''paper_only''),
            (''is_order_action'', dget raw ''is_order_action''),
            (''broker_api_called'', dget raw ''broker_api_called''),
            (''real_order_id'', dget raw ''real_order_id'')]"
  have "py_str (py_or (PStr (py_str (py_or v (PStr ''1.0'')))) (PStr ''1.0'')) = py_str (py_or v (PStr ''1.0''))" for v
    using py_str_or [of v] by simp
  then show ?thesis by (simp add: normalize_paper_event_def e)
qed

text \<open>A valid event: the conditions under which no blocker is raised.\<close>

definition event_valid :: "pydict \<Rightarrow> bool" where
  "event_valid e \<longleftrightarrow>
     dget e ''schema_version'' = PStr ''1.0'' \<and> truthy (dget e ''event_id'') \<and> truthy (dget e ''cycle_id'') \<and>
     (\<exists>n \<ge> 1. dget e ''event_sequence'' = PInt n) \<and> dget e ''event_type'' \<in> PStr ` set valid_event_types \<and>
     dget e ''ts_epoch'' \<noteq> PNone \<and> truthy (dget e ''idempotency_key'') \<and> is_dict (dget e ''payload'') \<and>
     dget e ''paper_only'' = PBool True \<and> dget e ''is_order_action'' = PBool False \<and>
     dget e ''broker_api_called'' = PBool False \<and> dget e ''real_order_id'' = PNone"

lemma valid_types_truthy: "v \<in> PStr ` set valid_event_types \<Longrightarrow> truthy v"
  by (auto simp: valid_event_types_def)

lemma sequence_valid: "\<not> sequence_invalid v \<longleftrightarrow> (\<exists>n \<ge> 1. v = PInt n)"
  by (cases v) (auto simp: sequence_invalid_def)

lemma no_missing_keys:
  "map fst e = required_event_keys \<Longrightarrow>
     concat (map (\<lambda>k. add_if (\<not> has_key e k) (''PAPER_EVENT_MISSING_'' @ upper k)) required_event_keys) = []"
  by (simp add: has_key_def)

lemma event_blockers_empty:
  assumes "map fst e = required_event_keys" shows "event_blockers e = [] \<longleftrightarrow> event_valid e"
  unfolding event_blockers_def no_missing_keys [OF assms] event_valid_def append_is_Nil_conv add_if_eq_Nil
    sequence_valid [symmetric]
  using valid_types_truthy [of "dget e ''event_type''"] by auto

lemma validate_normalized:
  assumes "normalize_paper_event r = Inr e"
  shows "\<exists>bs. validate_paper_event (RawValue (PDict e)) = Inr bs \<and> (bs = [] \<longleftrightarrow> event_valid e)"
  using event_blockers_empty [OF normalized_shape(1) [OF assms]] normalize_idem [OF assms]
  by (simp add: validate_paper_event_def)

section \<open>Properties\<close>

text \<open>
  Normalization is idempotent: a normalized event has exactly the required keys in the
  order of the schema, and normalizing it again returns it unchanged, so the journal, the
  ordering guard and the reducer, which each normalize, agree on the event.
\<close>

theorem normalize_event_idempotent:
  assumes "normalize_paper_event r = Inr e"
  shows "map fst e = required_event_keys \<and> normalize_paper_event (RawValue (PDict e)) = Inr e"
  using normalized_shape(1) [OF assms] normalize_idem [OF assms] by blast

definition demo_raw :: "string \<Rightarrow> int \<Rightarrow> pydict" where
  "demo_raw key n =
     [(''event_id'', PStr key), (''cycle_id'', PStr '' cycle ''), (''event_sequence'', PInt n),
      (''event_type'', PStr ''PAPER_ORDER_OPENED''), (''ts_epoch'', PInt n), (''idempotency_key'', PStr key),
      (''payload'', PDict [])] @ safe_flags"

theorem normalize_event_idempotent_witness:
  "normalize_paper_event (RawValue (PDict (projr (normalize_paper_event (RawValue (PDict (demo_raw ''e1'' 1))))))) =
   Inr (projr (normalize_paper_event (RawValue (PDict (demo_raw ''e1'' 1)))))"
proof -
  have "\<not> isl (normalize_paper_event (RawValue (PDict (demo_raw ''e1'' 1))))" by code_simp
  then have "normalize_paper_event (RawValue (PDict (demo_raw ''e1'' 1))) =
      Inr (projr (normalize_paper_event (RawValue (PDict (demo_raw ''e1'' 1)))))"
    by (cases "normalize_paper_event (RawValue (PDict (demo_raw ''e1'' 1)))") auto
  from normalize_event_idempotent [OF this] show ?thesis by blast
qed

text \<open>
  Validation accepts exactly the events whose normal form has the supported schema
  version, non-empty ids, a sequence number of at least 1, one of the sixteen event types,
  a timestamp, an object as payload, and the four safe flags: an event that claims an order
  action, a broker call or a real order id is never accepted.
\<close>

theorem event_accepted_iff:
  assumes "normalize_paper_event r = Inr e"
  shows "validate_paper_event r = Inr [] \<longleftrightarrow> event_valid e"
  using event_blockers_empty [OF normalized_shape(1) [OF assms]] by (simp add: validate_paper_event_def assms)

theorem event_accepted_iff_witness:
  "validate_paper_event (RawValue (PDict (dset ''broker_api_called'' (PBool True) (demo_raw ''e1'' 1)))) \<noteq> Inr []"
proof -
  let ?r = "RawValue (PDict (dset ''broker_api_called'' (PBool True) (demo_raw ''e1'' 1)))"
  have "\<not> isl (normalize_paper_event ?r)" by code_simp
  then obtain e where e: "normalize_paper_event ?r = Inr e" by (cases "normalize_paper_event ?r") auto
  then have "dget e ''broker_api_called'' = PBool True"
    by (auto elim!: normalizeE simp: demo_raw_def safe_flags_def)
  with event_accepted_iff [OF e] show ?thesis by (simp add: event_valid_def)
qed

end
