(* ===== verification/Paper_Ordering.thy ===== *)
theory Paper_Ordering
  imports Paper_Events "HOL-Library.List_Lexorder" "HOL-Library.Char_ord"
begin

text \<open>
  src/paper_trading/event_ordering.py: the guard that accepts a list of events only when ids
  and idempotency keys are unique and, cycle by cycle, the sequence numbers are 1, 2, 3 and
  so on and the timestamps do not decrease. It never sorts or repairs. The summary dict of a
  cycle is the record \<open>cycle_summary\<close>; the loop is the fold \<open>guard_loop\<close>.
\<close>

section \<open>Data\<close>

datatype guard_status = VALID | EMPTY | BLOCKED

fun guard_status_value :: "guard_status \<Rightarrow> string" where
  "guard_status_value VALID = ''VALID''"
| "guard_status_value EMPTY = ''EMPTY''"
| "guard_status_value BLOCKED = ''BLOCKED''"

record cycle_summary =
  cy_cycle_id :: string
  cy_event_count :: int
  cy_first_event_id :: string
  cy_last_event_id :: "string option"
  cy_first_sequence :: int
  cy_last_sequence :: "int option"
  cy_first_ts_epoch :: pyfloat
  cy_last_ts_epoch :: "pyfloat option"

definition cycle_to_dict :: "cycle_summary \<Rightarrow> pydict" where
  "cycle_to_dict c =
     [(''cycle_id'', PStr (cy_cycle_id c)), (''event_count'', PInt (cy_event_count c)),
      (''first_event_id'', PStr (cy_first_event_id c)), (''last_event_id'', opt_str (cy_last_event_id c)),
      (''first_sequence'', PInt (cy_first_sequence c)), (''last_sequence'', opt_int (cy_last_sequence c)),
      (''first_ts_epoch'', PFloat (cy_first_ts_epoch c)), (''last_ts_epoch'', opt_float (cy_last_ts_epoch c))] @ read_only_flags"

record guard_result =
  gr_valid :: bool
  gr_status :: guard_status
  gr_ordered_events :: "pydict list"
  gr_blockers :: "string list"
  gr_warnings :: "string list"
  gr_cycles :: "(string \<times> cycle_summary) list"

definition guard_result_to_dict :: "guard_result \<Rightarrow> pydict" where
  "guard_result_to_dict r =
     [(''schema_version'', PStr ''1.0''),
      (''guard_type'', PStr ''PAPER_EVENT_ORDERING_IDEMPOTENCY_GUARD''),
      (''valid'', PBool (gr_valid r)),
      (''status'', PStr (guard_status_value (gr_status r))),
      (''ordered_events'', PList (map PDict (gr_ordered_events r))),
      (''event_count'', PInt (int (length (gr_ordered_events r)))),
      (''blockers'', str_list (gr_blockers r)),
      (''warnings'', str_list (gr_warnings r)),
      (''cycles'', PDict (map (\<lambda>(k, c). (k, PDict (cycle_to_dict c))) (gr_cycles r))),
      (''paper_only'', PBool True),
      (''read_only'', PBool True),
      (''is_order_action'', PBool False),
      (''broker_api_called'', PBool False),
      (''real_order_id'', PNone)]"

definition guard_result_keys :: "string list" where
  "guard_result_keys =
     [''schema_version'', ''guard_type'', ''valid'', ''status'', ''ordered_events'', ''event_count'', ''blockers'',
      ''warnings'', ''cycles'', ''paper_only'', ''read_only'', ''is_order_action'', ''broker_api_called'', ''real_order_id'']"

definition guard_schema_contract :: pydict where
  "guard_schema_contract =
     [(''schema_version'', PStr ''1.0''),
      (''guard_type'', PStr ''PAPER_EVENT_ORDERING_IDEMPOTENCY_GUARD''),
      (''consumes'', str_list [''CANONICAL_PAPER_EVENT_JOURNAL'']),
      (''event_schema_version'', PStr ''1.0''),
      (''statuses'', str_list (map guard_status_value [VALID, EMPTY, BLOCKED])),
      (''required_result_keys'', str_list guard_result_keys),
      (''safe_flags'', PDict read_only_flags),
      (''ordering_rules'', PDict
         [(''repair_or_sort_events'', PBool False),
          (''per_cycle_event_sequence'', PStr ''strictly_contiguous_in_input_order''),
          (''per_cycle_ts_epoch'', PStr ''non_decreasing_in_input_order''),
          (''duplicate_event_id'', PStr ''blocked''),
          (''duplicate_idempotency_key'', PStr ''blocked''),
          (''invalid_canonical_event'', PStr ''blocked'')]),
      (''scope_boundary'', str_list
         [''read_only_guard_only'', ''no_reducer_mutation'', ''no_file_io'', ''no_broker_execution'', ''no_live_orders'',
          ''no_api'', ''no_ui'', ''no_runtime_wiring''])]"

section \<open>The loop\<close>

record guard_state =
  gs_blockers :: "string list"
  gs_events :: "pydict list"
  gs_seen_ids :: "string list"
  gs_seen_keys :: "string list"
  gs_cycles :: "(string \<times> cycle_summary) list"

definition initial_guard_state :: guard_state where
  "initial_guard_state = \<lparr>gs_blockers = [], gs_events = [], gs_seen_ids = [], gs_seen_keys = [], gs_cycles = []\<rparr>"

text \<open>The fields of a valid event, read with \<open>str\<close>, \<open>int\<close> and \<open>float\<close>.\<close>

definition ev_id :: "pydict \<Rightarrow> string" where
  "ev_id e = py_str (dget e ''event_id'')"

definition ev_key :: "pydict \<Rightarrow> string" where
  "ev_key e = py_str (dget e ''idempotency_key'')"

definition ev_cycle :: "pydict \<Rightarrow> string" where
  "ev_cycle e = py_str (dget e ''cycle_id'')"

definition ev_seq :: "pydict \<Rightarrow> int" where
  "ev_seq e = (case dget e ''event_sequence'' of PInt n \<Rightarrow> n | _ \<Rightarrow> 0)"

definition ev_ts :: "pydict \<Rightarrow> pyfloat" where
  "ev_ts e = (case dget e ''ts_epoch'' of PFloat x \<Rightarrow> x | _ \<Rightarrow> Fin 0)"

definition event_label :: "int \<Rightarrow> string \<Rightarrow> string" where
  "event_label index text = ''EVENT_'' @ int_to_string index @ ''_'' @ text"

definition sequence_blockers :: "int \<Rightarrow> pydict \<Rightarrow> cycle_summary option \<Rightarrow> string list" where
  "sequence_blockers index e cycle =
     (case cycle of
        Some c \<Rightarrow>
          (case cy_last_sequence c of
             Some p \<Rightarrow> add_if (ev_seq e \<noteq> p + 1)
               (event_label index (''PAPER_EVENT_SEQUENCE_GAP_OR_REGRESSION:'' @ ev_cycle e @ '':'' @ int_to_string p @ ''->'' @ int_to_string (ev_seq e)))
           | None \<Rightarrow> add_if (ev_seq e \<noteq> 1)
               (event_label index (''PAPER_EVENT_SEQUENCE_MUST_START_AT_1:'' @ ev_cycle e @ '':'' @ int_to_string (ev_seq e))))
      | None \<Rightarrow> add_if (ev_seq e \<noteq> 1)
          (event_label index (''PAPER_EVENT_SEQUENCE_MUST_START_AT_1:'' @ ev_cycle e @ '':'' @ int_to_string (ev_seq e))))"

definition timestamp_blockers :: "int \<Rightarrow> pydict \<Rightarrow> cycle_summary option \<Rightarrow> string list" where
  "timestamp_blockers index e cycle =
     (case cycle of
        Some c \<Rightarrow>
          (case cy_last_ts_epoch c of
             Some p \<Rightarrow> add_if (float_lt (ev_ts e) p)
               (event_label index (''PAPER_EVENT_TS_EPOCH_REGRESSION:'' @ ev_cycle e @ '':'' @ float_repr p @ ''->'' @ float_repr (ev_ts e)))
           | None \<Rightarrow> [])
      | None \<Rightarrow> [])"

definition updated_cycle :: "pydict \<Rightarrow> cycle_summary option \<Rightarrow> cycle_summary" where
  "updated_cycle e cycle =
     (let c = (case cycle of
                 Some c \<Rightarrow> c
               | None \<Rightarrow>
                   \<lparr>cy_cycle_id = ev_cycle e, cy_event_count = 0, cy_first_event_id = ev_id e, cy_last_event_id = None,
                    cy_first_sequence = ev_seq e, cy_last_sequence = None, cy_first_ts_epoch = ev_ts e, cy_last_ts_epoch = None\<rparr>)
      in c\<lparr>cy_event_count := cy_event_count c + 1, cy_last_event_id := Some (ev_id e),
           cy_last_sequence := Some (ev_seq e), cy_last_ts_epoch := Some (ev_ts e)\<rparr>)"

definition guard_event :: "int \<Rightarrow> pydict \<Rightarrow> guard_state \<Rightarrow> guard_state" where
  "guard_event index e st =
     (let cycle = map_of (gs_cycles st) (ev_cycle e)
      in \<lparr>gs_blockers = gs_blockers st @
            add_if (ev_id e \<in> set (gs_seen_ids st)) (event_label index ''PAPER_EVENT_ORDERING_DUPLICATE_EVENT_ID'') @
            add_if (ev_key e \<in> set (gs_seen_keys st)) (event_label index ''PAPER_EVENT_ORDERING_DUPLICATE_IDEMPOTENCY_KEY'') @
            sequence_blockers index e cycle @ timestamp_blockers index e cycle,
          gs_events = gs_events st @ [e],
          gs_seen_ids = ev_id e # gs_seen_ids st,
          gs_seen_keys = ev_key e # gs_seen_keys st,
          gs_cycles = AList.update (ev_cycle e) (updated_cycle e cycle) (gs_cycles st)\<rparr>)"

text \<open>One turn of the loop: an event that is not one, or is not valid, only adds blockers.\<close>

definition guard_step :: "int \<Rightarrow> raw_event \<Rightarrow> guard_state \<Rightarrow> guard_state result" where
  "guard_step index raw st =
     (case normalize_paper_event raw of
        Inl TypeError \<Rightarrow> Inr (st\<lparr>gs_blockers := gs_blockers st @ [event_label index ''PAPER_EVENT_NOT_OBJECT'']\<rparr>)
      | Inl (ValueError _) \<Rightarrow> Inr (st\<lparr>gs_blockers := gs_blockers st @ [event_label index ''PAPER_EVENT_NOT_OBJECT'']\<rparr>)
      | Inl err \<Rightarrow> Inl err
      | Inr e \<Rightarrow>
          bind_result (validate_paper_event (RawValue (PDict e))) (\<lambda>bs.
            Inr (if bs \<noteq> [] then st\<lparr>gs_blockers := gs_blockers st @ map (event_label index) bs\<rparr>
                 else guard_event index e st)))"

fun guard_loop :: "int \<Rightarrow> raw_event list \<Rightarrow> guard_state \<Rightarrow> guard_state result" where
  "guard_loop index [] st = Inr st"
| "guard_loop index (raw # rest) st = bind_result (guard_step index raw st) (guard_loop (index + 1) rest)"

text \<open>\<open>events: list | tuple | None\<close>, or a value of another type.\<close>

datatype events_arg = EventsNone | EventsOther | EventsList "raw_event list"

definition validate_ordering_inputs ::
  "events_arg \<Rightarrow> (string list \<times> pydict list \<times> (string \<times> cycle_summary) list) result" where
  "validate_ordering_inputs events =
     (case events of
        EventsNone \<Rightarrow> Inr ([''PAPER_EVENT_ORDERING_EVENTS_REQUIRED''], [], [])
      | EventsOther \<Rightarrow> Inr ([''PAPER_EVENT_ORDERING_EVENTS_MUST_BE_LIST''], [], [])
      | EventsList raws \<Rightarrow>
          bind_result (guard_loop 0 raws initial_guard_state) (\<lambda>st.
            Inr (dedupe (gs_blockers st), (if gs_blockers st = [] then gs_events st else []),
                 sort_key fst (gs_cycles st))))"

definition guard_paper_event_ordering :: "events_arg \<Rightarrow> guard_result result" where
  "guard_paper_event_ordering events =
     bind_result (validate_ordering_inputs events) (\<lambda>(blockers, normalized, cycles).
       Inr (if blockers \<noteq> [] then
              \<lparr>gr_valid = False, gr_status = BLOCKED, gr_ordered_events = [], gr_blockers = blockers, gr_warnings = [],
               gr_cycles = cycles\<rparr>
            else if normalized = [] then
              \<lparr>gr_valid = True, gr_status = EMPTY, gr_ordered_events = [], gr_blockers = [],
               gr_warnings = [''PAPER_EVENT_ORDERING_EMPTY_EVENT_LIST''], gr_cycles = []\<rparr>
            else
              \<lparr>gr_valid = True, gr_status = VALID, gr_ordered_events = normalized, gr_blockers = [], gr_warnings = [],
               gr_cycles = cycles\<rparr>))"

interpretation guard_report: paper_report guard_result_to_dict guard_result_keys
  by unfold_locales (simp_all add: guard_result_to_dict_def guard_result_keys_def flags_safe_def has_key_def)

section \<open>The order that the guard stands for\<close>

text \<open>The events of one cycle, in the order of the list.\<close>

definition of_cycle :: "string \<Rightarrow> pydict list \<Rightarrow> pydict list" where
  "of_cycle c es = filter (\<lambda>e. ev_cycle e = c) es"

definition well_ordered :: "pydict list \<Rightarrow> bool" where
  "well_ordered es \<longleftrightarrow>
     (\<forall>e \<in> set es. event_valid e) \<and> distinct (map ev_id es) \<and> distinct (map ev_key es) \<and>
     (\<forall>c. map ev_seq (of_cycle c es) = map int [1 ..< Suc (length (of_cycle c es))] \<and>
          successively (\<lambda>a b. \<not> float_lt (ev_ts b) (ev_ts a)) (of_cycle c es))"

text \<open>What the next event has to satisfy, given the events already accepted.\<close>

definition next_ok :: "pydict list \<Rightarrow> pydict \<Rightarrow> bool" where
  "next_ok es e \<longleftrightarrow>
     event_valid e \<and> ev_id e \<notin> ev_id ` set es \<and> ev_key e \<notin> ev_key ` set es \<and>
     ev_seq e = int (length (of_cycle (ev_cycle e) es)) + 1 \<and>
     (of_cycle (ev_cycle e) es \<noteq> [] \<longrightarrow> \<not> float_lt (ev_ts e) (ev_ts (last (of_cycle (ev_cycle e) es))))"

lemma of_cycle_simps [simp]:
  "of_cycle c [] = []" "of_cycle c (es @ es') = of_cycle c es @ of_cycle c es'"
  "of_cycle c [e] = (if ev_cycle e = c then [e] else [])"
  by (simp_all add: of_cycle_def)

lemma well_ordered_Nil [simp]: "well_ordered []"
  by (simp add: well_ordered_def)

text \<open>The order inside one cycle.\<close>

definition cycle_ordered :: "pydict list \<Rightarrow> bool" where
  "cycle_ordered xs \<longleftrightarrow>
     map ev_seq xs = map int [1 ..< Suc (length xs)] \<and> successively (\<lambda>a b. \<not> float_lt (ev_ts b) (ev_ts a)) xs"

lemma cycle_ordered_snoc:
  "cycle_ordered (xs @ [e]) \<longleftrightarrow>
     cycle_ordered xs \<and> ev_seq e = int (length xs) + 1 \<and> (xs \<noteq> [] \<longrightarrow> \<not> float_lt (ev_ts e) (ev_ts (last xs)))"
  by (cases "xs = []") (auto simp: cycle_ordered_def successively_append_iff)

lemma all_cycles_snoc:
  "(\<forall>c. cycle_ordered (of_cycle c (es @ [e]))) \<longleftrightarrow>
     (\<forall>c. cycle_ordered (of_cycle c es)) \<and> ev_seq e = int (length (of_cycle (ev_cycle e) es)) + 1 \<and>
     (of_cycle (ev_cycle e) es \<noteq> [] \<longrightarrow> \<not> float_lt (ev_ts e) (ev_ts (last (of_cycle (ev_cycle e) es))))"
  (is "?l \<longleftrightarrow> ?r")
proof
  assume l: ?l
  have "cycle_ordered (of_cycle (ev_cycle e) es @ [e])" using l [rule_format, of "ev_cycle e"] by simp
  moreover have "cycle_ordered (of_cycle c es)" for c
    using l [rule_format, of c] by (cases "ev_cycle e = c") (simp_all add: cycle_ordered_snoc)
  ultimately show ?r by (simp add: cycle_ordered_snoc)
next
  assume r: ?r
  show ?l
  proof
    fix c from r show "cycle_ordered (of_cycle c (es @ [e]))"
      by (cases "ev_cycle e = c") (simp_all add: cycle_ordered_snoc)
  qed
qed

lemma well_ordered_alt:
  "well_ordered es \<longleftrightarrow>
     (\<forall>e \<in> set es. event_valid e) \<and> distinct (map ev_id es) \<and> distinct (map ev_key es) \<and>
     (\<forall>c. cycle_ordered (of_cycle c es))"
  unfolding well_ordered_def cycle_ordered_def ..

lemma well_ordered_snoc: "well_ordered (es @ [e]) \<longleftrightarrow> well_ordered es \<and> next_ok es e"
  unfolding well_ordered_alt all_cycles_snoc next_ok_def by auto

section \<open>The guard decides the order\<close>

text \<open>The state after a prefix \<open>es\<close> without blockers.\<close>

definition summarizes :: "pydict list \<Rightarrow> cycle_summary option \<Rightarrow> bool" where
  "summarizes xs c \<longleftrightarrow>
     (if xs = [] then c = None
      else \<exists>s. c = Some s \<and> cy_event_count s = int (length xs) \<and> cy_last_sequence s = Some (int (length xs)) \<and>
        cy_last_ts_epoch s = Some (ev_ts (last xs)) \<and> cy_last_event_id s = Some (ev_id (last xs)) \<and>
        cy_first_event_id s = ev_id (hd xs))"

definition guard_inv :: "pydict list \<Rightarrow> guard_state \<Rightarrow> bool" where
  "guard_inv es st \<longleftrightarrow>
     gs_blockers st = [] \<and> gs_events st = es \<and> set (gs_seen_ids st) = ev_id ` set es \<and>
     set (gs_seen_keys st) = ev_key ` set es \<and> (\<forall>c. summarizes (of_cycle c es) (map_of (gs_cycles st) c))"

lemma sequence_blockers_empty:
  "summarizes xs c \<Longrightarrow> sequence_blockers i e c = [] \<longleftrightarrow> ev_seq e = int (length xs) + 1"
  by (auto simp: summarizes_def sequence_blockers_def split: if_splits)

lemma timestamp_blockers_empty:
  "summarizes xs c \<Longrightarrow> timestamp_blockers i e c = [] \<longleftrightarrow> (xs \<noteq> [] \<longrightarrow> \<not> float_lt (ev_ts e) (ev_ts (last xs)))"
  by (auto simp: summarizes_def timestamp_blockers_def split: if_splits)

lemma guard_event_blockers:
  assumes "guard_inv es st" and "event_valid e"
  shows "gs_blockers (guard_event i e st) = [] \<longleftrightarrow> next_ok es e"
proof -
  have s: "summarizes (of_cycle (ev_cycle e) es) (map_of (gs_cycles st) (ev_cycle e))"
    using assms(1) by (simp add: guard_inv_def)
  show ?thesis
    using assms sequence_blockers_empty [OF s] timestamp_blockers_empty [OF s]
    by (auto simp: guard_event_def Let_def guard_inv_def next_ok_def)
qed

lemma updated_cycle_summarizes:
  "summarizes xs c \<Longrightarrow> ev_seq e = int (length xs) + 1 \<Longrightarrow> summarizes (xs @ [e]) (Some (updated_cycle e c))"
  by (auto simp: summarizes_def updated_cycle_def Let_def split: if_splits)

lemma guard_event_inv:
  assumes "guard_inv es st" and "next_ok es e" shows "guard_inv (es @ [e]) (guard_event i e st)"
proof -
  have "gs_blockers (guard_event i e st) = []"
    using guard_event_blockers [OF assms(1)] assms(2) by (simp add: next_ok_def)
  moreover have "summarizes (of_cycle c (es @ [e])) (map_of (gs_cycles (guard_event i e st)) c)" for c
    using assms updated_cycle_summarizes [of "of_cycle c es" "map_of (gs_cycles st) c" e]
    by (cases "ev_cycle e = c") (simp_all add: guard_event_def Let_def update_conv' guard_inv_def next_ok_def)
  ultimately show ?thesis using assms(1) by (auto simp: guard_inv_def guard_event_def Let_def)
qed

lemma event_label_nonblank [simp]: "\<not> blank (event_label i text)"
  by (simp add: event_label_def)

lemma sequence_timestamp_nonblank:
  "b \<in> set (sequence_blockers i e c) \<Longrightarrow> \<not> blank b" "b \<in> set (timestamp_blockers i e c) \<Longrightarrow> \<not> blank b"
  by (auto simp: sequence_blockers_def timestamp_blockers_def split: option.splits if_splits)

lemma guard_event_mono: "\<exists>bs. gs_blockers (guard_event i e st) = gs_blockers st @ bs \<and> (\<forall>b \<in> set bs. \<not> blank b)"
  unfolding guard_event_def Let_def guard_state.select_convs
  by (rule exI, rule conjI, rule refl) (auto dest: sequence_timestamp_nonblank split: if_splits)

lemma guard_step_mono:
  "guard_step i raw st = Inr st' \<Longrightarrow> \<exists>bs. gs_blockers st' = gs_blockers st @ bs \<and> (\<forall>b \<in> set bs. \<not> blank b)"
  using guard_event_mono
  by (auto simp: guard_step_def split: sum.splits pyexc.splits if_splits)

lemma guard_loop_nonblank:
  "guard_loop i raws st = Inr st' \<Longrightarrow> \<forall>b \<in> set (gs_blockers st). \<not> blank b \<Longrightarrow> \<forall>b \<in> set (gs_blockers st'). \<not> blank b"
proof (induction raws arbitrary: i st)
  case (Cons raw raws)
  then obtain st1 where st1: "guard_step i raw st = Inr st1" "guard_loop (i + 1) raws st1 = Inr st'" by auto
  then have "\<forall>b \<in> set (gs_blockers st1). \<not> blank b" using guard_step_mono [OF st1(1)] Cons.prems(2) by auto
  with st1(2) show ?case by (rule Cons.IH)
qed simp

lemma guard_loop_mono: "guard_loop i raws st = Inr st' \<Longrightarrow> gs_blockers st \<noteq> [] \<Longrightarrow> gs_blockers st' \<noteq> []"
proof (induction raws arbitrary: i st)
  case (Cons raw raws)
  then obtain st1 where st1: "guard_step i raw st = Inr st1" "guard_loop (i + 1) raws st1 = Inr st'" by auto
  then have "gs_blockers st1 \<noteq> []" using guard_step_mono [OF st1(1)] Cons.prems(2) by auto
  with st1(2) show ?case by (rule Cons.IH)
qed simp

lemma well_ordered_prefix: "well_ordered (es @ es') \<Longrightarrow> well_ordered es"
proof (induction es' rule: rev_induct)
  case (snoc e es')
  then show ?case using well_ordered_snoc [of "es @ es'" e] by simp
qed simp

text \<open>One turn, from a state without blockers.\<close>

lemma guard_step_cases:
  assumes "guard_inv es st" and "guard_step i raw st = Inr st'"
  obtains (accepted) e where "normalize_paper_event raw = Inr e" "next_ok es e" "guard_inv (es @ [e]) st'"
    | (refused) e where "normalize_paper_event raw = Inr e" "\<not> next_ok es e" "gs_blockers st' \<noteq> []"
    | (no_event) err where "normalize_paper_event raw = Inl err" "gs_blockers st' \<noteq> []"
proof (cases "normalize_paper_event raw")
  case (Inl err)
  with assms(2) have "gs_blockers st' \<noteq> []" by (cases err) (auto simp: guard_step_def)
  with Inl show thesis by (rule no_event)
next
  case (Inr e)
  obtain bs where bs: "validate_paper_event (RawValue (PDict e)) = Inr bs" "bs = [] \<longleftrightarrow> event_valid e"
    using validate_normalized [OF Inr] by blast
  then have st': "st' = (if bs \<noteq> [] then st\<lparr>gs_blockers := gs_blockers st @ map (event_label i) bs\<rparr> else guard_event i e st)"
    using assms(2) Inr by (simp add: guard_step_def)
  show thesis
  proof (cases "next_ok es e")
    case True
    then have "st' = guard_event i e st" using st' bs by (simp add: next_ok_def)
    with guard_event_inv [OF assms(1) True] accepted [OF Inr True] show thesis by simp
  next
    case False
    have "gs_blockers st' \<noteq> []"
    proof (cases "event_valid e")
      case True
      then show ?thesis using guard_event_blockers [OF assms(1) True] False st' bs by simp
    next
      case False
      then show ?thesis using st' bs by simp
    qed
    with Inr False show thesis by (rule refused)
  qed
qed

lemma guard_loop_decides:
  assumes "guard_inv es st" and "well_ordered es" and "guard_loop i raws st = Inr st'"
  shows "gs_blockers st' = [] \<longleftrightarrow> (\<exists>es'. map_result normalize_paper_event raws = Inr es' \<and> well_ordered (es @ es'))"
    and "gs_blockers st' = [] \<Longrightarrow> map_result normalize_paper_event raws = Inr es' \<Longrightarrow> guard_inv (es @ es') st'"
  using assms
proof (induction raws arbitrary: es st i es')
  case Nil
  { case 1 then show ?case by (simp add: guard_inv_def)
  next
    case 2 then show ?case by simp }
next
  case (Cons raw raws)
  { case 1
    then obtain st1 where st1: "guard_step i raw st = Inr st1" "guard_loop (i + 1) raws st1 = Inr st'" by auto
    from 1(1) st1(1) show ?case
    proof (cases rule: guard_step_cases)
      case (accepted e)
      have "well_ordered (es @ [e])" using 1(2) accepted(2) by (simp add: well_ordered_snoc)
      from Cons.IH(1) [OF accepted(3) this st1(2)] accepted(1) show ?thesis by auto
    next
      case (refused e)
      have "\<not> well_ordered (es @ e # es')" for es'
        using refused(2) well_ordered_prefix [of "es @ [e]" es'] by (auto simp: well_ordered_snoc)
      with refused guard_loop_mono [OF st1(2)] show ?thesis by auto
    next
      case (no_event err)
      with guard_loop_mono [OF st1(2)] show ?thesis by auto
    qed
  next
    case 2
    then obtain st1 where st1: "guard_step i raw st = Inr st1" "guard_loop (i + 1) raws st1 = Inr st'" by auto
    from 2(3) st1(1) show ?case
    proof (cases rule: guard_step_cases)
      case (accepted e)
      have "well_ordered (es @ [e])" using 2(4) accepted(2) by (simp add: well_ordered_snoc)
      moreover obtain es'' where "map_result normalize_paper_event raws = Inr es''" "es' = e # es''"
        using 2(2) accepted(1) by auto
      ultimately show ?thesis using Cons.IH(2) [OF 2(1) _ accepted(3) _ st1(2)] by auto
    qed (use guard_loop_mono [OF st1(2)] 2(1) in auto) }
qed

lemma guard_inv_initial: "guard_inv [] initial_guard_state"
  by (simp add: guard_inv_def initial_guard_state_def summarizes_def)

lemma guard_outcome:
  assumes "guard_paper_event_ordering (EventsList raws) = Inr r"
  shows "(gr_valid r \<longleftrightarrow> (\<exists>es. map_result normalize_paper_event raws = Inr es \<and> well_ordered es)) \<and>
    (gr_valid r \<longrightarrow> map_result normalize_paper_event raws = Inr (gr_ordered_events r)) \<and>
    (\<not> gr_valid r \<longrightarrow> gr_ordered_events r = [] \<and> gr_blockers r \<noteq> []) \<and> (gr_valid r \<longrightarrow> gr_blockers r = [])"
proof -
  obtain st where st: "guard_loop 0 raws initial_guard_state = Inr st"
    using assms by (auto simp: guard_paper_event_ordering_def validate_ordering_inputs_def)
  note decides = guard_loop_decides [OF guard_inv_initial well_ordered_Nil st, unfolded append_Nil]
  have "\<forall>b \<in> set (gs_blockers st). \<not> blank b"
    by (rule guard_loop_nonblank [OF st]) (simp add: initial_guard_state_def)
  then have none: "dedupe (gs_blockers st) = [] \<longleftrightarrow> gs_blockers st = []"
    by (cases "gs_blockers st") (auto simp: list_all_iff)
  have r: "gr_valid r \<longleftrightarrow> gs_blockers st = []" "gr_valid r \<longrightarrow> gr_ordered_events r = gs_events st"
    "\<not> gr_valid r \<longrightarrow> gr_ordered_events r = [] \<and> gr_blockers r \<noteq> []" "gr_valid r \<longrightarrow> gr_blockers r = []"
    using assms none by (auto simp: guard_paper_event_ordering_def validate_ordering_inputs_def st split: if_splits)
  moreover have "map_result normalize_paper_event raws = Inr (gs_events st)" if ok: "gs_blockers st = []"
  proof -
    obtain es where "map_result normalize_paper_event raws = Inr es" using ok decides(1) by blast
    with decides(2) [OF ok this] show ?thesis by (simp add: guard_inv_def)
  qed
  ultimately show ?thesis using decides(1) by metis
qed

section \<open>Properties\<close>

text \<open>
  C8. The guard accepts a list exactly when every event normalizes to a valid one, no event id
  and no idempotency key occurs twice, and in each cycle the sequence numbers are 1, 2, 3 and
  so on in the order of the list and no timestamp is below the one before. It then returns
  the normalized events, unsorted, and otherwise no event at all.
\<close>

theorem guard_accepts_well_ordered:
  assumes "guard_paper_event_ordering (EventsList raws) = Inr r"
  shows "(gr_valid r \<longleftrightarrow> (\<exists>es. map_result normalize_paper_event raws = Inr es \<and> well_ordered es)) \<and>
    (gr_valid r \<longrightarrow> map_result normalize_paper_event raws = Inr (gr_ordered_events r)) \<and>
    (\<not> gr_valid r \<longrightarrow> gr_ordered_events r = [] \<and> gr_blockers r \<noteq> [])"
  using guard_outcome [OF assms] by blast

theorem guard_accepts_well_ordered_witness:
  "case guard_paper_event_ordering (EventsList [RawValue (PDict (demo_raw ''e1'' 1)), RawValue (PDict (demo_raw ''e2'' 3))]) of
     Inr r \<Rightarrow> \<not> gr_valid r \<and> gr_ordered_events r = [] | Inl _ \<Rightarrow> False"
proof -
  let ?raws = "[RawValue (PDict (demo_raw ''e1'' 1)), RawValue (PDict (demo_raw ''e2'' 3))]"
  have "\<not> isl (guard_paper_event_ordering (EventsList ?raws))" by code_simp
  then obtain r where r: "guard_paper_event_ordering (EventsList ?raws) = Inr r"
    by (cases "guard_paper_event_ordering (EventsList ?raws)") auto
  obtain es where es: "map_result normalize_paper_event ?raws = Inr es" "map ev_seq es = [1, 3]" "map ev_cycle es = [''cycle'', ''cycle'']"
  proof -
    have "\<not> isl (map_result normalize_paper_event ?raws)" "map ev_seq (projr (map_result normalize_paper_event ?raws)) = [1, 3]"
      "map ev_cycle (projr (map_result normalize_paper_event ?raws)) = [''cycle'', ''cycle'']"
      by code_simp+
    then show thesis using that by (cases "map_result normalize_paper_event ?raws") auto
  qed
  then obtain a b where "es = [a, b]" "ev_seq a = 1" "ev_seq b = 3" "ev_cycle a = ''cycle''" "ev_cycle b = ''cycle''" by auto
  then have "of_cycle ''cycle'' es = [a, b]" by (simp add: of_cycle_def)
  moreover from this \<open>ev_seq a = 1\<close> \<open>ev_seq b = 3\<close>
  have "map ev_seq (of_cycle ''cycle'' es) \<noteq> map int [1 ..< Suc (length (of_cycle ''cycle'' es))]"
    by (simp add: upt_rec)
  then have "\<not> well_ordered es" unfolding well_ordered_def by blast
  then have "\<not> gr_valid r \<and> gr_ordered_events r = []"
    using guard_accepts_well_ordered [OF r] unfolding es(1) sum.inject by blast
  then show ?thesis by (simp add: r)
qed

end
