(* ===== verification/Paper_Position.thy ===== *)
theory Paper_Position
  imports Paper_Lifecycle
begin

text \<open>
  src/paper_trading/position_ledger.py: the paper position ledger. Each call applies one
  lifecycle event, whose fill quantity is cumulative per order, to the previous ledger. The
  ledger is refined to a \<open>book\<close>: the fill of every order and the net quantity of every
  position.
\<close>

section \<open>Statuses, result, contract\<close>

datatype position_status =
    POSITION_OPENED
  | POSITION_INCREASED
  | POSITION_REDUCED
  | POSITION_CLOSED
  | POSITION_REVERSED
  | NO_POSITION_CHANGE
  | BLOCKED

fun position_status_value :: "position_status \<Rightarrow> string" where
  "position_status_value POSITION_OPENED = ''POSITION_OPENED''"
| "position_status_value POSITION_INCREASED = ''POSITION_INCREASED''"
| "position_status_value POSITION_REDUCED = ''POSITION_REDUCED''"
| "position_status_value POSITION_CLOSED = ''POSITION_CLOSED''"
| "position_status_value POSITION_REVERSED = ''POSITION_REVERSED''"
| "position_status_value NO_POSITION_CHANGE = ''NO_POSITION_CHANGE''"
| "position_status_value BLOCKED = ''BLOCKED''"

definition position_fill_statuses :: "string list" where
  "position_fill_statuses = [''PARTIALLY_FILLED'', ''FILLED'']"

record position_result =
  po_updated :: bool
  po_status :: position_status
  po_ledger :: pydict
  po_position :: "pydict option"
  po_delta_quantity :: int
  po_signed_delta_quantity :: int
  po_blockers :: "string list"
  po_warnings :: "string list"
  po_evidence :: pydict

definition position_result_to_dict :: "position_result \<Rightarrow> pydict" where
  "position_result_to_dict r =
     [(''schema_version'', PStr ''1.0''),
      (''ledger_type'', PStr ''PAPER_POSITION_LEDGER''),
      (''updated'', PBool (po_updated r)),
      (''status'', PStr (position_status_value (po_status r))),
      (''ledger'', PDict (po_ledger r)),
      (''position'', dict_or_none (po_position r)),
      (''delta_quantity'', PInt (po_delta_quantity r)),
      (''signed_delta_quantity'', PInt (po_signed_delta_quantity r)),
      (''blockers'', str_list (po_blockers r)),
      (''warnings'', str_list (po_warnings r)),
      (''evidence'', PDict (po_evidence r)),
      (''paper_only'', PBool True),
      (''is_order_action'', PBool False),
      (''broker_api_called'', PBool False),
      (''real_order_id'', PNone)]"

definition position_result_keys :: "string list" where
  "position_result_keys =
     [''schema_version'', ''ledger_type'', ''updated'', ''status'', ''ledger'', ''position'', ''delta_quantity'',
      ''signed_delta_quantity'', ''blockers'', ''warnings'', ''evidence'', ''paper_only'', ''is_order_action'',
      ''broker_api_called'', ''real_order_id'']"

definition ledger_keys :: "string list" where
  "ledger_keys =
     [''schema_version'', ''ledger_type'', ''positions'', ''order_fills'', ''last_event'', ''paper_only'',
      ''is_order_action'', ''broker_api_called'', ''real_order_id'']"

definition position_keys :: "string list" where
  "position_keys =
     [''position_id'', ''position_key'', ''candidate_id'', ''symbol'', ''tradingsymbol'', ''instrument_token'',
      ''strategy'', ''net_quantity'', ''side'', ''average_entry_price'', ''last_fill_price'', ''last_update_epoch'',
      ''paper_only'', ''is_order_action'', ''broker_api_called'', ''real_order_id'']"

definition position_schema_contract :: pydict where
  "position_schema_contract =
     [(''schema_version'', PStr ''1.0''),
      (''ledger_type'', PStr ''PAPER_POSITION_LEDGER''),
      (''consumes'', str_list [''PAPER_ORDER_INTENT'', ''PAPER_ORDER_LIFECYCLE_EVENT'']),
      (''fill_event_statuses'', str_list [''FILLED'', ''PARTIALLY_FILLED'']),
      (''statuses'', str_list (map position_status_value
         [POSITION_OPENED, POSITION_INCREASED, POSITION_REDUCED, POSITION_CLOSED, POSITION_REVERSED,
          NO_POSITION_CHANGE, BLOCKED])),
      (''required_result_keys'', str_list position_result_keys),
      (''required_ledger_keys'', str_list ledger_keys),
      (''required_position_keys'', str_list position_keys),
      (''safe_flags'', PDict safe_flags),
      (''scope_boundary'', str_list
         [''paper_only'', ''fill_events_only'', ''no_broker_execution'', ''no_live_orders'', ''no_pnl'',
          ''no_slippage_tracker'', ''no_ui''])]"

section \<open>Ledgers and positions\<close>

definition build_ledger :: "pydict \<Rightarrow> pydict \<Rightarrow> pydict option \<Rightarrow> pydict" where
  "build_ledger positions order_fills last_event =
     [(''schema_version'', PStr ''1.0''),
      (''ledger_type'', PStr ''PAPER_POSITION_LEDGER''),
      (''positions'', PDict positions),
      (''order_fills'', PDict order_fills),
      (''last_event'', opt_dict last_event),
      (''paper_only'', PBool True),
      (''is_order_action'', PBool False),
      (''broker_api_called'', PBool False),
      (''real_order_id'', PNone)]"

definition safe_ledger :: "pyval \<Rightarrow> pydict" where
  "safe_ledger previous_ledger =
     (if dget (as_dict previous_ledger) ''ledger_type'' = PStr ''PAPER_POSITION_LEDGER''
      then as_dict previous_ledger else build_ledger [] [] None)"

definition stable_position_id :: "string \<Rightarrow> string" where
  "stable_position_id position_key = ''paper-position-'' @ digest16 position_key"

definition empty_position :: "pydict \<Rightarrow> string \<Rightarrow> pydict" where
  "empty_position intent position_key =
     [(''position_id'', PStr (stable_position_id position_key)),
      (''position_key'', PStr position_key),
      (''candidate_id'', dget intent ''candidate_id''),
      (''symbol'', dget intent ''symbol''),
      (''tradingsymbol'', dget intent ''tradingsymbol''),
      (''instrument_token'', dget intent ''instrument_token''),
      (''strategy'', dget intent ''strategy''),
      (''net_quantity'', PInt 0),
      (''side'', PStr ''FLAT''),
      (''average_entry_price'', PNone),
      (''last_fill_price'', PNone),
      (''last_update_epoch'', PNone),
      (''paper_only'', PBool True),
      (''is_order_action'', PBool False),
      (''broker_api_called'', PBool False),
      (''real_order_id'', PNone)]"

definition weighted_price :: "pyfloat \<Rightarrow> int \<Rightarrow> pyfloat \<Rightarrow> int \<Rightarrow> pyfloat result" where
  "weighted_price previous_avg previous_abs fill_price delta_abs =
     bind_result (float_of_int previous_abs) (\<lambda>p.
     bind_result (float_of_int delta_abs) (\<lambda>d.
     bind_result (float_of_int (previous_abs + delta_abs)) (\<lambda>n.
     bind_result (float_div (float_add (float_mul previous_avg p) (float_mul fill_price d)) n) (\<lambda>x.
       Inr (py_round x 6)))))"

definition next_average_price ::
  "int \<Rightarrow> pyfloat option \<Rightarrow> int \<Rightarrow> pyfloat option \<Rightarrow> pyfloat option result" where
  "next_average_price previous_net previous_avg signed_delta fill_price =
     (if previous_net + signed_delta = 0 then Inr None
      else case fill_price of
        None \<Rightarrow> Inr previous_avg
      | Some price \<Rightarrow>
          if previous_net = 0 \<or> previous_net * signed_delta < 0 \<and> \<bar>previous_net\<bar> < \<bar>signed_delta\<bar> then Inr (Some price)
          else if 0 < previous_net * signed_delta then
            (case previous_avg of
               None \<Rightarrow> Inr (Some price)
             | Some avg \<Rightarrow>
                 bind_result (weighted_price avg \<bar>previous_net\<bar> price \<bar>signed_delta\<bar>) (\<lambda>x. Inr (Some x)))
          else Inr previous_avg)"

definition apply_position_delta ::
  "pydict \<Rightarrow> int \<Rightarrow> pyfloat option \<Rightarrow> pyval \<Rightarrow> (int \<times> pydict) result" where
  "apply_position_delta previous_position signed_delta fill_price ts_epoch =
     bind_result (int_or_zero (dget previous_position ''net_quantity'')) (\<lambda>previous_net.
     bind_result (float_or_none (dget previous_position ''average_entry_price'')) (\<lambda>previous_avg.
     bind_result (next_average_price previous_net previous_avg signed_delta fill_price) (\<lambda>new_avg.
       let new_net = previous_net + signed_delta
       in Inr (new_net,
            dupdate previous_position
              ([(''net_quantity'', PInt new_net), (''side'', PStr (side_of new_net)),
                (''average_entry_price'', opt_float new_avg), (''last_fill_price'', opt_float fill_price),
                (''last_update_epoch'', ts_epoch)] @ safe_flags)))))"

definition position_change :: "int \<Rightarrow> int \<Rightarrow> int \<Rightarrow> position_status" where
  "position_change previous_net new_net signed_delta =
     (if previous_net = 0 \<and> new_net \<noteq> 0 then POSITION_OPENED
      else if new_net = 0 then POSITION_CLOSED
      else if previous_net * new_net < 0 then POSITION_REVERSED
      else if \<bar>previous_net\<bar> < \<bar>new_net\<bar> then POSITION_INCREASED
      else if signed_delta \<noteq> 0 \<and> \<bar>new_net\<bar> < \<bar>previous_net\<bar> then POSITION_REDUCED
      else NO_POSITION_CHANGE)"

definition position_key :: "pydict \<Rightarrow> string" where
  "position_key intent =
     (case first_text intent [''instrument_token'', ''tradingsymbol'', ''symbol'', ''candidate_id''] of
        Some t \<Rightarrow> t
      | None \<Rightarrow> ''UNKNOWN_PAPER_POSITION'')"

definition previous_order_fill :: "pydict \<Rightarrow> string \<Rightarrow> int result" where
  "previous_order_fill ledger paper_order_id =
     (case dget ledger ''order_fills'' of PDict d \<Rightarrow> int_or_zero (dget d paper_order_id) | _ \<Rightarrow> Inr 0)"

definition count_entries :: "pyval \<Rightarrow> int" where
  "count_entries v = int (length (as_dict v))"

definition ledger_evidence :: "pydict \<Rightarrow> pydict \<Rightarrow> pydict \<Rightarrow> pydict" where
  "ledger_evidence intent event ledger =
     [(''paper_order_intent_id'', dget intent ''paper_order_intent_id''),
      (''paper_order_id'', dget event ''paper_order_id''),
      (''candidate_id'', dget intent ''candidate_id''),
      (''event_status'', dget event ''status''),
      (''event_filled_quantity'', dget event ''filled_quantity''),
      (''previous_position_count'', PInt (count_entries (dget ledger ''positions''))),
      (''previous_order_fill_count'', PInt (count_entries (dget ledger ''order_fills'')))] @ safe_flags"

section \<open>Validation\<close>

definition ledger_intent_blockers :: "pydict \<Rightarrow> string list result" where
  "ledger_intent_blockers intent =
     (if intent = [] then Inr [''PAPER_INTENT_REQUIRED'']
      else bind_result (int_or_zero (dget intent ''quantity'')) (\<lambda>quantity.
        Inr (add_if (dget intent ''intent_type'' \<noteq> PStr ''PAPER_ORDER_INTENT'') ''PAPER_INTENT_TYPE_REQUIRED'' @
             validate_safe_flags ''PAPER_INTENT'' intent @
             add_if (quantity \<le> 0) ''PAPER_ORDER_QUANTITY_REQUIRED'' @
             add_if (upper_text (dget intent ''transaction_type'') \<notin> {''BUY'', ''SELL''}) ''PAPER_TRANSACTION_TYPE_REQUIRED'')))"

definition ledger_event_blockers :: "pydict \<Rightarrow> string list result" where
  "ledger_event_blockers event =
     (if event = [] then Inr [''PAPER_ORDER_LIFECYCLE_EVENT_REQUIRED'']
      else bind_result (int_or_zero (dget event ''filled_quantity'')) (\<lambda>filled.
        Inr (add_if (dget event ''event_type'' \<noteq> PStr ''PAPER_ORDER_LIFECYCLE_EVENT'')
               ''PAPER_ORDER_LIFECYCLE_EVENT_TYPE_REQUIRED'' @
             validate_safe_flags ''PAPER_ORDER_LIFECYCLE'' event @
             add_if (is_blank (dget event ''paper_order_id'')) ''PAPER_ORDER_ID_REQUIRED'' @
             add_if (filled < 0) ''PAPER_FILLED_QUANTITY_INVALID'')))"

definition mismatch_blockers :: "pydict \<Rightarrow> pydict \<Rightarrow> string list" where
  "mismatch_blockers intent event =
     (if intent = [] \<or> event = [] then []
      else
        add_if (py_str (dget intent ''paper_order_intent_id'') \<noteq> py_str (dget event ''paper_order_intent_id''))
          ''PAPER_INTENT_LIFECYCLE_MISMATCH'' @
        add_if (py_str (dget intent ''candidate_id'') \<noteq> py_str (dget event ''candidate_id''))
          ''PAPER_CANDIDATE_LIFECYCLE_MISMATCH'')"

definition previous_ledger_blockers :: "pydict \<Rightarrow> string list" where
  "previous_ledger_blockers ledger =
     (if ledger = [] then []
      else
        add_if (dget ledger ''ledger_type'' \<noteq> PStr ''PAPER_POSITION_LEDGER'') ''PAPER_POSITION_LEDGER_TYPE_REQUIRED'' @
        validate_safe_flags ''PAPER_POSITION_LEDGER'' ledger @
        add_if (\<not> is_dict (dget ledger ''positions'')) ''PAPER_POSITION_LEDGER_POSITIONS_INVALID'' @
        add_if (\<not> is_dict (dget ledger ''order_fills'')) ''PAPER_POSITION_LEDGER_ORDER_FILLS_INVALID'')"

definition validate_position_inputs ::
  "pyval \<Rightarrow> pyval \<Rightarrow> pyval \<Rightarrow> (string list \<times> string list) result" where
  "validate_position_inputs intent lifecycle_event previous_ledger =
     bind_result (ledger_intent_blockers (as_dict intent)) (\<lambda>intent_bs.
     bind_result (ledger_event_blockers (as_dict lifecycle_event)) (\<lambda>event_bs.
       Inr (dedupe (intent_bs @ event_bs @ mismatch_blockers (as_dict intent) (as_dict lifecycle_event) @
                    previous_ledger_blockers (as_dict previous_ledger)),
            add_if (previous_ledger = PNone) ''PAPER_POSITION_LEDGER_STARTING_EMPTY'')))"

section \<open>Applying an event\<close>

record ledger_input =
  li_intent :: pyval
  li_event :: pyval
  li_ts_epoch :: pyval

definition unchanged_ledger ::
  "position_status \<Rightarrow> pydict \<Rightarrow> string list \<Rightarrow> string list \<Rightarrow> pydict \<Rightarrow> position_result" where
  "unchanged_ledger status ledger blockers warnings evidence =
     \<lparr>po_updated = False, po_status = status, po_ledger = ledger, po_position = None, po_delta_quantity = 0,
      po_signed_delta_quantity = 0, po_blockers = blockers, po_warnings = warnings, po_evidence = evidence\<rparr>"

definition apply_fill_event ::
  "pydict \<Rightarrow> pydict \<Rightarrow> pyval \<Rightarrow> pydict \<Rightarrow> int \<Rightarrow> int \<Rightarrow> string list \<Rightarrow> pydict \<Rightarrow> position_result result" where
  "apply_fill_event intent event ts_epoch ledger cumulative previous_filled warnings evidence =
     (let paper_order_id = py_str (dget event ''paper_order_id'');
          delta = cumulative - previous_filled;
          signed_delta = (if upper_text (dget intent ''transaction_type'') = ''BUY'' then delta else - delta);
          key = position_key intent
      in bind_result (dict_or_empty (dget ledger ''positions'')) (\<lambda>positions.
         bind_result (py_dict (py_or (dget positions key) (PDict (empty_position intent key)))) (\<lambda>previous_position.
         bind_result (float_or_none (dget event ''average_fill_price'')) (\<lambda>price.
         bind_result (if ts_epoch \<noteq> PNone then Inr ts_epoch
                      else bind_result (float_or_none (dget event ''ts_epoch'')) (\<lambda>t. Inr (opt_float t))) (\<lambda>ts.
         bind_result (apply_position_delta previous_position signed_delta price ts) (\<lambda>(new_net, position).
         bind_result (dict_or_empty (dget ledger ''order_fills'')) (\<lambda>order_fills.
         bind_result (int_or_zero (dget previous_position ''net_quantity'')) (\<lambda>previous_net.
           Inr \<lparr>po_updated = True, po_status = position_change previous_net new_net signed_delta,
                po_ledger = build_ledger (dset key (PDict position) positions)
                  (dset paper_order_id (PInt cumulative) order_fills) (Some event),
                po_position = Some position, po_delta_quantity = delta, po_signed_delta_quantity = signed_delta,
                po_blockers = [], po_warnings = warnings,
                po_evidence = dset ''previous_order_filled_quantity'' (PInt previous_filled) evidence\<rparr>))))))))"

definition build_position_ledger :: "ledger_input \<Rightarrow> pyval \<Rightarrow> position_result result" where
  "build_position_ledger q previous_ledger =
     bind_result (validate_position_inputs (li_intent q) (li_event q) previous_ledger) (\<lambda>(blockers, warnings).
       let evidence = ledger_evidence (as_dict (li_intent q)) (as_dict (li_event q)) (as_dict previous_ledger);
           safe_previous = safe_ledger previous_ledger
       in if blockers \<noteq> [] then Inr (unchanged_ledger BLOCKED safe_previous blockers warnings evidence)
          else
            bind_result (dict_or_empty (li_intent q)) (\<lambda>intent.
            bind_result (dict_or_empty (li_event q)) (\<lambda>event.
              if upper_text (dget event ''status'') \<notin> set position_fill_statuses
              then Inr (unchanged_ledger NO_POSITION_CHANGE safe_previous []
                     (dedupe (warnings @ [''NON_FILL_LIFECYCLE_EVENT_IGNORED''])) evidence)
              else
                bind_result (int_or_zero (dget event ''filled_quantity'')) (\<lambda>cumulative.
                bind_result (previous_order_fill safe_previous (py_str (dget event ''paper_order_id''))) (\<lambda>previous_filled.
                  if cumulative < previous_filled
                  then Inr (unchanged_ledger BLOCKED safe_previous [''PAPER_FILL_CUMULATIVE_REGRESSION''] warnings
                         (dset ''previous_order_filled_quantity'' (PInt previous_filled) evidence))
                  else if cumulative = previous_filled
                  then Inr (unchanged_ledger NO_POSITION_CHANGE safe_previous []
                         (dedupe (warnings @ [''DUPLICATE_OR_ALREADY_APPLIED_FILL_EVENT'']))
                         (dset ''previous_order_filled_quantity'' (PInt previous_filled) evidence))
                  else apply_fill_event intent event (li_ts_epoch q) safe_previous cumulative previous_filled warnings evidence)))))"

text \<open>A session: each call receives the ledger that the previous one returned.\<close>

definition ledger_step :: "ledger_input \<Rightarrow> pyval \<Rightarrow> pyval result" where
  "ledger_step q previous_ledger =
     bind_result (build_position_ledger q previous_ledger) (\<lambda>r. Inr (PDict (po_ledger r)))"

section \<open>The book\<close>

text \<open>The abstract state: the cumulative fill of each order, the net quantity of each position.\<close>

record book =
  bk_fills :: "string \<Rightarrow> int"
  bk_nets :: "string \<Rightarrow> int"

record order_fill =
  of_order :: string
  of_position :: string
  of_buy :: bool
  of_quantity :: int

definition signed_qty :: "bool \<Rightarrow> int \<Rightarrow> int" where
  "signed_qty buy n = (if buy then n else - n)"

definition applicable :: "order_fill \<Rightarrow> book \<Rightarrow> bool" where
  "applicable f b \<longleftrightarrow> bk_fills b (of_order f) < of_quantity f"

definition apply_fill :: "order_fill option \<Rightarrow> book \<Rightarrow> book" where
  "apply_fill x b =
     (case x of
        Some f \<Rightarrow>
          if applicable f b
          then \<lparr>bk_fills = (bk_fills b)(of_order f := of_quantity f),
                bk_nets = (bk_nets b)(of_position f :=
                  bk_nets b (of_position f) + signed_qty (of_buy f) (of_quantity f - bk_fills b (of_order f)))\<rparr>
          else b
      | None \<Rightarrow> b)"

definition int_field :: "pyval \<Rightarrow> int" where
  "int_field v = (case v of PInt n \<Rightarrow> n | _ \<Rightarrow> 0)"

lemma int_field_simps [simp]: "int_field PNone = 0" "int_field (PInt n) = n"
  by (simp_all add: int_field_def)

definition book_of :: "pyval \<Rightarrow> book" where
  "book_of v =
     (let d = safe_ledger v
      in \<lparr>bk_fills = (\<lambda>oid. int_field (dget (as_dict (dget d ''order_fills'')) oid)),
          bk_nets = (\<lambda>key. int_field (dget (as_dict (dget (as_dict (dget d ''positions'')) key)) ''net_quantity''))\<rparr>)"

text \<open>The fill that an input stands for, when it passes the validation and is a fill event.\<close>

definition intent_usable :: "pydict \<Rightarrow> bool" where
  "intent_usable i \<longleftrightarrow>
     i \<noteq> [] \<and> dget i ''intent_type'' = PStr ''PAPER_ORDER_INTENT'' \<and> flags_safe i \<and>
     (case int_or_zero (dget i ''quantity'') of Inr n \<Rightarrow> 0 < n | Inl _ \<Rightarrow> False) \<and>
     upper_text (dget i ''transaction_type'') \<in> {''BUY'', ''SELL''}"

definition event_usable :: "pydict \<Rightarrow> bool" where
  "event_usable e \<longleftrightarrow>
     e \<noteq> [] \<and> dget e ''event_type'' = PStr ''PAPER_ORDER_LIFECYCLE_EVENT'' \<and> flags_safe e \<and>
     \<not> is_blank (dget e ''paper_order_id'') \<and>
     (case int_or_zero (dget e ''filled_quantity'') of Inr n \<Rightarrow> 0 \<le> n | Inl _ \<Rightarrow> False)"

definition input_usable :: "ledger_input \<Rightarrow> bool" where
  "input_usable q \<longleftrightarrow>
     intent_usable (as_dict (li_intent q)) \<and> event_usable (as_dict (li_event q)) \<and>
     (\<forall>k \<in> {''paper_order_intent_id'', ''candidate_id''}.
        py_str (dget (as_dict (li_intent q)) k) = py_str (dget (as_dict (li_event q)) k))"

definition fill_of :: "ledger_input \<Rightarrow> order_fill option" where
  "fill_of q =
     (let i = as_dict (li_intent q); e = as_dict (li_event q)
      in if input_usable q \<and> upper_text (dget e ''status'') \<in> set position_fill_statuses
         then Some \<lparr>of_order = py_str (dget e ''paper_order_id''), of_position = position_key i,
                    of_buy = (upper_text (dget i ''transaction_type'') = ''BUY''),
                    of_quantity = (case int_or_zero (dget e ''filled_quantity'') of Inr n \<Rightarrow> n | Inl _ \<Rightarrow> 0)\<rparr>
         else None)"

section \<open>The invariant of the ledger\<close>

definition position_ok :: "string \<Rightarrow> pyval \<Rightarrow> bool" where
  "position_ok key v \<longleftrightarrow>
     (\<exists>p n a. v = PDict p \<and> dget p ''position_key'' = PStr key \<and> dget p ''net_quantity'' = PInt n \<and>
        dget p ''side'' = PStr (side_of n) \<and> dget p ''average_entry_price'' = opt_float a \<and>
        (n = 0 \<longrightarrow> a = None) \<and> flags_safe p)"

definition ledger_ok :: "pydict \<Rightarrow> bool" where
  "ledger_ok d \<longleftrightarrow>
     dget d ''ledger_type'' = PStr ''PAPER_POSITION_LEDGER'' \<and> flags_safe d \<and>
     (\<exists>positions fills. dget d ''positions'' = PDict positions \<and> dget d ''order_fills'' = PDict fills \<and>
        distinct (map fst positions) \<and> distinct (map fst fills) \<and>
        (\<forall>key v. map_of positions key = Some v \<longrightarrow> position_ok key v) \<and>
        (\<forall>oid v. map_of fills oid = Some v \<longrightarrow> (\<exists>n > 0. v = PInt n)))"

definition ledger_good :: "pyval \<Rightarrow> bool" where
  "ledger_good v \<longleftrightarrow> v = PNone \<or> is_dict v \<and> ledger_ok (as_dict v)"

lemma build_ledger_get [simp]:
  "dget (build_ledger ps fs e) ''ledger_type'' = PStr ''PAPER_POSITION_LEDGER''"
  "dget (build_ledger ps fs e) ''positions'' = PDict ps"
  "dget (build_ledger ps fs e) ''order_fills'' = PDict fs"
  "dget (build_ledger ps fs e) ''last_event'' = opt_dict e"
  "flags_safe (build_ledger ps fs e)"
  by (simp_all add: build_ledger_def flags_safe_def)

lemma ledger_ok_empty [simp]: "ledger_ok (build_ledger [] [] None)"
  by (simp add: ledger_ok_def)

lemma safe_ledger_PDict [simp]: "ledger_ok d \<Longrightarrow> safe_ledger (PDict d) = d"
  by (simp add: safe_ledger_def ledger_ok_def)

lemma safe_ledger_PNone [simp]: "safe_ledger PNone = build_ledger [] [] None"
  by (simp add: safe_ledger_def)

lemma ledger_good_safe: "ledger_good v \<Longrightarrow> ledger_ok (safe_ledger v)"
  by (auto simp: ledger_good_def is_dict_iff)

lemma ledger_good_PDict [simp]: "ledger_good (PDict d) \<longleftrightarrow> ledger_ok d"
  by (simp add: ledger_good_def)

lemma previous_ledger_accepted: "ledger_good v \<Longrightarrow> previous_ledger_blockers (as_dict v) = []"
  by (auto simp: ledger_good_def previous_ledger_blockers_def ledger_ok_def is_dict_iff)

lemma book_of_good:
  "ledger_good v \<Longrightarrow> book_of v = book_of (PDict (safe_ledger v))"
  by (auto simp: book_of_def ledger_good_def is_dict_iff safe_ledger_PDict [OF ledger_ok_empty])

lemma intent_accepted:
  "ledger_intent_blockers i = Inr bs \<Longrightarrow> list_all blank bs \<longleftrightarrow> intent_usable i"
  by (auto simp: ledger_intent_blockers_def intent_usable_def split: if_splits)

lemma event_accepted:
  "ledger_event_blockers e = Inr bs \<Longrightarrow> list_all blank bs \<longleftrightarrow> event_usable e"
  by (auto simp: ledger_event_blockers_def event_usable_def split: if_splits)

lemma mismatch_accepted:
  "i \<noteq> [] \<Longrightarrow> e \<noteq> [] \<Longrightarrow> list_all blank (mismatch_blockers i e) \<longleftrightarrow>
     (\<forall>k \<in> {''paper_order_intent_id'', ''candidate_id''}. py_str (dget i k) = py_str (dget e k))"
  by (auto simp: mismatch_blockers_def)

lemma validate_position_accepted:
  assumes "validate_position_inputs i e v = Inr (bs, ws)" and "ledger_good v"
  shows "bs = [] \<longleftrightarrow> input_usable \<lparr>li_intent = i, li_event = e, li_ts_epoch = ts\<rparr>"
proof -
  obtain ib eb where b: "ledger_intent_blockers (as_dict i) = Inr ib" "ledger_event_blockers (as_dict e) = Inr eb"
    "bs = dedupe (ib @ eb @ mismatch_blockers (as_dict i) (as_dict e) @ previous_ledger_blockers (as_dict v))"
    using assms(1) by (auto simp: validate_position_inputs_def)
  note usable = intent_accepted [OF b(1)] event_accepted [OF b(2)]
  have "bs = [] \<longleftrightarrow> intent_usable (as_dict i) \<and> event_usable (as_dict e) \<and> list_all blank (mismatch_blockers (as_dict i) (as_dict e))"
    by (simp add: b(3) previous_ledger_accepted [OF assms(2)] usable)
  also have "\<dots> \<longleftrightarrow> input_usable \<lparr>li_intent = i, li_event = e, li_ts_epoch = ts\<rparr>"
    using mismatch_accepted [of "as_dict i" "as_dict e"]
    by (auto simp: input_usable_def intent_usable_def event_usable_def)
  finally show ?thesis .
qed

section \<open>The effect of a fill\<close>

lemma empty_position_get [simp]:
  "dget (empty_position i key) ''net_quantity'' = PInt 0"
  "dget (empty_position i key) ''position_key'' = PStr key"
  "dget (empty_position i key) ''average_entry_price'' = PNone"
  "dget (empty_position i key) ''side'' = PStr ''FLAT''"
  by (simp_all add: empty_position_def)

lemma empty_position_ok: "position_ok key (PDict (empty_position i key))"
  unfolding position_ok_def
  by (intro exI [of _ "empty_position i key"] exI [of _ 0] exI [of _ None])
     (simp add: side_of_def empty_position_def flags_safe_def)

lemma next_average_price_flat: "next_average_price p a d f = Inr x \<Longrightarrow> p + d = 0 \<Longrightarrow> x = None"
  by (simp add: next_average_price_def)

lemma apply_position_delta_Inr:
  assumes "apply_position_delta p d f ts = Inr (m, p')" and "dget p ''net_quantity'' = PInt n"
    and "dget p ''average_entry_price'' = opt_float a"
  obtains x where "next_average_price n a d f = Inr x" "m = n + d"
    "dget p' ''net_quantity'' = PInt (n + d)" "dget p' ''side'' = PStr (side_of (n + d))"
    "dget p' ''average_entry_price'' = opt_float x" "dget p' ''position_key'' = dget p ''position_key''"
    "dget p' ''last_fill_price'' = opt_float f" "flags_safe p'"
  using assms
  by (auto simp: apply_position_delta_def dupdate_def safe_flags_def flags_safe_def Let_def)

text \<open>The position that a fill starts from: the stored one, or an empty one.\<close>

lemma start_position:
  assumes "ledger_ok d" "dget d ''positions'' = PDict ps"
    and "py_dict (py_or (dget ps key) (PDict (empty_position i key))) = Inr p"
  obtains n a where "position_ok key (PDict p)" "dget p ''position_key'' = PStr key" "dget p ''net_quantity'' = PInt n"
    "dget p ''average_entry_price'' = opt_float a" "int_field (dget (as_dict (dget ps key)) ''net_quantity'') = n"
proof (cases "map_of ps key")
  case None
  then have "dget ps key = PNone" by (simp add: dget_def)
  with assms(3) have p: "p = empty_position i key" by simp
  show ?thesis
    by (rule that [of 0 None]) (simp_all add: p empty_position_ok \<open>dget ps key = PNone\<close>)
next
  case (Some v)
  then have "dget ps key = v" by (simp add: dget_def)
  moreover from Some assms(1,2) have ok: "position_ok key v" by (auto simp: ledger_ok_def)
  ultimately obtain q n a where q: "v = PDict q" "dget q ''position_key'' = PStr key" "dget q ''net_quantity'' = PInt n"
    "dget q ''average_entry_price'' = opt_float a"
    unfolding position_ok_def by blast
  then have "q \<noteq> []" by auto
  with q \<open>dget ps key = v\<close> assms(3) have "p = q" by simp
  show ?thesis by (rule that [of n a]) (use q ok \<open>p = q\<close> \<open>dget ps key = v\<close> in simp_all)
qed

lemma previous_fill_field:
  assumes "ledger_ok d" "previous_order_fill d oid = Inr n"
  shows "n = int_field (dget (as_dict (dget d ''order_fills'')) oid)" "0 \<le> n"
proof -
  obtain fs where fs: "dget d ''order_fills'' = PDict fs"
    "\<And>oid v. map_of fs oid = Some v \<Longrightarrow> \<exists>n > 0. v = PInt n"
    using assms(1) unfolding ledger_ok_def by blast
  have n: "int_or_zero (dget fs oid) = Inr n" using assms(2) by (simp add: previous_order_fill_def fs(1))
  have "dget fs oid = PNone \<or> (\<exists>m > 0. dget fs oid = PInt m)"
    using fs(2) [of oid] by (cases "map_of fs oid") (simp_all add: dget_def)
  with n show "n = int_field (dget (as_dict (dget d ''order_fills'')) oid)" "0 \<le> n"
    by (auto simp: fs(1))
qed

text \<open>The steps of a successful fill, one by one.\<close>

lemma apply_fill_event_steps:
  assumes "apply_fill_event i e ts d c prev ws ev = Inr r"
    and "dget d ''positions'' = PDict ps" "dget d ''order_fills'' = PDict fs"
  obtains p price ts' m p' n where
    "py_dict (py_or (dget ps (position_key i)) (PDict (empty_position i (position_key i)))) = Inr p"
    "apply_position_delta p (signed_qty (upper_text (dget i ''transaction_type'') = ''BUY'') (c - prev)) price ts' = Inr (m, p')"
    "int_or_zero (dget p ''net_quantity'') = Inr n"
    "r = \<lparr>po_updated = True,
      po_status = position_change n m (signed_qty (upper_text (dget i ''transaction_type'') = ''BUY'') (c - prev)),
      po_ledger = build_ledger (dset (position_key i) (PDict p') ps)
        (dset (py_str (dget e ''paper_order_id'')) (PInt c) fs) (Some e),
      po_position = Some p', po_delta_quantity = c - prev,
      po_signed_delta_quantity = signed_qty (upper_text (dget i ''transaction_type'') = ''BUY'') (c - prev),
      po_blockers = [], po_warnings = ws, po_evidence = dset ''previous_order_filled_quantity'' (PInt prev) ev\<rparr>"
proof -
  from assms(1) obtain p price ts' mp n where
    "py_dict (py_or (dget ps (position_key i)) (PDict (empty_position i (position_key i)))) = Inr p"
    "apply_position_delta p (signed_qty (upper_text (dget i ''transaction_type'') = ''BUY'') (c - prev)) price ts' = Inr mp"
    "int_or_zero (dget p ''net_quantity'') = Inr n"
    "r = \<lparr>po_updated = True,
      po_status = position_change n (fst mp) (signed_qty (upper_text (dget i ''transaction_type'') = ''BUY'') (c - prev)),
      po_ledger = build_ledger (dset (position_key i) (PDict (snd mp)) ps)
        (dset (py_str (dget e ''paper_order_id'')) (PInt c) fs) (Some e),
      po_position = Some (snd mp), po_delta_quantity = c - prev,
      po_signed_delta_quantity = signed_qty (upper_text (dget i ''transaction_type'') = ''BUY'') (c - prev),
      po_blockers = [], po_warnings = ws, po_evidence = dset ''previous_order_filled_quantity'' (PInt prev) ev\<rparr>"
    unfolding apply_fill_event_def Let_def assms(2,3) dict_or_empty_PDict bind_result_simps signed_qty_def [symmetric]
      bind_result_eq_Inr case_prod_beta
    by (elim exE conjE) (rule that, assumption+, rule sym, rule Inr_inject)
  then show ?thesis using that [of p price ts' "fst mp" "snd mp" n] by simp
qed

lemma position_okI:
  "dget p ''position_key'' = PStr key \<Longrightarrow> dget p ''net_quantity'' = PInt n \<Longrightarrow> dget p ''side'' = PStr (side_of n) \<Longrightarrow>
   dget p ''average_entry_price'' = opt_float a \<Longrightarrow> (n = 0 \<Longrightarrow> a = None) \<Longrightarrow> flags_safe p \<Longrightarrow> position_ok key (PDict p)"
  unfolding position_ok_def by (rule exI [of _ p], rule exI [of _ n], rule exI [of _ a]) simp

lemma ledger_ok_put:
  assumes "ledger_ok d" "dget d ''positions'' = PDict ps" "dget d ''order_fills'' = PDict fs"
    and "position_ok key v" "0 < c"
  shows "ledger_ok (build_ledger (dset key v ps) (dset oid (PInt c) fs) e)"
proof -
  have ps: "distinct (map fst ps)" "distinct (map fst fs)"
    "\<forall>key v. map_of ps key = Some v \<longrightarrow> position_ok key v"
    "\<forall>oid v. map_of fs oid = Some v \<longrightarrow> (\<exists>n > 0. v = PInt n)"
    using assms(1-3) by (simp_all add: ledger_ok_def)
  have a: "\<forall>k w. map_of (dset key v ps) k = Some w \<longrightarrow> position_ok k w"
    using ps(3) assms(4) by (simp add: map_of_dset)
  have b: "\<forall>k w. map_of (dset oid (PInt c) fs) k = Some w \<longrightarrow> (\<exists>n > 0. w = PInt n)"
    using ps(4) assms(5) by (simp add: map_of_dset)
  show ?thesis unfolding ledger_ok_def using a b ps(1,2) by simp
qed

lemma book_of_build:
  "book_of (PDict (build_ledger ps fs e)) =
     \<lparr>bk_fills = (\<lambda>oid. int_field (dget fs oid)),
      bk_nets = (\<lambda>key. int_field (dget (as_dict (dget ps key)) ''net_quantity''))\<rparr>"
  by (simp add: book_of_def safe_ledger_def)

lemma book_of_ledger:
  "ledger_ok d \<Longrightarrow> dget d ''positions'' = PDict ps \<Longrightarrow> dget d ''order_fills'' = PDict fs \<Longrightarrow>
   book_of (PDict d) =
     \<lparr>bk_fills = (\<lambda>oid. int_field (dget fs oid)),
      bk_nets = (\<lambda>key. int_field (dget (as_dict (dget ps key)) ''net_quantity''))\<rparr>"
  by (simp add: book_of_def)

lemma book_of_put:
  "dget p ''net_quantity'' = PInt m \<Longrightarrow>
   book_of (PDict (build_ledger (dset key (PDict p) ps) (dset oid (PInt c) fs) e)) =
     \<lparr>bk_fills = (\<lambda>oid. int_field (dget fs oid))(oid := c),
      bk_nets = (\<lambda>key. int_field (dget (as_dict (dget ps key)) ''net_quantity''))(key := m)\<rparr>"
  by (simp add: book_of_build fun_eq_iff)

lemma apply_fill_event_Inr:
  assumes r: "apply_fill_event i e ts d c prev ws ev = Inr r" and d: "ledger_ok d"
    and prev: "previous_order_fill d (py_str (dget e ''paper_order_id'')) = Inr prev" and less: "prev < c"
  shows "ledger_ok (po_ledger r) \<and>
    book_of (PDict (po_ledger r)) =
      apply_fill (Some \<lparr>of_order = py_str (dget e ''paper_order_id''), of_position = position_key i,
        of_buy = (upper_text (dget i ''transaction_type'') = ''BUY''), of_quantity = c\<rparr>) (book_of (PDict d))"
    "po_updated r" "po_delta_quantity r = c - prev"
    "po_signed_delta_quantity r = signed_qty (upper_text (dget i ''transaction_type'') = ''BUY'') (c - prev)"
    "po_status r = position_change (bk_nets (book_of (PDict d)) (position_key i))
       (bk_nets (book_of (PDict d)) (position_key i) + po_signed_delta_quantity r) (po_signed_delta_quantity r)"
proof -
  let ?oid = "py_str (dget e ''paper_order_id'')" and ?key = "position_key i"
  let ?buy = "upper_text (dget i ''transaction_type'') = ''BUY''"
  obtain ps fs where ps: "dget d ''positions'' = PDict ps" "dget d ''order_fills'' = PDict fs"
    "distinct (map fst ps)" "distinct (map fst fs)"
    "\<And>key v. map_of ps key = Some v \<Longrightarrow> position_ok key v"
    "\<And>oid v. map_of fs oid = Some v \<Longrightarrow> \<exists>n > 0. v = PInt n"
    using d unfolding ledger_ok_def by blast
  obtain p price ts' m p' n where p: "py_dict (py_or (dget ps ?key) (PDict (empty_position i ?key))) = Inr p"
    "apply_position_delta p (signed_qty ?buy (c - prev)) price ts' = Inr (m, p')" "int_or_zero (dget p ''net_quantity'') = Inr n"
    and r_def: "r = \<lparr>po_updated = True, po_status = position_change n m (signed_qty ?buy (c - prev)),
      po_ledger = build_ledger (dset ?key (PDict p') ps) (dset ?oid (PInt c) fs) (Some e), po_position = Some p',
      po_delta_quantity = c - prev, po_signed_delta_quantity = signed_qty ?buy (c - prev), po_blockers = [], po_warnings = ws,
      po_evidence = dset ''previous_order_filled_quantity'' (PInt prev) ev\<rparr>"
    by (rule apply_fill_event_steps [OF r ps(1,2)]) (rule that)
  obtain n' a where start: "dget p ''position_key'' = PStr ?key" "dget p ''net_quantity'' = PInt n'"
    "dget p ''average_entry_price'' = opt_float a" "int_field (dget (as_dict (dget ps ?key)) ''net_quantity'') = n'"
    by (rule start_position [OF d ps(1) p(1)]) (rule that)
  obtain x where x: "next_average_price n' a (signed_qty ?buy (c - prev)) price = Inr x" "m = n' + signed_qty ?buy (c - prev)"
    and p': "dget p' ''net_quantity'' = PInt (n' + signed_qty ?buy (c - prev))"
    "dget p' ''side'' = PStr (side_of (n' + signed_qty ?buy (c - prev)))" "dget p' ''average_entry_price'' = opt_float x"
    "dget p' ''position_key'' = dget p ''position_key''" "flags_safe p'"
    by (rule apply_position_delta_Inr [OF p(2) start(2,3)]) (rule that)
  have n: "n = n'" using p(3) start(2) by simp
  have prev_eq: "prev = int_field (dget fs ?oid)" "0 \<le> prev"
    using previous_fill_field [OF d prev] ps(2) by simp_all
  have pos: "position_ok ?key (PDict p')"
    using next_average_price_flat [OF x(1)]
    by (intro position_okI [OF _ p'(1-3) _ p'(5)]) (simp_all add: p'(4) start(1))
  have ok: "ledger_ok (po_ledger r)"
    using less prev_eq(2) unfolding r_def position_result.select_convs
    by (intro ledger_ok_put [OF d ps(1,2) pos]) simp
  have "book_of (PDict (po_ledger r)) =
      apply_fill (Some \<lparr>of_order = ?oid, of_position = ?key, of_buy = ?buy, of_quantity = c\<rparr>) (book_of (PDict d))"
    unfolding r_def position_result.select_convs book_of_put [OF p'(1)] book_of_ledger [OF d ps(1,2)]
    using less by (simp add: apply_fill_def applicable_def prev_eq(1) [symmetric] start(4))
  with ok show "ledger_ok (po_ledger r) \<and> book_of (PDict (po_ledger r)) =
      apply_fill (Some \<lparr>of_order = ?oid, of_position = ?key, of_buy = ?buy, of_quantity = c\<rparr>) (book_of (PDict d))"
    by blast
  show "po_updated r" "po_delta_quantity r = c - prev" "po_signed_delta_quantity r = signed_qty ?buy (c - prev)"
    by (simp_all add: r_def)
  show "po_status r = position_change (bk_nets (book_of (PDict d)) ?key)
       (bk_nets (book_of (PDict d)) ?key + po_signed_delta_quantity r) (po_signed_delta_quantity r)"
    by (simp add: r_def book_of_ledger [OF d ps(1,2)] start(4) n x(2))
qed

section \<open>Refinement of the book\<close>

lemma unchanged_ledger_simps [simp]:
  "po_updated (unchanged_ledger st d bs ws ev) = False" "po_ledger (unchanged_ledger st d bs ws ev) = d"
  "po_status (unchanged_ledger st d bs ws ev) = st" "po_delta_quantity (unchanged_ledger st d bs ws ev) = 0"
  "po_signed_delta_quantity (unchanged_ledger st d bs ws ev) = 0" "po_blockers (unchanged_ledger st d bs ws ev) = bs"
  by (simp_all add: unchanged_ledger_def)

lemma position_status_not_blocked: "position_change p n d \<noteq> BLOCKED"
  by (simp add: position_change_def)

lemma usable_payloads:
  assumes "input_usable q"
  shows "dict_or_empty (li_intent q) = Inr (as_dict (li_intent q))" "dict_or_empty (li_event q) = Inr (as_dict (li_event q))"
proof -
  have "as_dict (li_intent q) \<noteq> []" "as_dict (li_event q) \<noteq> []"
    using assms by (simp_all add: input_usable_def intent_usable_def event_usable_def)
  then show "dict_or_empty (li_intent q) = Inr (as_dict (li_intent q))" "dict_or_empty (li_event q) = Inr (as_dict (li_event q))"
    by (auto simp: as_dict_nonempty)
qed

text \<open>What a successful call does, in terms of the book.\<close>

definition ledger_outcome :: "ledger_input \<Rightarrow> pyval \<Rightarrow> position_result \<Rightarrow> bool" where
  "ledger_outcome q v r \<longleftrightarrow>
     ledger_ok (po_ledger r) \<and> book_of (PDict (po_ledger r)) = apply_fill (fill_of q) (book_of v) \<and>
     (case fill_of q of
        Some f \<Rightarrow>
          if applicable f (book_of v)
          then po_updated r \<and> po_delta_quantity r = of_quantity f - bk_fills (book_of v) (of_order f) \<and>
            po_signed_delta_quantity r = signed_qty (of_buy f) (po_delta_quantity r) \<and>
            po_status r = position_change (bk_nets (book_of v) (of_position f))
              (bk_nets (book_of v) (of_position f) + po_signed_delta_quantity r) (po_signed_delta_quantity r)
          else \<not> po_updated r \<and> po_ledger r = safe_ledger v \<and>
            po_status r = (if of_quantity f < bk_fills (book_of v) (of_order f) then BLOCKED else NO_POSITION_CHANGE)
      | None \<Rightarrow>
          \<not> po_updated r \<and> po_ledger r = safe_ledger v \<and>
          po_status r = (if input_usable q then NO_POSITION_CHANGE else BLOCKED))"

lemma outcome_unchanged:
  assumes "ledger_good v" "fill_of q = None" "st = (if input_usable q then NO_POSITION_CHANGE else BLOCKED)"
  shows "ledger_outcome q v (unchanged_ledger st (safe_ledger v) bs ws ev)"
  using assms ledger_good_safe [OF assms(1)] book_of_good [OF assms(1)]
  by (simp add: ledger_outcome_def apply_fill_def)

lemma outcome_not_applicable:
  assumes "ledger_good v" "fill_of q = Some f" "\<not> applicable f (book_of v)"
    "st = (if of_quantity f < bk_fills (book_of v) (of_order f) then BLOCKED else NO_POSITION_CHANGE)"
  shows "ledger_outcome q v (unchanged_ledger st (safe_ledger v) bs ws ev)"
  using assms ledger_good_safe [OF assms(1)] book_of_good [OF assms(1)]
  by (simp add: ledger_outcome_def apply_fill_def)

lemma build_position_outcome:
  assumes good: "ledger_good v" and built: "build_position_ledger q v = Inr r"
  shows "ledger_outcome q v r"
proof -
  let ?i = "as_dict (li_intent q)" and ?e = "as_dict (li_event q)" and ?d = "safe_ledger v"
  let ?oid = "py_str (dget ?e ''paper_order_id'')"
  obtain bs ws where val: "validate_position_inputs (li_intent q) (li_event q) v = Inr (bs, ws)"
    using built by (auto simp: build_position_ledger_def)
  have usable: "bs = [] \<longleftrightarrow> input_usable q"
    using validate_position_accepted [OF val good, of "li_ts_epoch q"] by (cases q) simp
  have d: "ledger_ok ?d" using good by (rule ledger_good_safe)
  show ?thesis
  proof (cases "input_usable q")
    case False
    with built usable obtain ev where "r = unchanged_ledger BLOCKED ?d bs ws ev"
      by (auto simp: build_position_ledger_def val Let_def)
    with False good show ?thesis by (simp add: outcome_unchanged fill_of_def Let_def)
  next
    case True
    note payloads = usable_payloads [OF True]
    show ?thesis
    proof (cases "upper_text (dget ?e ''status'') \<in> set position_fill_statuses")
      case False
      with built usable True payloads obtain ws' ev where "r = unchanged_ledger NO_POSITION_CHANGE ?d [] ws' ev"
        by (auto simp: build_position_ledger_def val Let_def)
      with False True good show ?thesis by (simp add: outcome_unchanged fill_of_def Let_def)
    next
      case fill: True
      let ?f = "\<lambda>c. \<lparr>of_order = ?oid, of_position = position_key ?i,
        of_buy = (upper_text (dget ?i ''transaction_type'') = ''BUY''), of_quantity = c\<rparr>"
      from built usable True payloads fill obtain c prev where c: "int_or_zero (dget ?e ''filled_quantity'') = Inr c"
        and prev: "previous_order_fill ?d ?oid = Inr prev"
        by (auto simp: build_position_ledger_def val Let_def)
      have f: "fill_of q = Some (?f c)" using True fill c by (simp add: fill_of_def Let_def)
      have "book_of v = book_of (PDict ?d)" using good by (rule book_of_good)
      then have pv: "bk_fills (book_of v) ?oid = prev"
        using previous_fill_field(1) [OF d prev] d by (simp add: book_of_def Let_def)
      note run = built [unfolded build_position_ledger_def val bind_result_simps prod.case Let_def payloads c prev]
      consider "c < prev" | "c = prev" | "prev < c" by linarith
      then show ?thesis
      proof cases
        case 1
        with run usable True fill obtain b w ev where "r = unchanged_ledger BLOCKED ?d b w ev" by auto
        with 1 f pv good show ?thesis by (simp add: outcome_not_applicable applicable_def)
      next
        case 2
        with run usable True fill obtain b w ev where "r = unchanged_ledger NO_POSITION_CHANGE ?d b w ev" by auto
        with 2 f pv good show ?thesis by (simp add: outcome_not_applicable applicable_def)
      next
        case 3
        with run usable True fill obtain ev where
          "apply_fill_event ?i ?e (li_ts_epoch q) ?d c prev ws ev = Inr r" by auto
        note eff = apply_fill_event_Inr [OF this d prev 3]
        show ?thesis
          using eff 3 unfolding ledger_outcome_def f option.case order_fill.select_convs \<open>book_of v = book_of (PDict ?d)\<close> [symmetric]
          by (simp add: applicable_def pv)
      qed
    qed
  qed
qed

lemma outcome_good: "ledger_outcome q v r \<Longrightarrow> ledger_good (PDict (po_ledger r))"
  by (simp add: ledger_outcome_def)

lemma outcome_view: "ledger_outcome q v r \<Longrightarrow> book_of (PDict (po_ledger r)) = apply_fill (fill_of q) (book_of v)"
  by (simp add: ledger_outcome_def)

lemma ledger_step_Inr: "ledger_step q v = Inr v' \<Longrightarrow> \<exists>r. build_position_ledger q v = Inr r \<and> v' = PDict (po_ledger r)"
  by (auto simp: ledger_step_def)

interpretation ledger_run: refined_component ledger_step ledger_good book_of "\<lambda>q. apply_fill (fill_of q)"
proof unfold_locales
  fix q v v' assume good: "ledger_good v" and "ledger_step q v = Inr v'"
  then obtain r where "build_position_ledger q v = Inr r" "v' = PDict (po_ledger r)" using ledger_step_Inr by blast
  with build_position_outcome [OF good] have out: "ledger_outcome q v r" and v': "v' = PDict (po_ledger r)" by blast+
  show "ledger_good v'" "book_of v' = apply_fill (fill_of q) (book_of v)"
    unfolding v' using out by (rule outcome_good, rule outcome_view)
qed

lemma ledger_good_start: "ledger_good PNone" by (simp add: ledger_good_def)

lemma book_of_start: "book_of PNone = \<lparr>bk_fills = (\<lambda>_. 0), bk_nets = (\<lambda>_. 0)\<rparr>"
  by (simp add: book_of_def)

section \<open>Conservation\<close>

text \<open>
  Every order trades one position on one side. The book conserves quantities when the net
  of a position is the signed sum of the fills of its orders.
\<close>

type_synonym order_terms = "string \<Rightarrow> string \<times> bool"

definition follows_terms :: "order_terms \<Rightarrow> order_fill option \<Rightarrow> bool" where
  "follows_terms bind x \<longleftrightarrow> (case x of Some f \<Rightarrow> bind (of_order f) = (of_position f, of_buy f) | None \<Rightarrow> True)"

definition orders_of :: "order_terms \<Rightarrow> (string \<Rightarrow> int) \<Rightarrow> string \<Rightarrow> string set" where
  "orders_of bind fills key = {oid. fills oid \<noteq> 0 \<and> fst (bind oid) = key}"

definition net_of_orders :: "order_terms \<Rightarrow> (string \<Rightarrow> int) \<Rightarrow> string \<Rightarrow> int" where
  "net_of_orders bind fills key = (\<Sum>oid \<in> orders_of bind fills key. signed_qty (snd (bind oid)) (fills oid))"

definition conserves :: "order_terms \<Rightarrow> book \<Rightarrow> bool" where
  "conserves bind b \<longleftrightarrow>
     finite {oid. bk_fills b oid \<noteq> 0} \<and> (\<forall>oid. 0 \<le> bk_fills b oid) \<and>
     (\<forall>key. bk_nets b key = net_of_orders bind (bk_fills b) key)"

lemma signed_qty_minus: "signed_qty buy (m - n) = signed_qty buy m - signed_qty buy n"
  by (simp add: signed_qty_def)

lemma signed_qty_zero [simp]: "signed_qty buy 0 = 0"
  by (simp add: signed_qty_def)

lemma net_of_orders_all:
  assumes "finite A" "{oid. fills oid \<noteq> 0} \<subseteq> A"
  shows "net_of_orders bind fills key = (\<Sum>oid \<in> {oid \<in> A. fst (bind oid) = key}. signed_qty (snd (bind oid)) (fills oid))"
  unfolding net_of_orders_def orders_of_def using assms
  by (intro sum.mono_neutral_left) auto

lemma net_of_orders_update:
  assumes "finite {oid. fills oid \<noteq> 0}"
  shows "net_of_orders bind (fills(o1 := c)) key =
    net_of_orders bind fills key + (if fst (bind o1) = key then signed_qty (snd (bind o1)) (c - fills o1) else 0)"
proof -
  let ?A = "insert o1 {oid. fills oid \<noteq> 0}" and ?g = "fills(o1 := c)"
  let ?B = "{oid \<in> ?A. fst (bind oid) = key} - {o1}"
  have fin: "finite ?A" "finite ?B" using assms by auto
  have split: "(\<Sum>oid \<in> {oid \<in> ?A. fst (bind oid) = key}. h oid) =
      (if fst (bind o1) = key then h o1 else 0) + (\<Sum>oid \<in> ?B. h oid)" for h :: "string \<Rightarrow> int"
  proof (cases "fst (bind o1) = key")
    case True
    then have "o1 \<in> {oid \<in> ?A. fst (bind oid) = key}" by simp
    moreover have "finite {oid \<in> ?A. fst (bind oid) = key}" using fin(1) by simp
    ultimately show ?thesis using sum.remove [of "{oid \<in> ?A. fst (bind oid) = key}" o1 h] True by (simp only: if_True simp_thms)
  next
    case False
    then have "{oid \<in> ?A. fst (bind oid) = key} = ?B" by auto
    with False show ?thesis by (simp only: if_False add_0)
  qed
  have same: "(\<Sum>oid \<in> ?B. signed_qty (snd (bind oid)) (?g oid)) = (\<Sum>oid \<in> ?B. signed_qty (snd (bind oid)) (fills oid))"
    by (rule sum.cong) auto
  have "net_of_orders bind ?g key = (if fst (bind o1) = key then signed_qty (snd (bind o1)) (?g o1) else 0) +
      (\<Sum>oid \<in> ?B. signed_qty (snd (bind oid)) (fills oid))"
    unfolding same [symmetric]
    by (rule trans [OF net_of_orders_all [OF fin(1)] split [of "\<lambda>oid. signed_qty (snd (bind oid)) (?g oid)"]]) auto
  moreover have "net_of_orders bind fills key = (if fst (bind o1) = key then signed_qty (snd (bind o1)) (fills o1) else 0) +
      (\<Sum>oid \<in> ?B. signed_qty (snd (bind oid)) (fills oid))"
    by (rule trans [OF net_of_orders_all [OF fin(1)] split [of "\<lambda>oid. signed_qty (snd (bind oid)) (fills oid)"]]) auto
  ultimately show ?thesis by (simp add: signed_qty_minus)
qed

lemma conserves_start: "conserves bind \<lparr>bk_fills = (\<lambda>_. 0), bk_nets = (\<lambda>_. 0)\<rparr>"
  by (simp add: conserves_def net_of_orders_def orders_of_def)

lemma conserves_apply:
  assumes "conserves bind b" "follows_terms bind x"
  shows "conserves bind (apply_fill x b)"
proof (cases "\<exists>f. x = Some f \<and> applicable f b")
  case True
  then obtain f where f: "x = Some f" "applicable f b" by blast
  have fin: "finite {oid. bk_fills b oid \<noteq> 0}" and pos: "\<forall>oid. 0 \<le> bk_fills b oid"
    and nets: "bk_nets b key = net_of_orders bind (bk_fills b) key" for key
    using assms(1) by (simp_all add: conserves_def)
  have bind: "bind (of_order f) = (of_position f, of_buy f)" using assms(2) f by (simp add: follows_terms_def)
  have "finite {oid. ((bk_fills b)(of_order f := of_quantity f)) oid \<noteq> 0}"
    by (rule finite_subset [OF _ finite.insertI [OF fin, of "of_order f"]]) auto
  moreover have "0 \<le> of_quantity f" using f(2) pos unfolding applicable_def by (meson order_trans less_imp_le)
  ultimately show ?thesis
    using f pos by (simp add: conserves_def apply_fill_def net_of_orders_update [OF fin] bind nets del: fun_upd_apply)
      (simp add: nets)
qed (use assms in \<open>auto simp: apply_fill_def split: option.splits\<close>)

lemma conserves_run:
  assumes "fold_result ledger_step qs PNone = Inr v" "\<forall>q \<in> set qs. follows_terms bind (fill_of q)"
  shows "ledger_good v" "conserves bind (book_of v)"
proof -
  show "ledger_good v" using ledger_run.run_refines [OF ledger_good_start assms(1)] by blast
  show "conserves bind (book_of v)"
    by (rule ledger_run.run_keeps [of qs "conserves bind", OF _ _ ledger_good_start assms(1)])
      (use assms(2) in \<open>auto simp: book_of_start conserves_start intro: conserves_apply\<close>)
qed

lemma previous_fill_total: "ledger_ok d \<Longrightarrow> \<exists>n. previous_order_fill d oid = Inr n"
proof -
  assume "ledger_ok d"
  then obtain fs where fs: "dget d ''order_fills'' = PDict fs" "\<And>v. map_of fs oid = Some v \<Longrightarrow> \<exists>n > 0. v = PInt n"
    unfolding ledger_ok_def by blast
  have "dget fs oid = PNone \<or> (\<exists>m > 0. dget fs oid = PInt m)"
    using fs(2) by (cases "map_of fs oid") (simp_all add: dget_def)
  then show ?thesis by (auto simp: previous_order_fill_def fs(1))
qed

text \<open>An input that was accepted once never raises again while it does not apply.\<close>

lemma build_position_stable:
  assumes built: "build_position_ledger q v = Inr r" and good: "ledger_good v'"
    and stale: "\<And>f. fill_of q = Some f \<Longrightarrow> \<not> applicable f (book_of v')"
  shows "\<exists>r'. build_position_ledger q v' = Inr r'"
proof -
  let ?e = "as_dict (li_event q)" and ?d = "safe_ledger v'"
  obtain bs ws where val: "validate_position_inputs (li_intent q) (li_event q) v' = Inr (bs, ws)"
    using built by (auto simp: build_position_ledger_def validate_position_inputs_def)
  have usable: "bs = [] \<longleftrightarrow> input_usable q"
    using validate_position_accepted [OF val good, of "li_ts_epoch q"] by (cases q) simp
  show ?thesis
  proof (cases "input_usable q \<and> upper_text (dget ?e ''status'') \<in> set position_fill_statuses")
    case False
    with usable usable_payloads [of q] show ?thesis
      by (cases "input_usable q") (auto simp: build_position_ledger_def val Let_def)
  next
    case True
    note payloads = usable_payloads [of q]
    have d: "ledger_ok ?d" using good by (rule ledger_good_safe)
    obtain c where c: "int_or_zero (dget ?e ''filled_quantity'') = Inr c"
      using True by (auto simp: input_usable_def event_usable_def split: sum.splits)
    obtain prev where prev: "previous_order_fill ?d (py_str (dget ?e ''paper_order_id'')) = Inr prev"
      using previous_fill_total [OF d] by blast
    have "c \<le> prev"
      using stale True previous_fill_field(1) [OF d prev]
      by (simp add: fill_of_def c applicable_def book_of_def Let_def)
    with True usable payloads show ?thesis
      by (auto simp: build_position_ledger_def val Let_def c prev)
  qed
qed

lemma outcome_stale:
  assumes "ledger_outcome q v r" "fill_of q = Some f" shows "\<not> applicable f (book_of (PDict (po_ledger r)))"
  using assms by (auto simp: ledger_outcome_def apply_fill_def applicable_def)

text \<open>The first fill of a session does not raise: the position opens at the fill price.\<close>

lemma first_fill_total:
  assumes usable: "input_usable q" and fill: "upper_text (dget (as_dict (li_event q)) ''status'') \<in> set position_fill_statuses"
    and price: "float_or_none (dget (as_dict (li_event q)) ''average_fill_price'') = Inr p" and ts: "li_ts_epoch q \<noteq> PNone"
  shows "\<exists>r. build_position_ledger q PNone = Inr r"
proof -
  let ?i = "as_dict (li_intent q)" and ?e = "as_dict (li_event q)"
  obtain n c where n: "int_or_zero (dget ?i ''quantity'') = Inr n" and c: "int_or_zero (dget ?e ''filled_quantity'') = Inr c" "0 \<le> c"
    using usable by (auto simp: input_usable_def intent_usable_def event_usable_def split: sum.splits)
  have "\<exists>ib. ledger_intent_blockers ?i = Inr ib" "\<exists>eb. ledger_event_blockers ?e = Inr eb"
    by (simp_all add: ledger_intent_blockers_def ledger_event_blockers_def n c)
  then obtain bs ws where val: "validate_position_inputs (li_intent q) (li_event q) PNone = Inr (bs, ws)"
    by (auto simp: validate_position_inputs_def)
  have "bs = []"
    using validate_position_accepted [OF val ledger_good_start, of "li_ts_epoch q"] usable by (cases q) simp
  have prev: "previous_order_fill (build_ledger [] [] None) oid = Inr 0" for oid
    by (simp add: previous_order_fill_def)
  have avg: "\<exists>x. next_average_price 0 None d p = Inr x" for d
    by (cases p) (auto simp: next_average_price_def)
  have "\<exists>r. apply_fill_event ?i ?e (li_ts_epoch q) (build_ledger [] [] None) c 0 ws ev = Inr r" for ev
    using avg by (simp add: apply_fill_event_def apply_position_delta_def Let_def price ts)
  then show ?thesis
    using fill c usable_payloads [OF usable] \<open>bs = []\<close>
    by (simp add: build_position_ledger_def val Let_def prev)
qed

definition demo_paper_intent :: pydict where
  "demo_paper_intent =
     [(''intent_type'', PStr ''PAPER_ORDER_INTENT''), (''paper_order_intent_id'', PStr ''i1''),
      (''candidate_id'', PStr ''c1''), (''symbol'', PStr ''NIFTY''), (''quantity'', PInt 50),
      (''transaction_type'', PStr ''BUY'')] @ safe_flags"

definition demo_fill_event :: "int \<Rightarrow> pydict" where
  "demo_fill_event n =
     [(''event_type'', PStr ''PAPER_ORDER_LIFECYCLE_EVENT''), (''paper_order_id'', PStr ''o1''),
      (''paper_order_intent_id'', PStr ''i1''), (''candidate_id'', PStr ''c1''), (''status'', PStr ''PARTIALLY_FILLED''),
      (''filled_quantity'', PInt n), (''average_fill_price'', PFloat (Fin 100)), (''ts_epoch'', PFloat (Fin 1))] @ safe_flags"

definition demo_fill :: "int \<Rightarrow> ledger_input" where
  "demo_fill n = \<lparr>li_intent = PDict demo_paper_intent, li_event = PDict (demo_fill_event n), li_ts_epoch = PNone\<rparr>"

lemma upper_literals [simp]:
  "upper_text (PStr ''BUY'') = ''BUY''" "upper_text (PStr ''SELL'') = ''SELL''"
  "upper_text (PStr ''PARTIALLY_FILLED'') = ''PARTIALLY_FILLED''" "upper_text (PStr ''FILLED'') = ''FILLED''"
  by code_simp+

lemma demo_payloads [simp]:
  "dget demo_paper_intent ''quantity'' = PInt 50" "dget demo_paper_intent ''intent_type'' = PStr ''PAPER_ORDER_INTENT''"
  "dget demo_paper_intent ''transaction_type'' = PStr ''BUY''" "flags_safe demo_paper_intent"
  "dget demo_paper_intent ''paper_order_intent_id'' = PStr ''i1''" "dget demo_paper_intent ''candidate_id'' = PStr ''c1''"
  "position_key demo_paper_intent = ''NIFTY''" "demo_paper_intent \<noteq> []"
  "dget (demo_fill_event n) ''event_type'' = PStr ''PAPER_ORDER_LIFECYCLE_EVENT''" "flags_safe (demo_fill_event n)"
  "dget (demo_fill_event n) ''paper_order_id'' = PStr ''o1''" "dget (demo_fill_event n) ''filled_quantity'' = PInt n"
  "dget (demo_fill_event n) ''paper_order_intent_id'' = PStr ''i1''" "dget (demo_fill_event n) ''candidate_id'' = PStr ''c1''"
  "dget (demo_fill_event n) ''status'' = PStr ''PARTIALLY_FILLED''" "demo_fill_event n \<noteq> []"
  "dget (demo_fill_event n) ''average_fill_price'' = PFloat (Fin 100)" "dget (demo_fill_event n) ''ts_epoch'' = PFloat (Fin 1)"
  by (simp_all add: demo_paper_intent_def demo_fill_event_def safe_flags_def flags_safe_def position_key_def)

lemma demo_fill_of: "0 \<le> n \<Longrightarrow> fill_of (demo_fill n) =
    Some \<lparr>of_order = ''o1'', of_position = ''NIFTY'', of_buy = True, of_quantity = n\<rparr>"
  by (simp add: fill_of_def demo_fill_def input_usable_def intent_usable_def event_usable_def position_fill_statuses_def Let_def)

lemma demo_fill_built: "\<exists>r. build_position_ledger (demo_fill 20) PNone = Inr r"
  by (simp add: build_position_ledger_def demo_fill_def validate_position_inputs_def ledger_intent_blockers_def
      ledger_event_blockers_def mismatch_blockers_def previous_ledger_blockers_def Let_def position_fill_statuses_def
      previous_order_fill_def apply_fill_event_def apply_position_delta_def next_average_price_def)

interpretation position_report: paper_report position_result_to_dict position_result_keys
  by unfold_locales (simp_all add: position_result_to_dict_def position_result_keys_def has_key_def flags_safe_def)

interpretation ledger_report: paper_report "\<lambda>(ps, fs, e). build_ledger ps fs e" ledger_keys
  by unfold_locales (simp_all add: case_prod_beta build_ledger_def ledger_keys_def has_key_def flags_safe_def)

text \<open>A ledger that the module returns passes the validation of the next call.\<close>

lemma returned_ledger_accepted: "ledger_ok d \<Longrightarrow> previous_ledger_blockers d = []"
  using previous_ledger_accepted [of "PDict d"] by simp

section \<open>Properties\<close>

text \<open>
  C12. The ledger refines the book of order fills and net positions: every call on a ledger
  that the module built returns such a ledger again, whose book is the abstract fill applied
  to the book before. A fill above the recorded cumulative fill of its order is applied once,
  with the delta and the signed delta to the net position and the status that classifies the
  change; a repeated fill changes nothing, a smaller one is blocked, an input that fails the
  validation is blocked, an event that is no fill is ignored.
\<close>

theorem ledger_refines_book:
  assumes "ledger_good v" "build_position_ledger q v = Inr r"
  shows "ledger_outcome q v r"
  using assms by (rule build_position_outcome)

theorem ledger_refines_book_witness:
  "\<exists>r. build_position_ledger (demo_fill 20) PNone = Inr r \<and> po_delta_quantity r = 20 \<and>
     po_status r = POSITION_OPENED \<and> bk_nets (book_of (PDict (po_ledger r))) ''NIFTY'' = 20"
proof -
  obtain r where r: "build_position_ledger (demo_fill 20) PNone = Inr r" using demo_fill_built by blast
  from ledger_refines_book [OF ledger_good_start this]
  show ?thesis
    by (intro exI [of _ r])
      (simp add: r ledger_outcome_def demo_fill_of book_of_start applicable_def apply_fill_def position_change_def signed_qty_def)
qed

text \<open>
  C13. Quantities are conserved: in a session that starts without a ledger, in which every
  order belongs to one position and one side, the net quantity of each position is at all
  times the signed sum of the cumulative fills recorded for its orders, whatever the order,
  the repetitions and the regressions of the events.
\<close>

theorem ledger_conserves_quantity:
  assumes "fold_result ledger_step qs PNone = Inr v" "\<forall>q \<in> set qs. follows_terms bind (fill_of q)"
  shows "bk_nets (book_of v) key = net_of_orders bind (bk_fills (book_of v)) key"
  using conserves_run(2) [OF assms] by (simp add: conserves_def)

theorem ledger_conserves_quantity_witness:
  "\<exists>v. fold_result ledger_step [demo_fill 20, demo_fill 20] PNone = Inr v \<and>
     bk_nets (book_of v) ''NIFTY'' = net_of_orders (\<lambda>_. (''NIFTY'', True)) (bk_fills (book_of v)) ''NIFTY''"
proof -
  obtain r where r: "build_position_ledger (demo_fill 20) PNone = Inr r" using demo_fill_built by blast
  note out = build_position_outcome [OF ledger_good_start r]
  obtain r' where "build_position_ledger (demo_fill 20) (PDict (po_ledger r)) = Inr r'"
    using build_position_stable [OF r outcome_good [OF out]] outcome_stale [OF out] by blast
  with r have "fold_result ledger_step [demo_fill 20, demo_fill 20] PNone = Inr (PDict (po_ledger r'))"
    by (simp add: ledger_step_def)
  from ledger_conserves_quantity [OF this, of "\<lambda>_. (''NIFTY'', True)" "''NIFTY''"] this
  show ?thesis by (auto simp: demo_fill_of follows_terms_def)
qed

text \<open>
  Replay is idempotent: applying the same input a second time, to the ledger that the
  first call returned, raises nothing, updates nothing and returns the same ledger.
\<close>

theorem ledger_replay_idempotent:
  assumes "ledger_good v" "build_position_ledger q v = Inr r"
  shows "\<exists>r'. build_position_ledger q (PDict (po_ledger r)) = Inr r' \<and> \<not> po_updated r' \<and> po_ledger r' = po_ledger r"
proof -
  note out = build_position_outcome [OF assms]
  obtain r' where r': "build_position_ledger q (PDict (po_ledger r)) = Inr r'"
    using build_position_stable [OF assms(2) outcome_good [OF out]] outcome_stale [OF out] by blast
  have ok: "ledger_ok (po_ledger r)" using outcome_good [OF out] by simp
  from build_position_outcome [OF outcome_good [OF out] r'] outcome_stale [OF out] ok r' show ?thesis
    by (auto simp: ledger_outcome_def split: option.splits)
qed

theorem ledger_replay_idempotent_witness:
  "\<exists>r r'. build_position_ledger (demo_fill 20) PNone = Inr r \<and>
     build_position_ledger (demo_fill 20) (PDict (po_ledger r)) = Inr r' \<and> po_ledger r' = po_ledger r"
proof -
  obtain r where r: "build_position_ledger (demo_fill 20) PNone = Inr r" using demo_fill_built by blast
  from ledger_replay_idempotent [OF ledger_good_start this] r show ?thesis by blast
qed

text \<open>
  The status of an applied fill describes the change of side: it opens a flat position,
  closes to flat, reverses to the other side, and otherwise increases or reduces the
  position according to whether the fill goes with its side. A nonzero fill is never
  reported as no change.
\<close>

theorem position_status_by_side:
  assumes "d \<noteq> 0"
  shows "position_change n (n + d) d =
    (if side_of n = ''FLAT'' then POSITION_OPENED
     else if side_of (n + d) = ''FLAT'' then POSITION_CLOSED
     else if side_of (n + d) \<noteq> side_of n then POSITION_REVERSED
     else if side_of d = side_of n then POSITION_INCREASED else POSITION_REDUCED)"
  using assms by (auto simp: position_change_def side_of_def mult_less_0_iff)

theorem position_status_by_side_witness: "position_change 30 (30 + (- 50)) (- 50) = POSITION_REVERSED"
  using position_status_by_side [of "- 50" 30] by (simp add: side_of_def)

end
