(* ===== verification/Paper_Fill.thy ===== *)
theory Paper_Fill
  imports Paper_Lifecycle
begin

text \<open>
  src/paper_trading/fill_simulation.py: the fill simulation. It takes an open order and a
  controlled quote and builds the next lifecycle event of the order through
  \<open>build_paper_order_lifecycle_event\<close>: a full or partial fill, an expiry or a rejection, or
  reports that nothing was filled.
\<close>

section \<open>Statuses, result, contract\<close>

datatype simulation_status = FULL_FILL | PARTIAL_FILL | NO_FILL | REJECTED_FILL | EXPIRED_FILL | BLOCKED

fun simulation_status_value :: "simulation_status \<Rightarrow> string" where
  "simulation_status_value FULL_FILL = ''FULL_FILL''"
| "simulation_status_value PARTIAL_FILL = ''PARTIAL_FILL''"
| "simulation_status_value NO_FILL = ''NO_FILL''"
| "simulation_status_value REJECTED_FILL = ''REJECTED_FILL''"
| "simulation_status_value EXPIRED_FILL = ''EXPIRED_FILL''"
| "simulation_status_value BLOCKED = ''BLOCKED''"

definition controlled_quote_sources :: "string list" where
  "controlled_quote_sources = [''CONTROLLED_QUOTE'', ''TEST_QUOTE'', ''SIMULATED_QUOTE'', ''PAPER_QUOTE'']"

definition fillable_previous_statuses :: "string list" where
  "fillable_previous_statuses = [''OPEN'', ''PARTIALLY_FILLED'']"

record simulation_result =
  si_simulated :: bool
  si_status :: simulation_status
  si_lifecycle_event :: "pydict option"
  si_fill_quantity :: int
  si_cumulative_filled_quantity :: int
  si_remaining_quantity :: "int option"
  si_fill_price :: "pyfloat option"
  si_blockers :: "string list"
  si_warnings :: "string list"
  si_evidence :: pydict

definition simulation_result_to_dict :: "simulation_result \<Rightarrow> pydict" where
  "simulation_result_to_dict r =
     [(''schema_version'', PStr ''1.0''),
      (''simulation_type'', PStr ''PAPER_FILL_SIMULATION_ENGINE''),
      (''simulated'', PBool (si_simulated r)),
      (''status'', PStr (simulation_status_value (si_status r))),
      (''lifecycle_event'', dict_or_none (si_lifecycle_event r)),
      (''fill_quantity'', PInt (si_fill_quantity r)),
      (''cumulative_filled_quantity'', PInt (si_cumulative_filled_quantity r)),
      (''remaining_quantity'', opt_int (si_remaining_quantity r)),
      (''fill_price'', opt_float (si_fill_price r)),
      (''blockers'', str_list (si_blockers r)),
      (''warnings'', str_list (si_warnings r)),
      (''evidence'', PDict (si_evidence r)),
      (''paper_only'', PBool True),
      (''is_order_action'', PBool False),
      (''broker_api_called'', PBool False),
      (''real_order_id'', PNone)]"

definition simulation_result_keys :: "string list" where
  "simulation_result_keys =
     [''schema_version'', ''simulation_type'', ''simulated'', ''status'', ''lifecycle_event'', ''fill_quantity'',
      ''cumulative_filled_quantity'', ''remaining_quantity'', ''fill_price'', ''blockers'', ''warnings'', ''evidence'',
      ''paper_only'', ''is_order_action'', ''broker_api_called'', ''real_order_id'']"

definition simulation_schema_contract :: pydict where
  "simulation_schema_contract =
     [(''schema_version'', PStr ''1.0''),
      (''simulation_type'', PStr ''PAPER_FILL_SIMULATION_ENGINE''),
      (''consumes'', str_list [''PAPER_ORDER_INTENT'', ''PAPER_ORDER_LIFECYCLE_EVENT'', ''CONTROLLED_QUOTE'']),
      (''statuses'', str_list (map simulation_status_value
         [FULL_FILL, PARTIAL_FILL, NO_FILL, REJECTED_FILL, EXPIRED_FILL, BLOCKED])),
      (''controlled_quote_sources'', str_list [''CONTROLLED_QUOTE'', ''PAPER_QUOTE'', ''SIMULATED_QUOTE'', ''TEST_QUOTE'']),
      (''required_result_keys'', str_list simulation_result_keys),
      (''safe_flags'', PDict safe_flags),
      (''scope_boundary'', str_list
         [''paper_only'', ''controlled_quote_inputs_only'', ''no_broker_execution'', ''no_live_orders'', ''no_pnl'',
          ''no_slippage_tracker'', ''no_ui''])]"

section \<open>The quote\<close>

definition quote_age_sec :: "pydict \<Rightarrow> pyfloat option \<Rightarrow> pyfloat option result" where
  "quote_age_sec quote now_epoch =
     bind_result (float_or_none (py_or (dget quote ''ts_epoch'') (dget quote ''quote_ts_epoch''))) (\<lambda>quote_ts.
       Inr (case (quote_ts, now_epoch) of
              (Some ts, Some now) \<Rightarrow> Some (float_max (float_sub now ts) (Fin 0))
            | _ \<Rightarrow> None))"

definition quote_rejected :: "pydict \<Rightarrow> bool" where
  "quote_rejected quote \<longleftrightarrow>
     dget quote ''reject'' = PBool True \<or> dget quote ''rejected'' = PBool True \<or>
     upper_text (dget quote ''status'') \<in> {''REJECTED'', ''REJECTED_FILL''}"

definition order_expired :: "pydict \<Rightarrow> pydict \<Rightarrow> pyfloat option \<Rightarrow> bool result" where
  "order_expired intent quote now_epoch =
     (if dget quote ''expired'' = PBool True \<or> upper_text (dget quote ''status'') \<in> {''EXPIRED'', ''EXPIRED_FILL''}
      then Inr True
      else bind_result (float_or_none (py_or (dget quote ''order_expiry_epoch'') (dget intent ''order_expiry_epoch''))) (\<lambda>expiry.
        Inr (case (expiry, now_epoch) of (Some e, Some now) \<Rightarrow> float_le e now | _ \<Rightarrow> False)))"

text \<open>\<open>a or b\<close> on optional floats: a price of zero counts as missing.\<close>

definition float_opt_or :: "pyfloat option \<Rightarrow> pyfloat option \<Rightarrow> pyfloat option" where
  "float_opt_or a b = (if a = None \<or> a = Some (Fin 0) then b else a)"

definition marketable :: "string \<Rightarrow> pyfloat option \<Rightarrow> (pyfloat \<Rightarrow> pyfloat \<Rightarrow> bool) \<Rightarrow> pyfloat option \<Rightarrow> pyfloat option" where
  "marketable order_type limit_price price_ok executable_price =
     (case executable_price of
        None \<Rightarrow> None
      | Some p \<Rightarrow>
          if order_type = ''MARKET'' then Some p
          else (case limit_price of None \<Rightarrow> Some p | Some l \<Rightarrow> if price_ok p l then Some p else None))"

definition resolved_fill_price :: "pydict \<Rightarrow> pydict \<Rightarrow> pyfloat option result" where
  "resolved_fill_price intent quote =
     (let transaction_type = upper_text (dget intent ''transaction_type'');
          order_type = upper (py_str (py_or (dget intent ''order_type'') (PStr ''LIMIT'')))
      in bind_result (float_or_none (dget intent ''price'')) (\<lambda>limit_price.
         bind_result (float_or_none (py_or (dget quote ''bid'') (dget quote ''best_bid''))) (\<lambda>bid.
         bind_result (float_or_none (py_or (dget quote ''ask'') (dget quote ''best_ask''))) (\<lambda>ask.
         bind_result (float_or_none (py_or (py_or (dget quote ''last'') (dget quote ''ltp'')) (dget quote ''mark''))) (\<lambda>last.
           Inr (if transaction_type = ''BUY'' then marketable order_type limit_price float_le (float_opt_or ask last)
                else if transaction_type = ''SELL''
                then marketable order_type limit_price (\<lambda>p l. float_le l p) (float_opt_or bid last)
                else None))))))"

fun first_int :: "pydict \<Rightarrow> string list \<Rightarrow> int option result" where
  "first_int d [] = Inr None"
| "first_int d (k # ks) =
     bind_result (int_or_none (dget d k)) (\<lambda>v. case v of Some n \<Rightarrow> Inr (Some n) | None \<Rightarrow> first_int d ks)"

definition available_quantity :: "pydict \<Rightarrow> int \<Rightarrow> int result" where
  "available_quantity quote remaining_before =
     bind_result (first_int quote
       [''available_quantity'', ''available_qty'', ''fillable_quantity'', ''fillable_qty'', ''size'', ''quantity''])
     (\<lambda>v. Inr (case v of Some n \<Rightarrow> max n 0 | None \<Rightarrow> remaining_before))"

section \<open>Validation\<close>

definition simulation_intent_blockers :: "pydict \<Rightarrow> string list result" where
  "simulation_intent_blockers intent =
     (if intent = [] then Inr [''PAPER_INTENT_REQUIRED'']
      else bind_result (int_or_zero (dget intent ''quantity'')) (\<lambda>quantity.
        Inr (add_if (dget intent ''intent_type'' \<noteq> PStr ''PAPER_ORDER_INTENT'') ''PAPER_INTENT_TYPE_REQUIRED'' @
             validate_safe_flags ''PAPER_INTENT'' intent @
             add_if (quantity \<le> 0) ''PAPER_ORDER_QUANTITY_REQUIRED'')))"

definition simulation_event_blockers :: "pydict \<Rightarrow> string list" where
  "simulation_event_blockers event =
     (if event = [] then [''PAPER_ORDER_LIFECYCLE_EVENT_REQUIRED'']
      else
        add_if (dget event ''event_type'' \<noteq> PStr ''PAPER_ORDER_LIFECYCLE_EVENT'')
          ''PAPER_ORDER_LIFECYCLE_EVENT_TYPE_REQUIRED'' @
        validate_safe_flags ''PAPER_ORDER_LIFECYCLE'' event @
        (let status = upper_text (dget event ''status'')
         in if status \<in> paper_status_value ` terminal_states then [''PAPER_ORDER_ALREADY_TERMINAL'']
            else add_if (status \<notin> set fillable_previous_statuses) ''PAPER_ORDER_NOT_OPEN_FOR_FILL_SIMULATION''))"

definition simulation_mismatch_blockers :: "pydict \<Rightarrow> pydict \<Rightarrow> string list" where
  "simulation_mismatch_blockers intent event =
     (if intent = [] \<or> event = [] then []
      else
        add_if (py_str (dget intent ''paper_order_intent_id'') \<noteq> py_str (dget event ''paper_order_intent_id''))
          ''PAPER_INTENT_LIFECYCLE_MISMATCH'' @
        add_if (py_str (dget intent ''candidate_id'') \<noteq> py_str (dget event ''candidate_id''))
          ''PAPER_CANDIDATE_LIFECYCLE_MISMATCH'')"

definition quote_blockers :: "pydict \<Rightarrow> pyfloat option \<Rightarrow> pyfloat \<Rightarrow> string list" where
  "quote_blockers quote age max_quote_age_sec =
     (if quote = [] then [''CONTROLLED_QUOTE_REQUIRED'']
      else
        add_if (upper_text (dget quote ''source'') \<notin> set controlled_quote_sources) ''CONTROLLED_QUOTE_SOURCE_REQUIRED'' @
        add_if (dget quote ''is_order_action'' \<noteq> PBool False) ''CONTROLLED_QUOTE_ORDER_FLAG_UNSAFE'' @
        add_if (dget quote ''broker_api_called'' = PBool True) ''CONTROLLED_QUOTE_BROKER_API_CALLED'' @
        add_if (\<not> is_blank (dget quote ''real_order_id'')) ''CONTROLLED_QUOTE_REAL_ORDER_ID_PRESENT'' @
        (case age of Some a \<Rightarrow> add_if (float_lt max_quote_age_sec a) ''CONTROLLED_QUOTE_STALE'' | None \<Rightarrow> []))"

definition validate_simulation_inputs ::
  "pydict \<Rightarrow> pydict \<Rightarrow> pydict \<Rightarrow> pyfloat option \<Rightarrow> pyfloat \<Rightarrow> (string list \<times> string list) result" where
  "validate_simulation_inputs intent event quote now_epoch max_quote_age_sec =
     bind_result (simulation_intent_blockers intent) (\<lambda>intent_bs.
     bind_result (quote_age_sec quote now_epoch) (\<lambda>age.
       Inr (dedupe (intent_bs @ simulation_event_blockers event @ simulation_mismatch_blockers intent event @
                    quote_blockers quote age max_quote_age_sec),
            add_if (quote \<noteq> [] \<and> age = None) ''CONTROLLED_QUOTE_AGE_UNAVAILABLE'')))"

definition simulation_evidence ::
  "pydict \<Rightarrow> pydict \<Rightarrow> pydict \<Rightarrow> pyfloat option \<Rightarrow> pyfloat \<Rightarrow> pydict" where
  "simulation_evidence intent event quote age max_quote_age_sec =
     [(''paper_order_intent_id'', dget intent ''paper_order_intent_id''),
      (''candidate_id'', dget intent ''candidate_id''),
      (''previous_status'', dget event ''status''),
      (''quote_source'', dget quote ''source''),
      (''quote_ts_epoch'', dget quote ''ts_epoch''),
      (''quote_age_sec'', opt_float age),
      (''max_quote_age_sec'', PFloat max_quote_age_sec),
      (''controlled_quote_only'', PBool True)] @ safe_flags"

section \<open>The simulation\<close>

record fill_request =
  fr_intent :: pyval
  fr_previous_event :: event_arg
  fr_quote :: pyval
  fr_ts_epoch :: pyval
  fr_now_epoch :: "pyfloat option"
  fr_max_quote_age :: pyfloat

definition blocked_simulation :: "string list \<Rightarrow> string list \<Rightarrow> pydict \<Rightarrow> simulation_result" where
  "blocked_simulation blockers warnings evidence =
     \<lparr>si_simulated = False, si_status = BLOCKED, si_lifecycle_event = None, si_fill_quantity = 0,
      si_cumulative_filled_quantity = 0, si_remaining_quantity = None, si_fill_price = None, si_blockers = blockers,
      si_warnings = warnings, si_evidence = evidence\<rparr>"

definition no_fill :: "int \<Rightarrow> int \<Rightarrow> pyfloat option \<Rightarrow> string list \<Rightarrow> pydict \<Rightarrow> simulation_result" where
  "no_fill previous_filled remaining_before price warnings evidence =
     \<lparr>si_simulated = True, si_status = NO_FILL, si_lifecycle_event = None, si_fill_quantity = 0,
      si_cumulative_filled_quantity = previous_filled, si_remaining_quantity = Some remaining_before,
      si_fill_price = price, si_blockers = [], si_warnings = warnings, si_evidence = evidence\<rparr>"

definition terminal_simulation_result ::
  "simulation_status \<Rightarrow> string \<Rightarrow> pydict \<Rightarrow> pydict \<Rightarrow> pydict \<Rightarrow> pyval \<Rightarrow> string \<Rightarrow> int \<Rightarrow> int \<Rightarrow> string list \<Rightarrow> pydict
   \<Rightarrow> simulation_result result" where
  "terminal_simulation_result status lifecycle_status intent event quote ts_epoch reason previous_filled remaining_before
     warnings evidence =
     bind_result (build_lifecycle_event
       \<lparr>rq_intent = PDict intent, rq_requested_status = StatusText lifecycle_status,
        rq_previous_event = EventValue (PDict event), rq_ts_epoch = ts_epoch, rq_reason = Some reason,
        rq_filled_quantity = PInt 0, rq_average_fill_price = PNone\<rparr>) (\<lambda>lifecycle.
       Inr (if \<not> lr_created lifecycle
            then blocked_simulation (dedupe (lr_blockers lifecycle)) (dedupe (warnings @ lr_warnings lifecycle)) evidence
            else \<lparr>si_simulated = True, si_status = status,
                 si_lifecycle_event = map_option lifecycle_event_to_dict (lr_event lifecycle),
                 si_fill_quantity = 0, si_cumulative_filled_quantity = previous_filled,
                 si_remaining_quantity = Some remaining_before, si_fill_price = None, si_blockers = [],
                 si_warnings = warnings, si_evidence = dset ''quote_status'' (dget quote ''status'') evidence\<rparr>))"

text \<open>The last part of \<open>simulate_paper_fill\<close>: the fill itself, once price and liquidity are known.\<close>

definition filled_simulation ::
  "pydict \<Rightarrow> pydict \<Rightarrow> pyval \<Rightarrow> int \<Rightarrow> int \<Rightarrow> int \<Rightarrow> pyfloat \<Rightarrow> string list \<Rightarrow> pydict \<Rightarrow> simulation_result result" where
  "filled_simulation intent event ts_epoch quantity previous_filled available price warnings evidence =
     (let remaining_before = max (quantity - previous_filled) 0;
          fill_quantity = min available remaining_before;
          cumulative = previous_filled + fill_quantity;
          remaining_after = max (quantity - cumulative) 0
      in bind_result (build_lifecycle_event
           \<lparr>rq_intent = PDict intent,
            rq_requested_status = StatusText (if remaining_after = 0 then ''FILLED'' else ''PARTIALLY_FILLED''),
            rq_previous_event = EventValue (PDict event), rq_ts_epoch = ts_epoch,
            rq_reason = Some ''paper fill simulation from controlled quote'',
            rq_filled_quantity = PInt cumulative, rq_average_fill_price = PFloat price\<rparr>) (\<lambda>lifecycle.
           Inr (if \<not> lr_created lifecycle
                then blocked_simulation (dedupe (lr_blockers lifecycle)) (dedupe (warnings @ lr_warnings lifecycle)) evidence
                else \<lparr>si_simulated = True, si_status = (if remaining_after = 0 then FULL_FILL else PARTIAL_FILL),
                     si_lifecycle_event = map_option lifecycle_event_to_dict (lr_event lifecycle),
                     si_fill_quantity = fill_quantity,
                     si_cumulative_filled_quantity = cumulative, si_remaining_quantity = Some remaining_after,
                     si_fill_price = Some price, si_blockers = [], si_warnings = warnings, si_evidence = evidence\<rparr>)))"

definition simulate_open_order ::
  "fill_request \<Rightarrow> pydict \<Rightarrow> pydict \<Rightarrow> pydict \<Rightarrow> string list \<Rightarrow> pydict \<Rightarrow> simulation_result result" where
  "simulate_open_order q intent event quote warnings evidence =
     bind_result (int_or_zero (dget intent ''quantity'')) (\<lambda>quantity.
     bind_result (int_or_zero (dget event ''filled_quantity'')) (\<lambda>previous_filled.
     let remaining_before = max (quantity - previous_filled) 0
     in bind_result (order_expired intent quote (fr_now_epoch q)) (\<lambda>expired.
        if expired then
          terminal_simulation_result EXPIRED_FILL ''EXPIRED'' intent event quote (fr_ts_epoch q)
            ''paper fill simulation expired from controlled input'' previous_filled remaining_before warnings evidence
        else if quote_rejected quote then
          terminal_simulation_result REJECTED_FILL ''REJECTED'' intent event quote (fr_ts_epoch q)
            (py_str (py_or (dget quote ''reject_reason'') (PStr ''paper fill simulation rejected from controlled input'')))
            previous_filled remaining_before warnings evidence
        else
          bind_result (resolved_fill_price intent quote) (\<lambda>fill_price.
          case fill_price of
            None \<Rightarrow> Inr (no_fill previous_filled remaining_before None
              (dedupe (warnings @ [''NO_MARKETABLE_PRICE_FROM_CONTROLLED_QUOTE''])) evidence)
          | Some price \<Rightarrow>
              bind_result (available_quantity quote remaining_before) (\<lambda>available.
                if available \<le> 0
                then Inr (no_fill previous_filled remaining_before (Some price)
                  (dedupe (warnings @ [''NO_CONTROLLED_QUOTE_LIQUIDITY''])) evidence)
                else filled_simulation intent event (fr_ts_epoch q) quantity previous_filled available price warnings evidence)))))"

definition simulate_paper_fill :: "fill_request \<Rightarrow> simulation_result result" where
  "simulate_paper_fill q =
     (let intent = as_dict (fr_intent q);
          event = (case event_payload (fr_previous_event q) of Some d \<Rightarrow> d | None \<Rightarrow> []);
          quote = as_dict (fr_quote q)
      in bind_result (validate_simulation_inputs intent event quote (fr_now_epoch q) (fr_max_quote_age q)) (\<lambda>(blockers, warnings).
         bind_result (quote_age_sec quote (fr_now_epoch q)) (\<lambda>age.
           let evidence = simulation_evidence intent event quote age (fr_max_quote_age q)
           in if blockers \<noteq> [] then Inr (blocked_simulation blockers warnings evidence)
              else simulate_open_order q intent event quote warnings evidence)))"

section \<open>What the validation guarantees\<close>

definition request_event :: "fill_request \<Rightarrow> pydict" where
  "request_event q = (case event_payload (fr_previous_event q) of Some d \<Rightarrow> d | None \<Rightarrow> [])"

definition order_fillable :: "pydict \<Rightarrow> pydict \<Rightarrow> bool" where
  "order_fillable intent event \<longleftrightarrow>
     intent \<noteq> [] \<and> dget intent ''intent_type'' = PStr ''PAPER_ORDER_INTENT'' \<and> flags_safe intent \<and>
     (\<exists>n > 0. int_or_zero (dget intent ''quantity'') = Inr n) \<and>
     event \<noteq> [] \<and> dget event ''event_type'' = PStr ''PAPER_ORDER_LIFECYCLE_EVENT'' \<and> flags_safe event \<and>
     upper_text (dget event ''status'') \<in> {''OPEN'', ''PARTIALLY_FILLED''} \<and>
     py_str (dget intent ''paper_order_intent_id'') = py_str (dget event ''paper_order_intent_id'') \<and>
     py_str (dget intent ''candidate_id'') = py_str (dget event ''candidate_id'')"

definition quote_usable :: "pydict \<Rightarrow> pyfloat option \<Rightarrow> pyfloat \<Rightarrow> bool" where
  "quote_usable quote age max_age \<longleftrightarrow>
     quote \<noteq> [] \<and> upper_text (dget quote ''source'') \<in> set controlled_quote_sources \<and>
     dget quote ''is_order_action'' = PBool False \<and> dget quote ''broker_api_called'' \<noteq> PBool True \<and>
     is_blank (dget quote ''real_order_id'') \<and> (\<forall>a. age = Some a \<longrightarrow> \<not> float_lt max_age a)"

lemma fillable_not_terminal: "set fillable_previous_statuses \<inter> paper_status_value ` terminal_states = {}"
  by (simp add: fillable_previous_statuses_def terminal_states_def)

lemma validated_intent:
  "simulation_intent_blockers i = Inr bs \<Longrightarrow> list_all blank bs \<Longrightarrow>
     i \<noteq> [] \<and> dget i ''intent_type'' = PStr ''PAPER_ORDER_INTENT'' \<and> flags_safe i \<and>
     (\<exists>n > 0. int_or_zero (dget i ''quantity'') = Inr n)"
  by (auto simp: simulation_intent_blockers_def not_le split: if_splits)

lemma validated_event:
  "list_all blank (simulation_event_blockers e) \<Longrightarrow>
     e \<noteq> [] \<and> dget e ''event_type'' = PStr ''PAPER_ORDER_LIFECYCLE_EVENT'' \<and> flags_safe e \<and>
     upper_text (dget e ''status'') \<in> {''OPEN'', ''PARTIALLY_FILLED''}"
  by (auto simp: simulation_event_blockers_def fillable_previous_statuses_def Let_def split: if_splits)

lemma validated_quote: "list_all blank (quote_blockers quote age m) \<Longrightarrow> quote_usable quote age m"
  by (auto simp: quote_blockers_def quote_usable_def split: if_splits option.splits)

lemma validated_simulation:
  assumes "validate_simulation_inputs i e quote now m = Inr ([], ws)"
  obtains age where "order_fillable i e" "quote_age_sec quote now = Inr age" "quote_usable quote age m"
proof -
  from assms obtain ib age where ib: "simulation_intent_blockers i = Inr ib" and age: "quote_age_sec quote now = Inr age"
    and blank: "list_all blank ib" "list_all blank (simulation_event_blockers e)"
    "list_all blank (simulation_mismatch_blockers i e)" "list_all blank (quote_blockers quote age m)"
    by (auto simp: validate_simulation_inputs_def)
  note ok = validated_intent [OF ib blank(1)] validated_event [OF blank(2)]
  from blank(3) ok have "py_str (dget i ''paper_order_intent_id'') = py_str (dget e ''paper_order_intent_id'')"
    "py_str (dget i ''candidate_id'') = py_str (dget e ''candidate_id'')"
    by (simp_all add: simulation_mismatch_blockers_def)
  with ok have "order_fillable i e" by (simp add: order_fillable_def)
  with age validated_quote [OF blank(4)] show thesis using that by blast
qed

lemma simulate_cases:
  assumes "simulate_paper_fill q = Inr r"
  obtains (blocked) bs ws ev where "r = blocked_simulation bs ws ev"
    | (opened) age ws ev where "order_fillable (as_dict (fr_intent q)) (request_event q)"
      "quote_age_sec (as_dict (fr_quote q)) (fr_now_epoch q) = Inr age"
      "quote_usable (as_dict (fr_quote q)) age (fr_max_quote_age q)"
      "simulate_open_order q (as_dict (fr_intent q)) (request_event q) (as_dict (fr_quote q)) ws ev = Inr r"
proof -
  let ?i = "as_dict (fr_intent q)" and ?e = "request_event q" and ?u = "as_dict (fr_quote q)"
  obtain bs ws age where val: "validate_simulation_inputs ?i ?e ?u (fr_now_epoch q) (fr_max_quote_age q) = Inr (bs, ws)"
    and age: "quote_age_sec ?u (fr_now_epoch q) = Inr age"
    using assms unfolding simulate_paper_fill_def Let_def request_event_def [symmetric] by auto
  have run: "(if bs \<noteq> [] then Inr (blocked_simulation bs ws (simulation_evidence ?i ?e ?u age (fr_max_quote_age q)))
      else simulate_open_order q ?i ?e ?u ws (simulation_evidence ?i ?e ?u age (fr_max_quote_age q))) = Inr r"
    using assms unfolding simulate_paper_fill_def Let_def request_event_def [symmetric] val age bind_result_simps prod.case .
  show thesis
  proof (cases "bs = []")
    case True
    from val [unfolded True] obtain age' where "order_fillable ?i ?e" "quote_age_sec ?u (fr_now_epoch q) = Inr age'"
      "quote_usable ?u age' (fr_max_quote_age q)"
      by (rule validated_simulation) (rule that)
    with True run show thesis by (auto intro: opened)
  next
    case False
    with run have "r = blocked_simulation bs ws (simulation_evidence ?i ?e ?u age (fr_max_quote_age q))" by simp
    then show thesis by (rule blocked)
  qed
qed

section \<open>The price\<close>

definition limit_of :: "pydict \<Rightarrow> pyfloat option" where
  "limit_of intent =
     (if upper (py_str (py_or (dget intent ''order_type'') (PStr ''LIMIT''))) = ''MARKET'' then None
      else case float_or_none (dget intent ''price'') of Inr l \<Rightarrow> l | Inl _ \<Rightarrow> None)"

text \<open>A buy does not pay more than its limit, a sale does not take less.\<close>

definition price_respects :: "pydict \<Rightarrow> pyfloat \<Rightarrow> bool" where
  "price_respects intent p \<longleftrightarrow>
     upper_text (dget intent ''transaction_type'') \<in> {''BUY'', ''SELL''} \<and>
     (\<forall>l. limit_of intent = Some l \<longrightarrow>
        (if upper_text (dget intent ''transaction_type'') = ''BUY'' then float_le p l else float_le l p))"

lemma marketable_Some:
  "marketable ty limit price_ok x = Some p \<Longrightarrow> ty \<noteq> ''MARKET'' \<Longrightarrow> limit = Some l \<Longrightarrow> price_ok p l"
  by (auto simp: marketable_def split: option.splits if_splits)

lemma resolved_price_respects:
  assumes "resolved_fill_price i u = Inr (Some p)" shows "price_respects i p"
proof -
  let ?ty = "upper (py_str (py_or (dget i ''order_type'') (PStr ''LIMIT'')))" and ?t = "upper_text (dget i ''transaction_type'')"
  from assms obtain limit x y where limit: "float_or_none (dget i ''price'') = Inr limit"
    and m: "(if ?t = ''BUY'' then marketable ?ty limit float_le x
       else if ?t = ''SELL'' then marketable ?ty limit (\<lambda>p l. float_le l p) y else None) = Some p"
    unfolding resolved_fill_price_def Let_def bind_result_eq_Inr by (elim exE conjE) (rule that, assumption, rule Inr_inject, assumption)
  have "?t = ''BUY'' \<or> ?t = ''SELL''" using m by (cases "?t = ''BUY''"; cases "?t = ''SELL''") simp_all
  then show ?thesis
  proof
    assume t: "?t = ''BUY''"
    with m have "marketable ?ty limit float_le x = Some p" by simp
    with t limit marketable_Some [OF this] show ?thesis by (simp add: price_respects_def limit_of_def)
  next
    assume t: "?t = ''SELL''"
    with m have "marketable ?ty limit (\<lambda>p l. float_le l p) y = Some p" by simp
    with t limit marketable_Some [OF this] show ?thesis by (simp add: price_respects_def limit_of_def)
  qed
qed

section \<open>Outcomes\<close>

text \<open>What a result that reports a fill says, with the event it carries.\<close>

definition fill_sound :: "fill_request \<Rightarrow> simulation_result \<Rightarrow> lifecycle_event \<Rightarrow> bool" where
  "fill_sound q r e \<longleftrightarrow>
     si_lifecycle_event r = Some (lifecycle_event_to_dict e) \<and>
     order_fillable (as_dict (fr_intent q)) (request_event q) \<and>
     (\<exists>age. quote_age_sec (as_dict (fr_quote q)) (fr_now_epoch q) = Inr age \<and>
        quote_usable (as_dict (fr_quote q)) age (fr_max_quote_age q)) \<and>
     (\<exists>quantity prev.
        int_or_zero (dget (as_dict (fr_intent q)) ''quantity'') = Inr quantity \<and>
        int_or_zero (dget (request_event q) ''filled_quantity'') = Inr prev \<and>
        si_cumulative_filled_quantity r = prev + si_fill_quantity r \<and> 0 \<le> si_fill_quantity r \<and>
        0 < si_cumulative_filled_quantity r \<and> si_cumulative_filled_quantity r \<le> quantity \<and>
        si_remaining_quantity r = Some (quantity - si_cumulative_filled_quantity r) \<and>
        le_status e = (if si_cumulative_filled_quantity r = quantity then FILLED else PARTIALLY_FILLED) \<and>
        (si_status r = FULL_FILL \<longleftrightarrow> si_cumulative_filled_quantity r = quantity)) \<and>
     le_filled_quantity e = si_cumulative_filled_quantity r \<and>
     (\<exists>p. le_average_fill_price e = Some p \<and> si_fill_price r = Some p \<and> price_respects (as_dict (fr_intent q)) p) \<and>
     le_paper_order_intent_id e = py_str (dget (as_dict (fr_intent q)) ''paper_order_intent_id'') \<and>
     le_candidate_id e = py_str (dget (as_dict (fr_intent q)) ''candidate_id'') \<and>
     le_paper_order_id e = stable_paper_order_id (le_paper_order_intent_id e) (le_candidate_id e)"

lemma blocked_simulation_simps [simp]:
  "si_simulated (blocked_simulation bs ws ev) = False" "si_status (blocked_simulation bs ws ev) = BLOCKED"
  "si_lifecycle_event (blocked_simulation bs ws ev) = None" "si_fill_quantity (blocked_simulation bs ws ev) = 0"
  by (simp_all add: blocked_simulation_def)

lemma no_fill_simps [simp]:
  "si_simulated (no_fill n m p ws ev) = True" "si_status (no_fill n m p ws ev) = NO_FILL"
  "si_lifecycle_event (no_fill n m p ws ev) = None" "si_fill_quantity (no_fill n m p ws ev) = 0"
  by (simp_all add: no_fill_def)

lemma terminal_result_cases:
  assumes "terminal_simulation_result st text i e u ts why prev rem ws ev = Inr r" "paper_status_of (upper text) = Some s"
    and "s \<noteq> FILLED" "s \<noteq> PARTIALLY_FILLED"
  obtains (refused) bs ws' where "r = blocked_simulation bs ws' ev"
    | (ended) le where "si_simulated r" "si_status r = st" "si_lifecycle_event r = Some (lifecycle_event_to_dict le)"
      "si_fill_quantity r = 0" "le_status le = s" "move_ok (previous_status (EventValue (PDict e))) s"
      "le_paper_order_id le = stable_paper_order_id (py_str (dget i ''paper_order_intent_id'')) (py_str (dget i ''candidate_id''))"
proof -
  let ?q = "\<lparr>rq_intent = PDict i, rq_requested_status = StatusText text, rq_previous_event = EventValue (PDict e),
    rq_ts_epoch = ts, rq_reason = Some why, rq_filled_quantity = PInt 0, rq_average_fill_price = PNone\<rparr>"
  obtain l where l: "build_lifecycle_event ?q = Inr l"
    and r: "r = (if \<not> lr_created l then blocked_simulation (dedupe (lr_blockers l)) (dedupe (ws @ lr_warnings l)) ev
      else \<lparr>si_simulated = True, si_status = st, si_lifecycle_event = map_option lifecycle_event_to_dict (lr_event l),
        si_fill_quantity = 0, si_cumulative_filled_quantity = prev, si_remaining_quantity = Some rem,
        si_fill_price = None, si_blockers = [], si_warnings = ws, si_evidence = dset ''quote_status'' (dget u ''status'') ev\<rparr>)"
    using assms(1) unfolding terminal_simulation_result_def by (auto simp del: not_None_eq)
  from l show thesis
  proof (cases rule: build_cases)
    case (created t fill nf sq pr)
    have "t = s" using created(2) assms(2) by (simp add: request_ok_def)
    show thesis
      by (rule ended [of "event_of_request ?q t nf sq pr"])
        (use created \<open>t = s\<close> in \<open>simp_all add: r request_ok_def\<close>)
  next
    case refused with r that(1) show thesis by simp
  qed
qed

lemma coerce_fill_text:
  "coerce_status (StatusText (if b then ''FILLED'' else ''PARTIALLY_FILLED'')) = Some (if b then FILLED else PARTIALLY_FILLED)"
proof -
  have "coerce_status (StatusText ''FILLED'') = Some FILLED"
    "coerce_status (StatusText ''PARTIALLY_FILLED'') = Some PARTIALLY_FILLED" by code_simp+
  then show ?thesis by simp
qed

lemma fill_ok_bounds: "fill_ok (if b then FILLED else PARTIALLY_FILLED) n (Some c) \<Longrightarrow> 0 < c \<and> c \<le> n"
  by (cases b) (simp_all add: fill_ok_def)

lemma filled_quantity_fill:
  "filled_quantity_for (if b then FILLED else PARTIALLY_FILLED) prev (PInt c) n = Inr nf \<Longrightarrow> c \<noteq> 0 \<Longrightarrow> nf = c"
  by (cases b) (auto simp: filled_quantity_for_def)

lemma filled_result_cases:
  assumes run: "filled_simulation i e ts n prev avail price ws ev = Inr r"
    and n: "int_or_zero (dget i ''quantity'') = Inr n"
  obtains (refused) bs ws' where "r = blocked_simulation bs ws' ev"
    | (filled) le where "si_simulated r" "si_lifecycle_event r = Some (lifecycle_event_to_dict le)"
      "si_fill_quantity r = min avail (max (n - prev) 0)" "si_cumulative_filled_quantity r = prev + si_fill_quantity r"
      "0 < si_cumulative_filled_quantity r" "si_cumulative_filled_quantity r \<le> n"
      "si_remaining_quantity r = Some (n - si_cumulative_filled_quantity r)"
      "le_status le = (if si_cumulative_filled_quantity r = n then FILLED else PARTIALLY_FILLED)"
      "si_status r = (if si_cumulative_filled_quantity r = n then FULL_FILL else PARTIAL_FILL)"
      "le_filled_quantity le = si_cumulative_filled_quantity r" "le_average_fill_price le = Some price"
      "si_fill_price r = Some price" "le_paper_order_intent_id le = py_str (dget i ''paper_order_intent_id'')"
      "le_candidate_id le = py_str (dget i ''candidate_id'')"
      "le_paper_order_id le = stable_paper_order_id (le_paper_order_intent_id le) (le_candidate_id le)"
proof -
  let ?f = "min avail (max (n - prev) 0)"
  let ?c = "prev + ?f"
  let ?s = "if max (n - ?c) 0 = 0 then FILLED else PARTIALLY_FILLED"
  let ?q = "\<lparr>rq_intent = PDict i, rq_requested_status = StatusText (if max (n - ?c) 0 = 0 then ''FILLED'' else ''PARTIALLY_FILLED''),
    rq_previous_event = EventValue (PDict e), rq_ts_epoch = ts, rq_reason = Some ''paper fill simulation from controlled quote'',
    rq_filled_quantity = PInt ?c, rq_average_fill_price = PFloat price\<rparr>"
  obtain l where l: "build_lifecycle_event ?q = Inr l"
    and r: "r = (if \<not> lr_created l then blocked_simulation (dedupe (lr_blockers l)) (dedupe (ws @ lr_warnings l)) ev
      else \<lparr>si_simulated = True, si_status = (if max (n - ?c) 0 = 0 then FULL_FILL else PARTIAL_FILL),
        si_lifecycle_event = map_option lifecycle_event_to_dict (lr_event l), si_fill_quantity = ?f,
        si_cumulative_filled_quantity = ?c, si_remaining_quantity = Some (max (n - ?c) 0), si_fill_price = Some price,
        si_blockers = [], si_warnings = ws, si_evidence = ev\<rparr>)"
    using run unfolding filled_simulation_def Let_def bind_result_eq_Inr
    by (elim exE conjE) (rule that, assumption, rule sym, rule Inr_inject)
  have qty: "quantity_of (rq_intent ?q) = n" by (simp add: quantity_of_def n)
  from l show thesis
  proof (cases rule: build_cases)
    case (created t fill nf sq pr)
    have t: "t = ?s" using created(2) unfolding request_ok_def lifecycle_request.select_convs coerce_fill_text by simp
    have fill: "fill = Some ?c" using created(1) by simp
    have ok: "fill_ok t n fill" using created(2) qty by (simp add: request_ok_def)
    then have c: "0 < ?c" "?c \<le> n" using fill_ok_bounds [of _ n ?c] unfolding t fill by blast+
    have nf: "nf = ?c"
      by (rule filled_quantity_fill [OF created(5) [unfolded t lifecycle_request.select_convs]]) (use c(1) in linarith)
    have pr: "pr = Some price" using created(8) by simp
    show thesis
      by (rule filled [of "event_of_request ?q t nf sq pr"])
        (use created(3,7) c in \<open>simp_all add: r t nf pr max_def\<close>)
  next
    case refused with r that(1) show thesis by simp
  qed
qed

lemma open_order_cases:
  assumes "simulate_open_order q i e u ws ev = Inr r" and n: "int_or_zero (dget i ''quantity'') = Inr n"
  obtains (blocked) bs ws' ev' where "r = blocked_simulation bs ws' ev'"
    | (unfilled) prev rem p ws' where "r = no_fill prev rem p ws' ev"
    | (ended) le s where "si_simulated r" "si_lifecycle_event r = Some (lifecycle_event_to_dict le)" "si_fill_quantity r = 0"
      "le_status le = s" "move_ok (previous_status (EventValue (PDict e))) s"
      "si_status r = EXPIRED_FILL \<and> s = EXPIRED \<or> si_status r = REJECTED_FILL \<and> s = REJECTED"
      "le_paper_order_id le = stable_paper_order_id (py_str (dget i ''paper_order_intent_id'')) (py_str (dget i ''candidate_id''))"
    | (filled) prev avail price ws' where "int_or_zero (dget e ''filled_quantity'') = Inr prev" "0 < avail"
      "resolved_fill_price i u = Inr (Some price)"
      "filled_simulation i e (fr_ts_epoch q) n prev avail price ws' ev = Inr r"
proof -
  obtain prev where prev: "int_or_zero (dget e ''filled_quantity'') = Inr prev"
    using assms by (auto simp: simulate_open_order_def)
  obtain expired where exp: "order_expired i u (fr_now_epoch q) = Inr expired"
    using assms by (auto simp: simulate_open_order_def Let_def prev)
  note run = assms(1) [unfolded simulate_open_order_def n prev exp bind_result_simps Let_def]
  have texts: "paper_status_of (upper ''EXPIRED'') = Some EXPIRED" "paper_status_of (upper ''REJECTED'') = Some REJECTED"
    by code_simp+
  consider "expired" | "\<not> expired" "quote_rejected u" | "\<not> expired" "\<not> quote_rejected u" by blast
  then show thesis
  proof cases
    case 1
    then have "terminal_simulation_result EXPIRED_FILL ''EXPIRED'' i e u (fr_ts_epoch q)
        ''paper fill simulation expired from controlled input'' prev (max (n - prev) 0) ws ev = Inr r"
      using run by simp
    then show thesis
      by (cases rule: terminal_result_cases [OF _ texts(1)]) (auto intro: blocked ended)
  next
    case 2
    then obtain why where "terminal_simulation_result REJECTED_FILL ''REJECTED'' i e u (fr_ts_epoch q) why prev
        (max (n - prev) 0) ws ev = Inr r"
      using run by simp
    then show thesis
      by (cases rule: terminal_result_cases [OF _ texts(2)]) (auto intro: blocked ended)
  next
    case 3
    then obtain price where price: "resolved_fill_price i u = Inr price" using run by auto
    show thesis
    proof (cases price)
      case None
      with 3 run price show thesis by (auto intro: unfilled)
    next
      case (Some p)
      then obtain avail where avail: "available_quantity u (max (n - prev) 0) = Inr avail" using 3 run price by auto
      show thesis
      proof (cases "0 < avail")
        case True
        with 3 run price Some avail have "filled_simulation i e (fr_ts_epoch q) n prev avail p ws ev = Inr r" by simp
        with prev True price Some show thesis by (auto intro: filled)
      next
        case False
        with 3 run price Some avail show thesis by (auto intro: unfilled)
      qed
    qed
  qed
qed

text \<open>Every result of the simulation, with what it guarantees.\<close>

lemma simulation_cases:
  assumes "simulate_paper_fill q = Inr r"
  obtains (blocked) bs ws ev where "r = blocked_simulation bs ws ev"
    | (unfilled) prev rem p ws ev where "r = no_fill prev rem p ws ev"
    | (ended) le s where "si_simulated r" "si_lifecycle_event r = Some (lifecycle_event_to_dict le)" "si_fill_quantity r = 0"
      "le_status le = s" "move_ok (previous_status (EventValue (PDict (request_event q)))) s"
      "si_status r = EXPIRED_FILL \<and> s = EXPIRED \<or> si_status r = REJECTED_FILL \<and> s = REJECTED"
      "le_paper_order_id le = stable_paper_order_id (py_str (dget (as_dict (fr_intent q)) ''paper_order_intent_id''))
         (py_str (dget (as_dict (fr_intent q)) ''candidate_id''))"
    | (filled) le where "fill_sound q r le" "si_simulated r" "si_status r \<in> {FULL_FILL, PARTIAL_FILL}"
  using assms
proof (cases rule: simulate_cases)
  case (blocked bs ws ev) then show thesis by (rule that(1))
next
  case (opened age ws ev)
  obtain n where n: "int_or_zero (dget (as_dict (fr_intent q)) ''quantity'') = Inr n"
    using opened(1) unfolding order_fillable_def by blast
  from opened(4) n show thesis
  proof (cases rule: open_order_cases)
    case (blocked bs ws' ev') then show thesis by (rule that(1))
  next
    case (unfilled prev rem p ws') then show thesis by (rule that(2))
  next
    case (ended le s) then show thesis by (rule that(3))
  next
    case (filled prev avail price ws')
    from filled(4) n show thesis
    proof (cases rule: filled_result_cases)
      case (refused bs ws'') then show thesis by (rule that(1))
    next
      case res: (filled le)
      have "0 \<le> si_fill_quantity r" using res(3) filled(2) by simp
      then have "fill_sound q r le"
        unfolding fill_sound_def using opened(1-3) n filled(1) res resolved_price_respects [OF filled(3)] by auto
      moreover have "si_status r \<in> {FULL_FILL, PARTIAL_FILL}" using res(9) by simp
      ultimately show thesis using that(4) res(1) by blast
    qed
  qed
qed

interpretation simulation_report: paper_report simulation_result_to_dict simulation_result_keys
  by unfold_locales (simp_all add: simulation_result_to_dict_def simulation_result_keys_def has_key_def flags_safe_def)

lemma upper_text_nonempty:
  assumes "upper_text v \<noteq> []" shows "\<not> is_blank v" "upper_text v = upper (py_str v)"
proof -
  have t: "truthy v" using assms by (cases "truthy v") (simp_all add: upper_text_def str_or_empty_def)
  then show "upper_text v = upper (py_str v)" by (simp add: upper_text_def str_or_empty_def)
  show "\<not> is_blank v" using t by (auto simp: is_blank_def)
qed

text \<open>The previous status that the lifecycle reads is the one that the simulation checked.\<close>

lemma previous_status_fillable:
  assumes "order_fillable i e"
  shows "previous_status (EventValue (PDict e)) = Some (upper_text (dget e ''status''))"
proof -
  have "upper_text (dget e ''status'') \<noteq> []" using assms by (auto simp: order_fillable_def)
  then show ?thesis using upper_text_nonempty [of "dget e ''status''"] by (simp add: previous_status_def)
qed

lemma rejection_needs_open:
  assumes "order_fillable i e" "move_ok (previous_status (EventValue (PDict e))) REJECTED"
  shows "upper_text (dget e ''status'') = ''OPEN''"
proof -
  have "upper_text (dget e ''status'') \<in> {''OPEN'', ''PARTIALLY_FILLED''}"
    using assms(1) unfolding order_fillable_def by blast
  moreover have "\<not> move_ok (Some ''PARTIALLY_FILLED'') REJECTED" by (simp add: move_ok_def)
  ultimately show ?thesis using assms(2) previous_status_fillable [OF assms(1)] by auto
qed

section \<open>A concrete simulation\<close>

definition demo_sim_intent :: pydict where
  "demo_sim_intent =
     [(''intent_type'', PStr ''PAPER_ORDER_INTENT''), (''paper_order_intent_id'', PStr ''i1''),
      (''candidate_id'', PStr ''c1''), (''symbol'', PStr ''NIFTY''), (''quantity'', PInt 50),
      (''transaction_type'', PStr ''BUY''), (''order_type'', PStr ''LIMIT''), (''price'', PFloat (Fin 101))] @ safe_flags"

definition demo_open_event :: pydict where
  "demo_open_event =
     [(''event_type'', PStr ''PAPER_ORDER_LIFECYCLE_EVENT''), (''paper_order_id'', PStr ''o1''),
      (''paper_order_intent_id'', PStr ''i1''), (''candidate_id'', PStr ''c1''), (''status'', PStr ''OPEN''),
      (''filled_quantity'', PInt 0), (''event_sequence'', PInt 3)] @ safe_flags"

definition demo_quote :: "pyval \<Rightarrow> pydict" where
  "demo_quote rejected =
     [(''source'', PStr ''TEST_QUOTE''), (''is_order_action'', PBool False), (''ask'', PFloat (Fin 100)),
      (''size'', PInt 20), (''reject'', rejected)]"

definition demo_sim :: "pydict \<Rightarrow> pydict \<Rightarrow> fill_request" where
  "demo_sim event quote =
     \<lparr>fr_intent = PDict demo_sim_intent, fr_previous_event = EventValue (PDict event), fr_quote = PDict quote,
      fr_ts_epoch = PNone, fr_now_epoch = None, fr_max_quote_age = Fin 5\<rparr>"

lemma demo_sim_payloads:
  "as_dict (fr_intent (demo_sim e u)) = demo_sim_intent" "event_payload (fr_previous_event (demo_sim e u)) = Some e"
  "as_dict (fr_quote (demo_sim e u)) = u" "fr_now_epoch (demo_sim e u) = None" "fr_max_quote_age (demo_sim e u) = Fin 5"
  "request_event (demo_sim e u) = e"
  by (simp_all add: demo_sim_def request_event_def)

lemma demo_sim_steps:
  "resolved_fill_price demo_sim_intent (demo_quote PNone) = Inr (Some (Fin 100))"
  "available_quantity (demo_quote PNone) 50 = Inr 20"
  "validate_simulation_inputs demo_sim_intent demo_open_event (demo_quote PNone) None (Fin 5) =
     Inr ([], [''CONTROLLED_QUOTE_AGE_UNAVAILABLE''])"
  "order_expired demo_sim_intent (demo_quote PNone) None = Inr False" "\<not> quote_rejected (demo_quote PNone)"
  "quote_age_sec (demo_quote PNone) None = Inr None"
  "int_or_zero (dget demo_sim_intent ''quantity'') = Inr 50" "int_or_zero (dget demo_open_event ''filled_quantity'') = Inr 0"
  by code_simp+

lemma demo_sim_built:
  "\<exists>l. build_lifecycle_event
     \<lparr>rq_intent = PDict demo_sim_intent, rq_requested_status = StatusText ''PARTIALLY_FILLED'',
      rq_previous_event = EventValue (PDict demo_open_event), rq_ts_epoch = PNone,
      rq_reason = Some ''paper fill simulation from controlled quote'', rq_filled_quantity = PInt 20,
      rq_average_fill_price = PFloat (Fin 100)\<rparr> = Inr l \<and> lr_created l" (is "\<exists>l. build_lifecycle_event ?q = Inr l \<and> _")
proof -
  have "coerce_status (rq_requested_status ?q) = Some PARTIALLY_FILLED" by code_simp
  moreover have "intent_ok (as_dict (rq_intent ?q))" by code_simp
  moreover have "move_ok (previous_status (rq_previous_event ?q)) PARTIALLY_FILLED"
  proof -
    have "previous_status (rq_previous_event ?q) = Some ''OPEN''" by code_simp
    then show ?thesis by (simp add: move_ok_def)
  qed
  moreover have q: "int_or_zero (dget (as_dict (rq_intent ?q)) ''quantity'') = Inr 50" by (simp add: demo_sim_steps)
  moreover from q have "quantity_of (rq_intent ?q) = 50" by (simp add: quantity_of_def)
  ultimately have ok: "request_ok ?q PARTIALLY_FILLED (Some 20)" by (simp add: request_ok_def fill_ok_def)
  have f: "int_or_none (rq_filled_quantity ?q) = Inr (Some 20)" by simp
  have nf: "filled_quantity_for PARTIALLY_FILLED (rq_previous_event ?q) (rq_filled_quantity ?q) 50 = Inr 20" by code_simp
  have sq: "previous_sequence (rq_previous_event ?q) = Inr 3" by code_simp
  have pr: "float_or_none (rq_average_fill_price ?q) = Inr (Some (Fin 100))" by simp
  from build_total [OF q f ok nf sq pr] show ?thesis by blast
qed

lemma demo_sim_filled:
  "\<exists>r. simulate_paper_fill (demo_sim demo_open_event (demo_quote PNone)) = Inr r \<and> si_status r = PARTIAL_FILL \<and>
     si_fill_quantity r = 20 \<and> si_cumulative_filled_quantity r = 20"
proof -
  obtain l where l: "build_lifecycle_event
     \<lparr>rq_intent = PDict demo_sim_intent, rq_requested_status = StatusText ''PARTIALLY_FILLED'',
      rq_previous_event = EventValue (PDict demo_open_event), rq_ts_epoch = PNone,
      rq_reason = Some ''paper fill simulation from controlled quote'', rq_filled_quantity = PInt 20,
      rq_average_fill_price = PFloat (Fin 100)\<rparr> = Inr l" "lr_created l"
    using demo_sim_built by blast
  have ts: "fr_ts_epoch (demo_sim demo_open_event (demo_quote PNone)) = PNone" by (simp add: demo_sim_def)
  show ?thesis
    unfolding simulate_paper_fill_def demo_sim_payloads Let_def option.case demo_sim_steps bind_result_simps prod.case
      simulate_open_order_def ts
    by (simp add: demo_sim_steps filled_simulation_def l)
qed

section \<open>Properties\<close>



text \<open>
  The other outcomes fill nothing: only FULL_FILL and PARTIAL_FILL report a quantity, a
  lifecycle event comes with these and with EXPIRED_FILL and REJECTED_FILL alone, and a
  result is BLOCKED exactly when it is not simulated. A rejecting quote ends an order that
  is open; the rejection of a partially filled one is never reported as REJECTED_FILL,
  since the lifecycle has no such transition.
\<close>

theorem simulation_outcomes:
  assumes "simulate_paper_fill q = Inr r"
  shows "(si_fill_quantity r \<noteq> 0 \<longrightarrow> si_status r \<in> {FULL_FILL, PARTIAL_FILL}) \<and>
    (si_lifecycle_event r \<noteq> None \<longleftrightarrow> si_status r \<in> {FULL_FILL, PARTIAL_FILL, EXPIRED_FILL, REJECTED_FILL}) \<and>
    (si_status r = BLOCKED \<longleftrightarrow> \<not> si_simulated r) \<and>
    (si_status r = REJECTED_FILL \<longrightarrow> upper_text (dget (request_event q) ''status'') \<noteq> ''PARTIALLY_FILLED'')"
  using assms
proof (cases rule: simulation_cases)
  case (ended le s)
  have "upper_text (dget (request_event q) ''status'') \<noteq> ''PARTIALLY_FILLED''" if "s = REJECTED"
    using assms
  proof (cases rule: simulate_cases)
    case (blocked bs ws ev) with ended(1) show ?thesis by simp
  next
    case (opened age ws ev)
    with rejection_needs_open [OF opened(1)] ended(5) that show ?thesis by simp
  qed
  with ended show ?thesis by auto
next
  case (filled le)
  then show ?thesis by (auto simp: fill_sound_def)
qed simp_all

theorem simulation_outcomes_witness:
  "\<exists>r. simulate_paper_fill (demo_sim demo_open_event (demo_quote PNone)) = Inr r \<and> si_lifecycle_event r \<noteq> None"
proof -
  obtain r where r: "simulate_paper_fill (demo_sim demo_open_event (demo_quote PNone)) = Inr r" "si_status r = PARTIAL_FILL"
    using demo_sim_filled by blast
  with simulation_outcomes [OF r(1)] show ?thesis by auto
qed

end
