(* ===== verification/Paper_Realized.thy ===== *)
theory Paper_Realized
  imports Paper_Position
begin

text \<open>
  src/paper_trading/realized_pnl.py: the realized profit and loss of a fill, against the
  position ledger as it was before the fill. The realized ledger keeps the events and the
  keys of the fills it has seen, so that each fill is realized at most once.
\<close>

section \<open>Statuses, result, contract\<close>

datatype realized_status = REALIZED | NO_REALIZED_CHANGE | EMPTY | BLOCKED

fun realized_status_value :: "realized_status \<Rightarrow> string" where
  "realized_status_value REALIZED = ''REALIZED''"
| "realized_status_value NO_REALIZED_CHANGE = ''NO_REALIZED_CHANGE''"
| "realized_status_value EMPTY = ''EMPTY''"
| "realized_status_value BLOCKED = ''BLOCKED''"

definition realized_fill_statuses :: "string list" where
  "realized_fill_statuses = [''PARTIALLY_FILLED'', ''FILLED'']"

record realized_result =
  rz_updated :: bool
  rz_status :: realized_status
  rz_ledger :: pydict
  rz_event :: "pydict option"
  rz_realized_quantity :: int
  rz_realized_pnl :: pyfloat
  rz_blockers :: "string list"
  rz_warnings :: "string list"
  rz_evidence :: pydict

definition realized_result_to_dict :: "realized_result \<Rightarrow> pydict" where
  "realized_result_to_dict r =
     [(''schema_version'', PStr ''1.0''),
      (''ledger_type'', PStr ''PAPER_REALIZED_PNL_LEDGER''),
      (''updated'', PBool (rz_updated r)),
      (''status'', PStr (realized_status_value (rz_status r))),
      (''ledger'', PDict (rz_ledger r)),
      (''event'', dict_or_none (rz_event r)),
      (''realized_quantity'', PInt (rz_realized_quantity r)),
      (''realized_pnl'', PFloat (rz_realized_pnl r)),
      (''blockers'', str_list (rz_blockers r)),
      (''warnings'', str_list (rz_warnings r)),
      (''evidence'', PDict (rz_evidence r)),
      (''paper_only'', PBool True),
      (''is_order_action'', PBool False),
      (''broker_api_called'', PBool False),
      (''real_order_id'', PNone)]"

definition realized_result_keys :: "string list" where
  "realized_result_keys =
     [''schema_version'', ''ledger_type'', ''updated'', ''status'', ''ledger'', ''event'', ''realized_quantity'',
      ''realized_pnl'', ''blockers'', ''warnings'', ''evidence'', ''paper_only'', ''is_order_action'',
      ''broker_api_called'', ''real_order_id'']"

definition realized_ledger_keys :: "string list" where
  "realized_ledger_keys =
     [''schema_version'', ''ledger_type'', ''events'', ''applied_fill_keys'', ''summary'', ''paper_only'',
      ''is_order_action'', ''broker_api_called'', ''real_order_id'']"

definition realized_event_keys :: "string list" where
  "realized_event_keys =
     [''realized_event_id'', ''paper_order_id'', ''paper_order_intent_id'', ''candidate_id'', ''position_key'',
      ''transaction_type'', ''previous_net_quantity'', ''signed_delta_quantity'', ''realized_quantity'',
      ''average_entry_price'', ''exit_price'', ''realized_pnl'', ''ts_epoch'', ''paper_only'', ''is_order_action'',
      ''broker_api_called'', ''real_order_id'']"

definition realized_summary_keys :: "string list" where
  "realized_summary_keys =
     [''event_count'', ''winning_event_count'', ''losing_event_count'', ''flat_event_count'', ''total_realized_pnl'',
      ''total_realized_quantity'', ''paper_only'', ''is_order_action'', ''broker_api_called'', ''real_order_id'']"

definition realized_schema_contract :: pydict where
  "realized_schema_contract =
     [(''schema_version'', PStr ''1.0''),
      (''ledger_type'', PStr ''PAPER_REALIZED_PNL_LEDGER''),
      (''consumes'', str_list [''PAPER_POSITION_LEDGER'', ''PAPER_ORDER_INTENT'', ''PAPER_ORDER_LIFECYCLE_EVENT'']),
      (''fill_event_statuses'', str_list [''FILLED'', ''PARTIALLY_FILLED'']),
      (''statuses'', str_list (map realized_status_value [REALIZED, NO_REALIZED_CHANGE, EMPTY, BLOCKED])),
      (''required_result_keys'', str_list realized_result_keys),
      (''required_ledger_keys'', str_list realized_ledger_keys),
      (''required_event_keys'', str_list realized_event_keys),
      (''required_summary_keys'', str_list realized_summary_keys),
      (''safe_flags'', PDict safe_flags),
      (''scope_boundary'', str_list
         [''paper_only'', ''realized_pnl_only'', ''no_unrealized_mtm'', ''no_fees'', ''no_slippage_tracker'',
          ''no_broker_execution'', ''no_live_orders'', ''no_ui''])]"

section \<open>The realized ledger\<close>

definition realized_summary :: "pydict list \<Rightarrow> pydict result" where
  "realized_summary events =
     bind_result (map_result (\<lambda>e. float_or_zero (dget e ''realized_pnl'')) events) (\<lambda>pnls.
     bind_result (map_result (\<lambda>e. int_or_zero (dget e ''realized_quantity'')) events) (\<lambda>quantities.
       Inr ([(''event_count'', PInt (int (length events))),
             (''winning_event_count'', PInt (int (length (filter (\<lambda>p. float_lt (Fin 0) p) pnls)))),
             (''losing_event_count'', PInt (int (length (filter (\<lambda>p. float_lt p (Fin 0)) pnls)))),
             (''flat_event_count'', PInt (int (length (filter (\<lambda>p. float_eq p (Fin 0)) pnls)))),
             (''total_realized_pnl'', rounded_sum pnls),
             (''total_realized_quantity'', PInt (sum_list quantities))] @ safe_flags)))"

definition build_realized_ledger :: "pydict list \<Rightarrow> pyval list \<Rightarrow> pydict result" where
  "build_realized_ledger events applied_fill_keys =
     bind_result (realized_summary events) (\<lambda>summary.
       Inr [(''schema_version'', PStr ''1.0''),
            (''ledger_type'', PStr ''PAPER_REALIZED_PNL_LEDGER''),
            (''events'', PList (map PDict events)),
            (''applied_fill_keys'', PList applied_fill_keys),
            (''summary'', PDict summary),
            (''paper_only'', PBool True),
            (''is_order_action'', PBool False),
            (''broker_api_called'', PBool False),
            (''real_order_id'', PNone)])"

definition safe_realized_ledger :: "pyval \<Rightarrow> pydict result" where
  "safe_realized_ledger previous =
     (if dget (as_dict previous) ''ledger_type'' = PStr ''PAPER_REALIZED_PNL_LEDGER''
      then Inr (as_dict previous) else build_realized_ledger [] [])"

definition append_fill_key :: "pydict \<Rightarrow> string \<Rightarrow> pydict result" where
  "append_fill_key ledger k =
     bind_result (dict_items (dget ledger ''events'')) (\<lambda>events.
     bind_result (list_or_empty (dget ledger ''applied_fill_keys'')) (\<lambda>keys.
       build_realized_ledger events (append_key k keys)))"

definition append_realized_event :: "pydict \<Rightarrow> pydict \<Rightarrow> string \<Rightarrow> pydict result" where
  "append_realized_event ledger realized_event k =
     bind_result (dict_items (dget ledger ''events'')) (\<lambda>events.
     bind_result (list_or_empty (dget ledger ''applied_fill_keys'')) (\<lambda>keys.
       build_realized_ledger (events @ [realized_event]) (append_key k keys)))"

section \<open>The realized quantity and profit\<close>

definition realized_quantity :: "int \<Rightarrow> int \<Rightarrow> int" where
  "realized_quantity previous_net signed_delta =
     (if previous_net = 0 \<or> signed_delta = 0 then 0
      else if 0 \<le> previous_net * signed_delta then 0
      else min \<bar>previous_net\<bar> \<bar>signed_delta\<bar>)"

definition realized_pnl :: "int \<Rightarrow> int \<Rightarrow> pyfloat \<Rightarrow> pyfloat \<Rightarrow> pyfloat result" where
  "realized_pnl previous_net quantity average_entry_price exit_price =
     (if 0 < previous_net then
        bind_result (float_of_int quantity) (\<lambda>q. Inr (py_round (float_mul (float_sub exit_price average_entry_price) q) 6))
      else if previous_net < 0 then
        bind_result (float_of_int quantity) (\<lambda>q. Inr (py_round (float_mul (float_sub average_entry_price exit_price) q) 6))
      else Inr (Fin 0))"

definition previous_position :: "pydict \<Rightarrow> string \<Rightarrow> pydict" where
  "previous_position ledger key = as_dict (dget (as_dict (dget ledger ''positions'')) key)"

definition realized_event ::
  "pydict \<Rightarrow> pydict \<Rightarrow> pydict \<Rightarrow> string \<Rightarrow> int \<Rightarrow> int \<Rightarrow> int \<Rightarrow> pyfloat \<Rightarrow> pyfloat \<Rightarrow> pyfloat \<Rightarrow> pyval \<Rightarrow> pydict" where
  "realized_event intent event position k previous_net signed_delta quantity average_entry_price exit_price pnl ts_epoch =
     [(''schema_version'', PStr ''1.0''),
      (''event_type'', PStr ''PAPER_REALIZED_PNL_EVENT''),
      (''realized_event_id'', PStr (''paper-realized-'' @
         digest16 (join ''|'' [k, int_to_string previous_net, int_to_string signed_delta, int_to_string quantity]))),
      (''fill_key'', PStr k),
      (''paper_order_id'', dget event ''paper_order_id''),
      (''paper_order_intent_id'', dget event ''paper_order_intent_id''),
      (''candidate_id'', dget event ''candidate_id''),
      (''position_key'', dget position ''position_key''),
      (''symbol'', dget position ''symbol''),
      (''tradingsymbol'', dget position ''tradingsymbol''),
      (''instrument_token'', dget position ''instrument_token''),
      (''strategy'', dget position ''strategy''),
      (''transaction_type'', dget intent ''transaction_type''),
      (''previous_net_quantity'', PInt previous_net),
      (''signed_delta_quantity'', PInt signed_delta),
      (''realized_quantity'', PInt quantity),
      (''average_entry_price'', PFloat average_entry_price),
      (''exit_price'', PFloat exit_price),
      (''realized_pnl'', PFloat pnl),
      (''ts_epoch'', ts_epoch),
      (''paper_only'', PBool True),
      (''is_order_action'', PBool False),
      (''broker_api_called'', PBool False),
      (''real_order_id'', PNone)]"

section \<open>Validation\<close>

definition realized_position_blockers :: "pydict \<Rightarrow> string list" where
  "realized_position_blockers ledger =
     (if ledger = [] then [''PREVIOUS_PAPER_POSITION_LEDGER_REQUIRED'']
      else
        add_if (dget ledger ''ledger_type'' \<noteq> PStr ''PAPER_POSITION_LEDGER'')
          ''PREVIOUS_PAPER_POSITION_LEDGER_TYPE_REQUIRED'' @
        validate_safe_flags ''PREVIOUS_PAPER_POSITION_LEDGER'' ledger @
        add_if (\<not> is_dict (dget ledger ''positions'')) ''PREVIOUS_PAPER_POSITION_LEDGER_POSITIONS_INVALID'' @
        add_if (\<not> is_dict (dget ledger ''order_fills'')) ''PREVIOUS_PAPER_POSITION_LEDGER_ORDER_FILLS_INVALID'')"

definition realized_intent_blockers :: "pydict \<Rightarrow> string list" where
  "realized_intent_blockers intent =
     (if intent = [] then [''PAPER_INTENT_REQUIRED'']
      else
        add_if (dget intent ''intent_type'' \<noteq> PStr ''PAPER_ORDER_INTENT'') ''PAPER_INTENT_TYPE_REQUIRED'' @
        validate_safe_flags ''PAPER_INTENT'' intent @
        add_if (upper_text (dget intent ''transaction_type'') \<notin> {''BUY'', ''SELL''}) ''PAPER_TRANSACTION_TYPE_REQUIRED'')"

definition previous_realized_blockers :: "pydict \<Rightarrow> string list" where
  "previous_realized_blockers ledger =
     (if ledger = [] then []
      else
        add_if (dget ledger ''ledger_type'' \<noteq> PStr ''PAPER_REALIZED_PNL_LEDGER'') ''PAPER_REALIZED_PNL_LEDGER_TYPE_REQUIRED'' @
        validate_safe_flags ''PAPER_REALIZED_PNL_LEDGER'' ledger @
        add_if (\<not> is_list (dget ledger ''events'')) ''PAPER_REALIZED_PNL_EVENTS_INVALID'' @
        add_if (\<not> is_list (dget ledger ''applied_fill_keys'')) ''PAPER_REALIZED_PNL_APPLIED_KEYS_INVALID'')"

text \<open>The checks of the lifecycle event and of the ids are those of the position ledger.\<close>

definition validate_realized_inputs ::
  "pyval \<Rightarrow> pyval \<Rightarrow> pyval \<Rightarrow> pyval \<Rightarrow> (string list \<times> string list) result" where
  "validate_realized_inputs position_ledger intent event realized_ledger =
     bind_result (ledger_event_blockers (as_dict event)) (\<lambda>event_bs.
       Inr (dedupe (realized_position_blockers (as_dict position_ledger) @ realized_intent_blockers (as_dict intent) @
                    event_bs @ mismatch_blockers (as_dict intent) (as_dict event) @
                    previous_realized_blockers (as_dict realized_ledger)),
            add_if (realized_ledger = PNone) ''PAPER_REALIZED_PNL_LEDGER_STARTING_EMPTY''))"

definition count_items :: "pyval \<Rightarrow> int" where
  "count_items v = int (length (as_list v))"

definition realized_evidence :: "pydict \<Rightarrow> pydict \<Rightarrow> pydict \<Rightarrow> pydict \<Rightarrow> pydict" where
  "realized_evidence position_ledger intent event realized_ledger =
     [(''previous_position_ledger_type'', dget position_ledger ''ledger_type''),
      (''previous_position_count'', PInt (count_entries (dget position_ledger ''positions''))),
      (''previous_realized_event_count'', PInt (count_items (dget realized_ledger ''events''))),
      (''paper_order_intent_id'', dget intent ''paper_order_intent_id''),
      (''paper_order_id'', dget event ''paper_order_id''),
      (''candidate_id'', dget intent ''candidate_id''),
      (''event_status'', dget event ''status''),
      (''event_filled_quantity'', dget event ''filled_quantity''),
      (''realized_pnl_only'', PBool True)] @ safe_flags"

section \<open>Realizing a fill\<close>

definition unrealized ::
  "realized_status \<Rightarrow> pydict \<Rightarrow> string list \<Rightarrow> string list \<Rightarrow> pydict \<Rightarrow> realized_result" where
  "unrealized status ledger blockers warnings evidence =
     \<lparr>rz_updated = False, rz_status = status, rz_ledger = ledger, rz_event = None, rz_realized_quantity = 0,
      rz_realized_pnl = Fin 0, rz_blockers = blockers, rz_warnings = warnings, rz_evidence = evidence\<rparr>"

record realized_input =
  ri_position_ledger :: pyval
  ri_intent :: pyval
  ri_event :: pyval
  ri_ts_epoch :: pyval

text \<open>The part of \<open>build_paper_realized_pnl\<close> from the position on.\<close>

definition realize_fill ::
  "realized_input \<Rightarrow> pydict \<Rightarrow> pydict \<Rightarrow> pydict \<Rightarrow> pydict \<Rightarrow> string \<Rightarrow> int \<Rightarrow> int \<Rightarrow> string list \<Rightarrow> pydict
   \<Rightarrow> realized_result result" where
  "realize_fill q position_ledger intent event ledger k delta previous_filled warnings evidence =
     (let position = previous_position position_ledger (position_key intent);
          signed_delta = (if upper_text (dget intent ''transaction_type'') = ''BUY'' then delta else - delta);
          keyed = dset ''previous_order_filled_quantity'' (PInt previous_filled) (dset ''fill_key'' (PStr k) evidence)
      in bind_result (int_or_zero (dget position ''net_quantity'')) (\<lambda>previous_net.
         let quantity = realized_quantity previous_net signed_delta
         in if quantity \<le> 0 then
              bind_result (append_fill_key ledger k) (\<lambda>updated.
                Inr (unrealized NO_REALIZED_CHANGE updated []
                       (dedupe (warnings @ [''FILL_DID_NOT_REDUCE_EXISTING_POSITION''])) keyed))
            else
              bind_result (float_or_none (dget position ''average_entry_price'')) (\<lambda>average_entry_price.
              bind_result (float_or_none (dget event ''average_fill_price'')) (\<lambda>exit_price.
              case (average_entry_price, exit_price) of
                (Some avg, Some exit) \<Rightarrow>
                  bind_result (realized_pnl previous_net quantity avg exit) (\<lambda>pnl.
                  bind_result (if ri_ts_epoch q \<noteq> PNone then Inr (ri_ts_epoch q)
                               else bind_result (float_or_none (dget event ''ts_epoch'')) (\<lambda>t. Inr (opt_float t))) (\<lambda>ts.
                  let re = realized_event intent event position k previous_net signed_delta quantity avg exit pnl ts
                  in bind_result (append_realized_event ledger re k) (\<lambda>updated.
                       Inr \<lparr>rz_updated = True, rz_status = REALIZED, rz_ledger = updated, rz_event = Some re,
                            rz_realized_quantity = quantity, rz_realized_pnl = pnl, rz_blockers = [],
                            rz_warnings = warnings, rz_evidence = keyed\<rparr>)))
              | _ \<Rightarrow> Inr (unrealized BLOCKED ledger [''REALIZED_PNL_PRICE_INPUT_REQUIRED''] warnings keyed)))))"

definition build_realized_pnl :: "realized_input \<Rightarrow> pyval \<Rightarrow> realized_result result" where
  "build_realized_pnl q previous_realized_ledger =
     bind_result (validate_realized_inputs (ri_position_ledger q) (ri_intent q) (ri_event q) previous_realized_ledger)
       (\<lambda>(blockers, warnings).
     bind_result (safe_realized_ledger previous_realized_ledger) (\<lambda>ledger.
       let evidence = realized_evidence (as_dict (ri_position_ledger q)) (as_dict (ri_intent q)) (as_dict (ri_event q))
             (as_dict previous_realized_ledger)
       in if blockers \<noteq> [] then Inr (unrealized BLOCKED ledger blockers warnings evidence)
          else if upper_text (dget (as_dict (ri_event q)) ''status'') \<notin> set realized_fill_statuses
          then Inr (unrealized NO_REALIZED_CHANGE ledger [] (dedupe (warnings @ [''NON_FILL_LIFECYCLE_EVENT_IGNORED''])) evidence)
          else
            bind_result (dict_or_empty (ri_intent q)) (\<lambda>intent.
            bind_result (dict_or_empty (ri_event q)) (\<lambda>event.
            bind_result (dict_or_empty (ri_position_ledger q)) (\<lambda>position_ledger.
            let paper_order_id = py_str (dget event ''paper_order_id'')
            in bind_result (int_or_zero (dget event ''filled_quantity'')) (\<lambda>cumulative.
               bind_result (previous_order_fill position_ledger paper_order_id) (\<lambda>previous_filled.
               let filled_evidence = dset ''previous_order_filled_quantity'' (PInt previous_filled) evidence;
                   k = fill_key paper_order_id cumulative
               in if cumulative < previous_filled
                  then Inr (unrealized BLOCKED ledger [''PAPER_FILL_CUMULATIVE_REGRESSION''] warnings filled_evidence)
                  else if cumulative = previous_filled
                  then Inr (unrealized NO_REALIZED_CHANGE ledger []
                         (dedupe (warnings @ [''DUPLICATE_OR_ALREADY_APPLIED_FILL_EVENT''])) filled_evidence)
                  else
                    bind_result (list_or_empty (dget ledger ''applied_fill_keys'')) (\<lambda>keys.
                    bind_result (key_applied k keys) (\<lambda>seen.
                      if seen
                      then Inr (unrealized NO_REALIZED_CHANGE ledger [] (dedupe (warnings @ [''DUPLICATE_REALIZED_PNL_FILL_KEY'']))
                             (dset ''fill_key'' (PStr k) evidence))
                      else realize_fill q position_ledger intent event ledger k (cumulative - previous_filled)
                             previous_filled warnings evidence)))))))))"

section \<open>The invariant of the realized ledger\<close>

definition realized_event_ok :: "pydict \<Rightarrow> bool" where
  "realized_event_ok e \<longleftrightarrow>
     (\<exists>n p. dget e ''realized_quantity'' = PInt n \<and> 0 < n \<and> dget e ''realized_pnl'' = PFloat p)"

definition realized_ledger_of :: "pydict list \<Rightarrow> string list \<Rightarrow> pydict \<Rightarrow> bool" where
  "realized_ledger_of es ks d \<longleftrightarrow>
     distinct ks \<and> length es \<le> length ks \<and> list_all realized_event_ok es \<and>
     build_realized_ledger es (map PStr ks) = Inr d"

definition realized_good :: "pyval \<Rightarrow> bool" where
  "realized_good v \<longleftrightarrow> v = PNone \<or> (\<exists>es ks d. v = PDict d \<and> realized_ledger_of es ks d)"

definition event_quantity :: "pydict \<Rightarrow> int" where
  "event_quantity e = int_field (dget e ''realized_quantity'')"

definition event_pnl :: "pydict \<Rightarrow> pyfloat" where
  "event_pnl e = (case dget e ''realized_pnl'' of PFloat p \<Rightarrow> p | _ \<Rightarrow> Fin 0)"

lemma realized_events_read:
  "list_all realized_event_ok es \<Longrightarrow>
     map_result (\<lambda>e. float_or_zero (dget e ''realized_pnl'')) es = Inr (map event_pnl es) \<and>
     map_result (\<lambda>e. int_or_zero (dget e ''realized_quantity'')) es = Inr (map event_quantity es)"
  by (induction es) (auto simp: realized_event_ok_def event_pnl_def event_quantity_def)

definition summary_of :: "pydict list \<Rightarrow> pydict" where
  "summary_of es =
     [(''event_count'', PInt (int (length es))),
      (''winning_event_count'', PInt (int (length (filter (\<lambda>p. float_lt (Fin 0) p) (map event_pnl es))))),
      (''losing_event_count'', PInt (int (length (filter (\<lambda>p. float_lt p (Fin 0)) (map event_pnl es))))),
      (''flat_event_count'', PInt (int (length (filter (\<lambda>p. float_eq p (Fin 0)) (map event_pnl es))))),
      (''total_realized_pnl'', rounded_sum (map event_pnl es)),
      (''total_realized_quantity'', PInt (sum_list (map event_quantity es)))] @ safe_flags"

lemma realized_summary_ok: "list_all realized_event_ok es \<Longrightarrow> realized_summary es = Inr (summary_of es)"
  using realized_events_read [of es] by (simp add: realized_summary_def summary_of_def)

lemma build_realized_ledger_ok:
  assumes "list_all realized_event_ok es"
  shows "build_realized_ledger es keys =
    Inr [(''schema_version'', PStr ''1.0''), (''ledger_type'', PStr ''PAPER_REALIZED_PNL_LEDGER''),
         (''events'', PList (map PDict es)), (''applied_fill_keys'', PList keys), (''summary'', PDict (summary_of es)),
         (''paper_only'', PBool True), (''is_order_action'', PBool False), (''broker_api_called'', PBool False),
         (''real_order_id'', PNone)]"
  by (simp add: build_realized_ledger_def realized_summary_ok [OF assms])

lemma realized_ledger_get:
  assumes "realized_ledger_of es ks d"
  shows "dget d ''ledger_type'' = PStr ''PAPER_REALIZED_PNL_LEDGER''" "dget d ''events'' = PList (map PDict es)"
    "dget d ''applied_fill_keys'' = PList (map PStr ks)" "dget d ''summary'' = PDict (summary_of es)" "flags_safe d"
proof -
  have "list_all realized_event_ok es" using assms by (simp add: realized_ledger_of_def)
  from build_realized_ledger_ok [OF this, of "map PStr ks"] assms
  have d: "d = [(''schema_version'', PStr ''1.0''), (''ledger_type'', PStr ''PAPER_REALIZED_PNL_LEDGER''),
         (''events'', PList (map PDict es)), (''applied_fill_keys'', PList (map PStr ks)), (''summary'', PDict (summary_of es)),
         (''paper_only'', PBool True), (''is_order_action'', PBool False), (''broker_api_called'', PBool False),
         (''real_order_id'', PNone)]"
    by (simp add: realized_ledger_of_def)
  show "dget d ''ledger_type'' = PStr ''PAPER_REALIZED_PNL_LEDGER''" "dget d ''events'' = PList (map PDict es)"
    "dget d ''applied_fill_keys'' = PList (map PStr ks)" "dget d ''summary'' = PDict (summary_of es)" "flags_safe d"
    by (simp_all add: d flags_safe_def)
qed

lemma realized_ledger_empty: "\<exists>d. build_realized_ledger [] [] = Inr d \<and> realized_ledger_of [] [] d"
  using build_realized_ledger_ok [of "[]" "[]"] by (simp add: realized_ledger_of_def)

text \<open>The ledger that a call starts from.\<close>

definition starts_from :: "pyval \<Rightarrow> pydict list \<Rightarrow> string list \<Rightarrow> pydict \<Rightarrow> bool" where
  "starts_from v es ks d \<longleftrightarrow> safe_realized_ledger v = Inr d \<and> realized_ledger_of es ks d"

lemma starts_from_exists:
  assumes "realized_good v" obtains es ks d where "starts_from v es ks d"
proof (cases "v = PNone")
  case True
  with realized_ledger_empty that show ?thesis by (auto simp: starts_from_def safe_realized_ledger_def)
next
  case False
  then obtain es ks d where d: "v = PDict d" "realized_ledger_of es ks d" using assms by (auto simp: realized_good_def)
  then have "safe_realized_ledger v = Inr d" by (simp add: safe_realized_ledger_def realized_ledger_get(1))
  with d that show ?thesis by (simp add: starts_from_def)
qed

lemma starts_from_PDict: "realized_ledger_of es ks d \<Longrightarrow> starts_from (PDict d) es ks d"
  by (simp add: starts_from_def safe_realized_ledger_def realized_ledger_get(1))

lemma starts_from_start: "starts_from PNone es ks d \<Longrightarrow> es = [] \<and> ks = []"
proof -
  assume st: "starts_from PNone es ks d"
  then have "build_realized_ledger [] [] = Inr d" by (simp add: starts_from_def safe_realized_ledger_def)
  then have "dget d ''events'' = PList []" "dget d ''applied_fill_keys'' = PList []"
    by (auto simp: build_realized_ledger_def)
  with st show ?thesis by (auto simp: starts_from_def realized_ledger_get(2,3))
qed

lemma previous_realized_accepted:
  assumes "realized_good v" shows "previous_realized_blockers (as_dict v) = []"
proof (cases "v = PNone")
  case False
  with assms obtain es ks d where "v = PDict d" "realized_ledger_of es ks d" by (auto simp: realized_good_def)
  then show ?thesis by (simp add: previous_realized_blockers_def realized_ledger_get)
qed (simp add: previous_realized_blockers_def)

lemma append_fill_key_of:
  assumes "realized_ledger_of es ks d" "k \<notin> set ks" "append_fill_key d k = Inr d'"
  shows "realized_ledger_of es (ks @ [k]) d'"
  using assms by (simp add: append_fill_key_def realized_ledger_get append_key_texts) (simp add: realized_ledger_of_def)

lemma append_realized_event_of:
  assumes "realized_ledger_of es ks d" "k \<notin> set ks" "append_realized_event d e k = Inr d'" "realized_event_ok e"
  shows "realized_ledger_of (es @ [e]) (ks @ [k]) d'"
  using assms by (simp add: append_realized_event_def realized_ledger_get append_key_texts) (simp add: realized_ledger_of_def)

lemma realized_event_fields:
  "dget (realized_event i e p k n d q a x pnl ts) ''realized_quantity'' = PInt q"
  "dget (realized_event i e p k n d q a x pnl ts) ''realized_pnl'' = PFloat pnl"
  by (simp_all add: realized_event_def)

lemma realized_quantity_bounds:
  "0 \<le> realized_quantity n d" "realized_quantity n d \<le> \<bar>n\<bar>" "realized_quantity n d \<le> \<bar>d\<bar>"
  by (simp_all add: realized_quantity_def)

lemma realized_quantity_exposure: "2 * realized_quantity n d = \<bar>n\<bar> + \<bar>d\<bar> - \<bar>n + d\<bar>"
  by (auto simp: realized_quantity_def zero_le_mult_iff abs_if min_def)

section \<open>What a call does\<close>

definition realized_usable :: "realized_input \<Rightarrow> bool" where
  "realized_usable q \<longleftrightarrow>
     (let i = as_dict (ri_intent q); e = as_dict (ri_event q)
      in i \<noteq> [] \<and> dget i ''intent_type'' = PStr ''PAPER_ORDER_INTENT'' \<and> flags_safe i \<and>
         upper_text (dget i ''transaction_type'') \<in> {''BUY'', ''SELL''} \<and> event_usable e \<and>
         (\<forall>k \<in> {''paper_order_intent_id'', ''candidate_id''}. py_str (dget i k) = py_str (dget e k)))"

text \<open>The fill that an input stands for.\<close>

definition realized_fill :: "realized_input \<Rightarrow> order_fill option" where
  "realized_fill q =
     (let i = as_dict (ri_intent q); e = as_dict (ri_event q)
      in if realized_usable q \<and> upper_text (dget e ''status'') \<in> set realized_fill_statuses
         then Some \<lparr>of_order = py_str (dget e ''paper_order_id''), of_position = position_key i,
                    of_buy = (upper_text (dget i ''transaction_type'') = ''BUY''),
                    of_quantity = (case int_or_zero (dget e ''filled_quantity'') of Inr n \<Rightarrow> n | Inl _ \<Rightarrow> 0)\<rparr>
         else None)"

lemma realized_intent_accepted:
  "list_all blank (realized_intent_blockers i) \<longleftrightarrow>
     i \<noteq> [] \<and> dget i ''intent_type'' = PStr ''PAPER_ORDER_INTENT'' \<and> flags_safe i \<and>
     upper_text (dget i ''transaction_type'') \<in> {''BUY'', ''SELL''}"
  by (simp add: realized_intent_blockers_def)

lemma ledger_ok_position_accepted: "ledger_ok d \<Longrightarrow> realized_position_blockers d = []"
  by (auto simp: realized_position_blockers_def ledger_ok_def)

lemma validate_realized_accepted:
  assumes val: "validate_realized_inputs (PDict d) (ri_intent q) (ri_event q) v = Inr (bs, ws)"
    and "ledger_ok d" "realized_good v"
  shows "bs = [] \<longleftrightarrow> realized_usable q"
proof -
  let ?i = "as_dict (ri_intent q)" and ?e = "as_dict (ri_event q)"
  obtain eb where eb: "ledger_event_blockers ?e = Inr eb"
    and bs: "bs = dedupe (realized_position_blockers d @ realized_intent_blockers ?i @ eb @ mismatch_blockers ?i ?e @
      previous_realized_blockers (as_dict v))"
    using val by (auto simp: validate_realized_inputs_def)
  have "bs = [] \<longleftrightarrow> list_all blank (realized_intent_blockers ?i) \<and> event_usable ?e \<and> list_all blank (mismatch_blockers ?i ?e)"
    by (simp add: bs ledger_ok_position_accepted [OF assms(2)] previous_realized_accepted [OF assms(3)] event_accepted [OF eb])
  also have "\<dots> \<longleftrightarrow> realized_usable q"
    using mismatch_accepted [of ?i ?e]
    by (auto simp: realized_intent_accepted realized_usable_def Let_def event_usable_def)
  finally show ?thesis .
qed

lemma unrealized_simps [simp]:
  "rz_updated (unrealized st d bs ws ev) = False" "rz_ledger (unrealized st d bs ws ev) = d"
  "rz_status (unrealized st d bs ws ev) = st" "rz_realized_quantity (unrealized st d bs ws ev) = 0"
  by (simp_all add: unrealized_def)

text \<open>The stored average of the position and the price of the fill.\<close>

definition entry_price :: "pydict \<Rightarrow> string \<Rightarrow> pyfloat option result" where
  "entry_price d key = float_or_none (dget (previous_position d key) ''average_entry_price'')"

definition exit_price :: "realized_input \<Rightarrow> pyfloat option result" where
  "exit_price q = float_or_none (dget (as_dict (ri_event q)) ''average_fill_price'')"

text \<open>Applying a new fill of the signed quantity \<open>sd\<close> to a position with the net quantity \<open>n\<close>.\<close>

definition realization ::
  "realized_input \<Rightarrow> pydict \<Rightarrow> pydict list \<Rightarrow> string list \<Rightarrow> pydict \<Rightarrow> string \<Rightarrow> string \<Rightarrow> int \<Rightarrow> int \<Rightarrow> realized_result \<Rightarrow> bool" where
  "realization q d es ks dl key k n sd r \<longleftrightarrow>
     (if realized_quantity n sd = 0
      then \<not> rz_updated r \<and> rz_status r = NO_REALIZED_CHANGE \<and> realized_ledger_of es (ks @ [k]) (rz_ledger r)
      else (case (entry_price d key, exit_price q) of
             (Inr (Some avg), Inr (Some exit)) \<Rightarrow>
               rz_updated r \<and> rz_realized_quantity r = realized_quantity n sd \<and>
               realized_pnl n (realized_quantity n sd) avg exit = Inr (rz_realized_pnl r) \<and>
               (\<exists>e. event_quantity e = realized_quantity n sd \<and> event_pnl e = rz_realized_pnl r \<and> rz_event r = Some e \<and>
                  realized_ledger_of (es @ [e]) (ks @ [k]) (rz_ledger r))
           | _ \<Rightarrow> \<not> rz_updated r \<and> rz_ledger r = dl \<and> rz_status r = BLOCKED))"

definition fill_outcome ::
  "realized_input \<Rightarrow> pydict \<Rightarrow> pydict list \<Rightarrow> string list \<Rightarrow> pydict \<Rightarrow> order_fill \<Rightarrow> realized_result \<Rightarrow> bool" where
  "fill_outcome q d es ks dl f r \<longleftrightarrow>
     (let b = book_of (PDict d); k = fill_key (of_order f) (of_quantity f)
      in if applicable f b \<and> k \<notin> set ks
         then realization q d es ks dl (of_position f) k (bk_nets b (of_position f))
                (signed_qty (of_buy f) (of_quantity f - bk_fills b (of_order f))) r
         else \<not> rz_updated r \<and> rz_ledger r = dl)"

definition realized_outcome ::
  "realized_input \<Rightarrow> pydict \<Rightarrow> pydict list \<Rightarrow> string list \<Rightarrow> pydict \<Rightarrow> realized_result \<Rightarrow> bool" where
  "realized_outcome q d es ks dl r \<longleftrightarrow>
     (case realized_fill q of
        None \<Rightarrow> \<not> rz_updated r \<and> rz_ledger r = dl
      | Some f \<Rightarrow> fill_outcome q d es ks dl f r)"

lemma realize_fill_outcome:
  assumes run: "realize_fill q d i (as_dict (ri_event q)) dl k delta prev ws ev = Inr r"
    and dl: "realized_ledger_of es ks dl" and k: "k \<notin> set ks"
    and net: "int_or_zero (dget (previous_position d (position_key i)) ''net_quantity'') = Inr n"
  defines "sd \<equiv> signed_qty (upper_text (dget i ''transaction_type'') = ''BUY'') delta"
  shows "realization q d es ks dl (position_key i) k n sd r"
proof (cases "realized_quantity n sd = 0")
  case True
  with run net obtain d' ws' ev' where "append_fill_key dl k = Inr d'" "r = unrealized NO_REALIZED_CHANGE d' [] ws' ev'"
    by (auto simp: realize_fill_def Let_def sd_def signed_qty_def [symmetric])
  with True append_fill_key_of [OF dl k] show ?thesis by (simp add: realization_def)
next
  case False
  then have pos: "\<not> realized_quantity n sd \<le> 0" using realized_quantity_bounds(1) [of n sd] by linarith
  note steps = realize_fill_def Let_def net bind_result_simps signed_qty_def [symmetric] sd_def [symmetric]
      if_not_P [OF pos] entry_price_def [symmetric] exit_price_def [symmetric]
  obtain avg where avg: "entry_price d (position_key i) = Inr avg"
    using run [unfolded steps] by (cases "entry_price d (position_key i)") simp_all
  obtain x where x: "exit_price q = Inr x"
    using run [unfolded steps avg] by (cases "exit_price q") simp_all
  note prices = avg x
  show ?thesis
  proof (cases "avg = None \<or> x = None")
    case True
    have "rz_updated r = False \<and> rz_ledger r = dl \<and> rz_status r = BLOCKED"
      using run [unfolded steps prices] True by (cases avg; cases x) auto
    with True False prices show ?thesis by (cases avg; cases x) (auto simp: realization_def)
  next
    case some: False
    then obtain a y where ay: "avg = Some a" "x = Some y" using some by (cases avg; cases x) auto
    note run' = run [unfolded steps prices ay option.case prod.case bind_result_eq_Inr]
    from run'
    obtain pnl ts d' where pnl: "realized_pnl n (realized_quantity n sd) a y = Inr pnl"
      and d': "append_realized_event dl (realized_event i (as_dict (ri_event q)) (previous_position d (position_key i)) k n sd
          (realized_quantity n sd) a y pnl ts) k = Inr d'"
      and r: "r = \<lparr>rz_updated = True, rz_status = REALIZED, rz_ledger = d', rz_event = Some (realized_event i (as_dict (ri_event q))
           (previous_position d (position_key i)) k n sd (realized_quantity n sd) a y pnl ts),
           rz_realized_quantity = realized_quantity n sd, rz_realized_pnl = pnl, rz_blockers = [], rz_warnings = ws,
           rz_evidence = dset ''previous_order_filled_quantity'' (PInt prev) (dset ''fill_key'' (PStr k) ev)\<rparr>"
      by (elim exE conjE) (rule that, assumption, assumption, rule sym, rule Inr_inject)
    let ?e = "realized_event i (as_dict (ri_event q)) (previous_position d (position_key i)) k n sd (realized_quantity n sd) a y pnl ts"
    have "realized_event_ok ?e" using pos by (simp add: realized_event_ok_def realized_event_fields)
    from append_realized_event_of [OF dl k d' this] False
    show ?thesis
      by (simp add: realization_def prices ay r pnl event_quantity_def event_pnl_def realized_event_fields)
  qed
qed


lemma previous_net:
  assumes "ledger_ok d"
  shows "int_or_zero (dget (previous_position d key) ''net_quantity'') = Inr (bk_nets (book_of (PDict d)) key)"
proof -
  obtain ps fs where ps: "dget d ''positions'' = PDict ps" "dget d ''order_fills'' = PDict fs"
    "\<And>k v. map_of ps k = Some v \<Longrightarrow> position_ok k v"
    using assms unfolding ledger_ok_def by blast
  show ?thesis
  proof (cases "map_of ps key")
    case None
    then show ?thesis by (simp add: book_of_ledger [OF assms ps(1,2)] previous_position_def ps(1) dget_def [of ps])
  next
    case (Some v)
    with ps(3) obtain p n where "v = PDict p" "dget p ''net_quantity'' = PInt n" unfolding position_ok_def by blast
    with Some show ?thesis by (simp add: book_of_ledger [OF assms ps(1,2)] previous_position_def ps(1) dget_def [of ps])
  qed
qed

lemma realized_payloads:
  assumes "realized_usable q"
  shows "dict_or_empty (ri_intent q) = Inr (as_dict (ri_intent q))" "dict_or_empty (ri_event q) = Inr (as_dict (ri_event q))"
proof -
  have "as_dict (ri_intent q) \<noteq> []" "as_dict (ri_event q) \<noteq> []"
    using assms by (simp_all add: realized_usable_def event_usable_def Let_def)
  then show "dict_or_empty (ri_intent q) = Inr (as_dict (ri_intent q))" "dict_or_empty (ri_event q) = Inr (as_dict (ri_event q))"
    by (auto simp: as_dict_nonempty)
qed

lemma build_realized_outcome:
  assumes pl: "ri_position_ledger q = PDict d" "ledger_ok d" and v: "realized_good v"
    and st: "starts_from v es ks dl" and built: "build_realized_pnl q v = Inr r"
  shows "realized_outcome q d es ks dl r"
proof -
  let ?i = "as_dict (ri_intent q)" and ?e = "as_dict (ri_event q)" and ?b = "book_of (PDict d)"
  let ?oid = "py_str (dget ?e ''paper_order_id'')"
  obtain bs ws where val: "validate_realized_inputs (PDict d) (ri_intent q) (ri_event q) v = Inr (bs, ws)"
    using built by (auto simp: build_realized_pnl_def pl)
  have usable: "bs = [] \<longleftrightarrow> realized_usable q" by (rule validate_realized_accepted [OF val pl(2) v])
  have dl: "safe_realized_ledger v = Inr dl" "realized_ledger_of es ks dl" using st by (simp_all add: starts_from_def)
  have d: "dict_or_empty (PDict d) = Inr d" by simp
  show ?thesis
  proof (cases "realized_usable q \<and> upper_text (dget ?e ''status'') \<in> set realized_fill_statuses")
    case False
    then have "\<not> rz_updated r \<and> rz_ledger r = dl"
      using built usable realized_payloads [of q]
      by (cases "realized_usable q") (auto simp: build_realized_pnl_def pl val dl(1) Let_def)
    moreover have "realized_fill q = None" using False by (auto simp: realized_fill_def Let_def)
    ultimately show ?thesis by (simp add: realized_outcome_def)
  next
    case True
    note payloads = realized_payloads [of q, OF True [THEN conjunct1]]
    obtain c where c: "int_or_zero (dget ?e ''filled_quantity'') = Inr c"
      using True by (auto simp: realized_usable_def event_usable_def Let_def split: sum.splits)
    let ?f = "\<lparr>of_order = ?oid, of_position = position_key ?i,
        of_buy = (upper_text (dget ?i ''transaction_type'') = ''BUY''), of_quantity = c\<rparr>"
    have f: "realized_fill q = Some ?f" using True by (simp add: realized_fill_def Let_def c)
    obtain prev where prev: "previous_order_fill d ?oid = Inr prev" using previous_fill_total [OF pl(2)] by blast
    have pv: "bk_fills ?b ?oid = prev"
      using previous_fill_field(1) [OF pl(2) prev] pl(2) by (simp add: book_of_def Let_def)
    let ?k = "fill_key ?oid c"
    have keys: "list_or_empty (dget dl ''applied_fill_keys'') = Inr (map PStr ks)"
      by (simp add: realized_ledger_get(3) [OF dl(2)])
    have bs: "bs = []" using True usable by simp
    note run = built [unfolded build_realized_pnl_def pl val dl(1) bind_result_simps prod.case Let_def payloads d c prev keys
        key_applied_texts bs]
    show ?thesis
    proof (cases "applicable ?f ?b \<and> ?k \<notin> set ks")
      case False
      have "\<not> rz_updated r \<and> rz_ledger r = dl"
        using run False True by (auto simp: applicable_def pv split: if_splits)
      with False show ?thesis by (auto simp: realized_outcome_def f fill_outcome_def Let_def)
    next
      case app: True
      with run True obtain ev where
        "realize_fill q d ?i ?e dl ?k (c - prev) prev ws ev = Inr r"
        by (auto simp: applicable_def pv)
      from realize_fill_outcome [OF this dl(2) _ previous_net [OF pl(2)]] app
      show ?thesis by (simp add: realized_outcome_def f fill_outcome_def Let_def pv)
    qed
  qed
qed


section \<open>Sessions\<close>

text \<open>The key of the fill that an input reports.\<close>

definition input_key :: "realized_input \<Rightarrow> string" where
  "input_key q = (let e = as_dict (ri_event q)
     in fill_key (py_str (dget e ''paper_order_id''))
          (case int_or_zero (dget e ''filled_quantity'') of Inr n \<Rightarrow> n | Inl _ \<Rightarrow> 0))"

text \<open>What a call does to the realized ledger, whatever position ledger it is given.\<close>

definition keeps_or_adds :: "realized_input \<Rightarrow> pydict list \<Rightarrow> string list \<Rightarrow> pydict \<Rightarrow> realized_result \<Rightarrow> bool" where
  "keeps_or_adds q es ks dl r \<longleftrightarrow>
     \<not> rz_updated r \<and> rz_ledger r = dl \<or>
     input_key q \<notin> set ks \<and> (\<exists>es'. realized_ledger_of (es @ es') (ks @ [input_key q]) (rz_ledger r))"

lemma realization_adds:
  assumes "realization q d es ks dl key (input_key q) n sd r" "input_key q \<notin> set ks"
  shows "keeps_or_adds q es ks dl r"
proof (cases "realized_quantity n sd = 0")
  case True
  with assms have "realized_ledger_of (es @ []) (ks @ [input_key q]) (rz_ledger r)" by (simp add: realization_def)
  with assms(2) show ?thesis unfolding keeps_or_adds_def by blast
next
  case False
  show ?thesis
  proof (cases "\<exists>avg exit. entry_price d key = Inr (Some avg) \<and> exit_price q = Inr (Some exit)")
    case True
    then obtain avg exit where "entry_price d key = Inr (Some avg)" "exit_price q = Inr (Some exit)" by blast
    with assms False show ?thesis by (auto simp: realization_def keeps_or_adds_def)
  next
    case unpriced: False
    have "\<not> rz_updated r \<and> rz_ledger r = dl"
      using assms(1) False unpriced
      by (cases "entry_price d key"; cases "exit_price q"; simp add: realization_def split: option.splits)
    then show ?thesis by (simp add: keeps_or_adds_def)
  qed
qed

lemma build_realized_keeps_or_adds:
  assumes st: "starts_from v es ks dl" and built: "build_realized_pnl q v = Inr r"
  shows "keeps_or_adds q es ks dl r"
proof -
  let ?e = "as_dict (ri_event q)"
  have dl: "safe_realized_ledger v = Inr dl" "realized_ledger_of es ks dl" using st by (simp_all add: starts_from_def)
  obtain bs ws where val: "validate_realized_inputs (ri_position_ledger q) (ri_intent q) (ri_event q) v = Inr (bs, ws)"
    using built by (auto simp: build_realized_pnl_def)
  note start = build_realized_pnl_def val dl(1) bind_result_simps prod.case Let_def
  show ?thesis
  proof (cases "bs \<noteq> [] \<or> upper_text (dget ?e ''status'') \<notin> set realized_fill_statuses")
    case True
    with built show ?thesis by (auto simp: start keeps_or_adds_def split: if_splits)
  next
    case False
    then have fill: "\<not> (bs \<noteq> [])" "\<not> upper_text (dget ?e ''status'') \<notin> set realized_fill_statuses" by blast+
    obtain eb where "ledger_event_blockers ?e = Inr eb" "list_all blank eb"
      using val fill by (auto simp: validate_realized_inputs_def)
    then have "event_usable ?e" using event_accepted by blast
    then have ev: "dict_or_empty (ri_event q) = Inr ?e" by (auto simp: event_usable_def as_dict_nonempty)
    have keys: "list_or_empty (dget dl ''applied_fill_keys'') = Inr (map PStr ks)"
      by (simp add: realized_ledger_get(3) [OF dl(2)])
    obtain i d c prev where pl: "dict_or_empty (ri_intent q) = Inr i" "dict_or_empty (ri_position_ledger q) = Inr d"
      and c: "int_or_zero (dget ?e ''filled_quantity'') = Inr c"
      and prev: "previous_order_fill d (py_str (dget ?e ''paper_order_id'')) = Inr prev"
      using built [unfolded start if_not_P [OF fill(1)] if_not_P [OF fill(2)] ev bind_result_eq_Inr] by blast
    have k: "input_key q = fill_key (py_str (dget ?e ''paper_order_id'')) c" by (simp add: input_key_def Let_def c)
    note run = built [unfolded start if_not_P [OF fill(1)] if_not_P [OF fill(2)] ev pl c prev keys key_applied_texts
        k [symmetric]]
    show ?thesis
    proof (cases "prev < c \<and> input_key q \<notin> set ks")
      case False
      with run show ?thesis by (auto simp: keeps_or_adds_def split: if_splits)
    next
      case True
      with run obtain ev' where rf: "realize_fill q d i ?e dl (input_key q) (c - prev) prev ws ev' = Inr r" by auto
      then obtain n where "int_or_zero (dget (previous_position d (position_key i)) ''net_quantity'') = Inr n"
        unfolding realize_fill_def Let_def bind_result_eq_Inr by blast
      from realize_fill_outcome [OF rf dl(2) _ this] True show ?thesis by (blast intro: realization_adds)
    qed
  qed
qed

text \<open>A caller that keeps its ledger when a call raises.\<close>

definition realized_step :: "realized_input \<Rightarrow> pyval \<Rightarrow> pyval" where
  "realized_step q v = (case build_realized_pnl q v of Inr r \<Rightarrow> PDict (rz_ledger r) | Inl _ \<Rightarrow> v)"

lemma realized_step_starts:
  assumes "starts_from v es ks dl"
  shows "\<exists>es' ks' dl'. starts_from (realized_step q v) es' ks' dl' \<and> set ks \<subseteq> set ks'"
proof (cases "build_realized_pnl q v")
  case (Inl e)
  with assms show ?thesis by (auto simp: realized_step_def)
next
  case (Inr r)
  from build_realized_keeps_or_adds [OF assms Inr]
  have "\<exists>es' ks'. realized_ledger_of es' ks' (rz_ledger r) \<and> set ks \<subseteq> set ks'"
    unfolding keeps_or_adds_def
  proof
    assume "\<not> rz_updated r \<and> rz_ledger r = dl"
    with assms show ?thesis by (auto simp: starts_from_def)
  next
    assume "input_key q \<notin> set ks \<and> (\<exists>es'. realized_ledger_of (es @ es') (ks @ [input_key q]) (rz_ledger r))"
    then obtain es' where "realized_ledger_of (es @ es') (ks @ [input_key q]) (rz_ledger r)" by blast
    moreover have "set ks \<subseteq> set (ks @ [input_key q])" by auto
    ultimately show ?thesis by blast
  qed
  with Inr show ?thesis by (auto simp: realized_step_def intro: starts_from_PDict)
qed

lemma realized_good_starts: "starts_from v es ks d \<Longrightarrow> v = PNone \<or> v = PDict d \<Longrightarrow> realized_good v"
  by (auto simp: starts_from_def realized_good_def)

interpretation realized_run: driven_component realized_step realized_good
proof unfold_locales
  fix q v assume good: "realized_good v"
  then obtain es ks dl where st: "starts_from v es ks dl" by (rule starts_from_exists)
  show "realized_good (realized_step q v)"
  proof (cases "build_realized_pnl q v")
    case (Inr r)
    from build_realized_keeps_or_adds [OF st Inr] st show ?thesis
      by (auto simp: realized_step_def Inr realized_good_def keeps_or_adds_def starts_from_def)
  qed (simp add: realized_step_def good)
qed

interpretation realized_report: paper_report realized_result_to_dict realized_result_keys
  by unfold_locales (simp_all add: realized_result_to_dict_def realized_result_keys_def has_key_def flags_safe_def)

lemma keys_kept_by_run:
  "starts_from v es ks dl \<Longrightarrow> \<exists>es' ks' dl'. starts_from (fold realized_step qs v) es' ks' dl' \<and> set ks \<subseteq> set ks'"
proof (induction qs arbitrary: v es ks dl)
  case (Cons q qs)
  from realized_step_starts [OF Cons.prems, of q] obtain es' ks' dl' where
    s: "starts_from (realized_step q v) es' ks' dl'" "set ks \<subseteq> set ks'" by blast
  from Cons.IH [OF s(1)] s(2) show ?case by (simp) blast
qed auto


text \<open>A sale of 5 against a long position of 20, for the witnesses.\<close>

definition demo_long :: pydict where
  "demo_long =
     (''position_key'', PStr ''NIFTY'') # (''net_quantity'', PInt 20) # (''side'', PStr ''LONG'') #
     (''average_entry_price'', PFloat (Fin 100)) # safe_flags"

definition demo_long_ledger :: pydict where
  "demo_long_ledger = build_ledger [(''NIFTY'', PDict demo_long)] [(''o1'', PInt 20)] None"

definition demo_exit :: "string \<Rightarrow> realized_input" where
  "demo_exit oid =
     \<lparr>ri_position_ledger = PDict demo_long_ledger,
      ri_intent = PDict ([(''intent_type'', PStr ''PAPER_ORDER_INTENT''), (''paper_order_intent_id'', PStr ''i2''),
        (''candidate_id'', PStr ''c2''), (''symbol'', PStr ''NIFTY''), (''quantity'', PInt 5),
        (''transaction_type'', PStr ''SELL'')] @ safe_flags),
      ri_event = PDict ([(''event_type'', PStr ''PAPER_ORDER_LIFECYCLE_EVENT''), (''paper_order_id'', PStr oid),
        (''paper_order_intent_id'', PStr ''i2''), (''candidate_id'', PStr ''c2''), (''status'', PStr ''FILLED''),
        (''filled_quantity'', PInt 5), (''average_fill_price'', PFloat (Fin 110))] @ safe_flags),
      ri_ts_epoch = PFloat (Fin 2)\<rparr>"

lemma demo_long_ledger_ok: "ledger_ok demo_long_ledger"
proof -
  have "ledger_ok (build_ledger (dset ''NIFTY'' (PDict demo_long) []) (dset ''o1'' (PInt 20) []) None)"
  proof (rule ledger_ok_put [where d = "build_ledger [] [] None"])
    show "position_ok ''NIFTY'' (PDict demo_long)"
      by (rule position_okI [where n = 20 and a = "Some (Fin 100)"])
        (simp_all add: demo_long_def safe_flags_def flags_safe_def side_of_def)
  qed (use ledger_good_safe [OF ledger_good_start] in \<open>simp_all add: safe_ledger_def\<close>)
  then show ?thesis by (simp add: demo_long_ledger_def)
qed

lemma demo_exit_position: "ri_position_ledger (demo_exit oid) = PDict demo_long_ledger"
  by (simp add: demo_exit_def)

lemma demo_exit_usable: "oid \<noteq> [] \<Longrightarrow> realized_usable (demo_exit oid)"
  by (simp add: realized_usable_def demo_exit_def Let_def event_usable_def flags_safe_def safe_flags_def)

lemma demo_exit_fill: "oid \<noteq> [] \<Longrightarrow> realized_fill (demo_exit oid) =
    Some \<lparr>of_order = oid, of_position = ''NIFTY'', of_buy = False, of_quantity = 5\<rparr>"
  using demo_exit_usable [of oid]
  by (simp add: realized_fill_def Let_def) (simp add: demo_exit_def realized_fill_statuses_def position_key_def safe_flags_def)

lemma starts_from_None: "\<exists>d. starts_from PNone [] [] d"
  using realized_ledger_empty by (simp add: starts_from_def safe_realized_ledger_def)


lemma demo_exit_net: "int_or_zero (dget (previous_position demo_long_ledger ''NIFTY'') ''net_quantity'') = Inr 20"
  "entry_price demo_long_ledger ''NIFTY'' = Inr (Some (Fin 100))" "previous_order_fill demo_long_ledger ''o2'' = Inr 0"
  by (simp_all add: demo_long_ledger_def previous_position_def demo_long_def entry_price_def previous_order_fill_def)

lemma demo_exit_book:
  "bk_nets (book_of (PDict demo_long_ledger)) ''NIFTY'' = 20" "bk_fills (book_of (PDict demo_long_ledger)) ''o2'' = 0"
  by (simp_all add: demo_long_ledger_def book_of_build demo_long_def)

lemma demo_exit_payloads [simp]:
  "dget (as_dict (ri_intent (demo_exit oid))) ''transaction_type'' = PStr ''SELL''"
  "position_key (as_dict (ri_intent (demo_exit oid))) = ''NIFTY''"
  "dget (as_dict (ri_event (demo_exit oid))) ''status'' = PStr ''FILLED''"
  "dget (as_dict (ri_event (demo_exit oid))) ''paper_order_id'' = PStr oid"
  "dget (as_dict (ri_event (demo_exit oid))) ''filled_quantity'' = PInt 5"
  "exit_price (demo_exit oid) = Inr (Some (Fin 110))" "ri_ts_epoch (demo_exit oid) = PFloat (Fin 2)"
  by (simp_all add: demo_exit_def position_key_def safe_flags_def exit_price_def)

lemma demo_exit_built: "\<exists>r. build_realized_pnl (demo_exit ''o2'') PNone = Inr r"
proof -
  let ?q = "demo_exit ''o2''" and ?d = demo_long_ledger
  let ?i = "as_dict (ri_intent ?q)" and ?e = "as_dict (ri_event ?q)"
  obtain dl where dl: "safe_realized_ledger PNone = Inr dl" "realized_ledger_of [] [] dl"
    using starts_from_None by (auto simp: starts_from_def)
  have eb: "\<exists>eb. ledger_event_blockers ?e = Inr eb" by (simp add: ledger_event_blockers_def)
  obtain bs ws where val: "validate_realized_inputs (PDict ?d) (ri_intent ?q) (ri_event ?q) PNone = Inr (bs, ws)"
    using eb by (auto simp: validate_realized_inputs_def)
  have bs: "bs = []"
    using validate_realized_accepted [OF val demo_long_ledger_ok] demo_exit_usable [of "''o2''"] by (simp add: realized_good_def)
  have fill: "\<exists>r. realize_fill ?q ?d ?i ?e dl k 5 0 ws ev = Inr r" for k ev
  proof -
    have price: "float_or_none (dget ?e ''average_fill_price'') = Inr (Some (Fin 110))"
      "float_or_none (dget (previous_position ?d ''NIFTY'') ''average_entry_price'') = Inr (Some (Fin 100))"
      using demo_exit_payloads(6) demo_exit_net(2) by (simp_all add: exit_price_def entry_price_def)
    have pnl: "\<exists>p. realized_pnl 20 5 (Fin 100) (Fin 110) = Inr p"
      by (simp add: realized_pnl_def float_of_int_exact)
    then obtain p where p: "realized_pnl 20 5 (Fin 100) (Fin 110) = Inr p" ..
    have "\<exists>d'. append_realized_event dl (realized_event ?i ?e (previous_position ?d ''NIFTY'') k 20 (- 5) 5 (Fin 100) (Fin 110) p (PFloat (Fin 2))) k
        = Inr d'"
      using build_realized_ledger_ok [of "[realized_event ?i ?e (previous_position ?d ''NIFTY'') k 20 (- 5) 5 (Fin 100) (Fin 110) p (PFloat (Fin 2))]"]
      by (simp add: append_realized_event_def realized_ledger_get [OF dl(2)] realized_event_ok_def realized_event_fields)
    then show ?thesis
      by (auto simp: realize_fill_def Let_def demo_exit_net realized_quantity_def price p)
  qed
  have keys: "list_or_empty (dget dl ''applied_fill_keys'') = Inr []" by (simp add: realized_ledger_get(3) [OF dl(2)])
  note payloads = realized_payloads [OF demo_exit_usable [of "''o2''"], simplified]
  show ?thesis
    using fill
    by (simp add: build_realized_pnl_def demo_exit_position val dl(1) bs Let_def realized_fill_statuses_def payloads
        demo_exit_net(3) keys key_applied_def)
qed

section \<open>Properties\<close>



text \<open>
  The realized quantity of a fill is half the gross exposure that it takes out of the
  position: the exposure before, plus the fill, minus the exposure after.
\<close>

theorem realized_quantity_is_exposure_reduction:
  "realized_quantity n d = (\<bar>n\<bar> + \<bar>d\<bar> - \<bar>n + d\<bar>) div 2"
  using realized_quantity_exposure [of n d] by linarith

text \<open>
  A fill is realized at most once: after a call that realized a fill, no later call of the
  session, on whatever position ledger, realizes a fill of the same order with the same
  cumulative quantity.
\<close>

theorem fill_realized_once:
  assumes "realized_good v" "build_realized_pnl q v = Inr r" "rz_updated r"
    and "input_key q' = input_key q"
    and "build_realized_pnl q' (fold realized_step qs (PDict (rz_ledger r))) = Inr r'"
  shows "\<not> rz_updated r'"
proof -
  obtain es ks dl where st: "starts_from v es ks dl" using assms(1) by (rule starts_from_exists)
  from build_realized_keeps_or_adds [OF st assms(2)] assms(3) obtain es1 where
    "realized_ledger_of es1 (ks @ [input_key q]) (rz_ledger r)" by (auto simp: keeps_or_adds_def)
  from keys_kept_by_run [OF starts_from_PDict [OF this], of qs] obtain es2 ks2 dl2 where
    st2: "starts_from (fold realized_step qs (PDict (rz_ledger r))) es2 ks2 dl2" and "input_key q \<in> set ks2" by auto
  with build_realized_keeps_or_adds [OF st2 assms(5)] assms(4) show ?thesis by (auto simp: keeps_or_adds_def)
qed

theorem fill_realized_once_witness:
  "\<exists>r. build_realized_pnl (demo_exit ''o2'') PNone = Inr r \<and>
     (case build_realized_pnl (demo_exit ''o2'') (PDict (rz_ledger r)) of Inr r' \<Rightarrow> \<not> rz_updated r' | Inl _ \<Rightarrow> True)"
proof -
  obtain r where r: "build_realized_pnl (demo_exit ''o2'') PNone = Inr r" using demo_exit_built by blast
  obtain dl where dl: "starts_from PNone [] [] dl" using starts_from_None by blast
  have good: "realized_good PNone" by (simp add: realized_good_def)
  from build_realized_outcome [OF demo_exit_position demo_long_ledger_ok good dl r] have "rz_updated r"
    by (simp add: realized_outcome_def demo_exit_fill fill_outcome_def Let_def applicable_def demo_exit_book signed_qty_def
        realization_def demo_exit_net realized_quantity_def)
  from fill_realized_once [OF good r this refl, of "[]"] r show ?thesis by (auto split: sum.split)
qed

end
