(* ===== verification/Paper_Reducer.thy ===== *)
theory Paper_Reducer
  imports Paper_Ordering Machines
begin

text \<open>
  src/paper_trading/state_reducer.py: the state that a list of paper events adds up to. The
  reducer validates the whole list first, then applies the events one by one to the orders,
  the positions and the analytics buckets. The dict \<open>state\<close> is the record \<open>reduced_state\<close>.
\<close>

section \<open>Statuses, state, result\<close>

datatype reducer_status = REDUCED | EMPTY | BLOCKED

fun reducer_status_value :: "reducer_status \<Rightarrow> string" where
  "reducer_status_value REDUCED = ''REDUCED''"
| "reducer_status_value EMPTY = ''EMPTY''"
| "reducer_status_value BLOCKED = ''BLOCKED''"

definition order_event_status :: "(string \<times> string) list" where
  "order_event_status =
     [(''PAPER_ORDER_INTENT_CREATED'', ''INTENT_CREATED''), (''PAPER_ORDER_ACCEPTED'', ''ACCEPTED''),
      (''PAPER_ORDER_REJECTED'', ''REJECTED''), (''PAPER_ORDER_OPENED'', ''OPEN''),
      (''PAPER_ORDER_PARTIALLY_FILLED'', ''PARTIALLY_FILLED''), (''PAPER_ORDER_FILLED'', ''FILLED''),
      (''PAPER_ORDER_CANCELLED'', ''CANCELLED''), (''PAPER_ORDER_EXPIRED'', ''EXPIRED'')]"

definition position_event_types :: "string list" where
  "position_event_types =
     [''PAPER_POSITION_OPENED'', ''PAPER_POSITION_INCREASED'', ''PAPER_POSITION_REDUCED'', ''PAPER_POSITION_CLOSED'',
      ''PAPER_POSITION_REVERSED'']"

definition analytics_event_buckets :: "(string \<times> string) list" where
  "analytics_event_buckets =
     [(''PAPER_PNL_MARKED'', ''pnl_marks''), (''PAPER_SLIPPAGE_MEASURED'', ''slippage_measurements''),
      (''PAPER_PERFORMANCE_SNAPSHOT_CREATED'', ''performance_snapshots'')]"

definition terminal_order_statuses :: "string list" where
  "terminal_order_statuses = [''REJECTED'', ''FILLED'', ''CANCELLED'', ''EXPIRED'']"

record reduced_state =
  rs_orders :: pydict
  rs_positions :: pydict
  rs_pnl_marks :: "pydict list"
  rs_slippage_measurements :: "pydict list"
  rs_performance_snapshots :: "pydict list"
  rs_applied_event_ids :: "pyval list"
  rs_applied_idempotency_keys :: "pyval list"
  rs_last_event :: "pydict option"
  rs_summary :: pydict

definition reduced_state_to_dict :: "reduced_state \<Rightarrow> pydict" where
  "reduced_state_to_dict s =
     [(''schema_version'', PStr ''1.0''),
      (''state_type'', PStr ''PAPER_REDUCED_STATE''),
      (''orders'', PDict (rs_orders s)),
      (''positions'', PDict (rs_positions s)),
      (''pnl_marks'', PList (map PDict (rs_pnl_marks s))),
      (''slippage_measurements'', PList (map PDict (rs_slippage_measurements s))),
      (''performance_snapshots'', PList (map PDict (rs_performance_snapshots s))),
      (''applied_event_ids'', PList (rs_applied_event_ids s)),
      (''applied_idempotency_keys'', PList (rs_applied_idempotency_keys s)),
      (''last_event'', opt_dict (rs_last_event s)),
      (''summary'', PDict (rs_summary s)),
      (''paper_only'', PBool True),
      (''read_only'', PBool True),
      (''is_order_action'', PBool False),
      (''broker_api_called'', PBool False),
      (''real_order_id'', PNone)]"

definition reduced_state_keys :: "string list" where
  "reduced_state_keys =
     [''schema_version'', ''state_type'', ''orders'', ''positions'', ''pnl_marks'', ''slippage_measurements'',
      ''performance_snapshots'', ''applied_event_ids'', ''applied_idempotency_keys'', ''last_event'', ''summary'',
      ''paper_only'', ''read_only'', ''is_order_action'', ''broker_api_called'', ''real_order_id'']"

record reducer_result =
  rr_reduced :: bool
  rr_status :: reducer_status
  rr_state :: reduced_state
  rr_blockers :: "string list"
  rr_warnings :: "string list"

definition reducer_result_to_dict :: "reducer_result \<Rightarrow> pydict" where
  "reducer_result_to_dict r =
     [(''schema_version'', PStr ''1.0''),
      (''reducer_type'', PStr ''DETERMINISTIC_PAPER_STATE_REDUCER''),
      (''reduced'', PBool (rr_reduced r)),
      (''status'', PStr (reducer_status_value (rr_status r))),
      (''state'', PDict (reduced_state_to_dict (rr_state r))),
      (''blockers'', str_list (rr_blockers r)),
      (''warnings'', str_list (rr_warnings r)),
      (''paper_only'', PBool True),
      (''read_only'', PBool True),
      (''is_order_action'', PBool False),
      (''broker_api_called'', PBool False),
      (''real_order_id'', PNone)]"

definition reducer_result_keys :: "string list" where
  "reducer_result_keys =
     [''schema_version'', ''reducer_type'', ''reduced'', ''status'', ''state'', ''blockers'', ''warnings'', ''paper_only'',
      ''read_only'', ''is_order_action'', ''broker_api_called'', ''real_order_id'']"

definition reducer_schema_contract :: pydict where
  "reducer_schema_contract =
     [(''schema_version'', PStr ''1.0''),
      (''reducer_type'', PStr ''DETERMINISTIC_PAPER_STATE_REDUCER''),
      (''consumes'', str_list [''CANONICAL_PAPER_EVENT_JOURNAL'']),
      (''event_schema_version'', PStr ''1.0''),
      (''statuses'', str_list (map reducer_status_value [REDUCED, EMPTY, BLOCKED])),
      (''order_event_statuses'', PDict
         [(''PAPER_ORDER_ACCEPTED'', PStr ''ACCEPTED''), (''PAPER_ORDER_CANCELLED'', PStr ''CANCELLED''),
          (''PAPER_ORDER_EXPIRED'', PStr ''EXPIRED''), (''PAPER_ORDER_FILLED'', PStr ''FILLED''),
          (''PAPER_ORDER_INTENT_CREATED'', PStr ''INTENT_CREATED''), (''PAPER_ORDER_OPENED'', PStr ''OPEN''),
          (''PAPER_ORDER_PARTIALLY_FILLED'', PStr ''PARTIALLY_FILLED''), (''PAPER_ORDER_REJECTED'', PStr ''REJECTED'')]),
      (''position_event_types'', str_list
         [''PAPER_POSITION_CLOSED'', ''PAPER_POSITION_INCREASED'', ''PAPER_POSITION_OPENED'', ''PAPER_POSITION_REDUCED'',
          ''PAPER_POSITION_REVERSED'']),
      (''analytics_event_buckets'', PDict
         [(''PAPER_PERFORMANCE_SNAPSHOT_CREATED'', PStr ''performance_snapshots''),
          (''PAPER_PNL_MARKED'', PStr ''pnl_marks''), (''PAPER_SLIPPAGE_MEASURED'', PStr ''slippage_measurements'')]),
      (''required_result_keys'', str_list reducer_result_keys),
      (''required_state_keys'', str_list reduced_state_keys),
      (''safe_flags'', PDict read_only_flags),
      (''scope_boundary'', str_list
         [''pure_reducer_only'', ''no_file_io'', ''no_broker_execution'', ''no_live_orders'', ''no_api'', ''no_ui'',
          ''no_runtime_wiring''])]"

section \<open>Reading an event\<close>

definition first_int :: "pyval list \<Rightarrow> int option result" where
  "first_int values = first_value int_or_none values"

definition first_float :: "pyval list \<Rightarrow> pyfloat option result" where
  "first_float values = first_value float_or_none values"

definition order_key :: "pydict \<Rightarrow> string" where
  "order_key event =
     (case first_text event [''paper_order_id'', ''paper_order_intent_id'', ''event_id''] of
        Some t \<Rightarrow> t | None \<Rightarrow> ''UNKNOWN_PAPER_ORDER'')"

definition event_position_key :: "pydict \<Rightarrow> string option" where
  "event_position_key event =
     (case first_text (as_dict (dget event ''payload'')) [''position_key'', ''instrument_token'', ''tradingsymbol'', ''symbol''] of
        Some t \<Rightarrow> Some t
      | None \<Rightarrow> first_text event [''paper_order_id'', ''candidate_id''])"

definition event_type_of :: "pydict \<Rightarrow> string" where
  "event_type_of event = py_str (dget event ''event_type'')"

definition event_reference :: "pydict \<Rightarrow> pydict" where
  "event_reference event =
     [(''event_id'', dget event ''event_id''), (''cycle_id'', dget event ''cycle_id''),
      (''event_sequence'', dget event ''event_sequence''), (''event_type'', dget event ''event_type''),
      (''ts_epoch'', dget event ''ts_epoch''), (''idempotency_key'', dget event ''idempotency_key'')] @ read_only_flags"

section \<open>Applying an event\<close>

definition empty_summary :: pydict where
  "empty_summary =
     [(''event_count'', PInt 0), (''order_count'', PInt 0), (''open_order_count'', PInt 0), (''terminal_order_count'', PInt 0),
      (''position_count'', PInt 0), (''open_position_count'', PInt 0), (''flat_position_count'', PInt 0),
      (''pnl_mark_count'', PInt 0), (''slippage_measurement_count'', PInt 0), (''performance_snapshot_count'', PInt 0)]
     @ read_only_flags"

definition empty_state :: reduced_state where
  "empty_state =
     \<lparr>rs_orders = [], rs_positions = [], rs_pnl_marks = [], rs_slippage_measurements = [], rs_performance_snapshots = [],
      rs_applied_event_ids = [], rs_applied_idempotency_keys = [], rs_last_event = None, rs_summary = empty_summary\<rparr>"

definition apply_order_event :: "pydict \<Rightarrow> reduced_state \<Rightarrow> reduced_state result" where
  "apply_order_event event state =
     (let key = order_key event
      in bind_result (dict_or_empty (dget (rs_orders state) key)) (\<lambda>existing.
         bind_result (dict_or_empty (dget event ''payload'')) (\<lambda>payload.
         case map_of order_event_status (event_type_of event) of
           None \<Rightarrow> Inl (KeyError (event_type_of event))
         | Some status \<Rightarrow>
             bind_result (first_int
               [dget payload ''filled_quantity'', dget payload ''cumulative_filled_quantity'',
                if status = ''FILLED'' then dget payload ''quantity'' else PNone, dget existing ''filled_quantity'']) (\<lambda>filled.
             bind_result (first_int [dget payload ''remaining_quantity'', dget existing ''remaining_quantity'']) (\<lambda>remaining.
             bind_result (first_float
               [dget payload ''average_fill_price'', dget payload ''fill_price'', dget existing ''average_fill_price'']) (\<lambda>price.
             Inr (state\<lparr>rs_orders := dset key (PDict
               ([(''paper_order_id'', dget event ''paper_order_id''),
                 (''paper_order_intent_id'', dget event ''paper_order_intent_id''),
                 (''candidate_id'', dget event ''candidate_id''),
                 (''strategy_id'', dget event ''strategy_id''),
                 (''status'', PStr status),
                 (''terminal'', PBool (status \<in> set terminal_order_statuses)),
                 (''filled_quantity'', PInt (or_zero filled)),
                 (''remaining_quantity'', opt_int remaining),
                 (''average_fill_price'', opt_float price),
                 (''last_event_id'', dget event ''event_id''),
                 (''last_update_epoch'', dget event ''ts_epoch''),
                 (''payload'', PDict payload)] @ read_only_flags)) (rs_orders state)\<rparr>)))))))"

text \<open>The validation has blocked a position event without a key, so a key exists when it is applied.\<close>

definition apply_position_event :: "pydict \<Rightarrow> reduced_state \<Rightarrow> reduced_state result" where
  "apply_position_event event state =
     bind_result (dict_or_empty (dget event ''payload'')) (\<lambda>payload.
     (let key = (case event_position_key event of Some k \<Rightarrow> k | None \<Rightarrow> [])
      in bind_result (first_int
             [dget payload ''net_quantity'',
              if dget event ''event_type'' = PStr ''PAPER_POSITION_CLOSED'' then PInt 0 else PNone]) (\<lambda>net.
         bind_result (first_float [dget payload ''average_entry_price'', dget payload ''avg_entry_price'']) (\<lambda>average.
         bind_result (first_float [dget payload ''last_fill_price'', dget payload ''fill_price'']) (\<lambda>last_price.
         Inr (state\<lparr>rs_positions := dset key (PDict
           ([(''position_key'', PStr key),
             (''candidate_id'', dget_or payload ''candidate_id'' (dget event ''candidate_id'')),
             (''strategy_id'', dget_or payload ''strategy_id'' (dget event ''strategy_id'')),
             (''symbol'', dget payload ''symbol''),
             (''tradingsymbol'', dget payload ''tradingsymbol''),
             (''instrument_token'', dget payload ''instrument_token''),
             (''net_quantity'', opt_int net),
             (''side'', PStr (side_of (or_zero net))),
             (''average_entry_price'', if net \<noteq> Some 0 then opt_float average else PNone),
             (''last_fill_price'', opt_float last_price),
             (''last_event_type'', dget event ''event_type''),
             (''last_event_id'', dget event ''event_id''),
             (''last_update_epoch'', dget event ''ts_epoch''),
             (''payload'', PDict payload)] @ read_only_flags)) (rs_positions state)\<rparr>))))))"

definition analytics_row :: "pydict \<Rightarrow> pydict" where
  "analytics_row event =
     [(''event_id'', dget event ''event_id''), (''cycle_id'', dget event ''cycle_id''),
      (''candidate_id'', dget event ''candidate_id''), (''strategy_id'', dget event ''strategy_id''),
      (''ts_epoch'', dget event ''ts_epoch''), (''payload'', or_empty_dict (dget event ''payload''))] @ read_only_flags"

definition apply_analytics_event :: "pydict \<Rightarrow> reduced_state \<Rightarrow> reduced_state result" where
  "apply_analytics_event event state =
     (case map_of analytics_event_buckets (event_type_of event) of
        None \<Rightarrow> Inl (KeyError (event_type_of event))
      | Some bucket \<Rightarrow>
          Inr (if bucket = ''pnl_marks'' then state\<lparr>rs_pnl_marks := rs_pnl_marks state @ [analytics_row event]\<rparr>
               else if bucket = ''slippage_measurements''
               then state\<lparr>rs_slippage_measurements := rs_slippage_measurements state @ [analytics_row event]\<rparr>
               else state\<lparr>rs_performance_snapshots := rs_performance_snapshots state @ [analytics_row event]\<rparr>))"

text \<open>One turn of the loop of \<open>reduce_paper_events\<close>, with the list of warnings.\<close>

definition record_event :: "pydict \<Rightarrow> reduced_state \<Rightarrow> reduced_state" where
  "record_event event state =
     state\<lparr>rs_applied_event_ids := rs_applied_event_ids state @ [dget event ''event_id''],
       rs_applied_idempotency_keys := rs_applied_idempotency_keys state @ [dget event ''idempotency_key''],
       rs_last_event := Some (event_reference event)\<rparr>"

definition reduce_event :: "pydict \<Rightarrow> reduced_state \<times> string list \<Rightarrow> (reduced_state \<times> string list) result" where
  "reduce_event event = (\<lambda>(state, warnings).
     let event_type = event_type_of event;
         finish = (\<lambda>s. Inr (record_event event s, warnings))
     in if event_type \<in> set (map fst order_event_status) then bind_result (apply_order_event event state) finish
        else if event_type \<in> set position_event_types then bind_result (apply_position_event event state) finish
        else if event_type \<in> set (map fst analytics_event_buckets) then bind_result (apply_analytics_event event state) finish
        else Inr (record_event event state, warnings @ [''PAPER_REDUCER_EVENT_TYPE_IGNORED:'' @ event_type]))"

definition terminal_value :: "pyval \<Rightarrow> bool" where
  "terminal_value order \<longleftrightarrow> dget (as_dict order) ''terminal'' = PBool True"

definition open_value :: "pyval \<Rightarrow> bool result" where
  "open_value position =
     bind_result (first_int [dget (as_dict position) ''net_quantity'', PInt 0]) (\<lambda>n. Inr (n \<noteq> Some 0))"

definition build_summary :: "reduced_state \<Rightarrow> pydict result" where
  "build_summary state =
     (let orders = map snd (rs_orders state); positions = map snd (rs_positions state);
          terminal = int (length (filter terminal_value orders))
      in bind_result (map_result open_value positions) (\<lambda>bs.
         let open_positions = int (length (filter id bs))
         in Inr ([(''event_count'', PInt (int (length (rs_applied_event_ids state)))),
                  (''order_count'', PInt (int (length orders))),
                  (''open_order_count'', PInt (int (length orders) - terminal)),
                  (''terminal_order_count'', PInt terminal),
                  (''position_count'', PInt (int (length positions))),
                  (''open_position_count'', PInt open_positions),
                  (''flat_position_count'', PInt (int (length positions) - open_positions)),
                  (''pnl_mark_count'', PInt (int (length (rs_pnl_marks state)))),
                  (''slippage_measurement_count'', PInt (int (length (rs_slippage_measurements state)))),
                  (''performance_snapshot_count'', PInt (int (length (rs_performance_snapshots state))))]
                 @ read_only_flags)))"

section \<open>Validation and reduction\<close>

definition validate_position_event :: "int \<Rightarrow> pydict \<Rightarrow> string list result" where
  "validate_position_event index event =
     (let payload = as_dict (dget event ''payload'')
      in bind_result (if dget event ''event_type'' \<noteq> PStr ''PAPER_POSITION_CLOSED''
           then bind_result (first_int [dget payload ''net_quantity'']) (\<lambda>net. Inr (add_if (net = None)
             (event_label index ''PAPER_REDUCER_POSITION_NET_QUANTITY_REQUIRED'')))
           else Inr []) (\<lambda>net_blockers.
         Inr (add_if (event_position_key event = None) (event_label index ''PAPER_REDUCER_POSITION_KEY_REQUIRED'') @ net_blockers)))"

record reducer_check =
  rc_blockers :: "string list"
  rc_events :: "pydict list"
  rc_seen_ids :: "string list"
  rc_seen_keys :: "string list"

definition check_event :: "nat \<times> raw_event \<Rightarrow> reducer_check \<Rightarrow> reducer_check result" where
  "check_event = (\<lambda>(i, raw) st.
     case normalize_paper_event raw of
       Inl TypeError \<Rightarrow> Inr (st\<lparr>rc_blockers := rc_blockers st @ [event_label (int i) ''PAPER_EVENT_NOT_OBJECT'']\<rparr>)
     | Inl (ValueError _) \<Rightarrow> Inr (st\<lparr>rc_blockers := rc_blockers st @ [event_label (int i) ''PAPER_EVENT_NOT_OBJECT'']\<rparr>)
     | Inl err \<Rightarrow> Inl err
     | Inr e \<Rightarrow>
         bind_result (validate_paper_event (RawValue (PDict e))) (\<lambda>bs.
           if bs \<noteq> [] then Inr (st\<lparr>rc_blockers := rc_blockers st @ map (event_label (int i)) bs\<rparr>)
           else bind_result (if event_type_of e \<in> set position_event_types then validate_position_event (int i) e else Inr []) (\<lambda>ps.
             Inr \<lparr>rc_blockers = rc_blockers st @
                    add_if (ev_id e \<in> set (rc_seen_ids st)) (event_label (int i) ''PAPER_REDUCER_DUPLICATE_EVENT_ID'') @
                    add_if (ev_key e \<in> set (rc_seen_keys st)) (event_label (int i) ''PAPER_REDUCER_DUPLICATE_IDEMPOTENCY_KEY'') @ ps,
                  rc_events = rc_events st @ [e], rc_seen_ids = ev_id e # rc_seen_ids st,
                  rc_seen_keys = ev_key e # rc_seen_keys st\<rparr>)))"

definition validate_reducer_inputs :: "events_arg \<Rightarrow> (string list \<times> pydict list) result" where
  "validate_reducer_inputs events =
     (case events of
        EventsNone \<Rightarrow> Inr ([''PAPER_REDUCER_EVENTS_REQUIRED''], [])
      | EventsOther \<Rightarrow> Inr ([''PAPER_REDUCER_EVENTS_MUST_BE_LIST''], [])
      | EventsList raws \<Rightarrow>
          bind_result (fold_result check_event (enumerate 0 raws)
              \<lparr>rc_blockers = [], rc_events = [], rc_seen_ids = [], rc_seen_keys = []\<rparr>) (\<lambda>st.
            Inr (dedupe (rc_blockers st), if rc_blockers st = [] then rc_events st else [])))"

definition reduce_paper_events :: "events_arg \<Rightarrow> reducer_result result" where
  "reduce_paper_events events =
     bind_result (validate_reducer_inputs events) (\<lambda>(blockers, normalized).
       if blockers \<noteq> [] then
         Inr \<lparr>rr_reduced = False, rr_status = BLOCKED, rr_state = empty_state, rr_blockers = blockers, rr_warnings = []\<rparr>
       else if normalized = [] then
         Inr \<lparr>rr_reduced = True, rr_status = EMPTY, rr_state = empty_state, rr_blockers = [],
              rr_warnings = [''PAPER_REDUCER_EMPTY_EVENT_LIST'']\<rparr>
       else
         bind_result (fold_result reduce_event normalized (empty_state, [])) (\<lambda>(state, warnings).
         bind_result (build_summary state) (\<lambda>summary.
           Inr \<lparr>rr_reduced = True, rr_status = REDUCED, rr_state = state\<lparr>rs_summary := summary\<rparr>, rr_blockers = [],
                rr_warnings = dedupe warnings\<rparr>)))"

interpretation reduced_state_report: paper_report reduced_state_to_dict reduced_state_keys
  by unfold_locales (simp_all add: reduced_state_to_dict_def reduced_state_keys_def has_key_def flags_safe_def)

interpretation reducer_report: paper_report reducer_result_to_dict reducer_result_keys
  by unfold_locales (simp_all add: reducer_result_to_dict_def reducer_result_keys_def has_key_def flags_safe_def)

section \<open>The lists that the reducer accepts\<close>

definition position_readable :: "pydict \<Rightarrow> bool" where
  "position_readable e \<longleftrightarrow>
     (event_type_of e \<in> set position_event_types \<longrightarrow>
        event_position_key e \<noteq> None \<and>
        (event_type_of e \<noteq> ''PAPER_POSITION_CLOSED'' \<longrightarrow>
           (\<exists>n. first_int [dget (as_dict (dget e ''payload'')) ''net_quantity''] = Inr (Some n))))"

definition admissible :: "pydict list \<Rightarrow> pydict \<Rightarrow> bool" where
  "admissible es e \<longleftrightarrow>
     event_valid e \<and> position_readable e \<and> ev_id e \<notin> ev_id ` set es \<and> ev_key e \<notin> ev_key ` set es"

definition reducible :: "pydict list \<Rightarrow> bool" where
  "reducible es \<longleftrightarrow>
     (\<forall>e \<in> set es. event_valid e \<and> position_readable e) \<and> distinct (map ev_id es) \<and> distinct (map ev_key es)"

lemma admitted_reducible:
  "reducible es \<Longrightarrow> admitted admissible es es' \<longleftrightarrow> reducible (es @ es')"
proof (induction es' arbitrary: es)
  case (Cons e es')
  have "reducible (es @ [e]) \<longleftrightarrow> admissible es e" using Cons.prems by (auto simp: reducible_def admissible_def)
  moreover have "reducible (es @ e # es') \<Longrightarrow> reducible (es @ [e])" by (auto simp: reducible_def)
  ultimately show ?case using Cons.IH [of "es @ [e]"] by auto
qed simp

definition check_inv :: "pydict list \<Rightarrow> reducer_check \<Rightarrow> bool" where
  "check_inv es st \<longleftrightarrow>
     rc_blockers st = [] \<and> rc_events st = es \<and> set (rc_seen_ids st) = ev_id ` set es \<and> set (rc_seen_keys st) = ev_key ` set es"

lemma valid_event_type:
  assumes "event_valid e" shows "dget e ''event_type'' = PStr (event_type_of e)"
  using assms by (auto simp: event_valid_def event_type_of_def)

lemma position_blockers_clear:
  assumes "(if event_type_of e \<in> set position_event_types then validate_position_event i e else Inr []) = Inr ps" "event_valid e"
  shows "ps = [] \<longleftrightarrow> position_readable e"
proof (cases "event_type_of e \<in> set position_event_types")
  case True
  show ?thesis
  proof (cases "event_type_of e = ''PAPER_POSITION_CLOSED''")
    case closed: True
    with assms True show ?thesis
      by (auto simp: validate_position_event_def Let_def valid_event_type position_readable_def)
  next
    case open_case: False
    with assms True obtain n where "first_int [dget (as_dict (dget e ''payload'')) ''net_quantity''] = Inr n"
      and "ps = add_if (event_position_key e = None) (event_label i ''PAPER_REDUCER_POSITION_KEY_REQUIRED'') @
        add_if (n = None) (event_label i ''PAPER_REDUCER_POSITION_NET_QUANTITY_REQUIRED'')"
      by (auto simp: validate_position_event_def Let_def valid_event_type)
    with True open_case show ?thesis by (auto simp: position_readable_def)
  qed
qed (use assms in \<open>simp add: position_readable_def\<close>)

lemma check_event_steps:
  assumes "check_event (i, raw) st = Inr st'"
  obtains err where "normalize_paper_event raw = Inl err" "\<exists>b. rc_blockers st' = rc_blockers st @ [event_label (int i) b]"
  | e bs where "normalize_paper_event raw = Inr e" "\<not> event_valid e" "bs \<noteq> []"
      "rc_blockers st' = rc_blockers st @ map (event_label (int i)) bs"
  | e ps where "normalize_paper_event raw = Inr e" "event_valid e" "ps = [] \<longleftrightarrow> position_readable e"
      "st' = \<lparr>rc_blockers = rc_blockers st @
                add_if (ev_id e \<in> set (rc_seen_ids st)) (event_label (int i) ''PAPER_REDUCER_DUPLICATE_EVENT_ID'') @
                add_if (ev_key e \<in> set (rc_seen_keys st)) (event_label (int i) ''PAPER_REDUCER_DUPLICATE_IDEMPOTENCY_KEY'') @ ps,
              rc_events = rc_events st @ [e], rc_seen_ids = ev_id e # rc_seen_ids st, rc_seen_keys = ev_key e # rc_seen_keys st\<rparr>"
proof (cases "normalize_paper_event raw")
  case (Inl err)
  with assms have "\<exists>b. rc_blockers st' = rc_blockers st @ [event_label (int i) b]"
    by (cases err) (auto simp: check_event_def)
  with Inl that(1) show thesis by blast
next
  case (Inr e)
  obtain bs where bs: "validate_paper_event (RawValue (PDict e)) = Inr bs" "bs = [] \<longleftrightarrow> event_valid e"
    using validate_normalized [OF Inr] by blast
  show thesis
  proof (cases "event_valid e")
    case False
    with assms Inr bs have "rc_blockers st' = rc_blockers st @ map (event_label (int i)) bs" by (auto simp: check_event_def)
    with Inr False bs that(2) show thesis by blast
  next
    case True
    with assms Inr bs obtain ps where
      ps: "(if event_type_of e \<in> set position_event_types then validate_position_event (int i) e else Inr []) = Inr ps"
      and st': "st' = \<lparr>rc_blockers = rc_blockers st @
                add_if (ev_id e \<in> set (rc_seen_ids st)) (event_label (int i) ''PAPER_REDUCER_DUPLICATE_EVENT_ID'') @
                add_if (ev_key e \<in> set (rc_seen_keys st)) (event_label (int i) ''PAPER_REDUCER_DUPLICATE_IDEMPOTENCY_KEY'') @ ps,
              rc_events = rc_events st @ [e], rc_seen_ids = ev_id e # rc_seen_ids st, rc_seen_keys = ev_key e # rc_seen_keys st\<rparr>"
      by (auto simp: check_event_def simp del: if_split_asm split: if_split_asm)
    from that(3) [OF Inr True position_blockers_clear [OF ps True] st'] show thesis .
  qed
qed

interpretation reducer_check: list_checker check_event rc_blockers "\<lambda>(i, raw). normalize_paper_event raw" admissible check_inv
proof unfold_locales
  fix es s show "check_inv es s \<Longrightarrow> rc_blockers s = []" by (simp add: check_inv_def)
next
  fix es s and a :: "nat \<times> raw_event" and s' e
  obtain i raw where a: "a = (i, raw)" by (cases a)
  assume inv: "check_inv es s" and step: "check_event a s = Inr s'" and parse: "(case a of (i, raw) \<Rightarrow> normalize_paper_event raw) = Inr e"
    and ok: "admissible es e"
  from step [unfolded a] show "check_inv (es @ [e]) s'"
    by (cases rule: check_event_steps) (use inv ok parse a in \<open>auto simp: check_inv_def admissible_def\<close>)
next
  fix es s and a :: "nat \<times> raw_event" and s'
  obtain i raw where a: "a = (i, raw)" by (cases a)
  assume inv: "check_inv es s" and step: "check_event a s = Inr s'"
    and no: "\<And>e. (case a of (i, raw) \<Rightarrow> normalize_paper_event raw) = Inr e \<Longrightarrow> \<not> admissible es e"
  from step [unfolded a] show "rc_blockers s' \<noteq> []"
    by (cases rule: check_event_steps) (use inv no a in \<open>auto simp: check_inv_def admissible_def\<close>)
next
  fix s and a :: "nat \<times> raw_event" and s'
  obtain i raw where a: "a = (i, raw)" by (cases a)
  assume step: "check_event a s = Inr s'" and b: "rc_blockers s \<noteq> []"
  from step [unfolded a] show "rc_blockers s' \<noteq> []" by (cases rule: check_event_steps) (use b in auto)
qed

text \<open>The accepted events, in terms of the input.\<close>

lemma map_result_enumerate: "map_result (\<lambda>(i, raw). f raw) (enumerate n xs) = map_result f xs"
  by (induction xs arbitrary: n) simp_all

lemma label_nonblank_all: "list_all (\<lambda>b. \<not> blank b) (map (event_label i) bs)"
  by (simp add: list_all_iff)

lemma position_blockers_labels:
  "validate_position_event i e = Inr ps \<Longrightarrow> list_all (\<lambda>b. \<not> blank b) ps"
  by (auto simp: validate_position_event_def Let_def split: if_splits)

lemma check_event_nonblank:
  assumes "check_event a st = Inr st'" "list_all (\<lambda>b. \<not> blank b) (rc_blockers st)"
  shows "list_all (\<lambda>b. \<not> blank b) (rc_blockers st')"
proof (cases a)
  case (Pair i raw)
  with assms(1) show ?thesis
    using assms(2) label_nonblank_all [of "int i"] position_blockers_labels
    by (auto simp: check_event_def split: sum.splits pyexc.splits if_splits)
qed

lemma check_run_nonblank:
  "fold_result check_event xs st = Inr st' \<Longrightarrow> list_all (\<lambda>b. \<not> blank b) (rc_blockers st) \<Longrightarrow>
   list_all (\<lambda>b. \<not> blank b) (rc_blockers st')"
proof (induction xs arbitrary: st)
  case (Cons a xs)
  then obtain t where t: "check_event a st = Inr t" "fold_result check_event xs t = Inr st'" by auto
  show ?case by (rule Cons.IH [OF t(2) check_event_nonblank [OF t(1) Cons.prems(2)]])
qed simp

lemma validate_reducer_outcome:
  assumes "validate_reducer_inputs (EventsList raws) = Inr (bs, es)"
  shows "(bs = [] \<longleftrightarrow> (\<exists>es'. map_result normalize_paper_event raws = Inr es' \<and> reducible es'))"
    "bs = [] \<Longrightarrow> map_result normalize_paper_event raws = Inr es \<and> reducible es"
proof -
  let ?st0 = "\<lparr>rc_blockers = [], rc_events = [], rc_seen_ids = [], rc_seen_keys = []\<rparr>"
  obtain st where st: "fold_result check_event (enumerate 0 raws) ?st0 = Inr st"
    and bs: "bs = dedupe (rc_blockers st)" and es: "es = (if rc_blockers st = [] then rc_events st else [])"
    using assms by (auto simp: validate_reducer_inputs_def)
  have inv: "check_inv [] ?st0" by (simp add: check_inv_def)
  have "list_all (\<lambda>b. \<not> blank b) (rc_blockers st)" by (rule check_run_nonblank [OF st]) simp
  then have clear: "bs = [] \<longleftrightarrow> rc_blockers st = []" unfolding bs by (cases "rc_blockers st") auto
  have nil: "reducible []" by (simp add: reducible_def)
  show iff: "bs = [] \<longleftrightarrow> (\<exists>es'. map_result normalize_paper_event raws = Inr es' \<and> reducible es')"
    using reducer_check.run_clear_iff [OF inv st] admitted_reducible [OF nil]
    by (simp add: clear map_result_enumerate)
  assume "bs = []"
  then obtain es' where es': "map_result normalize_paper_event raws = Inr es'" "reducible es'" using iff by blast
  have "check_inv ([] @ es') st"
    using \<open>bs = []\<close> es'(1) by (intro reducer_check.run_clear_inv [OF inv st]) (simp_all add: clear map_result_enumerate)
  with es' es \<open>bs = []\<close> clear show "map_result normalize_paper_event raws = Inr es \<and> reducible es"
    by (simp add: check_inv_def)
qed

section \<open>The state as a view\<close>

definition is_order_event :: "pydict \<Rightarrow> bool" where
  "is_order_event e \<longleftrightarrow> event_type_of e \<in> set (map fst order_event_status)"

definition is_position_event :: "pydict \<Rightarrow> bool" where
  "is_position_event e \<longleftrightarrow> event_type_of e \<in> set position_event_types"

definition status_of_event :: "pydict \<Rightarrow> string" where
  "status_of_event e = the (map_of order_event_status (event_type_of e))"

definition position_key_of :: "pydict \<Rightarrow> string" where
  "position_key_of e = (case event_position_key e of Some k \<Rightarrow> k | None \<Rightarrow> [])"

text \<open>The net quantity that a position event reports; a closing event may leave it out.\<close>

definition net_of_event :: "pydict \<Rightarrow> int option" where
  "net_of_event e =
     (case bind_result (dict_or_empty (dget e ''payload'')) (\<lambda>payload. first_int
        [dget payload ''net_quantity'', if dget e ''event_type'' = PStr ''PAPER_POSITION_CLOSED'' then PInt 0 else PNone]) of
        Inr n \<Rightarrow> n | Inl _ \<Rightarrow> None)"

record reduced_view =
  vw_status :: "string \<Rightarrow> string option"
  vw_net :: "string \<Rightarrow> int option option"
  vw_ids :: "pyval list"

definition view_event :: "pydict \<Rightarrow> reduced_view \<Rightarrow> reduced_view" where
  "view_event e v =
     \<lparr>vw_status = (if is_order_event e then (vw_status v)(order_key e := Some (status_of_event e)) else vw_status v),
      vw_net = (if is_position_event e then (vw_net v)(position_key_of e := Some (net_of_event e)) else vw_net v),
      vw_ids = vw_ids v @ [dget e ''event_id'']\<rparr>"

definition order_value_ok :: "pyval \<Rightarrow> bool" where
  "order_value_ok v \<longleftrightarrow>
     (\<exists>d st. v = PDict d \<and> dget d ''status'' = PStr st \<and> dget d ''terminal'' = PBool (st \<in> set terminal_order_statuses))"

definition position_value_ok :: "pyval \<Rightarrow> bool" where
  "position_value_ok v \<longleftrightarrow>
     (\<exists>d n. v = PDict d \<and> dget d ''net_quantity'' = opt_int n \<and> dget d ''side'' = PStr (side_of (or_zero n)) \<and>
        (n = Some 0 \<longrightarrow> dget d ''average_entry_price'' = PNone))"

definition reduced_ok :: "reduced_state \<times> string list \<Rightarrow> bool" where
  "reduced_ok p \<longleftrightarrow>
     distinct (map fst (rs_orders (fst p))) \<and> list_all order_value_ok (map snd (rs_orders (fst p))) \<and>
     distinct (map fst (rs_positions (fst p))) \<and> list_all position_value_ok (map snd (rs_positions (fst p)))"

definition order_status_text :: "pyval \<Rightarrow> string" where
  "order_status_text v = py_str (dget (as_dict v) ''status'')"

definition position_net :: "pyval \<Rightarrow> int option" where
  "position_net v = (case dget (as_dict v) ''net_quantity'' of PInt n \<Rightarrow> Some n | _ \<Rightarrow> None)"

definition reduced_view_of :: "reduced_state \<times> string list \<Rightarrow> reduced_view" where
  "reduced_view_of p =
     \<lparr>vw_status = (\<lambda>k. map_option order_status_text (map_of (rs_orders (fst p)) k)),
      vw_net = (\<lambda>k. map_option position_net (map_of (rs_positions (fst p)) k)),
      vw_ids = rs_applied_event_ids (fst p)\<rparr>"

lemma event_kinds_exclusive: "is_order_event e \<Longrightarrow> \<not> is_position_event e"
  by (auto simp: is_order_event_def is_position_event_def order_event_status_def position_event_types_def)

lemma list_all_dset:
  "list_all P (map snd d) \<Longrightarrow> P v \<Longrightarrow> list_all P (map snd (dset k v d))"
  unfolding dset_def by (induction d) auto

lemma position_net_opt: "position_net (PDict ((''position_key'', a) # (''candidate_id'', b) # (''strategy_id'', c) #
    (''symbol'', d) # (''tradingsymbol'', e) # (''instrument_token'', f) # (''net_quantity'', opt_int n) # rest)) = n"
  by (cases n) (simp_all add: position_net_def opt_int_def)

lemma apply_order_event_Inr:
  assumes "apply_order_event e s = Inr s'" "reduced_ok (s, ws)" "is_order_event e"
  obtains v where "s' = s\<lparr>rs_orders := dset (order_key e) v (rs_orders s)\<rparr>" "order_value_ok v"
    "order_status_text v = status_of_event e"
proof -
  obtain status where st: "map_of order_event_status (event_type_of e) = Some status"
    using assms(3) by (auto simp: is_order_event_def dest!: weak_map_of_SomeI [rotated] split: prod.splits)
  then have se: "status_of_event e = status" by (simp add: status_of_event_def)
  from assms(1) show thesis
    unfolding apply_order_event_def Let_def st option.case bind_result_eq_Inr
  proof (elim exE conjE)
    fix existing payload filled remaining price
    let ?v = "PDict ([(''paper_order_id'', dget e ''paper_order_id''),
                 (''paper_order_intent_id'', dget e ''paper_order_intent_id''),
                 (''candidate_id'', dget e ''candidate_id''),
                 (''strategy_id'', dget e ''strategy_id''),
                 (''status'', PStr status),
                 (''terminal'', PBool (status \<in> set terminal_order_statuses)),
                 (''filled_quantity'', PInt (or_zero filled)),
                 (''remaining_quantity'', opt_int remaining),
                 (''average_fill_price'', opt_float price),
                 (''last_event_id'', dget e ''event_id''),
                 (''last_update_epoch'', dget e ''ts_epoch''),
                 (''payload'', PDict payload)] @ read_only_flags)"
    assume "Inr (s\<lparr>rs_orders := dset (order_key e) ?v (rs_orders s)\<rparr>) = (Inr s' :: reduced_state result)"
    then have "s' = s\<lparr>rs_orders := dset (order_key e) ?v (rs_orders s)\<rparr>" by simp
    moreover have "order_value_ok ?v" by (simp add: order_value_ok_def)
    moreover have "order_status_text ?v = status_of_event e" by (simp add: order_status_text_def se)
    ultimately show thesis by (rule that)
  qed
qed

lemma apply_position_event_Inr:
  assumes "apply_position_event e s = Inr s'"
  obtains v where "s' = s\<lparr>rs_positions := dset (position_key_of e) v (rs_positions s)\<rparr>" "position_value_ok v"
    "position_net v = net_of_event e"
proof -
  from assms show thesis
    unfolding apply_position_event_def Let_def bind_result_eq_Inr
  proof (elim exE conjE)
    fix p net average price
    let ?v = "PDict ([(''position_key'', PStr (case event_position_key e of None \<Rightarrow> [] | Some k \<Rightarrow> k)),
             (''candidate_id'', dget_or p ''candidate_id'' (dget e ''candidate_id'')),
             (''strategy_id'', dget_or p ''strategy_id'' (dget e ''strategy_id'')),
             (''symbol'', dget p ''symbol''),
             (''tradingsymbol'', dget p ''tradingsymbol''),
             (''instrument_token'', dget p ''instrument_token''),
             (''net_quantity'', opt_int net),
             (''side'', PStr (side_of (or_zero net))),
             (''average_entry_price'', if net \<noteq> Some 0 then opt_float average else PNone),
             (''last_fill_price'', opt_float price),
             (''last_event_type'', dget e ''event_type''),
             (''last_event_id'', dget e ''event_id''),
             (''last_update_epoch'', dget e ''ts_epoch''),
             (''payload'', PDict p)] @ read_only_flags)"
    assume "Inr (s\<lparr>rs_positions := dset (case event_position_key e of None \<Rightarrow> [] | Some k \<Rightarrow> k) ?v (rs_positions s)\<rparr>) =
        (Inr s' :: reduced_state result)"
    then have "s' = s\<lparr>rs_positions := dset (position_key_of e) ?v (rs_positions s)\<rparr>" by (simp add: position_key_of_def)
    moreover have "position_value_ok ?v" unfolding position_value_ok_def
      by (intro exI conjI, rule refl) auto
    moreover assume "dict_or_empty (dget e ''payload'') = Inr p" and "first_int [dget p ''net_quantity'', if dget e ''event_type'' = PStr ''PAPER_POSITION_CLOSED'' then PInt 0 else PNone] = Inr net"
    then have "position_net ?v = net_of_event e" by (simp add: position_net_def net_of_event_def opt_int_def split: option.split)
    ultimately show thesis by (rule that)
  qed
qed

lemma reduced_ok_record [simp]: "reduced_ok (record_event e s, ws) \<longleftrightarrow> reduced_ok (s, ws)"
  by (simp add: reduced_ok_def record_event_def)

lemma reduced_view_record:
  "reduced_view_of (record_event e s, ws) = (reduced_view_of (s, ws'))\<lparr>vw_ids := vw_ids (reduced_view_of (s, ws')) @ [dget e ''event_id'']\<rparr>"
  by (simp add: reduced_view_of_def record_event_def)

definition same_books :: "reduced_state \<Rightarrow> reduced_state \<Rightarrow> bool" where
  "same_books s s' \<longleftrightarrow> rs_orders s' = rs_orders s \<and> rs_positions s' = rs_positions s \<and> rs_applied_event_ids s' = rs_applied_event_ids s"

lemma apply_analytics_same: "apply_analytics_event e s = Inr s' \<Longrightarrow> same_books s s'"
  by (auto simp: apply_analytics_event_def same_books_def split: option.splits if_splits)

lemma same_books_ok: "same_books s s' \<Longrightarrow> reduced_ok (s', ws') = reduced_ok (s, ws)"
  "same_books s s' \<Longrightarrow> reduced_view_of (s', ws') = reduced_view_of (s, ws)"
  by (simp_all add: same_books_def reduced_ok_def reduced_view_of_def)

lemma reduced_ok_put_order:
  "reduced_ok (s, ws) \<Longrightarrow> order_value_ok v \<Longrightarrow> reduced_ok (s\<lparr>rs_orders := dset k v (rs_orders s)\<rparr>, ws')"
  by (simp add: reduced_ok_def list_all_dset)

lemma reduced_ok_put_position:
  "reduced_ok (s, ws) \<Longrightarrow> position_value_ok v \<Longrightarrow> reduced_ok (s\<lparr>rs_positions := dset k v (rs_positions s)\<rparr>, ws')"
  by (simp add: reduced_ok_def list_all_dset)

lemma reduce_event_Inr:
  assumes "reduce_event e (s, ws) = Inr q" "reduced_ok (s, ws)"
  shows "reduced_ok q \<and> reduced_view_of q = view_event e (reduced_view_of (s, ws))"
proof -
  consider (order) "is_order_event e" | (position) "\<not> is_order_event e" "is_position_event e"
    | (other) "\<not> is_order_event e" "\<not> is_position_event e" by blast
  then show ?thesis
  proof cases
    case order
    with assms(1) obtain s' where s': "apply_order_event e s = Inr s'" and q: "q = (record_event e s', ws)"
      by (auto simp: reduce_event_def is_order_event_def Let_def)
    obtain v where v: "s' = s\<lparr>rs_orders := dset (order_key e) v (rs_orders s)\<rparr>" "order_value_ok v"
      "order_status_text v = status_of_event e"
      by (rule apply_order_event_Inr [OF s' assms(2) order]) (rule that)
    have "reduced_view_of q = view_event e (reduced_view_of (s, ws))"
      using order event_kinds_exclusive [OF order]
      by (simp add: q v reduced_view_of_def record_event_def view_event_def map_of_dset fun_eq_iff)
    with reduced_ok_put_order [OF assms(2) v(2)] show ?thesis by (simp add: q v(1))
  next
    case position
    with assms(1) obtain s' where s': "apply_position_event e s = Inr s'" and q: "q = (record_event e s', ws)"
      by (auto simp: reduce_event_def is_order_event_def is_position_event_def Let_def)
    obtain v where v: "s' = s\<lparr>rs_positions := dset (position_key_of e) v (rs_positions s)\<rparr>" "position_value_ok v"
      "position_net v = net_of_event e"
      by (rule apply_position_event_Inr [OF s']) (rule that)
    have "reduced_view_of q = view_event e (reduced_view_of (s, ws))"
      using position
      by (simp add: q v reduced_view_of_def record_event_def view_event_def map_of_dset fun_eq_iff)
    with reduced_ok_put_position [OF assms(2) v(2)] show ?thesis by (simp add: q v(1))
  next
    case other
    then have "\<exists>s' ws'. same_books s s' \<and> q = (record_event e s', ws')"
      using assms(1) apply_analytics_same
      by (auto simp: reduce_event_def is_order_event_def is_position_event_def Let_def same_books_def split: if_splits)
    then obtain s' ws' where q: "same_books s s'" "q = (record_event e s', ws')" by blast
    have "reduced_view_of q = view_event e (reduced_view_of (s, ws))"
      using other q(1) by (simp add: q(2) reduced_view_of_def record_event_def view_event_def same_books_def)
    with assms(2) same_books_ok(1) [OF q(1), of ws' ws] show ?thesis by (simp add: q(2))
  qed
qed

interpretation reducer_run: refined_component reduce_event reduced_ok reduced_view_of view_event
proof unfold_locales
  fix e and p q :: "reduced_state \<times> string list"
  obtain s ws where p: "p = (s, ws)" by (cases p)
  assume ok: "reduced_ok p" and run: "reduce_event e p = Inr q"
  show "reduced_ok q" "reduced_view_of q = view_event e (reduced_view_of p)"
    using reduce_event_Inr [OF run [unfolded p] ok [unfolded p]] unfolding p by blast+
qed

text \<open>The view after a list of events: the last event of each order and position counts.\<close>

definition last_of :: "(pydict \<Rightarrow> bool) \<Rightarrow> pydict list \<Rightarrow> pydict option" where
  "last_of P es = (let xs = filter P es in if xs = [] then None else Some (last xs))"

lemma last_of_simps [simp]:
  "last_of P [] = None" "last_of P (es @ [e]) = (if P e then Some e else last_of P es)"
  by (simp_all add: last_of_def)

definition last_order_event :: "pydict list \<Rightarrow> string \<Rightarrow> pydict option" where
  "last_order_event es k = last_of (\<lambda>e. is_order_event e \<and> order_key e = k) es"

definition last_position_event :: "pydict list \<Rightarrow> string \<Rightarrow> pydict option" where
  "last_position_event es k = last_of (\<lambda>e. is_position_event e \<and> position_key_of e = k) es"

lemma view_of_events:
  "fold view_event es \<lparr>vw_status = (\<lambda>_. None), vw_net = (\<lambda>_. None), vw_ids = []\<rparr> =
     \<lparr>vw_status = (\<lambda>k. map_option status_of_event (last_order_event es k)),
      vw_net = (\<lambda>k. map_option net_of_event (last_position_event es k)),
      vw_ids = map (\<lambda>e. dget e ''event_id'') es\<rparr>"
  by (induction es rule: rev_induct)
    (auto simp: view_event_def last_order_event_def last_position_event_def fun_eq_iff)

lemma view_of_empty: "reduced_view_of (empty_state, []) = \<lparr>vw_status = (\<lambda>_. None), vw_net = (\<lambda>_. None), vw_ids = []\<rparr>"
  by (simp add: reduced_view_of_def empty_state_def)

lemma reduced_ok_empty: "reduced_ok (empty_state, [])"
  by (simp add: reduced_ok_def empty_state_def)

text \<open>The counts of the summary are the cardinalities of the books.\<close>

lemma order_terminal_iff:
  "order_value_ok v \<Longrightarrow> terminal_value v \<longleftrightarrow> order_status_text v \<in> set terminal_order_statuses"
  by (auto simp: order_value_ok_def terminal_value_def order_status_text_def)

lemma position_open_iff:
  assumes "position_value_ok v" shows "open_value v = Inr (or_zero (position_net v) \<noteq> 0)"
proof -
  obtain d n where v: "v = PDict d" "dget d ''net_quantity'' = opt_int n" using assms by (auto simp: position_value_ok_def)
  then show ?thesis by (cases n) (simp_all add: open_value_def first_int_def position_net_def opt_int_def)
qed

lemma map_result_pure: "(\<And>x. x \<in> set xs \<Longrightarrow> f x = Inr (g x)) \<Longrightarrow> map_result f xs = Inr (map g xs)"
  by (induction xs) auto

text \<open>What a successful reduction returns.\<close>

definition reduction_of :: "pydict list \<Rightarrow> reduced_state \<Rightarrow> bool" where
  "reduction_of es s \<longleftrightarrow>
     reduced_ok (s, []) \<and>
     reduced_view_of (s, []) =
       \<lparr>vw_status = (\<lambda>k. map_option status_of_event (last_order_event es k)),
        vw_net = (\<lambda>k. map_option net_of_event (last_position_event es k)),
        vw_ids = map (\<lambda>e. dget e ''event_id'') es\<rparr>"

lemma reduced_same: "reduced_ok (s, ws) \<longleftrightarrow> reduced_ok (s, ws')" "reduced_view_of (s, ws) = reduced_view_of (s, ws')"
  by (simp_all add: reduced_ok_def reduced_view_of_def)

lemma reduction_of_summary [simp]: "reduction_of es (s\<lparr>rs_summary := x\<rparr>) \<longleftrightarrow> reduction_of es s"
  by (simp add: reduction_of_def reduced_ok_def reduced_view_of_def)

lemma reduction_of_run:
  assumes "fold_result reduce_event es (empty_state, []) = Inr (s, ws)" shows "reduction_of es s"
  using reducer_run.run_refines [OF reduced_ok_empty assms] reduced_same [of s ws "[]"]
  by (simp add: reduction_of_def view_of_empty view_of_events)

lemma reduce_cases:
  assumes "reduce_paper_events (EventsList raws) = Inr r"
  obtains (blocked) "rr_status r = BLOCKED" "\<not> rr_reduced r" "rr_blockers r \<noteq> []" "rr_state r = empty_state"
      "\<not> (\<exists>es. map_result normalize_paper_event raws = Inr es \<and> reducible es)"
    | (empty) "rr_status r = EMPTY" "rr_reduced r" "rr_blockers r = []" "rr_state r = empty_state" "raws = []"
    | (reduced) es s where "rr_status r = REDUCED" "rr_reduced r" "rr_blockers r = []" "raws \<noteq> []"
      "map_result normalize_paper_event raws = Inr es" "reducible es" "reduction_of es s"
      "build_summary s = Inr (rs_summary (rr_state r))" "rr_state r = s\<lparr>rs_summary := rs_summary (rr_state r)\<rparr>"
proof -
  obtain bs es where val: "validate_reducer_inputs (EventsList raws) = Inr (bs, es)"
    using assms by (auto simp: reduce_paper_events_def)
  note outcome = validate_reducer_outcome [OF val]
  show thesis
  proof (cases "bs = []")
    case False
    with assms val outcome(1) blocked show thesis by (auto simp: reduce_paper_events_def)
  next
    case True
    note es = outcome(2) [OF True]
    then have "length es = length raws" by (auto dest: map_result_length)
    show thesis
    proof (cases "es = []")
      case e: True
      with \<open>length es = length raws\<close> have "raws = []" by simp
      with assms val True e empty show thesis by (auto simp: reduce_paper_events_def)
    next
      case False
      with assms val True obtain s ws summary where
        run: "fold_result reduce_event es (empty_state, []) = Inr (s, ws)" "build_summary s = Inr summary"
        and r: "r = \<lparr>rr_reduced = True, rr_status = REDUCED, rr_state = s\<lparr>rs_summary := summary\<rparr>, rr_blockers = [],
                rr_warnings = dedupe ws\<rparr>"
        by (auto simp: reduce_paper_events_def)
      from False \<open>length es = length raws\<close> have "raws \<noteq> []" by auto
      from reduced [OF _ _ _ this _ _ reduction_of_run [OF run(1)]] es run(2) show thesis by (simp add: r)
    qed
  qed
qed

lemma reduction_summary:
  assumes red: "reduction_of es s" and sum: "build_summary s = Inr d"
  shows "dget d ''event_count'' = PInt (int (length es))"
    "dget d ''order_count'' = PInt (int (card {k. last_order_event es k \<noteq> None}))"
    "dget d ''terminal_order_count'' =
       PInt (int (card {k. \<exists>e. last_order_event es k = Some e \<and> status_of_event e \<in> set terminal_order_statuses}))"
    "dget d ''position_count'' = PInt (int (card {k. last_position_event es k \<noteq> None}))"
    "dget d ''open_position_count'' =
       PInt (int (card {k. \<exists>e. last_position_event es k = Some e \<and> or_zero (net_of_event e) \<noteq> 0}))"
    "\<exists>a b. dget d ''order_count'' = PInt a \<and> dget d ''terminal_order_count'' = PInt b \<and> dget d ''open_order_count'' = PInt (a - b)"
proof -
  have orders: "map_option order_status_text (map_of (rs_orders s) k) = map_option status_of_event (last_order_event es k)"
    and positions: "map_option position_net (map_of (rs_positions s) k) = map_option net_of_event (last_position_event es k)"
    and ids: "rs_applied_event_ids s = map (\<lambda>e. dget e ''event_id'') es" for k
    using red by (auto simp: reduction_of_def reduced_view_of_def fun_eq_iff)
  have ok: "distinct (map fst (rs_orders s))" "list_all order_value_ok (map snd (rs_orders s))"
    "distinct (map fst (rs_positions s))" "list_all position_value_ok (map snd (rs_positions s))"
    using red by (simp_all add: reduction_of_def reduced_ok_def)
  let ?open = "\<lambda>v. or_zero (position_net v) \<noteq> 0"
  have "map_result open_value (map snd (rs_positions s)) = Inr (map ?open (map snd (rs_positions s)))"
    using ok(4) by (intro map_result_pure position_open_iff) (auto simp: list_all_iff)
  then have d: "d = [(''event_count'', PInt (int (length es))),
                  (''order_count'', PInt (int (length (map snd (rs_orders s))))),
                  (''open_order_count'', PInt (int (length (map snd (rs_orders s))) -
                     int (length (filter terminal_value (map snd (rs_orders s)))))),
                  (''terminal_order_count'', PInt (int (length (filter terminal_value (map snd (rs_orders s)))))),
                  (''position_count'', PInt (int (length (map snd (rs_positions s))))),
                  (''open_position_count'', PInt (int (length (filter ?open (map snd (rs_positions s)))))),
                  (''flat_position_count'', PInt (int (length (map snd (rs_positions s))) -
                     int (length (filter ?open (map snd (rs_positions s)))))),
                  (''pnl_mark_count'', PInt (int (length (rs_pnl_marks s)))),
                  (''slippage_measurement_count'', PInt (int (length (rs_slippage_measurements s)))),
                  (''performance_snapshot_count'', PInt (int (length (rs_performance_snapshots s))))] @ read_only_flags"
    using sum by (simp add: build_summary_def Let_def ids filter_map comp_def)
  show "dget d ''event_count'' = PInt (int (length es))" by (simp add: d)
  show "\<exists>a b. dget d ''order_count'' = PInt a \<and> dget d ''terminal_order_count'' = PInt b \<and> dget d ''open_order_count'' = PInt (a - b)"
    by (simp add: d)
  show "dget d ''order_count'' = PInt (int (card {k. last_order_event es k \<noteq> None}))"
  proof -
    have "length (filter (\<lambda>_. True) (map snd (rs_orders s))) = card {k. map_of (rs_orders s) k \<noteq> None}"
      unfolding count_entries_card [OF ok(1)] by (rule arg_cong [where f = card]) auto
    also have "{k. map_of (rs_orders s) k \<noteq> None} = {k. last_order_event es k \<noteq> None}"
      using orders by (metis option.map_disc_iff)
    finally show ?thesis by (simp add: d)
  qed
  show "dget d ''position_count'' = PInt (int (card {k. last_position_event es k \<noteq> None}))"
  proof -
    have "length (filter (\<lambda>_. True) (map snd (rs_positions s))) = card {k. map_of (rs_positions s) k \<noteq> None}"
      unfolding count_entries_card [OF ok(3)] by (rule arg_cong [where f = card]) auto
    also have "{k. map_of (rs_positions s) k \<noteq> None} = {k. last_position_event es k \<noteq> None}"
      using positions by (metis option.map_disc_iff)
    finally show ?thesis by (simp add: d)
  qed
  show "dget d ''terminal_order_count'' =
       PInt (int (card {k. \<exists>e. last_order_event es k = Some e \<and> status_of_event e \<in> set terminal_order_statuses}))"
  proof -
    have "(\<exists>v. map_of (rs_orders s) k = Some v \<and> terminal_value v) \<longleftrightarrow>
        (\<exists>e. last_order_event es k = Some e \<and> status_of_event e \<in> set terminal_order_statuses)" for k
    proof (cases "map_of (rs_orders s) k")
      case None
      with orders [of k] show ?thesis by auto
    next
      case (Some v)
      then have "order_value_ok v" using ok(2) by (auto simp: list_all_iff dest!: map_of_SomeD)
      with Some orders [of k] show ?thesis by (cases "last_order_event es k") (auto simp: order_terminal_iff)
    qed
    then have "length (filter terminal_value (map snd (rs_orders s))) =
        card {k. \<exists>e. last_order_event es k = Some e \<and> status_of_event e \<in> set terminal_order_statuses}"
      unfolding count_entries_card [OF ok(1)] by simp
    then show ?thesis by (simp add: d)
  qed
  show "dget d ''open_position_count'' =
       PInt (int (card {k. \<exists>e. last_position_event es k = Some e \<and> or_zero (net_of_event e) \<noteq> 0}))"
  proof -
    have "(\<exists>v. map_of (rs_positions s) k = Some v \<and> ?open v) \<longleftrightarrow>
        (\<exists>e. last_position_event es k = Some e \<and> or_zero (net_of_event e) \<noteq> 0)" for k
      using positions [of k] by (cases "map_of (rs_positions s) k"; cases "last_position_event es k") auto
    then have "length (filter ?open (map snd (rs_positions s))) =
        card {k. \<exists>e. last_position_event es k = Some e \<and> or_zero (net_of_event e) \<noteq> 0}"
      unfolding count_entries_card [OF ok(3)] by simp
    then show ?thesis by (simp add: d)
  qed
qed

section \<open>Properties\<close>

text \<open>
  C37. Last event wins: when the reducer reduces a list, every order stands in the status of
  the last order event with its key and every position at the net quantity of the last
  position event with its key, orders and positions without an event do not exist, every
  terminal flag agrees with its status and every side with its net quantity, and the applied
  ids are those of the events in their order.
\<close>

theorem reducer_keeps_last_events:
  assumes "reduce_paper_events (EventsList raws) = Inr r" "rr_status r = REDUCED"
  shows "\<exists>es. map_result normalize_paper_event raws = Inr es \<and> reducible es \<and> reduction_of es (rr_state r)"
  using assms(1) by (cases rule: reduce_cases) (use assms(2) in \<open>auto, metis reduction_of_summary\<close>)

definition demo_raws :: "raw_event list" where
  "demo_raws = [RawValue (PDict (demo_raw ''e1'' 1)), RawValue (PDict (demo_raw ''e2'' 2))]"

lemma demo_reduced: "\<exists>r. reduce_paper_events (EventsList demo_raws) = Inr r \<and> rr_status r = REDUCED"
proof -
  have "(case reduce_paper_events (EventsList demo_raws) of Inr r \<Rightarrow> rr_status r = REDUCED | Inl _ \<Rightarrow> False)" by code_simp
  then show ?thesis by (cases "reduce_paper_events (EventsList demo_raws)") auto
qed

theorem reducer_keeps_last_events_witness:
  "\<exists>es r. reduce_paper_events (EventsList demo_raws) = Inr r \<and> map_result normalize_paper_event demo_raws = Inr es \<and>
     reduction_of es (rr_state r)"
proof -
  obtain r where r: "reduce_paper_events (EventsList demo_raws) = Inr r" "rr_status r = REDUCED" using demo_reduced by blast
  from reducer_keeps_last_events [OF this] r show ?thesis by blast
qed

text \<open>
  The summary counts what the state holds: the events, the distinct order and position
  keys that the events touch, the orders whose last status is terminal and the positions
  whose last net quantity is not zero.
\<close>

theorem reducer_summary_counts:
  assumes "reduce_paper_events (EventsList raws) = Inr r" "rr_status r = REDUCED"
    and "map_result normalize_paper_event raws = Inr es"
  shows "dget (rs_summary (rr_state r)) ''event_count'' = PInt (int (length raws)) \<and>
    dget (rs_summary (rr_state r)) ''order_count'' = PInt (int (card {k. last_order_event es k \<noteq> None})) \<and>
    dget (rs_summary (rr_state r)) ''terminal_order_count'' =
      PInt (int (card {k. \<exists>e. last_order_event es k = Some e \<and> status_of_event e \<in> set terminal_order_statuses})) \<and>
    dget (rs_summary (rr_state r)) ''open_position_count'' =
      PInt (int (card {k. \<exists>e. last_position_event es k = Some e \<and> or_zero (net_of_event e) \<noteq> 0}))"
proof -
  obtain s where s: "reduction_of es s" "build_summary s = Inr (rs_summary (rr_state r))"
    using assms(1) by (cases rule: reduce_cases) (use assms(2,3) in auto)
  from reduction_summary [OF s] map_result_length [OF assms(3)] show ?thesis by simp
qed

theorem reducer_summary_counts_witness:
  "\<exists>r. reduce_paper_events (EventsList demo_raws) = Inr r \<and> dget (rs_summary (rr_state r)) ''event_count'' = PInt 2"
proof -
  obtain r where r: "reduce_paper_events (EventsList demo_raws) = Inr r" "rr_status r = REDUCED" using demo_reduced by blast
  obtain es where es: "map_result normalize_paper_event demo_raws = Inr es"
    using r(1) by (cases rule: reduce_cases) (use r(2) in auto)
  from reducer_summary_counts [OF r es] r(1) show ?thesis by (auto simp: demo_raws_def)
qed

end
