(* ===== verification/Paper_Mtm.thy ===== *)
theory Paper_Mtm
  imports Paper_Realized
begin

text \<open>
  src/paper_trading/mtm_pnl.py: the mark-to-market valuation of the open positions of a
  position ledger at controlled marks. A row dict is the record \<open>mtm_row\<close>, the summary dict the
  record \<open>mtm_summary\<close>.
\<close>

section \<open>Statuses, rows, result\<close>

datatype mtm_status = VALUED | DEGRADED_MISSING_MARK | EMPTY | BLOCKED

fun mtm_status_value :: "mtm_status \<Rightarrow> string" where
  "mtm_status_value VALUED = ''VALUED''"
| "mtm_status_value DEGRADED_MISSING_MARK = ''DEGRADED_MISSING_MARK''"
| "mtm_status_value EMPTY = ''EMPTY''"
| "mtm_status_value BLOCKED = ''BLOCKED''"

definition controlled_mark_sources :: "string list" where
  "controlled_mark_sources = [''CONTROLLED_MARK'', ''TEST_MARK'', ''SIMULATED_MARK'', ''PAPER_MARK'']"

definition open_position_sides :: "string list" where
  "open_position_sides = [''LONG'', ''SHORT'']"

record mtm_row =
  mw_position :: pydict
  mw_net_quantity :: int
  mw_side :: string
  mw_average_entry_price :: "pyfloat option"
  mw_mark_price :: "pyfloat option"
  mw_unrealized_pnl :: "pyfloat option"
  mw_notional_value :: "pyfloat option"
  mw_row_status :: string
  mw_ts_epoch :: pyval

definition mtm_row_to_dict :: "mtm_row \<Rightarrow> pydict" where
  "mtm_row_to_dict w =
     [(''position_id'', dget (mw_position w) ''position_id''),
      (''position_key'', dget (mw_position w) ''position_key''),
      (''symbol'', dget (mw_position w) ''symbol''),
      (''tradingsymbol'', dget (mw_position w) ''tradingsymbol''),
      (''instrument_token'', dget (mw_position w) ''instrument_token''),
      (''strategy'', dget (mw_position w) ''strategy''),
      (''net_quantity'', PInt (mw_net_quantity w)),
      (''side'', PStr (mw_side w)),
      (''average_entry_price'', opt_float (mw_average_entry_price w)),
      (''mark_price'', opt_float (mw_mark_price w)),
      (''unrealized_pnl'', opt_float (mw_unrealized_pnl w)),
      (''notional_value'', opt_float (mw_notional_value w)),
      (''row_status'', PStr (mw_row_status w)),
      (''ts_epoch'', mw_ts_epoch w),
      (''paper_only'', PBool True),
      (''is_order_action'', PBool False),
      (''broker_api_called'', PBool False),
      (''real_order_id'', PNone)]"

definition mtm_row_keys :: "string list" where
  "mtm_row_keys =
     [''position_id'', ''position_key'', ''symbol'', ''tradingsymbol'', ''instrument_token'', ''strategy'', ''net_quantity'',
      ''side'', ''average_entry_price'', ''mark_price'', ''unrealized_pnl'', ''notional_value'', ''row_status'',
      ''paper_only'', ''is_order_action'', ''broker_api_called'', ''real_order_id'']"

record mtm_summary =
  ms_position_count :: int
  ms_open_position_count :: int
  ms_valued_position_count :: int
  ms_missing_mark_count :: int
  ms_total_unrealized_pnl :: pyval
  ms_gross_notional_value :: pyval
  ms_net_quantity_abs :: int

definition mtm_summary_to_dict :: "mtm_summary \<Rightarrow> pydict" where
  "mtm_summary_to_dict s =
     [(''position_count'', PInt (ms_position_count s)),
      (''open_position_count'', PInt (ms_open_position_count s)),
      (''valued_position_count'', PInt (ms_valued_position_count s)),
      (''missing_mark_count'', PInt (ms_missing_mark_count s)),
      (''total_unrealized_pnl'', ms_total_unrealized_pnl s),
      (''gross_notional_value'', ms_gross_notional_value s),
      (''net_quantity_abs'', PInt (ms_net_quantity_abs s))] @ safe_flags"

definition mtm_summary_keys :: "string list" where
  "mtm_summary_keys =
     [''position_count'', ''open_position_count'', ''valued_position_count'', ''missing_mark_count'',
      ''total_unrealized_pnl'', ''gross_notional_value'', ''net_quantity_abs'', ''paper_only'', ''is_order_action'',
      ''broker_api_called'', ''real_order_id'']"

record mtm_result =
  mt_valued :: bool
  mt_status :: mtm_status
  mt_rows :: "mtm_row list"
  mt_summary :: mtm_summary
  mt_blockers :: "string list"
  mt_warnings :: "string list"
  mt_evidence :: pydict

definition mtm_result_to_dict :: "mtm_result \<Rightarrow> pydict" where
  "mtm_result_to_dict r =
     [(''schema_version'', PStr ''1.0''),
      (''tracker_type'', PStr ''PAPER_MTM_PNL_TRACKER''),
      (''valued'', PBool (mt_valued r)),
      (''status'', PStr (mtm_status_value (mt_status r))),
      (''rows'', PList (map (\<lambda>w. PDict (mtm_row_to_dict w)) (mt_rows r))),
      (''summary'', PDict (mtm_summary_to_dict (mt_summary r))),
      (''blockers'', str_list (mt_blockers r)),
      (''warnings'', str_list (mt_warnings r)),
      (''evidence'', PDict (mt_evidence r)),
      (''paper_only'', PBool True),
      (''is_order_action'', PBool False),
      (''broker_api_called'', PBool False),
      (''real_order_id'', PNone)]"

definition mtm_result_keys :: "string list" where
  "mtm_result_keys =
     [''schema_version'', ''tracker_type'', ''valued'', ''status'', ''rows'', ''summary'', ''blockers'', ''warnings'',
      ''evidence'', ''paper_only'', ''is_order_action'', ''broker_api_called'', ''real_order_id'']"

definition mtm_schema_contract :: pydict where
  "mtm_schema_contract =
     [(''schema_version'', PStr ''1.0''),
      (''tracker_type'', PStr ''PAPER_MTM_PNL_TRACKER''),
      (''consumes'', str_list [''PAPER_POSITION_LEDGER'', ''CONTROLLED_MARK'']),
      (''statuses'', str_list (map mtm_status_value [VALUED, DEGRADED_MISSING_MARK, EMPTY, BLOCKED])),
      (''controlled_mark_sources'', str_list [''CONTROLLED_MARK'', ''PAPER_MARK'', ''SIMULATED_MARK'', ''TEST_MARK'']),
      (''required_result_keys'', str_list mtm_result_keys),
      (''required_row_keys'', str_list mtm_row_keys),
      (''required_summary_keys'', str_list mtm_summary_keys),
      (''safe_flags'', PDict safe_flags),
      (''scope_boundary'', str_list
         [''paper_only'', ''controlled_mark_inputs_only'', ''unrealized_mtm_only'', ''no_realized_pnl'', ''no_fees'',
          ''no_slippage_tracker'', ''no_broker_execution'', ''no_live_orders'', ''no_ui''])]"

section \<open>Marks\<close>

definition age_sec :: "pyval \<Rightarrow> pyfloat option \<Rightarrow> pyfloat option result" where
  "age_sec ts_epoch now_epoch =
     bind_result (float_or_none ts_epoch) (\<lambda>ts.
       Inr (case (ts, now_epoch) of (Some t, Some now) \<Rightarrow> Some (float_max (float_sub now t) (Fin 0)) | _ \<Rightarrow> None))"

definition mark_age :: "pydict \<Rightarrow> pyfloat option \<Rightarrow> pyfloat option result" where
  "mark_age mark now_epoch = age_sec (py_or (dget mark ''ts_epoch'') (dget mark ''mark_ts_epoch'')) now_epoch"

definition price_from_mark :: "pyval \<Rightarrow> pyfloat option result" where
  "price_from_mark raw_mark =
     (case raw_mark of
        PDict d \<Rightarrow> first_value (\<lambda>k. float_or_none (dget d k)) [''mark_price'', ''mark'', ''ltp'', ''last'', ''last_price'', ''close'']
      | _ \<Rightarrow> float_or_none raw_mark)"

text \<open>
  The keys of \<open>nested\<close> are strings: a second lookup with a key that is no string finds
  nothing, and a list or a dict as key raises.
\<close>

fun nested_mark :: "pydict \<Rightarrow> pyval list \<Rightarrow> pyval option result" where
  "nested_mark nested [] = Inr None"
| "nested_mark nested (key # keys) =
     (if is_blank key then nested_mark nested keys
      else if dget nested (py_str key) \<noteq> PNone then Inr (Some (dget nested (py_str key)))
      else if is_list key \<or> is_dict key then Inl TypeError
      else nested_mark nested keys)"

definition mark_price_for_position :: "pydict \<Rightarrow> pydict \<Rightarrow> pyfloat option result" where
  "mark_price_for_position position marks =
     bind_result (price_from_mark (PDict marks)) (\<lambda>direct_mark.
       case dget marks ''marks'' of
         PDict nested \<Rightarrow>
           bind_result (nested_mark nested
             [dget position ''position_key'', dget position ''instrument_token'', dget position ''tradingsymbol'',
              dget position ''symbol'', dget position ''candidate_id'']) (\<lambda>raw.
             case raw of Some v \<Rightarrow> price_from_mark v | None \<Rightarrow> Inr direct_mark)
       | _ \<Rightarrow> Inr direct_mark)"

section \<open>Validation\<close>

text \<open>\<open>v not in (None, False)\<close>: the number 0 is equal to \<open>False\<close>.\<close>

definition flag_unset :: "pyval \<Rightarrow> bool" where
  "flag_unset v \<longleftrightarrow> v \<in> {PNone, PBool False, PInt 0, PFloat (Fin 0)}"

definition nested_row_blockers :: "pyfloat option \<Rightarrow> pyfloat \<Rightarrow> string \<times> pyval \<Rightarrow> string list result" where
  "nested_row_blockers now_epoch max_mark_age_sec = (\<lambda>(key, raw).
     case raw of
       PDict mark \<Rightarrow>
         bind_result (mark_age mark now_epoch) (\<lambda>age.
           Inr (add_if (\<not> flag_unset (dget mark ''is_order_action'')) (''CONTROLLED_MARK_ROW_ORDER_FLAG_UNSAFE:'' @ key) @
                add_if (dget mark ''broker_api_called'' = PBool True) (''CONTROLLED_MARK_ROW_BROKER_API_CALLED:'' @ key) @
                add_if (\<not> is_blank (dget mark ''real_order_id'')) (''CONTROLLED_MARK_ROW_REAL_ORDER_ID_PRESENT:'' @ key) @
                (case age of Some a \<Rightarrow> add_if (float_lt max_mark_age_sec a) (''CONTROLLED_MARK_ROW_STALE:'' @ key) | None \<Rightarrow> [])))
     | _ \<Rightarrow> Inr [])"

definition nested_marks_checks :: "pydict \<Rightarrow> pyfloat option \<Rightarrow> pyfloat \<Rightarrow> (string list \<times> string list) result" where
  "nested_marks_checks marks now_epoch max_mark_age_sec =
     (case dget marks ''marks'' of
        PNone \<Rightarrow> Inr ([], [''CONTROLLED_MARKS_MAP_MISSING''])
      | PDict nested \<Rightarrow>
          bind_result (map_result (nested_row_blockers now_epoch max_mark_age_sec) nested) (\<lambda>bs. Inr (concat bs, []))
      | _ \<Rightarrow> Inr ([''CONTROLLED_MARKS_MAP_INVALID''], []))"

definition mtm_ledger_blockers :: "pydict \<Rightarrow> string list" where
  "mtm_ledger_blockers ledger =
     (if ledger = [] then [''PAPER_POSITION_LEDGER_REQUIRED'']
      else
        add_if (dget ledger ''ledger_type'' \<noteq> PStr ''PAPER_POSITION_LEDGER'') ''PAPER_POSITION_LEDGER_TYPE_REQUIRED'' @
        validate_safe_flags ''PAPER_POSITION_LEDGER'' ledger @
        add_if (\<not> is_dict (dget ledger ''positions'')) ''PAPER_POSITION_LEDGER_POSITIONS_INVALID'')"

definition mtm_marks_checks :: "pydict \<Rightarrow> pyfloat option \<Rightarrow> pyfloat \<Rightarrow> (string list \<times> string list) result" where
  "mtm_marks_checks marks now_epoch max_mark_age_sec =
     (if marks = [] then Inr ([''CONTROLLED_MARK_REQUIRED''], [])
      else
        bind_result (mark_age marks now_epoch) (\<lambda>age.
        bind_result (nested_marks_checks marks now_epoch max_mark_age_sec) (\<lambda>(nested_bs, nested_ws).
          Inr (add_if (upper_text (dget marks ''source'') \<notin> set controlled_mark_sources) ''CONTROLLED_MARK_SOURCE_REQUIRED'' @
               add_if (dget marks ''is_order_action'' \<noteq> PBool False) ''CONTROLLED_MARK_ORDER_FLAG_UNSAFE'' @
               add_if (dget marks ''broker_api_called'' = PBool True) ''CONTROLLED_MARK_BROKER_API_CALLED'' @
               add_if (\<not> is_blank (dget marks ''real_order_id'')) ''CONTROLLED_MARK_REAL_ORDER_ID_PRESENT'' @
               (case age of Some a \<Rightarrow> add_if (float_lt max_mark_age_sec a) ''CONTROLLED_MARK_STALE'' | None \<Rightarrow> []) @ nested_bs,
               add_if (age = None) ''CONTROLLED_MARK_AGE_UNAVAILABLE'' @ nested_ws))))"

definition validate_mtm_inputs ::
  "pydict \<Rightarrow> pydict \<Rightarrow> pyfloat option \<Rightarrow> pyfloat \<Rightarrow> (string list \<times> string list) result" where
  "validate_mtm_inputs ledger marks now_epoch max_mark_age_sec =
     bind_result (mtm_marks_checks marks now_epoch max_mark_age_sec) (\<lambda>(bs, ws).
       Inr (dedupe (mtm_ledger_blockers ledger @ bs), dedupe ws))"

definition mtm_evidence :: "pydict \<Rightarrow> pydict \<Rightarrow> pyfloat option \<Rightarrow> pyfloat \<Rightarrow> pydict result" where
  "mtm_evidence ledger marks now_epoch max_mark_age_sec =
     bind_result (mark_age marks now_epoch) (\<lambda>age.
       Inr ([(''ledger_type'', dget ledger ''ledger_type''),
             (''position_count'', PInt (count_entries (dget ledger ''positions''))),
             (''mark_source'', dget marks ''source''),
             (''mark_ts_epoch'', py_or (dget marks ''ts_epoch'') (dget marks ''mark_ts_epoch'')),
             (''mark_age_sec'', opt_float age),
             (''max_mark_age_sec'', PFloat max_mark_age_sec),
             (''controlled_mark_only'', PBool True),
             (''unrealized_mtm_only'', PBool True)] @ safe_flags))"

section \<open>Valuation\<close>

text \<open>\<open>round((mark_price - average_entry_price) * abs(net_quantity) * multiplier, 6)\<close>\<close>

definition unrealized_pnl :: "pyfloat \<Rightarrow> pyfloat \<Rightarrow> int \<Rightarrow> string \<Rightarrow> pyfloat result" where
  "unrealized_pnl mark_price average_entry_price net_quantity side =
     bind_result (float_of_int \<bar>net_quantity\<bar>) (\<lambda>q.
       Inr (py_round (float_mul (float_mul (float_sub mark_price average_entry_price) q)
              (Fin (if side = ''LONG'' then 1 else - 1))) 6))"

definition notional_value :: "int \<Rightarrow> pyfloat \<Rightarrow> pyfloat result" where
  "notional_value net_quantity mark_price =
     bind_result (float_of_int \<bar>net_quantity\<bar>) (\<lambda>q. Inr (py_round (float_mul q mark_price) 6))"

definition row_open :: "mtm_row \<Rightarrow> bool" where
  "row_open w \<longleftrightarrow> mw_side w \<in> set open_position_sides \<and> mw_net_quantity w \<noteq> 0"

definition mtm_row_of :: "pydict \<Rightarrow> pyval \<Rightarrow> pyval \<Rightarrow> mtm_row result" where
  "mtm_row_of marks ts_epoch position_value =
     bind_result (need_dict position_value) (\<lambda>position.
     bind_result (int_or_zero (dget position ''net_quantity'')) (\<lambda>net.
     (let side = upper (py_str (py_or (dget position ''side'') (PStr ''FLAT'')))
      in bind_result (float_or_none (dget position ''average_entry_price'')) (\<lambda>average.
         bind_result (mark_price_for_position position marks) (\<lambda>mark.
         (let row = (\<lambda>pnl notional status.
                \<lparr>mw_position = position, mw_net_quantity = net, mw_side = side, mw_average_entry_price = average,
                 mw_mark_price = mark, mw_unrealized_pnl = pnl, mw_notional_value = notional, mw_row_status = status,
                 mw_ts_epoch = ts_epoch\<rparr>);
              open_position = net \<noteq> 0 \<and> side \<in> set open_position_sides
          in if \<not> open_position then Inr (row (Some (Fin 0)) (Some (Fin 0)) ''FLAT'')
             else (case (average, mark) of
                 (None, _) \<Rightarrow> Inr (row None None ''MISSING_AVERAGE_ENTRY_PRICE'')
               | (Some a, None) \<Rightarrow> Inr (row None None ''MISSING_MARK'')
               | (Some a, Some m) \<Rightarrow>
                   bind_result (unrealized_pnl m a net side) (\<lambda>pnl.
                   bind_result (notional_value net m) (\<lambda>notional.
                     Inr (row (Some pnl) (Some notional) ''VALUED''))))))))))"

definition float_of_opt :: "pyfloat option \<Rightarrow> pyfloat" where
  "float_of_opt x = (case x of Some f \<Rightarrow> f | None \<Rightarrow> Fin 0)"

definition mtm_summary_of :: "mtm_row list \<Rightarrow> mtm_summary" where
  "mtm_summary_of rows =
     (let open_rows = filter row_open rows;
          valued_rows = filter (\<lambda>w. mw_row_status w = ''VALUED'') open_rows;
          missing_rows = filter (\<lambda>w. mw_row_status w \<in> {''MISSING_MARK'', ''MISSING_AVERAGE_ENTRY_PRICE''}) open_rows
      in \<lparr>ms_position_count = int (length rows),
          ms_open_position_count = int (length open_rows),
          ms_valued_position_count = int (length valued_rows),
          ms_missing_mark_count = int (length missing_rows),
          ms_total_unrealized_pnl = rounded_sum (map (\<lambda>w. float_of_opt (mw_unrealized_pnl w)) valued_rows),
          ms_gross_notional_value = rounded_sum (map (\<lambda>w. float_of_opt (mw_notional_value w)) valued_rows),
          ms_net_quantity_abs = sum_list (map (\<lambda>w. \<bar>mw_net_quantity w\<bar>) open_rows)\<rparr>)"

definition mtm_empty_summary :: mtm_summary where
  "mtm_empty_summary =
     \<lparr>ms_position_count = 0, ms_open_position_count = 0, ms_valued_position_count = 0, ms_missing_mark_count = 0,
      ms_total_unrealized_pnl = PFloat (Fin 0), ms_gross_notional_value = PFloat (Fin 0), ms_net_quantity_abs = 0\<rparr>"

record mtm_input =
  mi_ledger :: pyval
  mi_marks :: pyval
  mi_now_epoch :: "pyfloat option"
  mi_max_mark_age :: pyfloat
  mi_ts_epoch :: pyval

definition build_mtm_pnl :: "mtm_input \<Rightarrow> mtm_result result" where
  "build_mtm_pnl q =
     (let ledger = as_dict (mi_ledger q); marks = as_dict (mi_marks q)
      in bind_result (validate_mtm_inputs ledger marks (mi_now_epoch q) (mi_max_mark_age q)) (\<lambda>(blockers, warnings).
         bind_result (mtm_evidence ledger marks (mi_now_epoch q) (mi_max_mark_age q)) (\<lambda>evidence.
         if blockers \<noteq> [] then
           Inr \<lparr>mt_valued = False, mt_status = BLOCKED, mt_rows = [], mt_summary = mtm_empty_summary, mt_blockers = blockers,
                mt_warnings = warnings, mt_evidence = evidence\<rparr>
         else (let positions = as_dict (dget ledger ''positions'')
           in if positions = [] then
                Inr \<lparr>mt_valued = True, mt_status = EMPTY, mt_rows = [], mt_summary = mtm_empty_summary, mt_blockers = [],
                     mt_warnings = dedupe (warnings @ [''PAPER_POSITION_LEDGER_EMPTY'']), mt_evidence = evidence\<rparr>
              else
                bind_result (map_result (mtm_row_of marks (mi_ts_epoch q)) (map snd positions)) (\<lambda>rows.
                (let summary = mtm_summary_of rows;
                     missing = ms_missing_mark_count summary \<noteq> 0;
                     status = (if missing then DEGRADED_MISSING_MARK else VALUED)
                 in Inr \<lparr>mt_valued = (status = VALUED), mt_status = status, mt_rows = rows, mt_summary = summary,
                         mt_blockers = [],
                         mt_warnings = dedupe (warnings @ add_if missing ''MISSING_MARK_FOR_OPEN_POSITION''),
                         mt_evidence = evidence\<rparr>))))))"

interpretation mtm_report: paper_report mtm_result_to_dict mtm_result_keys
  by unfold_locales (simp_all add: mtm_result_to_dict_def mtm_result_keys_def has_key_def flags_safe_def)

interpretation mtm_row_report: paper_report mtm_row_to_dict mtm_row_keys
  by unfold_locales (simp_all add: mtm_row_to_dict_def mtm_row_keys_def has_key_def flags_safe_def)

interpretation mtm_summary_report: paper_report mtm_summary_to_dict mtm_summary_keys
  by unfold_locales (simp_all add: mtm_summary_to_dict_def mtm_summary_keys_def has_key_def flags_safe_def safe_flags_def)

section \<open>What a valuation says\<close>

text \<open>The row of a position that the ledger built.\<close>

definition row_ok :: "mtm_row \<Rightarrow> bool" where
  "row_ok w \<longleftrightarrow>
     mw_side w = side_of (mw_net_quantity w) \<and>
     (if mw_net_quantity w = 0 then mw_row_status w = ''FLAT'' \<and> mw_unrealized_pnl w = Some (Fin 0)
      else case (mw_average_entry_price w, mw_mark_price w) of
          (Some a, Some m) \<Rightarrow> mw_row_status w = ''VALUED'' \<and>
            (\<exists>pnl. mw_unrealized_pnl w = Some pnl \<and> unrealized_pnl m a (mw_net_quantity w) (side_of (mw_net_quantity w)) = Inr pnl)
        | _ \<Rightarrow> mw_row_status w \<in> {''MISSING_MARK'', ''MISSING_AVERAGE_ENTRY_PRICE''} \<and> mw_unrealized_pnl w = None)"

definition row_priced :: "mtm_row \<Rightarrow> bool" where
  "row_priced w \<longleftrightarrow> mw_average_entry_price w \<noteq> None \<and> mw_mark_price w \<noteq> None"

lemma side_upper: "upper (py_str (py_or (PStr (side_of n)) (PStr ''FLAT''))) = side_of n"
proof -
  have "upper ''LONG'' = ''LONG''" "upper ''SHORT'' = ''SHORT''" "upper ''FLAT'' = ''FLAT''" by code_simp+
  then show ?thesis by (simp add: side_of_def py_or_def)
qed

lemma side_open: "side_of n \<in> set open_position_sides \<longleftrightarrow> n \<noteq> 0"
  by (auto simp: side_of_def open_position_sides_def)

lemma mtm_row_ok:
  assumes "position_ok key v" "mtm_row_of marks ts v = Inr w"
  shows "row_ok w \<and> mw_net_quantity w = int_field (dget (as_dict v) ''net_quantity'')"
proof -
  obtain p n a where v: "v = PDict p" "dget p ''net_quantity'' = PInt n" "dget p ''side'' = PStr (side_of n)"
    "dget p ''average_entry_price'' = opt_float a"
    using assms(1) unfolding position_ok_def by blast
  obtain m where m: "mark_price_for_position p marks = Inr m"
    using assms(2) by (auto simp: mtm_row_of_def v Let_def)
  note run = assms(2) [unfolded mtm_row_of_def v(1) need_dict.simps bind_result_simps Let_def v(2-4) side_upper
      float_or_none_opt_float m side_open]
  show ?thesis
  proof (cases "n = 0 \<or> a = None \<or> m = None")
    case True
    then have "(\<exists>status. w = \<lparr>mw_position = p, mw_net_quantity = n, mw_side = side_of n, mw_average_entry_price = a,
        mw_mark_price = m, mw_unrealized_pnl = (if n = 0 then Some (Fin 0) else None),
        mw_notional_value = (if n = 0 then Some (Fin 0) else None), mw_row_status = status, mw_ts_epoch = ts\<rparr> \<and>
        (if n = 0 then status = ''FLAT'' else status \<in> {''MISSING_MARK'', ''MISSING_AVERAGE_ENTRY_PRICE''}))"
      using run by (cases "n = 0"; cases a; cases m) auto
    with True show ?thesis by (cases a; cases m) (auto simp: row_ok_def v)
  next
    case False
    then obtain a' m' where am: "a = Some a'" "m = Some m'" by (cases a; cases m) auto
    from run False am obtain pnl x where "unrealized_pnl m' a' n (side_of n) = Inr pnl" "notional_value n m' = Inr x"
      by auto
    with run False am show ?thesis by (auto simp: row_ok_def v)
  qed
qed

lemma row_ok_open: "row_ok w \<Longrightarrow> row_open w \<longleftrightarrow> mw_net_quantity w \<noteq> 0"
  by (simp add: row_ok_def row_open_def side_open)

lemma row_ok_missing:
  "row_ok w \<Longrightarrow> row_open w \<and> mw_row_status w \<in> {''MISSING_MARK'', ''MISSING_AVERAGE_ENTRY_PRICE''} \<longleftrightarrow>
     mw_net_quantity w \<noteq> 0 \<and> \<not> row_priced w"
  by (auto simp: row_ok_open row_priced_def) (auto simp: row_ok_def split: if_splits option.splits)

definition gross_net :: "book \<Rightarrow> int" where
  "gross_net b = (\<Sum>key | bk_nets b key \<noteq> 0. \<bar>bk_nets b key\<bar>)"

lemma build_mtm_cases:
  assumes "build_mtm_pnl q = Inr r" "mi_ledger q = PDict d" "ledger_ok d" "mt_status r \<noteq> BLOCKED"
  obtains ps where "dget d ''positions'' = PDict ps" "list_all row_ok (mt_rows r)" "mt_summary r = mtm_summary_of (mt_rows r) \<or> ps = []"
    "map mw_net_quantity (mt_rows r) = map (\<lambda>v. int_field (dget (as_dict v) ''net_quantity'')) (map snd ps)"
    "mt_valued r \<longleftrightarrow> ms_missing_mark_count (mt_summary r) = 0" "ps = [] \<Longrightarrow> mt_summary r = mtm_empty_summary"
proof -
  obtain ps where ps: "dget d ''positions'' = PDict ps" "distinct (map fst ps)"
    "\<And>key v. map_of ps key = Some v \<Longrightarrow> position_ok key v"
    using assms(3) unfolding ledger_ok_def by blast
  obtain bs ws ev where val: "validate_mtm_inputs d (as_dict (mi_marks q)) (mi_now_epoch q) (mi_max_mark_age q) = Inr (bs, ws)"
    "mtm_evidence d (as_dict (mi_marks q)) (mi_now_epoch q) (mi_max_mark_age q) = Inr ev"
    using assms(1,2) by (auto simp: build_mtm_pnl_def Let_def)
  note run = assms(1) [unfolded build_mtm_pnl_def Let_def assms(2) as_dict.simps val bind_result_simps prod.case ps(1)]
  show thesis
  proof (cases "bs = [] \<and> ps \<noteq> []")
    case False
    with run assms(4) have "ps = []" "mt_rows r = []" "mt_summary r = mtm_empty_summary" "mt_valued r"
      by (auto split: if_splits)
    with ps(1) that show thesis by (simp add: mtm_empty_summary_def)
  next
    case True
    with run obtain rows where rows: "map_result (mtm_row_of (as_dict (mi_marks q)) (mi_ts_epoch q)) (map snd ps) = Inr rows"
      and r: "mt_rows r = rows" "mt_summary r = mtm_summary_of rows"
        "mt_valued r \<longleftrightarrow> ms_missing_mark_count (mtm_summary_of rows) = 0"
      by auto
    have "\<exists>key. position_ok key v" if "v \<in> set (map snd ps)" for v
    proof -
      obtain e where "e \<in> set ps" "v = snd e" using \<open>v \<in> set (map snd ps)\<close> by auto
      then have "(fst e, v) \<in> set ps" by simp
      with ps(2) have "map_of ps (fst e) = Some v" by (rule map_of_is_SomeI)
      with ps(3) show ?thesis by blast
    qed
    then have all: "list_all2 (\<lambda>v w. row_ok w \<and> mw_net_quantity w = int_field (dget (as_dict v) ''net_quantity'')) (map snd ps) rows"
      using map_result_list_all2 [OF rows] mtm_row_ok by (elim list.rel_mono_strong) blast
    then have "map mw_net_quantity rows = map (\<lambda>v. int_field (dget (as_dict v) ''net_quantity'')) (map snd ps)"
      by (intro nth_equalityI) (auto simp: list_all2_conv_all_nth)
    moreover have "list_all row_ok rows" using all by (auto simp: list_all2_conv_all_nth list_all_length)
    ultimately show thesis using that [OF ps(1)] True by (simp add: r)
  qed
qed

lemma nets_of_rows:
  assumes "ledger_ok d" "dget d ''positions'' = PDict ps"
  shows "sum_list (map (\<lambda>v. \<bar>int_field (dget (as_dict v) ''net_quantity'')\<bar>) (map snd ps)) = gross_net (book_of (PDict d))"
proof -
  obtain fs where fs: "dget d ''order_fills'' = PDict fs" and dist: "distinct (map fst ps)"
    using assms unfolding ledger_ok_def by auto
  have "{key. \<bar>bk_nets b key\<bar> \<noteq> 0} = {key. bk_nets b key \<noteq> 0}" for b by auto
  then show ?thesis
    unfolding gross_net_def book_of_ledger [OF assms fs] book.select_convs
    using sum_entries [OF dist, of "\<lambda>key. \<bar>int_field (dget (as_dict (dget ps key)) ''net_quantity'')\<bar>"
        "\<lambda>v. \<bar>int_field (dget (as_dict v) ''net_quantity'')\<bar>"] dist
    by (simp add: dget_def [of ps])
qed

section \<open>Properties\<close>

text \<open>
  Valuation: for a ledger that the position module built, a valuation that is not blocked
  has one row per position with its net quantity and side. A flat position is worth 0; an
  open one with an entry price and a mark is valued at the price difference times its size,
  with the sign of its side; the result counts as valued exactly when no open position lacks
  a price, and the gross quantity is the sum of the net quantities of the book in absolute
  value.
\<close>

theorem mtm_values_positions:
  assumes "build_mtm_pnl q = Inr r" "mi_ledger q = PDict d" "ledger_ok d" "mt_status r \<noteq> BLOCKED"
  shows "list_all row_ok (mt_rows r) \<and>
    (mt_valued r \<longleftrightarrow> list_all (\<lambda>w. mw_net_quantity w = 0 \<or> row_priced w) (mt_rows r)) \<and>
    ms_net_quantity_abs (mt_summary r) = gross_net (book_of (PDict d))"
proof -
  obtain ps where ps: "dget d ''positions'' = PDict ps" and rows: "list_all row_ok (mt_rows r)"
    and sum: "mt_summary r = mtm_summary_of (mt_rows r) \<or> ps = []" "ps = [] \<Longrightarrow> mt_summary r = mtm_empty_summary"
    and nets: "map mw_net_quantity (mt_rows r) = map (\<lambda>v. int_field (dget (as_dict v) ''net_quantity'')) (map snd ps)"
    and valued: "mt_valued r \<longleftrightarrow> ms_missing_mark_count (mt_summary r) = 0"
    by (rule build_mtm_cases [OF assms]) (rule that)
  have "mt_summary r = mtm_summary_of (mt_rows r) \<or> mt_rows r = [] \<and> mt_summary r = mtm_empty_summary" using sum nets by auto
  then have summary: "ms_missing_mark_count (mt_summary r) =
        int (length (filter (\<lambda>w. row_open w \<and> mw_row_status w \<in> {''MISSING_MARK'', ''MISSING_AVERAGE_ENTRY_PRICE''}) (mt_rows r)))"
      "ms_net_quantity_abs (mt_summary r) = sum_list (map (\<lambda>w. \<bar>mw_net_quantity w\<bar>) (filter row_open (mt_rows r)))"
    by (auto simp: mtm_summary_of_def mtm_empty_summary_def Let_def conj_commute)
  have "mt_valued r \<longleftrightarrow> list_all (\<lambda>w. mw_net_quantity w = 0 \<or> row_priced w) (mt_rows r)"
    unfolding valued summary(1) using rows row_ok_missing
    by (simp add: filter_empty_conv list_all_iff)
  moreover have "sum_list (map (\<lambda>w. \<bar>mw_net_quantity w\<bar>) (filter row_open ws)) = sum_list (map (\<lambda>w. \<bar>mw_net_quantity w\<bar>) ws)"
    if "list_all row_ok ws" for ws
    using that by (induction ws) (auto simp: row_ok_open)
  then have "ms_net_quantity_abs (mt_summary r) = sum_list (map abs (map mw_net_quantity (mt_rows r)))"
    using rows by (simp add: summary(2) comp_def)
  then have "ms_net_quantity_abs (mt_summary r) = gross_net (book_of (PDict d))"
    using nets_of_rows [OF assms(3) ps] unfolding nets by (simp add: comp_def)
  ultimately show ?thesis using rows by blast
qed

definition demo_valuation :: mtm_input where
  "demo_valuation =
     \<lparr>mi_ledger = PDict demo_long_ledger,
      mi_marks = PDict [(''source'', PStr ''TEST_MARK''), (''is_order_action'', PBool False), (''ts_epoch'', PInt 1),
        (''marks'', PDict [(''NIFTY'', PFloat (Fin 103))])],
      mi_now_epoch = Some (Fin 2), mi_max_mark_age = Fin 5, mi_ts_epoch = PNone\<rparr>"

theorem mtm_values_positions_witness:
  "\<exists>r. build_mtm_pnl demo_valuation = Inr r \<and> mt_valued r \<and> ms_net_quantity_abs (mt_summary r) = gross_net (book_of (PDict demo_long_ledger)) \<and>
     ms_total_unrealized_pnl (mt_summary r) = PFloat (Fin 60)"
proof -
  have "case build_mtm_pnl demo_valuation of
      Inr r \<Rightarrow> mt_status r = VALUED \<and> mt_valued r \<and> ms_total_unrealized_pnl (mt_summary r) = PFloat (Fin 60) | Inl _ \<Rightarrow> False"
    by code_simp
  then obtain r where r: "build_mtm_pnl demo_valuation = Inr r" "mt_status r = VALUED" "mt_valued r"
    "ms_total_unrealized_pnl (mt_summary r) = PFloat (Fin 60)"
    by (cases "build_mtm_pnl demo_valuation") auto
  have "mi_ledger demo_valuation = PDict demo_long_ledger" by (simp add: demo_valuation_def)
  from mtm_values_positions [OF r(1) this demo_long_ledger_ok] r show ?thesis by simp
qed

end
