(* ===== verification/Paper_Slippage.thy ===== *)
theory Paper_Slippage
  imports Paper_Realized
begin

text \<open>
  src/paper_trading/slippage.py: the slippage of each fill against a controlled expected
  price. The report keeps the events, the keys of the fills it has seen and the cumulative
  fill of every order, so that only the part of a fill that is new is measured.
\<close>

section \<open>Statuses, result, contract\<close>

datatype slippage_status = MEASURED | NO_FILL | NO_SLIPPAGE_CHANGE | BLOCKED

fun slippage_status_value :: "slippage_status \<Rightarrow> string" where
  "slippage_status_value MEASURED = ''MEASURED''"
| "slippage_status_value NO_FILL = ''NO_FILL''"
| "slippage_status_value NO_SLIPPAGE_CHANGE = ''NO_SLIPPAGE_CHANGE''"
| "slippage_status_value BLOCKED = ''BLOCKED''"

definition slippage_fill_statuses :: "string list" where
  "slippage_fill_statuses = [''PARTIALLY_FILLED'', ''FILLED'']"

record slippage_result =
  sl_measured :: bool
  sl_status :: slippage_status
  sl_report :: pydict
  sl_event :: "pydict option"
  sl_measured_quantity :: int
  sl_per_unit :: pyfloat
  sl_amount :: pyfloat
  sl_bps :: "pyfloat option"
  sl_blockers :: "string list"
  sl_warnings :: "string list"
  sl_evidence :: pydict

definition slippage_result_to_dict :: "slippage_result \<Rightarrow> pydict" where
  "slippage_result_to_dict r =
     [(''schema_version'', PStr ''1.0''),
      (''report_type'', PStr ''PAPER_SLIPPAGE_FILL_QUALITY''),
      (''measured'', PBool (sl_measured r)),
      (''status'', PStr (slippage_status_value (sl_status r))),
      (''report'', PDict (sl_report r)),
      (''event'', dict_or_none (sl_event r)),
      (''measured_quantity'', PInt (sl_measured_quantity r)),
      (''slippage_per_unit'', PFloat (sl_per_unit r)),
      (''slippage_amount'', PFloat (sl_amount r)),
      (''slippage_bps'', opt_float (sl_bps r)),
      (''blockers'', str_list (sl_blockers r)),
      (''warnings'', str_list (sl_warnings r)),
      (''evidence'', PDict (sl_evidence r)),
      (''paper_only'', PBool True),
      (''is_order_action'', PBool False),
      (''broker_api_called'', PBool False),
      (''real_order_id'', PNone)]"

definition slippage_result_keys :: "string list" where
  "slippage_result_keys =
     [''schema_version'', ''report_type'', ''measured'', ''status'', ''report'', ''event'', ''measured_quantity'',
      ''slippage_per_unit'', ''slippage_amount'', ''slippage_bps'', ''blockers'', ''warnings'', ''evidence'', ''paper_only'',
      ''is_order_action'', ''broker_api_called'', ''real_order_id'']"

definition slippage_report_keys :: "string list" where
  "slippage_report_keys =
     [''schema_version'', ''report_type'', ''events'', ''applied_fill_keys'', ''order_fills'', ''summary'', ''paper_only'',
      ''is_order_action'', ''broker_api_called'', ''real_order_id'']"

definition slippage_event_keys :: "string list" where
  "slippage_event_keys =
     [''slippage_event_id'', ''fill_key'', ''paper_order_id'', ''paper_order_intent_id'', ''candidate_id'',
      ''transaction_type'', ''expected_price'', ''fill_price'', ''measured_quantity'', ''slippage_per_unit'',
      ''slippage_amount'', ''slippage_bps'', ''slippage_quality'', ''paper_only'', ''is_order_action'',
      ''broker_api_called'', ''real_order_id'']"

definition slippage_summary_keys :: "string list" where
  "slippage_summary_keys =
     [''event_count'', ''measured_quantity'', ''total_slippage_amount'', ''average_slippage_per_unit'',
      ''weighted_average_slippage_bps'', ''favorable_event_count'', ''unfavorable_event_count'', ''flat_event_count'',
      ''paper_only'', ''is_order_action'', ''broker_api_called'', ''real_order_id'']"

definition slippage_schema_contract :: pydict where
  "slippage_schema_contract =
     [(''schema_version'', PStr ''1.0''),
      (''report_type'', PStr ''PAPER_SLIPPAGE_FILL_QUALITY''),
      (''consumes'', str_list [''PAPER_ORDER_INTENT'', ''PAPER_ORDER_LIFECYCLE_EVENT'', ''CONTROLLED_EXPECTED_PRICE'']),
      (''fill_event_statuses'', str_list [''FILLED'', ''PARTIALLY_FILLED'']),
      (''statuses'', str_list (map slippage_status_value [MEASURED, NO_FILL, NO_SLIPPAGE_CHANGE, BLOCKED])),
      (''required_result_keys'', str_list slippage_result_keys),
      (''required_report_keys'', str_list slippage_report_keys),
      (''required_event_keys'', str_list slippage_event_keys),
      (''required_summary_keys'', str_list slippage_summary_keys),
      (''safe_flags'', PDict safe_flags),
      (''scope_boundary'', str_list
         [''paper_only'', ''fill_quality_evidence_only'', ''no_broker_execution'', ''no_live_orders'', ''no_pnl_mutation'',
          ''no_fees'', ''no_ui''])]"

section \<open>The report\<close>

text \<open>\<open>numerator += bps * qty\<close> over the events.\<close>

fun bps_numerator :: "pydict list \<Rightarrow> pyfloat \<Rightarrow> pyfloat result" where
  "bps_numerator [] numerator = Inr numerator"
| "bps_numerator (event # events) numerator =
     bind_result (float_or_none (dget event ''slippage_bps'')) (\<lambda>bps.
     bind_result (int_or_zero (dget event ''measured_quantity'')) (\<lambda>qty.
       case bps of
         None \<Rightarrow> bps_numerator events numerator
       | Some b \<Rightarrow> bind_result (float_of_int qty) (\<lambda>q. bps_numerator events (float_add numerator (float_mul b q)))))"

definition weighted_average_bps :: "pydict list \<Rightarrow> int \<Rightarrow> pyfloat result" where
  "weighted_average_bps events measured_quantity =
     (if measured_quantity = 0 then Inr (Fin 0)
      else
        bind_result (bps_numerator events (Fin 0)) (\<lambda>numerator.
        bind_result (float_of_int measured_quantity) (\<lambda>q.
        bind_result (float_div numerator q) (\<lambda>x. Inr (py_round x 6)))))"

definition average_per_unit :: "pyval \<Rightarrow> int \<Rightarrow> pyfloat result" where
  "average_per_unit total_amount measured_quantity =
     (if measured_quantity = 0 then Inr (Fin 0)
      else
        bind_result (py_float total_amount) (\<lambda>total.
        bind_result (float_of_int measured_quantity) (\<lambda>q.
        bind_result (float_div total q) (\<lambda>x. Inr (py_round x 6)))))"

definition slippage_summary :: "pydict list \<Rightarrow> pydict result" where
  "slippage_summary events =
     bind_result (map_result (\<lambda>e. int_or_zero (dget e ''measured_quantity'')) events) (\<lambda>quantities.
     bind_result (map_result (\<lambda>e. float_or_zero (dget e ''slippage_amount'')) events) (\<lambda>amounts.
     (let measured_quantity = sum_list quantities; total_amount = rounded_sum amounts
      in bind_result (average_per_unit total_amount measured_quantity) (\<lambda>average.
         bind_result (weighted_average_bps events measured_quantity) (\<lambda>bps.
         Inr ([(''event_count'', PInt (int (length events))),
               (''measured_quantity'', PInt measured_quantity),
               (''total_slippage_amount'', total_amount),
               (''average_slippage_per_unit'', PFloat average),
               (''weighted_average_slippage_bps'', PFloat bps),
               (''favorable_event_count'', PInt (int (length (filter (\<lambda>a. float_lt a (Fin 0)) amounts)))),
               (''unfavorable_event_count'', PInt (int (length (filter (\<lambda>a. float_lt (Fin 0) a) amounts)))),
               (''flat_event_count'', PInt (int (length (filter (\<lambda>a. float_eq a (Fin 0)) amounts))))] @ safe_flags))))))"

definition build_report :: "pydict list \<Rightarrow> pyval list \<Rightarrow> pydict \<Rightarrow> pydict result" where
  "build_report events applied_fill_keys order_fills =
     bind_result (slippage_summary events) (\<lambda>summary.
       Inr [(''schema_version'', PStr ''1.0''),
            (''report_type'', PStr ''PAPER_SLIPPAGE_FILL_QUALITY''),
            (''events'', PList (map PDict events)),
            (''applied_fill_keys'', PList applied_fill_keys),
            (''order_fills'', PDict order_fills),
            (''summary'', PDict summary),
            (''paper_only'', PBool True),
            (''is_order_action'', PBool False),
            (''broker_api_called'', PBool False),
            (''real_order_id'', PNone)])"

definition safe_report :: "pyval \<Rightarrow> pydict result" where
  "safe_report previous =
     (if dget (as_dict previous) ''report_type'' = PStr ''PAPER_SLIPPAGE_FILL_QUALITY''
      then Inr (as_dict previous) else build_report [] [] [])"

definition append_slippage :: "pydict \<Rightarrow> pydict list \<Rightarrow> string \<Rightarrow> string \<Rightarrow> int \<Rightarrow> pydict result" where
  "append_slippage report new_events k paper_order_id cumulative =
     bind_result (dict_items (dget report ''events'')) (\<lambda>events.
     bind_result (list_or_empty (dget report ''applied_fill_keys'')) (\<lambda>keys.
     bind_result (dict_or_empty (dget report ''order_fills'')) (\<lambda>order_fills.
       build_report (events @ new_events) (append_key k keys) (dset paper_order_id (PInt cumulative) order_fills))))"

definition append_slippage_key :: "pydict \<Rightarrow> string \<Rightarrow> string \<Rightarrow> int \<Rightarrow> pydict result" where
  "append_slippage_key report k paper_order_id cumulative = append_slippage report [] k paper_order_id cumulative"

definition append_slippage_event :: "pydict \<Rightarrow> pydict \<Rightarrow> string \<Rightarrow> string \<Rightarrow> int \<Rightarrow> pydict result" where
  "append_slippage_event report event k paper_order_id cumulative = append_slippage report [event] k paper_order_id cumulative"

section \<open>The slippage of a fill\<close>

definition resolved_expected_price :: "pydict \<Rightarrow> pyval \<Rightarrow> pyfloat option result" where
  "resolved_expected_price intent expected_price =
     first_value float_or_none
       (expected_price # map (dget intent) [''expected_price'', ''reference_price'', ''price'', ''entry_price'', ''entry''])"

definition slippage_per_unit :: "string \<Rightarrow> pyfloat \<Rightarrow> pyfloat \<Rightarrow> pyfloat" where
  "slippage_per_unit transaction_type expected_price fill_price =
     (if transaction_type = ''BUY'' then py_round (float_sub fill_price expected_price) 6
      else if transaction_type = ''SELL'' then py_round (float_sub expected_price fill_price) 6
      else Fin 0)"

definition slippage_quality :: "pyfloat \<Rightarrow> string" where
  "slippage_quality slippage_amount =
     (if float_lt (Fin 0) slippage_amount then ''UNFAVORABLE''
      else if float_lt slippage_amount (Fin 0) then ''FAVORABLE'' else ''FLAT'')"

definition slippage_event ::
  "pydict \<Rightarrow> pydict \<Rightarrow> string \<Rightarrow> pyfloat \<Rightarrow> pyfloat \<Rightarrow> int \<Rightarrow> pyfloat \<Rightarrow> pyfloat \<Rightarrow> pyfloat option \<Rightarrow> pyval \<Rightarrow> pydict" where
  "slippage_event intent event k expected_price fill_price quantity per_unit amount bps ts_epoch =
     [(''schema_version'', PStr ''1.0''),
      (''event_type'', PStr ''PAPER_SLIPPAGE_FILL_QUALITY_EVENT''),
      (''slippage_event_id'', PStr (''paper-slippage-'' @
         digest16 (join ''|'' [k, float_repr expected_price, float_repr fill_price, int_to_string quantity]))),
      (''fill_key'', PStr k),
      (''paper_order_id'', dget event ''paper_order_id''),
      (''paper_order_intent_id'', dget event ''paper_order_intent_id''),
      (''candidate_id'', dget event ''candidate_id''),
      (''symbol'', dget intent ''symbol''),
      (''tradingsymbol'', dget intent ''tradingsymbol''),
      (''instrument_token'', dget intent ''instrument_token''),
      (''strategy'', dget intent ''strategy''),
      (''transaction_type'', dget intent ''transaction_type''),
      (''expected_price'', PFloat expected_price),
      (''fill_price'', PFloat fill_price),
      (''measured_quantity'', PInt quantity),
      (''slippage_per_unit'', PFloat per_unit),
      (''slippage_amount'', PFloat amount),
      (''slippage_bps'', opt_float bps),
      (''slippage_quality'', PStr (slippage_quality amount)),
      (''ts_epoch'', ts_epoch),
      (''paper_only'', PBool True),
      (''is_order_action'', PBool False),
      (''broker_api_called'', PBool False),
      (''real_order_id'', PNone)]"

section \<open>Validation\<close>

definition previous_report_blockers :: "pydict \<Rightarrow> string list" where
  "previous_report_blockers report =
     (if report = [] then []
      else
        add_if (dget report ''report_type'' \<noteq> PStr ''PAPER_SLIPPAGE_FILL_QUALITY'') ''PAPER_SLIPPAGE_REPORT_TYPE_REQUIRED'' @
        validate_safe_flags ''PAPER_SLIPPAGE_REPORT'' report @
        add_if (\<not> is_list (dget report ''events'')) ''PAPER_SLIPPAGE_EVENTS_INVALID'' @
        add_if (\<not> is_list (dget report ''applied_fill_keys'')) ''PAPER_SLIPPAGE_APPLIED_KEYS_INVALID'' @
        add_if (\<not> is_dict (dget report ''order_fills'')) ''PAPER_SLIPPAGE_ORDER_FILLS_INVALID'')"

text \<open>The checks of the intent, of the lifecycle event and of the ids are those of the realized ledger.\<close>

definition validate_slippage_inputs ::
  "pyval \<Rightarrow> pyval \<Rightarrow> pyval \<Rightarrow> pyval \<Rightarrow> (string list \<times> string list) result" where
  "validate_slippage_inputs intent event expected_price previous_report =
     bind_result (ledger_event_blockers (as_dict event)) (\<lambda>event_bs.
     bind_result (resolved_expected_price (as_dict intent) expected_price) (\<lambda>price.
       Inr (dedupe (realized_intent_blockers (as_dict intent) @ event_bs @ mismatch_blockers (as_dict intent) (as_dict event) @
                    add_if (price = None) ''CONTROLLED_EXPECTED_PRICE_REQUIRED'' @
                    previous_report_blockers (as_dict previous_report)),
            add_if (previous_report = PNone) ''PAPER_SLIPPAGE_REPORT_STARTING_EMPTY'')))"

definition slippage_evidence :: "pydict \<Rightarrow> pydict \<Rightarrow> pyval \<Rightarrow> pydict \<Rightarrow> pydict result" where
  "slippage_evidence intent event expected_price previous_report =
     bind_result (resolved_expected_price intent expected_price) (\<lambda>price.
       Inr ([(''paper_order_intent_id'', dget intent ''paper_order_intent_id''),
             (''paper_order_id'', dget event ''paper_order_id''),
             (''candidate_id'', dget intent ''candidate_id''),
             (''event_status'', dget event ''status''),
             (''event_filled_quantity'', dget event ''filled_quantity''),
             (''expected_price'', opt_float price),
             (''previous_slippage_event_count'', PInt (count_items (dget previous_report ''events''))),
             (''fill_quality_evidence_only'', PBool True)] @ safe_flags))"

section \<open>Measuring a fill\<close>

definition unmeasured ::
  "slippage_status \<Rightarrow> pydict \<Rightarrow> string list \<Rightarrow> string list \<Rightarrow> pydict \<Rightarrow> slippage_result" where
  "unmeasured status report blockers warnings evidence =
     \<lparr>sl_measured = False, sl_status = status, sl_report = report, sl_event = None, sl_measured_quantity = 0,
      sl_per_unit = Fin 0, sl_amount = Fin 0, sl_bps = None, sl_blockers = blockers, sl_warnings = warnings,
      sl_evidence = evidence\<rparr>"

record slippage_input =
  sp_intent :: pyval
  sp_event :: pyval
  sp_expected_price :: pyval
  sp_ts_epoch :: pyval

text \<open>The part of \<open>build_paper_slippage_report\<close> after the prices are resolved.\<close>

definition measure_fill ::
  "slippage_input \<Rightarrow> pydict \<Rightarrow> pydict \<Rightarrow> pydict \<Rightarrow> string \<Rightarrow> int \<Rightarrow> int \<Rightarrow> pyfloat \<Rightarrow> pyfloat \<Rightarrow> string list \<Rightarrow> pydict
   \<Rightarrow> slippage_result result" where
  "measure_fill q intent event report k cumulative quantity expected_price fill_price warnings evidence =
     (let per_unit = slippage_per_unit (upper_text (dget intent ''transaction_type'')) expected_price fill_price
      in bind_result (float_of_int quantity) (\<lambda>fq.
         bind_result (if expected_price \<noteq> Fin 0
             then bind_result (float_div per_unit expected_price) (\<lambda>x. Inr (Some (py_round (float_mul x (Fin 10000)) 6)))
             else Inr None) (\<lambda>bps.
         bind_result (if sp_ts_epoch q \<noteq> PNone then Inr (sp_ts_epoch q)
             else bind_result (float_or_none (dget event ''ts_epoch'')) (\<lambda>t. Inr (opt_float t))) (\<lambda>ts.
         (let amount = py_round (float_mul per_unit fq) 6;
              e = slippage_event intent event k expected_price fill_price quantity per_unit amount bps ts
          in bind_result (append_slippage_event report e k (py_str (dget event ''paper_order_id'')) cumulative) (\<lambda>updated.
             Inr \<lparr>sl_measured = True, sl_status = MEASURED, sl_report = updated, sl_event = Some e,
                  sl_measured_quantity = quantity, sl_per_unit = per_unit, sl_amount = amount, sl_bps = bps,
                  sl_blockers = [], sl_warnings = warnings, sl_evidence = evidence\<rparr>))))))"

definition build_slippage_report :: "slippage_input \<Rightarrow> pyval \<Rightarrow> slippage_result result" where
  "build_slippage_report q previous_report =
     bind_result (validate_slippage_inputs (sp_intent q) (sp_event q) (sp_expected_price q) previous_report)
       (\<lambda>(blockers, warnings).
     bind_result (safe_report previous_report) (\<lambda>report.
     bind_result (slippage_evidence (as_dict (sp_intent q)) (as_dict (sp_event q)) (sp_expected_price q) (as_dict previous_report))
       (\<lambda>evidence.
       if blockers \<noteq> [] then Inr (unmeasured BLOCKED report blockers warnings evidence)
       else
         bind_result (dict_or_empty (sp_intent q)) (\<lambda>intent.
         bind_result (dict_or_empty (sp_event q)) (\<lambda>event.
           if upper_text (dget event ''status'') \<notin> set slippage_fill_statuses
           then Inr (unmeasured NO_FILL report [] (dedupe (warnings @ [''NON_FILL_LIFECYCLE_EVENT_IGNORED''])) evidence)
           else
             (let paper_order_id = py_str (dget event ''paper_order_id'')
              in bind_result (int_or_zero (dget event ''filled_quantity'')) (\<lambda>cumulative.
                 bind_result (previous_order_fill report paper_order_id) (\<lambda>previous_filled.
                 (let quantity = cumulative - previous_filled;
                      k = fill_key paper_order_id cumulative;
                      keyed = dset ''previous_order_filled_quantity'' (PInt previous_filled) (dset ''fill_key'' (PStr k) evidence)
                  in if cumulative < previous_filled
                     then Inr (unmeasured BLOCKED report [''PAPER_FILL_CUMULATIVE_REGRESSION''] warnings
                            (dset ''previous_order_filled_quantity'' (PInt previous_filled) evidence))
                     else
                       bind_result (list_or_empty (dget report ''applied_fill_keys'')) (\<lambda>keys.
                       bind_result (key_applied k keys) (\<lambda>seen.
                         if seen
                         then Inr (unmeasured NO_SLIPPAGE_CHANGE report [] (dedupe (warnings @ [''DUPLICATE_SLIPPAGE_FILL_KEY'']))
                                (dset ''fill_key'' (PStr k) evidence))
                         else if quantity \<le> 0
                         then bind_result (append_slippage_key report k paper_order_id cumulative) (\<lambda>updated.
                                Inr (unmeasured NO_SLIPPAGE_CHANGE updated []
                                       (dedupe (warnings @ [''DUPLICATE_OR_ALREADY_APPLIED_FILL_EVENT''])) keyed))
                         else
                           bind_result (resolved_expected_price intent (sp_expected_price q)) (\<lambda>expected.
                           bind_result (float_or_none (dget event ''average_fill_price'')) (\<lambda>fill_price.
                             case (expected, fill_price) of
                               (Some x, Some p) \<Rightarrow> measure_fill q intent event report k cumulative quantity x p warnings keyed
                             | _ \<Rightarrow> Inr (unmeasured BLOCKED report [''SLIPPAGE_PRICE_INPUT_REQUIRED''] warnings keyed))))))))))))))"

interpretation slippage_report: paper_report slippage_result_to_dict slippage_result_keys
  by unfold_locales (simp_all add: slippage_result_to_dict_def slippage_result_keys_def has_key_def flags_safe_def)

section \<open>The invariant of the report\<close>

definition slippage_event_ok :: "pydict \<Rightarrow> bool" where
  "slippage_event_ok e \<longleftrightarrow>
     (\<exists>n a. dget e ''measured_quantity'' = PInt n \<and> 0 < n \<and> dget e ''slippage_amount'' = PFloat a)"

definition measured_of :: "pydict \<Rightarrow> int" where
  "measured_of e = int_field (dget e ''measured_quantity'')"

definition fills_total :: "pydict \<Rightarrow> int" where
  "fills_total fs = sum_list (map (\<lambda>v. int_field v) (map snd fs))"

text \<open>
  The events and the order fills of a report add up to the same quantity, and a recorded key
  is one of a cumulative fill that the report has reached.
\<close>

definition report_of :: "pydict list \<Rightarrow> string list \<Rightarrow> pydict \<Rightarrow> pydict \<Rightarrow> bool" where
  "report_of es ks fs d \<longleftrightarrow>
     list_all slippage_event_ok es \<and> distinct (map fst fs) \<and>
     list_all (\<lambda>v. \<exists>n \<ge> 0. v = PInt n) (map snd fs) \<and>
     sum_list (map measured_of es) = fills_total fs \<and>
     (\<forall>k \<in> set ks. \<exists>oid c. k = fill_key oid c \<and> 0 \<le> c \<and> c \<le> int_field (dget fs oid)) \<and>
     build_report es (map PStr ks) fs = Inr d"

lemma fills_total_dset:
  "distinct (map fst fs) \<Longrightarrow> fills_total (dset oid (PInt c) fs) = fills_total fs - int_field (dget fs oid) + c"
proof (induction fs)
  case (Cons x fs)
  obtain a v where x: "x = (a, v)" by (cases x)
  show ?case
  proof (cases "a = oid")
    case True
    then show ?thesis by (simp add: x dset_def fills_total_def dget_def)
  next
    case False
    with Cons show ?thesis by (simp add: x dset_def fills_total_def dget_def)
  qed
qed (simp add: dset_def fills_total_def dget_def)

lemma report_get:
  assumes "report_of es ks fs d"
  shows "dget d ''report_type'' = PStr ''PAPER_SLIPPAGE_FILL_QUALITY''" "dget d ''events'' = PList (map PDict es)"
    "dget d ''applied_fill_keys'' = PList (map PStr ks)" "dget d ''order_fills'' = PDict fs" "flags_safe d"
    "slippage_summary es = Inr (as_dict (dget d ''summary''))"
proof -
  obtain s where s: "slippage_summary es = Inr s"
    and d: "d = [(''schema_version'', PStr ''1.0''), (''report_type'', PStr ''PAPER_SLIPPAGE_FILL_QUALITY''),
      (''events'', PList (map PDict es)), (''applied_fill_keys'', PList (map PStr ks)), (''order_fills'', PDict fs),
      (''summary'', PDict s), (''paper_only'', PBool True), (''is_order_action'', PBool False),
      (''broker_api_called'', PBool False), (''real_order_id'', PNone)]"
    using assms by (auto simp: report_of_def build_report_def)
  from s show "slippage_summary es = Inr (as_dict (dget d ''summary''))" by (simp add: d)
  show "dget d ''report_type'' = PStr ''PAPER_SLIPPAGE_FILL_QUALITY''" "dget d ''events'' = PList (map PDict es)"
    "dget d ''applied_fill_keys'' = PList (map PStr ks)" "dget d ''order_fills'' = PDict fs" "flags_safe d"
    by (simp_all add: d flags_safe_def)
qed

lemma empty_report: "\<exists>d. build_report [] [] [] = Inr d \<and> report_of [] [] [] d"
  by (simp add: report_of_def build_report_def slippage_summary_def average_per_unit_def weighted_average_bps_def fills_total_def)

definition report_good :: "pyval \<Rightarrow> bool" where
  "report_good v \<longleftrightarrow> v = PNone \<or> (\<exists>es ks fs d. v = PDict d \<and> report_of es ks fs d)"

definition report_starts :: "pyval \<Rightarrow> pydict list \<Rightarrow> string list \<Rightarrow> pydict \<Rightarrow> pydict \<Rightarrow> bool" where
  "report_starts v es ks fs d \<longleftrightarrow> safe_report v = Inr d \<and> report_of es ks fs d"

lemma report_starts_exists:
  assumes "report_good v" obtains es ks fs d where "report_starts v es ks fs d"
proof (cases "v = PNone")
  case True
  with empty_report that show ?thesis by (auto simp: report_starts_def safe_report_def)
next
  case False
  then obtain es ks fs d where "v = PDict d" "report_of es ks fs d" using assms by (auto simp: report_good_def)
  with that show ?thesis by (simp add: report_starts_def safe_report_def report_get(1))
qed

lemma report_good_accepted:
  assumes "report_good v" shows "previous_report_blockers (as_dict v) = []"
proof (cases "v = PNone")
  case False
  with assms obtain es ks fs d where "v = PDict d" "report_of es ks fs d" by (auto simp: report_good_def)
  then show ?thesis by (simp add: previous_report_blockers_def report_get)
qed (simp add: previous_report_blockers_def)

text \<open>The cumulative fill of every order.\<close>

definition report_fills :: "pyval \<Rightarrow> string \<Rightarrow> int" where
  "report_fills v = (\<lambda>oid. int_field (dget (as_dict (dget (as_dict v) ''order_fills'')) oid))"

lemma report_starts_fills:
  assumes "report_starts v es ks fs d" "report_good v"
  shows "report_fills v = (\<lambda>oid. int_field (dget fs oid))"
proof (cases "v = PNone")
  case True
  with assms have "build_report [] [] [] = Inr d" by (simp add: report_starts_def safe_report_def)
  then have "dget d ''order_fills'' = PDict []" by (auto simp: build_report_def)
  moreover have "dget d ''order_fills'' = PDict fs" using assms(1) report_get(4) by (auto simp: report_starts_def)
  ultimately show ?thesis using True by (simp add: report_fills_def)
next
  case False
  then obtain es' ks' fs' d' where v: "v = PDict d'" "report_of es' ks' fs' d'" using assms(2) by (auto simp: report_good_def)
  then have "d' = d" using assms(1) by (simp add: report_starts_def safe_report_def report_get(1))
  moreover have "dget d' ''order_fills'' = PDict fs'" by (rule report_get(4) [OF v(2)])
  moreover have "dget d ''order_fills'' = PDict fs" using assms(1) report_get(4) by (auto simp: report_starts_def)
  ultimately show ?thesis by (simp add: v(1) report_fills_def)
qed

lemma append_slippage_of:
  assumes r: "report_of es ks fs d" and app: "append_slippage d new k oid c = Inr d'"
    and k: "k = fill_key oid c" "k \<notin> set ks" and c: "int_field (dget fs oid) \<le> c" "0 \<le> c"
    and new: "list_all slippage_event_ok new" "sum_list (map measured_of new) = c - int_field (dget fs oid)"
  shows "report_of (es @ new) (ks @ [k]) (dset oid (PInt c) fs) d'"
proof -
  have old: "list_all slippage_event_ok es" "distinct (map fst fs)" "list_all (\<lambda>v. \<exists>n \<ge> 0. v = PInt n) (map snd fs)"
    "sum_list (map measured_of es) = fills_total fs"
    "\<And>k. k \<in> set ks \<Longrightarrow> \<exists>oid c. k = fill_key oid c \<and> 0 \<le> c \<and> c \<le> int_field (dget fs oid)"
    using r by (auto simp: report_of_def)
  have "build_report (es @ new) (map PStr (ks @ [k])) (dset oid (PInt c) fs) = Inr d'"
    using app k(2) by (simp add: append_slippage_def report_get [OF r] append_key_texts)
  moreover have "list_all (\<lambda>v. \<exists>n \<ge> 0. v = PInt n) (map snd (dset oid (PInt c) fs))"
    using old(3) c(2) unfolding dset_def by (induction fs) auto
  moreover have "\<forall>k' \<in> set (ks @ [k]). \<exists>o' c'. k' = fill_key o' c' \<and> 0 \<le> c' \<and> c' \<le> int_field (dget (dset oid (PInt c) fs) o')"
  proof
    fix k' assume "k' \<in> set (ks @ [k])"
    then consider "k' \<in> set ks" | "k' = k" by auto
    then show "\<exists>o' c'. k' = fill_key o' c' \<and> 0 \<le> c' \<and> c' \<le> int_field (dget (dset oid (PInt c) fs) o')"
    proof cases
      case 1
      then obtain o' c' where kc: "k' = fill_key o' c'" "0 \<le> c'" "c' \<le> int_field (dget fs o')" using old(5) by blast
      then have "c' \<le> int_field (dget (dset oid (PInt c) fs) o')" using c(1) by (cases "oid = o'") auto
      with kc(1,2) show ?thesis by blast
    next
      case 2
      with k(1) c(2) show ?thesis by (intro exI [of _ oid] exI [of _ c]) simp
    qed
  qed
  ultimately show ?thesis
    using old new fills_total_dset [OF old(2), of oid c] unfolding report_of_def by (simp add: dset_def distinct_update)
qed

text \<open>A key of a fill beyond what the order has reached is new.\<close>

lemma key_of_new_fill:
  assumes "report_of es ks fs d" "int_field (dget fs oid) < c" "0 \<le> c" shows "fill_key oid c \<notin> set ks"
proof
  assume "fill_key oid c \<in> set ks"
  then obtain o' c' where "fill_key oid c = fill_key o' c'" "0 \<le> c'" "c' \<le> int_field (dget fs o')"
    using assms(1) by (auto simp: report_of_def)
  with fill_key_inj [of oid c o' c'] assms(2,3) show False by auto
qed

lemma report_previous_fill:
  assumes "report_of es ks fs d"
  shows "previous_order_fill d oid = Inr (int_field (dget fs oid))" "0 \<le> int_field (dget fs oid)"
proof -
  have "map_of fs oid = None \<or> (\<exists>n \<ge> 0. map_of fs oid = Some (PInt n))"
    using assms by (cases "map_of fs oid") (auto simp: report_of_def list_all_iff dest!: map_of_SomeD)
  then show "previous_order_fill d oid = Inr (int_field (dget fs oid))" "0 \<le> int_field (dget fs oid)"
    by (auto simp: previous_order_fill_def report_get(4) [OF assms] dget_def [of fs])
qed

section \<open>What a call does\<close>

definition slippage_usable :: "slippage_input \<Rightarrow> bool" where
  "slippage_usable q \<longleftrightarrow>
     (let i = as_dict (sp_intent q); e = as_dict (sp_event q)
      in i \<noteq> [] \<and> dget i ''intent_type'' = PStr ''PAPER_ORDER_INTENT'' \<and> flags_safe i \<and>
         upper_text (dget i ''transaction_type'') \<in> {''BUY'', ''SELL''} \<and> event_usable e \<and>
         (\<forall>k \<in> {''paper_order_intent_id'', ''candidate_id''}. py_str (dget i k) = py_str (dget e k)) \<and>
         (\<exists>x. resolved_expected_price i (sp_expected_price q) = Inr (Some x)))"

text \<open>The order and the cumulative quantity of a fill that has a price.\<close>

definition slippage_fill :: "slippage_input \<Rightarrow> (string \<times> int) option" where
  "slippage_fill q =
     (let e = as_dict (sp_event q)
      in if slippage_usable q \<and> upper_text (dget e ''status'') \<in> set slippage_fill_statuses \<and>
            (\<exists>p. float_or_none (dget e ''average_fill_price'') = Inr (Some p))
         then Some (py_str (dget e ''paper_order_id''),
                    case int_or_zero (dget e ''filled_quantity'') of Inr n \<Rightarrow> n | Inl _ \<Rightarrow> 0)
         else None)"

definition reach_fill :: "(string \<times> int) option \<Rightarrow> (string \<Rightarrow> int) \<Rightarrow> string \<Rightarrow> int" where
  "reach_fill f fills =
     (case f of None \<Rightarrow> fills | Some (oid, c) \<Rightarrow> fills(oid := max (fills oid) c))"

definition slippage_outcome :: "slippage_input \<Rightarrow> pyval \<Rightarrow> slippage_result \<Rightarrow> bool" where
  "slippage_outcome q v r \<longleftrightarrow>
     report_good (PDict (sl_report r)) \<and> report_fills (PDict (sl_report r)) = reach_fill (slippage_fill q) (report_fills v) \<and>
     (sl_measured r \<longleftrightarrow> (\<exists>oid c. slippage_fill q = Some (oid, c) \<and> report_fills v oid < c)) \<and>
     (\<forall>oid c. slippage_fill q = Some (oid, c) \<and> sl_measured r \<longrightarrow> sl_measured_quantity r = c - report_fills v oid)"

lemma report_of_good: "report_of es ks fs d \<Longrightarrow> report_good (PDict d) \<and> report_fills (PDict d) = (\<lambda>oid. int_field (dget fs oid))"
  by (auto simp: report_good_def report_fills_def report_get(4))

lemma unmeasured_simps [simp]:
  "sl_measured (unmeasured st d bs ws ev) = False" "sl_report (unmeasured st d bs ws ev) = d"
  by (simp_all add: unmeasured_def)

lemma validate_slippage_accepted:
  assumes val: "validate_slippage_inputs (sp_intent q) (sp_event q) (sp_expected_price q) v = Inr (bs, ws)" and "report_good v"
  shows "bs = [] \<longleftrightarrow> slippage_usable q"
proof -
  let ?i = "as_dict (sp_intent q)" and ?e = "as_dict (sp_event q)"
  obtain eb x where eb: "ledger_event_blockers ?e = Inr eb" and x: "resolved_expected_price ?i (sp_expected_price q) = Inr x"
    and bs: "bs = dedupe (realized_intent_blockers ?i @ eb @ mismatch_blockers ?i ?e @
      add_if (x = None) ''CONTROLLED_EXPECTED_PRICE_REQUIRED'' @ previous_report_blockers (as_dict v))"
    using val by (auto simp: validate_slippage_inputs_def)
  have "bs = [] \<longleftrightarrow> list_all blank (realized_intent_blockers ?i) \<and> event_usable ?e \<and> list_all blank (mismatch_blockers ?i ?e) \<and> x \<noteq> None"
    by (auto simp: bs report_good_accepted [OF assms(2)] event_accepted [OF eb])
  also have "\<dots> \<longleftrightarrow> slippage_usable q"
    using mismatch_accepted [of ?i ?e]
    by (auto simp: realized_intent_accepted slippage_usable_def Let_def event_usable_def x)
  finally show ?thesis .
qed

lemma measure_fill_Inr:
  assumes run: "measure_fill q i e d k c n x p ws ev = Inr r" and r: "report_of es ks fs d"
    and k: "k = fill_key (py_str (dget e ''paper_order_id'')) c"
    and n: "n = c - int_field (dget fs (py_str (dget e ''paper_order_id'')))" "0 < n"
  shows "sl_measured r \<and> sl_measured_quantity r = n \<and>
    (\<exists>es'. report_of (es @ es') (ks @ [k]) (dset (py_str (dget e ''paper_order_id'')) (PInt c) fs) (sl_report r))"
proof -
  let ?oid = "py_str (dget e ''paper_order_id'')"
  obtain ev' d' where app: "append_slippage_event d ev' k ?oid c = Inr d'" and ev': "slippage_event_ok ev'" "measured_of ev' = n"
    and res: "sl_measured r" "sl_measured_quantity r = n" "sl_report r = d'"
  proof -
    obtain fq bps ts where app: "append_slippage_event d
        (slippage_event i e k x p n (slippage_per_unit (upper_text (dget i ''transaction_type'')) x p)
           (py_round (float_mul (slippage_per_unit (upper_text (dget i ''transaction_type'')) x p) fq) 6) bps ts) k ?oid c = Inr (sl_report r)"
      and res: "sl_measured r" "sl_measured_quantity r = n"
      using run by (auto simp: measure_fill_def Let_def)
    from that [OF app _ _ res refl] n(2) show thesis by (simp add: slippage_event_def slippage_event_ok_def measured_of_def)
  qed
  have fresh: "k \<notin> set ks" using key_of_new_fill [OF r, of ?oid c] n report_previous_fill(2) [OF r, of ?oid] by (simp add: k)
  have "report_of (es @ [ev']) (ks @ [k]) (dset ?oid (PInt c) fs) d'"
    using app ev' n report_previous_fill(2) [OF r, of ?oid]
    by (intro append_slippage_of [OF r _ k fresh]) (simp_all add: append_slippage_event_def)
  with res show ?thesis by blast
qed

lemma slippage_payloads:
  assumes "slippage_usable q"
  shows "dict_or_empty (sp_intent q) = Inr (as_dict (sp_intent q))" "dict_or_empty (sp_event q) = Inr (as_dict (sp_event q))"
proof -
  have "as_dict (sp_intent q) \<noteq> []" "as_dict (sp_event q) \<noteq> []"
    using assms by (simp_all add: slippage_usable_def event_usable_def Let_def)
  then show "dict_or_empty (sp_intent q) = Inr (as_dict (sp_intent q))" "dict_or_empty (sp_event q) = Inr (as_dict (sp_event q))"
    by (auto simp: as_dict_nonempty)
qed

lemma outcome_same_report:
  assumes "report_starts v es ks fs d" "report_good v" "sl_report r = d" "\<not> sl_measured r"
    and "\<And>oid c. slippage_fill q = Some (oid, c) \<Longrightarrow> c \<le> report_fills v oid"
  shows "slippage_outcome q v r"
proof -
  have "report_good (PDict d) \<and> report_fills (PDict d) = report_fills v"
    using report_of_good [of es ks fs d] assms(1) report_starts_fills [OF assms(1,2)] by (simp add: report_starts_def)
  moreover have "reach_fill (slippage_fill q) (report_fills v) = report_fills v"
    using assms(5) by (auto simp: reach_fill_def max_def fun_eq_iff split: option.splits)
  ultimately show ?thesis using assms(3-5) by (auto simp: slippage_outcome_def)
qed

lemma build_slippage_outcome:
  assumes good: "report_good v" and built: "build_slippage_report q v = Inr r"
  shows "slippage_outcome q v r"
proof -
  let ?i = "as_dict (sp_intent q)" and ?e = "as_dict (sp_event q)"
  let ?oid = "py_str (dget ?e ''paper_order_id'')"
  obtain es ks fs d where st: "report_starts v es ks fs d" using good by (rule report_starts_exists)
  then have d: "safe_report v = Inr d" "report_of es ks fs d" by (simp_all add: report_starts_def)
  note fills = report_starts_fills [OF st good]
  obtain bs ws ev where val: "validate_slippage_inputs (sp_intent q) (sp_event q) (sp_expected_price q) v = Inr (bs, ws)"
    and ev: "slippage_evidence ?i ?e (sp_expected_price q) (as_dict v) = Inr ev"
    using built by (auto simp: build_slippage_report_def d(1))
  have usable: "bs = [] \<longleftrightarrow> slippage_usable q" by (rule validate_slippage_accepted [OF val good])
  note start = build_slippage_report_def val d(1) ev bind_result_simps prod.case Let_def
  show ?thesis
  proof (cases "slippage_usable q \<and> upper_text (dget ?e ''status'') \<in> set slippage_fill_statuses")
    case False
    have "sl_report r = d \<and> \<not> sl_measured r"
      using built usable False slippage_payloads [of q] by (cases "slippage_usable q") (auto simp: start)
    moreover have "slippage_fill q = None" using False by (auto simp: slippage_fill_def Let_def)
    ultimately show ?thesis by (intro outcome_same_report [OF st good]) auto
  next
    case True
    then have u: "slippage_usable q" by blast
    have bs: "bs = []" using usable u by simp
    obtain c where c: "int_or_zero (dget ?e ''filled_quantity'') = Inr c" "0 \<le> c"
      using u by (auto simp: slippage_usable_def event_usable_def Let_def split: sum.splits)
    obtain x where x: "resolved_expected_price ?i (sp_expected_price q) = Inr (Some x)"
      using u by (auto simp: slippage_usable_def Let_def)
    have keys: "list_or_empty (dget d ''applied_fill_keys'') = Inr (map PStr ks)" by (simp add: report_get(3) [OF d(2)])
    note run = built [unfolded start slippage_payloads [OF u] bs c(1) report_previous_fill(1) [OF d(2)] keys key_applied_texts]
    have f: "slippage_fill q = (if \<exists>p. float_or_none (dget ?e ''average_fill_price'') = Inr (Some p) then Some (?oid, c) else None)"
      using True by (simp add: slippage_fill_def Let_def c(1))
    let ?n = "c - int_field (dget fs ?oid)" and ?k = "fill_key ?oid c"
    consider (old) "c < int_field (dget fs ?oid) \<or> c = int_field (dget fs ?oid) \<and> ?k \<in> set ks"
      | (same) "c = int_field (dget fs ?oid)" "?k \<notin> set ks" | (new) "int_field (dget fs ?oid) < c" by linarith
    then show ?thesis
    proof cases
      case old
      then have "sl_report r = d \<and> \<not> sl_measured r" using run True by (auto split: if_splits)
      with old f show ?thesis by (intro outcome_same_report [OF st good]) (auto simp: fills split: if_splits)
    next
      case same
      with run True obtain d' where app: "append_slippage_key d ?k ?oid c = Inr d'" and r: "sl_report r = d'" "\<not> sl_measured r"
        by auto
      have rep: "report_of (es @ []) (ks @ [?k]) (dset ?oid (PInt c) fs) d'"
        using app same c(2) by (intro append_slippage_of [OF d(2) _ refl same(2)]) (simp_all add: append_slippage_key_def)
      have "report_fills (PDict d') = report_fills v"
        using report_of_good [OF rep] same(1) by (auto simp: fills)
      moreover have "reach_fill (slippage_fill q) (report_fills v) = report_fills v"
        using f same(1) by (auto simp: reach_fill_def fills)
      ultimately show ?thesis using report_of_good [OF rep] r f same(1) by (auto simp: slippage_outcome_def fills split: if_splits)
    next
      case new
      have fresh: "?k \<notin> set ks" using key_of_new_fill [OF d(2) new c(2)] .
      obtain p where p: "float_or_none (dget ?e ''average_fill_price'') = Inr p" using run True new fresh by (auto simp: x)
      show ?thesis
      proof (cases p)
        case None
        then have "sl_report r = d \<and> \<not> sl_measured r" using run True new fresh p by (auto simp: x)
        with None f p show ?thesis by (intro outcome_same_report [OF st good]) auto
      next
        case (Some p')
        with run True new fresh obtain ev' where "measure_fill q ?i ?e d ?k c ?n x p' ws ev' = Inr r" by (auto simp: x p)
        from measure_fill_Inr [OF this d(2) refl refl] new obtain es' where
          m: "sl_measured r" "sl_measured_quantity r = ?n" and rep: "report_of (es @ es') (ks @ [?k]) (dset ?oid (PInt c) fs) (sl_report r)"
          by auto
        have "slippage_fill q = Some (?oid, c)" using f Some p by simp
        then show ?thesis using report_of_good [OF rep] m new
          by (auto simp: slippage_outcome_def fills reach_fill_def fun_eq_iff)
      qed
    qed
  qed
qed

definition slippage_step :: "slippage_input \<Rightarrow> pyval \<Rightarrow> pyval result" where
  "slippage_step q v = bind_result (build_slippage_report q v) (\<lambda>r. Inr (PDict (sl_report r)))"

interpretation slippage_run: refined_component slippage_step report_good report_fills "\<lambda>q. reach_fill (slippage_fill q)"
proof unfold_locales
  fix q v v' assume good: "report_good v" and "slippage_step q v = Inr v'"
  then obtain r where "build_slippage_report q v = Inr r" "v' = PDict (sl_report r)" by (auto simp: slippage_step_def)
  with build_slippage_outcome [OF good] have out: "slippage_outcome q v r" and v': "v' = PDict (sl_report r)" by blast+
  show "report_good v'" "report_fills v' = reach_fill (slippage_fill q) (report_fills v)"
    using out by (simp_all add: slippage_outcome_def v')
qed

section \<open>Properties\<close>

text \<open>The highest cumulative fill of an order in a session.\<close>

definition highest_fill :: "slippage_input list \<Rightarrow> string \<Rightarrow> int" where
  "highest_fill qs oid = fold (\<lambda>q m. case slippage_fill q of Some (o', c) \<Rightarrow> if o' = oid then max m c else m | None \<Rightarrow> m) qs 0"

lemma highest_fill_reach:
  "fold (\<lambda>q. reach_fill (slippage_fill q)) qs fills oid =
     fold (\<lambda>q m. case slippage_fill q of Some (o', c) \<Rightarrow> if o' = oid then max m c else m | None \<Rightarrow> m) qs (fills oid)"
proof (induction qs arbitrary: fills)
  case (Cons q qs)
  then show ?case by (auto simp: reach_fill_def split: option.splits)
qed simp

lemma slippage_session:
  assumes "fold_result slippage_step qs PNone = Inr v"
  shows "report_good v" "report_fills v = highest_fill qs"
proof -
  have start: "report_good PNone" "report_fills PNone = (\<lambda>_. 0)" by (simp_all add: report_good_def report_fills_def)
  from slippage_run.run_refines [OF start(1) assms] have "report_good v"
    and "report_fills v = fold (\<lambda>q. reach_fill (slippage_fill q)) qs (\<lambda>_. 0)" by (simp_all add: start(2))
  then show "report_good v" "report_fills v = highest_fill qs" by (simp_all add: fun_eq_iff highest_fill_reach highest_fill_def)
qed

lemma slippage_quantities_read:
  "list_all slippage_event_ok es \<Longrightarrow> map_result (\<lambda>e. int_or_zero (dget e ''measured_quantity'')) es = Inr (map measured_of es)"
  by (induction es) (auto simp: slippage_event_ok_def measured_of_def)

lemma summary_measured:
  "slippage_summary es = Inr s \<Longrightarrow> list_all slippage_event_ok es \<Longrightarrow>
     dget s ''measured_quantity'' = PInt (sum_list (map measured_of es))"
  by (auto simp: slippage_summary_def slippage_quantities_read Let_def)

lemma report_total:
  assumes "report_of es ks fs d"
  shows "dget (as_dict (dget d ''summary'')) ''measured_quantity'' =
    PInt (\<Sum>oid | report_fills (PDict d) oid \<noteq> 0. report_fills (PDict d) oid)"
proof -
  have es: "list_all slippage_event_ok es" and fs: "distinct (map fst fs)" "sum_list (map measured_of es) = fills_total fs"
    using assms by (simp_all add: report_of_def)
  have "dget (as_dict (dget d ''summary'')) ''measured_quantity'' = PInt (sum_list (map measured_of es))"
    by (rule summary_measured [OF report_get(6) [OF assms] es])
  moreover have "fills_total fs = (\<Sum>oid | int_field (dget fs oid) \<noteq> 0. int_field (dget fs oid))"
    unfolding fills_total_def using fs(1) by (intro sum_entries) (simp_all add: dget_def)
  ultimately show ?thesis using fs(2) report_of_good [OF assms] by simp
qed

text \<open>
  C38. Slippage is measured once per unit filled: whatever the order, the repetitions and the
  regressions of the events of a session, the measured quantity of the report is the sum over
  the orders of the highest cumulative fill that was reported for them with a price.
\<close>

theorem slippage_measures_each_unit_once:
  assumes "fold_result slippage_step qs PNone = Inr v" "qs \<noteq> []"
  shows "dget (as_dict (dget (as_dict v) ''summary'')) ''measured_quantity'' =
    PInt (\<Sum>oid | highest_fill qs oid \<noteq> 0. highest_fill qs oid)"
proof -
  obtain q qs' where qs: "qs = q # qs'" using assms(2) by (cases qs) auto
  have "is_dict v" using assms(1) unfolding qs
    by (induction qs' arbitrary: q rule: rev_induct) (auto simp: slippage_step_def fold_result_append)
  then have "v \<noteq> PNone" by auto
  then obtain es ks fs d where v: "v = PDict d" "report_of es ks fs d"
    using slippage_session(1) [OF assms(1)] by (auto simp: report_good_def)
  from report_total [OF v(2)] slippage_session(2) [OF assms(1)] show ?thesis by (simp add: v(1))
qed

definition demo_slippage :: "string \<Rightarrow> int \<Rightarrow> slippage_input" where
  "demo_slippage st n =
     \<lparr>sp_intent = PDict ([(''intent_type'', PStr ''PAPER_ORDER_INTENT''), (''paper_order_intent_id'', PStr ''i1''),
        (''candidate_id'', PStr ''c1''), (''transaction_type'', PStr ''BUY''), (''price'', PFloat (Fin 100))] @ safe_flags),
      sp_event = PDict ([(''event_type'', PStr ''PAPER_ORDER_LIFECYCLE_EVENT''), (''paper_order_id'', PStr ''o1''),
        (''paper_order_intent_id'', PStr ''i1''), (''candidate_id'', PStr ''c1''), (''status'', PStr st),
        (''filled_quantity'', PInt n), (''average_fill_price'', PFloat (Fin 101)), (''ts_epoch'', PFloat (Fin 1))] @ safe_flags),
      sp_expected_price = PNone, sp_ts_epoch = PNone\<rparr>"

lemma float_div_total: "y \<noteq> Fin 0 \<Longrightarrow> \<exists>z. float_div x y = Inr z"
  by (cases x; cases y) (simp_all add: float_div_def)

lemma single_event_report:
  assumes "slippage_event_ok e" "measured_of e = n" "n < 2 ^ 53" "dget e ''slippage_bps'' = opt_float b"
  shows "\<exists>d. build_report [e] ks fs = Inr d"
proof -
  obtain a where e: "dget e ''measured_quantity'' = PInt n" "0 < n" "dget e ''slippage_amount'' = PFloat a"
    using assms(1,2) by (auto simp: slippage_event_ok_def measured_of_def)
  have n: "float_of_int n = Inr (Fin (of_int n))" using e(2) assms(3) by (simp add: float_of_int_exact)
  have div: "\<exists>z. float_div x (Fin (of_int n)) = Inr z" for x using e(2) by (intro float_div_total) simp
  obtain z where z: "float_div (py_round (float_add (Fin 0) a) 6) (Fin (of_int n)) = Inr z" using div by blast
  have avg: "average_per_unit (rounded_sum [a]) n = Inr (py_round z 6)"
    using e(2) by (simp add: average_per_unit_def rounded_sum_def n z)
  have "\<exists>w. weighted_average_bps [e] n = Inr w"
  proof -
    obtain m where m: "bps_numerator [e] (Fin 0) = Inr m" by (cases b) (auto simp: assms(4) e n)
    from div [of m] show ?thesis using e(2) by (auto simp: weighted_average_bps_def m n simp del: bps_numerator.simps)
  qed
  then obtain w where "weighted_average_bps [e] n = Inr w" ..
  then show ?thesis using avg e by (simp add: build_report_def slippage_summary_def Let_def)
qed

lemma demo_slippage_fields [simp]:
  "dget (as_dict (sp_event (demo_slippage st n))) ''status'' = PStr st"
  "dget (as_dict (sp_event (demo_slippage st n))) ''paper_order_id'' = PStr ''o1''"
  "dget (as_dict (sp_event (demo_slippage st n))) ''filled_quantity'' = PInt n"
  "dget (as_dict (sp_event (demo_slippage st n))) ''average_fill_price'' = PFloat (Fin 101)"
  "dget (as_dict (sp_event (demo_slippage st n))) ''ts_epoch'' = PFloat (Fin 1)" "sp_ts_epoch (demo_slippage st n) = PNone"
  "dget (as_dict (sp_intent (demo_slippage st n))) ''transaction_type'' = PStr ''BUY''"
  "resolved_expected_price (as_dict (sp_intent (demo_slippage st n))) (sp_expected_price (demo_slippage st n)) = Inr (Some (Fin 100))"
  by (simp_all add: demo_slippage_def resolved_expected_price_def safe_flags_def)

lemma demo_slippage_usable: "0 \<le> n \<Longrightarrow> slippage_usable (demo_slippage st n)"
  using demo_slippage_fields(8) [of st n]
  by (simp add: slippage_usable_def Let_def event_usable_def demo_slippage_def flags_safe_def safe_flags_def)

lemma demo_slippage_built:
  assumes "0 < n" "n < 2 ^ 53" shows "\<exists>r. build_slippage_report (demo_slippage ''FILLED'' n) PNone = Inr r"
proof -
  let ?q = "demo_slippage ''FILLED'' n" and ?k = "fill_key ''o1'' n"
  let ?i = "as_dict (sp_intent ?q)" and ?e = "as_dict (sp_event ?q)"
  obtain d where d: "build_report [] [] [] = Inr d" "report_of [] [] [] d" using empty_report by blast
  have eb: "\<exists>eb. ledger_event_blockers ?e = Inr eb" by (simp add: ledger_event_blockers_def)
  obtain bs ws where val: "validate_slippage_inputs (sp_intent ?q) (sp_event ?q) (sp_expected_price ?q) PNone = Inr (bs, ws)"
    using eb by (auto simp: validate_slippage_inputs_def)
  have u: "slippage_usable ?q" using assms(1) by (intro demo_slippage_usable) simp
  have bs: "bs = []" using validate_slippage_accepted [OF val] u by (simp add: report_good_def)
  have n: "float_of_int n = Inr (Fin (of_int n))" using assms by (simp add: float_of_int_exact)
  obtain z where z: "float_div (slippage_per_unit ''BUY'' (Fin 100) (Fin 101)) (Fin 100) = Inr z"
    using float_div_total [of "Fin 100"] by auto
  have "\<exists>r. measure_fill ?q ?i ?e d ?k n n (Fin 100) (Fin 101) ws ev = Inr r" for ev
  proof -
    let ?ev = "slippage_event ?i ?e ?k (Fin 100) (Fin 101) n (slippage_per_unit ''BUY'' (Fin 100) (Fin 101))
      (py_round (float_mul (slippage_per_unit ''BUY'' (Fin 100) (Fin 101)) (Fin (of_int n))) 6) (Some (py_round (float_mul z (Fin 10000)) 6))
      (PFloat (Fin 1))"
    have "\<exists>d'. build_report [?ev] [PStr ?k] [(''o1'', PInt n)] = Inr d'"
      using assms by (intro single_event_report [where n = n and b = "Some (py_round (float_mul z (Fin 10000)) 6)"])
        (simp_all add: slippage_event_ok_def measured_of_def slippage_event_def)
    then obtain d' where "build_report [?ev] [PStr ?k] [(''o1'', PInt n)] = Inr d'" ..
    then have "append_slippage_event d ?ev ?k ''o1'' n = Inr d'"
      by (simp add: append_slippage_event_def append_slippage_def report_get [OF d(2)] append_key_def dset_def)
    then show ?thesis by (simp add: measure_fill_def n z Let_def)
  qed
  then show ?thesis
    using assms(1)
    by (simp add: build_slippage_report_def val bs safe_report_def d(1) slippage_evidence_def slippage_payloads [OF u]
        slippage_fill_statuses_def Let_def report_previous_fill(1) [OF d(2)] report_get(3) [OF d(2)] key_applied_def)
qed

theorem slippage_measures_each_unit_once_witness:
  "\<exists>v. fold_result slippage_step [demo_slippage ''FILLED'' 50] PNone = Inr v \<and>
     dget (as_dict (dget (as_dict v) ''summary'')) ''measured_quantity'' = PInt 50"
proof -
  let ?qs = "[demo_slippage ''FILLED'' 50]"
  obtain r where "build_slippage_report (demo_slippage ''FILLED'' 50) PNone = Inr r" using demo_slippage_built [of 50] by auto
  then have v: "fold_result slippage_step ?qs PNone = Inr (PDict (sl_report r))" by (simp add: slippage_step_def)
  have "slippage_fill (demo_slippage ''FILLED'' 50) = Some (''o1'', 50)"
    using demo_slippage_usable [of 50 "''FILLED''"] by (simp add: slippage_fill_def Let_def slippage_fill_statuses_def)
  then have "highest_fill ?qs = (\<lambda>oid. if oid = ''o1'' then 50 else 0)" by (simp add: highest_fill_def fun_eq_iff)
  with slippage_measures_each_unit_once [OF v] v show ?thesis by auto
qed

end
