(* ===== verification/Paper_Journal.thy ===== *)
theory Paper_Journal
  imports Paper_Ordering
begin

text \<open>
  src/paper_trading/event_journal.py: the append-only journal of paper events, one JSON object
  per line. The file is the list of its lines, or nothing when it does not exist. A line that
  \<open>json.loads\<close> decodes is the value it denotes; \<open>_stable_json\<close> writes a value with sorted keys,
  so the line that it writes denotes the value with its keys sorted, and two such texts are
  equal when these values are. Failures of the file system are left out, and the path is
  the text that \<open>Path\<close> makes of it.
\<close>

section \<open>Lines\<close>

datatype journal_row = BlankRow | CorruptRow | JsonRow pyval

type_synonym journal_file = "journal_row list option"

fun sort_json :: "pyval \<Rightarrow> pyval" where
  "sort_json (PDict d) = PDict (sort_key fst (map (\<lambda>(k, v). (k, sort_json v)) d))"
| "sort_json (PList xs) = PList (map sort_json xs)"
| "sort_json v = v"

definition stable_json :: "pydict \<Rightarrow> pyval" where
  "stable_json payload = sort_json (PDict payload)"

section \<open>Result, contract\<close>

record journal_result =
  jr_appended :: bool
  jr_event :: "pydict option"
  jr_events :: "pydict list"
  jr_blockers :: "string list"
  jr_warnings :: "string list"
  jr_path :: "string option"

definition journal_result_to_dict :: "journal_result \<Rightarrow> pydict" where
  "journal_result_to_dict r =
     [(''schema_version'', PStr ''1.0''),
      (''journal_type'', PStr ''CANONICAL_PAPER_EVENT_JOURNAL''),
      (''appended'', PBool (jr_appended r)),
      (''event'', dict_or_none (jr_event r)),
      (''events'', PList (map PDict (jr_events r))),
      (''event_count'', PInt (int (length (jr_events r)))),
      (''blockers'', str_list (jr_blockers r)),
      (''warnings'', str_list (jr_warnings r)),
      (''path'', opt_str (jr_path r)),
      (''paper_only'', PBool True),
      (''is_order_action'', PBool False),
      (''broker_api_called'', PBool False),
      (''real_order_id'', PNone)]"

definition journal_result_keys :: "string list" where
  "journal_result_keys =
     [''schema_version'', ''journal_type'', ''appended'', ''event'', ''events'', ''event_count'', ''blockers'', ''warnings'',
      ''path'', ''paper_only'', ''is_order_action'', ''broker_api_called'', ''real_order_id'']"

definition journal_schema_contract :: pydict where
  "journal_schema_contract = dupdate event_schema_contract
     [(''storage_format'', PStr ''jsonl''),
      (''append_only'', PBool True),
      (''load_blocks_on_corrupt_rows'', PBool True),
      (''idempotency_behavior'', PDict
         [(''duplicate_event_id'', PStr ''blocked''),
          (''same_idempotency_key_same_event'', PStr ''deterministic_noop''),
          (''same_idempotency_key_conflicting_event'', PStr ''blocked'')]),
      (''required_result_keys'', str_list journal_result_keys)]"

section \<open>Loading\<close>

record journal_scan =
  js_blockers :: "string list"
  js_events :: "pydict list"
  js_seen_ids :: "string list"
  js_seen_keys :: "(string \<times> pydict) list"

definition line_label :: "nat \<Rightarrow> string \<Rightarrow> string" where
  "line_label line text = ''LINE_'' @ int_to_string (int line) @ ''_'' @ text"

text \<open>An event that is not an object or has a number out of range raises; the caller does not catch it.\<close>

definition load_row :: "nat \<times> journal_row \<Rightarrow> journal_scan \<Rightarrow> journal_scan result" where
  "load_row = (\<lambda>(line, row) st.
     case row of
       BlankRow \<Rightarrow> Inr st
     | CorruptRow \<Rightarrow>
         Inr (st\<lparr>js_blockers := js_blockers st @ [''PAPER_EVENT_JOURNAL_CORRUPT_JSONL_LINE_'' @ int_to_string (int line)]\<rparr>)
     | JsonRow decoded \<Rightarrow>
         bind_result (normalize_paper_event (RawValue decoded)) (\<lambda>e.
         bind_result (validate_paper_event (RawValue (PDict e))) (\<lambda>bs.
           Inr (if bs \<noteq> [] then st\<lparr>js_blockers := js_blockers st @ map (line_label line) bs\<rparr>
                else if ev_id e \<in> set (js_seen_ids st)
                then st\<lparr>js_blockers := js_blockers st @ [line_label line ''PAPER_EVENT_DUPLICATE_EVENT_ID'']\<rparr>
                else if (case map_of (js_seen_keys st) (ev_key e) of Some e' \<Rightarrow> stable_json e' \<noteq> stable_json e | None \<Rightarrow> False)
                then st\<lparr>js_blockers := js_blockers st @ [line_label line ''PAPER_EVENT_CONFLICTING_IDEMPOTENCY_KEY'']\<rparr>
                else st\<lparr>js_events := js_events st @ [e], js_seen_ids := ev_id e # js_seen_ids st,
                        js_seen_keys := AList.update (ev_key e) e (js_seen_keys st)\<rparr>))))"

definition load_paper_events :: "string \<Rightarrow> journal_file \<Rightarrow> journal_result result" where
  "load_paper_events path file =
     (case file of
        None \<Rightarrow>
          Inr \<lparr>jr_appended = False, jr_event = None, jr_events = [], jr_blockers = [], jr_warnings = [], jr_path = Some path\<rparr>
      | Some rows \<Rightarrow>
          bind_result (fold_result load_row (enumerate 1 rows)
            \<lparr>js_blockers = [], js_events = [], js_seen_ids = [], js_seen_keys = []\<rparr>) (\<lambda>st.
          Inr \<lparr>jr_appended = False, jr_event = None, jr_events = js_events st, jr_blockers = js_blockers st, jr_warnings = [],
               jr_path = Some path\<rparr>))"

section \<open>Appending\<close>

fun duplicate_blockers :: "pydict \<Rightarrow> pydict list \<Rightarrow> string list" where
  "duplicate_blockers event [] = []"
| "duplicate_blockers event (existing # rest) =
     (if ev_key existing = ev_key event \<and> stable_json existing = stable_json event
      then [''PAPER_EVENT_DUPLICATE_IDEMPOTENCY_KEY_NOOP'']
      else if ev_id existing = ev_id event then [''PAPER_EVENT_DUPLICATE_EVENT_ID'']
      else if ev_key existing = ev_key event then [''PAPER_EVENT_CONFLICTING_IDEMPOTENCY_KEY'']
      else duplicate_blockers event rest)"

text \<open>The result and the file after the call.\<close>

definition append_paper_event :: "string \<Rightarrow> raw_event \<Rightarrow> journal_file \<Rightarrow> (journal_result \<times> journal_file) result" where
  "append_paper_event path event file =
     bind_result (normalize_paper_event event) (\<lambda>e.
     bind_result (validate_paper_event (RawValue (PDict e))) (\<lambda>bs.
       if bs \<noteq> []
       then Inr (\<lparr>jr_appended = False, jr_event = Some e, jr_events = [], jr_blockers = bs, jr_warnings = [],
                  jr_path = Some path\<rparr>, file)
       else
         bind_result (load_paper_events path file) (\<lambda>existing.
           if jr_blockers existing \<noteq> []
           then Inr (\<lparr>jr_appended = False, jr_event = Some e, jr_events = jr_events existing,
                      jr_blockers = jr_blockers existing, jr_warnings = [], jr_path = Some path\<rparr>, file)
           else
             let ds = duplicate_blockers e (jr_events existing);
                 idempotent_match = (ds = [''PAPER_EVENT_DUPLICATE_IDEMPOTENCY_KEY_NOOP''])
             in if ds \<noteq> []
                then Inr (\<lparr>jr_appended = False, jr_event = Some e, jr_events = jr_events existing,
                           jr_blockers = (if idempotent_match then [] else ds),
                           jr_warnings = (if idempotent_match then ds else []), jr_path = Some path\<rparr>, file)
                else Inr (\<lparr>jr_appended = True, jr_event = Some e, jr_events = jr_events existing @ [e], jr_blockers = [],
                           jr_warnings = [], jr_path = Some path\<rparr>,
                          Some ((case file of Some rows \<Rightarrow> rows | None \<Rightarrow> []) @ [JsonRow (stable_json e)])))))"

interpretation journal_report: paper_report journal_result_to_dict journal_result_keys
  by unfold_locales (simp_all add: journal_result_to_dict_def journal_result_keys_def has_key_def flags_safe_def)

section \<open>What a line keeps of an event\<close>

lemma sort_key_id: "sorted (map f xs) \<Longrightarrow> sort_key f xs = xs"
  by (induction xs) (auto simp: insort_is_Cons)

lemma sort_json_idem: "sort_json (sort_json v) = sort_json v"
proof (induction v)
  case (PDict d)
  let ?D = "sort_key fst (map (\<lambda>(k, v). (k, sort_json v)) d)"
  have "map (\<lambda>(k, v). (k, sort_json v)) ?D = ?D"
    by (rule map_idI) (use PDict in \<open>fastforce\<close>)
  then show ?case by (simp add: sort_key_id)
qed (simp_all add: comp_def)

definition journal_form :: "pydict \<Rightarrow> pydict" where
  "journal_form e = map (\<lambda>(k, v). (k, sort_json v)) e"

lemma stable_journal_form [simp]: "stable_json (journal_form e) = stable_json e"
  unfolding stable_json_def journal_form_def
  by (simp add: comp_def case_prod_unfold sort_json_idem)

lemma dget_journal_form: "dget (journal_form e) k = sort_json (dget e k)"
  by (induction e) (auto simp: journal_form_def dget_def)

lemma dget_sorted:
  assumes "distinct (map fst d)" shows "dget (sort_key fst d) k = dget d k"
proof -
  have "distinct (map fst (sort_key fst d))" using assms by (simp add: distinct_map)
  then have "map_of (sort_key fst d) = map_of d" using assms by (simp add: map_of_inject_set)
  then show ?thesis by (simp add: dget_def)
qed

lemma journal_scalars:
  "sort_json (optional_str v) = optional_str v" "sort_json (opt_int i) = opt_int i" "sort_json (opt_float x) = opt_float x"
  by (auto simp: optional_str_def Let_def opt_int_def opt_float_def split: option.split)

lemma normalize_journal_form:
  assumes "normalize_paper_event r = Inr e" "event_valid e"
  shows "normalize_paper_event (RawValue (stable_json e)) = Inr (journal_form e)"
proof -
  let ?d = "sort_key fst (journal_form e)"
  have keys: "distinct (map fst (journal_form e))"
    using normalized_shape(1) [OF assms(1)]
    by (simp add: journal_form_def comp_def case_prod_beta required_event_keys_def)
  have get: "dget ?d k = sort_json (dget e k)" for k by (simp add: dget_sorted [OF keys] dget_journal_form)
  have flags: "dget e ''paper_only'' = PBool True" "dget e ''is_order_action'' = PBool False"
    "dget e ''broker_api_called'' = PBool False" "dget e ''real_order_id'' = PNone"
    using assms(2) by (simp_all add: event_valid_def)
  from assms(1) show ?thesis
  proof (rule normalizeE)
    fix raw sequence ts
    assume e: "e = [(''schema_version'', PStr (py_str (py_or (dget raw ''schema_version'') (PStr ''1.0'')))),
            (''event_id'', optional_str (dget raw ''event_id'')),
            (''cycle_id'', optional_str (dget raw ''cycle_id'')),
            (''event_sequence'', opt_int sequence),
            (''candidate_id'', optional_str (dget raw ''candidate_id'')),
            (''strategy_id'', optional_str (dget raw ''strategy_id'')),
            (''paper_order_intent_id'', optional_str (dget raw ''paper_order_intent_id'')),
            (''paper_order_id'', optional_str (dget raw ''paper_order_id'')),
            (''event_type'', optional_str (dget raw ''event_type'')),
            (''ts_epoch'', opt_float ts),
            (''idempotency_key'', optional_str (dget raw ''idempotency_key'')),
            (''payload'', dget raw ''payload''),
            (''paper_only'', dget raw ''paper_only''),
            (''is_order_action'', dget raw ''is_order_action''),
            (''broker_api_called'', dget raw ''broker_api_called''),
            (''real_order_id'', dget raw ''real_order_id'')]"
    have schema: "py_str (py_or (PStr (py_str (py_or v (PStr ''1.0'')))) (PStr ''1.0'')) = py_str (py_or v (PStr ''1.0''))" for v
      using py_str_or [of v] by simp
    have vals: "dget e ''schema_version'' = PStr (py_str (py_or (dget raw ''schema_version'') (PStr ''1.0'')))"
      "dget e ''event_id'' = optional_str (dget raw ''event_id'')" "dget e ''cycle_id'' = optional_str (dget raw ''cycle_id'')"
      "dget e ''event_sequence'' = opt_int sequence" "dget e ''candidate_id'' = optional_str (dget raw ''candidate_id'')"
      "dget e ''strategy_id'' = optional_str (dget raw ''strategy_id'')"
      "dget e ''paper_order_intent_id'' = optional_str (dget raw ''paper_order_intent_id'')"
      "dget e ''paper_order_id'' = optional_str (dget raw ''paper_order_id'')"
      "dget e ''event_type'' = optional_str (dget raw ''event_type'')" "dget e ''ts_epoch'' = opt_float ts"
      "dget e ''idempotency_key'' = optional_str (dget raw ''idempotency_key'')" "dget e ''payload'' = dget raw ''payload''"
      "dget raw ''paper_only'' = PBool True" "dget raw ''is_order_action'' = PBool False"
      "dget raw ''broker_api_called'' = PBool False" "dget raw ''real_order_id'' = PNone"
      using flags by (simp_all add: e)
    have "stable_json e = PDict ?d" by (simp add: stable_json_def journal_form_def)
    then show ?thesis
      by (simp add: normalize_paper_event_def get vals flags journal_scalars schema) (simp add: journal_form_def e vals journal_scalars)
  qed
qed

lemma sort_key_Nil_iff: "sort_key f xs = [] \<longleftrightarrow> xs = []"
  by (metis length_0_conv length_sort)

lemma sort_json_shape:
  "is_dict (sort_json v) = is_dict v" "truthy (sort_json v) = truthy v" "sort_json v = PNone \<longleftrightarrow> v = PNone"
  by (cases v; simp add: sort_key_Nil_iff)+

lemma journal_form_valid: "event_valid e \<Longrightarrow> event_valid (journal_form e)"
  unfolding event_valid_def dget_journal_form by (auto simp: sort_json_shape)

lemma journal_form_fields:
  assumes "normalize_paper_event r = Inr e"
  shows "ev_id (journal_form e) = ev_id e" "ev_key (journal_form e) = ev_key e"
proof -
  have "sort_json v = v" if "text_or_none v" for v using that by (auto simp: text_or_none_def)
  then show "ev_id (journal_form e) = ev_id e" "ev_key (journal_form e) = ev_key e"
    using normalized_shape(2,4) [OF assms] by (simp_all add: ev_id_def ev_key_def dget_journal_form)
qed

section \<open>Scanning a clean file\<close>

definition scan_start :: journal_scan where
  "scan_start = \<lparr>js_blockers = [], js_events = [], js_seen_ids = [], js_seen_keys = []\<rparr>"

definition scan_inv :: "journal_scan \<Rightarrow> bool" where
  "scan_inv st \<longleftrightarrow>
     set (js_seen_ids st) = ev_id ` set (js_events st) \<and> distinct (map ev_id (js_events st)) \<and>
     (\<forall>e \<in> set (js_events st). event_valid e \<and> (\<exists>raw. normalize_paper_event raw = Inr e)) \<and>
     (\<forall>k e. map_of (js_seen_keys st) k = Some e \<longrightarrow> e \<in> set (js_events st) \<and> ev_key e = k)"

lemma load_row_inv:
  assumes "load_row (n, row) st = Inr st'" "scan_inv st" shows "scan_inv st'"
proof (cases row)
  case (JsonRow v)
  from assms(1) JsonRow obtain e bs where e: "normalize_paper_event (RawValue v) = Inr e"
    and bs: "validate_paper_event (RawValue (PDict e)) = Inr bs"
    by (auto simp: load_row_def)
  have valid: "bs = [] \<longleftrightarrow> event_valid e" using validate_normalized [OF e] bs by auto
  consider (blocked) b where "st' = st\<lparr>js_blockers := b\<rparr>"
    | (added) "event_valid e" "ev_id e \<notin> set (js_seen_ids st)"
        "st' = st\<lparr>js_events := js_events st @ [e], js_seen_ids := ev_id e # js_seen_ids st,
                  js_seen_keys := AList.update (ev_key e) e (js_seen_keys st)\<rparr>"
    using assms(1) JsonRow e bs valid by (auto simp: load_row_def split: if_splits)
  then show ?thesis
  proof cases
    case blocked
    with assms(2) show ?thesis by (simp add: scan_inv_def)
  next
    case added
    with assms(2) e show ?thesis by (auto simp: scan_inv_def update_conv' split: if_splits)
  qed
qed (use assms in \<open>auto simp: load_row_def scan_inv_def\<close>)

lemma scan_run_inv: "fold_result load_row rows st = Inr st' \<Longrightarrow> scan_inv st \<Longrightarrow> scan_inv st'"
proof (induction rows arbitrary: st)
  case (Cons row rows)
  then obtain t where t: "load_row row st = Inr t" "fold_result load_row rows t = Inr st'" by auto
  obtain n r where "row = (n, r)" by (cases row)
  with Cons t show ?case using load_row_inv by blast
qed simp

lemma scan_inv_start: "scan_inv scan_start"
  by (simp add: scan_inv_def scan_start_def)

lemma duplicate_blockers_Nil:
  "duplicate_blockers e es = [] \<longleftrightarrow> ev_id e \<notin> ev_id ` set es \<and> ev_key e \<notin> ev_key ` set es"
  by (induction es) auto

lemma load_new_row:
  assumes r: "normalize_paper_event raw = Inr e" "event_valid e" and st: "scan_inv st"
    and new: "duplicate_blockers e (js_events st) = []"
  shows "load_row (n, JsonRow (stable_json e)) st =
    Inr (st\<lparr>js_events := js_events st @ [journal_form e], js_seen_ids := ev_id e # js_seen_ids st,
            js_seen_keys := AList.update (ev_key e) (journal_form e) (js_seen_keys st)\<rparr>)"
proof -
  note n = normalize_journal_form [OF r] and f = journal_form_fields [OF r(1)]
  have v: "validate_paper_event (RawValue (PDict (journal_form e))) = Inr []"
    using validate_normalized [OF n] journal_form_valid [OF r(2)] by auto
  have "ev_id e \<notin> set (js_seen_ids st)" and k: "map_of (js_seen_keys st) (ev_key e) = None"
    using st new by (auto simp: duplicate_blockers_Nil scan_inv_def) (metis imageI not_None_eq)
  then show ?thesis by (simp add: load_row_def n v f)
qed

lemma load_events_Inr:
  assumes "load_paper_events path file = Inr r"
  obtains st where "fold_result load_row (enumerate 1 (case file of Some rows \<Rightarrow> rows | None \<Rightarrow> [])) scan_start = Inr st"
    "jr_events r = js_events st" "jr_blockers r = js_blockers st" "jr_warnings r = []" "jr_event r = None" "scan_inv st"
proof -
  let ?rows = "case file of Some rows \<Rightarrow> rows | None \<Rightarrow> []"
  have "\<exists>st. fold_result load_row (enumerate 1 ?rows) scan_start = Inr st \<and> jr_events r = js_events st \<and>
      jr_blockers r = js_blockers st \<and> jr_warnings r = [] \<and> jr_event r = None"
    using assms by (cases "file") (auto simp: load_paper_events_def scan_start_def)
  then show thesis using that scan_run_inv [OF _ scan_inv_start] by blast
qed

lemma enumerate_snoc: "enumerate n (xs @ [x]) = enumerate n xs @ [(n + length xs, x)]"
  by (simp add: enumerate_append_eq)

lemma append_Inr:
  assumes "append_paper_event path raw file = Inr (r, file')" "jr_appended r"
  obtains e old where "normalize_paper_event raw = Inr e" "event_valid e" "load_paper_events path file = Inr old"
    "jr_blockers old = []" "duplicate_blockers e (jr_events old) = []" "jr_events r = jr_events old @ [e]"
    "file' = Some ((case file of Some rows \<Rightarrow> rows | None \<Rightarrow> []) @ [JsonRow (stable_json e)])"
proof -
  obtain e bs where e: "normalize_paper_event raw = Inr e" and bs: "validate_paper_event (RawValue (PDict e)) = Inr bs"
    using assms(1) by (auto simp: append_paper_event_def)
  have valid: "bs = [] \<longleftrightarrow> event_valid e" using validate_normalized [OF e] bs by auto
  note run = assms(1) [unfolded append_paper_event_def e bs bind_result_simps Let_def]
  have "bs = []" using run assms(2) by (auto split: if_splits)
  with run obtain old where old: "load_paper_events path file = Inr old" by auto
  have "jr_blockers old = []" "duplicate_blockers e (jr_events old) = []"
    using run \<open>bs = []\<close> assms(2) by (auto simp: old split: if_splits)
  moreover from this have "jr_events r = jr_events old @ [e]"
    "file' = Some ((case file of Some rows \<Rightarrow> rows | None \<Rightarrow> []) @ [JsonRow (stable_json e)])"
    using run \<open>bs = []\<close> by (auto simp: old)
  ultimately show thesis using that e valid \<open>bs = []\<close> old by blast
qed

lemma load_after_append:
  assumes "normalize_paper_event raw = Inr e" "event_valid e" "load_paper_events path file = Inr old" "jr_blockers old = []"
    "duplicate_blockers e (jr_events old) = []"
  shows "load_paper_events path (Some ((case file of Some rows \<Rightarrow> rows | None \<Rightarrow> []) @ [JsonRow (stable_json e)])) =
    Inr (old\<lparr>jr_appended := False, jr_events := jr_events old @ [journal_form e], jr_path := Some path\<rparr>)"
proof -
  obtain st where st: "fold_result load_row (enumerate 1 (case file of Some rows \<Rightarrow> rows | None \<Rightarrow> [])) scan_start = Inr st"
    "jr_events old = js_events st" "jr_blockers old = js_blockers st" "jr_warnings old = []" "jr_event old = None" "scan_inv st"
    by (rule load_events_Inr [OF assms(3)]) (rule that)
  from load_new_row [OF assms(1,2) st(6)] assms(5) st(2)
  show ?thesis
    using st assms(4)
    by (cases old) (simp add: load_paper_events_def enumerate_snoc fold_result_append flip: scan_start_def)
qed

lemma duplicate_blockers_append:
  "duplicate_blockers e es = [] \<Longrightarrow> duplicate_blockers e (es @ es') = duplicate_blockers e es'"
  by (induction es) (auto split: if_splits)

section \<open>Properties\<close>

text \<open>
  C39. An append is durable and idempotent. After a successful append, loading the file gives
  the events that were there before followed by the new one, as JSON keeps it, and no
  blocker; repeating the same append neither writes nor blocks, and warns that it is a
  repetition.
\<close>

theorem journal_append_durable:
  assumes "append_paper_event path raw file = Inr (r, file')" "jr_appended r"
  shows "\<exists>e old new again. normalize_paper_event raw = Inr e \<and> load_paper_events path file = Inr old \<and>
    load_paper_events path file' = Inr new \<and> jr_blockers new = [] \<and> jr_events new = jr_events old @ [journal_form e] \<and>
    append_paper_event path raw file' = Inr (again, file') \<and> \<not> jr_appended again \<and> jr_blockers again = [] \<and>
    jr_warnings again = [''PAPER_EVENT_DUPLICATE_IDEMPOTENCY_KEY_NOOP'']"
proof -
  obtain e old where e: "normalize_paper_event raw = Inr e" "event_valid e" and old: "load_paper_events path file = Inr old"
    "jr_blockers old = []" "duplicate_blockers e (jr_events old) = []"
    and f: "file' = Some ((case file of Some rows \<Rightarrow> rows | None \<Rightarrow> []) @ [JsonRow (stable_json e)])"
    by (rule append_Inr [OF assms]) (rule that)
  note new = load_after_append [OF e old, folded f]
  obtain bs where bs: "validate_paper_event (RawValue (PDict e)) = Inr bs" "bs = [] \<longleftrightarrow> event_valid e"
    using validate_normalized [OF e(1)] by blast
  have "duplicate_blockers e (jr_events old @ [journal_form e]) = [''PAPER_EVENT_DUPLICATE_IDEMPOTENCY_KEY_NOOP'']"
    using duplicate_blockers_append [OF old(3)] journal_form_fields [OF e(1)] by simp
  then have "\<exists>again. append_paper_event path raw file' = Inr (again, file') \<and> \<not> jr_appended again \<and>
      jr_blockers again = [] \<and> jr_warnings again = [''PAPER_EVENT_DUPLICATE_IDEMPOTENCY_KEY_NOOP'']"
    using bs e(2) old(2) by (simp add: append_paper_event_def e(1) new Let_def)
  then obtain again where "append_paper_event path raw file' = Inr (again, file')" "\<not> jr_appended again"
    "jr_blockers again = []" "jr_warnings again = [''PAPER_EVENT_DUPLICATE_IDEMPOTENCY_KEY_NOOP'']" by blast
  with e(1) old(1,2) new show ?thesis
    by (intro exI [of _ e] exI [of _ old]
        exI [of _ "old\<lparr>jr_appended := False, jr_events := jr_events old @ [journal_form e], jr_path := Some path\<rparr>"]
        exI [of _ again]) simp
qed

theorem journal_append_durable_witness:
  "\<exists>r file' new. append_paper_event ''journal'' (RawValue (PDict (demo_raw ''e1'' 1))) None = Inr (r, file') \<and> jr_appended r \<and>
     load_paper_events ''journal'' file' = Inr new \<and> length (jr_events new) = 1"
proof -
  let ?raw = "RawValue (PDict (demo_raw ''e1'' 1))"
  have "case append_paper_event ''journal'' ?raw None of Inr (r, _) \<Rightarrow> jr_appended r | Inl _ \<Rightarrow> False" by code_simp
  then obtain r file' where r: "append_paper_event ''journal'' ?raw None = Inr (r, file')" "jr_appended r"
    by (cases "append_paper_event ''journal'' ?raw None") (auto split: prod.splits)
  from journal_append_durable [OF r] obtain old new e where "load_paper_events ''journal'' None = Inr old"
    "load_paper_events ''journal'' file' = Inr new" "jr_events new = jr_events old @ [journal_form e]" by blast
  with r show ?thesis by (auto simp: load_paper_events_def)
qed

end
