(* ===== verification/Paper_Rebuild.thy ===== *)
theory Paper_Rebuild
  imports Paper_Journal Paper_Reducer
begin

text \<open>
  src/paper_trading/rebuild.py: the state rebuilt from a journal, through the journal loader,
  the ordering guard and the reducer. Each stage blocks the ones after it.
\<close>

section \<open>Statuses, result, contract\<close>

datatype rebuild_status = REBUILT | EMPTY | BLOCKED

fun rebuild_status_value :: "rebuild_status \<Rightarrow> string" where
  "rebuild_status_value REBUILT = ''REBUILT''"
| "rebuild_status_value EMPTY = ''EMPTY''"
| "rebuild_status_value BLOCKED = ''BLOCKED''"

record rebuild_result =
  rb_rebuilt :: bool
  rb_status :: rebuild_status
  rb_journal_path :: "string option"
  rb_event_count :: int
  rb_ordered_event_count :: int
  rb_state :: pydict
  rb_journal :: pydict
  rb_ordering :: pydict
  rb_reducer :: pydict
  rb_blockers :: "string list"
  rb_warnings :: "string list"

definition rebuild_result_to_dict :: "rebuild_result \<Rightarrow> pydict" where
  "rebuild_result_to_dict r =
     [(''schema_version'', PStr ''1.0''),
      (''rebuild_type'', PStr ''PAPER_STATE_REBUILD_CLI''),
      (''status'', PStr (rebuild_status_value (rb_status r))),
      (''rebuilt'', PBool (rb_rebuilt r)),
      (''journal_path'', opt_str (rb_journal_path r)),
      (''event_count'', PInt (rb_event_count r)),
      (''ordered_event_count'', PInt (rb_ordered_event_count r)),
      (''state'', PDict (rb_state r)),
      (''journal'', PDict (rb_journal r)),
      (''ordering'', PDict (rb_ordering r)),
      (''reducer'', PDict (rb_reducer r)),
      (''blockers'', str_list (rb_blockers r)),
      (''warnings'', str_list (rb_warnings r)),
      (''paper_only'', PBool True),
      (''read_only'', PBool True),
      (''is_order_action'', PBool False),
      (''broker_api_called'', PBool False),
      (''real_order_id'', PNone)]"

definition rebuild_result_keys :: "string list" where
  "rebuild_result_keys =
     [''schema_version'', ''rebuild_type'', ''status'', ''rebuilt'', ''journal_path'', ''event_count'', ''ordered_event_count'',
      ''state'', ''journal'', ''ordering'', ''reducer'', ''blockers'', ''warnings'', ''paper_only'', ''read_only'',
      ''is_order_action'', ''broker_api_called'', ''real_order_id'']"

definition rebuild_schema_contract :: pydict where
  "rebuild_schema_contract =
     [(''schema_version'', PStr ''1.0''),
      (''rebuild_type'', PStr ''PAPER_STATE_REBUILD_CLI''),
      (''consumes'', str_list
         [''CANONICAL_PAPER_EVENT_JOURNAL'', ''PAPER_EVENT_ORDERING_IDEMPOTENCY_GUARD'', ''DETERMINISTIC_PAPER_STATE_REDUCER'']),
      (''statuses'', str_list (map rebuild_status_value [REBUILT, EMPTY, BLOCKED])),
      (''required_result_keys'', str_list rebuild_result_keys),
      (''safe_flags'', PDict read_only_flags),
      (''pipeline'', str_list [''load_paper_events'', ''guard_paper_event_ordering'', ''reduce_paper_events'']),
      (''upstream_contracts'', PDict
         [(''journal'', PDict journal_schema_contract), (''ordering'', PDict guard_schema_contract),
          (''reducer'', PDict reducer_schema_contract)]),
      (''cli_exit_codes'', PDict [(''REBUILT'', PInt 0), (''EMPTY'', PInt 0), (''BLOCKED'', PInt 2)]),
      (''scope_boundary'', str_list
         [''read_only_rebuild_only'', ''no_journal_append'', ''no_state_export'', ''no_api'', ''no_ui'', ''no_runtime_wiring''])]"

section \<open>The path argument\<close>

text \<open>\<open>path: str | Path | None\<close>, or a value of another type; a \<open>Path\<close> stands for its text, which is not empty.\<close>

datatype path_arg = PathNone | PathText string | PathObject string | PathOther

definition validate_rebuild_inputs :: "path_arg \<Rightarrow> string list" where
  "validate_rebuild_inputs path =
     (case path of
        PathNone \<Rightarrow> [''PAPER_JOURNAL_REBUILD_PATH_REQUIRED'']
      | PathObject p \<Rightarrow> add_if (p = []) ''PAPER_JOURNAL_REBUILD_PATH_REQUIRED''
      | PathText s \<Rightarrow> add_if (strip s = []) ''PAPER_JOURNAL_REBUILD_PATH_REQUIRED''
      | PathOther \<Rightarrow> [''PAPER_JOURNAL_REBUILD_PATH_MUST_BE_STRING_OR_PATH''])"

definition normalize_path :: "path_arg \<Rightarrow> string option" where
  "normalize_path path =
     (case path of
        PathNone \<Rightarrow> None
      | PathObject p \<Rightarrow> Some p
      | PathText s \<Rightarrow> (if strip s = [] then None else Some (strip s))
      | PathOther \<Rightarrow> None)"

definition rebuild_prefixed :: "string \<Rightarrow> string list \<Rightarrow> string list" where
  "rebuild_prefixed source blockers = map (\<lambda>b. ''PAPER_JOURNAL_REBUILD_'' @ source @ ''_'' @ b) blockers"

section \<open>The rebuild\<close>

definition blocked_rebuild :: "string option \<Rightarrow> string list \<Rightarrow> string list \<Rightarrow> rebuild_result" where
  "blocked_rebuild path blockers warnings =
     \<lparr>rb_rebuilt = False, rb_status = BLOCKED, rb_journal_path = path, rb_event_count = 0, rb_ordered_event_count = 0,
      rb_state = [], rb_journal = [], rb_ordering = [], rb_reducer = [], rb_blockers = blockers, rb_warnings = warnings\<rparr>"

text \<open>\<open>files\<close> is the content of the file system: the journal at each path.\<close>

definition rebuild_paper_journal :: "(string \<Rightarrow> journal_file) \<Rightarrow> path_arg \<Rightarrow> rebuild_result result" where
  "rebuild_paper_journal files path =
     (let blockers = validate_rebuild_inputs path; journal_path = normalize_path path;
          p = (case journal_path of Some t \<Rightarrow> t | None \<Rightarrow> [])
      in if blockers \<noteq> [] then Inr (blocked_rebuild journal_path blockers [])
         else
           bind_result (load_paper_events p (files p)) (\<lambda>journal.
           (let at_journal = (blocked_rebuild journal_path (rebuild_prefixed ''JOURNAL'' (jr_blockers journal)) (jr_warnings journal))
                  \<lparr>rb_event_count := int (length (jr_events journal)), rb_journal := journal_result_to_dict journal\<rparr>
            in if jr_blockers journal \<noteq> [] then Inr at_journal
               else
                 bind_result (guard_paper_event_ordering (EventsList (map (\<lambda>e. RawValue (PDict e)) (jr_events journal)))) (\<lambda>ordering.
                 (let at_ordering = at_journal
                        \<lparr>rb_ordered_event_count := int (length (gr_ordered_events ordering)),
                         rb_ordering := guard_result_to_dict ordering,
                         rb_blockers := rebuild_prefixed ''ORDERING'' (gr_blockers ordering),
                         rb_warnings := jr_warnings journal @ gr_warnings ordering\<rparr>
                  in if gr_blockers ordering \<noteq> [] then Inr at_ordering
                     else
                       bind_result (reduce_paper_events (EventsList (map (\<lambda>e. RawValue (PDict e)) (gr_ordered_events ordering)))) (\<lambda>reducer.
                       (let at_reducer = at_ordering
                              \<lparr>rb_reducer := reducer_result_to_dict reducer,
                               rb_blockers := rebuild_prefixed ''REDUCER'' (rr_blockers reducer),
                               rb_warnings := jr_warnings journal @ gr_warnings ordering @ rr_warnings reducer\<rparr>
                        in if rr_blockers reducer \<noteq> [] then Inr at_reducer
                           else
                             Inr (at_reducer
                               \<lparr>rb_rebuilt := True,
                                rb_status := (if gr_ordered_events ordering = [] then EMPTY else REBUILT),
                                rb_state := reduced_state_to_dict (rr_state reducer), rb_blockers := [],
                                rb_warnings := dedupe (rb_warnings at_reducer)\<rparr>))))))))"

interpretation rebuild_report: paper_report rebuild_result_to_dict rebuild_result_keys
  by unfold_locales (simp_all add: rebuild_result_to_dict_def rebuild_result_keys_def has_key_def flags_safe_def)

section \<open>What a rebuild accepts\<close>

lemma load_events_normalized:
  assumes "load_paper_events path file = Inr r" "e \<in> set (jr_events r)"
  shows "normalize_paper_event (RawValue (PDict e)) = Inr e"
proof -
  obtain st where "jr_events r = js_events st" "scan_inv st" by (rule load_events_Inr [OF assms(1)]) (rule that)
  with assms(2) show ?thesis by (auto simp: scan_inv_def intro: normalize_idem)
qed

lemma normalized_list:
  "(\<And>e. e \<in> set es \<Longrightarrow> normalize_paper_event (RawValue (PDict e)) = Inr e) \<Longrightarrow>
   map_result normalize_paper_event (map (\<lambda>e. RawValue (PDict e)) es) = Inr es"
  by (induction es) auto

lemma well_ordered_reducible: "well_ordered es \<Longrightarrow> reducible es \<longleftrightarrow> (\<forall>e \<in> set es. position_readable e)"
  by (auto simp: reducible_def well_ordered_def)

text \<open>The stages after the journal, on normalized events.\<close>

lemma guard_normalized:
  assumes "guard_paper_event_ordering (EventsList (map (\<lambda>e. RawValue (PDict e)) es)) = Inr g"
    and "\<And>e. e \<in> set es \<Longrightarrow> normalize_paper_event (RawValue (PDict e)) = Inr e"
  shows "gr_blockers g = [] \<longleftrightarrow> well_ordered es" "gr_blockers g = [] \<Longrightarrow> gr_ordered_events g = es"
  using guard_outcome [OF assms(1)] normalized_list [of es] assms(2) by auto

lemma reduce_normalized:
  assumes "reduce_paper_events (EventsList (map (\<lambda>e. RawValue (PDict e)) es)) = Inr r" "well_ordered es"
    and "\<And>e. e \<in> set es \<Longrightarrow> normalize_paper_event (RawValue (PDict e)) = Inr e"
  shows "rr_blockers r = [] \<longleftrightarrow> (\<forall>e \<in> set es. position_readable e)"
    "rr_blockers r = [] \<Longrightarrow> reduction_of es (rr_state r)"
proof -
  note n = normalized_list [of es, OF assms(3)]
  have "reduction_of [] empty_state"
    using reduction_of_run [of "[]" empty_state "[]"] by simp
  from assms(1) have "(rr_blockers r = [] \<longleftrightarrow> reducible es) \<and> (rr_blockers r = [] \<longrightarrow> reduction_of es (rr_state r))"
  proof (cases rule: reduce_cases)
    case blocked
    with n show ?thesis by auto
  next
    case empty
    with \<open>reduction_of [] empty_state\<close> show ?thesis by (simp add: reducible_def)
  next
    case (reduced es' s)
    then have "es' = es" using n by simp
    with reduced show ?thesis using reduction_of_summary [of es "rs_summary (rr_state r)" s] by simp
  qed
  then show "rr_blockers r = [] \<longleftrightarrow> (\<forall>e \<in> set es. position_readable e)"
    "rr_blockers r = [] \<Longrightarrow> reduction_of es (rr_state r)"
    using well_ordered_reducible [OF assms(2)] by blast+
qed

section \<open>Properties\<close>


definition demo_files :: "string \<Rightarrow> journal_file" where
  "demo_files p = Some [JsonRow (PDict (demo_raw ''e1'' 1)), BlankRow, JsonRow (PDict (demo_raw ''e2'' 2))]"


end
