(* ===== verification/Paper_Intent.thy ===== *)
theory Paper_Intent
  imports Paper_Base Execution_Safety
begin

text \<open>
  src/paper_trading/intent_bridge.py: the paper order intent made of the selected candidate,
  when the safety decision permits it and no snapshot blocks. \<open>dict(readiness or {})\<close> raises on a
  value that is neither falsy nor a mapping; the validation only warns about such a value.
\<close>

section \<open>Intent, result, contract\<close>

definition blocking_context_statuses :: "string list" where
  "blocking_context_statuses =
     [''BLOCKED'', ''BLOCKED_PRE_OPEN'', ''BLOCKED_CLOSING'', ''BLOCKED_CLOSED'', ''BLOCKED_EXPIRED_CONTRACT'',
      ''BLOCKED_INVALID_EXPIRY'', ''BLOCKED_MISSING_CONTEXT'', ''BLOCKED_UNRESOLVED'', ''BLOCKED_MISSING_SPOT'',
      ''BLOCKED_STALE_SPOT'', ''BLOCKED_FALLBACK_SOURCE'', ''BLOCKED_MISSING_OPTION_CHAIN'', ''BLOCKED_STALE_OPTION_CHAIN'',
      ''BLOCKED_SESSION_CLOSED'', ''BLOCKED_MISSING_SIDE'', ''BLOCKED_ZERO_SIDE'', ''BLOCKED_SHALLOW_DEPTH'',
      ''BLOCKED_STALE_DEPTH'', ''BLOCKED_DEPTH_IMBALANCE'', ''EMPTY'']"

record paper_intent =
  pi_paper_order_intent_id :: string
  pi_candidate_id :: string
  pi_symbol :: "string option"
  pi_tradingsymbol :: "string option"
  pi_instrument_token :: "string option"
  pi_transaction_type :: "string option"
  pi_quantity :: "int option"
  pi_order_type :: "string option"
  pi_product :: "string option"
  pi_price :: "pyfloat option"
  pi_trigger_price :: "pyfloat option"
  pi_strategy :: "string option"
  pi_quality_score :: "pyfloat option"
  pi_created_at_epoch :: pyval
  pi_source :: string
  pi_candidate_snapshot :: pydict
  pi_readiness_snapshot :: pydict
  pi_market_data_snapshot :: pydict
  pi_instrument_health_snapshot :: pydict
  pi_safety_decision_snapshot :: pydict

definition paper_intent_to_dict :: "paper_intent \<Rightarrow> pydict" where
  "paper_intent_to_dict i =
     [(''schema_version'', PStr ''1.0''),
      (''intent_type'', PStr ''PAPER_ORDER_INTENT''),
      (''paper_order_intent_id'', PStr (pi_paper_order_intent_id i)),
      (''candidate_id'', PStr (pi_candidate_id i)),
      (''status'', PStr ''PAPER_INTENT_READY''),
      (''execution_mode'', PStr ''PAPER''),
      (''paper_only'', PBool True),
      (''is_order_action'', PBool False),
      (''broker_api_called'', PBool False),
      (''real_order_id'', PNone),
      (''symbol'', opt_str (pi_symbol i)),
      (''tradingsymbol'', opt_str (pi_tradingsymbol i)),
      (''instrument_token'', opt_str (pi_instrument_token i)),
      (''transaction_type'', opt_str (pi_transaction_type i)),
      (''quantity'', opt_int (pi_quantity i)),
      (''order_type'', opt_str (pi_order_type i)),
      (''product'', opt_str (pi_product i)),
      (''price'', opt_float (pi_price i)),
      (''trigger_price'', opt_float (pi_trigger_price i)),
      (''strategy'', opt_str (pi_strategy i)),
      (''quality_score'', opt_float (pi_quality_score i)),
      (''created_at_epoch'', pi_created_at_epoch i),
      (''source'', PStr (pi_source i)),
      (''candidate_snapshot'', PDict (pi_candidate_snapshot i)),
      (''readiness_snapshot'', PDict (pi_readiness_snapshot i)),
      (''market_data_snapshot'', PDict (pi_market_data_snapshot i)),
      (''instrument_health_snapshot'', PDict (pi_instrument_health_snapshot i)),
      (''safety_decision_snapshot'', PDict (pi_safety_decision_snapshot i))]"

record intent_result =
  ir_created :: bool
  ir_intent :: "paper_intent option"
  ir_blockers :: "string list"
  ir_warnings :: "string list"
  ir_evidence :: pydict

definition intent_result_to_dict :: "intent_result \<Rightarrow> pydict" where
  "intent_result_to_dict r =
     [(''schema_version'', PStr ''1.0''),
      (''bridge_type'', PStr ''PAPER_ORDER_INTENT_BRIDGE''),
      (''created'', PBool (ir_created r)),
      (''intent'', opt_dict (map_option paper_intent_to_dict (ir_intent r))),
      (''blockers'', str_list (ir_blockers r)),
      (''warnings'', str_list (ir_warnings r)),
      (''evidence'', PDict (ir_evidence r)),
      (''paper_only'', PBool True),
      (''is_order_action'', PBool False),
      (''broker_api_called'', PBool False),
      (''real_order_id'', PNone)]"

definition intent_result_keys :: "string list" where
  "intent_result_keys =
     [''schema_version'', ''bridge_type'', ''created'', ''intent'', ''blockers'', ''warnings'', ''evidence'', ''paper_only'',
      ''is_order_action'', ''broker_api_called'', ''real_order_id'']"

definition paper_intent_keys :: "string list" where
  "paper_intent_keys =
     [''schema_version'', ''intent_type'', ''paper_order_intent_id'', ''candidate_id'', ''status'', ''execution_mode'',
      ''paper_only'', ''is_order_action'', ''broker_api_called'', ''real_order_id'', ''candidate_snapshot'',
      ''readiness_snapshot'', ''market_data_snapshot'', ''instrument_health_snapshot'', ''safety_decision_snapshot'']"

definition intent_schema_contract :: pydict where
  "intent_schema_contract =
     [(''schema_version'', PStr ''1.0''),
      (''bridge_type'', PStr ''PAPER_ORDER_INTENT_BRIDGE''),
      (''intent_type'', PStr ''PAPER_ORDER_INTENT''),
      (''required_result_keys'', str_list intent_result_keys),
      (''required_intent_keys'', str_list paper_intent_keys),
      (''safe_flags'', PDict safe_flags)]"

section \<open>Validation\<close>

definition str_or_none :: "pyval \<Rightarrow> string option" where
  "str_or_none v = (if is_blank v then None else Some (py_str v))"

definition selected_candidate :: "pyval \<Rightarrow> pydict option" where
  "selected_candidate te =
     (if dget (as_dict te) ''status'' \<noteq> PStr ''SELECTED'' then None
      else let d = as_dict (dget (as_dict te) ''selected'') in if d = [] then None else Some d)"

text \<open>Blockers and warnings of one check.\<close>

definition read_only_snapshot_checks :: "pyval \<Rightarrow> string \<Rightarrow> string list \<times> string list" where
  "read_only_snapshot_checks snapshot name =
     (let d = as_dict snapshot
      in if d = [] then ([], [name @ ''_SNAPSHOT_MISSING''])
         else (add_if (dget d ''is_order_action'' \<noteq> PBool False) (name @ ''_ORDER_FLAG_UNSAFE'') @
               add_if (dget d ''broker_api_called'' = PBool True) (name @ ''_BROKER_API_CALLED'') @
               add_if (\<not> is_blank (dget d ''real_order_id'')) (name @ ''_REAL_ORDER_ID_PRESENT''), []))"

definition context_status_checks :: "pyval \<Rightarrow> string \<Rightarrow> string list \<times> string list" where
  "context_status_checks snapshot name =
     (let d = as_dict snapshot; status = upper_text (dget d ''status'')
      in if d = [] then ([], [])
         else if status \<in> set blocking_context_statuses \<or> starts_with status ''BLOCKED'' then ([name @ ''_BLOCKED''], [])
         else if starts_with status ''DEGRADED'' then ([], [name @ ''_DEGRADED'']) else ([], []))"

definition readiness_checks :: "pyval \<Rightarrow> (string list \<times> string list) result" where
  "readiness_checks readiness =
     (let d = as_dict readiness
      in if d = [] then Inr ([], [])
         else
           bind_result (list_or_empty (dget d ''blockers'')) (\<lambda>bs.
           bind_result (list_or_empty (dget d ''warnings'')) (\<lambda>ws.
             Inr (add_if (dget d ''resolved'' = PBool False) ''READINESS_UNRESOLVED'' @
                  add_if (truthy (dget d ''readiness_status'') \<and>
                          starts_with (upper (py_str (dget d ''readiness_status''))) ''BLOCKED'') ''READINESS_BLOCKED'' @
                  map py_str bs,
                  add_if (dget d ''fallback_used'' = PBool True) ''READINESS_FALLBACK_USED'' @ map py_str ws))))"

definition candidate_blockers :: "pydict option \<Rightarrow> string list" where
  "candidate_blockers selected =
     (case selected of
        None \<Rightarrow> [''NO_SELECTED_EXECUTABLE_CANDIDATE'']
      | Some d \<Rightarrow> add_if (dget d ''is_order'' \<noteq> PBool False) ''SELECTED_CANDIDATE_ORDER_FLAG_UNSAFE'')"

definition safety_blockers :: "pydict \<Rightarrow> string list" where
  "safety_blockers safety =
     (if safety = [] then [''EXECUTION_SAFETY_REQUIRED'']
      else
        add_if (dget safety ''execution_permitted'' \<noteq> PBool True) ''EXECUTION_SAFETY_NOT_PERMITTED'' @
        add_if (dget safety ''is_order_action'' \<noteq> PBool False) ''EXECUTION_SAFETY_ORDER_FLAG_UNSAFE'')"

record bridge_input =
  bi_top_executable :: pyval
  bi_execution_safety :: pyval
  bi_readiness :: pyval
  bi_market_data :: pyval
  bi_instrument_health :: pyval
  bi_ts_epoch :: pyval

definition validate_intent_inputs :: "bridge_input \<Rightarrow> (string list \<times> string list) result" where
  "validate_intent_inputs q =
     (let selected = selected_candidate (bi_top_executable q);
          checks = [read_only_snapshot_checks (bi_readiness q) ''READINESS'',
                    read_only_snapshot_checks (bi_market_data q) ''MARKET_DATA'',
                    read_only_snapshot_checks (bi_instrument_health q) ''INSTRUMENT_HEALTH'',
                    context_status_checks (bi_market_data q) ''MARKET_DATA'',
                    context_status_checks (bi_instrument_health q) ''INSTRUMENT_HEALTH'']
      in bind_result (readiness_checks (bi_readiness q)) (\<lambda>(rbs, rws).
           Inr (dedupe (candidate_blockers selected @ safety_blockers (as_dict (bi_execution_safety q)) @
                        concat (map fst checks) @ rbs @
                        add_if (case selected of Some d \<Rightarrow> is_blank (dget d ''candidate_id'') | None \<Rightarrow> True) ''CANDIDATE_ID_REQUIRED''),
                dedupe (concat (map snd checks) @ rws))))"

definition intent_evidence :: "bridge_input \<Rightarrow> pydict" where
  "intent_evidence q =
     (let status = (\<lambda>v. dget (as_dict v) ''status'')
      in [(''top_executable_status'', status (bi_top_executable q)),
          (''execution_safety_status'', status (bi_execution_safety q)),
          (''readiness_status'', py_or (dget (as_dict (bi_readiness q)) ''readiness_status'') (status (bi_readiness q))),
          (''market_data_status'', status (bi_market_data q)),
          (''instrument_health_status'', status (bi_instrument_health q))] @ safe_flags)"

section \<open>The bridge\<close>

definition stable_intent_id :: "string \<Rightarrow> pyval \<Rightarrow> string" where
  "stable_intent_id candidate_id ts_epoch = ''paper-'' @ digest16 (join ''|'' [candidate_id, str_or_empty ts_epoch])"

text \<open>\<open>d.get(k1) or d.get(k2) or \<dots>\<close>\<close>

fun get_or :: "pydict \<Rightarrow> string list \<Rightarrow> pyval" where
  "get_or d [] = PNone"
| "get_or d [k] = dget d k"
| "get_or d (k # ks) = py_or (dget d k) (get_or d ks)"

definition intent_of_candidate :: "bridge_input \<Rightarrow> pydict \<Rightarrow> paper_intent result" where
  "intent_of_candidate q selected =
     (let candidate_id = py_str (dget selected ''candidate_id'')
      in bind_result (int_or_none (get_or selected [''quantity'', ''qty''])) (\<lambda>quantity.
         bind_result (float_or_none (get_or selected [''price'', ''entry'', ''entry_price''])) (\<lambda>price.
         bind_result (float_or_none (get_or selected [''trigger_price'', ''stop'', ''stop_loss''])) (\<lambda>trigger_price.
         bind_result (float_or_none (get_or selected [''quality_score'', ''score''])) (\<lambda>quality_score.
         bind_result (dict_or_empty (bi_readiness q)) (\<lambda>readiness.
         bind_result (dict_or_empty (bi_market_data q)) (\<lambda>market_data.
         bind_result (dict_or_empty (bi_instrument_health q)) (\<lambda>instrument_health.
         bind_result (dict_or_empty (bi_execution_safety q)) (\<lambda>safety.
           Inr \<lparr>pi_paper_order_intent_id = stable_intent_id candidate_id (bi_ts_epoch q),
                pi_candidate_id = candidate_id,
                pi_symbol = str_or_none (get_or selected [''symbol'', ''underlying'']),
                pi_tradingsymbol = str_or_none (get_or selected [''tradingsymbol'', ''symbol'']),
                pi_instrument_token = str_or_none (dget selected ''instrument_token''),
                pi_transaction_type = str_or_none (get_or selected [''transaction_type'', ''side'']),
                pi_quantity = quantity,
                pi_order_type = str_or_none (dget selected ''order_type''),
                pi_product = str_or_none (dget selected ''product''),
                pi_price = price,
                pi_trigger_price = trigger_price,
                pi_strategy = str_or_none (get_or selected [''strategy'', ''strategy_id'', ''setup_family'']),
                pi_quality_score = quality_score,
                pi_created_at_epoch = bi_ts_epoch q,
                pi_source = ''paper_order_intent_bridge'',
                pi_candidate_snapshot = selected,
                pi_readiness_snapshot = readiness,
                pi_market_data_snapshot = market_data,
                pi_instrument_health_snapshot = instrument_health,
                pi_safety_decision_snapshot = safety\<rparr>)))))))))"

definition build_paper_intent :: "bridge_input \<Rightarrow> intent_result result" where
  "build_paper_intent q =
     bind_result (validate_intent_inputs q) (\<lambda>(blockers, warnings).
       let evidence = intent_evidence q
       in if blockers \<noteq> []
          then Inr \<lparr>ir_created = False, ir_intent = None, ir_blockers = blockers, ir_warnings = warnings, ir_evidence = evidence\<rparr>
          else
            bind_result (intent_of_candidate q (case selected_candidate (bi_top_executable q) of Some d \<Rightarrow> d | None \<Rightarrow> [])) (\<lambda>i.
              Inr \<lparr>ir_created = True, ir_intent = Some i, ir_blockers = [], ir_warnings = warnings, ir_evidence = evidence\<rparr>))"

interpretation paper_intent_report: paper_report paper_intent_to_dict paper_intent_keys
  by unfold_locales (simp_all add: paper_intent_to_dict_def paper_intent_keys_def has_key_def flags_safe_def)

interpretation intent_report: paper_report intent_result_to_dict intent_result_keys
  by unfold_locales (simp_all add: intent_result_to_dict_def intent_result_keys_def has_key_def flags_safe_def)

section \<open>What the bridge asks for\<close>

definition snapshot_read_only :: "pyval \<Rightarrow> bool" where
  "snapshot_read_only v \<longleftrightarrow>
     as_dict v = [] \<or>
     (dget (as_dict v) ''is_order_action'' = PBool False \<and> dget (as_dict v) ''broker_api_called'' \<noteq> PBool True \<and>
      is_blank (dget (as_dict v) ''real_order_id''))"

text \<open>All listed blocking statuses but one begin with \<open>BLOCKED\<close>.\<close>

definition context_clear :: "pyval \<Rightarrow> bool" where
  "context_clear v \<longleftrightarrow>
     as_dict v = [] \<or>
     (upper_text (dget (as_dict v) ''status'') \<noteq> ''EMPTY'' \<and> \<not> starts_with (upper_text (dget (as_dict v) ''status'')) ''BLOCKED'')"

definition readiness_clear :: "pyval \<Rightarrow> bool" where
  "readiness_clear v \<longleftrightarrow>
     as_dict v = [] \<or>
     (dget (as_dict v) ''resolved'' \<noteq> PBool False \<and>
      \<not> starts_with (upper_text (dget (as_dict v) ''readiness_status'')) ''BLOCKED'' \<and>
      (\<exists>bs. list_or_empty (dget (as_dict v) ''blockers'') = Inr bs \<and> list_all (\<lambda>b. blank (py_str b)) bs))"

definition intent_ready :: "bridge_input \<Rightarrow> bool" where
  "intent_ready q \<longleftrightarrow>
     (\<exists>d. selected_candidate (bi_top_executable q) = Some d \<and> dget d ''is_order'' = PBool False \<and>
        \<not> is_blank (dget d ''candidate_id'')) \<and>
     dget (as_dict (bi_execution_safety q)) ''execution_permitted'' = PBool True \<and>
     dget (as_dict (bi_execution_safety q)) ''is_order_action'' = PBool False \<and>
     snapshot_read_only (bi_readiness q) \<and> snapshot_read_only (bi_market_data q) \<and>
     snapshot_read_only (bi_instrument_health q) \<and>
     context_clear (bi_market_data q) \<and> context_clear (bi_instrument_health q) \<and> readiness_clear (bi_readiness q)"

lemma blocking_status_iff:
  "s \<in> set blocking_context_statuses \<or> starts_with s ''BLOCKED'' \<longleftrightarrow> s = ''EMPTY'' \<or> starts_with s ''BLOCKED''"
  by (auto simp: blocking_context_statuses_def starts_with_def)

lemma snapshot_clear: "list_all blank (fst (read_only_snapshot_checks v n)) \<longleftrightarrow> snapshot_read_only v"
  by (auto simp: read_only_snapshot_checks_def snapshot_read_only_def Let_def)

lemma context_checks_clear: "list_all blank (fst (context_status_checks v n)) \<longleftrightarrow> context_clear v"
  unfolding context_status_checks_def context_clear_def Let_def blocking_status_iff by auto

lemma candidate_blockers_clear:
  "list_all blank (candidate_blockers c) \<longleftrightarrow> (\<exists>d. c = Some d \<and> dget d ''is_order'' = PBool False)"
  by (cases c) (simp_all add: candidate_blockers_def)

lemma safety_blockers_clear:
  "list_all blank (safety_blockers d) \<longleftrightarrow> dget d ''execution_permitted'' = PBool True \<and> dget d ''is_order_action'' = PBool False"
  by (auto simp: safety_blockers_def)

lemma readiness_checks_clear:
  "readiness_checks v = Inr (bs, ws) \<Longrightarrow> list_all blank bs \<longleftrightarrow> readiness_clear v"
  by (cases "truthy (dget (as_dict v) ''readiness_status'')")
    (auto simp: readiness_checks_def readiness_clear_def upper_text_def str_or_empty_def Let_def list.pred_map comp_def
      starts_with_def upper_def split: if_splits)

lemma validate_intent_clear:
  assumes "validate_intent_inputs q = Inr (bs, ws)" shows "bs = [] \<longleftrightarrow> intent_ready q"
proof -
  let ?c = "selected_candidate (bi_top_executable q)"
  let ?id = "case ?c of Some d \<Rightarrow> is_blank (dget d ''candidate_id'') | None \<Rightarrow> True"
  obtain rbs rws where r: "readiness_checks (bi_readiness q) = Inr (rbs, rws)"
    and bs: "bs = dedupe (candidate_blockers ?c @ safety_blockers (as_dict (bi_execution_safety q)) @
      fst (read_only_snapshot_checks (bi_readiness q) ''READINESS'') @
      fst (read_only_snapshot_checks (bi_market_data q) ''MARKET_DATA'') @
      fst (read_only_snapshot_checks (bi_instrument_health q) ''INSTRUMENT_HEALTH'') @
      fst (context_status_checks (bi_market_data q) ''MARKET_DATA'') @
      fst (context_status_checks (bi_instrument_health q) ''INSTRUMENT_HEALTH'') @ rbs @ add_if ?id ''CANDIDATE_ID_REQUIRED'')"
    using assms by (auto simp: validate_intent_inputs_def Let_def)
  have "bs = [] \<longleftrightarrow> (\<exists>d. ?c = Some d \<and> dget d ''is_order'' = PBool False) \<and> \<not> ?id \<and>
      dget (as_dict (bi_execution_safety q)) ''execution_permitted'' = PBool True \<and>
      dget (as_dict (bi_execution_safety q)) ''is_order_action'' = PBool False \<and>
      snapshot_read_only (bi_readiness q) \<and> snapshot_read_only (bi_market_data q) \<and>
      snapshot_read_only (bi_instrument_health q) \<and>
      context_clear (bi_market_data q) \<and> context_clear (bi_instrument_health q) \<and> readiness_clear (bi_readiness q)"
    unfolding bs dedupe_eq_Nil list_all_append candidate_blockers_clear safety_blockers_clear snapshot_clear
      context_checks_clear readiness_checks_clear [OF r] list_all_add_if by auto
  then show ?thesis unfolding intent_ready_def by (auto split: option.splits)
qed

lemma built_intent_cases:
  assumes "build_paper_intent q = Inr r"
  obtains (blocked) "\<not> intent_ready q" "\<not> ir_created r" "ir_intent r = None" "ir_blockers r \<noteq> []"
  | (created) d i where "intent_ready q" "ir_created r" "ir_intent r = Some i" "ir_blockers r = []"
      "selected_candidate (bi_top_executable q) = Some d" "intent_of_candidate q d = Inr i"
proof -
  obtain bs ws where v: "validate_intent_inputs q = Inr (bs, ws)"
    using assms by (auto simp: build_paper_intent_def)
  show thesis
  proof (cases "bs = []")
    case True
    then have ready: "intent_ready q" using validate_intent_clear [OF v] by simp
    then obtain d where d: "selected_candidate (bi_top_executable q) = Some d" unfolding intent_ready_def by blast
    with assms v True ready show thesis by (auto simp: build_paper_intent_def Let_def intro: created)
  next
    case False
    with assms v validate_intent_clear [OF v] show thesis
      by (intro blocked) (auto simp: build_paper_intent_def Let_def)
  qed
qed

lemma intent_of_candidate_fields:
  assumes "intent_of_candidate q d = Inr i"
  shows "pi_candidate_id i = py_str (dget d ''candidate_id'')"
    "pi_paper_order_intent_id i = stable_intent_id (pi_candidate_id i) (bi_ts_epoch q)"
    "pi_candidate_snapshot i = d"
    "int_or_none (get_or d [''quantity'', ''qty'']) = Inr (pi_quantity i)"
    "pi_transaction_type i = str_or_none (get_or d [''transaction_type'', ''side''])"
    "pi_order_type i = str_or_none (dget d ''order_type'')"
    "dict_or_empty (bi_execution_safety q) = Inr (pi_safety_decision_snapshot i)"
  using assms by (auto simp: intent_of_candidate_def Let_def)

text \<open>The numbers and the snapshots of a ready input can be read.\<close>

definition candidate_readable :: "bridge_input \<Rightarrow> pydict \<Rightarrow> bool" where
  "candidate_readable q d \<longleftrightarrow>
     \<not> isl (int_or_none (get_or d [''quantity'', ''qty''])) \<and>
     list_all (\<lambda>ks. \<not> isl (float_or_none (get_or d ks)))
       [[''price'', ''entry'', ''entry_price''], [''trigger_price'', ''stop'', ''stop_loss''], [''quality_score'', ''score'']] \<and>
     list_all (\<lambda>v. \<not> isl (dict_or_empty v)) [bi_readiness q, bi_market_data q, bi_instrument_health q, bi_execution_safety q]"

lemma not_isl: "\<not> isl m \<longleftrightarrow> (\<exists>x. m = Inr x)"
  by (cases m) auto

lemma intent_of_candidate_total: "(\<exists>i. intent_of_candidate q d = Inr i) \<longleftrightarrow> candidate_readable q d"
  by (auto simp: intent_of_candidate_def candidate_readable_def not_isl Let_def)

lemma build_intent_total:
  assumes "validate_intent_inputs q = Inr ([], ws)" "selected_candidate (bi_top_executable q) = Some d" "candidate_readable q d"
  shows "\<exists>r i. build_paper_intent q = Inr r \<and> ir_intent r = Some i"
  using assms intent_of_candidate_total [of q d] by (auto simp: build_paper_intent_def Let_def)

section \<open>Properties\<close>

text \<open>
  C17. The bridge creates a paper order intent exactly when the selected candidate has an id and
  is no order, the safety decision permits the execution, every snapshot is read-only and none
  is blocked or empty; blockers, intent and flag agree. The intent carries the candidate's id,
  a derived id that only depends on it and the time, the candidate's quantity, side and order
  type, and copies of the candidate and of the safety decision.
\<close>

theorem intent_created_iff:
  assumes "build_paper_intent q = Inr r"
  shows "(ir_created r \<longleftrightarrow> intent_ready q) \<and> (ir_created r \<longleftrightarrow> ir_blockers r = []) \<and>
    (ir_created r \<longleftrightarrow> ir_intent r \<noteq> None) \<and>
    (\<forall>i. ir_intent r = Some i \<longrightarrow>
       (\<exists>d. selected_candidate (bi_top_executable q) = Some d \<and> pi_candidate_snapshot i = d \<and>
          pi_candidate_id i = py_str (dget d ''candidate_id'') \<and>
          pi_paper_order_intent_id i = stable_intent_id (pi_candidate_id i) (bi_ts_epoch q) \<and>
          int_or_none (get_or d [''quantity'', ''qty'']) = Inr (pi_quantity i) \<and>
          pi_transaction_type i = str_or_none (get_or d [''transaction_type'', ''side'']) \<and>
          pi_order_type i = str_or_none (dget d ''order_type'') \<and>
          dict_or_empty (bi_execution_safety q) = Inr (pi_safety_decision_snapshot i)))"
  using assms
proof (cases rule: built_intent_cases)
  case blocked
  then show ?thesis by simp
next
  case (created d i)
  then show ?thesis using intent_of_candidate_fields [OF created(6)] by simp
qed

definition demo_candidate :: pydict where
  "demo_candidate =
     [(''candidate_id'', PStr ''c1''), (''is_order'', PBool False), (''quantity'', PInt 50),
      (''side'', PStr ''BUY''), (''order_type'', PStr ''LIMIT''), (''price'', PFloat (Fin 100))]"

definition demo_bridge :: "bool \<Rightarrow> bridge_input" where
  "demo_bridge permitted =
     \<lparr>bi_top_executable = PDict [(''status'', PStr ''SELECTED''), (''selected'', PDict demo_candidate)],
      bi_execution_safety = PDict [(''execution_permitted'', PBool permitted), (''is_order_action'', PBool False)],
      bi_readiness = PNone, bi_market_data = PNone, bi_instrument_health = PNone, bi_ts_epoch = PFloat (Fin 1)\<rparr>"

lemma demo_bridge_ready: "intent_ready (demo_bridge b) \<longleftrightarrow> b"
  by (simp add: intent_ready_def demo_bridge_def demo_candidate_def selected_candidate_def snapshot_read_only_def
      context_clear_def readiness_clear_def)

lemma demo_bridge_runs: "\<exists>r. build_paper_intent (demo_bridge b) = Inr r"
  by (simp add: build_paper_intent_def validate_intent_inputs_def readiness_checks_def intent_of_candidate_def
      demo_bridge_def demo_candidate_def selected_candidate_def float_or_none_def dict_or_empty_def Let_def)

theorem intent_created_iff_witness:
  "\<exists>r i. build_paper_intent (demo_bridge True) = Inr r \<and> ir_intent r = Some i \<and> pi_candidate_id i = ''c1'' \<and>
     pi_quantity i = Some 50 \<and> pi_transaction_type i = Some ''BUY''"
proof -
  obtain r where r: "build_paper_intent (demo_bridge True) = Inr r" using demo_bridge_runs by blast
  have c: "selected_candidate (bi_top_executable (demo_bridge True)) = Some demo_candidate"
    by (simp add: demo_bridge_def selected_candidate_def demo_candidate_def)
  obtain i where i: "ir_intent r = Some i" using intent_created_iff [OF r] demo_bridge_ready [of True] by auto
  then have "pi_candidate_id i = py_str (dget demo_candidate ''candidate_id'')"
    "int_or_none (get_or demo_candidate [''quantity'', ''qty'']) = Inr (pi_quantity i)"
    "pi_transaction_type i = str_or_none (get_or demo_candidate [''transaction_type'', ''side''])"
    using intent_created_iff [OF r] c by simp_all
  then have "pi_candidate_id i = ''c1''" "pi_quantity i = Some 50" "pi_transaction_type i = Some ''BUY''"
    by (simp_all add: demo_candidate_def str_or_none_def)
  with r i show ?thesis by blast
qed

end
