(* ===== verification/Decision_Chain.thy ===== *)
theory Decision_Chain
  imports Top_Selector Paper_Intent
begin

text \<open>
  The decision chain: the records of the candidates are scored and ranked, the selector picks
  one, the safety policy is evaluated on the selection, and the bridge makes the paper order
  intent of both dicts. The theorem composes the results of the four modules.
\<close>

section \<open>What each stage hands to the next\<close>

lemma selected_of_selection:
  "selected_candidate (PDict (selection_to_dict s)) = Some d \<Longrightarrow> se_status s = SELECTED \<and> se_selected s = Some d"
  by (cases "se_status s") (auto simp: selected_candidate_def selection_to_dict_def Let_def split: option.splits if_splits)

lemma row_key_of_score: "row_key (quality_to_dict t) = Inr (quality_key t)"
  by (cases "tq_quality_score t = Fin 0")
    (auto simp: row_key_def row_score_def quality_to_dict_def quality_key_def str_or_empty_def)

lemma row_eligible_ranked [simp]: "row_eligible m (quality_to_dict (t\<lparr>tq_rank := i\<rparr>)) = row_eligible m (quality_to_dict t)"
  by (simp add: row_eligible_def row_score_def quality_to_dict_def)

lemma quality_key_ranked [simp]: "quality_key (t\<lparr>tq_rank := i\<rparr>) = quality_key t"
  by (simp add: quality_key_def)

lemma in_numbered: "x \<in> set xs \<longleftrightarrow> (\<exists>i. (i, x) \<in> set (numbered xs))"
proof -
  have "x \<in> set xs \<longleftrightarrow> x \<in> snd ` set (numbered xs)" using map_snd_numbered [of xs] by (metis set_map)
  then show ?thesis by force
qed

text \<open>A score of the records, before the ranking numbers it.\<close>

definition scored_from :: "pydict list \<Rightarrow> trade_quality_score \<Rightarrow> bool" where
  "scored_from records t \<longleftrightarrow> (\<exists>rec \<in> set records. score_trade_quality rec = Inr t)"

lemma ranked_scores:
  assumes "rank_trade_quality records = Inr ranked"
  shows "t \<in> set ranked \<Longrightarrow> \<exists>u i. scored_from records u \<and> t = u\<lparr>tq_rank := Some i\<rparr>"
    "scored_from records u \<Longrightarrow> \<exists>i. u\<lparr>tq_rank := Some i\<rparr> \<in> set ranked"
proof -
  obtain scored where s: "map_result score_trade_quality records = Inr scored"
    "ranked = map (\<lambda>(i, row). row\<lparr>tq_rank := Some i\<rparr>) (numbered (sort_desc quality_key scored))"
    using assms by (auto simp: rank_trade_quality_def)
  have scored: "u \<in> set scored \<longleftrightarrow> scored_from records u" for u
    unfolding scored_from_def by (rule map_result_set [OF s(1)])
  have ranked: "set ranked = (\<lambda>(i, row). row\<lparr>tq_rank := Some i\<rparr>) ` set (numbered (sort_desc quality_key scored))"
    unfolding s(2) by simp
  have sorted: "u \<in> set (sort_desc quality_key scored) \<longleftrightarrow> scored_from records u" for u using scored by simp
  show "\<exists>u i. scored_from records u \<and> t = u\<lparr>tq_rank := Some i\<rparr>" if t: "t \<in> set ranked"
  proof -
    from t obtain p where p: "p \<in> set (numbered (sort_desc quality_key scored))" "t = (case p of (i, row) \<Rightarrow> row\<lparr>tq_rank := Some i\<rparr>)"
      unfolding ranked by (elim imageE)
    obtain i u where "p = (i, u)" by (cases p)
    with p have u: "(i, u) \<in> set (numbered (sort_desc quality_key scored))" "t = u\<lparr>tq_rank := Some i\<rparr>" by simp_all
    then have "scored_from records u" using in_numbered [of u] sorted [of u] by blast
    then show ?thesis using u(2) by (intro exI [of _ u] exI [of _ i] conjI)
  qed
  show "\<exists>i. u\<lparr>tq_rank := Some i\<rparr> \<in> set ranked" if u: "scored_from records u"
  proof -
    from u obtain i where "(i, u) \<in> set (numbered (sort_desc quality_key scored))"
      using in_numbered [of u] sorted [of u] by blast
    then have "(\<lambda>(i, row). row\<lparr>tq_rank := Some i\<rparr>) (i, u) \<in> set ranked" unfolding ranked by (rule imageI)
    then show ?thesis unfolding prod.case by (rule exI)
  qed
qed

lemma selected_marked:
  "dget (dset ''selection_reason'' x (dset ''selected_by'' y (dset ''selector_rank'' z (quality_to_dict t)))) ''candidate_id'' =
     PStr (tq_candidate_id t)"
  "dget (dset ''selection_reason'' x (dset ''selected_by'' y (dset ''selector_rank'' z (quality_to_dict t)))) ''is_order'' =
     PBool False"
  by (simp_all add: quality_to_dict_def)

section \<open>Property\<close>

text \<open>A best eligible score of the records.\<close>

definition best_score :: "pydict list \<Rightarrow> pyfloat \<Rightarrow> trade_quality_score \<Rightarrow> bool" where
  "best_score records m t \<longleftrightarrow>
     scored_from records t \<and> row_eligible m (quality_to_dict t) \<and>
     (\<forall>u. scored_from records u \<longrightarrow> row_eligible m (quality_to_dict u) \<longrightarrow> quality_key u \<le> quality_key t)"

lemma selected_best_score:
  assumes rank: "rank_trade_quality records = Inr ranked"
    and sel: "select_top_executable (map quality_to_dict ranked) m = Inr s" "se_status s = SELECTED"
  shows "\<exists>t d. best_score records m t \<and> se_selected s = Some d \<and>
    dget d ''candidate_id'' = PStr (tq_candidate_id t) \<and> dget d ''is_order'' = PBool False"
proof -
  obtain row k where row: "row \<in> set (map quality_to_dict ranked)" "row_eligible m row" "row_key row = Inr k"
    and best: "\<forall>r \<in> set (map quality_to_dict ranked). \<forall>l. row_eligible m r \<longrightarrow> row_key r = Inr l \<longrightarrow> l \<le> k"
    and picked: "se_selected s = Some (dset ''selection_reason'' (PStr ''highest_quality_score_above_threshold'')
      (dset ''selected_by'' (PStr ''top_executable_selector'') (dset ''selector_rank'' (PInt 1) row)))"
    using select_best_row [OF sel(1)] sel(2) by blast
  obtain v where v: "v \<in> set ranked" "row = quality_to_dict v" using row(1) by auto
  obtain t i where t: "scored_from records t" "v = t\<lparr>tq_rank := Some i\<rparr>" using ranked_scores(1) [OF rank v(1)] by blast
  have k: "k = quality_key t" using row(3) unfolding v(2) t(2) row_key_of_score by simp
  have "quality_key u \<le> quality_key t" if u: "scored_from records u" "row_eligible m (quality_to_dict u)" for u
  proof -
    obtain j where "u\<lparr>tq_rank := Some j\<rparr> \<in> set ranked" using ranked_scores(2) [OF rank u(1)] by blast
    then have "quality_to_dict (u\<lparr>tq_rank := Some j\<rparr>) \<in> set (map quality_to_dict ranked)" by simp
    then have "quality_key (u\<lparr>tq_rank := Some j\<rparr>) \<le> k"
      using best u(2) row_key_of_score row_eligible_ranked by blast
    then show ?thesis unfolding k by simp
  qed
  then have "best_score records m t" using t row(2) unfolding best_score_def v(2) by simp
  then show ?thesis using picked selected_marked unfolding v(2) t(2) by fastforce
qed

text \<open>
  C16. The decision chain as a whole: an intent made of the ranked and selected candidates and of
  the safety decision on that selection is for a best eligible score of the records, and it
  exists only where the safety policy is satisfied by the selection and, in LIVE mode, the
  live flags are set.
\<close>

theorem intent_is_for_best_score:
  assumes rank: "rank_trade_quality records = Inr ranked"
    and sel: "select_top_executable (map quality_to_dict ranked) m = Inr s"
    and top: "bi_top_executable q = PDict (selection_to_dict s)"
    and safety: "bi_execution_safety q =
      PDict (safety_decision_to_dict (evaluate_execution_safety p (Some (selection_to_dict s)) readiness))"
    and built: "build_paper_intent q = Inr r" "ir_intent r = Some i"
  shows "policy_satisfied p (Some (selection_to_dict s)) readiness \<and> (sp_mode p = LIVE \<longrightarrow> live_ready p) \<and>
    (\<exists>t. best_score records m t \<and> pi_candidate_id i = tq_candidate_id t)"
proof -
  from built obtain d where ready: "intent_ready q" and d: "selected_candidate (bi_top_executable q) = Some d"
    and i: "intent_of_candidate q d = Inr i"
    by (cases rule: built_intent_cases) auto
  have "sd_execution_permitted (evaluate_execution_safety p (Some (selection_to_dict s)) readiness)"
    using ready by (simp add: intent_ready_def safety safety_decision_to_dict_def)
  moreover have "se_status s = SELECTED" "se_selected s = Some d" using d selected_of_selection unfolding top by blast+
  ultimately show ?thesis
    using selected_best_score [OF rank sel] intent_of_candidate_fields(1) [OF i] permitted_iff by fastforce
qed

definition open_policy :: safety_policy where
  "open_policy = default_policy
     \<lparr>sp_mode := PAPER, sp_manual_approval_required := False, sp_broker_confirmation_required := False,
      sp_dry_run_required := False\<rparr>"

definition chain_input :: "selection \<Rightarrow> bridge_input" where
  "chain_input s =
     \<lparr>bi_top_executable = PDict (selection_to_dict s),
      bi_execution_safety = PDict (safety_decision_to_dict (evaluate_execution_safety open_policy (Some (selection_to_dict s)) None)),
      bi_readiness = PNone, bi_market_data = PNone, bi_instrument_health = PNone, bi_ts_epoch = PNone\<rparr>"

definition demo_records :: "pydict list" where
  "demo_records = [demo_readiness ''a'' 40, demo_readiness ''b'' 80]"

definition chain_runs :: "pydict list \<Rightarrow> pyfloat \<Rightarrow> bool" where
  "chain_runs records m =
     (case rank_trade_quality records of
        Inr ranked \<Rightarrow>
          (case select_top_executable (map quality_to_dict ranked) m of
             Inr s \<Rightarrow>
               (case validate_intent_inputs (chain_input s) of Inr (bs, _) \<Rightarrow> bs = [] | _ \<Rightarrow> False) \<and>
               (case selected_candidate (PDict (selection_to_dict s)) of
                  Some d \<Rightarrow> candidate_readable (chain_input s) d | None \<Rightarrow> False)
           | _ \<Rightarrow> False)
      | _ \<Rightarrow> False)"

lemma demo_chain_runs: "chain_runs demo_records (Fin 0)"
  by code_simp

theorem intent_is_for_best_score_witness:
  "\<exists>ranked s r i t. rank_trade_quality demo_records = Inr ranked \<and>
     select_top_executable (map quality_to_dict ranked) (Fin 0) = Inr s \<and>
     build_paper_intent (chain_input s) = Inr r \<and> ir_intent r = Some i \<and>
     best_score demo_records (Fin 0) t \<and> pi_candidate_id i = tq_candidate_id t"
proof -
  obtain ranked s ws d where rank: "rank_trade_quality demo_records = Inr ranked"
    and sel: "select_top_executable (map quality_to_dict ranked) (Fin 0) = Inr s"
    and v: "validate_intent_inputs (chain_input s) = Inr ([], ws)"
    and d: "selected_candidate (PDict (selection_to_dict s)) = Some d" "candidate_readable (chain_input s) d"
    using demo_chain_runs unfolding chain_runs_def by (auto split: sum.splits option.splits)
  have top: "bi_top_executable (chain_input s) = PDict (selection_to_dict s)" by (simp add: chain_input_def)
  have safety: "bi_execution_safety (chain_input s) =
    PDict (safety_decision_to_dict (evaluate_execution_safety open_policy (Some (selection_to_dict s)) None))"
    by (simp add: chain_input_def)
  obtain r i where "build_paper_intent (chain_input s) = Inr r" "ir_intent r = Some i"
    using build_intent_total [OF v] d unfolding top by blast
  with intent_is_for_best_score [OF rank sel top safety] rank sel show ?thesis by blast
qed

end
