(* ===== verification/Paper_Pipeline.thy ===== *)
theory Paper_Pipeline
  imports Paper_Intent Paper_Fill Paper_Reducer
begin

text \<open>
  src/paper_trading/pipeline.py: one cycle of paper trading in memory. The pipeline bridges the
  selected candidate to an intent, builds the lifecycle events CREATED, ACCEPTED and OPEN,
  simulates the fill, wraps the steps as canonical events, and has them checked by the
  ordering guard and reduced to a state. Every stage may end the run early: \<open>halt\<close> is an
  exception that escapes, or a blocked result that is returned.
\<close>

section \<open>Status, result, contract\<close>

datatype pipeline_status = COMPLETED | NOOP | BLOCKED

fun pipeline_status_value :: "pipeline_status \<Rightarrow> string" where
  "pipeline_status_value COMPLETED = ''COMPLETED''"
| "pipeline_status_value NOOP = ''NOOP''"
| "pipeline_status_value BLOCKED = ''BLOCKED''"

record pipeline_result =
  pl_completed :: bool
  pl_status :: pipeline_status
  pl_cycle_id :: "string option"
  pl_candidate_id :: "string option"
  pl_strategy_id :: "string option"
  pl_events :: "pydict list"
  pl_state :: pydict
  pl_stages :: pydict
  pl_blockers :: "string list"
  pl_warnings :: "string list"

definition pipeline_result_to_dict :: "pipeline_result \<Rightarrow> pydict" where
  "pipeline_result_to_dict r =
     [(''schema_version'', PStr ''1.0''),
      (''pipeline_type'', PStr ''IN_MEMORY_PAPER_TRADING_PIPELINE''),
      (''completed'', PBool (pl_completed r)),
      (''status'', PStr (pipeline_status_value (pl_status r))),
      (''cycle_id'', opt_str (pl_cycle_id r)),
      (''candidate_id'', opt_str (pl_candidate_id r)),
      (''strategy_id'', opt_str (pl_strategy_id r)),
      (''event_count'', PInt (int (length (pl_events r)))),
      (''events'', PList (map PDict (pl_events r))),
      (''state'', PDict (pl_state r)),
      (''stages'', PDict (pl_stages r)),
      (''blockers'', str_list (pl_blockers r)),
      (''warnings'', str_list (pl_warnings r)),
      (''paper_only'', PBool True),
      (''read_only'', PBool True),
      (''is_order_action'', PBool False),
      (''broker_api_called'', PBool False),
      (''real_order_id'', PNone)]"

definition pipeline_result_keys :: "string list" where
  "pipeline_result_keys =
     [''schema_version'', ''pipeline_type'', ''completed'', ''status'', ''cycle_id'', ''candidate_id'', ''strategy_id'',
      ''event_count'', ''events'', ''state'', ''stages'', ''blockers'', ''warnings'', ''paper_only'', ''read_only'',
      ''is_order_action'', ''broker_api_called'', ''real_order_id'']"

definition pipeline_schema_contract :: pydict where
  "pipeline_schema_contract =
     [(''schema_version'', PStr ''1.0''),
      (''pipeline_type'', PStr ''IN_MEMORY_PAPER_TRADING_PIPELINE''),
      (''statuses'', str_list (map pipeline_status_value [COMPLETED, NOOP, BLOCKED])),
      (''consumes'', str_list
         [''PAPER_ORDER_INTENT_BRIDGE'', ''PAPER_ORDER_LIFECYCLE'', ''PAPER_FILL_SIMULATION_ENGINE'',
          ''PAPER_EVENT_ORDERING_IDEMPOTENCY_GUARD'', ''DETERMINISTIC_PAPER_STATE_REDUCER'']),
      (''required_result_keys'', str_list pipeline_result_keys),
      (''safe_flags'', PDict read_only_flags),
      (''scope_boundary'', str_list
         [''in_memory_only'', ''no_journal_append'', ''no_persistence_layer'', ''no_api'', ''no_ui'', ''no_runtime_wiring'',
          ''no_broker_execution'', ''no_live_orders'']),
      (''upstream_contracts'', PDict
         [(''intent'', PDict intent_schema_contract), (''lifecycle'', PDict lifecycle_schema_contract),
          (''fill'', PDict simulation_schema_contract), (''ordering'', PDict guard_schema_contract),
          (''reducer'', PDict reducer_schema_contract)])]"

section \<open>The inputs\<close>

record pipeline_request =
  pq_cycle_id :: pyval
  pq_top_executable :: pyval
  pq_execution_safety :: pyval
  pq_quote :: pyval
  pq_readiness :: pyval
  pq_market_data :: pyval
  pq_instrument_health :: pyval
  pq_ts_epoch :: pyval
  pq_now_epoch :: "pyfloat option"
  pq_max_quote_age :: pyfloat

text \<open>This module's \<open>_str_or_none\<close> strips.\<close>

definition stripped_or_none :: "pyval \<Rightarrow> string option" where
  "stripped_or_none v =
     (if is_blank v then None else let text = strip (py_str v) in if text = [] then None else Some text)"

text \<open>\<open>_walk_dict\<close>: the path, key and value of every entry, nested dicts included.\<close>

function walk_dict :: "string \<Rightarrow> pydict \<Rightarrow> (string \<times> string \<times> pyval) list" where
  "walk_dict prefix [] = []"
| "walk_dict prefix ((key, value) # d) =
     (let path = prefix @ ''_'' @ upper key
      in (path, key, value) # (case value of PDict e \<Rightarrow> walk_dict path e | _ \<Rightarrow> []) @ walk_dict prefix d)"
  by pat_completeness auto
termination
  by (relation "measure (\<lambda>(_, d). size_list (size_prod (\<lambda>_. 0) size) d)") auto

definition unsafe_entry :: "string \<Rightarrow> string \<times> string \<times> pyval \<Rightarrow> string list" where
  "unsafe_entry name = (\<lambda>(path, key, value).
     let label = ''PAPER_PIPELINE_'' @ name @ ''_'' @ path
     in add_if (key = ''paper_only'' \<and> value \<noteq> PBool True) (label @ ''_UNSAFE_PAPER_ONLY_FLAG'') @
        add_if (key = ''is_order_action'' \<and> value \<noteq> PBool False) (label @ ''_UNSAFE_ORDER_ACTION_FLAG'') @
        add_if (key = ''broker_api_called'' \<and> value = PBool True) (label @ ''_BROKER_API_CALLED'') @
        add_if (key = ''real_order_id'' \<and> \<not> is_blank value) (label @ ''_REAL_ORDER_ID_PRESENT''))"

definition unsafe_payload_blockers :: "string \<Rightarrow> pyval \<Rightarrow> string list" where
  "unsafe_payload_blockers name payload =
     (case payload of
        PNone \<Rightarrow> []
      | PDict d \<Rightarrow> concat (map (unsafe_entry name) (walk_dict ''ROOT'' d))
      | _ \<Rightarrow> [''PAPER_PIPELINE_'' @ name @ ''_MUST_BE_OBJECT''])"

definition validate_pipeline_inputs :: "pipeline_request \<Rightarrow> string list" where
  "validate_pipeline_inputs q =
     dedupe
       (add_if (stripped_or_none (pq_cycle_id q) = None) ''PAPER_PIPELINE_CYCLE_ID_REQUIRED'' @
        add_if (\<not> is_dict (pq_top_executable q)) ''PAPER_PIPELINE_TOP_EXECUTABLE_REQUIRED'' @
        add_if (\<not> is_dict (pq_execution_safety q)) ''PAPER_PIPELINE_EXECUTION_SAFETY_REQUIRED'' @
        add_if (\<not> is_dict (pq_quote q)) ''PAPER_PIPELINE_CONTROLLED_QUOTE_REQUIRED'' @
        unsafe_payload_blockers ''TOP_EXECUTABLE'' (pq_top_executable q) @
        unsafe_payload_blockers ''EXECUTION_SAFETY'' (pq_execution_safety q) @
        unsafe_payload_blockers ''QUOTE'' (pq_quote q) @
        unsafe_payload_blockers ''READINESS'' (pq_readiness q) @
        unsafe_payload_blockers ''MARKET_DATA'' (pq_market_data q) @
        unsafe_payload_blockers ''INSTRUMENT_HEALTH'' (pq_instrument_health q))"

definition top_candidate :: "pyval \<Rightarrow> string option" where
  "top_candidate top_executable =
     stripped_or_none (dget (as_dict (dget (as_dict top_executable) ''selected'')) ''candidate_id'')"

definition top_strategy :: "pyval \<Rightarrow> string option" where
  "top_strategy top_executable =
     stripped_or_none (get_or (as_dict (dget (as_dict top_executable) ''selected'')) [''strategy'', ''strategy_id'', ''setup_family''])"

section \<open>Canonical events\<close>

text \<open>\<open>_ts(base, offset)\<close>\<close>

definition offset_ts :: "pyval \<Rightarrow> int \<Rightarrow> pyval result" where
  "offset_ts base offset =
     (if base = PNone then Inr PNone
      else bind_result (or_none
        (bind_result (py_float base) (\<lambda>b. bind_result (float_of_int offset) (\<lambda>k.
           Inr (float_add b (float_mul k (round64 (1 / 1000)))))))) (\<lambda>x. Inr (opt_float x)))"

definition canonical_event ::
  "string \<Rightarrow> int \<Rightarrow> string \<Rightarrow> pydict \<Rightarrow> pydict \<Rightarrow> pydict \<Rightarrow> pyval \<Rightarrow> pydict result" where
  "canonical_event cycle_id sequence event_type payload intent lifecycle ts_epoch =
     (let paper_order_id = stripped_or_none (py_or (dget lifecycle ''paper_order_id'') (dget intent ''paper_order_id''));
          intent_id = py_str (dget intent ''paper_order_intent_id'');
          seed = join ''|'' [cycle_id, int_to_string sequence, event_type, intent_id,
                   case paper_order_id of Some t \<Rightarrow> t | None \<Rightarrow> []]
      in bind_result (offset_ts ts_epoch sequence) (\<lambda>ts.
         Inr [(''schema_version'', PStr ''1.0''),
              (''event_id'', PStr (''paper-pipeline-'' @ digest16 seed)),
              (''cycle_id'', PStr cycle_id),
              (''event_sequence'', PInt sequence),
              (''candidate_id'', opt_str (stripped_or_none (dget intent ''candidate_id''))),
              (''strategy_id'', opt_str (stripped_or_none (dget intent ''strategy''))),
              (''paper_order_intent_id'', opt_str (stripped_or_none (dget intent ''paper_order_intent_id''))),
              (''paper_order_id'', opt_str paper_order_id),
              (''event_type'', PStr event_type),
              (''ts_epoch'', ts),
              (''idempotency_key'', PStr (join '':'' [cycle_id, int_to_string sequence, event_type, intent_id])),
              (''payload'', PDict payload),
              (''paper_only'', PBool True),
              (''is_order_action'', PBool False),
              (''broker_api_called'', PBool False),
              (''real_order_id'', PNone)]))"

definition canonical_fill_event_type :: "pyval \<Rightarrow> string" where
  "canonical_fill_event_type status =
     (let normalized = upper_text status
      in if normalized = ''FILLED'' then ''PAPER_ORDER_FILLED''
         else if normalized = ''PARTIALLY_FILLED'' then ''PAPER_ORDER_PARTIALLY_FILLED''
         else if normalized = ''REJECTED'' then ''PAPER_ORDER_REJECTED''
         else if normalized = ''EXPIRED'' then ''PAPER_ORDER_EXPIRED''
         else if normalized = ''CANCELLED'' then ''PAPER_ORDER_CANCELLED''
         else ''PAPER_ORDER_OPENED'')"

definition raw_of :: "pydict \<Rightarrow> raw_event" where
  "raw_of e = RawValue (PDict e)"

definition validate_canonical_events :: "pydict list \<Rightarrow> string list result" where
  "validate_canonical_events events =
     bind_result (map_result (validate_paper_event \<circ> raw_of) events) (\<lambda>bss.
       Inr (dedupe (concat (map (\<lambda>(i, bs). map (event_label (int i)) bs) (enumerate 0 bss)))))"

section \<open>The stages\<close>

datatype halt = Raises pyexc | Returns pipeline_result

definition raising :: "'a result \<Rightarrow> halt + 'a" where
  "raising m = (case m of Inl e \<Rightarrow> Inl (Raises e) | Inr x \<Rightarrow> Inr x)"

text \<open>The local variables of the run.\<close>

record pipeline_locals =
  pw_candidate_id :: "string option"
  pw_strategy_id :: "string option"
  pw_events :: "pydict list"
  pw_stages :: pydict
  pw_warnings :: "string list"

definition blocked_pipeline :: "pipeline_request \<Rightarrow> pipeline_locals \<Rightarrow> string list \<Rightarrow> pipeline_result" where
  "blocked_pipeline q st blockers =
     \<lparr>pl_completed = False, pl_status = BLOCKED, pl_cycle_id = stripped_or_none (pq_cycle_id q),
      pl_candidate_id = pw_candidate_id st, pl_strategy_id = pw_strategy_id st, pl_events = pw_events st,
      pl_state = [], pl_stages = pw_stages st, pl_blockers = dedupe blockers, pl_warnings = dedupe (pw_warnings st)\<rparr>"

definition pipeline_prefixed :: "string \<Rightarrow> string list \<Rightarrow> string list" where
  "pipeline_prefixed source blockers = map (\<lambda>b. ''PAPER_PIPELINE_'' @ source @ ''_'' @ b) blockers"

text \<open>\<open>return _blocked_result(\<dots>, blockers=_prefixed(source, bs or [fallback]))\<close>\<close>

definition stop :: "pipeline_request \<Rightarrow> pipeline_locals \<Rightarrow> string \<Rightarrow> string list \<Rightarrow> string \<Rightarrow> halt + 'a" where
  "stop q st source bs fallback =
     Inl (Returns (blocked_pipeline q st (pipeline_prefixed source (if bs = [] then [fallback] else bs))))"

text \<open>\<open>stages[name] = payload; warnings.extend(\<dots>)\<close>\<close>

definition record_stage :: "string \<Rightarrow> pydict \<Rightarrow> string list \<Rightarrow> pipeline_locals \<Rightarrow> pipeline_locals" where
  "record_stage name payload warnings st =
     st\<lparr>pw_stages := dset name (PDict payload) (pw_stages st), pw_warnings := pw_warnings st @ warnings\<rparr>"

text \<open>\<open>events.append(_canonical_event(\<dots>))\<close>\<close>

definition emit ::
  "pipeline_request \<Rightarrow> int \<Rightarrow> string \<Rightarrow> pydict \<Rightarrow> pydict \<Rightarrow> pydict \<Rightarrow> pyval \<Rightarrow> pipeline_locals \<Rightarrow> halt + pipeline_locals" where
  "emit q sequence event_type payload intent lifecycle ts st =
     bind_result (raising (canonical_event (py_str (pq_cycle_id q)) sequence event_type payload intent lifecycle ts)) (\<lambda>e.
       Inr (st\<lparr>pw_events := pw_events st @ [e]\<rparr>))"

definition bridge_of :: "pipeline_request \<Rightarrow> bridge_input" where
  "bridge_of q =
     \<lparr>bi_top_executable = pq_top_executable q, bi_execution_safety = pq_execution_safety q, bi_readiness = pq_readiness q,
      bi_market_data = pq_market_data q, bi_instrument_health = pq_instrument_health q, bi_ts_epoch = pq_ts_epoch q\<rparr>"

definition intent_stage :: "pipeline_request \<Rightarrow> pipeline_locals \<Rightarrow> halt + pydict \<times> pipeline_locals" where
  "intent_stage q st =
     bind_result (raising (build_paper_intent (bridge_of q))) (\<lambda>r.
       let st = record_stage ''intent'' (intent_result_to_dict r) (ir_warnings r) st
       in case (ir_created r, ir_intent r) of
            (True, Some i) \<Rightarrow>
              (let intent = paper_intent_to_dict i;
                   st = st\<lparr>pw_candidate_id := Some (str_or_empty (py_or (dget intent ''candidate_id'') (opt_str (pw_candidate_id st)))),
                           pw_strategy_id := stripped_or_none (py_or (dget intent ''strategy'') (opt_str (pw_strategy_id st)))\<rparr>
               in bind_result (emit q 1 ''PAPER_ORDER_INTENT_CREATED'' intent intent [] (pq_ts_epoch q) st) (\<lambda>st.
                    Inr (intent, st)))
          | _ \<Rightarrow> stop q st ''INTENT'' (ir_blockers r) ''PAPER_PIPELINE_INTENT_NOT_CREATED'')"

text \<open>One lifecycle event: the stage's name, the label and fallback of its blocker, the status requested.\<close>

definition lifecycle_stage ::
  "pipeline_request \<Rightarrow> string \<Rightarrow> string \<Rightarrow> string \<Rightarrow> string \<Rightarrow> pydict \<Rightarrow> event_arg \<Rightarrow> int \<Rightarrow> pipeline_locals
   \<Rightarrow> halt + pydict \<times> pipeline_locals" where
  "lifecycle_stage q name source fallback status intent previous offset st =
     bind_result (raising (offset_ts (pq_ts_epoch q) offset)) (\<lambda>ts.
     bind_result (raising (build_lifecycle_event
       \<lparr>rq_intent = PDict intent, rq_requested_status = StatusText status, rq_previous_event = previous, rq_ts_epoch = ts,
        rq_reason = None, rq_filled_quantity = PNone, rq_average_fill_price = PNone\<rparr>)) (\<lambda>r.
       let st = record_stage name (lifecycle_result_to_dict r) (lr_warnings r) st
       in case (lr_created r, lr_event r) of
            (True, Some e) \<Rightarrow> Inr (lifecycle_event_to_dict e, st)
          | _ \<Rightarrow> stop q st source (lr_blockers r) fallback))"

text \<open>\<open>events.append\<close> of a lifecycle event; the timestamp already carries the offset once.\<close>

definition emit_lifecycle :: "pipeline_request \<Rightarrow> int \<Rightarrow> string \<Rightarrow> pydict \<Rightarrow> pydict \<Rightarrow> pydict \<Rightarrow> pipeline_locals \<Rightarrow> halt + pipeline_locals" where
  "emit_lifecycle q sequence event_type payload intent lifecycle st =
     bind_result (raising (offset_ts (pq_ts_epoch q) sequence)) (\<lambda>ts.
       emit q sequence event_type payload intent lifecycle ts st)"

definition order_stages :: "pipeline_request \<Rightarrow> pydict \<Rightarrow> pipeline_locals \<Rightarrow> halt + pydict \<times> pipeline_locals" where
  "order_stages q intent st =
     bind_result (lifecycle_stage q ''lifecycle_created'' ''LIFECYCLE_CREATED'' ''PAPER_PIPELINE_CREATED_EVENT_NOT_CREATED''
       ''CREATED'' intent NoEvent 1 st) (\<lambda>(created, st).
     bind_result (lifecycle_stage q ''lifecycle_accepted'' ''LIFECYCLE_ACCEPTED'' ''PAPER_PIPELINE_ACCEPTED_EVENT_NOT_CREATED''
       ''ACCEPTED'' intent (EventValue (PDict created)) 2 st) (\<lambda>(accepted, st).
     bind_result (emit_lifecycle q 2 ''PAPER_ORDER_ACCEPTED'' accepted intent accepted st) (\<lambda>st.
     bind_result (lifecycle_stage q ''lifecycle_opened'' ''LIFECYCLE_OPENED'' ''PAPER_PIPELINE_OPEN_EVENT_NOT_CREATED''
       ''OPEN'' intent (EventValue (PDict accepted)) 3 st) (\<lambda>(opened, st).
     bind_result (emit_lifecycle q 3 ''PAPER_ORDER_OPENED'' opened intent opened st) (\<lambda>st.
       Inr (opened, st))))))"

definition fill_request_of :: "pipeline_request \<Rightarrow> pydict \<Rightarrow> pydict \<Rightarrow> pyval \<Rightarrow> fill_request" where
  "fill_request_of q intent opened ts =
     \<lparr>fr_intent = PDict intent, fr_previous_event = EventValue (PDict opened), fr_quote = pq_quote q, fr_ts_epoch = ts,
      fr_now_epoch = pq_now_epoch q, fr_max_quote_age = pq_max_quote_age q\<rparr>"

definition fill_stage :: "pipeline_request \<Rightarrow> pydict \<Rightarrow> pydict \<Rightarrow> pipeline_locals \<Rightarrow> halt + pipeline_locals" where
  "fill_stage q intent opened st =
     bind_result (raising (offset_ts (pq_ts_epoch q) 4)) (\<lambda>ts.
     bind_result (raising (simulate_paper_fill (fill_request_of q intent opened ts))) (\<lambda>r.
       let payload = simulation_result_to_dict r;
           st = record_stage ''fill'' payload (si_warnings r) st
       in if si_status r = Paper_Fill.BLOCKED then stop q st ''FILL'' (si_blockers r) ''PAPER_PIPELINE_FILL_BLOCKED''
          else case dget payload ''lifecycle_event'' of
                 PDict fill_lifecycle \<Rightarrow>
                   emit_lifecycle q 4 (canonical_fill_event_type (dget fill_lifecycle ''status''))
                     (dset ''lifecycle_event'' (PDict fill_lifecycle) payload) intent fill_lifecycle st
               | _ \<Rightarrow> Inr st))"

definition ordering_stage :: "pipeline_request \<Rightarrow> pipeline_locals \<Rightarrow> halt + pydict list \<times> pipeline_locals" where
  "ordering_stage q st =
     bind_result (raising (validate_canonical_events (pw_events st))) (\<lambda>event_blockers.
       if event_blockers \<noteq> [] then stop q st ''CANONICAL_EVENT'' event_blockers []
       else
         bind_result (raising (guard_paper_event_ordering (EventsList (map raw_of (pw_events st))))) (\<lambda>r.
           let st = record_stage ''ordering'' (guard_result_to_dict r) (gr_warnings r) st
           in if gr_status r = Paper_Ordering.BLOCKED
              then stop q st ''ORDERING'' (gr_blockers r) ''PAPER_PIPELINE_ORDERING_BLOCKED''
              else Inr (gr_ordered_events r, st)))"

definition reducer_stage :: "pipeline_request \<Rightarrow> pydict list \<Rightarrow> pipeline_locals \<Rightarrow> halt + pydict \<times> pipeline_locals" where
  "reducer_stage q ordered st =
     bind_result (raising (reduce_paper_events (EventsList (map raw_of ordered)))) (\<lambda>r.
       let st = record_stage ''reducer'' (reducer_result_to_dict r) (rr_warnings r) st
       in if rr_status r = Paper_Reducer.BLOCKED
          then stop q st ''REDUCER'' (rr_blockers r) ''PAPER_PIPELINE_REDUCER_BLOCKED''
          else Inr (reduced_state_to_dict (rr_state r), st))"

definition completed_pipeline :: "pipeline_request \<Rightarrow> pydict \<Rightarrow> pipeline_locals \<Rightarrow> pipeline_result" where
  "completed_pipeline q state st =
     \<lparr>pl_completed = True, pl_status = COMPLETED, pl_cycle_id = Some (py_str (pq_cycle_id q)),
      pl_candidate_id = pw_candidate_id st, pl_strategy_id = pw_strategy_id st, pl_events = pw_events st,
      pl_state = state, pl_stages = pw_stages st, pl_blockers = [], pl_warnings = dedupe (pw_warnings st)\<rparr>"

definition initial_locals :: "pipeline_request \<Rightarrow> pipeline_locals" where
  "initial_locals q =
     \<lparr>pw_candidate_id = top_candidate (pq_top_executable q), pw_strategy_id = top_strategy (pq_top_executable q),
      pw_events = [], pw_stages = [], pw_warnings = []\<rparr>"

definition pipeline_steps :: "pipeline_request \<Rightarrow> halt + pipeline_result" where
  "pipeline_steps q =
     bind_result (intent_stage q (initial_locals q)) (\<lambda>(intent, st).
     bind_result (order_stages q intent st) (\<lambda>(opened, st).
     bind_result (fill_stage q intent opened st) (\<lambda>st.
     bind_result (ordering_stage q st) (\<lambda>(ordered, st).
     bind_result (reducer_stage q ordered st) (\<lambda>(state, st).
       Inr (completed_pipeline q state st))))))"

definition run_paper_trading_pipeline :: "pipeline_request \<Rightarrow> pipeline_result result" where
  "run_paper_trading_pipeline q =
     (let input_blockers = validate_pipeline_inputs q
      in if input_blockers \<noteq> [] then Inr (blocked_pipeline q (initial_locals q) input_blockers)
         else case pipeline_steps q of
                Inl (Raises e) \<Rightarrow> Inl e
              | Inl (Returns r) \<Rightarrow> Inr r
              | Inr r \<Rightarrow> Inr r)"

interpretation pipeline_report: paper_report pipeline_result_to_dict pipeline_result_keys
  by unfold_locales (simp_all add: pipeline_result_to_dict_def pipeline_result_keys_def has_key_def flags_safe_def)

section \<open>What a stage that goes on has done\<close>

lemma raising_eq_Inr [simp]: "raising m = Inr x \<longleftrightarrow> m = Inr x"
  by (cases m) (simp_all add: raising_def)

lemma stop_not_Inr [simp]: "stop q st source bs fallback \<noteq> Inr x"
  by (simp add: stop_def)

lemma record_stage_simps [simp]:
  "pw_events (record_stage name payload ws st) = pw_events st"
  "pw_candidate_id (record_stage name payload ws st) = pw_candidate_id st"
  "pw_strategy_id (record_stage name payload ws st) = pw_strategy_id st"
  by (simp_all add: record_stage_def)

lemma intent_stage_Inr:
  assumes "intent_stage q st = Inr (intent, st')"
  obtains r i e where "build_paper_intent (bridge_of q) = Inr r" "ir_intent r = Some i" "intent = paper_intent_to_dict i"
    "canonical_event (py_str (pq_cycle_id q)) 1 ''PAPER_ORDER_INTENT_CREATED'' intent intent [] (pq_ts_epoch q) = Inr e"
    "pw_events st' = pw_events st @ [e]"
    "pw_candidate_id st' = Some (str_or_empty (py_or (dget intent ''candidate_id'') (opt_str (pw_candidate_id st))))"
  using assms by (auto simp: intent_stage_def emit_def Let_def split: option.splits bool.splits)

definition stage_request :: "pydict \<Rightarrow> string \<Rightarrow> event_arg \<Rightarrow> pyval \<Rightarrow> lifecycle_request" where
  "stage_request intent status previous ts =
     \<lparr>rq_intent = PDict intent, rq_requested_status = StatusText status, rq_previous_event = previous, rq_ts_epoch = ts,
      rq_reason = None, rq_filled_quantity = PNone, rq_average_fill_price = PNone\<rparr>"

lemma lifecycle_stage_Inr:
  assumes "lifecycle_stage q name source fallback status intent previous offset st = Inr (d, st')"
  obtains ts r e where "offset_ts (pq_ts_epoch q) offset = Inr ts"
    "build_lifecycle_event (stage_request intent status previous ts) = Inr r"
    "lr_event r = Some e" "d = lifecycle_event_to_dict e" "pw_events st' = pw_events st" "pw_candidate_id st' = pw_candidate_id st"
  using assms unfolding lifecycle_stage_def stage_request_def [symmetric]
  by (auto simp: Let_def split: option.splits bool.splits)

lemma emit_lifecycle_Inr:
  assumes "emit_lifecycle q n ty payload intent lifecycle st = Inr st'"
  obtains ts e where "offset_ts (pq_ts_epoch q) n = Inr ts"
    "canonical_event (py_str (pq_cycle_id q)) n ty payload intent lifecycle ts = Inr e" "pw_events st' = pw_events st @ [e]"
    "pw_candidate_id st' = pw_candidate_id st"
  using assms by (auto simp: emit_lifecycle_def emit_def)

lemma ordering_stage_Inr:
  assumes "ordering_stage q st = Inr (ordered, st')"
  obtains r where "guard_paper_event_ordering (EventsList (map raw_of (pw_events st))) = Inr r" "gr_valid r"
    "ordered = gr_ordered_events r" "pw_events st' = pw_events st" "pw_candidate_id st' = pw_candidate_id st"
proof -
  obtain r where r: "guard_paper_event_ordering (EventsList (map raw_of (pw_events st))) = Inr r"
    "gr_status r \<noteq> Paper_Ordering.BLOCKED" "ordered = gr_ordered_events r" "pw_events st' = pw_events st"
    "pw_candidate_id st' = pw_candidate_id st"
    using assms by (auto simp: ordering_stage_def Let_def split: if_splits)
  moreover from r(1,2) have "gr_valid r"
    by (auto simp: guard_paper_event_ordering_def split: if_splits)
  ultimately show thesis using that by blast
qed

lemma reducer_stage_Inr:
  assumes "reducer_stage q ordered st = Inr (state, st')"
  obtains r where "reduce_paper_events (EventsList (map raw_of ordered)) = Inr r" "rr_status r \<noteq> Paper_Reducer.BLOCKED"
    "state = reduced_state_to_dict (rr_state r)" "pw_events st' = pw_events st" "pw_candidate_id st' = pw_candidate_id st"
  using assms by (auto simp: reducer_stage_def Let_def split: if_splits)

lemma fill_type_simps [simp]:
  "canonical_fill_event_type (PStr ''FILLED'') = ''PAPER_ORDER_FILLED''"
  "canonical_fill_event_type (PStr ''PARTIALLY_FILLED'') = ''PAPER_ORDER_PARTIALLY_FILLED''"
  "canonical_fill_event_type (PStr ''REJECTED'') = ''PAPER_ORDER_REJECTED''"
  "canonical_fill_event_type (PStr ''EXPIRED'') = ''PAPER_ORDER_EXPIRED''"
  by code_simp+

text \<open>An unfilled order gets no fourth event; any other result of the simulation is one of four statuses.\<close>

definition fill_outcome :: "pipeline_request \<Rightarrow> pydict \<Rightarrow> simulation_result \<Rightarrow> pyval \<Rightarrow> pydict list \<Rightarrow> bool" where
  "fill_outcome q intent r ts es \<longleftrightarrow>
     (si_lifecycle_event r = None \<and> si_fill_quantity r = 0 \<and> es = []) \<or>
     (\<exists>le e. si_lifecycle_event r = Some (lifecycle_event_to_dict le) \<and>
        le_status le \<in> {FILLED, PARTIALLY_FILLED, EXPIRED, REJECTED} \<and> es = [e] \<and>
        canonical_event (py_str (pq_cycle_id q)) 4 (''PAPER_ORDER_'' @ paper_status_value (le_status le))
          (dset ''lifecycle_event'' (PDict (lifecycle_event_to_dict le)) (simulation_result_to_dict r)) intent
          (lifecycle_event_to_dict le) ts = Inr e)"

lemma simulated_event:
  assumes "simulate_paper_fill f = Inr r"
  shows "si_lifecycle_event r = None \<and> si_fill_quantity r = 0 \<or>
    (\<exists>le. si_lifecycle_event r = Some (lifecycle_event_to_dict le) \<and> le_status le \<in> {FILLED, PARTIALLY_FILLED, EXPIRED, REJECTED})"
  using assms
proof (cases rule: simulation_cases)
  case (filled le)
  then have "le_status le = FILLED \<or> le_status le = PARTIALLY_FILLED" by (auto simp: fill_sound_def)
  with filled show ?thesis by (auto simp: fill_sound_def)
qed auto

lemma simulation_event_get:
  "dget (simulation_result_to_dict r) ''lifecycle_event'' = dict_or_none (si_lifecycle_event r)"
  by (simp add: simulation_result_to_dict_def)

lemma fill_stage_Inr:
  assumes "fill_stage q intent opened st = Inr st'"
  obtains ts r es where "offset_ts (pq_ts_epoch q) 4 = Inr ts"
    "simulate_paper_fill (fill_request_of q intent opened ts) = Inr r" "si_status r \<noteq> Paper_Fill.BLOCKED"
    "fill_outcome q intent r ts es" "pw_events st' = pw_events st @ es" "pw_candidate_id st' = pw_candidate_id st"
proof -
  let ?next = "\<lambda>r. case dget (simulation_result_to_dict r) ''lifecycle_event'' of
       PDict le \<Rightarrow> emit_lifecycle q 4 (canonical_fill_event_type (dget le ''status''))
         (dset ''lifecycle_event'' (PDict le) (simulation_result_to_dict r)) intent le
         (record_stage ''fill'' (simulation_result_to_dict r) (si_warnings r) st)
     | _ \<Rightarrow> Inr (record_stage ''fill'' (simulation_result_to_dict r) (si_warnings r) st)"
  from assms obtain ts r where ts: "offset_ts (pq_ts_epoch q) 4 = Inr ts"
    and r: "simulate_paper_fill (fill_request_of q intent opened ts) = Inr r"
    and "(if si_status r = Paper_Fill.BLOCKED
      then stop q (record_stage ''fill'' (simulation_result_to_dict r) (si_warnings r) st) ''FILL'' (si_blockers r)
        ''PAPER_PIPELINE_FILL_BLOCKED'' else ?next r) = Inr st'"
    unfolding fill_stage_def Let_def bind_result_eq_Inr raising_eq_Inr by blast
  then have ok: "si_status r \<noteq> Paper_Fill.BLOCKED" and run: "?next r = Inr st'"
    by (simp_all only: stop_not_Inr if_True if_False simp_thms split: if_split_asm)
  from simulated_event [OF r] show thesis
  proof (elim disjE exE conjE)
    assume none: "si_lifecycle_event r = None" "si_fill_quantity r = 0"
    then have "st' = record_stage ''fill'' (simulation_result_to_dict r) (si_warnings r) st"
      using run by (simp add: simulation_event_get dict_or_none_def)
    then show thesis using that [OF ts r ok, of "[]"] none by (simp add: fill_outcome_def)
  next
    fix le
    assume le: "si_lifecycle_event r = Some (lifecycle_event_to_dict le)"
      "le_status le \<in> {FILLED, PARTIALLY_FILLED, EXPIRED, REJECTED}"
    then have ty: "canonical_fill_event_type (PStr (paper_status_value (le_status le))) = ''PAPER_ORDER_'' @ paper_status_value (le_status le)"
      by auto
    have "emit_lifecycle q 4 (''PAPER_ORDER_'' @ paper_status_value (le_status le))
         (dset ''lifecycle_event'' (PDict (lifecycle_event_to_dict le)) (simulation_result_to_dict r)) intent
         (lifecycle_event_to_dict le) (record_stage ''fill'' (simulation_result_to_dict r) (si_warnings r) st) = Inr st'"
      using run le(1) lifecycle_event_report.not_empty [of le]
      unfolding simulation_event_get by (simp add: dict_or_none_def ty)
    then show thesis
    proof (rule emit_lifecycle_Inr)
      fix ts' e
      assume e: "offset_ts (pq_ts_epoch q) 4 = Inr ts'"
        "canonical_event (py_str (pq_cycle_id q)) 4 (''PAPER_ORDER_'' @ paper_status_value (le_status le))
         (dset ''lifecycle_event'' (PDict (lifecycle_event_to_dict le)) (simulation_result_to_dict r)) intent
         (lifecycle_event_to_dict le) ts' = Inr e"
        and st': "pw_events st' = pw_events (record_stage ''fill'' (simulation_result_to_dict r) (si_warnings r) st) @ [e]"
        "pw_candidate_id st' = pw_candidate_id (record_stage ''fill'' (simulation_result_to_dict r) (si_warnings r) st)"
      have "ts' = ts" using e(1) ts by (simp only: sum.inject)
      then have "fill_outcome q intent r ts [e]"
        unfolding fill_outcome_def using le e(2) by (intro disjI2 exI [of _ le] exI [of _ e] conjI) (simp_all only:)
      from that [OF ts r ok this] st' show thesis unfolding record_stage_simps by blast
    qed
  qed
qed

section \<open>A run that ends early\<close>

definition refused :: "pipeline_result \<Rightarrow> bool" where
  "refused r \<longleftrightarrow> \<not> pl_completed r \<and> pl_status r = BLOCKED \<and> pl_state r = [] \<and> pl_blockers r \<noteq> []"

definition ends_refused :: "halt + 'a \<Rightarrow> bool" where
  "ends_refused m \<longleftrightarrow> (\<forall>r. m = Inl (Returns r) \<longrightarrow> refused r)"

lemma ends_refused_simps [simp]: "ends_refused (Inr x)" "ends_refused (raising m)"
  by (cases m; simp add: ends_refused_def raising_def)+

lemma ends_refused_bind [intro!]:
  "ends_refused m \<Longrightarrow> (\<And>x. ends_refused (f x)) \<Longrightarrow> ends_refused (bind_result m f)"
  by (cases m) (auto simp: ends_refused_def)

lemma prefixed_nonblank [simp]: "list_all blank (pipeline_prefixed source bs) \<longleftrightarrow> bs = []"
  by (cases bs) (simp_all add: pipeline_prefixed_def)

lemma ends_refused_stop [simp]: "ends_refused (stop q st source bs fallback)"
  by (simp add: ends_refused_def stop_def refused_def blocked_pipeline_def)

lemma emit_ends_refused [simp]:
  "ends_refused (emit q n ty payload intent lifecycle ts st)" "ends_refused (emit_lifecycle q n ty payload intent lifecycle st)"
  by (auto simp: emit_def emit_lifecycle_def)

lemma stages_end_refused:
  "ends_refused (intent_stage q st)" "ends_refused (lifecycle_stage q name source fallback status intent previous n st)"
  "ends_refused (fill_stage q intent opened st)" "ends_refused (ordering_stage q st)" "ends_refused (reducer_stage q ordered st)"
  by (auto simp: intent_stage_def lifecycle_stage_def fill_stage_def ordering_stage_def reducer_stage_def Let_def
      split: option.splits bool.splits pyval.splits)

lemma pipeline_steps_refused: "ends_refused (pipeline_steps q)"
proof -
  have "ends_refused (order_stages q intent st)" for intent st
    by (auto simp: order_stages_def stages_end_refused)
  then show ?thesis by (auto simp: pipeline_steps_def stages_end_refused)
qed

section \<open>The identifiers of a run\<close>

lemma created_intent_ids:
  assumes "build_paper_intent b = Inr rb" "ir_intent rb = Some i"
  shows "pi_candidate_id i \<noteq> []" "pi_paper_order_intent_id i = stable_intent_id (pi_candidate_id i) (bi_ts_epoch b)" "intent_ready b"
  using assms(1)
proof -
  from assms obtain d where ready: "intent_ready b" and d: "selected_candidate (bi_top_executable b) = Some d"
    and i: "intent_of_candidate b d = Inr i" by (cases rule: built_intent_cases) auto
  then have "\<not> is_blank (dget d ''candidate_id'')" by (auto simp: intent_ready_def)
  then show "pi_candidate_id i \<noteq> []" using intent_of_candidate_fields(1) [OF i] py_str_nonblank by simp
  show "pi_paper_order_intent_id i = stable_intent_id (pi_candidate_id i) (bi_ts_epoch b)"
    by (rule intent_of_candidate_fields(2) [OF i])
  show "intent_ready b" by (rule ready)
qed

lemma strip_ids [simp]:
  "strip (stable_intent_id c t) = stable_intent_id c t" "strip (stable_paper_order_id a c) = stable_paper_order_id a c"
  by (simp_all add: stable_intent_id_def stable_paper_order_id_def
      strip_digest_id [of "''paper-''", simplified] strip_digest_id [of "''paper-order-''", simplified])

lemma ids_not_empty [simp]: "stable_intent_id c t \<noteq> []" "stable_paper_order_id a c \<noteq> []"
  by (simp_all add: stable_intent_id_def stable_paper_order_id_def)

text \<open>An intent id and an order id differ in length.\<close>

lemma ids_differ: "stable_intent_id c t \<noteq> stable_paper_order_id a c'"
proof
  assume "stable_intent_id c t = stable_paper_order_id a c'"
  then have "length (stable_intent_id c t) = length (stable_paper_order_id a c')" by simp
  then show False by (simp add: stable_intent_id_def stable_paper_order_id_def)
qed

text \<open>The events of a run, as the guard and the reducer see them.\<close>

lemma optional_str_stripped [simp]: "optional_str (opt_str (stripped_or_none v)) = opt_str (stripped_or_none v)"
  by (auto simp: stripped_or_none_def optional_str_def Let_def)

lemma stripped_or_none_PNone [simp]: "stripped_or_none PNone = None"
  by (simp add: stripped_or_none_def)

lemma stripped_id [simp]:
  "stripped_or_none (PStr (stable_intent_id c t)) = Some (stable_intent_id c t)"
  "stripped_or_none (PStr (stable_paper_order_id a c)) = Some (stable_paper_order_id a c)"
  by (simp_all add: stripped_or_none_def Let_def del: strip_eq_Nil)

lemma canonical_normalized:
  assumes "canonical_event c n ty payload intent lifecycle ts = Inr e" "normalize_paper_event (raw_of e) = Inr e'"
  shows "dget e' ''event_type'' = optional_str (PStr ty)" "dget e' ''event_sequence'' = PInt n"
    "dget e' ''cycle_id'' = optional_str (PStr c)" "dget e' ''payload'' = PDict payload"
    "dget e' ''paper_order_id'' =
       opt_str (stripped_or_none (py_or (dget lifecycle ''paper_order_id'') (dget intent ''paper_order_id'')))"
    "dget e' ''paper_order_intent_id'' = opt_str (stripped_or_none (dget intent ''paper_order_intent_id''))"
  using assms(2) by (rule normalizeE; use assms(1) in \<open>auto simp: canonical_event_def raw_of_def Let_def\<close>)+

section \<open>A completed run\<close>

definition stage_built :: "pydict \<Rightarrow> string \<Rightarrow> event_arg \<Rightarrow> lifecycle_event \<Rightarrow> bool" where
  "stage_built intent status previous e \<longleftrightarrow>
     (\<exists>ts r. build_lifecycle_event (stage_request intent status previous ts) = Inr r \<and> lr_event r = Some e)"

definition event_built :: "pipeline_request \<Rightarrow> int \<Rightarrow> string \<Rightarrow> pydict \<Rightarrow> pydict \<Rightarrow> pydict \<Rightarrow> pydict \<Rightarrow> bool" where
  "event_built q n ty payload intent lifecycle e \<longleftrightarrow>
     (\<exists>ts. canonical_event (py_str (pq_cycle_id q)) n ty payload intent lifecycle ts = Inr e)"

definition previous_of :: "lifecycle_event \<Rightarrow> event_arg" where
  "previous_of e = EventValue (PDict (lifecycle_event_to_dict e))"

lemma order_stages_Inr:
  assumes "order_stages q intent st = Inr (d, st')"
  obtains created accepted opened e2 e3 where
    "stage_built intent ''CREATED'' NoEvent created" "stage_built intent ''ACCEPTED'' (previous_of created) accepted"
    "stage_built intent ''OPEN'' (previous_of accepted) opened" "d = lifecycle_event_to_dict opened"
    "event_built q 2 ''PAPER_ORDER_ACCEPTED'' (lifecycle_event_to_dict accepted) intent (lifecycle_event_to_dict accepted) e2"
    "event_built q 3 ''PAPER_ORDER_OPENED'' (lifecycle_event_to_dict opened) intent (lifecycle_event_to_dict opened) e3"
    "pw_events st' = pw_events st @ [e2, e3]" "pw_candidate_id st' = pw_candidate_id st"
proof -
  from assms obtain d1 st1 d2 st2 st3 d3 st4 where
    s1: "lifecycle_stage q ''lifecycle_created'' ''LIFECYCLE_CREATED'' ''PAPER_PIPELINE_CREATED_EVENT_NOT_CREATED'' ''CREATED''
      intent NoEvent 1 st = Inr (d1, st1)"
    and s2: "lifecycle_stage q ''lifecycle_accepted'' ''LIFECYCLE_ACCEPTED'' ''PAPER_PIPELINE_ACCEPTED_EVENT_NOT_CREATED''
      ''ACCEPTED'' intent (EventValue (PDict d1)) 2 st1 = Inr (d2, st2)"
    and m2: "emit_lifecycle q 2 ''PAPER_ORDER_ACCEPTED'' d2 intent d2 st2 = Inr st3"
    and s3: "lifecycle_stage q ''lifecycle_opened'' ''LIFECYCLE_OPENED'' ''PAPER_PIPELINE_OPEN_EVENT_NOT_CREATED'' ''OPEN''
      intent (EventValue (PDict d2)) 3 st3 = Inr (d3, st4)"
    and m3: "emit_lifecycle q 3 ''PAPER_ORDER_OPENED'' d3 intent d3 st4 = Inr st'" and d: "d = d3"
    unfolding order_stages_def by auto
  obtain created where c: "stage_built intent ''CREATED'' NoEvent created" "d1 = lifecycle_event_to_dict created"
    "pw_events st1 = pw_events st" "pw_candidate_id st1 = pw_candidate_id st"
    using s1 by (rule lifecycle_stage_Inr) (auto simp: stage_built_def intro: that)
  obtain accepted where a: "stage_built intent ''ACCEPTED'' (EventValue (PDict d1)) accepted" "d2 = lifecycle_event_to_dict accepted"
    "pw_events st2 = pw_events st1" "pw_candidate_id st2 = pw_candidate_id st1"
    using s2 by (rule lifecycle_stage_Inr) (auto simp: stage_built_def intro: that)
  obtain opened where p: "stage_built intent ''OPEN'' (EventValue (PDict d2)) opened" "d3 = lifecycle_event_to_dict opened"
    "pw_events st4 = pw_events st3" "pw_candidate_id st4 = pw_candidate_id st3"
    using s3 by (rule lifecycle_stage_Inr) (auto simp: stage_built_def intro: that)
  obtain e2 where e2: "event_built q 2 ''PAPER_ORDER_ACCEPTED'' d2 intent d2 e2" "pw_events st3 = pw_events st2 @ [e2]"
    "pw_candidate_id st3 = pw_candidate_id st2"
    using m2 by (rule emit_lifecycle_Inr) (auto simp: event_built_def intro: that)
  obtain e3 where e3: "event_built q 3 ''PAPER_ORDER_OPENED'' d3 intent d3 e3" "pw_events st' = pw_events st4 @ [e3]"
    "pw_candidate_id st' = pw_candidate_id st4"
    using m3 by (rule emit_lifecycle_Inr) (auto simp: event_built_def intro: that)
  show thesis
    by (rule that [of created accepted opened e2 e3]) (use c a p e2 e3 d in \<open>simp_all add: previous_of_def\<close>)
qed

lemma completed_run:
  assumes "run_paper_trading_pipeline q = Inr r" "pl_completed r"
  obtains rb i created accepted opened e1 e2 e3 es ts sim g rd where
    "validate_pipeline_inputs q = []" "build_paper_intent (bridge_of q) = Inr rb" "ir_intent rb = Some i"
    "stage_built (paper_intent_to_dict i) ''CREATED'' NoEvent created"
    "stage_built (paper_intent_to_dict i) ''ACCEPTED'' (previous_of created) accepted"
    "stage_built (paper_intent_to_dict i) ''OPEN'' (previous_of accepted) opened"
    "simulate_paper_fill (fill_request_of q (paper_intent_to_dict i) (lifecycle_event_to_dict opened) ts) = Inr sim"
    "si_status sim \<noteq> Paper_Fill.BLOCKED" "fill_outcome q (paper_intent_to_dict i) sim ts es"
    "event_built q 1 ''PAPER_ORDER_INTENT_CREATED'' (paper_intent_to_dict i) (paper_intent_to_dict i) [] e1"
    "event_built q 2 ''PAPER_ORDER_ACCEPTED'' (lifecycle_event_to_dict accepted) (paper_intent_to_dict i) (lifecycle_event_to_dict accepted) e2"
    "event_built q 3 ''PAPER_ORDER_OPENED'' (lifecycle_event_to_dict opened) (paper_intent_to_dict i) (lifecycle_event_to_dict opened) e3"
    "pl_events r = [e1, e2, e3] @ es" "pl_candidate_id r = Some (pi_candidate_id i)"
    "guard_paper_event_ordering (EventsList (map raw_of (pl_events r))) = Inr g" "gr_valid g"
    "reduce_paper_events (EventsList (map raw_of (gr_ordered_events g))) = Inr rd" "rr_status rd \<noteq> Paper_Reducer.BLOCKED"
    "pl_state r = reduced_state_to_dict (rr_state rd)" "pl_blockers r = []"
proof -
  have input: "validate_pipeline_inputs q = []"
    using assms by (auto simp: run_paper_trading_pipeline_def blocked_pipeline_def Let_def split: if_splits)
  have "pipeline_steps q = Inr r"
    using assms input pipeline_steps_refused [of q]
    by (auto simp: run_paper_trading_pipeline_def ends_refused_def refused_def split: sum.splits halt.splits)
  then obtain intent st1 d st2 st3 ordered st4 state st5 where
    s1: "intent_stage q (initial_locals q) = Inr (intent, st1)" and s2: "order_stages q intent st1 = Inr (d, st2)"
    and s3: "fill_stage q intent d st2 = Inr st3" and s4: "ordering_stage q st3 = Inr (ordered, st4)"
    and s5: "reducer_stage q ordered st4 = Inr (state, st5)" and r: "r = completed_pipeline q state st5"
    unfolding pipeline_steps_def by auto
  from s1 obtain rb i e1 where i: "build_paper_intent (bridge_of q) = Inr rb" "ir_intent rb = Some i"
    "intent = paper_intent_to_dict i" and e1: "event_built q 1 ''PAPER_ORDER_INTENT_CREATED'' intent intent [] e1"
    and st1: "pw_events st1 = [e1]" "pw_candidate_id st1 = Some (str_or_empty (py_or (dget intent ''candidate_id'') (opt_str (pw_candidate_id (initial_locals q)))))"
    by (rule intent_stage_Inr) (auto simp: event_built_def initial_locals_def)
  from s2 obtain created accepted opened e2 e3 where
    c: "stage_built intent ''CREATED'' NoEvent created" "stage_built intent ''ACCEPTED'' (previous_of created) accepted"
    "stage_built intent ''OPEN'' (previous_of accepted) opened" and d: "d = lifecycle_event_to_dict opened"
    and e23: "event_built q 2 ''PAPER_ORDER_ACCEPTED'' (lifecycle_event_to_dict accepted) intent (lifecycle_event_to_dict accepted) e2"
    "event_built q 3 ''PAPER_ORDER_OPENED'' (lifecycle_event_to_dict opened) intent (lifecycle_event_to_dict opened) e3"
    and st2: "pw_events st2 = pw_events st1 @ [e2, e3]" "pw_candidate_id st2 = pw_candidate_id st1"
    by (rule order_stages_Inr)
  from s3 obtain ts sim es where sim: "simulate_paper_fill (fill_request_of q intent d ts) = Inr sim"
    "si_status sim \<noteq> Paper_Fill.BLOCKED" "fill_outcome q intent sim ts es"
    and st3: "pw_events st3 = pw_events st2 @ es" "pw_candidate_id st3 = pw_candidate_id st2"
    by (rule fill_stage_Inr)
  from s4 obtain g where g: "guard_paper_event_ordering (EventsList (map raw_of (pw_events st3))) = Inr g" "gr_valid g"
    "ordered = gr_ordered_events g" and st4: "pw_events st4 = pw_events st3" "pw_candidate_id st4 = pw_candidate_id st3"
    by (rule ordering_stage_Inr)
  from s5 obtain rd where rd: "reduce_paper_events (EventsList (map raw_of ordered)) = Inr rd" "rr_status rd \<noteq> Paper_Reducer.BLOCKED"
    "state = reduced_state_to_dict (rr_state rd)" and st5: "pw_events st5 = pw_events st4" "pw_candidate_id st5 = pw_candidate_id st4"
    by (rule reducer_stage_Inr)
  have ev: "pl_events r = [e1, e2, e3] @ es" "pw_events st3 = pl_events r"
    by (simp_all add: r completed_pipeline_def st1 st2 st3 st4 st5)
  have "pi_candidate_id i \<noteq> []" by (rule created_intent_ids(1) [OF i(1,2)])
  then have id: "pl_candidate_id r = Some (pi_candidate_id i)"
    by (simp add: r completed_pipeline_def st1 st2 st3 st4 st5 i(3) paper_intent_to_dict_def str_or_empty_def)
  show thesis
    by (rule that [OF input i(1,2) c [unfolded i(3)] sim(1) [unfolded d i(3)] sim(2) sim(3) [unfolded i(3)]
          e1 [unfolded i(3)] e23 [unfolded i(3)] ev(1) id g(1) [unfolded ev(2)] g(2) rd(1) [unfolded g(3)] rd(2)])
      (simp_all add: r completed_pipeline_def rd(3))
qed

section \<open>The order of a run\<close>

definition order_id_of :: "paper_intent \<Rightarrow> string" where
  "order_id_of i = stable_paper_order_id (pi_paper_order_intent_id i) (pi_candidate_id i)"

lemma intent_dict_get [simp]:
  "dget (paper_intent_to_dict i) ''paper_order_intent_id'' = PStr (pi_paper_order_intent_id i)"
  "dget (paper_intent_to_dict i) ''candidate_id'' = PStr (pi_candidate_id i)"
  "dget (paper_intent_to_dict i) ''paper_order_id'' = PNone"
  by (simp_all add: paper_intent_to_dict_def)

lemma coerce_status_texts:
  "coerce_status (StatusText ''CREATED'') = Some CREATED" "coerce_status (StatusText ''ACCEPTED'') = Some ACCEPTED"
  "coerce_status (StatusText ''OPEN'') = Some OPEN"
  by code_simp+

lemma stage_built_fields:
  assumes "stage_built (paper_intent_to_dict i) status previous e"
  shows "le_paper_order_id e = order_id_of i" "coerce_status (StatusText status) = Some (le_status e)"
proof -
  obtain ts r where "build_lifecycle_event (stage_request (paper_intent_to_dict i) status previous ts) = Inr r" "lr_event r = Some e"
    using assms by (auto simp: stage_built_def)
  then obtain s fill f n p where "request_ok (stage_request (paper_intent_to_dict i) status previous ts) s fill"
    "e = event_of_request (stage_request (paper_intent_to_dict i) status previous ts) s f n p"
    by (rule built_event) (rule that)
  then show "le_paper_order_id e = order_id_of i" "coerce_status (StatusText status) = Some (le_status e)"
    by (simp_all add: request_ok_def stage_request_def order_id_of_def)
qed

lemma simulated_order_id:
  assumes "simulate_paper_fill (fill_request_of q (paper_intent_to_dict i) opened ts) = Inr r"
    "si_lifecycle_event r = Some (lifecycle_event_to_dict le)"
  shows "le_paper_order_id le = order_id_of i"
proof -
  have same: "le_paper_order_id le = le_paper_order_id le'" if "si_lifecycle_event r = Some (lifecycle_event_to_dict le')" for le'
    using that assms(2) lifecycle_event_to_dict_get(4) [of le] lifecycle_event_to_dict_get(4) [of le'] by auto
  from assms(1) show ?thesis
  proof (cases rule: simulation_cases)
    case (ended le' s)
    then show ?thesis using same [OF ended(2)] by (simp add: fill_request_of_def order_id_of_def)
  next
    case (filled le')
    then have "si_lifecycle_event r = Some (lifecycle_event_to_dict le')" "le_paper_order_id le' = order_id_of i"
      by (simp_all add: fill_sound_def fill_request_of_def order_id_of_def)
    with same show ?thesis by metis
  qed (use assms(2) in simp_all)
qed

text \<open>The key under which the reducer books an event of the run.\<close>

lemma order_key_of_order:
  assumes "event_built q n ty payload (paper_intent_to_dict i) (lifecycle_event_to_dict le) e" "normalize_paper_event (raw_of e) = Inr e'"
    and "le_paper_order_id le = order_id_of i"
  shows "order_key e' = order_id_of i" "dget e' ''event_type'' = optional_str (PStr ty)" "dget e' ''event_sequence'' = PInt n"
proof -
  obtain ts where e: "canonical_event (py_str (pq_cycle_id q)) n ty payload (paper_intent_to_dict i) (lifecycle_event_to_dict le) ts = Inr e"
    using assms(1) by (auto simp: event_built_def)
  note norm = canonical_normalized [OF e assms(2)]
  show "order_key e' = order_id_of i" using norm(5) assms(3) by (simp add: order_key_def order_id_of_def)
  show "dget e' ''event_type'' = optional_str (PStr ty)" "dget e' ''event_sequence'' = PInt n" by (rule norm)+
qed

lemma order_key_of_intent:
  assumes "event_built q n ty payload (paper_intent_to_dict i) [] e" "normalize_paper_event (raw_of e) = Inr e'"
    and "pi_paper_order_intent_id i = stable_intent_id c t"
  shows "order_key e' = pi_paper_order_intent_id i" "dget e' ''event_type'' = optional_str (PStr ty)" "dget e' ''event_sequence'' = PInt n"
proof -
  obtain ts where e: "canonical_event (py_str (pq_cycle_id q)) n ty payload (paper_intent_to_dict i) [] ts = Inr e"
    using assms(1) by (auto simp: event_built_def)
  note norm = canonical_normalized [OF e assms(2)]
  show "order_key e' = pi_paper_order_intent_id i" using norm(5,6) assms(3) by (simp add: order_key_def)
  show "dget e' ''event_type'' = optional_str (PStr ty)" "dget e' ''event_sequence'' = PInt n" by (rule norm)+
qed

lemma normalized_again:
  "map_result normalize_paper_event raws = Inr es \<Longrightarrow> map_result normalize_paper_event (map raw_of es) = Inr es"
proof (induction raws arbitrary: es)
  case (Cons raw raws)
  then obtain e es' where e: "normalize_paper_event raw = Inr e" "map_result normalize_paper_event raws = Inr es'" "es = e # es'" by auto
  with Cons.IH normalize_idem [OF e(1)] show ?case by (simp add: raw_of_def)
qed simp

lemma reduced_ordered:
  assumes "guard_paper_event_ordering (EventsList raws) = Inr g" "gr_valid g" "raws \<noteq> []"
    "reduce_paper_events (EventsList (map raw_of (gr_ordered_events g))) = Inr rd" "rr_status rd \<noteq> Paper_Reducer.BLOCKED"
  obtains es s where "map_result normalize_paper_event raws = Inr es" "well_ordered es" "reduction_of es s"
    "build_summary s = Inr (rs_summary (rr_state rd))" "rr_state rd = s\<lparr>rs_summary := rs_summary (rr_state rd)\<rparr>"
proof -
  obtain es where es: "map_result normalize_paper_event raws = Inr es" "well_ordered es" "gr_ordered_events g = es"
    using guard_outcome [OF assms(1)] assms(2) by auto
  have ne: "map raw_of (gr_ordered_events g) \<noteq> []" using map_result_length [OF es(1)] assms(3) es(3) by auto
  from assms(4) show thesis
  proof (cases rule: reduce_cases)
    case (reduced es' s)
    then have "es' = es" using normalized_again [OF es(1)] es(3) by simp
    with reduced es that show thesis by blast
  qed (use assms(5) ne in auto)
qed

definition state_order_status :: "pydict \<Rightarrow> string \<Rightarrow> string option" where
  "state_order_status state k = map_option order_status_text (map_of (as_dict (dget state ''orders'')) k)"

lemma state_status_of_reduction:
  assumes "reduction_of es s" "rr = s\<lparr>rs_summary := x\<rparr>"
  shows "state_order_status (reduced_state_to_dict rr) k = map_option status_of_event (last_order_event es k)"
proof -
  have "vw_status (reduced_view_of (s, [])) k = map_option status_of_event (last_order_event es k)"
    using assms(1) by (simp add: reduction_of_def)
  then show ?thesis by (simp add: state_order_status_def reduced_state_to_dict_def assms(2) reduced_view_of_def)
qed

text \<open>An event list with one intent event and then only events of one order.\<close>

lemma last_order_event_of_run:
  assumes "list_all is_order_event (x # ys)" "order_key x = a" "list_all (\<lambda>y. order_key y = b) ys" "ys \<noteq> []" "a \<noteq> b"
  shows "last_order_event (x # ys) k = (if k = a then Some x else if k = b then Some (last ys) else None)"
proof -
  have ys: "filter (\<lambda>e. is_order_event e \<and> order_key e = k) ys = (if k = b then ys else [])"
    using assms(1,3) by (auto simp: filter_id_conv filter_empty_conv list_all_iff)
  then show ?thesis using assms by (auto simp: last_order_event_def last_of_def Let_def)
qed

lemma order_type_texts:
  "optional_str (PStr ''PAPER_ORDER_INTENT_CREATED'') = PStr ''PAPER_ORDER_INTENT_CREATED''"
  "optional_str (PStr ''PAPER_ORDER_ACCEPTED'') = PStr ''PAPER_ORDER_ACCEPTED''"
  "optional_str (PStr ''PAPER_ORDER_OPENED'') = PStr ''PAPER_ORDER_OPENED''"
  "optional_str (PStr ''PAPER_ORDER_FILLED'') = PStr ''PAPER_ORDER_FILLED''"
  "optional_str (PStr ''PAPER_ORDER_PARTIALLY_FILLED'') = PStr ''PAPER_ORDER_PARTIALLY_FILLED''"
  "optional_str (PStr ''PAPER_ORDER_EXPIRED'') = PStr ''PAPER_ORDER_EXPIRED''"
  "optional_str (PStr ''PAPER_ORDER_REJECTED'') = PStr ''PAPER_ORDER_REJECTED''"
  by code_simp+

text \<open>The event type that stands for the status of an order in the canonical events.\<close>

definition order_event_type :: "paper_status \<Rightarrow> string" where
  "order_event_type s = (if s = OPEN then ''PAPER_ORDER_OPENED'' else ''PAPER_ORDER_'' @ paper_status_value s)"

definition books_as :: "string \<Rightarrow> string \<Rightarrow> int \<Rightarrow> string \<Rightarrow> pydict \<Rightarrow> bool" where
  "books_as key ty n status e \<longleftrightarrow>
     order_key e = key \<and> event_type_of e = ty \<and> ev_seq e = n \<and> is_order_event e \<and> status_of_event e = status"

lemma books_asI:
  assumes "order_key e = key" "dget e ''event_type'' = optional_str (PStr ty)" "dget e ''event_sequence'' = PInt n"
    and "optional_str (PStr ty) = PStr ty" "map_of order_event_status ty = Some status"
  shows "books_as key ty n status e"
proof -
  have "event_type_of e = ty" using assms(2,4) by (simp add: event_type_of_def)
  moreover have "ty \<in> set (map fst order_event_status)" using assms(5) by (force dest: map_of_SomeD)
  ultimately show ?thesis using assms by (simp add: books_as_def is_order_event_def status_of_event_def ev_seq_def)
qed

definition final_status :: "simulation_result \<Rightarrow> paper_status \<Rightarrow> bool" where
  "final_status sim status \<longleftrightarrow>
     (case si_lifecycle_event sim of
        None \<Rightarrow> status = OPEN \<and> si_fill_quantity sim = 0
      | Some d \<Rightarrow> dget d ''status'' = PStr (paper_status_value status) \<and> status \<in> {FILLED, PARTIALLY_FILLED, EXPIRED, REJECTED})"

lemma fill_outcome_books:
  assumes "fill_outcome q (paper_intent_to_dict i) sim ts es" "map_result normalize_paper_event (map raw_of es) = Inr es'"
    "simulate_paper_fill (fill_request_of q (paper_intent_to_dict i) opened ts') = Inr sim"
  obtains "es' = []" "final_status sim OPEN"
  | e status where "es' = [e]" "final_status sim status" "status \<noteq> OPEN"
      "books_as (order_id_of i) (order_event_type status) 4 (paper_status_value status) e"
  using assms(1) unfolding fill_outcome_def
proof (elim disjE exE conjE)
  assume "si_lifecycle_event sim = None" "si_fill_quantity sim = 0" "es = []"
  then show thesis using assms(2) that(1) by (simp add: final_status_def)
next
  fix le e
  assume le: "si_lifecycle_event sim = Some (lifecycle_event_to_dict le)" "le_status le \<in> {FILLED, PARTIALLY_FILLED, EXPIRED, REJECTED}"
    and es: "es = [e]"
    and e: "canonical_event (py_str (pq_cycle_id q)) 4 (''PAPER_ORDER_'' @ paper_status_value (le_status le))
          (dset ''lifecycle_event'' (PDict (lifecycle_event_to_dict le)) (simulation_result_to_dict sim)) (paper_intent_to_dict i)
          (lifecycle_event_to_dict le) ts = Inr e"
  obtain e' where e': "normalize_paper_event (raw_of e) = Inr e'" "es' = [e']" using assms(2) es by auto
  have ty: "order_event_type (le_status le) = ''PAPER_ORDER_'' @ paper_status_value (le_status le)"
    using le(2) by (auto simp: order_event_type_def)
  have "event_built q 4 (order_event_type (le_status le))
      (dset ''lifecycle_event'' (PDict (lifecycle_event_to_dict le)) (simulation_result_to_dict sim)) (paper_intent_to_dict i)
      (lifecycle_event_to_dict le) e"
    unfolding event_built_def ty using e by (rule exI)
  note key = order_key_of_order [OF this e'(1) simulated_order_id [OF assms(3) le(1)]]
  have "books_as (order_id_of i) (order_event_type (le_status le)) 4 (paper_status_value (le_status le)) e'"
    by (rule books_asI [OF key]) (use le(2) in \<open>auto simp: order_event_type_def order_type_texts order_event_status_def\<close>)
  moreover have "final_status sim (le_status le)" using le by (simp add: final_status_def)
  moreover have "le_status le \<noteq> OPEN" using le(2) by auto
  ultimately show thesis using that(2) [OF e'(2)] by blast
qed

text \<open>The canonical events of a completed run, normalized: the intent, then the steps of one order.\<close>

definition run_events :: "paper_intent \<Rightarrow> paper_status \<Rightarrow> pydict list \<Rightarrow> bool" where
  "run_events i status es \<longleftrightarrow>
     (\<exists>e1 e2 e3 rest. es = [e1, e2, e3] @ rest \<and>
        books_as (pi_paper_order_intent_id i) ''PAPER_ORDER_INTENT_CREATED'' 1 ''INTENT_CREATED'' e1 \<and>
        books_as (order_id_of i) ''PAPER_ORDER_ACCEPTED'' 2 ''ACCEPTED'' e2 \<and>
        books_as (order_id_of i) ''PAPER_ORDER_OPENED'' 3 ''OPEN'' e3 \<and>
        (if status = OPEN then rest = []
         else \<exists>e4. rest = [e4] \<and> books_as (order_id_of i) (order_event_type status) 4 (paper_status_value status) e4))"

lemma completed_outcome:
  assumes "run_paper_trading_pipeline q = Inr r" "pl_completed r"
  obtains i opened ts sim status es s rd where
    "intent_ready (bridge_of q)" "pl_candidate_id r = Some (pi_candidate_id i)" "pl_blockers r = []"
    "pi_paper_order_intent_id i = stable_intent_id (pi_candidate_id i) (pq_ts_epoch q)" "le_status opened = OPEN"
    "simulate_paper_fill (fill_request_of q (paper_intent_to_dict i) (lifecycle_event_to_dict opened) ts) = Inr sim"
    "final_status sim status" "map_result normalize_paper_event (map raw_of (pl_events r)) = Inr es" "well_ordered es"
    "run_events i status es" "reduction_of es s" "build_summary s = Inr (rs_summary rd)"
    "rd = s\<lparr>rs_summary := rs_summary rd\<rparr>" "pl_state r = reduced_state_to_dict rd"
proof -
  from completed_run [OF assms] obtain rb i created accepted opened e1 e2 e3 rest ts sim g rd where
    intent: "build_paper_intent (bridge_of q) = Inr rb" "ir_intent rb = Some i"
    and built: "stage_built (paper_intent_to_dict i) ''CREATED'' NoEvent created"
      "stage_built (paper_intent_to_dict i) ''ACCEPTED'' (previous_of created) accepted"
      "stage_built (paper_intent_to_dict i) ''OPEN'' (previous_of accepted) opened"
    and sim: "simulate_paper_fill (fill_request_of q (paper_intent_to_dict i) (lifecycle_event_to_dict opened) ts) = Inr sim"
      "fill_outcome q (paper_intent_to_dict i) sim ts rest"
    and ev: "event_built q 1 ''PAPER_ORDER_INTENT_CREATED'' (paper_intent_to_dict i) (paper_intent_to_dict i) [] e1"
      "event_built q 2 ''PAPER_ORDER_ACCEPTED'' (lifecycle_event_to_dict accepted) (paper_intent_to_dict i) (lifecycle_event_to_dict accepted) e2"
      "event_built q 3 ''PAPER_ORDER_OPENED'' (lifecycle_event_to_dict opened) (paper_intent_to_dict i) (lifecycle_event_to_dict opened) e3"
    and events: "pl_events r = [e1, e2, e3] @ rest" and cid: "pl_candidate_id r = Some (pi_candidate_id i)"
    and guard: "guard_paper_event_ordering (EventsList (map raw_of (pl_events r))) = Inr g" "gr_valid g"
    and red: "reduce_paper_events (EventsList (map raw_of (gr_ordered_events g))) = Inr rd" "rr_status rd \<noteq> Paper_Reducer.BLOCKED"
    and state: "pl_state r = reduced_state_to_dict (rr_state rd)" "pl_blockers r = []"
    by metis
  note ids = created_intent_ids [OF intent]
  have "map raw_of (pl_events r) \<noteq> []" using events by simp
  from reduced_ordered [OF guard this red] obtain es s where es: "map_result normalize_paper_event (map raw_of (pl_events r)) = Inr es"
    "well_ordered es" and s: "reduction_of es s" "build_summary s = Inr (rs_summary (rr_state rd))"
    "rr_state rd = s\<lparr>rs_summary := rs_summary (rr_state rd)\<rparr>" by metis
  obtain n1 n2 n3 nrest where n: "normalize_paper_event (raw_of e1) = Inr n1" "normalize_paper_event (raw_of e2) = Inr n2"
    "normalize_paper_event (raw_of e3) = Inr n3" "map_result normalize_paper_event (map raw_of rest) = Inr nrest"
    "es = [n1, n2, n3] @ nrest"
    using es(1) unfolding events by auto
  have b1: "books_as (pi_paper_order_intent_id i) ''PAPER_ORDER_INTENT_CREATED'' 1 ''INTENT_CREATED'' n1"
    by (rule books_asI [OF order_key_of_intent [OF ev(1) n(1) ids(2)]]) (simp_all add: order_type_texts order_event_status_def)
  have b2: "books_as (order_id_of i) ''PAPER_ORDER_ACCEPTED'' 2 ''ACCEPTED'' n2"
    by (rule books_asI [OF order_key_of_order [OF ev(2) n(2) stage_built_fields(1) [OF built(2)]]])
      (simp_all add: order_type_texts order_event_status_def)
  have b3: "books_as (order_id_of i) ''PAPER_ORDER_OPENED'' 3 ''OPEN'' n3"
    by (rule books_asI [OF order_key_of_order [OF ev(3) n(3) stage_built_fields(1) [OF built(3)]]])
      (simp_all add: order_type_texts order_event_status_def)
  have opened: "le_status opened = OPEN" using stage_built_fields(2) [OF built(3)] coerce_status_texts(3) by simp
  obtain status where st: "final_status sim status" "run_events i status es"
    using sim(2) n(4) sim(1)
  proof (rule fill_outcome_books)
    assume "nrest = []" "final_status sim OPEN"
    then show thesis using that [of OPEN] n(5) b1 b2 b3 by (simp add: run_events_def)
  next
    fix e status
    assume "nrest = [e]" "final_status sim status" "status \<noteq> OPEN"
      "books_as (order_id_of i) (order_event_type status) 4 (paper_status_value status) e"
    then show thesis using that [of status] n(5) b1 b2 b3 by (simp add: run_events_def)
  qed
  have pid: "pi_paper_order_intent_id i = stable_intent_id (pi_candidate_id i) (pq_ts_epoch q)"
    using ids(2) by (simp add: bridge_of_def)
  show thesis
    by (rule that [OF ids(3) cid state(2) pid opened sim(1) st(1) es st(2) s state(1)])
qed

lemma run_events_orders:
  assumes "run_events i status es" "pi_paper_order_intent_id i \<noteq> order_id_of i"
  shows "map_option status_of_event (last_order_event es k) =
    (if k = pi_paper_order_intent_id i then Some ''INTENT_CREATED''
     else if k = order_id_of i then Some (paper_status_value status) else None)"
    "map event_type_of es = [''PAPER_ORDER_INTENT_CREATED'', ''PAPER_ORDER_ACCEPTED'', ''PAPER_ORDER_OPENED''] @
       (if status = OPEN then [] else [order_event_type status])"
    "map ev_seq es = map int [1 ..< Suc (length es)]"
proof -
  obtain e1 e2 e3 rest where es: "es = e1 # e2 # e3 # rest"
    and b: "books_as (pi_paper_order_intent_id i) ''PAPER_ORDER_INTENT_CREATED'' 1 ''INTENT_CREATED'' e1"
    "books_as (order_id_of i) ''PAPER_ORDER_ACCEPTED'' 2 ''ACCEPTED'' e2"
    "books_as (order_id_of i) ''PAPER_ORDER_OPENED'' 3 ''OPEN'' e3"
    and rest: "if status = OPEN then rest = []
         else \<exists>e4. rest = [e4] \<and> books_as (order_id_of i) (order_event_type status) 4 (paper_status_value status) e4"
    using assms(1) by (auto simp: run_events_def)
  have keys: "list_all is_order_event es" "list_all (\<lambda>y. order_key y = order_id_of i) (e2 # e3 # rest)"
    "status_of_event (last (e2 # e3 # rest)) = paper_status_value status"
    using b rest by (auto simp: es books_as_def split: if_splits)
  have "last_order_event es k = (if k = pi_paper_order_intent_id i then Some e1
      else if k = order_id_of i then Some (last (e2 # e3 # rest)) else None)"
    unfolding es by (rule last_order_event_of_run) (use keys b assms(2) in \<open>simp_all add: es books_as_def\<close>)
  then show "map_option status_of_event (last_order_event es k) =
    (if k = pi_paper_order_intent_id i then Some ''INTENT_CREATED''
     else if k = order_id_of i then Some (paper_status_value status) else None)"
    using keys(3) b(1) by (simp add: books_as_def)
  have "map event_type_of es = [''PAPER_ORDER_INTENT_CREATED'', ''PAPER_ORDER_ACCEPTED'', ''PAPER_ORDER_OPENED''] @
       (if status = OPEN then [] else [order_event_type status]) \<and> map ev_seq es = map int [1 ..< Suc (length es)]"
  proof (cases "status = OPEN")
    case True
    with rest have "es = [e1, e2, e3]" by (simp add: es)
    with True b show ?thesis by (simp add: books_as_def upt_rec)
  next
    case False
    with rest obtain e4 where e4: "es = [e1, e2, e3, e4]"
      "books_as (order_id_of i) (order_event_type status) 4 (paper_status_value status) e4"
      by (auto simp: es)
    with False b show ?thesis by (simp add: books_as_def upt_rec)
  qed
  then show "map event_type_of es = [''PAPER_ORDER_INTENT_CREATED'', ''PAPER_ORDER_ACCEPTED'', ''PAPER_ORDER_OPENED''] @
       (if status = OPEN then [] else [order_event_type status])"
    "map ev_seq es = map int [1 ..< Suc (length es)]" by blast+
qed

text \<open>What a completed run shows: its events, the order of its state and the simulation behind them.\<close>

definition completed_soundly :: "pipeline_request \<Rightarrow> pipeline_result \<Rightarrow> bool" where
  "completed_soundly q r \<longleftrightarrow>
     pl_completed r \<and> pl_blockers r = [] \<and> intent_ready (bridge_of q) \<and>
     (\<exists>i opened ts sim status es.
        pl_candidate_id r = Some (pi_candidate_id i) \<and>
        pi_paper_order_intent_id i = stable_intent_id (pi_candidate_id i) (pq_ts_epoch q) \<and> le_status opened = OPEN \<and>
        simulate_paper_fill (fill_request_of q (paper_intent_to_dict i) (lifecycle_event_to_dict opened) ts) = Inr sim \<and>
        final_status sim status \<and>
        map_result normalize_paper_event (map raw_of (pl_events r)) = Inr es \<and> well_ordered es \<and>
        map event_type_of es = [''PAPER_ORDER_INTENT_CREATED'', ''PAPER_ORDER_ACCEPTED'', ''PAPER_ORDER_OPENED''] @
          (if status = OPEN then [] else [order_event_type status]) \<and>
        map ev_seq es = map int [1 ..< Suc (length es)] \<and>
        (\<forall>k. state_order_status (pl_state r) k =
           (if k = pi_paper_order_intent_id i then Some ''INTENT_CREATED''
            else if k = order_id_of i then Some (paper_status_value status) else None)))"

lemma completed_soundly:
  assumes "run_paper_trading_pipeline q = Inr r" "pl_completed r" shows "completed_soundly q r"
proof -
  from completed_outcome [OF assms] obtain i opened ts sim status es s rd where
    ready: "intent_ready (bridge_of q)" and cid: "pl_candidate_id r = Some (pi_candidate_id i)" and bs: "pl_blockers r = []"
    and pid: "pi_paper_order_intent_id i = stable_intent_id (pi_candidate_id i) (pq_ts_epoch q)"
    and opened: "le_status opened = OPEN"
    and sim: "simulate_paper_fill (fill_request_of q (paper_intent_to_dict i) (lifecycle_event_to_dict opened) ts) = Inr sim"
    "final_status sim status"
    and es: "map_result normalize_paper_event (map raw_of (pl_events r)) = Inr es" "well_ordered es" "run_events i status es"
    and red: "reduction_of es s" "rd = s\<lparr>rs_summary := rs_summary rd\<rparr>" and state: "pl_state r = reduced_state_to_dict rd"
    by metis
  have ne: "pi_paper_order_intent_id i \<noteq> order_id_of i" unfolding pid order_id_of_def by (rule ids_differ)
  have orders: "state_order_status (pl_state r) k =
      (if k = pi_paper_order_intent_id i then Some ''INTENT_CREATED''
       else if k = order_id_of i then Some (paper_status_value status) else None)" for k
    unfolding state state_status_of_reduction [OF red] by (rule run_events_orders(1) [OF es(3) ne])
  show ?thesis
    unfolding completed_soundly_def
    using assms(2) ready cid bs pid opened sim es(1,2) run_events_orders(2,3) [OF es(3) ne] orders by blast
qed

lemma pipeline_refused_or_completed:
  assumes "run_paper_trading_pipeline q = Inr r" "\<not> pl_completed r" shows "refused r"
proof (cases "validate_pipeline_inputs q = []")
  case True
  have "pl_completed r'" if "pipeline_steps q = Inr r'" for r'
    using that by (auto simp: pipeline_steps_def completed_pipeline_def)
  with True assms pipeline_steps_refused [of q] show ?thesis
    by (auto simp: run_paper_trading_pipeline_def ends_refused_def split: sum.splits halt.splits)
next
  case False
  moreover have "dedupe (validate_pipeline_inputs q) = validate_pipeline_inputs q"
    by (simp add: validate_pipeline_inputs_def)
  ultimately show ?thesis using assms(1)
    by (auto simp: run_paper_trading_pipeline_def Let_def refused_def blocked_pipeline_def simp del: dedupe_eq_Nil)
qed

lemma run_events_counts:
  assumes "run_events i status es" "pi_paper_order_intent_id i \<noteq> order_id_of i" "status \<in> {OPEN, FILLED, PARTIALLY_FILLED, EXPIRED, REJECTED}"
  shows "card {k. last_order_event es k \<noteq> None} = 2"
    "card {k. \<exists>e. last_order_event es k = Some e \<and> status_of_event e \<in> set terminal_order_statuses} =
       (if status \<in> terminal_states then 1 else 0)"
proof -
  note st = run_events_orders(1) [OF assms(1,2)]
  have "last_order_event es k \<noteq> None \<longleftrightarrow> k \<in> {pi_paper_order_intent_id i, order_id_of i}" for k
    using st [of k] by (cases "last_order_event es k") (auto split: if_splits)
  then have "{k. last_order_event es k \<noteq> None} = {pi_paper_order_intent_id i, order_id_of i}" by blast
  then show "card {k. last_order_event es k \<noteq> None} = 2" using assms(2) by simp
  have terminals: "paper_status_value status \<in> set terminal_order_statuses \<longleftrightarrow> status \<in> terminal_states"
    "''INTENT_CREATED'' \<notin> set terminal_order_statuses"
    using assms(3) by (auto simp: terminal_order_statuses_def terminal_states_def)
  have "(\<exists>e. last_order_event es k = Some e \<and> status_of_event e \<in> set terminal_order_statuses) \<longleftrightarrow>
      k = order_id_of i \<and> status \<in> terminal_states" for k
    using st [of k] terminals assms(2) by (cases "last_order_event es k") (auto split: if_splits)
  then show "card {k. \<exists>e. last_order_event es k = Some e \<and> status_of_event e \<in> set terminal_order_statuses} =
       (if status \<in> terminal_states then 1 else 0)"
    by simp
qed

definition state_count :: "pydict \<Rightarrow> string \<Rightarrow> pyval" where
  "state_count state k = dget (as_dict (dget state ''summary'')) k"

text \<open>The counts of a completed run: the row of the intent never leaves INTENT_CREATED and counts as open.\<close>

definition counts_intent_row :: "pipeline_result \<Rightarrow> bool" where
  "counts_intent_row r \<longleftrightarrow>
     (\<exists>i status. state_order_status (pl_state r) (order_id_of i) = Some (paper_status_value status) \<and>
        state_count (pl_state r) ''event_count'' = PInt (int (length (pl_events r))) \<and>
        state_count (pl_state r) ''order_count'' = PInt 2 \<and>
        state_count (pl_state r) ''open_order_count'' = PInt (if status \<in> terminal_states then 1 else 2))"

lemma completed_counts:
  assumes "run_paper_trading_pipeline q = Inr r" "pl_completed r" shows "counts_intent_row r"
proof -
  from completed_outcome [OF assms] obtain i sim status es s rd where
    pid: "pi_paper_order_intent_id i = stable_intent_id (pi_candidate_id i) (pq_ts_epoch q)"
    and st: "final_status sim status"
    and es: "map_result normalize_paper_event (map raw_of (pl_events r)) = Inr es" "run_events i status es"
    and red: "reduction_of es s" "build_summary s = Inr (rs_summary rd)" "rd = s\<lparr>rs_summary := rs_summary rd\<rparr>"
    and state: "pl_state r = reduced_state_to_dict rd"
    by metis
  have ne: "pi_paper_order_intent_id i \<noteq> order_id_of i" unfolding pid order_id_of_def by (rule ids_differ)
  have status: "status \<in> {OPEN, FILLED, PARTIALLY_FILLED, EXPIRED, REJECTED}"
    using st by (auto simp: final_status_def split: option.splits)
  note counts = reduction_summary [OF red(1,2)] run_events_counts [OF es(2) ne status]
  have "state_count (pl_state r) k = dget (rs_summary rd) k" for k
    by (simp add: state_count_def state reduced_state_to_dict_def)
  moreover have "length es = length (pl_events r)" using map_result_length [OF es(1)] by simp
  moreover have "state_order_status (pl_state r) (order_id_of i) = Some (paper_status_value status)"
    unfolding state state_status_of_reduction [OF red(1,3)] run_events_orders(1) [OF es(2) ne] using ne by simp
  moreover have "dget (rs_summary rd) ''open_order_count'' = PInt (if status \<in> terminal_states then 1 else 2)"
    using counts(2,3,6,7,8) by auto
  ultimately show ?thesis
    using counts(1,2,7) unfolding counts_intent_row_def by (intro exI [of _ i] exI [of _ status]) simp
qed

end
