(* ===== verification/Py_Float_Order.thy ===== *)
theory Py_Float_Order
  imports Py_Float
begin

text \<open>
  The rounding to binary64 of \<open>Py_Float\<close> is monotone and leaves a float as it is, so that
  adding a non-negative float never decreases a float.
\<close>

section \<open>Powers of two and the exponent\<close>

lemma pow2_powr: "pow2 e = 2 powi e"
  by (simp add: pow2_def power_int_def inverse_eq_divide power_one_over)

lemma pow2_add: "pow2 (a + b) = pow2 a * pow2 b"
  by (simp add: pow2_powr power_int_add)

lemma pow2_nat: "pow2 (int n) = 2 ^ n"
  by (simp add: pow2_def)

lemma pow2_less_iff [simp]: "pow2 a < pow2 b \<longleftrightarrow> a < b"
proof -
  have up: "a < b \<Longrightarrow> pow2 a < pow2 b" for a b by (simp add: pow2_powr power_int_strict_increasing)
  from up [of a b] up [of b a] show ?thesis by (cases a b rule: linorder_cases) auto
qed

lemma pow2_le_iff [simp]: "pow2 a \<le> pow2 b \<longleftrightarrow> a \<le> b"
  by (simp add: linorder_not_less [symmetric])

lemma bitlen_pow2:
  assumes "0 < n" shows "pow2 (bitlen n - 1) \<le> of_int n" "of_int n < pow2 (bitlen n)"
proof -
  have "0 < bitlen n" using assms bitlen_nonneg [of n] bitlen_eq_zero_iff [of n] by linarith
  then have eq: "pow2 (bitlen n - 1) = of_int (2 ^ nat (bitlen n - 1))" "pow2 (bitlen n) = of_int (2 ^ nat (bitlen n))"
    by (simp_all add: pow2_def)
  note bounds = bitlen_bounds [OF assms]
  show "pow2 (bitlen n - 1) \<le> of_int n" "of_int n < pow2 (bitlen n)"
    using bounds by (simp_all only: eq of_int_le_iff of_int_less_iff)
qed

lemma exponent_bounds:
  assumes "x \<noteq> 0" shows "pow2 (exponent_of x) \<le> \<bar>x\<bar>" "\<bar>x\<bar> < pow2 (exponent_of x + 1)"
proof -
  obtain p q where pq: "quotient_of \<bar>x\<bar> = (p, q)" by (cases "quotient_of \<bar>x\<bar>")
  have q: "0 < q" by (rule quotient_of_denom_pos [OF pq])
  have x: "\<bar>x\<bar> = of_int p / of_int q" by (rule quotient_of_div [OF pq])
  have "0 < \<bar>x\<bar>" using assms by simp
  then have p: "0 < p" using q unfolding x by (simp add: zero_less_divide_iff)
  let ?e = "bitlen p - bitlen q"
  have up: "\<bar>x\<bar> < pow2 (?e + 1)"
  proof -
    have "of_int p < pow2 (bitlen p)" "pow2 (bitlen q - 1) \<le> of_int q" using bitlen_pow2 p q by simp_all
    moreover have "pow2 (bitlen p) = pow2 (?e + 1) * pow2 (bitlen q - 1)" by (simp flip: pow2_add)
    ultimately have "of_int p < pow2 (?e + 1) * of_int q"
      by (metis mult_left_mono order_less_le_trans pow2_pos less_imp_le)
    with q show ?thesis unfolding x by (simp add: divide_less_eq)
  qed
  have low: "pow2 (?e - 1) \<le> \<bar>x\<bar>"
  proof -
    have "pow2 (bitlen p - 1) \<le> of_int p" "of_int q < pow2 (bitlen q)" using bitlen_pow2 p q by simp_all
    moreover have "pow2 (bitlen p - 1) = pow2 (?e - 1) * pow2 (bitlen q)" by (simp flip: pow2_add)
    ultimately have "pow2 (?e - 1) * of_int q \<le> of_int p"
      by (metis mult_left_mono order_trans pow2_pos less_imp_le)
    with q show ?thesis unfolding x by (simp add: le_divide_eq)
  qed
  show "pow2 (exponent_of x) \<le> \<bar>x\<bar>" using low by (simp add: exponent_of_def pq Let_def)
  show "\<bar>x\<bar> < pow2 (exponent_of x + 1)" using up by (simp add: exponent_of_def pq Let_def)
qed

lemma exponent_mono:
  assumes "x \<noteq> 0" "\<bar>x\<bar> \<le> \<bar>y\<bar>" shows "exponent_of x \<le> exponent_of y"
proof -
  have "y \<noteq> 0" using assms by auto
  then have "pow2 (exponent_of x) < pow2 (exponent_of y + 1)"
    using exponent_bounds [OF assms(1)] exponent_bounds [of y] assms(2) by linarith
  then show ?thesis by simp
qed

lemma exponent_less:
  assumes "x \<noteq> 0" "\<bar>x\<bar> < pow2 e" shows "exponent_of x < e"
  using exponent_bounds(1) [OF assms(1)] assms(2) by (metis order_le_less_trans pow2_less_iff)

lemma exponent_uminus [simp]: "exponent_of (- x) = exponent_of x"
  by (simp add: exponent_of_def)

section \<open>The significand\<close>

lemma round_half_even_mono: assumes "x \<le> y" shows "round_half_even x \<le> round_half_even y"
proof (cases "\<lfloor>x\<rfloor> = \<lfloor>y\<rfloor>")
  case True
  with assms show ?thesis by (auto simp: round_half_even_def Let_def)
next
  case False
  with assms have "\<lfloor>x\<rfloor> + 1 \<le> \<lfloor>y\<rfloor>" using floor_mono [OF assms] by linarith
  with round_half_even_bounds [of x] round_half_even_bounds [of y] show ?thesis by linarith
qed

lemma round_half_even_uminus: "round_half_even (- x) = - round_half_even x"
proof (cases "x = of_int \<lfloor>x\<rfloor>")
  case True
  then show ?thesis using round_half_even_of_int [of "\<lfloor>x\<rfloor>"] round_half_even_of_int [of "- \<lfloor>x\<rfloor>"] by simp
next
  case False
  then have "\<lfloor>- x\<rfloor> = - \<lfloor>x\<rfloor> - 1" by (simp add: floor_minus) linarith
  then show ?thesis by (auto simp: round_half_even_def Let_def)
qed

text \<open>The unit in the last place and the significand of a non-zero number.\<close>

definition ulp_of :: "rat \<Rightarrow> int" where
  "ulp_of x = max (exponent_of x - 52) (- 1074)"

definition significand_of :: "rat \<Rightarrow> int" where
  "significand_of x = round_half_even (x / pow2 (ulp_of x))"

definition too_large :: "rat \<Rightarrow> bool" where
  "too_large x \<longleftrightarrow> 971 < ulp_of x \<or> ulp_of x = 971 \<and> 2 ^ 53 \<le> \<bar>significand_of x\<bar>"

lemma round64_cases:
  "x \<noteq> 0 \<Longrightarrow> round64 x =
     (if too_large x then (if 0 < x then PosInf else NegInf) else Fin (of_int (significand_of x) * pow2 (ulp_of x)))"
  unfolding round64_def too_large_def significand_of_def Let_def ulp_of_def [symmetric] by simp

lemma significand_bound:
  assumes "0 < x" shows "significand_of x \<le> 2 ^ 53"
proof -
  have "x < pow2 (exponent_of x + 1)" using exponent_bounds [of x] assms by simp
  also have "\<dots> \<le> pow2 (53 + ulp_of x)" by (simp add: ulp_of_def)
  finally have "x / pow2 (ulp_of x) \<le> of_int (2 ^ 53)" by (simp add: pow2_add pow2_nat [of 53, simplified] divide_le_eq)
  from round_half_even_mono [OF this] show ?thesis unfolding significand_of_def round_half_even_of_int .
qed

lemma significand_nonneg: "0 < x \<Longrightarrow> 0 \<le> significand_of x"
  unfolding significand_of_def by (intro round_half_even_nonneg) (simp add: less_imp_le)

lemma significand_normal:
  assumes "0 < x" "- 1074 < ulp_of x" shows "2 ^ 52 \<le> significand_of x"
proof -
  have "52 + ulp_of x = exponent_of x" using assms(2) by (simp add: ulp_of_def)
  then have "pow2 (52 + ulp_of x) \<le> x" using exponent_bounds(1) [of x] assms(1) by simp
  then have "of_int (2 ^ 52) \<le> x / pow2 (ulp_of x)" by (simp add: pow2_add pow2_nat [of 52, simplified] le_divide_eq)
  from round_half_even_mono [OF this] show ?thesis unfolding significand_of_def round_half_even_of_int .
qed

section \<open>Monotone and idempotent\<close>

lemma round64_uminus: "round64 (- x) = float_neg (round64 x)"
proof (cases "x = 0")
  case False
  have "ulp_of (- x) = ulp_of x" "significand_of (- x) = - significand_of x"
    by (simp_all add: ulp_of_def significand_of_def round_half_even_uminus)
  with False show ?thesis by (simp add: round64_cases too_large_def)
qed simp

lemma round64_mono_pos:
  assumes "0 < x" "x \<le> y" shows "float_le (round64 x) (round64 y)"
proof -
  have ulp: "ulp_of x \<le> ulp_of y" using exponent_mono [of x y] assms by (auto simp: ulp_of_def)
  have sizes: "of_int (significand_of x) * pow2 (ulp_of x) \<le> of_int (significand_of y) * pow2 (ulp_of y) \<and>
      (too_large x \<longrightarrow> too_large y)"
  proof (cases "ulp_of x = ulp_of y")
    case True
    have "x / pow2 (ulp_of x) \<le> y / pow2 (ulp_of y)" using assms True by (simp add: divide_right_mono less_imp_le)
    then have m: "significand_of x \<le> significand_of y" unfolding significand_of_def by (rule round_half_even_mono)
    moreover have "0 \<le> significand_of x" using assms(1) by (rule significand_nonneg)
    ultimately show ?thesis using True by (auto simp: too_large_def)
  next
    case False
    with ulp have less: "ulp_of x < ulp_of y" by simp
    then have y: "2 ^ 52 \<le> significand_of y" using assms by (intro significand_normal) (auto simp: ulp_of_def)
    have "of_int (significand_of x) * pow2 (ulp_of x) \<le> of_int (2 ^ 53) * pow2 (ulp_of x)"
      using significand_bound [OF assms(1)] by (intro mult_right_mono) (simp_all only: of_int_le_iff pow2_pos less_imp_le)
    also have "\<dots> = of_int (2 ^ 52) * pow2 (ulp_of x + 1)" by (simp add: pow2_add pow2_nat [of 1, simplified])
    also have "\<dots> \<le> of_int (significand_of y) * pow2 (ulp_of y)"
      using y less by (intro mult_mono) (simp_all only: of_int_le_iff pow2_le_iff pow2_pos less_imp_le, simp_all add: less_imp_le)
    finally show ?thesis using less by (auto simp: too_large_def)
  qed
  then show ?thesis using assms by (auto simp: round64_cases float_le_def float_eq_def)
qed

lemma float_le_neg: "float_le (float_neg y) (float_neg x) \<longleftrightarrow> float_le x y"
  by (cases x; cases y) (auto simp: float_le_def float_eq_def)

lemma float_neg_neg [simp]: "float_neg (float_neg x) = x"
  by (cases x) simp_all

lemma round64_mono: assumes "x \<le> y" shows "float_le (round64 x) (round64 y)"
proof -
  consider "0 < x" | "x \<le> 0" "0 \<le> y" | "y < 0" by linarith
  then show ?thesis
  proof cases
    case 1
    then show ?thesis using assms by (rule round64_mono_pos)
  next
    case 2
    then have "float_nonneg (round64 y)" "float_nonneg (round64 (- x))" by (simp_all add: round64_nonneg)
    then show ?thesis unfolding round64_uminus
      by (cases "round64 x"; cases "round64 y") (auto simp: float_le_def float_eq_def)
  next
    case 3
    then have "float_le (round64 (- y)) (round64 (- x))" using assms by (intro round64_mono_pos) simp_all
    then show ?thesis by (simp add: round64_uminus float_le_neg)
  qed
qed

text \<open>The floats: at most 53 bits of significand, and the range of binary64.\<close>

lemma round64_significand:
  assumes "0 < m" "m \<le> 2 ^ 53" "- 1074 \<le> s" "s \<le> 971" "s = 971 \<longrightarrow> m < 2 ^ 53"
  shows "round64 (of_int m * pow2 s) = Fin (of_int m * pow2 s)"
proof -
  let ?x = "of_int m * pow2 s :: rat"
  have pos: "0 < ?x" using assms(1) by simp
  define k where "k = (if m < 2 ^ 53 then s else s + 1)"
  have "?x < pow2 (53 + k)"
  proof (cases "m < 2 ^ 53")
    case True
    then have "of_int m < (2 ^ 53 :: rat)" by (metis of_int_less_iff of_int_numeral of_int_power)
    with True show ?thesis by (simp add: k_def pow2_add pow2_nat [of 53, simplified])
  next
    case False
    with assms(2) have "m = 2 ^ 53" by simp
    then have "?x = pow2 (53 + s)" by (simp add: pow2_add pow2_nat [of 53, simplified])
    then show ?thesis using False by (simp add: k_def)
  qed
  then have "exponent_of ?x < 53 + k" using pos by (intro exponent_less) (simp_all only: abs_of_pos less_imp_neq [THEN not_sym] not_False_eq_True)
  then have u: "ulp_of ?x \<le> k" using assms(3) by (auto simp: ulp_of_def k_def)
  obtain n where n: "?x = of_int n * pow2 (ulp_of ?x)" "n = 2 ^ 52 \<or> ulp_of ?x \<le> s \<and> n = m * 2 ^ nat (s - ulp_of ?x)"
  proof (cases "ulp_of ?x \<le> s")
    case True
    then have "pow2 s = of_int (2 ^ nat (s - ulp_of ?x)) * pow2 (ulp_of ?x)"
      using pow2_add [of "s - ulp_of ?x" "ulp_of ?x"] by (simp add: pow2_def [of "s - ulp_of ?x"])
    then have "?x = of_int (m * 2 ^ nat (s - ulp_of ?x)) * pow2 (ulp_of ?x)" by simp
    with True that show thesis by blast
  next
    case False
    with u have "ulp_of ?x = s + 1" "m = 2 ^ 53" using assms(2) by (auto simp: k_def split: if_splits)
    then have "?x = of_int (2 ^ 52) * pow2 (ulp_of ?x)" by (simp add: pow2_add pow2_nat [of 1, simplified])
    with that show thesis by blast
  qed
  have sig: "significand_of ?x = n"
  proof -
    have "?x / pow2 (ulp_of ?x) = of_int n"
      by (subst n(1)) (simp add: pow2_pos [THEN less_imp_neq, THEN not_sym])
    then show ?thesis unfolding significand_of_def by simp
  qed
  have "\<not> too_large ?x"
  proof
    assume "too_large ?x"
    then have big: "ulp_of ?x = 971" "2 ^ 53 \<le> n"
      using u assms(4,5) sig significand_bound [OF pos] significand_nonneg [OF pos] by (auto simp: too_large_def k_def split: if_splits)
    with n(2) have "s = 971" "n = m" using assms(4) by auto
    with big(2) assms(5) show False by simp
  qed
  moreover have "?x \<noteq> 0" using pos by (rule less_imp_neq [THEN not_sym])
  ultimately show ?thesis using round64_cases [of ?x] n(1) unfolding sig by presburger
qed

text \<open>A rounded value is a float, and rounding it again changes nothing.\<close>

lemma round64_value_pos:
  assumes "0 < x" "round64 x = Fin a" shows "round64 a = Fin a"
proof (cases "significand_of x = 0")
  case True
  with assms show ?thesis by (auto simp: round64_cases split: if_splits)
next
  case False
  have a: "a = of_int (significand_of x) * pow2 (ulp_of x)" "\<not> too_large x"
    using assms by (auto simp: round64_cases split: if_splits)
  show ?thesis unfolding a(1)
    by (rule round64_significand)
      (use False significand_nonneg [OF assms(1)] significand_bound [OF assms(1)] a(2) in \<open>auto simp: too_large_def ulp_of_def\<close>)
qed

lemma round64_value: assumes "round64 x = Fin a" shows "round64 a = Fin a"
proof (cases x "0 :: rat" rule: linorder_cases)
  case less
  have "round64 (- x) = Fin (- a)" by (simp add: round64_uminus assms)
  with less have "round64 (- a) = Fin (- a)" by (intro round64_value_pos) simp_all
  then have "float_neg (round64 a) = Fin (- a)" by (simp add: round64_uminus)
  then show ?thesis by (cases "round64 a") simp_all
next
  case equal
  with assms show ?thesis by simp
next
  case greater
  then show ?thesis using assms by (rule round64_value_pos)
qed

section \<open>Adding a non-negative number\<close>

lemma float_le_trans: "float_le x y \<Longrightarrow> float_le y z \<Longrightarrow> float_le x z"
  by (cases x; cases y; cases z) (auto simp: float_le_def float_eq_def)

lemma float_le_refl: "x \<noteq> NaN \<Longrightarrow> float_le x x"
  by (simp add: float_le_def float_eq_def)

lemma float_le_inf: "x \<noteq> NaN \<Longrightarrow> float_le NegInf x" "x \<noteq> NaN \<Longrightarrow> float_le x PosInf"
  by (cases x; simp add: float_le_def float_eq_def)+

lemma float_le_not_lt: "float_le x y \<Longrightarrow> \<not> float_lt y x"
  by (cases x; cases y) (auto simp: float_le_def float_eq_def)

lemma float_add_mono:
  assumes "float_le x y" "a \<le> b" shows "float_le (float_add x (Fin a)) (float_add y (Fin b))"
proof (cases "x = NegInf \<or> y = PosInf")
  case True
  have "x \<noteq> NaN" "y \<noteq> NaN" using assms(1) by (cases x; cases y; simp add: float_le_def float_eq_def)+
  then have "float_add x (Fin a) \<noteq> NaN" "float_add y (Fin b) \<noteq> NaN" by (cases x; cases y; simp)+
  with True show ?thesis using float_le_inf by auto
next
  case False
  then obtain c d where "x = Fin c" "y = Fin d" "c \<le> d"
    using assms(1) by (cases x; cases y) (auto simp: float_le_def float_eq_def)
  with assms(2) show ?thesis by (simp add: round64_mono)
qed

text \<open>A float in the sense of the machine: an infinity, NaN, or a value that rounding keeps.\<close>

definition is_float :: "pyfloat \<Rightarrow> bool" where
  "is_float x \<longleftrightarrow> (case x of Fin a \<Rightarrow> round64 a = Fin a | _ \<Rightarrow> True)"

lemma is_float_round64 [simp]: "is_float (round64 x)"
  by (cases "round64 x") (simp_all add: is_float_def round64_value)

lemma is_float_add [simp]: "is_float (float_add x y)"
  by (cases x; cases y) (simp_all add: is_float_def [of NaN] is_float_def [of PosInf] is_float_def [of NegInf])

lemma float_add_up:
  assumes "is_float x" "0 \<le> a" shows "x \<noteq> NaN \<Longrightarrow> float_le x (float_add x (Fin a))"
proof (cases x)
  case (Fin c)
  then show ?thesis using assms round64_mono [of c "c + a"] by (simp add: is_float_def)
qed (simp_all add: float_le_def float_eq_def)

end
