(* ===== verification/Paper_Pipeline_Live.thy ===== *)
theory Paper_Pipeline_Live
  imports Paper_Pipeline Py_Float_Order
begin

text \<open>
  The pipeline completes: on safe and readable inputs every stage of
  src/paper_trading/pipeline.py succeeds, so that only a collision of the truncated digests
  that number the events could block the run.
\<close>

section \<open>The lifecycle stages\<close>

lemma intent_ok_created:
  assumes "build_paper_intent b = Inr rb" "ir_intent rb = Some i"
  shows "intent_ok (paper_intent_to_dict i)" "int_or_zero (dget (paper_intent_to_dict i) ''quantity'') = Inr (or_zero (pi_quantity i))"
proof -
  note ids = created_intent_ids [OF assms]
  show "intent_ok (paper_intent_to_dict i)"
    unfolding intent_ok_def using paper_intent_report.flags [of i] ids(1,2) by simp
  show "int_or_zero (dget (paper_intent_to_dict i) ''quantity'') = Inr (or_zero (pi_quantity i))"
    by (cases "pi_quantity i") (simp_all add: paper_intent_to_dict_def)
qed

lemma next_event_total:
  assumes "intent_ok i" "int_or_zero (dget i ''quantity'') = Inr n" "coerce_status (StatusText st) = Some s"
    and "move_ok (previous_status prev) s" "fill_ok s n fill" "int_or_none filled = Inr fill" "float_or_none price = Inr pr"
    and "filled_quantity_for s prev filled n = Inr nf" "previous_sequence prev = Inr sq"
  shows "\<exists>r e. build_lifecycle_event
      \<lparr>rq_intent = PDict i, rq_requested_status = StatusText st, rq_previous_event = prev, rq_ts_epoch = ts,
       rq_reason = why, rq_filled_quantity = filled, rq_average_fill_price = price\<rparr> = Inr r \<and> lr_created r \<and> lr_event r = Some e \<and>
    le_status e = s \<and> le_filled_quantity e = nf \<and> le_event_sequence e = sq + 1 \<and>
    le_paper_order_intent_id e = py_str (dget i ''paper_order_intent_id'') \<and> le_candidate_id e = py_str (dget i ''candidate_id'') \<and>
    le_paper_order_id e = stable_paper_order_id (py_str (dget i ''paper_order_intent_id'')) (py_str (dget i ''candidate_id''))"
    (is "\<exists>r e. build_lifecycle_event ?q = _ \<and> _")
proof -
  have "quantity_of (rq_intent ?q) = n" using assms(2) by (simp add: quantity_of_def)
  then have "request_ok ?q s fill" using assms by (simp add: request_ok_def)
  from build_total [OF _ _ this] assms have "\<exists>r. build_lifecycle_event ?q = Inr r \<and> lr_created r \<and> lr_event r = Some (event_of_request ?q s nf sq pr)"
    by simp
  then show ?thesis by force
qed

text \<open>An event of the run before the fill.\<close>

definition follows :: "paper_intent \<Rightarrow> paper_status \<Rightarrow> lifecycle_event \<Rightarrow> bool" where
  "follows i s e \<longleftrightarrow>
     le_status e = s \<and> le_filled_quantity e = 0 \<and>
     le_paper_order_intent_id e = pi_paper_order_intent_id i \<and> le_candidate_id e = pi_candidate_id i \<and>
     le_paper_order_id e = order_id_of i"

lemma previous_of_facts:
  "previous_status (previous_of e) = Some (paper_status_value (le_status e))" "previous_sequence (previous_of e) = Inr (le_event_sequence e)"
  by (simp_all add: previous_of_def previous_status_def previous_sequence_def)

lemma filled_quantity_kept:
  "s \<noteq> FILLED \<Longrightarrow> s \<noteq> PARTIALLY_FILLED \<Longrightarrow> filled_quantity_for s (previous_of e) v n = Inr (le_filled_quantity e)"
  "filled_quantity_for CREATED NoEvent v n = Inr 0"
  by (simp_all add: filled_quantity_for_def previous_of_def)

lemma lifecycle_stage_total:
  assumes i: "intent_ok (paper_intent_to_dict i)" "int_or_zero (dget (paper_intent_to_dict i) ''quantity'') = Inr n"
    and ts: "offset_ts (pq_ts_epoch q) offset = Inr t" and s: "coerce_status (StatusText status) = Some s"
    and prev: "prev = NoEvent \<and> s = CREATED \<or>
      (\<exists>e0 s0. prev = previous_of e0 \<and> follows i s0 e0 \<and> s \<in> valid_next (Some s0) \<and> s \<in> {ACCEPTED, OPEN})"
  shows "\<exists>e st'. lifecycle_stage q name source fallback status (paper_intent_to_dict i) prev offset st = Inr (lifecycle_event_to_dict e, st') \<and>
    follows i s e \<and> pw_events st' = pw_events st"
proof -
  have facts: "move_ok (previous_status prev) s \<and> (\<exists>sq. previous_sequence prev = Inr sq) \<and>
      filled_quantity_for s prev PNone n = Inr 0 \<and> fill_ok s n None"
    using prev
  proof (elim disjE exE conjE)
    assume "prev = NoEvent" "s = CREATED"
    then show ?thesis by (simp add: move_ok_def previous_sequence_def filled_quantity_kept fill_ok_def)
  next
    fix e0 s0
    assume p: "prev = previous_of e0" "follows i s0 e0" "s \<in> valid_next (Some s0)" "s \<in> {ACCEPTED, OPEN}"
    then show ?thesis
      by (auto simp: move_ok_def previous_of_facts filled_quantity_kept fill_ok_def follows_def)
  qed
  then obtain sq where sq: "previous_sequence prev = Inr sq" by blast
  from next_event_total [OF i s, of prev None PNone PNone None 0 sq t None] facts sq
  obtain r e where r: "build_lifecycle_event
      \<lparr>rq_intent = PDict (paper_intent_to_dict i), rq_requested_status = StatusText status, rq_previous_event = prev, rq_ts_epoch = t,
       rq_reason = None, rq_filled_quantity = PNone, rq_average_fill_price = PNone\<rparr> = Inr r" "lr_created r" "lr_event r = Some e"
    and e: "follows i s e" by (auto simp: follows_def order_id_of_def)
  have "raising (Inr x) = (Inr x :: halt + 'x)" for x :: 'x by (simp add: raising_def)
  with r ts have "lifecycle_stage q name source fallback status (paper_intent_to_dict i) prev offset st =
      Inr (lifecycle_event_to_dict e, record_stage name (lifecycle_result_to_dict r) (lr_warnings r) st)"
    by (simp add: lifecycle_stage_def Let_def)
  then show ?thesis using e by auto
qed

section \<open>The simulation\<close>

text \<open>Every number that the simulation reads from the quote can be read.\<close>

definition quote_readable :: "pydict \<Rightarrow> bool" where
  "quote_readable quote \<longleftrightarrow>
     list_all (\<lambda>v. \<not> isl (float_or_none v))
       [dget quote ''order_expiry_epoch'', py_or (dget quote ''bid'') (dget quote ''best_bid''),
        py_or (dget quote ''ask'') (dget quote ''best_ask''),
        py_or (py_or (dget quote ''last'') (dget quote ''ltp'')) (dget quote ''mark'')] \<and>
     list_all (\<lambda>k. \<not> isl (int_or_none (dget quote k)))
       [''available_quantity'', ''available_qty'', ''fillable_quantity'', ''fillable_qty'', ''size'', ''quantity'']"

lemma quote_usable_code [code]:
  "quote_usable quote age max_age \<longleftrightarrow>
     quote \<noteq> [] \<and> upper_text (dget quote ''source'') \<in> set controlled_quote_sources \<and>
     dget quote ''is_order_action'' = PBool False \<and> dget quote ''broker_api_called'' \<noteq> PBool True \<and>
     is_blank (dget quote ''real_order_id'') \<and> (case age of None \<Rightarrow> True | Some a \<Rightarrow> \<not> float_lt max_age a)"
  by (auto simp: quote_usable_def split: option.split)

lemma first_int_total: "list_all (\<lambda>k. \<not> isl (int_or_none (dget d k))) ks \<Longrightarrow> \<exists>v. Paper_Fill.first_int d ks = Inr v"
proof (induction ks)
  case (Cons k ks)
  then obtain v w where "Paper_Fill.first_int d ks = Inr v" "int_or_none (dget d k) = Inr w" by (auto simp: not_isl)
  then show ?case by (cases w) simp_all
qed simp

lemma simulation_numbers:
  assumes "quote_readable quote"
  shows "\<exists>b. order_expired (paper_intent_to_dict i) quote now = Inr b"
    "\<exists>p. resolved_fill_price (paper_intent_to_dict i) quote = Inr p" "\<exists>v. available_quantity quote n = Inr v"
proof -
  have "dget (paper_intent_to_dict i) ''order_expiry_epoch'' = PNone" "dget (paper_intent_to_dict i) ''price'' = opt_float (pi_price i)"
    by (simp_all add: paper_intent_to_dict_def)
  moreover obtain expiry bid ask last where "float_or_none (dget quote ''order_expiry_epoch'') = Inr expiry"
    "float_or_none (py_or (dget quote ''bid'') (dget quote ''best_bid'')) = Inr bid"
    "float_or_none (py_or (dget quote ''ask'') (dget quote ''best_ask'')) = Inr ask"
    "float_or_none (py_or (py_or (dget quote ''last'') (dget quote ''ltp'')) (dget quote ''mark'')) = Inr last"
    using assms by (auto simp: quote_readable_def not_isl)
  moreover have "py_or v PNone = (if truthy v then v else PNone)" for v by (simp add: py_or_def)
  ultimately show "\<exists>b. order_expired (paper_intent_to_dict i) quote now = Inr b"
    "\<exists>p. resolved_fill_price (paper_intent_to_dict i) quote = Inr p"
    by (auto simp: order_expired_def resolved_fill_price_def Let_def)
  from assms first_int_total [of quote] show "\<exists>v. available_quantity quote n = Inr v"
    by (auto simp: available_quantity_def quote_readable_def simp del: first_int.simps)
qed

lemma validation_clear:
  assumes "intent_ok (paper_intent_to_dict i)" "pi_quantity i = Some n" "0 < n" "follows i OPEN opened"
    and "quote_age_sec quote now = Inr age" "quote_usable quote age m"
  shows "\<exists>ws. validate_simulation_inputs (paper_intent_to_dict i) (lifecycle_event_to_dict opened) quote now m = Inr ([], ws)"
proof -
  have "simulation_intent_blockers (paper_intent_to_dict i) = Inr []"
    using assms(2,3) paper_intent_report.flags [of i] paper_intent_report.not_empty [of i]
    by (simp add: simulation_intent_blockers_def) (simp add: paper_intent_to_dict_def)
  moreover have "upper (paper_status_value OPEN) = ''OPEN''" "''OPEN'' \<notin> paper_status_value ` terminal_states"
    "''OPEN'' \<in> set fillable_previous_statuses" by code_simp+
  then have "simulation_event_blockers (lifecycle_event_to_dict opened) = []"
    using assms(4) lifecycle_event_report.flags [of opened] lifecycle_event_report.not_empty [of opened]
    by (simp add: simulation_event_blockers_def Let_def follows_def upper_text_def str_or_empty_def)
  moreover have "simulation_mismatch_blockers (paper_intent_to_dict i) (lifecycle_event_to_dict opened) = []"
    using assms(4) by (simp add: simulation_mismatch_blockers_def follows_def)
  moreover have "quote_blockers quote age m = []"
    using assms(6) by (auto simp: quote_blockers_def quote_usable_def split: option.splits)
  ultimately show ?thesis using assms(5) by (simp add: validate_simulation_inputs_def)
qed

text \<open>The event that ends or fills an open order.\<close>

lemma next_of_open:
  assumes i: "intent_ok (paper_intent_to_dict i)" "int_or_zero (dget (paper_intent_to_dict i) ''quantity'') = Inr n" "follows i OPEN e"
    and s: "coerce_status (StatusText text) = Some s" "s \<in> {EXPIRED, REJECTED}"
  shows "\<exists>r. build_lifecycle_event
      \<lparr>rq_intent = PDict (paper_intent_to_dict i), rq_requested_status = StatusText text,
       rq_previous_event = EventValue (PDict (lifecycle_event_to_dict e)), rq_ts_epoch = ts, rq_reason = why,
       rq_filled_quantity = PInt 0, rq_average_fill_price = PNone\<rparr> = Inr r \<and> lr_created r"
  unfolding previous_of_def [symmetric]
  using next_event_total [OF i(1,2) s(1), of "previous_of e" "Some 0" "PInt 0" PNone None 0 "le_event_sequence e"] s(2) i(3)
  by (auto simp: previous_of_facts filled_quantity_kept follows_def move_ok_def fill_ok_def)

lemma coerce_end_texts:
  "coerce_status (StatusText ''EXPIRED'') = Some EXPIRED" "coerce_status (StatusText ''REJECTED'') = Some REJECTED"
  by code_simp+

lemma fill_of_open:
  assumes i: "intent_ok (paper_intent_to_dict i)" "int_or_zero (dget (paper_intent_to_dict i) ''quantity'') = Inr n" "follows i OPEN e"
    and c: "0 < c" "c \<le> n"
  shows "\<exists>r. build_lifecycle_event
      \<lparr>rq_intent = PDict (paper_intent_to_dict i), rq_requested_status = StatusText (if n = c then ''FILLED'' else ''PARTIALLY_FILLED''),
       rq_previous_event = EventValue (PDict (lifecycle_event_to_dict e)), rq_ts_epoch = ts, rq_reason = why,
       rq_filled_quantity = PInt c, rq_average_fill_price = PFloat p\<rparr> = Inr r \<and> lr_created r"
proof -
  have "filled_quantity_for (if n = c then FILLED else PARTIALLY_FILLED) (previous_of e) (PInt c) n = Inr c"
    using c by (simp add: filled_quantity_for_def previous_of_def)
  moreover have "move_ok (previous_status (previous_of e)) (if n = c then FILLED else PARTIALLY_FILLED)"
    using i(3) by (simp add: previous_of_facts move_ok_def follows_def)
  moreover have "fill_ok (if n = c then FILLED else PARTIALLY_FILLED) n (Some c)" using c by (simp add: fill_ok_def)
  ultimately show ?thesis
    using next_event_total [OF i(1,2) coerce_fill_text [of "n = c"], of "previous_of e" "Some c" "PInt c" "PFloat p" "Some p" c "le_event_sequence e" ts why]
    unfolding previous_of_def [symmetric] by (auto simp: previous_of_facts)
qed

text \<open>
  An open order and a usable, readable quote: the simulation ends without a blocker, with the
  status that the quote asks for.
\<close>

definition expected_fill :: "pipeline_request \<Rightarrow> paper_intent \<Rightarrow> simulation_status" where
  "expected_fill q i =
     (let quote = as_dict (pq_quote q); n = or_zero (pi_quantity i)
      in if order_expired (paper_intent_to_dict i) quote (pq_now_epoch q) = Inr True then EXPIRED_FILL
         else if quote_rejected quote then REJECTED_FILL
         else case (resolved_fill_price (paper_intent_to_dict i) quote, available_quantity quote n) of
                (Inr (Some _), Inr avail) \<Rightarrow> if avail \<le> 0 then NO_FILL else if n \<le> avail then FULL_FILL else PARTIAL_FILL
              | _ \<Rightarrow> NO_FILL)"

lemma simulation_total:
  assumes i: "intent_ok (paper_intent_to_dict i)" "pi_quantity i = Some n" "0 < n" "follows i OPEN opened"
    and age: "quote_age_sec (as_dict (pq_quote q)) (pq_now_epoch q) = Inr age" "quote_usable (as_dict (pq_quote q)) age (pq_max_quote_age q)"
    and read: "quote_readable (as_dict (pq_quote q))"
  shows "\<exists>r. simulate_paper_fill (fill_request_of q (paper_intent_to_dict i) (lifecycle_event_to_dict opened) ts) = Inr r \<and>
    si_status r = expected_fill q i"
proof -
  let ?i = "paper_intent_to_dict i" and ?e = "lifecycle_event_to_dict opened" and ?u = "as_dict (pq_quote q)"
  have n: "int_or_zero (dget ?i ''quantity'') = Inr n" using i(2) by (simp add: paper_intent_to_dict_def)
  have prev: "int_or_zero (dget ?e ''filled_quantity'') = Inr 0" using i(4) by (simp add: follows_def)
  obtain ws where val: "validate_simulation_inputs ?i ?e ?u (pq_now_epoch q) (pq_max_quote_age q) = Inr ([], ws)"
    using validation_clear [OF i age] by blast
  have left: "max (n - 0) 0 = n" using i(3) by simp
  obtain expired price avail where read: "order_expired ?i ?u (pq_now_epoch q) = Inr expired" "resolved_fill_price ?i ?u = Inr price"
    "available_quantity ?u n = Inr avail"
    using simulation_numbers [OF read] by metis
  note ended = next_of_open [OF i(1) n i(4), where ts = ts] and texts = coerce_end_texts
  have expired_total: "\<exists>r. terminal_simulation_result EXPIRED_FILL ''EXPIRED'' ?i ?e ?u ts why 0 n ws ev = Inr r \<and>
      si_status r = EXPIRED_FILL" for why ev
    using ended [OF texts(1), of "Some why"] by (auto simp: terminal_simulation_result_def)
  have rejected_total: "\<exists>r. terminal_simulation_result REJECTED_FILL ''REJECTED'' ?i ?e ?u ts why 0 n ws ev = Inr r \<and>
      si_status r = REJECTED_FILL" for why ev
    using ended [OF texts(2), of "Some why"] by (auto simp: terminal_simulation_result_def)
  have filled_total: "\<exists>r. filled_simulation ?i ?e ts n 0 avail p ws ev = Inr r \<and>
      si_status r = (if n \<le> avail then FULL_FILL else PARTIAL_FILL)"
    if "0 < avail" for p ev
  proof -
    define c where "c = min avail n"
    have c: "0 < c" "c \<le> n" using that i(3) by (simp_all add: c_def)
    obtain r where r: "build_lifecycle_event
      \<lparr>rq_intent = PDict ?i, rq_requested_status = StatusText (if n = c then ''FILLED'' else ''PARTIALLY_FILLED''),
       rq_previous_event = EventValue (PDict ?e), rq_ts_epoch = ts,
       rq_reason = Some ''paper fill simulation from controlled quote'',
       rq_filled_quantity = PInt c, rq_average_fill_price = PFloat p\<rparr> = Inr r" "lr_created r"
      using fill_of_open [OF i(1) n i(4) c] by blast
    have "max (n - 0) 0 = n" "min avail n = c" "(max (n - c) 0 = 0) = (n = c)" "(n \<le> avail) = (n = c)"
      using i(3) c by (auto simp: c_def)
    then show ?thesis by (simp add: filled_simulation_def Let_def r)
  qed
  show ?thesis
    unfolding simulate_paper_fill_def fill_request_of_def fill_request.select_convs as_dict.simps event_payload.simps
      pyval.case option.case val bind_result_simps prod.case Let_def age(1) simulate_open_order_def n prev left
      read if_False not_False_eq_True simp_thms
    using expired_total rejected_total filled_total read i(2) by (cases price) (simp_all add: expected_fill_def Let_def)
qed

section \<open>The timestamps of the events\<close>

text \<open>\<open>n * 0.001\<close>\<close>

definition milli :: "int \<Rightarrow> pyfloat" where
  "milli n = float_mul (Fin (of_int n)) (round64 (1 / 1000))"

text \<open>The first event is stamped \<open>base + 0.001\<close>; the later ones get their offset twice.\<close>

definition event_time :: "pyfloat \<Rightarrow> int \<Rightarrow> pyfloat" where
  "event_time x n = (if n = 1 then float_add x (milli 1) else float_add (float_add x (milli n)) (milli n))"

lemma offset_ts_float:
  assumes "py_float base = Inr x" "\<bar>n\<bar> < 2 ^ 53" shows "offset_ts base n = Inr (PFloat (float_add x (milli n)))"
proof -
  have "base \<noteq> PNone" using assms(1) by auto
  then show ?thesis using assms by (simp add: offset_ts_def float_of_int_exact milli_def opt_float_def)
qed

lemma milli_values:
  "milli 1 = Fin (1152921504606847 / 1152921504606846976)" "milli 2 = Fin (1152921504606847 / 576460752303423488)"
  "milli 3 = Fin (3458764513820541 / 1152921504606846976)" "milli 4 = Fin (1152921504606847 / 288230376151711744)"
  by code_simp+

lemma event_times_ordered: "n \<in> {1, 2, 3} \<Longrightarrow> \<not> float_lt (event_time x (n + 1)) (event_time x n)"
proof (cases "x = NaN")
  case False
  assume n: "n \<in> {1, 2, 3}"
  have "float_le (milli n) (milli (n + 1)) \<and> float_le (Fin 0) (milli (n + 1)) \<and> milli n \<noteq> NegInf \<and> milli (n + 1) \<noteq> PosInf"
    using n by (elim insertE) (simp_all add: milli_values)
  then obtain a b where ab: "milli n = Fin a" "milli (n + 1) = Fin b" "0 \<le> b" "a \<le> b"
    by (cases "milli n"; cases "milli (n + 1)") (auto simp: float_le_def float_eq_def)
  have up: "float_le (float_add x (Fin a)) (float_add x (Fin b))"
    using ab(4) False by (intro float_add_mono float_le_refl)
  have "float_add x (Fin b) \<noteq> NaN" using False by (cases x) simp_all
  then have "float_le (float_add x (Fin b)) (float_add (float_add x (Fin b)) (Fin b))"
    using ab(3) by (intro float_add_up) simp_all
  moreover have "event_time x (n + 1) = float_add (float_add x (Fin b)) (Fin b)"
  proof -
    have "n + 1 \<noteq> 1" using n by auto
    then show ?thesis unfolding event_time_def ab(2) by (simp only: if_False)
  qed
  moreover have "event_time x n = float_add x (Fin a) \<or> event_time x n = float_add (float_add x (Fin a)) (Fin a)"
    unfolding event_time_def using ab(1) by (cases "n = 1") simp_all
  ultimately have "float_le (event_time x n) (event_time x (n + 1))"
    using float_le_trans [OF up] float_add_mono [OF up ab(4)] by metis
  then show ?thesis by (rule float_le_not_lt)
qed (simp add: event_time_def)

section \<open>The canonical events\<close>

lemma strip_suffix:
  assumes "\<not> blank c" "w \<noteq> []" "\<not> is_space (last w)" shows "strip (c @ w) = dropWhile is_space c @ w"
proof -
  have ne: "dropWhile is_space c \<noteq> []" using assms(1) by (simp add: blank_def list_all_iff)
  obtain x where "x \<in> set c" "\<not> is_space x" using assms(1) by (auto simp: blank_def list_all_iff)
  then have "dropWhile is_space (c @ w) = dropWhile is_space c @ w" by (rule dropWhile_append1)
  then show ?thesis
    using assms(2,3) by (simp add: strip_def dropWhile_id hd_append hd_rev)
qed

text \<open>The part of an idempotency key after the cycle.\<close>

definition key_tail :: "paper_intent \<Rightarrow> int \<Rightarrow> string \<Rightarrow> string" where
  "key_tail i n ty = '':'' @ int_to_string n @ '':'' @ ty @ '':'' @ pi_paper_order_intent_id i"

text \<open>The id of the event with number \<open>n\<close>: the event of the intent carries no order id yet.\<close>

definition run_event_id :: "pipeline_request \<Rightarrow> paper_intent \<Rightarrow> int \<Rightarrow> string \<Rightarrow> string" where
  "run_event_id q i n ty =
     ''paper-pipeline-'' @ digest16 (join ''|'' [py_str (pq_cycle_id q), int_to_string n, ty, pi_paper_order_intent_id i,
       if n = 1 then [] else order_id_of i])"

definition run_event :: "pipeline_request \<Rightarrow> paper_intent \<Rightarrow> pyfloat \<Rightarrow> int \<Rightarrow> string \<Rightarrow> pydict \<Rightarrow> pydict \<Rightarrow> pydict \<Rightarrow> bool" where
  "run_event q i t n ty payload e e' \<longleftrightarrow>
     normalize_paper_event (raw_of e) = Inr e' \<and> event_valid e' \<and> dget e ''event_id'' = PStr (ev_id e') \<and>
     ev_id e' = run_event_id q i n ty \<and>
     ev_key e' = strip (py_str (pq_cycle_id q) @ key_tail i n ty) \<and> ev_cycle e' = strip (py_str (pq_cycle_id q)) \<and>
     ev_seq e' = n \<and> ev_ts e' = t \<and> dget e' ''payload'' = PDict payload \<and> event_type_of e' = ty"

lemma optional_str_PStr: "\<not> blank s \<Longrightarrow> optional_str (PStr s) = PStr (strip s)"
  by (simp add: optional_str_def Let_def)

lemma canonical_event_total:
  assumes c: "\<not> blank (py_str (pq_cycle_id q))" and n: "1 \<le> n"
    and ty: "optional_str (PStr ty) = PStr ty" "ty \<in> set valid_event_types"
    and i: "pi_paper_order_intent_id i = stable_intent_id c0 t0"
    and ts: "offset_ts ts n = Inr (PFloat t)"
    and order: "dget lifecycle ''paper_order_id'' = (if n = 1 then PNone else PStr (order_id_of i))"
  shows "\<exists>e e'. canonical_event (py_str (pq_cycle_id q)) n ty payload (paper_intent_to_dict i) lifecycle ts = Inr e \<and>
    run_event q i t n ty payload e e'"
proof -
  let ?c = "py_str (pq_cycle_id q)"
  define seed where "seed = join ''|'' [?c, int_to_string n, ty, pi_paper_order_intent_id i, if n = 1 then [] else order_id_of i]"
  have oid: "stripped_or_none (py_or (dget lifecycle ''paper_order_id'') PNone) = (if n = 1 then None else Some (order_id_of i))"
    using order by (simp add: order_id_of_def)
  obtain a1 a2 a3 a4 where e: "canonical_event ?c n ty payload (paper_intent_to_dict i) lifecycle ts =
    Inr [(''schema_version'', PStr ''1.0''), (''event_id'', PStr (''paper-pipeline-'' @ digest16 seed)), (''cycle_id'', PStr ?c),
         (''event_sequence'', PInt n), (''candidate_id'', a1), (''strategy_id'', a2), (''paper_order_intent_id'', a3),
         (''paper_order_id'', a4), (''event_type'', PStr ty), (''ts_epoch'', PFloat t),
         (''idempotency_key'', PStr (?c @ key_tail i n ty)), (''payload'', PDict payload), (''paper_only'', PBool True),
         (''is_order_action'', PBool False), (''broker_api_called'', PBool False), (''real_order_id'', PNone)]"
    (is "_ = Inr ?e")
  proof (rule that)
    have "(case if n = 1 then None else Some (order_id_of i) of None \<Rightarrow> [] | Some t \<Rightarrow> t) = (if n = 1 then [] else order_id_of i)" by simp
    then show "canonical_event ?c n ty payload (paper_intent_to_dict i) lifecycle ts =
      Inr [(''schema_version'', PStr ''1.0''), (''event_id'', PStr (''paper-pipeline-'' @ digest16 seed)), (''cycle_id'', PStr ?c),
         (''event_sequence'', PInt n), (''candidate_id'', opt_str (stripped_or_none (PStr (pi_candidate_id i)))),
         (''strategy_id'', opt_str (stripped_or_none (dget (paper_intent_to_dict i) ''strategy''))),
         (''paper_order_intent_id'', opt_str (stripped_or_none (PStr (pi_paper_order_intent_id i)))),
         (''paper_order_id'', opt_str (if n = 1 then None else Some (order_id_of i))), (''event_type'', PStr ty), (''ts_epoch'', PFloat t),
         (''idempotency_key'', PStr (?c @ key_tail i n ty)), (''payload'', PDict payload), (''paper_only'', PBool True),
         (''is_order_action'', PBool False), (''broker_api_called'', PBool False), (''real_order_id'', PNone)]"
      unfolding canonical_event_def Let_def ts bind_result_simps intent_dict_get py_str.simps oid seed_def
      by (simp only: join.simps key_tail_def)
  qed
  have nk: "\<not> blank (?c @ key_tail i n ty)" using c by simp
  have same: "optional_str (PStr (''paper-pipeline-'' @ digest16 seed)) = PStr (''paper-pipeline-'' @ digest16 seed)"
    using strip_digest_id [of "''paper-pipeline-''" seed] by (simp add: optional_str_def Let_def)
  let ?n = "[(''schema_version'', PStr ''1.0''), (''event_id'', PStr (''paper-pipeline-'' @ digest16 seed)), (''cycle_id'', PStr (strip ?c)),
         (''event_sequence'', PInt n), (''candidate_id'', optional_str a1), (''strategy_id'', optional_str a2),
         (''paper_order_intent_id'', optional_str a3), (''paper_order_id'', optional_str a4), (''event_type'', PStr ty),
         (''ts_epoch'', PFloat t), (''idempotency_key'', PStr (strip (?c @ key_tail i n ty))), (''payload'', PDict payload),
         (''paper_only'', PBool True), (''is_order_action'', PBool False), (''broker_api_called'', PBool False),
         (''real_order_id'', PNone)]"
  have norm: "normalize_paper_event (raw_of ?e) = Inr ?n"
    by (simp add: normalize_paper_event_def raw_of_def same [simplified] ty(1) optional_str_PStr [OF c] optional_str_PStr [OF nk]
        opt_int_def opt_float_def)
  have ids: "ev_id ?n = ''paper-pipeline-'' @ digest16 seed" "ev_key ?n = strip (?c @ key_tail i n ty)" "ev_cycle ?n = strip ?c"
    "ev_seq ?n = n" "ev_ts ?n = t" "event_type_of ?n = ty"
    by (simp_all add: ev_id_def ev_key_def ev_cycle_def ev_seq_def ev_ts_def event_type_of_def)
  have valid: "event_valid ?n" using n ty(2) c nk by (simp add: event_valid_def)
  have "dget ?e ''event_id'' = PStr (ev_id ?n)" "dget ?n ''payload'' = PDict payload" unfolding ids(1) by simp_all
  moreover have "ev_id ?n = run_event_id q i n ty" unfolding run_event_id_def seed_def [symmetric] by (rule ids(1))
  ultimately have "run_event q i t n ty payload ?e ?n" using norm valid ids(2-) unfolding run_event_def by blast
  with e show ?thesis by blast
qed

section \<open>The order of the events\<close>

text \<open>The events of a run, with their normal forms: the intent, the two lifecycle steps and the outcome, if there is one.\<close>

definition event_runs :: "pipeline_request \<Rightarrow> paper_intent \<Rightarrow> pyfloat \<Rightarrow> string list \<Rightarrow> pydict list \<Rightarrow> pydict list \<Rightarrow> pydict list \<Rightarrow> bool" where
  "event_runs q i x tys payloads es es' \<longleftrightarrow>
     length tys = length payloads \<and> length es = length payloads \<and> length es' = length payloads \<and>
     (\<forall>k < length payloads. run_event q i (event_time x (int k + 1)) (int k + 1) (tys ! k) (payloads ! k) (es ! k) (es' ! k))"

lemma event_runs_Nil [simp]: "event_runs q i x [] [] [] []"
  by (simp add: event_runs_def)

lemma event_runs_snoc:
  assumes "event_runs q i x tys ps es es'"
    and "run_event q i (event_time x (int (length es) + 1)) (int (length es) + 1) ty p e e'"
  shows "event_runs q i x (tys @ [ty]) (ps @ [p]) (es @ [e]) (es' @ [e'])"
  using assms by (auto simp: event_runs_def nth_append less_Suc_eq)

lemma int_to_string_hd: "n \<in> {1, 2, 3, 4} \<Longrightarrow> int_to_string n = [digit_char n]"
  by (elim insertE emptyE; hypsubst) code_simp+

lemma key_tails_differ:
  assumes "key_tail i m ty = key_tail i n ty'" "m \<in> {1, 2, 3, 4}" "n \<in> {1, 2, 3, 4}" shows "m = n"
proof -
  have "digit_char m = digit_char n" using assms(1) unfolding key_tail_def int_to_string_hd [OF assms(2)] int_to_string_hd [OF assms(3)] by simp
  then have "(of_char (digit_char m) :: int) = of_char (digit_char n)" by simp
  then show ?thesis using of_digit_char [of m] of_digit_char [of n] assms(2,3) by auto
qed

lemma run_keys_differ:
  assumes "\<not> blank c" "pi_paper_order_intent_id i = stable_intent_id c0 t0"
    and "strip (c @ key_tail i m ty) = strip (c @ key_tail i n ty')" "m \<in> {1, 2, 3, 4}" "n \<in> {1, 2, 3, 4}"
  shows "m = n"
proof -
  have tail: "key_tail i k y \<noteq> []" "\<not> is_space (last (key_tail i k y))" for k y
  proof -
    have ne: "digest16 s \<noteq> []" for s using length_digest16 [of s] by (metis list.size(3) zero_neq_numeral)
    then have "last (key_tail i k y) \<in> set (digest16 (join ''|'' [c0, str_or_empty t0]))"
      by (simp add: key_tail_def assms(2) stable_intent_id_def)
    then show "key_tail i k y \<noteq> []" "\<not> is_space (last (key_tail i k y))" using digest16_not_space by (simp_all add: key_tail_def)
  qed
  have "key_tail i m ty = key_tail i n ty'" using assms(3) unfolding strip_suffix [OF assms(1) tail] by simp
  then show ?thesis using assms(4,5) by (rule key_tails_differ)
qed

lemma event_runs_nth:
  assumes "event_runs q i x tys ps es es'" "k < length es'"
  shows "run_event q i (event_time x (int k + 1)) (int k + 1) (tys ! k) (ps ! k) (es ! k) (es' ! k)"
  using assms by (simp add: event_runs_def)

lemma event_runs_ordered:
  assumes run: "event_runs q i x tys ps es es'" and len: "length es' \<le> 4"
    and c: "\<not> blank (py_str (pq_cycle_id q))" and i: "pi_paper_order_intent_id i = stable_intent_id c0 t0"
  shows "well_ordered es' \<longleftrightarrow> distinct (map (\<lambda>e. dget e ''event_id'') es)"
proof -
  note nth = event_runs_nth [OF run]
  have "length es = length es'" using run by (simp add: event_runs_def)
  have small: "int k + 1 \<in> {1, 2, 3, 4}" if "k < length es'" for k using that len by auto
  have "map (\<lambda>e. dget e ''event_id'') es = map PStr (map ev_id es')"
    using nth \<open>length es = length es'\<close> by (intro nth_equalityI) (simp_all add: run_event_def)
  moreover have "inj PStr" by (simp add: inj_on_def)
  ultimately have ids: "distinct (map (\<lambda>e. dget e ''event_id'') es) \<longleftrightarrow> distinct (map ev_id es')"
    by (simp only: distinct_map inj_on_subset [OF \<open>inj PStr\<close> subset_UNIV] simp_thms)
  have valid: "\<forall>e \<in> set es'. event_valid e" using nth by (auto simp: in_set_conv_nth run_event_def)
  have keys: "distinct (map ev_key es')"
  proof -
    have "j = k" if "j < length es'" "k < length es'" "ev_key (es' ! j) = ev_key (es' ! k)" for j k
    proof -
      have "strip (py_str (pq_cycle_id q) @ key_tail i (int j + 1) (tys ! j)) = strip (py_str (pq_cycle_id q) @ key_tail i (int k + 1) (tys ! k))"
        using nth [OF that(1)] nth [OF that(2)] that(3) by (simp add: run_event_def)
      from run_keys_differ [OF c i this small [OF that(1)] small [OF that(2)]] show ?thesis by simp
    qed
    then show ?thesis by (auto simp: distinct_conv_nth)
  qed
  have cycles: "of_cycle k es' = (if k = strip (py_str (pq_cycle_id q)) then es' else [])" for k
    using nth by (auto simp: of_cycle_def filter_id_conv filter_empty_conv in_set_conv_nth run_event_def)
  have seqs: "map ev_seq es' = map int [1 ..< Suc (length es')]"
    using nth by (intro nth_equalityI) (simp_all add: run_event_def del: upt_Suc)
  have times: "successively (\<lambda>a b. \<not> float_lt (ev_ts b) (ev_ts a)) es'"
    unfolding successively_conv_nth
  proof (intro allI impI)
    fix k assume k: "Suc k < length es'"
    then have "int k + 1 \<in> {1, 2, 3}" using len by auto
    from event_times_ordered [OF this, of x] show "\<not> float_lt (ev_ts (es' ! Suc k)) (ev_ts (es' ! k))"
      using nth [of k] nth [of "Suc k"] k by (simp add: run_event_def add.commute)
  qed
  show ?thesis unfolding well_ordered_def ids using valid keys seqs times by (auto simp: cycles)
qed

section \<open>The guard and the reducer\<close>

lemma guard_loop_total:
  "map_result normalize_paper_event raws = Inr es \<Longrightarrow> \<exists>st'. guard_loop i raws st = Inr st'"
proof (induction raws arbitrary: es i st)
  case (Cons raw raws)
  then obtain e es' where e: "normalize_paper_event raw = Inr e" "map_result normalize_paper_event raws = Inr es'" by auto
  obtain bs where "validate_paper_event (RawValue (PDict e)) = Inr bs" using validate_normalized [OF e(1)] by blast
  then obtain st1 where "guard_step i raw st = Inr st1" by (simp add: guard_step_def e(1))
  with Cons.IH [OF e(2)] show ?case by simp
qed simp

lemma guard_total:
  assumes "map_result normalize_paper_event raws = Inr es" shows "\<exists>g. guard_paper_event_ordering (EventsList raws) = Inr g"
  using guard_loop_total [OF assms, of 0 initial_guard_state]
  by (auto simp: guard_paper_event_ordering_def validate_ordering_inputs_def)

lemma check_total:
  "map_result normalize_paper_event raws = Inr es \<Longrightarrow> list_all is_order_event es \<Longrightarrow>
   \<exists>st'. fold_result check_event (enumerate n raws) st = Inr st'"
proof (induction raws arbitrary: es n st)
  case (Cons raw raws)
  then obtain e es' where e: "normalize_paper_event raw = Inr e" "map_result normalize_paper_event raws = Inr es'"
    "is_order_event e" "list_all is_order_event es'" by auto
  obtain bs where bs: "validate_paper_event (RawValue (PDict e)) = Inr bs" using validate_normalized [OF e(1)] by blast
  have "event_type_of e \<notin> set position_event_types" using event_kinds_exclusive [OF e(3)] by (simp add: is_position_event_def)
  then obtain st1 where "check_event (n, raw) st = Inr st1" using e(1) bs by (cases "bs = []") (simp_all add: check_event_def)
  with Cons.IH [OF e(2,4)] show ?case by simp
qed simp

text \<open>The numbers that the reducer reads from the payload of an order event, and from the row it keeps.\<close>

definition payload_readable :: "pydict \<Rightarrow> bool" where
  "payload_readable d \<longleftrightarrow>
     list_all (\<lambda>k. \<not> isl (int_or_none (dget d k)))
       [''filled_quantity'', ''cumulative_filled_quantity'', ''quantity'', ''remaining_quantity''] \<and>
     list_all (\<lambda>k. \<not> isl (float_or_none (dget d k))) [''average_fill_price'', ''fill_price'']"

definition rows_readable :: "reduced_state \<Rightarrow> bool" where
  "rows_readable s \<longleftrightarrow>
     rs_positions s = [] \<and>
     (\<forall>k. dget (rs_orders s) k = PNone \<or> (\<exists>d. dget (rs_orders s) k = PDict d \<and> payload_readable d))"

lemma first_value_total: "list_all (\<lambda>v. \<not> isl (conv v)) vs \<Longrightarrow> \<exists>x. first_value conv vs = Inr x"
proof (induction vs)
  case (Cons v vs)
  then obtain x y where "conv v = Inr x" "first_value conv vs = Inr y" by (cases "conv v") auto
  then show ?case by (cases x) simp_all
qed simp

lemma apply_order_total:
  assumes "rows_readable s" "dget e ''payload'' = PDict p" "payload_readable p" "is_order_event e"
  shows "\<exists>s'. apply_order_event e s = Inr s' \<and> rows_readable s'"
proof -
  obtain status where st: "map_of order_event_status (event_type_of e) = Some status"
    using assms(4) by (auto simp: is_order_event_def dest!: weak_map_of_SomeI [rotated] split: prod.splits)
  obtain row where row: "dict_or_empty (dget (rs_orders s) (order_key e)) = Inr row" "payload_readable row"
  proof -
    have "dget (rs_orders s) (order_key e) = PNone \<or> (\<exists>d. dget (rs_orders s) (order_key e) = PDict d \<and> payload_readable d)"
      using assms(1) by (simp add: rows_readable_def)
    moreover have "payload_readable []" by (simp add: payload_readable_def)
    ultimately show thesis using that by (auto simp: dict_or_empty_def [of PNone])
  qed
  have "\<exists>x. Paper_Reducer.first_int [dget p ''filled_quantity'', dget p ''cumulative_filled_quantity'',
        if status = ''FILLED'' then dget p ''quantity'' else PNone, dget row ''filled_quantity''] = Inr x"
    "\<exists>x. Paper_Reducer.first_int [dget p ''remaining_quantity'', dget row ''remaining_quantity''] = Inr x"
    "\<exists>x. first_float [dget p ''average_fill_price'', dget p ''fill_price'', dget row ''average_fill_price''] = Inr x"
    unfolding Paper_Reducer.first_int_def first_float_def
    by (rule first_value_total; use assms(3) row(2) in \<open>simp add: payload_readable_def\<close>)+
  then obtain filled remaining price where
    num: "Paper_Reducer.first_int [dget p ''filled_quantity'', dget p ''cumulative_filled_quantity'',
        if status = ''FILLED'' then dget p ''quantity'' else PNone, dget row ''filled_quantity''] = Inr filled"
      "Paper_Reducer.first_int [dget p ''remaining_quantity'', dget row ''remaining_quantity''] = Inr remaining"
      "first_float [dget p ''average_fill_price'', dget p ''fill_price'', dget row ''average_fill_price''] = Inr price"
    by blast
  define v where "v = [(''paper_order_id'', dget e ''paper_order_id''),
                 (''paper_order_intent_id'', dget e ''paper_order_intent_id''),
                 (''candidate_id'', dget e ''candidate_id''),
                 (''strategy_id'', dget e ''strategy_id''),
                 (''status'', PStr status),
                 (''terminal'', PBool (status \<in> set terminal_order_statuses)),
                 (''filled_quantity'', PInt (or_zero filled)),
                 (''remaining_quantity'', opt_int remaining),
                 (''average_fill_price'', opt_float price),
                 (''last_event_id'', dget e ''event_id''),
                 (''last_update_epoch'', dget e ''ts_epoch''),
                 (''payload'', PDict p)] @ read_only_flags"
  have "payload_readable v" by (simp add: payload_readable_def v_def read_only_flags_def)
  moreover have "apply_order_event e s = Inr (s\<lparr>rs_orders := dset (order_key e) (PDict v) (rs_orders s)\<rparr>)"
    unfolding apply_order_event_def Let_def row(1) assms(2) dict_or_empty_PDict bind_result_simps st option.case num v_def by (rule refl)
  ultimately show ?thesis using assms(1) by (simp add: rows_readable_def)
qed

lemma reduce_events_total:
  assumes "\<forall>e \<in> set es. is_order_event e \<and> (\<exists>p. dget e ''payload'' = PDict p \<and> payload_readable p)" "rows_readable s"
  shows "\<exists>s' ws'. fold_result reduce_event es (s, ws) = Inr (s', ws') \<and> rows_readable s'"
  using assms
proof (induction es arbitrary: s ws)
  case (Cons e es)
  then obtain p where p: "is_order_event e" "dget e ''payload'' = PDict p" "payload_readable p" by auto
  obtain s1 where s1: "apply_order_event e s = Inr s1" "rows_readable s1"
    using apply_order_total [OF Cons.prems(2) p(2,3,1)] by blast
  have "reduce_event e (s, ws) = Inr (record_event e s1, ws)"
    using p(1) s1(1) by (simp add: reduce_event_def Let_def is_order_event_def)
  moreover have "rows_readable (record_event e s1)" using s1(2) by (simp add: rows_readable_def record_event_def)
  ultimately show ?case using Cons.IH [of "record_event e s1" ws] Cons.prems(1) by simp
qed simp

text \<open>The reducer accepts what the guard has accepted, when it consists of readable order events.\<close>

lemma reducer_total:
  assumes es: "map_result normalize_paper_event raws = Inr es" "well_ordered es" "es \<noteq> []"
    and e: "\<forall>e \<in> set es. is_order_event e \<and> (\<exists>p. dget e ''payload'' = PDict p \<and> payload_readable p)"
  shows "\<exists>rd. reduce_paper_events (EventsList (map raw_of es)) = Inr rd \<and> rr_status rd \<noteq> Paper_Reducer.BLOCKED"
proof -
  note norm = normalized_again [OF es(1)]
  have "reducible es"
    using es(2) e event_kinds_exclusive by (auto simp: reducible_def well_ordered_def position_readable_def is_position_event_def)
  obtain st where "fold_result check_event (enumerate 0 (map raw_of es))
      \<lparr>rc_blockers = [], rc_events = [], rc_seen_ids = [], rc_seen_keys = []\<rparr> = Inr st"
    using check_total [OF norm] e by (metis list_all_iff)
  then obtain bs es' where val: "validate_reducer_inputs (EventsList (map raw_of es)) = Inr (bs, es')"
    by (simp add: validate_reducer_inputs_def)
  have bs: "bs = []" using validate_reducer_outcome(1) [OF val] norm \<open>reducible es\<close> by blast
  then have es': "es' = es" using validate_reducer_outcome(2) [OF val] norm by simp
  have "rows_readable empty_state" by (simp add: rows_readable_def empty_state_def)
  from reduce_events_total [OF e this, of "[]"] obtain s ws where s: "fold_result reduce_event es (empty_state, []) = Inr (s, ws)"
    "rows_readable s" by blast
  then have "rs_positions s = []" by (simp add: rows_readable_def)
  then obtain summary where "build_summary s = Inr summary" by (simp add: build_summary_def Let_def)
  with s(1) es(3) show ?thesis by (simp add: reduce_paper_events_def val bs es')
qed

section \<open>The stages together\<close>

lemma emit_total:
  assumes c: "\<not> blank (py_str (pq_cycle_id q))" and i: "pi_paper_order_intent_id i = stable_intent_id c0 t0"
    and run: "event_runs q i x tys ps (pw_events st) es'" and n: "n = int (length (pw_events st)) + 1"
    and ty: "optional_str (PStr ty) = PStr ty" "ty \<in> set valid_event_types"
    and ts: "offset_ts ts n = Inr (PFloat (event_time x n))"
    and order: "dget lifecycle ''paper_order_id'' = (if n = 1 then PNone else PStr (order_id_of i))"
  shows "\<exists>st' e'. emit q n ty payload (paper_intent_to_dict i) lifecycle ts st = Inr st' \<and>
    event_runs q i x (tys @ [ty]) (ps @ [payload]) (pw_events st') (es' @ [e'])"
proof -
  have "1 \<le> n" using n by simp
  from canonical_event_total [OF c this ty i ts order] obtain e e' where
    e: "canonical_event (py_str (pq_cycle_id q)) n ty payload (paper_intent_to_dict i) lifecycle ts = Inr e"
    "run_event q i (event_time x n) n ty payload e e'" by blast
  have "event_runs q i x (tys @ [ty]) (ps @ [payload]) (pw_events st @ [e]) (es' @ [e'])"
    using run e(2) unfolding n by (rule event_runs_snoc)
  then show ?thesis by (simp add: emit_def e(1) raising_def) blast
qed

lemma emit_lifecycle_total:
  assumes c: "\<not> blank (py_str (pq_cycle_id q))" and i: "pi_paper_order_intent_id i = stable_intent_id c0 t0"
    and x: "py_float (pq_ts_epoch q) = Inr x"
    and run: "event_runs q i x tys ps (pw_events st) es'" and n: "n = int (length (pw_events st)) + 1" "n \<in> {2, 3, 4}"
    and ty: "optional_str (PStr ty) = PStr ty" "ty \<in> set valid_event_types"
    and order: "dget lifecycle ''paper_order_id'' = PStr (order_id_of i)"
  shows "\<exists>st' e'. emit_lifecycle q n ty payload (paper_intent_to_dict i) lifecycle st = Inr st' \<and>
    event_runs q i x (tys @ [ty]) (ps @ [payload]) (pw_events st') (es' @ [e'])"
proof -
  have small: "\<bar>n\<bar> < 2 ^ 53" "n \<noteq> 1" using n(2) by auto
  have "offset_ts (pq_ts_epoch q) n = Inr (PFloat (float_add x (milli n)))" using x small(1) by (rule offset_ts_float)
  moreover have "offset_ts (PFloat (float_add x (milli n))) n = Inr (PFloat (event_time x n))"
    using offset_ts_float [OF _ small(1), of "PFloat (float_add x (milli n))"] small(2) by (simp add: event_time_def)
  ultimately show ?thesis using emit_total [OF c i run n(1) ty] order small(2) by (simp add: emit_lifecycle_def raising_def)
qed

lemma order_types_valid:
  "''PAPER_ORDER_INTENT_CREATED'' \<in> set valid_event_types" "''PAPER_ORDER_ACCEPTED'' \<in> set valid_event_types"
  "''PAPER_ORDER_OPENED'' \<in> set valid_event_types" "''PAPER_ORDER_FILLED'' \<in> set valid_event_types"
  "''PAPER_ORDER_PARTIALLY_FILLED'' \<in> set valid_event_types" "''PAPER_ORDER_EXPIRED'' \<in> set valid_event_types"
  "''PAPER_ORDER_REJECTED'' \<in> set valid_event_types"
  by code_simp+

text \<open>What the run has built so far: events of the given types, with readable payloads.\<close>

definition run_state :: "pipeline_request \<Rightarrow> paper_intent \<Rightarrow> pyfloat \<Rightarrow> string list \<Rightarrow> pipeline_locals \<Rightarrow> bool" where
  "run_state q i x tys st \<longleftrightarrow>
     list_all (\<lambda>ty. ty \<in> set (map fst order_event_status)) tys \<and>
     (\<exists>ps es'. event_runs q i x tys ps (pw_events st) es' \<and> list_all payload_readable ps)"

lemma run_state_length: "run_state q i x tys st \<Longrightarrow> length (pw_events st) = length tys"
  by (auto simp: run_state_def event_runs_def)

lemma run_state_same: "pw_events st' = pw_events st \<Longrightarrow> run_state q i x tys st' = run_state q i x tys st"
  by (simp add: run_state_def)

lemma emit_lifecycle_step:
  assumes c: "\<not> blank (py_str (pq_cycle_id q))" and i: "pi_paper_order_intent_id i = stable_intent_id c0 t0"
    and x: "py_float (pq_ts_epoch q) = Inr x"
    and run: "run_state q i x tys st" "n = int (length tys) + 1" "n \<in> {2, 3, 4}"
    and ty: "optional_str (PStr ty) = PStr ty" "ty \<in> set valid_event_types" "ty \<in> set (map fst order_event_status)"
    and order: "dget lifecycle ''paper_order_id'' = PStr (order_id_of i)" and p: "payload_readable payload"
  shows "\<exists>st'. emit_lifecycle q n ty payload (paper_intent_to_dict i) lifecycle st = Inr st' \<and> run_state q i x (tys @ [ty]) st'"
proof -
  obtain ps es' where st: "event_runs q i x tys ps (pw_events st) es'"
    "list_all (\<lambda>ty. ty \<in> set (map fst order_event_status)) tys" "list_all payload_readable ps"
    using run(1) by (auto simp: run_state_def)
  have n: "n = int (length (pw_events st)) + 1" using run_state_length [OF run(1)] run(2) by simp
  from emit_lifecycle_total [OF c i x st(1) n run(3) ty(1,2) order] obtain st' e' where
    st': "emit_lifecycle q n ty payload (paper_intent_to_dict i) lifecycle st = Inr st'"
    "event_runs q i x (tys @ [ty]) (ps @ [payload]) (pw_events st') (es' @ [e'])" by blast
  have "run_state q i x (tys @ [ty]) st'"
    unfolding run_state_def using st st'(2) ty(3) p by (intro conjI exI [of _ "ps @ [payload]"] exI [of _ "es' @ [e']"]) simp_all
  with st'(1) show ?thesis by blast
qed

lemma payloads_readable:
  "payload_readable (paper_intent_to_dict i)" "payload_readable (lifecycle_event_to_dict e)"
  "payload_readable (dset ''lifecycle_event'' d (simulation_result_to_dict r))"
  by (simp_all add: payload_readable_def paper_intent_to_dict_def lifecycle_event_to_dict_def simulation_result_to_dict_def)

lemma intent_stage_total:
  assumes c: "\<not> blank (py_str (pq_cycle_id q))" and x: "py_float (pq_ts_epoch q) = Inr x"
    and r: "build_paper_intent (bridge_of q) = Inr r" "ir_created r" "ir_intent r = Some i" and st: "pw_events st = []"
  shows "\<exists>st'. intent_stage q st = Inr (paper_intent_to_dict i, st') \<and> run_state q i x [''PAPER_ORDER_INTENT_CREATED''] st'"
proof -
  have i: "pi_paper_order_intent_id i = stable_intent_id (pi_candidate_id i) (pq_ts_epoch q)"
    using created_intent_ids(2) [OF r(1,3)] by (simp add: bridge_of_def)
  have ts: "offset_ts (pq_ts_epoch q) 1 = Inr (PFloat (event_time x 1))"
    using offset_ts_float [OF x, of 1] by (simp add: event_time_def)
  let ?intent = "paper_intent_to_dict i"
  define st1 where "st1 = (record_stage ''intent'' (intent_result_to_dict r) (ir_warnings r) st)
      \<lparr>pw_candidate_id := Some (str_or_empty (py_or (dget ?intent ''candidate_id'') (opt_str (pw_candidate_id st)))),
       pw_strategy_id := stripped_or_none (py_or (dget ?intent ''strategy'') (opt_str (pw_strategy_id st)))\<rparr>"
  have "pw_events st1 = []" using st by (simp add: st1_def)
  then have start: "event_runs q i x [] [] (pw_events st1) []" "1 = int (length (pw_events st1)) + 1" by simp_all
  from emit_total [OF c i start order_type_texts(1) order_types_valid(1) ts, of "[]"] obtain st2 e' where
    st2: "emit q 1 ''PAPER_ORDER_INTENT_CREATED'' ?intent ?intent [] (pq_ts_epoch q) st1 = Inr st2"
    "event_runs q i x [''PAPER_ORDER_INTENT_CREATED''] [?intent] (pw_events st2) [e']"
    unfolding append_Nil by (metis dget_Nil)
  have "''PAPER_ORDER_INTENT_CREATED'' \<in> set (map fst order_event_status)" by (simp add: order_event_status_def)
  then have "run_state q i x [''PAPER_ORDER_INTENT_CREATED''] st2"
    unfolding run_state_def using st2(2) payloads_readable(1) [of i]
    by (intro conjI exI [of _ "[?intent]"] exI [of _ "[e']"]) simp_all
  moreover have "intent_stage q st = Inr (?intent, st2)"
    unfolding intent_stage_def r(1) raising_def sum.case bind_result_simps Let_def r(2) [THEN eqTrueI] r(3) option.case prod.case bool.case record_stage_simps
      st1_def [symmetric] st2(1) by (rule refl)
  ultimately show ?thesis by blast
qed

text \<open>The types of the events: three of the order's way into the market, one of its outcome.\<close>

definition opened_types :: "string list" where
  "opened_types = [''PAPER_ORDER_INTENT_CREATED'', ''PAPER_ORDER_ACCEPTED'', ''PAPER_ORDER_OPENED'']"

definition outcome_types :: "simulation_status \<Rightarrow> string list" where
  "outcome_types s =
     (case s of
        FULL_FILL \<Rightarrow> [''PAPER_ORDER_FILLED''] | PARTIAL_FILL \<Rightarrow> [''PAPER_ORDER_PARTIALLY_FILLED'']
      | REJECTED_FILL \<Rightarrow> [''PAPER_ORDER_REJECTED''] | EXPIRED_FILL \<Rightarrow> [''PAPER_ORDER_EXPIRED''] | _ \<Rightarrow> [])"

lemma order_stages_total:
  assumes c: "\<not> blank (py_str (pq_cycle_id q))" and x: "py_float (pq_ts_epoch q) = Inr x"
    and i: "pi_paper_order_intent_id i = stable_intent_id c0 t0" "intent_ok (paper_intent_to_dict i)"
      "int_or_zero (dget (paper_intent_to_dict i) ''quantity'') = Inr n"
    and st: "run_state q i x [''PAPER_ORDER_INTENT_CREATED''] st"
  shows "\<exists>opened st'. order_stages q (paper_intent_to_dict i) st = Inr (lifecycle_event_to_dict opened, st') \<and>
    follows i OPEN opened \<and> run_state q i x opened_types st'"
proof -
  let ?intent = "paper_intent_to_dict i"
  have ts: "\<exists>t. offset_ts (pq_ts_epoch q) k = Inr t" if "\<bar>k\<bar> < 2 ^ 53" for k
    using offset_ts_float [OF x that] by blast
  obtain t1 t2 t3 where t: "offset_ts (pq_ts_epoch q) 1 = Inr t1" "offset_ts (pq_ts_epoch q) 2 = Inr t2"
    "offset_ts (pq_ts_epoch q) 3 = Inr t3"
    using ts [of 1] ts [of 2] ts [of 3] by auto
  obtain created st1 where s1: "lifecycle_stage q ''lifecycle_created'' ''LIFECYCLE_CREATED''
      ''PAPER_PIPELINE_CREATED_EVENT_NOT_CREATED'' ''CREATED'' ?intent NoEvent 1 st = Inr (lifecycle_event_to_dict created, st1)"
    "follows i CREATED created" "pw_events st1 = pw_events st"
    using lifecycle_stage_total [OF i(2,3) t(1) coerce_status_texts(1), of NoEvent] by blast
  obtain accepted st2 where s2: "lifecycle_stage q ''lifecycle_accepted'' ''LIFECYCLE_ACCEPTED''
      ''PAPER_PIPELINE_ACCEPTED_EVENT_NOT_CREATED'' ''ACCEPTED'' ?intent (previous_of created) 2 st1 = Inr (lifecycle_event_to_dict accepted, st2)"
    "follows i ACCEPTED accepted" "pw_events st2 = pw_events st1"
    using lifecycle_stage_total [OF i(2,3) t(2) coerce_status_texts(2), of "previous_of created"] s1(2) by fastforce
  have "run_state q i x [''PAPER_ORDER_INTENT_CREATED''] st2" using st s1(3) s2(3) by (simp add: run_state_same [of st2 st])
  moreover have "dget (lifecycle_event_to_dict accepted) ''paper_order_id'' = PStr (order_id_of i)" using s2(2) by (simp add: follows_def)
  ultimately have "\<exists>st'. emit_lifecycle q 2 ''PAPER_ORDER_ACCEPTED'' (lifecycle_event_to_dict accepted) ?intent
      (lifecycle_event_to_dict accepted) st2 = Inr st' \<and> run_state q i x ([''PAPER_ORDER_INTENT_CREATED''] @ [''PAPER_ORDER_ACCEPTED'']) st'"
    using payloads_readable(2) [of accepted]
    by (intro emit_lifecycle_step [OF c i(1) x _ _ _ order_type_texts(2) order_types_valid(2)]) (simp_all add: order_event_status_def)
  then
  obtain st3 where m2: "emit_lifecycle q 2 ''PAPER_ORDER_ACCEPTED'' (lifecycle_event_to_dict accepted) ?intent
      (lifecycle_event_to_dict accepted) st2 = Inr st3" "run_state q i x [''PAPER_ORDER_INTENT_CREATED'', ''PAPER_ORDER_ACCEPTED''] st3"
    by auto
  obtain opened st4 where s3: "lifecycle_stage q ''lifecycle_opened'' ''LIFECYCLE_OPENED'' ''PAPER_PIPELINE_OPEN_EVENT_NOT_CREATED''
      ''OPEN'' ?intent (previous_of accepted) 3 st3 = Inr (lifecycle_event_to_dict opened, st4)"
    "follows i OPEN opened" "pw_events st4 = pw_events st3"
    using lifecycle_stage_total [OF i(2,3) t(3) coerce_status_texts(3), of "previous_of accepted"] s2(2) by fastforce
  have "run_state q i x [''PAPER_ORDER_INTENT_CREATED'', ''PAPER_ORDER_ACCEPTED''] st4" using m2(2) s3(3) by (simp add: run_state_same [of st4 st3])
  moreover have "dget (lifecycle_event_to_dict opened) ''paper_order_id'' = PStr (order_id_of i)" using s3(2) by (simp add: follows_def)
  ultimately have "\<exists>st'. emit_lifecycle q 3 ''PAPER_ORDER_OPENED'' (lifecycle_event_to_dict opened) ?intent
      (lifecycle_event_to_dict opened) st4 = Inr st' \<and>
      run_state q i x ([''PAPER_ORDER_INTENT_CREATED'', ''PAPER_ORDER_ACCEPTED''] @ [''PAPER_ORDER_OPENED'']) st'"
    using payloads_readable(2) [of opened]
    by (intro emit_lifecycle_step [OF c i(1) x _ _ _ order_type_texts(3) order_types_valid(3)]) (simp_all add: order_event_status_def)
  then
  obtain st5 where m3: "emit_lifecycle q 3 ''PAPER_ORDER_OPENED'' (lifecycle_event_to_dict opened) ?intent
      (lifecycle_event_to_dict opened) st4 = Inr st5" "run_state q i x opened_types st5"
    by (auto simp: opened_types_def)
  have "order_stages q ?intent st = Inr (lifecycle_event_to_dict opened, st5)"
    unfolding order_stages_def s1(1) bind_result_simps prod.case s2(1) [unfolded previous_of_def] m2(1) s3(1) [unfolded previous_of_def] m3(1)
    by (rule refl)
  with s3(2) m3(2) show ?thesis by blast
qed

lemma simulation_types:
  assumes "simulate_paper_fill f = Inr r" "si_status r \<noteq> Paper_Fill.BLOCKED"
  shows "si_lifecycle_event r = None \<and> outcome_types (si_status r) = [] \<or>
    (\<exists>le. si_lifecycle_event r = Some (lifecycle_event_to_dict le) \<and> le_status le \<in> {FILLED, PARTIALLY_FILLED, EXPIRED, REJECTED} \<and>
       outcome_types (si_status r) = [canonical_fill_event_type (PStr (paper_status_value (le_status le)))])"
  using assms(1)
proof (cases rule: simulation_cases)
  case (blocked bs ws ev)
  with assms(2) show ?thesis by simp
next
  case (unfilled prev rem p ws ev)
  then show ?thesis by (simp add: outcome_types_def)
next
  case (ended le s)
  then show ?thesis by (auto simp: outcome_types_def)
next
  case (filled le)
  then have "si_lifecycle_event r = Some (lifecycle_event_to_dict le)"
    "le_status le = FILLED \<and> si_status r = FULL_FILL \<or> le_status le = PARTIALLY_FILLED \<and> si_status r = PARTIAL_FILL"
    by (auto simp: fill_sound_def)
  then show ?thesis by (auto simp: outcome_types_def)
qed

lemma fill_stage_total:
  assumes c: "\<not> blank (py_str (pq_cycle_id q))" and x: "py_float (pq_ts_epoch q) = Inr x"
    and i: "pi_paper_order_intent_id i = stable_intent_id c0 t0" "intent_ok (paper_intent_to_dict i)" "pi_quantity i = Some n" "0 < n"
      "follows i OPEN opened"
    and quote: "quote_age_sec (as_dict (pq_quote q)) (pq_now_epoch q) = Inr age"
      "quote_usable (as_dict (pq_quote q)) age (pq_max_quote_age q)" "quote_readable (as_dict (pq_quote q))"
    and st: "run_state q i x opened_types st"
  shows "\<exists>st'. fill_stage q (paper_intent_to_dict i) (lifecycle_event_to_dict opened) st = Inr st' \<and>
    run_state q i x (opened_types @ outcome_types (expected_fill q i)) st'"
proof -
  let ?intent = "paper_intent_to_dict i"
  obtain ts where ts: "offset_ts (pq_ts_epoch q) 4 = Inr ts" using offset_ts_float [OF x, of 4] by auto
  obtain r where r: "simulate_paper_fill (fill_request_of q ?intent (lifecycle_event_to_dict opened) ts) = Inr r"
    "si_status r = expected_fill q i"
    using simulation_total [OF i(2-5) quote] by blast
  have going: "si_status r \<noteq> Paper_Fill.BLOCKED" unfolding r(2) by (simp add: expected_fill_def Let_def split: option.split sum.split)
  let ?st = "record_stage ''fill'' (simulation_result_to_dict r) (si_warnings r) st"
  have run: "run_state q i x opened_types ?st" using st by (simp add: run_state_same [of ?st st])
  have step: "fill_stage q ?intent (lifecycle_event_to_dict opened) st =
      (case dget (simulation_result_to_dict r) ''lifecycle_event'' of
         PDict le \<Rightarrow> emit_lifecycle q 4 (canonical_fill_event_type (dget le ''status''))
           (dset ''lifecycle_event'' (PDict le) (simulation_result_to_dict r)) ?intent le ?st
       | _ \<Rightarrow> Inr ?st)"
    unfolding fill_stage_def ts r(1) raising_def sum.case bind_result_simps Let_def using going by (simp only: if_False)
  from simulation_types [OF r(1) going] show ?thesis unfolding r(2)
  proof (elim disjE exE conjE)
    assume none: "si_lifecycle_event r = None" "outcome_types (expected_fill q i) = []"
    then have "fill_stage q ?intent (lifecycle_event_to_dict opened) st = Inr ?st"
      unfolding step simulation_event_get by (simp add: dict_or_none_def)
    with run none(2) show ?thesis by simp
  next
    fix le
    assume le: "si_lifecycle_event r = Some (lifecycle_event_to_dict le)" "le_status le \<in> {FILLED, PARTIALLY_FILLED, EXPIRED, REJECTED}"
      "outcome_types (expected_fill q i) = [canonical_fill_event_type (PStr (paper_status_value (le_status le)))]"
    define ty where "ty = canonical_fill_event_type (PStr (paper_status_value (le_status le)))"
    have ty: "optional_str (PStr ty) = PStr ty" "ty \<in> set valid_event_types" "ty \<in> set (map fst order_event_status)"
      using le(2) order_type_texts order_types_valid by (auto simp: ty_def order_event_status_def)
    have "dget (lifecycle_event_to_dict le) ''paper_order_id'' = PStr (order_id_of i)"
      using simulated_order_id [OF r(1) le(1)] by simp
    from emit_lifecycle_step [OF c i(1) x run _ _ ty this payloads_readable(3), of 4] obtain st' where
      "emit_lifecycle q 4 ty (dset ''lifecycle_event'' (PDict (lifecycle_event_to_dict le)) (simulation_result_to_dict r)) ?intent
         (lifecycle_event_to_dict le) ?st = Inr st'" "run_state q i x (opened_types @ [ty]) st'"
      by (auto simp: opened_types_def)
    moreover have "dget (simulation_result_to_dict r) ''lifecycle_event'' = PDict (lifecycle_event_to_dict le)"
      using le(1) lifecycle_event_report.not_empty [of le] by (simp add: simulation_event_get dict_or_none_def)
    ultimately have "fill_stage q ?intent (lifecycle_event_to_dict opened) st = Inr st' \<and> run_state q i x (opened_types @ [ty]) st'"
      unfolding step by (simp add: ty_def)
    then show ?thesis unfolding le(3) ty_def [symmetric] by blast
  qed
qed

text \<open>The ids of the events of a run, in their order.\<close>

definition run_ids :: "pipeline_request \<Rightarrow> paper_intent \<Rightarrow> string list \<Rightarrow> string list" where
  "run_ids q i tys = map (\<lambda>(k, ty). run_event_id q i (int k) ty) (enumerate 1 tys)"

definition event_ids :: "pydict list \<Rightarrow> pyval list" where
  "event_ids es = map (\<lambda>e. dget e ''event_id'') es"

lemma distinct_texts: "distinct (map PStr xs) \<longleftrightarrow> distinct xs"
  by (simp add: distinct_map inj_on_def)

lemma event_runs_ids:
  assumes "event_runs q i x tys ps es es'" shows "event_ids es = map PStr (run_ids q i tys)"
proof (rule nth_equalityI)
  show "length (event_ids es) = length (map PStr (run_ids q i tys))" using assms by (simp add: event_ids_def run_ids_def event_runs_def)
  fix k assume "k < length (event_ids es)"
  then have "k < length es" by (simp add: event_ids_def)
  then have "dget (es ! k) ''event_id'' = PStr (run_event_id q i (int k + 1) (tys ! k))" "k < length tys"
    using assms by (auto simp: event_runs_def run_event_def)
  then show "event_ids es ! k = map PStr (run_ids q i tys) ! k"
    using \<open>k < length es\<close> by (simp add: event_ids_def run_ids_def nth_enumerate_eq add.commute)
qed

text \<open>The last two stages: the guard passes the events exactly when their ids differ.\<close>

lemma run_state_events:
  assumes c: "\<not> blank (py_str (pq_cycle_id q))" and i: "pi_paper_order_intent_id i = stable_intent_id c0 t0"
    and st: "run_state q i x tys st" "tys \<noteq> []" "length tys \<le> 4"
  obtains es where "map_result normalize_paper_event (map raw_of (pw_events st)) = Inr es" "es \<noteq> []"
    "validate_canonical_events (pw_events st) = Inr []" "well_ordered es \<longleftrightarrow> distinct (run_ids q i tys)"
    "event_ids (pw_events st) = map PStr (run_ids q i tys)"
    "\<forall>e \<in> set es. is_order_event e \<and> (\<exists>p. dget e ''payload'' = PDict p \<and> payload_readable p)"
proof -
  obtain ps es' where run: "event_runs q i x tys ps (pw_events st) es'"
    "list_all (\<lambda>ty. ty \<in> set (map fst order_event_status)) tys" "list_all payload_readable ps"
    using st(1) by (auto simp: run_state_def)
  note nth = event_runs_nth [OF run(1)]
  have len: "length (pw_events st) = length tys" "length es' = length tys" "length ps = length tys"
    using run(1) by (simp_all add: event_runs_def)
  have each: "list_all2 (\<lambda>e e'. normalize_paper_event (raw_of e) = Inr e' \<and> event_valid e') (pw_events st) es'"
    using nth len by (simp add: list_all2_conv_all_nth run_event_def)
  then have norm: "map_result normalize_paper_event (map raw_of (pw_events st)) = Inr es'"
    by (induction rule: list_all2_induct) simp_all
  have "map_result (validate_paper_event \<circ> raw_of) (pw_events st) = Inr (map (\<lambda>_. []) (pw_events st))"
    using each
  proof (induction rule: list_all2_induct)
    case (Cons e es e' es')
    then have "event_blockers e' = []" using event_blockers_empty [OF normalized_shape(1)] by blast
    with Cons show ?case by (simp add: validate_paper_event_def)
  qed simp
  moreover have "concat (map (\<lambda>(j, bs). map (event_label (int j)) bs) (enumerate k (map (\<lambda>_. []) es))) = []" for k and es :: "pydict list"
    by (induction es arbitrary: k) simp_all
  ultimately have valid: "validate_canonical_events (pw_events st) = Inr []"
    unfolding validate_canonical_events_def by (simp only: bind_result_simps) (simp add: dedupe_def del: concat_eq_Nil_conv concat_conv_foldr)
  have orders: "\<forall>e \<in> set es'. is_order_event e \<and> (\<exists>p. dget e ''payload'' = PDict p \<and> payload_readable p)"
  proof
    fix e assume "e \<in> set es'"
    then obtain k where k: "k < length tys" "e = es' ! k" using len by (auto simp: in_set_conv_nth)
    then have "event_type_of e = tys ! k" "dget e ''payload'' = PDict (ps ! k)" using nth [of k] len by (simp_all add: run_event_def)
    moreover have "tys ! k \<in> set (map fst order_event_status)" "payload_readable (ps ! k)"
      using run(2,3) k len by (simp_all add: list_all_length del: set_map)
    ultimately show "is_order_event e \<and> (\<exists>p. dget e ''payload'' = PDict p \<and> payload_readable p)"
      by (simp add: is_order_event_def)
  qed
  have "length es' \<le> 4" using len(2) st(3) by simp
  from event_runs_ordered [OF run(1) this c i] have "well_ordered es' \<longleftrightarrow> distinct (run_ids q i tys)"
    unfolding event_ids_def [symmetric] event_runs_ids [OF run(1)] distinct_texts .
  moreover have "es' \<noteq> []" using len st(2) by auto
  ultimately show thesis using that norm valid orders event_runs_ids [OF run(1)] by blast
qed

lemma last_stages_total:
  assumes c: "\<not> blank (py_str (pq_cycle_id q))" and i: "pi_paper_order_intent_id i = stable_intent_id c0 t0"
    and st: "run_state q i x tys st" "tys \<noteq> []" "length tys \<le> 4"
  shows "event_ids (pw_events st) = map PStr (run_ids q i tys) \<and>
    (if distinct (run_ids q i tys)
    then \<exists>ordered st1 state st2. ordering_stage q st = Inr (ordered, st1) \<and> reducer_stage q ordered st1 = Inr (state, st2) \<and>
      pw_events st2 = pw_events st
    else \<exists>r. ordering_stage q st = Inl (Returns r) \<and> \<not> pl_completed r \<and> pl_events r = pw_events st)"
proof -
  obtain es where es: "map_result normalize_paper_event (map raw_of (pw_events st)) = Inr es" "es \<noteq> []"
    "validate_canonical_events (pw_events st) = Inr []" "well_ordered es \<longleftrightarrow> distinct (run_ids q i tys)"
    "event_ids (pw_events st) = map PStr (run_ids q i tys)"
    "\<forall>e \<in> set es. is_order_event e \<and> (\<exists>p. dget e ''payload'' = PDict p \<and> payload_readable p)"
    using run_state_events [OF c i st] by metis
  obtain g where g: "guard_paper_event_ordering (EventsList (map raw_of (pw_events st))) = Inr g" using guard_total [OF es(1)] by blast
  have valid: "gr_valid g \<longleftrightarrow> distinct (run_ids q i tys)" "gr_valid g \<longrightarrow> gr_ordered_events g = es"
    using guard_outcome [OF g] es(1,4) by auto
  have status: "gr_status g = Paper_Ordering.BLOCKED \<longleftrightarrow> \<not> gr_valid g"
    using g by (auto simp: guard_paper_event_ordering_def split: if_splits)
  let ?st = "record_stage ''ordering'' (guard_result_to_dict g) (gr_warnings g) st"
  have step: "ordering_stage q st = (if gr_status g = Paper_Ordering.BLOCKED
      then stop q ?st ''ORDERING'' (gr_blockers g) ''PAPER_PIPELINE_ORDERING_BLOCKED'' else Inr (gr_ordered_events g, ?st))"
    by (simp add: ordering_stage_def es(3) g raising_def Let_def)
  show ?thesis
  proof (cases "distinct (run_ids q i tys)")
    case True
    then have g': "gr_ordered_events g = es" "gr_status g \<noteq> Paper_Ordering.BLOCKED" using valid status by auto
    have "well_ordered es" using True es(4) by simp
    from reducer_total [OF es(1) this es(2,6)] obtain rd where
      rd: "reduce_paper_events (EventsList (map raw_of es)) = Inr rd" "rr_status rd \<noteq> Paper_Reducer.BLOCKED" by blast
    have "reducer_stage q es ?st = Inr (reduced_state_to_dict (rr_state rd), record_stage ''reducer'' (reducer_result_to_dict rd) (rr_warnings rd) ?st)"
      using rd by (simp add: reducer_stage_def raising_def Let_def)
    moreover have "ordering_stage q st = Inr (es, ?st)" unfolding step using g' by simp
    ultimately show ?thesis using True es(5) by auto
  next
    case False
    then show ?thesis unfolding step using es(5) valid(1) status by (simp add: stop_def blocked_pipeline_def)
  qed
qed

section \<open>The run\<close>

text \<open>Inputs on which no stage may refuse: safe, permitted, with a quantity, a time and a usable quote that can be read.\<close>

definition pipeline_ready :: "pipeline_request \<Rightarrow> bool" where
  "pipeline_ready q \<longleftrightarrow>
     validate_pipeline_inputs q = [] \<and>
     (case validate_intent_inputs (bridge_of q) of Inr (bs, _) \<Rightarrow> bs = [] | Inl _ \<Rightarrow> False) \<and>
     (case selected_candidate (pq_top_executable q) of
        Some d \<Rightarrow> candidate_readable (bridge_of q) d \<and>
          (case int_or_none (get_or d [''quantity'', ''qty'']) of Inr (Some n) \<Rightarrow> 0 < n | _ \<Rightarrow> False)
      | None \<Rightarrow> False) \<and>
     \<not> isl (py_float (pq_ts_epoch q)) \<and>
     (case quote_age_sec (as_dict (pq_quote q)) (pq_now_epoch q) of
        Inr age \<Rightarrow> quote_usable (as_dict (pq_quote q)) age (pq_max_quote_age q) | Inl _ \<Rightarrow> False) \<and>
     quote_readable (as_dict (pq_quote q))"

definition run_types :: "pipeline_request \<Rightarrow> paper_intent \<Rightarrow> string list" where
  "run_types q i = opened_types @ outcome_types (expected_fill q i)"

lemma ready_intent:
  assumes "pipeline_ready q"
  obtains rb i n where "build_paper_intent (bridge_of q) = Inr rb" "ir_created rb" "ir_intent rb = Some i"
    "pi_quantity i = Some n" "0 < n"
proof -
  obtain ws where "validate_intent_inputs (bridge_of q) = Inr ([], ws)"
    using assms by (auto simp: pipeline_ready_def split: sum.splits)
  moreover obtain d n where d: "selected_candidate (bi_top_executable (bridge_of q)) = Some d" "candidate_readable (bridge_of q) d"
    "int_or_none (get_or d [''quantity'', ''qty'']) = Inr (Some n)" "0 < n"
    using assms by (auto simp: pipeline_ready_def bridge_of_def split: option.splits sum.splits)
  ultimately obtain rb i where rb: "build_paper_intent (bridge_of q) = Inr rb" "ir_intent rb = Some i"
    using build_intent_total by blast
  from rb show thesis
  proof (cases rule: built_intent_cases)
    case (blocked)
    with rb(2) show thesis by simp
  next
    case (created d' i')
    then have "int_or_none (get_or d [''quantity'', ''qty'']) = Inr (pi_quantity i)"
      using d(1) rb(2) intent_of_candidate_fields(4) by auto
    then have "pi_quantity i = Some n" using d(3) by simp
    with that rb created d(4) show thesis by auto
  qed
qed

lemma ready_cycle: "pipeline_ready q \<Longrightarrow> \<not> blank (py_str (pq_cycle_id q))"
  by (auto simp: pipeline_ready_def validate_pipeline_inputs_def stripped_or_none_def Let_def split: if_splits)

lemma ready_run:
  assumes "pipeline_ready q"
  shows "\<exists>rb i r. build_paper_intent (bridge_of q) = Inr rb \<and> ir_intent rb = Some i \<and> run_paper_trading_pipeline q = Inr r \<and>
    event_ids (pl_events r) = map PStr (run_ids q i (run_types q i)) \<and>
    (pl_completed r \<longleftrightarrow> distinct (run_ids q i (run_types q i)))"
proof -
  obtain rb i n where rb: "build_paper_intent (bridge_of q) = Inr rb" "ir_created rb" "ir_intent rb = Some i"
    and n: "pi_quantity i = Some n" "0 < n" using ready_intent [OF assms] by metis
  note c = ready_cycle [OF assms]
  obtain x age where x: "py_float (pq_ts_epoch q) = Inr x"
    and quote: "quote_age_sec (as_dict (pq_quote q)) (pq_now_epoch q) = Inr age"
      "quote_usable (as_dict (pq_quote q)) age (pq_max_quote_age q)" "quote_readable (as_dict (pq_quote q))"
    using assms by (auto simp: pipeline_ready_def not_isl split: sum.splits)
  have i: "pi_paper_order_intent_id i = stable_intent_id (pi_candidate_id i) (pq_ts_epoch q)"
    using created_intent_ids(2) [OF rb(1,3)] by (simp add: bridge_of_def)
  note ok = intent_ok_created [OF rb(1,3)]
  have "pw_events (initial_locals q) = []" by (simp add: initial_locals_def)
  from intent_stage_total [OF c x rb this] obtain st1 where s1: "intent_stage q (initial_locals q) = Inr (paper_intent_to_dict i, st1)"
    "run_state q i x [''PAPER_ORDER_INTENT_CREATED''] st1" by blast
  from order_stages_total [OF c x i ok s1(2)] obtain opened st2 where
    s2: "order_stages q (paper_intent_to_dict i) st1 = Inr (lifecycle_event_to_dict opened, st2)" "follows i OPEN opened"
      "run_state q i x opened_types st2" by blast
  from fill_stage_total [OF c x i ok(1) n s2(2) quote s2(3)] obtain st3 where
    s3: "fill_stage q (paper_intent_to_dict i) (lifecycle_event_to_dict opened) st2 = Inr st3" "run_state q i x (run_types q i) st3"
    unfolding run_types_def by blast
  have len: "run_types q i \<noteq> []" "length (run_types q i) \<le> 4"
    by (simp_all add: run_types_def opened_types_def outcome_types_def split: simulation_status.split)
  note last = last_stages_total [OF c i s3(2) len]
  have input: "validate_pipeline_inputs q = []" using assms by (simp add: pipeline_ready_def)
  show ?thesis
  proof (cases "distinct (run_ids q i (run_types q i))")
    case True
    with last obtain ordered st4 state st5 where "ordering_stage q st3 = Inr (ordered, st4)" "reducer_stage q ordered st4 = Inr (state, st5)"
      "pw_events st5 = pw_events st3" by auto
    then have "run_paper_trading_pipeline q = Inr (completed_pipeline q state st5)"
      by (simp add: run_paper_trading_pipeline_def input pipeline_steps_def s1(1) s2(1) s3(1))
    with True last \<open>pw_events st5 = pw_events st3\<close> rb show ?thesis by (auto simp: completed_pipeline_def)
  next
    case False
    with last obtain r where r: "ordering_stage q st3 = Inl (Returns r)" "\<not> pl_completed r" "pl_events r = pw_events st3" by auto
    then have "run_paper_trading_pipeline q = Inr r"
      by (simp add: run_paper_trading_pipeline_def input pipeline_steps_def s1(1) s2(1) s3(1))
    with False last r rb show ?thesis by auto
  qed
qed

end
