(* ===== verification/Py_Sha256_Eval.thy ===== *)
theory Py_Sha256_Eval
  imports Py_Sha256
begin

text \<open>
  SHA-256 on concrete texts, inside the kernel: one or two blocks, each evaluated by its own
  rewriting step, and the FIPS 180-4 test vector as a check of the model.
\<close>

unbundle bit_operations_syntax

lemma digest16_one_block:
  assumes "length (sha_pad (map of_char s)) = 64" "sha_block sha_init (sha_pad (map of_char s)) = ws"
  shows "digest16 s = take 16 (concat (map hex_word ws))"
  using assms by (simp add: digest16_def sha256_hex_def sha256_words_def Let_def)

lemma digest16_two_blocks:
  assumes "length (sha_pad (map of_char s)) = 128" "sha_block sha_init (take 64 (sha_pad (map of_char s))) = hs"
    and "sha_block hs (drop 64 (sha_pad (map of_char s))) = ws"
  shows "digest16 s = take 16 (concat (map hex_word ws))"
  using assms by (simp add: digest16_def sha256_hex_def sha256_words_def Let_def upt_rec)

text \<open>The first test vector of FIPS 180-4.\<close>

lemma digest_abc_block: "sha_block sha_init (sha_pad (map of_char ''abc'')) =
    [3128432319, 2399260650, 1094795486, 1571693091, 2953011619, 2518121116, 3021012833, 4060091821]"
  unfolding sha_block_def Let_def by code_simp

lemma digest_abc: "digest16 ''abc'' = ''ba7816bf8f01cfea''"
proof -
  have "length (sha_pad (map of_char ''abc'')) = 64" by code_simp
  from digest16_one_block [OF this digest_abc_block] show ?thesis by (rule trans) code_simp
qed

end
