(* ===== verification/Paper_Demo_Ids.thy ===== *)
theory Paper_Demo_Ids
  imports Py_Sha256_Eval
begin

text \<open>The identifiers of the pipeline run that \<open>Paper_Pipeline_Run\<close> evaluates: candidate c1 at time 1 in cycle c.\<close>

unbundle bit_operations_syntax

lemma demo_intent_digest_block: "sha_block sha_init (sha_pad (map of_char ''c1|1'')) =
    [3470708096, 540379048, 1197857215, 3815309392, 2740373461, 776037950, 1704691855, 17844462]"
  unfolding sha_block_def Let_def by code_simp

lemma demo_intent_digest: "digest16 ''c1|1'' = ''cedecd80203587a8''"
proof -
  have "length (sha_pad (map of_char ''c1|1'')) = 64" by code_simp
  from digest16_one_block [OF this demo_intent_digest_block] show ?thesis by (rule trans) code_simp
qed

lemma demo_order_digest_block: "sha_block sha_init (sha_pad (map of_char ''paper-cedecd80203587a8|c1'')) =
    [3733870834, 4194909456, 1344338503, 728695515, 4036231864, 3254213617, 1824122889, 2851488519]"
  unfolding sha_block_def Let_def by code_simp

lemma demo_order_digest: "digest16 ''paper-cedecd80203587a8|c1'' = ''de8e58f2fa093d10''"
proof -
  have "length (sha_pad (map of_char ''paper-cedecd80203587a8|c1'')) = 64" by code_simp
  from digest16_one_block [OF this demo_order_digest_block] show ?thesis by (rule trans) code_simp
qed

lemma demo_created_digest_block: "sha_block sha_init (sha_pad (map of_char ''c|1|PAPER_ORDER_INTENT_CREATED|paper-cedecd80203587a8|'')) =
    [3012405308, 4024869418, 3791193495, 759680395, 518962217, 86608101, 2638293096, 3212013293]"
  unfolding sha_block_def Let_def by code_simp

lemma demo_created_digest: "digest16 ''c|1|PAPER_ORDER_INTENT_CREATED|paper-cedecd80203587a8|'' = ''b38da83cefe6a22a''"
proof -
  have "length (sha_pad (map of_char ''c|1|PAPER_ORDER_INTENT_CREATED|paper-cedecd80203587a8|'')) = 64" by code_simp
  from digest16_one_block [OF this demo_created_digest_block] show ?thesis by (rule trans) code_simp
qed

lemma demo_accepted_digest_first: "sha_block sha_init (take 64 (sha_pad (map of_char ''c|2|PAPER_ORDER_ACCEPTED|paper-cedecd80203587a8|paper-order-de8e58f2fa093d10''))) =
    [242960152, 343010715, 1984518633, 3515073117, 2291525898, 1630405944, 2644366463, 2508440497]"
  unfolding sha_block_def Let_def by code_simp

lemma demo_accepted_digest_second: "sha_block [242960152, 343010715, 1984518633, 3515073117, 2291525898, 1630405944, 2644366463, 2508440497]
    (drop 64 (sha_pad (map of_char ''c|2|PAPER_ORDER_ACCEPTED|paper-cedecd80203587a8|paper-order-de8e58f2fa093d10''))) =
    [2003289959, 891052060, 1285746023, 2198848065, 1400022727, 2826030316, 178387228, 341019552]"
  unfolding sha_block_def Let_def by code_simp

lemma demo_accepted_digest: "digest16 ''c|2|PAPER_ORDER_ACCEPTED|paper-cedecd80203587a8|paper-order-de8e58f2fa093d10'' = ''7767c767351c601c''"
proof -
  have "length (sha_pad (map of_char ''c|2|PAPER_ORDER_ACCEPTED|paper-cedecd80203587a8|paper-order-de8e58f2fa093d10'')) = 128" by code_simp
  from digest16_two_blocks [OF this demo_accepted_digest_first demo_accepted_digest_second] show ?thesis by (rule trans) code_simp
qed

lemma demo_opened_digest_first: "sha_block sha_init (take 64 (sha_pad (map of_char ''c|3|PAPER_ORDER_OPENED|paper-cedecd80203587a8|paper-order-de8e58f2fa093d10''))) =
    [2351643715, 2430133090, 1763980851, 1720424124, 4169684057, 947954669, 1923423210, 4044304033]"
  unfolding sha_block_def Let_def by code_simp

lemma demo_opened_digest_second: "sha_block [2351643715, 2430133090, 1763980851, 1720424124, 4169684057, 947954669, 1923423210, 4044304033]
    (drop 64 (sha_pad (map of_char ''c|3|PAPER_ORDER_OPENED|paper-cedecd80203587a8|paper-order-de8e58f2fa093d10''))) =
    [98794586, 2180320044, 1910852521, 846291390, 3448936802, 1549128149, 1977446754, 4055197334]"
  unfolding sha_block_def Let_def by code_simp

lemma demo_opened_digest: "digest16 ''c|3|PAPER_ORDER_OPENED|paper-cedecd80203587a8|paper-order-de8e58f2fa093d10'' = ''05e37c5a81f50b2c''"
proof -
  have "length (sha_pad (map of_char ''c|3|PAPER_ORDER_OPENED|paper-cedecd80203587a8|paper-order-de8e58f2fa093d10'')) = 128" by code_simp
  from digest16_two_blocks [OF this demo_opened_digest_first demo_opened_digest_second] show ?thesis by (rule trans) code_simp
qed

lemma demo_filled_digest_first: "sha_block sha_init (take 64 (sha_pad (map of_char ''c|4|PAPER_ORDER_FILLED|paper-cedecd80203587a8|paper-order-de8e58f2fa093d10''))) =
    [2832765972, 735469646, 3923842545, 1424199838, 755877637, 3490800327, 1641329014, 3969309111]"
  unfolding sha_block_def Let_def by code_simp

lemma demo_filled_digest_second: "sha_block [2832765972, 735469646, 3923842545, 1424199838, 755877637, 3490800327, 1641329014, 3969309111]
    (drop 64 (sha_pad (map of_char ''c|4|PAPER_ORDER_FILLED|paper-cedecd80203587a8|paper-order-de8e58f2fa093d10''))) =
    [1276117367, 959597410, 3292628718, 3934629082, 2347975742, 649480772, 2006820161, 3281841170]"
  unfolding sha_block_def Let_def by code_simp

lemma demo_filled_digest: "digest16 ''c|4|PAPER_ORDER_FILLED|paper-cedecd80203587a8|paper-order-de8e58f2fa093d10'' = ''4c10017739324b62''"
proof -
  have "length (sha_pad (map of_char ''c|4|PAPER_ORDER_FILLED|paper-cedecd80203587a8|paper-order-de8e58f2fa093d10'')) = 128" by code_simp
  from digest16_two_blocks [OF this demo_filled_digest_first demo_filled_digest_second] show ?thesis by (rule trans) code_simp
qed

end
