(* ===== verification/Paper_Pipeline_Run.thy ===== *)
theory Paper_Pipeline_Run
  imports Paper_Pipeline_Live Paper_Demo_Ids
begin

text \<open>
  The properties of a pipeline run, and one run followed to its end: a buy of 50 at a limit of
  101 that a controlled quote of 100 fills in full.
\<close>

section \<open>A concrete run\<close>

definition demo_candidate :: pydict where
  "demo_candidate =
     [(''candidate_id'', PStr ''c1''), (''is_order'', PBool False), (''symbol'', PStr ''NIFTY''), (''quantity'', PInt 50),
      (''transaction_type'', PStr ''BUY''), (''order_type'', PStr ''LIMIT''), (''price'', PFloat (Fin 101))]"

definition demo_pipeline :: "pyval \<Rightarrow> pipeline_request" where
  "demo_pipeline permitted =
     \<lparr>pq_cycle_id = PStr ''c'',
      pq_top_executable = PDict [(''status'', PStr ''SELECTED''), (''selected'', PDict demo_candidate)],
      pq_execution_safety = PDict [(''execution_permitted'', permitted), (''is_order_action'', PBool False)],
      pq_quote = PDict [(''source'', PStr ''TEST_QUOTE''), (''is_order_action'', PBool False), (''ask'', PFloat (Fin 100)), (''size'', PInt 80)],
      pq_readiness = PNone, pq_market_data = PNone, pq_instrument_health = PNone, pq_ts_epoch = PInt 1, pq_now_epoch = None,
      pq_max_quote_age = Fin 5\<rparr>"

lemma demo_ready: "pipeline_ready (demo_pipeline (PBool True))"
  by code_simp

text \<open>The intent of this run.\<close>

definition demo_run_intent :: paper_intent where
  "demo_run_intent =
     \<lparr>pi_paper_order_intent_id = stable_intent_id ''c1'' (PInt 1), pi_candidate_id = ''c1'', pi_symbol = Some ''NIFTY'',
      pi_tradingsymbol = Some ''NIFTY'', pi_instrument_token = None, pi_transaction_type = Some ''BUY'', pi_quantity = Some 50,
      pi_order_type = Some ''LIMIT'', pi_product = None, pi_price = Some (Fin 101), pi_trigger_price = None, pi_strategy = None,
      pi_quality_score = None, pi_created_at_epoch = PInt 1, pi_source = ''paper_order_intent_bridge'',
      pi_candidate_snapshot = demo_candidate, pi_readiness_snapshot = [], pi_market_data_snapshot = [],
      pi_instrument_health_snapshot = [],
      pi_safety_decision_snapshot = [(''execution_permitted'', PBool True), (''is_order_action'', PBool False)]\<rparr>"

lemma demo_run_built:
  assumes "build_paper_intent (bridge_of (demo_pipeline (PBool True))) = Inr rb" "ir_intent rb = Some i"
  shows "i = demo_run_intent"
proof -
  let ?b = "bridge_of (demo_pipeline (PBool True))"
  obtain d where "selected_candidate (bi_top_executable ?b) = Some d" "intent_of_candidate ?b d = Inr i"
    using assms by (cases rule: built_intent_cases) auto
  moreover have "selected_candidate (bi_top_executable ?b) = Some demo_candidate" by code_simp
  ultimately have "intent_of_candidate ?b demo_candidate = Inr i" by simp
  moreover have "intent_of_candidate ?b demo_candidate = Inr demo_run_intent"
    by (simp add: intent_of_candidate_def demo_candidate_def bridge_of_def demo_pipeline_def demo_run_intent_def str_or_none_def Let_def
        dict_or_empty_def [of PNone])
  ultimately show ?thesis by simp
qed

lemma demo_ids:
  "pi_paper_order_intent_id demo_run_intent = ''paper-cedecd80203587a8''"
  "order_id_of demo_run_intent = ''paper-order-de8e58f2fa093d10''"
proof -
  have "str_or_empty (PInt 1) = ''1''" by code_simp
  then show id: "pi_paper_order_intent_id demo_run_intent = ''paper-cedecd80203587a8''"
    using demo_intent_digest by (simp add: demo_run_intent_def stable_intent_id_def)
  have "pi_candidate_id demo_run_intent = ''c1''" by (simp add: demo_run_intent_def)
  with id show "order_id_of demo_run_intent = ''paper-order-de8e58f2fa093d10''"
    using demo_order_digest by (simp add: order_id_of_def stable_paper_order_id_def)
qed

lemma demo_types: "run_types (demo_pipeline (PBool True)) demo_run_intent =
    [''PAPER_ORDER_INTENT_CREATED'', ''PAPER_ORDER_ACCEPTED'', ''PAPER_ORDER_OPENED'', ''PAPER_ORDER_FILLED'']"
proof -
  let ?i = "paper_intent_to_dict demo_run_intent" and ?u = "as_dict (pq_quote (demo_pipeline (PBool True)))"
  let ?d = "[(''transaction_type'', PStr ''BUY''), (''order_type'', PStr ''LIMIT''), (''price'', PFloat (Fin 101))]"
  have get: "dget ?i ''transaction_type'' = PStr ''BUY''" "dget ?i ''order_type'' = PStr ''LIMIT''" "dget ?i ''price'' = PFloat (Fin 101)"
    "dget ?i ''order_expiry_epoch'' = PNone"
    by (simp_all add: paper_intent_to_dict_def demo_run_intent_def)
  have "resolved_fill_price ?i ?u = resolved_fill_price ?d ?u" by (simp add: resolved_fill_price_def get)
  also have "\<dots> = Inr (Some (Fin 100))" by code_simp
  finally have price: "resolved_fill_price ?i ?u = Inr (Some (Fin 100))" .
  have "order_expired ?i ?u None = order_expired ?d ?u None" by (simp add: order_expired_def get)
  also have "\<dots> = Inr False" by code_simp
  finally have expired: "order_expired ?i ?u (pq_now_epoch (demo_pipeline (PBool True))) = Inr False" by (simp add: demo_pipeline_def)
  have "or_zero (pi_quantity demo_run_intent) = 50" by (simp add: demo_run_intent_def)
  moreover have "\<not> quote_rejected ?u" "available_quantity ?u 50 = Inr 80" by code_simp+
  moreover note price expired
  ultimately have "expected_fill (demo_pipeline (PBool True)) demo_run_intent = FULL_FILL"
    by (simp add: expected_fill_def Let_def)
  then show ?thesis by (simp add: run_types_def opened_types_def outcome_types_def)
qed

lemma demo_event_ids: "run_ids (demo_pipeline (PBool True)) demo_run_intent (run_types (demo_pipeline (PBool True)) demo_run_intent) =
    [''paper-pipeline-b38da83cefe6a22a'', ''paper-pipeline-7767c767351c601c'', ''paper-pipeline-05e37c5a81f50b2c'',
     ''paper-pipeline-4c10017739324b62'']"
proof -
  have "py_str (pq_cycle_id (demo_pipeline (PBool True))) = ''c''" by (simp add: demo_pipeline_def)
  moreover have "int_to_string 1 = ''1''" "int_to_string 2 = ''2''" "int_to_string 3 = ''3''" "int_to_string 4 = ''4''"
    by code_simp+
  ultimately show ?thesis
    using demo_created_digest demo_accepted_digest demo_opened_digest demo_filled_digest
    by (simp add: demo_types run_ids_def run_event_id_def demo_ids)
qed

lemma demo_run:
  obtains r where "run_paper_trading_pipeline (demo_pipeline (PBool True)) = Inr r" "pl_completed r"
    "event_ids (pl_events r) = map PStr
      [''paper-pipeline-b38da83cefe6a22a'', ''paper-pipeline-7767c767351c601c'', ''paper-pipeline-05e37c5a81f50b2c'',
       ''paper-pipeline-4c10017739324b62'']"
proof -
  obtain rb i r where r: "build_paper_intent (bridge_of (demo_pipeline (PBool True))) = Inr rb" "ir_intent rb = Some i"
    "run_paper_trading_pipeline (demo_pipeline (PBool True)) = Inr r"
    "event_ids (pl_events r) = map PStr (run_ids (demo_pipeline (PBool True)) i (run_types (demo_pipeline (PBool True)) i))"
    "pl_completed r \<longleftrightarrow> distinct (run_ids (demo_pipeline (PBool True)) i (run_types (demo_pipeline (PBool True)) i))"
    using ready_run [OF demo_ready] by blast
  have i: "i = demo_run_intent" using r(1,2) by (rule demo_run_built)
  from r(4,5) have "pl_completed r" "event_ids (pl_events r) = map PStr
      [''paper-pipeline-b38da83cefe6a22a'', ''paper-pipeline-7767c767351c601c'', ''paper-pipeline-05e37c5a81f50b2c'',
       ''paper-pipeline-4c10017739324b62'']"
    unfolding i demo_event_ids by simp_all
  with r(3) show thesis by (rule that)
qed

section \<open>Properties\<close>



text \<open>
  C19. Safe, permitted and readable inputs get through every stage. The run returns a result
  whose event ids are the expected ones, computed from the cycle, the intent and the outcome
  that the quote asks for, and it completes exactly when these ids differ: no blocker but a
  collision of truncated digests is left, in particular the offsets that are added to the
  timestamps never make the ordering guard refuse.
\<close>

theorem ready_pipeline_completes:
  assumes "pipeline_ready q"
  shows "\<exists>rb i r. build_paper_intent (bridge_of q) = Inr rb \<and> ir_intent rb = Some i \<and> run_paper_trading_pipeline q = Inr r \<and>
    event_ids (pl_events r) = map PStr (run_ids q i (run_types q i)) \<and>
    (pl_completed r \<longleftrightarrow> distinct (run_ids q i (run_types q i)))"
  using assms by (rule ready_run)

theorem ready_pipeline_completes_witness:
  "\<exists>r. run_paper_trading_pipeline (demo_pipeline (PBool True)) = Inr r \<and> pl_completed r \<and>
     event_ids (pl_events r) = map PStr
       [''paper-pipeline-b38da83cefe6a22a'', ''paper-pipeline-7767c767351c601c'', ''paper-pipeline-05e37c5a81f50b2c'',
        ''paper-pipeline-4c10017739324b62'']"
proof -
  obtain rb i r where r: "build_paper_intent (bridge_of (demo_pipeline (PBool True))) = Inr rb" "ir_intent rb = Some i"
    "run_paper_trading_pipeline (demo_pipeline (PBool True)) = Inr r"
    "event_ids (pl_events r) = map PStr (run_ids (demo_pipeline (PBool True)) i (run_types (demo_pipeline (PBool True)) i))"
    "pl_completed r \<longleftrightarrow> distinct (run_ids (demo_pipeline (PBool True)) i (run_types (demo_pipeline (PBool True)) i))"
    using ready_pipeline_completes [OF demo_ready] by blast
  have i: "i = demo_run_intent" using r(1,2) by (rule demo_run_built)
  show ?thesis using r(3-5) unfolding i demo_event_ids by auto
qed

text \<open>
  The event of the intent is booked under the intent id and the others under the order id, so
  the state of a completed run counts two orders for its one order, and the row of the intent,
  which no later event reaches, counts as open: a run whose order is filled still reports one
  open order, and a run whose order is open or partially filled reports two.
\<close>

theorem completed_run_counts_intent:
  assumes "run_paper_trading_pipeline q = Inr r" "pl_completed r" shows "counts_intent_row r"
  using assms by (rule completed_counts)

theorem completed_run_counts_intent_witness:
  "\<exists>r. run_paper_trading_pipeline (demo_pipeline (PBool True)) = Inr r \<and> pl_completed r \<and> counts_intent_row r"
proof -
  obtain r where r: "run_paper_trading_pipeline (demo_pipeline (PBool True)) = Inr r" "pl_completed r" by (rule demo_run)
  from completed_run_counts_intent [OF r] r show ?thesis by auto
qed

end
