(* ===== verification/Gate_Base.thy ===== *)
theory Gate_Base
  imports Paper_Intent
begin

text \<open>
  What the packages around the order intent share (src/order_intent, src/paper_broker,
  src/dry_run_execution, src/approval_audit, src/fill_lifecycle, src/outcome_replay, src/candidate_truth): the readers of
  free-form records and the facts about label lists that their validations need.
\<close>

section \<open>Reading records\<close>

text \<open>\<open>str(v or "").upper().strip().replace(" ", "_").replace("-", "_")\<close>\<close>

definition status_key :: "pyval \<Rightarrow> string" where
  "status_key v = replace_char CHR ''-'' CHR ''_'' (replace_char CHR '' '' CHR ''_'' (strip (upper (str_or_empty v))))"

text \<open>\<open>str(d.get(k1) or d.get(k2) or \<dots> or default)\<close>\<close>

definition text_or :: "pydict \<Rightarrow> string list \<Rightarrow> string \<Rightarrow> string" where
  "text_or d ks other = py_str (py_or (get_or d ks) (PStr other))"

text \<open>\<open>try: return float(v) except (TypeError, ValueError): return 0.0\<close>\<close>

definition float_or_nought :: "pyval \<Rightarrow> pyfloat result" where
  "float_or_nought v = bind_result (or_none (py_float v)) (\<lambda>x. Inr (case x of Some f \<Rightarrow> f | None \<Rightarrow> Fin 0))"

text \<open>\<open>sum(1 for x in xs if P(x))\<close>\<close>

definition count_if :: "('a \<Rightarrow> bool) \<Rightarrow> 'a list \<Rightarrow> nat" where
  "count_if P xs = length (filter P xs)"

section \<open>Labels\<close>

lemma keep_first_labels: "keep_first [] xs = [] \<longleftrightarrow> list_all (\<lambda>x. x = []) xs"
  by (auto simp: keep_first_eq_Nil list_all_iff)

lemma list_all_empty_add_if [simp]: "list_all (\<lambda>x. x = []) (add_if b s) \<longleftrightarrow> \<not> b \<or> s = []"
  by (simp add: add_if_def)

lemma py_str_not_empty: "\<not> is_blank v \<Longrightarrow> py_str v \<noteq> []"
  by (cases v) simp_all

end
