(* ===== verification/Order_Intent.thy ===== *)
theory Order_Intent
  imports Gate_Base
begin

text \<open>
  src/order_intent/contract.py: the order intent made of the selected candidate when the safety
  decision permits execution. The intent has the terms of an order in a supported form and
  never is an order action itself. \<open>_selected\<close>, \<open>_str_or_none\<close>, \<open>_int_or_none\<close> and
  \<open>_float_or_none\<close> are the functions of the paper intent bridge.
\<close>

section \<open>Intent and result\<close>

record order_intent =
  oi_intent_id :: string
  oi_candidate_id :: string
  oi_mode :: string
  oi_symbol :: "string option"
  oi_tradingsymbol :: "string option"
  oi_instrument_token :: "string option"
  oi_transaction_type :: "string option"
  oi_quantity :: "int option"
  oi_order_type :: "string option"
  oi_product :: "string option"
  oi_price :: "pyfloat option"
  oi_trigger_price :: "pyfloat option"
  oi_strategy :: "string option"
  oi_quality_score :: "pyfloat option"
  oi_approval_id :: "string option"
  oi_operator_id :: "string option"
  oi_broker_confirmation_id :: "string option"
  oi_created_at_epoch :: pyval
  oi_source :: string
  oi_top_executable_snapshot :: pydict
  oi_execution_safety_snapshot :: pydict
  oi_readiness_snapshot :: pydict

definition order_intent_to_dict :: "order_intent \<Rightarrow> pydict" where
  "order_intent_to_dict i =
     [(''intent_id'', PStr (oi_intent_id i)),
      (''candidate_id'', PStr (oi_candidate_id i)),
      (''mode'', PStr (oi_mode i)),
      (''symbol'', opt_str (oi_symbol i)),
      (''tradingsymbol'', opt_str (oi_tradingsymbol i)),
      (''instrument_token'', opt_str (oi_instrument_token i)),
      (''transaction_type'', opt_str (oi_transaction_type i)),
      (''quantity'', opt_int (oi_quantity i)),
      (''order_type'', opt_str (oi_order_type i)),
      (''product'', opt_str (oi_product i)),
      (''price'', opt_float (oi_price i)),
      (''trigger_price'', opt_float (oi_trigger_price i)),
      (''strategy'', opt_str (oi_strategy i)),
      (''quality_score'', opt_float (oi_quality_score i)),
      (''approval_id'', opt_str (oi_approval_id i)),
      (''operator_id'', opt_str (oi_operator_id i)),
      (''broker_confirmation_id'', opt_str (oi_broker_confirmation_id i)),
      (''created_at_epoch'', oi_created_at_epoch i),
      (''source'', PStr (oi_source i)),
      (''contract_version'', PStr ''1.0''),
      (''top_executable_snapshot'', PDict (oi_top_executable_snapshot i)),
      (''execution_safety_snapshot'', PDict (oi_execution_safety_snapshot i)),
      (''readiness_snapshot'', PDict (oi_readiness_snapshot i)),
      (''is_order_action'', PBool False),
      (''broker_api_called'', PBool False),
      (''real_order_id'', PNone),
      (''requires_broker_adapter'', PBool False)]"

record order_intent_result =
  or_created :: bool
  or_intent :: "order_intent option"
  or_blockers :: "string list"
  or_warnings :: "string list"

definition order_intent_result_to_dict :: "order_intent_result \<Rightarrow> pydict" where
  "order_intent_result_to_dict r =
     [(''created'', PBool (or_created r)),
      (''intent'', opt_dict (map_option order_intent_to_dict (or_intent r))),
      (''blockers'', str_list (or_blockers r)),
      (''warnings'', str_list (or_warnings r)),
      (''contract_version'', PStr ''1.0''),
      (''is_order_action'', PBool False),
      (''broker_api_called'', PBool False),
      (''real_order_id'', PNone)]"

definition transaction_types :: "string list" where
  "transaction_types = [''BUY'', ''SELL'']"

definition order_types :: "string list" where
  "order_types = [''MARKET'', ''LIMIT'', ''SL'', ''SL-M'']"

definition products :: "string list" where
  "products = [''MIS'', ''NRML'', ''CNC'']"

section \<open>Validation\<close>

definition normalized_choice :: "pyval \<Rightarrow> string list \<Rightarrow> string option" where
  "normalized_choice v allowed =
     (if is_blank v then None
      else let normalized = upper (py_str v) in if normalized \<in> set allowed then Some normalized else None)"

record contract_input =
  ci_top_executable :: pyval
  ci_execution_safety :: pyval
  ci_readiness :: pyval
  ci_ts_epoch :: pyval

definition top_blockers :: "pydict option \<Rightarrow> string list" where
  "top_blockers selected =
     (case selected of
        None \<Rightarrow> [''NO_TOP_EXECUTABLE_SELECTED'']
      | Some d \<Rightarrow> add_if (dget d ''is_order'' \<noteq> PBool False) ''TOP_EXECUTABLE_ORDER_FLAG_UNSAFE'')"

definition contract_safety_blockers :: "pydict \<Rightarrow> string list result" where
  "contract_safety_blockers safety =
     (if safety = [] then Inr [''EXECUTION_SAFETY_REQUIRED'']
      else
        bind_result (in_str_set (dget safety ''mode'') [''SIM'', ''PAPER'', ''LIVE'']) (\<lambda>supported.
        bind_result (need_dict (dget_or safety ''execution_mode_api_parse'' (PDict []))) (\<lambda>parse.
          Inr (add_if (dget safety ''execution_permitted'' \<noteq> PBool True) ''EXECUTION_SAFETY_NOT_PERMITTED'' @
               add_if (dget safety ''is_order_action'' \<noteq> PBool False) ''EXECUTION_SAFETY_ORDER_FLAG_UNSAFE'' @
               add_if (dget safety ''safety_visibility_only'' \<noteq> PBool True) ''EXECUTION_SAFETY_VISIBILITY_FLAG_REQUIRED'' @
               add_if (\<not> supported) ''EXECUTION_MODE_UNSUPPORTED'' @
               add_if (dget parse ''invalid_mode'' = PBool True) ''INVALID_EXECUTION_MODE'' @
               add_if (dget safety ''broker_api_allowed'' = PBool True \<and> dget safety ''mode'' \<noteq> PStr ''LIVE'')
                 ''BROKER_API_ALLOWED_ONLY_IN_LIVE'' @
               add_if (dget safety ''real_order_allowed'' = PBool True \<and> dget safety ''mode'' \<noteq> PStr ''LIVE'')
                 ''REAL_ORDER_ALLOWED_ONLY_IN_LIVE''))))"

definition contract_readiness_blockers :: "pydict \<Rightarrow> string list" where
  "contract_readiness_blockers readiness =
     (if readiness = [] then []
      else
        add_if (dget readiness ''execution_allowed'' \<noteq> PBool True) ''READINESS_NOT_ALLOWED'' @
        add_if (dget readiness ''is_order'' \<noteq> PBool False) ''READINESS_ORDER_FLAG_UNSAFE'')"

text \<open>The price is only converted when the order type asks for one.\<close>

definition required_price_missing :: "bool \<Rightarrow> pyval \<Rightarrow> bool result" where
  "required_price_missing required v =
     (if required then bind_result (float_or_none v) (\<lambda>x. Inr (x = None)) else Inr False)"

definition term_blockers ::
  "pyval \<Rightarrow> pyval \<Rightarrow> pyval \<Rightarrow> pyval \<Rightarrow> pyval \<Rightarrow> pyval \<Rightarrow> string list result" where
  "term_blockers transaction quantity order_type product price trigger =
     bind_result (int_or_none quantity) (\<lambda>n.
     let ty = normalized_choice order_type order_types
     in bind_result (required_price_missing (ty = Some ''LIMIT'') price) (\<lambda>no_price.
        bind_result (required_price_missing (ty = Some ''SL'' \<or> ty = Some ''SL-M'') trigger) (\<lambda>no_trigger.
          Inr (add_if (normalized_choice transaction transaction_types = None) ''TRANSACTION_TYPE_REQUIRED_OR_UNSUPPORTED'' @
               add_if (case n of Some k \<Rightarrow> k \<le> 0 | None \<Rightarrow> True) ''POSITIVE_QUANTITY_REQUIRED'' @
               add_if (ty = None) ''ORDER_TYPE_REQUIRED_OR_UNSUPPORTED'' @
               add_if (normalized_choice product products = None) ''PRODUCT_REQUIRED_OR_UNSUPPORTED'' @
               add_if no_price ''LIMIT_PRICE_REQUIRED'' @
               add_if no_trigger ''TRIGGER_PRICE_REQUIRED''))))"

definition selected_term_blockers :: "pydict option \<Rightarrow> string list result" where
  "selected_term_blockers selected =
     (case selected of
        None \<Rightarrow> Inr []
      | Some d \<Rightarrow>
          bind_result (term_blockers (get_or d [''transaction_type'', ''side'']) (get_or d [''quantity'', ''qty''])
            (dget d ''order_type'') (dget d ''product'') (get_or d [''price'', ''entry'', ''entry_price''])
            (get_or d [''trigger_price'', ''stop'', ''stop_loss''])) (\<lambda>bs.
            Inr (add_if (is_blank (dget d ''candidate_id'')) ''CANDIDATE_ID_REQUIRED'' @ bs)))"

definition candidate_mismatch :: "pydict option \<Rightarrow> pydict \<Rightarrow> bool" where
  "candidate_mismatch selected readiness \<longleftrightarrow>
     (case selected of
        None \<Rightarrow> False
      | Some d \<Rightarrow> truthy (dget readiness ''candidate_id'') \<and> truthy (dget d ''candidate_id'') \<and>
          py_str (dget readiness ''candidate_id'') \<noteq> py_str (dget d ''candidate_id''))"

definition validate_order_intent_inputs :: "contract_input \<Rightarrow> (string list \<times> string list) result" where
  "validate_order_intent_inputs q =
     (let selected = selected_candidate (ci_top_executable q); readiness = as_dict (ci_readiness q)
      in bind_result (contract_safety_blockers (as_dict (ci_execution_safety q))) (\<lambda>safety_bs.
         bind_result (selected_term_blockers selected) (\<lambda>term_bs.
           Inr (keep_first [] (top_blockers selected @ safety_bs @ contract_readiness_blockers readiness @ term_bs @
                  add_if (candidate_mismatch selected readiness) ''READINESS_CANDIDATE_MISMATCH''),
                []))))"

section \<open>The builder\<close>

text \<open>\<open>safety.get("audit", {}).get("policy", {}).get(k)\<close>\<close>

definition policy_field :: "pydict \<Rightarrow> string \<Rightarrow> pyval result" where
  "policy_field safety k =
     bind_result (need_dict (dget_or safety ''audit'' (PDict []))) (\<lambda>audit.
     bind_result (need_dict (dget_or audit ''policy'' (PDict []))) (\<lambda>policy. Inr (dget policy k)))"

definition stable_order_intent_id :: "string \<Rightarrow> string \<Rightarrow> pydict \<Rightarrow> pyval \<Rightarrow> string result" where
  "stable_order_intent_id candidate_id mode safety ts_epoch =
     bind_result (case dget safety ''audit'' of PDict audit \<Rightarrow> need_dict (dget_or audit ''policy'' (PDict [])) | _ \<Rightarrow> Inr [])
       (\<lambda>policy.
         Inr (''intent-'' @ digest16 (join ''|'' [candidate_id, mode, str_or_empty (dget policy ''approval_id''),
                str_or_empty (dget policy ''broker_confirmation_id''), str_or_empty ts_epoch])))"

definition contract_intent :: "contract_input \<Rightarrow> pydict \<Rightarrow> order_intent result" where
  "contract_intent q selected =
     (let candidate_id = py_str (dget selected ''candidate_id''); safety = as_dict (ci_execution_safety q);
          mode = py_str (dget safety ''mode'')
      in bind_result (stable_order_intent_id candidate_id mode safety (ci_ts_epoch q)) (\<lambda>intent_id.
         bind_result (int_or_none (get_or selected [''quantity'', ''qty''])) (\<lambda>quantity.
         bind_result (float_or_none (get_or selected [''price'', ''entry'', ''entry_price''])) (\<lambda>price.
         bind_result (float_or_none (get_or selected [''trigger_price'', ''stop'', ''stop_loss''])) (\<lambda>trigger_price.
         bind_result (float_or_none (get_or selected [''quality_score'', ''score''])) (\<lambda>quality_score.
         bind_result (policy_field safety ''approval_id'') (\<lambda>approval_id.
         bind_result (policy_field safety ''operator_id'') (\<lambda>operator_id.
         bind_result (policy_field safety ''broker_confirmation_id'') (\<lambda>confirmation_id.
         bind_result (dict_or_empty (ci_top_executable q)) (\<lambda>top_snapshot.
         bind_result (dict_or_empty (ci_execution_safety q)) (\<lambda>safety_snapshot.
         bind_result (dict_or_empty (ci_readiness q)) (\<lambda>readiness_snapshot.
           Inr \<lparr>oi_intent_id = intent_id,
                oi_candidate_id = candidate_id,
                oi_mode = mode,
                oi_symbol = str_or_none (get_or selected [''symbol'', ''underlying'']),
                oi_tradingsymbol = str_or_none (get_or selected [''tradingsymbol'', ''symbol'']),
                oi_instrument_token = str_or_none (dget selected ''instrument_token''),
                oi_transaction_type = normalized_choice (get_or selected [''transaction_type'', ''side'']) transaction_types,
                oi_quantity = quantity,
                oi_order_type = normalized_choice (dget selected ''order_type'') order_types,
                oi_product = normalized_choice (dget selected ''product'') products,
                oi_price = price,
                oi_trigger_price = trigger_price,
                oi_strategy = str_or_none (get_or selected [''strategy'', ''strategy_id'', ''setup_family'']),
                oi_quality_score = quality_score,
                oi_approval_id = str_or_none approval_id,
                oi_operator_id = str_or_none operator_id,
                oi_broker_confirmation_id = str_or_none confirmation_id,
                oi_created_at_epoch = ci_ts_epoch q,
                oi_source = ''order_intent_contract'',
                oi_top_executable_snapshot = top_snapshot,
                oi_execution_safety_snapshot = safety_snapshot,
                oi_readiness_snapshot = readiness_snapshot\<rparr>))))))))))))"

definition build_order_intent :: "contract_input \<Rightarrow> order_intent_result result" where
  "build_order_intent q =
     bind_result (validate_order_intent_inputs q) (\<lambda>(blockers, warnings).
       if blockers \<noteq> []
       then Inr \<lparr>or_created = False, or_intent = None, or_blockers = blockers, or_warnings = warnings\<rparr>
       else
         bind_result (contract_intent q (case selected_candidate (ci_top_executable q) of Some d \<Rightarrow> d | None \<Rightarrow> [])) (\<lambda>i.
           Inr \<lparr>or_created = True, or_intent = Some i, or_blockers = [], or_warnings = warnings\<rparr>))"

section \<open>What the contract asks for\<close>

definition terms_ok :: "pyval \<Rightarrow> pyval \<Rightarrow> pyval \<Rightarrow> pyval \<Rightarrow> pyval \<Rightarrow> pyval \<Rightarrow> bool" where
  "terms_ok transaction quantity order_type product price trigger \<longleftrightarrow>
     normalized_choice transaction transaction_types \<noteq> None \<and>
     (\<exists>n > 0. int_or_none quantity = Inr (Some n)) \<and>
     normalized_choice order_type order_types \<noteq> None \<and> normalized_choice product products \<noteq> None \<and>
     (normalized_choice order_type order_types = Some ''LIMIT'' \<longrightarrow> (\<exists>x. float_or_none price = Inr (Some x))) \<and>
     (normalized_choice order_type order_types \<in> {Some ''SL'', Some ''SL-M''} \<longrightarrow>
        (\<exists>x. float_or_none trigger = Inr (Some x)))"

definition contract_safe :: "pydict \<Rightarrow> bool" where
  "contract_safe safety \<longleftrightarrow>
     dget safety ''execution_permitted'' = PBool True \<and> dget safety ''is_order_action'' = PBool False \<and>
     dget safety ''safety_visibility_only'' = PBool True \<and>
     dget safety ''mode'' \<in> {PStr ''SIM'', PStr ''PAPER'', PStr ''LIVE''} \<and>
     (dget safety ''mode'' = PStr ''LIVE'' \<or>
      dget safety ''broker_api_allowed'' \<noteq> PBool True \<and> dget safety ''real_order_allowed'' \<noteq> PBool True) \<and>
     (\<exists>parse. dget_or safety ''execution_mode_api_parse'' (PDict []) = PDict parse \<and> dget parse ''invalid_mode'' \<noteq> PBool True)"

definition contract_ready :: "contract_input \<Rightarrow> bool" where
  "contract_ready q \<longleftrightarrow>
     (\<exists>d. selected_candidate (ci_top_executable q) = Some d \<and> dget d ''is_order'' = PBool False \<and>
        \<not> is_blank (dget d ''candidate_id'') \<and> \<not> candidate_mismatch (Some d) (as_dict (ci_readiness q)) \<and>
        terms_ok (get_or d [''transaction_type'', ''side'']) (get_or d [''quantity'', ''qty''])
          (dget d ''order_type'') (dget d ''product'') (get_or d [''price'', ''entry'', ''entry_price''])
          (get_or d [''trigger_price'', ''stop'', ''stop_loss''])) \<and>
     contract_safe (as_dict (ci_execution_safety q)) \<and>
     (as_dict (ci_readiness q) = [] \<or>
      dget (as_dict (ci_readiness q)) ''execution_allowed'' = PBool True \<and>
      dget (as_dict (ci_readiness q)) ''is_order'' = PBool False)"

lemma required_price_found:
  "required_price_missing b v = Inr False \<longleftrightarrow> (b \<longrightarrow> (\<exists>x. float_or_none v = Inr (Some x)))"
  by (auto simp: required_price_missing_def)

lemma term_blockers_clear:
  assumes "term_blockers transaction quantity order_type product price trigger = Inr bs"
  shows "list_all (\<lambda>x. x = []) bs \<longleftrightarrow> terms_ok transaction quantity order_type product price trigger"
    "terms_ok transaction quantity order_type product price trigger \<Longrightarrow> bs = []"
proof -
  obtain n b1 b2 where n: "int_or_none quantity = Inr n"
    and b: "required_price_missing (normalized_choice order_type order_types = Some ''LIMIT'') price = Inr b1"
      "required_price_missing (normalized_choice order_type order_types = Some ''SL'' \<or>
         normalized_choice order_type order_types = Some ''SL-M'') trigger = Inr b2"
    and bs: "bs = add_if (normalized_choice transaction transaction_types = None) ''TRANSACTION_TYPE_REQUIRED_OR_UNSUPPORTED'' @
       add_if (case n of Some k \<Rightarrow> k \<le> 0 | None \<Rightarrow> True) ''POSITIVE_QUANTITY_REQUIRED'' @
       add_if (normalized_choice order_type order_types = None) ''ORDER_TYPE_REQUIRED_OR_UNSUPPORTED'' @
       add_if (normalized_choice product products = None) ''PRODUCT_REQUIRED_OR_UNSUPPORTED'' @
       add_if b1 ''LIMIT_PRICE_REQUIRED'' @ add_if b2 ''TRIGGER_PRICE_REQUIRED''"
    using assms unfolding term_blockers_def Let_def bind_result_eq_Inr sum.inject by blast
  have eq: "\<not> b1 \<longleftrightarrow> (normalized_choice order_type order_types = Some ''LIMIT'' \<longrightarrow> (\<exists>x. float_or_none price = Inr (Some x)))"
    "\<not> b2 \<longleftrightarrow> (normalized_choice order_type order_types \<in> {Some ''SL'', Some ''SL-M''} \<longrightarrow>
        (\<exists>x. float_or_none trigger = Inr (Some x)))"
    using b by (auto simp: required_price_missing_def split: if_splits)
  have "list_all (\<lambda>x. x = []) bs \<longleftrightarrow> normalized_choice transaction transaction_types \<noteq> None \<and>
      (\<exists>k > 0. n = Some k) \<and> normalized_choice order_type order_types \<noteq> None \<and>
      normalized_choice product products \<noteq> None \<and> \<not> b1 \<and> \<not> b2"
    unfolding bs list_all_append list_all_empty_add_if by (cases n) (simp_all add: not_le)
  then show all: "list_all (\<lambda>x. x = []) bs \<longleftrightarrow> terms_ok transaction quantity order_type product price trigger"
    unfolding terms_ok_def eq [symmetric] n sum.inject by simp
  show "bs = []" if "terms_ok transaction quantity order_type product price trigger"
    using all [THEN iffD2, OF that] unfolding bs list_all_append list_all_empty_add_if by simp
qed

lemma contract_safety_clear:
  assumes "contract_safety_blockers safety = Inr bs"
  shows "list_all (\<lambda>x. x = []) bs \<longleftrightarrow> contract_safe safety"
proof (cases "safety = []")
  case True
  with assms show ?thesis by (auto simp: contract_safety_blockers_def contract_safe_def)
next
  case False
  then obtain ok parse where ok: "in_str_set (dget safety ''mode'') [''SIM'', ''PAPER'', ''LIVE''] = Inr ok"
    and parse: "dget_or safety ''execution_mode_api_parse'' (PDict []) = PDict parse"
    using assms by (auto simp: contract_safety_blockers_def elim: need_dict.elims)
  have "ok \<longleftrightarrow> dget safety ''mode'' \<in> {PStr ''SIM'', PStr ''PAPER'', PStr ''LIVE''}"
    using ok by (cases "dget safety ''mode''") (auto simp: in_str_set_def)
  with False parse ok assms show ?thesis by (auto simp: contract_safety_blockers_def contract_safe_def)
qed

lemma selected_term_clear:
  assumes "selected_term_blockers (Some d) = Inr bs"
  shows "list_all (\<lambda>x. x = []) bs \<longleftrightarrow> \<not> is_blank (dget d ''candidate_id'') \<and>
    terms_ok (get_or d [''transaction_type'', ''side'']) (get_or d [''quantity'', ''qty'']) (dget d ''order_type'')
      (dget d ''product'') (get_or d [''price'', ''entry'', ''entry_price'']) (get_or d [''trigger_price'', ''stop'', ''stop_loss''])"
  using assms term_blockers_clear(1) by (auto simp: selected_term_blockers_def)

lemma validate_contract_clear:
  assumes "validate_order_intent_inputs q = Inr (bs, ws)"
  shows "bs = [] \<longleftrightarrow> contract_ready q"
proof -
  let ?s = "selected_candidate (ci_top_executable q)" and ?r = "as_dict (ci_readiness q)"
  obtain sbs tbs where s: "contract_safety_blockers (as_dict (ci_execution_safety q)) = Inr sbs"
    and t: "selected_term_blockers ?s = Inr tbs"
    and bs: "bs = keep_first [] (top_blockers ?s @ sbs @ contract_readiness_blockers ?r @ tbs @
      add_if (candidate_mismatch ?s ?r) ''READINESS_CANDIDATE_MISMATCH'')"
    using assms by (auto simp: validate_order_intent_inputs_def Let_def)
  show ?thesis
  proof (cases ?s)
    case None
    then show ?thesis by (simp add: bs keep_first_labels top_blockers_def contract_ready_def)
  next
    case (Some d)
    then show ?thesis
      using contract_safety_clear [OF s] selected_term_clear [of d tbs] t
      by (auto simp: bs keep_first_labels top_blockers_def contract_ready_def contract_readiness_blockers_def)
  qed
qed

lemma contract_intent_fields:
  assumes "contract_intent q d = Inr i"
  shows "oi_candidate_id i = py_str (dget d ''candidate_id'')" "oi_mode i = py_str (dget (as_dict (ci_execution_safety q)) ''mode'')"
    "oi_transaction_type i = normalized_choice (get_or d [''transaction_type'', ''side'']) transaction_types"
    "int_or_none (get_or d [''quantity'', ''qty'']) = Inr (oi_quantity i)"
    "oi_order_type i = normalized_choice (dget d ''order_type'') order_types"
    "oi_product i = normalized_choice (dget d ''product'') products"
    "float_or_none (get_or d [''price'', ''entry'', ''entry_price'']) = Inr (oi_price i)"
    "float_or_none (get_or d [''trigger_price'', ''stop'', ''stop_loss'']) = Inr (oi_trigger_price i)"
    "\<exists>h. oi_intent_id i = ''intent-'' @ h"
  using assms by (auto simp: contract_intent_def stable_order_intent_id_def Let_def)

lemma built_order_intent_cases:
  assumes "build_order_intent q = Inr r"
  obtains (created) d i where "contract_ready q" "selected_candidate (ci_top_executable q) = Some d" "contract_intent q d = Inr i"
      "r = \<lparr>or_created = True, or_intent = Some i, or_blockers = [], or_warnings = []\<rparr>"
  | (refused) bs where "\<not> contract_ready q" "bs \<noteq> []"
      "r = \<lparr>or_created = False, or_intent = None, or_blockers = bs, or_warnings = []\<rparr>"
proof -
  obtain bs where v: "validate_order_intent_inputs q = Inr (bs, [])"
    using assms by (auto simp: build_order_intent_def validate_order_intent_inputs_def Let_def)
  show thesis
  proof (cases "bs = []")
    case True
    with validate_contract_clear [OF v] have ready: "contract_ready q" by simp
    then obtain d where d: "selected_candidate (ci_top_executable q) = Some d" by (auto simp: contract_ready_def)
    with True v assms obtain i where "contract_intent q d = Inr i"
      "r = \<lparr>or_created = True, or_intent = Some i, or_blockers = [], or_warnings = []\<rparr>"
      by (auto simp: build_order_intent_def)
    with ready d show thesis by (rule created)
  next
    case False
    moreover from False validate_contract_clear [OF v] have "\<not> contract_ready q" by simp
    moreover have "r = \<lparr>or_created = False, or_intent = None, or_blockers = bs, or_warnings = []\<rparr>"
      using False v assms by (simp add: build_order_intent_def)
    ultimately show thesis by (intro refused)
  qed
qed

text \<open>The terms an intent carries are those a broker may be given.\<close>

definition intent_terms_ok :: "order_intent \<Rightarrow> bool" where
  "intent_terms_ok i \<longleftrightarrow>
     oi_candidate_id i \<noteq> [] \<and> oi_mode i \<in> {''SIM'', ''PAPER'', ''LIVE''} \<and>
     (\<exists>t \<in> set transaction_types. oi_transaction_type i = Some t) \<and> (\<exists>n > 0. oi_quantity i = Some n) \<and>
     (\<exists>y \<in> set order_types. oi_order_type i = Some y) \<and> (\<exists>p \<in> set products. oi_product i = Some p) \<and>
     (oi_order_type i = Some ''LIMIT'' \<longrightarrow> oi_price i \<noteq> None) \<and>
     (oi_order_type i \<in> {Some ''SL'', Some ''SL-M''} \<longrightarrow> oi_trigger_price i \<noteq> None)"

lemma normalized_choice_in: "normalized_choice v allowed = Some t \<Longrightarrow> t \<in> set allowed"
  by (auto simp: normalized_choice_def Let_def split: if_splits)

lemma contract_intent_terms:
  assumes "contract_ready q" "selected_candidate (ci_top_executable q) = Some d" "contract_intent q d = Inr i"
  shows "intent_terms_ok i"
proof -
  note f = contract_intent_fields [OF assms(3)]
  have ok: "\<not> is_blank (dget d ''candidate_id'')"
    "terms_ok (get_or d [''transaction_type'', ''side'']) (get_or d [''quantity'', ''qty'']) (dget d ''order_type'')
      (dget d ''product'') (get_or d [''price'', ''entry'', ''entry_price'']) (get_or d [''trigger_price'', ''stop'', ''stop_loss''])"
    and safe: "contract_safe (as_dict (ci_execution_safety q))"
    using assms(1,2) by (auto simp: contract_ready_def)
  have "oi_candidate_id i \<noteq> []" using ok(1) f(1) by (simp add: py_str_not_empty)
  moreover have "oi_mode i \<in> {''SIM'', ''PAPER'', ''LIVE''}" using safe f(2) by (auto simp: contract_safe_def)
  moreover have "(\<exists>t \<in> set transaction_types. oi_transaction_type i = Some t)" "(\<exists>n > 0. oi_quantity i = Some n)"
    "(\<exists>y \<in> set order_types. oi_order_type i = Some y)" "(\<exists>p \<in> set products. oi_product i = Some p)"
    "oi_order_type i = Some ''LIMIT'' \<longrightarrow> oi_price i \<noteq> None"
    "oi_order_type i \<in> {Some ''SL'', Some ''SL-M''} \<longrightarrow> oi_trigger_price i \<noteq> None"
    using ok(2) f(3-8) normalized_choice_in unfolding terms_ok_def by (metis (no_types, lifting) not_Some_eq sum.inject(2) option.inject)+
  ultimately show ?thesis by (simp add: intent_terms_ok_def)
qed

section \<open>When an intent is created\<close>

text \<open>
  The contract creates an order intent exactly when a candidate is selected, carries an id and
  no order flag, names a supported side, order type and product and a positive quantity, gives the
  price that its order type needs and does not contradict the readiness record; when the safety
  decision permits execution in a known mode and, outside LIVE, opens no broker call; and when a
  readiness record, if there is one, allows execution. A refusal gives its reasons, and an intent is
  for the selected candidate in the decided mode, with terms that a broker may be given.
\<close>

theorem order_intent_created_iff:
  assumes "build_order_intent q = Inr r"
  shows "(or_created r \<longleftrightarrow> contract_ready q) \<and> (or_created r \<longleftrightarrow> or_blockers r = []) \<and>
    (case or_intent r of
       None \<Rightarrow> \<not> or_created r
     | Some i \<Rightarrow> or_created r \<and> intent_terms_ok i \<and>
         oi_mode i = py_str (dget (as_dict (ci_execution_safety q)) ''mode'') \<and>
         (\<exists>d. selected_candidate (ci_top_executable q) = Some d \<and> oi_candidate_id i = py_str (dget d ''candidate_id'')))"
  using assms
proof (cases rule: built_order_intent_cases)
  case (created d i)
  with contract_intent_terms contract_intent_fields(1,2) show ?thesis by simp
next
  case (refused bs)
  then show ?thesis by simp
qed

definition demo_order_candidate :: pydict where
  "demo_order_candidate =
     [(''candidate_id'', PStr ''c1''), (''is_order'', PBool False), (''side'', PStr ''buy''), (''qty'', PInt 50),
      (''order_type'', PStr ''limit''), (''product'', PStr ''MIS''), (''price'', PFloat (Fin 100))]"

definition demo_contract :: "string \<Rightarrow> contract_input" where
  "demo_contract mode =
     \<lparr>ci_top_executable = PDict [(''status'', PStr ''SELECTED''), (''selected'', PDict demo_order_candidate)],
      ci_execution_safety = PDict [(''execution_permitted'', PBool True), (''is_order_action'', PBool False),
        (''safety_visibility_only'', PBool True), (''mode'', PStr mode)],
      ci_readiness = PNone, ci_ts_epoch = PInt 1000\<rparr>"

lemma demo_contract_candidate: "selected_candidate (ci_top_executable (demo_contract m)) = Some demo_order_candidate"
  by (simp add: demo_contract_def selected_candidate_def demo_order_candidate_def)

lemma demo_choices:
  "normalized_choice (PStr ''buy'') transaction_types = Some ''BUY''"
  "normalized_choice (PStr ''limit'') order_types = Some ''LIMIT''"
  "normalized_choice (PStr ''MIS'') products = Some ''MIS''"
  by code_simp+

lemma demo_contract_ready: "contract_ready (demo_contract m) \<longleftrightarrow> m \<in> {''SIM'', ''PAPER'', ''LIVE''}"
proof -
  have "terms_ok (get_or demo_order_candidate [''transaction_type'', ''side'']) (get_or demo_order_candidate [''quantity'', ''qty''])
      (dget demo_order_candidate ''order_type'') (dget demo_order_candidate ''product'')
      (get_or demo_order_candidate [''price'', ''entry'', ''entry_price''])
      (get_or demo_order_candidate [''trigger_price'', ''stop'', ''stop_loss''])"
    by (simp add: demo_order_candidate_def terms_ok_def demo_choices)
  then show ?thesis
    by (simp add: contract_ready_def demo_contract_candidate contract_safe_def)
      (auto simp: demo_contract_def demo_order_candidate_def candidate_mismatch_def)
qed

lemma demo_contract_runs:
  assumes "m \<in> {''SIM'', ''PAPER'', ''LIVE''}"
  shows "\<exists>i. build_order_intent (demo_contract m) =
    Inr \<lparr>or_created = True, or_intent = Some i, or_blockers = [], or_warnings = []\<rparr> \<and> oi_mode i = m"
proof -
  have t: "term_blockers (PStr ''buy'') (PInt 50) (PStr ''limit'') (PStr ''MIS'') (PFloat (Fin 100)) PNone = Inr []"
    by (simp add: term_blockers_def demo_choices required_price_missing_def)
  have "selected_term_blockers (Some demo_order_candidate) = Inr []"
    using t by (simp add: selected_term_blockers_def demo_order_candidate_def)
  moreover have "contract_safety_blockers (as_dict (ci_execution_safety (demo_contract m))) = Inr []"
    using assms by (auto simp: contract_safety_blockers_def demo_contract_def in_str_set_def)
  ultimately have v: "validate_order_intent_inputs (demo_contract m) = Inr ([], [])"
    unfolding validate_order_intent_inputs_def Let_def demo_contract_candidate
    by (simp add: top_blockers_def demo_contract_def contract_readiness_blockers_def candidate_mismatch_def
        demo_order_candidate_def)
  have "\<exists>i. contract_intent (demo_contract m) demo_order_candidate = Inr i \<and> oi_mode i = m"
    by (simp add: contract_intent_def Let_def demo_contract_def demo_order_candidate_def stable_order_intent_id_def policy_field_def
        dict_or_empty_def)
  with v show ?thesis by (auto simp: build_order_intent_def demo_contract_candidate)
qed

theorem order_intent_created_iff_witness:
  "\<exists>r i. build_order_intent (demo_contract ''PAPER'') = Inr r \<and> or_intent r = Some i \<and> intent_terms_ok i \<and>
     oi_candidate_id i = ''c1''"
proof -
  obtain i where r: "build_order_intent (demo_contract ''PAPER'') =
    Inr \<lparr>or_created = True, or_intent = Some i, or_blockers = [], or_warnings = []\<rparr>"
    using demo_contract_runs [of "''PAPER''"] by auto
  have "dget demo_order_candidate ''candidate_id'' = PStr ''c1''" by (simp add: demo_order_candidate_def)
  with r order_intent_created_iff [OF r] show ?thesis by (simp add: demo_contract_candidate)
qed

end
