(* ===== verification/Paper_Broker.thy ===== *)
theory Paper_Broker
  imports Order_Intent
begin

text \<open>
  src/paper_broker/adapter.py: the paper broker takes the dict of an order intent and answers
  with a synthetic acknowledgement or with the reasons of its refusal. What it relies on of the
  intent's exporter is the locale \<open>inert_intent\<close>, which the order intent contract satisfies.
\<close>

section \<open>Acknowledgement and result\<close>

record broker_ack =
  ba_synthetic_order_id :: string
  ba_intent_id :: string
  ba_candidate_id :: string
  ba_status :: string
  ba_mode :: string
  ba_tradingsymbol :: "string option"
  ba_transaction_type :: "string option"
  ba_quantity :: "int option"
  ba_order_type :: "string option"
  ba_product :: "string option"
  ba_price :: "pyfloat option"
  ba_trigger_price :: "pyfloat option"
  ba_created_at_epoch :: pyval
  ba_source :: string
  ba_intent_snapshot :: pydict

definition broker_ack_to_dict :: "broker_ack \<Rightarrow> pydict" where
  "broker_ack_to_dict a =
     [(''synthetic_order_id'', PStr (ba_synthetic_order_id a)),
      (''intent_id'', PStr (ba_intent_id a)),
      (''candidate_id'', PStr (ba_candidate_id a)),
      (''status'', PStr (ba_status a)),
      (''mode'', PStr (ba_mode a)),
      (''tradingsymbol'', opt_str (ba_tradingsymbol a)),
      (''transaction_type'', opt_str (ba_transaction_type a)),
      (''quantity'', opt_int (ba_quantity a)),
      (''order_type'', opt_str (ba_order_type a)),
      (''product'', opt_str (ba_product a)),
      (''price'', opt_float (ba_price a)),
      (''trigger_price'', opt_float (ba_trigger_price a)),
      (''created_at_epoch'', ba_created_at_epoch a),
      (''source'', PStr (ba_source a)),
      (''adapter_version'', PStr ''1.0''),
      (''intent_snapshot'', PDict (ba_intent_snapshot a)),
      (''paper_only'', PBool True),
      (''is_order_action'', PBool False),
      (''broker_api_called'', PBool False),
      (''real_order_id'', PNone)]"

record broker_result =
  br_accepted :: bool
  br_ack :: "broker_ack option"
  br_blockers :: "string list"
  br_warnings :: "string list"

definition broker_result_to_dict :: "broker_result \<Rightarrow> pydict" where
  "broker_result_to_dict r =
     [(''accepted'', PBool (br_accepted r)),
      (''ack'', opt_dict (map_option broker_ack_to_dict (br_ack r))),
      (''blockers'', str_list (br_blockers r)),
      (''warnings'', str_list (br_warnings r)),
      (''adapter_version'', PStr ''1.0''),
      (''paper_only'', PBool True),
      (''is_order_action'', PBool False),
      (''broker_api_called'', PBool False),
      (''real_order_id'', PNone)]"

section \<open>Validation and execution\<close>

definition intent_flag_blockers :: "pydict \<Rightarrow> string list" where
  "intent_flag_blockers d =
     add_if (dget d ''mode'' \<noteq> PStr ''PAPER'') ''PAPER_MODE_REQUIRED'' @
     add_if (dget d ''is_order_action'' \<noteq> PBool False) ''INTENT_ORDER_FLAG_UNSAFE'' @
     add_if (dget d ''broker_api_called'' \<noteq> PBool False) ''INTENT_BROKER_API_FLAG_UNSAFE'' @
     add_if (dget d ''real_order_id'' \<noteq> PNone) ''INTENT_REAL_ORDER_ID_FORBIDDEN'' @
     add_if (dget d ''requires_broker_adapter'' \<noteq> PBool False) ''INTENT_REQUIRES_BROKER_ADAPTER_UNSAFE'' @
     add_if (is_blank (dget d ''intent_id'')) ''INTENT_ID_REQUIRED'' @
     add_if (is_blank (dget d ''candidate_id'')) ''CANDIDATE_ID_REQUIRED''"

definition validate_broker_intent :: "pyval \<Rightarrow> pyval \<Rightarrow> (string list \<times> string list) result" where
  "validate_broker_intent intent broker_client =
     (let client = add_if (broker_client \<noteq> PNone) ''REAL_BROKER_CLIENT_FORBIDDEN_IN_PAPER''; d = as_dict intent
      in if d = [] then Inr (keep_first [] (client @ [''ORDER_INTENT_REQUIRED'']), [])
         else
           bind_result (term_blockers (dget d ''transaction_type'') (dget d ''quantity'') (dget d ''order_type'')
             (dget d ''product'') (dget d ''price'') (dget d ''trigger_price'')) (\<lambda>terms.
             Inr (keep_first [] (client @ intent_flag_blockers d @ terms), [])))"

definition stable_broker_order_id :: "pydict \<Rightarrow> pyval \<Rightarrow> string" where
  "stable_broker_order_id d ts_epoch =
     ''paper-'' @ digest16 (join ''|'' [str_or_empty (dget d ''intent_id''), str_or_empty (dget d ''candidate_id''),
       str_or_empty (dget d ''mode''), str_or_empty ts_epoch])"

definition broker_ack_of :: "pydict \<Rightarrow> pyval \<Rightarrow> broker_ack result" where
  "broker_ack_of d ts_epoch =
     bind_result (int_or_none (dget d ''quantity'')) (\<lambda>quantity.
     bind_result (float_or_none (dget d ''price'')) (\<lambda>price.
     bind_result (float_or_none (dget d ''trigger_price'')) (\<lambda>trigger_price.
       Inr \<lparr>ba_synthetic_order_id = stable_broker_order_id d ts_epoch,
            ba_intent_id = py_str (dget d ''intent_id''),
            ba_candidate_id = py_str (dget d ''candidate_id''),
            ba_status = ''PAPER_ACCEPTED'',
            ba_mode = ''PAPER'',
            ba_tradingsymbol = str_or_none (get_or d [''tradingsymbol'', ''symbol'']),
            ba_transaction_type = normalized_choice (dget d ''transaction_type'') transaction_types,
            ba_quantity = quantity,
            ba_order_type = normalized_choice (dget d ''order_type'') order_types,
            ba_product = normalized_choice (dget d ''product'') products,
            ba_price = price,
            ba_trigger_price = trigger_price,
            ba_created_at_epoch = ts_epoch,
            ba_source = ''paper_broker_adapter'',
            ba_intent_snapshot = d\<rparr>)))"

definition execute_paper_order :: "pyval \<Rightarrow> pyval \<Rightarrow> pyval \<Rightarrow> broker_result result" where
  "execute_paper_order intent ts_epoch broker_client =
     bind_result (validate_broker_intent intent broker_client) (\<lambda>(blockers, warnings).
       if blockers \<noteq> [] then Inr \<lparr>br_accepted = False, br_ack = None, br_blockers = blockers, br_warnings = warnings\<rparr>
       else bind_result (broker_ack_of (as_dict intent) ts_epoch) (\<lambda>a.
         Inr \<lparr>br_accepted = True, br_ack = Some a, br_blockers = [], br_warnings = warnings\<rparr>))"

section \<open>What the broker relies on\<close>

text \<open>An exporter of intents that cannot act: the flags the broker checks are off in every dict it makes.\<close>

locale inert_intent =
  fixes to_dict :: "'i \<Rightarrow> pydict"
    and mode :: "'i \<Rightarrow> string"
  assumes mode_entry: "dget (to_dict i) ''mode'' = PStr (mode i)"
    and no_action: "dget (to_dict i) ''is_order_action'' = PBool False"
    and no_call: "dget (to_dict i) ''broker_api_called'' = PBool False"
    and no_order: "dget (to_dict i) ''real_order_id'' = PNone"
    and no_adapter: "dget (to_dict i) ''requires_broker_adapter'' = PBool False"
begin

lemma flag_blockers:
  "intent_flag_blockers (to_dict i) =
     add_if (mode i \<noteq> ''PAPER'') ''PAPER_MODE_REQUIRED'' @
     add_if (is_blank (dget (to_dict i) ''intent_id'')) ''INTENT_ID_REQUIRED'' @
     add_if (is_blank (dget (to_dict i) ''candidate_id'')) ''CANDIDATE_ID_REQUIRED''"
  by (simp add: intent_flag_blockers_def mode_entry no_action no_call no_order no_adapter)

lemma present: "to_dict i \<noteq> []"
  using no_action [of i] by auto

lemma refused_elsewhere:
  assumes "mode i \<noteq> ''PAPER''" "execute_paper_order (PDict (to_dict i)) ts client = Inr r"
  shows "\<not> br_accepted r \<and> br_ack r = None \<and> ''PAPER_MODE_REQUIRED'' \<in> set (br_blockers r)"
proof -
  obtain bs ws where v: "validate_broker_intent (PDict (to_dict i)) client = Inr (bs, ws)"
    using assms(2) by (auto simp: execute_paper_order_def)
  then have "''PAPER_MODE_REQUIRED'' \<in> set bs"
    using assms(1) present by (auto simp: validate_broker_intent_def Let_def flag_blockers set_keep_first)
  moreover from this have "bs \<noteq> []" by auto
  ultimately show ?thesis using v assms(2) by (auto simp: execute_paper_order_def)
qed

end

interpretation contract_export: inert_intent order_intent_to_dict oi_mode
  by unfold_locales (simp_all add: order_intent_to_dict_def)

section \<open>From the contract to the broker\<close>

text \<open>The acknowledgement of an intent, field by field.\<close>

definition ack_of_intent :: "order_intent \<Rightarrow> pyval \<Rightarrow> broker_ack" where
  "ack_of_intent i ts =
     \<lparr>ba_synthetic_order_id =
        ''paper-'' @ digest16 (join ''|'' [oi_intent_id i, oi_candidate_id i, ''PAPER'', str_or_empty ts]),
      ba_intent_id = oi_intent_id i, ba_candidate_id = oi_candidate_id i, ba_status = ''PAPER_ACCEPTED'', ba_mode = ''PAPER'',
      ba_tradingsymbol = str_or_none (py_or (opt_str (oi_tradingsymbol i)) (opt_str (oi_symbol i))),
      ba_transaction_type = oi_transaction_type i, ba_quantity = oi_quantity i, ba_order_type = oi_order_type i,
      ba_product = oi_product i, ba_price = oi_price i, ba_trigger_price = oi_trigger_price i, ba_created_at_epoch = ts,
      ba_source = ''paper_broker_adapter'', ba_intent_snapshot = order_intent_to_dict i\<rparr>"

lemma choice_again:
  assumes "t \<in> set allowed" "upper t = t" "t \<noteq> []"
  shows "normalized_choice (PStr t) allowed = Some t"
  using assms by (simp add: normalized_choice_def)

lemma upper_choices:
  "\<forall>t \<in> set transaction_types \<union> set order_types \<union> set products. upper t = t \<and> t \<noteq> []"
  by code_simp

lemma intent_choices_again:
  assumes "intent_terms_ok i"
  shows "normalized_choice (opt_str (oi_transaction_type i)) transaction_types = oi_transaction_type i"
    "normalized_choice (opt_str (oi_order_type i)) order_types = oi_order_type i"
    "normalized_choice (opt_str (oi_product i)) products = oi_product i"
proof -
  have again: "normalized_choice (opt_str v) allowed = v"
    if "\<exists>t \<in> set allowed. v = Some t" "\<forall>t \<in> set allowed. upper t = t \<and> t \<noteq> []" for v allowed
    using that choice_again by fastforce
  note ok = assms [unfolded intent_terms_ok_def]
  show "normalized_choice (opt_str (oi_transaction_type i)) transaction_types = oi_transaction_type i"
    "normalized_choice (opt_str (oi_order_type i)) order_types = oi_order_type i"
    "normalized_choice (opt_str (oi_product i)) products = oi_product i"
    using ok upper_choices by (blast intro: again)+
qed

lemma intent_terms_accepted:
  assumes "intent_terms_ok i"
  shows "term_blockers (opt_str (oi_transaction_type i)) (opt_int (oi_quantity i)) (opt_str (oi_order_type i))
    (opt_str (oi_product i)) (opt_float (oi_price i)) (opt_float (oi_trigger_price i)) = Inr []"
proof -
  note ok = assms [unfolded intent_terms_ok_def]
  have "required_price_missing (oi_order_type i = Some ''LIMIT'') (opt_float (oi_price i)) = Inr False"
    "required_price_missing (oi_order_type i = Some ''SL'' \<or> oi_order_type i = Some ''SL-M'') (opt_float (oi_trigger_price i)) = Inr False"
    using ok by (simp_all add: required_price_found)
  moreover obtain t n y p where "oi_transaction_type i = Some t" "oi_quantity i = Some n" "0 < n" "oi_order_type i = Some y"
    "oi_product i = Some p" using ok by blast
  ultimately show ?thesis
    using intent_choices_again [OF assms] by (simp add: term_blockers_def Let_def)
qed

lemma broker_answer:
  assumes "intent_terms_ok i" "oi_intent_id i \<noteq> []"
  shows "execute_paper_order (PDict (order_intent_to_dict i)) ts client =
    Inr (if oi_mode i = ''PAPER'' \<and> client = PNone
         then \<lparr>br_accepted = True, br_ack = Some (ack_of_intent i ts), br_blockers = [], br_warnings = []\<rparr>
         else \<lparr>br_accepted = False, br_ack = None,
           br_blockers = add_if (client \<noteq> PNone) ''REAL_BROKER_CLIENT_FORBIDDEN_IN_PAPER'' @
             add_if (oi_mode i \<noteq> ''PAPER'') ''PAPER_MODE_REQUIRED'', br_warnings = []\<rparr>)"
proof -
  let ?d = "order_intent_to_dict i"
  have get: "dget ?d ''transaction_type'' = opt_str (oi_transaction_type i)" "dget ?d ''quantity'' = opt_int (oi_quantity i)"
    "dget ?d ''order_type'' = opt_str (oi_order_type i)" "dget ?d ''product'' = opt_str (oi_product i)"
    "dget ?d ''price'' = opt_float (oi_price i)" "dget ?d ''trigger_price'' = opt_float (oi_trigger_price i)"
    "dget ?d ''intent_id'' = PStr (oi_intent_id i)" "dget ?d ''candidate_id'' = PStr (oi_candidate_id i)"
    "dget ?d ''mode'' = PStr (oi_mode i)"
    "dget ?d ''tradingsymbol'' = opt_str (oi_tradingsymbol i)" "dget ?d ''symbol'' = opt_str (oi_symbol i)"
    by (simp_all add: order_intent_to_dict_def)
  have ne: "oi_candidate_id i \<noteq> []" using assms(1) by (simp add: intent_terms_ok_def)
  have v: "validate_broker_intent (PDict ?d) client =
    Inr (add_if (client \<noteq> PNone) ''REAL_BROKER_CLIENT_FORBIDDEN_IN_PAPER'' @
      add_if (oi_mode i \<noteq> ''PAPER'') ''PAPER_MODE_REQUIRED'', [])"
    using contract_export.present [of i] contract_export.flag_blockers [of i] ne assms(2)
    by (simp add: validate_broker_intent_def Let_def get intent_terms_accepted [OF assms(1)] add_if_def)
  have "broker_ack_of ?d ts = Inr (ack_of_intent i ts)" if "oi_mode i = ''PAPER''"
    using that ne assms(2)
    by (simp add: broker_ack_of_def get ack_of_intent_def stable_broker_order_id_def str_or_empty_def
        intent_choices_again [OF assms(1)])
  with v show ?thesis by (simp add: execute_paper_order_def add_if_def)
qed

text \<open>
  The order intent contract and the paper broker agree: whatever intent the contract creates, the
  paper broker accepts it exactly when its mode is PAPER and no real broker client is passed in, and
  its acknowledgement then repeats the intent's ids, side, quantity, type, product and prices. An
  intent of another mode, or a broker client, is refused with that reason and no other.
\<close>

theorem contract_intents_on_paper:
  assumes "build_order_intent q = Inr r" "or_intent r = Some i"
  shows "execute_paper_order (PDict (order_intent_to_dict i)) ts client =
    Inr (if oi_mode i = ''PAPER'' \<and> client = PNone
         then \<lparr>br_accepted = True, br_ack = Some (ack_of_intent i ts), br_blockers = [], br_warnings = []\<rparr>
         else \<lparr>br_accepted = False, br_ack = None,
           br_blockers = add_if (client \<noteq> PNone) ''REAL_BROKER_CLIENT_FORBIDDEN_IN_PAPER'' @
             add_if (oi_mode i \<noteq> ''PAPER'') ''PAPER_MODE_REQUIRED'', br_warnings = []\<rparr>)"
  using assms(1)
proof (cases rule: built_order_intent_cases)
  case (created d j)
  with assms(2) have "contract_intent q d = Inr i" by simp
  with created have "intent_terms_ok i" "oi_intent_id i \<noteq> []"
    using contract_intent_terms contract_intent_fields(9) by fastforce+
  then show ?thesis by (rule broker_answer)
next
  case (refused bs)
  with assms(2) show ?thesis by simp
qed

theorem contract_intents_on_paper_witness:
  "\<exists>i. (\<exists>r. build_order_intent (demo_contract ''PAPER'') = Inr r \<and> or_intent r = Some i) \<and>
     execute_paper_order (PDict (order_intent_to_dict i)) (PInt 1000) PNone =
       Inr \<lparr>br_accepted = True, br_ack = Some (ack_of_intent i (PInt 1000)), br_blockers = [], br_warnings = []\<rparr>"
proof -
  obtain i r where "build_order_intent (demo_contract ''PAPER'') = Inr r" "or_intent r = Some i" "oi_mode i = ''PAPER''"
    using demo_contract_runs [of "''PAPER''"] by auto
  with contract_intents_on_paper [of "demo_contract ''PAPER''" r i "PInt 1000" PNone] show ?thesis by auto
qed

end
