(* ===== verification/Event_History.thy ===== *)
theory Event_History
  imports Gate_Base "HOL-Library.Product_Lexorder" "HOL-Library.Multiset"
begin

text \<open>
  What src/fill_lifecycle, src/approval_audit and src/outcome_replay share: each reads a list of
  records into events, keeps those of one candidate and sorts them by time, the events without a
  time last, and takes the last one for the current state. Python's sort is stable; the order of
  floats is total here, with NaN above every number.
\<close>

section \<open>Histories\<close>

definition time_key :: "pyfloat option \<Rightarrow> bool \<times> pyfloat" where
  "time_key ts = (case ts of None \<Rightarrow> (True, Fin 0) | Some x \<Rightarrow> (False, x))"

text \<open>The events of a list of records: \<open>read\<close>, the filter on the candidate, the sort.\<close>

definition event_history ::
  "(pydict \<Rightarrow> 'e result) \<Rightarrow> ('e \<Rightarrow> pyfloat option) \<Rightarrow> ('e \<Rightarrow> string) \<Rightarrow> pyval list \<Rightarrow> string option \<Rightarrow> 'e list result" where
  "event_history read ts cand records candidate_id =
     bind_result (map_result read (map as_dict (filter is_dict records))) (\<lambda>es.
       Inr (sort_key (\<lambda>e. time_key (ts e))
         (filter (\<lambda>e. case candidate_id of Some c \<Rightarrow> c = [] \<or> cand e = c | None \<Rightarrow> True) es)))"

definition first_candidate_id :: "string list \<Rightarrow> string option" where
  "first_candidate_id ids = find (\<lambda>c. c \<noteq> ''unknown'') ids"

text \<open>\<open>candidate_id or _first_candidate_id(events) or "unknown"\<close>\<close>

definition resolved_candidate :: "string option \<Rightarrow> string list \<Rightarrow> string" where
  "resolved_candidate candidate_id ids =
     (let given = (case candidate_id of Some c \<Rightarrow> c | None \<Rightarrow> []);
          found = (case first_candidate_id ids of Some c \<Rightarrow> c | None \<Rightarrow> [])
      in if given \<noteq> [] then given else if found \<noteq> [] then found else ''unknown'')"

section \<open>Lemmas\<close>

lemma sort_key_snoc_max:
  assumes "\<And>y. y \<in> set xs \<Longrightarrow> f y \<le> f x"
  shows "sort_key f (xs @ [x]) = sort_key f xs @ [x]"
proof (rule properties_for_sort_key)
  show "mset (sort_key f xs @ [x]) = mset (xs @ [x])" by simp
  show "filter (\<lambda>y. f k = f y) (sort_key f xs @ [x]) = filter (\<lambda>y. f k = f y) (xs @ [x])"
    if "k \<in> set (sort_key f xs @ [x])" for k
    using sort_key_stable [of f "f k" xs] by (simp add: eq_commute)
  show "sorted (map f (sort_key f xs @ [x]))"
    using assms by (auto simp: sorted_append)
qed

text \<open>A list whose keys differ has one sorted form: its order does not matter.\<close>

lemma sort_key_permutation:
  assumes "mset xs = mset ys" "distinct (map f xs)"
  shows "sort_key f xs = sort_key f ys"
proof (rule properties_for_sort_key)
  show "mset (sort_key f ys) = mset xs" using assms(1) by simp
  show "sorted (map f (sort_key f ys))" by simp
  fix k assume "k \<in> set (sort_key f ys)"
  then have k: "k \<in> set xs" using assms(1) mset_eq_setD by fastforce
  have d: "distinct (map f ys)"
    using assms by (metis distinct_map mset_eq_imp_distinct_iff mset_eq_setD)
  have one: "filter (\<lambda>y. f k = f y) zs = [k]" if "k \<in> set zs" "distinct (map f zs)" for zs
    using that by (induction zs) (auto simp: filter_empty_conv image_iff)
  have "filter (\<lambda>y. f k = f y) (sort_key f ys) = filter (\<lambda>y. f y = f k) (sort_key f ys)" by (simp only: eq_commute)
  also have "\<dots> = filter (\<lambda>y. f k = f y) ys" using sort_key_stable [of f "f k" ys] by (simp add: eq_commute)
  also have "\<dots> = [k]" using one d k assms(1) mset_eq_setD by blast
  finally show "filter (\<lambda>y. f k = f y) (sort_key f ys) = filter (\<lambda>y. f k = f y) xs"
    using one [OF k assms(2)] by simp
qed

lemma map_result_snoc: "map_result f (xs @ [x]) = bind_result (map_result f xs) (\<lambda>us. bind_result (f x) (\<lambda>u. Inr (us @ [u])))"
  by (induction xs) (simp_all add: bind_result_assoc)

lemma map_result_mset:
  assumes "map_result f xs = Inr us" "mset xs = mset ys"
  obtains vs where "map_result f ys = Inr vs" "mset us = mset vs"
proof -
  have us: "us = map (\<lambda>x. projr (f x)) xs" and all: "\<forall>x \<in> set xs. \<exists>u. f x = Inr u"
    using assms(1) by (induction xs arbitrary: us) auto
  then have "\<forall>x \<in> set ys. \<exists>u. f x = Inr u" using assms(2) mset_eq_setD by blast
  then have "map_result f ys = Inr (map (\<lambda>x. projr (f x)) ys)" by (induction ys) auto
  moreover have "mset us = mset (map (\<lambda>x. projr (f x)) ys)" using us assms(2) by (metis mset_map)
  ultimately show thesis by (rule that)
qed

lemma event_history_sorted:
  "event_history read ts cand records c = Inr es \<Longrightarrow> sorted (map (\<lambda>e. time_key (ts e)) es)"
  by (auto simp: event_history_def)

lemma event_history_last:
  assumes "event_history read ts cand records c = Inr es" "e \<in> set es"
  shows "time_key (ts e) \<le> time_key (ts (last es))"
proof -
  have "es \<noteq> []" using assms(2) by auto
  then obtain ds d where "es = ds @ [d]" by (metis append_butlast_last_id)
  with event_history_sorted [OF assms(1)] assms(2) show ?thesis by (auto simp: sorted_append)
qed

text \<open>The history does not depend on the order of the records when no two events share a time.\<close>

lemma event_history_permutation:
  assumes "event_history read ts cand records c = Inr es" "mset records = mset records'"
    "distinct (map (\<lambda>e. time_key (ts e)) es)"
  shows "event_history read ts cand records' c = Inr es"
proof -
  let ?k = "\<lambda>e. case c of Some d \<Rightarrow> d = [] \<or> cand e = d | None \<Rightarrow> True"
  obtain us where us: "map_result read (map as_dict (filter is_dict records)) = Inr us"
    and es: "es = sort_key (\<lambda>e. time_key (ts e)) (filter ?k us)"
    using assms(1) by (auto simp: event_history_def)
  have "mset (map as_dict (filter is_dict records)) = mset (map as_dict (filter is_dict records'))"
    using assms(2) by (simp add: mset_map mset_filter)
  with us obtain vs
    where vs: "map_result read (map as_dict (filter is_dict records')) = Inr vs" and eq: "mset us = mset vs"
    by (rule map_result_mset)
  have "mset (filter ?k us) = mset (filter ?k vs)" using eq by (simp add: mset_filter)
  moreover have "distinct (map (\<lambda>e. time_key (ts e)) (filter ?k us))"
    using assms(3) by (simp add: es distinct_map)
  ultimately have "es = sort_key (\<lambda>e. time_key (ts e)) (filter ?k vs)"
    unfolding es by (rule sort_key_permutation)
  with vs show ?thesis by (simp add: event_history_def)
qed

text \<open>A record added at the end, with a time no other event of the candidate exceeds, becomes the last event.\<close>

lemma event_history_append:
  assumes "event_history read ts cand records (Some c) = Inr es" "read d = Inr e" "cand e = c" "c \<noteq> []"
    "\<And>x. x \<in> set es \<Longrightarrow> time_key (ts x) \<le> time_key (ts e)"
  shows "event_history read ts cand (records @ [PDict d]) (Some c) = Inr (es @ [e])"
proof -
  obtain us where us: "map_result read (map as_dict (filter is_dict records)) = Inr us"
    and es: "es = sort_key (\<lambda>e. time_key (ts e)) (filter (\<lambda>e. c = [] \<or> cand e = c) us)"
    using assms(1) by (auto simp: event_history_def)
  have "map_result read (map as_dict (filter is_dict (records @ [PDict d]))) = Inr (us @ [e])"
    using us assms(2) by (simp add: map_result_snoc)
  then show ?thesis
    using assms(3,4,5) sort_key_snoc_max [of "filter (\<lambda>e. cand e = c) us" "\<lambda>e. time_key (ts e)" e]
    by (simp add: event_history_def es)
qed

end
