(* ===== verification/Fill_Lifecycle.thy ===== *)
theory Fill_Lifecycle
  imports Event_History
begin

text \<open>
  src/fill_lifecycle/lifecycle.py: the state of an order as the broker's records tell it, with the
  status of the last event and the last reported filled quantity and average price.
\<close>

section \<open>Events\<close>

datatype fill_status =
    ORDER_INTENT_CREATED | ORDER_SUBMITTED | ORDER_ACCEPTED | ORDER_REJECTED | PARTIALLY_FILLED | FILLED | CANCELLED
  | EXIT_SUBMITTED | EXIT_FILLED | POSITION_CLOSED | UNKNOWN

fun fill_status_value :: "fill_status \<Rightarrow> string" where
  "fill_status_value ORDER_INTENT_CREATED = ''ORDER_INTENT_CREATED''"
| "fill_status_value ORDER_SUBMITTED = ''ORDER_SUBMITTED''"
| "fill_status_value ORDER_ACCEPTED = ''ORDER_ACCEPTED''"
| "fill_status_value ORDER_REJECTED = ''ORDER_REJECTED''"
| "fill_status_value PARTIALLY_FILLED = ''PARTIALLY_FILLED''"
| "fill_status_value FILLED = ''FILLED''"
| "fill_status_value CANCELLED = ''CANCELLED''"
| "fill_status_value EXIT_SUBMITTED = ''EXIT_SUBMITTED''"
| "fill_status_value EXIT_FILLED = ''EXIT_FILLED''"
| "fill_status_value POSITION_CLOSED = ''POSITION_CLOSED''"
| "fill_status_value UNKNOWN = ''UNKNOWN''"

definition terminal_fill_statuses :: "fill_status list" where
  "terminal_fill_statuses = [ORDER_REJECTED, CANCELLED, POSITION_CLOSED]"

definition fill_aliases :: "(string \<times> fill_status) list" where
  "fill_aliases =
     [(''INTENT'', ORDER_INTENT_CREATED), (''ORDER_INTENT'', ORDER_INTENT_CREATED),
      (''ORDER_INTENT_CREATED'', ORDER_INTENT_CREATED), (''SUBMITTED'', ORDER_SUBMITTED), (''ORDER_SUBMITTED'', ORDER_SUBMITTED),
      (''OPEN'', ORDER_ACCEPTED), (''ACCEPTED'', ORDER_ACCEPTED), (''ORDER_ACCEPTED'', ORDER_ACCEPTED),
      (''REJECTED'', ORDER_REJECTED), (''ORDER_REJECTED'', ORDER_REJECTED), (''PARTIAL'', PARTIALLY_FILLED),
      (''PARTIALLY_FILLED'', PARTIALLY_FILLED), (''FILLED'', FILLED), (''COMPLETE'', FILLED), (''CANCELLED'', CANCELLED),
      (''CANCELED'', CANCELLED), (''EXIT_SUBMITTED'', EXIT_SUBMITTED), (''EXIT_FILLED'', EXIT_FILLED),
      (''POSITION_CLOSED'', POSITION_CLOSED), (''CLOSED'', POSITION_CLOSED)]"

definition fill_status_of :: "pyval \<Rightarrow> fill_status" where
  "fill_status_of v = (case map_of fill_aliases (status_key v) of Some s \<Rightarrow> s | None \<Rightarrow> UNKNOWN)"

record fill_event =
  fe_candidate_id :: string
  fe_status :: fill_status
  fe_ts_epoch :: "pyfloat option"
  fe_order_id :: "string option"
  fe_broker_order_id :: "string option"
  fe_quantity :: "pyfloat option"
  fe_filled_quantity :: "pyfloat option"
  fe_average_price :: "pyfloat option"
  fe_reason :: "string option"
  fe_raw :: pydict

definition fill_event_to_dict :: "fill_event \<Rightarrow> pydict" where
  "fill_event_to_dict e =
     [(''candidate_id'', PStr (fe_candidate_id e)),
      (''status'', PStr (fill_status_value (fe_status e))),
      (''ts_epoch'', opt_float (fe_ts_epoch e)),
      (''order_id'', opt_str (fe_order_id e)),
      (''broker_order_id'', opt_str (fe_broker_order_id e)),
      (''quantity'', opt_float (fe_quantity e)),
      (''filled_quantity'', opt_float (fe_filled_quantity e)),
      (''average_price'', opt_float (fe_average_price e)),
      (''reason'', opt_str (fe_reason e)),
      (''raw'', PDict (fe_raw e)),
      (''is_order_submission'', PBool False)]"

definition fill_event_of :: "pydict \<Rightarrow> fill_event result" where
  "fill_event_of row =
     bind_result (float_or_none (get_or row [''ts_epoch'', ''timestamp'', ''time''])) (\<lambda>ts.
     bind_result (float_or_none (get_or row [''quantity'', ''qty''])) (\<lambda>quantity.
     bind_result (float_or_none (get_or row [''filled_quantity'', ''filled_qty'', ''filled''])) (\<lambda>filled.
     bind_result (float_or_none (get_or row [''average_price'', ''avg_price'', ''fill_price''])) (\<lambda>price.
       Inr \<lparr>fe_candidate_id = text_or row [''candidate_id'', ''trade_id'', ''client_order_id''] ''unknown'',
            fe_status = fill_status_of (get_or row [''status'', ''order_status'', ''event'', ''lifecycle_status'']),
            fe_ts_epoch = ts,
            fe_order_id = str_or_none (get_or row [''order_id'', ''client_order_id'']),
            fe_broker_order_id = str_or_none (get_or row [''broker_order_id'', ''exchange_order_id'']),
            fe_quantity = quantity,
            fe_filled_quantity = filled,
            fe_average_price = price,
            fe_reason = str_or_none (get_or row [''reason'', ''message'', ''rejection_reason'']),
            fe_raw = row\<rparr>))))"

section \<open>The state\<close>

record fill_state =
  fs_candidate_id :: string
  fs_current_status :: fill_status
  fs_events :: "fill_event list"
  fs_terminal :: bool
  fs_filled_quantity :: "pyfloat option"
  fs_average_price :: "pyfloat option"
  fs_blockers :: "string list"
  fs_warnings :: "string list"

definition fill_state_to_dict :: "fill_state \<Rightarrow> pydict" where
  "fill_state_to_dict s =
     [(''candidate_id'', PStr (fs_candidate_id s)),
      (''current_status'', PStr (fill_status_value (fs_current_status s))),
      (''terminal'', PBool (fs_terminal s)),
      (''filled_quantity'', opt_float (fs_filled_quantity s)),
      (''average_price'', opt_float (fs_average_price s)),
      (''events'', PList (map (\<lambda>e. PDict (fill_event_to_dict e)) (fs_events s))),
      (''blockers'', str_list (fs_blockers s)),
      (''warnings'', str_list (fs_warnings s)),
      (''is_order_submission'', PBool False)]"

text \<open>\<open>_latest_value\<close>: the value of the last event that has one.\<close>

definition latest_value :: "('e \<Rightarrow> 'v option) \<Rightarrow> 'e list \<Rightarrow> 'v option" where
  "latest_value field events = (case List.map_filter field (rev events) of [] \<Rightarrow> None | v # _ \<Rightarrow> Some v)"

definition fill_warnings :: "fill_event list \<Rightarrow> string list" where
  "fill_warnings events =
     add_if (list_ex (\<lambda>e. fe_status e = UNKNOWN) events) ''UNKNOWN_STATUS_EVENT_PRESENT'' @
     add_if (list_ex (\<lambda>e. fe_candidate_id e = ''unknown'') events) ''UNKNOWN_CANDIDATE_EVENT_PRESENT''"

definition fill_state_of :: "string \<Rightarrow> fill_event list \<Rightarrow> fill_state" where
  "fill_state_of candidate_id events =
     (if events = []
      then \<lparr>fs_candidate_id = candidate_id, fs_current_status = UNKNOWN, fs_events = [], fs_terminal = False,
             fs_filled_quantity = None, fs_average_price = None, fs_blockers = [''NO_FILL_LIFECYCLE_EVENTS''], fs_warnings = []\<rparr>
      else
        let latest = last events
        in \<lparr>fs_candidate_id = candidate_id,
            fs_current_status = fe_status latest,
            fs_events = events,
            fs_terminal = (fe_status latest \<in> set terminal_fill_statuses),
            fs_filled_quantity = latest_value fe_filled_quantity events,
            fs_average_price = latest_value fe_average_price events,
            fs_blockers = (if fe_status latest \<noteq> UNKNOWN then [] else [''UNKNOWN_FILL_LIFECYCLE_STATUS'']),
            fs_warnings = fill_warnings events\<rparr>)"

definition normalize_fill_lifecycle :: "pyval list \<Rightarrow> string option \<Rightarrow> fill_state result" where
  "normalize_fill_lifecycle records candidate_id =
     bind_result (event_history fill_event_of fe_ts_epoch fe_candidate_id records candidate_id) (\<lambda>events.
       Inr (fill_state_of (resolved_candidate candidate_id (map fe_candidate_id events)) events))"

section \<open>The order of the records\<close>

lemma fill_state_events [simp]: "fs_events (fill_state_of c es) = es"
  by (simp add: fill_state_of_def Let_def)

lemma latest_value_snoc: "latest_value field (es @ [e]) = (case field e of Some v \<Rightarrow> Some v | None \<Rightarrow> latest_value field es)"
  by (simp add: latest_value_def List.map_filter_simps split: option.split)


definition demo_fill_records :: "pyval list" where
  "demo_fill_records =
     [PDict [(''candidate_id'', PStr ''c1''), (''status'', PStr ''FILLED''), (''ts_epoch'', PInt 2), (''filled_quantity'', PInt 50)],
      PDict [(''candidate_id'', PStr ''c1''), (''status'', PStr ''OPEN''), (''ts_epoch'', PInt 1)]]"


end
