(* ===== verification/Paper_Payload.thy ===== *)
theory Paper_Payload
  imports Paper_Rebuild
begin

text \<open>
  What the modules of src/paper_trading that keep evidence share: the walk over a nested payload
  that looks for unsafe flags at every depth, the canonical JSON text whose digest names a
  payload, and the indented text of the files of a bundle.
\<close>

section \<open>Walking a payload\<close>

text \<open>
  \<open>_walk_dict\<close>: every entry of the dict, of the dicts among its values, and of the dicts that
  are items of a list among its values, with the path to it. A list inside a list is not
  entered.
\<close>

definition walk_path :: "string \<Rightarrow> string \<Rightarrow> string" where
  "walk_path prefix key = prefix @ ''_'' @ upper key"

definition item_path :: "string \<Rightarrow> nat \<Rightarrow> string" where
  "item_path path i = path @ ''_'' @ int_to_string (int i)"

lemma entry_size: "(k, v) \<in> set d \<Longrightarrow> size v < size (PDict d)"
  by (induction d) auto

lemma item_size: "x \<in> set xs \<Longrightarrow> size x < size (PList xs)"
  by (induction xs) auto

lemma indexed_size: "(i, x) \<in> set (enumerate n xs) \<Longrightarrow> (k, PList xs) \<in> set d \<Longrightarrow> size x < size (PDict d)"
  using entry_size [of k "PList xs" d] item_size [of x xs] by (auto simp: in_set_enumerate_eq)

function walk_nested :: "string \<Rightarrow> pyval \<Rightarrow> (string \<times> string \<times> pyval) list" where
  "walk_nested prefix (PDict d) =
     concat (map (\<lambda>(key, v).
       (walk_path prefix key, key, v) #
       (case v of
          PDict e \<Rightarrow> walk_nested (walk_path prefix key) v
        | PList xs \<Rightarrow>
            concat (map (\<lambda>(i, x). if is_dict x then walk_nested (item_path (walk_path prefix key) i) x else []) (enumerate 0 xs))
        | _ \<Rightarrow> [])) d)"
| "walk_nested prefix PNone = []"
| "walk_nested prefix (PBool b) = []"
| "walk_nested prefix (PInt i) = []"
| "walk_nested prefix (PFloat f) = []"
| "walk_nested prefix (PStr s) = []"
| "walk_nested prefix (PList xs) = []"
  by pat_completeness auto

termination
  by (relation "measure (\<lambda>(prefix, v). size v)") (auto intro: entry_size indexed_size simp del: pyval.size)

declare walk_nested.simps(1) [simp del]

section \<open>Unsafe flags\<close>

definition nested_entry_blockers :: "string \<Rightarrow> string \<times> string \<times> pyval \<Rightarrow> string list" where
  "nested_entry_blockers label = (\<lambda>(path, key, v).
     add_if (key = ''paper_only'' \<and> v \<noteq> PBool True) (label @ ''_'' @ path @ ''_UNSAFE_PAPER_ONLY_FLAG'') @
     add_if (key = ''read_only'' \<and> v \<noteq> PBool True) (label @ ''_'' @ path @ ''_UNSAFE_READ_ONLY_FLAG'') @
     add_if (key = ''is_order_action'' \<and> v \<noteq> PBool False) (label @ ''_'' @ path @ ''_UNSAFE_ORDER_ACTION_FLAG'') @
     add_if (key = ''broker_api_called'' \<and> v = PBool True) (label @ ''_'' @ path @ ''_BROKER_API_CALLED'') @
     add_if (key = ''real_order_id'' \<and> \<not> is_blank v) (label @ ''_'' @ path @ ''_REAL_ORDER_ID_PRESENT''))"

text \<open>The same function in five modules; each has its own label, as \<open>PAPER_EVIDENCE_PAYLOAD\<close>.\<close>

definition nested_payload_blockers :: "string \<Rightarrow> pyval \<Rightarrow> string list" where
  "nested_payload_blockers label payload =
     (case payload of
        PNone \<Rightarrow> []
      | PDict d \<Rightarrow> concat (map (nested_entry_blockers label) (walk_nested ''ROOT'' payload))
      | _ \<Rightarrow> [label @ ''_MUST_BE_OBJECT''])"

text \<open>The objects that the walk reaches, and the entries it lets pass.\<close>

inductive reaches :: "pyval \<Rightarrow> pydict \<Rightarrow> bool" where
  reaches_self: "reaches (PDict d) d"
| reaches_value: "(k, v) \<in> set d \<Longrightarrow> reaches v e \<Longrightarrow> reaches (PDict d) e"
| reaches_item: "(k, PList xs) \<in> set d \<Longrightarrow> x \<in> set xs \<Longrightarrow> reaches x e \<Longrightarrow> reaches (PDict d) e"

inductive_simps reaches_PDict: "reaches (PDict d) e"

inductive_cases reaches_cases: "reaches v e"

definition entry_safe :: "string \<times> pyval \<Rightarrow> bool" where
  "entry_safe = (\<lambda>(key, v).
     (key = ''paper_only'' \<or> key = ''read_only'' \<longrightarrow> v = PBool True) \<and> (key = ''is_order_action'' \<longrightarrow> v = PBool False) \<and>
     (key = ''broker_api_called'' \<longrightarrow> v \<noteq> PBool True) \<and> (key = ''real_order_id'' \<longrightarrow> is_blank v))"

definition deeply :: "(string \<times> pyval \<Rightarrow> bool) \<Rightarrow> pyval \<Rightarrow> bool" where
  "deeply P v \<longleftrightarrow> (\<forall>e. reaches v e \<longrightarrow> list_all P e)"

definition deeply_safe :: "pyval \<Rightarrow> bool" where
  "deeply_safe v \<longleftrightarrow> deeply entry_safe v"

lemma reaches_dict: "reaches v e \<Longrightarrow> is_dict v"
  by (auto elim: reaches_cases)

lemma image_concat_pairs: "f ` set (concat (map (\<lambda>(i, x). g i x) ps)) = (\<Union>(i, x) \<in> set ps. f ` set (g i x))"
  by (induction ps) (auto simp: image_Un)

lemma reached_entries:
  "(\<Union>(key, v) \<in> set d. insert (key, v) {w. \<exists>e. w \<in> set e \<and> (reaches v e \<or> (\<exists>xs x. v = PList xs \<and> x \<in> set xs \<and> reaches x e))}) =
   {w. \<exists>e. reaches (PDict d) e \<and> w \<in> set e}" (is "?L = ?R")
proof (intro equalityI subsetI)
  fix w assume "w \<in> ?L"
  then obtain p where p: "p \<in> set d"
    "w \<in> (case p of (key, v) \<Rightarrow> insert (key, v) {w. \<exists>e. w \<in> set e \<and> (reaches v e \<or> (\<exists>xs x. v = PList xs \<and> x \<in> set xs \<and> reaches x e))})"
    by (rule UN_E)
  obtain key v where kv_eq: "p = (key, v)" by (cases p)
  from p have kv: "(key, v) \<in> set d"
    and w: "w = (key, v) \<or> (\<exists>e. w \<in> set e \<and> (reaches v e \<or> (\<exists>xs x. v = PList xs \<and> x \<in> set xs \<and> reaches x e)))"
    unfolding kv_eq by simp_all
  from w show "w \<in> ?R"
  proof
    assume "w = (key, v)"
    with kv reaches_self show ?thesis by blast
  next
    assume "\<exists>e. w \<in> set e \<and> (reaches v e \<or> (\<exists>xs x. v = PList xs \<and> x \<in> set xs \<and> reaches x e))"
    with kv show ?thesis by (auto intro: reaches_value reaches_item)
  qed
next
  fix w assume "w \<in> ?R"
  then obtain e where "reaches (PDict d) e" and w: "w \<in> set e" by blast
  from this(1) show "w \<in> ?L"
  proof (cases rule: reaches.cases)
    case reaches_self
    with w show ?thesis by (cases w) auto
  next
    case (reaches_value k v)
    with w show ?thesis by (intro UN_I [of "(k, v)"]) auto
  next
    case (reaches_item k xs x)
    with w show ?thesis by (intro UN_I [of "(k, PList xs)"]) auto
  qed
qed

lemma walk_entries: "snd ` set (walk_nested prefix v) = {w. \<exists>e. reaches v e \<and> w \<in> set e}"
proof (induction prefix v rule: walk_nested.induct)
  case (1 prefix d)
  have sub: "snd ` set (case v of
          PDict e \<Rightarrow> walk_nested (walk_path prefix key) v
        | PList xs \<Rightarrow> concat (map (\<lambda>(i, x). if is_dict x then walk_nested (item_path (walk_path prefix key) i) x else []) (enumerate 0 xs))
        | _ \<Rightarrow> []) =
      {w. \<exists>e. w \<in> set e \<and> (reaches v e \<or> (\<exists>xs x. v = PList xs \<and> x \<in> set xs \<and> reaches x e))}" (is "snd ` set (?sub key v) = _")
    if kv: "(key, v) \<in> set d" for key v
  proof (cases v)
    case (PList xs)
    have item: "snd ` set (if is_dict x then walk_nested (item_path (walk_path prefix key) i) x else []) = {w. \<exists>e. reaches x e \<and> w \<in> set e}"
      if "(i, x) \<in> set (enumerate 0 xs)" for i x
      using 1(1) [OF kv refl PList that refl] by (auto dest: reaches_dict)
    have "snd ` set (?sub key v) = (\<Union>(i, x) \<in> set (enumerate 0 xs). {w. \<exists>e. reaches x e \<and> w \<in> set e})"
      unfolding PList pyval.case image_concat_pairs 
    proof (rule SUP_cong [OF refl])
      fix p assume "p \<in> set (enumerate 0 xs)"
      then show "(case p of (i, x) \<Rightarrow> snd ` set (if is_dict x then walk_nested (item_path (walk_path prefix key) i) x else [])) =
          (case p of (i, x) \<Rightarrow> {w. \<exists>e. reaches x e \<and> w \<in> set e})"
        using item [of "fst p" "snd p"] by (simp only: prod.case_eq_if prod.collapse)
    qed
    also have "\<dots> = (\<Union>x \<in> set xs. {w. \<exists>e. reaches x e \<and> w \<in> set e})"
      using set_map [of snd "enumerate 0 xs"] by (force simp: image_iff)
    finally show ?thesis using PList by (auto dest: reaches_dict)
  next
    case (PDict e)
    with 1(2) [OF kv refl PDict] show ?thesis by auto
  qed (auto dest: reaches_dict)
  have "snd ` set (walk_nested prefix (PDict d)) = (\<Union>(key, v) \<in> set d. snd ` set ((walk_path prefix key, key, v) # ?sub key v))"
    unfolding walk_nested.simps by (rule image_concat_pairs)
  also have "\<dots> = (\<Union>(key, v) \<in> set d. insert (key, v) (snd ` set (?sub key v)))"
    by (rule SUP_cong [OF refl]) (simp add: split_beta)
  also have "\<dots> = (\<Union>(key, v) \<in> set d. insert (key, v)
      {w. \<exists>e. w \<in> set e \<and> (reaches v e \<or> (\<exists>xs x. v = PList xs \<and> x \<in> set xs \<and> reaches x e))})"
  proof (rule SUP_cong [OF refl])
    fix p assume in_d: "p \<in> set d"
    obtain key v where p: "p = (key, v)" by (cases p)
    show "(case p of (key, v) \<Rightarrow> insert (key, v) (snd ` set (?sub key v))) =
        (case p of (key, v) \<Rightarrow> insert (key, v)
          {w. \<exists>e. w \<in> set e \<and> (reaches v e \<or> (\<exists>xs x. v = PList xs \<and> x \<in> set xs \<and> reaches x e))})"
      using sub [of key v] in_d unfolding p by (simp only: prod.case)
  qed
  also have "\<dots> = {w. \<exists>e. reaches (PDict d) e \<and> w \<in> set e}" by (rule reached_entries)
  finally show ?case .
qed (auto dest: reaches_dict)

lemma nested_entry_blockers_Nil [simp]: "nested_entry_blockers label (path, w) = [] \<longleftrightarrow> entry_safe w"
  by (cases w) (auto simp: nested_entry_blockers_def entry_safe_def)

lemma walk_deeply: "(\<forall>(path, w) \<in> set (walk_nested prefix v). P w) \<longleftrightarrow> deeply P v"
proof -
  have "(\<forall>(path, w) \<in> set (walk_nested prefix v). P w) \<longleftrightarrow> (\<forall>w \<in> snd ` set (walk_nested prefix v). P w)" by auto
  also have "\<dots> \<longleftrightarrow> deeply P v" unfolding walk_entries deeply_def list_all_iff by blast
  finally show ?thesis .
qed

lemma nested_blockers_iff: "nested_payload_blockers label (PDict d) = [] \<longleftrightarrow> deeply_safe (PDict d)"
proof -
  have "nested_payload_blockers label (PDict d) = [] \<longleftrightarrow> (\<forall>(path, w) \<in> set (walk_nested ''ROOT'' (PDict d)). entry_safe w)"
    by (auto simp: nested_payload_blockers_def)
  then show ?thesis unfolding walk_deeply deeply_safe_def .
qed

lemma deeply_safe_flags:
  assumes "deeply_safe (PDict d)" "has_key d key"
  shows "key \<in> {''paper_only'', ''read_only''} \<Longrightarrow> dget d key = PBool True"
    "key = ''is_order_action'' \<Longrightarrow> dget d key = PBool False" "key = ''real_order_id'' \<Longrightarrow> is_blank (dget d key)"
    "key = ''broker_api_called'' \<Longrightarrow> dget d key \<noteq> PBool True"
proof -
  obtain v where "map_of d key = Some v" using assms(2) by (auto simp: has_key_def dest: weak_map_of_SomeI)
  then have "entry_safe (key, v)" "dget d key = v"
    using assms(1) reaches_self [of d] map_of_SomeD [of d key v] by (auto simp: deeply_safe_def deeply_def list_all_iff dget_def)
  then show "key \<in> {''paper_only'', ''read_only''} \<Longrightarrow> dget d key = PBool True"
    "key = ''is_order_action'' \<Longrightarrow> dget d key = PBool False" "key = ''real_order_id'' \<Longrightarrow> is_blank (dget d key)"
    "key = ''broker_api_called'' \<Longrightarrow> dget d key \<noteq> PBool True"
    by (auto simp: entry_safe_def)
qed

section \<open>Sorted payloads\<close>

text \<open>Reading back what was written with sorted keys changes no flag.\<close>

lemma sort_json_eq:
  "sort_json v = PBool b \<longleftrightarrow> v = PBool b" "is_blank (sort_json v) \<longleftrightarrow> is_blank v" "sort_json v = PStr s \<longleftrightarrow> v = PStr s"
  by (cases v; simp)+

lemma entry_safe_sorted: "entry_safe (k, sort_json v) \<longleftrightarrow> entry_safe (k, v)"
  by (simp add: entry_safe_def sort_json_eq)

lemma in_sorted: "(k, w) \<in> set (as_dict (sort_json (PDict d))) \<longleftrightarrow> (\<exists>v. (k, v) \<in> set d \<and> w = sort_json v)"
  by (auto simp: image_iff intro: rev_bexI)

lemma reaches_sorted: "reaches u e \<Longrightarrow> reaches (sort_json u) (as_dict (sort_json (PDict e)))"
proof (induction rule: reaches.induct)
  case (reaches_self d)
  show ?case by (simp add: reaches.reaches_self)
next
  case (reaches_value k v d e)
  then have "(k, sort_json v) \<in> set (as_dict (sort_json (PDict d)))" using in_sorted by blast
  from reaches.reaches_value [OF this reaches_value.IH] show ?case by simp
next
  case (reaches_item k xs d x e)
  then have "(k, PList (map sort_json xs)) \<in> set (as_dict (sort_json (PDict d)))" unfolding in_sorted by force
  from reaches.reaches_item [OF this _ reaches_item.IH] reaches_item.hyps show ?case by simp
qed

lemma sorted_reaches:
  "reaches (sort_json u) f \<Longrightarrow> \<exists>e. reaches u e \<and> f = as_dict (sort_json (PDict e))"
proof (induction "sort_json u" f arbitrary: u rule: reaches.induct)
  case (reaches_self d)
  then obtain c where "u = PDict c" by (cases u) auto
  with reaches_self show ?case by (metis as_dict.simps(1) reaches.reaches_self)
next
  case (reaches_value k v d e)
  then obtain c where c: "u = PDict c" by (cases u) auto
  with reaches_value have "(k, v) \<in> set (as_dict (sort_json (PDict c)))" by (metis as_dict.simps(1))
  then obtain w where "(k, w) \<in> set c" "v = sort_json w" unfolding in_sorted by blast
  with reaches_value.hyps(3) [of w] c show ?case by (auto intro: reaches.reaches_value)
next
  case (reaches_item k xs d x e)
  then obtain c where c: "u = PDict c" by (cases u) auto
  with reaches_item have "(k, PList xs) \<in> set (as_dict (sort_json (PDict c)))" by (metis as_dict.simps(1))
  then obtain w where w: "(k, w) \<in> set c" "PList xs = sort_json w" unfolding in_sorted by blast
  then obtain ys where ys: "w = PList ys" "xs = map sort_json ys" by (cases w) auto
  with reaches_item obtain y where y: "y \<in> set ys" "x = sort_json y" by auto
  with reaches_item.hyps(4) [of y] c w ys show ?case by (auto intro: reaches.reaches_item)
qed

lemma deeply_sorted:
  assumes "\<And>k v. P (k, sort_json v) \<longleftrightarrow> P (k, v)"
  shows "deeply P (sort_json v) \<longleftrightarrow> deeply P v"
proof -
  have same: "list_all P (as_dict (sort_json (PDict e))) \<longleftrightarrow> list_all P e" for e
    using in_sorted [of _ _ e] assms by (fastforce simp: list_all_iff)
  show ?thesis
  proof
    assume "deeply P (sort_json v)"
    then show "deeply P v" using reaches_sorted same unfolding deeply_def by blast
  next
    assume "deeply P v"
    then show "deeply P (sort_json v)" using sorted_reaches same unfolding deeply_def by blast
  qed
qed

lemma deeply_safe_sorted: "deeply_safe (sort_json v) \<longleftrightarrow> deeply_safe v"
  unfolding deeply_safe_def by (rule deeply_sorted) (rule entry_safe_sorted)

text \<open>Sorting the keys keeps the first entry of each: the sort is stable.\<close>

lemma map_of_filter: "map_of d k = (case filter (\<lambda>p. fst p = k) d of [] \<Rightarrow> None | p # _ \<Rightarrow> Some (snd p))"
  by (induction d) auto

lemma dget_sort_key: "dget (sort_key fst d) k = dget d k"
  by (simp add: dget_def map_of_filter [of "sort_key fst d"] map_of_filter [of d] sort_key_stable)

lemma dget_line: "dget (as_dict (stable_json d)) k = sort_json (dget d k)"
  by (simp add: stable_json_def dget_sort_key journal_form_def [symmetric] dget_journal_form)

lemma has_key_line [simp]: "has_key (as_dict (stable_json d)) k \<longleftrightarrow> has_key d k"
  by (simp add: has_key_def stable_json_def image_image case_prod_unfold)

section \<open>JSON text\<close>

text \<open>
  \<open>json.dumps(v, sort_keys=True, separators=(",", ":"), ensure_ascii=False)\<close>, with Python's texts
  for the floats that JSON does not have.
\<close>

definition json_escape :: "char \<Rightarrow> string" where
  "json_escape c =
     (let n = (of_char c :: int)
      in if c = CHR 0x22 \<or> c = CHR 0x5C then [CHR 0x5C, c]
         else if n = 10 then [CHR 0x5C, CHR ''n'']
         else if n = 13 then [CHR 0x5C, CHR ''r'']
         else if n = 9 then [CHR 0x5C, CHR ''t'']
         else if n = 12 then [CHR 0x5C, CHR ''f'']
         else if n = 8 then [CHR 0x5C, CHR ''b'']
         else if n < 32 then [CHR 0x5C, CHR ''u'', CHR ''0'', CHR ''0'', hex_digit (n div 16), hex_digit (n mod 16)]
         else [c])"

definition json_string :: "string \<Rightarrow> string" where
  "json_string s = [CHR 0x22] @ concat (map json_escape s) @ [CHR 0x22]"

fun json_float :: "pyfloat \<Rightarrow> string" where
  "json_float (Fin x) = float_repr (Fin x)"
| "json_float PosInf = ''Infinity''"
| "json_float NegInf = ''-Infinity''"
| "json_float NaN = ''NaN''"

fun json_text :: "pyval \<Rightarrow> string" where
  "json_text PNone = ''null''"
| "json_text (PBool b) = (if b then ''true'' else ''false'')"
| "json_text (PInt i) = int_to_string i"
| "json_text (PFloat f) = json_float f"
| "json_text (PStr s) = json_string s"
| "json_text (PList xs) = ''['' @ join '','' (map json_text xs) @ '']''"
| "json_text (PDict d) = ''{'' @ join '','' (map (\<lambda>(k, v). json_string k @ '':'' @ json_text v) d) @ ''}''"

definition canonical_json :: "pyval \<Rightarrow> string" where
  "canonical_json payload = json_text (sort_json payload)"

text \<open>\<open>json.dumps(v, sort_keys=True, indent=2, ensure_ascii=False)\<close>, at a nesting depth.\<close>

definition json_newline :: "nat \<Rightarrow> string" where
  "json_newline depth = [CHR 0x0A] @ replicate (2 * depth) CHR '' ''"

fun pretty_text :: "nat \<Rightarrow> pyval \<Rightarrow> string" where
  "pretty_text n (PList xs) =
     (if xs = [] then ''[]''
      else ''['' @ json_newline (Suc n) @ join ('','' @ json_newline (Suc n)) (map (pretty_text (Suc n)) xs) @ json_newline n @ '']'')"
| "pretty_text n (PDict d) =
     (if d = [] then ''{}''
      else ''{'' @ json_newline (Suc n) @
        join ('','' @ json_newline (Suc n)) (map (\<lambda>(k, v). json_string k @ '': '' @ pretty_text (Suc n) v) d) @ json_newline n @ ''}'')"
| "pretty_text n v = json_text v"

definition pretty_json :: "pyval \<Rightarrow> string" where
  "pretty_json payload = pretty_text 0 (sort_json payload)"

lemma canonical_json_sorted [simp]: "canonical_json (sort_json v) = canonical_json v"
  by (simp add: canonical_json_def sort_json_idem)

lemma demo_json:
  "canonical_json (PDict [(''b'', PList [PFloat (Fin (1/2)), PNone]), (''a'', PBool True)]) =
     ''{'' @ json_string ''a'' @ '':true,'' @ json_string ''b'' @ '':[0.5,null]}''"
  by code_simp

end
