(* ===== verification/Approval_Audit.thy ===== *)
theory Approval_Audit
  imports Event_History Paper_Payload Py_Float_Order
begin

text \<open>
  src/approval_audit/audit.py and creation.py: the approvals of a candidate by an operator. A
  request is validated and becomes an audit event, which is appended to a file of JSON lines; the
  audit reads such records and tells whether the candidate is approved at a time. As in the event
  journal a line is represented by the value that it denotes. The approval id is whatever value
  the request carries, so it is a value and no string.
\<close>

section \<open>Events\<close>

datatype approval_status = APPROVED | REJECTED | EXPIRED | REVOKED | UNKNOWN

fun approval_status_value :: "approval_status \<Rightarrow> string" where
  "approval_status_value APPROVED = ''APPROVED''"
| "approval_status_value REJECTED = ''REJECTED''"
| "approval_status_value EXPIRED = ''EXPIRED''"
| "approval_status_value REVOKED = ''REVOKED''"
| "approval_status_value UNKNOWN = ''UNKNOWN''"

record approval_event =
  ae_approval_id :: pyval
  ae_candidate_id :: string
  ae_operator_id :: string
  ae_status :: approval_status
  ae_reason :: string
  ae_ts_epoch :: "pyfloat option"
  ae_expires_at_epoch :: "pyfloat option"
  ae_safety_decision :: pydict
  ae_raw :: pydict

definition is_expired :: "approval_event \<Rightarrow> pyfloat option \<Rightarrow> bool" where
  "is_expired e now =
     (case (ae_expires_at_epoch e, now) of (Some x, Some t) \<Rightarrow> float_le x t | _ \<Rightarrow> False)"

text \<open>The status at a time: an approval expires.\<close>

definition status_at :: "approval_event \<Rightarrow> pyfloat option \<Rightarrow> approval_status" where
  "status_at e now = (if ae_status e = APPROVED \<and> is_expired e now then EXPIRED else ae_status e)"

definition approval_event_to_dict :: "approval_event \<Rightarrow> pyfloat option \<Rightarrow> pydict" where
  "approval_event_to_dict e now =
     [(''approval_id'', ae_approval_id e),
      (''candidate_id'', PStr (ae_candidate_id e)),
      (''operator_id'', PStr (ae_operator_id e)),
      (''status'', PStr (approval_status_value (status_at e now))),
      (''reason'', PStr (ae_reason e)),
      (''ts_epoch'', opt_float (ae_ts_epoch e)),
      (''expires_at_epoch'', opt_float (ae_expires_at_epoch e)),
      (''safety_decision'', PDict (ae_safety_decision e)),
      (''raw'', PDict (ae_raw e)),
      (''immutable_audit_event'', PBool True),
      (''is_order_action'', PBool False)]"

definition build_approval_event ::
  "pyval \<Rightarrow> string \<Rightarrow> string \<Rightarrow> string \<Rightarrow> approval_status \<Rightarrow> pyfloat option \<Rightarrow> pyfloat option \<Rightarrow> pydict \<Rightarrow> approval_event" where
  "build_approval_event approval_id candidate_id operator_id reason status ts_epoch expires_at_epoch safety =
     \<lparr>ae_approval_id = approval_id, ae_candidate_id = candidate_id, ae_operator_id = operator_id, ae_status = status,
      ae_reason = reason, ae_ts_epoch = ts_epoch, ae_expires_at_epoch = expires_at_epoch, ae_safety_decision = safety,
      ae_raw =
        [(''approval_id'', approval_id),
         (''candidate_id'', PStr candidate_id),
         (''operator_id'', PStr operator_id),
         (''status'', PStr (approval_status_value status)),
         (''reason'', PStr reason),
         (''ts_epoch'', opt_float ts_epoch),
         (''expires_at_epoch'', opt_float expires_at_epoch),
         (''safety_decision'', PDict safety)]\<rparr>"

section \<open>The audit\<close>

definition approval_status_of :: "pyval \<Rightarrow> approval_status" where
  "approval_status_of v =
     (let key = status_key v
      in if key \<in> set [''APPROVE'', ''APPROVED'', ''ALLOW'', ''ALLOWED''] then APPROVED
         else if key \<in> set [''REJECT'', ''REJECTED'', ''DENY'', ''DENIED''] then REJECTED
         else if key \<in> set [''EXPIRE'', ''EXPIRED''] then EXPIRED
         else if key \<in> set [''REVOKE'', ''REVOKED'', ''CANCELLED'', ''CANCELED''] then REVOKED
         else UNKNOWN)"

definition approval_event_of :: "pydict \<Rightarrow> approval_event result" where
  "approval_event_of row =
     bind_result (float_or_none (get_or row [''ts_epoch'', ''timestamp'', ''approved_at_epoch''])) (\<lambda>ts.
     bind_result (float_or_none (get_or row [''expires_at_epoch'', ''expires_at'', ''expiry_epoch''])) (\<lambda>expires.
       Inr \<lparr>ae_approval_id = PStr (text_or row [''approval_id'', ''id''] ''unknown''),
            ae_candidate_id = text_or row [''candidate_id'', ''trade_id''] ''unknown'',
            ae_operator_id = text_or row [''operator_id'', ''approved_by'', ''user_id''] ''unknown'',
            ae_status = approval_status_of (get_or row [''status'', ''approval_status'']),
            ae_reason = text_or row [''reason'', ''approval_reason''] ''unspecified'',
            ae_ts_epoch = ts,
            ae_expires_at_epoch = expires,
            ae_safety_decision = as_dict (dget row ''safety_decision''),
            ae_raw = row\<rparr>))"

definition approval_warnings :: "approval_event list \<Rightarrow> string list" where
  "approval_warnings events =
     add_if (list_ex (\<lambda>e. ae_operator_id e = ''unknown'') events) ''UNKNOWN_OPERATOR_PRESENT'' @
     add_if (list_ex (\<lambda>e. ae_approval_id e = PStr ''unknown'') events) ''UNKNOWN_APPROVAL_ID_PRESENT'' @
     add_if (list_ex (\<lambda>e. ae_status e = UNKNOWN) events) ''UNKNOWN_APPROVAL_STATUS_PRESENT''"

record approval_summary =
  as_candidate_id :: string
  as_current_status :: approval_status
  as_approval_id :: pyval
  as_operator_id :: "string option"
  as_events :: "approval_event list"
  as_approved_count :: nat
  as_rejected_count :: nat
  as_expired_count :: nat
  as_revoked_count :: nat
  as_latest_reason :: "string option"
  as_blockers :: "string list"
  as_warnings :: "string list"

definition normalize_approval_audit ::
  "pyval list \<Rightarrow> string option \<Rightarrow> pyfloat option \<Rightarrow> approval_summary result" where
  "normalize_approval_audit records candidate_id now =
     bind_result (event_history approval_event_of ae_ts_epoch ae_candidate_id records candidate_id) (\<lambda>events.
       let resolved = resolved_candidate candidate_id (map ae_candidate_id events)
       in if events = []
          then Inr \<lparr>as_candidate_id = resolved, as_current_status = UNKNOWN, as_approval_id = PNone, as_operator_id = None,
                 as_events = [], as_approved_count = 0, as_rejected_count = 0, as_expired_count = 0, as_revoked_count = 0,
                 as_latest_reason = None, as_blockers = [''NO_APPROVAL_AUDIT_EVENTS''], as_warnings = []\<rparr>
          else
            let latest = last events; latest_status = status_at latest now
            in Inr \<lparr>as_candidate_id = resolved,
                 as_current_status = latest_status,
                 as_approval_id = ae_approval_id latest,
                 as_operator_id = Some (ae_operator_id latest),
                 as_events = events,
                 as_approved_count = count_if (\<lambda>e. ae_status e = APPROVED \<and> \<not> is_expired e now) events,
                 as_rejected_count = count_if (\<lambda>e. ae_status e = REJECTED) events,
                 as_expired_count = count_if (\<lambda>e. ae_status e = EXPIRED \<or> is_expired e now) events,
                 as_revoked_count = count_if (\<lambda>e. ae_status e = REVOKED) events,
                 as_latest_reason = Some (ae_reason latest),
                 as_blockers = (if latest_status = APPROVED then [] else [''APPROVAL_'' @ approval_status_value latest_status]),
                 as_warnings = approval_warnings events\<rparr>)"

definition approval_summary_to_dict :: "approval_summary \<Rightarrow> pyfloat option \<Rightarrow> pydict" where
  "approval_summary_to_dict s now =
     (let current = (if as_events s = [] then as_current_status s else status_at (last (as_events s)) now)
      in [(''candidate_id'', PStr (as_candidate_id s)),
          (''current_status'', PStr (approval_status_value current)),
          (''approval_id'', as_approval_id s),
          (''operator_id'', opt_str (as_operator_id s)),
          (''approved_count'', PInt (int (as_approved_count s))),
          (''rejected_count'', PInt (int (as_rejected_count s))),
          (''expired_count'', PInt (int (as_expired_count s))),
          (''revoked_count'', PInt (int (as_revoked_count s))),
          (''latest_reason'', opt_str (as_latest_reason s)),
          (''events'', PList (map (\<lambda>e. PDict (approval_event_to_dict e now)) (as_events s))),
          (''blockers'', str_list (as_blockers s)),
          (''warnings'', str_list (as_warnings s)),
          (''is_order_action'', PBool False)])"

section \<open>Creating an approval\<close>

record approval_request =
  aq_candidate_id :: string
  aq_operator_id :: string
  aq_reason :: string
  aq_expires_at_epoch :: pyfloat
  aq_safety_decision :: pydict
  aq_approval_id :: pyval
  aq_ts_epoch :: "pyfloat option"
  aq_status :: approval_status
  aq_metadata :: pydict

definition normalized_request :: "approval_request \<Rightarrow> approval_request" where
  "normalized_request q =
     q\<lparr>aq_candidate_id := strip (aq_candidate_id q), aq_operator_id := strip (aq_operator_id q),
       aq_reason := strip (aq_reason q),
       aq_approval_id := (case aq_approval_id q of PStr s \<Rightarrow> PStr (strip s) | v \<Rightarrow> v)\<rparr>"

definition approval_safety_blockers :: "pydict \<Rightarrow> string list" where
  "approval_safety_blockers safety =
     (if safety = [] then [''SAFETY_DECISION_SNAPSHOT_REQUIRED'']
      else
        add_if (\<not> has_key safety ''execution_permitted'') ''SAFETY_DECISION_EXECUTION_PERMITTED_REQUIRED'' @
        add_if (\<not> has_key safety ''status'') ''SAFETY_DECISION_STATUS_REQUIRED'' @
        add_if (dget safety ''is_order_action'' \<noteq> PBool False) ''SAFETY_DECISION_ORDER_FLAG_UNSAFE'')"

definition validate_approval_creation :: "approval_request \<Rightarrow> (string list \<times> string list) result" where
  "validate_approval_creation request =
     (let q = normalized_request request; safety = aq_safety_decision q
      in bind_result (if truthy (aq_approval_id q) then bind_result (py_len (aq_approval_id q)) (\<lambda>n. Inr (n < 4)) else Inr False)
           (\<lambda>id_short.
             Inr (keep_first []
                    (add_if (aq_candidate_id q = [] \<or> lower (aq_candidate_id q) = ''unknown'') ''CANDIDATE_ID_REQUIRED'' @
                     add_if (aq_operator_id q = [] \<or> lower (aq_operator_id q) = ''unknown'') ''OPERATOR_ID_REQUIRED'' @
                     add_if (length (aq_reason q) < 8) ''APPROVAL_REASON_TOO_SHORT'' @
                     add_if (case aq_ts_epoch q of Some t \<Rightarrow> float_le (aq_expires_at_epoch q) t | None \<Rightarrow> False)
                       ''APPROVAL_EXPIRY_MUST_BE_AFTER_TIMESTAMP'' @
                     add_if (float_le (aq_expires_at_epoch q) (Fin 0)) ''APPROVAL_EXPIRY_REQUIRED'' @
                     add_if (aq_status q \<notin> {APPROVED, REJECTED}) ''APPROVAL_STATUS_MUST_BE_APPROVED_OR_REJECTED'' @
                     approval_safety_blockers safety @
                     add_if id_short ''APPROVAL_ID_TOO_SHORT''),
                  keep_first []
                    (add_if (safety \<noteq> [] \<and> dget safety ''safety_visibility_only'' \<noteq> PBool True)
                       ''SAFETY_DECISION_VISIBILITY_FLAG_MISSING''))))"

definition stable_approval_id :: "approval_request \<Rightarrow> string" where
  "stable_approval_id q =
     ''approval-'' @ digest16 (join ''|'' [aq_candidate_id q, aq_operator_id q, aq_reason q,
       str_or_empty (opt_float (aq_ts_epoch q)), float_repr (aq_expires_at_epoch q), approval_status_value (aq_status q)])"

record approval_creation =
  ac_created :: bool
  ac_event :: "approval_event option"
  ac_blockers :: "string list"
  ac_warnings :: "string list"
  ac_append_path :: "string option"

definition approval_creation_to_dict :: "approval_creation \<Rightarrow> pydict" where
  "approval_creation_to_dict r =
     [(''created'', PBool (ac_created r)),
      (''event'', opt_dict (map_option (\<lambda>e. approval_event_to_dict e None) (ac_event r))),
      (''blockers'', str_list (ac_blockers r)),
      (''warnings'', str_list (ac_warnings r)),
      (''append_path'', opt_str (ac_append_path r)),
      (''is_order_action'', PBool False)]"

definition create_approval_event :: "approval_request \<Rightarrow> approval_creation result" where
  "create_approval_event request =
     (let q = normalized_request request
      in bind_result (validate_approval_creation q) (\<lambda>(blockers, warnings).
           if blockers \<noteq> []
           then Inr \<lparr>ac_created = False, ac_event = None, ac_blockers = blockers, ac_warnings = warnings, ac_append_path = None\<rparr>
           else
             Inr \<lparr>ac_created = True,
               ac_event = Some (build_approval_event (py_or (aq_approval_id q) (PStr (stable_approval_id q)))
                 (aq_candidate_id q) (aq_operator_id q) (aq_reason q) (aq_status q) (aq_ts_epoch q)
                 (Some (aq_expires_at_epoch q)) (aq_safety_decision q)),
               ac_blockers = [], ac_warnings = warnings, ac_append_path = None\<rparr>))"

text \<open>The result and the lines of the file after the call.\<close>

definition append_approval_event :: "string \<Rightarrow> approval_request \<Rightarrow> pyval list \<Rightarrow> (approval_creation \<times> pyval list) result" where
  "append_approval_event path request lines =
     bind_result (create_approval_event request) (\<lambda>r.
       case (ac_created r, ac_event r) of
         (True, Some e) \<Rightarrow>
           Inr (\<lparr>ac_created = True, ac_event = Some e, ac_blockers = [], ac_warnings = ac_warnings r,
                  ac_append_path = Some path\<rparr>,
                lines @ [stable_json (approval_event_to_dict e None)])
       | _ \<Rightarrow> Inr (r, lines))"

text \<open>\<open>_optional_float\<close> of the request reader\<close>

definition optional_float :: "pyval \<Rightarrow> pyfloat option result" where
  "optional_float v = (if is_blank v then Inr None else bind_result (float_or_nought v) (\<lambda>x. Inr (Some x)))"

definition approval_request_from_mapping :: "pydict \<Rightarrow> approval_request result" where
  "approval_request_from_mapping d =
     (let status_raw = upper (text_or d [''status'', ''approval_status''] ''APPROVED'')
      in bind_result (float_or_nought (get_or d [''expires_at_epoch'', ''expiry_epoch''])) (\<lambda>expires.
         bind_result (optional_float (get_or d [''ts_epoch'', ''approved_at_epoch''])) (\<lambda>ts.
           Inr \<lparr>aq_candidate_id = str_or_empty (dget d ''candidate_id''),
                aq_operator_id = str_or_empty (get_or d [''operator_id'', ''approved_by'']),
                aq_reason = str_or_empty (get_or d [''reason'', ''approval_reason'']),
                aq_expires_at_epoch = expires,
                aq_safety_decision = as_dict (dget d ''safety_decision''),
                aq_approval_id = dget d ''approval_id'',
                aq_ts_epoch = ts,
                aq_status = (if status_raw \<in> set [''REJECT'', ''REJECTED'', ''DENIED'', ''DENY''] then REJECTED else APPROVED),
                aq_metadata = as_dict (dget d ''metadata'')\<rparr>)))"

section \<open>The summary\<close>

lemma approval_status_value_inject [simp]: "approval_status_value a = approval_status_value b \<longleftrightarrow> a = b"
  by (cases a; cases b) simp_all

lemma audit_history:
  assumes "normalize_approval_audit records c now = Inr s"
  shows "event_history approval_event_of ae_ts_epoch ae_candidate_id records c = Inr (as_events s)"
  using assms by (auto simp: normalize_approval_audit_def Let_def split: if_splits)

lemma audit_latest:
  assumes "normalize_approval_audit records c now = Inr s"
  shows "as_events s = [] \<Longrightarrow> as_current_status s = UNKNOWN \<and> as_blockers s = [''NO_APPROVAL_AUDIT_EVENTS'']"
    "as_events s \<noteq> [] \<Longrightarrow> as_current_status s = status_at (last (as_events s)) now \<and>
       as_approval_id s = ae_approval_id (last (as_events s)) \<and> as_operator_id s = Some (ae_operator_id (last (as_events s))) \<and>
       as_latest_reason s = Some (ae_reason (last (as_events s))) \<and>
       as_blockers s = (if as_current_status s = APPROVED then []
         else [''APPROVAL_'' @ approval_status_value (as_current_status s)])"
  using assms by (auto simp: normalize_approval_audit_def Let_def split: if_splits)

lemma exported_status:
  assumes "normalize_approval_audit records c now = Inr s"
  shows "dget (approval_summary_to_dict s now) ''current_status'' = PStr (approval_status_value (as_current_status s))"
  using audit_latest [OF assms] by (auto simp: approval_summary_to_dict_def Let_def)

text \<open>
  An approval is a matter of the last event and of the time: the audit calls a candidate APPROVED
  exactly when the event with the greatest time is an approval whose expiry, if it has one, lies
  after the given time; only then it reports no blocker, and the exported record says the same. No
  event of the candidate is later than the one that decides. Once the time has passed the expiry, no
  later time approves the candidate again on the same records.
\<close>

theorem approved_until_expiry:
  assumes "normalize_approval_audit records c (Some now) = Inr s"
  shows "(as_current_status s = APPROVED \<longleftrightarrow>
      as_events s \<noteq> [] \<and> ae_status (last (as_events s)) = APPROVED \<and>
      (case ae_expires_at_epoch (last (as_events s)) of Some x \<Rightarrow> \<not> float_le x now | None \<Rightarrow> True)) \<and>
    (as_current_status s = APPROVED \<longleftrightarrow> as_blockers s = []) \<and>
    dget (approval_summary_to_dict s (Some now)) ''current_status'' = PStr (approval_status_value (as_current_status s)) \<and>
    (\<forall>e \<in> set (as_events s). time_key (ae_ts_epoch e) \<le> time_key (ae_ts_epoch (last (as_events s)))) \<and>
    (\<forall>later s'. float_le now later \<longrightarrow> normalize_approval_audit records c (Some later) = Inr s' \<longrightarrow>
      as_current_status s' = APPROVED \<longrightarrow> as_current_status s = APPROVED)"
proof -
  have approved: "as_current_status s = APPROVED \<longleftrightarrow>
      as_events s \<noteq> [] \<and> ae_status (last (as_events s)) = APPROVED \<and>
      (case ae_expires_at_epoch (last (as_events s)) of Some x \<Rightarrow> \<not> float_le x t | None \<Rightarrow> True)"
    if "normalize_approval_audit records c (Some t) = Inr s" for t s
    using audit_latest [OF that] by (cases "as_events s = []") (auto simp: status_at_def is_expired_def split: option.split)
  have "as_current_status s = APPROVED"
    if "float_le now later" "normalize_approval_audit records c (Some later) = Inr s'" "as_current_status s' = APPROVED" for later s'
  proof -
    have "as_events s' = as_events s" using audit_history [OF assms] audit_history [OF that(2)] by simp
    with approved [OF that(2)] approved [OF assms] that(1,3) float_le_trans show ?thesis
      by (auto split: option.splits)
  qed
  moreover have "as_current_status s = APPROVED \<longleftrightarrow> as_blockers s = []"
    using audit_latest [OF assms] by (cases "as_events s = []") auto
  ultimately show ?thesis
    using approved [OF assms] exported_status [OF assms] event_history_last [OF audit_history [OF assms]] by blast
qed

section \<open>What a line keeps of an event\<close>

text \<open>Zero is no time: the readers of records take it for a missing value.\<close>

definition nonzero :: "pyfloat option \<Rightarrow> pyfloat option" where
  "nonzero t = (if t = Some (Fin 0) then None else t)"

lemma get_or_missing: "dget d k' = PNone \<Longrightarrow> get_or d [k, k'] = (if truthy (dget d k) then dget d k else PNone)"
  by (simp add: py_or_def)

lemma stored_float:
  assumes "dget d k = opt_float x" "dget d k' = PNone" "dget d k'' = PNone"
  shows "float_or_none (get_or d [k, k', k'']) = Inr (nonzero x)"
  using assms by (cases x) (auto simp: py_or_def nonzero_def)

lemma stored_text:
  assumes "dget d k = PStr s" "s \<noteq> []"
  shows "text_or d (k # ks) other = s"
  using assms by (cases ks) (simp_all add: text_or_def py_or_def)

lemma status_aliases:
  "approval_status_of (PStr ''APPROVED'') = APPROVED" "approval_status_of (PStr ''REJECTED'') = REJECTED"
  by code_simp+

lemma is_expired_None: "\<not> is_expired e None"
  by (simp add: is_expired_def split: option.split)

lemma reread_event:
  assumes "ae_status e \<in> {APPROVED, REJECTED}" "ae_candidate_id e \<noteq> []" "ae_operator_id e \<noteq> []" "ae_reason e \<noteq> []"
  obtains e' where "approval_event_of (as_dict (stable_json (approval_event_to_dict e None))) = Inr e'"
    "ae_candidate_id e' = ae_candidate_id e" "ae_operator_id e' = ae_operator_id e" "ae_reason e' = ae_reason e"
    "ae_status e' = ae_status e" "ae_ts_epoch e' = nonzero (ae_ts_epoch e)"
    "ae_expires_at_epoch e' = nonzero (ae_expires_at_epoch e)"
    "ae_safety_decision e' = as_dict (sort_json (PDict (ae_safety_decision e)))"
proof -
  let ?d = "as_dict (stable_json (approval_event_to_dict e None))"
  have get: "dget ?d ''candidate_id'' = PStr (ae_candidate_id e)" "dget ?d ''operator_id'' = PStr (ae_operator_id e)"
    "dget ?d ''reason'' = PStr (ae_reason e)" "dget ?d ''status'' = PStr (approval_status_value (ae_status e))"
    "dget ?d ''ts_epoch'' = opt_float (ae_ts_epoch e)" "dget ?d ''expires_at_epoch'' = opt_float (ae_expires_at_epoch e)"
    "dget ?d ''timestamp'' = PNone" "dget ?d ''approved_at_epoch'' = PNone" "dget ?d ''expires_at'' = PNone"
    "dget ?d ''expiry_epoch'' = PNone" "dget ?d ''safety_decision'' = sort_json (PDict (ae_safety_decision e))"
    by (simp_all add: dget_line approval_event_to_dict_def status_at_def is_expired_None journal_scalars)
  have "get_or ?d [''status'', ''approval_status''] = PStr (approval_status_value (ae_status e))"
    using get(4) assms(1) by (auto simp: py_or_def)
  then have status: "approval_status_of (get_or ?d [''status'', ''approval_status'']) = ae_status e"
    using assms(1) status_aliases by auto
  have "approval_event_of ?d = Inr \<lparr>ae_approval_id = PStr (text_or ?d [''approval_id'', ''id''] ''unknown''),
      ae_candidate_id = ae_candidate_id e, ae_operator_id = ae_operator_id e, ae_status = ae_status e, ae_reason = ae_reason e,
      ae_ts_epoch = nonzero (ae_ts_epoch e), ae_expires_at_epoch = nonzero (ae_expires_at_epoch e),
      ae_safety_decision = as_dict (sort_json (PDict (ae_safety_decision e))), ae_raw = ?d\<rparr>"
    unfolding approval_event_of_def stored_float [OF get(5,7,8)] stored_float [OF get(6,9,10)] status
      stored_text [OF get(1) assms(2)] stored_text [OF get(2) assms(3)] stored_text [OF get(3) assms(4)] get(11)
    by simp
  then show thesis by (rule that) simp_all
qed

lemma normalized_request_idem: "normalized_request (normalized_request q) = normalized_request q"
  by (cases "aq_approval_id q") (simp_all add: normalized_request_def)

lemma validated_request:
  assumes "validate_approval_creation q = Inr ([], ws)" "normalized_request q = q"
  shows "aq_candidate_id q \<noteq> []" "aq_operator_id q \<noteq> []" "aq_reason q \<noteq> []"
    "\<not> float_le (aq_expires_at_epoch q) (Fin 0)" "aq_status q \<in> {APPROVED, REJECTED}"
    "dget (aq_safety_decision q) ''is_order_action'' = PBool False"
proof -
  obtain short where "keep_first []
      (add_if (aq_candidate_id q = [] \<or> lower (aq_candidate_id q) = ''unknown'') ''CANDIDATE_ID_REQUIRED'' @
       add_if (aq_operator_id q = [] \<or> lower (aq_operator_id q) = ''unknown'') ''OPERATOR_ID_REQUIRED'' @
       add_if (length (aq_reason q) < 8) ''APPROVAL_REASON_TOO_SHORT'' @
       add_if (case aq_ts_epoch q of Some t \<Rightarrow> float_le (aq_expires_at_epoch q) t | None \<Rightarrow> False)
         ''APPROVAL_EXPIRY_MUST_BE_AFTER_TIMESTAMP'' @
       add_if (float_le (aq_expires_at_epoch q) (Fin 0)) ''APPROVAL_EXPIRY_REQUIRED'' @
       add_if (aq_status q \<notin> {APPROVED, REJECTED}) ''APPROVAL_STATUS_MUST_BE_APPROVED_OR_REJECTED'' @
       approval_safety_blockers (aq_safety_decision q) @ add_if short ''APPROVAL_ID_TOO_SHORT'') = []"
    using assms(1) unfolding validate_approval_creation_def assms(2) Let_def bind_result_eq_Inr sum.inject prod.inject
    by (elim exE conjE)
  then have labels: "\<not> (aq_candidate_id q = [] \<or> lower (aq_candidate_id q) = ''unknown'')"
    "\<not> (aq_operator_id q = [] \<or> lower (aq_operator_id q) = ''unknown'')" "\<not> length (aq_reason q) < 8"
    "\<not> float_le (aq_expires_at_epoch q) (Fin 0)" "aq_status q \<in> {APPROVED, REJECTED}"
    "list_all (\<lambda>x. x = []) (approval_safety_blockers (aq_safety_decision q))"
    unfolding keep_first_labels list_all_append list_all_empty_add_if by simp_all
  then show "aq_candidate_id q \<noteq> []" "aq_operator_id q \<noteq> []" "aq_reason q \<noteq> []"
    "\<not> float_le (aq_expires_at_epoch q) (Fin 0)" "aq_status q \<in> {APPROVED, REJECTED}"
    by auto
  show "dget (aq_safety_decision q) ''is_order_action'' = PBool False"
    using labels(6) by (auto simp: approval_safety_blockers_def split: if_splits)
qed

lemma created_approval:
  assumes "create_approval_event q = Inr r" "ac_event r = Some e"
  shows "ac_created r" "ae_status e \<in> {APPROVED, REJECTED}" "ae_candidate_id e \<noteq> []" "ae_operator_id e \<noteq> []" "ae_reason e \<noteq> []"
    "\<exists>x. ae_expires_at_epoch e = Some x \<and> \<not> float_le x (Fin 0)"
    "dget (ae_safety_decision e) ''is_order_action'' = PBool False" "ae_candidate_id e = strip (aq_candidate_id q)"
proof -
  obtain Q where Q: "normalized_request q = Q" by blast
  then have idem: "normalized_request Q = Q" using normalized_request_idem by blast
  obtain bs ws where v: "validate_approval_creation Q = Inr (bs, ws)"
    using assms(1) unfolding create_approval_event_def Let_def Q by auto
  have bs: "bs = []"
    using assms v unfolding create_approval_event_def Let_def Q by (cases "bs = []") auto
  have r: "r = \<lparr>ac_created = True,
      ac_event = Some (build_approval_event (py_or (aq_approval_id Q) (PStr (stable_approval_id Q)))
        (aq_candidate_id Q) (aq_operator_id Q) (aq_reason Q) (aq_status Q) (aq_ts_epoch Q)
        (Some (aq_expires_at_epoch Q)) (aq_safety_decision Q)), ac_blockers = [], ac_warnings = ws, ac_append_path = None\<rparr>"
    using assms(1) v unfolding create_approval_event_def Let_def Q bs by simp
  show "ac_created r" unfolding r by simp
  note checks = validated_request [OF v [unfolded bs] idem]
  have e: "ae_status e = aq_status Q" "ae_candidate_id e = aq_candidate_id Q" "ae_operator_id e = aq_operator_id Q"
    "ae_reason e = aq_reason Q" "ae_expires_at_epoch e = Some (aq_expires_at_epoch Q)"
    "ae_safety_decision e = aq_safety_decision Q"
    using assms(2) unfolding r by (auto simp: build_approval_event_def)
  show "ae_status e \<in> {APPROVED, REJECTED}" "ae_candidate_id e \<noteq> []" "ae_operator_id e \<noteq> []" "ae_reason e \<noteq> []"
    "\<exists>x. ae_expires_at_epoch e = Some x \<and> \<not> float_le x (Fin 0)"
    "dget (ae_safety_decision e) ''is_order_action'' = PBool False"
    using checks unfolding e by simp_all
  show "ae_candidate_id e = strip (aq_candidate_id q)"
    unfolding e(2) Q [symmetric] by (simp add: normalized_request_def)
qed

section \<open>From creation to audit\<close>

lemma appended_line:
  assumes "append_approval_event path q lines = Inr (r, lines')" "ac_event r = Some e"
  obtains r0 where "create_approval_event q = Inr r0" "ac_event r0 = Some e"
    "lines' = lines @ [stable_json (approval_event_to_dict e None)]"
proof -
  obtain r0 where c: "create_approval_event q = Inr r0" using assms(1) by (auto simp: append_approval_event_def)
  show thesis
  proof (cases "ac_event r0")
    case None
    with c assms show thesis by (cases "ac_created r0") (auto simp: append_approval_event_def)
  next
    case (Some e0)
    with created_approval(1) [OF c] c assms have "e0 = e" "lines' = lines @ [stable_json (approval_event_to_dict e None)]"
      by (auto simp: append_approval_event_def)
    with c Some show thesis by (intro that) simp_all
  qed
qed

lemma audit_total:
  assumes "event_history approval_event_of ae_ts_epoch ae_candidate_id records c = Inr es"
  shows "\<exists>s. normalize_approval_audit records c now = Inr s"
  by (cases "es = []") (simp_all add: normalize_approval_audit_def assms Let_def)

lemma audit_candidate:
  assumes "normalize_approval_audit records (Some c) now = Inr s" "c \<noteq> []"
  shows "as_candidate_id s = c"
proof -
  have "resolved_candidate (Some c) ids = c" for ids using assms(2) by (simp add: resolved_candidate_def)
  with assms(1) show ?thesis by (auto simp: normalize_approval_audit_def Let_def split: if_splits)
qed

lemma as_line: "stable_json d = PDict (as_dict (stable_json d))"
  by (simp add: stable_json_def)

lemma created_event_decides:
  assumes "append_approval_event path q lines = Inr (r, lines')" "ac_event r = Some e"
    "normalize_approval_audit lines (Some (ae_candidate_id e)) now = Inr s"
    "\<And>x. x \<in> set (as_events s) \<Longrightarrow> time_key (ae_ts_epoch x) \<le> time_key (nonzero (ae_ts_epoch e))"
  obtains s' e' where "normalize_approval_audit lines' (Some (ae_candidate_id e)) now = Inr s'"
    "as_events s' = as_events s @ [e']" "as_current_status s' = status_at e now" "as_operator_id s' = Some (ae_operator_id e)"
    "as_latest_reason s' = Some (ae_reason e)" "as_candidate_id s' = ae_candidate_id e"
    "status_at e' now = status_at e now" "ae_safety_decision e' = as_dict (sort_json (PDict (ae_safety_decision e)))"
proof -
  obtain r0 where c: "create_approval_event q = Inr r0" "ac_event r0 = Some e"
    and lines: "lines' = lines @ [stable_json (approval_event_to_dict e None)]"
    using assms(1,2) by (rule appended_line)
  note made = created_approval [OF c]
  let ?d = "as_dict (stable_json (approval_event_to_dict e None))"
  obtain e' where read: "approval_event_of ?d = Inr e'"
    and e': "ae_candidate_id e' = ae_candidate_id e" "ae_operator_id e' = ae_operator_id e" "ae_reason e' = ae_reason e"
      "ae_status e' = ae_status e" "ae_ts_epoch e' = nonzero (ae_ts_epoch e)"
      "ae_expires_at_epoch e' = nonzero (ae_expires_at_epoch e)"
      "ae_safety_decision e' = as_dict (sort_json (PDict (ae_safety_decision e)))"
    using made(2-5) by (rule reread_event)
  have expires: "nonzero (ae_expires_at_epoch e) = ae_expires_at_epoch e"
    using made(6) by (auto simp: nonzero_def)
  have line: "lines' = lines @ [PDict ?d]" by (simp only: lines as_line [symmetric])
  have h: "event_history approval_event_of ae_ts_epoch ae_candidate_id lines' (Some (ae_candidate_id e)) = Inr (as_events s @ [e'])"
    unfolding line
    by (rule event_history_append [OF audit_history [OF assms(3)] read e'(1) made(3)]) (simp add: e'(5) assms(4))
  then obtain s' where s': "normalize_approval_audit lines' (Some (ae_candidate_id e)) now = Inr s'"
    using audit_total by blast
  have events: "as_events s' = as_events s @ [e']" using audit_history [OF s'] h by simp
  have st: "status_at e' now = status_at e now"
    by (simp add: status_at_def is_expired_def e' expires)
  have decided: "as_current_status s' = status_at e now" "as_operator_id s' = Some (ae_operator_id e)"
    "as_latest_reason s' = Some (ae_reason e)"
    using audit_latest(2) [OF s'] by (simp_all add: events st e'(2,3))
  show thesis
    by (rule that [OF s' events decided audit_candidate [OF s' made(3)] st e'(7)])
qed

text \<open>
  What is written is what is audited: when a request has been validated, turned into an event and
  appended to the lines of the file, the audit of these lines finds all earlier events of the
  candidate and this one after them, and decides by it, provided that no earlier event carries a
  greater time: with the operator and the reason of the request, REJECTED for a rejection, APPROVED
  for an approval before its expiry and EXPIRED from its expiry on.
\<close>

theorem created_approval_is_audited:
  assumes "append_approval_event path q lines = Inr (r, lines')" "ac_event r = Some e"
    "normalize_approval_audit lines (Some (ae_candidate_id e)) now = Inr s"
    "\<forall>x \<in> set (as_events s). time_key (ae_ts_epoch x) \<le> time_key (nonzero (ae_ts_epoch e))"
  shows "ae_candidate_id e = strip (aq_candidate_id q) \<and>
    (\<exists>s' e'. normalize_approval_audit lines' (Some (ae_candidate_id e)) now = Inr s' \<and>
       as_events s' = as_events s @ [e'] \<and> as_operator_id s' = Some (ae_operator_id e) \<and>
       as_latest_reason s' = Some (ae_reason e) \<and>
       as_current_status s' =
         (if ae_status e = REJECTED then REJECTED else if is_expired e now then EXPIRED else APPROVED))"
proof -
  obtain r0 where c: "create_approval_event q = Inr r0" "ac_event r0 = Some e"
    using assms(1,2) by (rule appended_line)
  have "status_at e now = (if ae_status e = REJECTED then REJECTED else if is_expired e now then EXPIRED else APPROVED)"
    using created_approval(2) [OF c] by (auto simp: status_at_def)
  moreover obtain s' e' where "normalize_approval_audit lines' (Some (ae_candidate_id e)) now = Inr s'"
    "as_events s' = as_events s @ [e']" "as_current_status s' = status_at e now" "as_operator_id s' = Some (ae_operator_id e)"
    "as_latest_reason s' = Some (ae_reason e)"
    using created_event_decides [OF assms(1-3)] assms(4) by metis
  ultimately show ?thesis using created_approval(8) [OF c] by metis
qed

definition demo_approval :: approval_request where
  "demo_approval =
     \<lparr>aq_candidate_id = ''c1'', aq_operator_id = ''op'', aq_reason = ''reviewed by hand'', aq_expires_at_epoch = Fin 200,
      aq_safety_decision = [(''execution_permitted'', PBool True), (''status'', PStr ''PERMITTED''),
        (''is_order_action'', PBool False), (''safety_visibility_only'', PBool True)],
      aq_approval_id = PStr ''appr-1'', aq_ts_epoch = Some (Fin 100), aq_status = APPROVED, aq_metadata = []\<rparr>"

definition demo_approval_event :: approval_event where
  "demo_approval_event =
     build_approval_event (PStr ''appr-1'') ''c1'' ''op'' ''reviewed by hand'' APPROVED (Some (Fin 100)) (Some (Fin 200))
       (aq_safety_decision demo_approval)"

lemma demo_approval_created:
  "create_approval_event demo_approval =
     Inr \<lparr>ac_created = True, ac_event = Some demo_approval_event, ac_blockers = [], ac_warnings = [], ac_append_path = None\<rparr>"
proof -
  have n: "normalized_request demo_approval = demo_approval"
    unfolding normalized_request_def demo_approval_def by code_simp
  have "lower ''c1'' \<noteq> ''unknown''" "lower ''op'' \<noteq> ''unknown''" by code_simp+
  then have "validate_approval_creation demo_approval = Inr ([], [])"
    unfolding validate_approval_creation_def n
    by (simp add: demo_approval_def approval_safety_blockers_def has_key_def)
  then show ?thesis
    by (simp add: create_approval_event_def n Let_def demo_approval_event_def) (simp add: demo_approval_def)
qed

lemma demo_approval_appended:
  "append_approval_event ''approvals.jsonl'' demo_approval [] =
     Inr (\<lparr>ac_created = True, ac_event = Some demo_approval_event, ac_blockers = [], ac_warnings = [],
            ac_append_path = Some ''approvals.jsonl''\<rparr>, [stable_json (approval_event_to_dict demo_approval_event None)])"
  by (simp add: append_approval_event_def demo_approval_created)

lemma demo_approval_empty: "\<exists>s. normalize_approval_audit [] c now = Inr s \<and> as_events s = []"
  by (simp add: normalize_approval_audit_def event_history_def Let_def)

theorem created_approval_is_audited_witness:
  "\<exists>r lines s s'. append_approval_event ''approvals.jsonl'' demo_approval [] = Inr (r, lines) \<and>
     normalize_approval_audit lines (Some ''c1'') (Some (Fin 199)) = Inr s \<and> as_current_status s = APPROVED \<and>
     normalize_approval_audit lines (Some ''c1'') (Some (Fin 200)) = Inr s' \<and> as_current_status s' = EXPIRED"
proof -
  have c: "ae_candidate_id demo_approval_event = ''c1''" "ae_status demo_approval_event = APPROVED"
    "is_expired demo_approval_event (Some (Fin t)) \<longleftrightarrow> 200 \<le> t" for t
    by (simp_all add: demo_approval_event_def build_approval_event_def is_expired_def)
  have "\<exists>s'. normalize_approval_audit [stable_json (approval_event_to_dict demo_approval_event None)] (Some ''c1'') (Some (Fin t)) = Inr s' \<and>
      as_current_status s' = (if 200 \<le> t then EXPIRED else APPROVED)" for t
  proof -
    obtain s where "normalize_approval_audit [] (Some ''c1'') (Some (Fin t)) = Inr s" "as_events s = []"
      using demo_approval_empty by blast
    with created_approval_is_audited [OF demo_approval_appended, of demo_approval_event "Some (Fin t)" s] c
    show ?thesis by auto
  qed
  from this [of 199] this [of 200] show ?thesis
    using demo_approval_appended by fastforce
qed

theorem approved_until_expiry_witness:
  "\<exists>lines s. normalize_approval_audit lines (Some ''c1'') (Some (Fin 200)) = Inr s \<and> as_current_status s \<noteq> APPROVED \<and>
     as_events s = []"
proof -
  obtain s where "normalize_approval_audit [] (Some ''c1'') (Some (Fin 200)) = Inr s" "as_events s = []"
    using demo_approval_empty by blast
  with approved_until_expiry [of "[]" "Some ''c1''" "Fin 200" s] show ?thesis by blast
qed

end
