(* ===== verification/Dry_Run.thy ===== *)
theory Dry_Run
  imports Approval_Audit
begin

text \<open>
  src/dry_run_execution/adapter.py: the dry run of an order. With a selected candidate, a permitting
  safety decision and the evidence of an approval it makes an intent, a lifecycle event and an
  outcome event that name no real order, and appends them to three files of JSON lines.
\<close>

section \<open>Records\<close>

record dry_run_intent =
  di_dry_run_order_id :: string
  di_candidate_id :: string
  di_symbol :: "string option"
  di_tradingsymbol :: "string option"
  di_instrument_token :: "string option"
  di_transaction_type :: "string option"
  di_quantity :: "int option"
  di_order_type :: "string option"
  di_product :: "string option"
  di_price :: "pyfloat option"
  di_trigger_price :: "pyfloat option"
  di_strategy :: "string option"
  di_quality_score :: "pyfloat option"
  di_approval_id :: "string option"
  di_operator_id :: "string option"
  di_created_at_epoch :: pyval
  di_source :: string
  di_top_executable_snapshot :: pydict
  di_execution_safety_snapshot :: pydict
  di_approval_snapshot :: pydict
  di_readiness_snapshot :: pydict

definition dry_run_intent_to_dict :: "dry_run_intent \<Rightarrow> pydict" where
  "dry_run_intent_to_dict i =
     [(''dry_run_order_id'', PStr (di_dry_run_order_id i)),
      (''candidate_id'', PStr (di_candidate_id i)),
      (''symbol'', opt_str (di_symbol i)),
      (''tradingsymbol'', opt_str (di_tradingsymbol i)),
      (''instrument_token'', opt_str (di_instrument_token i)),
      (''transaction_type'', opt_str (di_transaction_type i)),
      (''quantity'', opt_int (di_quantity i)),
      (''order_type'', opt_str (di_order_type i)),
      (''product'', opt_str (di_product i)),
      (''price'', opt_float (di_price i)),
      (''trigger_price'', opt_float (di_trigger_price i)),
      (''strategy'', opt_str (di_strategy i)),
      (''quality_score'', opt_float (di_quality_score i)),
      (''approval_id'', opt_str (di_approval_id i)),
      (''operator_id'', opt_str (di_operator_id i)),
      (''created_at_epoch'', di_created_at_epoch i),
      (''source'', PStr (di_source i)),
      (''top_executable_snapshot'', PDict (di_top_executable_snapshot i)),
      (''execution_safety_snapshot'', PDict (di_execution_safety_snapshot i)),
      (''approval_snapshot'', PDict (di_approval_snapshot i)),
      (''readiness_snapshot'', PDict (di_readiness_snapshot i)),
      (''dry_run_only'', PBool True),
      (''is_order_action'', PBool False),
      (''broker_api_called'', PBool False),
      (''real_order_id'', PNone)]"

record dry_run_event =
  de_dry_run_order_id :: string
  de_candidate_id :: string
  de_status :: string
  de_ts_epoch :: pyval
  de_source :: string
  de_evidence :: pydict

definition dry_run_event_to_dict :: "dry_run_event \<Rightarrow> pydict" where
  "dry_run_event_to_dict e =
     [(''dry_run_order_id'', PStr (de_dry_run_order_id e)),
      (''candidate_id'', PStr (de_candidate_id e)),
      (''status'', PStr (de_status e)),
      (''ts_epoch'', de_ts_epoch e),
      (''source'', PStr (de_source e)),
      (''evidence'', PDict (de_evidence e)),
      (''dry_run_only'', PBool True),
      (''is_order_action'', PBool False),
      (''broker_api_called'', PBool False),
      (''real_order_id'', PNone)]"

record dry_run_result =
  dr_created :: bool
  dr_intent :: "dry_run_intent option"
  dr_lifecycle_event :: "dry_run_event option"
  dr_outcome_event :: "pydict option"
  dr_blockers :: "string list"
  dr_warnings :: "string list"
  dr_append_paths :: "(string \<times> string) list"

definition dry_run_result_to_dict :: "dry_run_result \<Rightarrow> pydict" where
  "dry_run_result_to_dict r =
     [(''created'', PBool (dr_created r)),
      (''intent'', opt_dict (map_option dry_run_intent_to_dict (dr_intent r))),
      (''lifecycle_event'', opt_dict (map_option dry_run_event_to_dict (dr_lifecycle_event r))),
      (''outcome_event'', dict_or_none (dr_outcome_event r)),
      (''blockers'', str_list (dr_blockers r)),
      (''warnings'', str_list (dr_warnings r)),
      (''append_paths'', PDict (map (\<lambda>(k, p). (k, PStr p)) (dr_append_paths r))),
      (''dry_run_only'', PBool True),
      (''is_order_action'', PBool False),
      (''broker_api_called'', PBool False)]"

section \<open>Validation\<close>

record dry_run_input =
  dq_top_executable :: pyval
  dq_execution_safety :: pyval
  dq_approval :: pyval
  dq_readiness :: pyval
  dq_ts_epoch :: pyval

text \<open>Blockers and warnings of the approval evidence.\<close>

definition approval_checks :: "pydict \<Rightarrow> string list \<times> string list" where
  "approval_checks approval =
     (if approval = [] then ([''APPROVAL_EVIDENCE_REQUIRED''], [])
      else
        (add_if (dget approval ''current_status'' \<noteq> PStr ''APPROVED'') ''APPROVAL_NOT_APPROVED'' @
         add_if (dget approval ''is_order_action'' \<noteq> PBool False) ''APPROVAL_ORDER_FLAG_UNSAFE'',
         add_if (truthy (dget approval ''blockers'')) ''APPROVAL_HAS_BLOCKERS''))"

text \<open>The snapshot of the safety decision in the last event of the approval.\<close>

definition snapshot_unsafe :: "pydict \<Rightarrow> bool" where
  "snapshot_unsafe approval =
     (let events = as_list (dget approval ''events'')
      in if events = [] then False
         else case (case last events of PDict latest \<Rightarrow> dget latest ''safety_decision'' | _ \<Rightarrow> PDict []) of
                PDict safety \<Rightarrow> dget safety ''is_order_action'' \<noteq> PBool False
              | _ \<Rightarrow> False)"

definition dry_run_safety_blockers :: "pydict \<Rightarrow> string list" where
  "dry_run_safety_blockers safety =
     (if safety = [] then [''EXECUTION_SAFETY_REQUIRED'']
      else
        add_if (dget safety ''execution_permitted'' \<noteq> PBool True) ''EXECUTION_SAFETY_NOT_PERMITTED'' @
        add_if (dget safety ''is_order_action'' \<noteq> PBool False) ''EXECUTION_SAFETY_ORDER_FLAG_UNSAFE'')"

definition dry_run_top_blockers :: "pydict option \<Rightarrow> string list" where
  "dry_run_top_blockers selected =
     (case selected of
        None \<Rightarrow> [''NO_TOP_EXECUTABLE_SELECTED'']
      | Some d \<Rightarrow> add_if (dget d ''is_order'' \<noteq> PBool False) ''TOP_EXECUTABLE_ORDER_FLAG_UNSAFE'')"

definition validate_dry_run :: "dry_run_input \<Rightarrow> string list \<times> string list" where
  "validate_dry_run q =
     (let selected = selected_candidate (dq_top_executable q);
          approval = as_dict (dq_approval q);
          candidate_id = (case selected of Some d \<Rightarrow> dget d ''candidate_id'' | None \<Rightarrow> PNone);
          approved_id = dget approval ''candidate_id''
      in (keep_first []
            (dry_run_top_blockers selected @ dry_run_safety_blockers (as_dict (dq_execution_safety q)) @
             fst (approval_checks approval) @
             add_if (is_blank candidate_id) ''CANDIDATE_ID_REQUIRED'' @
             add_if (truthy candidate_id \<and> truthy approved_id \<and> py_str candidate_id \<noteq> py_str approved_id)
               ''APPROVAL_CANDIDATE_MISMATCH'' @
             add_if (snapshot_unsafe approval) ''APPROVAL_SAFETY_SNAPSHOT_UNSAFE''),
          keep_first [] (snd (approval_checks approval))))"

section \<open>Building\<close>

definition stable_dry_run_order_id :: "string \<Rightarrow> pydict \<Rightarrow> pyval \<Rightarrow> string" where
  "stable_dry_run_order_id candidate_id approval ts_epoch =
     ''dryrun-'' @ digest16 (join ''|'' [candidate_id, str_or_empty (dget approval ''approval_id''), str_or_empty ts_epoch])"

definition dry_run_intent_of :: "dry_run_input \<Rightarrow> pydict \<Rightarrow> dry_run_intent result" where
  "dry_run_intent_of q selected =
     (let candidate_id = py_str (dget selected ''candidate_id''); approval = as_dict (dq_approval q)
      in bind_result (int_or_none (get_or selected [''quantity'', ''qty''])) (\<lambda>quantity.
         bind_result (float_or_none (get_or selected [''price'', ''entry'', ''entry_price''])) (\<lambda>price.
         bind_result (float_or_none (get_or selected [''trigger_price'', ''stop'', ''stop_loss''])) (\<lambda>trigger_price.
         bind_result (float_or_none (get_or selected [''quality_score'', ''score''])) (\<lambda>quality_score.
         bind_result (dict_or_empty (dq_top_executable q)) (\<lambda>top_snapshot.
         bind_result (dict_or_empty (dq_execution_safety q)) (\<lambda>safety_snapshot.
         bind_result (dict_or_empty (dq_approval q)) (\<lambda>approval_snapshot.
         bind_result (dict_or_empty (dq_readiness q)) (\<lambda>readiness_snapshot.
           Inr \<lparr>di_dry_run_order_id = stable_dry_run_order_id candidate_id approval (dq_ts_epoch q),
                di_candidate_id = candidate_id,
                di_symbol = str_or_none (get_or selected [''symbol'', ''underlying'']),
                di_tradingsymbol = str_or_none (get_or selected [''tradingsymbol'', ''symbol'']),
                di_instrument_token = str_or_none (dget selected ''instrument_token''),
                di_transaction_type = str_or_none (get_or selected [''transaction_type'', ''side'']),
                di_quantity = quantity,
                di_order_type = str_or_none (dget selected ''order_type''),
                di_product = str_or_none (dget selected ''product''),
                di_price = price,
                di_trigger_price = trigger_price,
                di_strategy = str_or_none (get_or selected [''strategy'', ''strategy_id'', ''setup_family'']),
                di_quality_score = quality_score,
                di_approval_id = str_or_none (dget approval ''approval_id''),
                di_operator_id = str_or_none (dget approval ''operator_id''),
                di_created_at_epoch = dq_ts_epoch q,
                di_source = ''dry_run_execution_adapter'',
                di_top_executable_snapshot = top_snapshot,
                di_execution_safety_snapshot = safety_snapshot,
                di_approval_snapshot = approval_snapshot,
                di_readiness_snapshot = readiness_snapshot\<rparr>)))))))))"

definition dry_run_evidence :: "dry_run_intent \<Rightarrow> pydict \<Rightarrow> pydict" where
  "dry_run_evidence i safety =
     [(''dry_run_order_id'', PStr (di_dry_run_order_id i)),
      (''dry_run_only'', PBool True),
      (''broker_api_called'', PBool False),
      (''real_order_id'', PNone),
      (''approval_id'', opt_str (di_approval_id i)),
      (''execution_safety_status'', dget safety ''status'')]"

definition dry_run_outcome_event :: "dry_run_intent \<Rightarrow> pydict \<Rightarrow> pyval \<Rightarrow> pydict" where
  "dry_run_outcome_event i safety ts_epoch =
     [(''candidate_id'', PStr (di_candidate_id i)),
      (''status'', PStr ''SUBMITTED''),
      (''source'', PStr ''dry_run_execution_adapter''),
      (''reason'', PStr ''DRY_RUN_INTENT_CREATED''),
      (''quality_score'', opt_float (di_quality_score i)),
      (''ts_epoch'', ts_epoch),
      (''evidence'', PDict (dry_run_evidence i safety)),
      (''is_order_action'', PBool False),
      (''dry_run_only'', PBool True),
      (''broker_api_called'', PBool False),
      (''real_order_id'', PNone)]"

definition build_dry_run :: "dry_run_input \<Rightarrow> dry_run_result result" where
  "build_dry_run q =
     (let (blockers, warnings) = validate_dry_run q; safety = as_dict (dq_execution_safety q)
      in if blockers \<noteq> []
         then Inr \<lparr>dr_created = False, dr_intent = None, dr_lifecycle_event = None, dr_outcome_event = None,
                dr_blockers = blockers, dr_warnings = warnings, dr_append_paths = []\<rparr>
         else
           bind_result (dry_run_intent_of q (case selected_candidate (dq_top_executable q) of Some d \<Rightarrow> d | None \<Rightarrow> [])) (\<lambda>i.
             Inr \<lparr>dr_created = True,
               dr_intent = Some i,
               dr_lifecycle_event = Some
                 \<lparr>de_dry_run_order_id = di_dry_run_order_id i, de_candidate_id = di_candidate_id i,
                  de_status = ''DRY_RUN_INTENT_CREATED'', de_ts_epoch = dq_ts_epoch q,
                  de_source = ''dry_run_execution_adapter'', de_evidence = dry_run_evidence i safety\<rparr>,
               dr_outcome_event = Some (dry_run_outcome_event i safety (dq_ts_epoch q)),
               dr_blockers = [], dr_warnings = warnings, dr_append_paths = []\<rparr>))"

section \<open>Appending\<close>

text \<open>The lines of the three files.\<close>

record dry_run_logs =
  dl_intent :: "pyval list"
  dl_lifecycle :: "pyval list"
  dl_outcome :: "pyval list"

definition dry_run_paths :: "string \<Rightarrow> (string \<times> string) list" where
  "dry_run_paths base =
     [(''intent'', base @ ''/logs/dry_run_order_intents.jsonl''), (''lifecycle'', base @ ''/logs/dry_run_lifecycle.jsonl''),
      (''outcome'', base @ ''/logs/outcome_replay.jsonl'')]"

definition append_dry_run :: "string \<Rightarrow> dry_run_result \<Rightarrow> dry_run_logs \<Rightarrow> dry_run_result \<times> dry_run_logs" where
  "append_dry_run base r logs =
     (case (dr_created r, dr_intent r, dr_lifecycle_event r, dr_outcome_event r) of
        (True, Some i, Some e, Some out) \<Rightarrow>
          (\<lparr>dr_created = True, dr_intent = Some i, dr_lifecycle_event = Some e, dr_outcome_event = Some out,
             dr_blockers = [], dr_warnings = dr_warnings r, dr_append_paths = dry_run_paths base\<rparr>,
           logs\<lparr>dl_intent := dl_intent logs @ [stable_json (dry_run_intent_to_dict i)],
             dl_lifecycle := dl_lifecycle logs @ [stable_json (dry_run_event_to_dict e)],
             dl_outcome := dl_outcome logs @ [stable_json out]\<rparr>)
      | _ \<Rightarrow> (r, logs))"

section \<open>When a dry run is created\<close>

definition dry_run_open :: "dry_run_input \<Rightarrow> bool" where
  "dry_run_open q \<longleftrightarrow>
     (\<exists>d. selected_candidate (dq_top_executable q) = Some d \<and> dget d ''is_order'' = PBool False \<and>
        \<not> is_blank (dget d ''candidate_id'') \<and>
        \<not> (truthy (dget d ''candidate_id'') \<and> truthy (dget (as_dict (dq_approval q)) ''candidate_id'') \<and>
           py_str (dget d ''candidate_id'') \<noteq> py_str (dget (as_dict (dq_approval q)) ''candidate_id''))) \<and>
     dget (as_dict (dq_execution_safety q)) ''execution_permitted'' = PBool True \<and>
     dget (as_dict (dq_execution_safety q)) ''is_order_action'' = PBool False \<and>
     dget (as_dict (dq_approval q)) ''current_status'' = PStr ''APPROVED'' \<and>
     dget (as_dict (dq_approval q)) ''is_order_action'' = PBool False \<and> \<not> snapshot_unsafe (as_dict (dq_approval q))"

lemma dry_run_blockers_clear: "fst (validate_dry_run q) = [] \<longleftrightarrow> dry_run_open q"
proof -
  have safety: "list_all (\<lambda>x. x = []) (dry_run_safety_blockers s) \<longleftrightarrow>
      dget s ''execution_permitted'' = PBool True \<and> dget s ''is_order_action'' = PBool False" for s
    by (auto simp: dry_run_safety_blockers_def)
  have approval: "list_all (\<lambda>x. x = []) (fst (approval_checks a)) \<longleftrightarrow>
      dget a ''current_status'' = PStr ''APPROVED'' \<and> dget a ''is_order_action'' = PBool False" for a
    by (auto simp: approval_checks_def)
  show ?thesis
  proof (cases "selected_candidate (dq_top_executable q)")
    case None
    then show ?thesis by (simp add: validate_dry_run_def Let_def keep_first_labels dry_run_top_blockers_def dry_run_open_def)
  next
    case (Some d)
    then show ?thesis
      unfolding validate_dry_run_def Let_def fst_conv keep_first_labels list_all_append safety approval list_all_empty_add_if
      by (simp add: dry_run_top_blockers_def dry_run_open_def) blast
  qed
qed

lemma built_dry_run:
  assumes "build_dry_run q = Inr r"
  shows "dr_created r \<longleftrightarrow> dry_run_open q" "dr_created r \<longleftrightarrow> dr_blockers r = []"
    "dr_created r \<Longrightarrow> \<exists>d i. selected_candidate (dq_top_executable q) = Some d \<and> dry_run_intent_of q d = Inr i \<and> dr_intent r = Some i \<and>
       dr_outcome_event r = Some (dry_run_outcome_event i (as_dict (dq_execution_safety q)) (dq_ts_epoch q)) \<and>
       (\<exists>e. dr_lifecycle_event r = Some e \<and> de_dry_run_order_id e = di_dry_run_order_id i)"
    "\<not> dr_created r \<Longrightarrow> dr_intent r = None \<and> dr_outcome_event r = None"
proof -
  obtain bs ws where v: "validate_dry_run q = (bs, ws)" by fastforce
  with dry_run_blockers_clear [of q] have bs: "bs = [] \<longleftrightarrow> dry_run_open q" by simp
  have all: "(dr_created r \<longleftrightarrow> dry_run_open q) \<and> (dr_created r \<longleftrightarrow> dr_blockers r = []) \<and>
    (dr_created r \<longrightarrow> (\<exists>d i. selected_candidate (dq_top_executable q) = Some d \<and> dry_run_intent_of q d = Inr i \<and> dr_intent r = Some i \<and>
       dr_outcome_event r = Some (dry_run_outcome_event i (as_dict (dq_execution_safety q)) (dq_ts_epoch q)) \<and>
       (\<exists>e. dr_lifecycle_event r = Some e \<and> de_dry_run_order_id e = di_dry_run_order_id i))) \<and>
    (\<not> dr_created r \<longrightarrow> dr_intent r = None \<and> dr_outcome_event r = None)"
  proof (cases "bs = []")
    case True
    with bs obtain d where d: "selected_candidate (dq_top_executable q) = Some d" by (auto simp: dry_run_open_def)
    with assms v True obtain i where "dry_run_intent_of q d = Inr i" by (auto simp: build_dry_run_def Let_def)
    with assms v True bs d show ?thesis by (auto simp: build_dry_run_def Let_def)
  next
    case False
    with assms v bs show ?thesis by (auto simp: build_dry_run_def Let_def)
  qed
  show "dr_created r \<longleftrightarrow> dry_run_open q" "dr_created r \<longleftrightarrow> dr_blockers r = []" using all by blast+
  show "dr_created r \<Longrightarrow> \<exists>d i. selected_candidate (dq_top_executable q) = Some d \<and> dry_run_intent_of q d = Inr i \<and> dr_intent r = Some i \<and>
       dr_outcome_event r = Some (dry_run_outcome_event i (as_dict (dq_execution_safety q)) (dq_ts_epoch q)) \<and>
       (\<exists>e. dr_lifecycle_event r = Some e \<and> de_dry_run_order_id e = di_dry_run_order_id i)"
    "\<not> dr_created r \<Longrightarrow> dr_intent r = None \<and> dr_outcome_event r = None" using all by blast+
qed

section \<open>From the approval to the dry run\<close>

text \<open>A selected candidate and a safety decision that leave the dry run to the approval.\<close>

definition awaits_approval :: "dry_run_input \<Rightarrow> string \<Rightarrow> bool" where
  "awaits_approval q candidate_id \<longleftrightarrow>
     (\<exists>d. selected_candidate (dq_top_executable q) = Some d \<and> dget d ''is_order'' = PBool False \<and>
        dget d ''candidate_id'' = PStr candidate_id) \<and>
     dget (as_dict (dq_execution_safety q)) ''execution_permitted'' = PBool True \<and>
     dget (as_dict (dq_execution_safety q)) ''is_order_action'' = PBool False"

lemma summary_entries:
  "dget (approval_summary_to_dict s now) ''candidate_id'' = PStr (as_candidate_id s)"
  "dget (approval_summary_to_dict s now) ''is_order_action'' = PBool False"
  "dget (approval_summary_to_dict s now) ''events'' = PList (map (\<lambda>e. PDict (approval_event_to_dict e now)) (as_events s))"
  by (simp_all add: approval_summary_to_dict_def Let_def)

lemma snapshot_of_summary:
  assumes "as_events s = es @ [e]" "dget (ae_safety_decision e) ''is_order_action'' = PBool False"
  shows "\<not> snapshot_unsafe (approval_summary_to_dict s now)"
  using assms by (simp add: snapshot_unsafe_def summary_entries approval_event_to_dict_def)

lemma sorted_snapshot_flag:
  "dget (as_dict (sort_json (PDict d))) ''is_order_action'' = PBool False \<longleftrightarrow> dget d ''is_order_action'' = PBool False"
  using dget_line [of d "''is_order_action''"]
  by (cases "dget d ''is_order_action''") (auto simp: stable_json_def)

lemma approval_opens:
  assumes "append_approval_event path request lines = Inr (made, lines')" "ac_event made = Some e" "ae_status e = APPROVED"
    "normalize_approval_audit lines (Some (ae_candidate_id e)) now = Inr s"
    "\<And>x. x \<in> set (as_events s) \<Longrightarrow> time_key (ae_ts_epoch x) \<le> time_key (nonzero (ae_ts_epoch e))"
    "normalize_approval_audit lines' (Some (ae_candidate_id e)) now = Inr s'"
    "awaits_approval q (ae_candidate_id e)" "dq_approval q = PDict (approval_summary_to_dict s' now)"
  shows "dry_run_open q \<longleftrightarrow> \<not> is_expired e now"
proof -
  obtain made0 where c: "create_approval_event request = Inr made0" "ac_event made0 = Some e"
    using assms(1,2) by (rule appended_line)
  obtain s'' e' where s'': "normalize_approval_audit lines' (Some (ae_candidate_id e)) now = Inr s''"
    and events: "as_events s'' = as_events s @ [e']" and status: "as_current_status s'' = status_at e now"
    and cand: "as_candidate_id s'' = ae_candidate_id e"
    and snap: "ae_safety_decision e' = as_dict (sort_json (PDict (ae_safety_decision e)))"
    using created_event_decides [OF assms(1,2,4,5)] by metis
  have eq: "s'' = s'" using s'' assms(6) by simp
  have "dget (approval_summary_to_dict s' now) ''current_status'' = PStr ''APPROVED'' \<longleftrightarrow> \<not> is_expired e now"
    using exported_status [OF assms(6)] status [unfolded eq] assms(3) approval_status_value_inject [of _ APPROVED]
    by (auto simp: status_at_def)
  moreover have "\<not> snapshot_unsafe (approval_summary_to_dict s' now)"
    using snapshot_of_summary [OF events [unfolded eq]] snap sorted_snapshot_flag created_approval(7) [OF c] by simp
  moreover obtain d where "selected_candidate (dq_top_executable q) = Some d" "dget d ''is_order'' = PBool False"
    "dget d ''candidate_id'' = PStr (ae_candidate_id e)" using assms(7) by (auto simp: awaits_approval_def)
  ultimately show ?thesis
    using assms(7,8) cand [unfolded eq] created_approval(3) [OF c]
    by (auto simp: dry_run_open_def awaits_approval_def summary_entries)
qed

text \<open>
  C21. An approval opens the dry run exactly until it expires. Let a request to approve a candidate be
  created and appended to the approval file, with no earlier event of the candidate at a greater
  time, let the audit of the file be exported at a time, and let the candidate be selected under a
  permitting safety decision. Then the dry run that is given the exported audit is created exactly
  when the approval has not expired at that time, and only then carries an intent, which is for that
  candidate; without a time the approval does not expire and the dry run is created whatever the
  expiry says.
\<close>

theorem approval_opens_dry_run:
  assumes "append_approval_event path request lines = Inr (made, lines')" "ac_event made = Some e" "ae_status e = APPROVED"
    "normalize_approval_audit lines (Some (ae_candidate_id e)) now = Inr s"
    "\<forall>x \<in> set (as_events s). time_key (ae_ts_epoch x) \<le> time_key (nonzero (ae_ts_epoch e))"
    "normalize_approval_audit lines' (Some (ae_candidate_id e)) now = Inr s'"
    "awaits_approval q (ae_candidate_id e)" "dq_approval q = PDict (approval_summary_to_dict s' now)"
    "build_dry_run q = Inr r"
  shows "(dr_created r \<longleftrightarrow> \<not> is_expired e now) \<and> (now = None \<longrightarrow> dr_created r) \<and>
    (\<forall>i. dr_intent r = Some i \<longrightarrow> dr_created r \<and> di_candidate_id i = ae_candidate_id e)"
proof -
  have created: "dr_created r \<longleftrightarrow> \<not> is_expired e now"
    using approval_opens [OF assms(1-4) _ assms(6-8)] assms(5) built_dry_run(1) [OF assms(9)] by blast
  moreover have "di_candidate_id i = ae_candidate_id e" if i: "dr_intent r = Some i" and c: "dr_created r" for i
  proof -
    obtain d where d: "selected_candidate (dq_top_executable q) = Some d" "dry_run_intent_of q d = Inr i"
      using built_dry_run(3) [OF assms(9) c] i by auto
    then have "di_candidate_id i = py_str (dget d ''candidate_id'')" by (auto simp: dry_run_intent_of_def Let_def)
    with d(1) assms(7) show ?thesis by (auto simp: awaits_approval_def)
  qed
  ultimately show ?thesis
    using built_dry_run(4) [OF assms(9)] is_expired_None by auto
qed

definition demo_dry_run :: "pyval \<Rightarrow> dry_run_input" where
  "demo_dry_run approval =
     \<lparr>dq_top_executable = PDict [(''status'', PStr ''SELECTED''), (''selected'',
        PDict [(''candidate_id'', PStr ''c1''), (''is_order'', PBool False), (''quantity'', PInt 50)])],
      dq_execution_safety = PDict [(''execution_permitted'', PBool True), (''is_order_action'', PBool False)],
      dq_approval = approval, dq_readiness = PNone, dq_ts_epoch = PFloat (Fin 150)\<rparr>"

lemma demo_dry_run_runs: "\<exists>r. build_dry_run (demo_dry_run (PDict a)) = Inr r"
proof -
  obtain bs ws where v: "validate_dry_run (demo_dry_run (PDict a)) = (bs, ws)" by fastforce
  have "\<exists>i. dry_run_intent_of (demo_dry_run (PDict a))
      [(''candidate_id'', PStr ''c1''), (''is_order'', PBool False), (''quantity'', PInt 50)] = Inr i"
    by (simp add: dry_run_intent_of_def demo_dry_run_def Let_def dict_or_empty_def)
  moreover have "selected_candidate (dq_top_executable (demo_dry_run (PDict a))) =
      Some [(''candidate_id'', PStr ''c1''), (''is_order'', PBool False), (''quantity'', PInt 50)]"
    by (simp add: demo_dry_run_def selected_candidate_def)
  ultimately show ?thesis using v by (cases "bs = []") (auto simp: build_dry_run_def Let_def)
qed

lemma demo_awaits: "awaits_approval (demo_dry_run a) ''c1''"
  by (simp add: awaits_approval_def demo_dry_run_def selected_candidate_def)

theorem approval_opens_dry_run_witness:
  "\<exists>made lines. append_approval_event ''approvals.jsonl'' demo_approval [] = Inr (made, lines) \<and>
     (\<forall>now. \<exists>s r. normalize_approval_audit lines (Some ''c1'') now = Inr s \<and>
        build_dry_run (demo_dry_run (PDict (approval_summary_to_dict s now))) = Inr r \<and>
        (dr_created r \<longleftrightarrow> \<not> is_expired demo_approval_event now))"
proof -
  let ?lines = "[stable_json (approval_event_to_dict demo_approval_event None)]"
  have c: "ae_candidate_id demo_approval_event = ''c1''" "ae_status demo_approval_event = APPROVED"
    by (simp_all add: demo_approval_event_def build_approval_event_def)
  have "\<exists>s r. normalize_approval_audit ?lines (Some ''c1'') now = Inr s \<and>
      build_dry_run (demo_dry_run (PDict (approval_summary_to_dict s now))) = Inr r \<and>
      (dr_created r \<longleftrightarrow> \<not> is_expired demo_approval_event now)" for now
  proof -
    obtain s0 where s0: "normalize_approval_audit [] (Some ''c1'') now = Inr s0" "as_events s0 = []"
      using demo_approval_empty by blast
    obtain s where s: "normalize_approval_audit ?lines (Some ''c1'') now = Inr s"
      using created_event_decides [OF demo_approval_appended, of demo_approval_event now s0] s0 c by auto
    obtain r where r: "build_dry_run (demo_dry_run (PDict (approval_summary_to_dict s now))) = Inr r"
      using demo_dry_run_runs by blast
    have "dr_created r \<longleftrightarrow> \<not> is_expired demo_approval_event now"
      using approval_opens_dry_run [OF demo_approval_appended _ _ _ _ _ _ _ r, of demo_approval_event now s0 s] s0 s c demo_awaits
      by (simp add: demo_dry_run_def)
    with s r show ?thesis by blast
  qed
  then show ?thesis using demo_approval_appended by blast
qed

end
