(* ===== verification/Outcome_Replay.thy ===== *)
theory Outcome_Replay
  imports Dry_Run
begin

text \<open>
  src/outcome_replay/replay.py and query.py: the outcome events of a candidate, its current status
  and the filter over the records. The dry run appends the events that are read here.
\<close>

section \<open>Events\<close>

datatype outcome_status =
  SELECTED | BLOCKED | SUBMITTED | ACCEPTED | REJECTED | PARTIALLY_FILLED | FILLED | EXITED | CLOSED | UNKNOWN

fun outcome_status_value :: "outcome_status \<Rightarrow> string" where
  "outcome_status_value SELECTED = ''SELECTED''"
| "outcome_status_value BLOCKED = ''BLOCKED''"
| "outcome_status_value SUBMITTED = ''SUBMITTED''"
| "outcome_status_value ACCEPTED = ''ACCEPTED''"
| "outcome_status_value REJECTED = ''REJECTED''"
| "outcome_status_value PARTIALLY_FILLED = ''PARTIALLY_FILLED''"
| "outcome_status_value FILLED = ''FILLED''"
| "outcome_status_value EXITED = ''EXITED''"
| "outcome_status_value CLOSED = ''CLOSED''"
| "outcome_status_value UNKNOWN = ''UNKNOWN''"

definition terminal_outcomes :: "outcome_status list" where
  "terminal_outcomes = [REJECTED, FILLED, EXITED, CLOSED]"

definition outcome_aliases :: "(string \<times> outcome_status) list" where
  "outcome_aliases =
     [(''SELECTED'', SELECTED), (''TOP_EXECUTABLE_SELECTED'', SELECTED), (''BLOCKED'', BLOCKED),
      (''NO_ELIGIBLE_CANDIDATES'', BLOCKED), (''ORDER_SUBMITTED'', SUBMITTED), (''SUBMITTED'', SUBMITTED),
      (''ORDER_ACCEPTED'', ACCEPTED), (''ACCEPTED'', ACCEPTED), (''OPEN'', ACCEPTED), (''ORDER_REJECTED'', REJECTED),
      (''REJECTED'', REJECTED), (''PARTIALLY_FILLED'', PARTIALLY_FILLED), (''PARTIAL'', PARTIALLY_FILLED),
      (''FILLED'', FILLED), (''COMPLETE'', FILLED), (''EXIT_FILLED'', EXITED), (''EXITED'', EXITED),
      (''POSITION_CLOSED'', CLOSED), (''CLOSED'', CLOSED)]"

definition outcome_status_of :: "pyval \<Rightarrow> outcome_status" where
  "outcome_status_of v = (case map_of outcome_aliases (status_key v) of Some s \<Rightarrow> s | None \<Rightarrow> UNKNOWN)"

record outcome_event =
  oe_candidate_id :: string
  oe_status :: outcome_status
  oe_ts_epoch :: "pyfloat option"
  oe_source :: string
  oe_reason :: "string option"
  oe_quality_score :: "pyfloat option"
  oe_evidence :: pydict
  oe_raw :: pydict

definition outcome_event_to_dict :: "outcome_event \<Rightarrow> pydict" where
  "outcome_event_to_dict e =
     [(''candidate_id'', PStr (oe_candidate_id e)),
      (''status'', PStr (outcome_status_value (oe_status e))),
      (''ts_epoch'', opt_float (oe_ts_epoch e)),
      (''source'', PStr (oe_source e)),
      (''reason'', opt_str (oe_reason e)),
      (''quality_score'', opt_float (oe_quality_score e)),
      (''evidence'', PDict (oe_evidence e)),
      (''raw'', PDict (oe_raw e)),
      (''is_order_action'', PBool False)]"

definition outcome_candidate :: "pydict \<Rightarrow> string" where
  "outcome_candidate row = text_or row [''candidate_id'', ''trade_id'', ''client_order_id''] ''unknown''"

definition row_outcome_status :: "pydict \<Rightarrow> outcome_status" where
  "row_outcome_status row = outcome_status_of (get_or row [''outcome_status'', ''status'', ''event'', ''current_status''])"

definition outcome_event_of :: "pydict \<Rightarrow> outcome_event result" where
  "outcome_event_of row =
     bind_result (float_or_none (get_or row [''ts_epoch'', ''timestamp'', ''time''])) (\<lambda>ts.
     bind_result (float_or_none (dget row ''quality_score'')) (\<lambda>score.
       Inr \<lparr>oe_candidate_id = outcome_candidate row,
            oe_status = row_outcome_status row,
            oe_ts_epoch = ts,
            oe_source = text_or row [''source''] ''runtime_artifact'',
            oe_reason = str_or_none (get_or row [''reason'', ''message'', ''rejection_reason'', ''selection_reason'']),
            oe_quality_score = score,
            oe_evidence = as_dict (dget row ''evidence''),
            oe_raw = row\<rparr>))"

section \<open>The summary\<close>

record outcome_summary =
  os_candidate_id :: string
  os_current_status :: outcome_status
  os_events :: "outcome_event list"
  os_terminal :: bool
  os_selected_count :: nat
  os_blocked_count :: nat
  os_filled_count :: nat
  os_rejected_count :: nat
  os_best_quality_score :: "pyfloat option"
  os_blockers :: "string list"
  os_warnings :: "string list"

definition outcome_summary_to_dict :: "outcome_summary \<Rightarrow> pydict" where
  "outcome_summary_to_dict s =
     [(''candidate_id'', PStr (os_candidate_id s)),
      (''current_status'', PStr (outcome_status_value (os_current_status s))),
      (''terminal'', PBool (os_terminal s)),
      (''selected_count'', PInt (int (os_selected_count s))),
      (''blocked_count'', PInt (int (os_blocked_count s))),
      (''filled_count'', PInt (int (os_filled_count s))),
      (''rejected_count'', PInt (int (os_rejected_count s))),
      (''best_quality_score'', opt_float (os_best_quality_score s)),
      (''events'', PList (map (\<lambda>e. PDict (outcome_event_to_dict e)) (os_events s))),
      (''blockers'', str_list (os_blockers s)),
      (''warnings'', str_list (os_warnings s)),
      (''is_order_action'', PBool False)]"

text \<open>\<open>max(scores) if scores else None\<close>: the first score that no later one exceeds; NaN exceeds nothing.\<close>

fun py_max :: "pyfloat list \<Rightarrow> pyfloat option" where
  "py_max [] = None"
| "py_max (x # xs) = Some (fold (\<lambda>y m. if float_lt m y then y else m) xs x)"

definition best_quality :: "outcome_event list \<Rightarrow> pyfloat option" where
  "best_quality events = py_max (List.map_filter oe_quality_score events)"

definition outcome_warnings :: "outcome_event list \<Rightarrow> string list" where
  "outcome_warnings events =
     add_if (list_ex (\<lambda>e. oe_status e = UNKNOWN) events) ''UNKNOWN_OUTCOME_EVENT_PRESENT'' @
     add_if (list_ex (\<lambda>e. oe_candidate_id e = ''unknown'') events) ''UNKNOWN_CANDIDATE_EVENT_PRESENT''"

definition outcome_summary_of :: "string \<Rightarrow> outcome_event list \<Rightarrow> outcome_summary" where
  "outcome_summary_of candidate_id events =
     (if events = []
      then \<lparr>os_candidate_id = candidate_id, os_current_status = UNKNOWN, os_events = [], os_terminal = False,
             os_selected_count = 0, os_blocked_count = 0, os_filled_count = 0, os_rejected_count = 0,
             os_best_quality_score = None, os_blockers = [''NO_OUTCOME_EVENTS''], os_warnings = []\<rparr>
      else
        let latest = last events
        in \<lparr>os_candidate_id = candidate_id,
            os_current_status = oe_status latest,
            os_events = events,
            os_terminal = (oe_status latest \<in> set terminal_outcomes),
            os_selected_count = count_if (\<lambda>e. oe_status e = SELECTED) events,
            os_blocked_count = count_if (\<lambda>e. oe_status e = BLOCKED) events,
            os_filled_count = count_if (\<lambda>e. oe_status e = FILLED) events,
            os_rejected_count = count_if (\<lambda>e. oe_status e = REJECTED) events,
            os_best_quality_score = best_quality events,
            os_blockers = (if oe_status latest \<noteq> UNKNOWN then [] else [''UNKNOWN_OUTCOME_STATUS'']),
            os_warnings = outcome_warnings events\<rparr>)"

definition normalize_outcome_replay :: "pyval list \<Rightarrow> string option \<Rightarrow> outcome_summary result" where
  "normalize_outcome_replay records candidate_id =
     bind_result (event_history outcome_event_of oe_ts_epoch oe_candidate_id records candidate_id) (\<lambda>events.
       Inr (outcome_summary_of (resolved_candidate candidate_id (map oe_candidate_id events)) events))"

section \<open>The query\<close>

text \<open>\<open>s.split(",")\<close>\<close>

fun split_commas :: "string \<Rightarrow> string list" where
  "split_commas [] = [[]]"
| "split_commas (c # s) =
     (if c = CHR '','' then [] # split_commas s
      else case split_commas s of w # ws \<Rightarrow> (c # w) # ws | [] \<Rightarrow> [[c]])"

definition status_filter :: "string \<Rightarrow> outcome_status list" where
  "status_filter status =
     (if status = [] then []
      else filter (\<lambda>s. s \<noteq> UNKNOWN) (map (\<lambda>raw. outcome_status_of (PStr raw)) (split_commas status)))"

definition strategy_keys :: "string list" where
  "strategy_keys = [''strategy'', ''strategy_id'', ''strategy_family'', ''setup_family'']"

definition row_strategy :: "pydict \<Rightarrow> string option" where
  "row_strategy row =
     (case first_text row strategy_keys of
        Some s \<Rightarrow> Some s
      | None \<Rightarrow>
          (case first_text (as_dict (dget row ''evidence'')) strategy_keys of
             Some s \<Rightarrow> Some s
           | None \<Rightarrow> first_text (as_dict (dget row ''selected'')) strategy_keys))"

record outcome_query =
  ou_candidate_id :: "string option"
  ou_status :: "string option"
  ou_strategy :: "string option"
  ou_from :: "pyfloat option"
  ou_to :: "pyfloat option"

definition text_of :: "string option \<Rightarrow> string" where
  "text_of s = (case s of Some t \<Rightarrow> t | None \<Rightarrow> [])"

text \<open>One pass of the loop: the time is only converted for a row that the other filters keep.\<close>

definition row_kept :: "outcome_query \<Rightarrow> pydict \<Rightarrow> bool result" where
  "row_kept q row =
     (let allowed = status_filter (text_of (ou_status q)); strategy = status_key (opt_str (ou_strategy q))
      in if text_of (ou_candidate_id q) \<noteq> [] \<and> outcome_candidate row \<noteq> text_of (ou_candidate_id q) then Inr False
         else if allowed \<noteq> [] \<and> row_outcome_status row \<notin> set allowed then Inr False
         else if strategy \<noteq> [] \<and> status_key (opt_str (row_strategy row)) \<noteq> strategy then Inr False
         else
           bind_result (float_or_none (get_or row [''ts_epoch'', ''timestamp'', ''time''])) (\<lambda>ts.
             Inr (\<not> (case ou_from q of Some x \<Rightarrow> (case ts of Some t \<Rightarrow> float_lt t x | None \<Rightarrow> True) | None \<Rightarrow> False) \<and>
                  \<not> (case ou_to q of Some x \<Rightarrow> (case ts of Some t \<Rightarrow> float_lt x t | None \<Rightarrow> True) | None \<Rightarrow> False))))"

fun filter_result :: "('a \<Rightarrow> bool result) \<Rightarrow> 'a list \<Rightarrow> 'a list result" where
  "filter_result f [] = Inr []"
| "filter_result f (x # xs) =
     bind_result (f x) (\<lambda>keep. bind_result (filter_result f xs) (\<lambda>ys. Inr (if keep then x # ys else ys)))"

definition filter_outcome_records :: "outcome_query \<Rightarrow> pyval list \<Rightarrow> pydict list result" where
  "filter_outcome_records q records = filter_result (row_kept q) (map as_dict (filter is_dict records))"

definition replay_query_metadata :: "outcome_query \<Rightarrow> int \<Rightarrow> int \<Rightarrow> pydict" where
  "replay_query_metadata q source_count result_count =
     [(''candidate_id'', opt_str (ou_candidate_id q)),
      (''status'', opt_str (ou_status q)),
      (''strategy'', opt_str (ou_strategy q)),
      (''ts_from_epoch'', opt_float (ou_from q)),
      (''ts_to_epoch'', opt_float (ou_to q)),
      (''source_count'', PInt source_count),
      (''result_count'', PInt result_count),
      (''read_only'', PBool True),
      (''is_order_action'', PBool False)]"

section \<open>The filter and the replay\<close>

definition candidate_query :: "string \<Rightarrow> outcome_query" where
  "candidate_query c = \<lparr>ou_candidate_id = Some c, ou_status = None, ou_strategy = None, ou_from = None, ou_to = None\<rparr>"

lemma row_kept_candidate:
  assumes "outcome_event_of row = Inr e" "c \<noteq> []"
  shows "row_kept (candidate_query c) row = Inr (outcome_candidate row = c)" "oe_candidate_id e = outcome_candidate row"
proof -
  obtain ts where "float_or_none (get_or row [''ts_epoch'', ''timestamp'', ''time'']) = Inr ts"
    using assms(1) by (auto simp: outcome_event_of_def)
  moreover have "status_key (opt_str None) = []" by code_simp
  ultimately show "row_kept (candidate_query c) row = Inr (outcome_candidate row = c)"
    using assms(2) by (simp add: row_kept_def candidate_query_def text_of_def status_filter_def)
  show "oe_candidate_id e = outcome_candidate row" using assms(1) by (auto simp: outcome_event_of_def)
qed

lemma filtered_rows:
  assumes "map_result outcome_event_of rows = Inr es" "c \<noteq> []"
  shows "\<exists>kept. filter_result (row_kept (candidate_query c)) rows = Inr kept \<and>
    map_result outcome_event_of kept = Inr (filter (\<lambda>e. oe_candidate_id e = c) es)"
  using assms(1)
proof (induction rows arbitrary: es)
  case Nil
  then show ?case by simp
next
  case (Cons row rows)
  then obtain e es' where e: "outcome_event_of row = Inr e" and es': "map_result outcome_event_of rows = Inr es'" "es = e # es'"
    by auto
  with Cons.IH obtain kept where "filter_result (row_kept (candidate_query c)) rows = Inr kept"
    "map_result outcome_event_of kept = Inr (filter (\<lambda>e. oe_candidate_id e = c) es')" by blast
  with e es' row_kept_candidate [OF e assms(2)] show ?case by simp
qed

text \<open>
  The query agrees with the replay: whenever the records of a file can be replayed for a candidate,
  filtering them for that candidate alone raises nothing, and replaying the filtered records for the
  candidate gives the very same summary.
\<close>

theorem filter_then_replay:
  assumes "normalize_outcome_replay records (Some c) = Inr s" "c \<noteq> []"
  shows "\<exists>rows. filter_outcome_records (candidate_query c) records = Inr rows \<and>
    normalize_outcome_replay (map PDict rows) (Some c) = Inr s"
proof -
  obtain es where es: "map_result outcome_event_of (map as_dict (filter is_dict records)) = Inr es"
    using assms(1) by (auto simp: normalize_outcome_replay_def event_history_def)
  from filtered_rows [OF this assms(2)] obtain kept
    where k: "filter_outcome_records (candidate_query c) records = Inr kept"
      "map_result outcome_event_of kept = Inr (filter (\<lambda>e. oe_candidate_id e = c) es)"
    by (auto simp: filter_outcome_records_def)
  have "map as_dict (filter is_dict (map PDict kept)) = kept" by (induction kept) simp_all
  with k(2) es assms have "normalize_outcome_replay (map PDict kept) (Some c) = Inr s"
    by (auto simp: normalize_outcome_replay_def event_history_def)
  with k(1) show ?thesis by blast
qed

section \<open>From the dry run to the replay\<close>

lemma submitted: "outcome_status_of (PStr ''SUBMITTED'') = SUBMITTED"
  by code_simp

lemma outcome_line_read:
  assumes "t \<noteq> Some (Fin 0)" "di_candidate_id i \<noteq> []"
  obtains e where "outcome_event_of (as_dict (stable_json (dry_run_outcome_event i safety (opt_float t)))) = Inr e"
    "oe_candidate_id e = di_candidate_id i" "oe_status e = SUBMITTED" "oe_ts_epoch e = t"
    "oe_quality_score e = di_quality_score i"
    "dget (oe_evidence e) ''dry_run_order_id'' = PStr (di_dry_run_order_id i)"
proof -
  let ?d = "as_dict (stable_json (dry_run_outcome_event i safety (opt_float t)))"
  have get: "dget ?d ''candidate_id'' = PStr (di_candidate_id i)" "dget ?d ''status'' = PStr ''SUBMITTED''"
    "dget ?d ''outcome_status'' = PNone" "dget ?d ''ts_epoch'' = opt_float t" "dget ?d ''timestamp'' = PNone"
    "dget ?d ''time'' = PNone" "dget ?d ''quality_score'' = opt_float (di_quality_score i)"
    "dget ?d ''evidence'' = stable_json (dry_run_evidence i safety)"
    by (simp_all add: dget_line dry_run_outcome_event_def journal_scalars stable_json_def)
  have "outcome_candidate ?d = di_candidate_id i"
    unfolding outcome_candidate_def using get(1) assms(2) by (rule stored_text)
  moreover have "row_outcome_status ?d = SUBMITTED"
    using submitted by (simp add: row_outcome_status_def get py_or_def)
  moreover have "dget (as_dict (stable_json (dry_run_evidence i safety))) ''dry_run_order_id'' = PStr (di_dry_run_order_id i)"
    by (simp add: dget_line dry_run_evidence_def)
  moreover have "float_or_none (get_or ?d [''ts_epoch'', ''timestamp'', ''time'']) = Inr t"
    using stored_float [OF get(4-6)] assms(1) by (simp add: nonzero_def)
  ultimately show thesis
    by (intro that [of "the (case outcome_event_of ?d of Inr e \<Rightarrow> Some e | Inl _ \<Rightarrow> None)"])
      (simp_all add: outcome_event_of_def get)
qed

text \<open>
  C23. What the dry run writes is what the replay reads: after a created dry run has been appended, each
  of the three files has one line more, the intent's and the lifecycle event's lines carry the order id
  of the intent, and the replay of the outcome file for the candidate has its earlier events and then
  one with the same order id in its evidence; the candidate's status is SUBMITTED, which is not
  terminal, provided that no earlier event has a greater time. A dry run that was not created appends
  nothing.
\<close>

theorem dry_run_is_replayed:
  assumes "build_dry_run q = Inr r" "append_dry_run base r logs = (r', logs')" "dq_ts_epoch q = opt_float t" "t \<noteq> Some (Fin 0)"
  shows "(\<not> dr_created r \<longrightarrow> logs' = logs) \<and>
    (\<forall>i s. dr_intent r = Some i \<longrightarrow> normalize_outcome_replay (dl_outcome logs) (Some (di_candidate_id i)) = Inr s \<longrightarrow>
       (\<forall>x \<in> set (os_events s). time_key (oe_ts_epoch x) \<le> time_key t) \<longrightarrow>
       (\<exists>l1 l2 l3. logs' = logs\<lparr>dl_intent := dl_intent logs @ [l1], dl_lifecycle := dl_lifecycle logs @ [l2],
            dl_outcome := dl_outcome logs @ [l3]\<rparr> \<and>
          dget (as_dict l1) ''dry_run_order_id'' = PStr (di_dry_run_order_id i) \<and>
          dget (as_dict l2) ''dry_run_order_id'' = PStr (di_dry_run_order_id i)) \<and>
       (\<exists>s' e. normalize_outcome_replay (dl_outcome logs') (Some (di_candidate_id i)) = Inr s' \<and>
          os_events s' = os_events s @ [e] \<and> dget (oe_evidence e) ''dry_run_order_id'' = PStr (di_dry_run_order_id i) \<and>
          os_current_status s' = SUBMITTED \<and> \<not> os_terminal s'))"
proof (cases "dr_created r")
  case False
  with assms(2) built_dry_run(4) [OF assms(1)] show ?thesis by (simp add: append_dry_run_def)
next
  case True
  obtain d i e where d: "selected_candidate (dq_top_executable q) = Some d" "dry_run_intent_of q d = Inr i" "dr_intent r = Some i"
    and out: "dr_outcome_event r = Some (dry_run_outcome_event i (as_dict (dq_execution_safety q)) (opt_float t))"
    and e: "dr_lifecycle_event r = Some e" "de_dry_run_order_id e = di_dry_run_order_id i"
    using built_dry_run(3) [OF assms(1) True] assms(3) by auto
  let ?l1 = "stable_json (dry_run_intent_to_dict i)" and ?l2 = "stable_json (dry_run_event_to_dict e)"
  let ?l3 = "stable_json (dry_run_outcome_event i (as_dict (dq_execution_safety q)) (opt_float t))"
  have logs': "logs' = logs\<lparr>dl_intent := dl_intent logs @ [?l1], dl_lifecycle := dl_lifecycle logs @ [?l2],
      dl_outcome := dl_outcome logs @ [?l3]\<rparr>"
    using assms(2) by (simp add: append_dry_run_def True d(3) e(1) out)
  have ids: "dget (as_dict ?l1) ''dry_run_order_id'' = PStr (di_dry_run_order_id i)"
    "dget (as_dict ?l2) ''dry_run_order_id'' = PStr (di_dry_run_order_id i)"
    by (simp_all add: dget_line dry_run_intent_to_dict_def dry_run_event_to_dict_def e(2))
  have "di_candidate_id i = py_str (dget d ''candidate_id'')" using d(2) by (auto simp: dry_run_intent_of_def Let_def)
  then have ne: "di_candidate_id i \<noteq> []"
    using built_dry_run(1) [OF assms(1)] True d(1) by (auto simp: dry_run_open_def py_str_not_empty)
  obtain x where x: "outcome_event_of (as_dict ?l3) = Inr x" "oe_candidate_id x = di_candidate_id i" "oe_status x = SUBMITTED"
    "oe_ts_epoch x = t" "dget (oe_evidence x) ''dry_run_order_id'' = PStr (di_dry_run_order_id i)"
    using outcome_line_read [OF assms(4) ne] by metis
  have replayed: "\<exists>s' e. normalize_outcome_replay (dl_outcome logs') (Some (di_candidate_id i)) = Inr s' \<and>
      os_events s' = os_events s @ [e] \<and> dget (oe_evidence e) ''dry_run_order_id'' = PStr (di_dry_run_order_id i) \<and>
      os_current_status s' = SUBMITTED \<and> \<not> os_terminal s'"
    if s: "normalize_outcome_replay (dl_outcome logs) (Some (di_candidate_id i)) = Inr s"
      and before: "\<forall>x \<in> set (os_events s). time_key (oe_ts_epoch x) \<le> time_key t" for s
  proof -
    have h: "event_history outcome_event_of oe_ts_epoch oe_candidate_id (dl_outcome logs) (Some (di_candidate_id i)) = Inr (os_events s)"
      using s by (auto simp: normalize_outcome_replay_def outcome_summary_of_def Let_def split: if_splits)
    have "event_history outcome_event_of oe_ts_epoch oe_candidate_id (dl_outcome logs @ [PDict (as_dict ?l3)])
        (Some (di_candidate_id i)) = Inr (os_events s @ [x])"
      by (rule event_history_append [OF h x(1,2) ne]) (simp add: before x(4))
    then have "normalize_outcome_replay (dl_outcome logs') (Some (di_candidate_id i)) =
        Inr (outcome_summary_of (resolved_candidate (Some (di_candidate_id i)) (map oe_candidate_id (os_events s @ [x]))) (os_events s @ [x]))"
      by (simp add: normalize_outcome_replay_def logs' as_line [symmetric])
    then show ?thesis using x(3,5) by (simp add: outcome_summary_of_def Let_def terminal_outcomes_def)
  qed
  have written: "\<exists>l1 l2 l3. logs' = logs\<lparr>dl_intent := dl_intent logs @ [l1], dl_lifecycle := dl_lifecycle logs @ [l2],
      dl_outcome := dl_outcome logs @ [l3]\<rparr> \<and> dget (as_dict l1) ''dry_run_order_id'' = PStr (di_dry_run_order_id i) \<and>
      dget (as_dict l2) ''dry_run_order_id'' = PStr (di_dry_run_order_id i)"
    using logs' ids by blast
  show ?thesis
  proof (intro conjI allI impI)
    show "logs' = logs" if "\<not> dr_created r" using that True by simp
  next
    fix j s assume "dr_intent r = Some j"
    then have j: "j = i" using d(3) by simp
    show "\<exists>l1 l2 l3. logs' = logs\<lparr>dl_intent := dl_intent logs @ [l1], dl_lifecycle := dl_lifecycle logs @ [l2],
        dl_outcome := dl_outcome logs @ [l3]\<rparr> \<and> dget (as_dict l1) ''dry_run_order_id'' = PStr (di_dry_run_order_id j) \<and>
        dget (as_dict l2) ''dry_run_order_id'' = PStr (di_dry_run_order_id j)"
      unfolding j by (rule written)
    assume "normalize_outcome_replay (dl_outcome logs) (Some (di_candidate_id j)) = Inr s"
      "\<forall>x \<in> set (os_events s). time_key (oe_ts_epoch x) \<le> time_key t"
    then show "\<exists>s' e. normalize_outcome_replay (dl_outcome logs') (Some (di_candidate_id j)) = Inr s' \<and>
        os_events s' = os_events s @ [e] \<and> dget (oe_evidence e) ''dry_run_order_id'' = PStr (di_dry_run_order_id j) \<and>
        os_current_status s' = SUBMITTED \<and> \<not> os_terminal s'"
      unfolding j by (rule replayed)
  qed
qed

definition demo_approval_dict :: pydict where
  "demo_approval_dict = [(''current_status'', PStr ''APPROVED''), (''is_order_action'', PBool False)]"

lemma demo_replay_empty: "\<exists>s. normalize_outcome_replay [] c = Inr s \<and> os_events s = []"
  by (simp add: normalize_outcome_replay_def event_history_def outcome_summary_of_def)

theorem dry_run_is_replayed_witness:
  "\<exists>r i logs s. build_dry_run (demo_dry_run (PDict demo_approval_dict)) = Inr r \<and> dr_intent r = Some i \<and>
     snd (append_dry_run ''/data'' r \<lparr>dl_intent = [], dl_lifecycle = [], dl_outcome = []\<rparr>) = logs \<and>
     normalize_outcome_replay (dl_outcome logs) (Some (di_candidate_id i)) = Inr s \<and> os_current_status s = SUBMITTED"
proof -
  let ?q = "demo_dry_run (PDict demo_approval_dict)" and ?logs = "\<lparr>dl_intent = [], dl_lifecycle = [], dl_outcome = []\<rparr>"
  obtain r where r: "build_dry_run ?q = Inr r" using demo_dry_run_runs by blast
  have "dry_run_open ?q"
    by (simp add: dry_run_open_def demo_dry_run_def demo_approval_dict_def selected_candidate_def snapshot_unsafe_def)
  then obtain i where i: "dr_intent r = Some i" using built_dry_run(1,3) [OF r] by blast
  have ts: "dq_ts_epoch ?q = opt_float (Some (Fin 150))" by (simp add: demo_dry_run_def)
  obtain r' logs' where l: "append_dry_run ''/data'' r ?logs = (r', logs')" by fastforce
  obtain s0 where "normalize_outcome_replay [] (Some (di_candidate_id i)) = Inr s0" "os_events s0 = []"
    using demo_replay_empty by blast
  with dry_run_is_replayed [OF r l ts] i show ?thesis using r l by fastforce
qed

theorem filter_then_replay_witness:
  "\<exists>rows s. filter_outcome_records (candidate_query ''c1'') [PDict [(''candidate_id'', PStr ''c1'')], PDict [(''trade_id'', PStr ''c2'')]] = Inr rows \<and>
     normalize_outcome_replay (map PDict rows) (Some ''c1'') = Inr s \<and> length (os_events s) = 1"
proof -
  let ?records = "[PDict [(''candidate_id'', PStr ''c1'')], PDict [(''trade_id'', PStr ''c2'')]]"
  have "\<exists>s. normalize_outcome_replay ?records (Some ''c1'') = Inr s \<and> length (os_events s) = 1"
    by (simp add: normalize_outcome_replay_def event_history_def outcome_event_of_def outcome_candidate_def text_or_def
        py_or_def outcome_summary_of_def Let_def)
  with filter_then_replay [of ?records "''c1''"] show ?thesis by fastforce
qed

end
