(* ===== verification/Py_Compare.thy ===== *)
theory Py_Compare
  imports Py_Value
begin

text \<open>
  Comparisons that several modules make: whether a text occurs in another one, and Python's
  \<open>==\<close> on values of any type.
\<close>

text \<open>\<open>part in text\<close>\<close>

fun occurs_in :: "string \<Rightarrow> string \<Rightarrow> bool" where
  "occurs_in part [] = (part = [])"
| "occurs_in part (c # s) = (starts_with (c # s) part \<or> occurs_in part s)"

text \<open>
  \<open>==\<close>: a boolean is the number 0 or 1 and an integer compares exactly with a float; NaN
  differs from itself; two dicts are equal when they have the same keys with equal values, in
  any order. Inside containers CPython tests the identity of the items first, which only
  shows for NaN: here two NaN are two objects.
\<close>

fun number_of :: "pyval \<Rightarrow> pyfloat option" where
  "number_of (PBool b) = Some (Fin (if b then 1 else 0))"
| "number_of (PInt i) = Some (Fin (of_int i))"
| "number_of (PFloat f) = Some f"
| "number_of _ = None"

lemma dget_size: "k \<in> set (map fst d) \<Longrightarrow> size (dget d k) < size (PDict d)"
proof (induction d)
  case (Cons e d)
  obtain k' v where e: "e = (k', v)" by (cases e)
  with Cons show ?case by (cases "k' = k") auto
qed simp

lemma list_item_size: "x \<in> set xs \<Longrightarrow> size x < size (PList xs)"
  by (induction xs) auto

lemma dget_entry_size: "(k, v) \<in> set d \<Longrightarrow> size (dget d k) < size (PDict d)"
  by (rule dget_size) force

lemma dget_dict_size: "PDict x = dget d k \<Longrightarrow> size (dget d k) < size (PDict d)"
  using dget_size [of k d] by (cases "k \<in> set (map fst d)") (auto simp: dget_def map_of_eq_None_iff [THEN iffD2])

definition same_number :: "pyval \<Rightarrow> pyval \<Rightarrow> bool" where
  "same_number u v \<longleftrightarrow> (case (number_of u, number_of v) of (Some x, Some y) \<Rightarrow> x = y \<and> x \<noteq> NaN | _ \<Rightarrow> False)"

function py_eq :: "pyval \<Rightarrow> pyval \<Rightarrow> bool" where
  "py_eq PNone v = (v = PNone)"
| "py_eq (PStr s) v = (v = PStr s)"
| "py_eq (PBool b) v = same_number (PBool b) v"
| "py_eq (PInt i) v = same_number (PInt i) v"
| "py_eq (PFloat f) v = same_number (PFloat f) v"
| "py_eq (PList xs) v =
     (case v of
        PList ys \<Rightarrow> length xs = length ys \<and> list_all (\<lambda>(x, y). py_eq x y) (zip xs ys)
      | _ \<Rightarrow> False)"
| "py_eq (PDict d) v =
     (case v of
        PDict e \<Rightarrow> set (map fst d) = set (map fst e) \<and> list_all (\<lambda>k. py_eq (dget d k) (dget e k)) (map fst d)
      | _ \<Rightarrow> False)"
  by pat_completeness auto

termination
  by (relation "measure (\<lambda>(u, v). size u)")
    (auto dest!: set_zip_leftD intro: list_item_size dget_entry_size simp del: pyval.size)

end
