(* ===== verification/Candidate_Truth.thy ===== *)
theory Candidate_Truth
  imports Gate_Base Trade_Quality Py_Compare
begin

text \<open>
  src/candidate_truth/layer.py: a raw candidate of any origin becomes a record with an identity, a
  truth status and the blockers and warnings it came with. An object with a \<open>to_dict\<close> method is
  represented by the value this method returns.
\<close>

datatype truth_status = REAL | SYNTHETIC | FALLBACK | ADVISORY | MALFORMED | UNKNOWN

fun truth_value :: "truth_status \<Rightarrow> string" where
  "truth_value REAL = ''REAL''"
| "truth_value SYNTHETIC = ''SYNTHETIC''"
| "truth_value FALLBACK = ''FALLBACK''"
| "truth_value ADVISORY = ''ADVISORY''"
| "truth_value MALFORMED = ''MALFORMED''"
| "truth_value UNKNOWN = ''UNKNOWN''"

definition all_truth_statuses :: "truth_status list" where
  "all_truth_statuses = [REAL, SYNTHETIC, FALLBACK, ADVISORY, MALFORMED, UNKNOWN]"

definition truth_status_named :: "string \<Rightarrow> truth_status option" where
  "truth_status_named s = find (\<lambda>t. truth_value t = s) all_truth_statuses"

definition synthetic_hints :: "string list" where
  "synthetic_hints = [''synthetic'', ''mock'', ''demo'', ''simulated'']"

definition fallback_hints :: "string list" where
  "fallback_hints = [''fallback'', ''nearest'', ''substitute'']"

definition advisory_actions :: "string list" where
  "advisory_actions = [''ADVISORY'', ''ADVISORY_ONLY'', ''WATCH'', ''INFO'']"

definition malformed_blockers :: "string list" where
  "malformed_blockers = [''MISSING_CANDIDATE_ID'', ''MISSING_SYMBOL'', ''MISSING_STRATEGY_ID'', ''MISSING_SETUP_FAMILY'']"

record candidate_truth =
  ct_candidate_id :: string
  ct_symbol :: "string option"
  ct_strategy_id :: "string option"
  ct_setup_family :: "string option"
  ct_truth_status :: truth_status
  ct_blockers :: "string list"
  ct_warnings :: "string list"
  ct_provenance :: pydict
  ct_normalized :: pydict
  ct_raw :: pydict

definition candidate_truth_to_dict :: "candidate_truth \<Rightarrow> pydict" where
  "candidate_truth_to_dict r =
     [(''candidate_id'', PStr (ct_candidate_id r)),
      (''symbol'', opt_str (ct_symbol r)),
      (''strategy_id'', opt_str (ct_strategy_id r)),
      (''setup_family'', opt_str (ct_setup_family r)),
      (''truth_status'', PStr (truth_value (ct_truth_status r))),
      (''blockers'', str_list (ct_blockers r)),
      (''warnings'', str_list (ct_warnings r)),
      (''provenance'', PDict (ct_provenance r)),
      (''normalized'', PDict (ct_normalized r)),
      (''raw'', PDict (ct_raw r)),
      (''is_candidate_truth_record'', PBool True),
      (''is_execution_decision'', PBool False)]"

section \<open>Reading a candidate\<close>

fun raw_candidate :: "pyval \<Rightarrow> pydict" where
  "raw_candidate (PDict d) = d"
| "raw_candidate v = [(''raw_value'', v)]"

fun first_present :: "pydict \<Rightarrow> string list \<Rightarrow> pyval" where
  "first_present d [] = PNone"
| "first_present d (k # ks) = (if is_blank (dget d k) then first_present d ks else dget d k)"

fun listify :: "pyval \<Rightarrow> string list" where
  "listify PNone = []"
| "listify (PStr s) = (if s = [] then [] else [s])"
| "listify (PList xs) = map py_str (filter (\<lambda>v. \<not> is_blank v) xs)"
| "listify v = [py_str v]"

definition contains_hint :: "pydict \<Rightarrow> string list \<Rightarrow> bool" where
  "contains_hint d hints =
     (let haystack = join '' '' (map (lower \<circ> py_str) (filter (\<lambda>v. v \<noteq> PNone) (map snd d)))
      in list_ex (\<lambda>h. occurs_in h haystack) hints)"

definition classify_truth :: "pydict \<Rightarrow> string list \<Rightarrow> truth_status" where
  "classify_truth raw blockers =
     (if list_ex (\<lambda>b. b \<in> set malformed_blockers) blockers then MALFORMED
      else case truth_status_named (upper_text (get_or raw [''truth_status'', ''candidate_truth''])) of
        Some t \<Rightarrow> t
      | None \<Rightarrow>
          if upper_text (get_or raw [''final_action'', ''permission'', ''bucket'']) \<in> set advisory_actions then ADVISORY
          else if truthy (dget raw ''fallback_used'') \<or> truthy (dget raw ''is_fallback'') \<or> contains_hint raw fallback_hints
          then FALLBACK
          else if truthy (dget raw ''synthetic'') \<or> truthy (dget raw ''is_synthetic'') \<or> contains_hint raw synthetic_hints
          then SYNTHETIC
          else REAL)"

definition setdefault :: "string \<Rightarrow> pyval \<Rightarrow> pydict \<Rightarrow> pydict" where
  "setdefault k v d = (if has_key d k then d else d @ [(k, v)])"

definition text_if_present :: "pyval \<Rightarrow> string option" where
  "text_if_present v = (if v = PNone then None else Some (py_str v))"

definition candidate_labels :: "pydict \<Rightarrow> string list" where
  "candidate_labels raw =
     add_if (first_present raw [''candidate_id'', ''trade_id'', ''advisory_id'', ''id''] = PNone) ''MISSING_CANDIDATE_ID'' @
     add_if (first_present raw [''symbol'', ''underlying'', ''index_symbol''] = PNone) ''MISSING_SYMBOL'' @
     add_if (first_present raw [''strategy_id'', ''strategy'', ''strategy_family''] = PNone) ''MISSING_STRATEGY_ID'' @
     add_if (first_present raw [''setup_family'', ''strategy_family'', ''setup''] = PNone) ''MISSING_SETUP_FAMILY'' @
     listify (dget raw ''blockers'') @ listify (dget raw ''blocker'') @ listify (dget raw ''first_blocker'') @
     (if dget raw ''status'' = PStr ''blocked'' then listify (dget raw ''reason'') else [])"

definition normalize_candidate :: "string \<Rightarrow> pyval \<Rightarrow> candidate_truth result" where
  "normalize_candidate source candidate =
     (let raw = raw_candidate candidate;
          candidate_id = (case text_if_present (first_present raw [''candidate_id'', ''trade_id'', ''advisory_id'', ''id'']) of
            Some s \<Rightarrow> s | None \<Rightarrow> ''malformed:missing_candidate_id'');
          symbol = map_option upper (text_if_present (first_present raw [''symbol'', ''underlying'', ''index_symbol'']));
          strategy_id = text_if_present (first_present raw [''strategy_id'', ''strategy'', ''strategy_family'']);
          setup_family = text_if_present (first_present raw [''setup_family'', ''strategy_family'', ''setup'']);
          blockers = dedupe (candidate_labels raw);
          warnings = dedupe (listify (dget raw ''warnings'') @ listify (dget raw ''warning''))
      in bind_result (dict_or_empty (dget raw ''provenance'')) (\<lambda>provenance.
           Inr \<lparr>ct_candidate_id = candidate_id, ct_symbol = symbol, ct_strategy_id = strategy_id, ct_setup_family = setup_family,
                ct_truth_status = classify_truth raw blockers, ct_blockers = blockers, ct_warnings = warnings,
                ct_provenance = setdefault ''raw_keys'' (str_list (sort (map fst raw))) (setdefault ''source'' (PStr source) provenance),
                ct_normalized =
                  [(''candidate_id'', PStr candidate_id),
                   (''symbol'', opt_str symbol),
                   (''strategy_id'', opt_str strategy_id),
                   (''setup_family'', opt_str setup_family),
                   (''direction'', dget raw ''direction''),
                   (''confidence'', dget raw ''confidence''),
                   (''score'', get_or raw [''score'', ''final_score'', ''rank_score'']),
                   (''entry_hypothesis'', dget raw ''entry_hypothesis''),
                   (''invalidation_hypothesis'', dget raw ''invalidation_hypothesis''),
                   (''required_data'', py_or (dget raw ''required_data'') (PList [])),
                   (''signal_features'', py_or (dget raw ''signal_features'') (PDict []))],
                ct_raw = raw\<rparr>))"

definition normalize_candidates :: "string \<Rightarrow> pyval list \<Rightarrow> candidate_truth list result" where
  "normalize_candidates source candidates = map_result (normalize_candidate source) candidates"

section \<open>Lemmas\<close>

lemma normalized_fields:
  assumes "normalize_candidate source v = Inr r"
  shows "ct_symbol r = map_option upper (text_if_present (first_present (raw_candidate v) [''symbol'', ''underlying'', ''index_symbol'']))"
    "ct_strategy_id r = text_if_present (first_present (raw_candidate v) [''strategy_id'', ''strategy'', ''strategy_family''])"
    "ct_setup_family r = text_if_present (first_present (raw_candidate v) [''setup_family'', ''strategy_family'', ''setup''])"
    "ct_blockers r = dedupe (candidate_labels (raw_candidate v))"
    "ct_truth_status r = classify_truth (raw_candidate v) (ct_blockers r)"
    "ct_raw r = raw_candidate v"
  using assms unfolding normalize_candidate_def Let_def bind_result_eq_Inr sum.inject
  by (elim exE conjE; hypsubst; simp only: candidate_truth.simps)+

lemma malformed_labels: "\<forall>l \<in> set malformed_blockers. strip l = l \<and> l \<noteq> []"
  by code_simp

lemma malformed_when_missing:
  assumes "normalize_candidate source v = Inr r" "ct_truth_status r \<noteq> MALFORMED"
  shows "ct_symbol r \<noteq> None" "ct_strategy_id r \<noteq> None" "ct_setup_family r \<noteq> None"
    "ct_candidate_id r \<noteq> ''malformed:missing_candidate_id'' \<or>
     first_present (raw_candidate v) [''candidate_id'', ''trade_id'', ''advisory_id'', ''id''] \<noteq> PNone"
proof -
  let ?raw = "raw_candidate v"
  note f = normalized_fields [OF assms(1)]
  have label: "l \<notin> set (candidate_labels ?raw)" if "l \<in> set malformed_blockers" for l
  proof
    assume "l \<in> set (candidate_labels ?raw)"
    moreover have "strip l = l" "l \<noteq> []" using that malformed_labels by blast+
    ultimately have "l \<in> set (dedupe (candidate_labels ?raw))" by (force simp: set_dedupe)
    then have "list_ex (\<lambda>b. b \<in> set malformed_blockers) (dedupe (candidate_labels ?raw))"
      using that by (auto simp: list_ex_iff)
    with f(4,5) assms(2) show False by (simp add: classify_truth_def)
  qed
  have present: "first_present ?raw [''symbol'', ''underlying'', ''index_symbol''] \<noteq> PNone"
    "first_present ?raw [''strategy_id'', ''strategy'', ''strategy_family''] \<noteq> PNone"
    "first_present ?raw [''setup_family'', ''strategy_family'', ''setup''] \<noteq> PNone"
    "first_present ?raw [''candidate_id'', ''trade_id'', ''advisory_id'', ''id''] \<noteq> PNone"
    by (rule notI, use label [of "''MISSING_SYMBOL''"] in \<open>simp add: candidate_labels_def malformed_blockers_def\<close>,
        rule notI, use label [of "''MISSING_STRATEGY_ID''"] in \<open>simp add: candidate_labels_def malformed_blockers_def\<close>,
        rule notI, use label [of "''MISSING_SETUP_FAMILY''"] in \<open>simp add: candidate_labels_def malformed_blockers_def\<close>,
        rule notI, use label [of "''MISSING_CANDIDATE_ID''"] in \<open>simp add: candidate_labels_def malformed_blockers_def\<close>)
  show "ct_symbol r \<noteq> None" "ct_strategy_id r \<noteq> None" "ct_setup_family r \<noteq> None"
    unfolding f(1-3) text_if_present_def using present(1-3) by (simp_all del: first_present.simps)
  show "ct_candidate_id r \<noteq> ''malformed:missing_candidate_id'' \<or>
     first_present ?raw [''candidate_id'', ''trade_id'', ''advisory_id'', ''id''] \<noteq> PNone"
    using present(4) by blast
qed

text \<open>The hints are sought in the text of every value: a nested key counts, whatever its value.\<close>

lemma nested_key_is_hint:
  "contains_hint [(''readiness'', PDict [(''fallback_used'', PBool False)])] fallback_hints"
  by code_simp

end
