(* ===== verification/Opportunity_Layer.thy ===== *)
theory Opportunity_Layer
  imports Candidate_Truth
begin

text \<open>
  src/opportunity_layer/pipeline.py: the candidates' truth records are dropped, blocked or ranked by
  their score, and the first one may be selected. A score that is no number counts as 0; the order
  of scores is total here, with NaN above every number.
\<close>

datatype opportunity_status = SELECTED | RANKED | BLOCKED | DROPPED

fun opportunity_value :: "opportunity_status \<Rightarrow> string" where
  "opportunity_value SELECTED = ''SELECTED''"
| "opportunity_value RANKED = ''RANKED''"
| "opportunity_value BLOCKED = ''BLOCKED''"
| "opportunity_value DROPPED = ''DROPPED''"

definition non_rankable :: "truth_status list" where
  "non_rankable = [MALFORMED, SYNTHETIC, UNKNOWN]"

record opportunity =
  op_candidate_id :: string
  op_symbol :: "string option"
  op_strategy_id :: "string option"
  op_setup_family :: "string option"
  op_truth_status :: string
  op_opportunity_status :: opportunity_status
  op_rank_score :: pyfloat
  op_rank :: "int option"
  op_selected :: bool
  op_blockers :: "string list"
  op_warnings :: "string list"
  op_provenance :: pydict
  op_candidate_truth :: pydict

definition opportunity_to_dict :: "opportunity \<Rightarrow> pydict" where
  "opportunity_to_dict r =
     [(''candidate_id'', PStr (op_candidate_id r)),
      (''symbol'', opt_str (op_symbol r)),
      (''strategy_id'', opt_str (op_strategy_id r)),
      (''setup_family'', opt_str (op_setup_family r)),
      (''truth_status'', PStr (op_truth_status r)),
      (''opportunity_status'', PStr (opportunity_value (op_opportunity_status r))),
      (''rank_score'', PFloat (op_rank_score r)),
      (''rank'', opt_int (op_rank r)),
      (''selected'', PBool (op_selected r)),
      (''blockers'', str_list (op_blockers r)),
      (''warnings'', str_list (op_warnings r)),
      (''provenance'', PDict (op_provenance r)),
      (''candidate_truth'', PDict (op_candidate_truth r)),
      (''is_execution_decision'', PBool False)]"

record opportunity_result =
  ol_status :: string
  ol_reason :: "string option"
  ol_counts :: "(string \<times> int) list"
  ol_selected :: "opportunity option"
  ol_ranked :: "opportunity list"
  ol_blocked :: "opportunity list"
  ol_dropped :: "opportunity list"
  ol_diagnostics :: pydict

definition count_dict :: "(string \<times> int) list \<Rightarrow> pydict" where
  "count_dict counts = map (\<lambda>(k, n). (k, PInt n)) counts"

definition opportunity_result_to_dict :: "opportunity_result \<Rightarrow> pydict" where
  "opportunity_result_to_dict r =
     [(''status'', PStr (ol_status r)),
      (''reason'', opt_str (ol_reason r)),
      (''counts'', PDict (count_dict (ol_counts r))),
      (''selected'', opt_dict (map_option opportunity_to_dict (ol_selected r))),
      (''ranked'', PList (map (\<lambda>p. PDict (opportunity_to_dict p)) (ol_ranked r))),
      (''blocked'', PList (map (\<lambda>p. PDict (opportunity_to_dict p)) (ol_blocked r))),
      (''dropped'', PList (map (\<lambda>p. PDict (opportunity_to_dict p)) (ol_dropped r))),
      (''diagnostics'', PDict (ol_diagnostics r)),
      (''is_execution_decision'', PBool False)]"

section \<open>The steps\<close>

definition base_score :: "candidate_truth \<Rightarrow> pyfloat result" where
  "base_score r =
     (let score = dget (ct_normalized r) ''score''; confidence = dget (ct_normalized r) ''confidence''
      in float_or_nought
           (if score \<noteq> PNone then score
            else if confidence \<noteq> PNone then confidence
            else get_or (ct_raw r) [''score'', ''final_score'', ''rank_score'', ''confidence'']))"

definition make_opportunity ::
  "opportunity_status \<Rightarrow> pyfloat \<Rightarrow> int option \<Rightarrow> bool \<Rightarrow> string list \<Rightarrow> candidate_truth \<Rightarrow> opportunity" where
  "make_opportunity status rank_score rank selected extra_blockers r =
     \<lparr>op_candidate_id = ct_candidate_id r, op_symbol = ct_symbol r, op_strategy_id = ct_strategy_id r,
      op_setup_family = ct_setup_family r, op_truth_status = truth_value (ct_truth_status r), op_opportunity_status = status,
      op_rank_score = rank_score, op_rank = rank, op_selected = selected, op_blockers = ct_blockers r @ extra_blockers,
      op_warnings = ct_warnings r, op_provenance = ct_provenance r, op_candidate_truth = candidate_truth_to_dict r\<rparr>"

record survival =
  sv_rankable :: "candidate_truth list"
  sv_blocked :: "opportunity list"
  sv_dropped :: "opportunity list"

definition survive :: "candidate_truth \<Rightarrow> survival \<Rightarrow> survival result" where
  "survive r st =
     (if ct_truth_status r \<in> set non_rankable
      then Inr (st\<lparr>sv_dropped := sv_dropped st @
        [make_opportunity DROPPED (Fin 0) None False
           [''NON_RANKABLE_TRUTH_STATUS:'' @ truth_value (ct_truth_status r)] r]\<rparr>)
      else if ct_blockers r \<noteq> []
      then bind_result (base_score r) (\<lambda>score.
        Inr (st\<lparr>sv_blocked := sv_blocked st @ [make_opportunity BLOCKED score None False [] r]\<rparr>))
      else Inr (st\<lparr>sv_rankable := sv_rankable st @ [r]\<rparr>))"

definition classify_survival :: "candidate_truth list \<Rightarrow> survival result" where
  "classify_survival records = fold_result survive records \<lparr>sv_rankable = [], sv_blocked = [], sv_dropped = []\<rparr>"

definition rank_opportunities :: "candidate_truth list \<Rightarrow> opportunity list result" where
  "rank_opportunities rankable =
     bind_result (map_result base_score rankable) (\<lambda>scores.
       Inr (map (\<lambda>(i, (score, r)). make_opportunity RANKED score (Some i) False [] r)
         (numbered (sort_desc fst (zip scores rankable)))))"

definition select_opportunity :: "opportunity \<Rightarrow> opportunity" where
  "select_opportunity best = best\<lparr>op_opportunity_status := SELECTED, op_selected := True\<rparr>"

definition count_reason :: "string \<Rightarrow> (string \<times> int) list \<Rightarrow> (string \<times> int) list" where
  "count_reason reason counts =
     AList.update reason ((case map_of counts reason of Some n \<Rightarrow> n | None \<Rightarrow> 0) + 1) counts"

definition reason_counts :: "opportunity list \<Rightarrow> (string \<times> int) list" where
  "reason_counts records =
     fold (\<lambda>r. fold count_reason (if op_blockers r \<noteq> [] then op_blockers r else [opportunity_value (op_opportunity_status r)]))
       records []"

definition run_opportunity_pipeline :: "pyval list \<Rightarrow> string \<Rightarrow> bool \<Rightarrow> opportunity_result result" where
  "run_opportunity_pipeline candidates source select_top =
     bind_result (normalize_candidates source candidates) (\<lambda>records.
     bind_result (classify_survival records) (\<lambda>st.
     bind_result (rank_opportunities (sv_rankable st)) (\<lambda>ranked.
       let selected = (if select_top then (case ranked of best # _ \<Rightarrow> Some (select_opportunity best) | [] \<Rightarrow> None) else None)
       in Inr
         \<lparr>ol_status = (if candidates = [] then ''NO_CANDIDATES''
            else if ranked = [] then ''NO_RANKABLE_CANDIDATES'' else ''OPPORTUNITIES_AVAILABLE''),
          ol_reason = (if candidates = [] then Some ''raw_count=0''
            else if ranked = [] then Some ''no_execution_candidates'' else None),
          ol_counts =
            [(''raw_count'', int (length candidates)), (''truth_count'', int (length records)),
             (''rankable_count'', int (length (sv_rankable st))), (''ranked_count'', int (length ranked)),
             (''blocked_count'', int (length (sv_blocked st))), (''dropped_count'', int (length (sv_dropped st))),
             (''selected_count'', if selected = None then 0 else 1)],
          ol_selected = selected,
          ol_ranked = ranked,
          ol_blocked = sv_blocked st,
          ol_dropped = sv_dropped st,
          ol_diagnostics =
            [(''pipeline'', PStr ''normalize -> classify -> rank -> select -> emit''), (''source'', PStr source),
             (''blocked_reasons'', PDict (count_dict (reason_counts (sv_blocked st)))),
             (''dropped_reasons'', PDict (count_dict (reason_counts (sv_dropped st))))]\<rparr>)))"

section \<open>The partition\<close>

lemma make_opportunity_simps [simp]:
  "op_candidate_truth (make_opportunity s x i b bs r) = candidate_truth_to_dict r"
  "op_rank_score (make_opportunity s x i b bs r) = x" "op_rank (make_opportunity s x i b bs r) = i"
  "op_blockers (make_opportunity s x i b bs r) = ct_blockers r @ bs"
  "op_opportunity_status (make_opportunity s x i b bs r) = s"
  by (simp_all add: make_opportunity_def)

definition survives_all :: "candidate_truth list \<Rightarrow> survival \<Rightarrow> bool" where
  "survives_all records st \<longleftrightarrow>
     mset (map candidate_truth_to_dict records) =
       mset (map candidate_truth_to_dict (sv_rankable st)) + mset (map op_candidate_truth (sv_blocked st)) +
       mset (map op_candidate_truth (sv_dropped st)) \<and>
     (\<forall>r \<in> set (sv_rankable st). r \<in> set records \<and> ct_truth_status r \<notin> set non_rankable \<and> ct_blockers r = []) \<and>
     (\<forall>p \<in> set (sv_blocked st). op_blockers p \<noteq> [] \<and> op_opportunity_status p = BLOCKED) \<and>
     (\<forall>p \<in> set (sv_dropped st). op_blockers p \<noteq> [] \<and> op_opportunity_status p = DROPPED)"

lemma survive_step:
  assumes "survives_all records st" "survive r st = Inr st'"
  shows "survives_all (records @ [r]) st'"
proof (cases "ct_truth_status r \<in> set non_rankable")
  case True
  with assms show ?thesis by (auto simp: survive_def survives_all_def)
next
  case f: False
  show ?thesis
  proof (cases "ct_blockers r = []")
    case True
    with assms f show ?thesis by (auto simp: survive_def survives_all_def)
  next
    case False
    with assms f show ?thesis by (auto simp: survive_def survives_all_def)
  qed
qed

lemma survive_run:
  "fold_result survive rs st = Inr st' \<Longrightarrow> survives_all records st \<Longrightarrow> survives_all (records @ rs) st'"
proof (induction rs arbitrary: st records)
  case (Cons r rs)
  then obtain st1 where "survive r st = Inr st1" "fold_result survive rs st1 = Inr st'" by auto
  with Cons.IH [of st1 "records @ [r]"] survive_step [OF Cons.prems(2)] show ?case by simp
qed simp

lemma classified_survival: "classify_survival records = Inr st \<Longrightarrow> survives_all records st"
  unfolding classify_survival_def
  by (drule survive_run [where records = "[]"]) (simp_all add: survives_all_def)

lemma ranked_opportunities:
  assumes "rank_opportunities rs = Inr os"
  shows "mset (map op_candidate_truth os) = mset (map candidate_truth_to_dict rs)"
    "map op_rank os = map (Some \<circ> int) [1 ..< Suc (length rs)]"
    "sorted_wrt (\<lambda>x y. op_rank_score y \<le> op_rank_score x) os"
    "\<forall>p \<in> set os. \<exists>i. \<exists>r \<in> set rs. base_score r = Inr (op_rank_score p) \<and> p = make_opportunity RANKED (op_rank_score p) (Some i) False [] r"
proof -
  obtain scores where sc: "map_result base_score rs = Inr scores"
    and os: "os = map (\<lambda>(i, (score, r)). make_opportunity RANKED score (Some i) False [] r) (numbered (sort_desc fst (zip scores rs)))"
    using assms unfolding rank_opportunities_def bind_result_eq_Inr sum.inject by blast
  let ?s = "sort_desc fst (zip scores rs)"
  have len: "length scores = length rs" using sc by (rule map_result_length)
  have eq: "os = map (\<lambda>p. make_opportunity RANKED (fst (snd p)) (Some (fst p)) False [] (snd (snd p))) (numbered ?s)"
    unfolding os by (simp only: case_prod_unfold)
  have "map op_candidate_truth os = map (candidate_truth_to_dict \<circ> snd) (map snd (numbered ?s))"
    unfolding eq by (simp del: map_snd_numbered)
  then have "map op_candidate_truth os = map (candidate_truth_to_dict \<circ> snd) ?s" by simp
  then have "mset (map op_candidate_truth os) = mset (map (candidate_truth_to_dict \<circ> snd) ?s)" by (simp only:)
  also have "\<dots> = mset (map candidate_truth_to_dict (map snd (zip scores rs)))" by (simp only: mset_map mset_sort_desc map_map)
  also have "map snd (zip scores rs) = rs" using len by simp
  finally show "mset (map op_candidate_truth os) = mset (map candidate_truth_to_dict rs)" .
  have "map op_rank os = map Some (map fst (numbered ?s))" unfolding eq by simp
  then show "map op_rank os = map (Some \<circ> int) [1 ..< Suc (length rs)]"
    using len by (simp add: map_fst_numbered del: upt_Suc)
  have "map op_rank_score os = map fst (map snd (numbered ?s))" unfolding eq by (simp del: map_snd_numbered)
  then have "map op_rank_score os = map fst ?s" by simp
  moreover have "sorted_wrt (\<lambda>x y. y \<le> x) (map fst ?s)"
    using sorted_sort_desc [of fst "zip scores rs"] by (simp only: sorted_wrt_map)
  ultimately have "sorted_wrt (\<lambda>x y. y \<le> x) (map op_rank_score os)" by simp
  then show "sorted_wrt (\<lambda>x y. op_rank_score y \<le> op_rank_score x) os" by (simp only: sorted_wrt_map)
  show "\<forall>p \<in> set os. \<exists>i. \<exists>r \<in> set rs. base_score r = Inr (op_rank_score p) \<and> p = make_opportunity RANKED (op_rank_score p) (Some i) False [] r"
  proof
    fix p assume "p \<in> set os"
    then have "p \<in> (\<lambda>m. make_opportunity RANKED (fst (snd m)) (Some (fst m)) False [] (snd (snd m))) ` set (numbered ?s)"
      unfolding eq by (simp only: set_map)
    then obtain m where m: "m \<in> set (numbered ?s)"
      "p = make_opportunity RANKED (fst (snd m)) (Some (fst m)) False [] (snd (snd m))" by (rule imageE)
    from m(1) have "snd m \<in> snd ` set (numbered ?s)" by (rule imageI)
    then have "snd m \<in> set (map snd (numbered ?s))" by (simp only: set_map)
    then have z: "(fst (snd m), snd (snd m)) \<in> set (zip scores rs)" by (simp only: map_snd_numbered set_sort_desc prod.collapse)
    have "op_rank_score p = fst (snd m)" unfolding m(2) by simp
    moreover from z obtain k where k: "k < length rs" "fst (snd m) = scores ! k" "snd (snd m) = rs ! k"
      by (auto simp: in_set_zip)
    have "base_score (rs ! k) = Inr (scores ! k)" using list_all2_nthD [OF map_result_list_all2 [OF sc] k(1)] .
    then have "base_score (snd (snd m)) = Inr (fst (snd m))" unfolding k .
    ultimately show "\<exists>i. \<exists>r \<in> set rs. base_score r = Inr (op_rank_score p) \<and>
        p = make_opportunity RANKED (op_rank_score p) (Some i) False [] r"
      using m(2) set_zip_rightD [OF z] by metis
  qed
qed

section \<open>What the pipeline guarantees\<close>

lemma pipeline_parts:
  assumes "run_opportunity_pipeline candidates source select_top = Inr res"
  obtains records st ranked where "normalize_candidates source candidates = Inr records" "classify_survival records = Inr st"
    "rank_opportunities (sv_rankable st) = Inr ranked" "ol_ranked res = ranked" "ol_blocked res = sv_blocked st"
    "ol_dropped res = sv_dropped st"
    "ol_selected res = (if select_top then (case ranked of best # _ \<Rightarrow> Some (select_opportunity best) | [] \<Rightarrow> None) else None)"
  using assms unfolding run_opportunity_pipeline_def Let_def bind_result_eq_Inr sum.inject
  by (elim exE conjE; hypsubst; simp only: opportunity_result.simps)

text \<open>
  No candidate is lost and none is counted twice: the truth records of the candidates are, as a
  multiset, those that stand in the ranked, the blocked and the dropped opportunities, which
  therefore are as many as the candidates. The ranked ones carry no blocker and are numbered from 1
  in descending order of score; every blocked or dropped one carries its reason.
\<close>

theorem opportunities_partition:
  assumes "run_opportunity_pipeline candidates source select_top = Inr res"
  shows "\<exists>records. normalize_candidates source candidates = Inr records \<and>
    mset (map candidate_truth_to_dict records) =
      mset (map op_candidate_truth (ol_ranked res)) + mset (map op_candidate_truth (ol_blocked res)) +
      mset (map op_candidate_truth (ol_dropped res)) \<and>
    length (ol_ranked res) + length (ol_blocked res) + length (ol_dropped res) = length candidates \<and>
    (\<forall>p \<in> set (ol_ranked res). op_blockers p = []) \<and>
    map op_rank (ol_ranked res) = map (Some \<circ> int) [1 ..< Suc (length (ol_ranked res))] \<and>
    sorted_wrt (\<lambda>x y. op_rank_score y \<le> op_rank_score x) (ol_ranked res) \<and>
    (\<forall>p \<in> set (ol_blocked res @ ol_dropped res). op_blockers p \<noteq> [])"
proof -
  obtain records st ranked where parts: "normalize_candidates source candidates = Inr records" "classify_survival records = Inr st"
    "rank_opportunities (sv_rankable st) = Inr ranked" "ol_ranked res = ranked" "ol_blocked res = sv_blocked st"
    "ol_dropped res = sv_dropped st"
    using assms by (rule pipeline_parts)
  note sv = classified_survival [OF parts(2), unfolded survives_all_def]
  note rk = ranked_opportunities [OF parts(3)]
  have m: "mset (map candidate_truth_to_dict records) =
      mset (map op_candidate_truth ranked) + mset (map op_candidate_truth (sv_blocked st)) + mset (map op_candidate_truth (sv_dropped st))"
    using sv rk(1) by simp
  have "length records = length ranked + length (sv_blocked st) + length (sv_dropped st)"
    using arg_cong [OF m, of size] by simp
  moreover have "length records = length candidates"
    using parts(1) map_result_length unfolding normalize_candidates_def by blast
  moreover have "length ranked = length (sv_rankable st)" using arg_cong [OF rk(1), of size] by simp
  moreover have "op_blockers p = []" if "p \<in> set ranked" for p
  proof -
    obtain i r where "r \<in> set (sv_rankable st)" "p = make_opportunity RANKED (op_rank_score p) (Some i) False [] r"
      using rk(4) \<open>p \<in> set ranked\<close> by blast
    then show ?thesis using sv by (metis append_Nil make_opportunity_simps(4))
  qed
  ultimately show ?thesis
    using parts(1,4-6) m rk(2,3) sv by (intro exI [of _ records]) auto
qed


definition demo_candidates :: "pyval list" where
  "demo_candidates =
     [PDict [(''candidate_id'', PStr ''a''), (''symbol'', PStr ''NIFTY''), (''strategy'', PStr ''s''), (''setup'', PStr ''f''),
        (''score'', PInt 60)],
      PDict [(''candidate_id'', PStr ''b''), (''symbol'', PStr ''NIFTY''), (''strategy'', PStr ''s''), (''setup'', PStr ''f''),
        (''score'', PInt 70)],
      PDict [(''candidate_id'', PStr ''c'')]]"

lemma demo_opportunities:
  "case run_opportunity_pipeline demo_candidates ''demo'' True of
     Inl _ \<Rightarrow> False
   | Inr res \<Rightarrow> map op_candidate_id (ol_ranked res) = [''b'', ''a''] \<and> map op_candidate_id (ol_dropped res) = [''c''] \<and>
       map_option op_candidate_id (ol_selected res) = Some ''b''"
  by code_simp

theorem opportunities_partition_witness:
  "\<exists>res. run_opportunity_pipeline demo_candidates ''demo'' True = Inr res \<and> map op_candidate_id (ol_ranked res) = [''b'', ''a''] \<and>
     map op_rank (ol_ranked res) = [Some 1, Some 2] \<and> length (ol_blocked res) = 0"
proof -
  obtain res where res: "run_opportunity_pipeline demo_candidates ''demo'' True = Inr res"
    "map op_candidate_id (ol_ranked res) = [''b'', ''a'']" "map op_candidate_id (ol_dropped res) = [''c'']"
    using demo_opportunities by (auto split: sum.splits)
  have len: "length (ol_ranked res) = 2" "length (ol_dropped res) = 1"
    using arg_cong [OF res(2), of length] arg_cong [OF res(3), of length] by simp_all
  have "map op_rank (ol_ranked res) = map (Some \<circ> int) [1 ..< Suc (length (ol_ranked res))]"
    "length (ol_ranked res) + length (ol_blocked res) + length (ol_dropped res) = length demo_candidates"
    using opportunities_partition [OF res(1)] by auto
  with res len show ?thesis by (simp add: demo_candidates_def upt_rec)
qed


end
