(* ===== verification/Paper_Reconciliation.thy ===== *)
theory Paper_Reconciliation
  imports Paper_Rebuild Py_Compare
begin

text \<open>
  src/paper_trading/reconciliation.py: the report that compares a rebuilt paper state with an
  observed one, key by key, and lists the drifts between them.
\<close>

section \<open>Statuses, result, contract\<close>

datatype reconciliation_status = MATCH | DRIFT | EMPTY | BLOCKED

fun reconciliation_status_value :: "reconciliation_status \<Rightarrow> string" where
  "reconciliation_status_value MATCH = ''MATCH''"
| "reconciliation_status_value DRIFT = ''DRIFT''"
| "reconciliation_status_value EMPTY = ''EMPTY''"
| "reconciliation_status_value BLOCKED = ''BLOCKED''"

definition required_state_keys :: "string list" where
  "required_state_keys =
     [''schema_version'', ''state_type'', ''orders'', ''positions'', ''pnl_marks'', ''slippage_measurements'',
      ''performance_snapshots'', ''applied_event_ids'', ''applied_idempotency_keys'', ''last_event'', ''summary'',
      ''paper_only'', ''read_only'', ''is_order_action'', ''broker_api_called'', ''real_order_id'']"

definition compare_keys :: "string list" where
  "compare_keys = [''orders'', ''positions'', ''summary'', ''applied_event_ids'', ''applied_idempotency_keys'', ''last_event'']"

record reconciliation_result =
  rc_matched :: bool
  rc_status :: reconciliation_status
  rc_drift_count :: int
  rc_drifts :: "pydict list"
  rc_summary :: pydict
  rc_rebuilt_state_summary :: pydict
  rc_observed_state_summary :: pydict
  rc_blockers :: "string list"
  rc_warnings :: "string list"

definition reconciliation_result_to_dict :: "reconciliation_result \<Rightarrow> pydict" where
  "reconciliation_result_to_dict r =
     [(''schema_version'', PStr ''1.0''),
      (''report_type'', PStr ''PAPER_STATE_RECONCILIATION_REPORT''),
      (''status'', PStr (reconciliation_status_value (rc_status r))),
      (''matched'', PBool (rc_matched r)),
      (''drift_count'', PInt (rc_drift_count r)),
      (''drifts'', PList (map PDict (rc_drifts r))),
      (''summary'', PDict (rc_summary r)),
      (''rebuilt_state_summary'', PDict (rc_rebuilt_state_summary r)),
      (''observed_state_summary'', PDict (rc_observed_state_summary r)),
      (''blockers'', str_list (rc_blockers r)),
      (''warnings'', str_list (rc_warnings r)),
      (''paper_only'', PBool True),
      (''read_only'', PBool True),
      (''is_order_action'', PBool False),
      (''broker_api_called'', PBool False),
      (''real_order_id'', PNone)]"

definition reconciliation_result_keys :: "string list" where
  "reconciliation_result_keys =
     [''schema_version'', ''report_type'', ''status'', ''matched'', ''drift_count'', ''drifts'', ''summary'',
      ''rebuilt_state_summary'', ''observed_state_summary'', ''blockers'', ''warnings'', ''paper_only'', ''read_only'',
      ''is_order_action'', ''broker_api_called'', ''real_order_id'']"

definition reconciliation_schema_contract :: pydict where
  "reconciliation_schema_contract =
     [(''schema_version'', PStr ''1.0''),
      (''report_type'', PStr ''PAPER_STATE_RECONCILIATION_REPORT''),
      (''consumes'', str_list [''PAPER_STATE_REBUILD_CLI'', ''PAPER_REDUCED_STATE'']),
      (''statuses'', str_list (map reconciliation_status_value [MATCH, DRIFT, EMPTY, BLOCKED])),
      (''compared_state_keys'', str_list compare_keys),
      (''required_state_keys'', str_list required_state_keys),
      (''required_result_keys'', str_list reconciliation_result_keys),
      (''safe_flags'', PDict read_only_flags),
      (''cli_exit_codes'', PDict [(''MATCH'', PInt 0), (''EMPTY'', PInt 0), (''DRIFT'', PInt 1), (''BLOCKED'', PInt 2)]),
      (''scope_boundary'', str_list
         [''read_only_report_only'', ''no_state_mutation'', ''no_journal_append'', ''no_persistence_layer'', ''no_api'', ''no_ui'',
          ''no_runtime_wiring''])]"

interpretation reconciliation_report: paper_report reconciliation_result_to_dict reconciliation_result_keys
  by unfold_locales
    (simp_all add: reconciliation_result_to_dict_def reconciliation_result_keys_def has_key_def flags_safe_def)

section \<open>The inputs\<close>

text \<open>The rebuild result: nothing, a dict, an object with a \<open>to_dict\<close>, or something else.\<close>

datatype rebuild_arg = NoRebuild | RebuildDict pydict | RebuildObject pyval | OtherRebuild

fun rebuild_payload :: "rebuild_arg \<Rightarrow> pydict option" where
  "rebuild_payload (RebuildDict d) = Some d"
| "rebuild_payload (RebuildObject (PDict d)) = Some d"
| "rebuild_payload _ = None"

definition state_label :: "string \<Rightarrow> string \<Rightarrow> string" where
  "state_label source text = ''PAPER_STATE_RECONCILIATION_'' @ source @ ''_STATE_'' @ text"

definition state_blockers :: "pydict \<Rightarrow> string \<Rightarrow> string list" where
  "state_blockers state source =
     concat (map (\<lambda>key. add_if (\<not> has_key state key) (state_label source (''MISSING_'' @ upper key))) required_state_keys) @
     add_if (dget state ''paper_only'' \<noteq> PBool True) (state_label source ''UNSAFE_PAPER_ONLY_FLAG'') @
     add_if (dget state ''read_only'' \<noteq> PBool True) (state_label source ''UNSAFE_READ_ONLY_FLAG'') @
     add_if (dget state ''is_order_action'' \<noteq> PBool False) (state_label source ''UNSAFE_ORDER_ACTION_FLAG'') @
     add_if (dget state ''broker_api_called'' \<noteq> PBool False) (state_label source ''UNSAFE_BROKER_API_FLAG'') @
     add_if (dget state ''real_order_id'' \<noteq> PNone) (state_label source ''UNSAFE_REAL_ORDER_ID'')"

definition validate_reconciliation_inputs :: "pyval \<Rightarrow> pyval \<Rightarrow> string list" where
  "validate_reconciliation_inputs rebuild_result observed_state =
     (case rebuild_result of
        PNone \<Rightarrow> [''PAPER_STATE_RECONCILIATION_REBUILD_RESULT_REQUIRED'']
      | PDict d \<Rightarrow>
          dedupe
            (add_if (dget d ''status'' = PStr ''BLOCKED'') ''PAPER_STATE_RECONCILIATION_REBUILD_RESULT_BLOCKED'' @
             (if \<not> has_key d ''state'' then [''PAPER_STATE_RECONCILIATION_REBUILT_STATE_REQUIRED'']
              else case dget d ''state'' of
                     PDict state \<Rightarrow> state_blockers state ''REBUILT''
                   | _ \<Rightarrow> [''PAPER_STATE_RECONCILIATION_REBUILT_STATE_MUST_BE_OBJECT'']) @
             (case observed_state of
                PNone \<Rightarrow> []
              | PDict state \<Rightarrow> if state = [] then [] else state_blockers state ''OBSERVED''
              | _ \<Rightarrow> [''PAPER_STATE_RECONCILIATION_OBSERVED_STATE_MUST_BE_OBJECT'']))
      | _ \<Rightarrow> [''PAPER_STATE_RECONCILIATION_REBUILD_RESULT_MUST_BE_OBJECT''])"

section \<open>Drifts\<close>

definition drift :: "string \<Rightarrow> pyval \<Rightarrow> pyval \<Rightarrow> string \<Rightarrow> pydict" where
  "drift path rebuilt observed reason =
     [(''path'', PStr path), (''reason'', PStr reason), (''rebuilt'', rebuilt), (''observed'', observed)] @ read_only_flags"

definition drift_reason :: "pydict \<Rightarrow> pydict \<Rightarrow> string \<Rightarrow> string" where
  "drift_reason rebuilt observed key =
     (if has_key rebuilt key \<and> \<not> has_key observed key then ''MISSING_IN_OBSERVED''
      else if has_key observed key \<and> \<not> has_key rebuilt key then ''MISSING_IN_REBUILT''
      else ''VALUE_MISMATCH'')"

definition child_path :: "string \<Rightarrow> string \<Rightarrow> string" where
  "child_path path key = path @ ''.'' @ key"

text \<open>\<open>sorted(set(rebuilt) | set(observed))\<close>\<close>

definition all_keys :: "pydict \<Rightarrow> pydict \<Rightarrow> string list" where
  "all_keys rebuilt observed = sort (remdups (map fst rebuilt @ map fst observed))"

function compare_dict :: "string \<Rightarrow> pydict \<Rightarrow> pydict \<Rightarrow> pydict list" where
  "compare_dict path rebuilt observed =
     concat (map (\<lambda>key.
       (case (dget rebuilt key, dget observed key) of
          (PDict a, PDict b) \<Rightarrow> compare_dict (child_path path key) a b
        | (u, v) \<Rightarrow>
            if py_eq u v then []
            else [drift (child_path path key) u v (drift_reason rebuilt observed key)]))
       (all_keys rebuilt observed))"
  by pat_completeness auto

termination
  by (relation "measure (\<lambda>(path, rebuilt, observed). size (PDict rebuilt))")
    (auto intro: dget_dict_size simp del: pyval.size)

declare compare_dict.simps [simp del]

definition compare_states :: "pydict \<Rightarrow> pydict \<Rightarrow> pydict list" where
  "compare_states rebuilt observed =
     concat (map (\<lambda>key.
       (let u = dget rebuilt key; v = dget observed key
        in if py_eq u v then []
           else case (u, v) of
                  (PDict a, PDict b) \<Rightarrow> compare_dict key a b
                | _ \<Rightarrow> [drift key u v ''VALUE_MISMATCH'']))
       compare_keys)"

section \<open>The report\<close>

text \<open>\<open>int(summary.get("event_count") or 0)\<close>, which raises when the count is no number.\<close>

definition event_count_of :: "pydict \<Rightarrow> int result" where
  "event_count_of state = py_int (py_or (dget (as_dict (dget state ''summary'')) ''event_count'') (PInt 0))"

definition is_empty_rebuilt :: "pydict \<Rightarrow> pydict \<Rightarrow> bool result" where
  "is_empty_rebuilt payload state =
     (if dget payload ''status'' = PStr ''EMPTY'' then Inr True
      else bind_result (event_count_of state) (\<lambda>n. Inr (n = 0)))"

definition observed_missing_or_empty :: "pyval \<Rightarrow> bool result" where
  "observed_missing_or_empty observed =
     (if as_dict observed = [] then Inr True else bind_result (event_count_of (as_dict observed)) (\<lambda>n. Inr (n = 0)))"

definition count_of :: "pydict \<Rightarrow> string \<Rightarrow> int result" where
  "count_of state key = py_len (py_or (dget state key) (PDict []))"

definition state_summary :: "pyval \<Rightarrow> pydict result" where
  "state_summary state =
     (if as_dict state = [] then
        Inr ([(''event_count'', PInt 0), (''order_count'', PInt 0), (''position_count'', PInt 0)] @ read_only_flags)
      else
        bind_result (event_count_of (as_dict state)) (\<lambda>events.
        bind_result (count_of (as_dict state) ''orders'') (\<lambda>orders.
        bind_result (count_of (as_dict state) ''positions'') (\<lambda>positions.
          Inr ([(''event_count'', PInt events), (''order_count'', PInt orders), (''position_count'', PInt positions),
                (''last_event'', dget (as_dict state) ''last_event'')] @ read_only_flags)))))"

definition report_summary :: "reconciliation_status \<Rightarrow> nat \<Rightarrow> pydict" where
  "report_summary status drift_count =
     [(''status'', PStr (reconciliation_status_value status)), (''drift_count'', PInt (int drift_count))] @ read_only_flags"

definition comparison_report ::
  "reconciliation_status \<Rightarrow> pydict list \<Rightarrow> pyval \<Rightarrow> pyval \<Rightarrow> string list \<Rightarrow> reconciliation_result result" where
  "comparison_report status drifts rebuilt observed warnings =
     bind_result (state_summary rebuilt) (\<lambda>rebuilt_summary.
     bind_result (state_summary observed) (\<lambda>observed_summary.
       Inr \<lparr>rc_matched = (status \<noteq> DRIFT), rc_status = status, rc_drift_count = int (length drifts), rc_drifts = drifts,
            rc_summary = report_summary status (length drifts), rc_rebuilt_state_summary = rebuilt_summary,
            rc_observed_state_summary = observed_summary, rc_blockers = [], rc_warnings = warnings\<rparr>))"

definition blocked_reconciliation :: "string list \<Rightarrow> reconciliation_result" where
  "blocked_reconciliation blockers =
     \<lparr>rc_matched = False, rc_status = BLOCKED, rc_drift_count = 0, rc_drifts = [], rc_summary = [],
      rc_rebuilt_state_summary = [], rc_observed_state_summary = [], rc_blockers = blockers, rc_warnings = []\<rparr>"

definition found_drifts :: "pydict \<Rightarrow> pyval \<Rightarrow> pydict list" where
  "found_drifts rebuilt observed =
     (case observed of
        PNone \<Rightarrow> [drift ''observed_state'' (PDict rebuilt) PNone ''OBSERVED_STATE_MISSING'']
      | _ \<Rightarrow> compare_states rebuilt (as_dict observed))"

definition reconcile_paper_state :: "rebuild_arg \<Rightarrow> pyval \<Rightarrow> reconciliation_result result" where
  "reconcile_paper_state rebuild_result observed =
     (let payload = opt_dict (rebuild_payload rebuild_result); blockers = validate_reconciliation_inputs payload observed
      in if blockers \<noteq> [] then Inr (blocked_reconciliation blockers)
         else
           (let rebuilt = as_dict (dget (as_dict payload) ''state'')
            in bind_result (is_empty_rebuilt (as_dict payload) rebuilt) (\<lambda>empty_rebuilt.
               bind_result (if empty_rebuilt then observed_missing_or_empty observed else Inr False) (\<lambda>both_empty.
                 if both_empty
                 then comparison_report EMPTY [] (PDict rebuilt) observed [''PAPER_STATE_RECONCILIATION_EMPTY_STATE'']
                 else
                   (let drifts = found_drifts rebuilt observed
                    in comparison_report (if drifts \<noteq> [] then DRIFT else MATCH) drifts (PDict rebuilt) observed [])))))"

section \<open>Differences between states\<close>

text \<open>
  The value at a path of keys, and the paths at which two values differ: on the way to such a path
  both sides are dicts, and at its end the values are not two dicts and are not equal. An absent
  key is read as \<open>None\<close>.
\<close>

fun value_at :: "pyval \<Rightarrow> string list \<Rightarrow> pyval" where
  "value_at v [] = v"
| "value_at v (k # ks) = value_at (dget (as_dict v) k) ks"

fun differs :: "pyval \<Rightarrow> pyval \<Rightarrow> string list \<Rightarrow> bool" where
  "differs u v [] \<longleftrightarrow> \<not> (is_dict u \<and> is_dict v) \<and> \<not> py_eq u v"
| "differs u v (k # ks) \<longleftrightarrow> is_dict u \<and> is_dict v \<and> differs (dget (as_dict u) k) (dget (as_dict v) k) ks"

definition path_text :: "string \<Rightarrow> string list \<Rightarrow> string" where
  "path_text p ks = fold (\<lambda>k q. child_path q k) ks p"

definition drift_at :: "string \<Rightarrow> pyval \<Rightarrow> pyval \<Rightarrow> string list \<Rightarrow> pydict" where
  "drift_at p u v ks =
     drift (path_text p ks) (value_at u ks) (value_at v ks)
       (if ks = [] then ''VALUE_MISMATCH''
        else drift_reason (as_dict (value_at u (butlast ks))) (as_dict (value_at v (butlast ks))) (last ks))"

text \<open>The paths in the order in which the comparison meets them.\<close>

function diff_paths :: "pydict \<Rightarrow> pydict \<Rightarrow> string list list" where
  "diff_paths a b =
     concat (map (\<lambda>k.
       map ((#) k)
         (case (dget a k, dget b k) of
            (PDict x, PDict y) \<Rightarrow> diff_paths x y
          | (u, v) \<Rightarrow> if py_eq u v then [] else [[]]))
       (all_keys a b))"
  by pat_completeness auto

termination
  by (relation "measure (\<lambda>(a, b). size (PDict a))") (auto intro: dget_dict_size simp del: pyval.size)

declare diff_paths.simps [simp del]

lemma set_all_keys: "set (all_keys a b) = set (map fst a) \<union> set (map fst b)"
  by (simp add: all_keys_def)

lemma distinct_all_keys: "distinct (all_keys a b)"
  by (simp add: all_keys_def)

lemma absent_key: "k \<notin> set (map fst d) \<Longrightarrow> dget d k = PNone"
  by (simp add: dget_def map_of_eq_None_iff [THEN iffD2])

lemma same_number_PNone [simp]: "\<not> same_number u PNone"
  by (simp add: same_number_def split: option.splits)

lemma py_eq_PNone [simp]: "py_eq PNone v \<longleftrightarrow> v = PNone" "py_eq v PNone \<longleftrightarrow> v = PNone"
  by (cases v; simp)+

lemma absent_equal: "differs (dget a k) (dget b k) ks \<Longrightarrow> k \<in> set (all_keys a b)"
  by (rule ccontr) (cases ks; auto simp: set_all_keys absent_key)

definition child_paths :: "pyval \<Rightarrow> pyval \<Rightarrow> string list list" where
  "child_paths u v = (case (u, v) of (PDict x, PDict y) \<Rightarrow> diff_paths x y | _ \<Rightarrow> if py_eq u v then [] else [[]])"

lemma diff_paths_eq:
  "diff_paths a b = concat (map (\<lambda>k. map ((#) k) (child_paths (dget a k) (dget b k))) (all_keys a b))"
  by (subst diff_paths.simps) (auto simp: child_paths_def intro!: arg_cong [where f = concat] map_cong split: pyval.splits)

lemma child_paths_simps:
  "child_paths (PDict x) (PDict y) = diff_paths x y"
  "\<not> (is_dict u \<and> is_dict v) \<Longrightarrow> child_paths u v = (if py_eq u v then [] else [[]])"
  by (auto simp: child_paths_def is_dict_iff split: pyval.splits)

lemma set_diff_paths: "set (diff_paths a b) = {ks. differs (PDict a) (PDict b) ks}"
proof (induction a b rule: diff_paths.induct)
  case (1 a b)
  have "ks \<in> set (child_paths (dget a k) (dget b k)) \<longleftrightarrow> differs (dget a k) (dget b k) ks" if "k \<in> set (all_keys a b)" for k ks
  proof (cases "is_dict (dget a k) \<and> is_dict (dget b k)")
    case True
    with 1 [OF that] show ?thesis by (auto simp: is_dict_iff child_paths_simps(1))
  next
    case False
    then show ?thesis by (cases ks) (auto simp: child_paths_simps(2))
  qed
  then have "ks \<in> set (diff_paths a b) \<longleftrightarrow> differs (PDict a) (PDict b) ks" for ks
    unfolding diff_paths_eq by (cases ks) (auto simp: image_iff dest: absent_equal)
  then show ?case by blast
qed

lemma distinct_prefixed:
  assumes "distinct ks" "\<And>k. k \<in> set ks \<Longrightarrow> distinct (f k)"
  shows "distinct (concat (map (\<lambda>k. map ((#) k) (f k)) ks))"
  using assms by (induction ks) (auto simp: distinct_map)

lemma distinct_diff_paths: "distinct (diff_paths a b)"
proof (induction a b rule: diff_paths.induct)
  case (1 a b)
  have "distinct (child_paths (dget a k) (dget b k))" if "k \<in> set (all_keys a b)" for k
    using 1 [OF that]
    by (cases "is_dict (dget a k) \<and> is_dict (dget b k)") (auto simp: is_dict_iff child_paths_simps)
  with distinct_prefixed [OF distinct_all_keys] show ?case by (simp add: diff_paths_eq)
qed

lemma drift_at_Cons:
  "drift_at p (PDict a) (PDict b) (k # ks) =
     (if ks = [] then drift (child_path p k) (dget a k) (dget b k) (drift_reason a b k)
      else drift_at (child_path p k) (dget a k) (dget b k) ks)"
  by (simp add: drift_at_def path_text_def)

lemma compare_dict_paths: "compare_dict p a b = map (drift_at p (PDict a) (PDict b)) (diff_paths a b)"
proof (induction p a b rule: compare_dict.induct)
  case (1 p a b)
  have nonempty: "ks \<noteq> []" if "ks \<in> set (diff_paths x y)" for x y ks using that by (auto simp: set_diff_paths)
  have "(case (dget a k, dget b k) of
          (PDict x, PDict y) \<Rightarrow> compare_dict (child_path p k) x y
        | (u, v) \<Rightarrow> if py_eq u v then [] else [drift (child_path p k) u v (drift_reason a b k)]) =
      map (drift_at p (PDict a) (PDict b)) (map ((#) k) (child_paths (dget a k) (dget b k)))"
    if k: "k \<in> set (all_keys a b)" for k
  proof (cases "is_dict (dget a k) \<and> is_dict (dget b k)")
    case True
    then obtain x y where xy: "dget a k = PDict x" "dget b k = PDict y" by (auto simp: is_dict_iff)
    with 1 [OF k] show ?thesis by (auto simp: child_paths_simps(1) drift_at_Cons dest: nonempty)
  next
    case False
    then have "(case (dget a k, dget b k) of (PDict x, PDict y) \<Rightarrow> compare_dict (child_path p k) x y | (u, v) \<Rightarrow> if py_eq u v then [] else [drift (child_path p k) u v (drift_reason a b k)]) =
        (if py_eq (dget a k) (dget b k) then [] else [drift (child_path p k) (dget a k) (dget b k) (drift_reason a b k)])"
      by (auto simp: is_dict_iff split: pyval.splits)
    with False show ?thesis by (simp add: child_paths_simps(2) drift_at_Cons)
  qed
  then show ?case
    by (subst compare_dict.simps) (auto simp: diff_paths_eq map_concat intro!: arg_cong [where f = concat] map_cong)
qed

lemma equal_no_difference: "py_eq u v \<Longrightarrow> \<not> differs u v ks"
proof (induction ks arbitrary: u v)
  case (Cons k ks)
  show ?case
  proof
    assume d: "differs u v (k # ks)"
    then obtain a b where "u = PDict a" "v = PDict b" by (auto simp: is_dict_iff)
    with d Cons.prems have "differs (dget a k) (dget b k) ks" "set (map fst a) = set (map fst b)"
      "list_all (\<lambda>k. py_eq (dget a k) (dget b k)) (map fst a)" by auto
    moreover from this have "k \<in> set (map fst a)" using absent_equal [of a k b ks] by (auto simp: set_all_keys)
    ultimately show False using Cons.IH by (auto simp: list_all_iff)
  qed
qed auto

lemma set_child_paths: "set (child_paths u v) = {ks. differs u v ks}"
proof (cases "is_dict u \<and> is_dict v")
  case True
  then show ?thesis by (auto simp: is_dict_iff child_paths_simps(1) set_diff_paths)
next
  case False
  then have "differs u v ks \<longleftrightarrow> ks = [] \<and> \<not> py_eq u v" for ks by (cases ks) auto
  with False show ?thesis by (auto simp: child_paths_simps(2))
qed

lemma distinct_child_paths: "distinct (child_paths u v)"
  using distinct_diff_paths by (cases "is_dict u \<and> is_dict v") (auto simp: is_dict_iff child_paths_simps)

lemma equal_child_paths: "py_eq u v \<Longrightarrow> child_paths u v = []"
  using set_child_paths [of u v] equal_no_difference [of u v] by auto

definition differences :: "pydict \<Rightarrow> pydict \<Rightarrow> (string \<times> string list) set" where
  "differences a b = {(k, ks). k \<in> set compare_keys \<and> differs (dget a k) (dget b k) ks}"

definition difference_list :: "pydict \<Rightarrow> pydict \<Rightarrow> (string \<times> string list) list" where
  "difference_list a b = concat (map (\<lambda>k. map (Pair k) (child_paths (dget a k) (dget b k))) compare_keys)"

lemma difference_list: "set (difference_list a b) = differences a b" "distinct (difference_list a b)"
proof -
  show "set (difference_list a b) = differences a b"
    by (auto simp: difference_list_def differences_def set_child_paths)
  have "distinct (concat (map (\<lambda>k. map (Pair k) (child_paths (dget a k) (dget b k))) ks))" if "distinct ks" for ks
    using that by (induction ks) (auto simp: distinct_map distinct_child_paths inj_on_def)
  moreover have "distinct compare_keys" by code_simp
  ultimately show "distinct (difference_list a b)" by (simp only: difference_list_def)
qed

definition drift_of :: "pydict \<Rightarrow> pydict \<Rightarrow> string \<times> string list \<Rightarrow> pydict" where
  "drift_of a b = (\<lambda>(k, ks). drift_at k (dget a k) (dget b k) ks)"

lemma compare_states_paths: "compare_states a b = map (drift_of a b) (difference_list a b)"
proof -
  have "(let u = dget a k; v = dget b k
      in if py_eq u v then [] else case (u, v) of (PDict x, PDict y) \<Rightarrow> compare_dict k x y | _ \<Rightarrow> [drift k u v ''VALUE_MISMATCH'']) =
    map (drift_of a b) (map (Pair k) (child_paths (dget a k) (dget b k)))" for k
  proof (cases "is_dict (dget a k) \<and> is_dict (dget b k)")
    case True
    then obtain x y where xy: "dget a k = PDict x" "dget b k = PDict y" by (auto simp: is_dict_iff)
    then show ?thesis
      using equal_child_paths [of "PDict x" "PDict y"]
      by (auto simp: Let_def child_paths_simps(1) compare_dict_paths drift_of_def)
  next
    case False
    then show ?thesis
      by (auto simp: Let_def is_dict_iff child_paths_simps(2) drift_of_def drift_at_def path_text_def split: pyval.splits)
  qed
  then show ?thesis by (simp add: compare_states_def difference_list_def map_concat comp_def)
qed

text \<open>What a report that is not blocked rests on.\<close>

lemma reconcile_cases:
  assumes "reconcile_paper_state arg (PDict ob) = Inr r" "rc_status r \<noteq> BLOCKED"
  obtains (empty) d st where "rebuild_payload arg = Some d" "dget d ''state'' = PDict st" "rc_status r = EMPTY" "rc_drifts r = []"
      "event_count_of ob = Inr 0 \<or> ob = []"
    | (compared) d st where "rebuild_payload arg = Some d" "dget d ''state'' = PDict st"
        "rc_drifts r = compare_states st ob" "rc_drift_count r = int (length (compare_states st ob))"
        "rc_matched r \<longleftrightarrow> compare_states st ob = []" "rc_status r = (if compare_states st ob = [] then MATCH else DRIFT)"
proof -
  have valid: "validate_reconciliation_inputs (opt_dict (rebuild_payload arg)) (PDict ob) = []"
    using assms by (auto simp: reconcile_paper_state_def Let_def blocked_reconciliation_def split: if_splits)
  then obtain d st where d: "rebuild_payload arg = Some d" "dget d ''state'' = PDict st"
    by (cases "rebuild_payload arg") (auto simp: validate_reconciliation_inputs_def split: if_splits pyval.splits)
  obtain e both where e: "is_empty_rebuilt d st = Inr e"
      "(if e then observed_missing_or_empty (PDict ob) else Inr False) = Inr both"
    and r: "(if both then comparison_report EMPTY [] (PDict st) (PDict ob) [''PAPER_STATE_RECONCILIATION_EMPTY_STATE'']
       else comparison_report (if compare_states st ob \<noteq> [] then DRIFT else MATCH) (compare_states st ob) (PDict st) (PDict ob) []) = Inr r"
  proof -
    from assms(1) valid d have "bind_result (is_empty_rebuilt d st) (\<lambda>e.
        bind_result (if e then observed_missing_or_empty (PDict ob) else Inr False) (\<lambda>both.
          if both then comparison_report EMPTY [] (PDict st) (PDict ob) [''PAPER_STATE_RECONCILIATION_EMPTY_STATE'']
          else comparison_report (if compare_states st ob \<noteq> [] then DRIFT else MATCH) (compare_states st ob) (PDict st) (PDict ob) [])) =
        Inr r"
      by (simp add: reconcile_paper_state_def found_drifts_def Let_def del: bind_result_eq_Inr cong: if_cong)
    then show ?thesis unfolding bind_result_eq_Inr using that by blast
  qed
  show thesis
  proof (cases both)
    case True
    with e have "event_count_of ob = Inr 0 \<or> ob = []"
      by (auto simp: observed_missing_or_empty_def bind_result_eq_Inr split: if_splits)
    with True r d empty show thesis by (auto simp: comparison_report_def bind_result_eq_Inr)
  next
    case False
    with r d compared show thesis by (auto simp: comparison_report_def bind_result_eq_Inr split: if_splits)
  qed
qed

section \<open>Properties\<close>

text \<open>
  C29. The report of a comparison is exact. The drifts are those of the paths at which the two
  states differ under the compared keys, each with the values at its path; the drift count is
  the number of these paths, and the states match when there is none.
\<close>

theorem reconciliation_reports_differences:
  assumes "reconcile_paper_state arg (PDict ob) = Inr r" "rc_status r = MATCH \<or> rc_status r = DRIFT"
    and "rebuild_payload arg = Some d" "dget d ''state'' = PDict st"
  shows "rc_drift_count r = int (card (differences st ob)) \<and> set (rc_drifts r) = drift_of st ob ` differences st ob \<and>
    (rc_matched r \<longleftrightarrow> differences st ob = {})"
proof -
  have not_blocked: "rc_status r \<noteq> BLOCKED" using assms(2) by auto
  from assms(1) not_blocked show ?thesis
  proof (cases rule: reconcile_cases)
    case (empty d' st')
    with assms(2) show ?thesis by simp
  next
    case (compared d' st')
    then have "compare_states st' ob = compare_states st ob" using assms(3,4) by simp
    moreover have "length (difference_list st ob) = card (differences st ob)"
      using difference_list [of st ob] distinct_card [of "difference_list st ob"] by simp
    ultimately show ?thesis
      using compared difference_list(1) [of st ob] by (auto simp: compare_states_paths)
  qed
qed

text \<open>A state of one order and one position, and an observed copy that has lost the position and gained a key.\<close>

definition demo_state :: "pydict \<Rightarrow> pydict \<Rightarrow> int \<Rightarrow> pydict" where
  "demo_state orders positions events =
     [(''schema_version'', PStr ''1.0''), (''state_type'', PStr ''PAPER_REDUCED_STATE''), (''orders'', PDict orders),
      (''positions'', PDict positions), (''pnl_marks'', PList []), (''slippage_measurements'', PList []),
      (''performance_snapshots'', PList []), (''applied_event_ids'', PList []), (''applied_idempotency_keys'', PList []),
      (''last_event'', PNone), (''summary'', PDict [(''event_count'', PInt events)])] @ read_only_flags"

definition demo_rebuilt :: pydict where
  "demo_rebuilt = demo_state [(''o1'', PDict [(''status'', PStr ''OPEN'')])] [(''p1'', PDict [(''net'', PInt 5)])] 2"

definition demo_observed :: pydict where
  "demo_observed = demo_state [(''o1'', PDict [(''note'', PNone), (''status'', PStr ''FILLED'')])] [] 2"

theorem reconciliation_reports_differences_witness:
  "\<exists>r. reconcile_paper_state (RebuildDict [(''status'', PStr ''REBUILT''), (''state'', PDict demo_rebuilt)]) (PDict demo_observed) = Inr r \<and>
     card (differences demo_rebuilt demo_observed) = 2"
proof -
  have "case reconcile_paper_state (RebuildDict [(''status'', PStr ''REBUILT''), (''state'', PDict demo_rebuilt)]) (PDict demo_observed) of
      Inr r \<Rightarrow> rc_status r = DRIFT \<and> rc_drift_count r = 2 | Inl _ \<Rightarrow> False" by code_simp
  then obtain r where r: "reconcile_paper_state (RebuildDict [(''status'', PStr ''REBUILT''), (''state'', PDict demo_rebuilt)])
      (PDict demo_observed) = Inr r" "rc_status r = MATCH \<or> rc_status r = DRIFT" "rc_drift_count r = 2"
    by (auto split: sum.splits)
  have "rebuild_payload (RebuildDict [(''status'', PStr ''REBUILT''), (''state'', PDict demo_rebuilt)]) =
      Some [(''status'', PStr ''REBUILT''), (''state'', PDict demo_rebuilt)]"
    "dget [(''status'', PStr ''REBUILT''), (''state'', PDict demo_rebuilt)] ''state'' = PDict demo_rebuilt" by simp_all
  from reconciliation_reports_differences [OF r(1,2) this] r(1,3) show ?thesis by auto
qed

text \<open>
  Two states whose reported event counts are 0 count as empty, and the report matches without a
  comparison, whatever positions they hold.
\<close>

lemma empty_report_skips_comparison:
  "case reconcile_paper_state (RebuildDict [(''status'', PStr ''EMPTY''), (''state'', PDict (demo_state [] [] 0))])
       (PDict (demo_state [] [(''p1'', PDict [(''net'', PInt 5)])] 0)) of
     Inr r \<Rightarrow> rc_matched r \<and> rc_drifts r = [] | Inl _ \<Rightarrow> False"
  by code_simp

section \<open>Reflexivity\<close>

fun nan_free :: "pyval \<Rightarrow> bool" where
  "nan_free (PFloat f) = (f \<noteq> NaN)"
| "nan_free (PList xs) = list_all nan_free xs"
| "nan_free (PDict d) = list_all (\<lambda>(k, v). nan_free v) d"
| "nan_free _ = True"

lemma nan_free_dget: "nan_free (PDict d) \<Longrightarrow> nan_free (dget d k)"
  by (induction d) auto

lemma py_eq_refl: "nan_free v \<Longrightarrow> py_eq v v"
proof (induction v rule: measure_induct_rule [of size])
  case (less v)
  show ?case
  proof (cases v)
    case (PList xs)
    with less show ?thesis using list_item_size by (auto simp: zip_same list_all_iff)
  next
    case (PDict d)
    then have "py_eq (dget d k) (dget d k)" if "k \<in> set (map fst d)" for k
      using less dget_size [OF that] nan_free_dget [of d k] by blast
    with PDict show ?thesis by (auto simp: list_all_iff)
  qed (use less.prems in \<open>auto simp: same_number_def\<close>)
qed

text \<open>A rebuild leaves a state that the reconciliation accepts and can count.\<close>

lemma reduced_counts:
  assumes "reduce_paper_events (EventsList raws) = Inr r" "rr_blockers r = []"
  shows "\<exists>n. dget (rs_summary (rr_state r)) ''event_count'' = PInt n"
  using assms(1)
proof (cases rule: reduce_cases)
  case empty
  then show ?thesis by (simp add: empty_state_def empty_summary_def)
next
  case (reduced es s)
  then show ?thesis using reduction_summary(1) [OF reduced(7,8)] by blast
qed (use assms(2) in simp)

lemma rebuilt_state:
  assumes "rebuild_paper_journal files path = Inr b" "rb_rebuilt b"
  obtains raws r where "reduce_paper_events (EventsList raws) = Inr r" "rr_blockers r = []"
    "rb_state b = reduced_state_to_dict (rr_state r)" "rb_status b \<noteq> Paper_Rebuild.BLOCKED"
  using assms
  by (auto simp: rebuild_paper_journal_def Let_def blocked_rebuild_def bind_result_eq_Inr split: if_splits)

lemma own_state_valid:
  assumes "rb_state b = reduced_state_to_dict s" "rb_status b \<noteq> Paper_Rebuild.BLOCKED"
  shows "validate_reconciliation_inputs (PDict (rebuild_result_to_dict b)) (PDict (rb_state b)) = []"
proof -
  have "state_blockers (reduced_state_to_dict s) source = []" for source
    by (simp add: state_blockers_def reduced_state_to_dict_def required_state_keys_def has_key_def)
  moreover have "rebuild_status_value (rb_status b) \<noteq> ''BLOCKED''" using assms(2) by (cases "rb_status b") auto
  ultimately show ?thesis
    using assms by (simp add: validate_reconciliation_inputs_def rebuild_result_to_dict_def has_key_def)
qed

text \<open>
  The rebuild and the reconciliation agree: the report of a rebuilt journal against the state
  that the rebuild itself exported, without a NaN in it, never raises and finds no drift.
\<close>

theorem rebuild_reconciles_with_itself:
  assumes "rebuild_paper_journal files path = Inr b" "rb_rebuilt b" "nan_free (PDict (rb_state b))"
  shows "\<exists>r. reconcile_paper_state (RebuildObject (PDict (rebuild_result_to_dict b))) (PDict (rb_state b)) = Inr r \<and>
    rc_matched r \<and> rc_drifts r = [] \<and> rc_blockers r = []"
proof -
  from assms(1,2) obtain raws q where q: "reduce_paper_events (EventsList raws) = Inr q" "rr_blockers q = []"
      and state: "rb_state b = reduced_state_to_dict (rr_state q)" and status: "rb_status b \<noteq> Paper_Rebuild.BLOCKED"
    by (rule rebuilt_state)
  obtain n where n: "dget (rs_summary (rr_state q)) ''event_count'' = PInt n" using reduced_counts [OF q] by blast
  let ?st = "rb_state b"
  have count: "event_count_of ?st = Inr n"
    by (simp add: event_count_of_def state reduced_state_to_dict_def n py_or_def)
  have "?st \<noteq> []" "dget ?st ''orders'' = PDict (rs_orders (rr_state q))" "dget ?st ''positions'' = PDict (rs_positions (rr_state q))"
    by (simp_all add: state reduced_state_to_dict_def)
  then have "\<exists>d. state_summary (PDict ?st) = Inr d"
    by (simp add: state_summary_def count count_of_def py_or_def)
  then obtain d where sum: "state_summary (PDict ?st) = Inr d" ..
  have "py_eq (dget ?st k) (dget ?st k)" for k
    by (intro py_eq_refl nan_free_dget assms(3))
  then have none: "compare_states ?st ?st = []" by (simp add: compare_states_def)
  have payload: "dget (rebuild_result_to_dict b) ''state'' = PDict ?st" by (simp add: rebuild_result_to_dict_def)
  show ?thesis
  proof -
    have "\<exists>e. is_empty_rebuilt (rebuild_result_to_dict b) ?st = Inr e"
      by (auto simp: is_empty_rebuilt_def count)
    then obtain e where e: "is_empty_rebuilt (rebuild_result_to_dict b) ?st = Inr e" ..
    have "\<exists>f. observed_missing_or_empty (PDict ?st) = Inr f"
      by (auto simp: observed_missing_or_empty_def count)
    then obtain f where f: "observed_missing_or_empty (PDict ?st) = Inr f" ..
    note ef = e f
    have report: "\<exists>r. comparison_report status [] (PDict ?st) (PDict ?st) ws = Inr r \<and> rc_matched r \<and> rc_drifts r = [] \<and> rc_blockers r = []"
      if "status \<noteq> DRIFT" for status ws using that by (simp add: comparison_report_def sum)
    have "reconcile_paper_state (RebuildObject (PDict (rebuild_result_to_dict b))) (PDict ?st) =
        (if e \<and> f then comparison_report EMPTY [] (PDict ?st) (PDict ?st) [''PAPER_STATE_RECONCILIATION_EMPTY_STATE'']
         else comparison_report MATCH [] (PDict ?st) (PDict ?st) [])"
      using own_state_valid [OF state status] ef none payload
      by (cases e) (simp_all add: reconcile_paper_state_def Let_def found_drifts_def cong: if_cong)
    with report [of EMPTY] report [of MATCH] show ?thesis by (cases "e \<and> f") simp_all
  qed
qed

theorem rebuild_reconciles_with_itself_witness:
  "\<exists>b r. rebuild_paper_journal demo_files (PathText ''journal'') = Inr b \<and>
     reconcile_paper_state (RebuildObject (PDict (rebuild_result_to_dict b))) (PDict (rb_state b)) = Inr r \<and> rc_matched r"
proof -
  have "case rebuild_paper_journal demo_files (PathText ''journal'') of
      Inr b \<Rightarrow> rb_rebuilt b \<and> nan_free (PDict (rb_state b)) | Inl _ \<Rightarrow> False" by code_simp
  then obtain b where b: "rebuild_paper_journal demo_files (PathText ''journal'') = Inr b" "rb_rebuilt b" "nan_free (PDict (rb_state b))"
    by (auto split: sum.splits)
  from rebuild_reconciles_with_itself [OF b] b(1) show ?thesis by blast
qed

end
