(* ===== verification/Paper_Performance.thy ===== *)
theory Paper_Performance
  imports Paper_Mtm Paper_Realized Paper_Slippage
begin

text \<open>
  src/paper_trading/performance_snapshot.py: one summary of the paper account, from the position
  ledger and, when they are given, the mark-to-market valuation, the realized ledger and the
  slippage report.
\<close>

section \<open>Statuses, result, contract\<close>

datatype performance_status = READY | DEGRADED | EMPTY | BLOCKED

fun performance_status_value :: "performance_status \<Rightarrow> string" where
  "performance_status_value READY = ''READY''"
| "performance_status_value DEGRADED = ''DEGRADED''"
| "performance_status_value EMPTY = ''EMPTY''"
| "performance_status_value BLOCKED = ''BLOCKED''"

record performance_result =
  pf_created :: bool
  pf_status :: performance_status
  pf_snapshot :: "pydict option"
  pf_blockers :: "string list"
  pf_warnings :: "string list"
  pf_evidence :: pydict

definition performance_result_to_dict :: "performance_result \<Rightarrow> pydict" where
  "performance_result_to_dict r =
     [(''schema_version'', PStr ''1.0''),
      (''snapshot_type'', PStr ''PAPER_PERFORMANCE_SNAPSHOT''),
      (''created'', PBool (pf_created r)),
      (''status'', PStr (performance_status_value (pf_status r))),
      (''snapshot'', dict_or_none (pf_snapshot r)),
      (''blockers'', str_list (pf_blockers r)),
      (''warnings'', str_list (pf_warnings r)),
      (''evidence'', PDict (pf_evidence r)),
      (''paper_only'', PBool True),
      (''read_only'', PBool True),
      (''is_order_action'', PBool False),
      (''broker_api_called'', PBool False),
      (''real_order_id'', PNone)]"

definition performance_result_keys :: "string list" where
  "performance_result_keys =
     [''schema_version'', ''snapshot_type'', ''created'', ''status'', ''snapshot'', ''blockers'', ''warnings'', ''evidence'',
      ''paper_only'', ''read_only'', ''is_order_action'', ''broker_api_called'', ''real_order_id'']"

definition performance_snapshot_keys :: "string list" where
  "performance_snapshot_keys =
     [''schema_version'', ''snapshot_type'', ''status'', ''summary'', ''positions'', ''pnl'', ''slippage'', ''diagnostics'',
      ''source_statuses'', ''paper_only'', ''read_only'', ''is_order_action'', ''broker_api_called'', ''real_order_id'']"

definition performance_summary_keys :: "string list" where
  "performance_summary_keys =
     [''position_count'', ''open_position_count'', ''net_quantity_abs'', ''total_unrealized_pnl'', ''total_realized_pnl'',
      ''combined_pnl'', ''gross_notional_value'', ''slippage_event_count'', ''total_slippage_amount'', ''paper_only'',
      ''read_only'', ''is_order_action'', ''broker_api_called'', ''real_order_id'']"

definition performance_schema_contract :: pydict where
  "performance_schema_contract =
     [(''schema_version'', PStr ''1.0''),
      (''snapshot_type'', PStr ''PAPER_PERFORMANCE_SNAPSHOT''),
      (''consumes'', str_list
         [''PAPER_POSITION_LEDGER'', ''PAPER_MTM_PNL_TRACKER'', ''PAPER_REALIZED_PNL_LEDGER'', ''PAPER_SLIPPAGE_FILL_QUALITY'']),
      (''statuses'', str_list (map performance_status_value [READY, DEGRADED, EMPTY, BLOCKED])),
      (''required_result_keys'', str_list performance_result_keys),
      (''required_snapshot_keys'', str_list performance_snapshot_keys),
      (''required_summary_keys'', str_list performance_summary_keys),
      (''safe_flags'', PDict read_only_flags),
      (''scope_boundary'', str_list
         [''paper_only'', ''read_only_aggregation_only'', ''no_broker_execution'', ''no_live_orders'', ''no_ui'',
          ''no_persistence'', ''no_order_decisions''])]"

interpretation performance_report: paper_report performance_result_to_dict performance_result_keys
  by unfold_locales (simp_all add: performance_result_to_dict_def performance_result_keys_def has_key_def flags_safe_def)

section \<open>The sources\<close>

record performance_sources =
  sr_position_ledger :: pyval
  sr_mtm_pnl :: pyval
  sr_realized_pnl :: pyval
  sr_slippage :: pyval

definition present :: "pyval \<Rightarrow> bool" where
  "present v \<longleftrightarrow> as_dict v \<noteq> []"

definition optional_source_blockers :: "pyval \<Rightarrow> string \<Rightarrow> string \<Rightarrow> string list" where
  "optional_source_blockers source expected_key prefix =
     (if \<not> present source then []
      else add_if (dget (as_dict source) expected_key \<noteq> PStr prefix) (prefix @ ''_TYPE_REQUIRED'') @
           validate_safe_flags prefix (as_dict source))"

definition optional_source_warnings :: "pyval \<Rightarrow> string \<Rightarrow> string list" where
  "optional_source_warnings source prefix = add_if (source \<noteq> PNone \<and> \<not> present source) (prefix @ ''_EMPTY'')"

definition position_source_blockers :: "pyval \<Rightarrow> string list" where
  "position_source_blockers position_ledger =
     (if \<not> present position_ledger then [''PAPER_POSITION_LEDGER_REQUIRED'']
      else (let d = as_dict position_ledger
            in add_if (dget d ''ledger_type'' \<noteq> PStr ''PAPER_POSITION_LEDGER'') ''PAPER_POSITION_LEDGER_TYPE_REQUIRED'' @
               validate_safe_flags ''PAPER_POSITION_LEDGER'' d @
               add_if (\<not> is_dict (dget d ''positions'')) ''PAPER_POSITION_LEDGER_POSITIONS_INVALID''))"

definition validate_performance_inputs :: "performance_sources \<Rightarrow> string list \<times> string list" where
  "validate_performance_inputs s =
     (dedupe (position_source_blockers (sr_position_ledger s) @
        optional_source_blockers (sr_mtm_pnl s) ''tracker_type'' ''PAPER_MTM_PNL_TRACKER'' @
        optional_source_blockers (sr_realized_pnl s) ''ledger_type'' ''PAPER_REALIZED_PNL_LEDGER'' @
        optional_source_blockers (sr_slippage s) ''report_type'' ''PAPER_SLIPPAGE_FILL_QUALITY''),
      dedupe (optional_source_warnings (sr_mtm_pnl s) ''PAPER_MTM_PNL_TRACKER'' @
        optional_source_warnings (sr_realized_pnl s) ''PAPER_REALIZED_PNL_LEDGER'' @
        optional_source_warnings (sr_slippage s) ''PAPER_SLIPPAGE_FILL_QUALITY'' @
        add_if (\<not> present (sr_mtm_pnl s)) ''PAPER_MTM_PNL_TRACKER_MISSING'' @
        add_if (\<not> present (sr_realized_pnl s)) ''PAPER_REALIZED_PNL_LEDGER_MISSING'' @
        add_if (\<not> present (sr_slippage s)) ''PAPER_SLIPPAGE_FILL_QUALITY_MISSING''))"

section \<open>The blocks of the snapshot\<close>

record position_totals =
  pt_rows :: "pydict list"
  pt_open_rows :: "pydict list"
  pt_long_count :: nat
  pt_short_count :: nat
  pt_net_quantity_abs :: int

definition row_net :: "pydict \<Rightarrow> int result" where
  "row_net row = int_or_zero (dget row ''net_quantity'')"

definition side_count :: "string \<Rightarrow> pydict list \<Rightarrow> nat" where
  "side_count side rows = length (filter (\<lambda>row. upper_text (dget row ''side'') = side) rows)"

definition position_totals_of :: "pyval \<Rightarrow> position_totals result" where
  "position_totals_of position_ledger =
     (let rows = map as_dict (filter is_dict (map snd (as_dict (dget (as_dict position_ledger) ''positions''))))
      in bind_result (map_result row_net rows) (\<lambda>nets.
           (let open_positions = filter (\<lambda>(row, n). n \<noteq> 0) (zip rows nets); open_rows = map fst open_positions
            in Inr \<lparr>pt_rows = rows, pt_open_rows = open_rows, pt_long_count = side_count ''LONG'' open_rows,
                    pt_short_count = side_count ''SHORT'' open_rows,
                    pt_net_quantity_abs = sum_list (map (abs \<circ> snd) open_positions)\<rparr>)))"

definition positions_block :: "position_totals \<Rightarrow> pydict" where
  "positions_block t =
     [(''position_count'', PInt (int (length (pt_rows t)))),
      (''open_position_count'', PInt (int (length (pt_open_rows t)))),
      (''long_position_count'', PInt (int (pt_long_count t))),
      (''short_position_count'', PInt (int (pt_short_count t))),
      (''flat_position_count'', PInt (int (length (pt_rows t)) - int (length (pt_open_rows t)))),
      (''net_quantity_abs'', PInt (pt_net_quantity_abs t)),
      (''positions'', PList (map PDict (pt_rows t)))] @ read_only_flags"

record pnl_totals =
  pl_unrealized :: pyfloat
  pl_realized :: pyfloat
  pl_combined :: pyfloat
  pl_gross_notional :: pyfloat
  pl_valued_position_count :: int
  pl_missing_mark_count :: int
  pl_realized_event_count :: int
  pl_winning_event_count :: int
  pl_losing_event_count :: int

definition source_summary :: "pyval \<Rightarrow> pydict" where
  "source_summary source = as_dict (dget (as_dict source) ''summary'')"

definition pnl_totals_of :: "pyval \<Rightarrow> pyval \<Rightarrow> pnl_totals result" where
  "pnl_totals_of mtm_source realized_source =
     (let mtm = source_summary mtm_source; ledger = source_summary realized_source
      in bind_result (float_or_zero (dget mtm ''total_unrealized_pnl'')) (\<lambda>unrealized.
         bind_result (float_or_zero (dget ledger ''total_realized_pnl'')) (\<lambda>realized.
         bind_result (float_or_zero (dget mtm ''gross_notional_value'')) (\<lambda>gross.
         bind_result (int_or_zero (dget mtm ''valued_position_count'')) (\<lambda>valued.
         bind_result (int_or_zero (dget mtm ''missing_mark_count'')) (\<lambda>missing.
         bind_result (int_or_zero (dget ledger ''event_count'')) (\<lambda>events.
         bind_result (int_or_zero (dget ledger ''winning_event_count'')) (\<lambda>winning.
         bind_result (int_or_zero (dget ledger ''losing_event_count'')) (\<lambda>losing.
           Inr \<lparr>pl_unrealized = unrealized, pl_realized = realized, pl_combined = py_round (float_add unrealized realized) 6,
                pl_gross_notional = gross, pl_valued_position_count = valued, pl_missing_mark_count = missing,
                pl_realized_event_count = events, pl_winning_event_count = winning, pl_losing_event_count = losing\<rparr>)))))))))"

definition pnl_block :: "pnl_totals \<Rightarrow> pydict" where
  "pnl_block t =
     [(''total_unrealized_pnl'', PFloat (pl_unrealized t)),
      (''total_realized_pnl'', PFloat (pl_realized t)),
      (''combined_pnl'', PFloat (pl_combined t)),
      (''gross_notional_value'', PFloat (pl_gross_notional t)),
      (''valued_position_count'', PInt (pl_valued_position_count t)),
      (''missing_mark_count'', PInt (pl_missing_mark_count t)),
      (''realized_event_count'', PInt (pl_realized_event_count t)),
      (''winning_event_count'', PInt (pl_winning_event_count t)),
      (''losing_event_count'', PInt (pl_losing_event_count t))] @ read_only_flags"

record slippage_totals =
  st_event_count :: int
  st_measured_quantity :: int
  st_total_amount :: pyfloat
  st_average_per_unit :: pyfloat
  st_weighted_bps :: pyfloat
  st_favorable :: int
  st_unfavorable :: int
  st_flat :: int

definition slippage_totals_of :: "pyval \<Rightarrow> slippage_totals result" where
  "slippage_totals_of slippage =
     (let summary = source_summary slippage
      in bind_result (int_or_zero (dget summary ''event_count'')) (\<lambda>events.
         bind_result (int_or_zero (dget summary ''measured_quantity'')) (\<lambda>quantity.
         bind_result (float_or_zero (dget summary ''total_slippage_amount'')) (\<lambda>amount.
         bind_result (float_or_zero (dget summary ''average_slippage_per_unit'')) (\<lambda>average.
         bind_result (float_or_zero (dget summary ''weighted_average_slippage_bps'')) (\<lambda>bps.
         bind_result (int_or_zero (dget summary ''favorable_event_count'')) (\<lambda>favorable.
         bind_result (int_or_zero (dget summary ''unfavorable_event_count'')) (\<lambda>unfavorable.
         bind_result (int_or_zero (dget summary ''flat_event_count'')) (\<lambda>flat.
           Inr \<lparr>st_event_count = events, st_measured_quantity = quantity, st_total_amount = amount,
                st_average_per_unit = average, st_weighted_bps = bps, st_favorable = favorable,
                st_unfavorable = unfavorable, st_flat = flat\<rparr>)))))))))"

definition slippage_block :: "slippage_totals \<Rightarrow> pydict" where
  "slippage_block t =
     [(''slippage_event_count'', PInt (st_event_count t)),
      (''measured_quantity'', PInt (st_measured_quantity t)),
      (''total_slippage_amount'', PFloat (st_total_amount t)),
      (''average_slippage_per_unit'', PFloat (st_average_per_unit t)),
      (''weighted_average_slippage_bps'', PFloat (st_weighted_bps t)),
      (''favorable_event_count'', PInt (st_favorable t)),
      (''unfavorable_event_count'', PInt (st_unfavorable t)),
      (''flat_event_count'', PInt (st_flat t))] @ read_only_flags"

definition performance_summary :: "position_totals \<Rightarrow> pnl_totals \<Rightarrow> slippage_totals \<Rightarrow> pydict" where
  "performance_summary p l s =
     [(''position_count'', PInt (int (length (pt_rows p)))),
      (''open_position_count'', PInt (int (length (pt_open_rows p)))),
      (''net_quantity_abs'', PInt (pt_net_quantity_abs p)),
      (''total_unrealized_pnl'', PFloat (pl_unrealized l)),
      (''total_realized_pnl'', PFloat (pl_realized l)),
      (''combined_pnl'', PFloat (pl_combined l)),
      (''gross_notional_value'', PFloat (pl_gross_notional l)),
      (''slippage_event_count'', PInt (st_event_count s)),
      (''total_slippage_amount'', PFloat (st_total_amount s))] @ read_only_flags"

definition named_sources :: "performance_sources \<Rightarrow> (string \<times> pyval) list" where
  "named_sources s = [(''mtm_pnl'', sr_mtm_pnl s), (''realized_pnl'', sr_realized_pnl s), (''slippage'', sr_slippage s)]"

definition missing_sources :: "performance_sources \<Rightarrow> string list" where
  "missing_sources s = map fst (filter (\<lambda>(name, source). \<not> present source) (named_sources s))"

definition degraded_sources :: "performance_sources \<Rightarrow> string list" where
  "degraded_sources s =
     map fst (filter (\<lambda>(name, source).
       present source \<and> starts_with (upper_text (dget (as_dict source) ''status'')) ''DEGRADED'') (named_sources s))"

definition performance_diagnostics :: "performance_sources \<Rightarrow> string list \<Rightarrow> pydict" where
  "performance_diagnostics s warnings =
     [(''missing_sources'', str_list (missing_sources s)),
      (''degraded_sources'', str_list (degraded_sources s)),
      (''warning_count'', PInt (int (length (dedupe warnings)))),
      (''position_source_present'', PBool (present (sr_position_ledger s)))] @ read_only_flags"

definition performance_status_of ::
  "position_totals \<Rightarrow> pnl_totals \<Rightarrow> slippage_totals \<Rightarrow> performance_sources \<Rightarrow> performance_status" where
  "performance_status_of p l t s =
     (if pt_rows p = [] \<and> pl_realized l = Fin 0 \<and> st_event_count t = 0 then EMPTY
      else if missing_sources s \<noteq> [] \<or> degraded_sources s \<noteq> [] then DEGRADED
      else READY)"

definition source_status :: "pyval \<Rightarrow> string \<Rightarrow> pydict" where
  "source_status source type_key =
     (if \<not> present source then [(''present'', PBool False), (''type'', PNone), (''status'', PStr ''MISSING'')]
      else [(''present'', PBool True), (''type'', dget (as_dict source) type_key), (''status'', dget (as_dict source) ''status'')])"

definition source_statuses :: "performance_sources \<Rightarrow> pydict" where
  "source_statuses s =
     [(''position_ledger'', PDict (source_status (sr_position_ledger s) ''ledger_type'')),
      (''mtm_pnl'', PDict (source_status (sr_mtm_pnl s) ''tracker_type'')),
      (''realized_pnl'', PDict (source_status (sr_realized_pnl s) ''ledger_type'')),
      (''slippage'', PDict (source_status (sr_slippage s) ''report_type''))] @ read_only_flags"

definition performance_evidence :: "performance_sources \<Rightarrow> pydict" where
  "performance_evidence s =
     [(''position_ledger_type'', dget (as_dict (sr_position_ledger s)) ''ledger_type''),
      (''mtm_tracker_type'', dget (as_dict (sr_mtm_pnl s)) ''tracker_type''),
      (''realized_ledger_type'', dget (as_dict (sr_realized_pnl s)) ''ledger_type''),
      (''slippage_report_type'', dget (as_dict (sr_slippage s)) ''report_type''),
      (''read_only_aggregation_only'', PBool True)] @ read_only_flags"

section \<open>The snapshot\<close>

definition performance_snapshot ::
  "performance_sources \<Rightarrow> pyval \<Rightarrow> string list \<Rightarrow> position_totals \<Rightarrow> pnl_totals \<Rightarrow> slippage_totals \<Rightarrow> pydict" where
  "performance_snapshot s ts_epoch warnings p l t =
     [(''schema_version'', PStr ''1.0''),
      (''snapshot_type'', PStr ''PAPER_PERFORMANCE_SNAPSHOT''),
      (''status'', PStr (performance_status_value (performance_status_of p l t s))),
      (''ts_epoch'', ts_epoch),
      (''summary'', PDict (performance_summary p l t)),
      (''positions'', PDict (positions_block p)),
      (''pnl'', PDict (pnl_block l)),
      (''slippage'', PDict (slippage_block t)),
      (''diagnostics'', PDict (performance_diagnostics s warnings)),
      (''source_statuses'', PDict (source_statuses s))] @ read_only_flags"

definition build_performance_snapshot :: "performance_sources \<Rightarrow> pyval \<Rightarrow> performance_result result" where
  "build_performance_snapshot s ts_epoch =
     (case validate_performance_inputs s of (blockers, warnings) \<Rightarrow>
        if blockers \<noteq> []
        then Inr \<lparr>pf_created = False, pf_status = BLOCKED, pf_snapshot = None, pf_blockers = blockers,
                  pf_warnings = warnings, pf_evidence = performance_evidence s\<rparr>
        else
          bind_result (position_totals_of (sr_position_ledger s)) (\<lambda>p.
          bind_result (pnl_totals_of (sr_mtm_pnl s) (sr_realized_pnl s)) (\<lambda>l.
          bind_result (slippage_totals_of (sr_slippage s)) (\<lambda>t.
            Inr \<lparr>pf_created = True, pf_status = performance_status_of p l t s,
                 pf_snapshot = Some (performance_snapshot s ts_epoch warnings p l t), pf_blockers = [],
                 pf_warnings = dedupe warnings, pf_evidence = performance_evidence s\<rparr>))))"

section \<open>The positions of a ledger\<close>

definition entry_net :: "pyval \<Rightarrow> int" where
  "entry_net v = int_field (dget (as_dict v) ''net_quantity'')"

lemma position_ok_entry:
  assumes "position_ok key v"
  shows "is_dict v" "row_net (as_dict v) = Inr (entry_net v)" "upper_text (dget (as_dict v) ''side'') = side_of (entry_net v)"
proof -
  obtain p n where v: "v = PDict p" "dget p ''net_quantity'' = PInt n" "dget p ''side'' = PStr (side_of n)"
    using assms by (auto simp: position_ok_def)
  have "upper_text (PStr (side_of n)) = side_of n" 
    using side_upper [of n] by (cases "side_of n = []") (simp_all add: upper_text_def str_or_empty_def)
  with v show "is_dict v" "row_net (as_dict v) = Inr (entry_net v)" "upper_text (dget (as_dict v) ''side'') = side_of (entry_net v)"
    by (simp_all add: row_net_def entry_net_def)
qed

lemma filter_zip_map: "filter (\<lambda>(x, n). Q n) (zip (map f vs) (map g vs)) = map (\<lambda>v. (f v, g v)) (filter (\<lambda>v. Q (g v)) vs)"
  by (induction vs) auto

lemma side_count_map:
  assumes "\<And>v. v \<in> set vs \<Longrightarrow> upper_text (dget (as_dict v) ''side'') = side_of (entry_net v)"
  shows "side_count ''LONG'' (map as_dict vs) = length (filter (\<lambda>v. 0 < entry_net v) vs)"
    "side_count ''SHORT'' (map as_dict vs) = length (filter (\<lambda>v. entry_net v < 0) vs)"
  using assms by (induction vs) (auto simp: side_count_def side_of_def)

lemma ledger_totals:
  assumes "ledger_ok d" "position_totals_of (PDict d) = Inr t"
  obtains ps where "dget d ''positions'' = PDict ps" "distinct (map fst ps)"
    "\<And>key v. map_of ps key = Some v \<Longrightarrow> position_ok key v"
    "pt_rows t = map as_dict (map snd ps)" "length (pt_open_rows t) = length (filter (\<lambda>v. entry_net v \<noteq> 0) (map snd ps))"
    "pt_long_count t = length (filter (\<lambda>v. 0 < entry_net v) (map snd ps))"
    "pt_short_count t = length (filter (\<lambda>v. entry_net v < 0) (map snd ps))"
    "pt_net_quantity_abs t = sum_list (map (\<lambda>v. \<bar>entry_net v\<bar>) (map snd ps))"
proof -
  obtain ps where ps: "dget d ''positions'' = PDict ps" "distinct (map fst ps)"
    "\<And>key v. map_of ps key = Some v \<Longrightarrow> position_ok key v"
    using assms(1) unfolding ledger_ok_def by blast
  define vs where "vs = map snd ps"
  have "\<exists>key. position_ok key v" if "v \<in> set vs" for v
    using that ps(2,3) by (auto simp: vs_def) blast
  then have ok: "is_dict v" "row_net (as_dict v) = Inr (entry_net v)"
      "upper_text (dget (as_dict v) ''side'') = side_of (entry_net v)" if "v \<in> set vs" for v
    using position_ok_entry that by blast+
  have dicts: "filter is_dict vs = vs" using ok(1) by simp
  have nets: "map_result row_net (map as_dict vs) = Inr (map entry_net vs)"
    using ok(2) by (induction vs) auto
  define us where "us = filter (\<lambda>v. entry_net v \<noteq> 0) vs"
  have ok_us: "upper_text (dget (as_dict v) ''side'') = side_of (entry_net v)" if "v \<in> set us" for v
    using that ok(3) by (simp add: us_def)
  have t: "t = \<lparr>pt_rows = map as_dict vs, pt_open_rows = map as_dict us, pt_long_count = side_count ''LONG'' (map as_dict us),
      pt_short_count = side_count ''SHORT'' (map as_dict us), pt_net_quantity_abs = sum_list (map (\<lambda>v. \<bar>entry_net v\<bar>) us)\<rparr>"
    using assms(2)
    by (simp add: position_totals_of_def ps(1) vs_def [symmetric] dicts nets Let_def filter_zip_map us_def comp_def)
  have "filter (\<lambda>v. 0 < entry_net v) us = filter (\<lambda>v. 0 < entry_net v) vs"
    "filter (\<lambda>v. entry_net v < 0) us = filter (\<lambda>v. entry_net v < 0) vs"
    by (auto simp: us_def intro!: filter_cong)
  moreover have "sum_list (map (\<lambda>v. \<bar>entry_net v\<bar>) us) = sum_list (map (\<lambda>v. \<bar>entry_net v\<bar>) vs)"
    unfolding us_def by (induction vs) auto
  ultimately show thesis
    using that [OF ps] side_count_map [of us, OF ok_us] by (simp add: t vs_def [symmetric] us_def [symmetric])
qed

lemma count_nets:
  assumes "ledger_ok d" "dget d ''positions'' = PDict ps" "\<not> Q 0"
  shows "length (filter (\<lambda>v. Q (entry_net v)) (map snd ps)) = card {key. Q (bk_nets (book_of (PDict d)) key)}"
proof -
  obtain fs where fs: "dget d ''order_fills'' = PDict fs" and dist: "distinct (map fst ps)"
    using assms(1,2) unfolding ledger_ok_def by auto
  have "(\<exists>v. map_of ps k = Some v \<and> Q (entry_net v)) = Q (bk_nets (book_of (PDict d)) k)" for k
    unfolding book_of_ledger [OF assms(1,2) fs] book.select_convs dget_def [of ps k]
    using assms(3) by (cases "map_of ps k") (simp_all add: entry_net_def)
  then show ?thesis unfolding count_entries_card [OF dist] by simp
qed

section \<open>Properties\<close>

lemma performance_created:
  assumes "build_performance_snapshot s ts = Inr r" "pf_created r"
  obtains p l t ws where "position_totals_of (sr_position_ledger s) = Inr p"
    "pnl_totals_of (sr_mtm_pnl s) (sr_realized_pnl s) = Inr l" "slippage_totals_of (sr_slippage s) = Inr t"
    "pf_snapshot r = Some (performance_snapshot s ts ws p l t)" "pf_status r = performance_status_of p l t s"
  using assms by (auto simp: build_performance_snapshot_def bind_result_eq_Inr split: prod.splits if_splits)

text \<open>
  The snapshot of a ledger that the position module built shows its book: the open, long and
  short positions are those with a net quantity different from, above and below zero, the
  absolute net quantity is the gross quantity of the book, and the combined result is the
  rounded sum of the unrealized and the realized one.
\<close>

theorem snapshot_shows_book:
  assumes "build_performance_snapshot s ts = Inr r" "pf_created r" "sr_position_ledger s = PDict d" "ledger_ok d"
  shows "\<exists>snap positions summary b u v. pf_snapshot r = Some snap \<and> b = book_of (PDict d) \<and>
    dget snap ''positions'' = PDict positions \<and> dget snap ''summary'' = PDict summary \<and>
    dget summary ''open_position_count'' = PInt (int (card {key. bk_nets b key \<noteq> 0})) \<and>
    dget positions ''long_position_count'' = PInt (int (card {key. 0 < bk_nets b key})) \<and>
    dget positions ''short_position_count'' = PInt (int (card {key. bk_nets b key < 0})) \<and>
    dget summary ''net_quantity_abs'' = PInt (gross_net b) \<and>
    dget summary ''total_unrealized_pnl'' = PFloat u \<and> dget summary ''total_realized_pnl'' = PFloat v \<and>
    dget summary ''combined_pnl'' = PFloat (py_round (float_add u v) 6)"
proof -
  from assms(1,2) obtain p l t ws where p: "position_totals_of (sr_position_ledger s) = Inr p"
    and l: "pnl_totals_of (sr_mtm_pnl s) (sr_realized_pnl s) = Inr l"
    and snap: "pf_snapshot r = Some (performance_snapshot s ts ws p l t)"
    by (rule performance_created)
  note p = p [unfolded assms(3)]
  from assms(4) p obtain ps where ps: "dget d ''positions'' = PDict ps"
    and totals: "length (pt_open_rows p) = length (filter (\<lambda>v. entry_net v \<noteq> 0) (map snd ps))"
      "pt_long_count p = length (filter (\<lambda>v. 0 < entry_net v) (map snd ps))"
      "pt_short_count p = length (filter (\<lambda>v. entry_net v < 0) (map snd ps))"
      "pt_net_quantity_abs p = sum_list (map (\<lambda>v. \<bar>entry_net v\<bar>) (map snd ps))"
    by (rule ledger_totals)
  note count = count_nets [OF assms(4) ps]
  have counts: "length (pt_open_rows p) = card {key. bk_nets (book_of (PDict d)) key \<noteq> 0}"
      "pt_long_count p = card {key. 0 < bk_nets (book_of (PDict d)) key}"
      "pt_short_count p = card {key. bk_nets (book_of (PDict d)) key < 0}"
    unfolding totals by (rule count, simp)+
  have gross: "pt_net_quantity_abs p = gross_net (book_of (PDict d))"
    unfolding totals entry_net_def by (rule nets_of_rows [OF assms(4) ps])
  have combined: "pl_combined l = py_round (float_add (pl_unrealized l) (pl_realized l)) 6"
    using l by (auto simp: pnl_totals_of_def Let_def bind_result_eq_Inr)
  show ?thesis
    unfolding snap
    by (rule exI [of _ "performance_snapshot s ts ws p l t"], rule exI [of _ "positions_block p"],
        rule exI [of _ "performance_summary p l t"])
      (simp add: performance_snapshot_def positions_block_def performance_summary_def counts gross combined)
qed

definition demo_sources :: performance_sources where
  "demo_sources =
     \<lparr>sr_position_ledger = PDict demo_long_ledger,
      sr_mtm_pnl = PDict ([(''tracker_type'', PStr ''PAPER_MTM_PNL_TRACKER''),
        (''summary'', PDict [(''total_unrealized_pnl'', PFloat (Fin 60))])] @ safe_flags),
      sr_realized_pnl = PNone, sr_slippage = PNone\<rparr>"

theorem snapshot_shows_book_witness:
  "\<exists>r. build_performance_snapshot demo_sources PNone = Inr r \<and> pf_created r \<and> pf_status r = DEGRADED"
proof -
  have "case build_performance_snapshot demo_sources PNone of Inr r \<Rightarrow> pf_created r \<and> pf_status r = DEGRADED | Inl _ \<Rightarrow> False"
    by code_simp
  then obtain r where r: "build_performance_snapshot demo_sources PNone = Inr r" "pf_created r" "pf_status r = DEGRADED"
    by (auto split: sum.splits)
  have "sr_position_ledger demo_sources = PDict demo_long_ledger" by (simp add: demo_sources_def)
  from snapshot_shows_book [OF r(1,2) this demo_long_ledger_ok] r show ?thesis by blast
qed

text \<open>
  The results of the realized and slippage modules carry the type of the ledger and of the
  report inside them, but no summary of their own: a snapshot accepts them and counts nothing.
\<close>

lemma result_wrappers_count_nothing:
  "optional_source_blockers (PDict (realized_result_to_dict q)) ''ledger_type'' ''PAPER_REALIZED_PNL_LEDGER'' = []"
  "source_summary (PDict (realized_result_to_dict q)) = []"
  "optional_source_blockers (PDict (slippage_result_to_dict r)) ''report_type'' ''PAPER_SLIPPAGE_FILL_QUALITY'' = []"
  "source_summary (PDict (slippage_result_to_dict r)) = []"
  using realized_report.flags [of q] slippage_report.flags [of r]
  by (simp_all add: optional_source_blockers_def source_summary_def) (simp_all add: realized_result_to_dict_def slippage_result_to_dict_def)

end
