(* ===== verification/Paper_Evidence.thy ===== *)
theory Paper_Evidence
  imports Paper_Payload
begin

text \<open>
  src/paper_trading/persistence.py: paper evidence as JSON lines, each record with the digest of
  its payload. As for the journal, a line is the value that \<open>json.loads\<close> makes of it, and the
  file system is the content at each path, nothing when there is no file.
\<close>

section \<open>Records\<close>

datatype evidence_status = WRITTEN | LOADED | EMPTY | BLOCKED

fun evidence_status_value :: "evidence_status \<Rightarrow> string" where
  "evidence_status_value WRITTEN = ''WRITTEN''"
| "evidence_status_value LOADED = ''LOADED''"
| "evidence_status_value EMPTY = ''EMPTY''"
| "evidence_status_value BLOCKED = ''BLOCKED''"

definition stable_payload_hash :: "pydict \<Rightarrow> string" where
  "stable_payload_hash payload = sha256_hex (canonical_json (PDict payload))"

record evidence_record =
  ep_record_type :: string
  ep_cycle_id :: string
  ep_payload :: pydict
  ep_candidate_id :: "string option"
  ep_strategy_id :: "string option"
  ep_created_at_epoch :: "pyfloat option"
  ep_source :: string

definition evidence_record_id :: "evidence_record \<Rightarrow> string" where
  "evidence_record_id r =
     ''paper-evidence-'' @ digest16 (join ''|'' [''1.0'', ep_record_type r, ep_cycle_id r,
       (case ep_candidate_id r of Some c \<Rightarrow> c | None \<Rightarrow> []), (case ep_strategy_id r of Some s \<Rightarrow> s | None \<Rightarrow> []),
       stable_payload_hash (ep_payload r)])"

definition evidence_record_to_dict :: "evidence_record \<Rightarrow> pydict" where
  "evidence_record_to_dict r =
     [(''schema_version'', PStr ''1.0''),
      (''record_type'', PStr (ep_record_type r)),
      (''record_id'', PStr (evidence_record_id r)),
      (''cycle_id'', PStr (ep_cycle_id r)),
      (''candidate_id'', opt_str (ep_candidate_id r)),
      (''strategy_id'', opt_str (ep_strategy_id r)),
      (''created_at_epoch'', opt_float (ep_created_at_epoch r)),
      (''source'', PStr (ep_source r)),
      (''payload'', PDict (ep_payload r)),
      (''payload_hash'', PStr (stable_payload_hash (ep_payload r))),
      (''paper_only'', PBool True),
      (''read_only'', PBool True),
      (''is_order_action'', PBool False),
      (''broker_api_called'', PBool False),
      (''real_order_id'', PNone)]"

definition evidence_record_keys :: "string list" where
  "evidence_record_keys =
     [''schema_version'', ''record_type'', ''record_id'', ''cycle_id'', ''candidate_id'', ''strategy_id'',
      ''created_at_epoch'', ''source'', ''payload'', ''payload_hash'', ''paper_only'', ''read_only'', ''is_order_action'',
      ''broker_api_called'', ''real_order_id'']"

section \<open>Results, contract\<close>

record evidence_write =
  ew_written :: bool
  ew_status :: evidence_status
  ew_path :: "string option"
  ew_record :: "pydict option"
  ew_blockers :: "string list"
  ew_warnings :: "string list"

definition evidence_write_to_dict :: "evidence_write \<Rightarrow> pydict" where
  "evidence_write_to_dict r =
     [(''schema_version'', PStr ''1.0''),
      (''persistence_type'', PStr ''PAPER_EVIDENCE_JSONL_PERSISTENCE''),
      (''operation'', PStr ''WRITE''),
      (''written'', PBool (ew_written r)),
      (''status'', PStr (evidence_status_value (ew_status r))),
      (''path'', opt_str (ew_path r)),
      (''record'', opt_dict (ew_record r)),
      (''blockers'', str_list (ew_blockers r)),
      (''warnings'', str_list (ew_warnings r)),
      (''paper_only'', PBool True),
      (''read_only'', PBool True),
      (''is_order_action'', PBool False),
      (''broker_api_called'', PBool False),
      (''real_order_id'', PNone)]"

definition evidence_write_keys :: "string list" where
  "evidence_write_keys =
     [''schema_version'', ''persistence_type'', ''operation'', ''written'', ''status'', ''path'', ''record'', ''blockers'',
      ''warnings'', ''paper_only'', ''read_only'', ''is_order_action'', ''broker_api_called'', ''real_order_id'']"

record evidence_read =
  er_loaded :: bool
  er_status :: evidence_status
  er_path :: "string option"
  er_records :: "pydict list"
  er_blockers :: "string list"
  er_warnings :: "string list"

definition evidence_read_to_dict :: "evidence_read \<Rightarrow> pydict" where
  "evidence_read_to_dict r =
     [(''schema_version'', PStr ''1.0''),
      (''persistence_type'', PStr ''PAPER_EVIDENCE_JSONL_PERSISTENCE''),
      (''operation'', PStr ''READ''),
      (''loaded'', PBool (er_loaded r)),
      (''status'', PStr (evidence_status_value (er_status r))),
      (''path'', opt_str (er_path r)),
      (''record_count'', PInt (int (length (er_records r)))),
      (''records'', PList (map PDict (er_records r))),
      (''blockers'', str_list (er_blockers r)),
      (''warnings'', str_list (er_warnings r)),
      (''paper_only'', PBool True),
      (''read_only'', PBool True),
      (''is_order_action'', PBool False),
      (''broker_api_called'', PBool False),
      (''real_order_id'', PNone)]"

definition evidence_read_keys :: "string list" where
  "evidence_read_keys =
     [''schema_version'', ''persistence_type'', ''operation'', ''loaded'', ''status'', ''path'', ''record_count'',
      ''records'', ''blockers'', ''warnings'', ''paper_only'', ''read_only'', ''is_order_action'', ''broker_api_called'',
      ''real_order_id'']"

definition evidence_schema_contract :: pydict where
  "evidence_schema_contract =
     [(''schema_version'', PStr ''1.0''),
      (''persistence_type'', PStr ''PAPER_EVIDENCE_JSONL_PERSISTENCE''),
      (''format'', PStr ''JSONL''),
      (''statuses'', str_list (map evidence_status_value [WRITTEN, LOADED, EMPTY, BLOCKED])),
      (''required_record_keys'', str_list evidence_record_keys),
      (''required_write_result_keys'', str_list evidence_write_keys),
      (''required_read_result_keys'', str_list evidence_read_keys),
      (''safe_flags'', PDict read_only_flags),
      (''scope_boundary'', str_list
         [''local_jsonl_only'', ''paper_evidence_only'', ''no_runtime_wiring'', ''no_api'', ''no_ui'', ''no_broker_execution'',
          ''no_live_orders'', ''no_strategy_work''])]"

interpretation evidence_record_report: paper_report evidence_record_to_dict evidence_record_keys
  by unfold_locales (simp_all add: evidence_record_to_dict_def evidence_record_keys_def has_key_def flags_safe_def)

interpretation evidence_write_report: paper_report evidence_write_to_dict evidence_write_keys
  by unfold_locales (simp_all add: evidence_write_to_dict_def evidence_write_keys_def has_key_def flags_safe_def)

interpretation evidence_read_report: paper_report evidence_read_to_dict evidence_read_keys
  by unfold_locales (simp_all add: evidence_read_to_dict_def evidence_read_keys_def has_key_def flags_safe_def)

section \<open>Validation\<close>

text \<open>\<open>_str_or_none\<close> strips the text.\<close>

definition text_arg :: "pyval \<Rightarrow> string option" where
  "text_arg v = (if is_blank v then None else let t = strip (py_str v) in if t = [] then None else Some t)"

definition validate_evidence_path :: "path_arg \<Rightarrow> string list" where
  "validate_evidence_path path =
     (case path of
        PathNone \<Rightarrow> [''PAPER_EVIDENCE_PATH_REQUIRED'']
      | PathOther \<Rightarrow> [''PAPER_EVIDENCE_PATH_MUST_BE_STRING_OR_PATH'']
      | _ \<Rightarrow> add_if (normalize_path path = None \<or> normalize_path path = Some []) ''PAPER_EVIDENCE_PATH_REQUIRED'')"

definition validate_evidence_write :: "path_arg \<Rightarrow> pyval \<Rightarrow> pyval \<Rightarrow> pyval \<Rightarrow> string list" where
  "validate_evidence_write path record_type cycle_id payload =
     dedupe
       (validate_evidence_path path @
        add_if (text_arg record_type = None) ''PAPER_EVIDENCE_RECORD_TYPE_REQUIRED'' @
        add_if (text_arg cycle_id = None) ''PAPER_EVIDENCE_CYCLE_ID_REQUIRED'' @
        (case payload of
           PNone \<Rightarrow> [''PAPER_EVIDENCE_PAYLOAD_REQUIRED'']
         | PDict d \<Rightarrow> nested_payload_blockers ''PAPER_EVIDENCE_PAYLOAD'' payload
         | _ \<Rightarrow> [''PAPER_EVIDENCE_PAYLOAD_MUST_BE_OBJECT'']))"

definition validate_evidence_record :: "pyval \<Rightarrow> string list" where
  "validate_evidence_record entry =
     (case entry of
        PNone \<Rightarrow> [''PAPER_EVIDENCE_RECORD_REQUIRED'']
      | PDict d \<Rightarrow>
          dedupe
            (concat (map (\<lambda>key. add_if (\<not> has_key d key) (''PAPER_EVIDENCE_RECORD_MISSING_'' @ upper key)) evidence_record_keys) @
             add_if (text_arg (dget d ''record_type'') = None) ''PAPER_EVIDENCE_RECORD_TYPE_REQUIRED'' @
             add_if (text_arg (dget d ''cycle_id'') = None) ''PAPER_EVIDENCE_CYCLE_ID_REQUIRED'' @
             (case dget d ''payload'' of
                PDict p \<Rightarrow>
                  nested_payload_blockers ''PAPER_EVIDENCE_PAYLOAD'' (PDict p) @
                  add_if (dget d ''payload_hash'' \<noteq> PStr (stable_payload_hash p)) ''PAPER_EVIDENCE_PAYLOAD_HASH_MISMATCH''
              | _ \<Rightarrow> [''PAPER_EVIDENCE_PAYLOAD_MUST_BE_OBJECT'']) @
             add_if (dget d ''paper_only'' \<noteq> PBool True) ''PAPER_EVIDENCE_RECORD_UNSAFE_PAPER_ONLY_FLAG'' @
             add_if (dget d ''read_only'' \<noteq> PBool True) ''PAPER_EVIDENCE_RECORD_UNSAFE_READ_ONLY_FLAG'' @
             add_if (dget d ''is_order_action'' \<noteq> PBool False) ''PAPER_EVIDENCE_RECORD_UNSAFE_ORDER_ACTION_FLAG'' @
             add_if (dget d ''broker_api_called'' \<noteq> PBool False) ''PAPER_EVIDENCE_RECORD_UNSAFE_BROKER_API_FLAG'' @
             add_if (dget d ''real_order_id'' \<noteq> PNone) ''PAPER_EVIDENCE_RECORD_UNSAFE_REAL_ORDER_ID'')
      | _ \<Rightarrow> [''PAPER_EVIDENCE_RECORD_MUST_BE_OBJECT''])"

section \<open>Writing\<close>

type_synonym file_system = "string \<Rightarrow> journal_file"

record evidence_request =
  eq_record_type :: pyval
  eq_cycle_id :: pyval
  eq_payload :: pyval
  eq_candidate_id :: pyval
  eq_strategy_id :: pyval
  eq_created_at_epoch :: pyval
  eq_source :: pyval

definition evidence_record_of :: "evidence_request \<Rightarrow> evidence_record result" where
  "evidence_record_of q =
     bind_result (float_or_none (eq_created_at_epoch q)) (\<lambda>created_at.
       Inr \<lparr>ep_record_type = strip (py_str (eq_record_type q)), ep_cycle_id = strip (py_str (eq_cycle_id q)),
            ep_payload = as_dict (eq_payload q), ep_candidate_id = text_arg (eq_candidate_id q),
            ep_strategy_id = text_arg (eq_strategy_id q), ep_created_at_epoch = created_at,
            ep_source = (case text_arg (eq_source q) of Some s \<Rightarrow> s | None \<Rightarrow> ''paper_evidence_persistence'')\<rparr>)"

definition append_row :: "string \<Rightarrow> journal_row \<Rightarrow> file_system \<Rightarrow> file_system" where
  "append_row path row files = files(path := Some ((case files path of Some rows \<Rightarrow> rows | None \<Rightarrow> []) @ [row]))"

definition path_or_empty :: "path_arg \<Rightarrow> string" where
  "path_or_empty path = (case normalize_path path of Some p \<Rightarrow> p | None \<Rightarrow> [])"

definition write_evidence_record :: "path_arg \<Rightarrow> evidence_request \<Rightarrow> file_system \<Rightarrow> (evidence_write \<times> file_system) result" where
  "write_evidence_record path q files =
     (let blockers = validate_evidence_write path (eq_record_type q) (eq_cycle_id q) (eq_payload q);
          blocked = \<lparr>ew_written = False, ew_status = BLOCKED, ew_path = normalize_path path, ew_record = None,
                     ew_blockers = blockers, ew_warnings = []\<rparr>
      in if blockers \<noteq> [] then Inr (blocked, files)
         else
           bind_result (evidence_record_of q) (\<lambda>r.
           (let d = evidence_record_to_dict r; record_blockers = validate_evidence_record (PDict d)
            in if record_blockers \<noteq> []
               then Inr (blocked\<lparr>ew_record := Some d, ew_blockers := record_blockers\<rparr>, files)
               else Inr (\<lparr>ew_written = True, ew_status = WRITTEN, ew_path = Some (path_or_empty path), ew_record = Some d,
                          ew_blockers = [], ew_warnings = []\<rparr>,
                         append_row (path_or_empty path) (JsonRow (stable_json d)) files))))"

section \<open>Loading\<close>

definition evidence_row_blockers :: "nat \<times> journal_row \<Rightarrow> string list" where
  "evidence_row_blockers = (\<lambda>(line, row).
     case row of
       BlankRow \<Rightarrow> []
     | CorruptRow \<Rightarrow> [''PAPER_EVIDENCE_CORRUPT_JSONL_LINE_'' @ int_to_string (int line)]
     | JsonRow (PDict d) \<Rightarrow> map (line_label line) (validate_evidence_record (PDict d))
     | JsonRow _ \<Rightarrow> [''PAPER_EVIDENCE_NON_OBJECT_JSONL_LINE_'' @ int_to_string (int line)])"

definition evidence_row_record :: "journal_row \<Rightarrow> pydict list" where
  "evidence_row_record row =
     (case row of JsonRow (PDict d) \<Rightarrow> (if validate_evidence_record (PDict d) = [] then [d] else []) | _ \<Rightarrow> [])"

definition loaded_evidence :: "string \<Rightarrow> evidence_status \<Rightarrow> pydict list \<Rightarrow> string list \<Rightarrow> evidence_read" where
  "loaded_evidence path status records warnings =
     \<lparr>er_loaded = True, er_status = status, er_path = Some path, er_records = records, er_blockers = [],
      er_warnings = warnings\<rparr>"

definition blocked_evidence :: "string option \<Rightarrow> string list \<Rightarrow> evidence_read" where
  "blocked_evidence path blockers =
     \<lparr>er_loaded = False, er_status = BLOCKED, er_path = path, er_records = [], er_blockers = blockers, er_warnings = []\<rparr>"

definition load_evidence_rows :: "string \<Rightarrow> journal_row list \<Rightarrow> evidence_read" where
  "load_evidence_rows path rows =
     (let blockers = concat (map evidence_row_blockers (enumerate 1 rows)); records = concat (map evidence_row_record rows)
      in if blockers \<noteq> [] then blocked_evidence (Some path) (dedupe blockers)
         else if records = [] then loaded_evidence path EMPTY [] [''PAPER_EVIDENCE_NO_RECORDS_LOADED'']
         else loaded_evidence path LOADED records [])"

definition load_evidence_records :: "path_arg \<Rightarrow> file_system \<Rightarrow> evidence_read" where
  "load_evidence_records path files =
     (let blockers = validate_evidence_path path; p = path_or_empty path
      in if blockers \<noteq> [] then blocked_evidence (normalize_path path) blockers
         else
           (case files p of
              None \<Rightarrow> loaded_evidence p EMPTY [] [''PAPER_EVIDENCE_FILE_MISSING_EMPTY'']
            | Some [] \<Rightarrow> loaded_evidence p EMPTY [] [''PAPER_EVIDENCE_FILE_EMPTY'']
            | Some rows \<Rightarrow> load_evidence_rows p rows))"

section \<open>What the validation lets pass\<close>

definition record_intact :: "pydict \<Rightarrow> bool" where
  "record_intact d \<longleftrightarrow>
     list_all (has_key d) evidence_record_keys \<and> text_arg (dget d ''record_type'') \<noteq> None \<and> text_arg (dget d ''cycle_id'') \<noteq> None \<and>
     (\<exists>p. dget d ''payload'' = PDict p \<and> deeply_safe (PDict p) \<and> dget d ''payload_hash'' = PStr (stable_payload_hash p)) \<and>
     dget d ''paper_only'' = PBool True \<and> dget d ''read_only'' = PBool True \<and> dget d ''is_order_action'' = PBool False \<and>
     dget d ''broker_api_called'' = PBool False \<and> dget d ''real_order_id'' = PNone"

lemma not_blank_label: "\<not> blank ''PAPER_EVIDENCE_PAYLOAD''" "\<not> blank ''PAPER_EVIDENCE_RECORD_MISSING_''"
  by code_simp+

lemma nested_blockers_blank:
  assumes "\<not> blank label"
  shows "list_all blank (nested_payload_blockers label (PDict d)) \<longleftrightarrow> deeply_safe (PDict d)"
proof -
  have "\<not> blank x" if "x \<in> set (nested_entry_blockers label e)" for x e
    using that assms by (cases e) (auto simp: nested_entry_blockers_def blank_append split: if_splits)
  then have "list_all blank (nested_payload_blockers label (PDict d)) \<longleftrightarrow> nested_payload_blockers label (PDict d) = []"
    by (auto simp: nested_payload_blockers_def list_all_iff)
  then show ?thesis by (simp add: nested_blockers_iff)
qed

lemma record_intact_iff: "validate_evidence_record (PDict d) = [] \<longleftrightarrow> record_intact d"
proof -
  have "list_all blank (concat (map (\<lambda>key. add_if (\<not> has_key d key) (''PAPER_EVIDENCE_RECORD_MISSING_'' @ upper key)) keys)) \<longleftrightarrow>
      list_all (has_key d) keys" for keys
    using not_blank_label(2) by (induction keys) (auto simp: add_if_def blank_append)
  then show ?thesis
    unfolding validate_evidence_record_def pyval.case dedupe_eq_Nil list_all_append record_intact_def
    by (cases "dget d ''payload''") (simp_all add: nested_blockers_blank not_blank_label)
qed

definition rows_at :: "file_system \<Rightarrow> string \<Rightarrow> journal_row list" where
  "rows_at files p = (case files p of Some rows \<Rightarrow> rows | None \<Rightarrow> [])"

definition row_acceptable :: "journal_row \<Rightarrow> bool" where
  "row_acceptable row \<longleftrightarrow> row = BlankRow \<or> (\<exists>d. row = JsonRow (PDict d) \<and> record_intact d)"

lemma row_blockers_Nil: "evidence_row_blockers (n, row) = [] \<longleftrightarrow> row_acceptable row"
  by (auto simp: evidence_row_blockers_def row_acceptable_def record_intact_iff split: journal_row.splits pyval.splits)

lemma rows_blockers_Nil: "concat (map evidence_row_blockers (enumerate n rows)) = [] \<longleftrightarrow> list_all row_acceptable rows"
  by (induction rows arbitrary: n) (simp_all add: row_blockers_Nil)

lemma row_record: "row_acceptable row \<Longrightarrow> evidence_row_record row = (case row of JsonRow v \<Rightarrow> [as_dict v] | _ \<Rightarrow> [])"
  by (auto simp: row_acceptable_def evidence_row_record_def record_intact_iff)

text \<open>A load blocks exactly when the path or a line of the file is not acceptable; otherwise it returns every record.\<close>

lemma load_outcome:
  "er_status (load_evidence_records path files) \<noteq> BLOCKED \<longleftrightarrow>
     validate_evidence_path path = [] \<and> list_all row_acceptable (rows_at files (path_or_empty path))"
  "er_status (load_evidence_records path files) \<noteq> BLOCKED \<Longrightarrow>
     er_records (load_evidence_records path files) = concat (map evidence_row_record (rows_at files (path_or_empty path)))"
  "er_status (load_evidence_records path files) = LOADED \<longleftrightarrow>
     er_status (load_evidence_records path files) \<noteq> BLOCKED \<and> er_records (load_evidence_records path files) \<noteq> []"
  using rows_blockers_Nil [of 1 "rows_at files (path_or_empty path)"]
  by (auto simp: load_evidence_records_def load_evidence_rows_def loaded_evidence_def blocked_evidence_def rows_at_def Let_def
      simp del: concat_eq_Nil_conv split: option.splits list.splits if_splits)

lemma text_arg_eq_None: "text_arg v = None \<longleftrightarrow> is_blank v \<or> blank (py_str v)"
  by (simp add: text_arg_def blank_def Let_def)

lemma text_arg_container: "text_arg (PList xs) \<noteq> None" "text_arg (PDict d) \<noteq> None"
proof -
  have "\<not> blank ''[''" "\<not> blank ''{''" by code_simp+
  then have "\<not> blank (''['' @ s)" "\<not> blank (''{'' @ s)" for s unfolding blank_append by blast+
  then show "text_arg (PList xs) \<noteq> None" "text_arg (PDict d) \<noteq> None"
    unfolding text_arg_eq_None py_str.simps py_repr.simps by simp_all
qed

lemma record_intact_line:
  assumes "record_intact d" shows "record_intact (as_dict (stable_json d))"
proof -
  obtain p where p: "dget d ''payload'' = PDict p" "deeply_safe (PDict p)" "dget d ''payload_hash'' = PStr (stable_payload_hash p)"
    using assms unfolding record_intact_def by blast
  let ?p = "as_dict (sort_json (PDict p))"
  have sorted: "sort_json (PDict p) = PDict ?p" by simp
  then have "canonical_json (PDict ?p) = canonical_json (PDict p)" by (metis canonical_json_sorted)
  then have "stable_payload_hash ?p = stable_payload_hash p" by (simp only: stable_payload_hash_def)
  moreover have "deeply_safe (PDict ?p)" using p(2) deeply_safe_sorted [of "PDict p"] sorted by metis
  moreover have "text_arg (sort_json v) \<noteq> None" if "text_arg v \<noteq> None" for v
    using that by (cases v) (simp_all add: text_arg_container)
  ultimately show ?thesis
    using assms p(1,3) sorted unfolding record_intact_def dget_line by (simp add: list_all_iff)
qed

lemma write_Inr:
  assumes "write_evidence_record path q files = Inr (w, files')" "ew_written w"
  obtains r where "validate_evidence_path path = []" "evidence_record_of q = Inr r" "ew_record w = Some (evidence_record_to_dict r)"
    "record_intact (evidence_record_to_dict r)" "ew_status w = WRITTEN"
    "files' = append_row (path_or_empty path) (JsonRow (stable_json (evidence_record_to_dict r))) files"
proof -
  have blockers: "validate_evidence_write path (eq_record_type q) (eq_cycle_id q) (eq_payload q) = []"
    using assms by (auto simp: write_evidence_record_def Let_def split: if_splits)
  have "\<not> blank ''PAPER_EVIDENCE_PATH_REQUIRED''" "\<not> blank ''PAPER_EVIDENCE_PATH_MUST_BE_STRING_OR_PATH''" by code_simp+
  with blockers have "validate_evidence_path path = []"
    unfolding validate_evidence_write_def dedupe_eq_Nil list_all_append
    by (auto simp: validate_evidence_path_def add_if_def split: path_arg.splits if_splits)
  with assms blockers that show thesis
    by (auto simp: write_evidence_record_def Let_def bind_result_eq_Inr record_intact_iff split: if_splits)
qed

lemma write_reload:
  assumes "write_evidence_record path q files = Inr (w, files')" "ew_written w"
    and "er_status (load_evidence_records path files) \<noteq> BLOCKED"
  shows "\<exists>d. ew_record w = Some d \<and> er_status (load_evidence_records path files') = LOADED \<and>
    er_records (load_evidence_records path files') =
      er_records (load_evidence_records path files) @ [as_dict (stable_json d)] \<and>
    record_intact (as_dict (stable_json d)) \<and> (\<forall>p. p \<noteq> path_or_empty path \<longrightarrow> files' p = files p)"
proof -
  let ?p = "path_or_empty path"
  from assms(1,2) obtain r where r: "validate_evidence_path path = []" "ew_record w = Some (evidence_record_to_dict r)"
      "record_intact (evidence_record_to_dict r)"
      "files' = append_row ?p (JsonRow (stable_json (evidence_record_to_dict r))) files"
    by (rule write_Inr)
  define d where "d = evidence_record_to_dict r"
  have line: "stable_json d = PDict (as_dict (stable_json d))" by (simp add: stable_json_def)
  have rows: "rows_at files' ?p = rows_at files ?p @ [JsonRow (PDict (as_dict (stable_json d)))]"
    unfolding r(4) d_def [symmetric] line [symmetric] by (simp add: rows_at_def append_row_def)
  have intact: "record_intact (as_dict (stable_json d))" using r(3) record_intact_line d_def by blast
  then have row: "row_acceptable (JsonRow (PDict (as_dict (stable_json d))))" by (simp add: row_acceptable_def)
  have ok: "er_status (load_evidence_records path files') \<noteq> BLOCKED"
    using load_outcome(1) [of path files] load_outcome(1) [of path files'] assms(3) rows row by simp
  have records: "er_records (load_evidence_records path files') =
      er_records (load_evidence_records path files) @ [as_dict (stable_json d)]"
    unfolding load_outcome(2) [OF ok] load_outcome(2) [OF assms(3)] rows by (simp add: row_record [OF row])
  with ok intact r(2,4) show ?thesis
    unfolding load_outcome(3) d_def [symmetric] by (intro exI [of _ d]) (simp add: append_row_def d_def)
qed

lemma write_status:
  assumes "write_evidence_record path q files = Inr (w, files')"
  shows "ew_status w = (if ew_written w then WRITTEN else BLOCKED)" "\<not> ew_written w \<Longrightarrow> files' = files"
  using assms by (auto simp: write_evidence_record_def Let_def bind_result_eq_Inr split: if_splits)

text \<open>A request that passes the first validation makes a record that passes the second.\<close>

lemma request_record_intact:
  assumes "validate_evidence_write path (eq_record_type q) (eq_cycle_id q) (eq_payload q) = []" "evidence_record_of q = Inr r"
  shows "record_intact (evidence_record_to_dict r)"
proof -
  obtain p where p: "eq_payload q = PDict p" "deeply_safe (PDict p)" "text_arg (eq_record_type q) \<noteq> None" "text_arg (eq_cycle_id q) \<noteq> None"
    using assms(1) unfolding validate_evidence_write_def dedupe_eq_Nil list_all_append
    by (cases "eq_payload q") (simp_all add: nested_blockers_blank not_blank_label)
  have "text_arg (PStr (strip (py_str v))) \<noteq> None" if "text_arg v \<noteq> None" for v
    using that by (auto simp: text_arg_def Let_def split: if_splits)
  with assms(2) p show ?thesis
    using evidence_record_report.required [of r]
    by (auto simp: record_intact_def evidence_record_to_dict_def evidence_record_of_def bind_result_eq_Inr)
qed

lemma write_total:
  assumes "validate_evidence_write path (eq_record_type q) (eq_cycle_id q) (eq_payload q) = []" "evidence_record_of q = Inr r"
  shows "\<exists>w files'. write_evidence_record path q files = Inr (w, files') \<and> ew_written w"
  using request_record_intact [OF assms] assms by (simp add: write_evidence_record_def Let_def record_intact_iff)

section \<open>Properties\<close>


text \<open>A safe request to an empty file system is written, whatever the digest of its payload is.\<close>

definition demo_evidence :: evidence_request where
  "demo_evidence =
     \<lparr>eq_record_type = PStr ''NOTE'', eq_cycle_id = PStr ''c1'',
      eq_payload = PDict [(''paper_only'', PBool True), (''legs'', PList [PDict [(''is_order_action'', PBool False)]])],
      eq_candidate_id = PNone, eq_strategy_id = PNone, eq_created_at_epoch = PInt 100, eq_source = PStr ''demo''\<rparr>"

lemma demo_evidence_written:
  "\<exists>w files'. write_evidence_record (PathText ''evidence.jsonl'') demo_evidence (\<lambda>_. None) = Inr (w, files') \<and> ew_written w"
proof -
  have "validate_evidence_write (PathText ''evidence.jsonl'') (eq_record_type demo_evidence) (eq_cycle_id demo_evidence)
      (eq_payload demo_evidence) = []" by code_simp
  moreover have "case evidence_record_of demo_evidence of Inr _ \<Rightarrow> True | Inl _ \<Rightarrow> False" by code_simp
  then obtain r where "evidence_record_of demo_evidence = Inr r" by (auto split: sum.splits)
  ultimately show ?thesis using write_total by blast
qed


text \<open>A dict in a list inside a list is not inspected, whatever flags it carries.\<close>

lemma nested_list_not_inspected:
  "nested_payload_blockers label (PDict [(''legs'', PList [PList [PDict [(''broker_api_called'', PBool True)]]])]) = []"
  by code_simp

end
