(* ===== verification/Paper_Session.thy ===== *)
theory Paper_Session
  imports Paper_Evidence
begin

text \<open>
  src/paper_trading/session_boundary.py: the markers that start, end and reset a paper session.
  A marker is evidence like any other and goes through the evidence store; a reset is a marker
  too and must not claim to delete anything.
\<close>

section \<open>Statuses, result, contract\<close>

datatype boundary_status = BUILT | MARKED | LOADED | EMPTY | BLOCKED

fun boundary_status_value :: "boundary_status \<Rightarrow> string" where
  "boundary_status_value BUILT = ''BUILT''"
| "boundary_status_value MARKED = ''MARKED''"
| "boundary_status_value LOADED = ''LOADED''"
| "boundary_status_value EMPTY = ''EMPTY''"
| "boundary_status_value BLOCKED = ''BLOCKED''"

definition boundary_types :: "string list" where
  "boundary_types = [''SESSION_START'', ''SESSION_END'', ''RESET_MARKER'']"

record boundary_result =
  br_status :: boundary_status
  br_session_id :: "string option"
  br_boundary_type :: "string option"
  br_record :: "pydict option"
  br_records :: "pydict list"
  br_persistence :: pydict
  br_blockers :: "string list"
  br_warnings :: "string list"

definition boundary_result_to_dict :: "boundary_result \<Rightarrow> pydict" where
  "boundary_result_to_dict r =
     [(''schema_version'', PStr ''1.0''),
      (''boundary_result_type'', PStr ''PAPER_SESSION_BOUNDARY_RESULT''),
      (''status'', PStr (boundary_status_value (br_status r))),
      (''session_id'', opt_str (br_session_id r)),
      (''boundary_type'', opt_str (br_boundary_type r)),
      (''record'', opt_dict (br_record r)),
      (''record_count'', PInt (int (length (br_records r)))),
      (''records'', PList (map PDict (br_records r))),
      (''persistence'', PDict (br_persistence r)),
      (''blockers'', str_list (br_blockers r)),
      (''warnings'', str_list (br_warnings r)),
      (''paper_only'', PBool True),
      (''read_only'', PBool True),
      (''is_order_action'', PBool False),
      (''broker_api_called'', PBool False),
      (''real_order_id'', PNone)]"

definition boundary_result_keys :: "string list" where
  "boundary_result_keys =
     [''schema_version'', ''boundary_result_type'', ''status'', ''session_id'', ''boundary_type'', ''record'',
      ''record_count'', ''records'', ''persistence'', ''blockers'', ''warnings'', ''paper_only'', ''read_only'',
      ''is_order_action'', ''broker_api_called'', ''real_order_id'']"

definition boundary_record_keys :: "string list" where
  "boundary_record_keys =
     [''schema_version'', ''record_type'', ''session_id'', ''boundary_type'', ''created_at_epoch'', ''reason'', ''metadata'',
      ''paper_only'', ''read_only'', ''is_order_action'', ''broker_api_called'', ''real_order_id'']"

definition boundary_schema_contract :: pydict where
  "boundary_schema_contract =
     [(''schema_version'', PStr ''1.0''),
      (''boundary_result_type'', PStr ''PAPER_SESSION_BOUNDARY_RESULT''),
      (''record_type'', PStr ''PAPER_SESSION_BOUNDARY''),
      (''statuses'', str_list (map boundary_status_value [BUILT, MARKED, LOADED, EMPTY, BLOCKED])),
      (''allowed_boundary_types'', str_list boundary_types),
      (''required_record_keys'', str_list boundary_record_keys),
      (''required_result_keys'', str_list boundary_result_keys),
      (''safe_flags'', PDict read_only_flags),
      (''scope_boundary'', str_list
         [''local_paper_session_boundary_only'', ''reset_marker_is_non_destructive'', ''no_delete'', ''no_truncate'',
          ''no_runtime_wiring'', ''no_api'', ''no_ui'', ''no_broker_execution'', ''no_live_orders'', ''no_strategy_work''])]"

interpretation boundary_report: paper_report boundary_result_to_dict boundary_result_keys
  by unfold_locales (simp_all add: boundary_result_to_dict_def boundary_result_keys_def has_key_def flags_safe_def)

section \<open>Session ids\<close>

definition session_text :: "pyval \<Rightarrow> string \<Rightarrow> string" where
  "session_text v other = strip (py_str (py_or v (PStr other)))"

definition build_session_id :: "pyval \<Rightarrow> pyval \<Rightarrow> pyval \<Rightarrow> string" where
  "build_session_id trading_date session_label namespace =
     ''paper-session-'' @ digest16 (join ''|'' [session_text namespace ''paper'', session_text trading_date [],
       session_text session_label []])"

section \<open>Records\<close>

record boundary_request =
  bq_session_id :: pyval
  bq_boundary_type :: pyval
  bq_created_at_epoch :: pyval
  bq_reason :: pyval
  bq_metadata :: pyval

definition destructive_keys :: "string list" where
  "destructive_keys =
     [''delete'', ''deleted'', ''truncate'', ''truncated'', ''rewrite'', ''rewritten'', ''destructive'', ''remove_history'']"

definition destructive_entry :: "string \<times> pyval \<Rightarrow> bool" where
  "destructive_entry = (\<lambda>(key, v). lower key \<in> set destructive_keys \<and> truthy v)"

definition destructive_blockers :: "pydict \<Rightarrow> string list" where
  "destructive_blockers metadata =
     concat (map (\<lambda>(path, w).
       add_if (destructive_entry w) (''PAPER_SESSION_BOUNDARY_'' @ path @ ''_DESTRUCTIVE_RESET_FORBIDDEN''))
       (walk_nested ''ROOT'' (PDict metadata)))"

definition validate_boundary_record :: "pyval \<Rightarrow> string list" where
  "validate_boundary_record entry =
     (case entry of
        PNone \<Rightarrow> [''PAPER_SESSION_BOUNDARY_RECORD_REQUIRED'']
      | PDict d \<Rightarrow>
          dedupe
            (concat (map (\<lambda>key. add_if (\<not> has_key d key) (''PAPER_SESSION_BOUNDARY_RECORD_MISSING_'' @ upper key)) boundary_record_keys) @
             add_if (dget d ''record_type'' \<noteq> PStr ''PAPER_SESSION_BOUNDARY'') ''PAPER_SESSION_BOUNDARY_RECORD_TYPE_INVALID'' @
             add_if (text_arg (dget d ''session_id'') = None) ''PAPER_SESSION_BOUNDARY_SESSION_ID_REQUIRED'' @
             add_if (text_arg (dget d ''boundary_type'') \<notin> Some ` set boundary_types) ''PAPER_SESSION_BOUNDARY_TYPE_INVALID'' @
             add_if (dget d ''created_at_epoch'' = PNone) ''PAPER_SESSION_BOUNDARY_CREATED_AT_EPOCH_REQUIRED'' @
             (case dget d ''metadata'' of
                PDict m \<Rightarrow> nested_payload_blockers ''PAPER_SESSION_BOUNDARY_METADATA'' (PDict m) @ destructive_blockers m
              | _ \<Rightarrow> [''PAPER_SESSION_BOUNDARY_METADATA_MUST_BE_OBJECT'']) @
             add_if (dget d ''paper_only'' \<noteq> PBool True) ''PAPER_SESSION_BOUNDARY_UNSAFE_PAPER_ONLY_FLAG'' @
             add_if (dget d ''read_only'' \<noteq> PBool True) ''PAPER_SESSION_BOUNDARY_UNSAFE_READ_ONLY_FLAG'' @
             add_if (dget d ''is_order_action'' \<noteq> PBool False) ''PAPER_SESSION_BOUNDARY_UNSAFE_ORDER_ACTION_FLAG'' @
             add_if (dget d ''broker_api_called'' \<noteq> PBool False) ''PAPER_SESSION_BOUNDARY_UNSAFE_BROKER_API_FLAG'' @
             add_if (dget d ''real_order_id'' \<noteq> PNone) ''PAPER_SESSION_BOUNDARY_UNSAFE_REAL_ORDER_ID'')
      | _ \<Rightarrow> [''PAPER_SESSION_BOUNDARY_RECORD_MUST_BE_OBJECT''])"

definition boundary_record_of :: "boundary_request \<Rightarrow> pydict result" where
  "boundary_record_of q =
     bind_result (float_or_none (bq_created_at_epoch q)) (\<lambda>created_at.
       Inr ([(''schema_version'', PStr ''1.0''),
             (''record_type'', PStr ''PAPER_SESSION_BOUNDARY''),
             (''session_id'', opt_str (text_arg (bq_session_id q))),
             (''boundary_type'', opt_str (text_arg (bq_boundary_type q))),
             (''created_at_epoch'', opt_float created_at),
             (''reason'', opt_str (text_arg (bq_reason q))),
             (''metadata'', py_or (bq_metadata q) (PDict []))] @ read_only_flags))"

definition boundary_start :: "boundary_status \<Rightarrow> boundary_result" where
  "boundary_start status =
     \<lparr>br_status = status, br_session_id = None, br_boundary_type = None, br_record = None, br_records = [],
      br_persistence = [], br_blockers = [], br_warnings = []\<rparr>"

definition build_boundary_record :: "boundary_request \<Rightarrow> boundary_result result" where
  "build_boundary_record q =
     bind_result (boundary_record_of q) (\<lambda>d.
     (let blockers = validate_boundary_record (PDict d);
          named = (boundary_start BUILT)\<lparr>br_session_id := text_arg (bq_session_id q),
                    br_boundary_type := text_arg (bq_boundary_type q), br_record := Some d\<rparr>
      in Inr (if blockers \<noteq> [] then named\<lparr>br_status := BLOCKED, br_blockers := blockers\<rparr> else named)))"

section \<open>Marking\<close>

definition session_prefixed :: "string \<Rightarrow> string list \<Rightarrow> string list" where
  "session_prefixed source blockers = map (\<lambda>b. ''PAPER_SESSION_BOUNDARY_'' @ source @ ''_'' @ b) blockers"

definition blockers_or :: "string list \<Rightarrow> string \<Rightarrow> string list" where
  "blockers_or blockers other = (if blockers \<noteq> [] then blockers else [other])"

definition boundary_evidence :: "boundary_request \<Rightarrow> pydict \<Rightarrow> evidence_request" where
  "boundary_evidence q d =
     \<lparr>eq_record_type = PStr ''PAPER_SESSION_BOUNDARY'', eq_cycle_id = dget d ''session_id'', eq_payload = PDict d,
      eq_candidate_id = PNone, eq_strategy_id = PNone, eq_created_at_epoch = bq_created_at_epoch q,
      eq_source = PStr ''paper_session_boundary''\<rparr>"

definition written_boundary :: "boundary_result \<Rightarrow> evidence_write \<Rightarrow> boundary_result" where
  "written_boundary b w =
     (let written = b\<lparr>br_persistence := evidence_write_to_dict w, br_warnings := ew_warnings w\<rparr>
      in if ew_status w = evidence_status.BLOCKED
         then written\<lparr>br_status := BLOCKED,
                br_blockers := session_prefixed ''PERSISTENCE_WRITE'' (blockers_or (ew_blockers w) ''PAPER_SESSION_BOUNDARY_WRITE_BLOCKED'')\<rparr>
         else written\<lparr>br_status := MARKED\<rparr>)"

text \<open>Metadata that is neither empty nor a dict has no \<open>items\<close>.\<close>

definition mark_session_boundary :: "path_arg \<Rightarrow> boundary_request \<Rightarrow> file_system \<Rightarrow> (boundary_result \<times> file_system) result" where
  "mark_session_boundary path q files =
     bind_result (need_dict (py_or (bq_metadata q) (PDict []))) (\<lambda>metadata.
     (let destructive = destructive_blockers metadata
      in if destructive \<noteq> []
         then Inr ((boundary_start BLOCKED)\<lparr>br_session_id := text_arg (bq_session_id q),
                     br_boundary_type := text_arg (bq_boundary_type q), br_blockers := destructive\<rparr>, files)
         else
           bind_result (build_boundary_record q) (\<lambda>built.
             case br_record built of
               None \<Rightarrow> Inr (built, files)
             | Some d \<Rightarrow>
                 if br_status built = BLOCKED \<or> d = [] then Inr (built, files)
                 else
                   bind_result (write_evidence_record path (boundary_evidence q d) files) (\<lambda>(w, files').
                     Inr (written_boundary built w, files')))))"

section \<open>Loading\<close>

definition boundary_row_blockers :: "nat \<times> pydict \<Rightarrow> string list" where
  "boundary_row_blockers = (\<lambda>(i, d).
     if dget d ''record_type'' \<noteq> PStr ''PAPER_SESSION_BOUNDARY'' then []
     else case dget d ''payload'' of
            PDict p \<Rightarrow> map (\<lambda>b. ''RECORD_'' @ int_to_string (int i) @ ''_'' @ b) (validate_boundary_record (PDict p))
          | _ \<Rightarrow> [''PAPER_SESSION_BOUNDARY_RECORD_'' @ int_to_string (int i) @ ''_PAYLOAD_MUST_BE_OBJECT''])"

definition boundary_row_record :: "pydict \<Rightarrow> pydict list" where
  "boundary_row_record d =
     (if dget d ''record_type'' \<noteq> PStr ''PAPER_SESSION_BOUNDARY'' then []
      else case dget d ''payload'' of
             PDict p \<Rightarrow> if validate_boundary_record (PDict p) = [] then [p] else []
           | _ \<Rightarrow> [])"

definition load_session_boundaries :: "path_arg \<Rightarrow> file_system \<Rightarrow> boundary_result" where
  "load_session_boundaries path files =
     (let r = load_evidence_records path files;
          loaded = (\<lambda>status. (boundary_start status)\<lparr>br_persistence := evidence_read_to_dict r, br_warnings := er_warnings r\<rparr>);
          blockers = concat (map boundary_row_blockers (enumerate 0 (er_records r)));
          records = concat (map boundary_row_record (er_records r))
      in if er_status r = evidence_status.BLOCKED
         then (loaded BLOCKED)\<lparr>br_blockers := session_prefixed ''PERSISTENCE_LOAD''
                (blockers_or (er_blockers r) ''PAPER_SESSION_BOUNDARY_LOAD_BLOCKED'')\<rparr>
         else if er_status r = evidence_status.EMPTY then loaded EMPTY
         else if blockers \<noteq> [] then (loaded BLOCKED)\<lparr>br_blockers := dedupe blockers\<rparr>
         else if records = []
         then (loaded EMPTY)\<lparr>br_warnings := dedupe (er_warnings r @ [''PAPER_SESSION_BOUNDARY_NO_BOUNDARY_RECORDS''])\<rparr>
         else (loaded LOADED)\<lparr>br_records := records\<rparr>)"

section \<open>What the validation lets pass\<close>

definition boundary_valid :: "pydict \<Rightarrow> bool" where
  "boundary_valid d \<longleftrightarrow>
     list_all (has_key d) boundary_record_keys \<and> dget d ''record_type'' = PStr ''PAPER_SESSION_BOUNDARY'' \<and>
     text_arg (dget d ''session_id'') \<noteq> None \<and> text_arg (dget d ''boundary_type'') \<in> Some ` set boundary_types \<and>
     dget d ''created_at_epoch'' \<noteq> PNone \<and>
     (\<exists>m. dget d ''metadata'' = PDict m \<and> deeply_safe (PDict m) \<and> deeply (\<lambda>e. \<not> destructive_entry e) (PDict m)) \<and>
     dget d ''paper_only'' = PBool True \<and> dget d ''read_only'' = PBool True \<and> dget d ''is_order_action'' = PBool False \<and>
     dget d ''broker_api_called'' = PBool False \<and> dget d ''real_order_id'' = PNone"

lemma destructive_blockers_Nil:
  "destructive_blockers m = [] \<longleftrightarrow> deeply (\<lambda>e. \<not> destructive_entry e) (PDict m)"
  "list_all blank (destructive_blockers m) \<longleftrightarrow> deeply (\<lambda>e. \<not> destructive_entry e) (PDict m)"
proof -
  have "\<not> blank ''PAPER_SESSION_BOUNDARY_''" by code_simp
  then have "list_all blank (destructive_blockers m) \<longleftrightarrow> destructive_blockers m = []"
    by (auto simp: destructive_blockers_def list_all_iff add_if_def blank_append)
  moreover have "destructive_blockers m = [] \<longleftrightarrow> (\<forall>(path, w) \<in> set (walk_nested ''ROOT'' (PDict m)). \<not> destructive_entry w)"
    unfolding destructive_blockers_def concat_eq_Nil_conv by auto
  ultimately show "destructive_blockers m = [] \<longleftrightarrow> deeply (\<lambda>e. \<not> destructive_entry e) (PDict m)"
    "list_all blank (destructive_blockers m) \<longleftrightarrow> deeply (\<lambda>e. \<not> destructive_entry e) (PDict m)"
    unfolding walk_deeply by simp_all
qed

lemma boundary_valid_iff: "validate_boundary_record (PDict d) = [] \<longleftrightarrow> boundary_valid d"
proof -
  have labels: "\<not> blank ''PAPER_SESSION_BOUNDARY_RECORD_MISSING_''" "\<not> blank ''PAPER_SESSION_BOUNDARY_METADATA''" by code_simp+
  then have "list_all blank (concat (map (\<lambda>key. add_if (\<not> has_key d key) (''PAPER_SESSION_BOUNDARY_RECORD_MISSING_'' @ upper key)) keys)) \<longleftrightarrow>
      list_all (has_key d) keys" for keys
    by (induction keys) (auto simp: add_if_def blank_append)
  then show ?thesis
    unfolding validate_boundary_record_def pyval.case dedupe_eq_Nil list_all_append boundary_valid_def
    by (cases "dget d ''metadata''")
      (simp_all add: nested_blockers_blank labels destructive_blockers_Nil)
qed

lemma boundary_valid_line:
  assumes "boundary_valid d" "dget d ''boundary_type'' = PStr t" shows "boundary_valid (as_dict (stable_json d))"
proof -
  obtain m where m: "dget d ''metadata'' = PDict m" "deeply_safe (PDict m)" "deeply (\<lambda>e. \<not> destructive_entry e) (PDict m)"
    using assms(1) unfolding boundary_valid_def by blast
  let ?m = "as_dict (sort_json (PDict m))"
  have sorted: "sort_json (PDict m) = PDict ?m" by simp
  have "deeply (\<lambda>e. \<not> destructive_entry e) (sort_json (PDict m))"
    using m(3) by (subst deeply_sorted) (simp_all add: destructive_entry_def sort_json_shape)
  moreover have "deeply_safe (sort_json (PDict m))" using m(2) deeply_safe_sorted by blast
  moreover have "text_arg (sort_json v) \<noteq> None" if "text_arg v \<noteq> None" for v
    using that by (cases v) (simp_all add: text_arg_container)
  ultimately show ?thesis
    using assms m(1) sorted unfolding boundary_valid_def dget_line by (auto simp: list_all_iff sort_json_shape)
qed

section \<open>Properties\<close>

lemma built_boundary:
  assumes "build_boundary_record q = Inr r" "br_record r = Some d" "br_status r \<noteq> BLOCKED"
  shows "boundary_valid d" "br_blockers r = []" "br_records r = []"
    "dget d ''boundary_type'' = opt_str (text_arg (bq_boundary_type q))" "dget d ''metadata'' = py_or (bq_metadata q) (PDict [])"
proof -
  obtain c where c: "boundary_record_of q = Inr c" using assms(1) by (auto simp: build_boundary_record_def bind_result_eq_Inr)
  with assms have valid: "validate_boundary_record (PDict c) = []" and d: "d = c"
    and r: "br_blockers r = []" "br_records r = []"
    by (auto simp: build_boundary_record_def boundary_start_def Let_def split: if_splits)
  from valid d show "boundary_valid d" by (simp add: boundary_valid_iff)
  from r show "br_blockers r = []" "br_records r = []" .
  from c d show "dget d ''boundary_type'' = opt_str (text_arg (bq_boundary_type q))" "dget d ''metadata'' = py_or (bq_metadata q) (PDict [])"
    by (auto simp: boundary_record_of_def bind_result_eq_Inr)
qed

lemma build_boundary_cases:
  assumes "build_boundary_record q = Inr b"
  obtains (built) d where "br_status b = BUILT" "br_record b = Some d" "d \<noteq> []"
    | (blocked) "br_status b = BLOCKED" "br_blockers b \<noteq> []" "br_record b \<noteq> None"
  using assms
  by (auto simp: build_boundary_record_def boundary_start_def boundary_record_of_def bind_result_eq_Inr Let_def split: if_splits)

lemma mark_cases:
  assumes "mark_session_boundary path q files = Inr (r, files')"
  obtains (blocked) "br_status r = BLOCKED" "br_blockers r \<noteq> []" "files' = files"
    | (written) b d w where "build_boundary_record q = Inr b" "br_status b = BUILT" "br_record b = Some d"
        "write_evidence_record path (boundary_evidence q d) files = Inr (w, files')" "r = written_boundary b w"
proof -
  obtain m where m: "need_dict (py_or (bq_metadata q) (PDict [])) = Inr m"
    using assms by (auto simp: mark_session_boundary_def bind_result_eq_Inr)
  note run = assms [unfolded mark_session_boundary_def m bind_result_simps Let_def]
  show thesis
  proof (cases "destructive_blockers m = []")
    case False
    with run blocked show thesis by (auto simp: boundary_start_def)
  next
    case True
    then obtain b where b: "build_boundary_record q = Inr b" using run by (auto simp: bind_result_eq_Inr)
    from b show thesis
    proof (cases rule: build_boundary_cases)
      case bb: blocked
      with run True b blocked show thesis by auto
    next
      case (built d)
      have "bind_result (write_evidence_record path (boundary_evidence q d) files) (\<lambda>(w, files'). Inr (written_boundary b w, files')) =
          Inr (r, files')"
        using run True b built by simp
      with b built written show thesis by (auto simp: bind_result_eq_Inr)
    qed
  qed
qed

lemma marked_Inr:
  assumes "mark_session_boundary path q files = Inr (r, files')" "br_status r = MARKED"
  obtains d w where "br_record r = Some d" "boundary_valid d"
    "dget d ''boundary_type'' = opt_str (text_arg (bq_boundary_type q))" "dget d ''metadata'' = py_or (bq_metadata q) (PDict [])"
    "write_evidence_record path (boundary_evidence q d) files = Inr (w, files')" "ew_written w"
  using assms(1)
proof (cases rule: mark_cases)
  case blocked
  with assms(2) show thesis by simp
next
  case (written b d w)
  then have "ew_status w \<noteq> evidence_status.BLOCKED" "br_record r = Some d"
    using assms(2) by (auto simp: written_boundary_def Let_def split: if_splits)
  moreover from this write_status(1) [OF written(4)] have "ew_written w" by (auto split: if_splits)
  ultimately show thesis using built_boundary [OF written(1,3)] written(2,4) that by simp
qed

text \<open>How a marked boundary appears in the evidence store.\<close>

lemma boundary_line:
  assumes "write_evidence_record path (boundary_evidence q d) files = Inr (w, files')" "ew_written w" "ew_record w = Some c"
    and "boundary_valid d" "dget d ''boundary_type'' = PStr t"
  shows "boundary_row_blockers (i, as_dict (stable_json c)) = []" "boundary_row_record (as_dict (stable_json c)) = [as_dict (stable_json d)]"
proof -
  from assms(1,2) obtain e where e: "evidence_record_of (boundary_evidence q d) = Inr e" "ew_record w = Some (evidence_record_to_dict e)"
    by (rule write_Inr)
  have "strip (py_str (PStr ''PAPER_SESSION_BOUNDARY'')) = ''PAPER_SESSION_BOUNDARY''" by code_simp
  with e(1) have "ep_record_type e = ''PAPER_SESSION_BOUNDARY''" "ep_payload e = d"
    by (auto simp: evidence_record_of_def boundary_evidence_def bind_result_eq_Inr)
  moreover from e(2) assms(3) have "c = evidence_record_to_dict e" by simp
  ultimately have "dget c ''record_type'' = PStr ''PAPER_SESSION_BOUNDARY''" "dget c ''payload'' = PDict d"
    by (simp_all add: evidence_record_to_dict_def)
  then have "dget (as_dict (stable_json c)) ''record_type'' = PStr ''PAPER_SESSION_BOUNDARY''"
      "dget (as_dict (stable_json c)) ''payload'' = PDict (as_dict (stable_json d))"
    unfolding dget_line by (simp_all add: stable_json_def)
  moreover have "validate_boundary_record (PDict (as_dict (stable_json d))) = []"
    using boundary_valid_line [OF assms(4,5)] by (simp only: boundary_valid_iff)
  ultimately show "boundary_row_blockers (i, as_dict (stable_json c)) = []"
    "boundary_row_record (as_dict (stable_json c)) = [as_dict (stable_json d)]"
    by (simp_all add: boundary_row_blockers_def boundary_row_record_def)
qed

lemma load_boundaries_outcome:
  "br_status (load_session_boundaries path files) \<noteq> BLOCKED \<longleftrightarrow>
     er_status (load_evidence_records path files) \<noteq> evidence_status.BLOCKED \<and>
     (er_status (load_evidence_records path files) = evidence_status.EMPTY \<or>
      concat (map boundary_row_blockers (enumerate 0 (er_records (load_evidence_records path files)))) = [])"
  "br_status (load_session_boundaries path files) = LOADED \<Longrightarrow>
     br_records (load_session_boundaries path files) = concat (map boundary_row_record (er_records (load_evidence_records path files)))"
  by (auto simp: load_session_boundaries_def boundary_start_def Let_def simp del: concat_eq_Nil_conv split: if_splits)

lemma empty_no_records:
  "er_status (load_evidence_records path files) = evidence_status.EMPTY \<Longrightarrow> er_records (load_evidence_records path files) = []"
  by (auto simp: load_evidence_records_def load_evidence_rows_def loaded_evidence_def blocked_evidence_def Let_def
      split: option.splits list.splits if_splits)

lemma unloaded_no_records:
  "br_status (load_session_boundaries path files) \<noteq> LOADED \<Longrightarrow> br_records (load_session_boundaries path files) = []"
  by (auto simp: load_session_boundaries_def boundary_start_def Let_def simp del: concat_eq_Nil_conv split: if_splits)

text \<open>
  A marked boundary is durable: once a file whose boundaries load is marked, its boundaries
  load again, with the ones it had followed by the new one as JSON keeps it.
\<close>

theorem marked_boundary_reloads:
  assumes "mark_session_boundary path q files = Inr (r, files')" "br_status r = MARKED"
    and "br_status (load_session_boundaries path files) \<noteq> BLOCKED"
  shows "\<exists>d. br_record r = Some d \<and> br_status (load_session_boundaries path files') = LOADED \<and>
    br_records (load_session_boundaries path files') = br_records (load_session_boundaries path files) @ [as_dict (stable_json d)]"
proof -
  from assms(1,2) obtain d w where d: "br_record r = Some d" "boundary_valid d"
      "dget d ''boundary_type'' = opt_str (text_arg (bq_boundary_type q))"
    and w: "write_evidence_record path (boundary_evidence q d) files = Inr (w, files')" "ew_written w"
    by (rule marked_Inr)
  have "text_arg (opt_str (text_arg (bq_boundary_type q))) \<noteq> None" using d(2,3) by (auto simp: boundary_valid_def)
  then obtain t where t: "dget d ''boundary_type'' = PStr t" using d(3) by (cases "text_arg (bq_boundary_type q)") (auto simp: text_arg_def)
  have old: "er_status (load_evidence_records path files) \<noteq> evidence_status.BLOCKED"
    "concat (map boundary_row_blockers (enumerate 0 (er_records (load_evidence_records path files)))) = []"
    using assms(3) empty_no_records unfolding load_boundaries_outcome(1) by fastforce+
  from write_reload [OF w old(1)] obtain c where c: "ew_record w = Some c"
      "er_status (load_evidence_records path files') = evidence_status.LOADED"
      "er_records (load_evidence_records path files') = er_records (load_evidence_records path files) @ [as_dict (stable_json c)]"
    by blast
  note line = boundary_line [OF w c(1) d(2) t]
  have blockers: "concat (map boundary_row_blockers (enumerate 0 (er_records (load_evidence_records path files')))) = []"
    using old(2) line(1) by (simp add: c(3) enumerate_append_eq)
  have records: "concat (map boundary_row_record (er_records (load_evidence_records path files'))) =
      concat (map boundary_row_record (er_records (load_evidence_records path files))) @ [as_dict (stable_json d)]"
    using line(2) by (simp add: c(3))
  have loaded: "br_status (load_session_boundaries path files') = LOADED"
    using blockers records c(2) by (simp add: load_session_boundaries_def boundary_start_def Let_def del: concat_eq_Nil_conv)
  have "concat (map boundary_row_record (er_records (load_evidence_records path files))) = br_records (load_session_boundaries path files)"
    using old assms(3) empty_no_records [of path files]
    by (auto simp: load_session_boundaries_def boundary_start_def Let_def simp del: concat_eq_Nil_conv)
  with loaded records d(1) load_boundaries_outcome(2) [OF loaded] show ?thesis by auto
qed

definition demo_boundary :: "pyval \<Rightarrow> boundary_request" where
  "demo_boundary metadata =
     \<lparr>bq_session_id = PStr ''s1'', bq_boundary_type = PStr ''RESET_MARKER'', bq_created_at_epoch = PInt 100, bq_reason = PNone,
      bq_metadata = metadata\<rparr>"

definition demo_metadata :: pyval where
  "demo_metadata = PDict [(''paper_only'', PBool True), (''scopes'', PList [PDict [(''deleted'', PBool False)]])]"

lemma demo_marked:
  "\<exists>r files'. mark_session_boundary (PathText ''s.jsonl'') (demo_boundary demo_metadata) (\<lambda>_. None) = Inr (r, files') \<and> br_status r = MARKED"
proof -
  let ?q = "demo_boundary demo_metadata"
  have "case build_boundary_record ?q of
      Inr b \<Rightarrow> br_status b = BUILT \<and> (case br_record b of Some d \<Rightarrow> d \<noteq> [] \<and>
        validate_evidence_write (PathText ''s.jsonl'') (eq_record_type (boundary_evidence ?q d)) (eq_cycle_id (boundary_evidence ?q d))
          (eq_payload (boundary_evidence ?q d)) = [] \<and>
        \<not> isl (evidence_record_of (boundary_evidence ?q d)) | None \<Rightarrow> False)
    | Inl _ \<Rightarrow> False" by code_simp
  then obtain b d where b: "build_boundary_record ?q = Inr b" "br_status b = BUILT" "br_record b = Some d" "d \<noteq> []"
    and valid: "validate_evidence_write (PathText ''s.jsonl'') (eq_record_type (boundary_evidence ?q d))
        (eq_cycle_id (boundary_evidence ?q d)) (eq_payload (boundary_evidence ?q d)) = []"
    and encoded: "\<not> isl (evidence_record_of (boundary_evidence ?q d))"
    by (auto split: sum.splits option.splits)
  from encoded obtain e where e: "evidence_record_of (boundary_evidence ?q d) = Inr e" by (cases "evidence_record_of (boundary_evidence ?q d)") auto
  from write_total [OF valid e] obtain w files' where
    w: "write_evidence_record (PathText ''s.jsonl'') (boundary_evidence ?q d) (\<lambda>_. None) = Inr (w, files')" "ew_written w" by blast
  have metadata: "bq_metadata ?q = demo_metadata" "truthy demo_metadata" "need_dict demo_metadata = Inr (as_dict demo_metadata)"
    "destructive_blockers (as_dict demo_metadata) = []" by (simp add: demo_boundary_def) code_simp+
  have "ew_status w = WRITTEN" using write_status(1) [OF w(1)] w(2) by simp
  with b w(1) show ?thesis by (simp add: mark_session_boundary_def metadata Let_def written_boundary_def)
qed

theorem marked_boundary_reloads_witness:
  "\<exists>r files' d. mark_session_boundary (PathText ''s.jsonl'') (demo_boundary demo_metadata) (\<lambda>_. None) = Inr (r, files') \<and>
     br_records (load_session_boundaries (PathText ''s.jsonl'') files') = [d]"
proof -
  obtain r files' where r: "mark_session_boundary (PathText ''s.jsonl'') (demo_boundary demo_metadata) (\<lambda>_. None) = Inr (r, files')"
    "br_status r = MARKED" using demo_marked by blast
  have "br_status (load_session_boundaries (PathText ''s.jsonl'') (\<lambda>_. None)) \<noteq> BLOCKED \<and>
      br_records (load_session_boundaries (PathText ''s.jsonl'') (\<lambda>_. None)) = []" by code_simp
  with marked_boundary_reloads [OF r] r(1) show ?thesis by fastforce
qed

text \<open>
  C28. A boundary never destroys history. Whatever the request, a call either is blocked, with a
  reason, and leaves every file as it was, or appends one line to its file; the metadata of a
  marked boundary is an object in which no entry at any depth that is inspected claims a
  deletion or carries an unsafe flag.
\<close>

theorem boundary_only_appends:
  assumes "mark_session_boundary path q files = Inr (r, files')"
  shows "br_status r = BLOCKED \<and> br_blockers r \<noteq> [] \<and> files' = files \<or>
    br_status r = MARKED \<and> (\<exists>row m. files' = append_row (path_or_empty path) row files \<and> py_or (bq_metadata q) (PDict []) = PDict m \<and>
      deeply (\<lambda>e. \<not> destructive_entry e) (PDict m) \<and> deeply_safe (PDict m))"
proof (cases "br_status r = MARKED")
  case True
  from assms True obtain d w where d: "boundary_valid d" "dget d ''metadata'' = py_or (bq_metadata q) (PDict [])"
    and w: "write_evidence_record path (boundary_evidence q d) files = Inr (w, files')" "ew_written w"
    by (rule marked_Inr)
  from w obtain row where "files' = append_row (path_or_empty path) row files" by (rule write_Inr) (rule that)
  with True d show ?thesis by (auto simp: boundary_valid_def)
next
  case False
  from assms have "br_status r = BLOCKED \<and> br_blockers r \<noteq> [] \<and> files' = files"
  proof (cases rule: mark_cases)
    case blocked
    then show ?thesis by blast
  next
    case (written b d w)
    with False have "ew_status w = evidence_status.BLOCKED" by (auto simp: written_boundary_def Let_def split: if_splits)
    with written(5) write_status [OF written(4)] show ?thesis
      by (auto simp: written_boundary_def Let_def session_prefixed_def blockers_or_def split: if_splits)
  qed
  then show ?thesis by blast
qed

theorem boundary_only_appends_witness:
  "\<exists>r. mark_session_boundary (PathText ''s.jsonl'') (demo_boundary (PDict [(''truncate'', PInt 1)])) (\<lambda>_. None) = Inr (r, \<lambda>_. None) \<and>
     br_status r = BLOCKED \<and> br_blockers r \<noteq> []"
proof -
  have "case mark_session_boundary (PathText ''s.jsonl'') (demo_boundary (PDict [(''truncate'', PInt 1)])) (\<lambda>_. None) of
      Inr (r, _) \<Rightarrow> br_status r = BLOCKED | Inl _ \<Rightarrow> False" by code_simp
  then obtain r files' where r: "mark_session_boundary (PathText ''s.jsonl'') (demo_boundary (PDict [(''truncate'', PInt 1)])) (\<lambda>_. None) =
      Inr (r, files')" "br_status r = BLOCKED" by (auto split: sum.splits)
  with boundary_only_appends [OF r(1)] show ?thesis by auto
qed

end
