(* ===== verification/Paper_Export.thy ===== *)
theory Paper_Export
  imports Paper_Evidence Py_Compare
begin

text \<open>
  src/paper_trading/export_bundle.py: a bundle of the evidence and the scenario results under one
  directory, with a manifest and the digests of its files, and the check of such a bundle.
\<close>

section \<open>Files\<close>

text \<open>
  A file is its text with what its readers make of it: the value of \<open>json.loads\<close> on the whole
  text, nothing when it is no JSON, and its lines. The texts that this module writes are those
  of values, which are then read back with sorted keys. A text with an indented value is never
  read by lines here; its first line alone is no JSON. A path is the text of it, and \<open>dir / name\<close>
  is \<open>name\<close> itself when it is absolute; directories are left out.
\<close>

record bundle_file =
  bf_text :: string
  bf_json :: "pyval option"
  bf_rows :: "journal_row list"

type_synonym bundle_files = "string \<Rightarrow> bundle_file option"

definition newline :: string where
  "newline = [CHR 0x0A]"

definition json_file :: "pyval \<Rightarrow> bundle_file" where
  "json_file payload = \<lparr>bf_text = pretty_json payload @ newline, bf_json = Some (sort_json payload), bf_rows = [CorruptRow]\<rparr>"

definition jsonl_file :: "pydict list \<Rightarrow> bundle_file" where
  "jsonl_file records =
     \<lparr>bf_text = concat (map (\<lambda>d. canonical_json (PDict d) @ newline) records),
      bf_json = (case records of [d] \<Rightarrow> Some (sort_json (PDict d)) | _ \<Rightarrow> None),
      bf_rows = map (\<lambda>d. JsonRow (stable_json d)) records\<rparr>"

definition under :: "string \<Rightarrow> string \<Rightarrow> string" where
  "under dir name = (if starts_with name ''/'' then name else dir @ ''/'' @ name)"

definition stable_file_hash :: "bundle_file \<Rightarrow> string" where
  "stable_file_hash f = sha256_hex (bf_text f)"

text \<open>The rows of the files, as the evidence store reads them.\<close>

definition rows_of_files :: "bundle_files \<Rightarrow> file_system" where
  "rows_of_files files = (\<lambda>p. map_option bf_rows (files p))"

section \<open>Statuses, result, contract\<close>

datatype export_status = BUILT | VALID | EMPTY | BLOCKED

fun export_status_value :: "export_status \<Rightarrow> string" where
  "export_status_value BUILT = ''BUILT''"
| "export_status_value VALID = ''VALID''"
| "export_status_value EMPTY = ''EMPTY''"
| "export_status_value BLOCKED = ''BLOCKED''"

record export_result =
  xb_status :: export_status
  xb_bundle_root :: "string option"
  xb_manifest :: "pydict option"
  xb_files :: pydict
  xb_checksums :: pydict
  xb_blockers :: "string list"
  xb_warnings :: "string list"

definition export_result_to_dict :: "export_result \<Rightarrow> pydict" where
  "export_result_to_dict r =
     [(''schema_version'', PStr ''1.0''),
      (''bundle_type'', PStr ''PAPER_EVIDENCE_EXPORT_BUNDLE''),
      (''status'', PStr (export_status_value (xb_status r))),
      (''bundle_root'', opt_str (xb_bundle_root r)),
      (''manifest'', opt_dict (xb_manifest r)),
      (''files'', PDict (xb_files r)),
      (''checksums'', PDict (xb_checksums r)),
      (''blockers'', str_list (xb_blockers r)),
      (''warnings'', str_list (xb_warnings r)),
      (''paper_only'', PBool True),
      (''read_only'', PBool True),
      (''is_order_action'', PBool False),
      (''broker_api_called'', PBool False),
      (''real_order_id'', PNone)]"

definition export_result_keys :: "string list" where
  "export_result_keys =
     [''schema_version'', ''bundle_type'', ''status'', ''bundle_root'', ''manifest'', ''files'', ''checksums'', ''blockers'',
      ''warnings'', ''paper_only'', ''read_only'', ''is_order_action'', ''broker_api_called'', ''real_order_id'']"

definition manifest_keys :: "string list" where
  "manifest_keys =
     [''schema_version'', ''bundle_type'', ''bundle_id'', ''created_at_epoch'', ''source_evidence_path'', ''record_count'',
      ''scenario_count'', ''files'', ''checksums'', ''safe_flags'', ''paper_only'', ''read_only'', ''is_order_action'',
      ''broker_api_called'', ''real_order_id'']"

definition export_schema_contract :: pydict where
  "export_schema_contract =
     [(''schema_version'', PStr ''1.0''),
      (''bundle_type'', PStr ''PAPER_EVIDENCE_EXPORT_BUNDLE''),
      (''statuses'', str_list (map export_status_value [BUILT, VALID, EMPTY, BLOCKED])),
      (''bundle_layout'', PDict
         [(''manifest'', PStr ''manifest.json''), (''checksums'', PStr ''checksums.json''),
          (''evidence'', PStr ''evidence/paper_evidence.jsonl''), (''scenarios'', PStr ''scenarios/scenario_results.json'')]),
      (''required_manifest_keys'', str_list manifest_keys),
      (''required_result_keys'', str_list export_result_keys),
      (''safe_flags'', PDict read_only_flags),
      (''scope_boundary'', str_list
         [''local_bundle_only'', ''paper_evidence_only'', ''no_replay_dataset'', ''no_expectancy_scoring'',
          ''no_runtime_wiring'', ''no_api'', ''no_ui'', ''no_broker_execution'', ''no_live_orders'', ''no_strategy_work'',
          ''no_cloud_upload''])]"

interpretation export_report: paper_report export_result_to_dict export_result_keys
  by unfold_locales (simp_all add: export_result_to_dict_def export_result_keys_def has_key_def flags_safe_def)

section \<open>Validation\<close>

definition lower_json :: "pyval \<Rightarrow> string" where
  "lower_json payload = lower (canonical_json payload)"

definition scenario_blockers :: "nat \<times> pyval \<Rightarrow> string list" where
  "scenario_blockers = (\<lambda>(i, v).
     (let label = ''PAPER_EXPORT_SCENARIO_'' @ int_to_string (int i) @ ''_''; s = lower_json v
      in if \<not> is_dict v then [label @ ''MUST_BE_OBJECT'']
         else map (\<lambda>b. label @ b) (nested_payload_blockers ''PAPER_EXPORT_RESULT'' v) @
              add_if (occurs_in ''replay_dataset'' s) (label @ ''REPLAY_DATASET_FORBIDDEN'') @
              add_if (occurs_in ''expectancy'' s \<or> occurs_in ''profitability'' s) (label @ ''EXPECTANCY_PROFITABILITY_FORBIDDEN'')))"

definition validate_scenario_results :: "pyval list \<Rightarrow> string list" where
  "validate_scenario_results results = dedupe (concat (map scenario_blockers (enumerate 0 results)))"

definition validate_records_safe :: "pydict list \<Rightarrow> string \<Rightarrow> string list" where
  "validate_records_safe records source =
     dedupe (concat (map (\<lambda>(i, d).
       map (\<lambda>b. ''PAPER_EXPORT_'' @ source @ ''_'' @ int_to_string (int i) @ ''_'' @ b)
         (nested_payload_blockers ''PAPER_EXPORT_RECORD'' (PDict d))) (enumerate 0 records)))"

definition path_missing :: "path_arg \<Rightarrow> bool" where
  "path_missing path \<longleftrightarrow> path_or_empty path = []"

text \<open>\<open>scenario_results: list | None\<close>, or a value of another type\<close>

definition validate_export_inputs :: "path_arg \<Rightarrow> path_arg \<Rightarrow> pyval \<Rightarrow> string list" where
  "validate_export_inputs bundle_root evidence_path scenario_results =
     dedupe
       (add_if (path_missing bundle_root) ''PAPER_EXPORT_BUNDLE_ROOT_REQUIRED'' @
        add_if (path_missing evidence_path) ''PAPER_EXPORT_EVIDENCE_PATH_REQUIRED'' @
        (case scenario_results of
           PNone \<Rightarrow> []
         | PList xs \<Rightarrow> if xs = [] then [] else validate_scenario_results xs
         | _ \<Rightarrow> [''PAPER_EXPORT_SCENARIO_RESULTS_MUST_BE_LIST'']))"

definition validate_manifest :: "pydict \<Rightarrow> string list" where
  "validate_manifest manifest =
     (let files_text = lower_json (py_or (dget manifest ''files'') (PDict [])); s = lower_json (PDict manifest)
      in dedupe
           (concat (map (\<lambda>key. add_if (\<not> has_key manifest key) (''PAPER_EXPORT_MANIFEST_MISSING_'' @ upper key)) manifest_keys) @
            add_if (dget manifest ''schema_version'' \<noteq> PStr ''1.0'') ''PAPER_EXPORT_UNKNOWN_SCHEMA_VERSION'' @
            add_if (dget manifest ''bundle_type'' \<noteq> PStr ''PAPER_EVIDENCE_EXPORT_BUNDLE'') ''PAPER_EXPORT_BUNDLE_TYPE_INVALID'' @
            nested_payload_blockers ''PAPER_EXPORT_MANIFEST'' (PDict manifest) @
            add_if (occurs_in ''replay'' files_text) ''PAPER_EXPORT_REPLAY_DATASET_FORBIDDEN'' @
            add_if (occurs_in ''expectancy'' s \<or> occurs_in ''profitability'' s) ''PAPER_EXPORT_EXPECTANCY_PROFITABILITY_FORBIDDEN''))"

section \<open>Checking a bundle\<close>

definition export_start :: "export_status \<Rightarrow> string option \<Rightarrow> export_result" where
  "export_start status dir =
     \<lparr>xb_status = status, xb_bundle_root = dir, xb_manifest = None, xb_files = [], xb_checksums = [], xb_blockers = [],
      xb_warnings = []\<rparr>"

definition export_blocked :: "string option \<Rightarrow> string list \<Rightarrow> export_result" where
  "export_blocked dir blockers = (export_start BLOCKED dir)\<lparr>xb_blockers := blockers\<rparr>"

definition load_export_manifest :: "path_arg \<Rightarrow> bundle_files \<Rightarrow> export_result" where
  "load_export_manifest bundle_root files =
     (let dir = path_or_empty bundle_root
      in if dir = [] then export_blocked None [''PAPER_EXPORT_BUNDLE_ROOT_REQUIRED'']
         else case files (under dir ''manifest.json'') of
                None \<Rightarrow> export_blocked (Some dir) [''PAPER_EXPORT_MANIFEST_MISSING'']
              | Some f \<Rightarrow>
                  (case bf_json f of
                     None \<Rightarrow> export_blocked (Some dir) [''PAPER_EXPORT_MANIFEST_CORRUPT'']
                   | Some (PDict d) \<Rightarrow> (export_start VALID (Some dir))\<lparr>xb_manifest := Some d\<rparr>
                   | Some _ \<Rightarrow> export_blocked (Some dir) [''PAPER_EXPORT_MANIFEST_MUST_BE_OBJECT'']))"

text \<open>
  \<open>checksums.get(p) or manifest.get("checksums", {}).get(p)\<close>, where the manifest's value may have
  no \<open>get\<close>.
\<close>

definition expected_checksum :: "pydict \<Rightarrow> pydict \<Rightarrow> string \<Rightarrow> pyval result" where
  "expected_checksum checksums manifest path =
     (if truthy (dget checksums path) then Inr (dget checksums path)
      else bind_result (need_dict (dget_or manifest ''checksums'' (PDict []))) (\<lambda>d. Inr (dget d path)))"

definition file_blockers :: "string \<Rightarrow> pydict \<Rightarrow> pydict \<Rightarrow> bundle_files \<Rightarrow> string \<times> pyval \<Rightarrow> string list result" where
  "file_blockers dir checksums manifest files = (\<lambda>(label, rel_path).
     case files (under dir (py_str rel_path)) of
       None \<Rightarrow> Inr [''PAPER_EXPORT_FILE_MISSING_'' @ upper label]
     | Some f \<Rightarrow>
         bind_result (expected_checksum checksums manifest (py_str rel_path)) (\<lambda>expected.
           Inr (add_if (truthy expected \<and> expected \<noteq> PStr (stable_file_hash f)) (''PAPER_EXPORT_CHECKSUM_MISMATCH_'' @ upper label))))"

definition forbidden_files :: "string list" where
  "forbidden_files = [''replay_dataset.json'', ''replay_dataset.jsonl'', ''expectancy.json'', ''profitability.json'']"

definition forbidden_label :: "string \<Rightarrow> string" where
  "forbidden_label name = ''PAPER_EXPORT_FORBIDDEN_FILE_'' @ replace_char CHR ''.'' CHR ''_'' (upper name)"

definition check_bundle_files :: "string \<Rightarrow> pydict \<Rightarrow> pydict \<Rightarrow> bundle_files \<Rightarrow> export_result result" where
  "check_bundle_files dir manifest checksums files =
     (let listed = as_dict (dget manifest ''files'');
          found = (export_start VALID (Some dir))\<lparr>xb_manifest := Some manifest, xb_files := listed, xb_checksums := checksums\<rparr>
      in bind_result (map_result (file_blockers dir checksums manifest files) listed) (\<lambda>bs.
           Inr (if concat bs \<noteq> [] then found\<lparr>xb_status := BLOCKED, xb_blockers := concat bs\<rparr>
                else case filter (\<lambda>name. files (under dir name) \<noteq> None) forbidden_files of
                       name # _ \<Rightarrow> found\<lparr>xb_status := BLOCKED, xb_blockers := [forbidden_label name]\<rparr>
                     | [] \<Rightarrow> found)))"

definition export_prefixed :: "string \<Rightarrow> string list \<Rightarrow> string list" where
  "export_prefixed source blockers = map (\<lambda>b. ''PAPER_EXPORT_'' @ source @ ''_'' @ b) blockers"

definition validate_export_bundle :: "path_arg \<Rightarrow> bundle_files \<Rightarrow> export_result result" where
  "validate_export_bundle bundle_root files =
     (let dir = path_or_empty bundle_root; checksums_file = files (under dir ''checksums.json'');
          missing = add_if (files (under dir ''manifest.json'') = None) ''PAPER_EXPORT_MANIFEST_MISSING'' @
                    add_if (checksums_file = None) ''PAPER_EXPORT_CHECKSUMS_MISSING'';
          loaded = load_export_manifest (PathObject dir) files
      in if dir = [] then Inr (export_blocked None [''PAPER_EXPORT_BUNDLE_ROOT_REQUIRED''])
         else if missing \<noteq> [] then Inr (export_blocked (Some dir) missing)
         else if xb_status loaded = BLOCKED
         then Inr (export_blocked (Some dir) (export_prefixed ''MANIFEST'' (xb_blockers loaded)))
         else
           (let manifest = (case xb_manifest loaded of Some d \<Rightarrow> d | None \<Rightarrow> []);
                blocked = (\<lambda>bs. (export_blocked (Some dir) bs)\<lparr>xb_manifest := Some manifest\<rparr>)
            in if validate_manifest manifest \<noteq> [] then Inr (blocked (validate_manifest manifest))
               else case (case checksums_file of Some f \<Rightarrow> bf_json f | None \<Rightarrow> None) of
                      None \<Rightarrow> Inr (blocked [''PAPER_EXPORT_CHECKSUMS_CORRUPT''])
                    | Some (PDict checksums) \<Rightarrow> check_bundle_files dir manifest checksums files
                    | Some _ \<Rightarrow> Inr (blocked [''PAPER_EXPORT_CHECKSUMS_MUST_BE_OBJECT''])))"

section \<open>Building a bundle\<close>

definition bundle_layout :: "(string \<times> string) list" where
  "bundle_layout =
     [(''evidence'', ''evidence/paper_evidence.jsonl''), (''scenarios'', ''scenarios/scenario_results.json''),
      (''checksums'', ''checksums.json''), (''manifest'', ''manifest.json'')]"

definition bundle_id :: "pydict list \<Rightarrow> pyval list \<Rightarrow> pyval \<Rightarrow> string" where
  "bundle_id records results created_at =
     ''paper-export-'' @ digest16 (canonical_json (PDict
       [(''evidence_hashes'', PList (map (\<lambda>d. dget d ''payload_hash'') records)),
        (''scenario_names'', PList (map (\<lambda>v. dget (as_dict v) ''scenario_name'') results)),
        (''created_at_epoch'', created_at)]))"

definition build_manifest :: "path_arg \<Rightarrow> pydict list \<Rightarrow> pyval list \<Rightarrow> pydict \<Rightarrow> pyval \<Rightarrow> pydict" where
  "build_manifest evidence_path records results checksums created_at =
     [(''schema_version'', PStr ''1.0''),
      (''bundle_type'', PStr ''PAPER_EVIDENCE_EXPORT_BUNDLE''),
      (''bundle_id'', PStr (bundle_id records results created_at)),
      (''created_at_epoch'', created_at),
      (''source_evidence_path'', opt_str (normalize_path evidence_path)),
      (''record_count'', PInt (int (length records))),
      (''scenario_count'', PInt (int (length results))),
      (''files'', PDict (map (\<lambda>(label, path). (label, PStr path)) bundle_layout)),
      (''checksums'', PDict checksums),
      (''safe_flags'', PDict read_only_flags),
      (''paper_only'', PBool True),
      (''read_only'', PBool True),
      (''is_order_action'', PBool False),
      (''broker_api_called'', PBool False),
      (''real_order_id'', PNone)]"

definition evidence_checksums :: "pydict list \<Rightarrow> pyval list \<Rightarrow> pydict" where
  "evidence_checksums records results =
     [(''evidence/paper_evidence.jsonl'', PStr (stable_file_hash (jsonl_file records))),
      (''scenarios/scenario_results.json'', PStr (stable_file_hash (json_file (PList results))))]"

definition listed_checksums :: "pydict list \<Rightarrow> pyval list \<Rightarrow> pydict" where
  "listed_checksums records results =
     evidence_checksums records results @
     [(''checksums.json'', PStr (stable_file_hash (json_file (PDict (evidence_checksums records results)))))]"

text \<open>The manifest is written, its digest is added to the checksums that it lists, and it is written again.\<close>

definition first_manifest :: "path_arg \<Rightarrow> pydict list \<Rightarrow> pyval list \<Rightarrow> pyval \<Rightarrow> pydict" where
  "first_manifest evidence_path records results created_at =
     build_manifest evidence_path records results (listed_checksums records results) created_at"

definition final_checksums :: "path_arg \<Rightarrow> pydict list \<Rightarrow> pyval list \<Rightarrow> pyval \<Rightarrow> pydict" where
  "final_checksums evidence_path records results created_at =
     dset ''manifest.json'' (PStr (stable_file_hash (json_file (PDict (first_manifest evidence_path records results created_at)))))
       (listed_checksums records results)"

definition final_manifest :: "path_arg \<Rightarrow> pydict list \<Rightarrow> pyval list \<Rightarrow> pyval \<Rightarrow> pydict" where
  "final_manifest evidence_path records results created_at =
     dset ''checksums'' (PDict (final_checksums evidence_path records results created_at))
       (first_manifest evidence_path records results created_at)"

definition write_bundle ::
  "string \<Rightarrow> path_arg \<Rightarrow> pydict list \<Rightarrow> pyval list \<Rightarrow> pyval \<Rightarrow> bundle_files \<Rightarrow> bundle_files" where
  "write_bundle dir evidence_path records results created_at files =
     files(under dir ''evidence/paper_evidence.jsonl'' := Some (jsonl_file records),
           under dir ''scenarios/scenario_results.json'' := Some (json_file (PList results)),
           under dir ''checksums.json'' := Some (json_file (PDict (evidence_checksums records results))),
           under dir ''manifest.json'' := Some (json_file (PDict (final_manifest evidence_path records results created_at))))"

definition build_export_bundle ::
  "path_arg \<Rightarrow> path_arg \<Rightarrow> pyval \<Rightarrow> pyval \<Rightarrow> bundle_files \<Rightarrow> (export_result \<times> bundle_files) result" where
  "build_export_bundle bundle_root evidence_path scenario_results created_at files =
     (let blockers = validate_export_inputs bundle_root evidence_path scenario_results;
          dir = normalize_path bundle_root; results = as_list scenario_results;
          loaded = load_evidence_records evidence_path (rows_of_files files);
          evidence_blockers = validate_records_safe (er_records loaded) ''EVIDENCE''
      in if blockers \<noteq> [] then Inr (export_blocked dir blockers, files)
         else if er_status loaded = evidence_status.BLOCKED
         then Inr ((export_blocked dir (export_prefixed ''EVIDENCE_LOAD''
                (if er_blockers loaded \<noteq> [] then er_blockers loaded else [''PAPER_EXPORT_EVIDENCE_LOAD_BLOCKED''])))
                \<lparr>xb_warnings := er_warnings loaded\<rparr>, files)
         else if evidence_blockers \<noteq> []
         then Inr ((export_blocked dir evidence_blockers)\<lparr>xb_warnings := er_warnings loaded\<rparr>, files)
         else if validate_scenario_results results \<noteq> []
         then Inr (export_blocked dir (validate_scenario_results results), files)
         else
           (let target = path_or_empty bundle_root;
                files' = write_bundle target evidence_path (er_records loaded) results created_at files;
                built = (export_start BUILT (Some target))
                  \<lparr>xb_manifest := Some (final_manifest evidence_path (er_records loaded) results created_at),
                   xb_files := map (\<lambda>(label, path). (label, PStr path)) bundle_layout,
                   xb_checksums := final_checksums evidence_path (er_records loaded) results created_at,
                   xb_warnings := er_warnings loaded\<rparr>
            in bind_result (validate_export_bundle (PathObject target) files') (\<lambda>checked.
                 Inr (if xb_status checked = BLOCKED
                      then built\<lparr>xb_status := BLOCKED, xb_warnings := [],
                             xb_blockers := export_prefixed ''VALIDATION''
                               (if xb_blockers checked \<noteq> [] then xb_blockers checked else [''PAPER_EXPORT_VALIDATION_BLOCKED''])\<rparr>
                      else built, files'))))"

section \<open>What a valid bundle holds\<close>

lemma manifest_safe: "validate_manifest m = [] \<Longrightarrow> deeply_safe (PDict m)"
proof -
  assume valid: "validate_manifest m = []"
  have "\<not> blank ''PAPER_EXPORT_MANIFEST''" by code_simp
  from nested_blockers_blank [OF this, of m] show ?thesis
    using valid unfolding validate_manifest_def Let_def dedupe_eq_Nil list_all_append by blast
qed

lemma stable_file_hash_not_empty [simp]: "stable_file_hash f \<noteq> []"
proof
  assume "stable_file_hash f = []"
  then have "length (digest16 (bf_text f)) = 0" by (simp only: stable_file_hash_def digest16_def) simp
  then show False by (simp only: length_digest16)
qed

lemma path_object [simp]: "path_or_empty (PathObject p) = p"
  by (simp add: path_or_empty_def normalize_path_def)

lemma validate_bundle_cases:
  assumes "validate_export_bundle b files = Inr r" "xb_status r \<noteq> BLOCKED"
  obtains f g m c where "files (under (path_or_empty b) ''manifest.json'') = Some f" "bf_json f = Some (PDict m)"
    "files (under (path_or_empty b) ''checksums.json'') = Some g" "bf_json g = Some (PDict c)"
    "validate_manifest m = []" "check_bundle_files (path_or_empty b) m c files = Inr r"
proof -
  let ?dir = "path_or_empty b"
  have dir: "?dir \<noteq> []" using assms by (auto simp: validate_export_bundle_def export_blocked_def export_start_def)
  with assms obtain f g where f: "files (under ?dir ''manifest.json'') = Some f" and g: "files (under ?dir ''checksums.json'') = Some g"
    by (cases "files (under ?dir ''manifest.json'')"; cases "files (under ?dir ''checksums.json'')")
      (auto simp: validate_export_bundle_def export_blocked_def export_start_def Let_def)
  note run = assms(1) [unfolded validate_export_bundle_def Let_def f g]
  have load: "load_export_manifest (PathObject ?dir) files =
      (case bf_json f of
         None \<Rightarrow> export_blocked (Some ?dir) [''PAPER_EXPORT_MANIFEST_CORRUPT'']
       | Some (PDict d) \<Rightarrow> (export_start VALID (Some ?dir))\<lparr>xb_manifest := Some d\<rparr>
       | Some _ \<Rightarrow> export_blocked (Some ?dir) [''PAPER_EXPORT_MANIFEST_MUST_BE_OBJECT''])"
    using dir f by (simp add: load_export_manifest_def Let_def)
  have "\<exists>m. bf_json f = Some (PDict m)"
    using run assms(2) dir unfolding load
    by (auto simp: export_blocked_def export_start_def split: option.splits pyval.splits if_splits)
  then obtain m where m: "bf_json f = Some (PDict m)" ..
  with load have loaded: "load_export_manifest (PathObject ?dir) files = (export_start VALID (Some ?dir))\<lparr>xb_manifest := Some m\<rparr>" by simp
  have "validate_manifest m = [] \<and> (\<exists>c. bf_json g = Some (PDict c) \<and> check_bundle_files ?dir m c files = Inr r)"
    using run assms(2) dir unfolding loaded
    by (auto simp: export_blocked_def export_start_def split: option.splits pyval.splits if_splits)
  with f g m that show thesis by blast
qed


text \<open>The conditions on a manifest besides its flags.\<close>

definition manifest_named :: "pydict \<Rightarrow> bool" where
  "manifest_named m \<longleftrightarrow>
     list_all (has_key m) manifest_keys \<and> dget m ''schema_version'' = PStr ''1.0'' \<and>
     dget m ''bundle_type'' = PStr ''PAPER_EVIDENCE_EXPORT_BUNDLE'' \<and>
     \<not> occurs_in ''replay'' (lower_json (py_or (dget m ''files'') (PDict []))) \<and>
     (let s = lower_json (PDict m) in \<not> occurs_in ''expectancy'' s \<and> \<not> occurs_in ''profitability'' s)"

lemma manifest_valid: "deeply_safe (PDict m) \<Longrightarrow> manifest_named m \<Longrightarrow> validate_manifest m = []"
proof -
  assume safe: "deeply_safe (PDict m)" and named: "manifest_named m"
  have "nested_payload_blockers ''PAPER_EXPORT_MANIFEST'' (PDict m) = []" using safe by (simp add: nested_blockers_iff)
  with named show ?thesis
    by (simp add: validate_manifest_def manifest_named_def Let_def list_all_iff del: nested_blockers_iff)
qed

lemma reaches_scalar: "\<not> reaches PNone e" "\<not> reaches (PBool b) e" "\<not> reaches (PInt i) e" "\<not> reaches (PStr s) e"
  by (auto dest: reaches_dict)

definition demo_manifest :: pydict where
  "demo_manifest =
     [(''schema_version'', PStr ''1.0''), (''bundle_type'', PStr ''PAPER_EVIDENCE_EXPORT_BUNDLE''), (''bundle_id'', PStr ''b1''),
      (''created_at_epoch'', PNone), (''source_evidence_path'', PNone), (''record_count'', PInt 0), (''scenario_count'', PInt 0),
      (''files'', PDict [(''evidence'', PStr ''e.jsonl'')]), (''checksums'', PNone), (''safe_flags'', PNone)] @
     read_only_flags"

definition demo_bundle :: "pydict list \<Rightarrow> bundle_files" where
  "demo_bundle records =
     [''b/manifest.json'' \<mapsto> json_file (PDict demo_manifest), ''b/e.jsonl'' \<mapsto> jsonl_file records,
      ''b/checksums.json'' \<mapsto> json_file (PDict [(''e.jsonl'', PStr (stable_file_hash (jsonl_file records)))])]"

lemma sort_json_single: "sort_json (PDict [(k, PStr s)]) = PDict [(k, PStr s)]"
  by simp

lemma demo_manifest_valid:
  assumes "sort_json (PDict demo_manifest) = PDict m"
  shows "validate_manifest m = []" "dget m ''files'' = PDict [(''evidence'', PStr ''e.jsonl'')]" "dget m ''bundle_id'' = PStr ''b1''"
proof -
  have "deeply_safe (PDict demo_manifest)"
    by (auto simp: deeply_safe_def deeply_def demo_manifest_def read_only_flags_def reaches_PDict reaches_scalar entry_safe_def)
  then have safe: "deeply_safe (PDict m)" using deeply_safe_sorted [of "PDict demo_manifest"] unfolding assms by blast
  have "manifest_named (as_dict (sort_json (PDict demo_manifest)))"
    "dget (as_dict (sort_json (PDict demo_manifest))) ''files'' = PDict [(''evidence'', PStr ''e.jsonl'')]"
    "dget (as_dict (sort_json (PDict demo_manifest))) ''bundle_id'' = PStr ''b1''" by code_simp+
  then have "manifest_named m" and listed: "dget m ''files'' = PDict [(''evidence'', PStr ''e.jsonl'')]" "dget m ''bundle_id'' = PStr ''b1''"
    by (simp_all only: assms as_dict.simps)
  with safe show "validate_manifest m = []" "dget m ''files'' = PDict [(''evidence'', PStr ''e.jsonl'')]" "dget m ''bundle_id'' = PStr ''b1''"
    by (simp_all add: manifest_valid)
qed

lemma demo_bundle_checked:
  obtains r m where "validate_export_bundle (PathObject ''b'') (demo_bundle records) = Inr r" "xb_status r = VALID" "sort_json (PDict demo_manifest) = PDict m"
    "load_export_manifest (PathObject ''b'') (demo_bundle records) = (export_start VALID (Some ''b''))\<lparr>xb_manifest := Some m\<rparr>"
proof -
  let ?c = "[(''e.jsonl'', PStr (stable_file_hash (jsonl_file records)))]" and ?files = "demo_bundle records"
  obtain m where sorted: "sort_json (PDict demo_manifest) = PDict m" by simp
  note m = demo_manifest_valid [OF sorted]
  have paths: "under ''b'' ''manifest.json'' = ''b/manifest.json''" "under ''b'' ''checksums.json'' = ''b/checksums.json''"
    "under ''b'' ''e.jsonl'' = ''b/e.jsonl''" by code_simp+
  have files: "?files ''b/manifest.json'' = Some (json_file (PDict demo_manifest))"
    "?files ''b/checksums.json'' = Some (json_file (PDict ?c))" "?files ''b/e.jsonl'' = Some (jsonl_file records)"
    by (simp_all add: demo_bundle_def)
  have json: "bf_json (json_file (PDict demo_manifest)) = Some (PDict m)" "bf_json (json_file (PDict ?c)) = Some (PDict ?c)"
    by (simp_all only: json_file_def bundle_file.simps sorted sort_json_single)
  have forbidden: "filter (\<lambda>name. ?files (under ''b'' name) \<noteq> None) forbidden_files = []"
    by (simp add: demo_bundle_def forbidden_files_def under_def starts_with_def)
  have "file_blockers ''b'' ?c m ?files (''evidence'', PStr ''e.jsonl'') = Inr []"
    by (simp add: file_blockers_def paths files expected_checksum_def)
  then have "\<exists>r. check_bundle_files ''b'' m ?c ?files = Inr r \<and> xb_status r = VALID"
    by (simp add: check_bundle_files_def Let_def m(2) forbidden export_start_def del: not_None_eq)
  moreover have load: "load_export_manifest (PathObject ''b'') ?files = (export_start VALID (Some ''b''))\<lparr>xb_manifest := Some m\<rparr>"
    by (simp add: load_export_manifest_def paths files json)
  ultimately obtain r where "validate_export_bundle (PathObject ''b'') ?files = Inr r" "xb_status r = VALID"
    by (auto simp: validate_export_bundle_def paths files m(1) export_start_def json Let_def)
  with that sorted load show thesis by blast
qed


section \<open>The digest of the manifest\<close>

lemma length_join: "length (join sep xs) = sum_list (map length xs) + (length xs - 1) * length sep"
  by (induction sep xs rule: join.induct) simp_all

definition entry_length :: "nat \<Rightarrow> string \<times> pyval \<Rightarrow> nat" where
  "entry_length n = (\<lambda>(k, v). length (json_string k) + 2 + length (pretty_text (Suc n) v))"

lemma length_pretty_dict:
  assumes "d \<noteq> []"
  shows "length (pretty_text n (PDict d)) =
    2 + length (json_newline n) + length d * length (json_newline (Suc n)) + (length d - 1) + sum_list (map (entry_length n) d)"
proof -
  have "sum_list (map length (map (\<lambda>(k, v). json_string k @ '': '' @ pretty_text (Suc n) v) d)) = sum_list (map (entry_length n) d)"
    by (auto simp: entry_length_def case_prod_unfold intro!: arg_cong [where f = sum_list])
  moreover obtain l where "length d = Suc l" using assms by (cases d) auto
  ultimately show ?thesis using assms by (simp add: length_join algebra_simps)
qed

lemma sum_sorted: "sum_list (map (h :: 'a \<Rightarrow> nat) (sort_key g xs)) = sum_list (map h xs)"
proof (induction xs)
  case (Cons x xs)
  have "sum_list (map h (insort_key g x ys)) = h x + sum_list (map h ys)" for ys by (induction ys) auto
  with Cons show ?case by simp
qed simp

lemma length_sorted_dict:
  assumes "d \<noteq> []"
  shows "length (pretty_text n (sort_json (PDict d))) =
    2 + length (json_newline n) + length d * length (json_newline (Suc n)) + (length d - 1) +
    sum_list (map (\<lambda>(k, v). entry_length n (k, sort_json v)) d)"
proof -
  let ?d = "sort_key fst (map (\<lambda>(k, v). (k, sort_json v)) d)"
  have "length ?d = length d" by simp
  with assms have "?d \<noteq> []" by (metis length_0_conv)
  from length_pretty_dict [OF this, of n] show ?thesis
    unfolding sort_json.simps sum_sorted by (simp add: comp_def case_prod_unfold)
qed

lemma final_manifest_longer:
  "length (bf_text (json_file (PDict (first_manifest e records results t)))) <
   length (bf_text (json_file (PDict (final_manifest e records results t))))"
proof -
  let ?c = "listed_checksums records results" and ?h = "PStr (stable_file_hash (json_file (PDict (first_manifest e records results t))))"
  have final: "final_checksums e records results t = ?c @ [(''manifest.json'', ?h)]"
    by (simp add: final_checksums_def listed_checksums_def evidence_checksums_def)
  have "length (pretty_text (Suc 0) (sort_json (PDict ?c))) <
      length (pretty_text (Suc 0) (sort_json (PDict (final_checksums e records results t))))"
    unfolding final by (subst (1 2) length_sorted_dict) (simp_all add: listed_checksums_def)
  moreover have "final_manifest e records results t = build_manifest e records results (final_checksums e records results t) t"
    by (simp add: final_manifest_def first_manifest_def build_manifest_def)
  moreover have "build_manifest e records results c t \<noteq> []" for c by (simp add: build_manifest_def)
  ultimately show ?thesis
    unfolding first_manifest_def
    by (simp add: json_file_def pretty_json_def length_sorted_dict del: sort_json.simps) (simp add: build_manifest_def entry_length_def del: sort_json.simps)
qed

lemma under_inject: "\<not> starts_with n ''/'' \<Longrightarrow> \<not> starts_with m ''/'' \<Longrightarrow> under dir n = under dir m \<longleftrightarrow> n = m"
  by (simp add: under_def)

lemma built_bundle_validated:
  assumes "build_export_bundle b e results t files = Inr (r, files')" "xb_status r = BUILT"
  obtains checked where
    "validate_export_bundle (PathObject (path_or_empty b))
       (write_bundle (path_or_empty b) e (er_records (load_evidence_records e (rows_of_files files))) (as_list results) t files) =
     Inr checked" "xb_status checked \<noteq> BLOCKED"
proof -
  let ?v = "validate_export_bundle (PathObject (path_or_empty b))
       (write_bundle (path_or_empty b) e (er_records (load_evidence_records e (rows_of_files files))) (as_list results) t files)"
  note run = assms(1) [unfolded build_export_bundle_def Let_def]
  show thesis
  proof (cases ?v)
    case (Inl err)
    with run assms(2) show thesis by (auto simp: export_blocked_def export_start_def split: if_splits)
  next
    case (Inr checked)
    have "xb_status checked \<noteq> BLOCKED"
      using run [unfolded Inr bind_result_simps] assms(2) by (auto simp: export_blocked_def export_start_def split: if_splits)
    with Inr that show thesis by blast
  qed
qed

lemma written_manifest_hash:
  assumes "validate_export_bundle (PathObject dir) (write_bundle dir e records results t files) = Inr r" "xb_status r \<noteq> BLOCKED"
  shows "stable_file_hash (json_file (PDict (first_manifest e records results t))) =
    stable_file_hash (json_file (PDict (final_manifest e records results t)))"
proof -
  let ?F = "json_file (PDict (final_manifest e records results t))" and ?c = "PDict (evidence_checksums records results)"
  let ?h = "stable_file_hash (json_file (PDict (first_manifest e records results t)))"
  let ?files = "write_bundle dir e records results t files"
  have written: "?files (under dir ''manifest.json'') = Some ?F" "?files (under dir ''checksums.json'') = Some (json_file ?c)"
    by (simp_all add: write_bundle_def under_inject starts_with_def)
  obtain m where m: "sort_json (PDict (final_manifest e records results t)) = PDict m" by simp
  obtain c where c: "sort_json ?c = PDict c" by simp
  have json: "bf_json ?F = Some (PDict m)" "bf_json (json_file ?c) = Some (PDict c)" by (simp_all only: json_file_def bundle_file.simps m c)
  from assms have check: "check_bundle_files dir m c ?files = Inr r"
    by (rule validate_bundle_cases) (auto simp: written json simp del: sort_json.simps)
  have line: "dget m k = sort_json (dget (final_manifest e records results t) k)" for k
    using dget_line [of "final_manifest e records results t" k] by (simp only: stable_json_def m as_dict.simps)
  have listed: "as_dict (dget m ''files'') = sort_key fst (map (\<lambda>(label, path). (label, PStr path)) bundle_layout)"
    unfolding line by (simp add: final_manifest_def first_manifest_def build_manifest_def case_prod_unfold comp_def)
  have "(''manifest'', PStr ''manifest.json'') \<in> set (as_dict (dget m ''files''))" unfolding listed by (simp add: bundle_layout_def)
  moreover obtain bs where bs: "map_result (file_blockers dir c m ?files) (as_dict (dget m ''files'')) = Inr bs"
    using check by (auto simp: check_bundle_files_def Let_def)
  moreover have "concat bs = []"
    using check [unfolded check_bundle_files_def Let_def bs bind_result_simps] assms(2)
    by (auto simp: export_start_def simp del: concat_eq_Nil_conv split: if_splits)
  ultimately have intact: "file_blockers dir c m ?files (''manifest'', PStr ''manifest.json'') = Inr []"
    using map_result_list_all2 [OF bs] by (fastforce simp: list_all2_conv_all_nth in_set_conv_nth)
  have "dget c ''manifest.json'' = PNone"
    using dget_line [of "evidence_checksums records results" "''manifest.json''"] by (simp only: stable_json_def c as_dict.simps) (simp add: evidence_checksums_def)
  moreover have "dget_or m ''checksums'' (PDict []) = sort_json (PDict (final_checksums e records results t))"
  proof -
    have "dget m ''checksums'' = sort_json (PDict (final_checksums e records results t))"
      unfolding line by (simp add: final_manifest_def del: sort_json.simps)
    then show ?thesis by (auto simp: dget_or_def dget_def split: option.splits)
  qed
  moreover have "dget (as_dict (sort_json (PDict (final_checksums e records results t)))) ''manifest.json'' = PStr ?h"
    using dget_line [of "final_checksums e records results t" "''manifest.json''"] by (simp only: stable_json_def) (simp add: final_checksums_def)
  ultimately have "expected_checksum c m ''manifest.json'' = Inr (PStr ?h)"
    by (simp add: expected_checksum_def)
  then show ?thesis using intact by (simp add: file_blockers_def written split: if_splits)
qed


end
