(* ===== verification/Paper_Replay_Set.thy ===== *)
theory Paper_Replay_Set
  imports Paper_Export
begin

text \<open>
  src/paper_trading/replay_dataset.py: the replay rows that are made of the evidence records of a
  valid export bundle, their validation, and the file they are written to and read from. Where
  a path leads in the file system (\<open>Path.resolve\<close>) is a parameter: the parts of the resolved path.
\<close>

section \<open>Statuses, result, contract\<close>

datatype replay_status = BUILT | VALID | EMPTY | BLOCKED

fun replay_status_value :: "replay_status \<Rightarrow> string" where
  "replay_status_value BUILT = ''BUILT''"
| "replay_status_value VALID = ''VALID''"
| "replay_status_value EMPTY = ''EMPTY''"
| "replay_status_value BLOCKED = ''BLOCKED''"

record replay_result =
  rs_status :: replay_status
  rs_bundle_root :: "string option"
  rs_output_path :: "string option"
  rs_rows :: "pydict list"
  rs_row_count :: nat
  rs_manifest :: "pydict option"
  rs_blockers :: "string list"
  rs_warnings :: "string list"

definition replay_result_to_dict :: "replay_result \<Rightarrow> pydict" where
  "replay_result_to_dict r =
     [(''schema_version'', PStr ''1.0''),
      (''dataset_type'', PStr ''PAPER_REPLAY_DATASET''),
      (''status'', PStr (replay_status_value (rs_status r))),
      (''bundle_root'', opt_str (rs_bundle_root r)),
      (''output_path'', opt_str (rs_output_path r)),
      (''row_count'', PInt (int (rs_row_count r))),
      (''rows'', PList (map PDict (rs_rows r))),
      (''manifest'', opt_dict (rs_manifest r)),
      (''blockers'', str_list (rs_blockers r)),
      (''warnings'', str_list (rs_warnings r)),
      (''paper_only'', PBool True),
      (''read_only'', PBool True),
      (''is_order_action'', PBool False),
      (''broker_api_called'', PBool False),
      (''real_order_id'', PNone)]"

definition replay_result_keys :: "string list" where
  "replay_result_keys =
     [''schema_version'', ''dataset_type'', ''status'', ''bundle_root'', ''output_path'', ''row_count'', ''rows'', ''manifest'',
      ''blockers'', ''warnings'', ''paper_only'', ''read_only'', ''is_order_action'', ''broker_api_called'', ''real_order_id'']"

definition replay_row_keys :: "string list" where
  "replay_row_keys =
     [''schema_version'', ''row_type'', ''row_id'', ''source_bundle_id'', ''source_record_id'', ''source_record_type'',
      ''source_cycle_id'', ''source_candidate_id'', ''source_strategy_id'', ''source_created_at_epoch'', ''scenario_name'',
      ''event_count'', ''pipeline_status'', ''session_id'', ''payload_hash'', ''paper_only'', ''read_only'', ''is_order_action'',
      ''broker_api_called'', ''real_order_id'']"

definition replay_schema_contract :: pydict where
  "replay_schema_contract =
     [(''schema_version'', PStr ''1.0''),
      (''dataset_type'', PStr ''PAPER_REPLAY_DATASET''),
      (''row_type'', PStr ''PAPER_REPLAY_DATASET_ROW''),
      (''output_format'', PStr ''JSONL''),
      (''statuses'', str_list (map replay_status_value [BUILT, VALID, EMPTY, BLOCKED])),
      (''required_row_keys'', str_list replay_row_keys),
      (''required_result_keys'', str_list replay_result_keys),
      (''safe_flags'', PDict read_only_flags),
      (''scope_boundary'', str_list
         [''local_replay_dataset_only'', ''paper_evidence_only'', ''source_traceable_rows'', ''no_outcome_scoring'',
          ''no_model_features'', ''no_runtime_wiring'', ''no_api'', ''no_ui'', ''no_broker_execution'', ''no_live_orders'',
          ''no_strategy_work'', ''no_agent_system_work''])]"

interpretation replay_report: paper_report replay_result_to_dict replay_result_keys
  by unfold_locales (simp_all add: replay_result_to_dict_def replay_result_keys_def has_key_def flags_safe_def)

section \<open>Validation\<close>

definition analysis_fields :: "string list" where
  "analysis_fields =
     [''expectancy'', ''profitability'', ''reward'', ''label'', ''labels'', ''future_return'', ''win_loss'', ''pnl_label'']"

definition analysis_entry :: "string \<times> pyval \<Rightarrow> bool" where
  "analysis_entry = (\<lambda>(key, v). lower key \<in> set analysis_fields)"

definition analysis_field_blockers :: "pyval \<Rightarrow> string list" where
  "analysis_field_blockers payload =
     (if \<not> is_dict payload then []
      else concat (map (\<lambda>(path, w). add_if (analysis_entry w) (''PAPER_REPLAY_'' @ path @ ''_ANALYSIS_FIELD_FORBIDDEN''))
             (walk_nested ''ROOT'' payload)))"

definition replay_row_blockers :: "nat \<times> pyval \<Rightarrow> string list" where
  "replay_row_blockers = (\<lambda>(i, row).
     (let label = ''PAPER_REPLAY_ROW_'' @ int_to_string (int i) @ ''_''
      in case row of
           PDict d \<Rightarrow>
             concat (map (\<lambda>key. add_if (\<not> has_key d key) (label @ ''MISSING_'' @ upper key)) replay_row_keys) @
             map (\<lambda>b. label @ b) (nested_payload_blockers ''PAPER_REPLAY_ROW'' row) @
             map (\<lambda>b. label @ b) (analysis_field_blockers row) @
             add_if (dget d ''schema_version'' \<noteq> PStr ''1.0'') (label @ ''UNKNOWN_SCHEMA_VERSION'') @
             add_if (dget d ''row_type'' \<noteq> PStr ''PAPER_REPLAY_DATASET_ROW'') (label @ ''TYPE_INVALID'')
         | _ \<Rightarrow> [label @ ''MUST_BE_OBJECT'']))"

definition validate_replay_rows :: "pyval \<Rightarrow> string list" where
  "validate_replay_rows rows =
     (case rows of
        PNone \<Rightarrow> [''PAPER_REPLAY_ROWS_REQUIRED'']
      | PList xs \<Rightarrow> dedupe (concat (map replay_row_blockers (enumerate 0 xs)))
      | _ \<Rightarrow> [''PAPER_REPLAY_ROWS_MUST_BE_LIST''])"

text \<open>\<open>target == bundle or bundle in target.parents\<close> on resolved paths\<close>

definition inside :: "(string \<Rightarrow> string list) \<Rightarrow> string \<Rightarrow> string \<Rightarrow> bool" where
  "inside resolve dir target \<longleftrightarrow> take (length (resolve dir)) (resolve target) = resolve dir"

definition validate_replay_inputs :: "(string \<Rightarrow> string list) \<Rightarrow> path_arg \<Rightarrow> path_arg \<Rightarrow> string list" where
  "validate_replay_inputs resolve bundle_root output_path =
     (let bundle = path_or_empty bundle_root; out = path_or_empty output_path
      in dedupe
           (add_if (bundle = []) ''PAPER_REPLAY_BUNDLE_ROOT_REQUIRED'' @
            add_if (output_path \<noteq> PathNone \<and> out = []) ''PAPER_REPLAY_OUTPUT_PATH_INVALID'' @
            add_if (bundle \<noteq> [] \<and> out \<noteq> [] \<and> inside resolve bundle out) ''PAPER_REPLAY_OUTPUT_PATH_MUST_NOT_MUTATE_BUNDLE''))"

section \<open>Rows\<close>

definition replay_row_id :: "pydict \<Rightarrow> string" where
  "replay_row_id seed = ''paper-replay-row-'' @ digest16 (canonical_json (PDict seed))"

definition record_blockers :: "string \<Rightarrow> pydict \<Rightarrow> string list" where
  "record_blockers name d = nested_payload_blockers (''PAPER_REPLAY_'' @ name) (PDict d) @ analysis_field_blockers (PDict d)"

definition replay_row_of :: "pydict \<Rightarrow> pydict \<Rightarrow> pydict option" where
  "replay_row_of d manifest =
     (let payload = as_dict (dget d ''payload'');
          seed = [(''bundle_id'', dget manifest ''bundle_id''), (''record_id'', dget d ''record_id''),
                  (''payload_hash'', dget d ''payload_hash'')]
      in if record_blockers ''SOURCE_RECORD'' d \<noteq> [] then None
         else Some
           [(''schema_version'', PStr ''1.0''),
            (''row_type'', PStr ''PAPER_REPLAY_DATASET_ROW''),
            (''row_id'', PStr (replay_row_id seed)),
            (''source_bundle_id'', dget manifest ''bundle_id''),
            (''source_record_id'', dget d ''record_id''),
            (''source_record_type'', dget d ''record_type''),
            (''source_cycle_id'', dget d ''cycle_id''),
            (''source_candidate_id'', py_or (dget d ''candidate_id'') (dget payload ''candidate_id'')),
            (''source_strategy_id'', py_or (dget d ''strategy_id'') (dget payload ''strategy_id'')),
            (''source_created_at_epoch'', dget d ''created_at_epoch''),
            (''scenario_name'', dget payload ''scenario_name''),
            (''event_count'', dget payload ''event_count''),
            (''pipeline_status'', py_or (dget payload ''status'') (dget payload ''pipeline_status'')),
            (''session_id'', dget payload ''session_id''),
            (''payload_hash'', dget d ''payload_hash''),
            (''paper_only'', PBool True),
            (''read_only'', PBool True),
            (''is_order_action'', PBool False),
            (''broker_api_called'', PBool False),
            (''real_order_id'', PNone)])"

definition bundle_evidence_path :: "string option \<Rightarrow> pydict \<Rightarrow> string" where
  "bundle_evidence_path bundle_root manifest =
     (let files = as_dict (dget manifest ''files'')
      in under (case bundle_root of Some p \<Rightarrow> p | None \<Rightarrow> [])
           (py_str (py_or (dget files ''evidence'') (PStr ''evidence/paper_evidence.jsonl''))))"

definition exported_row_blockers :: "nat \<times> journal_row \<Rightarrow> string list" where
  "exported_row_blockers = (\<lambda>(line, row).
     case row of
       BlankRow \<Rightarrow> []
     | CorruptRow \<Rightarrow> [''PAPER_REPLAY_EVIDENCE_CORRUPT_JSONL_LINE_'' @ int_to_string (int line)]
     | JsonRow (PDict d) \<Rightarrow>
         map (\<lambda>b. ''LINE_'' @ int_to_string (int line) @ ''_'' @ b) (record_blockers ''EVIDENCE_RECORD'' d)
     | JsonRow _ \<Rightarrow> [''PAPER_REPLAY_EVIDENCE_NON_OBJECT_JSONL_LINE_'' @ int_to_string (int line)])"

definition exported_row_record :: "journal_row \<Rightarrow> pydict list" where
  "exported_row_record row =
     (case row of JsonRow (PDict d) \<Rightarrow> (if record_blockers ''EVIDENCE_RECORD'' d = [] then [d] else []) | _ \<Rightarrow> [])"

definition load_exported_evidence :: "string \<Rightarrow> bundle_files \<Rightarrow> pydict list \<times> string list" where
  "load_exported_evidence path files =
     (case files path of
        None \<Rightarrow> ([], [''PAPER_REPLAY_EVIDENCE_FILE_MISSING''])
      | Some f \<Rightarrow>
          (concat (map exported_row_record (bf_rows f)), dedupe (concat (map exported_row_blockers (enumerate 1 (bf_rows f))))))"

section \<open>Building and loading\<close>

definition replay_start :: "replay_status \<Rightarrow> string option \<Rightarrow> string option \<Rightarrow> replay_result" where
  "replay_start status bundle_root output_path =
     \<lparr>rs_status = status, rs_bundle_root = bundle_root, rs_output_path = output_path, rs_rows = [], rs_row_count = 0,
      rs_manifest = None, rs_blockers = [], rs_warnings = []\<rparr>"

definition replay_prefixed :: "string \<Rightarrow> string list \<Rightarrow> string \<Rightarrow> string list" where
  "replay_prefixed source blockers other =
     map (\<lambda>b. ''PAPER_REPLAY_'' @ source @ ''_'' @ b) (if blockers \<noteq> [] then blockers else [other])"

definition write_replay_rows :: "string option \<Rightarrow> pydict list \<Rightarrow> bundle_files \<Rightarrow> bundle_files" where
  "write_replay_rows out rows files =
     (case out of Some p \<Rightarrow> (if p = [] then files else files(p := Some (jsonl_file rows))) | None \<Rightarrow> files)"

definition built_replay_rows ::
  "string option \<Rightarrow> string option \<Rightarrow> pydict \<Rightarrow> bundle_files \<Rightarrow> replay_result \<times> bundle_files" where
  "built_replay_rows bundle out manifest files =
     (let (records, evidence_blockers) = load_exported_evidence (bundle_evidence_path bundle manifest) files;
          rows = concat (map (\<lambda>d. case replay_row_of d manifest of Some row \<Rightarrow> [row] | None \<Rightarrow> []) records);
          row_blockers = validate_replay_rows (PList (map PDict rows));
          blocked = (replay_start BLOCKED bundle out)\<lparr>rs_manifest := Some manifest\<rparr>
      in if evidence_blockers \<noteq> [] then (blocked\<lparr>rs_blockers := evidence_blockers\<rparr>, files)
         else if row_blockers \<noteq> []
         then (blocked\<lparr>rs_rows := rows, rs_row_count := length rows, rs_blockers := row_blockers\<rparr>, files)
         else ((replay_start (if rows \<noteq> [] then BUILT else EMPTY) bundle out)
                 \<lparr>rs_rows := rows, rs_row_count := length rows, rs_manifest := Some manifest,
                  rs_warnings := (if rows \<noteq> [] then [] else [''PAPER_REPLAY_DATASET_NO_ELIGIBLE_ROWS''])\<rparr>,
               write_replay_rows out rows files))"

definition build_replay_dataset ::
  "(string \<Rightarrow> string list) \<Rightarrow> path_arg \<Rightarrow> path_arg \<Rightarrow> bundle_files \<Rightarrow> (replay_result \<times> bundle_files) result" where
  "build_replay_dataset resolve bundle_root output_path files =
     (let bundle = normalize_path bundle_root; out = normalize_path output_path;
          blockers = validate_replay_inputs resolve bundle_root output_path;
          blocked = replay_start BLOCKED bundle out; loaded = load_export_manifest bundle_root files
      in if blockers \<noteq> [] then Inr (blocked\<lparr>rs_blockers := blockers\<rparr>, files)
         else
           bind_result (validate_export_bundle bundle_root files) (\<lambda>checked.
             Inr (if xb_status checked = export_status.BLOCKED
                  then (blocked\<lparr>rs_blockers := replay_prefixed ''BUNDLE_VALIDATION'' (xb_blockers checked)
                                  ''PAPER_REPLAY_BUNDLE_VALIDATION_BLOCKED'', rs_warnings := xb_warnings checked\<rparr>, files)
                  else if xb_status loaded = export_status.BLOCKED
                  then (blocked\<lparr>rs_blockers := replay_prefixed ''MANIFEST'' (xb_blockers loaded)
                                  ''PAPER_REPLAY_MANIFEST_BLOCKED'', rs_warnings := xb_warnings loaded\<rparr>, files)
                  else built_replay_rows bundle out (case xb_manifest loaded of Some m \<Rightarrow> m | None \<Rightarrow> []) files)))"

definition saved_row_blockers :: "nat \<times> journal_row \<Rightarrow> string list" where
  "saved_row_blockers = (\<lambda>(line, row).
     case row of
       BlankRow \<Rightarrow> []
     | CorruptRow \<Rightarrow> [''PAPER_REPLAY_CORRUPT_JSONL_LINE_'' @ int_to_string (int line)]
     | JsonRow (PDict d) \<Rightarrow> []
     | JsonRow _ \<Rightarrow> [''PAPER_REPLAY_NON_OBJECT_JSONL_LINE_'' @ int_to_string (int line)])"

definition saved_row :: "journal_row \<Rightarrow> pydict list" where
  "saved_row row = (case row of JsonRow (PDict d) \<Rightarrow> [d] | _ \<Rightarrow> [])"

definition load_replay_rows :: "path_arg \<Rightarrow> bundle_files \<Rightarrow> replay_result" where
  "load_replay_rows path files =
     (let p = path_or_empty path
      in if p = [] then (replay_start BLOCKED None (normalize_path path))\<lparr>rs_blockers := [''PAPER_REPLAY_DATASET_PATH_REQUIRED'']\<rparr>
         else case files p of
                None \<Rightarrow> (replay_start EMPTY None (Some p))\<lparr>rs_warnings := [''PAPER_REPLAY_DATASET_FILE_MISSING_EMPTY'']\<rparr>
              | Some f \<Rightarrow>
                  (let rows = concat (map saved_row (bf_rows f));
                       blockers = concat (map saved_row_blockers (enumerate 1 (bf_rows f))) @ validate_replay_rows (PList (map PDict rows))
                   in if blockers \<noteq> [] then (replay_start BLOCKED None (Some p))\<lparr>rs_blockers := dedupe blockers\<rparr>
                      else (replay_start (if rows \<noteq> [] then VALID else EMPTY) None (Some p))
                             \<lparr>rs_rows := rows, rs_row_count := length rows,
                              rs_warnings := (if rows \<noteq> [] then [] else [''PAPER_REPLAY_DATASET_FILE_EMPTY''])\<rparr>))"

section \<open>Clean objects\<close>

text \<open>An object without an unsafe flag and without an analysis field, at any depth.\<close>

definition clean :: "pydict \<Rightarrow> bool" where
  "clean d \<longleftrightarrow> deeply_safe (PDict d) \<and> deeply (\<lambda>e. \<not> analysis_entry e) (PDict d)"

definition deeply_value :: "(string \<times> pyval \<Rightarrow> bool) \<Rightarrow> pyval \<Rightarrow> bool" where
  "deeply_value P v \<longleftrightarrow> deeply P v \<and> (case v of PList xs \<Rightarrow> list_all (deeply P) xs | _ \<Rightarrow> True)"

lemma deeply_PDict: "deeply P (PDict d) \<longleftrightarrow> list_all P d \<and> list_all (\<lambda>(k, v). deeply_value P v) d"
proof -
  let ?in = "\<lambda>v e. reaches v e \<or> (\<exists>xs x. v = PList xs \<and> x \<in> set xs \<and> reaches x e)"
  have item: "deeply_value P v \<longleftrightarrow> (\<forall>e. ?in v e \<longrightarrow> list_all P e)" for v
    unfolding deeply_value_def deeply_def by (cases v) (auto simp: list_all_def)
  have "deeply P (PDict d) \<longleftrightarrow> (\<forall>e. e = d \<or> (\<exists>k v. (k, v) \<in> set d \<and> ?in v e) \<longrightarrow> list_all P e)"
    unfolding deeply_def reaches_PDict by blast
  also have "\<dots> \<longleftrightarrow> list_all P d \<and> (\<forall>k v. (k, v) \<in> set d \<longrightarrow> (\<forall>e. ?in v e \<longrightarrow> list_all P e))" by blast
  also have "\<dots> \<longleftrightarrow> list_all P d \<and> list_all (\<lambda>(k, v). deeply_value P v) d"
    unfolding item [symmetric] list_all_iff [where P = "\<lambda>(k, v). deeply_value P v"] by blast
  finally show ?thesis .
qed

lemma deeply_value_scalar [simp]:
  "deeply_value P PNone" "deeply_value P (PBool b)" "deeply_value P (PInt i)" "deeply_value P (PStr s)"
  by (auto simp: deeply_value_def deeply_def reaches_scalar)

lemma deeply_value_py_or: "deeply_value P v \<Longrightarrow> deeply_value P w \<Longrightarrow> deeply_value P (py_or v w)"
  by (simp add: py_or_def)

lemma deeply_value_dget: "deeply P (PDict d) \<Longrightarrow> deeply_value P (dget d k)"
  by (auto simp: deeply_PDict list_all_iff dget_def dest: map_of_SomeD split: option.split)

lemma deeply_payload: "deeply P (PDict d) \<Longrightarrow> deeply P (PDict (as_dict (dget d k)))"
  using deeply_value_dget [of P d k] by (cases "dget d k") (auto simp: deeply_value_def deeply_PDict)

lemma analysis_blockers_Nil: "analysis_field_blockers (PDict d) = [] \<longleftrightarrow> deeply (\<lambda>e. \<not> analysis_entry e) (PDict d)"
proof -
  have "analysis_field_blockers (PDict d) = [] \<longleftrightarrow> (\<forall>(path, w) \<in> set (walk_nested ''ROOT'' (PDict d)). \<not> analysis_entry w)"
    unfolding analysis_field_blockers_def by (auto simp: add_if_def)
  then show ?thesis unfolding walk_deeply .
qed

lemma record_blockers_Nil: "record_blockers name d = [] \<longleftrightarrow> clean d"
  by (simp add: record_blockers_def clean_def nested_blockers_iff analysis_blockers_Nil)

lemma clean_line: "clean (as_dict (stable_json d)) \<longleftrightarrow> clean d"
proof -
  have "PDict (as_dict (stable_json d)) = sort_json (PDict d)" by (simp add: stable_json_def)
  then show ?thesis
    unfolding clean_def using deeply_safe_sorted [of "PDict d"] deeply_sorted [of "\<lambda>e. \<not> analysis_entry e" "PDict d"]
    by (simp add: analysis_entry_def)
qed

definition row_valid :: "pydict \<Rightarrow> bool" where
  "row_valid d \<longleftrightarrow>
     list_all (has_key d) replay_row_keys \<and> clean d \<and> dget d ''schema_version'' = PStr ''1.0'' \<and>
     dget d ''row_type'' = PStr ''PAPER_REPLAY_DATASET_ROW''"

lemma row_blockers_blank: "list_all blank (replay_row_blockers (i, PDict d)) \<longleftrightarrow> row_valid d"
proof -
  define l where "l = ''PAPER_REPLAY_ROW_'' @ int_to_string (int i) @ ''_''"
  have "\<not> blank ''PAPER_REPLAY_ROW_''" by code_simp
  then have none: "\<not> blank l" by (simp add: l_def del: append.simps)
  have "list_all blank (concat (map (\<lambda>key. add_if (\<not> has_key d key) (l @ f key)) keys)) \<longleftrightarrow> list_all (has_key d) keys"
    for f keys by (induction keys) (simp_all add: add_if_def none)
  moreover have "list_all blank (map (\<lambda>b. l @ b) bs) \<longleftrightarrow> bs = []" for bs by (cases bs) (simp_all add: none)
  ultimately show ?thesis
    unfolding replay_row_blockers_def prod.case pyval.case Let_def list_all_append row_valid_def clean_def l_def [symmetric]
      nested_blockers_iff [symmetric, of d "''PAPER_REPLAY_ROW''"] analysis_blockers_Nil [symmetric]
    by (simp add: add_if_def none)
qed

lemma rows_valid_iff: "validate_replay_rows (PList (map PDict rows)) = [] \<longleftrightarrow> list_all row_valid rows"
proof -
  have "list_all blank (concat (map replay_row_blockers (enumerate n (map PDict rows)))) \<longleftrightarrow> list_all row_valid rows" for n
    by (induction rows arbitrary: n) (simp_all add: row_blockers_blank)
  then show ?thesis by (simp add: validate_replay_rows_def)
qed

lemma row_valid_line: "row_valid d \<Longrightarrow> row_valid (as_dict (stable_json d))"
  by (simp add: row_valid_def clean_line dget_line list_all_iff)

section \<open>Rows from records\<close>

lemma replay_row_clean:
  assumes "clean d" "dget m ''bundle_id'' = PStr s"
  shows "\<exists>row. replay_row_of d m = Some row \<and> row_valid row"
proof -
  define payload where "payload = as_dict (dget d ''payload'')"
  have fields: "deeply_value P (dget d k)" "deeply_value P (dget payload k)" if "deeply P (PDict d)" for P k
    using that deeply_value_dget deeply_payload unfolding payload_def by blast+
  obtain row where row: "replay_row_of d m = Some row"
    using assms(1) by (simp add: replay_row_of_def record_blockers_Nil Let_def)
  note row_eq = row [unfolded replay_row_of_def Let_def, folded payload_def, simplified record_blockers_Nil assms(2), simplified assms(1), simplified]
  have keys: "map fst row = replay_row_keys" using row_eq by (auto simp: replay_row_keys_def)
  have deep: "deeply P (PDict row)" if "deeply P (PDict d)" "list_all P row" for P
    unfolding deeply_PDict using that(2) fields [OF that(1)] row_eq by (auto simp: deeply_value_py_or)
  have "list_all entry_safe row" using row_eq by (auto simp: entry_safe_def)
  moreover have "list_all (\<lambda>k. lower k \<notin> set analysis_fields) (map fst row)" unfolding keys by code_simp
  ultimately have "clean row"
    using deep assms(1) unfolding clean_def deeply_safe_def
    by (auto simp: list_all_iff analysis_entry_def case_prod_unfold)
  moreover have "list_all (has_key row) replay_row_keys" unfolding keys [symmetric] by (auto simp: list_all_iff has_key_def)
  moreover have "dget row ''schema_version'' = PStr ''1.0''" "dget row ''row_type'' = PStr ''PAPER_REPLAY_DATASET_ROW''"
    using row_eq by auto
  ultimately show ?thesis using row by (simp add: row_valid_def)
qed

section \<open>What a build reads\<close>

definition row_readable :: "journal_row \<Rightarrow> bool" where
  "row_readable row \<longleftrightarrow> row = BlankRow \<or> (\<exists>d. row = JsonRow (PDict d) \<and> clean d)"

lemma exported_row:
  "list_all blank (exported_row_blockers (n, row)) \<longleftrightarrow> row_readable row"
  "row_readable row \<Longrightarrow> exported_row_record row = saved_row row"
proof -
  have labels: "\<not> blank ''LINE_''" "\<not> blank ''PAPER_REPLAY_EVIDENCE_''" by code_simp+
  then have "\<not> blank (''LINE_'' @ s)" for s by (simp only: blank_append) simp
  then have "list_all blank (map (\<lambda>b. ''LINE_'' @ int_to_string (int n) @ ''_'' @ b) bs) \<longleftrightarrow> bs = []" for bs by (cases bs) simp_all
  moreover have "\<not> blank (''PAPER_REPLAY_EVIDENCE_'' @ s)" for s using labels(2) by (simp only: blank_append) simp
  ultimately show "list_all blank (exported_row_blockers (n, row)) \<longleftrightarrow> row_readable row"
    unfolding exported_row_blockers_def prod.case row_readable_def
    by (simp add: record_blockers_Nil split: journal_row.splits pyval.splits)
  show "row_readable row \<Longrightarrow> exported_row_record row = saved_row row"
    by (auto simp: row_readable_def exported_row_record_def saved_row_def record_blockers_Nil)
qed

lemma exported_evidence:
  assumes "load_exported_evidence path files = (records, blockers)" "blockers = []"
  obtains f where "files path = Some f" "list_all row_readable (bf_rows f)" "records = concat (map saved_row (bf_rows f))"
proof -
  have iff: "list_all blank (concat (map exported_row_blockers (enumerate n rows))) \<longleftrightarrow> list_all row_readable rows" for n rows
    by (induction rows arbitrary: n) (simp_all add: exported_row)
  obtain f where f: "files path = Some f" using assms by (auto simp: load_exported_evidence_def split: option.splits)
  with assms iff have "list_all row_readable (bf_rows f)" by (auto simp: load_exported_evidence_def)
  moreover from this have same: "map exported_row_record (bf_rows f) = map saved_row (bf_rows f)"
    by (auto simp: list_all_iff exported_row)
  have "records = concat (map saved_row (bf_rows f))" using assms f by (auto simp: load_exported_evidence_def same)
  ultimately show thesis using f that by blast
qed

lemma replay_build_cases:
  assumes "build_replay_dataset resolve b out files = Inr (r, files')" "rs_status r \<noteq> BLOCKED"
  obtains m v where "validate_replay_inputs resolve b out = []" "validate_export_bundle b files = Inr v" "xb_status v \<noteq> export_status.BLOCKED"
    "validate_manifest m = []" "built_replay_rows (normalize_path b) (normalize_path out) m files = (r, files')"
proof -
  note run = assms(1) [unfolded build_replay_dataset_def Let_def]
  obtain v where v: "validate_export_bundle b files = Inr v"
    using run assms(2) by (auto simp: replay_start_def bind_result_eq_Inr split: if_splits)
  have valid: "xb_status v \<noteq> export_status.BLOCKED" and inputs: "validate_replay_inputs resolve b out = []"
    using run [unfolded v bind_result_simps] assms(2) by (auto simp: replay_start_def split: if_splits)
  from v valid obtain f m where m: "files (under (path_or_empty b) ''manifest.json'') = Some f" "bf_json f = Some (PDict m)" "validate_manifest m = []"
    by (rule validate_bundle_cases)
  have "path_or_empty b \<noteq> []" using v valid by (auto simp: validate_export_bundle_def export_blocked_def export_start_def)
  with m have "load_export_manifest b files = (export_start export_status.VALID (Some (path_or_empty b)))\<lparr>xb_manifest := Some m\<rparr>"
    by (simp add: load_export_manifest_def Let_def)
  then have "built_replay_rows (normalize_path b) (normalize_path out) m files = (r, files')"
    using run [unfolded v bind_result_simps] valid inputs by (simp add: export_start_def)
  with that v valid inputs m(3) show thesis by blast
qed

lemma built_rows:
  assumes "built_replay_rows bundle out m files = (r, files')" "rs_status r \<noteq> BLOCKED"
  obtains f where "files (bundle_evidence_path bundle m) = Some f" "list_all row_readable (bf_rows f)"
    "list_all2 (\<lambda>d row. replay_row_of d m = Some row) (concat (map saved_row (bf_rows f))) (rs_rows r)"
    "list_all row_valid (rs_rows r)" "rs_manifest r = Some m" "rs_status r = (if rs_rows r \<noteq> [] then BUILT else EMPTY)"
    "files' = write_replay_rows out (rs_rows r) files" "rs_row_count r = length (rs_rows r)"
proof -
  obtain records blockers where load: "load_exported_evidence (bundle_evidence_path bundle m) files = (records, blockers)"
    by (cases "load_exported_evidence (bundle_evidence_path bundle m) files")
  define rows where "rows = concat (map (\<lambda>d. case replay_row_of d m of Some row \<Rightarrow> [row] | None \<Rightarrow> []) records)"
  note run = assms(1) [unfolded built_replay_rows_def Let_def load prod.case, folded rows_def]
  have none: "blockers = []" and valid: "validate_replay_rows (PList (map PDict rows)) = []"
    and r: "rs_rows r = rows" "rs_manifest r = Some m" "rs_status r = (if rows \<noteq> [] then BUILT else EMPTY)"
      "files' = write_replay_rows out rows files" "rs_row_count r = length rows"
    using run assms(2) by (auto simp: replay_start_def split: if_splits)
  from load none obtain f where f: "files (bundle_evidence_path bundle m) = Some f" "list_all row_readable (bf_rows f)"
    "records = concat (map saved_row (bf_rows f))" by (rule exported_evidence)
  then have clean: "list_all clean records"
    by (fastforce simp: list_all_iff row_readable_def saved_row_def)
  have "list_all2 (\<lambda>d row. replay_row_of d m = Some row) records rows"
    using clean unfolding rows_def
  proof (induction records)
    case (Cons d records)
    then have "record_blockers ''SOURCE_RECORD'' d = []" by (simp add: record_blockers_Nil)
    then obtain row where "replay_row_of d m = Some row" by (simp add: replay_row_of_def Let_def)
    with Cons show ?case by simp
  qed simp
  with f r valid that show thesis unfolding rows_valid_iff by simp
qed

section \<open>Properties\<close>

text \<open>
  C32. A replay dataset is its bundle's evidence, record for record. When a build is not blocked,
  the export bundle passed its own check, every line of the evidence file of the bundle is blank
  or a clean object, the rows are made of these objects one for one and in their order, no row
  carries an unsafe flag or an analysis field, and nothing is written except at the output path,
  which does not lie inside the bundle.
\<close>

theorem replay_dataset_covers_evidence:
  assumes "build_replay_dataset resolve b out files = Inr (r, files')" "rs_status r \<noteq> replay_status.BLOCKED"
  shows "\<exists>m f v. validate_export_bundle b files = Inr v \<and> xb_status v \<noteq> export_status.BLOCKED \<and> rs_manifest r = Some m \<and>
    files (bundle_evidence_path (normalize_path b) m) = Some f \<and>
    (\<forall>row \<in> set (bf_rows f). row = BlankRow \<or> (\<exists>d. row = JsonRow (PDict d) \<and> clean d)) \<and>
    list_all2 (\<lambda>d row. replay_row_of d m = Some row) (concat (map saved_row (bf_rows f))) (rs_rows r) \<and>
    list_all clean (rs_rows r) \<and>
    (\<forall>p. files' p \<noteq> files p \<longrightarrow> normalize_path out = Some p \<and> \<not> inside resolve (path_or_empty b) p)"
proof -
  from assms obtain m v where inputs: "validate_replay_inputs resolve b out = []" and v: "validate_export_bundle b files = Inr v" "xb_status v \<noteq> export_status.BLOCKED"
    and run: "built_replay_rows (normalize_path b) (normalize_path out) m files = (r, files')"
    by (rule replay_build_cases)
  from run assms(2) obtain f where f: "files (bundle_evidence_path (normalize_path b) m) = Some f" "list_all row_readable (bf_rows f)"
    and rows: "list_all2 (\<lambda>d row. replay_row_of d m = Some row) (concat (map saved_row (bf_rows f))) (rs_rows r)"
      "list_all row_valid (rs_rows r)" and r: "rs_manifest r = Some m" and written: "files' = write_replay_rows (normalize_path out) (rs_rows r) files"
    by (rule built_rows)
  have "\<not> blank ''PAPER_REPLAY_OUTPUT_PATH_MUST_NOT_MUTATE_BUNDLE''" "\<not> blank ''PAPER_REPLAY_BUNDLE_ROOT_REQUIRED''" by code_simp+
  then have "normalize_path out = Some p \<and> \<not> inside resolve (path_or_empty b) p" if "files' p \<noteq> files p" for p
    using that inputs unfolding written
    by (auto simp: write_replay_rows_def validate_replay_inputs_def Let_def add_if_def path_or_empty_def split: option.splits if_splits)
  moreover have "list_all clean (rs_rows r)" using rows(2) by (simp add: list_all_iff row_valid_def)
  moreover have "\<forall>row \<in> set (bf_rows f). row = BlankRow \<or> (\<exists>d. row = JsonRow (PDict d) \<and> clean d)"
    using f(2) by (simp add: list_all_iff row_readable_def)
  ultimately show ?thesis using v f(1) rows(1) r by blast
qed

definition demo_record :: pydict where
  "demo_record = [(''record_id'', PStr ''r1''), (''payload'', PDict [(''status'', PStr ''OK'')])]"

lemma demo_replay_built:
  obtains r files' where
    "build_replay_dataset (\<lambda>p. [p]) (PathObject ''b'') (PathObject ''out'') (demo_bundle [demo_record]) = Inr (r, files')"
    "rs_status r = BUILT" "rs_row_count r = 1"
proof -
  let ?files = "demo_bundle [demo_record]" and ?out = "PathObject ''out''"
  obtain v m where v: "validate_export_bundle (PathObject ''b'') ?files = Inr v" "xb_status v = export_status.VALID"
    and sorted: "sort_json (PDict demo_manifest) = PDict m"
    and load: "load_export_manifest (PathObject ''b'') ?files = (export_start export_status.VALID (Some ''b''))\<lparr>xb_manifest := Some m\<rparr>"
    by (rule demo_bundle_checked)
  note m = demo_manifest_valid [OF sorted]
  have inputs: "validate_replay_inputs (\<lambda>p. [p]) (PathObject ''b'') ?out = []"
    by (simp add: validate_replay_inputs_def inside_def)
  obtain d where line: "stable_json demo_record = PDict d" by (simp add: stable_json_def)
  have "list_all (\<lambda>k. lower k \<notin> set analysis_fields) (map fst demo_record)" "lower ''status'' \<notin> set analysis_fields" by code_simp+
  then have "clean demo_record"
    by (auto simp: clean_def deeply_safe_def deeply_PDict deeply_value_def demo_record_def entry_safe_def analysis_entry_def)
      (auto simp: deeply_def reaches_scalar)
  then have clean: "clean d" using clean_line [of demo_record] by (simp add: line)
  then obtain row where row: "replay_row_of d m = Some row" "row_valid row" using replay_row_clean m(3) by blast
  have path: "bundle_evidence_path (Some ''b'') m = ''b/e.jsonl''"
    by (simp add: bundle_evidence_path_def m(2) py_or_def under_def starts_with_def)
  have "?files ''b/e.jsonl'' = Some (jsonl_file [demo_record])" by (simp add: demo_bundle_def)
  then have "load_exported_evidence (bundle_evidence_path (Some ''b'') m) ?files = ([d], [])"
    unfolding path using clean [folded record_blockers_Nil [of "''EVIDENCE_RECORD''"]]
    by (simp only: load_exported_evidence_def option.case jsonl_file_def bundle_file.simps list.map line)
      (simp add: exported_row_record_def exported_row_blockers_def)
  moreover have "validate_replay_rows (PList (map PDict [row])) = []" using row(2) unfolding rows_valid_iff by simp
  ultimately have "\<exists>r files'. built_replay_rows (Some ''b'') (Some ''out'') m ?files = (r, files') \<and> rs_status r = BUILT \<and> rs_row_count r = 1"
    using row(1) by (simp add: built_replay_rows_def replay_start_def Let_def)
  moreover have "normalize_path (PathObject ''b'') = Some ''b''" "normalize_path ?out = Some ''out''" by (simp_all add: normalize_path_def)
  ultimately show thesis using that by (auto simp: build_replay_dataset_def inputs v load export_start_def)
qed

theorem replay_dataset_covers_evidence_witness:
  "\<exists>r files' m f. build_replay_dataset (\<lambda>p. [p]) (PathObject ''b'') (PathObject ''out'') (demo_bundle [demo_record]) = Inr (r, files') \<and>
     rs_row_count r = 1 \<and> rs_manifest r = Some m \<and> demo_bundle [demo_record] (bundle_evidence_path (Some ''b'') m) = Some f"
proof -
  obtain r files' where r: "build_replay_dataset (\<lambda>p. [p]) (PathObject ''b'') (PathObject ''out'') (demo_bundle [demo_record]) = Inr (r, files')"
    "rs_status r = BUILT" "rs_row_count r = 1" by (rule demo_replay_built)
  have "normalize_path (PathObject ''b'') = Some ''b''" by (simp add: normalize_path_def)
  with replay_dataset_covers_evidence [OF r(1)] r show ?thesis by auto
qed

text \<open>
  What a build writes is read back. The rows of the file at the output path are those of the
  result with their keys sorted, and the load accepts them, with the status VALID exactly when
  the build returned BUILT.
\<close>

theorem replay_dataset_reloads:
  assumes "build_replay_dataset resolve b out files = Inr (r, files')" "rs_status r \<noteq> replay_status.BLOCKED" "normalize_path out = Some p"
  shows "rs_rows (load_replay_rows out files') = map (\<lambda>d. as_dict (stable_json d)) (rs_rows r) \<and>
    rs_status (load_replay_rows out files') = (if rs_status r = replay_status.BUILT then replay_status.VALID else replay_status.EMPTY) \<and>
    rs_row_count (load_replay_rows out files') = rs_row_count r \<and> rs_blockers (load_replay_rows out files') = []"
proof -
  from assms(1,2) obtain m where inputs: "validate_replay_inputs resolve b out = []" 
    and run: "built_replay_rows (normalize_path b) (normalize_path out) m files = (r, files')"
    by (rule replay_build_cases)
  from run assms(2) have rows: "list_all row_valid (rs_rows r)" "rs_status r = (if rs_rows r \<noteq> [] then BUILT else EMPTY)"
    "files' = write_replay_rows (normalize_path out) (rs_rows r) files" "rs_row_count r = length (rs_rows r)"
    by (auto elim: built_rows)
  let ?rows = "map (\<lambda>d. as_dict (stable_json d)) (rs_rows r)"
  have "\<not> blank ''PAPER_REPLAY_OUTPUT_PATH_INVALID''" by code_simp
  then have p: "p \<noteq> []" "path_or_empty out = p" using inputs assms(3)
    by (auto simp: validate_replay_inputs_def Let_def add_if_def path_or_empty_def normalize_path_def split: if_splits)
  have written: "files' p = Some (jsonl_file (rs_rows r))" using rows(3) assms(3) p(1) by (simp add: write_replay_rows_def)
  have "concat (map saved_row (map (\<lambda>d. JsonRow (stable_json d)) ds)) = map (\<lambda>d. as_dict (stable_json d)) ds" for ds
    by (induction ds) (simp_all add: saved_row_def stable_json_def)
  moreover have "concat (map saved_row_blockers (enumerate n (map (\<lambda>d. JsonRow (stable_json d)) ds))) = []" for n ds
    by (induction ds arbitrary: n) (simp_all add: saved_row_blockers_def stable_json_def)
  moreover have "validate_replay_rows (PList (map PDict ?rows)) = []"
    unfolding rows_valid_iff using rows(1) by (auto simp: list_all_iff intro: row_valid_line)
  ultimately have "load_replay_rows out files' =
      (replay_start (if ?rows \<noteq> [] then VALID else EMPTY) None (Some p))\<lparr>rs_rows := ?rows, rs_row_count := length ?rows,
         rs_warnings := (if ?rows \<noteq> [] then [] else [''PAPER_REPLAY_DATASET_FILE_EMPTY''])\<rparr>"
    using p written by (simp only: load_replay_rows_def Let_def jsonl_file_def bundle_file.simps option.case append.simps if_False simp_thms)
  then show ?thesis using rows(2,4) by (simp add: replay_start_def)
qed

theorem replay_dataset_reloads_witness:
  "\<exists>r files'. build_replay_dataset (\<lambda>p. [p]) (PathObject ''b'') (PathObject ''out'') (demo_bundle [demo_record]) = Inr (r, files') \<and>
     rs_status (load_replay_rows (PathObject ''out'') files') = VALID \<and> rs_row_count (load_replay_rows (PathObject ''out'') files') = 1"
proof -
  obtain r files' where r: "build_replay_dataset (\<lambda>p. [p]) (PathObject ''b'') (PathObject ''out'') (demo_bundle [demo_record]) = Inr (r, files')"
    "rs_status r = BUILT" "rs_row_count r = 1" by (rule demo_replay_built)
  have "normalize_path (PathObject ''out'') = Some ''out''" by (simp add: normalize_path_def)
  from replay_dataset_reloads [OF r(1) _ this] r show ?thesis by auto
qed

end
