(* ===== verification/Broker_Contract.thy ===== *)
theory Broker_Contract
  imports Candidate_Truth
begin

text \<open>
  src/broker_contract/resolver.py and readiness.py: the option contract that a candidate asks for is
  sought in a list of instruments, exactly or with the nearest strike, and the candidate gets the
  token of the instrument that was found.
\<close>

section \<open>Requests and resolutions\<close>

datatype resolution_status = EXACT | FALLBACK | NOT_FOUND | COVERAGE_FAILED | INVALID_REQUEST

fun resolution_value :: "resolution_status \<Rightarrow> string" where
  "resolution_value EXACT = ''EXACT''"
| "resolution_value FALLBACK = ''FALLBACK''"
| "resolution_value NOT_FOUND = ''NOT_FOUND''"
| "resolution_value COVERAGE_FAILED = ''COVERAGE_FAILED''"
| "resolution_value INVALID_REQUEST = ''INVALID_REQUEST''"

text \<open>A strike that is an integer is the float it converts to.\<close>

record contract_request =
  oc_symbol :: string
  oc_expiry :: string
  oc_strike :: pyfloat
  oc_option_type :: string
  oc_exchange :: string

definition normalized_request :: "contract_request \<Rightarrow> contract_request" where
  "normalized_request q =
     \<lparr>oc_symbol = strip (upper (oc_symbol q)), oc_expiry = strip (oc_expiry q), oc_strike = oc_strike q,
      oc_option_type = strip (upper (oc_option_type q)), oc_exchange = strip (upper (oc_exchange q))\<rparr>"

record contract_resolution =
  cr_status :: resolution_status
  cr_resolved :: bool
  cr_request :: pydict
  cr_instrument :: "pydict option"
  cr_fallback_used :: bool
  cr_fallback_distance :: "pyfloat option"
  cr_reason :: "string option"
  cr_blockers :: "string list"
  cr_warnings :: "string list"

text \<open>An empty instrument counts as none.\<close>

definition resolved_token :: "contract_resolution \<Rightarrow> pyval" where
  "resolved_token r = (case cr_instrument r of Some d \<Rightarrow> dget d ''instrument_token'' | None \<Rightarrow> PNone)"

definition filled_dict :: "pydict option \<Rightarrow> pyval" where
  "filled_dict d = (case d of Some (e # es) \<Rightarrow> PDict (e # es) | _ \<Rightarrow> PNone)"

definition resolution_to_dict :: "contract_resolution \<Rightarrow> pydict" where
  "resolution_to_dict r =
     [(''status'', PStr (resolution_value (cr_status r))),
      (''resolved'', PBool (cr_resolved r)),
      (''request'', PDict (cr_request r)),
      (''instrument'', filled_dict (cr_instrument r)),
      (''instrument_token'', resolved_token r),
      (''fallback_used'', PBool (cr_fallback_used r)),
      (''fallback_distance'', opt_float (cr_fallback_distance r)),
      (''reason'', opt_str (cr_reason r)),
      (''blockers'', str_list (cr_blockers r)),
      (''warnings'', str_list (cr_warnings r)),
      (''is_execution_decision'', PBool False)]"

definition request_dict :: "contract_request \<Rightarrow> pydict" where
  "request_dict q =
     (let n = normalized_request q
      in [(''symbol'', PStr (oc_symbol n)), (''expiry'', PStr (oc_expiry n)), (''strike'', PFloat (oc_strike n)),
          (''option_type'', PStr (oc_option_type n)), (''exchange'', PStr (oc_exchange n))])"

section \<open>Instruments\<close>

definition instrument_symbol :: "pydict \<Rightarrow> string" where
  "instrument_symbol row = strip (upper (text_or row [''symbol'', ''name'', ''underlying''] []))"

definition instrument_expiry :: "pydict \<Rightarrow> string" where
  "instrument_expiry row = strip (text_or row [''expiry'', ''expiry_date''] [])"

definition instrument_type :: "pydict \<Rightarrow> string" where
  "instrument_type row = strip (upper (text_or row [''instrument_type'', ''option_type'', ''type''] []))"

definition instrument_exchange :: "pydict \<Rightarrow> string" where
  "instrument_exchange row = strip (upper (text_or row [''exchange''] ''NFO''))"

definition instrument_strike :: "pydict \<Rightarrow> pyfloat option result" where
  "instrument_strike row = or_none (py_float (dget row ''strike''))"

definition has_token :: "pydict \<Rightarrow> bool" where
  "has_token row \<longleftrightarrow> \<not> is_blank (dget row ''instrument_token'')"

definition same_family :: "pydict \<Rightarrow> contract_request \<Rightarrow> bool" where
  "same_family row q \<longleftrightarrow>
     (let n = normalized_request q
      in instrument_symbol row = oc_symbol n \<and> instrument_expiry row = oc_expiry n \<and>
         instrument_type row = oc_option_type n \<and> instrument_exchange row = oc_exchange n)"

section \<open>The search\<close>

fun find_exact :: "pydict list \<Rightarrow> contract_request \<Rightarrow> pydict option result" where
  "find_exact [] q = Inr None"
| "find_exact (row # rows) q =
     bind_result (instrument_strike row) (\<lambda>strike.
       case strike of
         None \<Rightarrow> find_exact rows q
       | Some s \<Rightarrow>
           if same_family row q \<and> float_eq s (oc_strike (normalized_request q)) \<and> has_token row then Inr (Some row)
           else find_exact rows q)"

definition fallback_candidate :: "pyfloat \<Rightarrow> contract_request \<Rightarrow> pydict \<Rightarrow> (pyfloat \<times> pydict) list result" where
  "fallback_candidate max_distance q row =
     (if \<not> same_family row q \<or> \<not> has_token row then Inr []
      else bind_result (instrument_strike row) (\<lambda>strike.
        Inr (case strike of
               None \<Rightarrow> []
             | Some s \<Rightarrow>
                 (let distance = float_abs (float_sub s (oc_strike (normalized_request q)))
                  in if float_le distance max_distance then [(distance, row)] else []))))"

definition find_safe_fallback ::
  "pydict list \<Rightarrow> contract_request \<Rightarrow> pyfloat \<Rightarrow> (pyfloat \<times> pydict) option result" where
  "find_safe_fallback instruments q max_distance =
     bind_result (map_result (fallback_candidate max_distance q) instruments) (\<lambda>found.
       Inr (case sort_key fst (concat found) of [] \<Rightarrow> None | best # _ \<Rightarrow> Some best))"

definition coverage_count :: "pydict list \<Rightarrow> contract_request \<Rightarrow> nat" where
  "coverage_count instruments q = count_if (\<lambda>row. same_family row q \<and> has_token row) instruments"

definition valid_request :: "contract_request \<Rightarrow> bool" where
  "valid_request q \<longleftrightarrow>
     (let n = normalized_request q
      in oc_symbol n \<noteq> [] \<and> oc_expiry n \<noteq> [] \<and> oc_option_type n \<in> {''CE'', ''PE''} \<and> float_lt (Fin 0) (oc_strike n))"

definition coverage_message :: "contract_request \<Rightarrow> nat \<Rightarrow> int \<Rightarrow> string" where
  "coverage_message n coverage required =
     ''Token coverage below threshold for '' @ oc_symbol n @ '' '' @ oc_expiry n @ '' '' @ oc_option_type n @ '': coverage='' @
     int_to_string (int coverage) @ '', required='' @ int_to_string required"

record resolver_limits =
  rl_allow_fallback :: bool
  rl_max_fallback_distance :: pyfloat
  rl_min_token_coverage :: int

definition default_limits :: resolver_limits where
  "default_limits = \<lparr>rl_allow_fallback = True, rl_max_fallback_distance = Fin 100, rl_min_token_coverage = 1\<rparr>"

definition unresolved :: "resolution_status \<Rightarrow> pydict \<Rightarrow> string \<Rightarrow> contract_resolution" where
  "unresolved status request reason =
     \<lparr>cr_status = status, cr_resolved = False, cr_request = request, cr_instrument = None, cr_fallback_used = False,
      cr_fallback_distance = None, cr_reason = Some reason, cr_blockers = [reason], cr_warnings = []\<rparr>"

text \<open>\<open>TokenCoverageError\<close> is the only \<open>RuntimeError\<close> that is raised here.\<close>

definition resolve_option_contract ::
  "resolver_limits \<Rightarrow> contract_request \<Rightarrow> pydict list \<Rightarrow> contract_resolution result" where
  "resolve_option_contract limits q instruments =
     (let n = normalized_request q; request = request_dict n; coverage = coverage_count instruments n;
          found = (\<lambda>d. \<lparr>cr_status = EXACT, cr_resolved = True, cr_request = request, cr_instrument = Some d,
                         cr_fallback_used = False, cr_fallback_distance = None, cr_reason = Some ''EXACT_CONTRACT_MATCH'',
                         cr_blockers = [], cr_warnings = []\<rparr>);
          near = (\<lambda>(distance, d). (found d)\<lparr>cr_status := FALLBACK, cr_fallback_used := True,
                         cr_fallback_distance := Some distance, cr_reason := Some ''SAFE_FALLBACK_CONTRACT_MATCH'',
                         cr_warnings := [''FALLBACK_CONTRACT_USED'']\<rparr>)
      in if \<not> valid_request n then Inr (unresolved INVALID_REQUEST request ''INVALID_OPTION_CONTRACT_REQUEST'')
         else if int coverage < rl_min_token_coverage limits
         then Inl (RuntimeError (coverage_message n coverage (rl_min_token_coverage limits)))
         else
           bind_result (find_exact instruments n) (\<lambda>exact.
             case exact of
               Some d \<Rightarrow> Inr (found d)
             | None \<Rightarrow>
                 bind_result
                   (if rl_allow_fallback limits then find_safe_fallback instruments n (rl_max_fallback_distance limits) else Inr None)
                   (\<lambda>fallback.
                     Inr (case fallback of
                            Some best \<Rightarrow> near best
                          | None \<Rightarrow> unresolved NOT_FOUND request ''OPTION_TOKEN_NOT_FOUND''))))"

section \<open>Readiness of a candidate\<close>

datatype broker_readiness_status =
    RESOLVED_EXACT
  | RESOLVED_FALLBACK
  | BLOCKED_NOT_FOUND
  | BLOCKED_COVERAGE_FAILED
  | BLOCKED_INVALID_REQUEST
  | BLOCKED_MISSING_REQUEST

fun broker_readiness_value :: "broker_readiness_status \<Rightarrow> string" where
  "broker_readiness_value RESOLVED_EXACT = ''RESOLVED_EXACT''"
| "broker_readiness_value RESOLVED_FALLBACK = ''RESOLVED_FALLBACK''"
| "broker_readiness_value BLOCKED_NOT_FOUND = ''BLOCKED_NOT_FOUND''"
| "broker_readiness_value BLOCKED_COVERAGE_FAILED = ''BLOCKED_COVERAGE_FAILED''"
| "broker_readiness_value BLOCKED_INVALID_REQUEST = ''BLOCKED_INVALID_REQUEST''"
| "broker_readiness_value BLOCKED_MISSING_REQUEST = ''BLOCKED_MISSING_REQUEST''"

record broker_readiness =
  bc_candidate_id :: string
  bc_symbol :: "string option"
  bc_strategy_id :: "string option"
  bc_setup_family :: "string option"
  bc_status :: broker_readiness_status
  bc_resolved :: bool
  bc_request :: pydict
  bc_resolution :: "pydict option"
  bc_instrument_token :: pyval
  bc_fallback_used :: bool
  bc_fallback_distance :: "pyfloat option"
  bc_blockers :: "string list"
  bc_warnings :: "string list"
  bc_candidate_truth :: pydict

definition broker_readiness_to_dict :: "broker_readiness \<Rightarrow> pydict" where
  "broker_readiness_to_dict r =
     [(''candidate_id'', PStr (bc_candidate_id r)),
      (''symbol'', opt_str (bc_symbol r)),
      (''strategy_id'', opt_str (bc_strategy_id r)),
      (''setup_family'', opt_str (bc_setup_family r)),
      (''readiness_status'', PStr (broker_readiness_value (bc_status r))),
      (''resolved'', PBool (bc_resolved r)),
      (''request'', PDict (bc_request r)),
      (''resolution'', filled_dict (bc_resolution r)),
      (''instrument_token'', bc_instrument_token r),
      (''fallback_used'', PBool (bc_fallback_used r)),
      (''fallback_distance'', opt_float (bc_fallback_distance r)),
      (''blockers'', str_list (bc_blockers r)),
      (''warnings'', str_list (bc_warnings r)),
      (''candidate_truth'', PDict (bc_candidate_truth r)),
      (''is_execution_decision'', PBool False)]"

fun first_nonblank :: "pyval list \<Rightarrow> pyval" where
  "first_nonblank [] = PNone"
| "first_nonblank (v # vs) = (if is_blank v then first_nonblank vs else v)"

definition stripped_text :: "pyval \<Rightarrow> string option" where
  "stripped_text v = (if v = PNone then None else Some (strip (py_str v)))"

definition stripped_upper :: "pyval \<Rightarrow> string option" where
  "stripped_upper v = (if v = PNone then None else Some (strip (upper (py_str v))))"

definition extract_request :: "candidate_truth \<Rightarrow> pydict" where
  "extract_request t =
     (let normalized = ct_normalized t; raw = ct_raw t; nested = as_dict (dget raw ''raw'');
          hypothesis = as_dict (py_or (dget normalized ''entry_hypothesis'') (py_or (dget raw ''entry_hypothesis'') (PDict [])));
          symbol = first_nonblank [dget normalized ''symbol'', opt_str (ct_symbol t), dget raw ''symbol'', dget raw ''underlying'',
            dget nested ''symbol'', dget nested ''underlying''];
          expiry = first_nonblank [dget normalized ''expiry'', dget raw ''expiry'', dget raw ''expiry_date'', dget nested ''expiry'',
            dget nested ''expiry_date'', dget hypothesis ''expiry''];
          strike = first_nonblank [dget normalized ''strike'', dget raw ''strike'', dget raw ''option_strike'', dget nested ''strike'',
            dget nested ''option_strike'', dget hypothesis ''strike''];
          option_type = first_nonblank [dget normalized ''option_type'', dget raw ''option_type'', dget raw ''instrument_type'',
            dget nested ''option_type'', dget nested ''instrument_type'', dget hypothesis ''option_type''];
          exchange = first_nonblank [dget normalized ''exchange'', dget raw ''exchange'', dget nested ''exchange'',
            dget hypothesis ''exchange'', PStr ''NFO'']
      in [(''symbol'', opt_str (stripped_upper symbol)),
          (''expiry'', opt_str (stripped_text expiry)),
          (''strike'', strike),
          (''option_type'', opt_str (stripped_upper option_type)),
          (''exchange'', PStr (case stripped_upper exchange of Some s \<Rightarrow> s | None \<Rightarrow> ''NFO''))])"

definition missing_request_fields :: "pydict \<Rightarrow> string list" where
  "missing_request_fields payload =
     concat (map (\<lambda>k. add_if (is_blank (dget payload k)) (''MISSING_CONTRACT_'' @ upper k))
       [''expiry'', ''strike'', ''option_type'', ''symbol''])"

definition status_from_resolution :: "contract_resolution \<Rightarrow> broker_readiness_status" where
  "status_from_resolution r =
     (case cr_status r of
        EXACT \<Rightarrow> RESOLVED_EXACT
      | FALLBACK \<Rightarrow> RESOLVED_FALLBACK
      | INVALID_REQUEST \<Rightarrow> BLOCKED_INVALID_REQUEST
      | NOT_FOUND \<Rightarrow> BLOCKED_NOT_FOUND
      | _ \<Rightarrow> BLOCKED_COVERAGE_FAILED)"

definition readiness_start :: "candidate_truth \<Rightarrow> broker_readiness_status \<Rightarrow> pydict \<Rightarrow> broker_readiness" where
  "readiness_start t status request =
     \<lparr>bc_candidate_id = ct_candidate_id t, bc_symbol = ct_symbol t, bc_strategy_id = ct_strategy_id t,
      bc_setup_family = ct_setup_family t, bc_status = status, bc_resolved = False, bc_request = request, bc_resolution = None,
      bc_instrument_token = PNone, bc_fallback_used = False, bc_fallback_distance = None, bc_blockers = [],
      bc_warnings = ct_warnings t, bc_candidate_truth = candidate_truth_to_dict t\<rparr>"

definition request_of_payload :: "pydict \<Rightarrow> contract_request result" where
  "request_of_payload payload =
     bind_result (py_float (dget payload ''strike'')) (\<lambda>strike.
       Inr \<lparr>oc_symbol = py_str (dget payload ''symbol''), oc_expiry = py_str (dget payload ''expiry''), oc_strike = strike,
            oc_option_type = py_str (dget payload ''option_type''), oc_exchange = text_or payload [''exchange''] ''NFO''\<rparr>)"

datatype candidate_arg = TruthRecord candidate_truth | RawCandidate pyval

definition candidate_of :: "string \<Rightarrow> candidate_arg \<Rightarrow> candidate_truth result" where
  "candidate_of source candidate =
     (case candidate of TruthRecord t \<Rightarrow> Inr t | RawCandidate v \<Rightarrow> normalize_candidate source v)"

definition build_broker_readiness ::
  "resolver_limits \<Rightarrow> string \<Rightarrow> candidate_arg \<Rightarrow> pydict list \<Rightarrow> broker_readiness result" where
  "build_broker_readiness limits source candidate instruments =
     bind_result (candidate_of source candidate) (\<lambda>t.
       let payload = extract_request t; missing = missing_request_fields payload
       in if missing \<noteq> [] then Inr ((readiness_start t BLOCKED_MISSING_REQUEST payload)\<lparr>bc_blockers := missing\<rparr>)
          else
            (case bind_result (request_of_payload payload) (\<lambda>q. resolve_option_contract limits q instruments) of
               Inl (RuntimeError message) \<Rightarrow>
                 Inr ((readiness_start t BLOCKED_COVERAGE_FAILED payload)
                   \<lparr>bc_blockers := [''TOKEN_COVERAGE_BELOW_THRESHOLD''], bc_resolution := Some [(''error'', PStr message)]\<rparr>)
             | Inl e \<Rightarrow> Inl e
             | Inr r \<Rightarrow>
                 Inr ((readiness_start t (status_from_resolution r) payload)
                   \<lparr>bc_resolved := cr_resolved r, bc_resolution := Some (resolution_to_dict r),
                    bc_instrument_token := resolved_token r, bc_fallback_used := cr_fallback_used r,
                    bc_fallback_distance := cr_fallback_distance r, bc_blockers := dedupe (ct_blockers t @ cr_blockers r),
                    bc_warnings := dedupe (ct_warnings t @ cr_warnings r)\<rparr>)))"

definition build_broker_readiness_batch ::
  "resolver_limits \<Rightarrow> string \<Rightarrow> pyval list \<Rightarrow> pydict list \<Rightarrow> broker_readiness list result" where
  "build_broker_readiness_batch limits source candidates instruments =
     bind_result (normalize_candidates source candidates) (\<lambda>ts.
       map_result (\<lambda>t. build_broker_readiness limits source (TruthRecord t) instruments) ts)"

section \<open>What the search finds\<close>

definition tokened :: "contract_request \<Rightarrow> pydict \<Rightarrow> bool" where
  "tokened q row \<longleftrightarrow> same_family row q \<and> has_token row"

definition exact_row :: "contract_request \<Rightarrow> pydict \<Rightarrow> bool" where
  "exact_row q row \<longleftrightarrow> tokened q row \<and> (\<exists>s. instrument_strike row = Inr (Some s) \<and> float_eq s (oc_strike q))"

definition at_distance :: "contract_request \<Rightarrow> pydict \<Rightarrow> pyfloat \<Rightarrow> bool" where
  "at_distance q row distance \<longleftrightarrow>
     tokened q row \<and> (\<exists>s. instrument_strike row = Inr (Some s) \<and> distance = float_abs (float_sub s (oc_strike q)))"

lemma normalized_strike [simp]: "oc_strike (normalized_request q) = oc_strike q"
  by (simp add: normalized_request_def)

lemma find_exact_Some: "find_exact rows q = Inr (Some d) \<Longrightarrow> d \<in> set rows \<and> exact_row q d"
  by (induction rows) (auto simp: exact_row_def tokened_def split: option.splits if_splits)

lemma find_exact_None: "find_exact rows q = Inr None \<Longrightarrow> d \<in> set rows \<Longrightarrow> \<not> exact_row q d"
  by (induction rows) (auto simp: exact_row_def tokened_def split: option.splits if_splits)

lemma fallback_candidate_found:
  assumes "fallback_candidate m q row = Inr xs"
  shows "(distance, d) \<in> set xs \<longleftrightarrow> d = row \<and> at_distance q row distance \<and> float_le distance m"
  using assms by (auto simp: fallback_candidate_def at_distance_def tokened_def Let_def split: if_splits option.splits)

lemma map_result_each: "map_result f xs = Inr ys \<Longrightarrow> x \<in> set xs \<Longrightarrow> \<exists>y. f x = Inr y"
  by (induction xs arbitrary: ys) auto

lemma found_candidates:
  assumes "map_result (fallback_candidate m q) rows = Inr found"
  shows "(distance, d) \<in> set (concat found) \<longleftrightarrow> d \<in> set rows \<and> at_distance q d distance \<and> float_le distance m"
proof
  assume "(distance, d) \<in> set (concat found)"
  then obtain xs row where "row \<in> set rows" "fallback_candidate m q row = Inr xs" "(distance, d) \<in> set xs"
    using map_result_set [OF assms] by auto
  then show "d \<in> set rows \<and> at_distance q d distance \<and> float_le distance m"
    using fallback_candidate_found by metis
next
  assume d: "d \<in> set rows \<and> at_distance q d distance \<and> float_le distance m"
  then obtain xs where xs: "fallback_candidate m q d = Inr xs" using map_result_each [OF assms, of d] by auto
  then have "(distance, d) \<in> set xs" using d fallback_candidate_found by metis
  moreover have "xs \<in> set found" using map_result_set [OF assms] d xs by metis
  ultimately show "(distance, d) \<in> set (concat found)" by auto
qed

lemma fallback_None:
  assumes "find_safe_fallback rows q m = Inr None" "d \<in> set rows" "at_distance q d distance"
  shows "\<not> float_le distance m"
proof -
  obtain found where found: "map_result (fallback_candidate m q) rows = Inr found"
    using assms(1) by (auto simp: find_safe_fallback_def)
  have "sort_key fst (concat found) = []"
    using assms(1) by (auto simp: find_safe_fallback_def found split: list.splits)
  then have "concat found = []" by (metis length_0_conv length_sort)
  then show ?thesis using found_candidates [OF found, of distance d] assms(2,3) by auto
qed

lemma sort_key_head: "sort_key f xs = y # ys \<Longrightarrow> y \<in> set xs \<and> (\<forall>x \<in> set xs. f y \<le> f x)"
proof -
  assume eq: "sort_key f xs = y # ys"
  have "sorted (map f (sort_key f xs))" by simp
  with eq have "\<forall>x \<in> set (sort_key f xs). f y \<le> f x" by auto
  then show ?thesis using eq set_sort [of f xs] by (metis list.set_intros(1))
qed

lemma fallback_Some:
  assumes "find_safe_fallback rows q m = Inr (Some (distance, d))"
  shows "d \<in> set rows \<and> at_distance q d distance \<and> float_le distance m \<and>
    (\<forall>d' \<in> set rows. \<forall>x. at_distance q d' x \<longrightarrow> \<not> float_lt x distance)"
proof -
  obtain found where found: "map_result (fallback_candidate m q) rows = Inr found"
    using assms by (auto simp: find_safe_fallback_def)
  obtain ys where head: "sort_key fst (concat found) = (distance, d) # ys"
    using assms by (auto simp: find_safe_fallback_def found split: list.splits)
  note f = found_candidates [OF found]
  have d: "d \<in> set rows" "at_distance q d distance" "float_le distance m"
    using sort_key_head [OF head] f [of distance d] by auto
  have "\<not> float_lt x distance" if "d' \<in> set rows" "at_distance q d' x" for d' x
  proof
    assume less: "float_lt x distance"
    then have "float_le x m" using d(3) float_lt_trans [of x distance m] by (auto simp: float_le_def float_eq_def)
    with that f [of x d'] have "(x, d') \<in> set (concat found)" by blast
    with sort_key_head [OF head] have "distance \<le> x" by force
    with less show False
      using float_lt_trans [of x distance x] by (auto simp: less_eq_pyfloat_def less_pyfloat_def)
  qed
  with d show ?thesis by blast
qed

lemma resolve_cases:
  assumes "resolve_option_contract limits q instruments = Inr r"
  defines "n \<equiv> normalized_request q"
  obtains (invalid) "\<not> valid_request n" "r = unresolved INVALID_REQUEST (request_dict n) ''INVALID_OPTION_CONTRACT_REQUEST''"
  | (exact) d where "valid_request n" "rl_min_token_coverage limits \<le> int (coverage_count instruments n)"
      "find_exact instruments n = Inr (Some d)" "cr_status r = EXACT" "cr_resolved r" "cr_instrument r = Some d"
  | (fallback) x d where "valid_request n" "rl_min_token_coverage limits \<le> int (coverage_count instruments n)"
      "find_exact instruments n = Inr None" "rl_allow_fallback limits"
      "find_safe_fallback instruments n (rl_max_fallback_distance limits) = Inr (Some (x, d))" "cr_status r = FALLBACK"
      "cr_resolved r" "cr_instrument r = Some d" "cr_fallback_distance r = Some x"
  | (none) "valid_request n" "rl_min_token_coverage limits \<le> int (coverage_count instruments n)"
      "find_exact instruments n = Inr None" "r = unresolved NOT_FOUND (request_dict n) ''OPTION_TOKEN_NOT_FOUND''"
      "rl_allow_fallback limits \<Longrightarrow> find_safe_fallback instruments n (rl_max_fallback_distance limits) = Inr None"
proof (cases "valid_request n")
  case False
  with assms invalid show thesis by (auto simp: resolve_option_contract_def Let_def)
next
  case True
  note run = assms(1) [unfolded resolve_option_contract_def Let_def, folded n_def]
  then have coverage: "rl_min_token_coverage limits \<le> int (coverage_count instruments n)"
    using True by (auto split: if_splits)
  obtain found where found: "find_exact instruments n = Inr found" using run True coverage by (auto split: if_splits)
  show thesis
  proof (cases found)
    case (Some d)
    with True coverage found run exact show thesis by auto
  next
    case None
    show thesis
    proof (cases "rl_allow_fallback limits")
      case False
      with True coverage found None run none show thesis by auto
    next
      case True
      with run found None coverage \<open>valid_request n\<close> obtain near where
        "find_safe_fallback instruments n (rl_max_fallback_distance limits) = Inr near" by auto
      with True run found None coverage \<open>valid_request n\<close> none fallback show thesis
        by (cases near) auto
    qed
  qed
qed

text \<open>
  C24. The resolver finds what there is. An exact resolution is an instrument of the requested
  family with a token and the requested strike. A fallback is used only when it is allowed and
  no such instrument exists; it is an instrument of the family with a token, within the
  maximal distance, and none with a token is nearer. Not found means that there is no exact
  instrument and, if fallbacks are allowed, none within the distance; unless the request is
  invalid the family has the required number of tokens.
\<close>

theorem resolver_finds_nearest:
  assumes "resolve_option_contract limits q instruments = Inr r"
  shows "let n = normalized_request q; none = (\<forall>d \<in> set instruments. \<not> exact_row n d)
    in (cr_resolved r \<longleftrightarrow> cr_status r = EXACT \<or> cr_status r = FALLBACK) \<and>
      (cr_status r = INVALID_REQUEST \<longleftrightarrow> \<not> valid_request n) \<and>
      (valid_request n \<longrightarrow> rl_min_token_coverage limits \<le> int (coverage_count instruments n)) \<and>
      (case cr_status r of
         EXACT \<Rightarrow> \<exists>d \<in> set instruments. cr_instrument r = Some d \<and> exact_row n d
       | FALLBACK \<Rightarrow>
           rl_allow_fallback limits \<and> none \<and>
           (\<exists>d \<in> set instruments. \<exists>x. cr_instrument r = Some d \<and> cr_fallback_distance r = Some x \<and> at_distance n d x \<and>
              float_le x (rl_max_fallback_distance limits) \<and>
              (\<forall>d' \<in> set instruments. \<forall>x'. at_distance n d' x' \<longrightarrow> \<not> float_lt x' x))
       | NOT_FOUND \<Rightarrow>
           cr_instrument r = None \<and> none \<and>
           (rl_allow_fallback limits \<longrightarrow>
              (\<forall>d \<in> set instruments. \<forall>x. at_distance n d x \<longrightarrow> \<not> float_le x (rl_max_fallback_distance limits)))
       | INVALID_REQUEST \<Rightarrow> cr_instrument r = None
       | COVERAGE_FAILED \<Rightarrow> False)"
proof -
  from assms show ?thesis
  proof (cases rule: resolve_cases)
    case invalid
    then show ?thesis by (simp add: unresolved_def Let_def)
  next
    case (exact d)
    then show ?thesis using find_exact_Some [OF exact(3)] by (auto simp: Let_def)
  next
    case (fallback x d)
    then show ?thesis using find_exact_None [OF fallback(3)] fallback_Some [OF fallback(5)] by (auto simp: Let_def)
  next
    case none
    then show ?thesis using find_exact_None [OF none(3)] fallback_None [OF none(5)] by (auto simp: Let_def unresolved_def)
  qed
qed

definition demo_instrument :: "int \<Rightarrow> pydict" where
  "demo_instrument strike =
     [(''symbol'', PStr ''N''), (''expiry'', PStr ''E''), (''strike'', PInt strike), (''option_type'', PStr ''ce''),
      (''instrument_token'', PInt (strike + 7))]"

definition demo_contract_request :: contract_request where
  "demo_contract_request =
     \<lparr>oc_symbol = ''n'', oc_expiry = ''E'', oc_strike = Fin 120, oc_option_type = ''CE'', oc_exchange = ''NFO''\<rparr>"

theorem resolver_finds_nearest_witness:
  "\<exists>r d. resolve_option_contract default_limits demo_contract_request [demo_instrument 200, demo_instrument 150, demo_instrument 100] = Inr r \<and>
     cr_status r = FALLBACK \<and> cr_instrument r = Some d \<and> cr_fallback_distance r = Some (Fin 20) \<and>
     at_distance (normalized_request demo_contract_request) d (Fin 20)"
proof -
  let ?rows = "[demo_instrument 200, demo_instrument 150, demo_instrument 100]"
  have "case resolve_option_contract default_limits demo_contract_request ?rows of
      Inr r \<Rightarrow> cr_status r = FALLBACK \<and> cr_fallback_distance r = Some (Fin 20) | Inl _ \<Rightarrow> False" by code_simp
  then obtain r where r: "resolve_option_contract default_limits demo_contract_request ?rows = Inr r"
    "cr_status r = FALLBACK" "cr_fallback_distance r = Some (Fin 20)" by (auto split: sum.splits)
  from resolver_finds_nearest [OF r(1)] r show ?thesis by (auto simp: Let_def)
qed

section \<open>What a ready candidate has\<close>

lemma resolved_instrument:
  assumes "resolve_option_contract limits q instruments = Inr r" "cr_resolved r"
  obtains d where "d \<in> set instruments" "tokened (normalized_request q) d" "cr_instrument r = Some d"
  using assms
proof (cases rule: resolve_cases)
  case (exact d)
  with find_exact_Some [OF exact(3)] that show thesis by (auto simp: exact_row_def)
next
  case (fallback x d)
  with fallback_Some [OF fallback(5)] that show thesis by (auto simp: at_distance_def)
qed (use assms(2) in \<open>simp_all add: unresolved_def\<close>)

lemma status_from_resolved:
  assumes "resolve_option_contract limits q instruments = Inr r"
  shows "cr_resolved r \<longleftrightarrow> status_from_resolution r \<in> {RESOLVED_EXACT, RESOLVED_FALLBACK}"
    "\<not> cr_resolved r \<Longrightarrow> resolved_token r = PNone \<and> cr_blockers r \<noteq> [] \<and> list_all (\<lambda>b. \<not> blank b) (cr_blockers r)"
proof -
  have labels: "\<not> blank ''INVALID_OPTION_CONTRACT_REQUEST''" "\<not> blank ''OPTION_TOKEN_NOT_FOUND''" by code_simp+
  from assms show "cr_resolved r \<longleftrightarrow> status_from_resolution r \<in> {RESOLVED_EXACT, RESOLVED_FALLBACK}"
    by (cases rule: resolve_cases) (simp_all add: unresolved_def status_from_resolution_def)
  from assms show "resolved_token r = PNone \<and> cr_blockers r \<noteq> [] \<and> list_all (\<lambda>b. \<not> blank b) (cr_blockers r)" if "\<not> cr_resolved r"
    by (cases rule: resolve_cases) (use that labels in \<open>simp_all add: unresolved_def resolved_token_def\<close>)
qed

lemma broker_readiness_cases:
  assumes "build_broker_readiness limits source candidate instruments = Inr r"
  obtains (missing) t where "candidate_of source candidate = Inr t" "missing_request_fields (extract_request t) \<noteq> []"
      "r = (readiness_start t BLOCKED_MISSING_REQUEST (extract_request t))\<lparr>bc_blockers := missing_request_fields (extract_request t)\<rparr>"
  | (coverage) t e where "candidate_of source candidate = Inr t"
      "r = (readiness_start t BLOCKED_COVERAGE_FAILED (extract_request t))
         \<lparr>bc_blockers := [''TOKEN_COVERAGE_BELOW_THRESHOLD''], bc_resolution := Some [(''error'', PStr e)]\<rparr>"
  | (resolution) t q c where "candidate_of source candidate = Inr t" "request_of_payload (extract_request t) = Inr q"
      "resolve_option_contract limits q instruments = Inr c"
      "r = (readiness_start t (status_from_resolution c) (extract_request t))
         \<lparr>bc_resolved := cr_resolved c, bc_resolution := Some (resolution_to_dict c), bc_instrument_token := resolved_token c,
          bc_fallback_used := cr_fallback_used c, bc_fallback_distance := cr_fallback_distance c,
          bc_blockers := dedupe (ct_blockers t @ cr_blockers c), bc_warnings := dedupe (ct_warnings t @ cr_warnings c)\<rparr>"
proof -
  obtain t where t: "candidate_of source candidate = Inr t" using assms by (auto simp: build_broker_readiness_def)
  note run = assms [unfolded build_broker_readiness_def t bind_result_simps Let_def]
  show thesis
  proof (cases "missing_request_fields (extract_request t) = []")
    case False
    with run t missing show thesis by auto
  next
    case True
    show thesis
    proof (cases "bind_result (request_of_payload (extract_request t)) (\<lambda>q. resolve_option_contract limits q instruments)")
      case (Inl e)
      with run True t coverage show thesis by (cases e) auto
    next
      case (Inr c)
      then obtain q where "request_of_payload (extract_request t) = Inr q" "resolve_option_contract limits q instruments = Inr c"
        by auto
      with run True t Inr resolution show thesis by auto
    qed
  qed
qed

text \<open>
  C25. A ready candidate has a listed token. A candidate is resolved exactly in the two resolved
  states; then its token is the one of an instrument in the list whose symbol, expiry, option
  type and exchange are those of the candidate's own request. Otherwise there is no token and
  at least one blocker says why.
\<close>

theorem ready_token_is_listed:
  assumes "build_broker_readiness limits source candidate instruments = Inr r"
  shows "(bc_resolved r \<longleftrightarrow> bc_status r \<in> {RESOLVED_EXACT, RESOLVED_FALLBACK}) \<and>
    (if bc_resolved r
     then \<exists>q d. request_of_payload (bc_request r) = Inr q \<and> d \<in> set instruments \<and> tokened (normalized_request q) d \<and>
       bc_instrument_token r = dget d ''instrument_token'' \<and> \<not> is_blank (bc_instrument_token r)
     else bc_instrument_token r = PNone \<and> bc_blockers r \<noteq> [])"
  using assms
proof (cases rule: broker_readiness_cases)
  case (resolution t q c)
  note status = status_from_resolved [OF resolution(3)]
  show ?thesis
  proof (cases "cr_resolved c")
    case True
    from resolution(3) True obtain d where "d \<in> set instruments" "tokened (normalized_request q) d" "cr_instrument c = Some d"
      by (rule resolved_instrument)
    with True status(1) resolution show ?thesis
      by (auto simp: readiness_start_def resolved_token_def tokened_def has_token_def)
  next
    case False
    then show ?thesis using status resolution(4) by (auto simp: readiness_start_def list_all_iff neq_Nil_conv)
  qed
qed (simp_all add: readiness_start_def)

definition demo_option_candidate :: "pyval \<Rightarrow> pyval" where
  "demo_option_candidate strike =
     PDict [(''candidate_id'', PStr ''c1''), (''symbol'', PStr ''N''), (''strategy'', PStr ''S''), (''setup'', PStr ''F''),
       (''expiry'', PStr ''E''), (''strike'', strike), (''option_type'', PStr ''CE'')]"

theorem ready_token_is_listed_witness:
  "\<exists>r. build_broker_readiness default_limits ''t'' (RawCandidate (demo_option_candidate (PInt 150)))
       [demo_instrument 100, demo_instrument 150] = Inr r \<and>
     bc_status r = RESOLVED_EXACT \<and> \<not> is_blank (bc_instrument_token r)"
proof -
  let ?run = "build_broker_readiness default_limits ''t'' (RawCandidate (demo_option_candidate (PInt 150)))
       [demo_instrument 100, demo_instrument 150]"
  have "case ?run of Inr r \<Rightarrow> bc_status r = RESOLVED_EXACT | Inl _ \<Rightarrow> False" by code_simp
  then obtain r where r: "?run = Inr r" "bc_status r = RESOLVED_EXACT" by (auto split: sum.splits)
  from ready_token_is_listed [OF r(1)] r show ?thesis by auto
qed

text \<open>
  A strike that is no number is not reported as an invalid request: only the coverage error is
  caught, and the conversion raises out of the builder.
\<close>

lemma textual_strike_raises:
  "case build_broker_readiness default_limits ''t'' (RawCandidate (demo_option_candidate (PStr ''ATM''))) [demo_instrument 100] of
     Inl (ValueError _) \<Rightarrow> True | _ \<Rightarrow> False"
  by code_simp

end
