(* ===== verification/Market_Base.thy ===== *)
theory Market_Base
  imports Candidate_Truth
begin

text \<open>
  What the market checks of src/market_readiness and the resolution health of src/broker_contract
  share: an optional reading against its limit, a text read from a row, and the counters of a
  summary.
\<close>

text \<open>\<open>x is not None and x <= limit\<close> and \<open>x is not None and x > limit\<close>\<close>

definition at_most :: "pyfloat option \<Rightarrow> pyfloat \<Rightarrow> bool" where
  "at_most x limit = (case x of Some v \<Rightarrow> float_le v limit | None \<Rightarrow> False)"

definition beyond :: "pyfloat option \<Rightarrow> pyfloat \<Rightarrow> bool" where
  "beyond x limit = (case x of Some v \<Rightarrow> float_lt limit v | None \<Rightarrow> False)"

definition optional_text :: "pyval \<Rightarrow> string option" where
  "optional_text v = (if is_blank v then None else Some (py_str v))"

lemma at_most_known: "at_most x limit \<Longrightarrow> x \<noteq> None"
  by (auto simp: at_most_def split: option.splits)

lemma count_if_zero: "count_if P xs = 0 \<longleftrightarrow> (\<forall>x \<in> set xs. \<not> P x)"
  by (induction xs) (auto simp: count_if_def)

lemma count_if_full: "count_if P xs = length xs \<longleftrightarrow> (\<forall>x \<in> set xs. P x)"
  unfolding count_if_def by (metis filter_id_conv length_filter_less less_irrefl)

lemma count_if_le: "count_if P xs \<le> length xs"
  by (simp add: count_if_def)

text \<open>
  The contract of an exporting module: an exported record has exactly the keys of the schema
  contract, in its order and none twice, its version and its safe flags. A consumer reads the
  fields of the record and nothing else.
\<close>

locale market_report =
  fixes to_dict :: "'r \<Rightarrow> pydict"
    and contract :: pydict
  assumes keys: "map fst (to_dict r) = str_values (dget contract ''required_keys'')"
    and unique: "distinct (str_values (dget contract ''required_keys''))"
    and version: "dget (to_dict r) ''schema_version'' = dget contract ''schema_version''"
    and flags: "list_all (\<lambda>(k, v). dget (to_dict r) k = v) (as_dict (dget contract ''safe_flags''))"
begin

lemma exported_keys: "has_key (to_dict r) k \<longleftrightarrow> k \<in> set (str_values (dget contract ''required_keys''))"
  by (simp add: has_key_def keys)

lemma read_field: "dget (to_dict r) k = v \<longleftrightarrow> (k, v) \<in> set (to_dict r)" if "has_key (to_dict r) k"
proof -
  have "distinct (map fst (to_dict r))" using unique by (simp add: keys)
  then have "map_of (to_dict r) k = Some v \<longleftrightarrow> (k, v) \<in> set (to_dict r)" for v by (rule map_of_eq_Some_iff)
  moreover obtain w where "map_of (to_dict r) k = Some w" using \<open>has_key (to_dict r) k\<close> by (auto simp: has_key_def dest: weak_map_of_SomeI)
  ultimately show ?thesis by (auto simp: dget_def)
qed

lemma flag: "(k, v) \<in> set (as_dict (dget contract ''safe_flags'')) \<Longrightarrow> dget (to_dict r) k = v"
  using flags [of r] by (auto simp: list_all_iff)

end

end
