(* ===== verification/Resolution_Health.thy ===== *)
theory Resolution_Health
  imports Broker_Contract Market_Base
begin

text \<open>
  src/broker_contract/instrument_resolution_health.py: a panel over the readiness records of
  Broker_Contract that counts what is resolved, missing or mismatched and says whether the
  instruments are healthy.
\<close>

section \<open>Panel\<close>

datatype health_status = HEALTHY | DEGRADED_FALLBACK | BLOCKED_UNRESOLVED | EMPTY

fun health_value :: "health_status \<Rightarrow> string" where
  "health_value HEALTHY = ''HEALTHY''"
| "health_value DEGRADED_FALLBACK = ''DEGRADED_FALLBACK''"
| "health_value BLOCKED_UNRESOLVED = ''BLOCKED_UNRESOLVED''"
| "health_value EMPTY = ''EMPTY''"

record health_row =
  hr_candidate_id :: pyval
  hr_symbol :: pyval
  hr_strategy_id :: pyval
  hr_readiness_status :: pyval
  hr_resolved :: bool
  hr_instrument_token :: pyval
  hr_fallback_used :: bool
  hr_fallback_distance :: pyval
  hr_source :: string
  hr_tradingsymbol :: pyval
  hr_expiry :: pyval
  hr_strike :: pyval
  hr_option_type :: pyval
  hr_exchange :: pyval
  hr_blockers :: "string list"
  hr_warnings :: "string list"

definition health_row_to_dict :: "health_row \<Rightarrow> pydict" where
  "health_row_to_dict r =
     [(''candidate_id'', hr_candidate_id r),
      (''symbol'', hr_symbol r),
      (''strategy_id'', hr_strategy_id r),
      (''readiness_status'', hr_readiness_status r),
      (''resolved'', PBool (hr_resolved r)),
      (''instrument_token'', hr_instrument_token r),
      (''fallback_used'', PBool (hr_fallback_used r)),
      (''fallback_distance'', hr_fallback_distance r),
      (''resolution_source'', PStr (hr_source r)),
      (''tradingsymbol'', hr_tradingsymbol r),
      (''expiry'', hr_expiry r),
      (''strike'', hr_strike r),
      (''option_type'', hr_option_type r),
      (''exchange'', hr_exchange r),
      (''blockers'', str_list (hr_blockers r)),
      (''warnings'', str_list (hr_warnings r)),
      (''read_only'', PBool True),
      (''is_order_action'', PBool False)]"

record health_summary =
  hs_record_count :: nat
  hs_resolved_count :: nat
  hs_exact_count :: nat
  hs_fallback_count :: nat
  hs_missing_token_count :: nat
  hs_mismatched_count :: nat
  hs_blocked_count :: nat
  hs_warning_count :: nat

definition hs_unresolved_count :: "health_summary \<Rightarrow> int" where
  "hs_unresolved_count s = int (hs_record_count s) - int (hs_resolved_count s)"

definition health_summary_to_dict :: "health_summary \<Rightarrow> pydict" where
  "health_summary_to_dict s =
     [(''record_count'', PInt (int (hs_record_count s))),
      (''resolved_count'', PInt (int (hs_resolved_count s))),
      (''unresolved_count'', PInt (hs_unresolved_count s)),
      (''exact_count'', PInt (int (hs_exact_count s))),
      (''fallback_count'', PInt (int (hs_fallback_count s))),
      (''missing_token_count'', PInt (int (hs_missing_token_count s))),
      (''expired_or_mismatched_count'', PInt (int (hs_mismatched_count s))),
      (''blocked_count'', PInt (int (hs_blocked_count s))),
      (''warning_count'', PInt (int (hs_warning_count s))),
      (''read_only'', PBool True),
      (''is_order_action'', PBool False)]"

record health_panel =
  hp_status :: health_status
  hp_summary :: health_summary
  hp_rows :: "health_row list"
  hp_blockers :: "string list"
  hp_warnings :: "string list"

definition health_panel_to_dict :: "health_panel \<Rightarrow> pydict" where
  "health_panel_to_dict p =
     [(''schema_version'', PStr ''1.0''),
      (''panel_type'', PStr ''INSTRUMENT_RESOLUTION_HEALTH_PANEL''),
      (''status'', PStr (health_value (hp_status p))),
      (''read_only'', PBool True),
      (''is_order_action'', PBool False),
      (''summary'', PDict (health_summary_to_dict (hp_summary p))),
      (''rows'', PList (map (\<lambda>r. PDict (health_row_to_dict r)) (hp_rows p))),
      (''blockers'', str_list (hp_blockers p)),
      (''warnings'', str_list (hp_warnings p))]"

definition health_schema_contract :: pydict where
  "health_schema_contract =
     [(''schema_version'', PStr ''1.0''),
      (''panel_type'', PStr ''INSTRUMENT_RESOLUTION_HEALTH_PANEL''),
      (''required_keys'', str_list
         [''schema_version'', ''panel_type'', ''status'', ''read_only'', ''is_order_action'', ''summary'', ''rows'', ''blockers'',
          ''warnings'']),
      (''summary_required_keys'', str_list
         [''record_count'', ''resolved_count'', ''unresolved_count'', ''exact_count'', ''fallback_count'', ''missing_token_count'',
          ''expired_or_mismatched_count'', ''blocked_count'', ''warning_count'', ''read_only'', ''is_order_action'']),
      (''row_required_keys'', str_list
         [''candidate_id'', ''symbol'', ''strategy_id'', ''readiness_status'', ''resolved'', ''instrument_token'', ''fallback_used'',
          ''fallback_distance'', ''resolution_source'', ''tradingsymbol'', ''expiry'', ''strike'', ''option_type'', ''exchange'',
          ''blockers'', ''warnings'', ''read_only'', ''is_order_action'']),
      (''safe_flags'', PDict [(''read_only'', PBool True), (''is_order_action'', PBool False)])]"

interpretation health_report: market_report health_panel_to_dict health_schema_contract
  by unfold_locales (simp_all add: health_panel_to_dict_def health_schema_contract_def)

section \<open>Rows\<close>

definition resolution_source :: "pydict \<Rightarrow> pydict \<Rightarrow> string" where
  "resolution_source payload resolution =
     (let status = upper (py_str (py_or (dget resolution ''status'') (py_or (dget payload ''readiness_status'') (PStr ''UNKNOWN''))))
      in if occurs_in ''EXACT'' status then ''EXACT''
         else if occurs_in ''FALLBACK'' status \<or> dget payload ''fallback_used'' = PBool True then ''FALLBACK''
         else if occurs_in ''NOT_FOUND'' status then ''NOT_FOUND''
         else if occurs_in ''MISSING'' status then ''MISSING_REQUEST''
         else if occurs_in ''COVERAGE'' status then ''COVERAGE_FAILED''
         else if status \<noteq> [] then status else ''UNKNOWN'')"

definition upper_or_none :: "pyval \<Rightarrow> pyval" where
  "upper_or_none v = (if is_blank v then PNone else PStr (upper (py_str v)))"

definition mismatch :: "string \<Rightarrow> pyval \<Rightarrow> pyval \<Rightarrow> string list" where
  "mismatch label requested resolved =
     add_if (\<not> is_blank requested \<and> \<not> is_blank resolved \<and> \<not> py_eq requested resolved) (''INSTRUMENT_MISMATCH_'' @ label)"

definition mismatch_blockers :: "pydict \<Rightarrow> pydict \<Rightarrow> string \<Rightarrow> string list result" where
  "mismatch_blockers request instrument source =
     (if instrument = [] then Inr []
      else
        bind_result (float_or_none (dget request ''strike'')) (\<lambda>asked.
        bind_result (float_or_none (dget instrument ''strike'')) (\<lambda>got.
          Inr (mismatch ''EXPIRY'' (dget request ''expiry'') (dget instrument ''expiry'') @
               (if source = ''FALLBACK'' then [] else mismatch ''STRIKE'' (opt_float asked) (opt_float got)) @
               mismatch ''OPTION_TYPE'' (upper_or_none (dget request ''option_type''))
                 (upper_or_none (get_or instrument [''instrument_type'', ''option_type''])) @
               mismatch ''EXCHANGE'' (upper_or_none (dget request ''exchange'')) (upper_or_none (dget instrument ''exchange''))))))"

datatype health_arg = ReadinessRecord broker_readiness | ReadinessValue pyval

definition health_payload :: "health_arg \<Rightarrow> pydict result" where
  "health_payload arg =
     (case arg of ReadinessRecord r \<Rightarrow> Inr (broker_readiness_to_dict r) | ReadinessValue v \<Rightarrow> py_dict (py_or v (PDict [])))"

definition health_row_of :: "health_arg \<Rightarrow> health_row result" where
  "health_row_of arg =
     bind_result (health_payload arg) (\<lambda>payload.
       let request = as_dict (dget payload ''request''); resolution = as_dict (dget payload ''resolution'');
           instrument = as_dict (dget resolution ''instrument''); source = resolution_source payload resolution
       in bind_result (list_or_empty (dget payload ''blockers'')) (\<lambda>blockers.
          bind_result (mismatch_blockers request instrument source) (\<lambda>mismatches.
          bind_result (list_or_empty (dget payload ''warnings'')) (\<lambda>warnings.
            Inr \<lparr>hr_candidate_id = dget payload ''candidate_id'',
                 hr_symbol = py_or (dget payload ''symbol'') (py_or (dget request ''symbol'') (dget instrument ''symbol'')),
                 hr_strategy_id = dget payload ''strategy_id'',
                 hr_readiness_status = dget payload ''readiness_status'',
                 hr_resolved = (dget payload ''resolved'' = PBool True),
                 hr_instrument_token = py_or (dget payload ''instrument_token'')
                   (py_or (dget resolution ''instrument_token'') (dget instrument ''instrument_token'')),
                 hr_fallback_used = (dget payload ''fallback_used'' = PBool True),
                 hr_fallback_distance = dget payload ''fallback_distance'',
                 hr_source = source,
                 hr_tradingsymbol = py_or (dget resolution ''tradingsymbol'') (dget instrument ''tradingsymbol''),
                 hr_expiry = py_or (dget instrument ''expiry'') (dget request ''expiry''),
                 hr_strike = (if is_blank (dget instrument ''strike'') then dget request ''strike'' else dget instrument ''strike''),
                 hr_option_type = py_or (get_or instrument [''instrument_type'', ''option_type'']) (dget request ''option_type''),
                 hr_exchange = py_or (dget instrument ''exchange'') (dget request ''exchange''),
                 hr_blockers = dedupe (map py_str blockers @ mismatches),
                 hr_warnings = dedupe (map py_str warnings)\<rparr>))))"

section \<open>Summary and status\<close>

definition mismatched :: "health_row \<Rightarrow> bool" where
  "mismatched r \<longleftrightarrow> list_ex (\<lambda>b. starts_with b ''INSTRUMENT_MISMATCH_'') (hr_blockers r)"

definition health_summary_of :: "health_row list \<Rightarrow> health_summary" where
  "health_summary_of rows =
     \<lparr>hs_record_count = length rows,
      hs_resolved_count = count_if hr_resolved rows,
      hs_exact_count = count_if (\<lambda>r. hr_source r = ''EXACT'') rows,
      hs_fallback_count = count_if (\<lambda>r. hr_fallback_used r \<or> hr_source r = ''FALLBACK'') rows,
      hs_missing_token_count = count_if (\<lambda>r. is_blank (hr_instrument_token r)) rows,
      hs_mismatched_count = count_if mismatched rows,
      hs_blocked_count = count_if (\<lambda>r. \<not> hr_resolved r \<or> hr_blockers r \<noteq> []) rows,
      hs_warning_count = sum_list (map (\<lambda>r. length (hr_warnings r)) rows)\<rparr>"

definition health_status_of :: "health_summary \<Rightarrow> health_status" where
  "health_status_of s =
     (if hs_record_count s = 0 then EMPTY
      else if hs_unresolved_count s \<noteq> 0 \<or> hs_missing_token_count s \<noteq> 0 \<or> hs_mismatched_count s \<noteq> 0 then BLOCKED_UNRESOLVED
      else if hs_fallback_count s \<noteq> 0 \<or> hs_warning_count s \<noteq> 0 then DEGRADED_FALLBACK
      else HEALTHY)"

definition health_blockers :: "health_summary \<Rightarrow> string list" where
  "health_blockers s =
     add_if (hs_record_count s = 0) ''NO_INSTRUMENT_RESOLUTION_RECORDS'' @
     add_if (hs_unresolved_count s \<noteq> 0) ''UNRESOLVED_INSTRUMENTS_PRESENT'' @
     add_if (hs_missing_token_count s \<noteq> 0) ''MISSING_INSTRUMENT_TOKENS_PRESENT'' @
     add_if (hs_mismatched_count s \<noteq> 0) ''EXPIRED_OR_MISMATCHED_INSTRUMENTS_PRESENT''"

text \<open>The warnings of the rows are added when they are not there yet.\<close>

definition health_warnings :: "health_row list \<Rightarrow> health_summary \<Rightarrow> string list" where
  "health_warnings rows s =
     (let summary = add_if (hs_fallback_count s \<noteq> 0) ''FALLBACK_INSTRUMENT_RESOLUTION_PRESENT'' @
                    add_if (hs_warning_count s \<noteq> 0) ''ROW_WARNINGS_PRESENT'';
          labelled = concat (map (\<lambda>r. map (\<lambda>w. py_str (hr_candidate_id r) @ '':'' @ w) (hr_warnings r)) rows)
      in fold (\<lambda>w ws. if w \<in> set ws then ws else ws @ [w]) labelled summary)"

definition build_health_panel :: "health_arg list \<Rightarrow> health_panel result" where
  "build_health_panel records =
     bind_result (map_result health_row_of records) (\<lambda>rows.
       let s = health_summary_of rows
       in Inr \<lparr>hp_status = health_status_of s, hp_summary = s, hp_rows = rows, hp_blockers = health_blockers s,
               hp_warnings = health_warnings rows s\<rparr>)"

section \<open>What the panel says\<close>

text \<open>
  The panel is healthy exactly when every instrument is. With the rows of the records, the
  status is HEALTHY exactly when there is a row, every row is resolved, has a token and no
  mismatch with its request, and none is a fallback or carries a warning; it is blocked
  exactly when a row is unresolved, without a token or mismatched; and there are blockers
  exactly when the panel is empty or blocked.
\<close>

theorem healthy_panel_iff:
  assumes "build_health_panel records = Inr p"
  shows "(hp_status p = HEALTHY \<longleftrightarrow>
      hp_rows p \<noteq> [] \<and> (\<forall>r \<in> set (hp_rows p). hr_resolved r \<and> \<not> is_blank (hr_instrument_token r) \<and> \<not> mismatched r \<and>
        \<not> hr_fallback_used r \<and> hr_source r \<noteq> ''FALLBACK'' \<and> hr_warnings r = [])) \<and>
    (hp_status p = BLOCKED_UNRESOLVED \<longleftrightarrow>
      (\<exists>r \<in> set (hp_rows p). \<not> hr_resolved r \<or> is_blank (hr_instrument_token r) \<or> mismatched r)) \<and>
    (hp_blockers p \<noteq> [] \<longleftrightarrow> hp_status p = EMPTY \<or> hp_status p = BLOCKED_UNRESOLVED)"
proof -
  let ?rows = "hp_rows p" and ?s = "health_summary_of (hp_rows p)"
  have p: "hp_status p = health_status_of ?s" "hp_blockers p = health_blockers ?s"
    using assms by (auto simp: build_health_panel_def Let_def)
  have unresolved: "hs_unresolved_count ?s = 0 \<longleftrightarrow> (\<forall>r \<in> set ?rows. hr_resolved r)"
    unfolding hs_unresolved_count_def by (simp add: health_summary_of_def flip: count_if_full) auto
  have warned: "hs_warning_count ?s = 0 \<longleftrightarrow> (\<forall>r \<in> set ?rows. hr_warnings r = [])"
    by (induction ?rows) (auto simp: health_summary_of_def)
  show ?thesis
    unfolding p health_status_of_def health_blockers_def unresolved warned
    by (simp add: health_summary_of_def count_if_zero) auto
qed

theorem healthy_panel_iff_witness:
  "\<exists>p. build_health_panel [ReadinessValue (PDict [(''readiness_status'', PStr ''RESOLVED_EXACT''), (''resolved'', PBool True),
       (''instrument_token'', PInt 5)])] = Inr p \<and> hp_status p = HEALTHY \<and> hp_blockers p = []"
proof -
  let ?run = "build_health_panel [ReadinessValue (PDict [(''readiness_status'', PStr ''RESOLVED_EXACT''), (''resolved'', PBool True),
       (''instrument_token'', PInt 5)])]"
  have "case ?run of Inr p \<Rightarrow> hp_status p = HEALTHY | Inl _ \<Rightarrow> False" by code_simp
  then obtain p where p: "?run = Inr p" "hp_status p = HEALTHY" by (auto split: sum.splits)
  from healthy_panel_iff [OF p(1)] p show ?thesis by auto
qed

end
