(* ===== verification/Quote_Readiness.thy ===== *)
theory Quote_Readiness
  imports Market_Base
begin

text \<open>
  src/market_readiness/quote_liquidity.py: whether a quote is fresh and tight enough to trade on.
\<close>

section \<open>Quotes\<close>

record quote_snapshot =
  qs_symbol :: string
  qs_ltp :: "pyfloat option"
  qs_bid :: "pyfloat option"
  qs_ask :: "pyfloat option"
  qs_quote_age :: "pyfloat option"
  qs_depth_age :: "pyfloat option"
  qs_source :: pyval
  qs_raw :: pydict

definition quote_spread :: "quote_snapshot \<Rightarrow> pyfloat option" where
  "quote_spread q =
     (case (qs_bid q, qs_ask q) of
        (Some bid, Some ask) \<Rightarrow> Some (float_max (Fin 0) (float_sub ask bid))
      | _ \<Rightarrow> None)"

definition quote_mid :: "quote_snapshot \<Rightarrow> pyfloat option result" where
  "quote_mid q =
     (case (qs_bid q, qs_ask q) of
        (Some bid, Some ask) \<Rightarrow> bind_result (float_div (float_add bid ask) (Fin 2)) (\<lambda>m. Inr (Some m))
      | _ \<Rightarrow> Inr (qs_ltp q))"

definition spread_pct :: "quote_snapshot \<Rightarrow> pyfloat option result" where
  "spread_pct q =
     bind_result (quote_mid q) (\<lambda>mid.
       case (quote_spread q, mid) of
         (Some spread, Some m) \<Rightarrow>
           if m = Fin 0 then Inr None else bind_result (float_div spread m) (\<lambda>x. Inr (Some (float_mul x (Fin 100))))
       | _ \<Rightarrow> Inr None)"

definition quote_from_mapping :: "pydict \<Rightarrow> quote_snapshot result" where
  "quote_from_mapping row =
     (let num = (\<lambda>ks. float_or_none (get_or row ks))
      in bind_result (num [''ltp'', ''last_price'', ''last_traded_price'']) (\<lambda>ltp.
         bind_result (num [''bid'', ''best_bid'', ''buy_price'']) (\<lambda>bid.
         bind_result (num [''ask'', ''best_ask'', ''sell_price'']) (\<lambda>ask.
         bind_result (num [''quote_age_sec'', ''ltp_age_sec'', ''age_sec'']) (\<lambda>quote_age.
         bind_result (num [''depth_age_sec'', ''market_depth_age_sec'']) (\<lambda>depth_age.
           Inr \<lparr>qs_symbol = upper (text_or row [''symbol'', ''tradingsymbol'', ''instrument''] []), qs_ltp = ltp, qs_bid = bid,
                qs_ask = ask, qs_quote_age = quote_age, qs_depth_age = depth_age,
                qs_source = get_or row [''source'', ''quote_source''], qs_raw = row\<rparr>))))))"

section \<open>Readiness\<close>

datatype market_status =
    READY
  | BLOCKED_STALE_QUOTE
  | BLOCKED_STALE_DEPTH
  | BLOCKED_SPREAD_TOO_WIDE
  | BLOCKED_SLIPPAGE_BUDGET
  | BLOCKED_MISSING_QUOTE

fun market_value :: "market_status \<Rightarrow> string" where
  "market_value READY = ''READY''"
| "market_value BLOCKED_STALE_QUOTE = ''BLOCKED_STALE_QUOTE''"
| "market_value BLOCKED_STALE_DEPTH = ''BLOCKED_STALE_DEPTH''"
| "market_value BLOCKED_SPREAD_TOO_WIDE = ''BLOCKED_SPREAD_TOO_WIDE''"
| "market_value BLOCKED_SLIPPAGE_BUDGET = ''BLOCKED_SLIPPAGE_BUDGET''"
| "market_value BLOCKED_MISSING_QUOTE = ''BLOCKED_MISSING_QUOTE''"

record market_readiness =
  mr_symbol :: string
  mr_status :: market_status
  mr_quote :: pydict
  mr_fresh_quote :: bool
  mr_fresh_depth :: bool
  mr_liquidity_ok :: bool
  mr_slippage_budget_ok :: bool
  mr_blockers :: "string list"
  mr_warnings :: "string list"

definition market_readiness_to_dict :: "market_readiness \<Rightarrow> pydict" where
  "market_readiness_to_dict r =
     [(''symbol'', PStr (mr_symbol r)),
      (''status'', PStr (market_value (mr_status r))),
      (''quote'', PDict (mr_quote r)),
      (''fresh_quote'', PBool (mr_fresh_quote r)),
      (''fresh_depth'', PBool (mr_fresh_depth r)),
      (''liquidity_ok'', PBool (mr_liquidity_ok r)),
      (''slippage_budget_ok'', PBool (mr_slippage_budget_ok r)),
      (''blockers'', str_list (mr_blockers r)),
      (''warnings'', str_list (mr_warnings r)),
      (''is_execution_decision'', PBool False)]"

definition market_status_of :: "string list \<Rightarrow> market_status" where
  "market_status_of blockers =
     (if ''MISSING_QUOTE'' \<in> set blockers \<or> ''MISSING_LTP'' \<in> set blockers \<or> ''MISSING_BID_ASK'' \<in> set blockers
      then BLOCKED_MISSING_QUOTE
      else if ''STALE_OPTION_LTP'' \<in> set blockers then BLOCKED_STALE_QUOTE
      else if ''STALE_DEPTH'' \<in> set blockers then BLOCKED_STALE_DEPTH
      else if ''SPREAD_TOO_WIDE'' \<in> set blockers then BLOCKED_SPREAD_TOO_WIDE
      else if ''SLIPPAGE_BUDGET_EXCEEDED'' \<in> set blockers then BLOCKED_SLIPPAGE_BUDGET
      else READY)"

record market_limits =
  ml_max_quote_age :: pyfloat
  ml_max_depth_age :: pyfloat
  ml_max_spread_pct :: pyfloat
  ml_slippage_budget_pct :: pyfloat

definition default_market_limits :: market_limits where
  "default_market_limits =
     \<lparr>ml_max_quote_age = Fin 2, ml_max_depth_age = Fin 2, ml_max_spread_pct = Fin 1, ml_slippage_budget_pct = Fin (3 / 2)\<rparr>"

datatype quote_arg = NoQuote | QuoteRow pydict | QuoteObject quote_snapshot

definition quote_payload :: "market_limits \<Rightarrow> quote_snapshot \<Rightarrow> pyfloat option \<Rightarrow> pydict" where
  "quote_payload limits q pct =
     [(''symbol'', PStr (qs_symbol q)),
      (''ltp'', opt_float (qs_ltp q)),
      (''bid'', opt_float (qs_bid q)),
      (''ask'', opt_float (qs_ask q)),
      (''quote_age_sec'', opt_float (qs_quote_age q)),
      (''depth_age_sec'', opt_float (qs_depth_age q)),
      (''source'', qs_source q),
      (''spread'', opt_float (quote_spread q)),
      (''spread_pct'', opt_float pct),
      (''max_quote_age_sec'', PFloat (ml_max_quote_age limits)),
      (''max_depth_age_sec'', PFloat (ml_max_depth_age limits)),
      (''max_spread_pct'', PFloat (ml_max_spread_pct limits)),
      (''slippage_budget_pct'', PFloat (ml_slippage_budget_pct limits)),
      (''raw'', PDict (qs_raw q))]"

definition quote_blockers :: "market_limits \<Rightarrow> quote_snapshot \<Rightarrow> pyfloat option \<Rightarrow> string list" where
  "quote_blockers limits q pct =
     add_if (qs_ltp q = None) ''MISSING_LTP'' @
     add_if (\<not> at_most (qs_quote_age q) (ml_max_quote_age limits)) ''STALE_OPTION_LTP'' @
     add_if (\<not> at_most (qs_depth_age q) (ml_max_depth_age limits)) ''STALE_DEPTH'' @
     (if pct = None then [''MISSING_BID_ASK''] else add_if (\<not> at_most pct (ml_max_spread_pct limits)) ''SPREAD_TOO_WIDE'') @
     add_if (\<not> at_most pct (ml_slippage_budget_pct limits)) ''SLIPPAGE_BUDGET_EXCEEDED''"

definition readiness_of_quote :: "market_limits \<Rightarrow> quote_snapshot \<Rightarrow> market_readiness result" where
  "readiness_of_quote limits q =
     bind_result (spread_pct q) (\<lambda>pct.
       let blockers = quote_blockers limits q pct
       in Inr \<lparr>mr_symbol = (if qs_symbol q \<noteq> [] then qs_symbol q else ''UNKNOWN''),
               mr_status = market_status_of blockers, mr_quote = quote_payload limits q pct,
               mr_fresh_quote = at_most (qs_quote_age q) (ml_max_quote_age limits),
               mr_fresh_depth = at_most (qs_depth_age q) (ml_max_depth_age limits),
               mr_liquidity_ok = at_most pct (ml_max_spread_pct limits),
               mr_slippage_budget_ok = at_most pct (ml_slippage_budget_pct limits),
               mr_blockers = dedupe blockers, mr_warnings = add_if (is_blank (qs_source q)) ''QUOTE_SOURCE_MISSING''\<rparr>)"

definition evaluate_market_readiness :: "market_limits \<Rightarrow> quote_arg \<Rightarrow> market_readiness result" where
  "evaluate_market_readiness limits arg =
     (case arg of
        NoQuote \<Rightarrow>
          Inr \<lparr>mr_symbol = ''UNKNOWN'', mr_status = BLOCKED_MISSING_QUOTE, mr_quote = [], mr_fresh_quote = False,
               mr_fresh_depth = False, mr_liquidity_ok = False, mr_slippage_budget_ok = False, mr_blockers = [''MISSING_QUOTE''],
               mr_warnings = []\<rparr>
      | QuoteRow row \<Rightarrow> bind_result (quote_from_mapping row) (readiness_of_quote limits)
      | QuoteObject q \<Rightarrow> readiness_of_quote limits q)"

definition evaluate_market_readiness_batch :: "market_limits \<Rightarrow> quote_arg list \<Rightarrow> market_readiness list result" where
  "evaluate_market_readiness_batch limits args = map_result (evaluate_market_readiness limits) args"

section \<open>What a ready quote is\<close>

definition quote_of_arg :: "quote_arg \<Rightarrow> quote_snapshot option" where
  "quote_of_arg arg =
     (case arg of
        NoQuote \<Rightarrow> None
      | QuoteRow row \<Rightarrow> (case quote_from_mapping row of Inr q \<Rightarrow> Some q | Inl _ \<Rightarrow> None)
      | QuoteObject q \<Rightarrow> Some q)"

lemma blocked_quote_labels:
  "list_all (\<lambda>l. \<not> blank l) [''MISSING_LTP'', ''STALE_OPTION_LTP'', ''STALE_DEPTH'', ''MISSING_BID_ASK'', ''SPREAD_TOO_WIDE'',
     ''SLIPPAGE_BUDGET_EXCEEDED'']"
  by code_simp

lemma quote_blockers_clear:
  "quote_blockers limits q pct = [] \<longleftrightarrow>
     qs_ltp q \<noteq> None \<and> at_most (qs_quote_age q) (ml_max_quote_age limits) \<and> at_most (qs_depth_age q) (ml_max_depth_age limits) \<and>
     at_most pct (ml_max_spread_pct limits) \<and> at_most pct (ml_slippage_budget_pct limits)"
  "list_all blank (quote_blockers limits q pct) \<longleftrightarrow> quote_blockers limits q pct = []"
  "market_status_of (quote_blockers limits q pct) = READY \<longleftrightarrow> quote_blockers limits q pct = []"
  using blocked_quote_labels
  by (auto simp: quote_blockers_def market_status_of_def add_if_def at_most_def split: option.splits)

text \<open>
  A quote is ready exactly when it may be traded on: it has a last price, the quote and the
  depth are known to be no older than their limits, and the spread, in percent of the mid, is
  known to be within both the spread limit and the slippage budget. There are blockers exactly
  when it is not ready.
\<close>

theorem market_ready_iff:
  assumes "evaluate_market_readiness limits arg = Inr r"
  shows "(mr_status r = READY \<longleftrightarrow>
      (\<exists>q a b p. quote_of_arg arg = Some q \<and> qs_ltp q \<noteq> None \<and> qs_quote_age q = Some a \<and> float_le a (ml_max_quote_age limits) \<and>
        qs_depth_age q = Some b \<and> float_le b (ml_max_depth_age limits) \<and> spread_pct q = Inr (Some p) \<and>
        float_le p (ml_max_spread_pct limits) \<and> float_le p (ml_slippage_budget_pct limits))) \<and>
    (mr_blockers r = [] \<longleftrightarrow> mr_status r = READY)"
proof (cases "quote_of_arg arg")
  case None
  with assms show ?thesis by (cases arg) (auto simp: quote_of_arg_def evaluate_market_readiness_def split: sum.splits)
next
  case (Some q)
  with assms obtain p where p: "spread_pct q = Inr p" "mr_status r = market_status_of (quote_blockers limits q p)"
    "mr_blockers r = dedupe (quote_blockers limits q p)"
    by (cases arg) (auto simp: quote_of_arg_def evaluate_market_readiness_def readiness_of_quote_def Let_def split: sum.splits)
  show ?thesis
    unfolding p(2,3) dedupe_eq_Nil quote_blockers_clear(2,3)
    using Some p(1) by (auto simp: quote_blockers_clear(1) at_most_def split: option.splits)
qed

definition demo_quote_row :: "pyfloat \<Rightarrow> pydict" where
  "demo_quote_row age =
     [(''symbol'', PStr ''N''), (''ltp'', PFloat (Fin 100)), (''bid'', PFloat (Fin 100)), (''ask'', PFloat (Fin 100)),
      (''quote_age_sec'', PFloat age), (''depth_age_sec'', PFloat (Fin 1)), (''source'', PStr ''L'')]"

theorem market_ready_iff_witness:
  "\<exists>r. evaluate_market_readiness default_market_limits (QuoteRow (demo_quote_row (Fin 1))) = Inr r \<and> mr_status r = READY \<and>
     mr_blockers r = []"
proof -
  let ?run = "evaluate_market_readiness default_market_limits (QuoteRow (demo_quote_row (Fin 1)))"
  have "case ?run of Inr r \<Rightarrow> mr_status r = READY | Inl _ \<Rightarrow> False" by code_simp
  then obtain r where r: "?run = Inr r" "mr_status r = READY" by (auto split: sum.splits)
  from market_ready_iff [OF r(1)] r show ?thesis by blast
qed

text \<open>
  The freshest quote is reported as stale: an age of 0 is false for \<open>or\<close>, so the age counts as
  missing.
\<close>

lemma zero_age_is_stale:
  "case evaluate_market_readiness default_market_limits (QuoteRow (demo_quote_row (Fin 0))) of
     Inr r \<Rightarrow> mr_status r = BLOCKED_STALE_QUOTE \<and> \<not> mr_fresh_quote r | Inl _ \<Rightarrow> False"
  by code_simp

end
