(* ===== verification/Live_Snapshot.thy ===== *)
theory Live_Snapshot
  imports Market_Base Py_Float_Order
begin

text \<open>
  src/market_readiness/live_snapshot.py and quote_freshness_monitor.py: the snapshot of the market
  data of a symbol with the reasons that block it, and the monitor that counts the snapshots by
  their state.
\<close>

section \<open>Snapshots\<close>

datatype snapshot_status =
    READY
  | BLOCKED_MISSING_SPOT
  | BLOCKED_STALE_SPOT
  | BLOCKED_FALLBACK_SOURCE
  | BLOCKED_MISSING_OPTION_CHAIN
  | BLOCKED_STALE_OPTION_CHAIN
  | BLOCKED_SESSION_CLOSED

fun snapshot_value :: "snapshot_status \<Rightarrow> string" where
  "snapshot_value READY = ''READY''"
| "snapshot_value BLOCKED_MISSING_SPOT = ''BLOCKED_MISSING_SPOT''"
| "snapshot_value BLOCKED_STALE_SPOT = ''BLOCKED_STALE_SPOT''"
| "snapshot_value BLOCKED_FALLBACK_SOURCE = ''BLOCKED_FALLBACK_SOURCE''"
| "snapshot_value BLOCKED_MISSING_OPTION_CHAIN = ''BLOCKED_MISSING_OPTION_CHAIN''"
| "snapshot_value BLOCKED_STALE_OPTION_CHAIN = ''BLOCKED_STALE_OPTION_CHAIN''"
| "snapshot_value BLOCKED_SESSION_CLOSED = ''BLOCKED_SESSION_CLOSED''"

definition fallback_sources :: "string list" where
  "fallback_sources = [''FALLBACK'', ''CACHE'', ''MOCK'', ''UNKNOWN'']"

definition open_session_states :: "string list" where
  "open_session_states = [''OPEN'', ''LIVE'', ''REGULAR'']"

record market_snapshot =
  sn_symbol :: string
  sn_status :: snapshot_status
  sn_spot :: pydict
  sn_option_chain :: pydict
  sn_source :: "string option"
  sn_session_state :: "string option"
  sn_spot_quote_fresh :: bool
  sn_option_chain_fresh :: bool
  sn_source_reliable :: bool
  sn_session_open :: bool
  sn_blockers :: "string list"
  sn_warnings :: "string list"

definition snapshot_to_dict :: "market_snapshot \<Rightarrow> pydict" where
  "snapshot_to_dict s =
     [(''schema_version'', PStr ''1.0''),
      (''snapshot_type'', PStr ''LIVE_MARKET_DATA_SNAPSHOT''),
      (''symbol'', PStr (sn_symbol s)),
      (''status'', PStr (snapshot_value (sn_status s))),
      (''read_only'', PBool True),
      (''is_order_action'', PBool False),
      (''source'', opt_str (sn_source s)),
      (''session_state'', opt_str (sn_session_state s)),
      (''spot'', PDict (sn_spot s)),
      (''option_chain'', PDict (sn_option_chain s)),
      (''spot_quote_fresh'', PBool (sn_spot_quote_fresh s)),
      (''option_chain_fresh'', PBool (sn_option_chain_fresh s)),
      (''source_reliable'', PBool (sn_source_reliable s)),
      (''session_open'', PBool (sn_session_open s)),
      (''blockers'', str_list (sn_blockers s)),
      (''warnings'', str_list (sn_warnings s))]"

definition snapshot_schema_contract :: pydict where
  "snapshot_schema_contract =
     [(''schema_version'', PStr ''1.0''),
      (''snapshot_type'', PStr ''LIVE_MARKET_DATA_SNAPSHOT''),
      (''required_keys'', str_list
         [''schema_version'', ''snapshot_type'', ''symbol'', ''status'', ''read_only'', ''is_order_action'', ''source'',
          ''session_state'', ''spot'', ''option_chain'', ''spot_quote_fresh'', ''option_chain_fresh'', ''source_reliable'',
          ''session_open'', ''blockers'', ''warnings'']),
      (''spot_required_keys'', str_list [''ltp'', ''quote_age_sec'', ''max_quote_age_sec'']),
      (''option_chain_required_keys'', str_list [''age_sec'', ''max_age_sec'', ''expiry'', ''ce_count'', ''pe_count'']),
      (''safe_flags'', PDict [(''read_only'', PBool True), (''is_order_action'', PBool False)]),
      (''default_thresholds'', PDict
         [(''max_spot_quote_age_sec'', PFloat (Fin 2)), (''max_option_chain_age_sec'', PFloat (Fin 5))])]"

interpretation snapshot_report: market_report snapshot_to_dict snapshot_schema_contract
  by unfold_locales (simp_all add: snapshot_to_dict_def snapshot_schema_contract_def)

record snapshot_limits =
  nl_max_spot_age :: pyfloat
  nl_max_chain_age :: pyfloat

definition default_snapshot_limits :: snapshot_limits where
  "default_snapshot_limits = \<lparr>nl_max_spot_age = Fin 2, nl_max_chain_age = Fin 5\<rparr>"

definition known_or :: "string option \<Rightarrow> string" where
  "known_or s = upper (case s of Some t \<Rightarrow> (if t \<noteq> [] then t else ''UNKNOWN'') | None \<Rightarrow> ''UNKNOWN'')"

text \<open>What is read of a row.\<close>

record market_reading =
  rd_symbol :: string
  rd_source :: "string option"
  rd_session_state :: "string option"
  rd_spot_ltp :: "pyfloat option"
  rd_spot_age :: "pyfloat option"
  rd_chain_age :: "pyfloat option"
  rd_expiry :: "string option"
  rd_ce_count :: "int option"
  rd_pe_count :: "int option"

definition read_market_row :: "pydict \<Rightarrow> market_reading result" where
  "read_market_row row =
     (let symbol = first_present row [''symbol'', ''underlying'', ''index_symbol'']
      in bind_result (float_or_none (first_present row [''spot_ltp'', ''spot_price'', ''ltp'', ''last_price''])) (\<lambda>ltp.
         bind_result (float_or_none (first_present row [''spot_quote_age_sec'', ''quote_age_sec'', ''ltp_age_sec''])) (\<lambda>spot_age.
         bind_result (float_or_none (first_present row [''option_chain_age_sec'', ''chain_age_sec'', ''option_ltp_age_sec''])) (\<lambda>chain_age.
         bind_result (int_or_none (first_present row [''ce_count'', ''call_count'', ''option_ce_count''])) (\<lambda>ce.
         bind_result (int_or_none (first_present row [''pe_count'', ''put_count'', ''option_pe_count''])) (\<lambda>pe.
           Inr \<lparr>rd_symbol = upper (if symbol = PNone then ''UNKNOWN'' else py_str symbol),
                rd_source = optional_text (first_present row [''source'', ''quote_source'', ''feed_source'']),
                rd_session_state = optional_text (first_present row [''session_state'', ''market_session'', ''market_state'']),
                rd_spot_ltp = ltp, rd_spot_age = spot_age, rd_chain_age = chain_age,
                rd_expiry = optional_text (first_present row [''expiry'', ''expiry_context'']), rd_ce_count = ce,
                rd_pe_count = pe\<rparr>))))))"

definition reliable_source :: "market_reading \<Rightarrow> bool" where
  "reliable_source m \<longleftrightarrow> known_or (rd_source m) \<noteq> [] \<and> known_or (rd_source m) \<notin> set fallback_sources"

definition open_session :: "market_reading \<Rightarrow> bool" where
  "open_session m \<longleftrightarrow> known_or (rd_session_state m) \<in> set open_session_states"

definition chain_present :: "market_reading \<Rightarrow> bool" where
  "chain_present m \<longleftrightarrow> rd_chain_age m \<noteq> None \<or> rd_ce_count m \<noteq> None \<or> rd_pe_count m \<noteq> None \<or> rd_expiry m \<noteq> None"

definition snapshot_blockers :: "snapshot_limits \<Rightarrow> market_reading \<Rightarrow> string list" where
  "snapshot_blockers limits m =
     add_if (rd_spot_ltp m = None) ''MISSING_SPOT_LTP'' @
     (if rd_spot_age m = None then [''MISSING_SPOT_QUOTE_AGE'']
      else add_if (beyond (rd_spot_age m) (nl_max_spot_age limits)) ''STALE_SPOT_QUOTE'') @
     add_if (\<not> reliable_source m) ''UNRELIABLE_MARKET_DATA_SOURCE'' @
     add_if (\<not> open_session m) ''MARKET_SESSION_NOT_OPEN'' @
     (if \<not> chain_present m then [''MISSING_OPTION_CHAIN'']
      else if rd_chain_age m = None then [''MISSING_OPTION_CHAIN_AGE'']
      else add_if (beyond (rd_chain_age m) (nl_max_chain_age limits)) ''STALE_OPTION_CHAIN'')"

definition snapshot_warnings :: "market_reading \<Rightarrow> string list" where
  "snapshot_warnings m =
     add_if (rd_ce_count m = Some 0 \<or> rd_pe_count m = Some 0) ''OPTION_CHAIN_SIDE_COUNT_ZERO'' @
     add_if (rd_source m = None) ''MARKET_DATA_SOURCE_MISSING'' @
     add_if (rd_session_state m = None) ''MARKET_SESSION_STATE_MISSING''"

definition snapshot_status_of :: "string list \<Rightarrow> snapshot_status" where
  "snapshot_status_of blockers =
     (if ''MISSING_SPOT_LTP'' \<in> set blockers \<or> ''MISSING_SPOT_QUOTE_AGE'' \<in> set blockers then BLOCKED_MISSING_SPOT
      else if ''STALE_SPOT_QUOTE'' \<in> set blockers then BLOCKED_STALE_SPOT
      else if ''UNRELIABLE_MARKET_DATA_SOURCE'' \<in> set blockers then BLOCKED_FALLBACK_SOURCE
      else if ''MISSING_OPTION_CHAIN'' \<in> set blockers \<or> ''MISSING_OPTION_CHAIN_AGE'' \<in> set blockers
      then BLOCKED_MISSING_OPTION_CHAIN
      else if ''STALE_OPTION_CHAIN'' \<in> set blockers then BLOCKED_STALE_OPTION_CHAIN
      else if ''MARKET_SESSION_NOT_OPEN'' \<in> set blockers then BLOCKED_SESSION_CLOSED
      else READY)"

definition snapshot_of_reading :: "snapshot_limits \<Rightarrow> market_reading \<Rightarrow> market_snapshot" where
  "snapshot_of_reading limits m =
     \<lparr>sn_symbol = rd_symbol m,
      sn_status = snapshot_status_of (snapshot_blockers limits m),
      sn_spot =
        [(''ltp'', opt_float (rd_spot_ltp m)), (''quote_age_sec'', opt_float (rd_spot_age m)),
         (''max_quote_age_sec'', PFloat (nl_max_spot_age limits))],
      sn_option_chain =
        [(''age_sec'', opt_float (rd_chain_age m)), (''max_age_sec'', PFloat (nl_max_chain_age limits)),
         (''expiry'', opt_str (rd_expiry m)), (''ce_count'', opt_int (rd_ce_count m)), (''pe_count'', opt_int (rd_pe_count m))],
      sn_source = rd_source m,
      sn_session_state = rd_session_state m,
      sn_spot_quote_fresh = (rd_spot_ltp m \<noteq> None \<and> at_most (rd_spot_age m) (nl_max_spot_age limits)),
      sn_option_chain_fresh = at_most (rd_chain_age m) (nl_max_chain_age limits),
      sn_source_reliable = reliable_source m,
      sn_session_open = open_session m,
      sn_blockers = dedupe (snapshot_blockers limits m),
      sn_warnings = dedupe (snapshot_warnings m)\<rparr>"

definition build_live_snapshot :: "snapshot_limits \<Rightarrow> pyval \<Rightarrow> market_snapshot result" where
  "build_live_snapshot limits row =
     bind_result (read_market_row (as_dict row)) (\<lambda>m. Inr (snapshot_of_reading limits m))"

section \<open>The monitor\<close>

datatype monitor_status = HEALTHY | DEGRADED | BLOCKED | EMPTY

fun monitor_value :: "monitor_status \<Rightarrow> string" where
  "monitor_value HEALTHY = ''HEALTHY''"
| "monitor_value DEGRADED = ''DEGRADED''"
| "monitor_value BLOCKED = ''BLOCKED''"
| "monitor_value EMPTY = ''EMPTY''"

record monitor_summary =
  ms_snapshot_count :: nat
  ms_ready_count :: nat
  ms_stale_spot_count :: nat
  ms_missing_spot_count :: nat
  ms_fallback_source_count :: nat
  ms_missing_chain_count :: nat
  ms_stale_chain_count :: nat
  ms_closed_session_count :: nat
  ms_warning_count :: nat
  ms_fresh_ratio :: pyfloat

definition monitor_summary_to_dict :: "monitor_summary \<Rightarrow> pydict" where
  "monitor_summary_to_dict s =
     [(''snapshot_count'', PInt (int (ms_snapshot_count s))),
      (''ready_count'', PInt (int (ms_ready_count s))),
      (''stale_spot_count'', PInt (int (ms_stale_spot_count s))),
      (''missing_spot_count'', PInt (int (ms_missing_spot_count s))),
      (''fallback_source_count'', PInt (int (ms_fallback_source_count s))),
      (''missing_option_chain_count'', PInt (int (ms_missing_chain_count s))),
      (''stale_option_chain_count'', PInt (int (ms_stale_chain_count s))),
      (''closed_session_count'', PInt (int (ms_closed_session_count s))),
      (''blocked_count'', PInt (int (ms_snapshot_count s) - int (ms_ready_count s))),
      (''warning_count'', PInt (int (ms_warning_count s))),
      (''fresh_ratio'', PFloat (ms_fresh_ratio s)),
      (''read_only'', PBool True),
      (''is_order_action'', PBool False)]"

record freshness_monitor =
  fm_snapshots :: "market_snapshot list"
  fm_status :: monitor_status
  fm_summary :: monitor_summary
  fm_blockers :: "string list"
  fm_warnings :: "string list"

definition freshness_monitor_to_dict :: "freshness_monitor \<Rightarrow> pydict" where
  "freshness_monitor_to_dict r =
     [(''schema_version'', PStr ''1.0''),
      (''monitor_type'', PStr ''QUOTE_FRESHNESS_RUNTIME_MONITOR''),
      (''status'', PStr (monitor_value (fm_status r))),
      (''read_only'', PBool True),
      (''is_order_action'', PBool False),
      (''summary'', PDict (monitor_summary_to_dict (fm_summary r))),
      (''snapshots'', PList (map (\<lambda>s. PDict (snapshot_to_dict s)) (fm_snapshots r))),
      (''blockers'', str_list (fm_blockers r)),
      (''warnings'', str_list (fm_warnings r))]"

definition monitor_schema_contract :: pydict where
  "monitor_schema_contract =
     [(''schema_version'', PStr ''1.0''),
      (''monitor_type'', PStr ''QUOTE_FRESHNESS_RUNTIME_MONITOR''),
      (''required_keys'', str_list
         [''schema_version'', ''monitor_type'', ''status'', ''read_only'', ''is_order_action'', ''summary'', ''snapshots'',
          ''blockers'', ''warnings'']),
      (''summary_required_keys'', str_list
         [''snapshot_count'', ''ready_count'', ''stale_spot_count'', ''missing_spot_count'', ''fallback_source_count'',
          ''missing_option_chain_count'', ''stale_option_chain_count'', ''closed_session_count'', ''blocked_count'',
          ''warning_count'', ''fresh_ratio'', ''read_only'', ''is_order_action'']),
      (''safe_flags'', PDict [(''read_only'', PBool True), (''is_order_action'', PBool False)])]"

interpretation monitor_report: market_report freshness_monitor_to_dict monitor_schema_contract
  by unfold_locales (simp_all add: freshness_monitor_to_dict_def monitor_schema_contract_def)

text \<open>The quotient of two integers is rounded once.\<close>

definition monitor_summary_of :: "market_snapshot list \<Rightarrow> monitor_summary" where
  "monitor_summary_of snapshots =
     (let n = length snapshots; number = (\<lambda>status. count_if (\<lambda>s. sn_status s = status) snapshots)
      in \<lparr>ms_snapshot_count = n, ms_ready_count = number READY, ms_stale_spot_count = number BLOCKED_STALE_SPOT,
          ms_missing_spot_count = number BLOCKED_MISSING_SPOT, ms_fallback_source_count = number BLOCKED_FALLBACK_SOURCE,
          ms_missing_chain_count = number BLOCKED_MISSING_OPTION_CHAIN,
          ms_stale_chain_count = number BLOCKED_STALE_OPTION_CHAIN,
          ms_closed_session_count = number BLOCKED_SESSION_CLOSED,
          ms_warning_count = sum_list (map (\<lambda>s. length (sn_warnings s)) snapshots),
          ms_fresh_ratio = (if n \<noteq> 0 then round64 (of_nat (number READY) / of_nat n) else Fin 0)\<rparr>)"

definition monitor_blockers :: "monitor_summary \<Rightarrow> string list" where
  "monitor_blockers s =
     add_if (ms_snapshot_count s = 0) ''NO_MARKET_DATA_SNAPSHOTS'' @
     add_if (ms_missing_spot_count s \<noteq> 0) ''MISSING_SPOT_DATA_PRESENT'' @
     add_if (ms_stale_spot_count s \<noteq> 0) ''STALE_SPOT_QUOTES_PRESENT'' @
     add_if (ms_fallback_source_count s \<noteq> 0) ''FALLBACK_MARKET_DATA_SOURCE_PRESENT'' @
     add_if (ms_missing_chain_count s \<noteq> 0) ''MISSING_OPTION_CHAIN_PRESENT'' @
     add_if (ms_stale_chain_count s \<noteq> 0) ''STALE_OPTION_CHAIN_PRESENT'' @
     add_if (ms_closed_session_count s \<noteq> 0) ''MARKET_SESSION_CLOSED_PRESENT''"

definition monitor_warnings :: "market_snapshot list \<Rightarrow> monitor_summary \<Rightarrow> string list" where
  "monitor_warnings snapshots s =
     fold (\<lambda>w ws. if w \<in> set ws then ws else ws @ [w])
       (concat (map (\<lambda>n. map (\<lambda>w. sn_symbol n @ '':'' @ w) (sn_warnings n)) snapshots))
       (add_if (ms_warning_count s \<noteq> 0) ''SNAPSHOT_WARNINGS_PRESENT'')"

definition monitor_status_of :: "monitor_summary \<Rightarrow> string list \<Rightarrow> monitor_status" where
  "monitor_status_of s blockers =
     (if ms_snapshot_count s = 0 then EMPTY
      else if blockers \<noteq> [] then BLOCKED
      else if ms_warning_count s \<noteq> 0 then DEGRADED
      else HEALTHY)"

datatype snapshot_arg = SnapshotObject market_snapshot | SnapshotRow pyval

definition snapshot_of_arg :: "snapshot_limits \<Rightarrow> snapshot_arg \<Rightarrow> market_snapshot result" where
  "snapshot_of_arg limits arg = (case arg of SnapshotObject s \<Rightarrow> Inr s | SnapshotRow row \<Rightarrow> build_live_snapshot limits row)"

definition build_freshness_monitor :: "snapshot_limits \<Rightarrow> snapshot_arg list \<Rightarrow> freshness_monitor result" where
  "build_freshness_monitor limits rows =
     bind_result (map_result (snapshot_of_arg limits) rows) (\<lambda>snapshots.
       let s = monitor_summary_of snapshots
       in Inr \<lparr>fm_snapshots = snapshots, fm_status = monitor_status_of s (monitor_blockers s), fm_summary = s,
               fm_blockers = monitor_blockers s, fm_warnings = monitor_warnings snapshots s\<rparr>)"

section \<open>What a ready snapshot is\<close>

lemma snapshot_labels:
  "list_all (\<lambda>l. \<not> blank l) [''MISSING_SPOT_LTP'', ''MISSING_SPOT_QUOTE_AGE'', ''STALE_SPOT_QUOTE'', ''UNRELIABLE_MARKET_DATA_SOURCE'',
     ''MARKET_SESSION_NOT_OPEN'', ''MISSING_OPTION_CHAIN'', ''MISSING_OPTION_CHAIN_AGE'', ''STALE_OPTION_CHAIN'']"
  by code_simp

lemma snapshot_blockers_clear:
  "snapshot_status_of (snapshot_blockers limits m) = READY \<longleftrightarrow> snapshot_blockers limits m = []"
  "list_all blank (snapshot_blockers limits m) \<longleftrightarrow> snapshot_blockers limits m = []"
  "snapshot_blockers limits m = [] \<longleftrightarrow>
     rd_spot_ltp m \<noteq> None \<and> rd_spot_age m \<noteq> None \<and> \<not> beyond (rd_spot_age m) (nl_max_spot_age limits) \<and>
     reliable_source m \<and> open_session m \<and> rd_chain_age m \<noteq> None \<and> \<not> beyond (rd_chain_age m) (nl_max_chain_age limits)"
  using snapshot_labels
  by (auto simp: snapshot_blockers_def snapshot_status_of_def add_if_def chain_present_def)

lemma known_age:
  "x \<noteq> None \<Longrightarrow> x \<noteq> Some NaN \<Longrightarrow> limit \<noteq> NaN \<Longrightarrow> beyond x limit \<longleftrightarrow> \<not> at_most x limit"
  using float_lt_linear float_lt_trans
  by (cases x) (auto simp: beyond_def at_most_def float_le_def float_eq_def dest: float_lt_trans)

text \<open>
  A snapshot is ready exactly when its flags say so. Unless an age or a limit is NaN, the
  status is READY exactly when the spot quote and the option chain are fresh, the source is
  reliable and the session open, and there are blockers exactly when it is not.
\<close>

theorem snapshot_ready_iff:
  assumes "read_market_row (as_dict row) = Inr m"
    and "rd_spot_age m \<noteq> Some NaN" "rd_chain_age m \<noteq> Some NaN" "nl_max_spot_age limits \<noteq> NaN" "nl_max_chain_age limits \<noteq> NaN"
  shows "\<exists>s. build_live_snapshot limits row = Inr s \<and>
    (sn_status s = READY \<longleftrightarrow> sn_spot_quote_fresh s \<and> sn_option_chain_fresh s \<and> sn_source_reliable s \<and> sn_session_open s) \<and>
    (sn_blockers s = [] \<longleftrightarrow> sn_status s = READY)"
proof -
  let ?s = "snapshot_of_reading limits m"
  have "at_most x limit \<Longrightarrow> x \<noteq> None" for x limit by (auto simp: at_most_def split: option.splits)
  then have "sn_status ?s = READY \<longleftrightarrow>
      sn_spot_quote_fresh ?s \<and> sn_option_chain_fresh ?s \<and> sn_source_reliable ?s \<and> sn_session_open ?s"
    using known_age [of "rd_spot_age m" "nl_max_spot_age limits"] known_age [of "rd_chain_age m" "nl_max_chain_age limits"] assms(2-5)
    by (auto simp: snapshot_of_reading_def snapshot_blockers_clear)
  moreover have "sn_blockers ?s = [] \<longleftrightarrow> sn_status ?s = READY"
    by (simp add: snapshot_of_reading_def snapshot_blockers_clear)
  ultimately show ?thesis using assms(1) by (simp add: build_live_snapshot_def)
qed

definition demo_market_row :: "pyval \<Rightarrow> pydict" where
  "demo_market_row age =
     [(''symbol'', PStr ''N''), (''source'', PStr ''L''), (''session_state'', PStr ''open''), (''ltp'', PInt 100),
      (''quote_age_sec'', age), (''chain_age_sec'', PInt 1)]"

theorem snapshot_ready_iff_witness:
  "\<exists>s. build_live_snapshot default_snapshot_limits (PDict (demo_market_row (PInt 1))) = Inr s \<and> sn_status s = READY \<and>
     sn_blockers s = []"
proof -
  let ?row = "PDict (demo_market_row (PInt 1))"
  have "case read_market_row (as_dict ?row) of
      Inr m \<Rightarrow> rd_spot_age m \<noteq> Some NaN \<and> rd_chain_age m \<noteq> Some NaN \<and>
        sn_status (snapshot_of_reading default_snapshot_limits m) = READY | Inl _ \<Rightarrow> False" by code_simp
  then obtain m where m: "read_market_row (as_dict ?row) = Inr m" "rd_spot_age m \<noteq> Some NaN" "rd_chain_age m \<noteq> Some NaN"
    "sn_status (snapshot_of_reading default_snapshot_limits m) = READY" by (auto split: sum.splits)
  have "nl_max_spot_age default_snapshot_limits \<noteq> NaN" "nl_max_chain_age default_snapshot_limits \<noteq> NaN"
    by (simp_all add: default_snapshot_limits_def)
  from snapshot_ready_iff [OF m(1-3) this] m show ?thesis by (auto simp: build_live_snapshot_def)
qed

text \<open>An age that is no number is not beyond any limit: the snapshot is ready, with a quote that is not fresh.\<close>

lemma nan_age_is_ready:
  "case build_live_snapshot default_snapshot_limits (PDict (demo_market_row (PStr ''nan''))) of
     Inr s \<Rightarrow> sn_status s = READY \<and> \<not> sn_spot_quote_fresh s | Inl _ \<Rightarrow> False"
  by code_simp

section \<open>What the monitor counts\<close>

lemma count_partition:
  "count_if P xs + count_if (\<lambda>x. \<not> P x) xs = length xs"
  using sum_length_filter_compl [of P xs] by (simp add: count_if_def)

lemma status_counts:
  "length xs = count_if (\<lambda>s. sn_status s = READY) xs + count_if (\<lambda>s. sn_status s = BLOCKED_STALE_SPOT) xs +
     count_if (\<lambda>s. sn_status s = BLOCKED_MISSING_SPOT) xs + count_if (\<lambda>s. sn_status s = BLOCKED_FALLBACK_SOURCE) xs +
     count_if (\<lambda>s. sn_status s = BLOCKED_MISSING_OPTION_CHAIN) xs + count_if (\<lambda>s. sn_status s = BLOCKED_STALE_OPTION_CHAIN) xs +
     count_if (\<lambda>s. sn_status s = BLOCKED_SESSION_CLOSED) xs"
proof (induction xs)
  case (Cons x xs)
  then show ?case by (cases "sn_status x") (simp_all add: count_if_def)
qed (simp add: count_if_def)

lemma share_bounds:
  "float_le (Fin 0) (round64 (of_nat (count_if P xs) / of_nat (length xs)))"
  "float_le (round64 (of_nat (count_if P xs) / of_nat (length xs))) (Fin 1)"
proof -
  have "count_if P xs \<le> length xs" by (rule count_if_le)
  then have "0 \<le> (of_nat (count_if P xs) / of_nat (length xs) :: rat)" "(of_nat (count_if P xs) / of_nat (length xs) :: rat) \<le> 1"
    by (simp_all add: divide_le_eq_1)
  moreover have "round64 1 = Fin 1" using round64_of_int [of 1] by simp
  ultimately show "float_le (Fin 0) (round64 (of_nat (count_if P xs) / of_nat (length xs)))"
    "float_le (round64 (of_nat (count_if P xs) / of_nat (length xs))) (Fin 1)"
    using round64_mono [of 0 "of_nat (count_if P xs) / of_nat (length xs)"]
      round64_mono [of "of_nat (count_if P xs) / of_nat (length xs)" 1] by simp_all
qed

lemma monitor_blockers_clear:
  "xs \<noteq> [] \<Longrightarrow> monitor_blockers (monitor_summary_of xs) = [] \<longleftrightarrow> (\<forall>s \<in> set xs. sn_status s = READY)"
proof -
  assume "xs \<noteq> []"
  moreover have "s = READY \<longleftrightarrow> s \<noteq> BLOCKED_MISSING_SPOT \<and> s \<noteq> BLOCKED_STALE_SPOT \<and> s \<noteq> BLOCKED_FALLBACK_SOURCE \<and>
      s \<noteq> BLOCKED_MISSING_OPTION_CHAIN \<and> s \<noteq> BLOCKED_STALE_OPTION_CHAIN \<and> s \<noteq> BLOCKED_SESSION_CLOSED" for s
    by (cases s) simp_all
  ultimately show ?thesis
    by (simp add: monitor_blockers_def monitor_summary_of_def Let_def count_if_zero ball_conj_distrib)
qed

lemma monitor_warnings_zero: "ms_warning_count (monitor_summary_of xs) = 0 \<longleftrightarrow> (\<forall>s \<in> set xs. sn_warnings s = [])"
  by (simp add: monitor_summary_of_def Let_def)

text \<open>
  The monitor counts every snapshot once. The snapshots are the ready ones and those of the six
  blocked states; the share of the ready ones is between 0 and 1; the monitor is blocked
  exactly when a snapshot is not ready, and healthy exactly when there is one, all are ready
  and none carries a warning.
\<close>

theorem monitor_counts_snapshots:
  assumes "build_freshness_monitor limits rows = Inr r"
  shows "length (fm_snapshots r) = length rows \<and>
    (let s = fm_summary r
     in ms_snapshot_count s = ms_ready_count s + ms_stale_spot_count s + ms_missing_spot_count s + ms_fallback_source_count s +
          ms_missing_chain_count s + ms_stale_chain_count s + ms_closed_session_count s \<and>
        float_le (Fin 0) (ms_fresh_ratio s) \<and> float_le (ms_fresh_ratio s) (Fin 1)) \<and>
    (fm_status r = BLOCKED \<longleftrightarrow> (\<exists>s \<in> set (fm_snapshots r). sn_status s \<noteq> READY)) \<and>
    (fm_status r = HEALTHY \<longleftrightarrow> rows \<noteq> [] \<and> (\<forall>s \<in> set (fm_snapshots r). sn_status s = READY \<and> sn_warnings s = []))"
proof -
  let ?xs = "fm_snapshots r"
  have len: "length ?xs = length rows" and r: "fm_summary r = monitor_summary_of ?xs"
      "fm_status r = monitor_status_of (monitor_summary_of ?xs) (monitor_blockers (monitor_summary_of ?xs))"
    using assms map_result_length by (auto simp: build_freshness_monitor_def Let_def)
  have ratio: "float_le (Fin 0) (ms_fresh_ratio (monitor_summary_of ?xs)) \<and> float_le (ms_fresh_ratio (monitor_summary_of ?xs)) (Fin 1)"
    by (simp add: monitor_summary_of_def Let_def share_bounds)
  have counts: "let s = monitor_summary_of ?xs
      in ms_snapshot_count s = ms_ready_count s + ms_stale_spot_count s + ms_missing_spot_count s + ms_fallback_source_count s +
        ms_missing_chain_count s + ms_stale_chain_count s + ms_closed_session_count s"
    using status_counts [of ?xs] by (simp add: monitor_summary_of_def Let_def)
  have number: "ms_snapshot_count (monitor_summary_of ?xs) = length ?xs" by (simp add: monitor_summary_of_def Let_def)
  have status: "fm_status r = BLOCKED \<longleftrightarrow> (\<exists>s \<in> set ?xs. sn_status s \<noteq> READY)"
    "fm_status r = HEALTHY \<longleftrightarrow> ?xs \<noteq> [] \<and> (\<forall>s \<in> set ?xs. sn_status s = READY \<and> sn_warnings s = [])"
    unfolding r monitor_status_of_def number using monitor_blockers_clear [of ?xs] monitor_warnings_zero [of ?xs]
    by (auto simp del: set_empty)
  have "?xs \<noteq> [] \<longleftrightarrow> rows \<noteq> []" using len by auto
  with status counts ratio len show ?thesis unfolding r(1) Let_def by blast
qed

theorem monitor_counts_snapshots_witness:
  "\<exists>r. build_freshness_monitor default_snapshot_limits [SnapshotRow (PDict (demo_market_row (PInt 1))), SnapshotRow PNone] = Inr r \<and>
     fm_status r = BLOCKED \<and> ms_ready_count (fm_summary r) = 1 \<and> ms_missing_spot_count (fm_summary r) = 1"
proof -
  let ?run = "build_freshness_monitor default_snapshot_limits [SnapshotRow (PDict (demo_market_row (PInt 1))), SnapshotRow PNone]"
  have "case ?run of Inr r \<Rightarrow> ms_ready_count (fm_summary r) = 1 \<and> ms_missing_spot_count (fm_summary r) = 1 \<and>
      list_ex (\<lambda>s. sn_status s \<noteq> READY) (fm_snapshots r) | Inl _ \<Rightarrow> False" by code_simp
  then obtain r where r: "?run = Inr r" "ms_ready_count (fm_summary r) = 1" "ms_missing_spot_count (fm_summary r) = 1"
    "list_ex (\<lambda>s. sn_status s \<noteq> READY) (fm_snapshots r)" by (auto split: sum.splits)
  from monitor_counts_snapshots [OF r(1)] r show ?thesis by (auto simp: list_ex_iff)
qed

end
