(* ===== verification/Depth_Monitor.thy ===== *)
theory Depth_Monitor
  imports Market_Base
begin

text \<open>
  src/market_readiness/option_chain_depth_monitor.py: whether the order book of an option chain is
  deep, fresh and balanced enough.
\<close>

section \<open>Monitor\<close>

datatype depth_status =
    HEALTHY
  | DEGRADED
  | BLOCKED_MISSING_SIDE
  | BLOCKED_ZERO_SIDE
  | BLOCKED_SHALLOW_DEPTH
  | BLOCKED_STALE_DEPTH
  | BLOCKED_DEPTH_IMBALANCE
  | EMPTY

fun depth_value :: "depth_status \<Rightarrow> string" where
  "depth_value HEALTHY = ''HEALTHY''"
| "depth_value DEGRADED = ''DEGRADED''"
| "depth_value BLOCKED_MISSING_SIDE = ''BLOCKED_MISSING_SIDE''"
| "depth_value BLOCKED_ZERO_SIDE = ''BLOCKED_ZERO_SIDE''"
| "depth_value BLOCKED_SHALLOW_DEPTH = ''BLOCKED_SHALLOW_DEPTH''"
| "depth_value BLOCKED_STALE_DEPTH = ''BLOCKED_STALE_DEPTH''"
| "depth_value BLOCKED_DEPTH_IMBALANCE = ''BLOCKED_DEPTH_IMBALANCE''"
| "depth_value EMPTY = ''EMPTY''"

record depth_limits =
  dm_min_side_count :: int
  dm_min_total_depth :: pyfloat
  dm_max_depth_age :: pyfloat
  dm_max_imbalance :: pyfloat

definition default_depth_limits :: depth_limits where
  "default_depth_limits =
     \<lparr>dm_min_side_count = 1, dm_min_total_depth = Fin 100, dm_max_depth_age = Fin 5, dm_max_imbalance = Fin 3\<rparr>"

text \<open>What is read of a row.\<close>

record depth_reading =
  dr_ce_count :: "int option"
  dr_pe_count :: "int option"
  dr_ce_depth :: "pyfloat option"
  dr_pe_depth :: "pyfloat option"
  dr_age :: "pyfloat option"

definition read_depth_row :: "pydict \<Rightarrow> depth_reading result" where
  "read_depth_row row =
     bind_result (int_or_none (first_present row [''ce_count'', ''call_count'', ''option_ce_count''])) (\<lambda>ce_count.
     bind_result (int_or_none (first_present row [''pe_count'', ''put_count'', ''option_pe_count''])) (\<lambda>pe_count.
     bind_result (float_or_none (first_present row [''ce_depth'', ''call_depth'', ''option_ce_depth'', ''ce_total_depth''])) (\<lambda>ce_depth.
     bind_result (float_or_none (first_present row [''pe_depth'', ''put_depth'', ''option_pe_depth'', ''pe_total_depth''])) (\<lambda>pe_depth.
     bind_result (float_or_none (first_present row [''depth_age_sec'', ''option_chain_age_sec'', ''chain_age_sec'', ''market_depth_age_sec''])) (\<lambda>age.
       Inr \<lparr>dr_ce_count = ce_count, dr_pe_count = pe_count, dr_ce_depth = ce_depth, dr_pe_depth = pe_depth, dr_age = age\<rparr>)))))"

definition imbalance_ratio :: "pyfloat option \<Rightarrow> pyfloat option \<Rightarrow> pyfloat option result" where
  "imbalance_ratio ce_depth pe_depth =
     (case (ce_depth, pe_depth) of
        (Some ce, Some pe) \<Rightarrow>
          if float_le ce (Fin 0) \<or> float_le pe (Fin 0) then Inr None
          else bind_result (float_div (float_max ce pe) (float_min ce pe)) (\<lambda>x. Inr (Some x))
      | _ \<Rightarrow> Inr None)"

definition float_or_nil :: "pyfloat option \<Rightarrow> pyfloat" where
  "float_or_nil x = (case x of Some v \<Rightarrow> v | None \<Rightarrow> Fin 0)"

definition total_depth :: "depth_reading \<Rightarrow> pyfloat" where
  "total_depth m = float_add (float_or_nil (dr_ce_depth m)) (float_or_nil (dr_pe_depth m))"

definition not_positive :: "pyfloat option \<Rightarrow> bool" where
  "not_positive x = (case x of Some v \<Rightarrow> float_le v (Fin 0) | None \<Rightarrow> False)"

text \<open>The labels of the four groups; the counter of a group is the number of its labels.\<close>

definition missing_sides :: "depth_reading \<Rightarrow> string list" where
  "missing_sides m =
     add_if (dr_ce_count m = None) ''MISSING_CE_SIDE_COUNT'' @ add_if (dr_pe_count m = None) ''MISSING_PE_SIDE_COUNT''"

definition zero_sides :: "depth_reading \<Rightarrow> string list" where
  "zero_sides m =
     add_if (dr_ce_count m = Some 0) ''ZERO_CE_SIDE_COUNT'' @ add_if (dr_pe_count m = Some 0) ''ZERO_PE_SIDE_COUNT''"

definition shallow_depths :: "depth_limits \<Rightarrow> depth_reading \<Rightarrow> string list" where
  "shallow_depths limits m =
     (if dr_ce_depth m = None then [''MISSING_CE_DEPTH''] else add_if (not_positive (dr_ce_depth m)) ''ZERO_CE_DEPTH'') @
     (if dr_pe_depth m = None then [''MISSING_PE_DEPTH''] else add_if (not_positive (dr_pe_depth m)) ''ZERO_PE_DEPTH'') @
     add_if (float_lt (total_depth m) (dm_min_total_depth limits)) ''TOTAL_DEPTH_BELOW_MINIMUM''"

definition stale_depths :: "depth_limits \<Rightarrow> depth_reading \<Rightarrow> string list" where
  "stale_depths limits m =
     (if dr_age m = None then [''MISSING_DEPTH_AGE''] else add_if (beyond (dr_age m) (dm_max_depth_age limits)) ''STALE_OPTION_DEPTH'')"

definition imbalances :: "depth_limits \<Rightarrow> pyfloat option \<Rightarrow> string list" where
  "imbalances limits ratio = add_if (beyond ratio (dm_max_imbalance limits)) ''OPTION_DEPTH_IMBALANCE''"

definition depth_blockers :: "depth_limits \<Rightarrow> pydict \<Rightarrow> depth_reading \<Rightarrow> pyfloat option \<Rightarrow> string list" where
  "depth_blockers limits row m ratio =
     add_if (row = []) ''NO_OPTION_CHAIN_DEPTH_DATA'' @ missing_sides m @ zero_sides m @ shallow_depths limits m @
     stale_depths limits m @ imbalances limits ratio"

definition depth_status_of :: "depth_limits \<Rightarrow> pydict \<Rightarrow> depth_reading \<Rightarrow> pyfloat option \<Rightarrow> depth_status" where
  "depth_status_of limits row m ratio =
     (if ''NO_OPTION_CHAIN_DEPTH_DATA'' \<in> set (depth_blockers limits row m ratio) then EMPTY
      else if length (missing_sides m) \<noteq> 0 then BLOCKED_MISSING_SIDE
      else if length (zero_sides m) \<noteq> 0 then BLOCKED_ZERO_SIDE
      else if length (stale_depths limits m) \<noteq> 0 then BLOCKED_STALE_DEPTH
      else if length (shallow_depths limits m) \<noteq> 0 then BLOCKED_SHALLOW_DEPTH
      else if length (imbalances limits ratio) \<noteq> 0 then BLOCKED_DEPTH_IMBALANCE
      else if depth_blockers limits row m ratio \<noteq> [] then DEGRADED
      else HEALTHY)"

record depth_monitor =
  dq_status :: depth_status
  dq_summary :: pydict
  dq_side_quality :: pydict
  dq_blockers :: "string list"
  dq_warnings :: "string list"

definition depth_monitor_to_dict :: "depth_monitor \<Rightarrow> pydict" where
  "depth_monitor_to_dict r =
     [(''schema_version'', PStr ''1.0''),
      (''monitor_type'', PStr ''OPTION_CHAIN_DEPTH_QUALITY_MONITOR''),
      (''status'', PStr (depth_value (dq_status r))),
      (''read_only'', PBool True),
      (''is_order_action'', PBool False),
      (''summary'', PDict (dq_summary r)),
      (''side_quality'', PDict (dq_side_quality r)),
      (''blockers'', str_list (dq_blockers r)),
      (''warnings'', str_list (dq_warnings r))]"

definition depth_summary_keys :: "string list" where
  "depth_summary_keys =
     [''ce_count'', ''pe_count'', ''ce_depth'', ''pe_depth'', ''total_depth'', ''depth_age_sec'', ''min_side_count'',
      ''min_total_depth'', ''max_depth_age_sec'', ''max_imbalance_ratio'', ''imbalance_ratio'', ''missing_side_count'',
      ''zero_side_count'', ''shallow_depth_count'', ''stale_depth_count'', ''imbalance_count'', ''read_only'', ''is_order_action'']"

definition side_quality_keys :: "string list" where
  "side_quality_keys =
     [''ce_available'', ''pe_available'', ''ce_depth_ok'', ''pe_depth_ok'', ''depth_fresh'', ''imbalance_ok'']"

definition depth_schema_contract :: pydict where
  "depth_schema_contract =
     [(''schema_version'', PStr ''1.0''),
      (''monitor_type'', PStr ''OPTION_CHAIN_DEPTH_QUALITY_MONITOR''),
      (''required_keys'', str_list
         [''schema_version'', ''monitor_type'', ''status'', ''read_only'', ''is_order_action'', ''summary'', ''side_quality'',
          ''blockers'', ''warnings'']),
      (''summary_required_keys'', str_list depth_summary_keys),
      (''side_quality_required_keys'', str_list side_quality_keys),
      (''safe_flags'', PDict [(''read_only'', PBool True), (''is_order_action'', PBool False)]),
      (''default_thresholds'', PDict
         [(''min_side_count'', PInt 1), (''min_total_depth'', PFloat (Fin 100)), (''max_depth_age_sec'', PFloat (Fin 5)),
          (''max_imbalance_ratio'', PFloat (Fin 3))])]"

interpretation depth_report: market_report depth_monitor_to_dict depth_schema_contract
  by unfold_locales (simp_all add: depth_monitor_to_dict_def depth_schema_contract_def)

definition depth_summary :: "depth_limits \<Rightarrow> depth_reading \<Rightarrow> pyfloat option \<Rightarrow> pydict" where
  "depth_summary limits m ratio =
     [(''ce_count'', opt_int (dr_ce_count m)),
      (''pe_count'', opt_int (dr_pe_count m)),
      (''ce_depth'', opt_float (dr_ce_depth m)),
      (''pe_depth'', opt_float (dr_pe_depth m)),
      (''total_depth'', PFloat (total_depth m)),
      (''depth_age_sec'', opt_float (dr_age m)),
      (''min_side_count'', PInt (dm_min_side_count limits)),
      (''min_total_depth'', PFloat (dm_min_total_depth limits)),
      (''max_depth_age_sec'', PFloat (dm_max_depth_age limits)),
      (''max_imbalance_ratio'', PFloat (dm_max_imbalance limits)),
      (''imbalance_ratio'', opt_float ratio),
      (''missing_side_count'', PInt (int (length (missing_sides m)))),
      (''zero_side_count'', PInt (int (length (zero_sides m)))),
      (''shallow_depth_count'', PInt (int (length (shallow_depths limits m)))),
      (''stale_depth_count'', PInt (int (length (stale_depths limits m)))),
      (''imbalance_count'', PInt (int (length (imbalances limits ratio)))),
      (''read_only'', PBool True),
      (''is_order_action'', PBool False)]"

definition side_quality :: "depth_limits \<Rightarrow> depth_reading \<Rightarrow> pyfloat option \<Rightarrow> pydict" where
  "side_quality limits m ratio =
     (let available = (\<lambda>n. case n of Some k \<Rightarrow> dm_min_side_count limits \<le> k | None \<Rightarrow> False);
          depth_ok = (\<lambda>x. case x of Some v \<Rightarrow> float_lt (Fin 0) v | None \<Rightarrow> False);
          limited = (\<lambda>x limit. case x of Some v \<Rightarrow> float_le v limit | None \<Rightarrow> False)
      in [(''ce_available'', PBool (available (dr_ce_count m))),
          (''pe_available'', PBool (available (dr_pe_count m))),
          (''ce_depth_ok'', PBool (depth_ok (dr_ce_depth m))),
          (''pe_depth_ok'', PBool (depth_ok (dr_pe_depth m))),
          (''depth_fresh'', PBool (limited (dr_age m) (dm_max_depth_age limits))),
          (''imbalance_ok'', PBool (limited ratio (dm_max_imbalance limits)))])"

definition build_depth_monitor :: "depth_limits \<Rightarrow> pyval \<Rightarrow> depth_monitor result" where
  "build_depth_monitor limits arg =
     bind_result (read_depth_row (as_dict arg)) (\<lambda>m.
     bind_result (imbalance_ratio (dr_ce_depth m) (dr_pe_depth m)) (\<lambda>ratio.
       Inr \<lparr>dq_status = depth_status_of limits (as_dict arg) m ratio, dq_summary = depth_summary limits m ratio,
            dq_side_quality = side_quality limits m ratio, dq_blockers = dedupe (depth_blockers limits (as_dict arg) m ratio),
            dq_warnings = add_if (ratio = None) ''DEPTH_IMBALANCE_UNAVAILABLE''\<rparr>))"

section \<open>What a healthy book is\<close>

text \<open>The quotient is only taken of positive depths.\<close>

lemma imbalance_ratio_total: "\<exists>ratio. imbalance_ratio ce pe = Inr ratio"
proof -
  have "\<exists>x. float_div (float_max a b) (float_min a b) = Inr x" if "\<not> float_le a (Fin 0)" "\<not> float_le b (Fin 0)" for a b
    using that by (cases a; cases b) (auto simp: float_div_def float_max_def float_min_def float_le_def float_eq_def)
  then show ?thesis by (auto simp: imbalance_ratio_def split: option.splits)
qed

lemma ratio_known: "imbalance_ratio ce pe = Inr ratio \<Longrightarrow> ratio = None \<longleftrightarrow> ce = None \<or> pe = None \<or> not_positive ce \<or> not_positive pe"
  by (auto simp: imbalance_ratio_def not_positive_def split: option.splits if_splits)

lemma depth_labels:
  "list_all (\<lambda>l. \<not> blank l) [''NO_OPTION_CHAIN_DEPTH_DATA'', ''MISSING_CE_SIDE_COUNT'', ''MISSING_PE_SIDE_COUNT'', ''ZERO_CE_SIDE_COUNT'',
     ''ZERO_PE_SIDE_COUNT'', ''MISSING_CE_DEPTH'', ''ZERO_CE_DEPTH'', ''MISSING_PE_DEPTH'', ''ZERO_PE_DEPTH'',
     ''TOTAL_DEPTH_BELOW_MINIMUM'', ''MISSING_DEPTH_AGE'', ''STALE_OPTION_DEPTH'', ''OPTION_DEPTH_IMBALANCE'']"
  by code_simp

lemma depth_groups:
  "missing_sides m = [] \<longleftrightarrow> dr_ce_count m \<noteq> None \<and> dr_pe_count m \<noteq> None"
  "zero_sides m = [] \<longleftrightarrow> dr_ce_count m \<noteq> Some 0 \<and> dr_pe_count m \<noteq> Some 0"
  "shallow_depths limits m = [] \<longleftrightarrow>
     dr_ce_depth m \<noteq> None \<and> \<not> not_positive (dr_ce_depth m) \<and> dr_pe_depth m \<noteq> None \<and> \<not> not_positive (dr_pe_depth m) \<and>
     \<not> float_lt (total_depth m) (dm_min_total_depth limits)"
  "stale_depths limits m = [] \<longleftrightarrow> dr_age m \<noteq> None \<and> \<not> beyond (dr_age m) (dm_max_depth_age limits)"
  "imbalances limits ratio = [] \<longleftrightarrow> \<not> beyond ratio (dm_max_imbalance limits)"
  by (auto simp: missing_sides_def zero_sides_def shallow_depths_def stale_depths_def imbalances_def add_if_def)

lemma depth_blockers_clear:
  "list_all blank (depth_blockers limits row m ratio) \<longleftrightarrow> depth_blockers limits row m ratio = []"
  "''NO_OPTION_CHAIN_DEPTH_DATA'' \<in> set (depth_blockers limits row m ratio) \<longleftrightarrow> row = []"
  using depth_labels
  by (auto simp: depth_blockers_def missing_sides_def zero_sides_def shallow_depths_def stale_depths_def imbalances_def add_if_def)

lemma depth_status_healthy:
  "depth_status_of limits row m ratio = HEALTHY \<longleftrightarrow> depth_blockers limits row m ratio = []"
  "depth_status_of limits row m ratio \<noteq> DEGRADED"
  unfolding depth_status_of_def depth_blockers_clear(2)
  by (simp_all add: depth_blockers_def add_if_def)

text \<open>
  A book is healthy exactly when nothing is known against it: the row is not empty, both sides
  are counted and not zero, both depths are known, not nought or less, and together not below
  the minimum, the age is known and not beyond its limit, and the ratio of the depths, which
  is then known, is not beyond its own. There are blockers exactly when it is not healthy, and
  the state DEGRADED is never reached.
\<close>

theorem depth_healthy_iff:
  assumes "build_depth_monitor limits arg = Inr r" "read_depth_row (as_dict arg) = Inr m"
  shows "(dq_status r = HEALTHY \<longleftrightarrow>
      as_dict arg \<noteq> [] \<and> dr_ce_count m \<notin> {None, Some 0} \<and> dr_pe_count m \<notin> {None, Some 0} \<and>
      (\<exists>ce pe age ratio. dr_ce_depth m = Some ce \<and> \<not> float_le ce (Fin 0) \<and> dr_pe_depth m = Some pe \<and> \<not> float_le pe (Fin 0) \<and>
        \<not> float_lt (float_add ce pe) (dm_min_total_depth limits) \<and> dr_age m = Some age \<and> \<not> float_lt (dm_max_depth_age limits) age \<and>
        imbalance_ratio (Some ce) (Some pe) = Inr (Some ratio) \<and> \<not> float_lt (dm_max_imbalance limits) ratio)) \<and>
    (dq_blockers r = [] \<longleftrightarrow> dq_status r = HEALTHY) \<and> dq_status r \<noteq> DEGRADED"
proof -
  obtain ratio where ratio: "imbalance_ratio (dr_ce_depth m) (dr_pe_depth m) = Inr ratio" using imbalance_ratio_total by blast
  then have r: "dq_status r = depth_status_of limits (as_dict arg) m ratio"
    "dq_blockers r = dedupe (depth_blockers limits (as_dict arg) m ratio)"
    using assms by (auto simp: build_depth_monitor_def)
  have "depth_blockers limits (as_dict arg) m ratio = [] \<longleftrightarrow>
      as_dict arg \<noteq> [] \<and> missing_sides m = [] \<and> zero_sides m = [] \<and> shallow_depths limits m = [] \<and> stale_depths limits m = [] \<and>
      imbalances limits ratio = []" by (auto simp: depth_blockers_def add_if_def)
  then show ?thesis
    unfolding r dedupe_eq_Nil depth_blockers_clear(1) depth_status_healthy(1) depth_groups
    using ratio ratio_known [OF ratio] depth_status_healthy(2)
    by (auto simp: not_positive_def beyond_def total_depth_def float_or_nil_def split: option.splits)
qed

definition demo_depth_row :: pydict where
  "demo_depth_row =
     [(''ce_count'', PInt 2), (''pe_count'', PInt 2), (''ce_depth'', PInt 80), (''pe_depth'', PInt 80), (''depth_age_sec'', PInt 1)]"

theorem depth_healthy_iff_witness:
  "\<exists>r. build_depth_monitor default_depth_limits (PDict demo_depth_row) = Inr r \<and> dq_status r = HEALTHY \<and> dq_blockers r = []"
proof -
  let ?run = "build_depth_monitor default_depth_limits (PDict demo_depth_row)"
  have "case ?run of Inr r \<Rightarrow> dq_status r = HEALTHY | Inl _ \<Rightarrow> False"
    "case read_depth_row (as_dict (PDict demo_depth_row)) of Inr _ \<Rightarrow> True | Inl _ \<Rightarrow> False" by code_simp+
  then obtain r m where r: "?run = Inr r" "dq_status r = HEALTHY" "read_depth_row (as_dict (PDict demo_depth_row)) = Inr m"
    by (auto split: sum.splits)
  from depth_healthy_iff [OF r(1,3)] r show ?thesis by blast
qed

text \<open>
  The minimal number of strikes on a side blocks nothing: with fewer the side is reported as not
  available and the book as healthy.
\<close>

lemma few_strikes_are_healthy:
  "case build_depth_monitor (default_depth_limits\<lparr>dm_min_side_count := 5\<rparr>) (PDict demo_depth_row) of
     Inr r \<Rightarrow> dq_status r = HEALTHY \<and> dget (dq_side_quality r) ''ce_available'' = PBool False | Inl _ \<Rightarrow> False"
  by code_simp

end
