(* ===== verification/Py_Date.thy ===== *)
theory Py_Date
  imports Py_Value
begin

text \<open>
  \<open>datetime.date\<close> of Python 3.11: dates of the proleptic Gregorian calendar, their ordinals, and
  \<open>fromisoformat\<close>, which accepts calendar dates and ISO week dates, each with or without
  separators.
\<close>

section \<open>Dates and ordinals\<close>

record pydate =
  dt_year :: int
  dt_month :: int
  dt_day :: int

definition is_leap :: "int \<Rightarrow> bool" where
  "is_leap y \<longleftrightarrow> y mod 4 = 0 \<and> (y mod 100 \<noteq> 0 \<or> y mod 400 = 0)"

definition year_length :: "int \<Rightarrow> int" where
  "year_length y = (if is_leap y then 366 else 365)"

definition month_length :: "int \<Rightarrow> int \<Rightarrow> int" where
  "month_length y m = (if m = 2 then (if is_leap y then 29 else 28) else if m \<in> {4, 6, 9, 11} then 30 else 31)"

definition valid_date :: "pydate \<Rightarrow> bool" where
  "valid_date d \<longleftrightarrow>
     1 \<le> dt_year d \<and> dt_year d \<le> 9999 \<and> 1 \<le> dt_month d \<and> dt_month d \<le> 12 \<and> 1 \<le> dt_day d \<and>
     dt_day d \<le> month_length (dt_year d) (dt_month d)"

definition days_before_year :: "int \<Rightarrow> int" where
  "days_before_year y = (y - 1) * 365 + (y - 1) div 4 - (y - 1) div 100 + (y - 1) div 400"

definition days_before_month :: "int \<Rightarrow> int \<Rightarrow> int" where
  "days_before_month y m = sum_list (map (month_length y) [1 .. m - 1])"

definition day_of_year :: "pydate \<Rightarrow> int" where
  "day_of_year d = days_before_month (dt_year d) (dt_month d) + dt_day d"

definition ordinal :: "pydate \<Rightarrow> int" where
  "ordinal d = days_before_year (dt_year d) + day_of_year d"

text \<open>The year of an ordinal: counted in cycles of 400, 100, 4 and 1 years; then the month.\<close>

definition year_of_ordinal :: "int \<Rightarrow> int" where
  "year_of_ordinal n =
     (let a = n - 1; n400 = a div 146097; b = a mod 146097; n100 = b div 36524; c = b mod 36524; n4 = c div 1461;
          e = c mod 1461; n1 = e div 365; y = n400 * 400 + n100 * 100 + n4 * 4 + n1
      in if n1 = 4 \<or> n100 = 4 then y else y + 1)"

definition date_of_ordinal :: "int \<Rightarrow> pydate" where
  "date_of_ordinal n =
     (let y = year_of_ordinal n; k = n - days_before_year y;
          m = int (length (filter (\<lambda>m. days_before_month y m < k) [1 .. 12]))
      in \<lparr>dt_year = y, dt_month = m, dt_day = k - days_before_month y m\<rparr>)"

text \<open>\<open>date.isoformat()\<close>\<close>

definition padded :: "nat \<Rightarrow> int \<Rightarrow> string" where
  "padded n i = (let s = int_to_string i in replicate (n - length s) CHR ''0'' @ s)"

definition iso_text :: "pydate \<Rightarrow> string" where
  "iso_text d = padded 4 (dt_year d) @ ''-'' @ padded 2 (dt_month d) @ ''-'' @ padded 2 (dt_day d)"

section \<open>Reading a date\<close>

definition checked_date :: "int \<Rightarrow> int \<Rightarrow> int \<Rightarrow> pydate option" where
  "checked_date y m d = (let x = \<lparr>dt_year = y, dt_month = m, dt_day = d\<rparr> in if valid_date x then Some x else None)"

text \<open>The Monday of the first ISO week, the week with the first Thursday.\<close>

definition week1_monday :: "int \<Rightarrow> int" where
  "week1_monday y =
     (let first = days_before_year y + 1; weekday = (first + 6) mod 7
      in first - weekday + (if 3 < weekday then 7 else 0))"

definition week_date :: "int \<Rightarrow> int \<Rightarrow> int \<Rightarrow> pydate option" where
  "week_date y week day =
     (let weekday = (days_before_year y + 7) mod 7;
          long_year = (weekday = 3 \<or> (weekday = 2 \<and> is_leap y))
      in if y < 1 \<or> week < 1 \<or> 53 < week \<or> (week = 53 \<and> \<not> long_year) \<or> day < 1 \<or> 7 < day then None
         else
           (let x = date_of_ordinal (week1_monday y + (week - 1) * 7 + day - 1)
            in if valid_date x then Some x else None))"

definition digits :: "string \<Rightarrow> int option" where
  "digits s = (if s \<noteq> [] \<and> list_all is_digit s then Some (foldl (\<lambda>n c. n * 10 + digit_value c) 0 s) else None)"

definition digits3 :: "string \<Rightarrow> string \<Rightarrow> string \<Rightarrow> (int \<Rightarrow> int \<Rightarrow> int \<Rightarrow> pydate option) \<Rightarrow> pydate option" where
  "digits3 a b c f =
     (case (digits a, digits b, digits c) of (Some x, Some y, Some z) \<Rightarrow> f x y z | _ \<Rightarrow> None)"

definition part :: "string \<Rightarrow> nat \<Rightarrow> nat \<Rightarrow> string" where
  "part s i n = take n (drop i s)"

definition fromisoformat :: "string \<Rightarrow> pydate option" where
  "fromisoformat s =
     (let year = part s 0 4
      in if length s = 10 then
           (if s ! 4 = CHR ''-'' \<and> s ! 5 = CHR ''W'' \<and> s ! 8 = CHR ''-'' then digits3 year (part s 6 2) (part s 9 1) week_date
            else if s ! 4 = CHR ''-'' \<and> s ! 7 = CHR ''-'' then digits3 year (part s 5 2) (part s 8 2) checked_date
            else None)
         else if length s = 8 then
           (if s ! 4 = CHR ''-'' \<and> s ! 5 = CHR ''W'' then digits3 year (part s 6 2) ''1'' week_date
            else if s ! 4 = CHR ''W'' then digits3 year (part s 5 2) (part s 7 1) week_date
            else digits3 year (part s 4 2) (part s 6 2) checked_date)
         else if length s = 7 \<and> s ! 4 = CHR ''W'' then digits3 year (part s 5 2) ''1'' week_date
         else None)"

lemma fromisoformat_examples:
  "fromisoformat ''2026-05-18'' = Some \<lparr>dt_year = 2026, dt_month = 5, dt_day = 18\<rparr>"
  "fromisoformat ''2026-W21-1'' = Some \<lparr>dt_year = 2026, dt_month = 5, dt_day = 18\<rparr>"
  "fromisoformat ''20260518'' = Some \<lparr>dt_year = 2026, dt_month = 5, dt_day = 18\<rparr>"
  "fromisoformat ''2026-02-29'' = None"
  "ordinal \<lparr>dt_year = 2026, dt_month = 5, dt_day = 18\<rparr> = 739754"
  by code_simp+

lemma digits3_pred:
  "pred_option P (digits3 a b c f)" if "\<And>x y z. pred_option P (f x y z)"
  using that by (auto simp: digits3_def split: option.split)

lemma checked_valid: "pred_option valid_date (checked_date y m d)" "pred_option valid_date (week_date y w d)"
  by (simp_all add: checked_date_def week_date_def Let_def)

lemma pred_option_if: "pred_option P x \<Longrightarrow> pred_option P y \<Longrightarrow> pred_option P (if b then x else y)"
  by simp

lemma fromisoformat_valid: "fromisoformat s = Some d \<Longrightarrow> valid_date d"
proof -
  have "pred_option valid_date (fromisoformat s)"
    unfolding fromisoformat_def Let_def by (intro pred_option_if digits3_pred checked_valid) simp_all
  then show "fromisoformat s = Some d \<Longrightarrow> valid_date d" by simp
qed

section \<open>The order of dates\<close>

definition earlier :: "pydate \<Rightarrow> pydate \<Rightarrow> bool" where
  "earlier a b \<longleftrightarrow>
     dt_year a < dt_year b \<or> dt_year a = dt_year b \<and>
       (dt_month a < dt_month b \<or> dt_month a = dt_month b \<and> dt_day a < dt_day b)"

lemma div_step: "0 < k \<Longrightarrow> y div k = (y - 1) div k + (if k dvd y then 1 else 0)" for k y :: int
proof -
  assume k: "0 < k"
  have quotient: "n div k = q" if "n = k * q + r" "0 \<le> r" "r < k" for n q r
    using that by (intro int_div_pos_eq) simp_all
  show ?thesis
  proof (cases "k dvd y")
    case True
    then obtain c where y: "y = k * c" by blast
    have "(y - 1) div k = c - 1" by (rule quotient [where r = "k - 1"]) (use k y in \<open>simp_all add: right_diff_distrib\<close>)
    moreover have "y div k = c" using y k by simp
    ultimately show ?thesis using True by simp
  next
    case False
    have y: "y = k * (y div k) + y mod k" by simp
    have "0 < y mod k" using False k pos_mod_sign [of k y] by (simp add: dvd_eq_mod_eq_0 order_less_le)
    then have "(y - 1) div k = y div k"
      by (intro quotient [where r = "y mod k - 1"]) (use y k pos_mod_bound [OF k, of y] in linarith)+
    with False show ?thesis by simp
  qed
qed

lemma leap_count:
  "year_length y = 365 + (if 4 dvd y then 1 else 0) - (if 100 dvd y then 1 else 0) + (if 400 dvd y then 1 else 0)"
proof -
  have "(100 :: int) dvd 400" "(4 :: int) dvd 100" by simp_all
  then have dvd: "400 dvd y \<Longrightarrow> 100 dvd y" "100 dvd y \<Longrightarrow> 4 dvd y" by (blast intro: dvd_trans)+
  have count: "(if a \<and> (\<not> b \<or> c) then 366 else 365) = 365 + (if a then 1 else 0) - (if b then 1 else 0) + (if c then 1 else (0 :: int))"
    if "c \<Longrightarrow> b" "b \<Longrightarrow> a" for a b c using that by (cases a; cases b; cases c) simp_all
  show ?thesis
    unfolding year_length_def is_leap_def dvd_eq_mod_eq_0 by (rule count [OF dvd, unfolded dvd_eq_mod_eq_0])
qed

lemma days_before_next_year: "days_before_year (y + 1) = days_before_year y + year_length y"
proof -
  have sum: "y * 365 + a - b + c = (y - 1) * 365 + a' - b' + c' + (365 + p - q + r)"
    if "a = a' + p" "b = b' + q" "c = c' + r" for a b c a' b' c' p q r :: int
    unfolding that left_diff_distrib by simp
  show ?thesis
    unfolding leap_count days_before_year_def add_diff_cancel_right' by (rule sum) (rule div_step, simp)+
qed

lemma days_before_year_mono: "x < y \<Longrightarrow> days_before_year x + year_length x \<le> days_before_year y"
proof (induction "nat (y - x)" arbitrary: y)
  case (Suc n)
  show ?case
  proof (cases "y = x + 1")
    case True
    then show ?thesis by (simp add: days_before_next_year)
  next
    case False
    with Suc have "days_before_year x + year_length x \<le> days_before_year (y - 1)" by (intro Suc.hyps) auto
    moreover have "days_before_year y = days_before_year (y - 1) + year_length (y - 1)" using days_before_next_year [of "y - 1"] by simp
    moreover have "0 \<le> year_length (y - 1)" by (simp add: year_length_def)
    ultimately show ?thesis by linarith
  qed
qed simp

lemma days_before_month_step: "1 \<le> m \<Longrightarrow> days_before_month y (m + 1) = days_before_month y m + month_length y m"
  using upto_rec2 [of 1 m] by (simp add: days_before_month_def)

lemma days_before_month_mono:
  "1 \<le> m \<Longrightarrow> m < n \<Longrightarrow> days_before_month y m + month_length y m \<le> days_before_month y n"
proof (induction "nat (n - m)" arbitrary: n)
  case (Suc k)
  show ?case
  proof (cases "n = m + 1")
    case True
    then show ?thesis using Suc by (simp add: days_before_month_step)
  next
    case False
    with Suc have "days_before_month y m + month_length y m \<le> days_before_month y (n - 1)" by (intro Suc.hyps) auto
    moreover have "days_before_month y n = days_before_month y (n - 1) + month_length y (n - 1)"
      using days_before_month_step [of "n - 1" y] Suc.prems False by simp
    moreover have "0 \<le> month_length y (n - 1)" by (simp add: month_length_def)
    ultimately show ?thesis by linarith
  qed
qed simp

lemma day_of_year_bounds:
  assumes "valid_date d" shows "1 \<le> day_of_year d" "day_of_year d \<le> year_length (dt_year d)"
proof -
  have "days_before_month y 1 = 0" for y by (simp add: days_before_month_def)
  then have "0 \<le> days_before_month (dt_year d) (dt_month d)"
    using assms days_before_month_mono [of 1 "dt_month d" "dt_year d"]
    by (cases "dt_month d = 1") (auto simp: valid_date_def month_length_def)
  then show "1 \<le> day_of_year d" using assms by (simp add: valid_date_def day_of_year_def)
  have total: "days_before_month y 13 = year_length y" for y
    by (simp add: days_before_month_def upto.simps month_length_def year_length_def)
  show "day_of_year d \<le> year_length (dt_year d)"
    using assms days_before_month_mono [of "dt_month d" 13 "dt_year d"] total by (simp add: valid_date_def day_of_year_def)
qed

lemma earlier_ordinal: "valid_date a \<Longrightarrow> valid_date b \<Longrightarrow> earlier a b \<Longrightarrow> ordinal a < ordinal b"
proof -
  assume valid: "valid_date a" "valid_date b" and "earlier a b"
  then consider "dt_year a < dt_year b" | "dt_year a = dt_year b" "dt_month a < dt_month b"
    | "dt_year a = dt_year b" "dt_month a = dt_month b" "dt_day a < dt_day b" by (auto simp: earlier_def)
  then show "ordinal a < ordinal b"
  proof cases
    case 1
    then show ?thesis using days_before_year_mono [of "dt_year a" "dt_year b"] day_of_year_bounds valid by (fastforce simp: ordinal_def)
  next
    case 2
    then show ?thesis using days_before_month_mono [of "dt_month a" "dt_month b" "dt_year a"] valid
      by (auto simp: ordinal_def day_of_year_def valid_date_def)
  next
    case 3
    then show ?thesis by (simp add: ordinal_def day_of_year_def)
  qed
qed

text \<open>The ordinals of valid dates are in the order of the calendar.\<close>

lemma ordinal_less_iff: "valid_date a \<Longrightarrow> valid_date b \<Longrightarrow> ordinal a < ordinal b \<longleftrightarrow> earlier a b"
proof -
  assume valid: "valid_date a" "valid_date b"
  have "earlier a b \<or> earlier b a \<or> a = b" by (cases a; cases b) (auto simp: earlier_def)
  then show ?thesis using earlier_ordinal valid by fastforce
qed

end
