(* ===== verification/Session_Guard.thy ===== *)
theory Session_Guard
  imports Market_Base Py_Date
begin

text \<open>
  src/market_readiness/session_expiry_guard.py: whether the session of a row is open and the
  contract it names neither expired nor about to expire on the day of trading. The date of the
  clock is an argument.
\<close>

section \<open>Guard\<close>

datatype guard_status =
    READY
  | DEGRADED_NEAR_EXPIRY
  | BLOCKED_PRE_OPEN
  | BLOCKED_CLOSING
  | BLOCKED_CLOSED
  | BLOCKED_EXPIRED_CONTRACT
  | BLOCKED_INVALID_EXPIRY
  | BLOCKED_MISSING_CONTEXT

fun guard_value :: "guard_status \<Rightarrow> string" where
  "guard_value READY = ''READY''"
| "guard_value DEGRADED_NEAR_EXPIRY = ''DEGRADED_NEAR_EXPIRY''"
| "guard_value BLOCKED_PRE_OPEN = ''BLOCKED_PRE_OPEN''"
| "guard_value BLOCKED_CLOSING = ''BLOCKED_CLOSING''"
| "guard_value BLOCKED_CLOSED = ''BLOCKED_CLOSED''"
| "guard_value BLOCKED_EXPIRED_CONTRACT = ''BLOCKED_EXPIRED_CONTRACT''"
| "guard_value BLOCKED_INVALID_EXPIRY = ''BLOCKED_INVALID_EXPIRY''"
| "guard_value BLOCKED_MISSING_CONTEXT = ''BLOCKED_MISSING_CONTEXT''"

definition open_states :: "string list" where
  "open_states = [''OPEN'', ''LIVE'', ''REGULAR'']"

definition pre_open_states :: "string list" where
  "pre_open_states = [''PRE_OPEN'', ''PREOPEN'']"

definition closing_states :: "string list" where
  "closing_states = [''CLOSING'', ''CLOSE_AUCTION'']"

definition closed_states :: "string list" where
  "closed_states = [''CLOSED'', ''HOLIDAY'', ''POST_CLOSE'', ''POSTCLOSE'']"

definition expiry_types :: "string list" where
  "expiry_types = [''WEEKLY'', ''MONTHLY'', ''UNKNOWN'']"

record session_guard =
  sg_status :: guard_status
  sg_session_state :: "string option"
  sg_expiry :: "string option"
  sg_expiry_type :: string
  sg_trade_date :: string
  sg_days_to_expiry :: "int option"
  sg_session_open :: bool
  sg_expiry_valid :: bool
  sg_contract_expired :: bool
  sg_near_expiry :: bool
  sg_blockers :: "string list"
  sg_warnings :: "string list"

definition session_guard_to_dict :: "session_guard \<Rightarrow> pydict" where
  "session_guard_to_dict g =
     [(''schema_version'', PStr ''1.0''),
      (''guard_type'', PStr ''MARKET_SESSION_EXPIRY_CONTEXT_GUARD''),
      (''status'', PStr (guard_value (sg_status g))),
      (''read_only'', PBool True),
      (''is_order_action'', PBool False),
      (''session_state'', opt_str (sg_session_state g)),
      (''expiry'', opt_str (sg_expiry g)),
      (''expiry_type'', PStr (sg_expiry_type g)),
      (''trade_date'', PStr (sg_trade_date g)),
      (''days_to_expiry'', opt_int (sg_days_to_expiry g)),
      (''session_open'', PBool (sg_session_open g)),
      (''expiry_valid'', PBool (sg_expiry_valid g)),
      (''contract_expired'', PBool (sg_contract_expired g)),
      (''near_expiry'', PBool (sg_near_expiry g)),
      (''blockers'', str_list (sg_blockers g)),
      (''warnings'', str_list (sg_warnings g))]"

definition session_guard_contract :: pydict where
  "session_guard_contract =
     [(''schema_version'', PStr ''1.0''),
      (''guard_type'', PStr ''MARKET_SESSION_EXPIRY_CONTEXT_GUARD''),
      (''required_keys'', str_list
         [''schema_version'', ''guard_type'', ''status'', ''read_only'', ''is_order_action'', ''session_state'', ''expiry'',
          ''expiry_type'', ''trade_date'', ''days_to_expiry'', ''session_open'', ''expiry_valid'', ''contract_expired'',
          ''near_expiry'', ''blockers'', ''warnings'']),
      (''safe_flags'', PDict [(''read_only'', PBool True), (''is_order_action'', PBool False)]),
      (''open_session_states'', str_list [''LIVE'', ''OPEN'', ''REGULAR'']),
      (''supported_expiry_types'', str_list [''MONTHLY'', ''UNKNOWN'', ''WEEKLY'']),
      (''default_thresholds'', PDict [(''near_expiry_days'', PInt 1)])]"

interpretation guard_report: market_report session_guard_to_dict session_guard_contract
  by unfold_locales (simp_all add: session_guard_to_dict_def session_guard_contract_def)

text \<open>The argument \<open>today\<close>: absent, a date (or the date of a datetime), or a text.\<close>

datatype today_arg = TodayNone | TodayDate pydate | TodayText string

text \<open>\<open>_coerce_date\<close> of a value of a row, which holds no date object, and of the argument.\<close>

definition coerce_date :: "pyval \<Rightarrow> pydate option" where
  "coerce_date v = (if is_blank v then None else fromisoformat (take 10 (strip (py_str v))))"

fun coerce_today :: "today_arg \<Rightarrow> pydate option" where
  "coerce_today TodayNone = None"
| "coerce_today (TodayDate d) = Some d"
| "coerce_today (TodayText s) = coerce_date (PStr s)"

text \<open>The first of the argument, the row and the clock that gives a date.\<close>

definition trade_day :: "pydate \<Rightarrow> today_arg \<Rightarrow> pydict \<Rightarrow> pydate" where
  "trade_day now today row =
     (case coerce_today today of
        Some d \<Rightarrow> d
      | None \<Rightarrow> (case coerce_date (first_present row [''trade_date'', ''asof_date'', ''today'']) of Some d \<Rightarrow> d | None \<Rightarrow> now))"

definition session_state_of :: "pydict \<Rightarrow> string option" where
  "session_state_of row = optional_text (first_present row [''session_state'', ''market_session'', ''market_state''])"

definition session_key :: "pydict \<Rightarrow> string" where
  "session_key row = upper (case session_state_of row of Some t \<Rightarrow> t | None \<Rightarrow> [])"

definition expiry_text :: "pydict \<Rightarrow> string option" where
  "expiry_text row = optional_text (first_present row [''expiry'', ''expiry_date'', ''contract_expiry''])"

definition expiry_date :: "pydict \<Rightarrow> pydate option" where
  "expiry_date row = coerce_date (opt_str (expiry_text row))"

definition expiry_type_of :: "pydict \<Rightarrow> string" where
  "expiry_type_of row =
     (let v = first_present row [''expiry_type'', ''expiry_context'']; kind = upper (if truthy v then py_str v else ''UNKNOWN'')
      in if kind \<in> set expiry_types then kind else ''UNKNOWN'')"

definition session_blockers :: "pydict \<Rightarrow> string list" where
  "session_blockers row =
     (if session_state_of row \<in> {None, Some []} then [''MISSING_MARKET_SESSION_STATE'']
      else if session_key row \<in> set pre_open_states then [''MARKET_SESSION_PRE_OPEN'']
      else if session_key row \<in> set closing_states then [''MARKET_SESSION_CLOSING'']
      else if session_key row \<in> set closed_states then [''MARKET_SESSION_CLOSED'']
      else if session_key row \<notin> set open_states then [''UNKNOWN_MARKET_SESSION_STATE'']
      else [])"

definition expiry_blockers :: "pydict \<Rightarrow> string list" where
  "expiry_blockers row =
     (if expiry_text row \<in> {None, Some []} then [''MISSING_EXPIRY'']
      else if expiry_date row = None then [''INVALID_EXPIRY'']
      else [])"

definition days_to_expiry :: "pydate \<Rightarrow> pydict \<Rightarrow> int option" where
  "days_to_expiry day row = map_option (\<lambda>e. ordinal e - ordinal day) (expiry_date row)"

definition contract_expired :: "int option \<Rightarrow> bool" where
  "contract_expired days = (case days of Some n \<Rightarrow> n < 0 | None \<Rightarrow> False)"

definition near_expiry :: "int \<Rightarrow> int option \<Rightarrow> bool" where
  "near_expiry near days = (case days of Some n \<Rightarrow> 0 \<le> n \<and> n \<le> near | None \<Rightarrow> False)"

definition guard_status_of :: "string list \<Rightarrow> string list \<Rightarrow> guard_status" where
  "guard_status_of blockers warnings =
     (if ''MISSING_MARKET_SESSION_STATE'' \<in> set blockers \<or> ''MISSING_EXPIRY'' \<in> set blockers then BLOCKED_MISSING_CONTEXT
      else if ''MARKET_SESSION_PRE_OPEN'' \<in> set blockers then BLOCKED_PRE_OPEN
      else if ''MARKET_SESSION_CLOSING'' \<in> set blockers then BLOCKED_CLOSING
      else if ''MARKET_SESSION_CLOSED'' \<in> set blockers \<or> ''UNKNOWN_MARKET_SESSION_STATE'' \<in> set blockers then BLOCKED_CLOSED
      else if ''INVALID_EXPIRY'' \<in> set blockers then BLOCKED_INVALID_EXPIRY
      else if ''EXPIRED_CONTRACT'' \<in> set blockers then BLOCKED_EXPIRED_CONTRACT
      else if ''NEAR_EXPIRY_CONTRACT'' \<in> set warnings then DEGRADED_NEAR_EXPIRY
      else READY)"

definition build_session_guard :: "pydate \<Rightarrow> int \<Rightarrow> today_arg \<Rightarrow> pyval \<Rightarrow> session_guard" where
  "build_session_guard now near today arg =
     (let row = as_dict arg; day = trade_day now today row; days = days_to_expiry day row;
          blockers = session_blockers row @ expiry_blockers row @ add_if (contract_expired days) ''EXPIRED_CONTRACT'';
          warnings = add_if (near_expiry near days) ''NEAR_EXPIRY_CONTRACT'' @
            add_if (expiry_type_of row = ''UNKNOWN'') ''EXPIRY_TYPE_UNKNOWN''
      in \<lparr>sg_status = guard_status_of blockers warnings, sg_session_state = session_state_of row, sg_expiry = expiry_text row,
          sg_expiry_type = expiry_type_of row, sg_trade_date = iso_text day, sg_days_to_expiry = days,
          sg_session_open = (session_key row \<in> set open_states),
          sg_expiry_valid = (expiry_date row \<noteq> None \<and> \<not> contract_expired days), sg_contract_expired = contract_expired days,
          sg_near_expiry = near_expiry near days, sg_blockers = dedupe blockers, sg_warnings = dedupe warnings\<rparr>)"

section \<open>What the guard lets pass\<close>

lemma trade_day_valid:
  assumes "valid_date now" "\<forall>d. today = TodayDate d \<longrightarrow> valid_date d" shows "valid_date (trade_day now today row)"
proof -
  have "coerce_date v = Some d \<Longrightarrow> valid_date d" for v d by (auto simp: coerce_date_def intro: fromisoformat_valid split: if_splits)
  then show ?thesis using assms by (cases today) (auto simp: trade_day_def split: option.splits)
qed

lemma expiry_date_valid: "expiry_date row = Some e \<Longrightarrow> valid_date e"
  by (auto simp: expiry_date_def coerce_date_def intro: fromisoformat_valid split: if_splits)

text \<open>The two groups of blockers that the row alone decides.\<close>

lemma session_blockers_clear: "session_blockers row = [] \<longleftrightarrow> session_key row \<in> set open_states"
proof -
  have "session_state_of row \<in> {None, Some []} \<Longrightarrow> session_key row = []" by (auto simp: session_key_def upper_def)
  then show ?thesis
    by (auto simp: session_blockers_def open_states_def pre_open_states_def closing_states_def closed_states_def)
qed

lemma expiry_blockers_clear: "expiry_blockers row = [] \<longleftrightarrow> expiry_date row \<noteq> None"
  by (auto simp: expiry_blockers_def expiry_date_def coerce_date_def is_blank_def opt_str_def)

lemma guard_labels:
  "set (session_blockers row) \<subseteq> {''MISSING_MARKET_SESSION_STATE'', ''MARKET_SESSION_PRE_OPEN'', ''MARKET_SESSION_CLOSING'',
     ''MARKET_SESSION_CLOSED'', ''UNKNOWN_MARKET_SESSION_STATE''}"
  "set (expiry_blockers row) \<subseteq> {''MISSING_EXPIRY'', ''INVALID_EXPIRY''}"
  by (auto simp: session_blockers_def expiry_blockers_def)

lemma guard_status_ready:
  "guard_status_of (session_blockers row @ expiry_blockers row @ add_if expired ''EXPIRED_CONTRACT'')
     (add_if close ''NEAR_EXPIRY_CONTRACT'' @ add_if untyped ''EXPIRY_TYPE_UNKNOWN'') = READY \<longleftrightarrow>
   session_blockers row = [] \<and> expiry_blockers row = [] \<and> \<not> expired \<and> \<not> close"
  by (simp add: guard_status_of_def session_blockers_def expiry_blockers_def add_if_def)

text \<open>
  A row passes exactly when its session is open, its expiry is a date, the date is not before
  the day of trading in the calendar, and more than the given number of days ahead. The contract
  is reported as expired exactly when its expiry is a date before the day of trading.
\<close>

theorem session_ready_iff:
  assumes "valid_date now" "\<forall>d. today = TodayDate d \<longrightarrow> valid_date d"
  shows "(sg_status (build_session_guard now near today (PDict row)) = READY \<longleftrightarrow>
      session_key row \<in> set open_states \<and>
      (\<exists>e. expiry_date row = Some e \<and> \<not> earlier e (trade_day now today row) \<and>
        near < ordinal e - ordinal (trade_day now today row))) \<and>
    (sg_contract_expired (build_session_guard now near today (PDict row)) \<longleftrightarrow>
      (\<exists>e. expiry_date row = Some e \<and> earlier e (trade_day now today row)))"
proof -
  have order: "ordinal e < ordinal (trade_day now today row) \<longleftrightarrow> earlier e (trade_day now today row)" if "expiry_date row = Some e" for e
    using that assms trade_day_valid expiry_date_valid by (intro ordinal_less_iff) auto
  show ?thesis
    unfolding build_session_guard_def Let_def session_guard.simps as_dict.simps guard_status_ready session_blockers_clear
      expiry_blockers_clear
    by (cases "expiry_date row") (auto simp: days_to_expiry_def contract_expired_def near_expiry_def simp flip: order)
qed

definition demo_session_row :: pydict where
  "demo_session_row =
     [(''session_state'', PStr ''open''), (''expiry'', PStr ''2026-05-21''), (''expiry_type'', PStr ''weekly'')]"

theorem session_ready_iff_witness:
  "sg_status (build_session_guard \<lparr>dt_year = 2026, dt_month = 5, dt_day = 18\<rparr> 1 TodayNone (PDict demo_session_row)) = READY"
proof -
  let ?now = "\<lparr>dt_year = 2026, dt_month = 5, dt_day = 18\<rparr>"
  have "valid_date ?now" by code_simp
  moreover have "session_key demo_session_row \<in> set open_states"
    "expiry_date demo_session_row = Some \<lparr>dt_year = 2026, dt_month = 5, dt_day = 21\<rparr>"
    "\<not> earlier \<lparr>dt_year = 2026, dt_month = 5, dt_day = 21\<rparr> ?now"
    "1 < ordinal \<lparr>dt_year = 2026, dt_month = 5, dt_day = 21\<rparr> - ordinal ?now"
    "trade_day ?now TodayNone demo_session_row = ?now" by code_simp+
  ultimately show ?thesis using session_ready_iff [of ?now TodayNone 1 demo_session_row] by simp
qed

text \<open>
  An ISO week date is read too, and a date with a time after it by its first ten characters only.
\<close>

lemma expiry_readings:
  "expiry_date [(''expiry'', PStr ''2026-W21-4'')] = Some \<lparr>dt_year = 2026, dt_month = 5, dt_day = 21\<rparr>"
  "expiry_date [(''expiry'', PStr ''2026-05-21T15:30:00'')] = Some \<lparr>dt_year = 2026, dt_month = 5, dt_day = 21\<rparr>"
  "expiry_date [(''expiry'', PStr ''21-05-2026'')] = None"
  by code_simp+

end
