(* ===== verification/Spec2Isabelle.thy ===== *)
theory Spec2Isabelle
  imports Order_States Breakers Execution_Safety Top_Selector Paper_Lifecycle Paper_Ordering Paper_Position Paper_Fill
    Paper_Realized Paper_Reducer Paper_Mtm Paper_Slippage Paper_Rebuild Decision_Chain
    Paper_Pipeline_Run Paper_Broker Fill_Lifecycle Outcome_Replay Opportunity_Layer
    Paper_Reconciliation Paper_Performance Paper_Session Paper_Replay_Set
    Resolution_Health Quote_Readiness Live_Snapshot Depth_Monitor Session_Guard
begin

text \<open>
  A verification development for algotradify, a trading system in Python: its order and execution
  core, from the evidence about a candidate trade to the paper order book and its evidence.

  \<^bold>\<open>The program.\<close> Candidates are normalized (src/candidate_truth), filtered and ranked
  (src/opportunity_layer), matched with a broker's instrument (src/broker_contract), checked against
  quotes, depth and session (src/market_readiness), scored (src/trade_quality) and selected
  (src/top_selector). A readiness contract (src/execution_readiness) and a safety gate (src/execution_safety) decide whether an
  execution is permitted; circuit breakers (src/core/breakers) block new approvals. A permitted
  candidate becomes an intent (src/order_intent, src/paper_trading/intent_bridge.py), which goes
  to the paper broker (src/paper_broker), to a dry run behind an operator's approval
  (src/approval_audit, src/dry_run_execution, src/outcome_replay) or through the paper trading
  pipeline (src/paper_trading). The pipeline gives the order a lifecycle, simulates its fill, wraps
  the steps as events, checks their order and reduces them to a state. Ledgers of positions,
  realized profit, marks and slippage account for the fills. Events are journalled, rebuilt and
  reconciled; evidence is persisted, marked by session boundaries, exported as a bundle and
  turned into a replay dataset. Real orders are kept in a SQLite state machine (src/core/orders).
  Dicts of type \<open>dict[str, Any]\<close> are the interface of nearly all of these modules.

  \<^bold>\<open>The language.\<close>
  \<^item> Py_Base: exceptions as a sum type, loops that may raise (\<open>map_result\<close>, \<open>fold_result\<close>), ASCII
    strings with \<open>strip\<close>, \<open>upper\<close>, \<open>lower\<close>, the \<open>_dedupe\<close> of the modules, integer texts.
  \<^item> Py_Float, Py_Float_Order: binary64 with round half to even as exact rationals, infinities
    and NaN; \<open>round(x, n)\<close>; rounding is monotone, which the bounds of the scores rest on.
  \<^item> Py_Value: the JSON-like values with \<open>get\<close>, truth, \<open>str\<close>, \<open>int\<close>, \<open>float\<close> and their exceptions.
  \<^item> Py_Compare: \<open>==\<close> on these values and substrings. Py_Date: \<open>datetime.date\<close> of Python 3.11, its
    ordinals in the order of the calendar, \<open>fromisoformat\<close> with week dates.
  \<^item> Py_Sha256, Py_Sha256_Eval: SHA-256 on \<open>32 word\<close>, executable, with the FIPS test vector.

  \<^bold>\<open>The interfaces\<close> are locales, each interpreted on the code's model by the component that provides it:
  \<^item> Machines: \<open>lifecycle_machine\<close> (a transition table with terminal states and a rank; Order_States,
    Paper_Lifecycle), \<open>stored_machine\<close>, which extends it by a table of states and its events
    (Order_States), \<open>driven_component\<close> (an invariant kept along a list of inputs; Breakers,
    Paper_Realized), \<open>refined_component\<close> (a fallible step that refines an abstract one;
    Paper_Position, Paper_Reducer, Paper_Slippage), \<open>list_checker\<close> (a pass that collects the
    blockers of a list; Paper_Reducer).
  \<^item> Paper_Base: \<open>paper_report\<close> (an exported record has the keys of its contract and the safe flags),
    interpreted for every record and result that src/paper_trading exports.
  \<^item> Market_Base: \<open>market_report\<close> (an exported record has exactly the keys, version and safe flags of its
    contract), interpreted for the five panels of src/broker_contract and src/market_readiness.
  \<^item> Paper_Broker: \<open>inert_intent\<close> (what the paper broker relies on of an intent's exporter),
    interpreted on the intent contract of Order_Intent.

  \<^bold>\<open>The decision.\<close>
  \<^item> Candidate_Truth (candidate_truth/layer.py), Opportunity_Layer (opportunity_layer/pipeline.py):
    the selected opportunity has the best score among the surviving ones; every candidate ends
    in exactly one of the lists.
  \<^item> Broker_Contract (broker_contract/resolver.py, readiness.py), Resolution_Health
    (instrument_resolution_health.py): the exact contract or the nearest allowed strike is found, and
    never another; a ready candidate's token is one of the list; when a panel is healthy.
  \<^item> Market_Base, Quote_Readiness (market_readiness/quote_liquidity.py), Live_Snapshot (live_snapshot.py,
    quote_freshness_monitor.py), Depth_Monitor (option_chain_depth_monitor.py), Session_Guard
    (session_expiry_guard.py): the exact conditions of each readiness; the counters of the monitor
    partition its snapshots; expiry is the order of the calendar.
  \<^item> Trade_Quality (trade_quality/scoring.py), Top_Selector (top_selector/selector.py): the score
    stays in its bounds, the selector picks an eligible row of the greatest score.
  \<^item> Execution_Readiness (execution_readiness/contract.py), Execution_Safety
    (execution_safety/contract.py): the exact conditions of a permission, and of a live broker call;
    when the readiness contract raises.
  \<^item> Breakers (core/breakers/breaker.py): what an observation does to the window and the trip.
  \<^item> Decision_Chain: the intent of the chain is for the best scored candidate.

  \<^bold>\<open>The orders.\<close>
  \<^item> Order_States (core/orders/state_machine.py): the tables as lists of rows in rowid order, each
    write method a function on the database. Every reachable database has lawful states and a
    complete audit trail, terminal orders stay, an order takes a bounded number of transitions,
    the creation is idempotent under its key, and stored rows can be read.
  \<^item> Order_Intent (order_intent/contract.py), Paper_Broker (paper_broker/adapter.py), Gate_Base
    (the readers that these packages share): a contract intent is accepted on paper only.
  \<^item> Event_History (shared), Fill_Lifecycle (fill_lifecycle/lifecycle.py), Approval_Audit
    (approval_audit/audit.py, creation.py), Dry_Run (dry_run_execution/adapter.py), Outcome_Replay
    (outcome_replay/replay.py, query.py): a created approval is found by the audit and opens the
    dry run until it expires; a dry run is replayed; the fill state does not depend on the order
    of the records.

  \<^bold>\<open>Paper trading\<close> (src/paper_trading, a theory per module).
  \<^item> Paper_Lifecycle (lifecycle.py), Paper_Events (events.py), Paper_Ordering (event_ordering.py): when a
    lifecycle event is created; an order's history is lawful; the guard accepts exactly the
    well-ordered lists.
  \<^item> Paper_Fill (fill_simulation.py), Paper_Position (position_ledger.py), Paper_Realized
    (realized_pnl.py), Paper_Mtm (mtm_pnl.py), Paper_Slippage (slippage.py): a simulated fill respects
    quantity and limit; the ledger refines a book of fills and net quantities; profit, marks and
    slippage as arithmetic over that book, each unit once. The root theory composes the fill
    simulation with the ledger.
  \<^item> Paper_Reducer (state_reducer.py), Paper_Journal (event_journal.py), Paper_Rebuild (rebuild.py),
    Paper_Reconciliation (reconciliation.py), Paper_Performance (performance_snapshot.py): the state
    keeps the last event of each order and position; appended events are loaded again; a journal
    rebuilds exactly when it is ordered and readable; the drifts of a reconciliation are the
    differences of the two states; a snapshot shows the book.
  \<^item> Paper_Intent (intent_bridge.py), Paper_Pipeline, Paper_Pipeline_Live, Paper_Pipeline_Run
    (pipeline.py; Paper_Demo_Ids evaluates the digests of the example run): when an intent is
    created; what a run keeps whatever it is given; a run on safe inputs completes.
  \<^item> Paper_Payload (the walk over nested payloads and the canonical JSON text, shared), Paper_Evidence
    (persistence.py), Paper_Session (session_boundary.py), Paper_Export (export_bundle.py),
    Paper_Replay_Set (replay_dataset.py): written evidence reloads with its digest intact; a session
    boundary only appends; a valid bundle's files are intact; a build of a bundle never
    succeeds without a hash collision; a replay dataset is its bundle's evidence, record for record.

  \<^bold>\<open>State and termination.\<close> A dict is an association list in insertion order; \<open>dget\<close> reads the first
  entry and \<open>dset\<close> keeps the place of a key, as in Python. A class with mutable state is a record
  and a method returns it updated; a SQLite transaction is one atomic step. A function that may raise
  returns a sum. No function uses fuel: the recursions are structural or have a measure (the
  walk over a payload, the size of the value), and \<open>order_comes_to_rest\<close> bounds the transitions
  of an order by the rank of its state.

  \<^bold>\<open>Limits of the model.\<close> Strings are ASCII, dict keys are strings. The order of floats in sorts is
  total with NaN above every number, which is Python's order on lists without NaN. \<open>sum\<close> is the left
  fold of Python 3.11. There is one zero, and integers are not bounded where the code takes Python
  integers. Two NaN are two objects, so \<open>==\<close> on them is false. A JSON line or file is the value that
  \<open>json.loads\<close> makes of it; the texts are modelled where their digest or length matters. Failures of the
  file system, directories and the normalization of \<open>Path\<close> are left out. Clocks, resolved paths
  and random ids are arguments.

  \<^bold>\<open>Not modelled.\<close> src/strategies, src/core/market_data.py, the depth socket, the orchestrator, the review
  queue and the rest of src/core: live effects on brokers, sockets, threads and many stores, with
  scoring heuristics over global configuration; src/config: constants from the environment;
  src/dashboard, src/api and the frontend: Streamlit, FastAPI and TypeScript front ends; src/rl, src/ml,
  src/models: training over numpy, pandas and torch; src/agent_system: governance of code
  changes, outside the trading path; src/movement_engine: scoring heuristics;
  src/scripts: process and file I/O.
  src/paper_trading/scenarios.py, fixtures that call the modelled modules, is left out.
\<close>

section \<open>From the fill simulation to the position ledger\<close>

lemma simulated_event_usable:
  assumes "fill_sound q r e"
  shows "event_usable (lifecycle_event_to_dict e)"
    "upper_text (dget (lifecycle_event_to_dict e) ''status'') \<in> set position_fill_statuses"
proof -
  have "0 < le_filled_quantity e" using assms by (auto simp: fill_sound_def)
  moreover have "py_str (dget (lifecycle_event_to_dict e) ''paper_order_id'') \<noteq> []"
    using assms by (simp add: fill_sound_def stable_paper_order_id_def)
  ultimately show "event_usable (lifecycle_event_to_dict e)"
    using lifecycle_event_report.flags [of e] lifecycle_event_report.not_empty [of e]
    by (simp add: event_usable_def lifecycle_event_to_dict_def)
  have "le_status e = paper_status.FILLED \<or> le_status e = paper_status.PARTIALLY_FILLED" using assms by (auto simp: fill_sound_def)
  then show "upper_text (dget (lifecycle_event_to_dict e) ''status'') \<in> set position_fill_statuses"
    by (auto simp: position_fill_statuses_def)
qed

lemma simulated_intent_usable:
  assumes "fill_sound q r e" shows "intent_usable (as_dict (fr_intent q))"
  using assms by (auto simp: fill_sound_def order_fillable_def intent_usable_def price_respects_def)

definition buys :: "fill_request \<Rightarrow> bool" where
  "buys q \<longleftrightarrow> upper_text (dget (as_dict (fr_intent q)) ''transaction_type'') = ''BUY''"

lemma simulated_fill_of:
  assumes "fill_sound q r e"
  shows "input_usable \<lparr>li_intent = fr_intent q, li_event = PDict (lifecycle_event_to_dict e), li_ts_epoch = ts\<rparr>"
    "fill_of \<lparr>li_intent = fr_intent q, li_event = PDict (lifecycle_event_to_dict e), li_ts_epoch = ts\<rparr> =
    Some \<lparr>of_order = le_paper_order_id e, of_position = position_key (as_dict (fr_intent q)), of_buy = buys q,
      of_quantity = si_cumulative_filled_quantity r\<rparr>"
proof -
  show u: "input_usable \<lparr>li_intent = fr_intent q, li_event = PDict (lifecycle_event_to_dict e), li_ts_epoch = ts\<rparr>"
    using simulated_intent_usable [OF assms] simulated_event_usable(1) [OF assms] assms
    by (simp add: input_usable_def lifecycle_event_to_dict_def fill_sound_def)
  have "le_filled_quantity e = si_cumulative_filled_quantity r" using assms by (simp add: fill_sound_def)
  with u show "fill_of \<lparr>li_intent = fr_intent q, li_event = PDict (lifecycle_event_to_dict e), li_ts_epoch = ts\<rparr> =
    Some \<lparr>of_order = le_paper_order_id e, of_position = position_key (as_dict (fr_intent q)), of_buy = buys q,
      of_quantity = si_cumulative_filled_quantity r\<rparr>"
    using simulated_event_usable(2) [OF assms] by (simp add: fill_of_def buys_def Let_def)
qed

lemma positive_fill_sound:
  assumes "simulate_paper_fill q = Inr r" "0 < si_fill_quantity r"
  obtains e where "fill_sound q r e"
  using assms by (cases rule: simulation_cases) auto

text \<open>
  C15. The two modules agree: when the fill simulation fills a positive quantity and the ledger
  has recorded what the order had filled before, the ledger accepts the intent and the
  lifecycle event of the simulation, books exactly the simulated quantity, and moves the net
  quantity of the position by it, up for a buy and down for a sale.
\<close>

theorem simulated_fill_reaches_ledger:
  assumes sim: "simulate_paper_fill q = Inr r" "0 < si_fill_quantity r" "si_lifecycle_event r = Some d"
    and ledger: "ledger_good v"
      "bk_fills (book_of v) (py_str (dget d ''paper_order_id'')) = si_cumulative_filled_quantity r - si_fill_quantity r"
    and built: "build_position_ledger \<lparr>li_intent = fr_intent q, li_event = PDict d, li_ts_epoch = ts\<rparr> v = Inr p"
  shows "po_updated p \<and> po_delta_quantity p = si_fill_quantity r \<and>
    bk_fills (book_of (PDict (po_ledger p))) (py_str (dget d ''paper_order_id'')) = si_cumulative_filled_quantity r \<and>
    bk_nets (book_of (PDict (po_ledger p))) (position_key (as_dict (fr_intent q))) =
      bk_nets (book_of v) (position_key (as_dict (fr_intent q))) + signed_qty (buys q) (si_fill_quantity r)"
proof -
  obtain e where e: "fill_sound q r e" using sim(1,2) by (rule positive_fill_sound)
  then have d: "d = lifecycle_event_to_dict e" using sim(3) by (simp add: fill_sound_def)
  then have "py_str (dget d ''paper_order_id'') = le_paper_order_id e" by (simp add: lifecycle_event_to_dict_def)
  then show ?thesis
    using build_position_outcome [OF ledger(1) built] sim(2) ledger(2) simulated_fill_of(2) [OF e] d
    by (simp add: ledger_outcome_def applicable_def apply_fill_def)
qed

theorem simulated_fill_reaches_ledger_witness:
  "\<exists>r d p. simulate_paper_fill (demo_sim demo_open_event (demo_quote PNone)) = Inr r \<and> si_lifecycle_event r = Some d \<and>
     build_position_ledger \<lparr>li_intent = PDict demo_sim_intent, li_event = PDict d, li_ts_epoch = PFloat (Fin 1)\<rparr> PNone = Inr p \<and>
     po_delta_quantity p = 20"
proof -
  let ?q = "demo_sim demo_open_event (demo_quote PNone)"
  let ?in = "\<lambda>d. \<lparr>li_intent = fr_intent ?q, li_event = PDict d, li_ts_epoch = PFloat (Fin 1)\<rparr>"
  obtain r where r: "simulate_paper_fill ?q = Inr r" "si_fill_quantity r = 20" "si_cumulative_filled_quantity r = 20"
    using demo_sim_filled by blast
  then obtain e where e: "fill_sound ?q r e" using positive_fill_sound [of ?q r] by auto
  have price: "float_or_none (dget (as_dict (li_event (?in (lifecycle_event_to_dict e)))) ''average_fill_price'') =
      Inr (le_average_fill_price e)"
    by (simp add: lifecycle_event_to_dict_def)
  obtain p where p: "build_position_ledger (?in (lifecycle_event_to_dict e)) PNone = Inr p"
    using first_fill_total [OF simulated_fill_of(1) [OF e] _ price] simulated_event_usable(2) [OF e] by auto
  have d: "si_lifecycle_event r = Some (lifecycle_event_to_dict e)" using e by (simp add: fill_sound_def)
  have "po_delta_quantity p = 20"
    using simulated_fill_reaches_ledger [OF r(1) _ d ledger_good_start _ p] r(2,3) by (simp add: book_of_start)
  with r(1) d p show ?thesis by (auto simp: demo_sim_def)
qed

end
